(* ===== verification/Prelude.thy ===== *)
theory Prelude
  imports Main "HOL-Library.AList" "HOL-Library.Multiset" "HOL-Library.List_Lexorder" "HOL-Library.Char_ord"
begin

text \<open>
  The pieces of JavaScript that every module under \<open>server/domain\<close> uses, and the lemmas that
  carry the component proofs.

  \<^item> Text: a string is a list of characters with code below 256. \<open>js_text\<close> is the helper
    \<open>text\<close> (\<open>String(value ?? "").trim()\<close>) that the modules repeat, \<open>js_lower\<close> is
    \<open>toLowerCase\<close>. A nullable text column is a \<open>string option\<close>.
  \<^item> \<open>Map\<close>: an association list in insertion order. \<open>AList.update\<close> keeps the place of a key
    that is there and appends a new one, as \<open>Map.prototype.set\<close> does. \<open>add_at k q m\<close> is the
    accumulation \<open>m.set(k, (m.get(k) || ZERO) + q)\<close>.
  \<^item> \<open>Array.prototype.sort\<close>: a stable insertion sort by a comparison \<open>le\<close>.
    \<open>localeCompare\<close> depends on the locale of the process, so it is a parameter of every
    definition that sorts with it.
  \<^item> A blocking issue is its code and its HTTP status; a plan is allowed when it has none.
    The English message of an issue is not modelled.
\<close>

named_theorems js_simps \<open>how the JavaScript helpers compute\<close>
named_theorems plan_defs \<open>the definitions that make up a plan\<close>

section \<open>Text\<close>

definition js_space :: "char \<Rightarrow> bool" where
  "js_space c \<longleftrightarrow> (of_char c :: nat) \<in> {9, 10, 11, 12, 13, 32, 160}"

definition js_trim :: "string \<Rightarrow> string" where
  "js_trim s = rev (dropWhile js_space (rev (dropWhile js_space s)))"

definition js_text :: "string option \<Rightarrow> string" where
  "js_text v = (case v of None \<Rightarrow> [] | Some s \<Rightarrow> js_trim s)"

definition lower_char :: "char \<Rightarrow> char" where
  "lower_char c =
     (let n = (of_char c :: nat)
      in if 65 \<le> n \<and> n \<le> 90 \<or> 192 \<le> n \<and> n \<le> 222 \<and> n \<noteq> 215 then char_of (n + 32) else c)"

definition js_lower :: "string \<Rightarrow> string" where
  "js_lower s = map lower_char s"

text \<open>
  \<open>toUpperCase\<close> on Latin-1: sharp s becomes two letters. Micro sign and y with diaeresis, whose upper
  cases are not in Latin-1, are left as they are; neither form is a letter of a currency code.
\<close>

definition upper_char :: "char \<Rightarrow> string" where
  "upper_char c =
     (let n = (of_char c :: nat)
      in if 97 \<le> n \<and> n \<le> 122 \<or> 224 \<le> n \<and> n \<le> 254 \<and> n \<noteq> 247 then [char_of (n - 32)]
         else if n = 223 then ''SS'' else [c])"

definition js_upper :: "string \<Rightarrow> string" where
  "js_upper s = concat (map upper_char s)"

text \<open>\<open>/^[A-Z]{3}$/.test(c)\<close>\<close>

definition currency_code :: "string \<Rightarrow> bool" where
  "currency_code c \<longleftrightarrow> length c = 3 \<and> list_all (\<lambda>x. 65 \<le> (of_char x :: nat) \<and> (of_char x :: nat) \<le> 90) c"

lemma js_text_None [simp]: "js_text None = []"
  by (simp add: js_text_def)

lemma js_trim_id:
  assumes "s \<noteq> []" "\<not> js_space (hd s)" "\<not> js_space (last s)"
  shows "js_trim s = s"
proof -
  from assms have "dropWhile js_space s = s" by (cases s) auto
  moreover from assms have "dropWhile js_space (rev s) = rev s"
    by (cases s rule: rev_cases) auto
  ultimately show ?thesis by (simp add: js_trim_def)
qed

lemma js_trim_Nil [simp]: "js_trim [] = []"
  by (simp add: js_trim_def)

lemma dropWhile_rev_hd: "\<not> P (hd s) \<Longrightarrow> s \<noteq> [] \<Longrightarrow> dropWhile P (rev s) \<noteq> [] \<and> last (dropWhile P (rev s)) = hd s"
proof (induction s rule: rev_induct)
  case (snoc x xs)
  then show ?case by (cases xs) auto
qed simp

lemma js_trim_ends:
  assumes "js_trim s \<noteq> []"
  shows "\<not> js_space (hd (js_trim s)) \<and> \<not> js_space (last (js_trim s))"
proof -
  let ?d = "dropWhile js_space s"
  have d: "?d \<noteq> []"
  proof
    assume "?d = []"
    then have "js_trim s = []" unfolding js_trim_def by (simp only: rev.simps dropWhile.simps)
    with assms show False by contradiction
  qed
  then have h: "\<not> js_space (hd ?d)" by (rule hd_dropWhile)
  have r: "dropWhile js_space (rev ?d) \<noteq> []" using assms unfolding js_trim_def by simp
  have "hd (js_trim s) = last (dropWhile js_space (rev ?d))"
    using r by (simp add: js_trim_def hd_rev)
  also have "\<dots> = hd ?d" using dropWhile_rev_hd [of js_space ?d] h d by simp
  finally have "\<not> js_space (hd (js_trim s))" using h by simp
  moreover have "last (js_trim s) = hd (dropWhile js_space (rev ?d))"
    using r by (simp add: js_trim_def last_rev)
  moreover have "\<not> js_space (hd (dropWhile js_space (rev ?d)))" using r by (rule hd_dropWhile)
  ultimately show ?thesis by simp
qed

lemma js_trim_idem [simp]: "js_trim (js_trim s) = js_trim s"
proof (cases "js_trim s = []")
  case False
  then show ?thesis using js_trim_ends [OF False] by (intro js_trim_id) auto
qed simp

lemma js_text_trim [simp]: "js_text (Some (js_text v)) = js_text v"
  by (cases v) (simp_all add: js_text_def)

section \<open>Maps in insertion order\<close>

definition get0 :: "('k \<times> int) list \<Rightarrow> 'k \<Rightarrow> int" where
  "get0 m k = (case map_of m k of None \<Rightarrow> 0 | Some v \<Rightarrow> v)"

definition add_at :: "'k \<Rightarrow> int \<Rightarrow> ('k \<times> int) list \<Rightarrow> ('k \<times> int) list" where
  "add_at k q m = AList.update k (get0 m k + q) m"

text \<open>A loop that adds \<open>qty x\<close> at \<open>key x\<close> for each \<open>x\<close> of a list.\<close>

definition add_all :: "('a \<Rightarrow> 'k) \<Rightarrow> ('a \<Rightarrow> int) \<Rightarrow> 'a list \<Rightarrow> ('k \<times> int) list \<Rightarrow> ('k \<times> int) list" where
  "add_all key qty xs m = fold (\<lambda>x. add_at (key x) (qty x)) xs m"

lemma get0_Nil [simp]: "get0 [] k = 0"
  by (simp add: get0_def)

lemma get0_add_at [simp]: "get0 (add_at k q m) k' = get0 m k' + (if k = k' then q else 0)"
  by (simp add: get0_def add_at_def update_conv')

lemma keys_add_at: "fst ` set (add_at k q m) = insert k (fst ` set m)"
  by (simp add: add_at_def dom_update)

lemma distinct_add_at: "distinct (map fst m) \<Longrightarrow> distinct (map fst (add_at k q m))"
  by (simp add: add_at_def distinct_update)

lemma add_all_Nil [simp]: "add_all key qty [] m = m"
  by (simp add: add_all_def)

lemma add_all_Cons: "add_all key qty (x # xs) m = add_all key qty xs (add_at (key x) (qty x) m)"
  by (simp add: add_all_def)

lemma get0_add_all:
  "get0 (add_all key qty xs m) k = get0 m k + sum_list (map qty (filter (\<lambda>x. key x = k) xs))"
  by (induction xs arbitrary: m) (auto simp: add_all_Cons)

lemma keys_add_all: "fst ` set (add_all key qty xs m) = fst ` set m \<union> key ` set xs"
  by (induction xs arbitrary: m) (auto simp: add_all_Cons keys_add_at)

lemma distinct_add_all: "distinct (map fst m) \<Longrightarrow> distinct (map fst (add_all key qty xs m))"
  by (induction xs arbitrary: m) (auto simp: add_all_Cons distinct_add_at)

lemma get0_mem: "distinct (map fst m) \<Longrightarrow> (k, v) \<in> set m \<Longrightarrow> get0 m k = v"
  by (simp add: get0_def)

lemma get0_nonneg: "(\<And>k v. (k, v) \<in> set m \<Longrightarrow> 0 \<le> v) \<Longrightarrow> 0 \<le> get0 m k"
  by (auto simp: get0_def split: option.splits dest: map_of_SomeD)

text \<open>Summing a map over distinct keys that cover it gives the sum of what was added.\<close>

lemma sum_list_filter_key:
  "finite K \<Longrightarrow> key ` set xs \<subseteq> K \<Longrightarrow>
   (\<Sum>k\<in>K. sum_list (map qty (filter (\<lambda>x. key x = k) xs))) = (sum_list (map qty xs) :: int)"
proof (induction xs)
  case (Cons x xs)
  have split: "sum_list (map qty (filter (\<lambda>y. key y = k) (x # xs)))
      = (if k = key x then qty x else 0) + sum_list (map qty (filter (\<lambda>y. key y = k) xs))" for k
    by auto
  have "(\<Sum>k\<in>K. (if k = key x then qty x else 0)) = qty x"
    using Cons.prems by (simp add: sum.delta)
  moreover have "(\<Sum>k\<in>K. sum_list (map qty (filter (\<lambda>y. key y = k) xs))) = sum_list (map qty xs)"
    using Cons by simp
  ultimately show ?case by (simp only: split sum.distrib list.map sum_list.Cons)
qed simp

lemma sum_keys_eq_total:
  assumes "distinct ks" "key ` set xs \<subseteq> set ks"
  shows "sum_list (map (\<lambda>k. sum_list (map qty (filter (\<lambda>x. key x = k) xs))) ks)
    = (sum_list (map qty xs) :: int)"
  using assms by (simp add: sum_list_distinct_conv_sum_set sum_list_filter_key)

lemma sum_list_nonneg_filter:
  "(\<And>x. x \<in> set xs \<Longrightarrow> 0 \<le> f x) \<Longrightarrow> 0 \<le> (sum_list (map f (filter P xs)) :: int)"
  by (induction xs) auto

section \<open>Sums at a key\<close>

definition sum_at :: "('a \<Rightarrow> 'k) \<Rightarrow> ('a \<Rightarrow> int) \<Rightarrow> 'a list \<Rightarrow> 'k \<Rightarrow> int" where
  "sum_at key qty xs k = sum_list (map qty (filter (\<lambda>x. key x = k) xs))"

lemma sum_at_Nil [simp]: "sum_at key qty [] k = 0"
  by (simp add: sum_at_def)

lemma sum_at_Cons [simp]: "sum_at key qty (x # xs) k = (if key x = k then qty x else 0) + sum_at key qty xs k"
  by (simp add: sum_at_def)

lemma sum_at_append [simp]: "sum_at key qty (xs @ ys) k = sum_at key qty xs k + sum_at key qty ys k"
  by (simp add: sum_at_def)

lemma sum_at_list_all2:
  "list_all2 (\<lambda>x y. key x = key' y \<and> qty x = qty' y) xs ys \<Longrightarrow> sum_at key qty xs k = sum_at key' qty' ys k"
  by (induction rule: list_all2_induct) auto

lemma sum_at_as_sum:
  "sum_at key qty xs k = (\<Sum>p\<in>#mset (map (\<lambda>x. (key x, qty x)) xs). if fst p = k then snd p else 0)"
  by (induction xs) auto

lemma sum_at_mset:
  "mset (map (\<lambda>x. (key x, qty x)) xs) = mset (map (\<lambda>y. (key' y, qty' y)) ys)
   \<Longrightarrow> sum_at key qty xs k = sum_at key' qty' ys k"
  by (simp only: sum_at_as_sum)

lemma sum_at_nonneg: "(\<And>x. x \<in> set xs \<Longrightarrow> 0 \<le> qty x) \<Longrightarrow> 0 \<le> sum_at key qty xs k"
  by (induction xs) auto

lemma sum_at_no_key: "k \<notin> key ` set xs \<Longrightarrow> sum_at key qty xs k = 0"
  by (induction xs) auto

section \<open>Sorting\<close>

fun js_insert :: "('a \<Rightarrow> 'a \<Rightarrow> bool) \<Rightarrow> 'a \<Rightarrow> 'a list \<Rightarrow> 'a list" where
  "js_insert le x [] = [x]"
| "js_insert le x (y # ys) = (if le x y then x # y # ys else y # js_insert le x ys)"

fun js_sort :: "('a \<Rightarrow> 'a \<Rightarrow> bool) \<Rightarrow> 'a list \<Rightarrow> 'a list" where
  "js_sort le [] = []"
| "js_sort le (x # xs) = js_insert le x (js_sort le xs)"

definition js_unique :: "'a list \<Rightarrow> 'a list" where
  "js_unique xs = rev (remdups (rev xs))"

text \<open>\<open>[...new Set(values.filter(Boolean))].sort((a, b) => a.localeCompare(b))\<close>\<close>

definition sorted_ids :: "(string \<Rightarrow> string \<Rightarrow> bool) \<Rightarrow> string list \<Rightarrow> string list" where
  "sorted_ids le values = js_sort le (js_unique (filter (\<lambda>s. s \<noteq> []) values))"

lemma mset_js_insert [simp]: "mset (js_insert le x xs) = add_mset x (mset xs)"
  by (induction xs) auto

lemma mset_js_sort [simp]: "mset (js_sort le xs) = mset xs"
  by (induction xs) auto

lemma set_js_sort [simp]: "set (js_sort le xs) = set xs"
  by (metis mset_js_sort set_mset_mset)

lemma length_js_sort [simp]: "length (js_sort le xs) = length xs"
  by (metis mset_js_sort size_mset)

lemma distinct_js_sort [simp]: "distinct (js_sort le xs) = distinct xs"
  by (metis mset_eq_imp_distinct_iff mset_js_sort)

lemma sum_list_js_sort [simp]: "sum_list (map f (js_sort le xs)) = (sum_list (map f xs) :: int)"
  by (metis mset_js_sort mset_map sum_mset_sum_list)

lemma set_js_unique [simp]: "set (js_unique xs) = set xs"
  by (simp add: js_unique_def)

lemma distinct_js_unique [simp]: "distinct (js_unique xs)"
  by (simp add: js_unique_def)

lemma set_sorted_ids [simp]: "set (sorted_ids le vs) = set vs - {[]}"
  by (auto simp: sorted_ids_def)

lemma distinct_sorted_ids [simp]: "distinct (sorted_ids le vs)"
  by (simp add: sorted_ids_def)

lemma js_insert_sorted:
  assumes "\<And>a b. le a b \<or> le b a" "\<And>a b c. le a b \<Longrightarrow> le b c \<Longrightarrow> le a c" "sorted_wrt le xs"
  shows "sorted_wrt le (js_insert le x xs)"
  using assms(3)
proof (induction xs)
  case (Cons y ys)
  have "set (js_insert le x ys) = insert x (set ys)"
    by (metis mset_js_insert set_mset_add_mset_insert set_mset_mset)
  then show ?case using Cons assms(1,2) by auto
qed simp

lemma js_sort_sorted:
  assumes "\<And>a b. le a b \<or> le b a" "\<And>a b c. le a b \<Longrightarrow> le b c \<Longrightarrow> le a c"
  shows "sorted_wrt le (js_sort le xs)"
proof (induction xs)
  case (Cons x xs)
  then show ?case using js_insert_sorted [of le "js_sort le xs" x] assms by simp
qed simp

section \<open>Issues\<close>

datatype 'c issue = Issue (issue_code: 'c) (issue_status: int)

text \<open>\<open>if (cond) blockingIssues.push(issue(code, message, status))\<close>\<close>

definition push_if :: "bool \<Rightarrow> 'c \<Rightarrow> int \<Rightarrow> 'c issue list" where
  "push_if cond c st = (if cond then [Issue c st] else [])"

lemma push_if_Nil [simp]: "push_if cond c st = [] \<longleftrightarrow> \<not> cond"
  by (simp add: push_if_def)

lemma push_if_Nil' [simp]: "[] = push_if cond c st \<longleftrightarrow> \<not> cond"
  by (simp add: push_if_def)

lemma set_push_if: "i \<in> set (push_if cond c st) \<longleftrightarrow> cond \<and> i = Issue c st"
  by (auto simp: push_if_def)

lemma concat_map_Nil: "concat (map f xs) = [] \<longleftrightarrow> (\<forall>x\<in>set xs. f x = [])"
  by (induction xs) auto

text \<open>Loops that collect the results of those iterations that did not \<open>continue\<close>.\<close>

lemma sum_list_concat_map: "sum_list (map f (concat xss)) = (sum_list (map (\<lambda>xs. sum_list (map f xs)) xss) :: int)"
  by (induction xss) auto

lemma sum_list_zero: "(\<And>x. x \<in> set xs \<Longrightarrow> f x = 0) \<Longrightarrow> (sum_list (map f xs) :: int) = 0"
  by (induction xs) auto

section \<open>Errors\<close>

text \<open>\<open>x\<close> and, if it did not throw, \<open>f\<close> on its value; and \<open>if (cond) fail(e)\<close>.\<close>

definition and_then :: "'e + 'a \<Rightarrow> ('a \<Rightarrow> 'e + 'b) \<Rightarrow> 'e + 'b" where
  "and_then x f = (case x of Inl e \<Rightarrow> Inl e | Inr v \<Rightarrow> f v)"

definition fail_if :: "bool \<Rightarrow> 'e \<Rightarrow> 'e + unit" where
  "fail_if cond e = (if cond then Inl e else Inr ())"

text \<open>\<open>xs.map(f)\<close> for a function that may throw: the first error wins.\<close>

fun map_or_fail :: "('a \<Rightarrow> 'e + 'b) \<Rightarrow> 'a list \<Rightarrow> 'e + 'b list" where
  "map_or_fail f [] = Inr []"
| "map_or_fail f (x # xs) = and_then (f x) (\<lambda>y. and_then (map_or_fail f xs) (\<lambda>ys. Inr (y # ys)))"

text \<open>\<open>for (const x of xs) await step(x)\<close> on a state.\<close>

fun each :: "('a \<Rightarrow> 's \<Rightarrow> 'e + 's) \<Rightarrow> 'a list \<Rightarrow> 's \<Rightarrow> 'e + 's" where
  "each step [] s = Inr s"
| "each step (x # xs) s = and_then (step x s) (each step xs)"

lemma and_then_Inr [simp]: "and_then x f = Inr y \<longleftrightarrow> (\<exists>v. x = Inr v \<and> f v = Inr y)"
  by (cases x) (auto simp: and_then_def)

lemma and_then_value [simp]: "and_then (Inr v) f = f v" "and_then (Inl e) f = Inl e"
  by (simp_all add: and_then_def)

lemma fail_if_Inr [simp]: "fail_if cond e = Inr u \<longleftrightarrow> \<not> cond"
  by (simp add: fail_if_def)

lemma map_or_fail_Inr: "map_or_fail f xs = Inr ys \<Longrightarrow> list_all2 (\<lambda>x y. f x = Inr y) xs ys"
  by (induction xs arbitrary: ys) auto

lemma list_all2_elem:
  "list_all2 R xs ys \<Longrightarrow> x \<in> set xs \<Longrightarrow> \<exists>y\<in>set ys. R x y"
  "list_all2 R xs ys \<Longrightarrow> y \<in> set ys \<Longrightarrow> \<exists>x\<in>set xs. R x y"
  by (induction rule: list_all2_induct) auto

end
