(* ===== verification/Decimal.thy ===== *)
theory Decimal
  imports Prelude
begin

text \<open>
  Fixed-point quantities (\<open>outbound-transaction-policy.mjs\<close>,
  \<open>receiving-transaction-policy.mjs\<close>, \<open>operational-finance-policy.mjs\<close>).

  The code keeps every quantity and amount as a \<open>BigInt\<close> number of ten-thousandths. Here that
  number is an \<open>int\<close>. Text becomes units in \<open>outboundDecimalUnits\<close>, where the two ways to throw
  are the two values of \<open>decimal_error\<close>, and units become text in \<open>outboundDecimalString\<close>.
  The lemmas show that the two are inverse, that the parser accepts exactly the decimal texts
  whose value is a whole number of ten-thousandths, and how far \<open>multiply\<close> rounds.

  A \<open>Decimal(18, 4)\<close> column of \<open>prisma/schema.prisma\<close> always reads back as such a text, so a
  column is the number of ten-thousandths it holds, \<open>None\<close> for a null one, and
  \<open>column_units\<close> is \<open>decimalUnits\<close> on it (null reads as 0).
\<close>

definition SCALE :: int where
  "SCALE = 10000"

datatype decimal_error = Invalid_decimal | Too_many_places

section \<open>Digits\<close>

definition is_digit :: "char \<Rightarrow> bool" where
  "is_digit c \<longleftrightarrow> 48 \<le> (of_char c :: nat) \<and> (of_char c :: nat) \<le> 57"

definition digit_value :: "char \<Rightarrow> nat" where
  "digit_value c = of_char c - 48"

definition digit_char :: "nat \<Rightarrow> char" where
  "digit_char d = char_of (48 + d)"

text \<open>\<open>BigInt(digits)\<close>\<close>

definition digits_value :: "string \<Rightarrow> nat" where
  "digits_value s = foldl (\<lambda>n c. 10 * n + digit_value c) 0 s"

text \<open>\<open>String(n)\<close> for a natural number\<close>

fun digits_of :: "nat \<Rightarrow> string" where
  "digits_of n = (if n < 10 then [digit_char n] else digits_of (n div 10) @ [digit_char (n mod 10)])"

declare digits_of.simps [simp del]

text \<open>\<open>s.padStart(n, '0')\<close>\<close>

definition pad_start :: "nat \<Rightarrow> string \<Rightarrow> string" where
  "pad_start n s = replicate (n - length s) (CHR ''0'') @ s"

section \<open>Parsing and printing\<close>

text \<open>
  \<open>/^-?\d+(?:\.\d+)?$/\<close>. \<open>decimal_split\<close> is the text without its sign, split at the first dot
  (\<open>None\<close>: there is no dot).
\<close>

definition unsigned_part :: "string \<Rightarrow> string" where
  "unsigned_part raw = (case raw of [] \<Rightarrow> [] | c # cs \<Rightarrow> if c = CHR ''-'' then cs else raw)"

definition is_negative :: "string \<Rightarrow> bool" where
  "is_negative raw = (case raw of [] \<Rightarrow> False | c # _ \<Rightarrow> c = CHR ''-'')"

definition decimal_split :: "string \<Rightarrow> string \<times> string option" where
  "decimal_split u =
     (let whole = takeWhile (\<lambda>c. c \<noteq> CHR ''.'') u;
          rest = dropWhile (\<lambda>c. c \<noteq> CHR ''.'') u
      in (whole, case rest of [] \<Rightarrow> None | _ # f \<Rightarrow> Some f))"

definition all_digits :: "string \<Rightarrow> bool" where
  "all_digits s \<longleftrightarrow> s \<noteq> [] \<and> list_all is_digit s"

definition decimal_syntax :: "string \<Rightarrow> bool" where
  "decimal_syntax raw =
     (case decimal_split (unsigned_part raw) of
        (whole, None) \<Rightarrow> all_digits whole
      | (whole, Some f) \<Rightarrow> all_digits whole \<and> all_digits f)"

definition outboundDecimalUnits :: "string option \<Rightarrow> decimal_error + int" where
  "outboundDecimalUnits value =
     (let trimmed = js_trim (case value of None \<Rightarrow> ''0'' | Some s \<Rightarrow> s);
          raw = (if trimmed = [] then ''0'' else trimmed)
      in if \<not> decimal_syntax raw then Inl Invalid_decimal
         else
           let (whole, frac) = decimal_split (unsigned_part raw);
               fraction = (case frac of None \<Rightarrow> [] | Some f \<Rightarrow> f)
           in if length fraction > 4 \<and> list_ex (\<lambda>c. digit_value c \<noteq> 0) (drop 4 fraction)
              then Inl Too_many_places
              else
                let units = int (digits_value whole) * SCALE
                      + int (digits_value (take 4 (take 4 fraction @ ''0000'')))
                in Inr (if is_negative raw then - units else units))"

definition outboundDecimalString :: "int \<Rightarrow> string" where
  "outboundDecimalString units =
     (let absolute = \<bar>units\<bar>
      in (if units < 0 then ''-'' else []) @ digits_of (nat (absolute div SCALE)) @ ''.''
         @ pad_start 4 (digits_of (nat (absolute mod SCALE))))"

definition column_units :: "int option \<Rightarrow> int" where
  "column_units v = (case v of None \<Rightarrow> 0 | Some u \<Rightarrow> u)"

lemma column_units_simps [simp]: "column_units None = 0" "column_units (Some u) = u"
  by (simp_all add: column_units_def)

section \<open>Lemmas about digits\<close>

lemma digit_char_props [simp]:
  assumes "d < 10"
  shows "is_digit (digit_char d)" "digit_value (digit_char d) = d"
  using assms by (simp_all add: is_digit_def digit_char_def digit_value_def of_char_of)

lemma digits_value_Nil [simp]: "digits_value [] = 0"
  by (simp add: digits_value_def)

lemma digits_value_snoc [simp]: "digits_value (s @ [c]) = 10 * digits_value s + digit_value c"
  by (simp add: digits_value_def)

lemma digits_value_append: "digits_value (s @ t) = digits_value s * 10 ^ length t + digits_value t"
proof (induction t rule: rev_induct)
  case (snoc c t)
  then show ?case by (simp flip: append_assoc add: algebra_simps)
qed simp

lemma digits_value_zeros [simp]: "digits_value (replicate n (CHR ''0'')) = 0"
proof (induction n)
  case (Suc n)
  have "replicate (Suc n) (CHR ''0'') = replicate n (CHR ''0'') @ [CHR ''0'']"
    by (simp add: replicate_append_same)
  then show ?case using Suc by (simp add: digit_value_def)
qed simp

lemma digits_value_all_zero: "(\<And>c. c \<in> set s \<Longrightarrow> digit_value c = 0) \<Longrightarrow> digits_value s = 0"
  by (induction s rule: rev_induct) auto

lemma digits_value_zero_iff: "digits_value s = 0 \<longleftrightarrow> (\<forall>c\<in>set s. digit_value c = 0)"
  by (induction s rule: rev_induct) auto

lemma digits_value_bound:
  "list_all is_digit s \<Longrightarrow> digits_value s < 10 ^ length s"
proof (induction s rule: rev_induct)
  case (snoc c s)
  then have "digit_value c \<le> 9" by (auto simp: is_digit_def digit_value_def)
  moreover have "digits_value s + 1 \<le> 10 ^ length s" using snoc by simp
  ultimately show ?case by simp
qed simp

lemma digits_of_value [simp]: "digits_value (digits_of n) = n"
proof (induction n rule: digits_of.induct)
  case (1 n)
  show ?case
  proof (cases "n < 10")
    case True
    then show ?thesis by (subst digits_of.simps) (simp add: digits_value_def)
  next
    case False
    then show ?thesis using "1" by (subst digits_of.simps) simp
  qed
qed

lemma digits_of_digits [simp]: "list_all is_digit (digits_of n)"
proof (induction n rule: digits_of.induct)
  case (1 n)
  then show ?case by (subst digits_of.simps) auto
qed

lemma digits_of_nonempty [simp]: "digits_of n \<noteq> []"
  by (subst digits_of.simps) simp

lemma all_digits_digits_of [simp]: "all_digits (digits_of n)"
  by (simp add: all_digits_def)

lemma digits_of_length: "n < 10 ^ k \<Longrightarrow> 0 < k \<Longrightarrow> length (digits_of n) \<le> k"
proof (induction n arbitrary: k rule: digits_of.induct)
  case (1 n)
  show ?case
  proof (cases "n < 10")
    case True
    then show ?thesis using "1.prems" by (subst digits_of.simps) simp
  next
    case False
    obtain j where j: "k = Suc j" using "1.prems"(2) by (cases k) auto
    have "0 < j"
    proof (rule gr0I)
      assume "j = 0"
      with j "1.prems"(1) False show False by simp
    qed
    note k = j this
    then have "n div 10 < 10 ^ j" using "1.prems" by simp
    then have "length (digits_of (n div 10)) \<le> j" using "1.IH" [OF False] k by simp
    then show ?thesis using False k by (subst digits_of.simps) simp
  qed
qed

lemma digit_not_special:
  assumes "is_digit c" shows "c \<noteq> CHR ''.''" "c \<noteq> CHR ''-''" "\<not> js_space c"
  using assms by (auto simp: is_digit_def js_space_def)

lemma split_no_dot:
  "list_all is_digit s \<Longrightarrow> decimal_split s = (s, None)"
  by (induction s) (auto simp: decimal_split_def digit_not_special)

lemma split_dot:
  "list_all is_digit s \<Longrightarrow> decimal_split (s @ ''.'' @ f) = (s, Some f)"
  by (induction s) (auto simp: decimal_split_def digit_not_special)

section \<open>The parser and the printer\<close>

lemma decimal_units_digits:
  assumes w: "all_digits w" and f: "list_all is_digit f" and sg: "sg = [] \<or> sg = ''-''"
  shows "outboundDecimalUnits (Some (sg @ w @ ''.'' @ f)) =
    (if f = [] then Inl Invalid_decimal
     else if length f > 4 \<and> list_ex (\<lambda>c. digit_value c \<noteq> 0) (drop 4 f) then Inl Too_many_places
     else let u = int (digits_value w) * SCALE + int (digits_value (take 4 (take 4 f @ ''0000'')))
          in Inr (if sg = [] then u else - u))"
proof -
  let ?s = "sg @ w @ ''.'' @ f"
  from w obtain c cs where wc: "w = c # cs" "is_digit c" by (cases w) (auto simp: all_digits_def)
  have l: "\<not> js_space (last ?s)"
  proof (cases f rule: rev_cases)
    case Nil
    then show ?thesis by (simp add: js_space_def)
  next
    case (snoc ys y)
    then show ?thesis using f digit_not_special(3) by auto
  qed
  have h: "\<not> js_space (hd ?s)"
    using sg wc digit_not_special(3) by (auto simp: js_space_def)
  have t: "js_trim ?s = ?s"
    by (rule js_trim_id) (use sg wc h l in auto)
  have u: "unsigned_part ?s = w @ ''.'' @ f"
    using sg wc digit_not_special(2) by (auto simp: unsigned_part_def)
  have n: "is_negative ?s \<longleftrightarrow> sg \<noteq> []"
    using sg wc digit_not_special(2) by (auto simp: is_negative_def)
  have sp: "decimal_split (w @ ''.'' @ f) = (w, Some f)"
    using w split_dot by (auto simp: all_digits_def)
  have syn: "decimal_syntax ?s \<longleftrightarrow> f \<noteq> []"
    using w f by (simp add: decimal_syntax_def u [simplified] sp [simplified] all_digits_def)
  have ne: "?s \<noteq> []" by simp
  show ?thesis
    unfolding outboundDecimalUnits_def option.case Let_def t if_not_P [OF ne] syn u sp n
    by (simp add: Let_def)
qed

lemma pad_start_digits: "list_all is_digit s \<Longrightarrow> list_all is_digit (pad_start n s)"
  by (auto simp: pad_start_def list_all_iff is_digit_def)

lemma pad_start_value [simp]: "digits_value (pad_start n s) = digits_value s"
  by (simp add: pad_start_def digits_value_append)

lemma pad_start_length: "length s \<le> n \<Longrightarrow> length (pad_start n s) = n"
  by (simp add: pad_start_def)

lemma decimal_roundtrip [simp]:
  "outboundDecimalUnits (Some (outboundDecimalString u)) = Inr u"
proof -
  let ?w = "digits_of (nat (\<bar>u\<bar> div SCALE))" and ?m = "nat (\<bar>u\<bar> mod SCALE)"
  let ?f = "pad_start 4 (digits_of ?m)"
  have "?m < 10 ^ 4" by (simp add: SCALE_def nat_less_iff)
  then have len: "length ?f = 4" by (intro pad_start_length digits_of_length) auto
  then have ne: "?f \<noteq> []" by auto
  have "outboundDecimalUnits (Some ((if u < 0 then ''-'' else []) @ ?w @ ''.'' @ ?f)) =
      Inr (if u < 0 then - (int (digits_value ?w) * SCALE + int (digits_value ?f))
           else int (digits_value ?w) * SCALE + int (digits_value ?f))"
    by (subst decimal_units_digits) (use len ne in \<open>auto simp: pad_start_digits Let_def\<close>)
  also have "int (digits_value ?w) * SCALE + int (digits_value ?f) = \<bar>u\<bar>"
    by (simp add: SCALE_def pos_imp_zdiv_nonneg_iff)
  finally show ?thesis by (simp add: outboundDecimalString_def Let_def)
qed

lemma decimal_string_inj [simp]: "outboundDecimalString u = outboundDecimalString v \<longleftrightarrow> u = v"
  by (metis decimal_roundtrip sum.inject(2))

lemma ten_power_split: "4 < n \<Longrightarrow> (10::'a::comm_semiring_1) ^ n = 10 ^ (n - 4) * 10000"
proof -
  assume "4 < n"
  then have "n = (n - 4) + 4" by simp
  then have "(10::'a) ^ n = 10 ^ (n - 4) * 10 ^ 4" by (metis power_add)
  then show ?thesis by simp
qed

lemma decimal_units_exact_aux:
  assumes "length f > 4 \<longrightarrow> digits_value (drop 4 f) = 0"
  shows "int (digits_value (take 4 (take 4 f @ ''0000''))) * 10 ^ length f
    = int (digits_value f) * SCALE"
proof (cases "length f \<le> 4")
  case True
  have z: "digits_value (take (4 - length f) ''0000'') = 0"
    by (rule digits_value_all_zero) (auto simp: digit_value_def dest!: in_set_takeD)
  have "(10::nat) ^ (4 - length f) * 10 ^ length f = 10 ^ 4"
    using True by (simp flip: power_add)
  then have "digits_value (take 4 (take 4 f @ ''0000'')) * 10 ^ length f = digits_value f * 10 ^ 4"
    using True z by (simp add: digits_value_append)
  then have "int (digits_value (take 4 (take 4 f @ ''0000'')) * 10 ^ length f) = int (digits_value f * 10 ^ 4)"
    by (rule arg_cong)
  then show ?thesis by (simp only: of_nat_mult of_nat_power of_nat_numeral SCALE_def) simp
next
  case False
  then have f: "digits_value f = digits_value (take 4 f) * 10 ^ (length f - 4)"
    using assms digits_value_append [of "take 4 f" "drop 4 f"] by simp
  have "(10::int) ^ length f = 10 ^ (length f - 4) * 10000"
    using False by (intro ten_power_split) simp
  then show ?thesis using False by (simp add: f SCALE_def)
qed

lemma decimal_units_exact:
  assumes w: "all_digits w" and f: "all_digits f" and sg: "sg = [] \<or> sg = ''-''"
  shows "outboundDecimalUnits (Some (sg @ w @ ''.'' @ f)) = Inr u \<longleftrightarrow>
    (if sg = [] then 1 else - 1) * int (digits_value (w @ f)) * SCALE = u * 10 ^ length f"
proof -
  let ?p = "(10::int) ^ length f"
  let ?u = "int (digits_value w) * SCALE + int (digits_value (take 4 (take 4 f @ ''0000'')))"
  have fd: "list_all is_digit f" "f \<noteq> []" using f by (auto simp: all_digits_def)
  have wf: "int (digits_value (w @ f)) * SCALE = int (digits_value w) * SCALE * ?p + int (digits_value f) * SCALE"
    by (simp add: digits_value_append algebra_simps)
  note eq = decimal_units_digits [OF w fd(1) sg]
  show ?thesis
  proof (cases "length f > 4 \<and> list_ex (\<lambda>c. digit_value c \<noteq> 0) (drop 4 f)")
    case True
    let ?r = "digits_value (drop 4 f)" and ?k = "length f - 4"
    have r0: "?r \<noteq> 0" using True by (auto simp: digits_value_zero_iff list_ex_iff)
    have "list_all is_digit (drop 4 f)" using fd(1) by (auto simp: list_all_iff dest: in_set_dropD)
    then have rb: "?r < 10 ^ ?k" using digits_value_bound [of "drop 4 f"] by simp
    have fv: "digits_value f = digits_value (take 4 f) * 10 ^ ?k + ?r"
      using True digits_value_append [of "take 4 f" "drop 4 f"] by simp
    have p: "?p = 10 ^ ?k * SCALE" using True ten_power_split [of "length f", where 'a = int]
      by (simp add: SCALE_def)
    have "v * int (digits_value (w @ f)) * SCALE \<noteq> u * ?p" if v: "v = 1 \<or> v = -1" for v
    proof
      assume a: "v * int (digits_value (w @ f)) * SCALE = u * ?p"
      then have "v * int (digits_value (w @ f)) = u * 10 ^ ?k" by (simp add: p SCALE_def)
      then have "(10::int) ^ ?k dvd v * int (digits_value (w @ f))" by simp
      then have "(10::int) ^ ?k dvd int (digits_value (w @ f))" using v by auto
      then have "(10::nat) ^ ?k dvd digits_value (w @ f)"
        by (metis of_nat_dvd_iff of_nat_numeral of_nat_power)
      moreover have "(10::nat) ^ ?k dvd digits_value w * 10 ^ length f"
        by (simp add: le_imp_power_dvd)
      ultimately have "(10::nat) ^ ?k dvd digits_value f"
        by (simp add: digits_value_append dvd_add_right_iff)
      then have "(10::nat) ^ ?k dvd ?r" by (simp add: fv)
      then show False using r0 rb by (auto dest: dvd_imp_le)
    qed
    then show ?thesis unfolding eq using True fd(2) by auto
  next
    case False
    then have "length f > 4 \<longrightarrow> digits_value (drop 4 f) = 0"
      by (auto simp: digits_value_zero_iff list_ex_iff)
    then have "?u * ?p = int (digits_value (w @ f)) * SCALE"
      unfolding wf distrib_right by (simp only: decimal_units_exact_aux)
    then have d: "?u * ?p = int (digits_value (w @ f)) * SCALE" .
    have p0: "?p \<noteq> 0" by simp
    have cancel: "k * p = e \<Longrightarrow> p \<noteq> 0 \<Longrightarrow> (k = v) = (e = v * p) \<and> (- k = v) = (- e = v * p)"
      for k p e v :: int
      by (auto simp flip: mult_minus_left)
    from cancel [OF d p0] have c: "(?u = u) = (int (digits_value (w @ f)) * SCALE = u * ?p)"
      "(- ?u = u) = (- (int (digits_value (w @ f)) * SCALE) = u * ?p)"
      by blast+
    have "(outboundDecimalUnits (Some (sg @ w @ ''.'' @ f)) = Inr u) = ((if sg = [] then ?u else - ?u) = u)"
      unfolding eq Let_def using False fd(2) by (simp only: if_False sum.inject)
    also have "\<dots> = ((if sg = [] then 1 else - 1) * int (digits_value (w @ f)) * SCALE = u * ?p)"
      by (cases "sg = []") (simp_all only: simp_thms if_True if_False c mult_1 mult_minus1 minus_mult_left)
    finally show ?thesis .
  qed
qed

section \<open>Multiplying fixed-point numbers\<close>

text \<open>
  \<open>multiply\<close> of the finance policies. \<open>BigInt\<close> division truncates towards zero and the
  dividend is not negative here, so \<open>div\<close> is that division.
\<close>

definition multiply :: "int \<Rightarrow> int \<Rightarrow> int" where
  "multiply left right =
     (let product = left * right;
          negative = product < 0;
          absolute = (if negative then - product else product);
          rounded = (absolute + SCALE div 2) div SCALE
      in if negative then - rounded else rounded)"

lemma round_bounds:
  "2 * ((n + 5000) div 10000 * 10000 - n) \<le> (10000::int)"
  "- 10000 \<le> 2 * ((n + 5000) div 10000 * 10000 - (n::int))"
proof -
  have lin: "2 * (q * 10000 - n) \<le> 10000 \<and> - 10000 \<le> 2 * (q * 10000 - n)"
    if "q * 10000 = n + 5000 - r" "0 \<le> r" "r < 10000" for q r :: int
    using that by auto
  have "(n + 5000) div 10000 * 10000 = n + 5000 - (n + 5000) mod 10000"
    by (simp add: minus_mod_eq_div_mult)
  moreover have "0 \<le> (n + 5000) mod 10000" "(n + 5000) mod 10000 < 10000" by simp_all
  ultimately have "2 * ((n + 5000) div 10000 * 10000 - n) \<le> (10000::int)
      \<and> - 10000 \<le> 2 * ((n + 5000) div 10000 * 10000 - n)"
    by (rule lin)
  then show "2 * ((n + 5000) div 10000 * 10000 - n) \<le> (10000::int)"
    "- 10000 \<le> 2 * ((n + 5000) div 10000 * 10000 - (n::int))" by simp_all
qed

lemma multiply_error: "2 * \<bar>multiply a b * SCALE - a * b\<bar> \<le> SCALE"
proof (cases "a * b < 0")
  case True
  then show ?thesis using round_bounds [of "- (a * b)"]
    by (simp add: multiply_def SCALE_def abs_le_iff)
next
  case False
  then show ?thesis using round_bounds [of "a * b"]
    by (simp add: multiply_def SCALE_def abs_le_iff)
qed

lemma multiply_commute: "multiply a b = multiply b a"
  by (simp add: multiply_def mult.commute)

lemma multiply_nonneg:
  assumes "0 \<le> a" "0 \<le> b" shows "0 \<le> multiply a b"
proof -
  have "\<not> a * b < 0" using assms by (simp add: not_less)
  then show ?thesis by (simp add: multiply_def SCALE_def pos_imp_zdiv_nonneg_iff)
qed

lemma multiply_minus: "multiply (- a) b = - multiply a b"
proof -
  consider "a * b < 0" | "a * b = 0" | "0 < a * b" by linarith
  then show ?thesis by cases (auto simp: multiply_def SCALE_def)
qed

lemma round_exact: "(a * 10000 + 5000) div 10000 = (a::int)"
  using div_mult_self1 [of "10000::int" 5000 a] by (simp add: add.commute)

lemma multiply_one [simp]: "multiply a SCALE = a" "multiply SCALE a = a"
proof -
  show "multiply a SCALE = a"
    using round_exact [of a] round_exact [of "- a"]
    by (simp add: multiply_def Let_def SCALE_def)
  then show "multiply SCALE a = a" by (simp add: multiply_commute)
qed

lemma multiply_zero [simp]: "multiply 0 b = 0" "multiply a 0 = 0"
  by (simp_all add: multiply_def SCALE_def)

end
