(* ===== verification/Inventory_Rows.thy ===== *)
theory Inventory_Rows
  imports Decimal
begin

text \<open>
  The rows of \<open>prisma/schema.prisma\<close> that the inventory operations read and write, with the
  columns the code uses. A nullable column is an option; a \<open>Decimal(18, 4)\<close> column is its
  number of ten-thousandths. The two JSON fields the code reads, \<open>metadata.balanceId\<close> of a
  movement and \<open>metadata.postingBatchId\<close> of a document, are columns here.

  The database itself is not part of the repository. What the code asks of it is the record
  \<open>inventory_tx\<close>, one function for each kind of query, an argument of every definition that
  reads or writes; its behaviour is stated in \<open>Inventory_Store\<close>.
\<close>

section \<open>Balances and movements\<close>

record balance =
  bal_id :: string
  bal_tenantId :: string
  bal_itemId :: "string option"
  bal_sku :: string
  bal_itemName :: "string option"
  bal_warehouseId :: "string option"
  bal_warehouseKey :: string
  bal_location :: "string option"
  bal_locationKey :: string
  bal_unit :: "string option"
  bal_onHandQuantity :: "int option"
  bal_reservedQuantity :: "int option"
  bal_availableQuantity :: "int option"
  bal_version :: int

record movement =
  mov_id :: string
  mov_tenantId :: string
  mov_itemId :: "string option"
  mov_sku :: string
  mov_itemName :: "string option"
  mov_warehouseId :: "string option"
  mov_location :: "string option"
  mov_locationKey :: string
  mov_movementType :: string
  mov_sourceDocumentType :: "string option"
  mov_sourceDocumentId :: "string option"
  mov_sourceDocumentLineId :: "string option"
  mov_quantityIn :: "int option"
  mov_quantityOut :: "int option"
  mov_adjustmentQty :: "int option"
  mov_status :: string
  mov_unit :: "string option"
  mov_postingBatchId :: "string option"
  mov_reversalOfMovementId :: "string option"
  mov_reversedByMovementId :: "string option"
  mov_balanceId :: "string option"

section \<open>Transfers, counts and adjustments\<close>

record transfer_leg =
  leg_id :: string
  leg_direction :: string
  leg_warehouseId :: string
  leg_location :: "string option"
  leg_locationKey :: string

record transfer_line =
  tl_id :: string
  tl_itemId :: string
  tl_sku :: string
  tl_itemName :: string
  tl_quantity :: int
  tl_unit :: "string option"
  tl_legs :: "transfer_leg list"

record stock_transfer =
  trf_id :: string
  trf_tenantId :: string
  trf_transferNumber :: string
  trf_workflowStatus :: string
  trf_postingStatus :: string
  trf_version :: int
  trf_postingBatchId :: "string option"
  trf_lines :: "transfer_line list"

record count_line =
  cl_id :: string
  cl_inventoryBalanceId :: string
  cl_itemId :: "string option"
  cl_sku :: string
  cl_itemName :: "string option"
  cl_warehouseId :: string
  cl_location :: "string option"
  cl_locationKey :: string
  cl_unit :: "string option"
  cl_recordedOnHandQuantity :: int
  cl_recordedReservedQuantity :: int
  cl_recordedAvailableQuantity :: int
  cl_recordedBalanceVersion :: int
  cl_countedQuantity :: "int option"
  cl_varianceQuantity :: "int option"
  cl_version :: int

record count_session =
  cs_id :: string
  cs_tenantId :: string
  cs_countNumber :: string
  cs_warehouseId :: string
  cs_workflowStatus :: string
  cs_blindCount :: bool
  cs_version :: int
  cs_postingBatchId :: "string option"
  cs_lines :: "count_line list"

record adjustment_line =
  al_id :: string
  al_inventoryBalanceId :: string
  al_itemId :: "string option"
  al_sku :: string
  al_itemName :: "string option"
  al_warehouseId :: string
  al_location :: "string option"
  al_locationKey :: string
  al_adjustmentQuantity :: int
  al_unit :: "string option"

record adjustment =
  adj_id :: string
  adj_tenantId :: string
  adj_adjustmentNumber :: string
  adj_reasonCode :: string
  adj_notes :: "string option"
  adj_workflowStatus :: string
  adj_postingStatus :: string
  adj_version :: int
  adj_postingBatchId :: "string option"
  adj_lines :: "adjustment_line list"

section \<open>Items\<close>

record item_row =
  item_id :: string
  item_sku :: string
  item_name :: string
  item_unit :: "string option"

section \<open>What the code asks of the database\<close>

text \<open>
  A query names the tenant before the rest of its filter (\<open>tx_findAdjustmentLines\<close> has none). \<open>tx_findMovements tx s t d ls\<close> is the
  \<open>findMany\<close> on movements of source document \<open>d\<close>, restricted to the source lines \<open>ls\<close> when the
  query has that filter. \<open>tx_updateBalance\<close> is the \<open>updateMany\<close> guarded by id, tenant and
  version that writes the three quantities and increments the version; it returns the new state
  and the number of rows it changed. \<open>tx_activeItems\<close> and \<open>tx_activeWarehouses\<close> are the active
  rows of the tenant with an id of the list, \<open>tx_findCountBalances\<close> the balances of a warehouse
  with an id of the list, and the \<open>NumberUsed\<close> queries ask for a document of the tenant with
  that number. The other writes are an \<open>update\<close> or a \<open>create\<close> of one row,
  \<open>None\<close> when the database refuses (a unique constraint, or no row with that id).
\<close>

record 's inventory_tx =
  tx_findTransfer :: "'s \<Rightarrow> string \<Rightarrow> string \<Rightarrow> stock_transfer option"
  tx_findCount :: "'s \<Rightarrow> string \<Rightarrow> string \<Rightarrow> count_session option"
  tx_findAdjustment :: "'s \<Rightarrow> string \<Rightarrow> string \<Rightarrow> adjustment option"
  tx_findBalancesByKey :: "'s \<Rightarrow> string \<Rightarrow> (string \<times> string \<times> string) list \<Rightarrow> balance list"
  tx_findBalancesById :: "'s \<Rightarrow> string \<Rightarrow> string list \<Rightarrow> balance list"
  tx_findAdjustmentLines :: "'s \<Rightarrow> string \<Rightarrow> adjustment_line list"
  tx_findMovements :: "'s \<Rightarrow> string \<Rightarrow> string \<Rightarrow> string list option \<Rightarrow> movement list"
  tx_updateBalance ::
    "'s \<Rightarrow> string \<Rightarrow> string \<Rightarrow> int \<Rightarrow> int \<Rightarrow> int \<Rightarrow> int \<Rightarrow> 's \<times> nat"
  tx_createMovement :: "'s \<Rightarrow> movement \<Rightarrow> 's option"
  tx_setReversedBy :: "'s \<Rightarrow> string option \<Rightarrow> string \<Rightarrow> 's option"
  tx_updateTransfer :: "'s \<Rightarrow> string \<Rightarrow> (stock_transfer \<Rightarrow> stock_transfer) \<Rightarrow> 's option"
  tx_updateCount :: "'s \<Rightarrow> string \<Rightarrow> (count_session \<Rightarrow> count_session) \<Rightarrow> 's option"
  tx_updateAdjustment :: "'s \<Rightarrow> string \<Rightarrow> (adjustment \<Rightarrow> adjustment) \<Rightarrow> 's option"
  tx_activeItems :: "'s \<Rightarrow> string \<Rightarrow> string list \<Rightarrow> item_row list"
  tx_activeWarehouses :: "'s \<Rightarrow> string \<Rightarrow> string list \<Rightarrow> string list"
  tx_findCountBalances :: "'s \<Rightarrow> string \<Rightarrow> string \<Rightarrow> string list \<Rightarrow> balance list"
  tx_transferNumberUsed :: "'s \<Rightarrow> string \<Rightarrow> string \<Rightarrow> bool"
  tx_countNumberUsed :: "'s \<Rightarrow> string \<Rightarrow> string \<Rightarrow> bool"
  tx_adjustmentNumberUsed :: "'s \<Rightarrow> string \<Rightarrow> string \<Rightarrow> bool"
  tx_createTransfer :: "'s \<Rightarrow> stock_transfer \<Rightarrow> 's option"
  tx_createCount :: "'s \<Rightarrow> count_session \<Rightarrow> 's option"
  tx_createAdjustment :: "'s \<Rightarrow> adjustment \<Rightarrow> 's option"

section \<open>Looking rows up\<close>

text \<open>\<open>new Map(rows.map((row) => [key(row), row])).get(k)\<close>: the last row with a key wins.\<close>

definition last_by :: "('a \<Rightarrow> 'k) \<Rightarrow> 'a list \<Rightarrow> 'k \<Rightarrow> 'a option" where
  "last_by key rows k = map_of (rev (map (\<lambda>r. (key r, r)) rows)) k"

lemma last_byD:
  assumes "last_by key rows k = Some r" shows "r \<in> set rows" "key r = k"
  using map_of_SomeD [OF assms [unfolded last_by_def]] by auto

lemma last_by_None: "last_by key rows k = None \<longleftrightarrow> k \<notin> key ` set rows"
  by (auto simp: last_by_def map_of_eq_None_iff image_iff)

lemma last_by_unique:
  assumes "r \<in> set rows" "key r = k" "\<And>q. q \<in> set rows \<Longrightarrow> key q = k \<Longrightarrow> q = r"
  shows "last_by key rows k = Some r"
proof -
  have "last_by key rows k \<noteq> None" using assms by (auto simp: last_by_None)
  then obtain q where "last_by key rows k = Some q" by auto
  with last_byD [OF this] assms(3) show ?thesis by auto
qed

end
