(* ===== verification/Inventory_Policy.thy ===== *)
theory Inventory_Policy
  imports Inventory_Rows
begin

text \<open>
  The plans of \<open>inventory-operations-policy.mjs\<close>: what posting, reversing or cancelling a stock
  transfer, a cycle count or an inventory adjustment would do, and why it may not.

  A plan lists its blocking issues in the order the code pushes them; the body of a loop is a
  function from the loop's element to the issues, raw impacts and movement facts it contributes.
  \<open>le\<close> stands for \<open>localeCompare\<close>. The field a plan fills with \<open>fixed(x)\<close> holds \<open>x\<close>.
\<close>

datatype inv_code =
    TRANSFER_NOT_FOUND | TRANSFER_INVALID_ROUTE | TRANSFER_SOURCE_BALANCE_NOT_FOUND
  | TRANSFER_DESTINATION_BALANCE_NOT_FOUND | TRANSFER_INSUFFICIENT_AVAILABLE
  | TRANSFER_ALREADY_REVERSED | TRANSFER_ALREADY_POSTED | TRANSFER_REVERSAL_NOT_SAFE
  | INVENTORY_OPERATION_INVALID_STATE | INVENTORY_OPERATION_VERSION_CONFLICT
  | INVENTORY_OPERATIONS_CONCURRENT_TRANSACTION_CONFLICT
  | COUNT_NOT_FOUND | COUNT_INVALID_STATE | COUNT_LINE_INCOMPLETE | COUNT_REVIEW_REQUIRED
  | COUNT_BALANCE_CHANGED | COUNT_BELOW_RESERVED_NOT_SAFE
  | ADJUSTMENT_NOT_FOUND | ADJUSTMENT_INVALID_STATE | ADJUSTMENT_BELOW_RESERVED_NOT_SAFE
  | ADJUSTMENT_NET_ZERO_NOT_ALLOWED | ADJUSTMENT_ALREADY_REVERSED | ADJUSTMENT_ALREADY_POSTED
  | ADJUSTMENT_REVERSAL_NOT_SAFE | ADJUSTMENT_REASON_REQUIRED
  | TRANSFER_NUMBER_CONFLICT | COUNT_NUMBER_CONFLICT | ADJUSTMENT_NUMBER_CONFLICT
  | ADJUSTMENT_NEGATIVE_INVENTORY
  | WAREHOUSE_SCOPE_DENIED | UNCAUGHT_ERROR

section \<open>Raw impacts, balance impacts, movement facts\<close>

record raw_impact =
  ri_balance :: balance
  ri_delta :: int
  ri_role :: "string option"
  ri_lineId :: "string option"
  ri_legId :: "string option"

record balance_impact =
  bi_balanceId :: string
  bi_roles :: "string list"
  bi_version :: int
  bi_onHandBefore :: int
  bi_onHandAfter :: int
  bi_reservedBefore :: int
  bi_reservedAfter :: int
  bi_availableBefore :: int
  bi_availableAfter :: int
  bi_quantity :: int
  bi_totals :: "(int \<times> int) option"
  bi_lineIds :: "string list"
  bi_legIds :: "string list"

record movement_fact =
  mf_movementType :: string
  mf_lineId :: string
  mf_legId :: "string option"
  mf_balanceId :: string
  mf_originalMovementId :: "string option"
  mf_itemId :: "string option"
  mf_sku :: string
  mf_itemName :: "string option"
  mf_warehouseId :: string
  mf_location :: "string option"
  mf_locationKey :: string
  mf_quantityIn :: int
  mf_quantityOut :: int
  mf_adjustmentQty :: int
  mf_unit :: "string option"

record 'd inv_plan =
  ip_blockingIssues :: "inv_code issue list"
  ip_document :: "'d option"
  ip_expectedVersion :: "int option"
  ip_balanceImpacts :: "balance_impact list"
  ip_movementFacts :: "movement_fact list"
  ip_postingStatusAfter :: "string option"

definition result :: "inv_code issue list \<Rightarrow> 'd option \<Rightarrow> 'd inv_plan" where
  "result blockingIssues document =
     \<lparr>ip_blockingIssues = blockingIssues, ip_document = document, ip_expectedVersion = None,
      ip_balanceImpacts = [], ip_movementFacts = [], ip_postingStatusAfter = None\<rparr>"

definition allowed :: "'d inv_plan \<Rightarrow> bool" where
  "allowed p \<longleftrightarrow> ip_blockingIssues p = []"

section \<open>Aggregating the impacts on a balance\<close>

record aggregate =
  ag_balance :: balance
  ag_delta :: int
  ag_totalIn :: int
  ag_totalOut :: int
  ag_roles :: "string list"
  ag_lineIds :: "string list"
  ag_legIds :: "string list"

record agg_codes =
  insufficientCode :: inv_code
  unsafeCode :: inv_code
  rejectZeroCode :: "inv_code option"

text \<open>\<open>if (value) target.push(value)\<close>: neither null nor the empty string is pushed.\<close>

definition push_truthy :: "string option \<Rightarrow> string list \<Rightarrow> string list" where
  "push_truthy v xs = (case v of None \<Rightarrow> xs | Some s \<Rightarrow> if s = [] then xs else xs @ [s])"

definition group_entry :: "raw_impact \<Rightarrow> (string \<times> aggregate) list \<Rightarrow> (string \<times> aggregate) list" where
  "group_entry entry grouped =
     (let k = bal_id (ri_balance entry);
          current = (case map_of grouped k of Some a \<Rightarrow> a
            | None \<Rightarrow> \<lparr>ag_balance = ri_balance entry, ag_delta = 0, ag_totalIn = 0, ag_totalOut = 0,
                       ag_roles = [], ag_lineIds = [], ag_legIds = []\<rparr>);
          d = ri_delta entry
      in AList.update k
           \<lparr>ag_balance = ag_balance current,
            ag_delta = ag_delta current + d,
            ag_totalIn = (if d > 0 then ag_totalIn current + d else ag_totalIn current),
            ag_totalOut = (if d < 0 then ag_totalOut current + (- d) else ag_totalOut current),
            ag_roles = push_truthy (ri_role entry) (ag_roles current),
            ag_lineIds = push_truthy (ri_lineId entry) (ag_lineIds current),
            ag_legIds = push_truthy (ri_legId entry) (ag_legIds current)\<rparr> grouped)"

definition group_entries :: "raw_impact list \<Rightarrow> (string \<times> aggregate) list" where
  "group_entries entries = fold group_entry entries []"

definition aggregate_issues :: "agg_codes \<Rightarrow> aggregate \<Rightarrow> inv_code issue list" where
  "aggregate_issues codes a =
     (let onHand = column_units (bal_onHandQuantity (ag_balance a));
          reserved = column_units (bal_reservedQuantity (ag_balance a));
          available = column_units (bal_availableQuantity (ag_balance a));
          after = onHand + ag_delta a
      in push_if (ag_totalOut a > 0 \<and> (onHand < ag_totalOut a \<or> available < ag_totalOut a))
           (insufficientCode codes) 409
         @ push_if (after < 0 \<or> after < reserved) (unsafeCode codes) 409
         @ (case rejectZeroCode codes of None \<Rightarrow> []
            | Some zc \<Rightarrow> push_if (ag_delta a = 0) zc 422))"

definition aggregate_impact :: "agg_codes \<Rightarrow> aggregate \<Rightarrow> balance_impact list" where
  "aggregate_impact codes a =
     (let onHand = column_units (bal_onHandQuantity (ag_balance a));
          reserved = column_units (bal_reservedQuantity (ag_balance a));
          available = column_units (bal_availableQuantity (ag_balance a));
          after = onHand + ag_delta a
      in if ag_delta a = 0 \<and> rejectZeroCode codes \<noteq> None then []
         else [\<lparr>bi_balanceId = bal_id (ag_balance a),
                bi_roles = js_sort (\<le>) (js_unique (ag_roles a)),
                bi_version = bal_version (ag_balance a),
                bi_onHandBefore = onHand, bi_onHandAfter = after,
                bi_reservedBefore = reserved, bi_reservedAfter = reserved,
                bi_availableBefore = available, bi_availableAfter = after - reserved,
                bi_quantity = ag_delta a,
                bi_totals = Some (ag_totalIn a, ag_totalOut a),
                bi_lineIds = js_sort (\<le>) (js_unique (ag_lineIds a)),
                bi_legIds = js_sort (\<le>) (js_unique (ag_legIds a))\<rparr>])"

definition aggregateBalanceImpacts ::
  "(string \<Rightarrow> string \<Rightarrow> bool) \<Rightarrow> agg_codes \<Rightarrow> raw_impact list
   \<Rightarrow> inv_code issue list \<times> balance_impact list" where
  "aggregateBalanceImpacts le codes entries =
     (let aggregates = js_sort (\<lambda>a b. le (bal_id (ag_balance a)) (bal_id (ag_balance b)))
                         (map snd (group_entries entries))
      in (concat (map (aggregate_issues codes) aggregates),
          concat (map (aggregate_impact codes) aggregates)))"

section \<open>The original movement of a line\<close>

definition sameUnits :: "int option \<Rightarrow> int \<Rightarrow> bool" where
  "sameUnits actual expected \<longleftrightarrow> column_units actual = expected"

text \<open>The document's own posting batch: \<open>text(x) && text(x) === text(document.metadata?.postingBatchId)\<close>\<close>

definition same_batch :: "string option \<Rightarrow> string option \<Rightarrow> bool" where
  "same_batch actual expected \<longleftrightarrow> js_text actual \<noteq> [] \<and> js_text actual = js_text expected"

text \<open>A nullable id is falsy when it is null or empty.\<close>

definition falsy :: "string option \<Rightarrow> bool" where
  "falsy v \<longleftrightarrow> v = None \<or> v = Some []"

definition validTransferOriginal ::
  "movement option \<Rightarrow> stock_transfer \<Rightarrow> transfer_line \<Rightarrow> transfer_leg \<Rightarrow> bool" where
  "validTransferOriginal movement transfer line leg =
     (case movement of None \<Rightarrow> False | Some m \<Rightarrow>
        let source = (leg_direction leg = ''source'')
        in mov_tenantId m = trf_tenantId transfer
         \<and> mov_sourceDocumentType m = Some ''StockTransferDocument''
         \<and> mov_sourceDocumentId m = Some (trf_id transfer)
         \<and> mov_sourceDocumentLineId m = Some (leg_id leg)
         \<and> mov_movementType m = (if source then ''stock_transfer_out'' else ''stock_transfer_in'')
         \<and> mov_itemId m = Some (tl_itemId line)
         \<and> mov_sku m = tl_sku line
         \<and> mov_warehouseId m = Some (leg_warehouseId leg)
         \<and> js_trim (mov_locationKey m) = js_trim (leg_locationKey leg)
         \<and> sameUnits (mov_quantityIn m) (if source then 0 else tl_quantity line)
         \<and> sameUnits (mov_quantityOut m) (if source then tl_quantity line else 0)
         \<and> sameUnits (mov_adjustmentQty m) 0
         \<and> same_batch (mov_postingBatchId m) (trf_postingBatchId transfer)
         \<and> js_text (mov_balanceId m) \<noteq> []
         \<and> falsy (mov_reversedByMovementId m))"

definition validAdjustmentOriginal ::
  "movement option \<Rightarrow> adjustment \<Rightarrow> adjustment_line \<Rightarrow> bool" where
  "validAdjustmentOriginal movement adjustment line =
     (let delta = al_adjustmentQuantity line
      in case movement of None \<Rightarrow> False | Some m \<Rightarrow>
           mov_tenantId m = adj_tenantId adjustment
         \<and> mov_sourceDocumentType m = Some ''InventoryAdjustmentDocument''
         \<and> mov_sourceDocumentId m = Some (adj_id adjustment)
         \<and> mov_sourceDocumentLineId m = Some (al_id line)
         \<and> mov_movementType m = ''inventory_adjustment''
         \<and> mov_itemId m = al_itemId line
         \<and> mov_sku m = al_sku line
         \<and> mov_warehouseId m = Some (al_warehouseId line)
         \<and> js_trim (mov_locationKey m) = js_trim (al_locationKey line)
         \<and> sameUnits (mov_adjustmentQty m) delta
         \<and> sameUnits (mov_quantityIn m) (if delta > 0 then delta else 0)
         \<and> sameUnits (mov_quantityOut m) (if delta < 0 then - delta else 0)
         \<and> js_text (mov_balanceId m) = al_inventoryBalanceId line
         \<and> same_batch (mov_postingBatchId m) (adj_postingBatchId adjustment)
         \<and> falsy (mov_reversedByMovementId m))"

section \<open>Stock transfers\<close>

definition routeKey :: "transfer_leg \<Rightarrow> string" where
  "routeKey row = js_trim (leg_warehouseId row) @ ''|'' @ js_trim (leg_locationKey row)"

definition balance_key :: "string \<Rightarrow> string \<Rightarrow> string \<Rightarrow> string" where
  "balance_key sku warehouse location = sku @ ''|'' @ warehouse @ ''|'' @ location"

definition raw_leg_impact :: "balance \<Rightarrow> int \<Rightarrow> string \<Rightarrow> transfer_line \<Rightarrow> transfer_leg \<Rightarrow> raw_impact" where
  "raw_leg_impact balance delta role line leg =
     \<lparr>ri_balance = balance, ri_delta = delta, ri_role = Some role,
      ri_lineId = Some (tl_id line), ri_legId = Some (leg_id leg)\<rparr>"

definition leg_fact ::
  "string \<Rightarrow> balance \<Rightarrow> string option \<Rightarrow> int \<Rightarrow> int \<Rightarrow> transfer_line \<Rightarrow> transfer_leg \<Rightarrow> movement_fact" where
  "leg_fact movementType balance originalId qIn qOut line leg =
     \<lparr>mf_movementType = movementType, mf_lineId = tl_id line, mf_legId = Some (leg_id leg),
      mf_balanceId = bal_id balance, mf_originalMovementId = originalId,
      mf_itemId = Some (tl_itemId line), mf_sku = tl_sku line, mf_itemName = Some (tl_itemName line),
      mf_warehouseId = leg_warehouseId leg, mf_location = leg_location leg,
      mf_locationKey = leg_locationKey leg, mf_quantityIn = qIn, mf_quantityOut = qOut,
      mf_adjustmentQty = 0, mf_unit = tl_unit line\<rparr>"

text \<open>The body of the loop over the lines of a transfer that is to be posted.\<close>

definition transfer_posting_line ::
  "balance list \<Rightarrow> transfer_line \<Rightarrow> inv_code issue list \<times> raw_impact list \<times> movement_fact list" where
  "transfer_posting_line balances line =
     (let balanceMap = last_by (\<lambda>r. balance_key (bal_sku r) (bal_warehouseKey r) (bal_locationKey r)) balances;
          source = List.find (\<lambda>leg. leg_direction leg = ''source'') (tl_legs line);
          destination = List.find (\<lambda>leg. leg_direction leg = ''destination'') (tl_legs line);
          quantity = tl_quantity line
      in case (source, destination) of
           (Some src, Some dst) \<Rightarrow>
             if routeKey src = routeKey dst then ([Issue TRANSFER_INVALID_ROUTE 422], [], [])
             else
               let sourceBalance = balanceMap (balance_key (tl_sku line) (leg_warehouseId src) (leg_locationKey src));
                   destinationBalance = balanceMap (balance_key (tl_sku line) (leg_warehouseId dst) (leg_locationKey dst));
                   missing = push_if (sourceBalance = None) TRANSFER_SOURCE_BALANCE_NOT_FOUND 409
                           @ push_if (destinationBalance = None) TRANSFER_DESTINATION_BALANCE_NOT_FOUND 409
               in (case (sourceBalance, destinationBalance) of
                     (Some sb, Some db) \<Rightarrow>
                       (push_if (quantity \<le> 0) TRANSFER_INVALID_ROUTE 422,
                        [raw_leg_impact sb (- quantity) ''source'' line src,
                         raw_leg_impact db quantity ''destination'' line dst],
                        [leg_fact ''stock_transfer_out'' sb None 0 quantity line src,
                         leg_fact ''stock_transfer_in'' db None quantity 0 line dst])
                   | _ \<Rightarrow> (missing, [], []))
         | _ \<Rightarrow> ([Issue TRANSFER_INVALID_ROUTE 422], [], []))"

definition transfer_keys :: "stock_transfer \<Rightarrow> (string \<times> string \<times> string) list" where
  "transfer_keys transfer =
     concat (map (\<lambda>line. map (\<lambda>leg. (tl_sku line, leg_warehouseId leg, leg_locationKey leg)) (tl_legs line))
       (trf_lines transfer))"

definition transfer_posting_codes :: agg_codes where
  "transfer_posting_codes =
     \<lparr>insufficientCode = TRANSFER_INSUFFICIENT_AVAILABLE, unsafeCode = TRANSFER_INSUFFICIENT_AVAILABLE,
      rejectZeroCode = None\<rparr>"

definition buildStockTransferPostingPlan ::
  "(string \<Rightarrow> string \<Rightarrow> bool) \<Rightarrow> 's inventory_tx \<Rightarrow> 's \<Rightarrow> string \<Rightarrow> string \<Rightarrow> stock_transfer inv_plan" where
  "buildStockTransferPostingPlan le tx s tenantId transferId =
     (case tx_findTransfer tx s tenantId (js_trim transferId) of
        None \<Rightarrow> result [Issue TRANSFER_NOT_FOUND 404] None
      | Some transfer \<Rightarrow>
          let keys = transfer_keys transfer;
              balances = (if keys = [] then [] else tx_findBalancesByKey tx s tenantId keys);
              bodies = map (transfer_posting_line balances) (trf_lines transfer);
              raw = concat (map (fst \<circ> snd) bodies);
              (aggIssues, impacts) = aggregateBalanceImpacts le transfer_posting_codes raw
          in \<lparr>ip_blockingIssues =
                push_if (trf_workflowStatus transfer \<noteq> ''ready'' \<or> trf_postingStatus transfer \<noteq> ''unposted'')
                  INVENTORY_OPERATION_INVALID_STATE 409
                @ concat (map fst bodies) @ aggIssues,
              ip_document = Some transfer, ip_expectedVersion = Some (trf_version transfer),
              ip_balanceImpacts = impacts,
              ip_movementFacts = concat (map (snd \<circ> snd) bodies),
              ip_postingStatusAfter = Some ''posted''\<rparr>)"

text \<open>The body of the loop over the legs of a transfer that is to be reversed.\<close>

definition transfer_reversal_leg ::
  "movement list \<Rightarrow> balance list \<Rightarrow> stock_transfer \<Rightarrow> transfer_line \<Rightarrow> transfer_leg
   \<Rightarrow> inv_code issue list \<times> raw_impact list \<times> movement_fact list" where
  "transfer_reversal_leg movements balances transfer line leg =
     (let originals = filter (\<lambda>m. mov_sourceDocumentLineId m = Some (leg_id leg)) movements;
          original = (case originals of [] \<Rightarrow> None | m # _ \<Rightarrow> Some m)
      in case original of
           None \<Rightarrow> ([Issue TRANSFER_REVERSAL_NOT_SAFE 409], [], [])
         | Some orig \<Rightarrow>
             if length originals \<noteq> 1 \<or> \<not> validTransferOriginal original transfer line leg
             then ([Issue TRANSFER_REVERSAL_NOT_SAFE 409], [], [])
             else
               (case last_by bal_id balances (js_text (mov_balanceId orig)) of
                  None \<Rightarrow> ([Issue TRANSFER_REVERSAL_NOT_SAFE 409], [], [])
                | Some balance \<Rightarrow>
                    if bal_id balance \<noteq> js_text (mov_balanceId orig)
                       \<or> bal_itemId balance \<noteq> Some (tl_itemId line)
                       \<or> bal_sku balance \<noteq> tl_sku line
                       \<or> bal_warehouseId balance \<noteq> Some (leg_warehouseId leg)
                       \<or> js_trim (bal_locationKey balance) \<noteq> js_trim (leg_locationKey leg)
                    then ([Issue TRANSFER_REVERSAL_NOT_SAFE 409], [], [])
                    else
                      let quantity = tl_quantity line;
                          source = (leg_direction leg = ''source'')
                      in ([],
                          [raw_leg_impact balance (if source then quantity else - quantity)
                             (if source then ''source'' else ''destination'') line leg],
                          [leg_fact (if source then ''stock_transfer_reversal_in'' else ''stock_transfer_reversal_out'')
                             balance (Some (mov_id orig)) (if source then quantity else 0)
                             (if source then 0 else quantity) line leg])))"

text \<open>The balances of the movements: \<open>movements.map(row => row.metadata?.balanceId).filter(Boolean)\<close>\<close>

definition movement_balance_ids :: "movement list \<Rightarrow> string list" where
  "movement_balance_ids movements =
     concat (map (\<lambda>m. case mov_balanceId m of None \<Rightarrow> [] | Some b \<Rightarrow> if b = [] then [] else [b]) movements)"

definition transfer_reversal_codes :: agg_codes where
  "transfer_reversal_codes =
     \<lparr>insufficientCode = TRANSFER_REVERSAL_NOT_SAFE, unsafeCode = TRANSFER_REVERSAL_NOT_SAFE,
      rejectZeroCode = None\<rparr>"

definition buildStockTransferReversalPlan ::
  "(string \<Rightarrow> string \<Rightarrow> bool) \<Rightarrow> 's inventory_tx \<Rightarrow> 's \<Rightarrow> string \<Rightarrow> string \<Rightarrow> stock_transfer inv_plan" where
  "buildStockTransferReversalPlan le tx s tenantId transferId =
     (case tx_findTransfer tx s tenantId (js_trim transferId) of
        None \<Rightarrow> result [Issue TRANSFER_NOT_FOUND 404] None
      | Some transfer \<Rightarrow>
          let legIds = concat (map (\<lambda>line. map leg_id (tl_legs line)) (trf_lines transfer));
              movements = tx_findMovements tx s tenantId (trf_id transfer) (Some legIds);
              balanceIds = movement_balance_ids movements;
              balances = (if balanceIds = [] then [] else tx_findBalancesById tx s tenantId balanceIds);
              bodies = concat (map (\<lambda>line. map (transfer_reversal_leg movements balances transfer line) (tl_legs line))
                         (trf_lines transfer));
              raw = concat (map (fst \<circ> snd) bodies);
              (aggIssues, impacts) = aggregateBalanceImpacts le transfer_reversal_codes raw
          in \<lparr>ip_blockingIssues =
                push_if (trf_postingStatus transfer \<noteq> ''posted'')
                  (if trf_postingStatus transfer = ''reversed'' then TRANSFER_ALREADY_REVERSED
                   else TRANSFER_ALREADY_POSTED) 409
                @ concat (map fst bodies) @ aggIssues,
              ip_document = Some transfer, ip_expectedVersion = Some (trf_version transfer),
              ip_balanceImpacts = impacts,
              ip_movementFacts = concat (map (snd \<circ> snd) bodies),
              ip_postingStatusAfter = Some ''reversed''\<rparr>)"

definition buildStockTransferCancellationPlan ::
  "'s inventory_tx \<Rightarrow> 's \<Rightarrow> string \<Rightarrow> string \<Rightarrow> string option \<Rightarrow> stock_transfer inv_plan" where
  "buildStockTransferCancellationPlan tx s tenantId transferId reason =
     (let found = tx_findTransfer tx s tenantId (js_trim transferId)
      in result
           ((case found of None \<Rightarrow> [Issue TRANSFER_NOT_FOUND 404]
             | Some transfer \<Rightarrow>
                 push_if (trf_workflowStatus transfer \<notin> {''draft'', ''ready''}
                          \<or> trf_postingStatus transfer \<noteq> ''unposted'') INVENTORY_OPERATION_INVALID_STATE 409)
            @ push_if (js_text reason = []) INVENTORY_OPERATION_INVALID_STATE 422)
           found)"

section \<open>Cycle counts\<close>

definition buildCycleCountSubmissionPlan ::
  "'s inventory_tx \<Rightarrow> 's \<Rightarrow> string \<Rightarrow> string \<Rightarrow> count_session inv_plan" where
  "buildCycleCountSubmissionPlan tx s tenantId countSessionId =
     (let found = tx_findCount tx s tenantId (js_trim countSessionId)
      in result
           (case found of None \<Rightarrow> [Issue COUNT_NOT_FOUND 404]
            | Some session \<Rightarrow>
                push_if (cs_workflowStatus session \<notin> {''draft'', ''in_progress''}) COUNT_INVALID_STATE 409
                @ push_if (list_ex (\<lambda>line. cl_countedQuantity line = None) (cs_lines session))
                    COUNT_LINE_INCOMPLETE 409)
           found)"

definition buildCycleCountReviewPlan ::
  "'s inventory_tx \<Rightarrow> 's \<Rightarrow> string \<Rightarrow> string \<Rightarrow> count_session inv_plan" where
  "buildCycleCountReviewPlan tx s tenantId countSessionId =
     (let found = tx_findCount tx s tenantId (js_trim countSessionId)
      in result
           (case found of None \<Rightarrow> [Issue COUNT_NOT_FOUND 404]
            | Some session \<Rightarrow>
                push_if (cs_workflowStatus session \<noteq> ''submitted'') COUNT_INVALID_STATE 409)
           found)"

text \<open>The body of the loop over the lines of a count that is to be posted.\<close>

definition count_posting_line ::
  "balance list \<Rightarrow> count_line \<Rightarrow> inv_code issue list \<times> balance_impact list \<times> movement_fact list" where
  "count_posting_line balances line =
     (case last_by bal_id balances (cl_inventoryBalanceId line) of
        None \<Rightarrow> ([Issue COUNT_BALANCE_CHANGED 409], [], [])
      | Some balance \<Rightarrow>
          if bal_version balance \<noteq> cl_recordedBalanceVersion line
             \<or> column_units (bal_onHandQuantity balance) \<noteq> cl_recordedOnHandQuantity line
             \<or> column_units (bal_reservedQuantity balance) \<noteq> cl_recordedReservedQuantity line
             \<or> column_units (bal_availableQuantity balance) \<noteq> cl_recordedAvailableQuantity line
          then ([Issue COUNT_BALANCE_CHANGED 409], [], [])
          else
            (case cl_countedQuantity line of
               None \<Rightarrow> ([Issue COUNT_LINE_INCOMPLETE 409], [], [])
             | Some counted \<Rightarrow>
                 let recorded = cl_recordedOnHandQuantity line;
                     reserved = column_units (bal_reservedQuantity balance);
                     variance = counted - recorded
                 in (push_if (counted < reserved) COUNT_BELOW_RESERVED_NOT_SAFE 409,
                     [\<lparr>bi_balanceId = bal_id balance, bi_roles = [], bi_version = bal_version balance,
                       bi_onHandBefore = recorded, bi_onHandAfter = counted,
                       bi_reservedBefore = reserved, bi_reservedAfter = reserved,
                       bi_availableBefore = recorded - reserved, bi_availableAfter = counted - reserved,
                       bi_quantity = variance, bi_totals = None,
                       bi_lineIds = [cl_id line], bi_legIds = []\<rparr>],
                     if variance = 0 then []
                     else [\<lparr>mf_movementType = ''cycle_count_adjustment'', mf_lineId = cl_id line,
                            mf_legId = None, mf_balanceId = bal_id balance, mf_originalMovementId = None,
                            mf_itemId = cl_itemId line, mf_sku = cl_sku line, mf_itemName = cl_itemName line,
                            mf_warehouseId = cl_warehouseId line, mf_location = cl_location line,
                            mf_locationKey = cl_locationKey line,
                            mf_quantityIn = (if variance > 0 then variance else 0),
                            mf_quantityOut = (if variance < 0 then - variance else 0),
                            mf_adjustmentQty = variance, mf_unit = cl_unit line\<rparr>])))"

definition buildCycleCountPostingPlan ::
  "'s inventory_tx \<Rightarrow> 's \<Rightarrow> string \<Rightarrow> string \<Rightarrow> count_session inv_plan" where
  "buildCycleCountPostingPlan tx s tenantId countSessionId =
     (case tx_findCount tx s tenantId (js_trim countSessionId) of
        None \<Rightarrow> result [Issue COUNT_NOT_FOUND 404] None
      | Some session \<Rightarrow>
          let balances = tx_findBalancesById tx s tenantId (map cl_inventoryBalanceId (cs_lines session));
              bodies = map (count_posting_line balances) (cs_lines session)
          in \<lparr>ip_blockingIssues =
                push_if (cs_workflowStatus session \<noteq> ''reviewed'') COUNT_REVIEW_REQUIRED 409
                @ concat (map fst bodies),
              ip_document = Some session, ip_expectedVersion = Some (cs_version session),
              ip_balanceImpacts = concat (map (fst \<circ> snd) bodies),
              ip_movementFacts = concat (map (snd \<circ> snd) bodies),
              ip_postingStatusAfter = None\<rparr>)"

section \<open>Inventory adjustments\<close>

definition adjustment_raw :: "balance \<Rightarrow> int \<Rightarrow> adjustment_line \<Rightarrow> raw_impact" where
  "adjustment_raw balance delta line =
     \<lparr>ri_balance = balance, ri_delta = delta, ri_role = None, ri_lineId = Some (al_id line), ri_legId = None\<rparr>"

definition adjustment_fact ::
  "string \<Rightarrow> balance \<Rightarrow> string option \<Rightarrow> int \<Rightarrow> adjustment_line \<Rightarrow> movement_fact" where
  "adjustment_fact movementType balance originalId delta line =
     \<lparr>mf_movementType = movementType, mf_lineId = al_id line, mf_legId = None,
      mf_balanceId = bal_id balance, mf_originalMovementId = originalId,
      mf_itemId = al_itemId line, mf_sku = al_sku line, mf_itemName = al_itemName line,
      mf_warehouseId = al_warehouseId line, mf_location = al_location line,
      mf_locationKey = al_locationKey line,
      mf_quantityIn = (if delta > 0 then delta else 0),
      mf_quantityOut = (if delta < 0 then - delta else 0),
      mf_adjustmentQty = delta, mf_unit = al_unit line\<rparr>"

definition adjustment_posting_line ::
  "balance list \<Rightarrow> adjustment_line \<Rightarrow> inv_code issue list \<times> raw_impact list \<times> movement_fact list" where
  "adjustment_posting_line balances line =
     (case last_by bal_id balances (al_inventoryBalanceId line) of
        None \<Rightarrow> ([Issue ADJUSTMENT_NOT_FOUND 404], [], [])
      | Some balance \<Rightarrow>
          let delta = al_adjustmentQuantity line
          in ([], [adjustment_raw balance delta line],
              [adjustment_fact ''inventory_adjustment'' balance None delta line]))"

definition adjustment_posting_codes :: agg_codes where
  "adjustment_posting_codes =
     \<lparr>insufficientCode = ADJUSTMENT_BELOW_RESERVED_NOT_SAFE, unsafeCode = ADJUSTMENT_BELOW_RESERVED_NOT_SAFE,
      rejectZeroCode = Some ADJUSTMENT_NET_ZERO_NOT_ALLOWED\<rparr>"

definition buildInventoryAdjustmentPostingPlan ::
  "(string \<Rightarrow> string \<Rightarrow> bool) \<Rightarrow> 's inventory_tx \<Rightarrow> 's \<Rightarrow> string \<Rightarrow> string \<Rightarrow> adjustment inv_plan" where
  "buildInventoryAdjustmentPostingPlan le tx s tenantId adjustmentId =
     (case tx_findAdjustment tx s tenantId (js_trim adjustmentId) of
        None \<Rightarrow> result [Issue ADJUSTMENT_NOT_FOUND 404] None
      | Some adjustment \<Rightarrow>
          let balances = tx_findBalancesById tx s tenantId (map al_inventoryBalanceId (adj_lines adjustment));
              bodies = map (adjustment_posting_line balances) (adj_lines adjustment);
              raw = concat (map (fst \<circ> snd) bodies);
              (aggIssues, impacts) = aggregateBalanceImpacts le adjustment_posting_codes raw
          in \<lparr>ip_blockingIssues =
                push_if (adj_workflowStatus adjustment \<noteq> ''ready'' \<or> adj_postingStatus adjustment \<noteq> ''unposted'')
                  ADJUSTMENT_INVALID_STATE 409
                @ concat (map fst bodies) @ aggIssues,
              ip_document = Some adjustment, ip_expectedVersion = Some (adj_version adjustment),
              ip_balanceImpacts = impacts,
              ip_movementFacts = concat (map (snd \<circ> snd) bodies),
              ip_postingStatusAfter = None\<rparr>)"

definition adjustment_reversal_line ::
  "movement list \<Rightarrow> balance list \<Rightarrow> adjustment \<Rightarrow> adjustment_line
   \<Rightarrow> inv_code issue list \<times> raw_impact list \<times> movement_fact list" where
  "adjustment_reversal_line movements balances adjustment line =
     (let originals = filter (\<lambda>m. mov_sourceDocumentLineId m = Some (al_id line)) movements;
          original = (case originals of [] \<Rightarrow> None | m # _ \<Rightarrow> Some m)
      in case (original, last_by bal_id balances (al_inventoryBalanceId line)) of
           (Some orig, Some balance) \<Rightarrow>
             if length originals \<noteq> 1
                \<or> \<not> validAdjustmentOriginal original adjustment line
                \<or> bal_itemId balance \<noteq> al_itemId line
                \<or> bal_sku balance \<noteq> al_sku line
                \<or> bal_warehouseId balance \<noteq> Some (al_warehouseId line)
                \<or> js_trim (bal_locationKey balance) \<noteq> js_trim (al_locationKey line)
             then ([Issue ADJUSTMENT_REVERSAL_NOT_SAFE 409], [], [])
             else
               let reverseDelta = - al_adjustmentQuantity line
               in ([], [adjustment_raw balance reverseDelta line],
                   [adjustment_fact ''inventory_adjustment_reversal'' balance (Some (mov_id orig)) reverseDelta line])
         | _ \<Rightarrow> ([Issue ADJUSTMENT_REVERSAL_NOT_SAFE 409], [], []))"

definition adjustment_reversal_codes :: agg_codes where
  "adjustment_reversal_codes =
     \<lparr>insufficientCode = ADJUSTMENT_REVERSAL_NOT_SAFE, unsafeCode = ADJUSTMENT_REVERSAL_NOT_SAFE,
      rejectZeroCode = Some ADJUSTMENT_REVERSAL_NOT_SAFE\<rparr>"

definition buildInventoryAdjustmentReversalPlan ::
  "(string \<Rightarrow> string \<Rightarrow> bool) \<Rightarrow> 's inventory_tx \<Rightarrow> 's \<Rightarrow> string \<Rightarrow> string \<Rightarrow> adjustment inv_plan" where
  "buildInventoryAdjustmentReversalPlan le tx s tenantId adjustmentId =
     (case tx_findAdjustment tx s tenantId (js_trim adjustmentId) of
        None \<Rightarrow> result [Issue ADJUSTMENT_NOT_FOUND 404] None
      | Some adjustment \<Rightarrow>
          let movements = tx_findMovements tx s tenantId (adj_id adjustment) None;
              balances = tx_findBalancesById tx s tenantId (map al_inventoryBalanceId (adj_lines adjustment));
              bodies = map (adjustment_reversal_line movements balances adjustment) (adj_lines adjustment);
              raw = concat (map (fst \<circ> snd) bodies);
              (aggIssues, impacts) = aggregateBalanceImpacts le adjustment_reversal_codes raw
          in \<lparr>ip_blockingIssues =
                push_if (adj_postingStatus adjustment \<noteq> ''posted'')
                  (if adj_postingStatus adjustment = ''reversed'' then ADJUSTMENT_ALREADY_REVERSED
                   else ADJUSTMENT_ALREADY_POSTED) 409
                @ concat (map fst bodies) @ aggIssues,
              ip_document = Some adjustment, ip_expectedVersion = Some (adj_version adjustment),
              ip_balanceImpacts = impacts,
              ip_movementFacts = concat (map (snd \<circ> snd) bodies),
              ip_postingStatusAfter = None\<rparr>)"

definition buildInventoryAdjustmentCancellationPlan ::
  "'s inventory_tx \<Rightarrow> 's \<Rightarrow> string \<Rightarrow> string \<Rightarrow> string option \<Rightarrow> adjustment inv_plan" where
  "buildInventoryAdjustmentCancellationPlan tx s tenantId adjustmentId reason =
     (let found = tx_findAdjustment tx s tenantId (js_trim adjustmentId)
      in result
           ((case found of None \<Rightarrow> [Issue ADJUSTMENT_NOT_FOUND 404]
             | Some adjustment \<Rightarrow>
                 push_if (adj_workflowStatus adjustment \<notin> {''draft'', ''ready''}
                          \<or> adj_postingStatus adjustment \<noteq> ''unposted'') ADJUSTMENT_INVALID_STATE 409)
            @ push_if (js_text reason = []) ADJUSTMENT_REASON_REQUIRED 422)
           found)"

lemmas inventory_plan_defs [plan_defs] =
  buildStockTransferPostingPlan_def buildStockTransferReversalPlan_def
  buildStockTransferCancellationPlan_def buildCycleCountSubmissionPlan_def
  buildCycleCountReviewPlan_def buildCycleCountPostingPlan_def
  buildInventoryAdjustmentPostingPlan_def buildInventoryAdjustmentReversalPlan_def
  buildInventoryAdjustmentCancellationPlan_def

section \<open>Lemmas about grouping\<close>

lemma group_entries_snoc: "group_entries (es @ [e]) = group_entry e (group_entries es)"
  by (simp add: group_entries_def)

lemma group_keys: "fst ` set (group_entries es) = (\<lambda>e. bal_id (ri_balance e)) ` set es"
  by (induction es rule: rev_induct)
    (auto simp: group_entries_snoc group_entry_def Let_def dom_update group_entries_def)

lemma group_distinct: "distinct (map fst (group_entries es))"
  by (induction es rule: rev_induct)
    (simp_all add: group_entries_snoc group_entry_def Let_def distinct_update, simp add: group_entries_def)

abbreviation at_balance :: "string \<Rightarrow> raw_impact list \<Rightarrow> raw_impact list" where
  "at_balance k \<equiv> filter (\<lambda>e. bal_id (ri_balance e) = k)"

definition aggregates_entries :: "raw_impact list \<Rightarrow> string \<Rightarrow> aggregate \<Rightarrow> bool" where
  "aggregates_entries es k a \<longleftrightarrow>
     ag_balance a \<in> ri_balance ` set (at_balance k es)
     \<and> ag_delta a = sum_list (map ri_delta (at_balance k es))
     \<and> ag_totalIn a = sum_list (map (\<lambda>e. max 0 (ri_delta e)) (at_balance k es))
     \<and> ag_totalOut a = sum_list (map (\<lambda>e. max 0 (- ri_delta e)) (at_balance k es))"

lemma group_aggregates:
  "map_of (group_entries es) k = Some a \<Longrightarrow> aggregates_entries es k a"
proof (induction es arbitrary: k a rule: rev_induct)
  case Nil
  then show ?case by (simp add: group_entries_def)
next
  case (snoc e es)
  let ?k = "bal_id (ri_balance e)"
  show ?case
  proof (cases "k = ?k")
    case False
    then have "map_of (group_entries es) k = Some a"
      using snoc.prems by (simp add: group_entries_snoc group_entry_def Let_def update_conv')
    then show ?thesis using snoc.IH False by (fastforce simp: aggregates_entries_def)
  next
    case True
    show ?thesis
    proof (cases "map_of (group_entries es) k")
      case None
      then have "k \<notin> (\<lambda>e. bal_id (ri_balance e)) ` set es"
        by (simp add: map_of_eq_None_iff group_keys)
      then have "at_balance k es = []" by (auto simp: filter_empty_conv)
      then show ?thesis using snoc.prems None True
        by (auto simp: aggregates_entries_def group_entries_snoc group_entry_def Let_def update_conv')
    next
      case (Some b)
      then show ?thesis using snoc.prems True snoc.IH [OF Some]
        by (auto simp: aggregates_entries_def group_entries_snoc group_entry_def Let_def update_conv')
    qed
  qed
qed

lemma group_member:
  assumes "(k, a) \<in> set (group_entries es)"
  shows "aggregates_entries es k a" "bal_id (ag_balance a) = k"
proof -
  have "map_of (group_entries es) k = Some a" using assms group_distinct by simp
  then show "aggregates_entries es k a" by (rule group_aggregates)
  then show "bal_id (ag_balance a) = k" by (auto simp: aggregates_entries_def)
qed

lemma aggregates_total: "aggregates_entries es k a \<Longrightarrow> ag_delta a = ag_totalIn a - ag_totalOut a"
proof -
  have "sum_list (map ri_delta xs)
      = sum_list (map (\<lambda>e. max 0 (ri_delta e)) xs) - sum_list (map (\<lambda>e. max 0 (- ri_delta e)) xs)" for xs
    by (induction xs) auto
  then show "aggregates_entries es k a \<Longrightarrow> ag_delta a = ag_totalIn a - ag_totalOut a"
    by (simp add: aggregates_entries_def)
qed

section \<open>What the aggregation guarantees\<close>

text \<open>
  The change that raw impacts, balance impacts and movement facts make to the on-hand quantity
  of the balance with id \<open>k\<close>.
\<close>

definition raw_change :: "raw_impact list \<Rightarrow> string \<Rightarrow> int" where
  "raw_change es k = sum_list (map ri_delta (at_balance k es))"

definition impact_change :: "balance_impact list \<Rightarrow> string \<Rightarrow> int" where
  "impact_change imps k = sum_list (map bi_quantity (filter (\<lambda>i. bi_balanceId i = k) imps))"

definition fact_change :: "movement_fact list \<Rightarrow> string \<Rightarrow> int" where
  "fact_change facts k =
     sum_list (map (\<lambda>f. mf_quantityIn f - mf_quantityOut f) (filter (\<lambda>f. mf_balanceId f = k) facts))"

lemma change_append [simp]:
  "raw_change (es @ es') k = raw_change es k + raw_change es' k"
  "impact_change (is @ is') k = impact_change is k + impact_change is' k"
  "fact_change (fs @ fs') k = fact_change fs k + fact_change fs' k"
  by (simp_all add: raw_change_def impact_change_def fact_change_def)

lemma change_Nil [simp]:
  "raw_change [] k = 0" "impact_change [] k = 0" "fact_change [] k = 0"
  by (simp_all add: raw_change_def impact_change_def fact_change_def)

lemma change_Cons:
  "raw_change (e # es) k = (if bal_id (ri_balance e) = k then ri_delta e else 0) + raw_change es k"
  "impact_change (i # is) k = (if bi_balanceId i = k then bi_quantity i else 0) + impact_change is k"
  "fact_change (f # fs) k =
     (if mf_balanceId f = k then mf_quantityIn f - mf_quantityOut f else 0) + fact_change fs k"
  by (simp_all add: raw_change_def impact_change_def fact_change_def)

lemma sum_list_assoc:
  "distinct (map fst m) \<Longrightarrow>
   sum_list (map (\<lambda>p. if fst p = k then f (snd p) else 0) m)
     = (case map_of m k of None \<Rightarrow> 0 | Some v \<Rightarrow> (f v :: int))"
proof (induction m)
  case (Cons p m)
  show ?case
  proof (cases "fst p = k")
    case True
    then have "map_of m k = None" using Cons.prems by (auto simp: map_of_eq_None_iff)
    then show ?thesis using Cons True by (cases p) simp
  next
    case False
    then show ?thesis using Cons by (cases p) simp
  qed
qed simp

lemma agg_change: "impact_change (snd (aggregateBalanceImpacts le codes es)) k = raw_change es k"
proof -
  have one: "impact_change (concat (map (aggregate_impact codes) as)) k
      = sum_list (map (\<lambda>a. if bal_id (ag_balance a) = k then ag_delta a else 0) as)" for as
    by (induction as) (auto simp: aggregate_impact_def Let_def change_Cons)
  have "impact_change (snd (aggregateBalanceImpacts le codes es)) k
      = sum_list (map (\<lambda>a. if bal_id (ag_balance a) = k then ag_delta a else 0) (map snd (group_entries es)))"
    by (simp only: aggregateBalanceImpacts_def Let_def snd_conv one sum_list_js_sort)
  also have "\<dots> = sum_list (map (\<lambda>p. if fst p = k then ag_delta (snd p) else 0) (group_entries es))"
    unfolding map_map by (rule arg_cong [where f = sum_list]) (auto dest: group_member(2))
  also have "\<dots> = (case map_of (group_entries es) k of None \<Rightarrow> 0 | Some a \<Rightarrow> ag_delta a)"
    by (rule sum_list_assoc [OF group_distinct])
  also have "\<dots> = raw_change es k"
  proof (cases "map_of (group_entries es) k")
    case None
    then have "k \<notin> (\<lambda>e. bal_id (ri_balance e)) ` set es" by (simp add: map_of_eq_None_iff group_keys)
    then have "at_balance k es = []" by (auto simp: filter_empty_conv)
    with None show ?thesis by (simp add: raw_change_def)
  next
    case (Some a)
    then show ?thesis using group_aggregates [OF Some] by (simp add: aggregates_entries_def raw_change_def)
  qed
  finally show ?thesis .
qed

text \<open>A balance impact follows from the balance it is for and the raw impacts on that balance.\<close>

definition impact_of :: "raw_impact list \<Rightarrow> balance \<Rightarrow> balance_impact \<Rightarrow> bool" where
  "impact_of es b i \<longleftrightarrow>
     b \<in> ri_balance ` set es \<and> bi_balanceId i = bal_id b \<and> bi_version i = bal_version b
     \<and> bi_onHandBefore i = column_units (bal_onHandQuantity b)
     \<and> bi_reservedBefore i = column_units (bal_reservedQuantity b)
     \<and> bi_availableBefore i = column_units (bal_availableQuantity b)
     \<and> bi_quantity i = raw_change es (bal_id b)
     \<and> bi_onHandAfter i = bi_onHandBefore i + bi_quantity i
     \<and> bi_reservedAfter i = bi_reservedBefore i
     \<and> bi_availableAfter i = bi_onHandAfter i - bi_reservedAfter i"

definition impact_safe :: "balance_impact \<Rightarrow> bool" where
  "impact_safe i \<longleftrightarrow> 0 \<le> bi_onHandAfter i \<and> bi_reservedAfter i \<le> bi_onHandAfter i"

lemma agg_impact_source:
  assumes "i \<in> set (snd (aggregateBalanceImpacts le codes es))"
  obtains a where "a \<in> set (map snd (group_entries es))" "i \<in> set (aggregate_impact codes a)"
  using assms unfolding aggregateBalanceImpacts_def Let_def by auto

lemma agg_impact_of:
  assumes "i \<in> set (snd (aggregateBalanceImpacts le codes es))"
  shows "\<exists>b. impact_of es b i"
proof -
  from assms obtain a where a: "a \<in> set (map snd (group_entries es))" and i: "i \<in> set (aggregate_impact codes a)"
    by (rule agg_impact_source)
  from a obtain k where k: "(k, a) \<in> set (group_entries es)" by auto
  have "impact_of es (ag_balance a) i"
    using i group_member [OF k]
    by (auto simp: impact_of_def aggregate_impact_def aggregates_entries_def raw_change_def Let_def
        split: if_splits)
  then show ?thesis by blast
qed

lemma agg_safe:
  assumes iss: "fst (aggregateBalanceImpacts le codes es) = []"
    and i: "i \<in> set (snd (aggregateBalanceImpacts le codes es))"
  shows "impact_safe i"
    and "0 < snd (the (bi_totals i)) \<longrightarrow>
      snd (the (bi_totals i)) \<le> bi_onHandBefore i \<and> snd (the (bi_totals i)) \<le> bi_availableBefore i"
proof -
  from i obtain a where a: "a \<in> set (map snd (group_entries es))" and i': "i \<in> set (aggregate_impact codes a)"
    by (rule agg_impact_source)
  have "aggregate_issues codes a = []"
    using iss a unfolding aggregateBalanceImpacts_def Let_def fst_conv concat_map_Nil set_js_sort by blast
  then have iss': "\<not> (ag_totalOut a > 0 \<and> (column_units (bal_onHandQuantity (ag_balance a)) < ag_totalOut a
        \<or> column_units (bal_availableQuantity (ag_balance a)) < ag_totalOut a))"
    "\<not> (column_units (bal_onHandQuantity (ag_balance a)) + ag_delta a < 0
        \<or> column_units (bal_onHandQuantity (ag_balance a)) + ag_delta a < column_units (bal_reservedQuantity (ag_balance a)))"
    by (simp_all add: aggregate_issues_def Let_def)
  show "impact_safe i" using iss'(2) i'
    by (auto simp: impact_safe_def aggregate_impact_def Let_def split: if_splits)
  show "0 < snd (the (bi_totals i)) \<longrightarrow>
      snd (the (bi_totals i)) \<le> bi_onHandBefore i \<and> snd (the (bi_totals i)) \<le> bi_availableBefore i"
    using iss'(1) i' by (auto simp: aggregate_impact_def Let_def split: if_splits)
qed

lemma agg_distinct: "distinct (map bi_balanceId (snd (aggregateBalanceImpacts le codes es)))"
proof -
  have one: "distinct (map (\<lambda>a. bal_id (ag_balance a)) as) \<Longrightarrow>
      distinct (map bi_balanceId (concat (map (aggregate_impact codes) as)))" for as
  proof (induction as)
    case (Cons a as)
    have "bi_balanceId ` set (concat (map (aggregate_impact codes) as)) \<subseteq> (\<lambda>a. bal_id (ag_balance a)) ` set as"
      by (auto simp: aggregate_impact_def Let_def split: if_splits)
    then show ?case using Cons by (auto simp: aggregate_impact_def Let_def)
  qed simp
  have "map (\<lambda>a. bal_id (ag_balance a)) (map snd (group_entries es)) = map fst (group_entries es)"
    by (auto dest: group_member(2))
  then have "distinct (map (\<lambda>a. bal_id (ag_balance a)) (map snd (group_entries es)))"
    by (metis group_distinct)
  then have "distinct (map (\<lambda>a. bal_id (ag_balance a))
      (js_sort (\<lambda>a b. le (bal_id (ag_balance a)) (bal_id (ag_balance b))) (map snd (group_entries es))))"
    by (metis mset_eq_imp_distinct_iff mset_js_sort mset_map)
  then show ?thesis unfolding aggregateBalanceImpacts_def Let_def snd_conv by (rule one)
qed

lemma impact_change_at:
  "distinct (map bi_balanceId imps) \<Longrightarrow> i \<in> set imps \<Longrightarrow> impact_change imps (bi_balanceId i) = bi_quantity i"
proof (induction imps)
  case (Cons j js)
  have "k \<notin> bi_balanceId ` set js \<Longrightarrow> impact_change js k = 0" for k
    unfolding impact_change_def by (subst filter_False) auto
  then show ?case using Cons by (auto simp: change_Cons)
qed simp

end
