(* ===== verification/Inventory_Service.thy ===== *)
theory Inventory_Service
  imports Inventory_Policy
begin

text \<open>
  The commands of \<open>inventory-operations-command-service.mjs\<close> that move stock or change the state
  of a document: the work functions that \<open>execute\<close> runs inside a serializable transaction.

  A work function takes the state of the transaction and returns the new one, or the error that
  makes the transaction roll back. \<open>gen n\<close> is the id that the \<open>n\<close>-th call of \<open>idFactory\<close> returns
  (call 0 made the command-execution row). \<open>UNCAUGHT_ERROR\<close> is an error that is not the
  service's own: reading a property of null, or an update of a row that is not there. Locking rows, the audit log row and the time
  stamps are not modelled.
\<close>

record actor =
  act_tenantId :: string
  act_userId :: string
  act_allWarehouses :: bool
  act_readWarehouseIds :: "string list"
  act_operateWarehouseIds :: "string list"

datatype access_level = Read | Operate

definition hasWarehouseAccess :: "actor \<Rightarrow> string option list \<Rightarrow> access_level \<Rightarrow> bool" where
  "hasWarehouseAccess actor warehouseIds level =
     (let ids = js_unique (filter (\<lambda>s. s \<noteq> []) (map js_text warehouseIds));
          granted = (case level of Operate \<Rightarrow> act_operateWarehouseIds actor
                     | Read \<Rightarrow> act_readWarehouseIds actor)
      in act_allWarehouses actor \<or> list_all (\<lambda>i. i \<in> set granted) ids)"

text \<open>
  The request: the id of the document from the route, the expected version as the number it
  converts to (\<open>None\<close> is \<open>NaN\<close>, equal to no version) and the reason.
\<close>

record payload =
  pl_id :: string
  pl_expectedVersion :: "int option"
  pl_reason :: "string option"

type_synonym 's work_result = "inv_code issue + ('s \<times> string list)"

section \<open>The loops that write\<close>

text \<open>\<open>for (const impact of plan.balanceImpacts)\<close>: guarded updates, stopping at the first that fails.\<close>

fun apply_impacts ::
  "'s inventory_tx \<Rightarrow> string \<Rightarrow> inv_code issue \<Rightarrow> balance_impact list \<Rightarrow> 's \<Rightarrow> inv_code issue + 's" where
  "apply_impacts tx tenantId conflict [] s = Inr s"
| "apply_impacts tx tenantId conflict (impact # impacts) s =
     (case tx_updateBalance tx s (bi_balanceId impact) tenantId (bi_version impact)
             (bi_onHandAfter impact) (bi_reservedAfter impact) (bi_availableAfter impact) of
        (s', n) \<Rightarrow> if n \<noteq> 1 then Inl conflict
                       else apply_impacts tx tenantId conflict impacts s')"

text \<open>The movement row made from a fact of the plan.\<close>

definition movement_row ::
  "string \<Rightarrow> string \<Rightarrow> string \<Rightarrow> string \<Rightarrow> string option \<Rightarrow> string \<Rightarrow> string option
   \<Rightarrow> movement_fact \<Rightarrow> movement" where
  "movement_row movId tenantId documentType documentId lineId postingBatchId reversalOf mf =
     \<lparr>mov_id = movId, mov_tenantId = tenantId, mov_itemId = mf_itemId mf, mov_sku = mf_sku mf,
      mov_itemName = mf_itemName mf, mov_warehouseId = Some (mf_warehouseId mf),
      mov_location = (case mf_location mf of Some l \<Rightarrow> if l = [] then None else Some l | None \<Rightarrow> None),
      mov_locationKey = mf_locationKey mf, mov_movementType = mf_movementType mf,
      mov_sourceDocumentType = Some documentType, mov_sourceDocumentId = Some documentId,
      mov_sourceDocumentLineId = lineId, mov_quantityIn = Some (mf_quantityIn mf),
      mov_quantityOut = Some (mf_quantityOut mf), mov_adjustmentQty = Some (mf_adjustmentQty mf),
      mov_status = ''posted'', mov_unit = mf_unit mf, mov_postingBatchId = Some postingBatchId,
      mov_reversalOfMovementId = reversalOf, mov_reversedByMovementId = None,
      mov_balanceId = Some (mf_balanceId mf)\<rparr>"

text \<open>\<open>for (const fact of plan.movementFacts)\<close> of a posting. \<open>n\<close> counts the calls of \<open>idFactory\<close>.\<close>

fun create_movements ::
  "'s inventory_tx \<Rightarrow> (nat \<Rightarrow> string) \<Rightarrow> (nat \<Rightarrow> movement_fact \<Rightarrow> movement) \<Rightarrow> nat
   \<Rightarrow> movement_fact list \<Rightarrow> 's \<Rightarrow> 's work_result" where
  "create_movements tx gen row n [] s = Inr (s, [])"
| "create_movements tx gen row n (mf # facts) s =
     (case tx_createMovement tx s (row n mf) of
        None \<Rightarrow> Inl (Issue INVENTORY_OPERATIONS_CONCURRENT_TRANSACTION_CONFLICT 409)
      | Some s' \<Rightarrow>
          (case create_movements tx gen row (Suc n) facts s' of
             Inl e \<Rightarrow> Inl e
           | Inr (s'', ids) \<Rightarrow> Inr (s'', gen n # ids)))"

text \<open>The same loop of a reversal, which also links the original movement to its reversal.\<close>

fun create_reversals ::
  "'s inventory_tx \<Rightarrow> (nat \<Rightarrow> string) \<Rightarrow> (nat \<Rightarrow> movement_fact \<Rightarrow> movement) \<Rightarrow> nat
   \<Rightarrow> movement_fact list \<Rightarrow> 's \<Rightarrow> 's work_result" where
  "create_reversals tx gen row n [] s = Inr (s, [])"
| "create_reversals tx gen row n (mf # facts) s =
     (case tx_createMovement tx s (row n mf) of
        None \<Rightarrow> Inl (Issue INVENTORY_OPERATIONS_CONCURRENT_TRANSACTION_CONFLICT 409)
      | Some s' \<Rightarrow>
          (case tx_setReversedBy tx s' (mf_originalMovementId mf) (gen n) of
             None \<Rightarrow> Inl (Issue UNCAUGHT_ERROR 500)
           | Some s1 \<Rightarrow>
               (case create_reversals tx gen row (Suc n) facts s1 of
                  Inl e \<Rightarrow> Inl e
                | Inr (s'', ids) \<Rightarrow> Inr (s'', gen n # ids))))"

text \<open>\<open>enforce(plan)\<close>: the first blocking issue is thrown.\<close>

definition enforce :: "'d inv_plan \<Rightarrow> inv_code issue + 'd inv_plan" where
  "enforce plan = (case ip_blockingIssues plan of [] \<Rightarrow> Inr plan | first # _ \<Rightarrow> Inl first)"

text \<open>
  \<open>lockTenantRows(tx, table, tenantId, [id])\<close>: an id that trims to nothing is not looked up, so
  the lock succeeds; otherwise the trimmed id must be a row of the tenant.
\<close>

definition lockTenantRow :: "(string \<Rightarrow> 'd option) \<Rightarrow> string \<Rightarrow> bool" where
  "lockTenantRow lookup docId \<longleftrightarrow> js_trim docId = [] \<or> lookup (js_trim docId) \<noteq> None"

text \<open>The last write of a command: the document itself. A row that is not there is an error.\<close>

definition finish :: "'s option \<Rightarrow> string list \<Rightarrow> 's work_result" where
  "finish r movementIds =
     (case r of None \<Rightarrow> Inl (Issue UNCAUGHT_ERROR 500) | Some s' \<Rightarrow> Inr (s', movementIds))"

section \<open>Stock transfers\<close>

definition transfer_warehouses :: "stock_transfer \<Rightarrow> string option list" where
  "transfer_warehouses transfer =
     concat (map (\<lambda>line. map (\<lambda>leg. Some (leg_warehouseId leg)) (tl_legs line)) (trf_lines transfer))"

definition postTransfer ::
  "(string \<Rightarrow> string \<Rightarrow> bool) \<Rightarrow> 's inventory_tx \<Rightarrow> (nat \<Rightarrow> string) \<Rightarrow> actor \<Rightarrow> payload \<Rightarrow> 's
   \<Rightarrow> 's work_result" where
  "postTransfer le tx gen actor payload s =
     (if \<not> lockTenantRow (tx_findTransfer tx s (act_tenantId actor)) (pl_id payload)
      then Inl (Issue TRANSFER_NOT_FOUND 404)
      else case tx_findTransfer tx s (act_tenantId actor) (pl_id payload) of
        None \<Rightarrow> Inl (Issue UNCAUGHT_ERROR 500)
      | Some aggregate \<Rightarrow>
          if Some (trf_version aggregate) \<noteq> pl_expectedVersion payload
          then Inl (Issue INVENTORY_OPERATION_VERSION_CONFLICT 409)
          else if \<not> hasWarehouseAccess actor (transfer_warehouses aggregate) Operate
          then Inl (Issue WAREHOUSE_SCOPE_DENIED 403)
          else
            (case enforce (buildStockTransferPostingPlan le tx s (act_tenantId actor) (trf_id aggregate)) of
               Inl e \<Rightarrow> Inl e
             | Inr plan \<Rightarrow>
                 let batch = gen 1
                 in (case apply_impacts tx (act_tenantId actor)
                            (Issue INVENTORY_OPERATIONS_CONCURRENT_TRANSACTION_CONFLICT 409)
                            (ip_balanceImpacts plan) s of
                       Inl e \<Rightarrow> Inl e
                     | Inr s1 \<Rightarrow>
                         (case create_movements tx gen
                                 (\<lambda>n mf. movement_row (gen n) (act_tenantId actor) ''StockTransferDocument''
                                    (trf_id aggregate) (mf_legId mf) batch None mf)
                                 2 (ip_movementFacts plan) s1 of
                            Inl e \<Rightarrow> Inl e
                          | Inr (s2, movementIds) \<Rightarrow>
                              finish (tx_updateTransfer tx s2 (trf_id aggregate)
                                     (\<lambda>t. t\<lparr>trf_postingStatus := ''posted'', trf_version := trf_version t + 1,
                                           trf_postingBatchId := Some batch\<rparr>))
                                   movementIds))))"

definition cancelTransfer ::
  "'s inventory_tx \<Rightarrow> actor \<Rightarrow> payload \<Rightarrow> 's \<Rightarrow> 's work_result" where
  "cancelTransfer tx actor payload s =
     (if \<not> lockTenantRow (tx_findTransfer tx s (act_tenantId actor)) (pl_id payload)
      then Inl (Issue TRANSFER_NOT_FOUND 404)
      else case enforce (buildStockTransferCancellationPlan tx s (act_tenantId actor) (pl_id payload) (pl_reason payload)) of
        Inl e \<Rightarrow> Inl e
      | Inr plan \<Rightarrow>
          (case ip_document plan of
             None \<Rightarrow> Inl (Issue UNCAUGHT_ERROR 500)
           | Some transfer \<Rightarrow>
               if Some (trf_version transfer) \<noteq> pl_expectedVersion payload
               then Inl (Issue INVENTORY_OPERATION_VERSION_CONFLICT 409)
               else finish (tx_updateTransfer tx s (pl_id payload)
                           (\<lambda>t. t\<lparr>trf_workflowStatus := ''cancelled'', trf_version := trf_version t + 1\<rparr>)) []))"

definition reverseTransfer ::
  "(string \<Rightarrow> string \<Rightarrow> bool) \<Rightarrow> 's inventory_tx \<Rightarrow> (nat \<Rightarrow> string) \<Rightarrow> actor \<Rightarrow> payload \<Rightarrow> 's
   \<Rightarrow> 's work_result" where
  "reverseTransfer le tx gen actor payload s =
     (if js_text (pl_reason payload) = [] then Inl (Issue TRANSFER_REVERSAL_NOT_SAFE 422)
      else if \<not> lockTenantRow (tx_findTransfer tx s (act_tenantId actor)) (pl_id payload)
      then Inl (Issue TRANSFER_NOT_FOUND 404)
      else case tx_findTransfer tx s (act_tenantId actor) (pl_id payload) of
        None \<Rightarrow> Inl (Issue UNCAUGHT_ERROR 500)
      | Some aggregate \<Rightarrow>
          if Some (trf_version aggregate) \<noteq> pl_expectedVersion payload
          then Inl (Issue INVENTORY_OPERATION_VERSION_CONFLICT 409)
          else if \<not> hasWarehouseAccess actor (transfer_warehouses aggregate) Operate
          then Inl (Issue WAREHOUSE_SCOPE_DENIED 403)
          else
            (case enforce (buildStockTransferReversalPlan le tx s (act_tenantId actor) (trf_id aggregate)) of
               Inl e \<Rightarrow> Inl e
             | Inr plan \<Rightarrow>
                 let batch = gen 1
                 in (case apply_impacts tx (act_tenantId actor)
                            (Issue INVENTORY_OPERATIONS_CONCURRENT_TRANSACTION_CONFLICT 409)
                            (ip_balanceImpacts plan) s of
                       Inl e \<Rightarrow> Inl e
                     | Inr s1 \<Rightarrow>
                         (case create_reversals tx gen
                                 (\<lambda>n mf. movement_row (gen n) (act_tenantId actor) ''StockTransferDocument''
                                    (trf_id aggregate)
                                    (Some ((case mf_legId mf of Some l \<Rightarrow> l | None \<Rightarrow> ''undefined'') @ '':reversal''))
                                    batch (mf_originalMovementId mf) mf)
                                 2 (ip_movementFacts plan) s1 of
                            Inl e \<Rightarrow> Inl e
                          | Inr (s2, movementIds) \<Rightarrow>
                              finish (tx_updateTransfer tx s2 (trf_id aggregate)
                                     (\<lambda>t. t\<lparr>trf_postingStatus := ''reversed'', trf_version := trf_version t + 1\<rparr>))
                                   movementIds))))"

section \<open>Cycle counts\<close>

definition submitCount :: "'s inventory_tx \<Rightarrow> actor \<Rightarrow> payload \<Rightarrow> 's \<Rightarrow> 's work_result" where
  "submitCount tx actor payload s =
     (if \<not> lockTenantRow (tx_findCount tx s (act_tenantId actor)) (pl_id payload)
      then Inl (Issue COUNT_NOT_FOUND 404)
      else case enforce (buildCycleCountSubmissionPlan tx s (act_tenantId actor) (pl_id payload)) of
        Inl e \<Rightarrow> Inl e
      | Inr plan \<Rightarrow>
          (case ip_document plan of
             None \<Rightarrow> Inl (Issue UNCAUGHT_ERROR 500)
           | Some session \<Rightarrow>
               if \<not> hasWarehouseAccess actor [Some (cs_warehouseId session)] Operate
               then Inl (Issue WAREHOUSE_SCOPE_DENIED 403)
               else if Some (cs_version session) \<noteq> pl_expectedVersion payload
               then Inl (Issue INVENTORY_OPERATION_VERSION_CONFLICT 409)
               else finish (tx_updateCount tx s (cs_id session)
                           (\<lambda>c. c\<lparr>cs_workflowStatus := ''submitted'', cs_version := cs_version c + 1\<rparr>)) []))"

definition reviewCount :: "'s inventory_tx \<Rightarrow> actor \<Rightarrow> payload \<Rightarrow> 's \<Rightarrow> 's work_result" where
  "reviewCount tx actor payload s =
     (if \<not> lockTenantRow (tx_findCount tx s (act_tenantId actor)) (pl_id payload)
      then Inl (Issue COUNT_NOT_FOUND 404)
      else case enforce (buildCycleCountReviewPlan tx s (act_tenantId actor) (pl_id payload)) of
        Inl e \<Rightarrow> Inl e
      | Inr plan \<Rightarrow>
          (case ip_document plan of
             None \<Rightarrow> Inl (Issue UNCAUGHT_ERROR 500)
           | Some session \<Rightarrow>
               if \<not> hasWarehouseAccess actor [Some (cs_warehouseId session)] Operate
               then Inl (Issue WAREHOUSE_SCOPE_DENIED 403)
               else if Some (cs_version session) \<noteq> pl_expectedVersion payload
               then Inl (Issue INVENTORY_OPERATION_VERSION_CONFLICT 409)
               else finish (tx_updateCount tx s (cs_id session)
                           (\<lambda>c. c\<lparr>cs_workflowStatus := ''reviewed'', cs_version := cs_version c + 1\<rparr>)) []))"

definition postCount ::
  "'s inventory_tx \<Rightarrow> (nat \<Rightarrow> string) \<Rightarrow> actor \<Rightarrow> payload \<Rightarrow> 's \<Rightarrow> 's work_result" where
  "postCount tx gen actor payload s =
     (if \<not> lockTenantRow (tx_findCount tx s (act_tenantId actor)) (pl_id payload)
      then Inl (Issue COUNT_NOT_FOUND 404)
      else case tx_findCount tx s (act_tenantId actor) (pl_id payload) of
        None \<Rightarrow> Inl (Issue UNCAUGHT_ERROR 500)
      | Some session \<Rightarrow>
          if \<not> hasWarehouseAccess actor [Some (cs_warehouseId session)] Operate
          then Inl (Issue WAREHOUSE_SCOPE_DENIED 403)
          else if Some (cs_version session) \<noteq> pl_expectedVersion payload
          then Inl (Issue INVENTORY_OPERATION_VERSION_CONFLICT 409)
          else
            (case enforce (buildCycleCountPostingPlan tx s (act_tenantId actor) (cs_id session)) of
               Inl e \<Rightarrow> Inl e
             | Inr plan \<Rightarrow>
                 let batch = gen 1
                 in (case apply_impacts tx (act_tenantId actor) (Issue COUNT_BALANCE_CHANGED 409)
                            (ip_balanceImpacts plan) s of
                       Inl e \<Rightarrow> Inl e
                     | Inr s1 \<Rightarrow>
                         (case create_movements tx gen
                                 (\<lambda>n mf. movement_row (gen n) (act_tenantId actor) ''CycleCountSession''
                                    (cs_id session) (Some (mf_lineId mf)) batch None mf)
                                 2 (ip_movementFacts plan) s1 of
                            Inl e \<Rightarrow> Inl e
                          | Inr (s2, movementIds) \<Rightarrow>
                              finish (tx_updateCount tx s2 (cs_id session)
                                     (\<lambda>c. c\<lparr>cs_workflowStatus := ''posted'', cs_version := cs_version c + 1,
                                           cs_postingBatchId := Some batch\<rparr>))
                                   movementIds))))"

definition cancelCount :: "'s inventory_tx \<Rightarrow> actor \<Rightarrow> payload \<Rightarrow> 's \<Rightarrow> 's work_result" where
  "cancelCount tx actor payload s =
     (if js_text (pl_reason payload) = [] then Inl (Issue COUNT_INVALID_STATE 422)
      else if \<not> lockTenantRow (tx_findCount tx s (act_tenantId actor)) (pl_id payload)
      then Inl (Issue COUNT_NOT_FOUND 404)
      else case tx_findCount tx s (act_tenantId actor) (pl_id payload) of
        None \<Rightarrow> Inl (Issue UNCAUGHT_ERROR 500)
      | Some session \<Rightarrow>
          if \<not> hasWarehouseAccess actor [Some (cs_warehouseId session)] Operate
          then Inl (Issue WAREHOUSE_SCOPE_DENIED 403)
          else if cs_workflowStatus session = ''posted'' \<or> cs_workflowStatus session = ''cancelled''
          then Inl (Issue COUNT_INVALID_STATE 409)
          else if Some (cs_version session) \<noteq> pl_expectedVersion payload
          then Inl (Issue INVENTORY_OPERATION_VERSION_CONFLICT 409)
          else finish (tx_updateCount tx s (cs_id session)
                      (\<lambda>c. c\<lparr>cs_workflowStatus := ''cancelled'', cs_version := cs_version c + 1\<rparr>)) [])"

section \<open>Inventory adjustments\<close>

definition adjustment_warehouses :: "adjustment_line list \<Rightarrow> string option list" where
  "adjustment_warehouses lines = map (\<lambda>line. Some (al_warehouseId line)) lines"

definition postAdjustment ::
  "(string \<Rightarrow> string \<Rightarrow> bool) \<Rightarrow> 's inventory_tx \<Rightarrow> (nat \<Rightarrow> string) \<Rightarrow> actor \<Rightarrow> payload \<Rightarrow> 's
   \<Rightarrow> 's work_result" where
  "postAdjustment le tx gen actor payload s =
     (if \<not> lockTenantRow (tx_findAdjustment tx s (act_tenantId actor)) (pl_id payload)
      then Inl (Issue ADJUSTMENT_NOT_FOUND 404)
      else case tx_findAdjustment tx s (act_tenantId actor) (pl_id payload) of
        None \<Rightarrow> Inl (Issue UNCAUGHT_ERROR 500)
      | Some current \<Rightarrow>
          if Some (adj_version current) \<noteq> pl_expectedVersion payload
          then Inl (Issue INVENTORY_OPERATION_VERSION_CONFLICT 409)
          else if \<not> hasWarehouseAccess actor (adjustment_warehouses (adj_lines current)) Operate
          then Inl (Issue WAREHOUSE_SCOPE_DENIED 403)
          else
            (case enforce (buildInventoryAdjustmentPostingPlan le tx s (act_tenantId actor) (adj_id current)) of
               Inl e \<Rightarrow> Inl e
             | Inr plan \<Rightarrow>
                 let batch = gen 1
                 in (case apply_impacts tx (act_tenantId actor)
                            (Issue INVENTORY_OPERATIONS_CONCURRENT_TRANSACTION_CONFLICT 409)
                            (ip_balanceImpacts plan) s of
                       Inl e \<Rightarrow> Inl e
                     | Inr s1 \<Rightarrow>
                         (case create_movements tx gen
                                 (\<lambda>n mf. movement_row (gen n) (act_tenantId actor) ''InventoryAdjustmentDocument''
                                    (adj_id current) (Some (mf_lineId mf)) batch None mf)
                                 2 (ip_movementFacts plan) s1 of
                            Inl e \<Rightarrow> Inl e
                          | Inr (s2, movementIds) \<Rightarrow>
                              finish (tx_updateAdjustment tx s2 (adj_id current)
                                     (\<lambda>a. a\<lparr>adj_postingStatus := ''posted'', adj_version := adj_version a + 1,
                                           adj_postingBatchId := Some batch\<rparr>))
                                   movementIds))))"

definition cancelAdjustment :: "'s inventory_tx \<Rightarrow> actor \<Rightarrow> payload \<Rightarrow> 's \<Rightarrow> 's work_result" where
  "cancelAdjustment tx actor payload s =
     (if \<not> lockTenantRow (tx_findAdjustment tx s (act_tenantId actor)) (pl_id payload)
      then Inl (Issue ADJUSTMENT_NOT_FOUND 404)
      else case enforce (buildInventoryAdjustmentCancellationPlan tx s (act_tenantId actor) (pl_id payload) (pl_reason payload)) of
        Inl e \<Rightarrow> Inl e
      | Inr plan \<Rightarrow>
          if \<not> hasWarehouseAccess actor (adjustment_warehouses (tx_findAdjustmentLines tx s (pl_id payload))) Operate
          then Inl (Issue WAREHOUSE_SCOPE_DENIED 403)
          else (case ip_document plan of
             None \<Rightarrow> Inl (Issue UNCAUGHT_ERROR 500)
           | Some adjustment \<Rightarrow>
               if Some (adj_version adjustment) \<noteq> pl_expectedVersion payload
               then Inl (Issue INVENTORY_OPERATION_VERSION_CONFLICT 409)
               else finish (tx_updateAdjustment tx s (pl_id payload)
                           (\<lambda>a. a\<lparr>adj_workflowStatus := ''cancelled'', adj_version := adj_version a + 1\<rparr>)) []))"

definition reverseAdjustment ::
  "(string \<Rightarrow> string \<Rightarrow> bool) \<Rightarrow> 's inventory_tx \<Rightarrow> (nat \<Rightarrow> string) \<Rightarrow> actor \<Rightarrow> payload \<Rightarrow> 's
   \<Rightarrow> 's work_result" where
  "reverseAdjustment le tx gen actor payload s =
     (if js_text (pl_reason payload) = [] then Inl (Issue ADJUSTMENT_REVERSAL_NOT_SAFE 422)
      else if \<not> lockTenantRow (tx_findAdjustment tx s (act_tenantId actor)) (pl_id payload)
      then Inl (Issue ADJUSTMENT_NOT_FOUND 404)
      else case tx_findAdjustment tx s (act_tenantId actor) (pl_id payload) of
        None \<Rightarrow> Inl (Issue UNCAUGHT_ERROR 500)
      | Some current \<Rightarrow>
          if Some (adj_version current) \<noteq> pl_expectedVersion payload
          then Inl (Issue INVENTORY_OPERATION_VERSION_CONFLICT 409)
          else if \<not> hasWarehouseAccess actor (adjustment_warehouses (adj_lines current)) Operate
          then Inl (Issue WAREHOUSE_SCOPE_DENIED 403)
          else
            (case enforce (buildInventoryAdjustmentReversalPlan le tx s (act_tenantId actor) (adj_id current)) of
               Inl e \<Rightarrow> Inl e
             | Inr plan \<Rightarrow>
                 let batch = gen 1
                 in (case apply_impacts tx (act_tenantId actor)
                            (Issue INVENTORY_OPERATIONS_CONCURRENT_TRANSACTION_CONFLICT 409)
                            (ip_balanceImpacts plan) s of
                       Inl e \<Rightarrow> Inl e
                     | Inr s1 \<Rightarrow>
                         (case create_reversals tx gen
                                 (\<lambda>n mf. movement_row (gen n) (act_tenantId actor) ''InventoryAdjustmentDocument''
                                    (adj_id current) (Some (mf_lineId mf @ '':reversal''))
                                    batch (mf_originalMovementId mf) mf)
                                 2 (ip_movementFacts plan) s1 of
                            Inl e \<Rightarrow> Inl e
                          | Inr (s2, movementIds) \<Rightarrow>
                              finish (tx_updateAdjustment tx s2 (adj_id current)
                                     (\<lambda>a. a\<lparr>adj_postingStatus := ''reversed'', adj_version := adj_version a + 1\<rparr>))
                                   movementIds))))"

end
