(* ===== verification/Inventory_Drafting.thy ===== *)
theory Inventory_Drafting
  imports Inventory_Service
begin

text \<open>
  The commands of \<open>inventory-operations-command-service.mjs\<close> that write drafts: creating and
  revising transfers, counts and adjustments, and marking them ready. They move no stock.

  Quantities arrive as text and may fail to parse; that error is not the service's own, so it is
  \<open>UNCAUGHT_ERROR\<close>. A row the database refuses to create is a unique violation, which
  \<open>execute\<close> reports as a concurrent conflict. In a transaction the lines of a document are deleted
  and created again, or updated one by one; here the document changes as a whole.
\<close>

definition units :: "string option \<Rightarrow> inv_code issue + int" where
  "units value = (case outboundDecimalUnits value of Inl e \<Rightarrow> Inl (Issue UNCAUGHT_ERROR 500) | Inr u \<Rightarrow> Inr u)"

definition locationKey :: "string option \<Rightarrow> string" where
  "locationKey value = js_lower (js_text value)"

definition assertWarehouseAccess :: "actor \<Rightarrow> string option list \<Rightarrow> access_level \<Rightarrow> inv_code issue + unit" where
  "assertWarehouseAccess actor ids level =
     fail_if (\<not> hasWarehouseAccess actor ids level) (Issue WAREHOUSE_SCOPE_DENIED 403)"

definition created :: "'s option \<Rightarrow> string list \<Rightarrow> 's work_result" where
  "created r ids =
     (case r of None \<Rightarrow> Inl (Issue INVENTORY_OPERATIONS_CONCURRENT_TRANSACTION_CONFLICT 409)
      | Some s' \<Rightarrow> Inr (s', ids))"

section \<open>Lines of a transfer\<close>

record leg_input =
  lgi_warehouseId :: "string option"
  lgi_location :: "string option"

record transfer_line_input =
  tli_itemId :: "string option"
  tli_quantity :: "string option"
  tli_source :: "leg_input option"
  tli_destination :: "leg_input option"

record route_end =
  re_warehouseId :: string
  re_location :: string
  re_locationKey :: string

record normalized_line =
  nl_itemId :: string
  nl_sku :: string
  nl_itemName :: string
  nl_unit :: "string option"
  nl_quantity :: int
  nl_source :: route_end
  nl_destination :: route_end

definition route_end_of :: "leg_input option \<Rightarrow> route_end" where
  "route_end_of leg =
     (let loc = Option.bind leg lgi_location
      in \<lparr>re_warehouseId = js_text (Option.bind leg lgi_warehouseId), re_location = js_text loc,
          re_locationKey = locationKey loc\<rparr>)"

definition same_route :: "route_end \<Rightarrow> route_end \<Rightarrow> bool" where
  "same_route a b \<longleftrightarrow>
     re_warehouseId a @ ''|'' @ re_locationKey a = re_warehouseId b @ ''|'' @ re_locationKey b"

text \<open>One iteration of \<open>lines.map\<close>; \<open>itemMap.get(id)\<close> is the last item with that id.\<close>

definition normalize_line :: "item_row list \<Rightarrow> transfer_line_input \<Rightarrow> inv_code issue + normalized_line" where
  "normalize_line items line =
     and_then (units (tli_quantity line)) (\<lambda>quantity.
       let source = route_end_of (tli_source line);
           destination = route_end_of (tli_destination line)
       in case last_by item_id items (js_text (tli_itemId line)) of
            None \<Rightarrow> Inl (Issue TRANSFER_INVALID_ROUTE 422)
          | Some item \<Rightarrow>
              if quantity \<le> 0 \<or> same_route source destination then Inl (Issue TRANSFER_INVALID_ROUTE 422)
              else Inr \<lparr>nl_itemId = item_id item, nl_sku = item_sku item, nl_itemName = item_name item,
                        nl_unit = item_unit item, nl_quantity = quantity, nl_source = source,
                        nl_destination = destination\<rparr>)"

text \<open>The balances a ready transfer needs: the first line without one decides the error.\<close>

definition line_balances :: "balance list \<Rightarrow> normalized_line \<Rightarrow> inv_code issue + unit" where
  "line_balances balances line =
     (let found = (\<lambda>e. list_ex (\<lambda>b. balance_key (bal_sku b) (bal_warehouseKey b) (bal_locationKey b)
                     = balance_key (nl_sku line) (re_warehouseId e) (re_locationKey e)) balances)
      in and_then (fail_if (\<not> found (nl_source line)) (Issue TRANSFER_SOURCE_BALANCE_NOT_FOUND 409)) (\<lambda>_.
         fail_if (\<not> found (nl_destination line)) (Issue TRANSFER_DESTINATION_BALANCE_NOT_FOUND 409)))"

definition present_ids :: "string option list \<Rightarrow> string list" where
  "present_ids vs = js_unique (filter (\<lambda>s. s \<noteq> []) (map js_text vs))"

definition validateTransferLines ::
  "'s inventory_tx \<Rightarrow> 's \<Rightarrow> actor \<Rightarrow> transfer_line_input list option \<Rightarrow> bool
   \<Rightarrow> inv_code issue + normalized_line list" where
  "validateTransferLines tx s actor input requireBalances =
     (case input of
        None \<Rightarrow> Inl (Issue TRANSFER_INVALID_ROUTE 422)
      | Some [] \<Rightarrow> Inl (Issue TRANSFER_INVALID_ROUTE 422)
      | Some lines \<Rightarrow>
          let itemIds = present_ids (map tli_itemId lines);
              warehouseIds = present_ids (concat (map (\<lambda>line.
                [Option.bind (tli_source line) lgi_warehouseId,
                 Option.bind (tli_destination line) lgi_warehouseId]) lines));
              items = tx_activeItems tx s (act_tenantId actor) itemIds;
              warehouses = tx_activeWarehouses tx s (act_tenantId actor) warehouseIds
          in and_then (fail_if (length items \<noteq> length itemIds \<or> length warehouses \<noteq> length warehouseIds)
               (Issue TRANSFER_INVALID_ROUTE 422)) (\<lambda>_.
             and_then (assertWarehouseAccess actor (map Some warehouseIds) Operate) (\<lambda>_.
             and_then (map_or_fail (normalize_line items) lines) (\<lambda>normalized.
             if requireBalances
             then and_then (map_or_fail (line_balances (tx_findBalancesByKey tx s (act_tenantId actor)
                    (concat (map (\<lambda>line. map (\<lambda>e. (nl_sku line, re_warehouseId e, re_locationKey e))
                       [nl_source line, nl_destination line]) normalized)))) normalized) (\<lambda>_. Inr normalized)
             else Inr normalized))))"

section \<open>Transfers\<close>

definition new_leg :: "string \<Rightarrow> string \<Rightarrow> route_end \<Rightarrow> transfer_leg" where
  "new_leg legId direction e =
     \<lparr>leg_id = legId, leg_direction = direction, leg_warehouseId = re_warehouseId e,
      leg_location = Some (re_location e), leg_locationKey = re_locationKey e\<rparr>"

text \<open>\<open>n\<close> counts the calls of \<open>idFactory\<close>: a line takes three.\<close>

fun new_lines :: "(nat \<Rightarrow> string) \<Rightarrow> nat \<Rightarrow> normalized_line list \<Rightarrow> transfer_line list" where
  "new_lines gen n [] = []"
| "new_lines gen n (line # lines) =
     \<lparr>tl_id = gen n, tl_itemId = nl_itemId line, tl_sku = nl_sku line, tl_itemName = nl_itemName line,
      tl_quantity = nl_quantity line, tl_unit = nl_unit line,
      tl_legs = [new_leg (gen (n + 1)) ''source'' (nl_source line),
                 new_leg (gen (n + 2)) ''destination'' (nl_destination line)]\<rparr>
     # new_lines gen (n + 3) lines"

record transfer_draft =
  td_transferNumber :: "string option"
  td_lines :: "transfer_line_input list option"

record transfer_revision =
  tr_id :: string
  tr_expectedVersion :: "int option"
  tr_expectedLineIds :: "string option list option"
  tr_revisionMode :: "string option"
  tr_lines :: "transfer_line_input list option"

definition createTransfer ::
  "'s inventory_tx \<Rightarrow> (nat \<Rightarrow> string) \<Rightarrow> actor \<Rightarrow> transfer_draft \<Rightarrow> 's \<Rightarrow> 's work_result" where
  "createTransfer tx gen actor payload s =
     (let transferNumber = js_text (td_transferNumber payload)
      in and_then (fail_if (transferNumber = []) (Issue TRANSFER_INVALID_ROUTE 422)) (\<lambda>_.
         and_then (fail_if (tx_transferNumberUsed tx s (act_tenantId actor) transferNumber)
           (Issue TRANSFER_NUMBER_CONFLICT 409)) (\<lambda>_.
         and_then (validateTransferLines tx s actor (td_lines payload) False) (\<lambda>lines.
         created (tx_createTransfer tx s
           \<lparr>trf_id = gen 1, trf_tenantId = act_tenantId actor, trf_transferNumber = transferNumber,
            trf_workflowStatus = ''draft'', trf_postingStatus = ''unposted'', trf_version = 0,
            trf_postingBatchId = None, trf_lines = new_lines gen 2 lines\<rparr>) []))))"

definition reviseTransfer ::
  "'s inventory_tx \<Rightarrow> (nat \<Rightarrow> string) \<Rightarrow> actor \<Rightarrow> transfer_revision \<Rightarrow> 's \<Rightarrow> 's work_result" where
  "reviseTransfer tx gen actor payload s =
     (if \<not> lockTenantRow (tx_findTransfer tx s (act_tenantId actor)) (tr_id payload)
      then Inl (Issue TRANSFER_NOT_FOUND 404)
      else case tx_findTransfer tx s (act_tenantId actor) (tr_id payload) of
        None \<Rightarrow> Inl (Issue UNCAUGHT_ERROR 500)
      | Some transfer \<Rightarrow>
          and_then (fail_if (trf_workflowStatus transfer \<noteq> ''draft'' \<or> trf_postingStatus transfer \<noteq> ''unposted'')
            (Issue INVENTORY_OPERATION_INVALID_STATE 409)) (\<lambda>_.
          and_then (fail_if (Some (trf_version transfer) \<noteq> tr_expectedVersion payload)
            (Issue INVENTORY_OPERATION_VERSION_CONFLICT 409)) (\<lambda>_.
          let expected = (case tr_expectedLineIds payload of None \<Rightarrow> [] | Some ids \<Rightarrow> js_sort (\<le>) (map js_text ids));
              current = js_sort (\<le>) (map tl_id (trf_lines transfer))
          in and_then (fail_if (tr_revisionMode payload \<noteq> Some ''replace_all'' \<or> expected \<noteq> current)
               (Issue INVENTORY_OPERATION_VERSION_CONFLICT 409)) (\<lambda>_.
             and_then (validateTransferLines tx s actor (tr_lines payload) False) (\<lambda>lines.
             finish (tx_updateTransfer tx s (trf_id transfer)
               (\<lambda>t. t\<lparr>trf_version := trf_version t + 1, trf_lines := new_lines gen 1 lines\<rparr>)) [])))))"

text \<open>The lines of a stored transfer as input: the leg of each direction, and the quantity as text.\<close>

definition leg_as_input :: "string \<Rightarrow> transfer_line \<Rightarrow> leg_input option" where
  "leg_as_input direction line =
     map_option (\<lambda>leg. \<lparr>lgi_warehouseId = Some (leg_warehouseId leg), lgi_location = leg_location leg\<rparr>)
       (List.find (\<lambda>leg. leg_direction leg = direction) (tl_legs line))"

definition line_as_input :: "transfer_line \<Rightarrow> transfer_line_input" where
  "line_as_input line =
     \<lparr>tli_itemId = Some (tl_itemId line), tli_quantity = Some (outboundDecimalString (tl_quantity line)),
      tli_source = leg_as_input ''source'' line, tli_destination = leg_as_input ''destination'' line\<rparr>"

definition readyTransfer :: "'s inventory_tx \<Rightarrow> actor \<Rightarrow> payload \<Rightarrow> 's \<Rightarrow> 's work_result" where
  "readyTransfer tx actor payload s =
     (if \<not> lockTenantRow (tx_findTransfer tx s (act_tenantId actor)) (pl_id payload)
      then Inl (Issue TRANSFER_NOT_FOUND 404)
      else case tx_findTransfer tx s (act_tenantId actor) (pl_id payload) of
        None \<Rightarrow> Inl (Issue UNCAUGHT_ERROR 500)
      | Some transfer \<Rightarrow>
          and_then (fail_if (trf_workflowStatus transfer \<noteq> ''draft''
              \<or> Some (trf_version transfer) \<noteq> pl_expectedVersion payload)
            (Issue INVENTORY_OPERATION_VERSION_CONFLICT 409)) (\<lambda>_.
          and_then (validateTransferLines tx s actor (Some (map line_as_input (trf_lines transfer))) True) (\<lambda>_.
          finish (tx_updateTransfer tx s (trf_id transfer)
            (\<lambda>t. t\<lparr>trf_workflowStatus := ''ready'', trf_version := trf_version t + 1\<rparr>)) [])))"

section \<open>Cycle counts\<close>

record count_draft =
  cd_countNumber :: "string option"
  cd_warehouseId :: "string option"
  cd_balanceIds :: "string option list"
  cd_blindCount :: bool

definition new_count_line :: "string \<Rightarrow> string \<Rightarrow> balance \<Rightarrow> count_line" where
  "new_count_line lineId warehouseId b =
     \<lparr>cl_id = lineId, cl_inventoryBalanceId = bal_id b, cl_itemId = bal_itemId b, cl_sku = bal_sku b,
      cl_itemName = bal_itemName b, cl_warehouseId = warehouseId, cl_location = bal_location b,
      cl_locationKey = bal_locationKey b, cl_unit = bal_unit b,
      cl_recordedOnHandQuantity = column_units (bal_onHandQuantity b),
      cl_recordedReservedQuantity = column_units (bal_reservedQuantity b),
      cl_recordedAvailableQuantity = column_units (bal_availableQuantity b),
      cl_recordedBalanceVersion = bal_version b,
      cl_countedQuantity = None, cl_varianceQuantity = None, cl_version = 0\<rparr>"

definition createCount ::
  "'s inventory_tx \<Rightarrow> (nat \<Rightarrow> string) \<Rightarrow> actor \<Rightarrow> count_draft \<Rightarrow> 's \<Rightarrow> 's work_result" where
  "createCount tx gen actor payload s =
     (let countNumber = js_text (cd_countNumber payload);
          warehouseId = js_text (cd_warehouseId payload);
          balanceIds = present_ids (cd_balanceIds payload)
      in and_then (fail_if (countNumber = [] \<or> warehouseId = [] \<or> balanceIds = [])
           (Issue COUNT_LINE_INCOMPLETE 422)) (\<lambda>_.
         and_then (assertWarehouseAccess actor [Some warehouseId] Operate) (\<lambda>_.
         and_then (fail_if (tx_activeWarehouses tx s (act_tenantId actor) [warehouseId] = [])
           (Issue COUNT_NOT_FOUND 404)) (\<lambda>_.
         and_then (fail_if (tx_countNumberUsed tx s (act_tenantId actor) countNumber)
           (Issue COUNT_NUMBER_CONFLICT 409)) (\<lambda>_.
         let balances = tx_findCountBalances tx s (act_tenantId actor) warehouseId balanceIds
         in and_then (fail_if (length balances \<noteq> length balanceIds) (Issue COUNT_NOT_FOUND 404)) (\<lambda>_.
            created (tx_createCount tx s
              \<lparr>cs_id = gen 1, cs_tenantId = act_tenantId actor, cs_countNumber = countNumber,
               cs_warehouseId = warehouseId, cs_workflowStatus = ''draft'',
               cs_blindCount = cd_blindCount payload, cs_version = 0, cs_postingBatchId = None,
               cs_lines = map (\<lambda>(n, b). new_count_line (gen n) warehouseId b) (enumerate 2 balances)\<rparr>) []))))))"

record count_entry =
  ce_countLineId :: "string option"
  ce_countedQuantity :: "string option"
  ce_expectedLineVersion :: "int option"

record count_revision =
  cr_id :: string
  cr_expectedVersion :: "int option"
  cr_counts :: "count_entry list"

definition set_counted :: "string \<Rightarrow> int \<Rightarrow> int \<Rightarrow> count_session \<Rightarrow> count_session" where
  "set_counted lineId counted variance c =
     c\<lparr>cs_lines := map (\<lambda>l. if cl_id l = lineId
        then l\<lparr>cl_countedQuantity := Some counted, cl_varianceQuantity := Some variance,
               cl_version := cl_version l + 1\<rparr> else l) (cs_lines c)\<rparr>"

text \<open>\<open>for (const entry of payload.counts)\<close>; \<open>lineMap\<close> was made before the loop.\<close>

fun count_entries ::
  "'s inventory_tx \<Rightarrow> count_session \<Rightarrow> count_entry list \<Rightarrow> 's \<Rightarrow> inv_code issue + 's" where
  "count_entries tx session [] s = Inr s"
| "count_entries tx session (entry # entries) s =
     and_then (units (ce_countedQuantity entry)) (\<lambda>counted.
       case last_by cl_id (cs_lines session) (js_text (ce_countLineId entry)) of
         None \<Rightarrow> Inl (Issue INVENTORY_OPERATION_VERSION_CONFLICT 409)
       | Some line \<Rightarrow>
           if Some (cl_version line) \<noteq> ce_expectedLineVersion entry
           then Inl (Issue INVENTORY_OPERATION_VERSION_CONFLICT 409)
           else if counted < 0 then Inl (Issue COUNT_LINE_INCOMPLETE 422)
           else
             (case tx_updateCount tx s (cs_id session)
                     (set_counted (cl_id line) counted (counted - cl_recordedOnHandQuantity line)) of
                None \<Rightarrow> Inl (Issue UNCAUGHT_ERROR 500)
              | Some s' \<Rightarrow> count_entries tx session entries s'))"

definition reviseCount :: "'s inventory_tx \<Rightarrow> actor \<Rightarrow> count_revision \<Rightarrow> 's \<Rightarrow> 's work_result" where
  "reviseCount tx actor payload s =
     (if \<not> lockTenantRow (tx_findCount tx s (act_tenantId actor)) (cr_id payload)
      then Inl (Issue COUNT_NOT_FOUND 404)
      else case tx_findCount tx s (act_tenantId actor) (cr_id payload) of
        None \<Rightarrow> Inl (Issue UNCAUGHT_ERROR 500)
      | Some session \<Rightarrow>
          and_then (assertWarehouseAccess actor [Some (cs_warehouseId session)] Operate) (\<lambda>_.
          and_then (fail_if (cs_workflowStatus session \<notin> {''draft'', ''in_progress''})
            (Issue COUNT_INVALID_STATE 409)) (\<lambda>_.
          and_then (fail_if (Some (cs_version session) \<noteq> cr_expectedVersion payload)
            (Issue INVENTORY_OPERATION_VERSION_CONFLICT 409)) (\<lambda>_.
          and_then (count_entries tx session (cr_counts payload) s) (\<lambda>s1.
          finish (tx_updateCount tx s1 (cs_id session)
            (\<lambda>c. c\<lparr>cs_workflowStatus := ''in_progress'', cs_version := cs_version c + 1\<rparr>)) [])))))"

section \<open>Adjustments\<close>

definition reasonCodes :: "string list" where
  "reasonCodes = [''damage'', ''shrinkage'', ''found_stock'', ''data_correction'',
     ''quality_disposition'', ''other'']"

record adjustment_line_input =
  ali_inventoryBalanceId :: "string option"
  ali_adjustmentQuantity :: "string option"

record adjustment_input =
  ai_reasonCode :: "string option"
  ai_notes :: "string option"
  ai_lines :: "adjustment_line_input list option"

record normalized_adjustment =
  na_reasonCode :: string
  na_notes :: "string option"
  na_lines :: "(string \<Rightarrow> adjustment_line option) list"

text \<open>
  One iteration of \<open>payload.lines.map\<close>: the line without its id. A balance that is not in the map
  is undefined. A line with a null \<open>warehouseId\<close> is no row: the database refuses to create it.
\<close>

definition adjustment_line_of ::
  "balance list \<Rightarrow> adjustment_line_input \<Rightarrow> inv_code issue + (string \<Rightarrow> adjustment_line option)" where
  "adjustment_line_of balances line =
     and_then (units (ali_adjustmentQuantity line)) (\<lambda>delta.
       if delta = 0 then Inl (Issue ADJUSTMENT_NEGATIVE_INVENTORY 422)
       else case last_by bal_id balances (js_text (ali_inventoryBalanceId line)) of
              None \<Rightarrow> Inl (Issue UNCAUGHT_ERROR 500)
            | Some balance \<Rightarrow>
                Inr (\<lambda>lineId. map_option (\<lambda>w.
                  \<lparr>al_id = lineId, al_inventoryBalanceId = bal_id balance,
                   al_itemId = bal_itemId balance, al_sku = bal_sku balance,
                   al_itemName = bal_itemName balance, al_warehouseId = w,
                   al_location = bal_location balance, al_locationKey = bal_locationKey balance,
                   al_adjustmentQuantity = delta, al_unit = bal_unit balance\<rparr>) (bal_warehouseId balance)))"

definition validateAdjustment ::
  "'s inventory_tx \<Rightarrow> 's \<Rightarrow> actor \<Rightarrow> adjustment_input \<Rightarrow> inv_code issue + normalized_adjustment" where
  "validateAdjustment tx s actor payload =
     (let reasonCode = js_text (ai_reasonCode payload);
          notes = js_text (ai_notes payload)
      in and_then (fail_if (reasonCode \<notin> set reasonCodes \<or> reasonCode = ''other'' \<and> notes = [])
           (Issue ADJUSTMENT_REASON_REQUIRED 422)) (\<lambda>_.
         case ai_lines payload of
           None \<Rightarrow> Inl (Issue ADJUSTMENT_REASON_REQUIRED 422)
         | Some [] \<Rightarrow> Inl (Issue ADJUSTMENT_REASON_REQUIRED 422)
         | Some lines \<Rightarrow>
             let ids = present_ids (map ali_inventoryBalanceId lines);
                 balances = tx_findBalancesById tx s (act_tenantId actor) ids
             in and_then (fail_if (length balances \<noteq> length ids) (Issue ADJUSTMENT_NOT_FOUND 404)) (\<lambda>_.
                and_then (assertWarehouseAccess actor (map bal_warehouseId balances) Operate) (\<lambda>_.
                and_then (map_or_fail (adjustment_line_of balances) lines) (\<lambda>normalized.
                Inr \<lparr>na_reasonCode = reasonCode, na_notes = (if notes = [] then None else Some notes),
                     na_lines = normalized\<rparr>)))))"

definition adjustment_lines ::
  "(nat \<Rightarrow> string) \<Rightarrow> nat \<Rightarrow> (string \<Rightarrow> adjustment_line option) list \<Rightarrow> inv_code issue + adjustment_line list" where
  "adjustment_lines gen n lines =
     (case those (map (\<lambda>(k, f). f (gen k)) (enumerate n lines)) of
        None \<Rightarrow> Inl (Issue UNCAUGHT_ERROR 500)
      | Some ls \<Rightarrow> Inr ls)"

definition createAdjustment ::
  "'s inventory_tx \<Rightarrow> (nat \<Rightarrow> string) \<Rightarrow> actor \<Rightarrow> string option \<Rightarrow> adjustment_input \<Rightarrow> 's \<Rightarrow> 's work_result" where
  "createAdjustment tx gen actor number payload s =
     (let adjustmentNumber = js_text number
      in and_then (fail_if (adjustmentNumber = []) (Issue ADJUSTMENT_REASON_REQUIRED 422)) (\<lambda>_.
         and_then (fail_if (tx_adjustmentNumberUsed tx s (act_tenantId actor) adjustmentNumber)
           (Issue ADJUSTMENT_NUMBER_CONFLICT 409)) (\<lambda>_.
         and_then (validateAdjustment tx s actor payload) (\<lambda>normalized.
         and_then (adjustment_lines gen 2 (na_lines normalized)) (\<lambda>lines.
         created (tx_createAdjustment tx s
           \<lparr>adj_id = gen 1, adj_tenantId = act_tenantId actor, adj_adjustmentNumber = adjustmentNumber,
            adj_reasonCode = na_reasonCode normalized, adj_notes = na_notes normalized,
            adj_workflowStatus = ''draft'', adj_postingStatus = ''unposted'', adj_version = 0,
            adj_postingBatchId = None, adj_lines = lines\<rparr>) [])))))"

definition reviseAdjustment ::
  "'s inventory_tx \<Rightarrow> (nat \<Rightarrow> string) \<Rightarrow> actor \<Rightarrow> payload \<Rightarrow> adjustment_input \<Rightarrow> 's \<Rightarrow> 's work_result" where
  "reviseAdjustment tx gen actor p payload s =
     (if \<not> lockTenantRow (tx_findAdjustment tx s (act_tenantId actor)) (pl_id p)
      then Inl (Issue ADJUSTMENT_NOT_FOUND 404)
      else case tx_findAdjustment tx s (act_tenantId actor) (pl_id p) of
        None \<Rightarrow> Inl (Issue UNCAUGHT_ERROR 500)
      | Some current \<Rightarrow>
          and_then (fail_if (adj_workflowStatus current \<noteq> ''draft''
              \<or> Some (adj_version current) \<noteq> pl_expectedVersion p)
            (Issue INVENTORY_OPERATION_VERSION_CONFLICT 409)) (\<lambda>_.
          and_then (validateAdjustment tx s actor payload) (\<lambda>normalized.
          and_then (adjustment_lines gen 1 (na_lines normalized)) (\<lambda>lines.
          finish (tx_updateAdjustment tx s (adj_id current)
            (\<lambda>a. a\<lparr>adj_reasonCode := na_reasonCode normalized, adj_notes := na_notes normalized,
                  adj_version := adj_version a + 1,
                  adj_lines := lines\<rparr>)) []))))"

definition adjustment_as_input :: "adjustment \<Rightarrow> adjustment_input" where
  "adjustment_as_input a =
     \<lparr>ai_reasonCode = Some (adj_reasonCode a), ai_notes = adj_notes a,
      ai_lines = Some (map (\<lambda>line. \<lparr>ali_inventoryBalanceId = Some (al_inventoryBalanceId line),
        ali_adjustmentQuantity = Some (outboundDecimalString (al_adjustmentQuantity line))\<rparr>) (adj_lines a))\<rparr>"

definition readyAdjustment :: "'s inventory_tx \<Rightarrow> actor \<Rightarrow> payload \<Rightarrow> 's \<Rightarrow> 's work_result" where
  "readyAdjustment tx actor payload s =
     (if \<not> lockTenantRow (tx_findAdjustment tx s (act_tenantId actor)) (pl_id payload)
      then Inl (Issue ADJUSTMENT_NOT_FOUND 404)
      else case tx_findAdjustment tx s (act_tenantId actor) (pl_id payload) of
        None \<Rightarrow> Inl (Issue UNCAUGHT_ERROR 500)
      | Some current \<Rightarrow>
          and_then (fail_if (adj_workflowStatus current \<noteq> ''draft''
              \<or> Some (adj_version current) \<noteq> pl_expectedVersion payload)
            (Issue INVENTORY_OPERATION_VERSION_CONFLICT 409)) (\<lambda>_.
          and_then (validateAdjustment tx s actor (adjustment_as_input current)) (\<lambda>_.
          finish (tx_updateAdjustment tx s (adj_id current)
            (\<lambda>a. a\<lparr>adj_workflowStatus := ''ready'', adj_version := adj_version a + 1\<rparr>)) [])))"

end
