(* ===== verification/Inventory_Commands.thy ===== *)
theory Inventory_Commands
  imports Inventory_Drafting
begin

text \<open>
  The command service as a whole: a command is a value of \<open>inventory_command\<close>, one constructor for
  each function the service exports, and \<open>run_command\<close> is the work function it runs.
\<close>

datatype inventory_command =
    Create_transfer transfer_draft
  | Revise_transfer transfer_revision
  | Ready_transfer payload
  | Post_transfer payload
  | Cancel_transfer payload
  | Reverse_transfer payload
  | Create_count count_draft
  | Revise_count count_revision
  | Submit_count payload
  | Review_count payload
  | Post_count payload
  | Cancel_count payload
  | Create_adjustment "string option" adjustment_input
  | Revise_adjustment payload adjustment_input
  | Ready_adjustment payload
  | Post_adjustment payload
  | Cancel_adjustment payload
  | Reverse_adjustment payload

text \<open>The command type under which \<open>execute\<close> records a command.\<close>

fun command_type :: "inventory_command \<Rightarrow> string" where
  "command_type (Create_transfer d) = ''create_stock_transfer''"
| "command_type (Revise_transfer r) = ''revise_stock_transfer''"
| "command_type (Ready_transfer p) = ''ready_stock_transfer''"
| "command_type (Post_transfer p) = ''post_stock_transfer''"
| "command_type (Cancel_transfer p) = ''cancel_stock_transfer''"
| "command_type (Reverse_transfer p) = ''reverse_stock_transfer''"
| "command_type (Create_count d) = ''create_cycle_count''"
| "command_type (Revise_count r) = ''revise_cycle_count''"
| "command_type (Submit_count p) = ''submit_cycle_count''"
| "command_type (Review_count p) = ''review_cycle_count''"
| "command_type (Post_count p) = ''post_cycle_count''"
| "command_type (Cancel_count p) = ''cancel_cycle_count''"
| "command_type (Create_adjustment n d) = ''create_inventory_adjustment''"
| "command_type (Revise_adjustment p d) = ''revise_inventory_adjustment''"
| "command_type (Ready_adjustment p) = ''ready_inventory_adjustment''"
| "command_type (Post_adjustment p) = ''post_inventory_adjustment''"
| "command_type (Cancel_adjustment p) = ''cancel_inventory_adjustment''"
| "command_type (Reverse_adjustment p) = ''reverse_inventory_adjustment''"

fun run_command ::
  "(string \<Rightarrow> string \<Rightarrow> bool) \<Rightarrow> 's inventory_tx \<Rightarrow> (nat \<Rightarrow> string) \<Rightarrow> actor \<Rightarrow> inventory_command \<Rightarrow> 's
   \<Rightarrow> 's work_result" where
  "run_command le tx gen actor (Create_transfer d) s = createTransfer tx gen actor d s"
| "run_command le tx gen actor (Revise_transfer r) s = reviseTransfer tx gen actor r s"
| "run_command le tx gen actor (Ready_transfer p) s = readyTransfer tx actor p s"
| "run_command le tx gen actor (Post_transfer p) s = postTransfer le tx gen actor p s"
| "run_command le tx gen actor (Cancel_transfer p) s = cancelTransfer tx actor p s"
| "run_command le tx gen actor (Reverse_transfer p) s = reverseTransfer le tx gen actor p s"
| "run_command le tx gen actor (Create_count d) s = createCount tx gen actor d s"
| "run_command le tx gen actor (Revise_count r) s = reviseCount tx actor r s"
| "run_command le tx gen actor (Submit_count p) s = submitCount tx actor p s"
| "run_command le tx gen actor (Review_count p) s = reviewCount tx actor p s"
| "run_command le tx gen actor (Post_count p) s = postCount tx gen actor p s"
| "run_command le tx gen actor (Cancel_count p) s = cancelCount tx actor p s"
| "run_command le tx gen actor (Create_adjustment n d) s = createAdjustment tx gen actor n d s"
| "run_command le tx gen actor (Revise_adjustment p d) s = reviseAdjustment tx gen actor p d s"
| "run_command le tx gen actor (Ready_adjustment p) s = readyAdjustment tx actor p s"
| "run_command le tx gen actor (Post_adjustment p) s = postAdjustment le tx gen actor p s"
| "run_command le tx gen actor (Cancel_adjustment p) s = cancelAdjustment tx actor p s"
| "run_command le tx gen actor (Reverse_adjustment p) s = reverseAdjustment le tx gen actor p s"

end
