(* ===== verification/Permission_Catalog.thy ===== *)
theory Permission_Catalog
  imports Prelude
begin

text \<open>
  The permission catalog (\<open>server/auth/permission-catalog.mjs\<close>): the codes the system knows, with
  module, resource, action, risk and the field groups they show; the field-group permissions; the
  default role templates; and the permissions that make a module visible.
\<close>

record permission =
  pm_code :: string
  pm_module :: string
  pm_resource :: string
  pm_action :: string
  pm_riskLevel :: string
  pm_fieldVisibility :: "string list"

definition permission_row :: "string \<Rightarrow> string \<Rightarrow> string \<Rightarrow> string \<Rightarrow> string \<Rightarrow> string list \<Rightarrow> permission" where
  "permission_row code module resource action risk fieldGroups =
     \<lparr>pm_code = code, pm_module = module, pm_resource = resource, pm_action = action,
      pm_riskLevel = risk, pm_fieldVisibility = fieldGroups\<rparr>"

definition definitions_operations :: "permission list" where
  "definitions_operations =
    [permission_row ''settings.workspace.read'' ''settings'' ''workspace'' ''read'' ''medium'' [],
     permission_row ''settings.workspace.manage'' ''settings'' ''workspace'' ''manage'' ''high'' [],
     permission_row ''settings.users.read'' ''settings'' ''users'' ''read'' ''medium'' [],
     permission_row ''settings.users.manage'' ''settings'' ''users'' ''manage'' ''high'' [],
     permission_row ''settings.roles.read'' ''settings'' ''roles'' ''read'' ''medium'' [],
     permission_row ''settings.roles.manage'' ''settings'' ''roles'' ''manage'' ''critical'' [],
     permission_row ''settings.roles.assign'' ''settings'' ''roles'' ''assign'' ''critical'' [],
     permission_row ''settings.numbering.read'' ''settings'' ''numbering'' ''read'' ''low'' [],
     permission_row ''settings.numbering.manage'' ''settings'' ''numbering'' ''manage'' ''high'' [],
     permission_row ''settings.review_policy.read'' ''settings'' ''review_policy'' ''read'' ''low'' [],
     permission_row ''settings.review_policy.manage'' ''settings'' ''review_policy'' ''manage'' ''high'' [],
     permission_row ''settings.modules.read'' ''settings'' ''modules'' ''read'' ''low'' [],
     permission_row ''settings.modules.manage'' ''settings'' ''modules'' ''manage'' ''high'' [],
     permission_row ''settings.import.manage'' ''settings'' ''import'' ''manage'' ''high'' [],
     permission_row ''settings.warehouse_import.manage'' ''settings'' ''warehouse_import'' ''manage'' ''critical'' [],
     permission_row ''settings.diagnostics.read'' ''settings'' ''diagnostics'' ''read'' ''high'' [],
     permission_row ''settings.export.read'' ''settings'' ''export'' ''read'' ''high'' [],
     permission_row ''audit.read'' ''audit'' ''audit_log'' ''read'' ''medium'' [],
     permission_row ''audit.read_sensitive'' ''audit'' ''audit_log'' ''read_sensitive'' ''high'' [''audit_sensitive_metadata''],
     permission_row ''returns.request.read'' ''returns'' ''request'' ''read'' ''low'' [],
     permission_row ''returns.request.create'' ''returns'' ''request'' ''create'' ''medium'' [],
     permission_row ''returns.request.revise'' ''returns'' ''request'' ''revise'' ''medium'' [],
     permission_row ''returns.request.submit'' ''returns'' ''request'' ''submit'' ''high'' [],
     permission_row ''returns.request.cancel'' ''returns'' ''request'' ''cancel'' ''high'' [],
     permission_row ''returns.customer_request.manage'' ''returns'' ''customer_request'' ''manage'' ''high'' [],
     permission_row ''returns.authorization.read'' ''returns'' ''authorization'' ''read'' ''low'' [],
     permission_row ''returns.authorization.approve'' ''returns'' ''authorization'' ''approve'' ''critical'' [],
     permission_row ''returns.authorization.reject'' ''returns'' ''authorization'' ''reject'' ''high'' [],
     permission_row ''returns.authorization.cancel'' ''returns'' ''authorization'' ''cancel'' ''high'' [],
     permission_row ''returns.authorization.expire'' ''returns'' ''authorization'' ''expire'' ''high'' [],
     permission_row ''returns.posting.read'' ''returns'' ''posting'' ''read'' ''low'' [],
     permission_row ''returns.posting.prepare'' ''returns'' ''posting'' ''prepare'' ''medium'' [],
     permission_row ''returns.posting.ready'' ''returns'' ''posting'' ''ready'' ''high'' [],
     permission_row ''returns.posting.post'' ''returns'' ''posting'' ''post'' ''critical'' [],
     permission_row ''returns.posting.cancel'' ''returns'' ''posting'' ''cancel'' ''high'' [],
     permission_row ''returns.posting.reverse'' ''returns'' ''posting'' ''reverse'' ''critical'' [],
     permission_row ''returns.quarantine.read'' ''returns'' ''quarantine'' ''read'' ''low'' [],
     permission_row ''returns.quarantine.release_prepare'' ''returns'' ''quarantine'' ''release_prepare'' ''medium'' [],
     permission_row ''returns.quarantine.release_post'' ''returns'' ''quarantine'' ''release_post'' ''critical'' [],
     permission_row ''returns.quarantine.release_reverse'' ''returns'' ''quarantine'' ''release_reverse'' ''critical'' [],
     permission_row ''receiving.read'' ''receiving'' ''receiving'' ''read'' ''low'' [],
     permission_row ''receiving.prepare'' ''receiving'' ''receiving'' ''prepare'' ''medium'' [],
     permission_row ''receiving.post'' ''receiving'' ''receiving'' ''post'' ''critical'' [],
     permission_row ''receiving.reverse'' ''receiving'' ''receiving'' ''reverse'' ''critical'' [],
     permission_row ''sales_order.read'' ''sales'' ''sales_order'' ''read'' ''low'' [],
     permission_row ''sales_order.create'' ''sales'' ''sales_order'' ''create'' ''medium'' [],
     permission_row ''sales_order.revise'' ''sales'' ''sales_order'' ''revise'' ''medium'' [],
     permission_row ''sales_order.submit'' ''sales'' ''sales_order'' ''submit'' ''high'' [],
     permission_row ''sales_order.cancel'' ''sales'' ''sales_order'' ''cancel'' ''high'' [],
     permission_row ''shipment.read'' ''sales'' ''shipment'' ''read'' ''low'' [],
     permission_row ''shipment.prepare'' ''sales'' ''shipment'' ''prepare'' ''medium'' [],
     permission_row ''shipment.post'' ''sales'' ''shipment'' ''post'' ''critical'' [],
     permission_row ''shipment.reverse'' ''sales'' ''shipment'' ''reverse'' ''critical'' [],
     permission_row ''inventory.balance.read'' ''inventory'' ''balance'' ''read'' ''low'' [],
     permission_row ''inventory.transfer.read'' ''inventory'' ''transfer'' ''read'' ''low'' [],
     permission_row ''inventory.transfer.create'' ''inventory'' ''transfer'' ''create'' ''medium'' [],
     permission_row ''inventory.transfer.post'' ''inventory'' ''transfer'' ''post'' ''critical'' [],
     permission_row ''inventory.transfer.reverse'' ''inventory'' ''transfer'' ''reverse'' ''critical'' [],
     permission_row ''inventory.count.read'' ''inventory'' ''count'' ''read'' ''low'' [],
     permission_row ''inventory.count.create'' ''inventory'' ''count'' ''create'' ''medium'' [],
     permission_row ''inventory.count.submit'' ''inventory'' ''count'' ''submit'' ''high'' [],
     permission_row ''inventory.count.review'' ''inventory'' ''count'' ''review'' ''high'' [],
     permission_row ''inventory.count.post'' ''inventory'' ''count'' ''post'' ''critical'' [],
     permission_row ''inventory.count.reverse'' ''inventory'' ''count'' ''reverse'' ''critical'' [],
     permission_row ''inventory.adjustment.read'' ''inventory'' ''adjustment'' ''read'' ''low'' [],
     permission_row ''inventory.adjustment.create'' ''inventory'' ''adjustment'' ''create'' ''medium'' [],
     permission_row ''inventory.adjustment.approve'' ''inventory'' ''adjustment'' ''approve'' ''critical'' [],
     permission_row ''inventory.adjustment.post'' ''inventory'' ''adjustment'' ''post'' ''critical'' [],
     permission_row ''inventory.adjustment.reverse'' ''inventory'' ''adjustment'' ''reverse'' ''critical'' []]"

definition definitions_finance :: "permission list" where
  "definitions_finance =
    [permission_row ''finance.overview.read'' ''finance'' ''overview'' ''read'' ''low'' [],
     permission_row ''finance.amounts.read'' ''finance'' ''amounts'' ''read'' ''high'' [''finance_amounts''],
     permission_row ''finance.partner_snapshot.read'' ''finance'' ''partner_snapshot'' ''read'' ''high'' [''finance_partner_snapshot''],
     permission_row ''procurement.prices.read'' ''procurement'' ''prices'' ''read'' ''high'' [''procurement_prices''],
     permission_row ''finance.supplier_invoice.read'' ''finance'' ''supplier_invoice'' ''read'' ''low'' [],
     permission_row ''finance.supplier_invoice.create'' ''finance'' ''supplier_invoice'' ''create'' ''medium'' [],
     permission_row ''finance.supplier_invoice.revise'' ''finance'' ''supplier_invoice'' ''revise'' ''medium'' [],
     permission_row ''finance.supplier_invoice.submit'' ''finance'' ''supplier_invoice'' ''submit'' ''high'' [],
     permission_row ''finance.supplier_invoice.approve'' ''finance'' ''supplier_invoice'' ''approve'' ''critical'' [],
     permission_row ''finance.three_way_match.read'' ''finance'' ''three_way_match'' ''read'' ''low'' [],
     permission_row ''finance.three_way_match.execute'' ''finance'' ''three_way_match'' ''execute'' ''high'' [],
     permission_row ''finance.match_exception.review'' ''finance'' ''match_exception'' ''review'' ''high'' [],
     permission_row ''finance.payable.read'' ''finance'' ''payable'' ''read'' ''low'' [],
     permission_row ''finance.payable.hold'' ''finance'' ''payable'' ''hold'' ''high'' [],
     permission_row ''finance.payable.release'' ''finance'' ''payable'' ''release'' ''high'' [],
     permission_row ''finance.payable.mark_export_ready'' ''finance'' ''payable'' ''mark_export_ready'' ''critical'' [],
     permission_row ''finance.supplier_credit.read'' ''finance'' ''supplier_credit'' ''read'' ''low'' [],
     permission_row ''finance.supplier_credit.create'' ''finance'' ''supplier_credit'' ''create'' ''medium'' [],
     permission_row ''finance.supplier_credit.approve'' ''finance'' ''supplier_credit'' ''approve'' ''critical'' [],
     permission_row ''finance.customer_invoice.read'' ''finance'' ''customer_invoice'' ''read'' ''low'' [],
     permission_row ''finance.customer_invoice.create'' ''finance'' ''customer_invoice'' ''create'' ''medium'' [],
     permission_row ''finance.customer_invoice.submit'' ''finance'' ''customer_invoice'' ''submit'' ''high'' [],
     permission_row ''finance.customer_invoice.approve'' ''finance'' ''customer_invoice'' ''approve'' ''critical'' [],
     permission_row ''finance.customer_invoice.issue'' ''finance'' ''customer_invoice'' ''issue'' ''critical'' [],
     permission_row ''finance.receivable.read'' ''finance'' ''receivable'' ''read'' ''low'' [],
     permission_row ''finance.receivable.dispute'' ''finance'' ''receivable'' ''dispute'' ''high'' [],
     permission_row ''finance.receivable.resolve_dispute'' ''finance'' ''receivable'' ''resolve_dispute'' ''high'' [],
     permission_row ''finance.receivable.record_external_reference'' ''finance'' ''receivable'' ''record_external_reference'' ''high'' [],
     permission_row ''finance.customer_credit.read'' ''finance'' ''customer_credit'' ''read'' ''low'' [],
     permission_row ''finance.customer_credit.create'' ''finance'' ''customer_credit'' ''create'' ''medium'' [],
     permission_row ''finance.customer_credit.approve'' ''finance'' ''customer_credit'' ''approve'' ''critical'' [],
     permission_row ''finance.cashbook.read'' ''finance'' ''cashbook'' ''read'' ''low'' [],
     permission_row ''finance.cashbook.manage'' ''finance'' ''cashbook'' ''manage'' ''critical'' [],
     permission_row ''finance.settlement.read'' ''finance'' ''settlement'' ''read'' ''low'' [],
     permission_row ''finance.settlement.create'' ''finance'' ''settlement'' ''create'' ''high'' [],
     permission_row ''finance.settlement.post'' ''finance'' ''settlement'' ''post'' ''critical'' [],
     permission_row ''finance.settlement.reverse'' ''finance'' ''settlement'' ''reverse'' ''critical'' [],
     permission_row ''finance.settlement.reconciliation.read'' ''finance'' ''settlement_reconciliation'' ''read'' ''high'' [],
     permission_row ''finance.settlement.revise'' ''finance'' ''settlement'' ''revise'' ''medium'' [],
     permission_row ''finance.settlement.submit'' ''finance'' ''settlement'' ''submit'' ''high'' [],
     permission_row ''finance.settlement.approve'' ''finance'' ''settlement'' ''approve'' ''critical'' [],
     permission_row ''finance.settlement.reject'' ''finance'' ''settlement'' ''reject'' ''high'' [],
     permission_row ''finance.settlement.cancel'' ''finance'' ''settlement'' ''cancel'' ''high'' [],
     permission_row ''finance.advance.read'' ''finance'' ''advance'' ''read'' ''low'' [],
     permission_row ''finance.advance.create'' ''finance'' ''advance'' ''create'' ''medium'' [],
     permission_row ''finance.advance.submit'' ''finance'' ''advance'' ''submit'' ''high'' [],
     permission_row ''finance.advance.approve'' ''finance'' ''advance'' ''approve'' ''critical'' [],
     permission_row ''finance.advance.post'' ''finance'' ''advance'' ''post'' ''critical'' [],
     permission_row ''finance.advance.reverse'' ''finance'' ''advance'' ''reverse'' ''critical'' [],
     permission_row ''finance.internal_transfer.read'' ''finance'' ''internal_transfer'' ''read'' ''low'' [],
     permission_row ''finance.internal_transfer.create'' ''finance'' ''internal_transfer'' ''create'' ''medium'' [],
     permission_row ''finance.internal_transfer.submit'' ''finance'' ''internal_transfer'' ''submit'' ''high'' [],
     permission_row ''finance.internal_transfer.approve'' ''finance'' ''internal_transfer'' ''approve'' ''critical'' [],
     permission_row ''finance.internal_transfer.post'' ''finance'' ''internal_transfer'' ''post'' ''critical'' [],
     permission_row ''finance.internal_transfer.reverse'' ''finance'' ''internal_transfer'' ''reverse'' ''critical'' [],
     permission_row ''finance.settlement_discount.apply'' ''finance'' ''settlement_discount'' ''apply'' ''high'' [],
     permission_row ''finance.settlement_attachment.read'' ''finance'' ''settlement_attachment'' ''read'' ''high'' [''finance_partner_snapshot''],
     permission_row ''finance.settlement_attachment.manage'' ''finance'' ''settlement_attachment'' ''manage'' ''high'' [],
     permission_row ''finance.bank_statement.read'' ''finance'' ''bank_statement'' ''read'' ''high'' [''finance_amounts'', ''finance_partner_snapshot''],
     permission_row ''finance.bank_statement.import'' ''finance'' ''bank_statement'' ''import'' ''high'' [],
     permission_row ''finance.bank_statement.validate'' ''finance'' ''bank_statement'' ''validate'' ''high'' [],
     permission_row ''finance.bank_statement.commit'' ''finance'' ''bank_statement'' ''commit'' ''critical'' [],
     permission_row ''finance.bank_statement.void'' ''finance'' ''bank_statement'' ''void'' ''critical'' [],
     permission_row ''finance.bank_statement.export'' ''finance'' ''bank_statement'' ''export'' ''high'' [],
     permission_row ''finance.bank_mapping.read'' ''finance'' ''bank_mapping'' ''read'' ''high'' [],
     permission_row ''finance.bank_mapping.manage'' ''finance'' ''bank_mapping'' ''manage'' ''critical'' [],
     permission_row ''finance.bank_reconciliation.read'' ''finance'' ''bank_reconciliation'' ''read'' ''high'' [''finance_amounts'', ''finance_partner_snapshot''],
     permission_row ''finance.bank_reconciliation.generate_candidates'' ''finance'' ''bank_reconciliation'' ''generate_candidates'' ''high'' [],
     permission_row ''finance.bank_reconciliation.confirm'' ''finance'' ''bank_reconciliation'' ''confirm'' ''critical'' [],
     permission_row ''finance.bank_reconciliation.reverse'' ''finance'' ''bank_reconciliation'' ''reverse'' ''critical'' [],
     permission_row ''finance.bank_reconciliation.dismiss_candidate'' ''finance'' ''bank_reconciliation'' ''dismiss_candidate'' ''high'' [],
     permission_row ''finance.bank_reconciliation.resolve_exception'' ''finance'' ''bank_reconciliation'' ''resolve_exception'' ''critical'' [],
     permission_row ''finance.bank_reconciliation.export'' ''finance'' ''bank_reconciliation'' ''export'' ''high'' [],
     permission_row ''procurement.purchase_order.read'' ''procurement'' ''purchase_order'' ''read'' ''low'' [],
     permission_row ''procurement.purchase_order.approve'' ''procurement'' ''purchase_order'' ''approve'' ''critical'' [],
     permission_row ''procurement.purchase_order.reject'' ''procurement'' ''purchase_order'' ''reject'' ''high'' [],
     permission_row ''procurement.purchase_order.revise'' ''procurement'' ''purchase_order'' ''revise'' ''medium'' [],
     permission_row ''mobile.sync.use'' ''mobile'' ''sync'' ''use'' ''high'' [],
     permission_row ''mobile.tasks.read'' ''mobile'' ''tasks'' ''read'' ''low'' [],
     permission_row ''mobile.procurement.approval.read'' ''mobile'' ''procurement_approval'' ''read'' ''low'' [],
     permission_row ''mobile.procurement.approval.execute'' ''mobile'' ''procurement_approval'' ''execute'' ''critical'' [],
     permission_row ''mobile.receiving.read'' ''mobile'' ''receiving'' ''read'' ''low'' [],
     permission_row ''mobile.receiving.prepare'' ''mobile'' ''receiving'' ''prepare'' ''medium'' [],
     permission_row ''mobile.receiving.post'' ''mobile'' ''receiving'' ''post'' ''critical'' []]"

definition permissionCatalog :: "permission list" where
  "permissionCatalog = definitions_operations @ definitions_finance"

definition permissionCodes :: "string list" where
  "permissionCodes = map pm_code permissionCatalog"

definition FIELD_GROUP_PERMISSION :: "string \<Rightarrow> string option" where
  "FIELD_GROUP_PERMISSION fieldGroup = map_of
     [(''finance_amounts'', ''finance.amounts.read''),
      (''finance_partner_snapshot'', ''finance.partner_snapshot.read''),
      (''procurement_prices'', ''procurement.prices.read''),
      (''audit_sensitive_metadata'', ''audit.read_sensitive'')] fieldGroup"

text \<open>\<open>permissionCodeSet.has(String(code || ""))\<close>; an unknown code throws.\<close>

definition knownPermission :: "string \<Rightarrow> bool" where
  "knownPermission code \<longleftrightarrow> code \<in> set permissionCodes"

section \<open>Role templates\<close>

definition starts_with :: "string \<Rightarrow> string \<Rightarrow> bool" where
  "starts_with prefix s \<longleftrightarrow> take (length prefix) s = prefix"

definition ends_with :: "string \<Rightarrow> string \<Rightarrow> bool" where
  "ends_with suffix s \<longleftrightarrow> starts_with (rev suffix) (rev s)"

definition reads :: "string list" where
  "reads = map pm_code (filter (\<lambda>p. pm_action p = ''read'' \<or> pm_action p = ''read_sensitive'') permissionCatalog)"

definition byPrefix :: "string list \<Rightarrow> string list" where
  "byPrefix prefixes = filter (\<lambda>code. list_ex (\<lambda>prefix. starts_with prefix code) prefixes) permissionCodes"

definition without :: "string list \<Rightarrow> string list \<Rightarrow> string list" where
  "without items denied = filter (\<lambda>code. code \<notin> set denied) items"

definition template_workspace_administrator :: "string list" where
  "template_workspace_administrator =
     permissionCodes"

definition template_operations_manager :: "string list" where
  "template_operations_manager =
     without (byPrefix [''returns.'', ''receiving.'', ''sales_order.'', ''shipment.'', ''inventory.'', ''finance.'',
        ''procurement.purchase_order.'', ''mobile.'']
       @ [''procurement.prices.read'', ''settings.workspace.read'', ''settings.users.read'',
        ''settings.roles.read'', ''settings.numbering.read'', ''settings.review_policy.read'',
        ''settings.modules.read'', ''settings.import.manage'', ''settings.export.read'', ''audit.read''])
       [''finance.settlement.post'', ''finance.settlement.reverse'', ''finance.bank_statement.import'',
        ''finance.bank_statement.validate'', ''finance.bank_statement.commit'',
        ''finance.bank_statement.void'', ''finance.bank_statement.export'', ''finance.bank_mapping.read'',
        ''finance.bank_mapping.manage'', ''finance.bank_reconciliation.generate_candidates'',
        ''finance.bank_reconciliation.confirm'', ''finance.bank_reconciliation.reverse'',
        ''finance.bank_reconciliation.dismiss_candidate'',
        ''finance.bank_reconciliation.resolve_exception'', ''finance.bank_reconciliation.export'',
        ''audit.read_sensitive'']"

definition template_operations_specialist :: "string list" where
  "template_operations_specialist =
     without (byPrefix [''returns.'', ''receiving.'', ''sales_order.'', ''shipment.'', ''inventory.'']
       @ [''finance.overview.read'', ''finance.supplier_invoice.read'', ''finance.supplier_invoice.create'',
        ''finance.supplier_invoice.revise'', ''finance.supplier_invoice.submit'',
        ''finance.three_way_match.read'', ''finance.three_way_match.execute'', ''finance.payable.read'',
        ''finance.supplier_credit.read'', ''finance.supplier_credit.create'',
        ''finance.customer_invoice.read'', ''finance.customer_invoice.create'',
        ''finance.customer_invoice.submit'', ''finance.receivable.read'', ''finance.receivable.dispute'',
        ''finance.receivable.resolve_dispute'', ''finance.receivable.record_external_reference'',
        ''finance.customer_credit.read'', ''finance.customer_credit.create''])
       [''returns.authorization.approve'', ''returns.authorization.reject'',
        ''returns.authorization.cancel'', ''returns.authorization.expire'', ''returns.posting.reverse'',
        ''returns.quarantine.release_reverse'', ''receiving.reverse'', ''shipment.reverse'',
        ''inventory.transfer.reverse'', ''inventory.count.review'', ''inventory.count.post'',
        ''inventory.count.reverse'', ''inventory.adjustment.post'', ''inventory.adjustment.reverse'']"

definition template_procurement_specialist :: "string list" where
  "template_procurement_specialist =
     [''returns.request.read'', ''returns.request.create'', ''returns.request.revise'',
        ''returns.request.submit'', ''returns.request.cancel'', ''returns.authorization.read'',
        ''returns.posting.read'', ''returns.quarantine.read'', ''receiving.read'',
        ''inventory.balance.read'', ''procurement.prices.read'', ''procurement.purchase_order.read'',
        ''procurement.purchase_order.revise'', ''mobile.sync.use'', ''mobile.tasks.read'',
        ''mobile.procurement.approval.read'', ''mobile.receiving.read'', ''mobile.receiving.prepare'']"

definition template_finance_specialist :: "string list" where
  "template_finance_specialist =
     byPrefix [''finance.'']
       @ [''mobile.sync.use'', ''mobile.tasks.read'', ''audit.read'']"

definition template_read_only_viewer :: "string list" where
  "template_read_only_viewer =
     without reads
       [''audit.read_sensitive'', ''finance.amounts.read'', ''finance.partner_snapshot.read'',
        ''finance.bank_statement.read'', ''finance.bank_mapping.read'',
        ''finance.bank_reconciliation.read'', ''procurement.prices.read'', ''settings.diagnostics.read'',
        ''settings.export.read'']"

definition defaultRoleTemplates :: "(string \<times> string list) list" where
  "defaultRoleTemplates =
    [(''workspace-administrator'', template_workspace_administrator),
     (''operations-manager'', template_operations_manager),
     (''operations-specialist'', template_operations_specialist),
     (''procurement-specialist'', template_procurement_specialist),
     (''finance-specialist'', template_finance_specialist),
     (''read-only-viewer'', template_read_only_viewer)]"

definition legacyRoleTemplateMap :: "string \<Rightarrow> string option" where
  "legacyRoleTemplateMap role = map_of
    [(''admin'', ''workspace-administrator''),
     (''manager'', ''operations-manager''),
     (''business-specialist'', ''operations-specialist''),
     (''business_specialist'', ''operations-specialist''),
     (''buyer'', ''procurement-specialist''),
     (''finance-specialist'', ''finance-specialist''),
     (''finance_specialist'', ''finance-specialist''),
     (''viewer'', ''read-only-viewer'')] role"

definition moduleReadPermissions :: "(string \<times> string list) list" where
  "moduleReadPermissions =
    [(''settings'', filter (\<lambda>code. starts_with ''settings.'' code
        \<and> (ends_with ''.read'' code \<or> ends_with ''.manage'' code)) permissionCodes),
     (''procurement'', [''receiving.read'', ''returns.request.read'', ''procurement.prices.read'']),
     (''returns-quarantine'', [''returns.request.read'', ''returns.authorization.read'', ''returns.posting.read'',
        ''returns.quarantine.read'']),
     (''receiving'', [''receiving.read'']),
     (''sales'', [''sales_order.read'', ''shipment.read'']),
     (''inventory'', [''inventory.balance.read'', ''inventory.transfer.read'', ''inventory.count.read'',
        ''inventory.adjustment.read'']),
     (''finance'', filter (\<lambda>code. starts_with ''finance.'' code \<and> ends_with ''.read'' code) permissionCodes),
     (''mobile-operations'', [''mobile.tasks.read'', ''mobile.procurement.approval.read'', ''mobile.receiving.read'']),
     (''audit-history'', [''audit.read''])]"

end
