(* ===== verification/Authorization.thy ===== *)
theory Authorization
  imports Permission_Catalog
begin

text \<open>
  Authorization (\<open>server/auth/authorization-service.mjs\<close>) and the provisioned actor
  (\<open>server/domain/pilot-identity.mjs\<close>).

  A user row carries its role assignments and warehouse scopes. \<open>resolveAuthorizationContext\<close> turns
  it into a context, \<open>authorize\<close> decides a permission for a context, a tenant and warehouses, and
  gives the reason of a refusal. The legacy backfill of a tenant
  (\<open>server/auth/authorization-backfill.mjs\<close>) is modelled by its effect on a user without assignments,
  \<open>backfilled_user\<close>; the row read after it is the second row that \<open>resolveAuthorizationContext\<close> takes.
\<close>

section \<open>Users\<close>

record role_row =
  ro_id :: string
  ro_status :: string
  ro_permissions :: "string list"

record role_assignment =
  ra_status :: string
  ra_role :: role_row

record user_row =
  us_id :: string
  us_tenantId :: string
  us_role :: "string option"
  us_status :: string
  us_warehouseScopes :: "(string \<times> string) list"
  us_roleAssignments :: "role_assignment list"

record identity =
  id_authenticated :: bool
  id_tenantId :: "string option"
  id_userId :: "string option"
  id_id :: "string option"
  id_role :: "string option"

record auth_context =
  ac_complete :: bool
  ac_authenticated :: bool
  ac_tenantId :: string
  ac_userId :: string
  ac_roleIds :: "string list"
  ac_inactiveRoleIds :: "string list"
  ac_permissionSources :: "(string \<times> string list) list"
  ac_readWarehouseIds :: "string list"
  ac_operateWarehouseIds :: "string list"

definition ac_permissionCodes :: "auth_context \<Rightarrow> string list" where
  "ac_permissionCodes ctx = map fst (ac_permissionSources ctx)"

definition unique_texts :: "string option list \<Rightarrow> string list" where
  "unique_texts items = js_unique (filter (\<lambda>s. s \<noteq> []) (map js_text items))"

definition active_assignment :: "role_assignment \<Rightarrow> bool" where
  "active_assignment a \<longleftrightarrow> ra_status a = ''active'' \<and> ro_status (ra_role a) = ''active''"

text \<open>\<open>source.push(roleId)\<close> at the permission of a grant; unknown codes are skipped.\<close>

definition add_grant :: "string \<Rightarrow> string \<Rightarrow> (string \<times> string list) list \<Rightarrow> (string \<times> string list) list" where
  "add_grant roleId code m =
     (if \<not> knownPermission code then m
      else AList.update code ((case map_of m code of None \<Rightarrow> [] | Some rs \<Rightarrow> rs) @ [roleId]) m)"

definition permission_sources :: "role_assignment list \<Rightarrow> (string \<times> string list) list" where
  "permission_sources assignments =
     fold (\<lambda>a m. fold (add_grant (ro_id (ra_role a))) (ro_permissions (ra_role a)) m) assignments []"

definition incomplete_context :: "bool \<Rightarrow> string \<Rightarrow> string \<Rightarrow> auth_context" where
  "incomplete_context authenticated tenantId userId =
     \<lparr>ac_complete = False, ac_authenticated = authenticated, ac_tenantId = tenantId, ac_userId = userId,
      ac_roleIds = [], ac_inactiveRoleIds = [], ac_permissionSources = [],
      ac_readWarehouseIds = [], ac_operateWarehouseIds = []\<rparr>"

definition context_of_user :: "user_row \<Rightarrow> auth_context" where
  "context_of_user user =
     (let active = filter active_assignment (us_roleAssignments user);
          inactive = filter (\<lambda>a. \<not> active_assignment a) (us_roleAssignments user)
      in \<lparr>ac_complete = True, ac_authenticated = True, ac_tenantId = us_tenantId user, ac_userId = us_id user,
          ac_roleIds = map (\<lambda>a. ro_id (ra_role a)) active,
          ac_inactiveRoleIds = map (\<lambda>a. ro_id (ra_role a)) inactive,
          ac_permissionSources = permission_sources active,
          ac_readWarehouseIds = js_unique (map fst (filter (\<lambda>p. snd p \<in> {''read'', ''operate''}) (us_warehouseScopes user))),
          ac_operateWarehouseIds = js_unique (map fst (filter (\<lambda>p. snd p = ''operate'') (us_warehouseScopes user)))\<rparr>)"

text \<open>
  The legacy backfill gives every user of the tenant the role of the template that its legacy role
  stands for. \<open>roleOf\<close> is the role of the tenant with that key, if there is one: it keeps its status
  and its grants and gets those of the template it lacks; a new role has the id \<open>newId\<close>. An
  administrator may operate the warehouses without a scope of their own. The row is that of a user
  without assignments, the only one for which the backfill runs.
\<close>

definition legacy_role_key :: "user_row \<Rightarrow> string" where
  "legacy_role_key user =
     (case legacyRoleTemplateMap (js_lower (js_text (us_role user))) of
        None \<Rightarrow> ''read-only-viewer'' | Some roleKey \<Rightarrow> roleKey)"

definition template_permissions :: "string \<Rightarrow> string list" where
  "template_permissions roleKey = (case map_of defaultRoleTemplates roleKey of None \<Rightarrow> [] | Some ps \<Rightarrow> ps)"

definition backfilled_role :: "(string \<Rightarrow> string) \<Rightarrow> (string \<Rightarrow> role_row option) \<Rightarrow> string \<Rightarrow> role_row" where
  "backfilled_role newId roleOf roleKey =
     (let role = (case roleOf roleKey of
            Some r \<Rightarrow> r
          | None \<Rightarrow> \<lparr>ro_id = newId roleKey, ro_status = ''active'', ro_permissions = []\<rparr>)
      in role\<lparr>ro_permissions := js_unique (ro_permissions role @ template_permissions roleKey)\<rparr>)"

definition backfilled_user ::
  "(string \<Rightarrow> string) \<Rightarrow> (string \<Rightarrow> role_row option) \<Rightarrow> string list \<Rightarrow> user_row \<Rightarrow> user_row" where
  "backfilled_user newId roleOf warehouses user =
     (let roleKey = legacy_role_key user
      in user\<lparr>us_roleAssignments :=
             [\<lparr>ra_status = ''active'', ra_role = backfilled_role newId roleOf roleKey\<rparr>],
           us_warehouseScopes := us_warehouseScopes user @
             (if roleKey = ''workspace-administrator''
              then map (\<lambda>w. (w, ''operate'')) (filter (\<lambda>w. w \<notin> fst ` set (us_warehouseScopes user)) warehouses)
              else [])\<rparr>)"

text \<open>
  \<open>load\<close> is the row \<open>loadUserContext\<close> finds, \<open>reload\<close> the one it finds after the legacy backfill. The
  backfill runs when the first row has no assignments, \<open>performLegacyBackfill\<close> is set and the client
  can open a transaction, that is outside a transaction.
\<close>

definition user_to_resolve :: "bool \<Rightarrow> bool \<Rightarrow> user_row option \<Rightarrow> user_row option \<Rightarrow> user_row option" where
  "user_to_resolve performLegacyBackfill canTransact load reload =
     (case load of
        Some u \<Rightarrow> if performLegacyBackfill \<and> us_roleAssignments u = [] \<and> canTransact then reload else Some u
      | None \<Rightarrow> None)"

text \<open>\<open>identity.userId || identity.id\<close>\<close>

definition identity_user :: "identity \<Rightarrow> string option" where
  "identity_user i = (case id_userId i of None \<Rightarrow> id_id i | Some u \<Rightarrow> if u = [] then id_id i else Some u)"

definition resolveAuthorizationContext ::
  "identity option \<Rightarrow> bool \<Rightarrow> bool \<Rightarrow> user_row option \<Rightarrow> user_row option \<Rightarrow> auth_context" where
  "resolveAuthorizationContext who performLegacyBackfill canTransact load reload =
     (let tenantId = js_text (Option.bind who id_tenantId);
          userId = js_text (Option.bind who identity_user);
          authenticated = (case who of None \<Rightarrow> False | Some i \<Rightarrow> id_authenticated i)
      in if \<not> authenticated \<or> tenantId = [] \<or> userId = []
         then incomplete_context authenticated tenantId userId
         else case user_to_resolve performLegacyBackfill canTransact load reload of
           None \<Rightarrow> incomplete_context True tenantId userId
         | Some u \<Rightarrow> if us_status u \<noteq> ''active'' then incomplete_context True tenantId userId
                     else context_of_user u)"

section \<open>Decisions\<close>

datatype auth_reason =
    AUTHORIZATION_PERMISSION_DENIED | AUTHORIZATION_TENANT_MISMATCH
  | AUTHORIZATION_WAREHOUSE_SCOPE_DENIED | AUTHORIZATION_ROLE_INACTIVE
  | AUTHORIZATION_CONTEXT_INCOMPLETE | AUTHORIZATION_CAPABILITY_DISABLED

text \<open>A flag of a capability may be undefined (\<open>None\<close>).\<close>

record capability =
  cap_enabled :: bool
  cap_readReady :: "bool option"
  cap_writeReady :: "bool option"

record resource_info =
  rs_capability :: "capability option"
  rs_scopeLevel :: "string option"
  rs_inactivePermissionCodes :: "string list"
  rs_permissionFoundOnlyOnInactiveRole :: bool

record field_visibility =
  fv_visible :: bool
  fv_permission :: "string option"

record decision =
  de_allowed :: bool
  de_permissionCode :: string
  de_reasonCode :: "auth_reason option"
  de_tenantMatched :: bool
  de_warehouseScopeMatched :: bool
  de_roleIds :: "string list"
  de_permissionSourceRoleIds :: "string list"
  de_fieldVisibility :: "(string \<times> field_visibility) list"

definition fieldVisibility :: "auth_context option \<Rightarrow> string option list \<Rightarrow> (string \<times> field_visibility) list" where
  "fieldVisibility actor requestedGroups =
     map (\<lambda>group.
       let permission = FIELD_GROUP_PERMISSION group;
           visible = (case (permission, actor) of
               (Some p, Some a) \<Rightarrow> p \<in> set (ac_permissionCodes a) | _ \<Rightarrow> False)
       in (group, \<lparr>fv_visible = visible, fv_permission = permission\<rparr>)) (unique_texts requestedGroups)"

definition capability_blocks :: "resource_info \<Rightarrow> bool" where
  "capability_blocks r \<longleftrightarrow>
     (case rs_capability r of None \<Rightarrow> False
      | Some c \<Rightarrow> \<not> cap_enabled c
          \<or> cap_readReady c = Some False \<and> rs_scopeLevel r = Some ''read''
          \<or> cap_writeReady c = Some False \<and> rs_scopeLevel r \<noteq> Some ''read'')"

text \<open>\<open>Inl ()\<close> is the error of an unknown permission code.\<close>

definition authorize ::
  "auth_context option \<Rightarrow> string \<Rightarrow> string \<Rightarrow> string option list \<Rightarrow> resource_info option \<Rightarrow> string option list
   \<Rightarrow> unit + decision" where
  "authorize actor permission tenantId warehouseIds resource fieldGroups =
     (if \<not> knownPermission permission then Inl ()
      else
        let base = \<lparr>de_allowed = False, de_permissionCode = permission,
              de_reasonCode = Some AUTHORIZATION_PERMISSION_DENIED, de_tenantMatched = False,
              de_warehouseScopeMatched = False,
              de_roleIds = (case actor of None \<Rightarrow> [] | Some a \<Rightarrow> ac_roleIds a),
              de_permissionSourceRoleIds = (case actor of None \<Rightarrow> []
                | Some a \<Rightarrow> (case map_of (ac_permissionSources a) permission of None \<Rightarrow> [] | Some rs \<Rightarrow> rs)),
              de_fieldVisibility = fieldVisibility actor fieldGroups\<rparr>
        in case actor of
             None \<Rightarrow> Inr (base\<lparr>de_reasonCode := Some AUTHORIZATION_CONTEXT_INCOMPLETE\<rparr>)
           | Some a \<Rightarrow>
               if \<not> ac_complete a \<or> \<not> ac_authenticated a
               then Inr (base\<lparr>de_reasonCode := Some AUTHORIZATION_CONTEXT_INCOMPLETE\<rparr>)
               else if tenantId = [] \<or> ac_tenantId a \<noteq> tenantId
               then Inr (base\<lparr>de_reasonCode := Some AUTHORIZATION_TENANT_MISMATCH\<rparr>)
               else
                 let base = base\<lparr>de_tenantMatched := True\<rparr>
                 in if (case resource of None \<Rightarrow> False | Some r \<Rightarrow> capability_blocks r)
                    then Inr (base\<lparr>de_reasonCode := Some AUTHORIZATION_CAPABILITY_DISABLED\<rparr>)
                    else if permission \<notin> set (ac_permissionCodes a)
                    then Inr (base\<lparr>de_reasonCode := Some
                      (if (case resource of None \<Rightarrow> False | Some r \<Rightarrow> permission \<in> set (rs_inactivePermissionCodes r))
                          \<or> ac_inactiveRoleIds a \<noteq> []
                            \<and> (case resource of None \<Rightarrow> False | Some r \<Rightarrow> rs_permissionFoundOnlyOnInactiveRole r)
                       then AUTHORIZATION_ROLE_INACTIVE else AUTHORIZATION_PERMISSION_DENIED)\<rparr>)
                    else
                      let requested = unique_texts warehouseIds;
                          scopeLevel = (case Option.bind resource rs_scopeLevel of
                              Some l \<Rightarrow> if l = [] then (if requested = [] then None else Some ''operate'') else Some l
                            | None \<Rightarrow> if requested = [] then None else Some ''operate'');
                          granted = (if scopeLevel = Some ''read'' then ac_readWarehouseIds a
                                     else ac_operateWarehouseIds a)
                      in if \<not> list_all (\<lambda>w. w \<in> set granted) requested
                         then Inr (base\<lparr>de_reasonCode := Some AUTHORIZATION_WAREHOUSE_SCOPE_DENIED\<rparr>)
                         else Inr (base\<lparr>de_allowed := True, de_reasonCode := None, de_warehouseScopeMatched := True\<rparr>))"

text \<open>\<open>assertAuthorized\<close>: an error is an unknown permission or the decision that refuses.\<close>

definition assertAuthorized ::
  "auth_context option \<Rightarrow> string \<Rightarrow> string \<Rightarrow> string option list \<Rightarrow> resource_info option \<Rightarrow> string option list
   \<Rightarrow> decision option + decision" where
  "assertAuthorized actor permission tenantId warehouseIds resource fieldGroups =
     (case authorize actor permission tenantId warehouseIds resource fieldGroups of
        Inl _ \<Rightarrow> Inl None
      | Inr d \<Rightarrow> if de_allowed d then Inr d else Inl (Some d))"

section \<open>Modules and fields\<close>

record module_visibility =
  mv_visible :: bool
  mv_capabilityAllowed :: bool
  mv_preferenceAllowed :: bool
  mv_permissionAllowed :: bool

definition module_capabilities :: "string \<Rightarrow> string list" where
  "module_capabilities moduleId =
     (case map_of
       [(''returns-quarantine'', [''return-request'', ''return-authorization'', ''return-posting'', ''quarantine-inventory'']),
        (''receiving'', [''receiving-posting'']),
        (''sales'', [''sales-order-lifecycle'', ''sales-shipment-posting'']),
        (''inventory'', [''inventory'', ''stock-transfer'', ''cycle-count'', ''inventory-adjustment-document'']),
        (''finance'', [''finance'']),
        (''mobile-operations'', [''mobile-operations'', ''mobile-sync''])] moduleId of
        None \<Rightarrow> [moduleId] | Some ids \<Rightarrow> ids)"

definition moduleVisibilityFor ::
  "auth_context option \<Rightarrow> (string \<Rightarrow> capability option) \<Rightarrow> string list option \<Rightarrow> (string \<times> module_visibility) list" where
  "moduleVisibilityFor actor capabilities enabledModules =
     map (\<lambda>(moduleId, permissions).
       let registered = concat (map (\<lambda>i. case capabilities i of None \<Rightarrow> [] | Some c \<Rightarrow> [c]) (module_capabilities moduleId));
           capabilityAllowed = (registered = [] \<or> list_ex (\<lambda>c. cap_enabled c \<and> cap_readReady c = Some True) registered);
           preferenceAllowed = (case enabledModules of None \<Rightarrow> True | Some ms \<Rightarrow> moduleId \<in> set ms);
           permissionAllowed = list_ex (\<lambda>p. case actor of None \<Rightarrow> False | Some a \<Rightarrow> p \<in> set (ac_permissionCodes a)) permissions
       in (moduleId, \<lparr>mv_visible = (capabilityAllowed \<and> preferenceAllowed \<and> permissionAllowed),
            mv_capabilityAllowed = capabilityAllowed, mv_preferenceAllowed = preferenceAllowed,
            mv_permissionAllowed = permissionAllowed\<rparr>)) moduleReadPermissions"

text \<open>The fields of a row as an association list; a redacted field is null.\<close>

definition redactFieldGroups ::
  "(string \<times> 'v option) list \<Rightarrow> (string \<times> field_visibility) list \<Rightarrow> (string \<times> string) list
   \<Rightarrow> (string \<times> 'v option) list" where
  "redactFieldGroups row visibility fieldMap =
     map (\<lambda>(field, v).
       if list_ex (\<lambda>(f, group). f = field
            \<and> \<not> (case map_of visibility group of None \<Rightarrow> False | Some fv \<Rightarrow> fv_visible fv)) fieldMap
       then (field, None) else (field, v)) row"

section \<open>The provisioned actor\<close>

datatype identity_error =
    AUTHENTICATION_REQUIRED | TENANT_CONTEXT_REQUIRED | ACTOR_NOT_PROVISIONED | USER_DISABLED | SESSION_STALE

text \<open>
  \<open>resolveProvisionedActor\<close> without the test-only actor: \<open>findUser\<close> is the row with that tenant and
  id, \<open>reload\<close> the row after the legacy backfill.
\<close>

definition resolveProvisionedActor ::
  "bool \<Rightarrow> (string \<Rightarrow> string \<Rightarrow> user_row option) \<Rightarrow> (string \<Rightarrow> string \<Rightarrow> user_row option) \<Rightarrow> identity option
   \<Rightarrow> identity_error issue + auth_context" where
  "resolveProvisionedActor canTransact findUser reload who =
     (case who of None \<Rightarrow> Inl (Issue AUTHENTICATION_REQUIRED 401)
      | Some i \<Rightarrow>
          if \<not> id_authenticated i then Inl (Issue AUTHENTICATION_REQUIRED 401)
          else
            let tenantId = js_text (id_tenantId i); userId = js_text (id_userId i)
            in if tenantId = [] \<or> userId = [] then Inl (Issue TENANT_CONTEXT_REQUIRED 403)
               else case findUser tenantId userId of
                 None \<Rightarrow> Inl (Issue ACTOR_NOT_PROVISIONED 403)
               | Some user \<Rightarrow>
                   if us_status user \<noteq> ''active'' then Inl (Issue USER_DISABLED 403)
                   else if js_lower (js_text (id_role i)) \<noteq> js_lower (js_text (us_role user))
                   then Inl (Issue SESSION_STALE 401)
                   else Inr (resolveAuthorizationContext who True canTransact (Some user) (reload tenantId userId)))"

text \<open>
  The actor of a command: the users are rows of the world. A lookup returns a row with the tenant
  and the id it was asked for, as \<open>findFirst\<close> does.
\<close>

type_synonym 'w user_lookup = "'w \<Rightarrow> string \<Rightarrow> string \<Rightarrow> user_row option"

definition finds_users :: "'w user_lookup \<Rightarrow> bool" where
  "finds_users findUser \<longleftrightarrow>
     (\<forall>w t u row. findUser w t u = Some row \<longrightarrow> us_tenantId row = t \<and> us_id row = u)"

definition provisioned ::
  "'w user_lookup \<Rightarrow> 'w user_lookup \<Rightarrow> bool \<Rightarrow> identity \<Rightarrow> 'w \<Rightarrow> identity_error issue + auth_context" where
  "provisioned findUser reload canTransact i w = resolveProvisionedActor canTransact (findUser w) (reload w) (Some i)"

lemma identity_user_id: "js_text (id_userId i) \<noteq> [] \<Longrightarrow> identity_user i = id_userId i"
  by (cases "id_userId i") (auto simp: identity_user_def js_text_def js_trim_def)

text \<open>The resolved actor is of the tenant the identity names, up to white space.\<close>

lemma provisioned_tenant:
  assumes "finds_users findUser" "finds_users reload" "provisioned findUser reload canTransact i w = Inr ctx"
  shows "ac_tenantId ctx = js_text (id_tenantId i)" "id_authenticated i" "js_text (id_tenantId i) \<noteq> []"
proof -
  let ?t = "js_text (id_tenantId i)" and ?u = "js_text (id_userId i)"
  from assms(3) obtain user where user: "findUser w ?t ?u = Some user"
    and ctx: "ctx = resolveAuthorizationContext (Some i) True canTransact (Some user) (reload w ?t ?u)"
    and rest: "id_authenticated i" "?t \<noteq> []" "?u \<noteq> []"
    by (auto simp: provisioned_def resolveProvisionedActor_def Let_def split: if_splits option.splits)
  then show "id_authenticated i" "?t \<noteq> []" by simp_all
  have "us_tenantId user = ?t" "\<And>row. reload w ?t ?u = Some row \<Longrightarrow> us_tenantId row = ?t"
    using assms(1,2) user by (auto simp: finds_users_def)
  then show "ac_tenantId ctx = ?t" using rest
    by (auto simp: ctx resolveAuthorizationContext_def user_to_resolve_def identity_user_id
        incomplete_context_def context_of_user_def Let_def split: option.splits)
qed

end
