(* ===== verification/Command_Execution.thy ===== *)
theory Command_Execution
  imports Inventory_Commands Authorization
begin

text \<open>
  How a command is carried out once: \<open>execute\<close> of \<open>inventory-operations-command-service.mjs\<close>,
  with the canonical request hash that recognises a repeated request.

  A request is JSON; a number is the text it prints as. \<open>stable\<close> sorts the fields of every object
  and the elements of the four arrays whose order carries no meaning, so that the hash does not
  depend on them. SHA-256 is the parameter \<open>sha\<close>.

  The table of executions is a map from tenant, command type and idempotency key. \<open>execute\<close> reads it
  before the transaction and again inside; between the two other transactions may commit, so the
  state read first and the state of the transaction are two arguments. \<open>abort\<close> is the error with
  which the database may end the transaction because of a concurrent one.
\<close>

section \<open>Canonical JSON\<close>

datatype json =
  JNull | JBool bool | JNum string | JStr string | JArr "json list" | JObj "(string \<times> json) list"

definition hex_digit :: "nat \<Rightarrow> char" where
  "hex_digit n = char_of (if n < 10 then 48 + n else 87 + n)"

definition escape_char :: "char \<Rightarrow> string" where
  "escape_char c =
     (let n = (of_char c :: nat)
      in if n = 34 \<or> n = 92 then [char_of (92::nat), c]
         else if n = 8 then [char_of (92::nat), CHR ''b'']
         else if n = 9 then [char_of (92::nat), CHR ''t'']
         else if n = 10 then [char_of (92::nat), CHR ''n'']
         else if n = 12 then [char_of (92::nat), CHR ''f'']
         else if n = 13 then [char_of (92::nat), CHR ''r'']
         else if n < 32 then char_of (92::nat) # ''u00'' @ [hex_digit (n div 16), hex_digit (n mod 16)]
         else [c])"

definition quote :: "string \<Rightarrow> string" where
  "quote s = char_of (34::nat) # concat (map escape_char s) @ [char_of (34::nat)]"

definition commas :: "string list \<Rightarrow> string" where
  "commas ss = (case ss of [] \<Rightarrow> [] | x # xs \<Rightarrow> x @ concat (map (\<lambda>s. CHR '','' # s) xs))"

text \<open>\<open>JSON.stringify\<close>\<close>

fun stringify :: "json \<Rightarrow> string" where
  "stringify JNull = ''null''"
| "stringify (JBool b) = (if b then ''true'' else ''false'')"
| "stringify (JNum n) = n"
| "stringify (JStr s) = quote s"
| "stringify (JArr vs) = ''['' @ commas (map stringify vs) @ '']''"
| "stringify (JObj kvs) = ''{'' @ commas (map (\<lambda>(k, v). quote k @ '':'' @ stringify v) kvs) @ ''}''"

definition unordered_keys :: "string list" where
  "unordered_keys = [''lines'', ''counts'', ''balanceIds'', ''expectedLineIds'']"

fun stable :: "(string \<Rightarrow> string \<Rightarrow> bool) \<Rightarrow> string \<Rightarrow> json \<Rightarrow> json" where
  "stable le parentKey (JArr vs) =
     (let rows = map (stable le parentKey) vs
      in JArr (if parentKey \<in> set unordered_keys
               then js_sort (\<lambda>a b. le (stringify a) (stringify b)) rows else rows))"
| "stable le parentKey (JObj kvs) =
     JObj (js_sort (\<lambda>a b. fst a \<le> fst b) (map (\<lambda>(k, v). (k, stable le k v)) kvs))"
| "stable le parentKey JNull = JNull"
| "stable le parentKey (JBool b) = JBool b"
| "stable le parentKey (JNum n) = JNum n"
| "stable le parentKey (JStr s) = JStr s"

definition inventoryOperationsRequestHash ::
  "(string \<Rightarrow> string \<Rightarrow> bool) \<Rightarrow> (string \<Rightarrow> string) \<Rightarrow> json \<Rightarrow> string" where
  "inventoryOperationsRequestHash le sha request = sha (stringify (stable le [] request))"

section \<open>Executions\<close>

record 'r execution =
  exe_requestHash :: string
  exe_status :: string
  exe_resultPayload :: "'r option"

type_synonym 'r executions = "string \<times> string \<times> string \<Rightarrow> 'r execution option"

record ('w, 'r) service_state =
  sv_executions :: "'r executions"
  sv_world :: 'w

datatype replay_error = IDEMPOTENCY_KEY_REUSED_WITH_DIFFERENT_PAYLOAD | COMMAND_EXECUTION_IN_PROGRESS

datatype 'c exec_error =
    INVENTORY_OPERATIONS_CAPABILITY_NOT_AVAILABLE
  | Authentication_required
  | Identity_refused "identity_error issue"
  | Authorization_refused "decision option"
  | IDEMPOTENCY_KEY_REQUIRED
  | Replay_refused replay_error
  | Concurrent_conflict
  | Work_refused 'c

datatype db_abort = Unique_violation | Serialization_failure

definition replay :: "'r execution option \<Rightarrow> string \<Rightarrow> replay_error + 'r option" where
  "replay ex requestHash =
     (case ex of None \<Rightarrow> Inr None
      | Some e \<Rightarrow>
          if exe_requestHash e \<noteq> requestHash then Inl IDEMPOTENCY_KEY_REUSED_WITH_DIFFERENT_PAYLOAD
          else if exe_status e \<noteq> ''completed'' \<or> exe_resultPayload e = None
          then Inl COMMAND_EXECUTION_IN_PROGRESS
          else Inr (exe_resultPayload e))"

definition commandPermissions :: "string \<Rightarrow> string option" where
  "commandPermissions commandType = map_of
     [(''create_stock_transfer'', ''inventory.transfer.create''),
      (''revise_stock_transfer'', ''inventory.transfer.create''),
      (''ready_stock_transfer'', ''inventory.transfer.create''),
      (''cancel_stock_transfer'', ''inventory.transfer.create''),
      (''post_stock_transfer'', ''inventory.transfer.post''),
      (''reverse_stock_transfer'', ''inventory.transfer.reverse''),
      (''create_cycle_count'', ''inventory.count.create''),
      (''revise_cycle_count'', ''inventory.count.create''),
      (''submit_cycle_count'', ''inventory.count.submit''),
      (''review_cycle_count'', ''inventory.count.review''),
      (''post_cycle_count'', ''inventory.count.post''),
      (''cancel_cycle_count'', ''inventory.count.create''),
      (''create_inventory_adjustment'', ''inventory.adjustment.create''),
      (''revise_inventory_adjustment'', ''inventory.adjustment.create''),
      (''ready_inventory_adjustment'', ''inventory.adjustment.approve''),
      (''cancel_inventory_adjustment'', ''inventory.adjustment.create''),
      (''post_inventory_adjustment'', ''inventory.adjustment.post''),
      (''reverse_inventory_adjustment'', ''inventory.adjustment.reverse'')] commandType"

record env =
  env_persistenceMode :: "string option"
  env_enableInventoryOperations :: "string option"

definition assertEnabled :: "env \<Rightarrow> 'c exec_error + unit" where
  "assertEnabled env =
     fail_if (env_persistenceMode env \<noteq> Some ''database''
        \<or> js_lower (js_text (env_enableInventoryOperations env)) \<noteq> ''true'')
       INVENTORY_OPERATIONS_CAPABILITY_NOT_AVAILABLE"

text \<open>
  \<open>resolve\<close> is \<open>resolveProvisionedActor\<close> on the database at hand (its first argument tells whether it
  can open a transaction) and \<open>work\<close> the work function, both on the world they read. A value is the
  new state, the result and \<open>idempotentReplay\<close>. The key of the executions is unique: the insert of a
  second row with the tenant of the actor, the command type and the key fails, and \<open>execute\<close>, which
  looks up the tenant of the identity as it was sent, answers with the conflict.
\<close>

definition transact ::
  "(bool \<Rightarrow> identity \<Rightarrow> 'w \<Rightarrow> identity_error issue + auth_context) \<Rightarrow> identity \<Rightarrow> string \<Rightarrow> string \<Rightarrow> string \<Rightarrow> string
   \<Rightarrow> (auth_context \<Rightarrow> 'w \<Rightarrow> 'c + 'w \<times> 'r) \<Rightarrow> ('w, 'r) service_state
   \<Rightarrow> 'c exec_error + (('w, 'r) service_state \<times> 'r \<times> bool)" where
  "transact resolve who commandType tenantId idempotencyKey requestHash work s =
     (case resolve False who (sv_world s) of
        Inl e \<Rightarrow> Inl (Identity_refused e)
      | Inr actor \<Rightarrow>
          (case assertAuthorized (Some actor) (case commandPermissions commandType of None \<Rightarrow> [] | Some p \<Rightarrow> p)
                  (ac_tenantId actor) [] None [] of
             Inl d \<Rightarrow> Inl (Authorization_refused d)
           | Inr _ \<Rightarrow>
               (case replay (sv_executions s (tenantId, commandType, idempotencyKey)) requestHash of
                   Inl e \<Rightarrow> Inl (Replay_refused e)
                 | Inr (Some r) \<Rightarrow> Inr (s, r, True)
                 | Inr None \<Rightarrow>
                     if sv_executions s (ac_tenantId actor, commandType, idempotencyKey) \<noteq> None
                     then Inl Concurrent_conflict
                     else (case work actor (sv_world s) of
                        Inl c \<Rightarrow> Inl (Work_refused c)
                      | Inr (w, r) \<Rightarrow>
                          Inr (\<lparr>sv_executions = (sv_executions s)
                                 ((ac_tenantId actor, commandType, idempotencyKey) \<mapsto>
                                   \<lparr>exe_requestHash = requestHash, exe_status = ''completed'',
                                    exe_resultPayload = Some r\<rparr>),
                                sv_world = w\<rparr>, r, False)))))"

definition execute ::
  "env \<Rightarrow> (bool \<Rightarrow> identity \<Rightarrow> 'w \<Rightarrow> identity_error issue + auth_context) \<Rightarrow> identity option \<Rightarrow> string \<Rightarrow> string option
   \<Rightarrow> (string \<Rightarrow> string) \<Rightarrow> (auth_context \<Rightarrow> 'w \<Rightarrow> 'c + 'w \<times> 'r)
   \<Rightarrow> db_abort option \<Rightarrow> ('w, 'r) service_state \<Rightarrow> ('w, 'r) service_state
   \<Rightarrow> 'c exec_error + (('w, 'r) service_state \<times> 'r \<times> bool)" where
  "execute env resolve who commandType key hashWith work abort s0 s =
     and_then (assertEnabled env) (\<lambda>_.
       case who of None \<Rightarrow> Inl Authentication_required
       | Some i \<Rightarrow>
           if \<not> id_authenticated i \<or> js_text (id_tenantId i) = [] then Inl Authentication_required
           else case resolve True i (sv_world s0) of
             Inl e \<Rightarrow> Inl (Identity_refused e)
           | Inr _ \<Rightarrow>
               let idempotencyKey = js_text key;
                   tenantId = (case id_tenantId i of None \<Rightarrow> [] | Some t \<Rightarrow> t);
                   requestHash = hashWith idempotencyKey
               in if idempotencyKey = [] then Inl IDEMPOTENCY_KEY_REQUIRED
                  else case replay (sv_executions s0 (tenantId, commandType, idempotencyKey)) requestHash of
                      Inl e \<Rightarrow> Inl (Replay_refused e)
                    | Inr (Some r) \<Rightarrow> Inr (s, r, True)
                    | Inr None \<Rightarrow>
                        (case abort of
                           None \<Rightarrow> transact resolve i commandType tenantId idempotencyKey requestHash work s
                         | Some Serialization_failure \<Rightarrow> Inl Concurrent_conflict
                         | Some Unique_violation \<Rightarrow>
                             (case replay (sv_executions s (tenantId, commandType, idempotencyKey)) requestHash of
                                Inl e \<Rightarrow> Inl (Replay_refused e)
                              | Inr (Some r) \<Rightarrow> Inr (s, r, True)
                              | Inr None \<Rightarrow> Inl Concurrent_conflict)))"

section \<open>Canonical JSON does not depend on the order\<close>

lemma map_js_insert:
  "(\<And>y. y \<in> set xs \<Longrightarrow> le (f x) (f y) = le' x y) \<Longrightarrow> map f (js_insert le' x xs) = js_insert le (f x) (map f xs)"
  by (induction xs) auto

lemma map_js_sort: "map f (js_sort (\<lambda>a b. le (f a) (f b)) xs) = js_sort le (map f xs)"
  by (induction xs) (simp_all add: map_js_insert [where le = le])

text \<open>
  \<open>localeCompare\<close> orders strings totally and transitively, but different strings may compare equal.
\<close>

definition total_order_le :: "('a \<Rightarrow> 'a \<Rightarrow> bool) \<Rightarrow> bool" where
  "total_order_le le \<longleftrightarrow> (\<forall>a b. le a b \<or> le b a) \<and> (\<forall>a b c. le a b \<and> le b c \<longrightarrow> le a c)"

definition tells_apart :: "('a \<Rightarrow> 'a \<Rightarrow> bool) \<Rightarrow> 'a list \<Rightarrow> bool" where
  "tells_apart le xs \<longleftrightarrow> list_all (\<lambda>a. list_all (\<lambda>b. le a b \<and> le b a \<longrightarrow> a = b) xs) xs"

lemma sorted_wrt_unique:
  assumes "\<And>a b. a \<in> set xs \<Longrightarrow> b \<in> set xs \<Longrightarrow> le a b \<Longrightarrow> le b a \<Longrightarrow> a = b"
    and "sorted_wrt le xs" "sorted_wrt le ys" "mset xs = mset ys"
  shows "xs = ys"
  using assms
proof (induction xs arbitrary: ys)
  case (Cons x xs)
  then obtain y ys' where ys: "ys = y # ys'" by (cases ys) auto
  have "y \<in> set (x # xs)" "x \<in> set (y # ys')"
    using Cons.prems(4) ys by (metis list.set_intros(1) set_mset_mset)+
  then have "x = y" using Cons.prems(1,2,3) ys by auto
  then show ?case using Cons.IH [of ys'] Cons.prems ys by auto
qed simp

lemma js_sort_mset:
  assumes "total_order_le le" "tells_apart le xs" "mset xs = mset ys"
  shows "js_sort le xs = js_sort le ys"
proof (rule sorted_wrt_unique [where le = le])
  have total: "\<And>a b. le a b \<or> le b a" and trans: "\<And>a b c. le a b \<Longrightarrow> le b c \<Longrightarrow> le a c"
    using assms(1) unfolding total_order_le_def by blast+
  show "sorted_wrt le (js_sort le xs)" "sorted_wrt le (js_sort le ys)"
    by (rule js_sort_sorted [OF total trans]; assumption)+
  have "set (js_sort le xs) = set xs" by (metis mset_eq_setD mset_js_sort)
  then show "\<And>a b. a \<in> set (js_sort le xs) \<Longrightarrow> b \<in> set (js_sort le xs) \<Longrightarrow> le a b \<Longrightarrow> le b a \<Longrightarrow> a = b"
    using assms(2) by (auto simp: tells_apart_def list_all_iff)
  show "mset (js_sort le xs) = mset (js_sort le ys)" using assms(3) by simp
qed

lemma sort_fields_mset:
  assumes "distinct (map fst kvs)" "mset kvs = mset lws"
  shows "js_sort (\<lambda>a b. fst a \<le> fst b) kvs = js_sort (\<lambda>a b. fst a \<le> fst b) (lws :: (string \<times> 'v) list)"
proof (rule sorted_wrt_unique [where le = "\<lambda>a b. fst a \<le> fst b"])
  fix a b assume "a \<in> set (js_sort (\<lambda>a b. fst a \<le> fst b) kvs)" "b \<in> set (js_sort (\<lambda>a b. fst a \<le> fst b) kvs)"
    "fst a \<le> fst b" "fst b \<le> fst a"
  then show "a = b" using assms(1) by (auto simp: distinct_map dest: inj_onD)
next
  show "sorted_wrt (\<lambda>a b. fst a \<le> fst b) (js_sort (\<lambda>a b. fst a \<le> fst b) kvs)"
    "sorted_wrt (\<lambda>a b. fst a \<le> fst b) (js_sort (\<lambda>a b. fst a \<le> fst b) lws)"
    by (rule js_sort_sorted; auto)+
  show "mset (js_sort (\<lambda>a b. fst a \<le> fst b) kvs) = mset (js_sort (\<lambda>a b. fst a \<le> fst b) lws)"
    using assms(2) by simp
qed

abbreviation canonical :: "(string \<Rightarrow> string \<Rightarrow> bool) \<Rightarrow> string \<Rightarrow> json \<Rightarrow> string" where
  "canonical le k v \<equiv> stringify (stable le k v)"

text \<open>
  \<open>same_request le k v w\<close>: \<open>w\<close> is \<open>v\<close> with the fields of objects, and the elements of the unordered
  arrays, in another order, at any depth. \<open>k\<close> is the field the value is in. The elements of a
  reordered array must be told apart by \<open>le\<close>: those that compare equal have one canonical text.
\<close>

inductive same_request :: "(string \<Rightarrow> string \<Rightarrow> bool) \<Rightarrow> string \<Rightarrow> json \<Rightarrow> json \<Rightarrow> bool"
  for le :: "string \<Rightarrow> string \<Rightarrow> bool" where
  same: "same_request le k v v"
| elements: "list_all2 (same_request le k) vs ws \<Longrightarrow> same_request le k (JArr vs) (JArr ws)"
| reordered: "k \<in> set unordered_keys \<Longrightarrow> mset vs = mset ws \<Longrightarrow> tells_apart le (map (canonical le k) vs) \<Longrightarrow>
    same_request le k (JArr vs) (JArr ws)"
| inside: "list_all2 (\<lambda>p q. fst p = fst q \<and> same_request le (fst p) (snd p) (snd q)) kvs lws \<Longrightarrow>
    same_request le k (JObj kvs) (JObj lws)"
| fields: "distinct (map fst kvs) \<Longrightarrow> mset kvs = mset lws \<Longrightarrow> same_request le k (JObj kvs) (JObj lws)"
| then_same: "same_request le k u v \<Longrightarrow> same_request le k v w \<Longrightarrow> same_request le k u w"

lemma canonical_JArr:
  "canonical le k (JArr vs) = ''['' @ commas (if k \<in> set unordered_keys
     then js_sort le (map (canonical le k) vs) else map (canonical le k) vs) @ '']''"
  by (simp add: Let_def map_js_sort o_def)

lemma canonical_JObj:
  "canonical le k (JObj kvs) = ''{'' @ commas (map (\<lambda>(k, t). quote k @ '':'' @ t)
     (js_sort (\<lambda>a b. fst a \<le> fst b) (map (\<lambda>(k, v). (k, canonical le k v)) kvs))) @ ''}''"
proof -
  have a: "map (\<lambda>p. quote (fst p) @ '':'' @ stringify (snd p)) xs
      = map (\<lambda>p. quote (fst p) @ '':'' @ snd p) (map (\<lambda>p. (fst p, stringify (snd p))) xs)" for xs
    by simp
  have b: "map (\<lambda>p. (fst p, stringify (snd p))) (js_sort (\<lambda>a b. fst a \<le> fst b) xs)
      = js_sort (\<lambda>a b. fst a \<le> fst b) (map (\<lambda>p. (fst p, stringify (snd p))) xs)" for xs :: "(string \<times> json) list"
    using map_js_sort [of "\<lambda>p. (fst p, stringify (snd p))" "\<lambda>a b. fst a \<le> fst b" xs] by simp
  show ?thesis
    unfolding stable.simps stringify.simps case_prod_unfold a b by (simp add: o_def)
qed

lemma same_request_canonical:
  assumes "total_order_le le" "same_request le k v w"
  shows "canonical le k v = canonical le k w"
  using assms(2)
proof induction
  case (elements k vs ws)
  then have "map (canonical le k) vs = map (canonical le k) ws"
    by (auto simp: list_all2_conv_all_nth intro: nth_equalityI)
  then show ?case by (simp only: canonical_JArr)
next
  case (reordered k vs ws)
  then have "js_sort le (map (canonical le k) vs) = js_sort le (map (canonical le k) ws)"
    by (intro js_sort_mset [OF assms(1)]) simp_all
  then show ?case using reordered by (simp only: canonical_JArr if_True)
next
  case (inside kvs lws k)
  then have "map (\<lambda>(k, v). (k, canonical le k v)) kvs = map (\<lambda>(k, v). (k, canonical le k v)) lws"
    by (intro nth_equalityI) (auto simp: list_all2_conv_all_nth case_prod_unfold)
  then show ?case by (simp only: canonical_JObj)
next
  case (fields kvs lws k)
  have "js_sort (\<lambda>a b. fst a \<le> fst b) (map (\<lambda>(k, v). (k, canonical le k v)) kvs)
      = js_sort (\<lambda>a b. fst a \<le> fst b) (map (\<lambda>(k, v). (k, canonical le k v)) lws)"
    by (rule sort_fields_mset) (use fields in \<open>simp_all add: case_prod_unfold o_def\<close>)
  then show ?case by (simp only: canonical_JObj)
qed simp_all

section \<open>A command is carried out once\<close>

text \<open>
  A service function is \<open>execute\<close> on the work function of its command, for the actor that the
  authorization context describes.
\<close>

definition actor_of :: "auth_context \<Rightarrow> actor" where
  "actor_of ctx =
     \<lparr>act_tenantId = ac_tenantId ctx, act_userId = ac_userId ctx, act_allWarehouses = False,
      act_readWarehouseIds = ac_readWarehouseIds ctx, act_operateWarehouseIds = ac_operateWarehouseIds ctx\<rparr>"

definition inventory_execute ::
  "(string \<Rightarrow> string \<Rightarrow> bool) \<Rightarrow> 'w inventory_tx \<Rightarrow> (nat \<Rightarrow> string) \<Rightarrow> env
   \<Rightarrow> (bool \<Rightarrow> identity \<Rightarrow> 'w \<Rightarrow> identity_error issue + auth_context) \<Rightarrow> identity option \<Rightarrow> string option
   \<Rightarrow> (string \<Rightarrow> string) \<Rightarrow> inventory_command \<Rightarrow> db_abort option
   \<Rightarrow> ('w, string list) service_state \<Rightarrow> ('w, string list) service_state
   \<Rightarrow> inv_code issue exec_error + (('w, string list) service_state \<times> string list \<times> bool)" where
  "inventory_execute le tx gen env resolve who key hashWith cmd abort s0 s =
     execute env resolve who (command_type cmd) key hashWith
       (\<lambda>ctx w. run_command le tx gen (actor_of ctx) cmd w) abort s0 s"

text \<open>
  The actor is of the tenant the identity names, up to white space; \<open>resolveProvisionedActor\<close> on a
  table of users keeps it.
\<close>

definition keeps_tenant :: "(bool \<Rightarrow> identity \<Rightarrow> 'w \<Rightarrow> identity_error issue + auth_context) \<Rightarrow> bool" where
  "keeps_tenant resolve \<longleftrightarrow> (\<forall>b i w ctx. resolve b i w = Inr ctx \<longrightarrow> ac_tenantId ctx = js_text (id_tenantId i))"

lemma provisioned_keeps_tenant:
  "finds_users findUser \<Longrightarrow> finds_users reload \<Longrightarrow> keeps_tenant (provisioned findUser reload)"
  unfolding keeps_tenant_def by (blast dest: provisioned_tenant(1))

text \<open>Executions are recorded under the tenant of a user, which has no white space around it.\<close>

definition trimmed_tenants :: "('w, 'r) service_state \<Rightarrow> bool" where
  "trimmed_tenants s \<longleftrightarrow> (\<forall>t ct k. sv_executions s (t, ct, k) \<noteq> None \<longrightarrow> js_trim t = t)"

lemma trimmed_tenants_insert:
  assumes "trimmed_tenants s" "sv_executions s' = (sv_executions s)((js_text v, ct, key) \<mapsto> e)"
  shows "trimmed_tenants s'"
proof -
  have "js_trim (js_text v) = js_text v" by (cases v) (simp_all add: js_text_def)
  then show ?thesis using assms unfolding trimmed_tenants_def by (metis fun_upd_other prod.inject)
qed

abbreviation sent_tenant :: "identity \<Rightarrow> string" where
  "sent_tenant i \<equiv> (case id_tenantId i of None \<Rightarrow> [] | Some t \<Rightarrow> t)"

definition executions_kept :: "('w, 'r) service_state \<Rightarrow> ('w, 'r) service_state \<Rightarrow> bool" where
  "executions_kept s s' \<longleftrightarrow> (\<forall>k e. sv_executions s k = Some e \<longrightarrow> sv_executions s' k = Some e)"

lemma executions_kept_refl [simp]: "executions_kept s s"
  by (simp add: executions_kept_def)

lemma executions_kept_trans: "executions_kept s s' \<Longrightarrow> executions_kept s' s'' \<Longrightarrow> executions_kept s s''"
  by (simp add: executions_kept_def)

definition recorded_as :: "('w, 'r) service_state \<Rightarrow> string \<times> string \<times> string \<Rightarrow> string \<Rightarrow> 'r \<Rightarrow> bool" where
  "recorded_as s k requestHash r \<longleftrightarrow>
     sv_executions s k = Some \<lparr>exe_requestHash = requestHash, exe_status = ''completed'', exe_resultPayload = Some r\<rparr>"

lemma recorded_replay:
  "recorded_as s k requestHash r \<Longrightarrow> replay (sv_executions s k) requestHash = Inr (Some r)"
  by (simp add: recorded_as_def replay_def)

lemma replay_None: "replay ex requestHash = Inr None \<longleftrightarrow> ex = None"
  by (auto simp: replay_def split: option.splits)

lemma transact_cases:
  fixes work :: "auth_context \<Rightarrow> 'w \<Rightarrow> 'c + 'w \<times> 'r"
  assumes "transact resolve i ct t key h work s = Inr (s', r, replayed)" "keeps_tenant resolve"
  shows "executions_kept s s' \<and> (trimmed_tenants s \<longrightarrow> trimmed_tenants s')
    \<and> (if replayed then s' = s \<and> replay (sv_executions s (t, ct, key)) h = Inr (Some r)
       else sv_executions s (js_text (id_tenantId i), ct, key) = None
         \<and> recorded_as s' (js_text (id_tenantId i), ct, key) h r)"
proof -
  from assms(1) obtain ctx where ctx: "resolve False i (sv_world s) = Inr ctx"
    by (auto simp: transact_def split: sum.splits)
  then have t: "ac_tenantId ctx = js_text (id_tenantId i)" using assms(2) by (auto simp: keeps_tenant_def)
  have "s' = s \<and> replayed \<and> replay (sv_executions s (t, ct, key)) h = Inr (Some r)
    \<or> \<not> replayed \<and> sv_executions s (js_text (id_tenantId i), ct, key) = None
      \<and> sv_executions s' = (sv_executions s)((js_text (id_tenantId i), ct, key) \<mapsto>
          \<lparr>exe_requestHash = h, exe_status = ''completed'', exe_resultPayload = Some r\<rparr>)"
    using assms(1) ctx by (auto simp: transact_def t replay_def split: sum.splits option.splits if_splits)
  then show ?thesis
  proof (elim disjE conjE)
    assume "sv_executions s (js_text (id_tenantId i), ct, key) = None"
      "sv_executions s' = (sv_executions s)((js_text (id_tenantId i), ct, key) \<mapsto>
          \<lparr>exe_requestHash = h, exe_status = ''completed'', exe_resultPayload = Some r\<rparr>)" "\<not> replayed"
    then show ?thesis using trimmed_tenants_insert [of s s' "id_tenantId i"]
      by (auto simp: executions_kept_def recorded_as_def)
  qed simp
qed

lemma execute_cases:
  fixes work :: "auth_context \<Rightarrow> 'w \<Rightarrow> 'c + 'w \<times> 'r"
  assumes "execute env resolve (Some i) ct key hashWith work abort s0 s = Inr (s', r, replayed)"
    and "keeps_tenant resolve"
  shows "executions_kept s s' \<and> (trimmed_tenants s \<longrightarrow> trimmed_tenants s')
    \<and> (if replayed then s' = s
         \<and> (\<exists>u\<in>{s0, s}. replay (sv_executions u (sent_tenant i, ct, js_text key)) (hashWith (js_text key)) = Inr (Some r))
       else sv_executions s (js_text (id_tenantId i), ct, js_text key) = None
         \<and> recorded_as s' (js_text (id_tenantId i), ct, js_text key) (hashWith (js_text key)) r)"
proof -
  let ?h = "hashWith (js_text key)" and ?t = "sent_tenant i"
  let ?ex = "\<lambda>u. sv_executions u (?t, ct, js_text key)"
  from assms(1) have pre: "(case replay (?ex s0) ?h of
       Inl e \<Rightarrow> Inl (Replay_refused e)
     | Inr (Some r) \<Rightarrow> Inr (s, r, True)
     | Inr None \<Rightarrow>
         (case abort of
            None \<Rightarrow> transact resolve i ct ?t (js_text key) ?h work s
          | Some Serialization_failure \<Rightarrow> Inl Concurrent_conflict
          | Some Unique_violation \<Rightarrow>
              (case replay (?ex s) ?h of
                 Inl e \<Rightarrow> Inl (Replay_refused e)
               | Inr (Some r) \<Rightarrow> Inr (s, r, True)
               | Inr None \<Rightarrow> Inl Concurrent_conflict))) = Inr (s', r, replayed)"
    by (auto simp: execute_def Let_def split: if_splits sum.splits)
  show ?thesis
  proof (cases "?ex s0")
    case (Some e)
    then have "replay (?ex s0) ?h \<noteq> Inr None" by (simp add: replay_None)
    then show ?thesis using pre by (auto split: sum.splits option.splits)
  next
    case None
    then have n: "replay (?ex s0) ?h = Inr None" by (simp add: replay_None)
    show ?thesis
    proof (cases abort)
      case None': None
      have "transact resolve i ct ?t (js_text key) ?h work s = Inr (s', r, replayed)"
        using pre n None' by simp
      from transact_cases [OF this assms(2)] show ?thesis by auto
    next
      case (Some a)
      then show ?thesis using pre n by (cases a) (auto split: sum.splits option.splits)
    qed
  qed
qed

end
