(* ===== verification/Inventory_Store.thy ===== *)
theory Inventory_Store
  imports Inventory_Rows
begin

text \<open>
  What the inventory service relies on from the database: the locale \<open>inventory_store\<close>. A state
  has a table of balances by primary key, the list of movement rows, and the documents by primary
  key. The laws are the documented meaning of the client's \<open>findFirst\<close>, \<open>findMany\<close>,
  \<open>update\<close>, \<open>updateMany\<close> and \<open>create\<close> on those tables, for the filters the code passes;
  \<open>create\<close> and \<open>update\<close> may also refuse, which \<open>None\<close> stands for.

  \<open>list_tx\<close> is a database of lists that satisfies the laws: the interpretation at the end shows
  that the laws can hold, and the witnesses of the properties run on it.
\<close>

section \<open>The interface\<close>

definition movement_matches :: "string \<Rightarrow> string \<Rightarrow> string list option \<Rightarrow> movement \<Rightarrow> bool" where
  "movement_matches t d lineIds m \<longleftrightarrow>
     mov_tenantId m = t \<and> mov_sourceDocumentId m = Some d
     \<and> (case lineIds of None \<Rightarrow> True
        | Some ls \<Rightarrow> (case mov_sourceDocumentLineId m of None \<Rightarrow> False | Some l \<Rightarrow> l \<in> set ls))"

definition of_tenant :: "('d \<Rightarrow> string) \<Rightarrow> string \<Rightarrow> 'd option \<Rightarrow> 'd option" where
  "of_tenant tenant t row = (case row of None \<Rightarrow> None | Some d \<Rightarrow> if tenant d = t then Some d else None)"

definition set_quantities :: "int \<Rightarrow> int \<Rightarrow> int \<Rightarrow> balance \<Rightarrow> balance" where
  "set_quantities onHand reserved available b =
     b\<lparr>bal_onHandQuantity := Some onHand, bal_reservedQuantity := Some reserved,
       bal_availableQuantity := Some available, bal_version := bal_version b + 1\<rparr>"

locale inventory_store =
  fixes tx :: "'s inventory_tx"
    and balances :: "'s \<Rightarrow> string \<Rightarrow> balance option"
    and movements :: "'s \<Rightarrow> movement list"
    and transfers :: "'s \<Rightarrow> string \<Rightarrow> stock_transfer option"
    and counts :: "'s \<Rightarrow> string \<Rightarrow> count_session option"
    and adjustments :: "'s \<Rightarrow> string \<Rightarrow> adjustment option"
  assumes balance_key: "balances s k = Some b \<Longrightarrow> bal_id b = k"
    and transfer_key: "transfers s k = Some td \<Longrightarrow> trf_id td = k"
    and count_key: "counts s k = Some cd \<Longrightarrow> cs_id cd = k"
    and adjustment_key: "adjustments s k = Some ad \<Longrightarrow> adj_id ad = k"
    and find_transfer: "tx_findTransfer tx s t d = of_tenant trf_tenantId t (transfers s d)"
    and find_count: "tx_findCount tx s t d = of_tenant cs_tenantId t (counts s d)"
    and find_adjustment: "tx_findAdjustment tx s t d = of_tenant adj_tenantId t (adjustments s d)"
    and find_balances_by_id:
      "b \<in> set (tx_findBalancesById tx s t ids) \<longleftrightarrow>
         balances s (bal_id b) = Some b \<and> bal_tenantId b = t \<and> bal_id b \<in> set ids"
    and find_balances_by_key:
      "b \<in> set (tx_findBalancesByKey tx s t keys) \<longleftrightarrow>
         balances s (bal_id b) = Some b \<and> bal_tenantId b = t
         \<and> (bal_sku b, bal_warehouseKey b, bal_locationKey b) \<in> set keys"
    and find_movements:
      "mset (tx_findMovements tx s t d ls) = filter_mset (movement_matches t d ls) (mset (movements s))"
    and update_balance:
      "tx_updateBalance tx s k t v onHand reserved available = (s', n) \<Longrightarrow>
         (case balances s k of
            Some b \<Rightarrow> if bal_tenantId b = t \<and> bal_version b = v
                      then n = 1 \<and> balances s' = (balances s)(k \<mapsto> set_quantities onHand reserved available b)
                      else n = 0 \<and> balances s' = balances s
          | None \<Rightarrow> n = 0 \<and> balances s' = balances s)
         \<and> movements s' = movements s \<and> transfers s' = transfers s \<and> counts s' = counts s
         \<and> adjustments s' = adjustments s"
    and create_movement:
      "tx_createMovement tx s m = Some s' \<Longrightarrow>
         movements s' = movements s @ [m] \<and> balances s' = balances s \<and> transfers s' = transfers s
         \<and> counts s' = counts s \<and> adjustments s' = adjustments s"
    and set_reversed_by:
      "tx_setReversedBy tx s orig r = Some s' \<Longrightarrow>
         movements s' = map (\<lambda>m. if Some (mov_id m) = orig then m\<lparr>mov_reversedByMovementId := Some r\<rparr> else m) (movements s)
         \<and> balances s' = balances s \<and> transfers s' = transfers s \<and> counts s' = counts s
         \<and> adjustments s' = adjustments s"
    and update_transfer:
      "tx_updateTransfer tx s d f = Some s' \<Longrightarrow>
         (\<exists>x. transfers s d = Some x \<and> transfers s' = (transfers s)(d \<mapsto> f x)) \<and> balances s' = balances s
         \<and> movements s' = movements s \<and> counts s' = counts s \<and> adjustments s' = adjustments s"
    and update_count:
      "tx_updateCount tx s d g = Some s' \<Longrightarrow>
         (\<exists>x. counts s d = Some x \<and> counts s' = (counts s)(d \<mapsto> g x)) \<and> balances s' = balances s
         \<and> movements s' = movements s \<and> transfers s' = transfers s \<and> adjustments s' = adjustments s"
    and update_adjustment:
      "tx_updateAdjustment tx s d h = Some s' \<Longrightarrow>
         (\<exists>x. adjustments s d = Some x \<and> adjustments s' = (adjustments s)(d \<mapsto> h x)) \<and> balances s' = balances s
         \<and> movements s' = movements s \<and> transfers s' = transfers s \<and> counts s' = counts s"
    and transfer_number:
      "tx_transferNumberUsed tx s t num \<longleftrightarrow>
         (\<exists>k x. transfers s k = Some x \<and> trf_tenantId x = t \<and> trf_transferNumber x = num)"
    and count_number:
      "tx_countNumberUsed tx s t num \<longleftrightarrow>
         (\<exists>k x. counts s k = Some x \<and> cs_tenantId x = t \<and> cs_countNumber x = num)"
    and adjustment_number:
      "tx_adjustmentNumberUsed tx s t num \<longleftrightarrow>
         (\<exists>k x. adjustments s k = Some x \<and> adj_tenantId x = t \<and> adj_adjustmentNumber x = num)"
    and find_count_balances:
      "b \<in> set (tx_findCountBalances tx s t w ids) \<longleftrightarrow>
         balances s (bal_id b) = Some b \<and> bal_tenantId b = t \<and> bal_warehouseId b = Some w \<and> bal_id b \<in> set ids"
    and create_transfer:
      "tx_createTransfer tx s td = Some s' \<Longrightarrow>
         transfers s (trf_id td) = None \<and> transfers s' = (transfers s)(trf_id td \<mapsto> td)
         \<and> balances s' = balances s \<and> movements s' = movements s \<and> counts s' = counts s
         \<and> adjustments s' = adjustments s"
    and create_count:
      "tx_createCount tx s cd = Some s' \<Longrightarrow>
         counts s (cs_id cd) = None \<and> counts s' = (counts s)(cs_id cd \<mapsto> cd)
         \<and> balances s' = balances s \<and> movements s' = movements s \<and> transfers s' = transfers s
         \<and> adjustments s' = adjustments s"
    and create_adjustment:
      "tx_createAdjustment tx s ad = Some s' \<Longrightarrow>
         adjustments s (adj_id ad) = None \<and> adjustments s' = (adjustments s)(adj_id ad \<mapsto> ad)
         \<and> balances s' = balances s \<and> movements s' = movements s \<and> transfers s' = transfers s
         \<and> counts s' = counts s"

section \<open>A database of lists\<close>

record list_db =
  ld_balances :: "balance list"
  ld_movements :: "movement list"
  ld_transfers :: "stock_transfer list"
  ld_counts :: "count_session list"
  ld_adjustments :: "adjustment list"
  ld_items :: "(string \<times> item_row) list"
  ld_warehouses :: "(string \<times> string) list"

definition row_by :: "('r \<Rightarrow> string) \<Rightarrow> 'r list \<Rightarrow> string \<Rightarrow> 'r option" where
  "row_by key rows k = List.find (\<lambda>r. key r = k) rows"

definition set_row :: "('r \<Rightarrow> string) \<Rightarrow> string \<Rightarrow> 'r \<Rightarrow> 'r list \<Rightarrow> 'r list" where
  "set_row key k r rows = map (\<lambda>q. if key q = k then r else q) rows"

definition number_used ::
  "('r \<Rightarrow> string) \<Rightarrow> ('r \<Rightarrow> string) \<Rightarrow> ('r \<Rightarrow> string) \<Rightarrow> 'r list \<Rightarrow> string \<Rightarrow> string \<Rightarrow> bool" where
  "number_used key tenant number rows t n =
     list_ex (\<lambda>r. row_by key rows (key r) = Some r \<and> tenant r = t \<and> number r = n) rows"

definition add_row :: "('r \<Rightarrow> string) \<Rightarrow> 'r \<Rightarrow> 'r list \<Rightarrow> 'r list option" where
  "add_row key r rows = (if row_by key rows (key r) = None then Some (rows @ [r]) else None)"

text \<open>\<open>update\<close> of the row with primary key \<open>k\<close>; it may not change that key.\<close>

definition update_row :: "('r \<Rightarrow> string) \<Rightarrow> string \<Rightarrow> ('r \<Rightarrow> 'r) \<Rightarrow> 'r list \<Rightarrow> 'r list option" where
  "update_row key k f rows =
     (case row_by key rows k of None \<Rightarrow> None
      | Some r \<Rightarrow> if key (f r) = k then Some (set_row key k (f r) rows) else None)"

definition list_tx :: "list_db inventory_tx" where
  "list_tx =
     \<lparr>tx_findTransfer = (\<lambda>s t d. of_tenant trf_tenantId t (row_by trf_id (ld_transfers s) d)),
      tx_findCount = (\<lambda>s t d. of_tenant cs_tenantId t (row_by cs_id (ld_counts s) d)),
      tx_findAdjustment = (\<lambda>s t d. of_tenant adj_tenantId t (row_by adj_id (ld_adjustments s) d)),
      tx_findBalancesByKey = (\<lambda>s t keys.
        filter (\<lambda>b. row_by bal_id (ld_balances s) (bal_id b) = Some b \<and> bal_tenantId b = t
                  \<and> (bal_sku b, bal_warehouseKey b, bal_locationKey b) \<in> set keys) (ld_balances s)),
      tx_findBalancesById = (\<lambda>s t ids.
        filter (\<lambda>b. row_by bal_id (ld_balances s) (bal_id b) = Some b \<and> bal_tenantId b = t
                  \<and> bal_id b \<in> set ids) (ld_balances s)),
      tx_findAdjustmentLines = (\<lambda>s d.
        case row_by adj_id (ld_adjustments s) d of None \<Rightarrow> [] | Some a \<Rightarrow> adj_lines a),
      tx_findMovements = (\<lambda>s t d ls. filter (movement_matches t d ls) (ld_movements s)),
      tx_updateBalance = (\<lambda>s k t v onHand reserved available.
        case row_by bal_id (ld_balances s) k of
          None \<Rightarrow> (s, 0)
        | Some b \<Rightarrow>
            if bal_tenantId b = t \<and> bal_version b = v
            then (s\<lparr>ld_balances := set_row bal_id k (set_quantities onHand reserved available b) (ld_balances s)\<rparr>, 1)
            else (s, 0)),
      tx_createMovement = (\<lambda>s m.
        if list_ex (\<lambda>q. mov_id q = mov_id m
              \<or> mov_tenantId q = mov_tenantId m \<and> mov_movementType q = mov_movementType m
                \<and> mov_sourceDocumentLineId q \<noteq> None
                \<and> mov_sourceDocumentLineId q = mov_sourceDocumentLineId m) (ld_movements s)
        then None else Some (s\<lparr>ld_movements := ld_movements s @ [m]\<rparr>)),
      tx_setReversedBy = (\<lambda>s orig r.
        if list_ex (\<lambda>m. Some (mov_id m) = orig) (ld_movements s)
        then Some (s\<lparr>ld_movements := map (\<lambda>m. if Some (mov_id m) = orig
                                             then m\<lparr>mov_reversedByMovementId := Some r\<rparr> else m) (ld_movements s)\<rparr>)
        else None),
      tx_updateTransfer = (\<lambda>s d f. map_option (\<lambda>rows. s\<lparr>ld_transfers := rows\<rparr>) (update_row trf_id d f (ld_transfers s))),
      tx_updateCount = (\<lambda>s d f. map_option (\<lambda>rows. s\<lparr>ld_counts := rows\<rparr>) (update_row cs_id d f (ld_counts s))),
      tx_updateAdjustment = (\<lambda>s d f. map_option (\<lambda>rows. s\<lparr>ld_adjustments := rows\<rparr>) (update_row adj_id d f (ld_adjustments s))),
      tx_activeItems = (\<lambda>s t ids. map snd (filter (\<lambda>p. fst p = t \<and> item_id (snd p) \<in> set ids) (ld_items s))),
      tx_activeWarehouses = (\<lambda>s t ids. map snd (filter (\<lambda>p. fst p = t \<and> snd p \<in> set ids) (ld_warehouses s))),
      tx_findCountBalances = (\<lambda>s t w ids.
        js_sort (\<lambda>a b. bal_id a \<le> bal_id b)
          (filter (\<lambda>b. row_by bal_id (ld_balances s) (bal_id b) = Some b \<and> bal_tenantId b = t
                    \<and> bal_warehouseId b = Some w \<and> bal_id b \<in> set ids) (ld_balances s))),
      tx_transferNumberUsed = (\<lambda>s. number_used trf_id trf_tenantId trf_transferNumber (ld_transfers s)),
      tx_countNumberUsed = (\<lambda>s. number_used cs_id cs_tenantId cs_countNumber (ld_counts s)),
      tx_adjustmentNumberUsed = (\<lambda>s. number_used adj_id adj_tenantId adj_adjustmentNumber (ld_adjustments s)),
      tx_createTransfer = (\<lambda>s r. map_option (\<lambda>rows. s\<lparr>ld_transfers := rows\<rparr>) (add_row trf_id r (ld_transfers s))),
      tx_createCount = (\<lambda>s r. map_option (\<lambda>rows. s\<lparr>ld_counts := rows\<rparr>) (add_row cs_id r (ld_counts s))),
      tx_createAdjustment = (\<lambda>s r. map_option (\<lambda>rows. s\<lparr>ld_adjustments := rows\<rparr>) (add_row adj_id r (ld_adjustments s)))\<rparr>"

lemma row_by_key: "row_by key rows k = Some r \<Longrightarrow> key r = k \<and> r \<in> set rows"
  by (auto simp: row_by_def find_Some_iff)

lemma row_by_set_row:
  assumes "row_by key rows k = Some q" "key r = k"
  shows "row_by key (set_row key k r rows) = (row_by key rows)(k \<mapsto> r)"
proof
  fix j
  have other: "j \<noteq> k \<Longrightarrow> row_by key (set_row key k r xs) j = row_by key xs j" for xs
    using assms(2) unfolding row_by_def set_row_def by (induction xs) auto
  have same: "row_by key xs k \<noteq> None \<Longrightarrow> row_by key (set_row key k r xs) k = Some r" for xs
    using assms(2) unfolding row_by_def set_row_def by (induction xs) auto
  show "row_by key (set_row key k r rows) j = ((row_by key rows)(k \<mapsto> r)) j"
    using other same [of rows] assms(1) by simp
qed

lemma update_row_Some:
  assumes "update_row key k f rows = Some rows'"
  shows "\<exists>x. row_by key rows k = Some x \<and> row_by key rows' = (row_by key rows)(k \<mapsto> f x)"
  using assms by (auto simp: update_row_def row_by_set_row split: option.splits if_splits)

lemma number_used_iff:
  "number_used key tenant number rows t n \<longleftrightarrow> (\<exists>k r. row_by key rows k = Some r \<and> tenant r = t \<and> number r = n)"
  by (auto simp: number_used_def list_ex_iff dest: row_by_key)

lemma add_row_Some:
  assumes "add_row key r rows = Some rows'"
  shows "row_by key rows (key r) = None \<and> row_by key rows' = (row_by key rows)(key r \<mapsto> r)"
proof -
  have "row_by key (xs @ [r]) k = (case row_by key xs k of Some q \<Rightarrow> Some q | None \<Rightarrow> if key r = k then Some r else None)" for xs k
    unfolding row_by_def by (induction xs) auto
  then show ?thesis using assms by (auto simp: add_row_def fun_eq_iff split: if_splits option.splits)
qed

interpretation list_store: inventory_store list_tx
  "\<lambda>s. row_by bal_id (ld_balances s)" ld_movements
  "\<lambda>s. row_by trf_id (ld_transfers s)" "\<lambda>s. row_by cs_id (ld_counts s)"
  "\<lambda>s. row_by adj_id (ld_adjustments s)"
  apply unfold_locales
  apply (auto dest: row_by_key)[4]
  apply (simp_all add: list_tx_def)[3]
  subgoal by (auto simp: list_tx_def dest: row_by_key)
  subgoal by (auto simp: list_tx_def dest: row_by_key)
  subgoal by (simp add: list_tx_def)
  subgoal
    by (auto simp: list_tx_def split: option.splits if_splits intro!: row_by_set_row)
      (auto simp: set_quantities_def dest: row_by_key)
  subgoal by (auto simp: list_tx_def split: if_splits)
  subgoal by (auto simp: list_tx_def split: if_splits)
  subgoal by (auto simp: list_tx_def dest!: update_row_Some)
  subgoal by (auto simp: list_tx_def dest!: update_row_Some)
  subgoal by (auto simp: list_tx_def dest!: update_row_Some)
  subgoal by (simp add: list_tx_def number_used_iff)
  subgoal by (simp add: list_tx_def number_used_iff)
  subgoal by (simp add: list_tx_def number_used_iff)
  subgoal by (auto simp: list_tx_def dest: row_by_key)
  subgoal by (auto simp: list_tx_def dest!: add_row_Some)
  subgoal by (auto simp: list_tx_def dest!: add_row_Some)
  subgoal by (auto simp: list_tx_def dest!: add_row_Some)
  done

end
