(* ===== verification/Balance_Quantities.thy ===== *)
theory Balance_Quantities
  imports Inventory_Rows
begin

text \<open>The three quantities of a balance as numbers, and what every balance satisfies.\<close>

definition on_hand :: "balance \<Rightarrow> int" where "on_hand b = column_units (bal_onHandQuantity b)"
definition reserved :: "balance \<Rightarrow> int" where "reserved b = column_units (bal_reservedQuantity b)"
definition available :: "balance \<Rightarrow> int" where "available b = column_units (bal_availableQuantity b)"

lemmas quantity_defs = on_hand_def reserved_def available_def

definition balance_ok :: "balance \<Rightarrow> bool" where
  "balance_ok b \<longleftrightarrow> available b = on_hand b - reserved b \<and> 0 \<le> reserved b \<and> reserved b \<le> on_hand b"

end
