(* ===== verification/Inventory_Ledger.thy ===== *)
theory Inventory_Ledger
  imports Inventory_Commands Inventory_Store Balance_Quantities
begin

text \<open>
  Every command of the inventory service keeps the books: the on-hand quantity of a balance is
  what it opened with plus the sum of the movements recorded against it, the available quantity
  is on-hand less reserved, and neither goes below zero.

  \<open>plan_books\<close> is what the loops of a work function need from a plan. It is proved for each of
  the five plans that move stock, and \<open>commit_books\<close> is the one lemma about the loops. The
  reachable states of the service are those an \<open>inventory_step\<close> leads to.
\<close>

section \<open>The books\<close>

definition ledger :: "movement list \<Rightarrow> string \<Rightarrow> int" where
  "ledger ms k =
     sum_list (map (\<lambda>m. column_units (mov_quantityIn m) - column_units (mov_quantityOut m))
       (filter (\<lambda>m. mov_balanceId m = Some k) ms))"

definition books :: "(string \<Rightarrow> int) \<Rightarrow> (string \<Rightarrow> balance option) \<Rightarrow> movement list \<Rightarrow> bool" where
  "books opening bals ms \<longleftrightarrow>
     (\<forall>k b. bals k = Some b \<longrightarrow> on_hand b = opening k + ledger ms k \<and> balance_ok b)"

lemma ledger_append [simp]: "ledger (ms @ ns) k = ledger ms k + ledger ns k"
  by (simp add: ledger_def)

lemma ledger_Nil [simp]: "ledger [] k = 0"
  by (simp add: ledger_def)

lemma ledger_single:
  "ledger [m] k = (if mov_balanceId m = Some k
     then column_units (mov_quantityIn m) - column_units (mov_quantityOut m) else 0)"
  by (simp add: ledger_def)

lemma ledger_reversed_by:
  "ledger (map (\<lambda>m. if P m then m\<lparr>mov_reversedByMovementId := r\<rparr> else m) ms) k = ledger ms k"
  by (induction ms) (auto simp: ledger_def)

section \<open>What a plan must say about the current rows\<close>

definition impact_current :: "(string \<Rightarrow> balance option) \<Rightarrow> string \<Rightarrow> balance_impact \<Rightarrow> bool" where
  "impact_current bals t i \<longleftrightarrow>
     (\<exists>b. bals (bi_balanceId i) = Some b \<and> bal_tenantId b = t \<and> bi_version i = bal_version b
        \<and> bi_onHandBefore i = on_hand b \<and> bi_reservedBefore i = reserved b
        \<and> (bi_totals i = None \<or> bi_availableBefore i = available b)
        \<and> bi_onHandAfter i = on_hand b + bi_quantity i \<and> bi_reservedAfter i = reserved b
        \<and> bi_availableAfter i = bi_onHandAfter i - reserved b
        \<and> bi_reservedAfter i \<le> bi_onHandAfter i)"

definition plan_books :: "(string \<Rightarrow> balance option) \<Rightarrow> string \<Rightarrow> 'd inv_plan \<Rightarrow> bool" where
  "plan_books bals t p \<longleftrightarrow>
     (\<forall>i\<in>set (ip_balanceImpacts p). impact_current bals t i)
     \<and> (\<forall>k. impact_change (ip_balanceImpacts p) k = fact_change (ip_movementFacts p) k)"

definition rows_of :: "(string \<Rightarrow> balance option) \<Rightarrow> string \<Rightarrow> balance list \<Rightarrow> bool" where
  "rows_of bals t rows \<longleftrightarrow> (\<forall>b\<in>set rows. bals (bal_id b) = Some b \<and> bal_tenantId b = t)"

lemma rows_of_Nil [simp]: "rows_of bals t []"
  by (simp add: rows_of_def)

lemma aggregated_current:
  assumes rows: "rows_of bals t rows" and es: "ri_balance ` set es \<subseteq> set rows"
    and agg: "aggregateBalanceImpacts le codes es = ([], imps)" and i: "i \<in> set imps"
  shows "impact_current bals t i"
proof -
  have i': "i \<in> set (snd (aggregateBalanceImpacts le codes es))" using agg i by simp
  obtain b where b: "impact_of es b i" using agg_impact_of [OF i'] ..
  then have "bals (bal_id b) = Some b" "bal_tenantId b = t"
    using rows es by (auto simp: impact_of_def rows_of_def)
  moreover have "impact_safe i" using agg_safe(1) [OF _ i'] agg by simp
  ultimately show ?thesis using b
    by (auto simp: impact_current_def impact_of_def impact_safe_def quantity_defs)
qed

text \<open>Bodies of loops: issues, raw impacts and facts of one element.\<close>

definition body_books :: "balance list \<Rightarrow> inv_code issue list \<times> raw_impact list \<times> movement_fact list \<Rightarrow> bool" where
  "body_books rows body \<longleftrightarrow>
     ri_balance ` set (fst (snd body)) \<subseteq> set rows
     \<and> (\<forall>k. raw_change (fst (snd body)) k = fact_change (snd (snd body)) k)"

lemma bodies_books:
  assumes "\<And>x. x \<in> set bodies \<Longrightarrow> body_books rows x"
  shows "ri_balance ` set (concat (map (fst \<circ> snd) bodies)) \<subseteq> set rows
    \<and> raw_change (concat (map (fst \<circ> snd) bodies)) k = fact_change (concat (map (snd \<circ> snd) bodies)) k"
  using assms
proof (induction bodies)
  case (Cons x xs)
  have x: "body_books rows x" using Cons.prems by simp
  have xs: "ri_balance ` set (concat (map (fst \<circ> snd) xs)) \<subseteq> set rows
    \<and> raw_change (concat (map (fst \<circ> snd) xs)) k = fact_change (concat (map (snd \<circ> snd) xs)) k"
    by (rule Cons.IH) (simp add: Cons.prems)
  show ?case using x xs unfolding body_books_def list.map concat.simps set_append image_Un change_append
    by (simp add: o_def)
qed simp

lemma aggregated_books:
  assumes rows: "rows_of bals t rows" and bodies: "\<And>x. x \<in> set bodies \<Longrightarrow> body_books rows x"
    and agg: "aggregateBalanceImpacts le codes (concat (map (fst \<circ> snd) bodies)) = ([], imps)"
    and p: "ip_balanceImpacts p = imps" "ip_movementFacts p = concat (map (snd \<circ> snd) bodies)"
  shows "plan_books bals t p"
  unfolding plan_books_def p
proof (intro conjI ballI allI)
  fix i assume "i \<in> set imps"
  with aggregated_current [OF rows conjunct1 [OF bodies_books [OF bodies]] agg] show "impact_current bals t i"
    by blast
next
  fix k
  show "impact_change imps k = fact_change (concat (map (snd \<circ> snd) bodies)) k"
    using agg_change [of le codes "concat (map (fst \<circ> snd) bodies)" k] agg
      bodies_books [OF bodies, of bodies k] by simp
qed

lemma transfer_posting_body: "body_books rows (transfer_posting_line rows line)"
  by (auto simp: body_books_def transfer_posting_line_def Let_def raw_leg_impact_def leg_fact_def change_Cons
      dest: last_byD(1) split: option.splits)

lemma transfer_reversal_body: "body_books rows (transfer_reversal_leg movements rows transfer line leg)"
  by (auto simp: body_books_def transfer_reversal_leg_def Let_def raw_leg_impact_def leg_fact_def change_Cons
      dest: last_byD(1) split: option.splits list.splits)

lemma adjustment_posting_body: "body_books rows (adjustment_posting_line rows line)"
  by (auto simp: body_books_def adjustment_posting_line_def Let_def adjustment_raw_def adjustment_fact_def
      change_Cons dest: last_byD(1) split: option.splits)

lemma adjustment_reversal_body: "body_books rows (adjustment_reversal_line movements rows adjustment line)"
  by (auto simp: body_books_def adjustment_reversal_line_def Let_def adjustment_raw_def adjustment_fact_def
      change_Cons dest: last_byD(1) split: option.splits list.splits)

lemma count_posting_body:
  assumes "count_posting_line rows line = ([], imps, facts)" "rows_of bals t rows"
  shows "(\<forall>i\<in>set imps. impact_current bals t i) \<and> impact_change imps k = fact_change facts k"
proof (cases "last_by bal_id rows (cl_inventoryBalanceId line)")
  case None
  then show ?thesis using assms(1) by (simp add: count_posting_line_def)
next
  case (Some b)
  then have "bals (bal_id b) = Some b" "bal_tenantId b = t"
    using assms(2) by (auto simp: rows_of_def dest: last_byD(1))
  then show ?thesis using assms(1) Some
    by (auto simp: count_posting_line_def Let_def impact_current_def quantity_defs change_Cons
        split: option.splits if_splits)
qed

section \<open>The plans that move stock\<close>

lemma enforce_Inr: "enforce plan = Inr p \<longleftrightarrow> p = plan \<and> ip_blockingIssues plan = []"
  by (auto simp: enforce_def split: list.splits)

lemma of_tenant_Some: "of_tenant f t row = Some d \<longleftrightarrow> row = Some d \<and> f d = t"
  by (auto simp: of_tenant_def split: option.splits)

context inventory_store
begin

lemma rows_by_key: "rows_of (balances s) t (tx_findBalancesByKey tx s t keys)"
  by (simp add: rows_of_def find_balances_by_key)

lemma rows_by_id: "rows_of (balances s) t (tx_findBalancesById tx s t ids)"
  by (simp add: rows_of_def find_balances_by_id)

lemma transfer_posting_books:
  assumes "ip_blockingIssues (buildStockTransferPostingPlan le tx s t d) = []"
  shows "plan_books (balances s) t (buildStockTransferPostingPlan le tx s t d)"
proof (cases "tx_findTransfer tx s t (js_trim d)")
  case None
  then show ?thesis using assms by (simp add: buildStockTransferPostingPlan_def result_def)
next
  case (Some td)
  define rows where "rows = (if transfer_keys td = [] then [] else tx_findBalancesByKey tx s t (transfer_keys td))"
  define bodies where "bodies = map (transfer_posting_line rows) (trf_lines td)"
  obtain iss imps where agg:
    "aggregateBalanceImpacts le transfer_posting_codes (concat (map (fst \<circ> snd) bodies)) = (iss, imps)"
    by fastforce
  note plan = buildStockTransferPostingPlan_def [of le tx s t d] Some option.case Let_def
    rows_def [symmetric] bodies_def [symmetric] agg prod.case
  have "iss = []" using assms unfolding plan by simp
  then show ?thesis unfolding plan using agg
    by (intro aggregated_books [of _ _ rows bodies])
      (auto simp: rows_def bodies_def rows_by_key transfer_posting_body)
qed

lemma transfer_reversal_books:
  assumes "ip_blockingIssues (buildStockTransferReversalPlan le tx s t d) = []"
  shows "plan_books (balances s) t (buildStockTransferReversalPlan le tx s t d)"
proof (cases "tx_findTransfer tx s t (js_trim d)")
  case None
  then show ?thesis using assms by (simp add: buildStockTransferReversalPlan_def result_def)
next
  case (Some td)
  define moves where "moves = tx_findMovements tx s t (trf_id td)
    (Some (concat (map (\<lambda>line. map leg_id (tl_legs line)) (trf_lines td))))"
  define rows where "rows = (if movement_balance_ids moves = [] then []
    else tx_findBalancesById tx s t (movement_balance_ids moves))"
  define bodies where "bodies = concat (map (\<lambda>line. map (transfer_reversal_leg moves rows td line) (tl_legs line))
    (trf_lines td))"
  obtain iss imps where agg:
    "aggregateBalanceImpacts le transfer_reversal_codes (concat (map (fst \<circ> snd) bodies)) = (iss, imps)"
    by fastforce
  note plan = buildStockTransferReversalPlan_def [of le tx s t d] Some option.case Let_def
    moves_def [symmetric] rows_def [symmetric] bodies_def [symmetric] agg prod.case
  have "iss = []" using assms unfolding plan by simp
  then show ?thesis unfolding plan using agg
    by (intro aggregated_books [of _ _ rows bodies])
      (auto simp: rows_def bodies_def rows_by_id transfer_reversal_body)
qed

lemma adjustment_posting_books:
  assumes "ip_blockingIssues (buildInventoryAdjustmentPostingPlan le tx s t d) = []"
  shows "plan_books (balances s) t (buildInventoryAdjustmentPostingPlan le tx s t d)"
proof (cases "tx_findAdjustment tx s t (js_trim d)")
  case None
  then show ?thesis using assms by (simp add: buildInventoryAdjustmentPostingPlan_def result_def)
next
  case (Some ad)
  define rows where "rows = tx_findBalancesById tx s t (map al_inventoryBalanceId (adj_lines ad))"
  define bodies where "bodies = map (adjustment_posting_line rows) (adj_lines ad)"
  obtain iss imps where agg:
    "aggregateBalanceImpacts le adjustment_posting_codes (concat (map (fst \<circ> snd) bodies)) = (iss, imps)"
    by fastforce
  note plan = buildInventoryAdjustmentPostingPlan_def [of le tx s t d] Some option.case Let_def
    rows_def [symmetric] bodies_def [symmetric] agg prod.case
  have "iss = []" using assms unfolding plan by simp
  then show ?thesis unfolding plan using agg
    by (intro aggregated_books [of _ _ rows bodies])
      (auto simp: rows_def bodies_def rows_by_id adjustment_posting_body)
qed

lemma adjustment_reversal_books:
  assumes "ip_blockingIssues (buildInventoryAdjustmentReversalPlan le tx s t d) = []"
  shows "plan_books (balances s) t (buildInventoryAdjustmentReversalPlan le tx s t d)"
proof (cases "tx_findAdjustment tx s t (js_trim d)")
  case None
  then show ?thesis using assms by (simp add: buildInventoryAdjustmentReversalPlan_def result_def)
next
  case (Some ad)
  define moves where "moves = tx_findMovements tx s t (adj_id ad) None"
  define rows where "rows = tx_findBalancesById tx s t (map al_inventoryBalanceId (adj_lines ad))"
  define bodies where "bodies = map (adjustment_reversal_line moves rows ad) (adj_lines ad)"
  obtain iss imps where agg:
    "aggregateBalanceImpacts le adjustment_reversal_codes (concat (map (fst \<circ> snd) bodies)) = (iss, imps)"
    by fastforce
  note plan = buildInventoryAdjustmentReversalPlan_def [of le tx s t d] Some option.case Let_def
    moves_def [symmetric] rows_def [symmetric] bodies_def [symmetric] agg prod.case
  have "iss = []" using assms unfolding plan by simp
  then show ?thesis unfolding plan using agg
    by (intro aggregated_books [of _ _ rows bodies])
      (auto simp: rows_def bodies_def rows_by_id adjustment_reversal_body)
qed

lemma count_lines_books:
  assumes "concat (map fst (map (count_posting_line rows) lines)) = []" "rows_of bals t rows"
  shows "(\<forall>i\<in>set (concat (map (fst \<circ> snd) (map (count_posting_line rows) lines))). impact_current bals t i)
    \<and> impact_change (concat (map (fst \<circ> snd) (map (count_posting_line rows) lines))) k
        = fact_change (concat (map (snd \<circ> snd) (map (count_posting_line rows) lines))) k"
  using assms(1)
proof (induction lines)
  case (Cons line lines)
  obtain imps facts where l: "count_posting_line rows line = ([], imps, facts)"
    using Cons.prems by (cases "count_posting_line rows line") auto
  then show ?case using Cons count_posting_body [OF l assms(2)] by auto
qed simp

lemma count_posting_books:
  assumes "ip_blockingIssues (buildCycleCountPostingPlan tx s t d) = []"
  shows "plan_books (balances s) t (buildCycleCountPostingPlan tx s t d)"
proof (cases "tx_findCount tx s t (js_trim d)")
  case None
  then show ?thesis using assms by (simp add: buildCycleCountPostingPlan_def result_def)
next
  case (Some cd)
  define rows where "rows = tx_findBalancesById tx s t (map cl_inventoryBalanceId (cs_lines cd))"
  note plan = buildCycleCountPostingPlan_def [of tx s t d] Some option.case Let_def rows_def [symmetric]
  have "concat (map fst (map (count_posting_line rows) (cs_lines cd))) = []"
    using assms unfolding plan by simp
  moreover have "rows_of (balances s) t rows" by (simp add: rows_def rows_by_id)
  ultimately show ?thesis
    unfolding plan plan_books_def inv_plan.simps using count_lines_books by blast
qed

end

section \<open>What the loops do to the books\<close>

text \<open>
  \<open>balances_moved bals f bals'\<close>: the same balances exist, each has \<open>f k\<close> more on hand, is
  reserved as before, belongs to the same tenant, and is in order when it was before.
\<close>

definition balances_moved ::
  "(string \<Rightarrow> balance option) \<Rightarrow> (string \<Rightarrow> int) \<Rightarrow> (string \<Rightarrow> balance option) \<Rightarrow> bool" where
  "balances_moved bals f bals' \<longleftrightarrow>
     (\<forall>k. case bals k of None \<Rightarrow> bals' k = None
        | Some b \<Rightarrow> \<exists>b'. bals' k = Some b' \<and> on_hand b' = on_hand b + f k \<and> reserved b' = reserved b
            \<and> bal_tenantId b' = bal_tenantId b \<and> (balance_ok b \<longrightarrow> balance_ok b'))"

lemma balances_moved_refl [simp]: "balances_moved bals (\<lambda>k. 0) bals"
  by (simp add: balances_moved_def split: option.splits)

lemma balances_moved_trans:
  assumes "balances_moved bals f bals'" "balances_moved bals' g bals''"
  shows "balances_moved bals (\<lambda>k. f k + g k) bals''"
  unfolding balances_moved_def
proof
  fix k
  from assms have "case bals k of None \<Rightarrow> bals' k = None
        | Some b \<Rightarrow> \<exists>b'. bals' k = Some b' \<and> on_hand b' = on_hand b + f k \<and> reserved b' = reserved b
            \<and> bal_tenantId b' = bal_tenantId b \<and> (balance_ok b \<longrightarrow> balance_ok b')"
    "case bals' k of None \<Rightarrow> bals'' k = None
        | Some b \<Rightarrow> \<exists>b'. bals'' k = Some b' \<and> on_hand b' = on_hand b + g k \<and> reserved b' = reserved b
            \<and> bal_tenantId b' = bal_tenantId b \<and> (balance_ok b \<longrightarrow> balance_ok b')"
    unfolding balances_moved_def by blast+
  then show "case bals k of None \<Rightarrow> bals'' k = None
        | Some b \<Rightarrow> \<exists>b'. bals'' k = Some b' \<and> on_hand b' = on_hand b + (f k + g k) \<and> reserved b' = reserved b
            \<and> bal_tenantId b' = bal_tenantId b \<and> (balance_ok b \<longrightarrow> balance_ok b')"
    by (auto split: option.splits)
qed

text \<open>An impact is current, or stale: then the guarded update refuses it.\<close>

definition impact_stale :: "(string \<Rightarrow> balance option) \<Rightarrow> balance_impact \<Rightarrow> bool" where
  "impact_stale bals i \<longleftrightarrow> (\<exists>b. bals (bi_balanceId i) = Some b \<and> bi_version i < bal_version b)"

lemma set_quantities_sel [simp]:
  "on_hand (set_quantities h r a b) = h" "reserved (set_quantities h r a b) = r"
  "available (set_quantities h r a b) = a" "bal_version (set_quantities h r a b) = bal_version b + 1"
  "bal_tenantId (set_quantities h r a b) = bal_tenantId b" "bal_id (set_quantities h r a b) = bal_id b"
  by (simp_all add: set_quantities_def quantity_defs column_units_def)

lemma impact_written:
  assumes "impact_current bals t i" "bals (bi_balanceId i) = Some b"
    and "b' = set_quantities (bi_onHandAfter i) (bi_reservedAfter i) (bi_availableAfter i) b"
  shows "balances_moved bals (impact_change [i]) (bals(bi_balanceId i \<mapsto> b'))"
  using assms
  by (auto simp: balances_moved_def impact_current_def balance_ok_def change_Cons split: option.splits)

lemma impact_kept:
  assumes "impact_current bals t j \<or> impact_stale bals j" "bals (bi_balanceId i) = Some b"
    and "b' = set_quantities h r a b"
  shows "impact_current (bals(bi_balanceId i \<mapsto> b')) t j \<or> impact_stale (bals(bi_balanceId i \<mapsto> b')) j"
  using assms by (cases "bi_balanceId j = bi_balanceId i") (auto simp: impact_current_def impact_stale_def)

context inventory_store
begin

definition rest :: "'s \<Rightarrow> (string \<Rightarrow> stock_transfer option) \<times> (string \<Rightarrow> count_session option) \<times> (string \<Rightarrow> adjustment option)" where
  "rest s = (transfers s, counts s, adjustments s)"

lemma apply_impacts_books:
  assumes "apply_impacts tx t c imps s = Inr s'"
    and "\<And>i. i \<in> set imps \<Longrightarrow> impact_current (balances s) t i \<or> impact_stale (balances s) i"
  shows "balances_moved (balances s) (impact_change imps) (balances s')
    \<and> movements s' = movements s \<and> rest s' = rest s"
  using assms
proof (induction imps arbitrary: s)
  case Nil
  then show ?case by (simp add: fun_eq_iff [symmetric])
next
  case (Cons i imps)
  obtain s1 n where u: "tx_updateBalance tx s (bi_balanceId i) t (bi_version i)
      (bi_onHandAfter i) (bi_reservedAfter i) (bi_availableAfter i) = (s1, n)" by fastforce
  from Cons.prems(1) u have n: "n = 1" and tail: "apply_impacts tx t c imps s1 = Inr s'"
    by (auto split: if_splits)
  from update_balance [OF u] n obtain b where b: "balances s (bi_balanceId i) = Some b" "bal_version b = bi_version i"
    and s1: "balances s1 = (balances s)(bi_balanceId i \<mapsto>
      set_quantities (bi_onHandAfter i) (bi_reservedAfter i) (bi_availableAfter i) b)"
    by (auto split: option.splits if_splits)
  have same: "movements s1 = movements s" "rest s1 = rest s"
    using update_balance [OF u] by (auto simp: rest_def)
  have "impact_current (balances s) t i"
    using Cons.prems(2) [of i] b by (auto simp: impact_stale_def)
  then have m: "balances_moved (balances s) (impact_change [i]) (balances s1)"
    unfolding s1 using b(1) by (rule impact_written) (rule refl)
  have tl: "impact_current (balances s1) t j \<or> impact_stale (balances s1) j" if "j \<in> set imps" for j
    unfolding s1 using Cons.prems(2) [of j] that b(1) by (intro impact_kept) simp_all
  from Cons.IH [OF tail tl] have IH: "balances_moved (balances s1) (impact_change imps) (balances s')
    \<and> movements s' = movements s1 \<and> rest s' = rest s1" .
  have "(\<lambda>k. impact_change [i] k + impact_change imps k) = impact_change (i # imps)"
    by (rule ext) (simp add: change_Cons)
  then show ?case using balances_moved_trans [OF m, of "impact_change imps" "balances s'"] IH same by simp
qed

lemma apply_impacts_exact:
  assumes "apply_impacts tx t c imps s = Inr s'"
    and "\<And>i. i \<in> set imps \<Longrightarrow> impact_current (balances s) t i \<or> impact_stale (balances s) i"
  shows "distinct (map bi_balanceId imps)
    \<and> (\<forall>i\<in>set imps. \<exists>b. balances s (bi_balanceId i) = Some b \<and> bal_version b = bi_version i
        \<and> bal_tenantId b = t
        \<and> balances s' (bi_balanceId i) = Some (set_quantities (bi_onHandAfter i) (bi_reservedAfter i) (bi_availableAfter i) b))
    \<and> (\<forall>k. k \<notin> bi_balanceId ` set imps \<longrightarrow> balances s' k = balances s k)"
  using assms
proof (induction imps arbitrary: s)
  case (Cons i imps)
  obtain s1 n where u: "tx_updateBalance tx s (bi_balanceId i) t (bi_version i)
      (bi_onHandAfter i) (bi_reservedAfter i) (bi_availableAfter i) = (s1, n)" by fastforce
  from Cons.prems(1) u have n: "n = 1" and tail: "apply_impacts tx t c imps s1 = Inr s'"
    by (auto split: if_splits)
  from update_balance [OF u] n obtain b where b: "balances s (bi_balanceId i) = Some b" "bal_version b = bi_version i"
      "bal_tenantId b = t"
    and s1: "balances s1 = (balances s)(bi_balanceId i \<mapsto>
      set_quantities (bi_onHandAfter i) (bi_reservedAfter i) (bi_availableAfter i) b)"
    by (auto split: option.splits if_splits)
  have tl: "impact_current (balances s1) t j \<or> impact_stale (balances s1) j" if "j \<in> set imps" for j
    unfolding s1 using Cons.prems(2) [of j] that b(1) by (intro impact_kept) simp_all
  note IH = Cons.IH [OF tail tl]
  have new: "bi_balanceId j \<noteq> bi_balanceId i" if j: "j \<in> set imps" for j
  proof
    assume eq: "bi_balanceId j = bi_balanceId i"
    from IH have "\<forall>i\<in>set imps. \<exists>b. balances s1 (bi_balanceId i) = Some b \<and> bal_version b = bi_version i"
      by blast
    from bspec [OF this j] have "bi_version j = bal_version b + 1" using s1 eq by auto
    moreover have "bi_version j \<le> bal_version b"
      using Cons.prems(2) [of j] j b(1) eq by (auto simp: impact_current_def impact_stale_def)
    ultimately show False by simp
  qed
  then have "bi_balanceId i \<notin> bi_balanceId ` set imps" by force
  then show ?case using IH b s1 new by (auto simp: image_iff)
qed simp

lemma create_movements_books:
  assumes "create_movements tx gen row n facts s = Inr (s', ids)"
    and row: "\<And>n mf. mov_balanceId (row n mf) = Some (mf_balanceId mf)"
      "\<And>n mf. mov_quantityIn (row n mf) = Some (mf_quantityIn mf)"
      "\<And>n mf. mov_quantityOut (row n mf) = Some (mf_quantityOut mf)"
  shows "ledger (movements s') k = ledger (movements s) k + fact_change facts k
    \<and> balances s' = balances s \<and> rest s' = rest s"
  using assms(1)
proof (induction facts arbitrary: s n ids)
  case (Cons mf facts)
  then obtain s1 ids' where c: "tx_createMovement tx s (row n mf) = Some s1"
    and tail: "create_movements tx gen row (Suc n) facts s1 = Inr (s', ids')"
    by (auto split: option.splits sum.splits)
  show ?case using Cons.IH [OF tail] create_movement [OF c]
    by (simp add: rest_def ledger_single row change_Cons column_units_def)
qed simp

lemma create_reversals_books:
  assumes "create_reversals tx gen row n facts s = Inr (s', ids)"
    and row: "\<And>n mf. mov_balanceId (row n mf) = Some (mf_balanceId mf)"
      "\<And>n mf. mov_quantityIn (row n mf) = Some (mf_quantityIn mf)"
      "\<And>n mf. mov_quantityOut (row n mf) = Some (mf_quantityOut mf)"
  shows "ledger (movements s') k = ledger (movements s) k + fact_change facts k
    \<and> balances s' = balances s \<and> rest s' = rest s"
  using assms(1)
proof (induction facts arbitrary: s n ids)
  case (Cons mf facts)
  then obtain s1 s2 ids' where c: "tx_createMovement tx s (row n mf) = Some s1"
    and r: "tx_setReversedBy tx s1 (mf_originalMovementId mf) (gen n) = Some s2"
    and tail: "create_reversals tx gen row (Suc n) facts s2 = Inr (s', ids')"
    by (auto split: option.splits sum.splits)
  show ?case using Cons.IH [OF tail] create_movement [OF c] set_reversed_by [OF r]
    by (simp add: rest_def ledger_reversed_by ledger_single row change_Cons column_units_def)
qed simp

end

section \<open>Every command keeps the books\<close>

definition books_step ::
  "(string \<Rightarrow> balance option) \<Rightarrow> movement list \<Rightarrow> (string \<Rightarrow> balance option) \<Rightarrow> movement list \<Rightarrow> bool" where
  "books_step bals ms bals' ms' \<longleftrightarrow>
     (\<exists>f. balances_moved bals f bals' \<and> (\<forall>k. ledger ms' k = ledger ms k + f k))"

lemma books_step_books:
  assumes "books_step bals ms bals' ms'" "books opening bals ms"
  shows "books opening bals' ms'"
  unfolding books_def
proof (intro allI impI)
  fix k b' assume b': "bals' k = Some b'"
  from assms(1) obtain f where m: "balances_moved bals f bals'" and l: "ledger ms' k = ledger ms k + f k"
    unfolding books_step_def by blast
  from m [unfolded balances_moved_def, rule_format, of k] b'
  obtain b where "bals k = Some b" "on_hand b' = on_hand b + f k" "balance_ok b \<longrightarrow> balance_ok b'"
    by (auto split: option.splits)
  with assms(2) l show "on_hand b' = opening k + ledger ms' k \<and> balance_ok b'"
    by (auto simp: books_def)
qed

lemma books_step_refl [simp]: "books_step bals ms bals ms"
  unfolding books_step_def by (rule exI [of _ "\<lambda>k. 0"]) simp

context inventory_store
begin

abbreviation keeps :: "'s \<Rightarrow> 's \<Rightarrow> bool" where
  "keeps s s' \<equiv> books_step (balances s) (movements s) (balances s') (movements s')"

lemma plan_commit:
  assumes plan: "plan_books (balances s) t p"
    and ap: "apply_impacts tx t c (ip_balanceImpacts p) s = Inr s1"
    and book: "\<And>k. ledger (movements s2) k = ledger (movements s1) k + fact_change (ip_movementFacts p) k
      \<and> balances s2 = balances s1 \<and> rest s2 = rest s1"
    and close: "balances s' = balances s2" "movements s' = movements s2"
  shows "keeps s s'"
proof -
  have "balances_moved (balances s) (impact_change (ip_balanceImpacts p)) (balances s1)
    \<and> movements s1 = movements s \<and> rest s1 = rest s"
    using plan by (intro apply_impacts_books [OF ap]) (simp add: plan_books_def)
  then show ?thesis using book close plan unfolding books_step_def plan_books_def by auto
qed

lemma finish_Inr: "finish r ids = Inr (s', ids') \<longleftrightarrow> r = Some s' \<and> ids' = ids"
  by (auto simp: finish_def split: option.splits)

lemma created_Inr: "created r ids = Inr (s', ids') \<longleftrightarrow> r = Some s' \<and> ids' = ids"
  by (auto simp: created_def split: option.splits)

lemma movement_row_sel:
  "mov_balanceId (movement_row i t dt d l pb ro mf) = Some (mf_balanceId mf)"
  "mov_quantityIn (movement_row i t dt d l pb ro mf) = Some (mf_quantityIn mf)"
  "mov_quantityOut (movement_row i t dt d l pb ro mf) = Some (mf_quantityOut mf)"
  by (simp_all add: movement_row_def)

lemma postTransfer_keeps:
  assumes "postTransfer le tx gen actor pl s = Inr (s', ids)"
  shows "keeps s s'"
proof -
  from assms obtain td :: stock_transfer and s1 s2 where
    plan: "ip_blockingIssues (buildStockTransferPostingPlan le tx s (act_tenantId actor) (trf_id td)) = []"
    and ap: "apply_impacts tx (act_tenantId actor) (Issue INVENTORY_OPERATIONS_CONCURRENT_TRANSACTION_CONFLICT 409)
      (ip_balanceImpacts (buildStockTransferPostingPlan le tx s (act_tenantId actor) (trf_id td))) s = Inr s1"
    and cm: "create_movements tx gen (\<lambda>n mf. movement_row (gen n) (act_tenantId actor) ''StockTransferDocument''
        (trf_id td) (mf_legId mf) (gen 1) None mf) 2
      (ip_movementFacts (buildStockTransferPostingPlan le tx s (act_tenantId actor) (trf_id td))) s1 = Inr (s2, ids)"
    and up: "tx_updateTransfer tx s2 (trf_id td)
      (\<lambda>t. t\<lparr>trf_postingStatus := ''posted'', trf_version := trf_version t + 1, trf_postingBatchId := Some (gen 1)\<rparr>) = Some s'"
    by (auto simp: postTransfer_def enforce_Inr finish_Inr Let_def simp del: One_nat_def
        split: if_splits option.splits sum.splits prod.splits)
  show ?thesis
    by (rule plan_commit [OF transfer_posting_books [OF plan] ap create_movements_books [OF cm]])
      (use update_transfer [OF up] in \<open>simp_all add: movement_row_sel\<close>)
qed

lemma reverseTransfer_keeps:
  assumes "reverseTransfer le tx gen actor pl s = Inr (s', ids)"
  shows "keeps s s'"
proof -
  from assms obtain td :: stock_transfer and s1 s2 where
    plan: "ip_blockingIssues (buildStockTransferReversalPlan le tx s (act_tenantId actor) (trf_id td)) = []"
    and ap: "apply_impacts tx (act_tenantId actor) (Issue INVENTORY_OPERATIONS_CONCURRENT_TRANSACTION_CONFLICT 409)
      (ip_balanceImpacts (buildStockTransferReversalPlan le tx s (act_tenantId actor) (trf_id td))) s = Inr s1"
    and cm: "create_reversals tx gen (\<lambda>n mf. movement_row (gen n) (act_tenantId actor) ''StockTransferDocument'' (trf_id td)
        (Some ((case mf_legId mf of Some l \<Rightarrow> l | None \<Rightarrow> ''undefined'') @ '':reversal''))
        (gen 1) (mf_originalMovementId mf) mf) 2
      (ip_movementFacts (buildStockTransferReversalPlan le tx s (act_tenantId actor) (trf_id td))) s1 = Inr (s2, ids)"
    and up: "tx_updateTransfer tx s2 (trf_id td) (\<lambda>t. t\<lparr>trf_postingStatus := ''reversed'', trf_version := trf_version t + 1\<rparr>) = Some s'"
    by (auto simp: reverseTransfer_def enforce_Inr finish_Inr Let_def simp del: One_nat_def
        split: if_splits option.splits sum.splits prod.splits)
  show ?thesis
    by (rule plan_commit [OF transfer_reversal_books [OF plan] ap create_reversals_books [OF cm]])
      (use update_transfer [OF up] in \<open>simp_all add: movement_row_sel\<close>)
qed

lemma postCount_keeps:
  assumes "postCount tx gen actor pl s = Inr (s', ids)"
  shows "keeps s s'"
proof -
  from assms obtain cd :: count_session and s1 s2 where
    plan: "ip_blockingIssues (buildCycleCountPostingPlan tx s (act_tenantId actor) (cs_id cd)) = []"
    and ap: "apply_impacts tx (act_tenantId actor) (Issue COUNT_BALANCE_CHANGED 409)
      (ip_balanceImpacts (buildCycleCountPostingPlan tx s (act_tenantId actor) (cs_id cd))) s = Inr s1"
    and cm: "create_movements tx gen (\<lambda>n mf. movement_row (gen n) (act_tenantId actor) ''CycleCountSession'' (cs_id cd)
        (Some (mf_lineId mf)) (gen 1) None mf) 2
      (ip_movementFacts (buildCycleCountPostingPlan tx s (act_tenantId actor) (cs_id cd))) s1 = Inr (s2, ids)"
    and up: "tx_updateCount tx s2 (cs_id cd) (\<lambda>c. c\<lparr>cs_workflowStatus := ''posted'', cs_version := cs_version c + 1, cs_postingBatchId := Some (gen 1)\<rparr>) = Some s'"
    by (auto simp: postCount_def enforce_Inr finish_Inr Let_def simp del: One_nat_def
        split: if_splits option.splits sum.splits prod.splits)
  show ?thesis
    by (rule plan_commit [OF count_posting_books [OF plan] ap create_movements_books [OF cm]])
      (use update_count [OF up] in \<open>simp_all add: movement_row_sel\<close>)
qed

lemma postAdjustment_keeps:
  assumes "postAdjustment le tx gen actor pl s = Inr (s', ids)"
  shows "keeps s s'"
proof -
  from assms obtain ad :: adjustment and s1 s2 where
    plan: "ip_blockingIssues (buildInventoryAdjustmentPostingPlan le tx s (act_tenantId actor) (adj_id ad)) = []"
    and ap: "apply_impacts tx (act_tenantId actor) (Issue INVENTORY_OPERATIONS_CONCURRENT_TRANSACTION_CONFLICT 409)
      (ip_balanceImpacts (buildInventoryAdjustmentPostingPlan le tx s (act_tenantId actor) (adj_id ad))) s = Inr s1"
    and cm: "create_movements tx gen (\<lambda>n mf. movement_row (gen n) (act_tenantId actor) ''InventoryAdjustmentDocument'' (adj_id ad)
        (Some (mf_lineId mf)) (gen 1) None mf) 2
      (ip_movementFacts (buildInventoryAdjustmentPostingPlan le tx s (act_tenantId actor) (adj_id ad))) s1 = Inr (s2, ids)"
    and up: "tx_updateAdjustment tx s2 (adj_id ad) (\<lambda>a. a\<lparr>adj_postingStatus := ''posted'', adj_version := adj_version a + 1, adj_postingBatchId := Some (gen 1)\<rparr>) = Some s'"
    by (auto simp: postAdjustment_def enforce_Inr finish_Inr Let_def simp del: One_nat_def
        split: if_splits option.splits sum.splits prod.splits)
  show ?thesis
    by (rule plan_commit [OF adjustment_posting_books [OF plan] ap create_movements_books [OF cm]])
      (use update_adjustment [OF up] in \<open>simp_all add: movement_row_sel\<close>)
qed

lemma reverseAdjustment_keeps:
  assumes "reverseAdjustment le tx gen actor pl s = Inr (s', ids)"
  shows "keeps s s'"
proof -
  from assms obtain ad :: adjustment and s1 s2 where
    plan: "ip_blockingIssues (buildInventoryAdjustmentReversalPlan le tx s (act_tenantId actor) (adj_id ad)) = []"
    and ap: "apply_impacts tx (act_tenantId actor) (Issue INVENTORY_OPERATIONS_CONCURRENT_TRANSACTION_CONFLICT 409)
      (ip_balanceImpacts (buildInventoryAdjustmentReversalPlan le tx s (act_tenantId actor) (adj_id ad))) s = Inr s1"
    and cm: "create_reversals tx gen (\<lambda>n mf. movement_row (gen n) (act_tenantId actor) ''InventoryAdjustmentDocument'' (adj_id ad)
        (Some (mf_lineId mf @ '':reversal'')) (gen 1) (mf_originalMovementId mf) mf) 2
      (ip_movementFacts (buildInventoryAdjustmentReversalPlan le tx s (act_tenantId actor) (adj_id ad))) s1 = Inr (s2, ids)"
    and up: "tx_updateAdjustment tx s2 (adj_id ad) (\<lambda>a. a\<lparr>adj_postingStatus := ''reversed'', adj_version := adj_version a + 1\<rparr>) = Some s'"
    by (auto simp: reverseAdjustment_def enforce_Inr finish_Inr Let_def simp del: One_nat_def
        split: if_splits option.splits sum.splits prod.splits)
  show ?thesis
    by (rule plan_commit [OF adjustment_reversal_books [OF plan] ap create_reversals_books [OF cm]])
      (use update_adjustment [OF up] in \<open>simp_all add: movement_row_sel\<close>)
qed

text \<open>The other commands only update a document.\<close>

lemma status_keeps:
  "cancelTransfer tx actor pl s = Inr (s', ids) \<Longrightarrow> keeps s s'"
  "submitCount tx actor pl s = Inr (s', ids) \<Longrightarrow> keeps s s'"
  "reviewCount tx actor pl s = Inr (s', ids) \<Longrightarrow> keeps s s'"
  "cancelCount tx actor pl s = Inr (s', ids) \<Longrightarrow> keeps s s'"
  "cancelAdjustment tx actor pl s = Inr (s', ids) \<Longrightarrow> keeps s s'"
  by (auto simp: cancelTransfer_def submitCount_def reviewCount_def cancelCount_def cancelAdjustment_def
      finish_Inr dest!: update_transfer update_count update_adjustment
      split: if_splits option.splits sum.splits)

text \<open>The drafting commands only write documents.\<close>

lemma count_entries_effect:
  "count_entries tx session entries s = Inr s' \<Longrightarrow>
     balances s' = balances s \<and> movements s' = movements s \<and> transfers s' = transfers s
     \<and> adjustments s' = adjustments s
     \<and> (\<forall>d. d \<noteq> cs_id session \<longrightarrow> counts s' d = counts s d)"
proof (induction entries arbitrary: s)
  case (Cons entry entries)
  from Cons.prems obtain v where "(case last_by cl_id (cs_lines session) (js_text (ce_countLineId entry)) of
         None \<Rightarrow> Inl (Issue INVENTORY_OPERATION_VERSION_CONFLICT 409)
       | Some line \<Rightarrow>
           if Some (cl_version line) \<noteq> ce_expectedLineVersion entry
           then Inl (Issue INVENTORY_OPERATION_VERSION_CONFLICT 409)
           else if v < 0 then Inl (Issue COUNT_LINE_INCOMPLETE 422)
           else
             (case tx_updateCount tx s (cs_id session)
                     (set_counted (cl_id line) v (v - cl_recordedOnHandQuantity line)) of
                None \<Rightarrow> Inl (Issue UNCAUGHT_ERROR 500)
              | Some s' \<Rightarrow> count_entries tx session entries s')) = Inr s'"
    by auto
  then obtain line :: count_line and s1 where u: "tx_updateCount tx s (cs_id session)
      (set_counted (cl_id line) v (v - cl_recordedOnHandQuantity line)) = Some s1"
    and tail: "count_entries tx session entries s1 = Inr s'"
    by (auto split: option.splits if_splits)
  show ?case using Cons.IH [OF tail] update_count [OF u] by auto
qed simp

lemma draft_keeps:
  "createTransfer tx gen actor td s = Inr (s', ids) \<Longrightarrow> keeps s s'"
  "reviseTransfer tx gen actor tr s = Inr (s', ids) \<Longrightarrow> keeps s s'"
  "readyTransfer tx actor pl s = Inr (s', ids) \<Longrightarrow> keeps s s'"
  "createCount tx gen actor cd s = Inr (s', ids) \<Longrightarrow> keeps s s'"
  "reviseCount tx actor cr s = Inr (s', ids) \<Longrightarrow> keeps s s'"
  "createAdjustment tx gen actor n ai s = Inr (s', ids) \<Longrightarrow> keeps s s'"
  "reviseAdjustment tx gen actor pl ai s = Inr (s', ids) \<Longrightarrow> keeps s s'"
  "readyAdjustment tx actor pl s = Inr (s', ids) \<Longrightarrow> keeps s s'"
  by (auto simp: createTransfer_def reviseTransfer_def readyTransfer_def createCount_def reviseCount_def
      createAdjustment_def reviseAdjustment_def readyAdjustment_def Let_def finish_Inr created_Inr
      dest!: update_transfer update_count update_adjustment create_transfer create_count create_adjustment
        count_entries_effect
      split: if_splits option.splits)

lemma command_keeps: "run_command le tx gen actor cmd s = Inr (s', ids) \<Longrightarrow> keeps s s'"
  by (cases cmd) (auto dest: postTransfer_keeps reverseTransfer_keeps postCount_keeps postAdjustment_keeps
      reverseAdjustment_keeps status_keeps draft_keeps)

end

section \<open>Reachable states\<close>

text \<open>
  A step runs one command in a transaction: it commits, or fails and leaves the state as it was.
  \<open>id_factory\<close> is what the code relies on from \<open>randomUUID\<close>: ids without blanks at their ends,
  different for different calls.
  Serializable isolation makes an interleaving of transactions equal to such a sequence.
\<close>

definition id_factory :: "(nat \<Rightarrow> string) \<Rightarrow> bool" where
  "id_factory gen \<longleftrightarrow> inj gen \<and> (\<forall>n. gen n \<noteq> [] \<and> js_trim (gen n) = gen n)"

inductive inventory_step ::
  "(string \<Rightarrow> string \<Rightarrow> bool) \<Rightarrow> 's inventory_tx \<Rightarrow> 's \<Rightarrow> 's \<Rightarrow> bool"
  for le tx where
  commits: "id_factory gen \<Longrightarrow> run_command le tx gen actor cmd s = Inr (s', ids) \<Longrightarrow> inventory_step le tx s s'"
| rolls_back: "run_command le tx gen actor cmd s = Inl e \<Longrightarrow> inventory_step le tx s s"

inductive_cases inventory_stepE: "inventory_step le tx s s'"
inductive_simps inventory_step_iff: "inventory_step le tx s s'"

inductive inventory_reachable ::
  "(string \<Rightarrow> string \<Rightarrow> bool) \<Rightarrow> 's inventory_tx \<Rightarrow> 's \<Rightarrow> 's \<Rightarrow> bool"
  for le tx s0 where
  start: "inventory_reachable le tx s0 s0"
| more: "inventory_reachable le tx s0 s \<Longrightarrow> inventory_step le tx s s' \<Longrightarrow> inventory_reachable le tx s0 s'"

context inventory_store
begin

lemma step_keeps: "inventory_step le tx s s' \<Longrightarrow> keeps s s'"
  by (erule inventory_stepE) (auto intro: command_keeps)

lemma reachable_books:
  assumes "inventory_reachable le tx s0 s" "books opening (balances s0) (movements s0)"
  shows "books opening (balances s) (movements s)"
  using assms by induction (auto intro: books_step_books step_keeps)

end

end
