(* ===== verification/Inventory_Lifecycle.thy ===== *)
theory Inventory_Lifecycle
  imports Inventory_Ledger
begin

text \<open>
  The life of a document: what a command of the inventory service does to the transfers, counts
  and adjustments. Each command moves at most one document along the edges of its state machine,
  \<open>transfer_move\<close>, \<open>count_move\<close> or \<open>adjustment_move\<close>, and raises its version by one.

  The service looks a document up by the id of the route as it is, while the plans trim it. The
  lemmas ask that no primary key has blanks at its ends (\<open>clean_ids\<close>), which the ids the
  service itself creates satisfy.
\<close>

section \<open>Well-formed lines\<close>

text \<open>What the service checks of the lines it writes.\<close>

definition line_wf :: "transfer_line \<Rightarrow> bool" where
  "line_wf line \<longleftrightarrow> 0 < tl_quantity line
     \<and> (\<exists>src dst. tl_legs line = [src, dst] \<and> leg_direction src = ''source'' \<and> leg_direction dst = ''destination''
          \<and> leg_warehouseId src @ ''|'' @ leg_locationKey src \<noteq> leg_warehouseId dst @ ''|'' @ leg_locationKey dst)"

definition adjustment_line_wf :: "adjustment_line \<Rightarrow> bool" where
  "adjustment_line_wf line \<longleftrightarrow> al_adjustmentQuantity line \<noteq> 0"

definition count_line_wf :: "count_line \<Rightarrow> bool" where
  "count_line_wf line \<longleftrightarrow>
     (case cl_countedQuantity line of
        None \<Rightarrow> cl_varianceQuantity line = None
      | Some q \<Rightarrow> 0 \<le> q \<and> cl_varianceQuantity line = Some (q - cl_recordedOnHandQuantity line))"

definition count_lines_wf :: "count_line list \<Rightarrow> bool" where
  "count_lines_wf ls \<longleftrightarrow> distinct (map cl_id ls) \<and> list_all count_line_wf ls"


section \<open>The state machines\<close>

definition transfer_edge :: "string \<Rightarrow> string \<Rightarrow> string \<Rightarrow> string \<Rightarrow> bool" where
  "transfer_edge w p w' p' \<longleftrightarrow>
     w = ''draft'' \<and> w' \<in> {''draft'', ''ready''} \<and> p' = p
   \<or> w = ''ready'' \<and> p = ''unposted'' \<and> w' = w \<and> p' = ''posted''
   \<or> p = ''posted'' \<and> w' = w \<and> p' = ''reversed''
   \<or> w \<in> {''draft'', ''ready''} \<and> p = ''unposted'' \<and> w' = ''cancelled'' \<and> p' = p"

definition transfer_move :: "stock_transfer \<Rightarrow> stock_transfer \<Rightarrow> bool" where
  "transfer_move t t' \<longleftrightarrow>
     trf_id t' = trf_id t \<and> trf_tenantId t' = trf_tenantId t \<and> trf_transferNumber t' = trf_transferNumber t
     \<and> trf_version t' = trf_version t + 1
     \<and> transfer_edge (trf_workflowStatus t) (trf_postingStatus t) (trf_workflowStatus t') (trf_postingStatus t')
     \<and> (trf_lines t' = trf_lines t
        \<or> trf_workflowStatus t = ''draft'' \<and> trf_workflowStatus t' = ''draft'' \<and> list_all line_wf (trf_lines t'))"

definition new_transfer :: "stock_transfer \<Rightarrow> bool" where
  "new_transfer t \<longleftrightarrow> trf_workflowStatus t = ''draft'' \<and> trf_postingStatus t = ''unposted'' \<and> trf_version t = 0
     \<and> list_all line_wf (trf_lines t)"

definition adjustment_move :: "adjustment \<Rightarrow> adjustment \<Rightarrow> bool" where
  "adjustment_move a a' \<longleftrightarrow>
     adj_id a' = adj_id a \<and> adj_tenantId a' = adj_tenantId a \<and> adj_adjustmentNumber a' = adj_adjustmentNumber a
     \<and> adj_version a' = adj_version a + 1
     \<and> transfer_edge (adj_workflowStatus a) (adj_postingStatus a) (adj_workflowStatus a') (adj_postingStatus a')
     \<and> (adj_lines a' = adj_lines a
        \<or> adj_workflowStatus a = ''draft'' \<and> adj_workflowStatus a' = ''draft'' \<and> list_all adjustment_line_wf (adj_lines a'))"

definition new_adjustment :: "adjustment \<Rightarrow> bool" where
  "new_adjustment a \<longleftrightarrow> adj_workflowStatus a = ''draft'' \<and> adj_postingStatus a = ''unposted'' \<and> adj_version a = 0
     \<and> list_all adjustment_line_wf (adj_lines a)"

definition count_edge :: "string \<Rightarrow> string \<Rightarrow> bool" where
  "count_edge w w' \<longleftrightarrow>
     w \<in> {''draft'', ''in_progress''} \<and> w' \<in> {''in_progress'', ''submitted''}
   \<or> w = ''submitted'' \<and> w' = ''reviewed''
   \<or> w = ''reviewed'' \<and> w' = ''posted''
   \<or> w \<notin> {''posted'', ''cancelled''} \<and> w' = ''cancelled''"

definition count_move :: "count_session \<Rightarrow> count_session \<Rightarrow> bool" where
  "count_move c c' \<longleftrightarrow>
     cs_id c' = cs_id c \<and> cs_tenantId c' = cs_tenantId c \<and> cs_countNumber c' = cs_countNumber c
     \<and> cs_version c' = cs_version c + 1 \<and> count_edge (cs_workflowStatus c) (cs_workflowStatus c')
     \<and> (cs_lines c' = cs_lines c
        \<or> cs_workflowStatus c' = ''in_progress''
          \<and> (count_lines_wf (cs_lines c) \<longrightarrow> count_lines_wf (cs_lines c')))"

definition new_count :: "count_session \<Rightarrow> bool" where
  "new_count c \<longleftrightarrow> cs_workflowStatus c = ''draft'' \<and> cs_version c = 0 \<and> count_lines_wf (cs_lines c)"

lemmas machine_defs = transfer_move_def transfer_edge_def new_transfer_def adjustment_move_def
  new_adjustment_def count_move_def count_edge_def new_count_def

section \<open>Tables in which at most one row moves or appears\<close>

definition one_moves ::
  "('r \<Rightarrow> bool) \<Rightarrow> ('r \<Rightarrow> 'r \<Rightarrow> bool) \<Rightarrow> (string \<Rightarrow> 'r option) \<Rightarrow> (string \<Rightarrow> 'r option) \<Rightarrow> bool" where
  "one_moves new move m m' \<longleftrightarrow>
     m' = m \<or> (\<exists>d x x'. m d = Some x \<and> m' = m(d \<mapsto> x') \<and> move x x')
     \<or> (\<exists>d x. m d = None \<and> js_trim d = d \<and> m' = m(d \<mapsto> x) \<and> new x)"

lemma one_moves_refl [simp]: "one_moves new move m m"
  by (simp add: one_moves_def)

lemma one_moves_upd: "m d = Some x \<Longrightarrow> move x x' \<Longrightarrow> one_moves new move m (m(d \<mapsto> x'))"
  by (auto simp: one_moves_def)

lemma one_moves_new: "m d = None \<Longrightarrow> js_trim d = d \<Longrightarrow> new x \<Longrightarrow> one_moves new move m (m(d \<mapsto> x))"
  by (auto simp: one_moves_def)

lemma one_moves_row:
  "one_moves new move m m' \<Longrightarrow> m d = Some x \<Longrightarrow> \<exists>x'. m' d = Some x' \<and> (x' = x \<or> move x x')"
  by (auto simp: one_moves_def)

text \<open>From each document in one state to the same document in a later one: a path of its machine.\<close>

definition paths :: "('r \<Rightarrow> 'r \<Rightarrow> bool) \<Rightarrow> (string \<Rightarrow> 'r option) \<Rightarrow> (string \<Rightarrow> 'r option) \<Rightarrow> bool" where
  "paths move m m' \<longleftrightarrow> (\<forall>d x. m d = Some x \<longrightarrow> (\<exists>y. m' d = Some y \<and> move\<^sup>*\<^sup>* x y))"

lemma paths_refl [simp]: "paths move m m"
  by (simp add: paths_def)

lemma paths_extend:
  assumes "paths move m0 m" "one_moves new move m m'" shows "paths move m0 m'"
  unfolding paths_def
proof (intro allI impI)
  fix d x assume "m0 d = Some x"
  then obtain y where y: "m d = Some y" "move\<^sup>*\<^sup>* x y" using assms(1) by (auto simp: paths_def)
  then show "\<exists>z. m' d = Some z \<and> move\<^sup>*\<^sup>* x z"
    using one_moves_row [OF assms(2) y(1)] by (auto intro: rtranclp.rtrancl_into_rtrancl)
qed

definition clean_ids :: "(string \<Rightarrow> 'r option) \<Rightarrow> bool" where
  "clean_ids m \<longleftrightarrow> (\<forall>d x. m d = Some x \<longrightarrow> js_trim d = d)"

lemma clean_ids_D: "clean_ids m \<Longrightarrow> m d = Some x \<Longrightarrow> js_trim d = d"
  by (auto simp: clean_ids_def)

lemma clean_ids_moves: "one_moves new move m m' \<Longrightarrow> clean_ids m \<Longrightarrow> clean_ids m'"
  by (auto simp: one_moves_def clean_ids_def split: if_splits)

text \<open>A property of rows that new rows have and moves keep is an invariant of the table.\<close>

definition all_rows :: "('r \<Rightarrow> bool) \<Rightarrow> (string \<Rightarrow> 'r option) \<Rightarrow> bool" where
  "all_rows P m \<longleftrightarrow> (\<forall>d x. m d = Some x \<longrightarrow> P x)"

lemma all_rows_moves:
  assumes "one_moves new move m m'" "all_rows P m"
    and "\<And>x. new x \<Longrightarrow> P x" "\<And>x x'. P x \<Longrightarrow> move x x' \<Longrightarrow> P x'"
  shows "all_rows P m'"
  using assms(1)
proof (unfold one_moves_def, elim disjE exE conjE)
  fix d x x' assume "m d = Some x" "m' = m(d \<mapsto> x')" "move x x'"
  moreover from this have "P x'" using assms(2,4) by (auto simp: all_rows_def)
  ultimately show ?thesis using assms(2) by (auto simp: all_rows_def)
next
  fix d x assume "m' = m(d \<mapsto> x)" "new x"
  then show ?thesis using assms(2,3) by (auto simp: all_rows_def)
qed (use assms(2) in simp)

section \<open>What each command does to the documents\<close>

context inventory_store
begin

abbreviation docs_step :: "'s \<Rightarrow> 's \<Rightarrow> bool" where
  "docs_step s s' \<equiv> one_moves new_transfer transfer_move (transfers s) (transfers s')
     \<and> one_moves new_count count_move (counts s) (counts s')
     \<and> one_moves new_adjustment adjustment_move (adjustments s) (adjustments s')"

abbreviation clean :: "'s \<Rightarrow> bool" where
  "clean s \<equiv> clean_ids (transfers s) \<and> clean_ids (counts s) \<and> clean_ids (adjustments s)"

lemma apply_impacts_rest: "apply_impacts tx t c imps s = Inr s' \<Longrightarrow> rest s' = rest s"
proof (induction imps arbitrary: s)
  case (Cons i imps)
  obtain s1 n where u: "tx_updateBalance tx s (bi_balanceId i) t (bi_version i)
      (bi_onHandAfter i) (bi_reservedAfter i) (bi_availableAfter i) = (s1, n)" by fastforce
  then have "apply_impacts tx t c imps s1 = Inr s'" using Cons.prems by (auto split: if_splits)
  then show ?case using Cons.IH update_balance [OF u] by (auto simp: rest_def)
qed simp

lemma create_movements_rest: "create_movements tx gen row n facts s = Inr (s', ids) \<Longrightarrow> rest s' = rest s"
proof (induction facts arbitrary: s n ids)
  case (Cons mf facts)
  then obtain s1 ids' where c: "tx_createMovement tx s (row n mf) = Some s1"
    and tail: "create_movements tx gen row (Suc n) facts s1 = Inr (s', ids')"
    by (auto split: option.splits sum.splits)
  show ?case using Cons.IH [OF tail] create_movement [OF c] by (simp add: rest_def)
qed simp

lemma create_reversals_rest: "create_reversals tx gen row n facts s = Inr (s', ids) \<Longrightarrow> rest s' = rest s"
proof (induction facts arbitrary: s n ids)
  case (Cons mf facts)
  then obtain s1 s2 ids' where c: "tx_createMovement tx s (row n mf) = Some s1"
    and r: "tx_setReversedBy tx s1 (mf_originalMovementId mf) (gen n) = Some s2"
    and tail: "create_reversals tx gen row (Suc n) facts s2 = Inr (s', ids')"
    by (auto split: option.splits sum.splits)
  show ?case using Cons.IH [OF tail] create_movement [OF c] set_reversed_by [OF r] by (simp add: rest_def)
qed simp

lemmas loop_rest = apply_impacts_rest create_movements_rest create_reversals_rest

lemma postTransfer_moves:
  assumes "postTransfer le tx gen actor pl s = Inr (s', ids)" "clean s"
  shows "\<exists>x. transfers s (pl_id pl) = Some x \<and> trf_workflowStatus x = ''ready''
    \<and> trf_postingStatus x = ''unposted'' \<and> trf_tenantId x = act_tenantId actor
    \<and> Some (trf_version x) = pl_expectedVersion pl
    \<and> rest s' = ((transfers s)(pl_id pl \<mapsto> x\<lparr>trf_postingStatus := ''posted'',
        trf_version := trf_version x + 1, trf_postingBatchId := Some (gen 1)\<rparr>), counts s, adjustments s)"
proof -
  from assms(1) obtain td :: stock_transfer and s1 s2 where
    td: "tx_findTransfer tx s (act_tenantId actor) (pl_id pl) = Some td"
    and v: "Some (trf_version td) = pl_expectedVersion pl"
    and plan: "ip_blockingIssues (buildStockTransferPostingPlan le tx s (act_tenantId actor) (trf_id td)) = []"
    and ap: "apply_impacts tx (act_tenantId actor) (Issue INVENTORY_OPERATIONS_CONCURRENT_TRANSACTION_CONFLICT 409)
      (ip_balanceImpacts (buildStockTransferPostingPlan le tx s (act_tenantId actor) (trf_id td))) s = Inr s1"
    and cm: "create_movements tx gen (\<lambda>n mf. movement_row (gen n) (act_tenantId actor) ''StockTransferDocument''
        (trf_id td) (mf_legId mf) (gen 1) None mf) 2
      (ip_movementFacts (buildStockTransferPostingPlan le tx s (act_tenantId actor) (trf_id td))) s1 = Inr (s2, ids)"
    and up: "tx_updateTransfer tx s2 (trf_id td)
      (\<lambda>t. t\<lparr>trf_postingStatus := ''posted'', trf_version := trf_version t + 1, trf_postingBatchId := Some (gen 1)\<rparr>) = Some s'"
    by (clarsimp simp: postTransfer_def enforce_Inr finish_Inr Let_def simp del: One_nat_def
        split: if_splits option.splits sum.splits prod.splits)
  from td have row: "transfers s (pl_id pl) = Some td" "trf_tenantId td = act_tenantId actor"
    by (simp_all add: find_transfer of_tenant_Some)
  then have i: "trf_id td = pl_id pl" "js_trim (pl_id pl) = pl_id pl"
    using assms(2) by (auto dest: transfer_key clean_ids_D)
  have "trf_workflowStatus td = ''ready'' \<and> trf_postingStatus td = ''unposted''"
    using plan td i by (simp add: buildStockTransferPostingPlan_def Let_def split_beta)
  moreover have "rest s2 = rest s" using loop_rest(1) [OF ap] loop_rest(2) [OF cm] by simp
  ultimately show ?thesis using update_transfer [OF up] row v i by (auto simp: rest_def)
qed

lemma reverseTransfer_moves:
  assumes "reverseTransfer le tx gen actor pl s = Inr (s', ids)" "clean s"
  shows "\<exists>x. transfers s (pl_id pl) = Some x \<and> trf_postingStatus x = ''posted'' \<and> trf_tenantId x = act_tenantId actor
    \<and> rest s' = ((transfers s)(pl_id pl \<mapsto> x\<lparr>trf_postingStatus := ''reversed'',
        trf_version := trf_version x + 1\<rparr>), counts s, adjustments s)"
proof -
  from assms(1) obtain td :: stock_transfer and s1 s2 row where
    td: "tx_findTransfer tx s (act_tenantId actor) (pl_id pl) = Some td"
    and plan: "ip_blockingIssues (buildStockTransferReversalPlan le tx s (act_tenantId actor) (trf_id td)) = []"
    and ap: "apply_impacts tx (act_tenantId actor) (Issue INVENTORY_OPERATIONS_CONCURRENT_TRANSACTION_CONFLICT 409)
      (ip_balanceImpacts (buildStockTransferReversalPlan le tx s (act_tenantId actor) (trf_id td))) s = Inr s1"
    and cm: "create_reversals tx gen row 2
      (ip_movementFacts (buildStockTransferReversalPlan le tx s (act_tenantId actor) (trf_id td))) s1 = Inr (s2, ids)"
    and up: "tx_updateTransfer tx s2 (trf_id td)
      (\<lambda>t. t\<lparr>trf_postingStatus := ''reversed'', trf_version := trf_version t + 1\<rparr>) = Some s'"
    by (clarsimp simp: reverseTransfer_def enforce_Inr finish_Inr Let_def simp del: One_nat_def
        split: if_splits option.splits sum.splits prod.splits)
  from td have row: "transfers s (pl_id pl) = Some td" "trf_tenantId td = act_tenantId actor"
    by (simp_all add: find_transfer of_tenant_Some)
  then have i: "trf_id td = pl_id pl" "js_trim (pl_id pl) = pl_id pl"
    using assms(2) by (auto dest: transfer_key clean_ids_D)
  have "trf_postingStatus td = ''posted''"
    using plan td i by (simp add: buildStockTransferReversalPlan_def Let_def split_beta)
  moreover have "rest s2 = rest s" using loop_rest(1) [OF ap] loop_rest(3) [OF cm] by simp
  ultimately show ?thesis using update_transfer [OF up] row i by (auto simp: rest_def)
qed

lemma postCount_moves:
  assumes "postCount tx gen actor pl s = Inr (s', ids)" "clean s"
  shows "\<exists>x. counts s (pl_id pl) = Some x \<and> cs_workflowStatus x = ''reviewed''
    \<and> cs_tenantId x = act_tenantId actor \<and> rest s' = (transfers s, ((counts s)(pl_id pl \<mapsto> (\<lambda>c. c\<lparr>cs_workflowStatus := ''posted'', cs_version := cs_version c + 1, cs_postingBatchId := Some (gen 1)\<rparr>) x)), adjustments s)"
proof -
  from assms(1) obtain cd :: count_session and s1 s2 row where
    doc: "tx_findCount tx s (act_tenantId actor) (pl_id pl) = Some cd"
    and plan: "ip_blockingIssues (buildCycleCountPostingPlan tx s (act_tenantId actor) (cs_id cd)) = []"
    and ap: "apply_impacts tx (act_tenantId actor) (Issue COUNT_BALANCE_CHANGED 409) (ip_balanceImpacts (buildCycleCountPostingPlan tx s (act_tenantId actor) (cs_id cd))) s = Inr s1"
    and cm: "create_movements tx gen row 2 (ip_movementFacts (buildCycleCountPostingPlan tx s (act_tenantId actor) (cs_id cd))) s1 = Inr (s2, ids)"
    and up: "tx_updateCount tx s2 (cs_id cd) (\<lambda>c. c\<lparr>cs_workflowStatus := ''posted'', cs_version := cs_version c + 1, cs_postingBatchId := Some (gen 1)\<rparr>) = Some s'"
    by (clarsimp simp: postCount_def enforce_Inr finish_Inr Let_def simp del: One_nat_def
        split: if_splits option.splits sum.splits prod.splits)
  from doc have row: "counts s (pl_id pl) = Some cd" "cs_tenantId cd = act_tenantId actor"
    by (simp_all add: find_count of_tenant_Some)
  then have i: "cs_id cd = pl_id pl" "js_trim (pl_id pl) = pl_id pl"
    using assms(2) by (auto dest: count_key clean_ids_D)
  have "cs_workflowStatus cd = ''reviewed''"
    using plan doc i by (simp add: buildCycleCountPostingPlan_def Let_def split_beta)
  moreover have "rest s2 = rest s" using loop_rest(1) [OF ap] loop_rest(2) [OF cm] by simp
  ultimately show ?thesis using update_count [OF up] row i by (auto simp: rest_def)
qed

lemma postAdjustment_moves:
  assumes "postAdjustment le tx gen actor pl s = Inr (s', ids)" "clean s"
  shows "\<exists>x. adjustments s (pl_id pl) = Some x \<and> adj_workflowStatus x = ''ready'' \<and> adj_postingStatus x = ''unposted''
    \<and> adj_tenantId x = act_tenantId actor \<and> rest s' = (transfers s, counts s, ((adjustments s)(pl_id pl \<mapsto> (\<lambda>a. a\<lparr>adj_postingStatus := ''posted'', adj_version := adj_version a + 1, adj_postingBatchId := Some (gen 1)\<rparr>) x)))"
proof -
  from assms(1) obtain ad :: adjustment and s1 s2 row where
    doc: "tx_findAdjustment tx s (act_tenantId actor) (pl_id pl) = Some ad"
    and plan: "ip_blockingIssues (buildInventoryAdjustmentPostingPlan le tx s (act_tenantId actor) (adj_id ad)) = []"
    and ap: "apply_impacts tx (act_tenantId actor) (Issue INVENTORY_OPERATIONS_CONCURRENT_TRANSACTION_CONFLICT 409) (ip_balanceImpacts (buildInventoryAdjustmentPostingPlan le tx s (act_tenantId actor) (adj_id ad))) s = Inr s1"
    and cm: "create_movements tx gen row 2 (ip_movementFacts (buildInventoryAdjustmentPostingPlan le tx s (act_tenantId actor) (adj_id ad))) s1 = Inr (s2, ids)"
    and up: "tx_updateAdjustment tx s2 (adj_id ad) (\<lambda>a. a\<lparr>adj_postingStatus := ''posted'', adj_version := adj_version a + 1, adj_postingBatchId := Some (gen 1)\<rparr>) = Some s'"
    by (clarsimp simp: postAdjustment_def enforce_Inr finish_Inr Let_def simp del: One_nat_def
        split: if_splits option.splits sum.splits prod.splits)
  from doc have row: "adjustments s (pl_id pl) = Some ad" "adj_tenantId ad = act_tenantId actor"
    by (simp_all add: find_adjustment of_tenant_Some)
  then have i: "adj_id ad = pl_id pl" "js_trim (pl_id pl) = pl_id pl"
    using assms(2) by (auto dest: adjustment_key clean_ids_D)
  have "adj_workflowStatus ad = ''ready'' \<and> adj_postingStatus ad = ''unposted''"
    using plan doc i by (simp add: buildInventoryAdjustmentPostingPlan_def Let_def split_beta)
  moreover have "rest s2 = rest s" using loop_rest(1) [OF ap] loop_rest(2) [OF cm] by simp
  ultimately show ?thesis using update_adjustment [OF up] row i by (auto simp: rest_def)
qed

lemma reverseAdjustment_moves:
  assumes "reverseAdjustment le tx gen actor pl s = Inr (s', ids)" "clean s"
  shows "\<exists>x. adjustments s (pl_id pl) = Some x \<and> adj_postingStatus x = ''posted''
    \<and> adj_tenantId x = act_tenantId actor \<and> rest s' = (transfers s, counts s, ((adjustments s)(pl_id pl \<mapsto> (\<lambda>a. a\<lparr>adj_postingStatus := ''reversed'', adj_version := adj_version a + 1\<rparr>) x)))"
proof -
  from assms(1) obtain ad :: adjustment and s1 s2 row where
    doc: "tx_findAdjustment tx s (act_tenantId actor) (pl_id pl) = Some ad"
    and plan: "ip_blockingIssues (buildInventoryAdjustmentReversalPlan le tx s (act_tenantId actor) (adj_id ad)) = []"
    and ap: "apply_impacts tx (act_tenantId actor) (Issue INVENTORY_OPERATIONS_CONCURRENT_TRANSACTION_CONFLICT 409) (ip_balanceImpacts (buildInventoryAdjustmentReversalPlan le tx s (act_tenantId actor) (adj_id ad))) s = Inr s1"
    and cm: "create_reversals tx gen row 2 (ip_movementFacts (buildInventoryAdjustmentReversalPlan le tx s (act_tenantId actor) (adj_id ad))) s1 = Inr (s2, ids)"
    and up: "tx_updateAdjustment tx s2 (adj_id ad) (\<lambda>a. a\<lparr>adj_postingStatus := ''reversed'', adj_version := adj_version a + 1\<rparr>) = Some s'"
    by (clarsimp simp: reverseAdjustment_def enforce_Inr finish_Inr Let_def simp del: One_nat_def
        split: if_splits option.splits sum.splits prod.splits)
  from doc have row: "adjustments s (pl_id pl) = Some ad" "adj_tenantId ad = act_tenantId actor"
    by (simp_all add: find_adjustment of_tenant_Some)
  then have i: "adj_id ad = pl_id pl" "js_trim (pl_id pl) = pl_id pl"
    using assms(2) by (auto dest: adjustment_key clean_ids_D)
  have "adj_postingStatus ad = ''posted''"
    using plan doc i by (simp add: buildInventoryAdjustmentReversalPlan_def Let_def split_beta)
  moreover have "rest s2 = rest s" using loop_rest(1) [OF ap] loop_rest(3) [OF cm] by simp
  ultimately show ?thesis using update_adjustment [OF up] row i by (auto simp: rest_def)
qed

lemmas status_plans = buildStockTransferCancellationPlan_def buildCycleCountSubmissionPlan_def
  buildCycleCountReviewPlan_def buildInventoryAdjustmentCancellationPlan_def result_def Let_def
  enforce_Inr finish_Inr find_transfer find_count find_adjustment of_tenant_Some

lemma cancelTransfer_moves:
  assumes "cancelTransfer tx actor pl s = Inr (s', ids)" "clean s"
  shows "\<exists>x. transfers s (pl_id pl) = Some x \<and> trf_workflowStatus x \<in> {''draft'', ''ready''}
    \<and> trf_postingStatus x = ''unposted''
    \<and> trf_tenantId x = act_tenantId actor \<and> rest s' = ((transfers s)(pl_id pl \<mapsto> x\<lparr>trf_workflowStatus := ''cancelled'',
        trf_version := trf_version x + 1\<rparr>), counts s, adjustments s)"
proof -
  from assms(1) obtain td where td: "transfers s (js_trim (pl_id pl)) = Some td"
    "trf_tenantId td = act_tenantId actor \<and> trf_workflowStatus td \<in> {''draft'', ''ready''}
      \<and> trf_postingStatus td = ''unposted''"
    and up: "tx_updateTransfer tx s (pl_id pl)
      (\<lambda>t. t\<lparr>trf_workflowStatus := ''cancelled'', trf_version := trf_version t + 1\<rparr>) = Some s'"
    by (clarsimp simp: cancelTransfer_def status_plans split: if_splits option.splits sum.splits)
  from update_transfer [OF up] obtain x where x: "transfers s (pl_id pl) = Some x" by auto
  then have "js_trim (pl_id pl) = pl_id pl" using assms(2) by (auto dest: clean_ids_D)
  then show ?thesis using td x update_transfer [OF up] by (auto simp: rest_def)
qed

lemma cancelAdjustment_moves:
  assumes "cancelAdjustment tx actor pl s = Inr (s', ids)" "clean s"
  shows "\<exists>x. adjustments s (pl_id pl) = Some x \<and> adj_workflowStatus x \<in> {''draft'', ''ready''}
    \<and> adj_postingStatus x = ''unposted''
    \<and> adj_tenantId x = act_tenantId actor \<and> rest s' = (transfers s, counts s, (adjustments s)(pl_id pl \<mapsto> x\<lparr>adj_workflowStatus := ''cancelled'',
        adj_version := adj_version x + 1\<rparr>))"
proof -
  from assms(1) obtain ad where ad: "adjustments s (js_trim (pl_id pl)) = Some ad"
    "adj_tenantId ad = act_tenantId actor \<and> adj_workflowStatus ad \<in> {''draft'', ''ready''}
      \<and> adj_postingStatus ad = ''unposted''"
    and up: "tx_updateAdjustment tx s (pl_id pl)
      (\<lambda>a. a\<lparr>adj_workflowStatus := ''cancelled'', adj_version := adj_version a + 1\<rparr>) = Some s'"
    by (clarsimp simp: cancelAdjustment_def status_plans split: if_splits option.splits sum.splits)
  from update_adjustment [OF up] obtain x where x: "adjustments s (pl_id pl) = Some x" by auto
  then have "js_trim (pl_id pl) = pl_id pl" using assms(2) by (auto dest: clean_ids_D)
  then show ?thesis using ad x update_adjustment [OF up] by (auto simp: rest_def)
qed

lemma count_status_moves:
  "submitCount tx actor pl s = Inr (s', ids) \<Longrightarrow>
     \<exists>d x. d = js_trim (pl_id pl) \<and> counts s d = Some x \<and> cs_tenantId x = act_tenantId actor \<and> cs_workflowStatus x \<in> {''draft'', ''in_progress''}
       \<and> rest s' = (transfers s, (counts s)(d \<mapsto> x\<lparr>cs_workflowStatus := ''submitted'', cs_version := cs_version x + 1\<rparr>), adjustments s)"
  "reviewCount tx actor pl s = Inr (s', ids) \<Longrightarrow>
     \<exists>d x. d = js_trim (pl_id pl) \<and> counts s d = Some x \<and> cs_tenantId x = act_tenantId actor \<and> cs_workflowStatus x = ''submitted''
       \<and> rest s' = (transfers s, (counts s)(d \<mapsto> x\<lparr>cs_workflowStatus := ''reviewed'', cs_version := cs_version x + 1\<rparr>), adjustments s)"
  "cancelCount tx actor pl s = Inr (s', ids) \<Longrightarrow>
     \<exists>d x. d = pl_id pl \<and> counts s d = Some x \<and> cs_tenantId x = act_tenantId actor \<and> cs_workflowStatus x \<notin> {''posted'', ''cancelled''}
       \<and> rest s' = (transfers s, (counts s)(d \<mapsto> x\<lparr>cs_workflowStatus := ''cancelled'', cs_version := cs_version x + 1\<rparr>), adjustments s)"
proof -
  have up: "\<exists>x. counts s d = Some x \<and> rest s' = (transfers s, (counts s)(d \<mapsto> g x), adjustments s)"
    if "tx_updateCount tx s d g = Some s'" for g d
    using update_count [OF that] by (auto simp: rest_def)
  show "submitCount tx actor pl s = Inr (s', ids) \<Longrightarrow>
     \<exists>d x. d = js_trim (pl_id pl) \<and> counts s d = Some x \<and> cs_tenantId x = act_tenantId actor \<and> cs_workflowStatus x \<in> {''draft'', ''in_progress''}
       \<and> rest s' = (transfers s, (counts s)(d \<mapsto> x\<lparr>cs_workflowStatus := ''submitted'', cs_version := cs_version x + 1\<rparr>), adjustments s)"
    by (clarsimp simp: submitCount_def status_plans split: if_splits option.splits sum.splits)
      (frule count_key, drule up, auto)
  show "reviewCount tx actor pl s = Inr (s', ids) \<Longrightarrow>
     \<exists>d x. d = js_trim (pl_id pl) \<and> counts s d = Some x \<and> cs_tenantId x = act_tenantId actor \<and> cs_workflowStatus x = ''submitted''
       \<and> rest s' = (transfers s, (counts s)(d \<mapsto> x\<lparr>cs_workflowStatus := ''reviewed'', cs_version := cs_version x + 1\<rparr>), adjustments s)"
    by (clarsimp simp: reviewCount_def status_plans split: if_splits option.splits sum.splits)
      (frule count_key, drule up, auto)
  show "cancelCount tx actor pl s = Inr (s', ids) \<Longrightarrow>
     \<exists>d x. d = pl_id pl \<and> counts s d = Some x \<and> cs_tenantId x = act_tenantId actor \<and> cs_workflowStatus x \<notin> {''posted'', ''cancelled''}
       \<and> rest s' = (transfers s, (counts s)(d \<mapsto> x\<lparr>cs_workflowStatus := ''cancelled'', cs_version := cs_version x + 1\<rparr>), adjustments s)"
    by (clarsimp simp: cancelCount_def status_plans split: if_splits option.splits sum.splits)
      (frule count_key, drule up, auto)
qed

lemma rest_conv: "rest s' = (a, b, c) \<longleftrightarrow> transfers s' = a \<and> counts s' = b \<and> adjustments s' = c"
  by (auto simp: rest_def)

lemmas moves = postTransfer_moves reverseTransfer_moves cancelTransfer_moves postCount_moves
  postAdjustment_moves reverseAdjustment_moves cancelAdjustment_moves

lemma normalize_line_wf:
  "normalize_line items line = Inr l \<Longrightarrow> 0 < nl_quantity l \<and> \<not> same_route (nl_source l) (nl_destination l)"
  by (auto simp: normalize_line_def Let_def split: option.splits if_splits)

lemma new_lines_wf:
  "list_all (\<lambda>l. 0 < nl_quantity l \<and> \<not> same_route (nl_source l) (nl_destination l)) ls \<Longrightarrow>
   list_all line_wf (new_lines gen n ls)"
  by (induction gen n ls rule: new_lines.induct) (auto simp: line_wf_def new_leg_def same_route_def)

lemma validateTransferLines_wf:
  assumes "validateTransferLines tx s actor input b = Inr ls"
  shows "list_all line_wf (new_lines gen n ls)"
proof -
  from assms obtain items lines where "map_or_fail (normalize_line items) lines = Inr ls"
    by (auto simp: validateTransferLines_def Let_def simp del: map_or_fail.simps
        split: option.splits list.splits if_splits)
  from map_or_fail_Inr [OF this] show ?thesis
    by (intro new_lines_wf) (auto simp: list_all2_conv_all_nth list_all_length dest: normalize_line_wf)
qed

lemma adjustment_line_of_wf:
  "adjustment_line_of rows line = Inr f \<Longrightarrow> f k = Some l \<Longrightarrow> adjustment_line_wf l"
  by (auto simp: adjustment_line_of_def adjustment_line_wf_def split: option.splits if_splits)

lemma adjustment_lines_wf:
  assumes "validateAdjustment tx s actor input = Inr v" "adjustment_lines gen n (na_lines v) = Inr ls"
  shows "list_all adjustment_line_wf ls"
proof -
  from assms(1) obtain rows lines where "map_or_fail (adjustment_line_of rows) lines = Inr (na_lines v)"
    by (auto simp: validateAdjustment_def Let_def simp del: map_or_fail.simps
        split: option.splits list.splits if_splits)
  from map_or_fail_Inr [OF this]
  have "\<forall>f\<in>set (na_lines v). \<exists>line. adjustment_line_of rows line = Inr f"
    by (fastforce simp: list_all2_conv_all_nth in_set_conv_nth)
  then have "\<forall>f\<in>set (na_lines v). \<forall>k l. f k = Some l \<longrightarrow> adjustment_line_wf l"
    using adjustment_line_of_wf by blast
  moreover have "those (map (\<lambda>(k, f). f (gen k)) (enumerate n fs)) = Some ls \<Longrightarrow>
      \<forall>f\<in>set fs. \<forall>k l. f k = Some l \<longrightarrow> P l \<Longrightarrow> list_all P ls" for fs n P ls
    by (induction fs arbitrary: n ls) (auto split: option.splits)
  ultimately show ?thesis using assms(2) by (auto simp: adjustment_lines_def split: option.splits)
qed

lemma createTransfer_moves:
  assumes "createTransfer tx gen actor td s = Inr (s', ids)"
  shows "\<exists>x. transfers s (gen 1) = None \<and> new_transfer x \<and> trf_tenantId x = act_tenantId actor
    \<and> trf_transferNumber x = js_text (td_transferNumber td)
    \<and> \<not> tx_transferNumberUsed tx s (act_tenantId actor) (trf_transferNumber x)
    \<and> rest s' = ((transfers s)(gen 1 \<mapsto> x), counts s, adjustments s)"
  using assms
  by (auto simp: createTransfer_def Let_def created_Inr new_transfer_def rest_def simp del: One_nat_def
      dest!: create_transfer intro!: exI [of _ "the (transfers s' (gen 1))"] validateTransferLines_wf)

lemma reviseTransfer_moves:
  assumes "reviseTransfer tx gen actor tr s = Inr (s', ids)"
  shows "\<exists>x ls. transfers s (tr_id tr) = Some x \<and> trf_tenantId x = act_tenantId actor
    \<and> trf_workflowStatus x = ''draft'' \<and> trf_postingStatus x = ''unposted'' \<and> list_all line_wf ls
    \<and> rest s' = ((transfers s)(tr_id tr \<mapsto> x\<lparr>trf_version := trf_version x + 1, trf_lines := ls\<rparr>), counts s, adjustments s)"
proof -
  from assms obtain x ls where x: "transfers s (tr_id tr) = Some x" "trf_tenantId x = act_tenantId actor"
    "trf_workflowStatus x = ''draft'' \<and> trf_postingStatus x = ''unposted''"
    and ls: "validateTransferLines tx s actor (tr_lines tr) False = Inr ls"
    and up: "tx_updateTransfer tx s (trf_id x)
      (\<lambda>t. t\<lparr>trf_version := trf_version t + 1, trf_lines := new_lines gen 1 ls\<rparr>) = Some s'"
    by (clarsimp simp: reviseTransfer_def Let_def finish_Inr find_transfer of_tenant_Some simp del: One_nat_def
        split: if_splits option.splits)
  show ?thesis
    using x validateTransferLines_wf [OF ls] update_transfer [OF up] transfer_key [OF x(1)] by (auto simp: rest_def)
qed

lemma readyTransfer_moves:
  assumes "readyTransfer tx actor pl s = Inr (s', ids)"
  shows "\<exists>x. transfers s (pl_id pl) = Some x \<and> trf_tenantId x = act_tenantId actor \<and> trf_workflowStatus x = ''draft''
    \<and> rest s' = ((transfers s)(pl_id pl \<mapsto> x\<lparr>trf_workflowStatus := ''ready'', trf_version := trf_version x + 1\<rparr>),
        counts s, adjustments s)"
proof -
  from assms obtain x where x: "transfers s (pl_id pl) = Some x" "trf_tenantId x = act_tenantId actor"
    "trf_workflowStatus x = ''draft''"
    and up: "tx_updateTransfer tx s (trf_id x)
      (\<lambda>t. t\<lparr>trf_workflowStatus := ''ready'', trf_version := trf_version t + 1\<rparr>) = Some s'"
    by (clarsimp simp: readyTransfer_def finish_Inr find_transfer of_tenant_Some split: if_splits option.splits)
  show ?thesis using x update_transfer [OF up] transfer_key [OF x(1)] by (auto simp: rest_def)
qed

lemma new_count_lines_wf:
  assumes "inj gen"
  shows "count_lines_wf (map (\<lambda>(n, b). new_count_line (gen n) warehouseId b) (enumerate m bs))"
proof -
  have "map cl_id (map (\<lambda>(n, b). new_count_line (gen n) warehouseId b) (enumerate m bs))
      = map gen (map fst (enumerate m bs))"
    by (intro nth_equalityI) (simp_all add: new_count_line_def nth_enumerate_eq)
  also have "distinct \<dots>" using assms by (simp add: distinct_map inj_on_def)
  finally show ?thesis by (auto simp: count_lines_wf_def list_all_iff new_count_line_def count_line_wf_def)
qed

lemma createCount_moves:
  assumes "createCount tx gen actor cd s = Inr (s', ids)"
  shows "\<exists>x. counts s (gen 1) = None \<and> (inj gen \<longrightarrow> new_count x) \<and> cs_tenantId x = act_tenantId actor
    \<and> cs_countNumber x = js_text (cd_countNumber cd)
    \<and> \<not> tx_countNumberUsed tx s (act_tenantId actor) (cs_countNumber x)
    \<and> rest s' = (transfers s, (counts s)(gen 1 \<mapsto> x), adjustments s)"
  using assms
  by (auto simp: createCount_def Let_def created_Inr new_count_def rest_def new_count_lines_wf
      simp del: One_nat_def dest!: create_count intro!: exI [of _ "the (counts s' (gen 1))"])

text \<open>A line keeps its id and what was recorded of its balance while it is counted.\<close>

abbreviation count_base :: "count_line list \<Rightarrow> (string \<times> int) list" where
  "count_base ls \<equiv> map (\<lambda>l. (cl_id l, cl_recordedOnHandQuantity l)) ls"

lemma set_counted_wf:
  assumes "0 \<le> v" "line \<in> set ls" "count_base (cs_lines c) = count_base ls" "count_lines_wf (cs_lines c)"
  shows "count_lines_wf (cs_lines (set_counted (cl_id line) v (v - cl_recordedOnHandQuantity line) c))"
proof -
  have ids: "map cl_id (cs_lines (set_counted k v w c)) = map cl_id (cs_lines c)" for k v w
    by (simp add: set_counted_def)
  have d: "distinct (map cl_id (cs_lines c))" using assms(4) by (simp add: count_lines_wf_def)
  have "(cl_id line, cl_recordedOnHandQuantity line) \<in> set (count_base (cs_lines c))"
    using assms(2) unfolding assms(3) by simp
  then obtain l where l: "l \<in> set (cs_lines c)" "cl_id l = cl_id line"
    "cl_recordedOnHandQuantity l = cl_recordedOnHandQuantity line" by auto
  have "cl_recordedOnHandQuantity y = cl_recordedOnHandQuantity line"
    if "y \<in> set (cs_lines c)" "cl_id y = cl_id line" for y
    using that d l by (metis distinct_map inj_onD)
  then have "list_all count_line_wf (cs_lines (set_counted (cl_id line) v (v - cl_recordedOnHandQuantity line) c))"
    using assms(1,4) by (auto simp: set_counted_def count_lines_wf_def list_all_iff count_line_wf_def)
  then show ?thesis using d by (simp add: count_lines_wf_def ids)
qed

lemma count_entries_moves:
  assumes "count_entries tx session entries s = Inr s'" "counts s (cs_id session) = Some c"
    and "count_base (cs_lines c) = count_base (cs_lines session)"
  shows "\<exists>c'. counts s' = (counts s)(cs_id session \<mapsto> c') \<and> transfers s' = transfers s \<and> adjustments s' = adjustments s
    \<and> c' = c\<lparr>cs_lines := cs_lines c'\<rparr> \<and> (count_lines_wf (cs_lines c) \<longrightarrow> count_lines_wf (cs_lines c'))"
  using assms
proof (induction entries arbitrary: s c)
  case Nil
  then show ?case by (intro exI [of _ c]) (auto simp: fun_upd_idem)
next
  case (Cons entry entries)
  from Cons.prems(1) obtain v where "(case last_by cl_id (cs_lines session) (js_text (ce_countLineId entry)) of
         None \<Rightarrow> Inl (Issue INVENTORY_OPERATION_VERSION_CONFLICT 409)
       | Some line \<Rightarrow>
           if Some (cl_version line) \<noteq> ce_expectedLineVersion entry
           then Inl (Issue INVENTORY_OPERATION_VERSION_CONFLICT 409)
           else if v < 0 then Inl (Issue COUNT_LINE_INCOMPLETE 422)
           else
             (case tx_updateCount tx s (cs_id session)
                     (set_counted (cl_id line) v (v - cl_recordedOnHandQuantity line)) of
                None \<Rightarrow> Inl (Issue UNCAUGHT_ERROR 500)
              | Some s' \<Rightarrow> count_entries tx session entries s')) = Inr s'"
    by auto
  then obtain line :: count_line and s1 where u: "tx_updateCount tx s (cs_id session)
      (set_counted (cl_id line) v (v - cl_recordedOnHandQuantity line)) = Some s1"
    and line: "last_by cl_id (cs_lines session) (js_text (ce_countLineId entry)) = Some line"
    and tail: "count_entries tx session entries s1 = Inr s'" and v: "0 \<le> v"
    by (auto split: option.splits if_splits)
  let ?c = "set_counted (cl_id line) v (v - cl_recordedOnHandQuantity line) c"
  have base: "count_base (cs_lines ?c) = count_base (cs_lines session)"
    unfolding Cons.prems(3) [symmetric] by (simp add: set_counted_def)
  have s1: "counts s1 = (counts s)(cs_id session \<mapsto> ?c)" "transfers s1 = transfers s" "adjustments s1 = adjustments s"
    using update_count [OF u] Cons.prems(2) by auto
  have "counts s1 (cs_id session) = Some ?c" by (simp add: s1)
  note IH = Cons.IH [OF tail this base]
  obtain c' where c': "counts s' = (counts s1)(cs_id session \<mapsto> c')" "transfers s' = transfers s1"
    "adjustments s' = adjustments s1" "c' = ?c\<lparr>cs_lines := cs_lines c'\<rparr>"
    "count_lines_wf (cs_lines ?c) \<longrightarrow> count_lines_wf (cs_lines c')"
    using IH by (elim exE conjE) (rule that)
  have "count_lines_wf (cs_lines c) \<longrightarrow> count_lines_wf (cs_lines ?c)"
    using set_counted_wf [OF v last_byD(1) [OF line] Cons.prems(3)] by blast
  moreover have "c' = c\<lparr>cs_lines := cs_lines c'\<rparr>" by (subst c'(4)) (simp add: set_counted_def)
  ultimately show ?case using c'(1,2,3,5) s1 by (intro exI [of _ c']) auto
qed

lemma reviseCount_moves:
  assumes "reviseCount tx actor cr s = Inr (s', ids)"
  shows "\<exists>x x'. counts s (cr_id cr) = Some x \<and> cs_tenantId x = act_tenantId actor \<and> count_move x x'
    \<and> cs_workflowStatus x \<in> {''draft'', ''in_progress''}
    \<and> rest s' = (transfers s, (counts s)(cr_id cr \<mapsto> x'), adjustments s)"
proof -
  from assms obtain x s1 where x: "counts s (cr_id cr) = Some x" "cs_tenantId x = act_tenantId actor"
    "cs_workflowStatus x \<in> {''draft'', ''in_progress''}"
    and en: "count_entries tx x (cr_counts cr) s = Inr s1"
    and up: "tx_updateCount tx s1 (cs_id x)
      (\<lambda>c. c\<lparr>cs_workflowStatus := ''in_progress'', cs_version := cs_version c + 1\<rparr>) = Some s'"
    by (clarsimp simp: reviseCount_def finish_Inr find_count of_tenant_Some split: if_splits option.splits)
  have i: "cs_id x = cr_id cr" using x(1) by (rule count_key)
  obtain c' where c': "counts s1 = (counts s)(cr_id cr \<mapsto> c')" "transfers s1 = transfers s" "adjustments s1 = adjustments s"
    "c' = x\<lparr>cs_lines := cs_lines c'\<rparr>"
    "count_lines_wf (cs_lines x) \<longrightarrow> count_lines_wf (cs_lines c')"
    using count_entries_moves [OF en _ refl, unfolded i, OF x(1)] by (elim exE conjE) (rule that)
  let ?x' = "c'\<lparr>cs_workflowStatus := ''in_progress'', cs_version := cs_version c' + 1\<rparr>"
  have "rest s' = (transfers s, (counts s)(cr_id cr \<mapsto> ?x'), adjustments s)"
    using update_count [OF up] c'(1-3) i by (auto simp: rest_def)
  moreover have "count_move x ?x'"
    using x(3) c'(5) by (subst c'(4), subst (2) c'(4)) (auto simp: count_move_def count_edge_def)
  ultimately show ?thesis using x by blast
qed

lemma createAdjustment_moves:
  assumes "createAdjustment tx gen actor n ai s = Inr (s', ids)"
  shows "\<exists>x. adjustments s (gen 1) = None \<and> new_adjustment x \<and> adj_tenantId x = act_tenantId actor
    \<and> adj_adjustmentNumber x = js_text n
    \<and> \<not> tx_adjustmentNumberUsed tx s (act_tenantId actor) (adj_adjustmentNumber x)
    \<and> rest s' = (transfers s, counts s, (adjustments s)(gen 1 \<mapsto> x))"
  using assms
  by (auto simp: createAdjustment_def Let_def created_Inr new_adjustment_def rest_def simp del: One_nat_def
      dest!: create_adjustment intro!: exI [of _ "the (adjustments s' (gen 1))"] intro: adjustment_lines_wf)

lemma reviseAdjustment_moves:
  assumes "reviseAdjustment tx gen actor pl ai s = Inr (s', ids)"
  shows "\<exists>x x'. adjustments s (pl_id pl) = Some x \<and> adj_tenantId x = act_tenantId actor
    \<and> adjustment_move x x' \<and> rest s' = (transfers s, counts s, (adjustments s)(pl_id pl \<mapsto> x'))"
proof -
  from assms obtain x v ls where x: "adjustments s (pl_id pl) = Some x" "adj_tenantId x = act_tenantId actor"
    "adj_workflowStatus x = ''draft''"
    and v: "validateAdjustment tx s actor ai = Inr v" "adjustment_lines gen 1 (na_lines v) = Inr ls"
    and up: "tx_updateAdjustment tx s (adj_id x)
      (\<lambda>a. a\<lparr>adj_reasonCode := na_reasonCode v, adj_notes := na_notes v,
            adj_version := adj_version a + 1, adj_lines := ls\<rparr>) = Some s'"
    by (clarsimp simp: reviseAdjustment_def finish_Inr find_adjustment of_tenant_Some simp del: One_nat_def
        split: if_splits option.splits)
  have "adjustment_move x (x\<lparr>adj_reasonCode := na_reasonCode v, adj_notes := na_notes v,
      adj_version := adj_version x + 1, adj_lines := ls\<rparr>)"
    using x(3) adjustment_lines_wf [OF v] by (simp add: adjustment_move_def transfer_edge_def)
  then show ?thesis using x update_adjustment [OF up] adjustment_key [OF x(1)] by (auto simp: rest_def)
qed

lemma readyAdjustment_moves:
  assumes "readyAdjustment tx actor pl s = Inr (s', ids)"
  shows "\<exists>x. adjustments s (pl_id pl) = Some x \<and> adj_tenantId x = act_tenantId actor \<and> adj_workflowStatus x = ''draft''
    \<and> rest s' = (transfers s, counts s, (adjustments s)(pl_id pl \<mapsto> x\<lparr>adj_workflowStatus := ''ready'',
        adj_version := adj_version x + 1\<rparr>))"
proof -
  from assms obtain x where x: "adjustments s (pl_id pl) = Some x" "adj_tenantId x = act_tenantId actor"
    "adj_workflowStatus x = ''draft''"
    and up: "tx_updateAdjustment tx s (adj_id x)
      (\<lambda>a. a\<lparr>adj_workflowStatus := ''ready'', adj_version := adj_version a + 1\<rparr>) = Some s'"
    by (clarsimp simp: readyAdjustment_def finish_Inr find_adjustment of_tenant_Some split: if_splits option.splits)
  show ?thesis using x update_adjustment [OF up] adjustment_key [OF x(1)] by (auto simp: rest_def)
qed

lemmas draft_moves = createTransfer_moves reviseTransfer_moves readyTransfer_moves createCount_moves
  reviseCount_moves createAdjustment_moves reviseAdjustment_moves readyAdjustment_moves

lemma command_moves:
  assumes "id_factory gen" "run_command le tx gen actor cmd s = Inr (s', ids)" "clean s"
  shows "docs_step s s'"
proof (cases cmd)
  case (Post_transfer p)
  then show ?thesis using assms
    by (auto dest!: postTransfer_moves simp: rest_conv transfer_move_def transfer_edge_def intro!: one_moves_upd)
next
  case (Cancel_transfer p)
  then show ?thesis using assms
    by (auto dest!: cancelTransfer_moves simp: rest_conv transfer_move_def transfer_edge_def intro!: one_moves_upd)
next
  case (Reverse_transfer p)
  then show ?thesis using assms
    by (auto dest!: reverseTransfer_moves simp: rest_conv transfer_move_def transfer_edge_def intro!: one_moves_upd)
next
  case (Submit_count p)
  then show ?thesis using assms
    by (auto dest!: count_status_moves(1) simp: rest_conv count_move_def count_edge_def intro!: one_moves_upd)
next
  case (Review_count p)
  then show ?thesis using assms
    by (auto dest!: count_status_moves(2) simp: rest_conv count_move_def count_edge_def intro!: one_moves_upd)
next
  case (Cancel_count p)
  then show ?thesis using assms
    by (auto dest!: count_status_moves(3) simp: rest_conv count_move_def count_edge_def intro!: one_moves_upd)
next
  case (Post_count p)
  then show ?thesis using assms
    by (auto dest!: postCount_moves simp: rest_conv count_move_def count_edge_def intro!: one_moves_upd)
next
  case (Post_adjustment p)
  then show ?thesis using assms
    by (auto dest!: postAdjustment_moves simp: rest_conv adjustment_move_def transfer_edge_def intro!: one_moves_upd)
next
  case (Cancel_adjustment p)
  then show ?thesis using assms
    by (auto dest!: cancelAdjustment_moves simp: rest_conv adjustment_move_def transfer_edge_def intro!: one_moves_upd)
next
  case (Reverse_adjustment p)
  then show ?thesis using assms
    by (auto dest!: reverseAdjustment_moves simp: rest_conv adjustment_move_def transfer_edge_def intro!: one_moves_upd)
next
  case (Create_transfer d)
  then show ?thesis using assms
    by (auto dest!: createTransfer_moves simp: rest_conv id_factory_def intro!: one_moves_new)
next
  case (Revise_transfer r)
  then show ?thesis using assms
    by (auto dest!: reviseTransfer_moves simp: rest_conv transfer_move_def transfer_edge_def intro!: one_moves_upd)
next
  case (Ready_transfer p)
  then show ?thesis using assms
    by (auto dest!: readyTransfer_moves simp: rest_conv transfer_move_def transfer_edge_def intro!: one_moves_upd)
next
  case (Create_count d)
  then show ?thesis using assms
    by (auto dest!: createCount_moves simp: rest_conv id_factory_def intro!: one_moves_new)
next
  case (Revise_count r)
  then show ?thesis using assms
    by (auto dest!: reviseCount_moves simp: rest_conv intro!: one_moves_upd)
next
  case (Create_adjustment n d)
  then show ?thesis using assms
    by (auto dest!: createAdjustment_moves simp: rest_conv id_factory_def intro!: one_moves_new)
next
  case (Revise_adjustment p d)
  then show ?thesis using assms
    by (auto dest!: reviseAdjustment_moves simp: rest_conv intro!: one_moves_upd)
next
  case (Ready_adjustment p)
  then show ?thesis using assms
    by (auto dest!: readyAdjustment_moves simp: rest_conv adjustment_move_def transfer_edge_def intro!: one_moves_upd)
qed

lemma step_moves: "inventory_step le tx s s' \<Longrightarrow> clean s \<Longrightarrow> docs_step s s'"
  by (erule inventory_stepE) (auto dest: command_moves)

lemma moves_clean: "docs_step s s' \<Longrightarrow> clean s \<Longrightarrow> clean s'"
  by (elim conjE, intro conjI; erule (1) clean_ids_moves)

lemma step_clean: "inventory_step le tx s s' \<Longrightarrow> clean s \<Longrightarrow> clean s'"
  using step_moves moves_clean by blast

lemma reachable_clean: "inventory_reachable le tx s0 s \<Longrightarrow> clean s0 \<Longrightarrow> clean s"
proof (induction rule: inventory_reachable.induct)
  case (more s s')
  then show ?case using step_clean [OF more.hyps(2)] by blast
qed

lemma reachable_paths:
  assumes "inventory_reachable le tx s0 s" "clean s0"
  shows "paths transfer_move (transfers s0) (transfers s) \<and> paths count_move (counts s0) (counts s)
    \<and> paths adjustment_move (adjustments s0) (adjustments s)"
  using assms(1)
proof induction
  case (more s s')
  have "clean s" using more.hyps(1) assms(2) by (rule reachable_clean)
  then have "docs_step s s'" by (rule step_moves [OF more.hyps(2)])
  then show ?case using more.IH by (blast intro: paths_extend)
qed simp

text \<open>Well-formed lines are an invariant.\<close>

abbreviation lines_wf :: "'s \<Rightarrow> bool" where
  "lines_wf s \<equiv> all_rows (\<lambda>t. list_all line_wf (trf_lines t)) (transfers s)
     \<and> all_rows (\<lambda>c. count_lines_wf (cs_lines c)) (counts s)
     \<and> all_rows (\<lambda>a. list_all adjustment_line_wf (adj_lines a)) (adjustments s)"

lemma step_wf:
  assumes "inventory_step le tx s s'" "clean s" "lines_wf s"
  shows "lines_wf s'"
proof (intro conjI)
  note m = step_moves [OF assms(1,2)]
  show "all_rows (\<lambda>t. list_all line_wf (trf_lines t)) (transfers s')"
    by (rule all_rows_moves [OF conjunct1 [OF m]])
      (use assms(3) in \<open>auto simp: new_transfer_def transfer_move_def\<close>)
  show "all_rows (\<lambda>c. count_lines_wf (cs_lines c)) (counts s')"
    by (rule all_rows_moves [OF conjunct1 [OF conjunct2 [OF m]]])
      (use assms(3) in \<open>auto simp: new_count_def count_move_def\<close>)
  show "all_rows (\<lambda>a. list_all adjustment_line_wf (adj_lines a)) (adjustments s')"
    by (rule all_rows_moves [OF conjunct2 [OF conjunct2 [OF m]]])
      (use assms(3) in \<open>auto simp: new_adjustment_def adjustment_move_def\<close>)
qed

lemma reachable_wf:
  assumes "inventory_reachable le tx s0 s" "clean s0" "lines_wf s0"
  shows "lines_wf s"
  using assms(1)
proof induction
  case (more s s')
  have "clean s" using more.hyps(1) assms(2) by (rule reachable_clean)
  then show ?case using step_wf [OF more.hyps(2)] more.IH by blast
qed (rule assms(3))

end

section \<open>What the machines allow\<close>

lemma transfer_path:
  assumes "transfer_move\<^sup>*\<^sup>* x y"
  shows "trf_id y = trf_id x \<and> trf_tenantId y = trf_tenantId x \<and> trf_version x \<le> trf_version y
    \<and> (trf_workflowStatus x \<noteq> ''draft'' \<longrightarrow> trf_workflowStatus y \<noteq> ''draft'' \<and> trf_lines y = trf_lines x)
    \<and> (trf_postingStatus x = ''posted'' \<longrightarrow> trf_postingStatus y \<in> {''posted'', ''reversed''})
    \<and> (trf_postingStatus x = ''reversed'' \<longrightarrow> trf_postingStatus y = ''reversed'')
    \<and> (trf_workflowStatus x = ''cancelled'' \<longrightarrow> trf_workflowStatus y = ''cancelled'')"
  using assms by induction (auto simp: transfer_move_def transfer_edge_def)

lemma count_edge_progress:
  "count_edge w w' \<Longrightarrow> w \<noteq> ''posted'' \<and> w \<noteq> ''cancelled''
     \<and> (w = ''submitted'' \<longrightarrow> w' = ''reviewed'' \<or> w' = ''cancelled'')
     \<and> (w = ''reviewed'' \<longrightarrow> w' = ''posted'' \<or> w' = ''cancelled'')"
  by (auto simp: count_edge_def)

lemma count_path:
  assumes "count_move\<^sup>*\<^sup>* x y"
  shows "cs_version x \<le> cs_version y
    \<and> (cs_workflowStatus x = ''submitted'' \<longrightarrow>
          cs_workflowStatus y \<in> {''submitted'', ''reviewed'', ''posted'', ''cancelled''})
    \<and> (cs_workflowStatus x = ''reviewed'' \<longrightarrow> cs_workflowStatus y \<in> {''reviewed'', ''posted'', ''cancelled''})
    \<and> (cs_workflowStatus x \<in> {''posted'', ''cancelled''} \<longrightarrow> y = x)"
  using assms
proof induction
  case (step y z)
  then have "cs_version z = cs_version y + 1" "count_edge (cs_workflowStatus y) (cs_workflowStatus z)"
    by (simp_all add: count_move_def)
  with step.IH show ?case by (auto dest!: count_edge_progress)
qed simp

lemma adjustment_path:
  assumes "adjustment_move\<^sup>*\<^sup>* x y"
  shows "adj_version x \<le> adj_version y
    \<and> (adj_workflowStatus x \<noteq> ''draft'' \<longrightarrow> adj_workflowStatus y \<noteq> ''draft'' \<and> adj_lines y = adj_lines x)
    \<and> (adj_postingStatus x = ''posted'' \<longrightarrow> adj_postingStatus y \<in> {''posted'', ''reversed''})
    \<and> (adj_postingStatus x = ''reversed'' \<longrightarrow> adj_postingStatus y = ''reversed'')
    \<and> (adj_workflowStatus x = ''cancelled'' \<longrightarrow> adj_workflowStatus y = ''cancelled'')"
  using assms by induction (auto simp: adjustment_move_def transfer_edge_def)

section \<open>No command succeeds twice on a document\<close>

text \<open>
  The document of a command that can be carried out once: every command but those that create a
  document or revise a draft.
\<close>

fun command_target :: "inventory_command \<Rightarrow> string option" where
  "command_target (Ready_transfer p) = Some (pl_id p)"
| "command_target (Post_transfer p) = Some (pl_id p)"
| "command_target (Cancel_transfer p) = Some (pl_id p)"
| "command_target (Reverse_transfer p) = Some (pl_id p)"
| "command_target (Submit_count p) = Some (pl_id p)"
| "command_target (Review_count p) = Some (pl_id p)"
| "command_target (Post_count p) = Some (pl_id p)"
| "command_target (Cancel_count p) = Some (pl_id p)"
| "command_target (Ready_adjustment p) = Some (pl_id p)"
| "command_target (Post_adjustment p) = Some (pl_id p)"
| "command_target (Cancel_adjustment p) = Some (pl_id p)"
| "command_target (Reverse_adjustment p) = Some (pl_id p)"
| "command_target _ = None"

definition same_target :: "inventory_command \<Rightarrow> inventory_command \<Rightarrow> bool" where
  "same_target cmd cmd' \<longleftrightarrow>
     command_type cmd' = command_type cmd \<and> command_target cmd \<noteq> None \<and> command_target cmd' = command_target cmd"

lemma same_target_cases:
  assumes "same_target cmd cmd'"
  obtains (yt) p q where "cmd = Ready_transfer p" "cmd' = Ready_transfer q" "pl_id q = pl_id p"
  | (pt) p q where "cmd = Post_transfer p" "cmd' = Post_transfer q" "pl_id q = pl_id p"
  | (ct) p q where "cmd = Cancel_transfer p" "cmd' = Cancel_transfer q" "pl_id q = pl_id p"
  | (rt) p q where "cmd = Reverse_transfer p" "cmd' = Reverse_transfer q" "pl_id q = pl_id p"
  | (sc) p q where "cmd = Submit_count p" "cmd' = Submit_count q" "pl_id q = pl_id p"
  | (vc) p q where "cmd = Review_count p" "cmd' = Review_count q" "pl_id q = pl_id p"
  | (pc) p q where "cmd = Post_count p" "cmd' = Post_count q" "pl_id q = pl_id p"
  | (cc) p q where "cmd = Cancel_count p" "cmd' = Cancel_count q" "pl_id q = pl_id p"
  | (ya) p q where "cmd = Ready_adjustment p" "cmd' = Ready_adjustment q" "pl_id q = pl_id p"
  | (pa) p q where "cmd = Post_adjustment p" "cmd' = Post_adjustment q" "pl_id q = pl_id p"
  | (ca) p q where "cmd = Cancel_adjustment p" "cmd' = Cancel_adjustment q" "pl_id q = pl_id p"
  | (ra) p q where "cmd = Reverse_adjustment p" "cmd' = Reverse_adjustment q" "pl_id q = pl_id p"
  using assms by (cases cmd; cases cmd'; simp add: same_target_def)

context inventory_store
begin

lemma not_twice:
  assumes "clean s" "id_factory gen" "run_command le tx gen actor cmd s = Inr (s1, ids)"
    and "inventory_reachable le tx s1 s2" "same_target cmd cmd'"
  shows "run_command le tx gen' actor' cmd' s2 \<noteq> Inr (s3, ids')"
proof
  assume again: "run_command le tx gen' actor' cmd' s2 = Inr (s3, ids')"
  have "docs_step s s1" using assms(2,3,1) by (rule command_moves)
  then have c1: "clean s1" using assms(1) by (rule moves_clean)
  have c2: "clean s2" using assms(4) c1 by (rule reachable_clean)
  have path: "paths transfer_move (transfers s1) (transfers s2) \<and> paths count_move (counts s1) (counts s2)
    \<and> paths adjustment_move (adjustments s1) (adjustments s2)"
    using assms(4) c1 by (rule reachable_paths)
  have tp: "transfer_move\<^sup>*\<^sup>* x y" if "transfers s1 d = Some x" "transfers s2 d = Some y" for d x y
    using path that by (fastforce simp: paths_def)
  have cp: "count_move\<^sup>*\<^sup>* x y" if "counts s1 d = Some x" "counts s2 d = Some y" for d x y
    using path that by (fastforce simp: paths_def)
  have ap: "adjustment_move\<^sup>*\<^sup>* x y" if "adjustments s1 d = Some x" "adjustments s2 d = Some y" for d x y
    using path that by (fastforce simp: paths_def)
  show False
    using assms(5)
  proof (cases rule: same_target_cases)
    case (yt p q)
    with assms(3) again have "readyTransfer tx actor p s = Inr (s1, ids)"
      "readyTransfer tx actor' q s2 = Inr (s3, ids')" by simp_all
    from readyTransfer_moves [OF this(1)] readyTransfer_moves [OF this(2)] yt(3) show False
      by (auto simp: rest_conv dest!: tp [rotated] transfer_path)
  next
    case (ya p q)
    with assms(3) again have "readyAdjustment tx actor p s = Inr (s1, ids)"
      "readyAdjustment tx actor' q s2 = Inr (s3, ids')" by simp_all
    from readyAdjustment_moves [OF this(1)] readyAdjustment_moves [OF this(2)] ya(3) show False
      by (auto simp: rest_conv dest!: ap [rotated] adjustment_path)
  next
    case (pt p q)
    with assms(3) again have "postTransfer le tx gen actor p s = Inr (s1, ids)"
      "postTransfer le tx gen' actor' q s2 = Inr (s3, ids')" by simp_all
    from postTransfer_moves [OF this(1) assms(1)] postTransfer_moves [OF this(2) c2] pt(3) show False
      by (auto simp: rest_conv dest!: tp [rotated] transfer_path)
  next
    case (ct p q)
    with assms(3) again have "cancelTransfer tx actor p s = Inr (s1, ids)"
      "cancelTransfer tx actor' q s2 = Inr (s3, ids')" by simp_all
    from cancelTransfer_moves [OF this(1) assms(1)] cancelTransfer_moves [OF this(2) c2] ct(3) show False
      by (auto simp: rest_conv dest!: tp [rotated] transfer_path)
  next
    case (rt p q)
    with assms(3) again have "reverseTransfer le tx gen actor p s = Inr (s1, ids)"
      "reverseTransfer le tx gen' actor' q s2 = Inr (s3, ids')" by simp_all
    from reverseTransfer_moves [OF this(1) assms(1)] reverseTransfer_moves [OF this(2) c2] rt(3) show False
      by (auto simp: rest_conv dest!: tp [rotated] transfer_path)
  next
    case (sc p q)
    with assms(3) again have "submitCount tx actor p s = Inr (s1, ids)"
      "submitCount tx actor' q s2 = Inr (s3, ids')" by simp_all
    from count_status_moves(1) [OF this(1)] count_status_moves(1) [OF this(2)] sc(3) show False
      by (auto simp: rest_conv dest!: cp [rotated] count_path)
  next
    case (vc p q)
    with assms(3) again have "reviewCount tx actor p s = Inr (s1, ids)"
      "reviewCount tx actor' q s2 = Inr (s3, ids')" by simp_all
    from count_status_moves(2) [OF this(1)] count_status_moves(2) [OF this(2)] vc(3) show False
      by (auto simp: rest_conv dest!: cp [rotated] count_path)
  next
    case (cc p q)
    with assms(3) again have "cancelCount tx actor p s = Inr (s1, ids)"
      "cancelCount tx actor' q s2 = Inr (s3, ids')" by simp_all
    from count_status_moves(3) [OF this(1)] count_status_moves(3) [OF this(2)] cc(3) show False
      by (auto simp: rest_conv dest!: cp [rotated] count_path)
  next
    case (pc p q)
    with assms(3) again have "postCount tx gen actor p s = Inr (s1, ids)"
      "postCount tx gen' actor' q s2 = Inr (s3, ids')" by simp_all
    from postCount_moves [OF this(1) assms(1)] postCount_moves [OF this(2) c2] pc(3) show False
      by (auto simp: rest_conv dest!: cp [rotated] count_path)
  next
    case (pa p q)
    with assms(3) again have "postAdjustment le tx gen actor p s = Inr (s1, ids)"
      "postAdjustment le tx gen' actor' q s2 = Inr (s3, ids')" by simp_all
    from postAdjustment_moves [OF this(1) assms(1)] postAdjustment_moves [OF this(2) c2] pa(3) show False
      by (auto simp: rest_conv dest!: ap [rotated] adjustment_path)
  next
    case (ca p q)
    with assms(3) again have "cancelAdjustment tx actor p s = Inr (s1, ids)"
      "cancelAdjustment tx actor' q s2 = Inr (s3, ids')" by simp_all
    from cancelAdjustment_moves [OF this(1) assms(1)] cancelAdjustment_moves [OF this(2) c2] ca(3) show False
      by (auto simp: rest_conv dest!: ap [rotated] adjustment_path)
  next
    case (ra p q)
    with assms(3) again have "reverseAdjustment le tx gen actor p s = Inr (s1, ids)"
      "reverseAdjustment le tx gen' actor' q s2 = Inr (s3, ids')" by simp_all
    from reverseAdjustment_moves [OF this(1) assms(1)] reverseAdjustment_moves [OF this(2) c2] ra(3) show False
      by (auto simp: rest_conv dest!: ap [rotated] adjustment_path)
  qed
qed

end

end
