(* ===== verification/Inventory_Reversal.thy ===== *)
theory Inventory_Reversal
  imports Inventory_Lifecycle
begin

text \<open>
  Reversing a transfer undoes its posting, whatever happened in between. The reversal finds the
  movement of each leg among the movements of the document; since there is exactly one, it is the
  one the posting made, so it names the balance the posting changed.
\<close>

section \<open>Movements are kept\<close>

definition same_movement :: "movement \<Rightarrow> movement \<Rightarrow> bool" where
  "same_movement m m' \<longleftrightarrow> m'\<lparr>mov_reversedByMovementId := None\<rparr> = m\<lparr>mov_reversedByMovementId := None\<rparr>"

definition movements_kept :: "movement list \<Rightarrow> movement list \<Rightarrow> bool" where
  "movements_kept ms ms' \<longleftrightarrow> (\<forall>m\<in>set ms. \<exists>m'\<in>set ms'. same_movement m m')"

lemma same_movement_refl [simp]: "same_movement m m"
  by (simp add: same_movement_def)

lemma same_movement_reversed [simp]: "same_movement m (m\<lparr>mov_reversedByMovementId := r\<rparr>)"
  by (simp add: same_movement_def)

lemma same_movement_sel:
  assumes "same_movement m m'"
  shows "mov_tenantId m' = mov_tenantId m" "mov_sourceDocumentId m' = mov_sourceDocumentId m"
    "mov_sourceDocumentLineId m' = mov_sourceDocumentLineId m" "mov_balanceId m' = mov_balanceId m"
  using assms unfolding same_movement_def by (metis movement.select_convs movement.surjective movement.update_convs)+

lemma movements_kept_refl [simp]: "movements_kept ms ms"
  by (auto simp: movements_kept_def intro!: bexI)

lemma movements_kept_trans: "movements_kept ms ms' \<Longrightarrow> movements_kept ms' ms'' \<Longrightarrow> movements_kept ms ms''"
  unfolding movements_kept_def same_movement_def by metis

lemma movements_kept_append: "movements_kept ms (ms @ ns)"
  by (auto simp: movements_kept_def intro!: bexI)

lemma movements_kept_reversed:
  "movements_kept ms (map (\<lambda>m. if P m then m\<lparr>mov_reversedByMovementId := r\<rparr> else m) ms)"
  unfolding movements_kept_def
proof
  fix m assume "m \<in> set ms"
  then show "\<exists>m'\<in>set (map (\<lambda>m. if P m then m\<lparr>mov_reversedByMovementId := r\<rparr> else m) ms). same_movement m m'"
    by (intro bexI [of _ "if P m then m\<lparr>mov_reversedByMovementId := r\<rparr> else m"]) auto
qed

context inventory_store
begin

lemma create_movements_rows:
  "create_movements tx gen row n facts s = Inr (s', ids) \<Longrightarrow>
     movements s' = movements s @ map (case_prod row) (enumerate n facts)"
proof (induction facts arbitrary: s n ids)
  case (Cons mf facts)
  then obtain s1 ids' where c: "tx_createMovement tx s (row n mf) = Some s1"
    and tail: "create_movements tx gen row (Suc n) facts s1 = Inr (s', ids')"
    by (auto split: option.splits sum.splits)
  show ?case using Cons.IH [OF tail] create_movement [OF c] by simp
qed simp

lemma create_reversals_kept:
  "create_reversals tx gen row n facts s = Inr (s', ids) \<Longrightarrow> movements_kept (movements s) (movements s')"
proof (induction facts arbitrary: s n ids)
  case (Cons mf facts)
  then obtain s1 s2 ids' where c: "tx_createMovement tx s (row n mf) = Some s1"
    and r: "tx_setReversedBy tx s1 (mf_originalMovementId mf) (gen n) = Some s2"
    and tail: "create_reversals tx gen row (Suc n) facts s2 = Inr (s', ids')"
    by (auto split: option.splits sum.splits)
  have "movements_kept (movements s) (movements s1)"
    using create_movement [OF c] by (simp add: movements_kept_append)
  moreover have "movements_kept (movements s1) (movements s2)"
    using set_reversed_by [OF r] by (simp add: movements_kept_reversed)
  ultimately show ?case using Cons.IH [OF tail] movements_kept_trans by blast
qed simp

lemma apply_impacts_movements: "apply_impacts tx t c imps s = Inr s' \<Longrightarrow> movements s' = movements s"
proof (induction imps arbitrary: s)
  case (Cons i imps)
  obtain s1 n where u: "tx_updateBalance tx s (bi_balanceId i) t (bi_version i)
      (bi_onHandAfter i) (bi_reservedAfter i) (bi_availableAfter i) = (s1, n)" by fastforce
  then have "apply_impacts tx t c imps s1 = Inr s'" using Cons.prems by (auto split: if_splits)
  then show ?case using Cons.IH update_balance [OF u] by auto
qed simp

lemma command_kept:
  assumes "run_command le tx gen actor cmd s = Inr (s', ids)"
  shows "movements_kept (movements s) (movements s')"
proof -
  note defs = enforce_Inr finish_Inr Let_def
  note upd = update_transfer update_count update_adjustment
  have post: "movements_kept (movements s) (movements s2)"
    if "apply_impacts tx t c imps s = Inr s1" "create_movements tx gen row n facts s1 = Inr (s2, js)"
    for t c imps s1 s2 row n facts js
    using apply_impacts_movements [OF that(1)] create_movements_rows [OF that(2)] by (simp add: movements_kept_append)
  have rev: "movements_kept (movements s) (movements s2)"
    if "apply_impacts tx t c imps s = Inr s1" "create_reversals tx gen row n facts s1 = Inr (s2, js)"
    for t c imps s1 s2 row n facts js
    using apply_impacts_movements [OF that(1)] create_reversals_kept [OF that(2)] by simp
  show ?thesis
  proof (cases cmd)
    case (Post_transfer p)
    then show ?thesis using assms
      by (auto simp: postTransfer_def defs dest!: upd dest: post split: if_splits option.splits sum.splits prod.splits)
  next
    case (Reverse_transfer p)
    then show ?thesis using assms
      by (auto simp: reverseTransfer_def defs dest!: upd dest: rev split: if_splits option.splits sum.splits prod.splits)
  next
    case (Post_count p)
    then show ?thesis using assms
      by (auto simp: postCount_def defs dest!: upd dest: post split: if_splits option.splits sum.splits prod.splits)
  next
    case (Post_adjustment p)
    then show ?thesis using assms
      by (auto simp: postAdjustment_def defs dest!: upd dest: post split: if_splits option.splits sum.splits prod.splits)
  next
    case (Reverse_adjustment p)
    then show ?thesis using assms
      by (auto simp: reverseAdjustment_def defs dest!: upd dest: rev split: if_splits option.splits sum.splits prod.splits)
  qed (use assms in \<open>auto simp: cancelTransfer_def submitCount_def reviewCount_def cancelCount_def cancelAdjustment_def
      createTransfer_def reviseTransfer_def readyTransfer_def createCount_def reviseCount_def
      createAdjustment_def reviseAdjustment_def readyAdjustment_def created_Inr defs
      dest!: upd create_transfer create_count create_adjustment count_entries_effect
      split: if_splits option.splits sum.splits\<close>)
qed

lemma reachable_kept:
  "inventory_reachable le tx s0 s \<Longrightarrow> movements_kept (movements s0) (movements s)"
proof (induction rule: inventory_reachable.induct)
  case (more s s')
  from more.hyps(2) have "movements_kept (movements s) (movements s')"
    by (rule inventory_stepE) (auto dest: command_kept)
  then show ?case using more.IH movements_kept_trans by blast
qed simp

lemma books_step_dom: "books_step bals ms bals' ms' \<Longrightarrow> dom bals' = dom bals"
  by (fastforce simp: books_step_def balances_moved_def split: option.splits)

lemma reachable_balance_dom:
  "inventory_reachable le tx s0 s \<Longrightarrow> dom (balances s) = dom (balances s0)"
proof (induction rule: inventory_reachable.induct)
  case (more s s')
  then show ?case using books_step_dom [OF step_keeps [OF more.hyps(2)]] by simp
qed simp

end

section \<open>What a reversal takes back\<close>

definition legs_ok :: "transfer_line \<Rightarrow> bool" where
  "legs_ok line \<longleftrightarrow>
     (case tl_legs line of
        [a, b] \<Rightarrow> leg_direction a = ''source'' \<and> leg_direction b = ''destination''
                 \<or> leg_direction a = ''destination'' \<and> leg_direction b = ''source''
      | _ \<Rightarrow> False)"

lemma legs_okE:
  assumes "legs_ok line"
  obtains src dst where "leg_direction src = ''source''" "leg_direction dst = ''destination''"
    "tl_legs line = [src, dst] \<or> tl_legs line = [dst, src]"
  using assms by (auto simp: legs_ok_def split: list.splits)

text \<open>There is a movement for the fact among \<open>moves\<close>, at the fact's balance.\<close>

definition recorded :: "movement list \<Rightarrow> movement_fact \<Rightarrow> bool" where
  "recorded moves f \<longleftrightarrow> js_trim (mf_balanceId f) = mf_balanceId f
     \<and> (\<exists>m\<in>set moves. mov_sourceDocumentLineId m = mf_legId f \<and> mov_balanceId m = Some (mf_balanceId f))"

lemma leg_reversal:
  assumes "fst (transfer_reversal_leg moves rows td line leg) = []"
    and "recorded moves f" "mf_legId f = Some (leg_id leg)"
  shows "fact_change (snd (snd (transfer_reversal_leg moves rows td line leg))) k
    = (if mf_balanceId f = k then (if leg_direction leg = ''source'' then tl_quantity line else - tl_quantity line) else 0)"
proof -
  let ?originals = "filter (\<lambda>m. mov_sourceDocumentLineId m = Some (leg_id leg)) moves"
  from assms(2,3) obtain m where m: "m \<in> set ?originals" "mov_balanceId m = Some (mf_balanceId f)"
    and trim: "js_text (Some (mf_balanceId f)) = mf_balanceId f"
    by (auto simp: recorded_def js_text_def)
  have "length ?originals = 1"
    using assms(1) m(1) unfolding transfer_reversal_leg_def by (auto simp: Let_def split: list.splits option.splits if_splits)
  then obtain y where y: "?originals = [y]" by (auto simp: length_Suc_conv)
  have "m \<in> set [y]" using m(1) unfolding y .
  with y have o: "?originals = [m]" by simp
  obtain b where b: "last_by bal_id rows (mf_balanceId f) = Some b"
    using assms(1) trim unfolding transfer_reversal_leg_def o by (auto simp: Let_def m(2) split: option.splits)
  show ?thesis
    using assms(1) last_byD(2) [OF b] unfolding transfer_reversal_leg_def o
    by (auto simp: Let_def m(2) trim b leg_fact_def change_Cons split: if_splits)
qed

lemma posting_line_facts:
  assumes "fst (transfer_posting_line rows line) = []" "legs_ok line"
    and legs: "leg_direction src = ''source''" "leg_direction dst = ''destination''"
      "tl_legs line = [src, dst] \<or> tl_legs line = [dst, src]"
  shows "\<exists>sb db. snd (snd (transfer_posting_line rows line)) =
      [leg_fact ''stock_transfer_out'' sb None 0 (tl_quantity line) line src,
       leg_fact ''stock_transfer_in'' db None (tl_quantity line) 0 line dst]"
proof -
  have "List.find (\<lambda>leg. leg_direction leg = ''source'') (tl_legs line) = Some src"
    "List.find (\<lambda>leg. leg_direction leg = ''destination'') (tl_legs line) = Some dst"
    using legs by auto
  then show ?thesis using assms(1)
    by (auto simp: transfer_posting_line_def Let_def split: option.splits if_splits)
qed

lemma line_undone:
  assumes post: "fst (transfer_posting_line rows line) = []" and ok: "legs_ok line"
    and rec: "\<forall>f\<in>set (snd (snd (transfer_posting_line rows line))). recorded moves f"
    and rev: "\<forall>leg\<in>set (tl_legs line). fst (transfer_reversal_leg moves rows' td line leg) = []"
  shows "fact_change (concat (map (snd \<circ> snd) (map (transfer_reversal_leg moves rows' td line) (tl_legs line)))) k
    = - fact_change (snd (snd (transfer_posting_line rows line))) k"
proof -
  from ok obtain src dst where legs: "leg_direction src = ''source''" "leg_direction dst = ''destination''"
    "tl_legs line = [src, dst] \<or> tl_legs line = [dst, src]" by (rule legs_okE)
  let ?out = "\<lambda>sb. leg_fact ''stock_transfer_out'' sb None 0 (tl_quantity line) line src"
  let ?in = "\<lambda>db. leg_fact ''stock_transfer_in'' db None (tl_quantity line) 0 line dst"
  from posting_line_facts [OF post ok legs]
  obtain sb db where facts: "snd (snd (transfer_posting_line rows line)) = [?out sb, ?in db]" by blast
  have r: "recorded moves (?out sb)" "recorded moves (?in db)" using rec facts by simp_all
  have v: "fst (transfer_reversal_leg moves rows' td line src) = []" "fst (transfer_reversal_leg moves rows' td line dst) = []"
    using rev legs(3) by auto
  have "fact_change (snd (snd (transfer_reversal_leg moves rows' td line src))) k = - fact_change [?out sb] k"
    using leg_reversal [OF v(1) r(1)] legs(1) by (simp add: leg_fact_def change_Cons)
  moreover have "fact_change (snd (snd (transfer_reversal_leg moves rows' td line dst))) k = - fact_change [?in db] k"
    using leg_reversal [OF v(2) r(2)] legs(2) by (simp add: leg_fact_def change_Cons)
  moreover have "fact_change [?out sb, ?in db] k = fact_change [?out sb] k + fact_change [?in db] k"
    by (simp add: change_Cons)
  ultimately show ?thesis using legs(3) unfolding facts by auto
qed

lemma lines_undone:
  assumes "\<forall>line\<in>set ls. legs_ok line \<and> fst (transfer_posting_line rows line) = []
      \<and> (\<forall>f\<in>set (snd (snd (transfer_posting_line rows line))). recorded moves f)
      \<and> (\<forall>leg\<in>set (tl_legs line). fst (transfer_reversal_leg moves rows' td line leg) = [])"
  shows "fact_change (concat (map (snd \<circ> snd)
      (concat (map (\<lambda>line. map (transfer_reversal_leg moves rows' td line) (tl_legs line)) ls)))) k
    = - fact_change (concat (map (snd \<circ> snd) (map (transfer_posting_line rows) ls))) k"
  using assms
proof (induction ls)
  case (Cons line ls)
  then show ?case using line_undone [of rows line moves rows' td k] by (simp add: o_def)
qed simp

definition stock :: "(string \<Rightarrow> balance option) \<Rightarrow> string \<Rightarrow> int" where
  "stock bals k = (case bals k of None \<Rightarrow> 0 | Some b \<Rightarrow> on_hand b)"

lemma balances_moved_stock:
  "balances_moved bals f bals' \<Longrightarrow> bals k \<noteq> None \<Longrightarrow> stock bals' k = stock bals k + f k"
  by (auto simp: balances_moved_def stock_def split: option.splits dest!: spec [of _ k])

lemma posting_fact_source:
  assumes "f \<in> set (snd (snd (transfer_posting_line rows line)))"
  shows "mf_balanceId f \<in> bal_id ` set rows \<and> (\<exists>leg\<in>set (tl_legs line). mf_legId f = Some (leg_id leg))"
  using assms by (auto simp: transfer_posting_line_def Let_def leg_fact_def find_Some_iff
      dest: last_byD(1) split: option.splits if_splits)

context inventory_store
begin

text \<open>The plans of a posting and of a reversal that succeeded, by the loops over the lines.\<close>

lemma postTransfer_lines:
  assumes "postTransfer le tx gen actor pl s = Inr (s', ids)" "clean s" "transfers s (pl_id pl) = Some td"
  obtains rows facts where
    "\<forall>line\<in>set (trf_lines td). fst (transfer_posting_line rows line) = []"
    "facts = concat (map (snd \<circ> snd) (map (transfer_posting_line rows) (trf_lines td)))"
    "rows_of (balances s) (act_tenantId actor) rows"
    "\<And>k. balances s k \<noteq> None \<Longrightarrow> stock (balances s') k = stock (balances s) k + fact_change facts k"
    "movements s' = movements s @ map (\<lambda>(n, mf). movement_row (gen n) (act_tenantId actor) ''StockTransferDocument''
        (pl_id pl) (mf_legId mf) (gen 1) None mf) (enumerate 2 facts)"
proof -
  let ?plan = "buildStockTransferPostingPlan le tx s (act_tenantId actor) (trf_id td)"
  from assms(1,3) obtain s1 s2 where
    doc: "tx_findTransfer tx s (act_tenantId actor) (pl_id pl) = Some td"
    and plan: "ip_blockingIssues ?plan = []"
    and ap: "apply_impacts tx (act_tenantId actor) (Issue INVENTORY_OPERATIONS_CONCURRENT_TRANSACTION_CONFLICT 409)
      (ip_balanceImpacts ?plan) s = Inr s1"
    and cm: "create_movements tx gen (\<lambda>n mf. movement_row (gen n) (act_tenantId actor) ''StockTransferDocument''
        (trf_id td) (mf_legId mf) (gen 1) None mf) 2 (ip_movementFacts ?plan) s1 = Inr (s2, ids)"
    and up: "tx_updateTransfer tx s2 (trf_id td)
      (\<lambda>t. t\<lparr>trf_postingStatus := ''posted'', trf_version := trf_version t + 1, trf_postingBatchId := Some (gen 1)\<rparr>) = Some s'"
    by (clarsimp simp: postTransfer_def enforce_Inr finish_Inr Let_def find_transfer of_tenant_Some simp del: One_nat_def
        split: if_splits option.splits sum.splits prod.splits)
  have i: "trf_id td = pl_id pl" "js_trim (pl_id pl) = pl_id pl"
    using assms(2,3) by (auto dest: transfer_key clean_ids_D)
  define rows where "rows = (if transfer_keys td = [] then []
    else tx_findBalancesByKey tx s (act_tenantId actor) (transfer_keys td))"
  have found: "tx_findTransfer tx s (act_tenantId actor) (js_trim (trf_id td)) = Some td"
    using doc i by simp
  note p = buildStockTransferPostingPlan_def [of le tx s "act_tenantId actor" "trf_id td"] found option.case
    Let_def rows_def [symmetric] split_beta inv_plan.simps
  have lines: "\<forall>line\<in>set (trf_lines td). fst (transfer_posting_line rows line) = []"
    and facts: "ip_movementFacts ?plan = concat (map (snd \<circ> snd) (map (transfer_posting_line rows) (trf_lines td)))"
    using plan unfolding p by simp_all
  have books: "plan_books (balances s) (act_tenantId actor) ?plan" using plan by (rule transfer_posting_books)
  then have "balances_moved (balances s) (impact_change (ip_balanceImpacts ?plan)) (balances s1)"
    using apply_impacts_books [OF ap] by (simp add: plan_books_def)
  moreover have "balances s' = balances s1"
    using update_transfer [OF up] create_movements_books [OF cm] by (auto simp: movement_row_sel)
  ultimately have moved: "stock (balances s') k = stock (balances s) k + fact_change (ip_movementFacts ?plan) k"
    if "balances s k \<noteq> None" for k
    using balances_moved_stock [of "balances s" _ "balances s'" k] that books by (auto simp: plan_books_def)
  have "movements s' = movements s @ map (\<lambda>(n, mf). movement_row (gen n) (act_tenantId actor) ''StockTransferDocument''
        (pl_id pl) (mf_legId mf) (gen 1) None mf) (enumerate 2 (ip_movementFacts ?plan))"
    using update_transfer [OF up] create_movements_rows [OF cm] apply_impacts_movements [OF ap] i by auto
  then show thesis
    using that [of rows "ip_movementFacts ?plan"] lines facts moved
    by (simp add: rows_def rows_by_key)
qed

lemma reverseTransfer_lines:
  assumes "reverseTransfer le tx gen actor pl s = Inr (s', ids)" "clean s" "transfers s (pl_id pl) = Some td"
  obtains rows moves where
    "mset moves = filter_mset (movement_matches (act_tenantId actor) (pl_id pl)
        (Some (concat (map (\<lambda>line. map leg_id (tl_legs line)) (trf_lines td))))) (mset (movements s))"
    "\<forall>line\<in>set (trf_lines td). \<forall>leg\<in>set (tl_legs line). fst (transfer_reversal_leg moves rows td line leg) = []"
    "\<And>k. balances s k \<noteq> None \<Longrightarrow> stock (balances s') k = stock (balances s) k + fact_change (concat (map (snd \<circ> snd)
      (concat (map (\<lambda>line. map (transfer_reversal_leg moves rows td line) (tl_legs line)) (trf_lines td))))) k"
    "trf_tenantId td = act_tenantId actor"
proof -
  let ?plan = "buildStockTransferReversalPlan le tx s (act_tenantId actor) (trf_id td)"
  from assms(1,3) obtain s1 s2 row where
    doc: "tx_findTransfer tx s (act_tenantId actor) (pl_id pl) = Some td" "trf_tenantId td = act_tenantId actor"
    and plan: "ip_blockingIssues ?plan = []"
    and ap: "apply_impacts tx (act_tenantId actor) (Issue INVENTORY_OPERATIONS_CONCURRENT_TRANSACTION_CONFLICT 409)
      (ip_balanceImpacts ?plan) s = Inr s1"
    and cm: "create_reversals tx gen row 2 (ip_movementFacts ?plan) s1 = Inr (s2, ids)"
    and row: "row = (\<lambda>n mf. movement_row (gen n) (act_tenantId actor) ''StockTransferDocument'' (trf_id td)
        (Some ((case mf_legId mf of Some l \<Rightarrow> l | None \<Rightarrow> ''undefined'') @ '':reversal'')) (gen 1)
        (mf_originalMovementId mf) mf)"
    and up: "tx_updateTransfer tx s2 (trf_id td)
      (\<lambda>t. t\<lparr>trf_postingStatus := ''reversed'', trf_version := trf_version t + 1\<rparr>) = Some s'"
    by (clarsimp simp: reverseTransfer_def enforce_Inr finish_Inr Let_def find_transfer of_tenant_Some simp del: One_nat_def
        split: if_splits option.splits sum.splits prod.splits)
  have i: "trf_id td = pl_id pl" "js_trim (pl_id pl) = pl_id pl"
    using assms(2,3) by (auto dest: transfer_key clean_ids_D)
  define moves where "moves = tx_findMovements tx s (act_tenantId actor) (trf_id td)
    (Some (concat (map (\<lambda>line. map leg_id (tl_legs line)) (trf_lines td))))"
  define rows where "rows = (if movement_balance_ids moves = [] then []
    else tx_findBalancesById tx s (act_tenantId actor) (movement_balance_ids moves))"
  have found: "tx_findTransfer tx s (act_tenantId actor) (js_trim (trf_id td)) = Some td"
    using doc(1) i by simp
  note p = buildStockTransferReversalPlan_def [of le tx s "act_tenantId actor" "trf_id td"] found option.case
    Let_def moves_def [symmetric] rows_def [symmetric] split_beta inv_plan.simps
  have lines: "\<forall>line\<in>set (trf_lines td). \<forall>leg\<in>set (tl_legs line). fst (transfer_reversal_leg moves rows td line leg) = []"
    and facts: "ip_movementFacts ?plan = concat (map (snd \<circ> snd)
      (concat (map (\<lambda>line. map (transfer_reversal_leg moves rows td line) (tl_legs line)) (trf_lines td))))"
    using plan unfolding p by simp_all
  have books: "plan_books (balances s) (act_tenantId actor) ?plan" using plan by (rule transfer_reversal_books)
  then have "balances_moved (balances s) (impact_change (ip_balanceImpacts ?plan)) (balances s1)"
    using apply_impacts_books [OF ap] by (simp add: plan_books_def)
  moreover have "balances s' = balances s1"
    using update_transfer [OF up] create_reversals_books [OF cm] by (auto simp: row movement_row_sel)
  ultimately have moved: "stock (balances s') k = stock (balances s) k + fact_change (ip_movementFacts ?plan) k"
    if "balances s k \<noteq> None" for k
    using balances_moved_stock [of "balances s" _ "balances s'" k] that books by (auto simp: plan_books_def)
  show thesis
    using that [of moves rows] lines facts moved doc(2) by (simp add: moves_def find_movements i)
qed

lemma reversal_undoes:
  assumes gen: "id_factory gen" and post: "postTransfer le tx gen actor pl s = Inr (s1, ids)" and clean: "clean s" "clean_ids (balances s)"
    and td: "transfers s (pl_id pl) = Some td" and ok: "\<forall>line\<in>set (trf_lines td). legs_ok line"
    and between: "inventory_reachable le tx s1 s2"
    and rev: "reverseTransfer le tx gen' actor' pl' s2 = Inr (s3, ids')" "pl_id pl' = pl_id pl"
    and k: "balances s k \<noteq> None"
  shows "stock (balances s3) k - stock (balances s2) k = stock (balances s) k - stock (balances s1) k"
proof -
  let ?d = "pl_id pl"
  have step: "inventory_step le tx s s1"
    using post by (intro commits [OF gen, of le tx actor "Post_transfer pl" s s1 ids]) simp
  have c1: "clean s1" using step clean(1) by (rule step_clean)
  have c2: "clean s2" using between c1 by (rule reachable_clean)
  obtain t1 where t1: "transfers s1 ?d = Some t1" "trf_lines t1 = trf_lines td" "trf_tenantId t1 = act_tenantId actor"
    "trf_workflowStatus t1 = ''ready''"
    using postTransfer_moves [OF post clean(1)] td by (auto simp: rest_conv)
  have "paths transfer_move (transfers s1) (transfers s2)" using reachable_paths [OF between c1] by blast
  with t1(1) obtain t2 where t2: "transfers s2 ?d = Some t2" and "transfer_move\<^sup>*\<^sup>* t1 t2"
    by (auto simp: paths_def)
  then have t2l: "trf_lines t2 = trf_lines td" "trf_tenantId t2 = act_tenantId actor"
    using transfer_path [of t1 t2] t1 by auto
  obtain rows facts where
    P: "\<forall>line\<in>set (trf_lines td). fst (transfer_posting_line rows line) = []"
    and F: "facts = concat (map (snd \<circ> snd) (map (transfer_posting_line rows) (trf_lines td)))"
    and R: "rows_of (balances s) (act_tenantId actor) rows"
    and S1: "\<And>k. balances s k \<noteq> None \<Longrightarrow> stock (balances s1) k = stock (balances s) k + fact_change facts k"
    and M: "movements s1 = movements s @ map (\<lambda>(n, mf). movement_row (gen n) (act_tenantId actor) ''StockTransferDocument''
        ?d (mf_legId mf) (gen 1) None mf) (enumerate 2 facts)"
    by (rule postTransfer_lines [OF post clean(1) td]) (rule that)
  have t2': "transfers s2 (pl_id pl') = Some t2" using t2 rev(2) by simp
  obtain rows' moves where
    mv: "mset moves = filter_mset (movement_matches (act_tenantId actor') ?d
        (Some (concat (map (\<lambda>line. map leg_id (tl_legs line)) (trf_lines td))))) (mset (movements s2))"
    and L: "\<forall>line\<in>set (trf_lines td). \<forall>leg\<in>set (tl_legs line). fst (transfer_reversal_leg moves rows' t2 line leg) = []"
    and S3: "\<And>k. balances s2 k \<noteq> None \<Longrightarrow> stock (balances s3) k = stock (balances s2) k + fact_change (concat (map (snd \<circ> snd)
      (concat (map (\<lambda>line. map (transfer_reversal_leg moves rows' t2 line) (tl_legs line)) (trf_lines td))))) k"
    and T: "trf_tenantId t2 = act_tenantId actor'"
    by (rule reverseTransfer_lines [OF rev(1) c2 t2', unfolded t2l(1) rev(2)]) (rule that)
  have tenants: "act_tenantId actor' = act_tenantId actor" using T t2l(2) by simp
  have rec: "recorded moves f" if line: "line \<in> set (trf_lines td)"
    and f: "f \<in> set (snd (snd (transfer_posting_line rows line)))" for line f
  proof -
    have "mf_balanceId f \<in> bal_id ` set rows" and leg: "\<exists>leg\<in>set (tl_legs line). mf_legId f = Some (leg_id leg)"
      using posting_fact_source [OF f] by blast+
    then have trim: "js_trim (mf_balanceId f) = mf_balanceId f"
      using R clean(2) by (auto simp: rows_of_def dest: clean_ids_D)
    have "f \<in> set facts" using F line f by auto
    then have "f \<in> snd ` set (enumerate 2 facts)" by (metis map_snd_enumerate set_map)
    then obtain n where "(n, f) \<in> set (enumerate 2 facts)" by auto
    then have "movement_row (gen n) (act_tenantId actor) ''StockTransferDocument'' ?d (mf_legId f) (gen 1) None f
        \<in> set (movements s1)" (is "?m \<in> _") using M by force
    then obtain m where m: "m \<in> set (movements s2)" "same_movement ?m m"
      using reachable_kept [OF between] by (auto simp: movements_kept_def)
    have s: "mov_tenantId m = act_tenantId actor" "mov_sourceDocumentId m = Some ?d"
      "mov_sourceDocumentLineId m = mf_legId f" "mov_balanceId m = Some (mf_balanceId f)"
      using same_movement_sel [OF m(2)] by (simp_all add: movement_row_def)
    have "m \<in># filter_mset (movement_matches (act_tenantId actor') ?d
        (Some (concat (map (\<lambda>line. map leg_id (tl_legs line)) (trf_lines td))))) (mset (movements s2))"
      using m(1) s leg line tenants by (auto simp: movement_matches_def intro!: bexI [OF _ line] imageI)
    then have "m \<in> set moves" unfolding mv [symmetric] by simp
    with s trim show ?thesis by (auto simp: recorded_def)
  qed
  have undone: "fact_change (concat (map (snd \<circ> snd)
      (concat (map (\<lambda>line. map (transfer_reversal_leg moves rows' t2 line) (tl_legs line)) (trf_lines td))))) k
    = - fact_change facts k"
    unfolding F by (rule lines_undone) (use ok P L rec in blast)
  have "dom (balances s1) = dom (balances s)" using step_keeps [OF step] by (rule books_step_dom)
  then have "balances s2 k \<noteq> None" using reachable_balance_dom [OF between] k by blast
  then show ?thesis using S1 [OF k] S3 undone by simp
qed

end

end
