(* ===== verification/Inventory_Tenants.thy ===== *)
theory Inventory_Tenants
  imports Inventory_Lifecycle
begin

text \<open>
  Who may do what: a command only touches rows of the actor's tenant, and it succeeds only for an
  actor with the operating right on every warehouse concerned. Cancelling a transfer is the
  exception: its work function does not ask for the warehouses.
\<close>

section \<open>Rows of other tenants\<close>

definition others_kept ::
  "('r \<Rightarrow> string) \<Rightarrow> string \<Rightarrow> (string \<Rightarrow> 'r option) \<Rightarrow> (string \<Rightarrow> 'r option) \<Rightarrow> bool" where
  "others_kept tenant t m m' \<longleftrightarrow> (\<forall>k x. m k = Some x \<and> tenant x \<noteq> t \<longrightarrow> m' k = Some x)"

lemma others_kept_refl [simp]: "others_kept tenant t m m"
  by (simp add: others_kept_def)

lemma others_kept_trans: "others_kept tenant t m m' \<Longrightarrow> others_kept tenant t m' m'' \<Longrightarrow> others_kept tenant t m m''"
  by (simp add: others_kept_def)

lemma others_kept_new: "m k = None \<Longrightarrow> others_kept tenant t m (m(k \<mapsto> x'))"
  by (auto simp: others_kept_def)

lemma others_kept_upd: "m k = Some x \<Longrightarrow> tenant x = t \<Longrightarrow> others_kept tenant t m (m(k \<mapsto> x'))"
  by (auto simp: others_kept_def)

context inventory_store
begin

lemma apply_impacts_others:
  "apply_impacts tx t c imps s = Inr s' \<Longrightarrow> others_kept bal_tenantId t (balances s) (balances s')"
proof (induction imps arbitrary: s)
  case (Cons i imps)
  obtain s1 n where u: "tx_updateBalance tx s (bi_balanceId i) t (bi_version i)
      (bi_onHandAfter i) (bi_reservedAfter i) (bi_availableAfter i) = (s1, n)" by fastforce
  then have "apply_impacts tx t c imps s1 = Inr s'" using Cons.prems by (auto split: if_splits)
  moreover have "others_kept bal_tenantId t (balances s) (balances s1)"
    using update_balance [OF u] by (auto intro: others_kept_upd split: option.splits if_splits)
  ultimately show ?case using Cons.IH others_kept_trans by blast
qed simp

lemma create_movements_balances:
  "create_movements tx gen row n facts s = Inr (s', ids) \<Longrightarrow> balances s' = balances s"
proof (induction facts arbitrary: s n ids)
  case (Cons mf facts)
  then obtain s1 ids' where c: "tx_createMovement tx s (row n mf) = Some s1"
    and tail: "create_movements tx gen row (Suc n) facts s1 = Inr (s', ids')"
    by (auto split: option.splits sum.splits)
  show ?case using Cons.IH [OF tail] create_movement [OF c] by simp
qed simp

lemma create_reversals_balances:
  "create_reversals tx gen row n facts s = Inr (s', ids) \<Longrightarrow> balances s' = balances s"
proof (induction facts arbitrary: s n ids)
  case (Cons mf facts)
  then obtain s1 s2 ids' where c: "tx_createMovement tx s (row n mf) = Some s1"
    and r: "tx_setReversedBy tx s1 (mf_originalMovementId mf) (gen n) = Some s2"
    and tail: "create_reversals tx gen row (Suc n) facts s2 = Inr (s', ids')"
    by (auto split: option.splits sum.splits)
  show ?case using Cons.IH [OF tail] create_movement [OF c] set_reversed_by [OF r] by simp
qed simp

lemma command_balances:
  assumes "run_command le tx gen actor cmd s = Inr (s', ids)"
  shows "others_kept bal_tenantId (act_tenantId actor) (balances s) (balances s')"
proof -
  note defs = enforce_Inr finish_Inr Let_def
  note upd = update_transfer update_count update_adjustment
  have post: "others_kept bal_tenantId t (balances s) (balances s2)"
    if "apply_impacts tx t c imps s = Inr s1" "create_movements tx gen row n facts s1 = Inr (s2, js)"
    for t c imps s1 s2 row n facts js
    using apply_impacts_others [OF that(1)] create_movements_balances [OF that(2)] by simp
  have rev: "others_kept bal_tenantId t (balances s) (balances s2)"
    if "apply_impacts tx t c imps s = Inr s1" "create_reversals tx gen row n facts s1 = Inr (s2, js)"
    for t c imps s1 s2 row n facts js
    using apply_impacts_others [OF that(1)] create_reversals_balances [OF that(2)] by simp
  show ?thesis
  proof (cases cmd)
    case (Post_transfer p)
    then show ?thesis using assms
      by (auto simp: postTransfer_def defs dest!: upd dest: post split: if_splits option.splits sum.splits prod.splits)
  next
    case (Reverse_transfer p)
    then show ?thesis using assms
      by (auto simp: reverseTransfer_def defs dest!: upd dest: rev split: if_splits option.splits sum.splits prod.splits)
  next
    case (Post_count p)
    then show ?thesis using assms
      by (auto simp: postCount_def defs dest!: upd dest: post split: if_splits option.splits sum.splits prod.splits)
  next
    case (Post_adjustment p)
    then show ?thesis using assms
      by (auto simp: postAdjustment_def defs dest!: upd dest: post split: if_splits option.splits sum.splits prod.splits)
  next
    case (Reverse_adjustment p)
    then show ?thesis using assms
      by (auto simp: reverseAdjustment_def defs dest!: upd dest: rev split: if_splits option.splits sum.splits prod.splits)
  qed (use assms in \<open>auto simp: cancelTransfer_def submitCount_def reviewCount_def cancelCount_def cancelAdjustment_def
      createTransfer_def reviseTransfer_def readyTransfer_def createCount_def reviseCount_def
      createAdjustment_def reviseAdjustment_def readyAdjustment_def created_Inr defs
      dest!: upd create_transfer create_count create_adjustment count_entries_effect
      split: if_splits option.splits sum.splits\<close>)
qed

lemma command_documents:
  assumes "run_command le tx gen actor cmd s = Inr (s', ids)" "clean s"
  shows "others_kept trf_tenantId (act_tenantId actor) (transfers s) (transfers s')
    \<and> others_kept cs_tenantId (act_tenantId actor) (counts s) (counts s')
    \<and> others_kept adj_tenantId (act_tenantId actor) (adjustments s) (adjustments s')"
  using assms
  by (cases cmd) (auto dest!: moves count_status_moves draft_moves simp: rest_conv
      intro: others_kept_upd others_kept_new)

end

section \<open>Warehouses\<close>

text \<open>The warehouses of the legs of input lines.\<close>

definition input_warehouses :: "transfer_line_input list option \<Rightarrow> string option list" where
  "input_warehouses input =
     (case input of None \<Rightarrow> []
      | Some lines \<Rightarrow> concat (map (\<lambda>line. [Option.bind (tli_source line) lgi_warehouseId,
                                     Option.bind (tli_destination line) lgi_warehouseId]) lines))"

text \<open>
  The warehouses for which the work function of a command asks. The lines that a revision replaces
  and the legs of a transfer that is cancelled are not among them.
\<close>

fun command_warehouses :: "'s inventory_tx \<Rightarrow> 's \<Rightarrow> string \<Rightarrow> inventory_command \<Rightarrow> string option list" where
  "command_warehouses tx s t (Create_transfer d) = input_warehouses (td_lines d)"
| "command_warehouses tx s t (Revise_transfer r) = input_warehouses (tr_lines r)"
| "command_warehouses tx s t (Ready_transfer p) =
     (case tx_findTransfer tx s t (pl_id p) of None \<Rightarrow> []
      | Some td \<Rightarrow> input_warehouses (Some (map line_as_input (trf_lines td))))"
| "command_warehouses tx s t (Post_transfer p) =
     (case tx_findTransfer tx s t (pl_id p) of None \<Rightarrow> [] | Some td \<Rightarrow> transfer_warehouses td)"
| "command_warehouses tx s t (Reverse_transfer p) =
     (case tx_findTransfer tx s t (pl_id p) of None \<Rightarrow> [] | Some td \<Rightarrow> transfer_warehouses td)"
| "command_warehouses tx s t (Cancel_transfer p) = []"
| "command_warehouses tx s t (Create_count d) = [cd_warehouseId d]"
| "command_warehouses tx s t (Revise_count r) =
     (case tx_findCount tx s t (cr_id r) of None \<Rightarrow> [] | Some cd \<Rightarrow> [Some (cs_warehouseId cd)])"
| "command_warehouses tx s t (Submit_count p) =
     (case tx_findCount tx s t (js_trim (pl_id p)) of None \<Rightarrow> [] | Some cd \<Rightarrow> [Some (cs_warehouseId cd)])"
| "command_warehouses tx s t (Review_count p) =
     (case tx_findCount tx s t (js_trim (pl_id p)) of None \<Rightarrow> [] | Some cd \<Rightarrow> [Some (cs_warehouseId cd)])"
| "command_warehouses tx s t (Post_count p) =
     (case tx_findCount tx s t (pl_id p) of None \<Rightarrow> [] | Some cd \<Rightarrow> [Some (cs_warehouseId cd)])"
| "command_warehouses tx s t (Cancel_count p) =
     (case tx_findCount tx s t (pl_id p) of None \<Rightarrow> [] | Some cd \<Rightarrow> [Some (cs_warehouseId cd)])"
| "command_warehouses tx s t (Create_adjustment n d) =
     (case ai_lines d of None \<Rightarrow> []
      | Some lines \<Rightarrow> map bal_warehouseId (tx_findBalancesById tx s t (present_ids (map ali_inventoryBalanceId lines))))"
| "command_warehouses tx s t (Revise_adjustment p d) =
     (case ai_lines d of None \<Rightarrow> []
      | Some lines \<Rightarrow> map bal_warehouseId (tx_findBalancesById tx s t (present_ids (map ali_inventoryBalanceId lines))))"
| "command_warehouses tx s t (Ready_adjustment p) =
     (case tx_findAdjustment tx s t (pl_id p) of None \<Rightarrow> []
      | Some ad \<Rightarrow> map bal_warehouseId (tx_findBalancesById tx s t
          (present_ids (map (\<lambda>l. Some (al_inventoryBalanceId l)) (adj_lines ad)))))"
| "command_warehouses tx s t (Post_adjustment p) =
     (case tx_findAdjustment tx s t (pl_id p) of None \<Rightarrow> [] | Some ad \<Rightarrow> adjustment_warehouses (adj_lines ad))"
| "command_warehouses tx s t (Reverse_adjustment p) =
     (case tx_findAdjustment tx s t (pl_id p) of None \<Rightarrow> [] | Some ad \<Rightarrow> adjustment_warehouses (adj_lines ad))"
| "command_warehouses tx s t (Cancel_adjustment p) =
     adjustment_warehouses (tx_findAdjustmentLines tx s (pl_id p))"

lemma hasWarehouseAccess_iff:
  "hasWarehouseAccess actor ws Operate \<longleftrightarrow>
     act_allWarehouses actor
     \<or> (\<forall>w\<in>set ws. js_text w = [] \<or> js_text w \<in> set (act_operateWarehouseIds actor))"
  by (auto simp: hasWarehouseAccess_def Let_def list_all_iff)

lemma assertWarehouseAccess_Inr: "assertWarehouseAccess actor ws level = Inr u \<longleftrightarrow> hasWarehouseAccess actor ws level"
  by (simp add: assertWarehouseAccess_def)

lemma present_ids_access:
  "hasWarehouseAccess actor (map Some (present_ids ws)) level = hasWarehouseAccess actor ws level"
proof -
  have "set (filter (\<lambda>s. s \<noteq> []) (map js_text (map Some (present_ids ws)))) = set (filter (\<lambda>s. s \<noteq> []) (map js_text ws))"
    by (auto simp: present_ids_def image_iff)
  then show ?thesis by (cases level) (auto simp: hasWarehouseAccess_def Let_def list_all_iff)
qed

lemma validateTransferLines_scoped:
  assumes "validateTransferLines tx s actor input b = Inr ls"
  shows "hasWarehouseAccess actor (input_warehouses input) Operate"
proof -
  from assms obtain lines where "input = Some lines"
    "hasWarehouseAccess actor (map Some (present_ids (input_warehouses (Some lines)))) Operate"
    by (auto simp: validateTransferLines_def Let_def assertWarehouseAccess_Inr input_warehouses_def simp del: map_or_fail.simps
        split: option.splits list.splits if_splits)
  then show ?thesis by (simp add: present_ids_access)
qed

lemma validateAdjustment_scoped:
  assumes "validateAdjustment tx s actor input = Inr v" "ai_lines input = Some lines"
  shows "hasWarehouseAccess actor (map bal_warehouseId
    (tx_findBalancesById tx s (act_tenantId actor) (present_ids (map ali_inventoryBalanceId lines)))) Operate"
  using assms by (auto simp: validateAdjustment_def Let_def assertWarehouseAccess_Inr simp del: map_or_fail.simps
      split: option.splits list.splits if_splits)

lemma hasWarehouseAccess_Nil [simp]: "hasWarehouseAccess actor [] level"
  by (simp add: hasWarehouseAccess_def js_unique_def)

lemma hasWarehouseAccess_text [simp]:
  "hasWarehouseAccess actor [Some (js_text w)] level = hasWarehouseAccess actor [w] level"
  by (simp add: hasWarehouseAccess_def)

lemma draft_scoped:
  assumes "run_command le tx gen actor cmd s = Inr (s', ids)" "command_target cmd = None"
  shows "hasWarehouseAccess actor (command_warehouses tx s (act_tenantId actor) cmd) Operate"
  using assms
  by (cases cmd) (auto simp: createTransfer_def reviseTransfer_def createCount_def reviseCount_def
      createAdjustment_def reviseAdjustment_def Let_def assertWarehouseAccess_Inr
      dest: validateTransferLines_scoped validateAdjustment_scoped split: if_splits option.splits)

lemma ready_scoped:
  "readyTransfer tx actor pl s = Inr (s', ids) \<Longrightarrow>
     hasWarehouseAccess actor (command_warehouses tx s (act_tenantId actor) (Ready_transfer pl)) Operate"
  "readyAdjustment tx actor pl s = Inr (s', ids) \<Longrightarrow>
     hasWarehouseAccess actor (command_warehouses tx s (act_tenantId actor) (Ready_adjustment pl)) Operate"
  by (auto simp: readyTransfer_def readyAdjustment_def adjustment_as_input_def o_def
      dest!: validateTransferLines_scoped validateAdjustment_scoped split: if_splits option.splits)

lemma command_scoped:
  assumes "run_command le tx gen actor cmd s = Inr (s', ids)"
  shows "hasWarehouseAccess actor (command_warehouses tx s (act_tenantId actor) cmd) Operate"
proof (cases "command_target cmd")
  case (Some d)
  note plans = buildCycleCountSubmissionPlan_def buildCycleCountReviewPlan_def result_def
  show ?thesis
    using assms Some
    by (cases cmd) (auto simp: postTransfer_def reverseTransfer_def submitCount_def reviewCount_def
        postCount_def cancelCount_def postAdjustment_def cancelAdjustment_def reverseAdjustment_def
        Let_def enforce_Inr plans simp del: command_warehouses.simps(3) command_warehouses.simps(15)
        dest: ready_scoped split: if_splits option.splits sum.splits)
qed (rule draft_scoped [OF assms])

end
