(* ===== verification/Inventory_Properties.thy ===== *)
theory Inventory_Properties
  imports Inventory_Reversal Inventory_Tenants
begin

text \<open>
  The properties of the inventory operations, stated of any database that satisfies the laws of
  \<open>inventory_store\<close>, or of the plans alone, with witnesses on the list database.
\<close>

section \<open>A small company\<close>

definition ex_balance :: "string \<Rightarrow> string \<Rightarrow> string \<Rightarrow> int \<Rightarrow> int \<Rightarrow> balance" where
  "ex_balance k warehouse location onHand reservedQ =
     \<lparr>bal_id = k, bal_tenantId = ''t1'', bal_itemId = Some ''item1'', bal_sku = ''SKU'',
      bal_itemName = None, bal_warehouseId = Some warehouse, bal_warehouseKey = warehouse,
      bal_location = Some location, bal_locationKey = location, bal_unit = None,
      bal_onHandQuantity = Some onHand, bal_reservedQuantity = Some reservedQ,
      bal_availableQuantity = Some (onHand - reservedQ), bal_version = 1\<rparr>"

definition ex_leg :: "string \<Rightarrow> string \<Rightarrow> string \<Rightarrow> string \<Rightarrow> transfer_leg" where
  "ex_leg k direction warehouse location =
     \<lparr>leg_id = k, leg_direction = direction, leg_warehouseId = warehouse,
      leg_location = Some location, leg_locationKey = location\<rparr>"

definition ex_transfer :: stock_transfer where
  "ex_transfer =
     \<lparr>trf_id = ''tr1'', trf_tenantId = ''t1'', trf_transferNumber = ''T-1'', trf_workflowStatus = ''ready'',
      trf_postingStatus = ''unposted'', trf_version = 2, trf_postingBatchId = None,
      trf_lines = [\<lparr>tl_id = ''l1'', tl_itemId = ''item1'', tl_sku = ''SKU'', tl_itemName = ''Item'',
        tl_quantity = 300000, tl_unit = None,
        tl_legs = [ex_leg ''g1'' ''source'' ''w1'' ''a'', ex_leg ''g2'' ''destination'' ''w2'' ''b'']\<rparr>]\<rparr>"

definition ex_count :: count_session where
  "ex_count =
     \<lparr>cs_id = ''cc1'', cs_tenantId = ''t1'', cs_countNumber = ''C-1'', cs_warehouseId = ''w1'',
      cs_workflowStatus = ''reviewed'', cs_blindCount = False,
      cs_version = 4, cs_postingBatchId = None,
      cs_lines = [\<lparr>cl_id = ''cl1'', cl_inventoryBalanceId = ''b1'', cl_itemId = Some ''item1'',
        cl_sku = ''SKU'', cl_itemName = None, cl_warehouseId = ''w1'', cl_location = None,
        cl_locationKey = ''a'', cl_unit = None, cl_recordedOnHandQuantity = 1000000,
        cl_recordedReservedQuantity = 200000, cl_recordedAvailableQuantity = 800000,
        cl_recordedBalanceVersion = 1, cl_countedQuantity = Some 950000,
        cl_varianceQuantity = Some (- 50000), cl_version = 1\<rparr>]\<rparr>"

definition ex_adjustment :: adjustment where
  "ex_adjustment =
     \<lparr>adj_id = ''ad1'', adj_tenantId = ''t1'', adj_adjustmentNumber = ''A-1'',
      adj_reasonCode = ''found_stock'', adj_notes = None, adj_workflowStatus = ''ready'',
      adj_postingStatus = ''unposted'', adj_version = 2, adj_postingBatchId = None,
      adj_lines = [\<lparr>al_id = ''al1'', al_inventoryBalanceId = ''b2'', al_itemId = Some ''item1'',
        al_sku = ''SKU'', al_itemName = None, al_warehouseId = ''w2'', al_location = None,
        al_locationKey = ''b'', al_adjustmentQuantity = 25000, al_unit = None\<rparr>]\<rparr>"

definition ex_db :: list_db where
  "ex_db = \<lparr>ld_balances = [ex_balance ''b1'' ''w1'' ''a'' 1000000 200000, ex_balance ''b2'' ''w2'' ''b'' 50000 0],
     ld_movements = [], ld_transfers = [ex_transfer], ld_counts = [ex_count],
     ld_adjustments = [ex_adjustment],
     ld_items = [(''t1'', \<lparr>item_id = ''item1'', item_sku = ''SKU'', item_name = ''Item'', item_unit = None\<rparr>)],
     ld_warehouses = [(''t1'', ''w1''), (''t1'', ''w2'')]\<rparr>"

definition ex_actor :: actor where
  "ex_actor = \<lparr>act_tenantId = ''t1'', act_userId = ''u1'', act_allWarehouses = True,
     act_readWarehouseIds = [], act_operateWarehouseIds = []\<rparr>"

definition ex_gen :: "nat \<Rightarrow> string" where
  "ex_gen n = ''id'' @ replicate n (CHR ''x'')"

definition ex_payload :: "string \<Rightarrow> int \<Rightarrow> payload" where
  "ex_payload k version = \<lparr>pl_id = k, pl_expectedVersion = Some version, pl_reason = Some ''mistake''\<rparr>"

abbreviation ex_run :: "inventory_command \<Rightarrow> list_db \<Rightarrow> list_db work_result" where
  "ex_run cmd s \<equiv> run_command (\<le>) list_tx ex_gen ex_actor cmd s"

definition ex_posted :: list_db where
  "ex_posted = (case ex_run (Post_transfer (ex_payload ''tr1'' 2)) ex_db of Inr r \<Rightarrow> fst r | Inl e \<Rightarrow> ex_db)"

lemma ex_posted_run: "ex_run (Post_transfer (ex_payload ''tr1'' 2)) ex_db = Inr (ex_posted, [''idxx'', ''idxxx''])"
  by code_simp
section \<open>Books\<close>

text \<open>C1: In every state the inventory service reaches, by any sequence of its commands from any
  users of any tenants, the on-hand quantity of each balance is what it opened with plus the sum
  of the movements recorded against it; the available quantity is on-hand less reserved, and
  on-hand never falls below what is reserved nor below zero. Holds over every database that
  satisfies the laws of the interface.\<close>

theorem books_invariant:
  assumes "inventory_store tx balances movements transfers counts adjustments"
    and "inventory_reachable le tx s0 s"
    and "books opening (balances s0) (movements s0)"
  shows "books opening (balances s) (movements s)"
  by (rule inventory_store.reachable_books [OF assms])

definition ex_opening :: "string \<Rightarrow> int" where
  "ex_opening k = (if k = ''b1'' then 1000000 else 50000)"

lemma replicate_factory:
  assumes "\<And>n. gen n = ''id'' @ replicate n (CHR ''x'')"
  shows "id_factory gen"
  unfolding id_factory_def
proof (intro conjI allI injI)
  fix m n assume "gen m = gen n"
  then show "m = n" using assms by (metis length_replicate same_append_eq)
next
  fix n
  show "gen n \<noteq> []" using assms by simp
  have "\<not> js_space (CHR ''i'')" "\<not> js_space (CHR ''d'')" "\<not> js_space (CHR ''x'')" by code_simp+
  then show "js_trim (gen n) = gen n" by (cases n) (auto simp: assms intro!: js_trim_id split: if_splits)
qed

lemma ex_factory: "id_factory ex_gen"
  by (rule replicate_factory) (simp add: ex_gen_def)

lemma ex_reachable: "inventory_reachable (\<le>) list_tx ex_db ex_posted"
  by (rule more [OF start commits [OF ex_factory ex_posted_run]])

lemma ex_books: "books ex_opening (row_by bal_id (ld_balances ex_db)) (ld_movements ex_db)"
  by (auto simp: books_def ex_db_def row_by_def ex_balance_def ex_opening_def quantity_defs column_units_def
      balance_ok_def ledger_def split: if_splits)

theorem books_invariant_witness:
  "books ex_opening (row_by bal_id (ld_balances ex_posted)) (ld_movements ex_posted)
   \<and> length (ld_movements ex_posted) = 2"
proof
  show "books ex_opening (row_by bal_id (ld_balances ex_posted)) (ld_movements ex_posted)"
    by (rule books_invariant [OF list_store.inventory_store_axioms ex_reachable ex_books])
  show "length (ld_movements ex_posted) = 2" by code_simp
qed

section \<open>Transfers conserve stock\<close>

lemma agg_total:
  "sum_list (map bi_quantity (snd (aggregateBalanceImpacts le codes es))) = sum_list (map ri_delta es)"
proof -
  have one: "sum_list (map bi_quantity (concat (map (aggregate_impact codes) as))) = sum_list (map ag_delta as)" for as
    by (induction as) (auto simp: aggregate_impact_def Let_def)
  have "sum_list (map bi_quantity (snd (aggregateBalanceImpacts le codes es)))
      = sum_list (map (\<lambda>p. ag_delta (snd p)) (group_entries es))"
    by (simp add: aggregateBalanceImpacts_def Let_def one sum_list_js_sort o_def)
  also have "\<dots> = sum_list (map (\<lambda>k. sum_list (map ri_delta (at_balance k es))) (map fst (group_entries es)))"
    unfolding map_map by (rule arg_cong [where f = sum_list]) (auto dest: group_member(1) simp: aggregates_entries_def)
  also have "\<dots> = sum_list (map ri_delta es)"
    by (rule sum_keys_eq_total [OF group_distinct]) (use group_keys in auto)
  finally show ?thesis .
qed

lemma transfer_line_balanced:
  "sum_list (map ri_delta (fst (snd (transfer_posting_line rows line)))) = 0
   \<and> sum_list (map mf_quantityIn (snd (snd (transfer_posting_line rows line))))
      = sum_list (map mf_quantityOut (snd (snd (transfer_posting_line rows line))))"
  by (auto simp: transfer_posting_line_def Let_def raw_leg_impact_def leg_fact_def split: option.splits)

text \<open>C22: Posting a stock transfer neither creates nor destroys stock: the on-hand changes its plan
  makes add up to zero, and its movements bring in as much as they take out, whatever the lines,
  legs, balances and order of the transfer.\<close>

theorem transfer_conserves_stock:
  "sum_list (map bi_quantity (ip_balanceImpacts (buildStockTransferPostingPlan le tx s t d))) = 0
   \<and> sum_list (map mf_quantityIn (ip_movementFacts (buildStockTransferPostingPlan le tx s t d)))
      = sum_list (map mf_quantityOut (ip_movementFacts (buildStockTransferPostingPlan le tx s t d)))"
proof (cases "tx_findTransfer tx s t (js_trim d)")
  case None
  then show ?thesis by (simp add: buildStockTransferPostingPlan_def result_def)
next
  case (Some td)
  have all: "sum_list (map ri_delta (concat (map (fst \<circ> snd) (map (transfer_posting_line rows) ls)))) = 0
    \<and> sum_list (map mf_quantityIn (concat (map (snd \<circ> snd) (map (transfer_posting_line rows) ls))))
      = sum_list (map mf_quantityOut (concat (map (snd \<circ> snd) (map (transfer_posting_line rows) ls))))" for rows ls
    by (induction ls) (simp_all add: transfer_line_balanced)
  show ?thesis
    unfolding buildStockTransferPostingPlan_def Some option.case Let_def
    by (simp only: split_beta inv_plan.simps agg_total all)
qed

section \<open>Allowed plans are safe\<close>

definition impact_sound :: "balance_impact \<Rightarrow> bool" where
  "impact_sound i \<longleftrightarrow>
     bi_onHandAfter i = bi_onHandBefore i + bi_quantity i \<and> bi_reservedAfter i = bi_reservedBefore i
     \<and> bi_availableAfter i = bi_onHandAfter i - bi_reservedAfter i
     \<and> 0 \<le> bi_onHandAfter i \<and> bi_reservedAfter i \<le> bi_onHandAfter i"

definition withdrawal_covered :: "balance_impact \<Rightarrow> bool" where
  "withdrawal_covered i \<longleftrightarrow>
     (case bi_totals i of None \<Rightarrow> True
      | Some (totalIn, totalOut) \<Rightarrow> 0 \<le> totalIn \<and> 0 \<le> totalOut \<and> bi_quantity i = totalIn - totalOut \<and> (totalOut = 0
          \<or> totalOut \<le> bi_onHandBefore i \<and> totalOut \<le> bi_availableBefore i))"

definition impacts_safe :: "balance_impact list \<Rightarrow> bool" where
  "impacts_safe imps \<longleftrightarrow>
     distinct (map bi_balanceId imps) \<and> list_all (\<lambda>i. impact_sound i \<and> withdrawal_covered i) imps"

lemma aggregate_totals:
  assumes "i \<in> set (snd (aggregateBalanceImpacts le codes es))"
  shows "\<exists>x y. bi_totals i = Some (x, y) \<and> 0 \<le> x \<and> 0 \<le> y \<and> bi_quantity i = x - y"
proof -
  obtain a where a: "a \<in> set (map snd (group_entries es))" "i \<in> set (aggregate_impact codes a)"
    using assms by (rule agg_impact_source)
  then obtain k where "(k, a) \<in> set (group_entries es)" by auto
  note a' = group_member(1) [OF this]
  have "0 \<le> ag_totalOut a" "0 \<le> ag_totalIn a"
    using a' unfolding aggregates_entries_def by (auto intro!: sum_list_nonneg_filter)
  then show ?thesis using a(2) aggregates_total [OF a'] by (auto simp: aggregate_impact_def Let_def split: if_splits)
qed

lemma agg_impacts_safe:
  assumes "aggregateBalanceImpacts le codes es = ([], imps)"
  shows "impacts_safe imps"
proof -
  have "impact_sound i \<and> withdrawal_covered i" if "i \<in> set imps" for i
  proof -
    have i: "i \<in> set (snd (aggregateBalanceImpacts le codes es))" using that assms by simp
    have n: "fst (aggregateBalanceImpacts le codes es) = []" using assms by simp
    obtain b where b: "impact_of es b i" using agg_impact_of [OF i] ..
    show ?thesis using b agg_safe [OF n i] aggregate_totals [OF i]
      by (auto simp: impact_sound_def withdrawal_covered_def impact_safe_def impact_of_def split: option.splits)
  qed
  moreover have "distinct (map bi_balanceId imps)"
    using agg_distinct [of le codes es] assms by simp
  ultimately show ?thesis by (simp add: impacts_safe_def list_all_iff)
qed

lemma plans_safe:
  "(allowed (buildStockTransferPostingPlan le tx s t d)
      \<longrightarrow> impacts_safe (ip_balanceImpacts (buildStockTransferPostingPlan le tx s t d)))
   \<and> (allowed (buildStockTransferReversalPlan le tx s t d)
      \<longrightarrow> impacts_safe (ip_balanceImpacts (buildStockTransferReversalPlan le tx s t d)))
   \<and> (allowed (buildInventoryAdjustmentPostingPlan le tx s t d)
      \<longrightarrow> impacts_safe (ip_balanceImpacts (buildInventoryAdjustmentPostingPlan le tx s t d)))
   \<and> (allowed (buildInventoryAdjustmentReversalPlan le tx s t d)
      \<longrightarrow> impacts_safe (ip_balanceImpacts (buildInventoryAdjustmentReversalPlan le tx s t d)))"
  (is "?A \<and> ?B \<and> ?C \<and> ?D")
proof -
  have pair: "impacts_safe (snd (aggregateBalanceImpacts le codes es))"
    if "fst (aggregateBalanceImpacts le codes es) = []" for codes es
    using agg_impacts_safe [of le codes es] that by (metis prod.collapse)
  have nil: "impacts_safe []" by (simp add: impacts_safe_def)
  have ?A ?B ?C ?D
    by (auto simp: allowed_def result_def Let_def split_beta nil inventory_plan_defs pair split: option.splits)
  then show ?thesis by blast
qed

text \<open>C21: An allowed plan to post or reverse a transfer or an adjustment is safe: it changes each
  balance once; each change states the version and the on-hand, reserved and available quantities
  that are stored for the balance, of the tenant; it is exactly the quantity it states, which is what
  it puts there less what it takes, leaves the reserved quantity alone and keeps on-hand at or above
  both zero and reserved; and what it takes from a balance in total, not netted against what it puts
  there, is covered by both on-hand and available.\<close>

theorem allowed_plans_safe:
  assumes "inventory_store tx balances movements transfers counts adjustments"
  shows "(allowed (buildStockTransferPostingPlan le tx s t d)
      \<longrightarrow> impacts_safe (ip_balanceImpacts (buildStockTransferPostingPlan le tx s t d))
        \<and> list_all (impact_current (balances s) t) (ip_balanceImpacts (buildStockTransferPostingPlan le tx s t d)))
   \<and> (allowed (buildStockTransferReversalPlan le tx s t d)
      \<longrightarrow> impacts_safe (ip_balanceImpacts (buildStockTransferReversalPlan le tx s t d))
        \<and> list_all (impact_current (balances s) t) (ip_balanceImpacts (buildStockTransferReversalPlan le tx s t d)))
   \<and> (allowed (buildInventoryAdjustmentPostingPlan le tx s t d)
      \<longrightarrow> impacts_safe (ip_balanceImpacts (buildInventoryAdjustmentPostingPlan le tx s t d))
        \<and> list_all (impact_current (balances s) t) (ip_balanceImpacts (buildInventoryAdjustmentPostingPlan le tx s t d)))
   \<and> (allowed (buildInventoryAdjustmentReversalPlan le tx s t d)
      \<longrightarrow> impacts_safe (ip_balanceImpacts (buildInventoryAdjustmentReversalPlan le tx s t d))
        \<and> list_all (impact_current (balances s) t) (ip_balanceImpacts (buildInventoryAdjustmentReversalPlan le tx s t d)))"
proof -
  note books = inventory_store.transfer_posting_books [OF assms] inventory_store.transfer_reversal_books [OF assms]
    inventory_store.adjustment_posting_books [OF assms] inventory_store.adjustment_reversal_books [OF assms]
  have "ip_blockingIssues p = [] \<Longrightarrow> plan_books (balances s) t p \<Longrightarrow> list_all (impact_current (balances s) t) (ip_balanceImpacts p)"
    for p :: "'x inv_plan"
    by (simp add: plan_books_def list_all_iff)
  note current = this [OF _ books(1)] this [OF _ books(2)] this [OF _ books(3)] this [OF _ books(4)]
  show ?thesis
    using plans_safe [of le tx s t d] current unfolding allowed_def by simp
qed

theorem allowed_plans_safe_witness:
  "list_all (impact_current (row_by bal_id (ld_balances ex_db)) ''t1'')
       (ip_balanceImpacts (buildStockTransferPostingPlan (\<le>) list_tx ex_db ''t1'' ''tr1''))
   \<and> map bi_quantity (ip_balanceImpacts (buildStockTransferPostingPlan (\<le>) list_tx ex_db ''t1'' ''tr1''))
      = [-300000, 300000]"
proof
  have "allowed (buildStockTransferPostingPlan (\<le>) list_tx ex_db ''t1'' ''tr1'')" by code_simp
  then show "list_all (impact_current (row_by bal_id (ld_balances ex_db)) ''t1'')
       (ip_balanceImpacts (buildStockTransferPostingPlan (\<le>) list_tx ex_db ''t1'' ''tr1''))"
    using allowed_plans_safe [OF list_store.inventory_store_axioms, THEN conjunct1, rule_format] by blast
  show "map bi_quantity (ip_balanceImpacts (buildStockTransferPostingPlan (\<le>) list_tx ex_db ''t1'' ''tr1''))
      = [-300000, 300000]" by code_simp
qed

section \<open>Counting\<close>

lemma count_line_impact:
  assumes "count_posting_line rows line = ([], imps, facts)"
  shows "\<exists>i\<in>set imps. bi_balanceId i = cl_inventoryBalanceId line
    \<and> cl_countedQuantity line = Some (bi_onHandAfter i)
    \<and> bi_reservedAfter i = cl_recordedReservedQuantity line
    \<and> bi_availableAfter i = bi_onHandAfter i - cl_recordedReservedQuantity line
    \<and> bi_version i = cl_recordedBalanceVersion line"
proof (cases "last_by bal_id rows (cl_inventoryBalanceId line)")
  case (Some b)
  then show ?thesis using assms last_byD(2) [OF Some]
    by (auto simp: count_posting_line_def Let_def split: option.splits if_splits)
qed (use assms in \<open>simp add: count_posting_line_def\<close>)

context inventory_store
begin

lemma postCount_exact:
  assumes "postCount tx gen actor pl s = Inr (s', ids)" "clean s" "counts s (pl_id pl) = Some cd"
    and "line \<in> set (cs_lines cd)"
  shows "\<exists>b b' q. balances s (cl_inventoryBalanceId line) = Some b
    \<and> balances s' (cl_inventoryBalanceId line) = Some b' \<and> cl_countedQuantity line = Some q
    \<and> bal_version b = cl_recordedBalanceVersion line \<and> bal_version b' = bal_version b + 1
    \<and> on_hand b' = q \<and> reserved b' = cl_recordedReservedQuantity line
    \<and> available b' = q - cl_recordedReservedQuantity line"
proof -
  let ?plan = "\<lambda>cd. buildCycleCountPostingPlan tx s (act_tenantId actor) (cs_id cd)"
  from assms(1) obtain cd' :: count_session and s1 s2 row where
    doc: "tx_findCount tx s (act_tenantId actor) (pl_id pl) = Some cd'"
    and plan: "ip_blockingIssues (?plan cd') = []"
    and ap: "apply_impacts tx (act_tenantId actor) (Issue COUNT_BALANCE_CHANGED 409)
      (ip_balanceImpacts (?plan cd')) s = Inr s1"
    and cm: "create_movements tx gen row 2 (ip_movementFacts (?plan cd')) s1 = Inr (s2, ids)"
    and row: "row = (\<lambda>n mf. movement_row (gen n) (act_tenantId actor) ''CycleCountSession'' (cs_id cd')
        (Some (mf_lineId mf)) (gen 1) None mf)"
    and up: "tx_updateCount tx s2 (cs_id cd')
      (\<lambda>c. c\<lparr>cs_workflowStatus := ''posted'', cs_version := cs_version c + 1, cs_postingBatchId := Some (gen 1)\<rparr>) = Some s'"
    by (clarsimp simp: postCount_def enforce_Inr finish_Inr Let_def simp del: One_nat_def
        split: if_splits option.splits sum.splits prod.splits)
  have cd': "cd' = cd" and i: "cs_id cd = pl_id pl" "js_trim (pl_id pl) = pl_id pl"
    using doc assms(2,3) by (auto simp: find_count of_tenant_Some dest: count_key clean_ids_D)
  define rows where "rows = tx_findBalancesById tx s (act_tenantId actor) (map cl_inventoryBalanceId (cs_lines cd))"
  have bodies: "\<forall>l\<in>set (cs_lines cd). fst (count_posting_line rows l) = []"
    "ip_balanceImpacts (?plan cd) = concat (map (fst \<circ> snd) (map (count_posting_line rows) (cs_lines cd)))"
    using plan doc i unfolding buildCycleCountPostingPlan_def cd' by (simp_all add: Let_def rows_def)
  obtain imps facts where body: "count_posting_line rows line = ([], imps, facts)"
    using bodies(1) assms(4) by (cases "count_posting_line rows line") auto
  have sub: "set imps \<subseteq> set (ip_balanceImpacts (?plan cd))"
  proof
    fix i assume "i \<in> set imps"
    then have "i \<in> set (fst (snd (count_posting_line rows line)))" using body by simp
    then show "i \<in> set (ip_balanceImpacts (?plan cd))" unfolding bodies(2) using assms(4) by auto
  qed
  have "plan_books (balances s) (act_tenantId actor) (?plan cd')"
    using plan by (rule count_posting_books)
  then have exact: "\<forall>i\<in>set (ip_balanceImpacts (?plan cd')).
      \<exists>b. balances s (bi_balanceId i) = Some b \<and> bal_version b = bi_version i \<and> bal_tenantId b = act_tenantId actor
        \<and> balances s1 (bi_balanceId i) = Some (set_quantities (bi_onHandAfter i) (bi_reservedAfter i) (bi_availableAfter i) b)"
    using apply_impacts_exact [OF ap] by (auto simp: plan_books_def)
  have same: "balances s' = balances s1"
    using update_count [OF up] create_movements_books [OF cm] by (auto simp: row movement_row_sel)
  from count_line_impact [OF body] sub cd' obtain j where j: "j \<in> set (ip_balanceImpacts (?plan cd'))"
    "bi_balanceId j = cl_inventoryBalanceId line" "cl_countedQuantity line = Some (bi_onHandAfter j)"
    "bi_reservedAfter j = cl_recordedReservedQuantity line"
    "bi_availableAfter j = bi_onHandAfter j - cl_recordedReservedQuantity line"
    "bi_version j = cl_recordedBalanceVersion line" by auto
  from bspec [OF exact j(1)] j same show ?thesis by auto
qed

end

text \<open>C20: When a cycle count is posted, every counted balance holds exactly what was counted: its
  on-hand quantity is the counted quantity of its line, its reserved quantity the recorded one and
  its available quantity the difference, and its version is one more than the recorded version, so
  nothing has changed the balance since it was recorded.\<close>

theorem count_posting_sets_counted:
  assumes "inventory_store tx balances movements transfers counts adjustments"
    and "clean_ids (transfers s)" "clean_ids (counts s)" "clean_ids (adjustments s)"
    and "run_command le tx gen actor (Post_count pl) s = Inr (s', ids)"
    and "counts s (pl_id pl) = Some session" "line \<in> set (cs_lines session)"
  shows "\<exists>b b' q. balances s (cl_inventoryBalanceId line) = Some b
    \<and> balances s' (cl_inventoryBalanceId line) = Some b' \<and> cl_countedQuantity line = Some q
    \<and> bal_version b = cl_recordedBalanceVersion line \<and> bal_version b' = bal_version b + 1
    \<and> on_hand b' = q \<and> reserved b' = cl_recordedReservedQuantity line
    \<and> available b' = q - cl_recordedReservedQuantity line"
  by (rule inventory_store.postCount_exact [OF assms(1)]) (use assms in auto)

definition ex_counted :: list_db where
  "ex_counted = (case ex_run (Post_count (ex_payload ''cc1'' 4)) ex_db of Inr r \<Rightarrow> fst r | Inl e \<Rightarrow> ex_db)"

lemma ex_counted_run: "ex_run (Post_count (ex_payload ''cc1'' 4)) ex_db = Inr (ex_counted, [''idxx''])"
  by code_simp

lemma ex_clean:
  "clean_ids (row_by trf_id (ld_transfers ex_db))" "clean_ids (row_by cs_id (ld_counts ex_db))"
  "clean_ids (row_by adj_id (ld_adjustments ex_db))"
proof -
  have trim: "js_trim ''tr1'' = ''tr1''" "js_trim ''cc1'' = ''cc1''" "js_trim ''ad1'' = ''ad1''" by code_simp+
  show "clean_ids (row_by trf_id (ld_transfers ex_db))" "clean_ids (row_by cs_id (ld_counts ex_db))"
    "clean_ids (row_by adj_id (ld_adjustments ex_db))"
    by (simp_all add: clean_ids_def row_by_def ex_db_def ex_transfer_def ex_count_def ex_adjustment_def trim
        split: if_splits)
qed

theorem count_posting_sets_counted_witness:
  "\<exists>b. row_by bal_id (ld_balances ex_counted) ''b1'' = Some b \<and> on_hand b = 950000 \<and> reserved b = 200000"
proof -
  have line: "hd (cs_lines ex_count) \<in> set (cs_lines ex_count)" by (simp add: ex_count_def)
  have session: "row_by cs_id (ld_counts ex_db) (pl_id (ex_payload ''cc1'' 4)) = Some ex_count" by code_simp
  show ?thesis
    using count_posting_sets_counted [OF list_store.inventory_store_axioms ex_clean ex_counted_run session line]
    by (auto simp: ex_count_def)
qed

section \<open>The life of a document\<close>

text \<open>C2: Along every sequence of commands a document only follows its state machine: a draft
  transfer or adjustment is revised or made ready, a ready and unposted one is posted, a posted one
  is reversed, a draft or ready one is cancelled; a count is edited, submitted, reviewed and posted
  in that order, or cancelled before. Each move raises the version by one and keeps identity, tenant
  and number; the lines only change while the document is a draft or a count in progress; and no
  document is lost.\<close>

theorem documents_follow_their_machine:
  assumes "inventory_store tx balances movements transfers counts adjustments"
    and "inventory_reachable le tx s0 s"
    and "clean_ids (transfers s0)" "clean_ids (counts s0)" "clean_ids (adjustments s0)"
  shows "(\<forall>d x. transfers s0 d = Some x \<longrightarrow> (\<exists>y. transfers s d = Some y \<and> transfer_move\<^sup>*\<^sup>* x y))
    \<and> (\<forall>d x. counts s0 d = Some x \<longrightarrow> (\<exists>y. counts s d = Some y \<and> count_move\<^sup>*\<^sup>* x y))
    \<and> (\<forall>d x. adjustments s0 d = Some x \<longrightarrow> (\<exists>y. adjustments s d = Some y \<and> adjustment_move\<^sup>*\<^sup>* x y))"
  using inventory_store.reachable_paths [OF assms(1,2)] assms(3-5) unfolding paths_def by blast

theorem documents_follow_their_machine_witness:
  "\<exists>y. row_by trf_id (ld_transfers ex_posted) ''tr1'' = Some y \<and> transfer_move\<^sup>*\<^sup>* ex_transfer y"
proof -
  have "row_by trf_id (ld_transfers ex_db) ''tr1'' = Some ex_transfer" by code_simp
  then show ?thesis
    using documents_follow_their_machine [OF list_store.inventory_store_axioms ex_reachable ex_clean] by blast
qed

text \<open>C17: A command that succeeded on a document never succeeds on it again (creating documents and
  revising drafts apart): whatever commands run
  in between, whoever repeats it and whatever version it expects, the second attempt fails. So no
  transfer, count or adjustment is posted, reversed or cancelled twice.\<close>

theorem no_command_succeeds_twice:
  assumes "inventory_store tx balances movements transfers counts adjustments"
    and "clean_ids (transfers s)" "clean_ids (counts s)" "clean_ids (adjustments s)"
    and "id_factory gen" "run_command le tx gen actor cmd s = Inr (s1, ids)"
    and "inventory_reachable le tx s1 s2" "same_target cmd cmd'"
  shows "\<exists>e. run_command le tx gen' actor' cmd' s2 = Inl e"
proof (cases "run_command le tx gen' actor' cmd' s2")
  case (Inr r)
  then have False
    using inventory_store.not_twice [OF assms(1) _ assms(5,6,7,8), of gen' actor' "fst r" "snd r"] assms(2-4) by simp
  then show ?thesis ..
qed simp

theorem no_command_succeeds_twice_witness:
  "\<exists>e. ex_run (Post_transfer (ex_payload ''tr1'' 3)) ex_posted = Inl e"
  by (rule no_command_succeeds_twice [OF list_store.inventory_store_axioms ex_clean ex_factory ex_posted_run start])
    (simp add: same_target_def ex_payload_def)

section \<open>What is stored is well-formed\<close>

text \<open>C23: In every reachable state the stored lines are well-formed if they were at the start: each line
  of each transfer has a positive quantity and exactly a source and a destination leg with different
  warehouse and location; each adjustment line changes its balance; and the lines of a count have
  different ids, and each either has no counted quantity and no variance, or a counted quantity that
  is not negative with its difference from the recorded on-hand quantity as variance.\<close>

theorem stored_lines_well_formed:
  assumes "inventory_store tx balances movements transfers counts adjustments"
    and "inventory_reachable le tx s0 s"
    and "clean_ids (transfers s0)" "clean_ids (counts s0)" "clean_ids (adjustments s0)"
    and "all_rows (\<lambda>t. list_all line_wf (trf_lines t)) (transfers s0)"
    and "all_rows (\<lambda>c. count_lines_wf (cs_lines c)) (counts s0)"
    and "all_rows (\<lambda>a. list_all adjustment_line_wf (adj_lines a)) (adjustments s0)"
  shows "all_rows (\<lambda>t. list_all line_wf (trf_lines t)) (transfers s)
    \<and> all_rows (\<lambda>c. count_lines_wf (cs_lines c)) (counts s)
    \<and> all_rows (\<lambda>a. list_all adjustment_line_wf (adj_lines a)) (adjustments s)"
  by (rule inventory_store.reachable_wf [OF assms(1,2)]) (use assms in auto)

theorem stored_lines_well_formed_witness:
  "all_rows (\<lambda>t. list_all line_wf (trf_lines t)) (row_by trf_id (ld_transfers ex_posted))"
proof -
  have "line_wf l" if "l \<in> set (trf_lines ex_transfer)" for l
    using that by (auto simp: ex_transfer_def line_wf_def ex_leg_def)
  then have t: "all_rows (\<lambda>t. list_all line_wf (trf_lines t)) (row_by trf_id (ld_transfers ex_db))"
    by (auto simp: all_rows_def ex_db_def row_by_def list_all_iff split: if_splits)
  have c: "all_rows (\<lambda>c. count_lines_wf (cs_lines c)) (row_by cs_id (ld_counts ex_db))"
    by (auto simp: all_rows_def ex_db_def row_by_def ex_count_def count_lines_wf_def count_line_wf_def split: if_splits)
  have a: "all_rows (\<lambda>a. list_all adjustment_line_wf (adj_lines a)) (row_by adj_id (ld_adjustments ex_db))"
    by (auto simp: all_rows_def ex_db_def row_by_def ex_adjustment_def adjustment_line_wf_def split: if_splits)
  show ?thesis
    using stored_lines_well_formed [OF list_store.inventory_store_axioms ex_reachable ex_clean t c a] by blast
qed

section \<open>Reversals\<close>

text \<open>C3: Reversing a stock transfer undoes its posting exactly: whatever commands any users run in
  between, the reversal changes the on-hand quantity of every balance by the opposite of what the
  posting changed it by. The transfer has two legs a line, a source and a destination, and no id
  has blanks at its ends.\<close>

theorem reversal_undoes_posting:
  assumes "inventory_store tx balances movements transfers counts adjustments"
    and "clean_ids (transfers s)" "clean_ids (counts s)" "clean_ids (adjustments s)" "clean_ids (balances s)"
    and "transfers s (pl_id pl) = Some transfer" "\<forall>line\<in>set (trf_lines transfer). legs_ok line"
    and "id_factory gen" "run_command le tx gen actor (Post_transfer pl) s = Inr (s1, ids)"
    and "inventory_reachable le tx s1 s2"
    and "run_command le tx gen' actor' (Reverse_transfer pl') s2 = Inr (s3, ids')" "pl_id pl' = pl_id pl"
    and "balances s k \<noteq> None"
  shows "stock (balances s3) k - stock (balances s2) k = stock (balances s) k - stock (balances s1) k"
  using inventory_store.reversal_undoes [OF assms(1), of gen le actor pl s s1 ids transfer s2 gen' actor' pl' s3 ids' k]
    assms by simp

definition ex_gen' :: "nat \<Rightarrow> string" where
  "ex_gen' n = ''rev'' @ replicate n (CHR ''x'')"

definition ex_reversed :: list_db where
  "ex_reversed = (case run_command (\<le>) list_tx ex_gen' ex_actor (Reverse_transfer (ex_payload ''tr1'' 3)) ex_posted of
     Inr r \<Rightarrow> fst r | Inl e \<Rightarrow> ex_db)"

lemma ex_reversed_run:
  "run_command (\<le>) list_tx ex_gen' ex_actor (Reverse_transfer (ex_payload ''tr1'' 3)) ex_posted
     = Inr (ex_reversed, [''revxx'', ''revxxx''])"
  by code_simp

theorem reversal_undoes_posting_witness:
  "stock (row_by bal_id (ld_balances ex_reversed)) ''b1'' - stock (row_by bal_id (ld_balances ex_posted)) ''b1'' = 300000"
proof -
  have clean: "clean_ids (row_by bal_id (ld_balances ex_db))"
  proof -
    have "js_trim ''b1'' = ''b1''" "js_trim ''b2'' = ''b2''" by code_simp+
    then show ?thesis by (auto simp: clean_ids_def row_by_def ex_db_def ex_balance_def split: if_splits)
  qed
  have doc: "row_by trf_id (ld_transfers ex_db) (pl_id (ex_payload ''tr1'' 2)) = Some ex_transfer" by code_simp
  have legs: "\<forall>line\<in>set (trf_lines ex_transfer). legs_ok line"
    by (simp add: ex_transfer_def legs_ok_def ex_leg_def)
  have there: "row_by bal_id (ld_balances ex_db) ''b1'' \<noteq> None" by (simp add: ex_db_def row_by_def ex_balance_def)
  have same: "pl_id (ex_payload ''tr1'' 3) = pl_id (ex_payload ''tr1'' 2)" by (simp add: ex_payload_def)
  have "stock (row_by bal_id (ld_balances ex_db)) ''b1'' - stock (row_by bal_id (ld_balances ex_posted)) ''b1'' = 300000"
    by code_simp
  with reversal_undoes_posting [OF list_store.inventory_store_axioms ex_clean clean doc legs ex_factory ex_posted_run
      start ex_reversed_run same there] show ?thesis by simp
qed

section \<open>Tenants and warehouses\<close>

text \<open>C18: A command never touches what belongs to another tenant: every balance, transfer, count and
  adjustment of a tenant other than the actor's is the same row after the command as before it.\<close>

theorem tenants_are_isolated:
  assumes "inventory_store tx balances movements transfers counts adjustments"
    and "clean_ids (transfers s)" "clean_ids (counts s)" "clean_ids (adjustments s)"
    and "run_command le tx gen actor cmd s = Inr (s', ids)"
  shows "(\<forall>k b. balances s k = Some b \<and> bal_tenantId b \<noteq> act_tenantId actor \<longrightarrow> balances s' k = Some b)
    \<and> (\<forall>k x. transfers s k = Some x \<and> trf_tenantId x \<noteq> act_tenantId actor \<longrightarrow> transfers s' k = Some x)
    \<and> (\<forall>k x. counts s k = Some x \<and> cs_tenantId x \<noteq> act_tenantId actor \<longrightarrow> counts s' k = Some x)
    \<and> (\<forall>k x. adjustments s k = Some x \<and> adj_tenantId x \<noteq> act_tenantId actor \<longrightarrow> adjustments s' k = Some x)"
  using inventory_store.command_balances [OF assms(1,5)] inventory_store.command_documents [OF assms(1,5)] assms(2-4)
  unfolding others_kept_def by blast

definition ex_two_tenants :: list_db where
  "ex_two_tenants = ex_db\<lparr>ld_balances := (ex_balance ''b9'' ''w1'' ''a'' 70000 0)\<lparr>bal_tenantId := ''t2''\<rparr> # ld_balances ex_db\<rparr>"

definition ex_two_posted :: list_db where
  "ex_two_posted = (case ex_run (Post_transfer (ex_payload ''tr1'' 2)) ex_two_tenants of Inr r \<Rightarrow> fst r | Inl e \<Rightarrow> ex_db)"

theorem tenants_are_isolated_witness:
  "row_by bal_id (ld_balances ex_two_posted) ''b9'' = Some ((ex_balance ''b9'' ''w1'' ''a'' 70000 0)\<lparr>bal_tenantId := ''t2''\<rparr>)
   \<and> ex_two_posted \<noteq> ex_two_tenants"
proof
  have r: "ex_run (Post_transfer (ex_payload ''tr1'' 2)) ex_two_tenants = Inr (ex_two_posted, [''idxx'', ''idxxx''])"
    by code_simp
  have "ld_transfers ex_two_tenants = ld_transfers ex_db" "ld_counts ex_two_tenants = ld_counts ex_db"
    "ld_adjustments ex_two_tenants = ld_adjustments ex_db" by (simp_all add: ex_two_tenants_def)
  note clean = ex_clean [folded this]
  have "row_by bal_id (ld_balances ex_two_tenants) ''b9'' = Some ((ex_balance ''b9'' ''w1'' ''a'' 70000 0)\<lparr>bal_tenantId := ''t2''\<rparr>)"
    by code_simp
  with tenants_are_isolated [OF list_store.inventory_store_axioms clean r]
  show "row_by bal_id (ld_balances ex_two_posted) ''b9'' = Some ((ex_balance ''b9'' ''w1'' ''a'' 70000 0)\<lparr>bal_tenantId := ''t2''\<rparr>)"
    by (simp add: ex_actor_def ex_balance_def)
  show "ex_two_posted \<noteq> ex_two_tenants" by code_simp
qed

definition may_operate :: "actor \<Rightarrow> string option \<Rightarrow> bool" where
  "may_operate actor w \<longleftrightarrow>
     act_allWarehouses actor \<or> js_text w = [] \<or> js_text w \<in> set (act_operateWarehouseIds actor)"

text \<open>
  The commands on a stored transfer, count or adjustment, with the document they name, and the
  requests that bring lines of their own.
\<close>

definition moves_transfer :: "inventory_command \<Rightarrow> string \<Rightarrow> bool" where
  "moves_transfer cmd d \<longleftrightarrow> (case cmd of Post_transfer p \<Rightarrow> pl_id p = d | Reverse_transfer p \<Rightarrow> pl_id p = d | _ \<Rightarrow> False)"

definition works_count :: "inventory_command \<Rightarrow> string \<Rightarrow> bool" where
  "works_count cmd d \<longleftrightarrow> (case cmd of
     Revise_count r \<Rightarrow> cr_id r = d | Submit_count p \<Rightarrow> js_trim (pl_id p) = d | Review_count p \<Rightarrow> js_trim (pl_id p) = d
   | Post_count p \<Rightarrow> pl_id p = d | Cancel_count p \<Rightarrow> pl_id p = d | _ \<Rightarrow> False)"

definition moves_adjustment :: "inventory_command \<Rightarrow> string \<Rightarrow> bool" where
  "moves_adjustment cmd d \<longleftrightarrow>
     (case cmd of Post_adjustment p \<Rightarrow> pl_id p = d | Reverse_adjustment p \<Rightarrow> pl_id p = d | _ \<Rightarrow> False)"

definition requested_lines :: "inventory_command \<Rightarrow> transfer_line_input list" where
  "requested_lines cmd = (case cmd of
     Create_transfer d \<Rightarrow> (case td_lines d of None \<Rightarrow> [] | Some ls \<Rightarrow> ls)
   | Revise_transfer r \<Rightarrow> (case tr_lines r of None \<Rightarrow> [] | Some ls \<Rightarrow> ls)
   | _ \<Rightarrow> [])"

definition requested_balances :: "inventory_command \<Rightarrow> string list option" where
  "requested_balances cmd = map_option (\<lambda>ls. present_ids (map ali_inventoryBalanceId ls))
     (case cmd of Create_adjustment n a \<Rightarrow> ai_lines a | Revise_adjustment p a \<Rightarrow> ai_lines a | _ \<Rightarrow> None)"

text \<open>C24: A command succeeds only for an actor who may operate the warehouses it works in: to post or
  reverse a transfer those of all its legs; to revise, submit, review, post or cancel a count its
  warehouse; to post or reverse an adjustment that of each line, and to cancel one that of each stored
  line; to create or revise a transfer those of both ends of every requested line, to ready one those
  of the source and the destination leg of every line; to create a count the requested one; to create
  or revise an adjustment those of the requested balances, and to ready one those of the balances of
  its lines. Not asked for are the warehouses of a transfer that is cancelled and those of the lines
  that a revision replaces.\<close>

theorem commands_need_the_warehouses:
  assumes "run_command le tx gen actor cmd s = Inr (s', moved)" "act_tenantId actor = t"
  shows "(moves_transfer cmd d \<and> tx_findTransfer tx s t d = Some transfer
        \<and> line \<in> set (trf_lines transfer) \<and> leg \<in> set (tl_legs line) \<longrightarrow> may_operate actor (Some (leg_warehouseId leg)))
   \<and> (works_count cmd d \<and> tx_findCount tx s t d = Some session \<longrightarrow> may_operate actor (Some (cs_warehouseId session)))
   \<and> (moves_adjustment cmd d \<and> tx_findAdjustment tx s t d = Some adjustment \<and> al \<in> set (adj_lines adjustment)
        \<longrightarrow> may_operate actor (Some (al_warehouseId al)))
   \<and> (cmd = Cancel_adjustment p \<and> al \<in> set (tx_findAdjustmentLines tx s (pl_id p))
        \<longrightarrow> may_operate actor (Some (al_warehouseId al)))
   \<and> (input \<in> set (requested_lines cmd) \<longrightarrow> may_operate actor (Option.bind (tli_source input) lgi_warehouseId)
        \<and> may_operate actor (Option.bind (tli_destination input) lgi_warehouseId))
   \<and> (cmd = Ready_transfer p \<and> tx_findTransfer tx s t (pl_id p) = Some transfer \<and> line \<in> set (trf_lines transfer)
        \<and> direction \<in> {''source'', ''destination''}
        \<and> List.find (\<lambda>l. leg_direction l = direction) (tl_legs line) = Some leg
        \<longrightarrow> may_operate actor (Some (leg_warehouseId leg)))
   \<and> (cmd = Create_count draft \<longrightarrow> may_operate actor (cd_warehouseId draft))
   \<and> (requested_balances cmd = Some ids \<and> b \<in> set (tx_findBalancesById tx s t ids)
        \<longrightarrow> may_operate actor (bal_warehouseId b))
   \<and> (cmd = Ready_adjustment p \<and> tx_findAdjustment tx s t (pl_id p) = Some adjustment
        \<and> b \<in> set (tx_findBalancesById tx s t (present_ids (map (\<lambda>l. Some (al_inventoryBalanceId l)) (adj_lines adjustment))))
        \<longrightarrow> may_operate actor (bal_warehouseId b))"
  (is "?A1 \<and> ?A2 \<and> ?A3 \<and> ?A4 \<and> ?A5 \<and> ?A6 \<and> ?A7 \<and> ?A8 \<and> ?A9")
proof -
  have may: "may_operate actor w" if "w \<in> set (command_warehouses tx s t cmd)" for w
    using command_scoped [OF assms(1)] that assms(2) by (auto simp: hasWarehouseAccess_iff may_operate_def)
  have in_legs: "Some (leg_warehouseId leg) \<in> set (transfer_warehouses td)"
    if "line \<in> set (trf_lines td)" "leg \<in> set (tl_legs line)" for td line leg
    using that by (auto simp: transfer_warehouses_def)
  have in_input: "Option.bind (tli_source i) lgi_warehouseId \<in> set (input_warehouses req)"
    "Option.bind (tli_destination i) lgi_warehouseId \<in> set (input_warehouses req)"
    if "Some ls = req" "i \<in> set ls" for i ls req
    using that by (auto simp: input_warehouses_def)
  have ?A1 by (cases cmd) (auto simp: moves_transfer_def intro!: may in_legs)
  moreover have ?A2 by (cases cmd) (auto simp: works_count_def intro!: may)
  moreover have ?A3 by (cases cmd) (auto simp: moves_adjustment_def adjustment_warehouses_def intro!: may)
  moreover have ?A4 by (auto simp: adjustment_warehouses_def intro!: may)
  moreover have ?A5 by (cases cmd) (auto simp: requested_lines_def intro!: may in_input split: option.splits)
  moreover have ?A6
  proof (intro impI, elim conjE)
    assume r: "cmd = Ready_transfer p" "tx_findTransfer tx s t (pl_id p) = Some transfer"
      "line \<in> set (trf_lines transfer)" "direction \<in> {''source'', ''destination''}"
      "List.find (\<lambda>l. leg_direction l = direction) (tl_legs line) = Some leg"
    have "line_as_input line \<in> set (map line_as_input (trf_lines transfer))" using r(3) by simp
    from in_input [OF refl this] r(4,5) show "may_operate actor (Some (leg_warehouseId leg))"
      by (intro may) (auto simp: r(1,2) line_as_input_def leg_as_input_def)
  qed
  moreover have ?A7 by (auto intro!: may)
  moreover have ?A8 by (cases cmd) (auto simp: requested_balances_def intro!: may split: option.splits)
  moreover have ?A9 by (auto intro!: may)
  ultimately show ?thesis by blast
qed

definition ex_keeper :: actor where
  "ex_keeper = ex_actor\<lparr>act_allWarehouses := False, act_operateWarehouseIds := [''w1'', ''w2'']\<rparr>"

theorem commands_need_the_warehouses_witness:
  "''w2'' \<in> set (act_operateWarehouseIds ex_keeper)"
proof -
  have r: "run_command (\<le>) list_tx ex_gen ex_keeper (Post_transfer (ex_payload ''tr1'' 2)) ex_db
      = Inr (ex_posted, [''idxx'', ''idxxx''])" by code_simp
  have "tx_findTransfer list_tx ex_db ''t1'' ''tr1'' = Some ex_transfer" by code_simp
  moreover have "moves_transfer (Post_transfer (ex_payload ''tr1'' 2)) ''tr1''"
    by (simp add: moves_transfer_def ex_payload_def)
  moreover have "hd (trf_lines ex_transfer) \<in> set (trf_lines ex_transfer)"
    "ex_leg ''g2'' ''destination'' ''w2'' ''b'' \<in> set (tl_legs (hd (trf_lines ex_transfer)))"
    "act_tenantId ex_keeper = ''t1''"
    by (simp_all add: ex_transfer_def ex_keeper_def ex_actor_def)
  ultimately have "may_operate ex_keeper (Some (leg_warehouseId (ex_leg ''g2'' ''destination'' ''w2'' ''b'')))"
    using commands_need_the_warehouses [OF r, THEN conjunct1] by blast
  moreover have "js_text (Some ''w2'') = ''w2''" by code_simp
  ultimately show ?thesis by (simp add: may_operate_def ex_keeper_def ex_leg_def)
qed

text \<open>Whether a transfer can be cancelled does not depend on the warehouses of the actor: with the
  same tenant, an actor without any warehouse gets the same result as one with all of them. Every
  other command of the service does depend on them.\<close>

theorem cancelling_ignores_warehouses:
  "cancelTransfer tx (actor\<lparr>act_allWarehouses := a, act_readWarehouseIds := r, act_operateWarehouseIds := w\<rparr>) pl s
     = cancelTransfer tx actor pl s"
  by (simp add: cancelTransfer_def)


end
