(* ===== verification/Execution_Properties.thy ===== *)
theory Execution_Properties
  imports Command_Execution Inventory_Properties
begin

text \<open>
  The properties of authorization, of the request hash and of the execution of commands.
\<close>

section \<open>Authorization\<close>

lemma keys_add_grant: "fst ` set (add_grant r code m) = fst ` set m \<union> (if knownPermission code then {code} else {})"
  by (auto simp: add_grant_def dom_update)

lemma keys_add_grants:
  "fst ` set (fold (add_grant r) codes m) = fst ` set m \<union> {c \<in> set codes. knownPermission c}"
  by (induction codes arbitrary: m) (auto simp: keys_add_grant)

lemma keys_permission_sources:
  "fst ` set (permission_sources as) = {c. knownPermission c \<and> (\<exists>a\<in>set as. c \<in> set (ro_permissions (ra_role a)))}"
proof -
  have "fst ` set (fold (\<lambda>a m. fold (add_grant (ro_id (ra_role a))) (ro_permissions (ra_role a)) m) as m)
      = fst ` set m \<union> {c. knownPermission c \<and> (\<exists>a\<in>set as. c \<in> set (ro_permissions (ra_role a)))}" for m
    by (induction as arbitrary: m) (auto simp: keys_add_grants)
  then show ?thesis by (simp add: permission_sources_def)
qed

lemma context_codes:
  "set (ac_permissionCodes (context_of_user u)) = {c. c \<in> set permissionCodes
     \<and> (\<exists>a\<in>set (us_roleAssignments u). ra_status a = ''active'' \<and> ro_status (ra_role a) = ''active''
         \<and> c \<in> set (ro_permissions (ra_role a)))}"
  using keys_permission_sources [of "filter active_assignment (us_roleAssignments u)"]
  by (auto simp: ac_permissionCodes_def context_of_user_def Let_def knownPermission_def active_assignment_def)

text \<open>
  What the legacy backfill grants: the template of the legacy role, and what a role of the tenant with
  that key already granted, unless that role was deactivated.
\<close>

lemma backfilled_codes:
  "set (ac_permissionCodes (context_of_user (backfilled_user newId roleOf warehouses u))) =
     {c. c \<in> set permissionCodes
       \<and> (case roleOf (legacy_role_key u) of
            None \<Rightarrow> c \<in> set (template_permissions (legacy_role_key u))
          | Some r \<Rightarrow> ro_status r = ''active''
              \<and> (c \<in> set (ro_permissions r) \<or> c \<in> set (template_permissions (legacy_role_key u))))}"
  by (auto simp: context_codes backfilled_user_def backfilled_role_def Let_def split: option.splits)

lemma resolved_actor:
  assumes "resolveProvisionedActor canTransact findUser reload (Some i) = Inr ctx"
  obtains u where "findUser (js_text (id_tenantId i)) (js_text (id_userId i)) = Some u" "us_status u = ''active''"
    "ctx = resolveAuthorizationContext (Some i) True canTransact (Some u)
       (reload (js_text (id_tenantId i)) (js_text (id_userId i)))"
  using assms by (auto simp: resolveProvisionedActor_def Let_def split: if_splits option.splits)

text \<open>C26: The permissions of a resolved identity are exactly the catalogued codes granted by a role that
  is active and whose assignment is active, of the row that is resolved: the row found or, where the
  legacy backfill runs, the row read after it; a row that is not active, and an identity without
  tenant or user, has none. Whoever may operate a warehouse may read it. The provisioned actor of a
  request, inside a transaction or not, is such a context with the backfill asked for.\<close>

theorem permissions_come_from_active_roles:
  "set (ac_permissionCodes (resolveAuthorizationContext (Some i) performLegacyBackfill canTransact load reload))
      = (case user_to_resolve performLegacyBackfill canTransact load reload of
           None \<Rightarrow> {}
         | Some u \<Rightarrow>
             if id_authenticated i \<and> js_text (id_tenantId i) \<noteq> [] \<and> js_text (identity_user i) \<noteq> []
               \<and> us_status u = ''active''
             then {c. c \<in> set permissionCodes \<and> (\<exists>a\<in>set (us_roleAssignments u).
                    ra_status a = ''active'' \<and> ro_status (ra_role a) = ''active'' \<and> c \<in> set (ro_permissions (ra_role a)))}
             else {})
   \<and> set (ac_operateWarehouseIds (resolveAuthorizationContext (Some i) performLegacyBackfill canTransact load reload))
      \<subseteq> set (ac_readWarehouseIds (resolveAuthorizationContext (Some i) performLegacyBackfill canTransact load reload))
   \<and> (resolveProvisionedActor canTransact findUser reloadUser (Some i) = Inr ctx \<longrightarrow>
      (\<exists>u. findUser (js_text (id_tenantId i)) (js_text (id_userId i)) = Some u \<and> us_status u = ''active''
        \<and> ctx = resolveAuthorizationContext (Some i) True canTransact (Some u)
            (reloadUser (js_text (id_tenantId i)) (js_text (id_userId i)))))"
  (is "?A \<and> ?B \<and> ?C")
proof (intro conjI)
  show ?A
    by (auto simp: resolveAuthorizationContext_def Let_def incomplete_context_def context_codes split: option.splits)
      (simp_all add: ac_permissionCodes_def)
  show ?B
    by (auto simp: resolveAuthorizationContext_def Let_def incomplete_context_def context_of_user_def split: option.splits)
  show ?C by (auto elim: resolved_actor)
qed

definition ex_user :: user_row where
  "ex_user =
     \<lparr>us_id = ''u1'', us_tenantId = ''t1'', us_role = Some ''manager'', us_status = ''active'',
      us_warehouseScopes = [(''w1'', ''operate''), (''w2'', ''operate''), (''w3'', ''read'')],
      us_roleAssignments =
        [\<lparr>ra_status = ''active'', ra_role = \<lparr>ro_id = ''r1'', ro_status = ''active'',
            ro_permissions = [''inventory.transfer.post'', ''no.such.code'']\<rparr>\<rparr>,
         \<lparr>ra_status = ''inactive'', ra_role = \<lparr>ro_id = ''r2'', ro_status = ''active'',
            ro_permissions = [''finance.settlement.post'']\<rparr>\<rparr>]\<rparr>"

definition ex_identity :: identity where
  "ex_identity = \<lparr>id_authenticated = True, id_tenantId = Some ''t1'', id_userId = Some ''u1'', id_id = None,
    id_role = Some ''Manager''\<rparr>"

lemma known_codes: "knownPermission ''inventory.transfer.post''" "\<not> knownPermission ''no.such.code''"
  by (simp_all add: knownPermission_def permissionCodes_def permissionCatalog_def definitions_operations_def
      definitions_finance_def permission_row_def)

lemma plain_texts: "js_text (Some ''t1'') = ''t1''" "js_text (Some ''u1'') = ''u1''" "js_text (Some ''w2'') = ''w2''"
  by code_simp+

lemma ex_context_codes:
  "ac_permissionCodes (context_of_user ex_user) = [''inventory.transfer.post'']"
  by (simp add: ac_permissionCodes_def context_of_user_def ex_user_def active_assignment_def permission_sources_def
      add_grant_def known_codes)

text \<open>The lookup of a tenant with that one user.\<close>

definition ex_find :: "user_row \<Rightarrow> 'w \<Rightarrow> string \<Rightarrow> string \<Rightarrow> user_row option" where
  "ex_find row w t u = (if us_tenantId row = t \<and> us_id row = u then Some row else None)"

lemma ex_find_users [simp]: "finds_users (ex_find row)"
  by (simp add: finds_users_def ex_find_def)

lemma ex_roles: "js_lower (js_text (Some ''Manager'')) = ''manager''" "js_lower (js_text (Some ''manager'')) = ''manager''"
  by code_simp+

lemma ex_provisioned:
  "provisioned (ex_find row) (ex_find row) b ex_identity w = Inr (context_of_user row)"
  if "us_tenantId row = ''t1''" "us_id row = ''u1''" "us_role row = Some ''manager''" "us_status row = ''active''"
  using that
  by (auto simp: provisioned_def resolveProvisionedActor_def ex_identity_def plain_texts ex_find_def
      resolveAuthorizationContext_def user_to_resolve_def identity_user_def ex_roles)

theorem permissions_come_from_active_roles_witness:
  "\<exists>ctx. provisioned (ex_find ex_user) (ex_find ex_user) True ex_identity () = Inr ctx
     \<and> set (ac_permissionCodes ctx) = {''inventory.transfer.post''}"
proof -
  have run: "resolveProvisionedActor True (ex_find ex_user ()) (ex_find ex_user ()) (Some ex_identity)
      = Inr (context_of_user ex_user)"
    using ex_provisioned [of ex_user True "()"] by (simp add: provisioned_def ex_user_def)
  obtain u where u: "ex_find ex_user () ''t1'' ''u1'' = Some u" "us_status u = ''active''"
    "context_of_user ex_user = resolveAuthorizationContext (Some ex_identity) True True (Some u) (ex_find ex_user () ''t1'' ''u1'')"
    using permissions_come_from_active_roles [THEN conjunct2, THEN conjunct2, rule_format, OF run]
    by (auto simp: ex_identity_def plain_texts)
  then have "u = ex_user" by (simp add: ex_find_def split: if_splits)
  then have "set (ac_permissionCodes (context_of_user ex_user)) = {''inventory.transfer.post''}"
    using permissions_come_from_active_roles [THEN conjunct1, of ex_identity True True "Some u" "ex_find ex_user () ''t1'' ''u1''"] u
      known_codes
    by (auto simp: user_to_resolve_def ex_user_def ex_identity_def plain_texts identity_user_def knownPermission_def)
  with run show ?thesis by (simp add: provisioned_def)
qed

text \<open>C19: \<open>authorize\<close> allows exactly when the permission is in the catalog and among the actor's, the
  context is complete and authenticated, the tenant is the actor's, the capability is enabled and
  ready, and every warehouse asked for is in the scope of the level; a refusal always has a reason.\<close>

theorem authorize_allows_exactly:
  assumes "authorize (Some actor) permission tenantId warehouseIds resource fieldGroups = Inr d"
  shows "(de_allowed d \<longleftrightarrow>
      permission \<in> set permissionCodes \<and> ac_complete actor \<and> ac_authenticated actor
      \<and> tenantId \<noteq> [] \<and> ac_tenantId actor = tenantId
      \<and> (\<forall>r. resource = Some r \<longrightarrow> \<not> capability_blocks r)
      \<and> permission \<in> set (ac_permissionCodes actor)
      \<and> (\<forall>w\<in>set warehouseIds. js_text w = []
          \<or> js_text w \<in> set (if Option.bind resource rs_scopeLevel = Some ''read''
               then ac_readWarehouseIds actor else ac_operateWarehouseIds actor)))
    \<and> (de_allowed d \<longleftrightarrow> de_reasonCode d = None)"
proof -
  have req: "set (unique_texts warehouseIds) = js_text ` set warehouseIds - {[]}"
    by (auto simp: unique_texts_def)
  have none: "unique_texts warehouseIds = [] \<longleftrightarrow> (\<forall>w\<in>set warehouseIds. js_text w = [])"
    using req by (metis DiffD1 DiffD2 DiffI image_eqI image_iff insertI1 list.set(1) set_empty singletonD ex_in_conv)
  show ?thesis
    using assms
    by (auto simp: authorize_def Let_def knownPermission_def list_all_iff req none
        split: if_splits option.splits)
qed

definition ex_context :: auth_context where
  "ex_context = context_of_user ex_user"

theorem authorize_allows_exactly_witness:
  "\<exists>d. authorize (Some ex_context) ''inventory.transfer.post'' ''t1'' [Some ''w2''] None [] = Inr d \<and> de_allowed d"
proof -
  let ?r = "authorize (Some ex_context) ''inventory.transfer.post'' ''t1'' [Some ''w2''] None []"
  have "\<not> isl ?r" by (simp add: authorize_def Let_def known_codes)
  then obtain d where d: "?r = Inr d" by (cases ?r) auto
  have "ac_complete ex_context" "ac_authenticated ex_context" "ac_tenantId ex_context = ''t1''"
    "js_text (Some ''w2'') \<in> set (ac_operateWarehouseIds ex_context)"
    by (simp_all add: ex_context_def context_of_user_def ex_user_def plain_texts)
  moreover have "''inventory.transfer.post'' \<in> set permissionCodes" using known_codes by (simp add: knownPermission_def)
  moreover have "''inventory.transfer.post'' \<in> set (ac_permissionCodes ex_context)"
    by (simp add: ex_context_def ex_context_codes)
  ultimately have "de_allowed d" using authorize_allows_exactly [OF d] by simp
  with d show ?thesis by blast
qed

definition catalog_risk :: "string \<Rightarrow> string \<Rightarrow> bool" where
  "catalog_risk code risk \<longleftrightarrow> (\<exists>p\<in>set permissionCatalog. pm_code p = code \<and> pm_riskLevel p = risk)"

lemma catalog_riskI:
  "permission_row code module resource action risk fs \<in> set definitions_operations \<Longrightarrow> catalog_risk code risk"
  by (auto simp: catalog_risk_def permissionCatalog_def permission_row_def
      intro!: bexI [of _ "permission_row code module resource action risk fs"])

lemma inventory_risks:
  "catalog_risk ''inventory.transfer.create'' ''medium''"
  "catalog_risk ''inventory.transfer.post'' ''critical''"
  "catalog_risk ''inventory.transfer.reverse'' ''critical''"
  "catalog_risk ''inventory.count.create'' ''medium''"
  "catalog_risk ''inventory.count.submit'' ''high''"
  "catalog_risk ''inventory.count.review'' ''high''"
  "catalog_risk ''inventory.count.post'' ''critical''"
  "catalog_risk ''inventory.adjustment.create'' ''medium''"
  "catalog_risk ''inventory.adjustment.approve'' ''critical''"
  "catalog_risk ''inventory.adjustment.post'' ''critical''"
  "catalog_risk ''inventory.adjustment.reverse'' ''critical''"
  subgoal by (rule catalog_riskI [of _ "''inventory''" "''transfer''" "''create''" _ "[]"]) (simp add: definitions_operations_def)
  subgoal by (rule catalog_riskI [of _ "''inventory''" "''transfer''" "''post''" _ "[]"]) (simp add: definitions_operations_def)
  subgoal by (rule catalog_riskI [of _ "''inventory''" "''transfer''" "''reverse''" _ "[]"]) (simp add: definitions_operations_def)
  subgoal by (rule catalog_riskI [of _ "''inventory''" "''count''" "''create''" _ "[]"]) (simp add: definitions_operations_def)
  subgoal by (rule catalog_riskI [of _ "''inventory''" "''count''" "''submit''" _ "[]"]) (simp add: definitions_operations_def)
  subgoal by (rule catalog_riskI [of _ "''inventory''" "''count''" "''review''" _ "[]"]) (simp add: definitions_operations_def)
  subgoal by (rule catalog_riskI [of _ "''inventory''" "''count''" "''post''" _ "[]"]) (simp add: definitions_operations_def)
  subgoal by (rule catalog_riskI [of _ "''inventory''" "''adjustment''" "''create''" _ "[]"]) (simp add: definitions_operations_def)
  subgoal by (rule catalog_riskI [of _ "''inventory''" "''adjustment''" "''approve''" _ "[]"]) (simp add: definitions_operations_def)
  subgoal by (rule catalog_riskI [of _ "''inventory''" "''adjustment''" "''post''" _ "[]"]) (simp add: definitions_operations_def)
  subgoal by (rule catalog_riskI [of _ "''inventory''" "''adjustment''" "''reverse''" _ "[]"]) (simp add: definitions_operations_def)
  done

definition moves_stock :: "inventory_command \<Rightarrow> bool" where
  "moves_stock cmd \<longleftrightarrow> (case cmd of Post_transfer _ \<Rightarrow> True | Reverse_transfer _ \<Rightarrow> True | Post_count _ \<Rightarrow> True
     | Post_adjustment _ \<Rightarrow> True | Reverse_adjustment _ \<Rightarrow> True | _ \<Rightarrow> False)"

text \<open>Every inventory command asks for a permission of the catalog, and every command that moves
  stock for one of critical risk.\<close>

theorem stock_commands_need_critical_permissions:
  "\<exists>p risk. commandPermissions (command_type cmd) = Some p \<and> catalog_risk p risk
     \<and> (if moves_stock cmd then risk = ''critical'' else True)"
proof -
  have "\<exists>p risk. commandPermissions ct = Some p \<and> catalog_risk p risk \<and> (if stock then risk = ''critical'' else True)"
    if "commandPermissions ct = Some p" "catalog_risk p risk" "stock \<longrightarrow> risk = ''critical''" for ct p risk stock
    using that by auto
  note intro = this
  show ?thesis
    by (cases cmd; rule intro, simp add: commandPermissions_def, rule inventory_risks, simp add: moves_stock_def)
qed

section \<open>Requests and executions\<close>

text \<open>C27: The request hash does not depend on the order of object fields at any depth, nor on the order
  of the elements of \<open>lines\<close>, \<open>counts\<close>, \<open>balanceIds\<close> and \<open>expectedLineIds\<close>, for any hash function and
  any total and transitive comparison of strings, where elements of such an array that compare equal
  have the same canonical text.\<close>

theorem request_hash_ignores_order:
  assumes "total_order_le le" "same_request le [] v w"
  shows "inventoryOperationsRequestHash le sha v = inventoryOperationsRequestHash le sha w"
  using same_request_canonical [OF assms] by (simp add: inventoryOperationsRequestHash_def)

text \<open>A comparison that does not tell upper from lower case.\<close>

definition ex_le :: "string \<Rightarrow> string \<Rightarrow> bool" where
  "ex_le a b \<longleftrightarrow> js_lower a \<le> js_lower b"

definition ex_request :: json where
  "ex_request = JObj [(''b'', JNum ''1''), (''lines'', JArr [JStr ''y'', JStr ''x''])]"

definition ex_request' :: json where
  "ex_request' = JObj [(''lines'', JArr [JStr ''x'', JStr ''y'']), (''b'', JNum ''1'')]"

theorem request_hash_ignores_order_witness:
  "inventoryOperationsRequestHash ex_le id ex_request = inventoryOperationsRequestHash ex_le id ex_request'
   \<and> ex_request \<noteq> ex_request' \<and> ex_le ''a'' ''A'' \<and> ex_le ''A'' ''a''"
proof (intro conjI)
  let ?mid = "JObj [(''lines'', JArr [JStr ''y'', JStr ''x'']), (''b'', JNum ''1'')]"
  have apart: "tells_apart ex_le (map (canonical ex_le ''lines'') [JStr ''y'', JStr ''x''])" by code_simp
  have "same_request ex_le [] ex_request ?mid" unfolding ex_request_def by (rule fields) (simp_all add: add_mset_commute)
  moreover have "same_request ex_le [] ?mid ex_request'" unfolding ex_request'_def
    using apart by (intro inside) (auto intro!: same reordered simp: unordered_keys_def add_mset_commute)
  ultimately have "same_request ex_le [] ex_request ex_request'" by (rule then_same)
  moreover have "total_order_le ex_le" by (auto simp: total_order_le_def ex_le_def)
  ultimately show "inventoryOperationsRequestHash ex_le id ex_request = inventoryOperationsRequestHash ex_le id ex_request'"
    by (rule request_hash_ignores_order [rotated])
  show "ex_request \<noteq> ex_request'" by (simp add: ex_request_def ex_request'_def)
  show "ex_le ''a'' ''A''" "ex_le ''A'' ''a''" by code_simp+
qed

text \<open>A posting that was carried out, asked for by a user who may operate both warehouses.\<close>

definition ex_env :: env where
  "ex_env = \<lparr>env_persistenceMode = Some ''database'', env_enableInventoryOperations = Some ''True ''\<rparr>"

definition ex_service :: "(list_db, string list) service_state" where
  "ex_service = \<lparr>sv_executions = (\<lambda>_. None), sv_world = ex_db\<rparr>"

definition ex_served :: "(list_db, string list) service_state" where
  "ex_served = \<lparr>sv_executions = (\<lambda>_. None)((''t1'', ''post_stock_transfer'', ''k1'') \<mapsto>
       \<lparr>exe_requestHash = ''h'', exe_status = ''completed'', exe_resultPayload = Some [''idxx'', ''idxxx'']\<rparr>),
     sv_world = ex_posted\<rparr>"

abbreviation ex_work :: "auth_context \<Rightarrow> list_db \<Rightarrow> list_db work_result" where
  "ex_work \<equiv> \<lambda>ctx. run_command (\<le>) list_tx ex_gen (actor_of ctx) (Post_transfer (ex_payload ''tr1'' 2))"

lemma ex_enabled: "assertEnabled ex_env = Inr ()"
  by (simp add: assertEnabled_def ex_env_def fail_if_def) code_simp

lemma ex_key: "js_text (Some ''k1 '') = ''k1''" "js_text (Some ''k1'') = ''k1''"
  by code_simp+

lemma ex_unique: "js_unique ([] :: string list) = []" "js_unique [''w1'', ''w2''] = [''w1'', ''w2'']"
  "js_unique [''w1'', ''w2'', ''w3''] = [''w1'', ''w2'', ''w3'']"
  by code_simp+

lemma ex_context_simps:
  "ac_complete ex_context" "ac_authenticated ex_context" "ac_tenantId ex_context = ''t1''"
  "set (ac_operateWarehouseIds ex_context) = {''w1'', ''w2''}"
  "actor_of ex_context = \<lparr>act_tenantId = ''t1'', act_userId = ''u1'', act_allWarehouses = False,
     act_readWarehouseIds = [''w1'', ''w2'', ''w3''], act_operateWarehouseIds = [''w1'', ''w2'']\<rparr>"
  by (simp_all add: ex_context_def context_of_user_def ex_user_def actor_of_def ex_unique)

lemma ex_work_run: "ex_work ex_context ex_db = Inr (ex_posted, [''idxx'', ''idxxx''])"
  unfolding ex_context_simps by code_simp

lemma ex_authorized: "\<exists>d. assertAuthorized (Some ex_context) ''inventory.transfer.post'' ''t1'' [] None [] = Inr d"
  by (simp add: assertAuthorized_def authorize_def Let_def known_codes ex_context_simps unique_texts_def ex_unique
      ex_context_codes [folded ex_context_def])

abbreviation ex_resolved :: "bool \<Rightarrow> identity \<Rightarrow> list_db \<Rightarrow> identity_error issue + auth_context" where
  "ex_resolved \<equiv> provisioned (ex_find ex_user) (ex_find ex_user)"

lemma ex_actor_context: "ex_resolved b ex_identity w = Inr ex_context"
  unfolding ex_context_def by (rule ex_provisioned) (simp_all add: ex_user_def)

lemma ex_identity_simps:
  "id_authenticated ex_identity" "id_tenantId ex_identity = Some ''t1''" "js_text (Some ''t1'') = ''t1''"
  by (simp_all add: ex_identity_def plain_texts)

lemma ex_execution:
  "execute ex_env ex_resolved (Some ex_identity) ''post_stock_transfer'' (Some ''k1'') (\<lambda>_. ''h'') ex_work None
     ex_service ex_service = Inr (ex_served, [''idxx'', ''idxxx''], False)"
proof -
  obtain d where "assertAuthorized (Some ex_context) ''inventory.transfer.post'' ''t1'' [] None [] = Inr d"
    using ex_authorized by blast
  moreover have "commandPermissions ''post_stock_transfer'' = Some ''inventory.transfer.post''"
    by (simp add: commandPermissions_def)
  ultimately show ?thesis
    by (simp add: execute_def ex_enabled ex_identity_simps ex_key ex_actor_context ex_service_def
        ex_served_def replay_def transact_def ex_context_simps(3)
        ex_work_run [simplified])
qed

text \<open>C4: A command that was carried out is never carried out again under its tenant, command type and
  idempotency key: whoever repeats it (any identity whose tenant is the same up to white space), with
  whatever work function, whatever the transactions in between and however old the state it read
  first, a repeated call that succeeds changes nothing and returns the recorded result marked as a
  replay, and its request hash is the recorded one. Actors are resolved from user rows; executions
  are kept once recorded, under tenants without white space around them, as \<open>execute\<close> does.\<close>

theorem command_is_carried_out_once:
  assumes "finds_users findUser" "finds_users reload"
    and "js_text (id_tenantId i') = js_text (id_tenantId i)" "js_text key' = js_text key"
    and "execute env (provisioned findUser reload) (Some i) ct key hashWith work abort s0 s = Inr (s1, r, False)"
    and "executions_kept s1 s2" "executions_kept s0' s2" "trimmed_tenants s2"
    and "execute env' (provisioned findUser reload) (Some i') ct key' hashWith' work' abort' s0' s2
          = Inr (s3, r', replayed)"
  shows "s3 = s2 \<and> r' = r \<and> replayed \<and> hashWith' (js_text key) = hashWith (js_text key)"
proof -
  note keeps = provisioned_keeps_tenant [OF assms(1,2)]
  let ?k = "(js_text (id_tenantId i), ct, js_text key)" and ?k' = "(sent_tenant i', ct, js_text key)"
  from execute_cases [OF assms(5) keeps] have "recorded_as s1 ?k (hashWith (js_text key)) r" by simp
  then have rec: "recorded_as s2 ?k (hashWith (js_text key)) r"
    using assms(6) by (simp add: recorded_as_def executions_kept_def)
  note second = execute_cases [OF assms(9) keeps, unfolded assms(3,4)]
  have replayed using second rec by (auto simp: recorded_as_def split: if_splits)
  then obtain u where s3: "s3 = s2" and u: "u \<in> {s0', s2}"
    and rep: "replay (sv_executions u ?k') (hashWith' (js_text key)) = Inr (Some r')"
    using second by auto
  then obtain e where e: "sv_executions u ?k' = Some e" "exe_requestHash e = hashWith' (js_text key)"
    "exe_resultPayload e = Some r'"
    by (auto simp: replay_def split: option.splits if_splits)
  then have e2: "sv_executions s2 ?k' = Some e" using u assms(7) by (auto simp: executions_kept_def)
  then have "js_trim (sent_tenant i') = sent_tenant i'" using assms(8) by (auto simp: trimmed_tenants_def)
  then have "?k' = ?k" unfolding assms(3) [symmetric] by (cases "id_tenantId i'") (simp_all add: js_text_def)
  with rec e e2 s3 \<open>replayed\<close> show ?thesis by (auto simp: recorded_as_def)
qed

lemma ex_trimmed: "trimmed_tenants ex_served"
proof -
  have "js_trim ''t1'' = ''t1''" by code_simp
  then show ?thesis by (simp add: trimmed_tenants_def ex_served_def)
qed

theorem command_is_carried_out_once_witness:
  "execute ex_env ex_resolved (Some ex_identity) ''post_stock_transfer'' (Some ''k1 '') (\<lambda>_. ''h'')
     (\<lambda>ctx w. Inl (Issue TRANSFER_NOT_FOUND 404)) (Some Unique_violation) ex_service ex_served
   = Inr (ex_served, [''idxx'', ''idxxx''], True)"
proof -
  let ?e = "execute ex_env ex_resolved (Some ex_identity) ''post_stock_transfer'' (Some ''k1 '') (\<lambda>_. ''h'')
     (\<lambda>ctx w. Inl (Issue TRANSFER_NOT_FOUND 404)) (Some Unique_violation) ex_service ex_served"
  have "\<not> isl ?e"
    by (simp add: execute_def ex_enabled ex_identity_simps ex_key ex_actor_context ex_service_def
        ex_served_def replay_def)
  then obtain s r b where e: "?e = Inr (s, r, b)" by (cases ?e) auto
  have "js_text (Some ''k1 '') = js_text (Some ''k1'')" by (simp add: ex_key)
  from command_is_carried_out_once [OF _ _ refl this ex_execution executions_kept_refl _ ex_trimmed e] e
  show ?thesis by (simp add: executions_kept_def ex_service_def)
qed

text \<open>C25: A retry is answered: once a command was carried out, the same request (the same key up to white
  space and the same request hash) by any identity of the tenant that resolves, at any later time,
  returns the recorded result without touching the state, even when the permission was withdrawn or
  the work would now fail. The identity has to name the tenant without white space around it.\<close>

theorem retry_returns_the_result:
  assumes "finds_users findUser" "finds_users reload"
    and "execute env (provisioned findUser reload) (Some i) ct key hashWith work abort s0 s = Inr (s1, r, False)"
    and "executions_kept s1 s2"
    and "env_persistenceMode env' = Some ''database''"
      "js_lower (js_text (env_enableInventoryOperations env')) = ''true''"
    and "id_tenantId i' = Some (js_text (id_tenantId i))" "js_text key' = js_text key"
      "hashWith' (js_text key) = hashWith (js_text key)"
    and "provisioned findUser' reload' True i' (sv_world s2) = Inr ctx"
  shows "execute env' (provisioned findUser' reload') (Some i') ct key' hashWith' work' abort' s2 s3 = Inr (s3, r, True)"
proof -
  let ?k = "(js_text (id_tenantId i), ct, js_text key)"
  from execute_cases [OF assms(3) provisioned_keeps_tenant [OF assms(1,2)]]
  have "recorded_as s1 ?k (hashWith (js_text key)) r" by simp
  then have "recorded_as s2 ?k (hashWith (js_text key)) r"
    using assms(4) by (simp add: recorded_as_def executions_kept_def)
  note rep = recorded_replay [OF this]
  have "js_text key \<noteq> []" using assms(3) by (auto simp: execute_def Let_def split: if_splits sum.splits)
  moreover have "id_authenticated i'" "js_text (id_tenantId i') \<noteq> []" using assms(10)
    by (auto simp: provisioned_def resolveProvisionedActor_def Let_def split: if_splits)
  ultimately show ?thesis using assms(5-10) rep
    by (simp add: execute_def Let_def assertEnabled_def fail_if_def)
qed

text \<open>The same user after its only active assignment was withdrawn.\<close>

definition ex_user' :: user_row where
  "ex_user' = ex_user\<lparr>us_roleAssignments := tl (us_roleAssignments ex_user), us_warehouseScopes := []\<rparr>"

theorem retry_returns_the_result_witness:
  "execute ex_env (provisioned (ex_find ex_user') (ex_find ex_user')) (Some ex_identity) ''post_stock_transfer''
     (Some ''k1 '') (\<lambda>_. ''h'') (\<lambda>ctx w. Inl (Issue TRANSFER_NOT_FOUND 404)) None ex_served ex_served
   = Inr (ex_served, [''idxx'', ''idxxx''], True)"
proof (rule retry_returns_the_result [OF ex_find_users ex_find_users ex_execution executions_kept_refl])
  show "env_persistenceMode ex_env = Some ''database''" by (simp add: ex_env_def)
  show "js_lower (js_text (env_enableInventoryOperations ex_env)) = ''true''" unfolding ex_env_def by code_simp
  show "js_text (Some ''k1 '') = js_text (Some ''k1'')" by (simp add: ex_key)
  show "id_tenantId ex_identity = Some (js_text (id_tenantId ex_identity))" by (simp add: ex_identity_simps)
  show "provisioned (ex_find ex_user') (ex_find ex_user') True ex_identity (sv_world ex_served)
      = Inr (context_of_user ex_user')"
    by (rule ex_provisioned) (simp_all add: ex_user'_def ex_user_def)
qed simp

end
