(* ===== verification/Decimal_Properties.thy ===== *)
theory Decimal_Properties
  imports Decimal
begin

text \<open>
  The properties of the fixed-point numbers in which every quantity and amount of the program is
  kept: reading and writing them, and the rounding of their product.
\<close>

text \<open>C33: Writing a number and reading it back gives the number, so different numbers have different
  texts.\<close>

theorem decimal_text_round_trip:
  "outboundDecimalUnits (Some (outboundDecimalString u)) = Inr u
   \<and> (outboundDecimalString u = outboundDecimalString v \<longleftrightarrow> u = v)"
  by simp

text \<open>
  \<open>decimal_text raw sg w f\<close>: \<open>raw\<close> is the sign \<open>sg\<close>, the digits \<open>w\<close> and, unless \<open>f\<close> is empty, a
  point and the digits \<open>f\<close>. \<open>decimal_raw\<close> is the text that is read: trimmed, and ''0'' when missing.
\<close>

definition decimal_text :: "string \<Rightarrow> string \<Rightarrow> string \<Rightarrow> string \<Rightarrow> bool" where
  "decimal_text raw sg w f \<longleftrightarrow> (sg = [] \<or> sg = ''-'') \<and> all_digits w
     \<and> (f = [] \<and> raw = sg @ w \<or> all_digits f \<and> raw = sg @ w @ ''.'' @ f)"

definition decimal_raw :: "string option \<Rightarrow> string" where
  "decimal_raw v = (case v of None \<Rightarrow> ''0'' | Some s \<Rightarrow> if js_trim s = [] then ''0'' else js_trim s)"

lemma decimal_split_parts:
  assumes "decimal_split s = (w, frac)"
  shows "s = w @ (case frac of None \<Rightarrow> [] | Some f \<Rightarrow> ''.'' @ f)"
proof -
  let ?d = "dropWhile (\<lambda>c. c \<noteq> CHR ''.'') s"
  have w: "w = takeWhile (\<lambda>c. c \<noteq> CHR ''.'') s" and frac: "frac = (case ?d of [] \<Rightarrow> None | _ # f \<Rightarrow> Some f)"
    using assms by (auto simp: decimal_split_def Let_def)
  have "d = (case (case d of [] \<Rightarrow> None | _ # f \<Rightarrow> Some f) of None \<Rightarrow> [] | Some f \<Rightarrow> ''.'' @ f)"
    if "d \<noteq> [] \<Longrightarrow> hd d = CHR ''.''" for d
    using that by (cases d) auto
  from this [of ?d] have "?d = (case frac of None \<Rightarrow> [] | Some f \<Rightarrow> ''.'' @ f)"
    using hd_dropWhile [of "\<lambda>c. c \<noteq> CHR ''.''" s] unfolding frac by blast
  then show ?thesis using takeWhile_dropWhile_id [of "\<lambda>c. c \<noteq> CHR ''.''" s] w by simp
qed

lemma decimal_syntax_text:
  assumes "decimal_syntax raw"
  shows "\<exists>sg w f. decimal_text raw sg w f"
proof -
  define sg where "sg = (if is_negative raw then ''-'' else [])"
  have raw: "raw = sg @ unsigned_part raw"
    by (auto simp: sg_def is_negative_def unsigned_part_def split: list.splits)
  obtain w frac where sp: "decimal_split (unsigned_part raw) = (w, frac)" by fastforce
  note parts = decimal_split_parts [OF sp]
  have sg': "sg = [] \<or> sg = ''-''" by (simp add: sg_def)
  show ?thesis
  proof (cases frac)
    case None
    then have "decimal_text raw sg w []" using assms raw parts sp sg' by (simp add: decimal_text_def decimal_syntax_def)
    then show ?thesis by blast
  next
    case (Some f)
    then have "decimal_text raw sg w f" using assms raw parts sp sg' by (simp add: decimal_text_def decimal_syntax_def)
    then show ?thesis by blast
  qed
qed

lemma whole_units:
  assumes w: "all_digits w" and sg: "sg = [] \<or> sg = ''-''"
  shows "outboundDecimalUnits (Some (sg @ w)) = Inr ((if sg = [] then 1 else - 1) * int (digits_value w) * SCALE)"
proof -
  from w obtain c cs where wc: "w = c # cs" "is_digit c" by (cases w) (auto simp: all_digits_def)
  have "is_digit (last w)" using w wc by (auto simp: all_digits_def list_all_iff)
  then have t: "js_trim (sg @ w) = sg @ w"
    by (intro js_trim_id) (use sg wc digit_not_special(3) in \<open>auto simp: js_space_def\<close>)
  have u: "unsigned_part (sg @ w) = w" "is_negative (sg @ w) \<longleftrightarrow> sg \<noteq> []"
    using sg wc digit_not_special(2) by (auto simp: unsigned_part_def is_negative_def)
  have sp: "decimal_split w = (w, None)" using w split_no_dot by (auto simp: all_digits_def)
  have z: "digits_value (take 4 (take 4 [] @ ''0000'')) = 0" by (simp add: digits_value_def digit_value_def)
  have "decimal_syntax (sg @ w)" "sg @ w \<noteq> []" unfolding decimal_syntax_def u sp prod.case using w wc by simp_all
  then show ?thesis
    unfolding outboundDecimalUnits_def option.case Let_def t u sp
    by (simp only: if_not_P if_False not_not simp_thms u sp prod.case option.case z) simp
qed

lemma decimal_text_units:
  assumes "decimal_text raw sg w f"
  shows "outboundDecimalUnits (Some raw) = Inr u \<longleftrightarrow>
    (if sg = [] then 1 else - 1) * int (digits_value (w @ f)) * SCALE = u * 10 ^ length f"
  using assms decimal_units_exact [of w f sg u] whole_units [of w sg] by (auto simp: decimal_text_def)

lemma trim_zero: "js_trim ''0'' = ''0''"
  by code_simp

lemma decimal_units_raw: "outboundDecimalUnits v = outboundDecimalUnits (Some (decimal_raw v))"
proof -
  show ?thesis using trim_zero by (auto simp: outboundDecimalUnits_def decimal_raw_def split: option.splits)
qed

text \<open>C32: A value is read exactly or not at all: the text, trimmed, and 0 when it is empty or missing, is
  accepted if and only if it is an optional minus sign, digits and optionally a point with more
  digits, and the number it denotes is a whole number of ten-thousandths; then that number is
  returned. No text is ever rounded.\<close>

theorem decimal_text_read_exactly:
  "outboundDecimalUnits v = Inr u \<longleftrightarrow>
     (\<exists>sg w f. decimal_text (decimal_raw v) sg w f
        \<and> (if sg = [] then 1 else - 1) * int (digits_value (w @ f)) * SCALE = u * 10 ^ length f)"
proof
  assume r: "outboundDecimalUnits v = Inr u"
  then have "decimal_syntax (decimal_raw v)"
    by (cases v) (auto simp: outboundDecimalUnits_def decimal_raw_def Let_def trim_zero split: if_splits)
  then obtain sg w f where t: "decimal_text (decimal_raw v) sg w f" using decimal_syntax_text by blast
  with r show "\<exists>sg w f. decimal_text (decimal_raw v) sg w f
      \<and> (if sg = [] then 1 else - 1) * int (digits_value (w @ f)) * SCALE = u * 10 ^ length f"
    using decimal_text_units [OF t] decimal_units_raw [of v] by metis
next
  assume "\<exists>sg w f. decimal_text (decimal_raw v) sg w f
      \<and> (if sg = [] then 1 else - 1) * int (digits_value (w @ f)) * SCALE = u * 10 ^ length f"
  then show "outboundDecimalUnits v = Inr u"
    using decimal_text_units decimal_units_raw [of v] by metis
qed

text \<open>The product of two fixed-point numbers is the exact product rounded to the nearest
  ten-thousandth: it is off by at most half of one, is symmetric and odd, and one is its unit.\<close>

theorem multiply_rounds_to_nearest:
  "2 * \<bar>multiply a b * SCALE - a * b\<bar> \<le> SCALE \<and> multiply a b = multiply b a
   \<and> multiply (- a) b = - multiply a b \<and> multiply a SCALE = a"
  using multiply_error multiply_commute multiply_minus by simp

end
