(* ===== verification/Receiving_Policy.thy ===== *)
theory Receiving_Policy
  imports Inventory_Rows
begin

text \<open>
  \<open>receiving-transaction-policy.mjs\<close>: the plans that post a receiving document against its purchase
  order and that reverse it, with the rows they read.

  A movement of this module also carries the receiving document it belongs to (\<open>relatedGrnId\<close>). What
  the code asks of the database is the record \<open>receiving_tx\<close>; its behaviour is stated in
  \<open>Receiving_Store\<close>. Quantity columns are \<open>Decimal(18, 4)\<close>, so \<open>receivingDecimalUnits\<close>
  (line for line \<open>outboundDecimalUnits\<close>) always reads them and \<open>safeUnits\<close> never reports an issue;
  a null column is zero.
\<close>

section \<open>Rows\<close>

record receiving_line =
  rl_id :: string
  rl_purchaseOrderLineId :: "string option"
  rl_itemId :: "string option"
  rl_sku :: "string option"
  rl_itemName :: "string option"
  rl_acceptedQty :: "int option"
  rl_rejectedQty :: "int option"
  rl_unit :: "string option"
  rl_warehouseId :: "string option"
  rl_location :: "string option"

record receiving_document =
  rd_id :: string
  rd_tenantId :: string
  rd_poId :: "string option"
  rd_warehouseId :: "string option"
  rd_workflowStatus :: string
  rd_postingStatus :: string
  rd_version :: int
  rd_lines :: "receiving_line list"

record po_line =
  pol_id :: string
  pol_itemId :: "string option"
  pol_sku :: "string option"
  pol_itemName :: "string option"
  pol_orderedQuantity :: "int option"
  pol_receivedQuantity :: "int option"
  pol_version :: int
  pol_unit :: "string option"

record purchase_order =
  po_id :: string
  po_tenantId :: string
  po_status :: string
  po_receivingBaseStatus :: "string option"
  po_version :: int
  po_lines :: "po_line list"

record receipt_movement = movement +
  mov_relatedGrnId :: "string option"

text \<open>The place of a balance: tenant, SKU, warehouse key and location key.\<close>

type_synonym place = "string \<times> string \<times> string \<times> string"

text \<open>
  \<open>rtx_receiptMovements\<close> is the \<open>findMany\<close> on movements of type \<open>receipt_posting\<close> related to a
  document, in the order of creation. \<open>rtx_consumedAfter\<close> asks for a movement of one of the types
  after the given one on its SKU and warehouse, \<open>rtx_serialUsed\<close> and \<open>rtx_lotUsed\<close> for a serial or
  lot of the sources that is no longer in stock, \<open>rtx_operateScopes\<close> counts the warehouses of the list
  the user may operate. \<open>rtx_upsertBalance\<close> creates the row or adds its quantities to the one at its
  place. The other updates are guarded \<open>updateMany\<close>s and return the number of rows they changed.
\<close>

record 's receiving_tx =
  rtx_findReceiving :: "'s \<Rightarrow> string \<Rightarrow> string \<Rightarrow> receiving_document option"
  rtx_findOrder :: "'s \<Rightarrow> string \<Rightarrow> string \<Rightarrow> purchase_order option"
  rtx_itemKnown :: "'s \<Rightarrow> string \<Rightarrow> string \<Rightarrow> string \<Rightarrow> bool"
  rtx_warehouseActive :: "'s \<Rightarrow> string \<Rightarrow> string \<Rightarrow> bool"
  rtx_findBalance :: "'s \<Rightarrow> place \<Rightarrow> balance option"
  rtx_receiptMovements :: "'s \<Rightarrow> string \<Rightarrow> string \<Rightarrow> receipt_movement list"
  rtx_consumedAfter :: "'s \<Rightarrow> string \<Rightarrow> receipt_movement \<Rightarrow> string list \<Rightarrow> bool"
  rtx_serialUsed :: "'s \<Rightarrow> string \<Rightarrow> receipt_movement \<Rightarrow> string list \<Rightarrow> bool"
  rtx_lotUsed :: "'s \<Rightarrow> string \<Rightarrow> receipt_movement \<Rightarrow> string list \<Rightarrow> bool"
  rtx_operateScopes :: "'s \<Rightarrow> string \<Rightarrow> string \<Rightarrow> string list \<Rightarrow> nat"
  rtx_createMovement :: "'s \<Rightarrow> receipt_movement \<Rightarrow> 's option"
  rtx_setReversedBy :: "'s \<Rightarrow> string \<Rightarrow> string \<Rightarrow> 's option"
  rtx_upsertBalance :: "'s \<Rightarrow> balance \<Rightarrow> 's option"
  rtx_decrementBalance :: "'s \<Rightarrow> string \<Rightarrow> string \<Rightarrow> int \<Rightarrow> int \<Rightarrow> 's \<times> nat"
  rtx_updateOrderLine :: "'s \<Rightarrow> string \<Rightarrow> string \<Rightarrow> int \<Rightarrow> int option \<Rightarrow> int \<Rightarrow> 's \<times> nat"
  rtx_updateOrder :: "'s \<Rightarrow> string \<Rightarrow> string \<Rightarrow> int \<Rightarrow> string \<Rightarrow> string option \<Rightarrow> 's \<times> nat"
  rtx_updateReceiving :: "'s \<Rightarrow> string \<Rightarrow> string \<Rightarrow> int \<Rightarrow> string \<Rightarrow> string \<Rightarrow> 's \<times> nat"

section \<open>Issues and statuses\<close>

datatype recv_code =
    RECEIVING_ALREADY_POSTED | RECEIVING_VALIDATION_FAILED | RECEIVING_OVER_RECEIPT
  | RECEIVING_ALREADY_REVERSED | RECEIVING_REVERSAL_NOT_SAFE | RECEIVING_VERSION_CONFLICT
  | RECEIVING_CONCURRENT_POSTING_CONFLICT | RECEIVING_NOT_FOUND | RECEIVING_WAREHOUSE_SCOPE_DENIED
  | RECEIVING_UNCAUGHT

definition recv_issue :: "recv_code \<Rightarrow> recv_code issue" where
  "recv_issue c =
     Issue c (if c \<in> {RECEIVING_OVER_RECEIPT, RECEIVING_REVERSAL_NOT_SAFE, RECEIVING_ALREADY_POSTED,
                      RECEIVING_ALREADY_REVERSED} then 409 else 400)"

definition recv_push :: "bool \<Rightarrow> recv_code \<Rightarrow> recv_code issue list" where
  "recv_push cond c = (if cond then [recv_issue c] else [])"

lemma recv_push_Nil [simp]: "recv_push cond c = [] \<longleftrightarrow> \<not> cond" "[] = recv_push cond c \<longleftrightarrow> \<not> cond"
  by (simp_all add: recv_push_def)

definition RECEIVABLE_WORKFLOW_STATUSES :: "string list" where
  "RECEIVABLE_WORKFLOW_STATUSES = [''approved'', ''ready_for_receiving'', ''partially_received'']"

definition RECEIVABLE_PO_STATUSES :: "string list" where
  "RECEIVABLE_PO_STATUSES = [''approved'', ''issued'', ''ready_for_receiving'', ''partially_received'']"

definition DOWNSTREAM_MOVEMENT_TYPES :: "string list" where
  "DOWNSTREAM_MOVEMENT_TYPES =
     [''outbound_posting'', ''sales_outbound'', ''transfer_out'', ''reservation_consumption'',
      ''sales_allocation_consumption'']"

definition receivingLocationKey :: "string option \<Rightarrow> string" where
  "receivingLocationKey value = js_lower (js_text value)"

abbreviation ordered_of :: "po_line \<Rightarrow> int" where
  "ordered_of line \<equiv> column_units (pol_orderedQuantity line)"

abbreviation received_of :: "po_line \<Rightarrow> int" where
  "received_of line \<equiv> column_units (pol_receivedQuantity line)"

definition receivingFulfillmentStatus :: "po_line list \<Rightarrow> string" where
  "receivingFulfillmentStatus lines =
     (if lines = [] \<or> list_all (\<lambda>l. received_of l \<le> 0) lines then ''not_received''
      else if list_all (\<lambda>l. received_of l \<ge> ordered_of l) lines then ''fully_received''
      else ''partially_received'')"

definition receivingWorkflowStatus :: "string \<Rightarrow> string option \<Rightarrow> string" where
  "receivingWorkflowStatus status baseStatus =
     (let s = js_trim status; b = js_text baseStatus
      in if b \<noteq> [] then b
         else if s \<notin> {''partially_received'', ''fully_received''} then s else ''approved'')"

text \<open>\<open>a || b\<close> on nullable text\<close>

definition text_or :: "string option \<Rightarrow> string option \<Rightarrow> string option" where
  "text_or a b = (if a = None \<or> a = Some [] then b else a)"

section \<open>Plans\<close>

record quantity_plan =
  qp_line :: receiving_line
  qp_poLine :: po_line
  qp_sku :: string
  qp_itemId :: string
  qp_warehouseId :: string
  qp_location :: string
  qp_locationKey :: string
  qp_accepted :: int
  qp_rejected :: int

record stock_preview =
  sp_sku :: string
  sp_warehouseId :: "string option"
  sp_locationKey :: string
  sp_onHandBefore :: int
  sp_onHandDelta :: int
  sp_onHandAfter :: int
  sp_availableBefore :: int
  sp_availableDelta :: int
  sp_availableAfter :: int

record po_impact =
  pi_poLineId :: string
  pi_receivedBefore :: int
  pi_receivedDelta :: int
  pi_receivedAfter :: int
  pi_remainingAfter :: int

record status_impact =
  si_poWorkflowStatus :: string
  si_poFulfillmentBefore :: string
  si_poFulfillmentAfter :: string
  si_receivingPostingBefore :: string
  si_receivingPostingAfter :: string

record recv_plan =
  rp_blockingIssues :: "recv_code issue list"
  rp_quantityPlans :: "quantity_plan list"
  rp_originalMovements :: "receipt_movement list"
  rp_inventoryImpacts :: "stock_preview list"
  rp_purchaseOrderImpacts :: "po_impact list"
  rp_statusImpact :: status_impact

text \<open>
  The loop over the receiving lines. \<open>acc\<close> is \<open>acceptedByPoLine\<close>; the value is the issues, the
  quantity plans and the final map.
\<close>

fun posting_lines ::
  "'s receiving_tx \<Rightarrow> 's \<Rightarrow> string \<Rightarrow> receiving_document \<Rightarrow> purchase_order \<Rightarrow> receiving_line list
   \<Rightarrow> (string \<times> int) list \<Rightarrow> recv_code issue list \<times> quantity_plan list \<times> (string \<times> int) list" where
  "posting_lines tx s tenantId doc po [] acc = ([], [], acc)"
| "posting_lines tx s tenantId doc po (line # lines) acc =
     (let accepted = column_units (rl_acceptedQty line);
          rejected = column_units (rl_rejectedQty line);
          signs = recv_push (accepted \<le> 0 \<or> rejected < 0) RECEIVING_VALIDATION_FAILED
      in case Option.bind (rl_purchaseOrderLineId line) (last_by pol_id (po_lines po)) of
           None \<Rightarrow>
             (case posting_lines tx s tenantId doc po lines acc of
                (issues, plans, acc') \<Rightarrow> (signs @ recv_issue RECEIVING_VALIDATION_FAILED # issues, plans, acc'))
         | Some poLine \<Rightarrow>
             let sku = js_text (rl_sku line);
                 itemId = js_text (rl_itemId line);
                 warehouseId = js_text (text_or (rl_warehouseId line) (rd_warehouseId doc));
                 location = js_text (rl_location line);
                 acc1 = add_at (pol_id poLine) accepted acc;
                 here = recv_push (sku = [] \<or> itemId = [] \<or> sku \<noteq> js_text (pol_sku poLine)
                            \<or> itemId \<noteq> js_text (pol_itemId poLine)) RECEIVING_VALIDATION_FAILED
                   @ recv_push (sku = [] \<or> itemId = [] \<or> \<not> rtx_itemKnown tx s itemId tenantId sku)
                       RECEIVING_VALIDATION_FAILED
                   @ recv_push (warehouseId = [] \<or> \<not> rtx_warehouseActive tx s warehouseId tenantId)
                       RECEIVING_VALIDATION_FAILED
                   @ recv_push (received_of poLine + get0 acc1 (pol_id poLine) > ordered_of poLine)
                       RECEIVING_OVER_RECEIPT
             in case posting_lines tx s tenantId doc po lines acc1 of
                  (issues, plans, acc') \<Rightarrow>
                    (signs @ here @ issues,
                     \<lparr>qp_line = line, qp_poLine = poLine, qp_sku = sku, qp_itemId = itemId,
                      qp_warehouseId = warehouseId, qp_location = location,
                      qp_locationKey = receivingLocationKey (Some location),
                      qp_accepted = accepted, qp_rejected = rejected\<rparr> # plans, acc'))"

definition balance_quantities :: "balance option \<Rightarrow> int \<times> int" where
  "balance_quantities b =
     (case b of None \<Rightarrow> (0, 0)
      | Some b \<Rightarrow> (column_units (bal_onHandQuantity b), column_units (bal_availableQuantity b)))"

definition stock_preview_of ::
  "'s receiving_tx \<Rightarrow> 's \<Rightarrow> string \<Rightarrow> string \<Rightarrow> string option \<Rightarrow> string \<Rightarrow> int \<Rightarrow> stock_preview" where
  "stock_preview_of tx s tenantId sku warehouseId locationKey delta =
     (case balance_quantities (rtx_findBalance tx s (tenantId, sku, js_text warehouseId, locationKey)) of
        (onHand, available) \<Rightarrow>
          \<lparr>sp_sku = sku, sp_warehouseId = warehouseId, sp_locationKey = locationKey,
           sp_onHandBefore = onHand, sp_onHandDelta = delta, sp_onHandAfter = onHand + delta,
           sp_availableBefore = available, sp_availableDelta = delta, sp_availableAfter = available + delta\<rparr>)"

text \<open>\<open>deltas\<close> is \<open>acceptedByPoLine\<close>, or the negated quantities of a reversal.\<close>

definition po_impacts :: "po_line list \<Rightarrow> (string \<times> int) list \<Rightarrow> po_impact list" where
  "po_impacts lines deltas =
     concat (map (\<lambda>(k, delta). case last_by pol_id lines k of None \<Rightarrow> []
       | Some l \<Rightarrow> [\<lparr>pi_poLineId = k, pi_receivedBefore = received_of l, pi_receivedDelta = delta,
                    pi_receivedAfter = received_of l + delta,
                    pi_remainingAfter = ordered_of l - received_of l - delta\<rparr>]) deltas)"

definition projected_lines :: "po_line list \<Rightarrow> po_impact list \<Rightarrow> po_line list" where
  "projected_lines lines impacts =
     map (\<lambda>l. case List.find (\<lambda>i. pi_poLineId i = pol_id l) impacts of
         None \<Rightarrow> l | Some i \<Rightarrow> l\<lparr>pol_receivedQuantity := Some (pi_receivedAfter i)\<rparr>) lines"

definition status_impact_of ::
  "receiving_document \<Rightarrow> purchase_order \<Rightarrow> po_impact list \<Rightarrow> string \<Rightarrow> status_impact" where
  "status_impact_of doc po impacts after =
     \<lparr>si_poWorkflowStatus = receivingWorkflowStatus (po_status po) (po_receivingBaseStatus po),
      si_poFulfillmentBefore = receivingFulfillmentStatus (po_lines po),
      si_poFulfillmentAfter = receivingFulfillmentStatus (projected_lines (po_lines po) impacts),
      si_receivingPostingBefore = rd_postingStatus doc, si_receivingPostingAfter = after\<rparr>"

definition buildReceivingPostingPlan ::
  "'s receiving_tx \<Rightarrow> 's \<Rightarrow> string \<Rightarrow> receiving_document \<Rightarrow> purchase_order \<Rightarrow> recv_plan" where
  "buildReceivingPostingPlan tx s tenantId doc po =
     (case posting_lines tx s tenantId doc po (rd_lines doc) [] of
        (issues, plans, accepted) \<Rightarrow>
          let impacts = po_impacts (po_lines po) accepted
          in \<lparr>rp_blockingIssues =
                recv_push (rd_postingStatus doc \<noteq> ''unposted'') RECEIVING_ALREADY_POSTED
                @ recv_push (rd_lines doc = []) RECEIVING_VALIDATION_FAILED
                @ recv_push (rd_workflowStatus doc \<notin> set RECEIVABLE_WORKFLOW_STATUSES) RECEIVING_VALIDATION_FAILED
                @ recv_push (po_status po \<notin> set RECEIVABLE_PO_STATUSES) RECEIVING_VALIDATION_FAILED
                @ issues,
              rp_quantityPlans = plans, rp_originalMovements = [],
              rp_inventoryImpacts = map (\<lambda>p. stock_preview_of tx s tenantId (qp_sku p) (Some (qp_warehouseId p))
                  (qp_locationKey p) (qp_accepted p)) plans,
              rp_purchaseOrderImpacts = impacts,
              rp_statusImpact = status_impact_of doc po impacts ''posted''\<rparr>)"

text \<open>
  The loop over the original movements of a reversal: the issues, the previews, and \<open>poDeltas\<close> as
  \<open>acc\<close>. \<open>movement.locationKey || receivingLocationKey(movement.location)\<close> is \<open>movement_location\<close>.
\<close>

definition movement_location :: "receipt_movement \<Rightarrow> string" where
  "movement_location m = (if mov_locationKey m \<noteq> [] then mov_locationKey m else receivingLocationKey (mov_location m))"

definition po_line_of :: "receiving_document \<Rightarrow> po_line list \<Rightarrow> receipt_movement \<Rightarrow> po_line option" where
  "po_line_of doc lines m =
     Option.bind (Option.bind (mov_sourceDocumentLineId m) (last_by rl_id (rd_lines doc)))
       (\<lambda>rl. Option.bind (rl_purchaseOrderLineId rl) (last_by pol_id lines))"

fun reversal_movements ::
  "'s receiving_tx \<Rightarrow> 's \<Rightarrow> string \<Rightarrow> receiving_document \<Rightarrow> purchase_order \<Rightarrow> receipt_movement list
   \<Rightarrow> (string \<times> int) list \<Rightarrow> recv_code issue list \<times> stock_preview list \<times> (string \<times> int) list" where
  "reversal_movements tx s tenantId doc po [] acc = ([], [], acc)"
| "reversal_movements tx s tenantId doc po (m # ms) acc =
     (let quantity = column_units (mov_quantityIn m);
          sources = [mov_id m, rd_id doc];
          place = (tenantId, mov_sku m, js_text (mov_warehouseId m), movement_location m);
          balance = rtx_findBalance tx s place;
          poLine = po_line_of doc (po_lines po) m;
          here = recv_push (rtx_consumedAfter tx s tenantId m DOWNSTREAM_MOVEMENT_TYPES
                   \<or> rtx_serialUsed tx s tenantId m sources \<or> rtx_lotUsed tx s tenantId m sources)
                   RECEIVING_REVERSAL_NOT_SAFE
            @ recv_push (balance = None \<or> fst (balance_quantities balance) < quantity
                   \<or> snd (balance_quantities balance) < quantity) RECEIVING_REVERSAL_NOT_SAFE
            @ recv_push (poLine = None) RECEIVING_REVERSAL_NOT_SAFE;
          acc1 = (case poLine of None \<Rightarrow> acc | Some l \<Rightarrow> add_at (pol_id l) quantity acc)
      in case reversal_movements tx s tenantId doc po ms acc1 of
           (issues, previews, acc') \<Rightarrow>
             (here @ issues,
              stock_preview_of tx s tenantId (mov_sku m) (mov_warehouseId m) (movement_location m) (- quantity)
                # previews, acc'))"

definition buildReceivingReversalPlan ::
  "'s receiving_tx \<Rightarrow> 's \<Rightarrow> string \<Rightarrow> receiving_document \<Rightarrow> purchase_order \<Rightarrow> recv_plan" where
  "buildReceivingReversalPlan tx s tenantId doc po =
     (let originals = rtx_receiptMovements tx s tenantId (rd_id doc)
      in case reversal_movements tx s tenantId doc po originals [] of
           (issues, previews, quantities) \<Rightarrow>
             let impacts = po_impacts (po_lines po) (map (\<lambda>(k, q). (k, - q)) quantities)
             in \<lparr>rp_blockingIssues =
                   (if rd_postingStatus doc = ''reversed'' then [recv_issue RECEIVING_ALREADY_REVERSED]
                    else recv_push (rd_postingStatus doc \<noteq> ''posted'') RECEIVING_REVERSAL_NOT_SAFE)
                   @ recv_push (originals = [] \<or> list_ex (\<lambda>m. \<not> (mov_reversedByMovementId m = None
                        \<or> mov_reversedByMovementId m = Some [])) originals) RECEIVING_REVERSAL_NOT_SAFE
                   @ issues
                   @ concat (map (\<lambda>i. recv_push (pi_receivedBefore i < - pi_receivedDelta i)
                        RECEIVING_REVERSAL_NOT_SAFE) impacts),
                 rp_quantityPlans = [], rp_originalMovements = originals,
                 rp_inventoryImpacts = previews, rp_purchaseOrderImpacts = impacts,
                 rp_statusImpact = status_impact_of doc po impacts ''reversed''\<rparr>)"

end
