(* ===== verification/Receiving_Service.thy ===== *)
theory Receiving_Service
  imports Receiving_Policy
begin

text \<open>
  The work functions of \<open>receiving-posting-command-service.mjs\<close>: posting a receiving document and
  reversing it. \<open>gen n\<close> is the n-th identifier that \<open>idFactory\<close> returns in the transaction; the
  first is the execution's and the second the posting batch's. A work function returns the new state
  and the identifiers of the movements it made. The audit event and the change feed, which only
  record what was written, are left out.
\<close>

type_synonym 's recv_result = "recv_code issue + 's \<times> string list"

section \<open>The documents\<close>

text \<open>
  \<open>loadPostingAggregate\<close>: the lock and the query after it have the same filter, so a document that
  was locked is found.
\<close>

definition loadPostingAggregate ::
  "'s receiving_tx \<Rightarrow> 's \<Rightarrow> string \<Rightarrow> string \<Rightarrow> recv_code issue + receiving_document \<times> purchase_order" where
  "loadPostingAggregate tx s tenantId docId =
     (case rtx_findReceiving tx s tenantId docId of
        None \<Rightarrow> Inl (Issue RECEIVING_NOT_FOUND 404)
      | Some doc \<Rightarrow>
          (case rd_poId doc of
             None \<Rightarrow> Inl (Issue RECEIVING_VALIDATION_FAILED 400)
           | Some poId \<Rightarrow>
               if poId = [] then Inl (Issue RECEIVING_VALIDATION_FAILED 400)
               else case rtx_findOrder tx s tenantId poId of
                 None \<Rightarrow> Inl (Issue RECEIVING_NOT_FOUND 404)
               | Some po \<Rightarrow> Inr (doc, po)))"

definition receiving_warehouses :: "receiving_document \<Rightarrow> string list" where
  "receiving_warehouses doc =
     js_unique (filter (\<lambda>w. w \<noteq> []) (map js_text (rd_warehouseId doc # map rl_warehouseId (rd_lines doc))))"

text \<open>\<open>bypass\<close> is the exception for identities of the test suite.\<close>

definition assertOperateWarehouseScope ::
  "'s receiving_tx \<Rightarrow> 's \<Rightarrow> string \<Rightarrow> string \<Rightarrow> bool \<Rightarrow> receiving_document \<Rightarrow> recv_code issue + unit" where
  "assertOperateWarehouseScope tx s tenantId actorId bypass doc =
     fail_if (\<not> bypass \<and> rtx_operateScopes tx s tenantId actorId (receiving_warehouses doc)
                \<noteq> length (receiving_warehouses doc))
       (Issue RECEIVING_WAREHOUSE_SCOPE_DENIED 403)"

definition poStatus :: "po_line list \<Rightarrow> string \<Rightarrow> string option \<Rightarrow> string" where
  "poStatus lines currentStatus baseStatus =
     (if lines \<noteq> [] \<and> list_all (\<lambda>l. received_of l \<ge> ordered_of l) lines then ''fully_received''
      else if list_ex (\<lambda>l. received_of l > 0) lines then ''partially_received''
      else if js_text baseStatus \<noteq> [] then js_text baseStatus
      else if currentStatus \<in> {''partially_received'', ''fully_received''} then ''approved''
      else currentStatus)"

definition enforcePolicy :: "recv_plan \<Rightarrow> recv_code issue + recv_plan" where
  "enforcePolicy plan = (case rp_blockingIssues plan of [] \<Rightarrow> Inr plan | first # _ \<Rightarrow> Inl first)"

lemma enforcePolicy_Inr [simp]: "enforcePolicy plan = Inr p \<longleftrightarrow> p = plan \<and> rp_blockingIssues plan = []"
  by (auto simp: enforcePolicy_def split: list.splits)

text \<open>\<open>new Map(purchaseOrder.lines.map((line) => [line.id, { ...line }]))\<close>\<close>

definition line_map :: "po_line list \<Rightarrow> (string \<times> po_line) list" where
  "line_map lines = fold (\<lambda>l m. AList.update (pol_id l) l m) lines []"

section \<open>Posting\<close>

definition receipt_row ::
  "string \<Rightarrow> string \<Rightarrow> string \<Rightarrow> string \<Rightarrow> quantity_plan \<Rightarrow> receipt_movement" where
  "receipt_row movId tenantId docId batch p =
     \<lparr>mov_id = movId, mov_tenantId = tenantId, mov_itemId = Some (qp_itemId p), mov_sku = qp_sku p,
      mov_itemName = text_or (rl_itemName (qp_line p)) (pol_itemName (qp_poLine p)),
      mov_warehouseId = Some (qp_warehouseId p),
      mov_location = (if qp_location p = [] then None else Some (qp_location p)),
      mov_locationKey = qp_locationKey p, mov_movementType = ''receipt_posting'',
      mov_sourceDocumentType = Some ''receiving_document'', mov_sourceDocumentId = Some docId,
      mov_sourceDocumentLineId = Some (rl_id (qp_line p)), mov_quantityIn = Some (qp_accepted p),
      mov_quantityOut = Some 0, mov_adjustmentQty = Some 0, mov_status = ''posted'',
      mov_unit = text_or (rl_unit (qp_line p)) (pol_unit (qp_poLine p)),
      mov_postingBatchId = Some batch, mov_reversalOfMovementId = None, mov_reversedByMovementId = None,
      mov_balanceId = None, mov_relatedGrnId = Some docId\<rparr>"

text \<open>The \<open>create\<close> part of the \<open>upsert\<close>; its \<open>update\<close> part adds the same quantities.\<close>

definition received_balance :: "string \<Rightarrow> string \<Rightarrow> quantity_plan \<Rightarrow> balance" where
  "received_balance balId tenantId p =
     \<lparr>bal_id = balId, bal_tenantId = tenantId, bal_itemId = Some (qp_itemId p), bal_sku = qp_sku p,
      bal_itemName = text_or (rl_itemName (qp_line p)) (pol_itemName (qp_poLine p)),
      bal_warehouseId = Some (qp_warehouseId p), bal_warehouseKey = qp_warehouseId p,
      bal_location = (if qp_location p = [] then None else Some (qp_location p)),
      bal_locationKey = qp_locationKey p,
      bal_unit = text_or (rl_unit (qp_line p)) (pol_unit (qp_poLine p)),
      bal_onHandQuantity = Some (qp_accepted p), bal_reservedQuantity = Some 0,
      bal_availableQuantity = Some (qp_accepted p), bal_version = 1\<rparr>"

definition set_received :: "int \<Rightarrow> po_line \<Rightarrow> po_line" where
  "set_received q l = l\<lparr>pol_receivedQuantity := Some q, pol_version := pol_version l + 1\<rparr>"

text \<open>\<open>for (const plan of plans)\<close>; \<open>m\<close> is \<open>updatedPoLines\<close>.\<close>

fun post_lines ::
  "'s receiving_tx \<Rightarrow> (nat \<Rightarrow> string) \<Rightarrow> string \<Rightarrow> string \<Rightarrow> string \<Rightarrow> nat \<Rightarrow> quantity_plan list
   \<Rightarrow> (string \<times> po_line) list \<Rightarrow> 's \<Rightarrow> recv_code issue + ((string \<times> po_line) list \<times> 's \<times> string list)" where
  "post_lines tx gen tenantId docId poId n [] m s = Inr (m, s, [])"
| "post_lines tx gen tenantId docId poId n (p # plans) m s =
     (case rtx_createMovement tx s (receipt_row (gen n) tenantId docId (gen 1) p) of
        None \<Rightarrow> Inl (Issue RECEIVING_CONCURRENT_POSTING_CONFLICT 409)
      | Some s1 \<Rightarrow>
     (case rtx_upsertBalance tx s1 (received_balance (gen (Suc n)) tenantId p) of
        None \<Rightarrow> Inl (Issue RECEIVING_CONCURRENT_POSTING_CONFLICT 409)
      | Some s2 \<Rightarrow>
     (case map_of m (pol_id (qp_poLine p)) of
        None \<Rightarrow> Inl (Issue RECEIVING_UNCAUGHT 500)
      | Some cur \<Rightarrow>
          let next = received_of cur + qp_accepted p
          in case rtx_updateOrderLine tx s2 (pol_id cur) poId (pol_version cur) None next of
               (s3, changed) \<Rightarrow>
                 if changed \<noteq> 1 then Inl (Issue RECEIVING_VERSION_CONFLICT 409)
                 else
                   (case post_lines tx gen tenantId docId poId (Suc (Suc n)) plans
                           (AList.update (pol_id (qp_poLine p)) (set_received next cur) m) s3 of
                      Inl e \<Rightarrow> Inl e
                    | Inr (m', s', ids) \<Rightarrow> Inr (m', s', gen n # ids)))))"

text \<open>The two guarded updates at the end of both commands.\<close>

definition close_documents ::
  "'s receiving_tx \<Rightarrow> string \<Rightarrow> receiving_document \<Rightarrow> purchase_order \<Rightarrow> string \<Rightarrow> string option
   \<Rightarrow> string \<Rightarrow> string \<Rightarrow> string list \<Rightarrow> 's \<Rightarrow> 's recv_result" where
  "close_documents tx tenantId doc po nextStatus baseStatus required posting ids s =
     (case rtx_updateOrder tx s (po_id po) tenantId (po_version po) nextStatus baseStatus of
        (s1, changed) \<Rightarrow>
          if changed \<noteq> 1 then Inl (Issue RECEIVING_VERSION_CONFLICT 409)
          else case rtx_updateReceiving tx s1 (rd_id doc) tenantId (rd_version doc) required posting of
            (s2, changed) \<Rightarrow>
              if changed \<noteq> 1 then Inl (Issue RECEIVING_CONCURRENT_POSTING_CONFLICT 409)
              else Inr (s2, ids))"

text \<open>
  The request: the trimmed document id, the expected version when the request has one (\<open>None\<close>
  inside is a value that is no integer), and the trimmed reason.
\<close>

record recv_request =
  rq_receivingDocumentId :: string
  rq_expectedVersion :: "int option option"
  rq_reason :: string

record recv_scope =
  rsc_tenantId :: string
  rsc_actorId :: string
  rsc_bypass :: bool

definition postReceiving ::
  "'s receiving_tx \<Rightarrow> (nat \<Rightarrow> string) \<Rightarrow> recv_scope \<Rightarrow> recv_request \<Rightarrow> 's \<Rightarrow> 's recv_result" where
  "postReceiving tx gen scope req s =
     (let t = rsc_tenantId scope
      in and_then (loadPostingAggregate tx s t (rq_receivingDocumentId req)) (\<lambda>(doc, po).
         and_then (assertOperateWarehouseScope tx s t (rsc_actorId scope) (rsc_bypass scope) doc) (\<lambda>_.
         and_then (fail_if (rd_postingStatus doc \<noteq> ''unposted'') (Issue RECEIVING_ALREADY_POSTED 409)) (\<lambda>_.
         and_then (fail_if (rq_expectedVersion req \<noteq> None \<and> rq_expectedVersion req \<noteq> Some (Some (rd_version doc)))
           (Issue RECEIVING_VERSION_CONFLICT 409)) (\<lambda>_.
         and_then (enforcePolicy (buildReceivingPostingPlan tx s t doc po)) (\<lambda>plan.
         and_then (post_lines tx gen t (rd_id doc) (po_id po) 2 (rp_quantityPlans plan)
             (line_map (po_lines po)) s) (\<lambda>(m, s1, ids).
         close_documents tx t doc po (poStatus (map snd m) (po_status po) (po_receivingBaseStatus po))
           (text_or (po_receivingBaseStatus po) (Some (po_status po))) ''unposted'' ''posted'' ids s1)))))))"

section \<open>Reversing\<close>

definition receipt_reversal_row ::
  "string \<Rightarrow> string \<Rightarrow> string \<Rightarrow> string \<Rightarrow> receipt_movement \<Rightarrow> receipt_movement" where
  "receipt_reversal_row movId tenantId docId batch m =
     \<lparr>mov_id = movId, mov_tenantId = tenantId, mov_itemId = mov_itemId m, mov_sku = mov_sku m,
      mov_itemName = mov_itemName m, mov_warehouseId = mov_warehouseId m, mov_location = mov_location m,
      mov_locationKey = mov_locationKey m, mov_movementType = ''receipt_reversal'',
      mov_sourceDocumentType = Some ''receiving_document'', mov_sourceDocumentId = Some docId,
      mov_sourceDocumentLineId = mov_sourceDocumentLineId m, mov_quantityIn = Some 0,
      mov_quantityOut = Some (column_units (mov_quantityIn m)), mov_adjustmentQty = Some 0,
      mov_status = ''posted'', mov_unit = mov_unit m, mov_postingBatchId = Some batch,
      mov_reversalOfMovementId = Some (mov_id m), mov_reversedByMovementId = None,
      mov_balanceId = None, mov_relatedGrnId = Some docId\<rparr>"

text \<open>\<open>for (const original of originalMovements)\<close>; \<open>m\<close> is \<open>poLines\<close>.\<close>

fun reverse_lines ::
  "'s receiving_tx \<Rightarrow> (nat \<Rightarrow> string) \<Rightarrow> string \<Rightarrow> receiving_document \<Rightarrow> string \<Rightarrow> nat \<Rightarrow> receipt_movement list
   \<Rightarrow> (string \<times> po_line) list \<Rightarrow> 's \<Rightarrow> recv_code issue + ((string \<times> po_line) list \<times> 's \<times> string list)" where
  "reverse_lines tx gen tenantId doc poId n [] m s = Inr (m, s, [])"
| "reverse_lines tx gen tenantId doc poId n (orig # origs) m s =
     (let quantity = column_units (mov_quantityIn orig)
      in case rtx_findBalance tx s (tenantId, mov_sku orig, js_text (mov_warehouseId orig), mov_locationKey orig) of
        None \<Rightarrow> Inl (Issue RECEIVING_REVERSAL_NOT_SAFE 409)
      | Some b \<Rightarrow>
          if column_units (bal_onHandQuantity b) < quantity \<or> column_units (bal_availableQuantity b) < quantity
          then Inl (Issue RECEIVING_REVERSAL_NOT_SAFE 409)
          else case rtx_createMovement tx s (receipt_reversal_row (gen n) tenantId (rd_id doc) (gen 1) orig) of
            None \<Rightarrow> Inl (Issue RECEIVING_CONCURRENT_POSTING_CONFLICT 409)
          | Some s1 \<Rightarrow>
          (case rtx_setReversedBy tx s1 (mov_id orig) (gen n) of
            None \<Rightarrow> Inl (Issue RECEIVING_UNCAUGHT 500)
          | Some s2 \<Rightarrow>
          (case rtx_decrementBalance tx s2 (bal_id b) tenantId (bal_version b) quantity of (s3, changed) \<Rightarrow>
            if changed \<noteq> 1 then Inl (Issue RECEIVING_REVERSAL_NOT_SAFE 409)
            else case Option.bind (Option.bind (mov_sourceDocumentLineId orig) (last_by rl_id (rd_lines doc)))
                (\<lambda>rl. Option.bind (rl_purchaseOrderLineId rl) (map_of m)) of
              None \<Rightarrow> Inl (Issue RECEIVING_REVERSAL_NOT_SAFE 409)
            | Some cur \<Rightarrow>
                if received_of cur < quantity then Inl (Issue RECEIVING_REVERSAL_NOT_SAFE 409)
                else
                  let next = received_of cur - quantity
                  in case rtx_updateOrderLine tx s3 (pol_id cur) poId (pol_version cur) (Some quantity) next of
                       (s4, changed) \<Rightarrow>
                         if changed \<noteq> 1 then Inl (Issue RECEIVING_VERSION_CONFLICT 409)
                         else
                           (case reverse_lines tx gen tenantId doc poId (Suc n) origs
                                   (AList.update (pol_id cur) (set_received next cur) m) s4 of
                              Inl e \<Rightarrow> Inl e
                            | Inr (m', s', ids) \<Rightarrow> Inr (m', s', gen n # ids)))))"

definition reverseReceiving ::
  "'s receiving_tx \<Rightarrow> (nat \<Rightarrow> string) \<Rightarrow> recv_scope \<Rightarrow> recv_request \<Rightarrow> 's \<Rightarrow> 's recv_result" where
  "reverseReceiving tx gen scope req s =
     (let t = rsc_tenantId scope
      in and_then (loadPostingAggregate tx s t (rq_receivingDocumentId req)) (\<lambda>(doc, po).
         and_then (assertOperateWarehouseScope tx s t (rsc_actorId scope) (rsc_bypass scope) doc) (\<lambda>_.
         and_then (enforcePolicy (buildReceivingReversalPlan tx s t doc po)) (\<lambda>plan.
         and_then (reverse_lines tx gen t doc (po_id po) 2 (rp_originalMovements plan)
             (line_map (po_lines po)) s) (\<lambda>(m, s1, ids).
         close_documents tx t doc po (poStatus (map snd m) (po_status po) (po_receivingBaseStatus po))
           None ''posted'' ''reversed'' ids s1)))))"

section \<open>Reconciliation\<close>

text \<open>\<open>calculateMovementBalance\<close>, on the quantities of any movements\<close>

definition calculateMovementBalance :: "('m movement_scheme) list \<Rightarrow> int" where
  "calculateMovementBalance ms =
     fold (\<lambda>m total. total + column_units (mov_quantityIn m) - column_units (mov_quantityOut m)
        + column_units (mov_adjustmentQty m)) ms 0"

text \<open>\<open>reconcileInventoryBalance\<close> on the balance of a place and its posted movements: the calculated
  quantity and whether it matches.\<close>

definition reconcileInventoryBalance :: "balance option \<Rightarrow> ('m movement_scheme) list \<Rightarrow> int \<times> bool" where
  "reconcileInventoryBalance b ms =
     (calculateMovementBalance ms,
      case b of None \<Rightarrow> False | Some b \<Rightarrow> column_units (bal_onHandQuantity b) = calculateMovementBalance ms)"

end
