(* ===== verification/Receiving_Store.thy ===== *)
theory Receiving_Store
  imports Receiving_Service Inventory_Store
begin

text \<open>
  What receiving relies on from the database: the locale \<open>receiving_store\<close>. \<open>view\<close> is the content of
  the tables and \<open>ok\<close> says that the database satisfies its unique constraints, which every write
  keeps. The laws are the documented meaning of the queries for the filters the code passes; a
  guarded \<open>updateMany\<close> that reports one row changed exactly that row.

  \<open>recv_tx\<close> is a database of lists that satisfies the laws.
\<close>

section \<open>The interface\<close>

definition place_of :: "balance \<Rightarrow> place" where
  "place_of b = (bal_tenantId b, bal_sku b, bal_warehouseKey b, bal_locationKey b)"

record recv_view =
  rv_docs :: "string \<Rightarrow> receiving_document option"
  rv_orders :: "string \<Rightarrow> purchase_order option"
  rv_stock :: "place \<Rightarrow> balance option"
  rv_moves :: "receipt_movement list"

text \<open>The \<open>update\<close> part of the upsert: an increment of a null column stays null.\<close>

definition receive_into :: "balance \<Rightarrow> balance \<Rightarrow> balance" where
  "receive_into b b0 =
     b0\<lparr>bal_onHandQuantity := map_option (\<lambda>q. q + column_units (bal_onHandQuantity b)) (bal_onHandQuantity b0),
        bal_availableQuantity := map_option (\<lambda>q. q + column_units (bal_availableQuantity b)) (bal_availableQuantity b0),
        bal_itemId := bal_itemId b, bal_itemName := bal_itemName b, bal_location := bal_location b,
        bal_unit := bal_unit b, bal_version := bal_version b0 + 1\<rparr>"

text \<open>The guard \<open>{ gte: q }\<close> is false for a null column.\<close>

definition at_least :: "int \<Rightarrow> int option \<Rightarrow> bool" where
  "at_least q c = (case c of None \<Rightarrow> False | Some v \<Rightarrow> q \<le> v)"

definition withdraw :: "int \<Rightarrow> balance \<Rightarrow> balance" where
  "withdraw q b =
     b\<lparr>bal_onHandQuantity := map_option (\<lambda>v. v - q) (bal_onHandQuantity b),
       bal_availableQuantity := map_option (\<lambda>v. v - q) (bal_availableQuantity b),
       bal_version := bal_version b + 1\<rparr>"

definition set_line :: "string \<Rightarrow> int \<Rightarrow> purchase_order \<Rightarrow> purchase_order" where
  "set_line k q po = po\<lparr>po_lines := map (\<lambda>l. if pol_id l = k then set_received q l else l) (po_lines po)\<rparr>"

definition set_status :: "string \<Rightarrow> string option \<Rightarrow> purchase_order \<Rightarrow> purchase_order" where
  "set_status st base po =
     po\<lparr>po_status := st, po_receivingBaseStatus := (if base = None then po_receivingBaseStatus po else base),
        po_version := po_version po + 1\<rparr>"

definition set_posting :: "string \<Rightarrow> receiving_document \<Rightarrow> receiving_document" where
  "set_posting st d = d\<lparr>rd_postingStatus := st, rd_version := rd_version d + 1\<rparr>"

definition is_receipt :: "string \<Rightarrow> string \<Rightarrow> receipt_movement \<Rightarrow> bool" where
  "is_receipt t d m \<longleftrightarrow>
     mov_tenantId m = t \<and> mov_relatedGrnId m = Some d \<and> mov_movementType m = ''receipt_posting''"

locale receiving_store =
  fixes tx :: "'s receiving_tx"
    and view :: "'s \<Rightarrow> recv_view"
    and ok :: "'s \<Rightarrow> bool"
  assumes doc_key: "rv_docs (view s) k = Some x \<Longrightarrow> rd_id x = k"
    and order_key: "rv_orders (view s) k = Some po \<Longrightarrow> po_id po = k"
    and stock_key: "rv_stock (view s) p = Some b \<Longrightarrow> place_of b = p"
    and distinct_lines:
      "ok s \<Longrightarrow> rv_docs (view s) k = Some x \<Longrightarrow> distinct (map rl_id (rd_lines x))"
      "ok s \<Longrightarrow> rv_orders (view s) k = Some po \<Longrightarrow> distinct (map pol_id (po_lines po))"
    and find_receiving: "rtx_findReceiving tx s t d = of_tenant rd_tenantId t (rv_docs (view s) d)"
    and find_order: "rtx_findOrder tx s t d = of_tenant po_tenantId t (rv_orders (view s) d)"
    and find_balance: "rtx_findBalance tx s p = rv_stock (view s) p"
    and receipt_movements:
      "mset (rtx_receiptMovements tx s t d) = filter_mset (is_receipt t d) (mset (rv_moves (view s)))"
    and create_movement:
      "ok s \<Longrightarrow> rtx_createMovement tx s m = Some s' \<Longrightarrow>
         ok s' \<and> view s' = (view s)\<lparr>rv_moves := rv_moves (view s) @ [m]\<rparr>"
    and set_reversed_by:
      "ok s \<Longrightarrow> rtx_setReversedBy tx s k r = Some s' \<Longrightarrow>
         ok s' \<and> view s' = (view s)\<lparr>rv_moves := map (\<lambda>m. if mov_id m = k
           then m\<lparr>mov_reversedByMovementId := Some r\<rparr> else m) (rv_moves (view s))\<rparr>"
    and upsert_balance:
      "ok s \<Longrightarrow> rtx_upsertBalance tx s b = Some s' \<Longrightarrow>
         ok s' \<and> view s' = (view s)\<lparr>rv_stock := (rv_stock (view s))(place_of b \<mapsto>
           (case rv_stock (view s) (place_of b) of None \<Rightarrow> b | Some b0 \<Rightarrow> receive_into b b0))\<rparr>"
    and decrement_balance:
      "ok s \<Longrightarrow> rtx_decrementBalance tx s k t v q = (s', 1) \<Longrightarrow> rv_stock (view s) p = Some b \<Longrightarrow> bal_id b = k \<Longrightarrow>
         at_least q (bal_onHandQuantity b) \<and> at_least q (bal_availableQuantity b)
         \<and> ok s' \<and> view s' = (view s)\<lparr>rv_stock := (rv_stock (view s))(p \<mapsto> withdraw q b)\<rparr>"
    and update_order_line:
      "ok s \<Longrightarrow> rtx_updateOrderLine tx s k d v bound q = (s', 1) \<Longrightarrow>
         ok s' \<and> (\<exists>po l. rv_orders (view s) d = Some po \<and> l \<in> set (po_lines po) \<and> pol_id l = k \<and> pol_version l = v
           \<and> (case bound of None \<Rightarrow> True | Some c \<Rightarrow> at_least c (pol_receivedQuantity l))
           \<and> view s' = (view s)\<lparr>rv_orders := (rv_orders (view s))(d \<mapsto> set_line k q po)\<rparr>)"
    and update_order:
      "ok s \<Longrightarrow> rtx_updateOrder tx s d t v st base = (s', 1) \<Longrightarrow>
         ok s' \<and> (\<exists>po. rv_orders (view s) d = Some po \<and> po_tenantId po = t \<and> po_version po = v
           \<and> view s' = (view s)\<lparr>rv_orders := (rv_orders (view s))(d \<mapsto> set_status st base po)\<rparr>)"
    and update_receiving:
      "ok s \<Longrightarrow> rtx_updateReceiving tx s d t v required st = (s', 1) \<Longrightarrow>
         ok s' \<and> (\<exists>doc. rv_docs (view s) d = Some doc \<and> rd_tenantId doc = t \<and> rd_version doc = v
           \<and> rd_postingStatus doc = required
           \<and> view s' = (view s)\<lparr>rv_docs := (rv_docs (view s))(d \<mapsto> set_posting st doc)\<rparr>)"

section \<open>A database of lists\<close>

record recv_db =
  rdb_docs :: "receiving_document list"
  rdb_orders :: "purchase_order list"
  rdb_balances :: "balance list"
  rdb_movements :: "receipt_movement list"
  rdb_items :: "(string \<times> string \<times> string) list"
  rdb_warehouses :: "(string \<times> string) list"
  rdb_scopes :: "(string \<times> string \<times> string) list"

definition stock_row :: "balance list \<Rightarrow> place \<Rightarrow> balance option" where
  "stock_row rows p = List.find (\<lambda>b. place_of b = p) rows"

definition recv_ok :: "recv_db \<Rightarrow> bool" where
  "recv_ok s \<longleftrightarrow> distinct (map bal_id (rdb_balances s)) \<and> distinct (map place_of (rdb_balances s))
     \<and> list_all (\<lambda>d. distinct (map rl_id (rd_lines d))) (rdb_docs s)
     \<and> list_all (\<lambda>po. distinct (map pol_id (po_lines po))) (rdb_orders s)"

text \<open>A guarded update of one row.\<close>

definition guarded :: "('r \<Rightarrow> string) \<Rightarrow> string \<Rightarrow> ('r \<Rightarrow> bool) \<Rightarrow> ('r \<Rightarrow> 'r) \<Rightarrow> 'r list \<Rightarrow> 'r list \<times> nat" where
  "guarded key k guard f rows =
     (case row_by key rows k of None \<Rightarrow> (rows, 0)
      | Some r \<Rightarrow> if guard r \<and> key (f r) = k then (set_row key k (f r) rows, 1) else (rows, 0))"

text \<open>\<open>outflows\<close> of the SQL after a movement are those later in the list.\<close>

definition recv_tx :: "recv_db receiving_tx" where
  "recv_tx =
     \<lparr>rtx_findReceiving = (\<lambda>s t d. of_tenant rd_tenantId t (row_by rd_id (rdb_docs s) d)),
      rtx_findOrder = (\<lambda>s t d. of_tenant po_tenantId t (row_by po_id (rdb_orders s) d)),
      rtx_itemKnown = (\<lambda>s i t sku. (t, i, sku) \<in> set (rdb_items s)),
      rtx_warehouseActive = (\<lambda>s w t. (t, w) \<in> set (rdb_warehouses s)),
      rtx_findBalance = (\<lambda>s p. stock_row (rdb_balances s) p),
      rtx_receiptMovements = (\<lambda>s t d. filter (is_receipt t d) (rdb_movements s)),
      rtx_consumedAfter = (\<lambda>s t m types. list_ex (\<lambda>q. mov_tenantId q = t \<and> mov_sku q = mov_sku m
        \<and> mov_warehouseId q = mov_warehouseId m \<and> mov_movementType q \<in> set types)
        (dropWhile (\<lambda>q. mov_id q \<noteq> mov_id m) (rdb_movements s))),
      rtx_serialUsed = (\<lambda>s t m sources. False),
      rtx_lotUsed = (\<lambda>s t m sources. False),
      rtx_operateScopes = (\<lambda>s t u ids. length (filter (\<lambda>w. (t, u, w) \<in> set (rdb_scopes s)) ids)),
      rtx_createMovement = (\<lambda>s m.
        if list_ex (\<lambda>q. mov_id q = mov_id m) (rdb_movements s)
        then None else Some (s\<lparr>rdb_movements := rdb_movements s @ [m]\<rparr>)),
      rtx_setReversedBy = (\<lambda>s k r.
        if list_ex (\<lambda>m. mov_id m = k) (rdb_movements s)
        then Some (s\<lparr>rdb_movements := map (\<lambda>m. if mov_id m = k
                 then m\<lparr>mov_reversedByMovementId := Some r\<rparr> else m) (rdb_movements s)\<rparr>)
        else None),
      rtx_upsertBalance = (\<lambda>s b.
        case stock_row (rdb_balances s) (place_of b) of
          None \<Rightarrow> if list_ex (\<lambda>q. bal_id q = bal_id b) (rdb_balances s) then None
                  else Some (s\<lparr>rdb_balances := rdb_balances s @ [b]\<rparr>)
        | Some b0 \<Rightarrow> Some (s\<lparr>rdb_balances := map (\<lambda>q. if place_of q = place_of b then receive_into b q else q)
                              (rdb_balances s)\<rparr>)),
      rtx_decrementBalance = (\<lambda>s k t v q.
        let hit = (\<lambda>b. bal_id b = k \<and> bal_tenantId b = t \<and> bal_version b = v
              \<and> at_least q (bal_onHandQuantity b) \<and> at_least q (bal_availableQuantity b))
        in (s\<lparr>rdb_balances := map (\<lambda>b. if hit b then withdraw q b else b) (rdb_balances s)\<rparr>,
            length (filter hit (rdb_balances s)))),
      rtx_updateOrderLine = (\<lambda>s k d v bound q.
        case guarded po_id d (\<lambda>po. list_ex (\<lambda>l. pol_id l = k \<and> pol_version l = v
               \<and> (case bound of None \<Rightarrow> True | Some c \<Rightarrow> at_least c (pol_receivedQuantity l))) (po_lines po))
             (set_line k q) (rdb_orders s) of (rows, n) \<Rightarrow> (s\<lparr>rdb_orders := rows\<rparr>, n)),
      rtx_updateOrder = (\<lambda>s d t v st base.
        case guarded po_id d (\<lambda>po. po_tenantId po = t \<and> po_version po = v) (set_status st base) (rdb_orders s) of
          (rows, n) \<Rightarrow> (s\<lparr>rdb_orders := rows\<rparr>, n)),
      rtx_updateReceiving = (\<lambda>s d t v required st.
        case guarded rd_id d (\<lambda>x. rd_tenantId x = t \<and> rd_version x = v \<and> rd_postingStatus x = required)
             (set_posting st) (rdb_docs s) of (rows, n) \<Rightarrow> (s\<lparr>rdb_docs := rows\<rparr>, n))\<rparr>"

definition recv_view_of :: "recv_db \<Rightarrow> recv_view" where
  "recv_view_of s =
     \<lparr>rv_docs = row_by rd_id (rdb_docs s), rv_orders = row_by po_id (rdb_orders s),
      rv_stock = stock_row (rdb_balances s), rv_moves = rdb_movements s\<rparr>"

lemma set_set_row: "set (set_row key k r rows) \<subseteq> insert r (set rows)"
  by (auto simp: set_row_def)

lemma guarded_hit:
  assumes "guarded key k guard f rows = (rows', 1)"
  shows "\<exists>r. row_by key rows k = Some r \<and> guard r \<and> row_by key rows' = (row_by key rows)(k \<mapsto> f r)
    \<and> set rows' \<subseteq> insert (f r) (set rows)"
  using assms using set_set_row [of key k _ rows] by (auto simp: guarded_def row_by_set_row split: option.splits if_splits)

lemma stock_rowD: "stock_row rows p = Some b \<Longrightarrow> b \<in> set rows \<and> place_of b = p"
  by (auto simp: stock_row_def find_Some_iff)

lemma stock_row_append: "stock_row rows (place_of b) = None \<Longrightarrow> stock_row (rows @ [b]) = (stock_row rows)(place_of b \<mapsto> b)"
proof
  fix p assume none: "stock_row rows (place_of b) = None"
  have "stock_row (rows @ [b]) p = (case stock_row rows p of None \<Rightarrow> if place_of b = p then Some b else None | Some q \<Rightarrow> Some q)"
    unfolding stock_row_def by (induction rows) auto
  with none show "stock_row (rows @ [b]) p = ((stock_row rows)(place_of b \<mapsto> b)) p" by (auto split: option.splits)
qed

text \<open>A map over the rows that keeps the places and changes only the row at \<open>p\<close>.\<close>

lemma stock_row_map:
  assumes "\<And>b. b \<in> set rows \<Longrightarrow> place_of (f b) = place_of b"
    and "\<And>b. b \<in> set rows \<Longrightarrow> place_of b \<noteq> p \<Longrightarrow> f b = b"
    and "stock_row rows p = Some b0" "distinct (map place_of rows)"
  shows "stock_row (map f rows) = (stock_row rows)(p \<mapsto> f b0)"
proof
  fix q
  have other: "q \<noteq> p \<Longrightarrow> stock_row (map f xs) q = stock_row xs q" if "set xs \<subseteq> set rows" for xs
    using that assms(1,2) unfolding stock_row_def by (induction xs) auto
  have same: "set xs \<subseteq> set rows \<Longrightarrow> stock_row xs p = Some b0 \<Longrightarrow> stock_row (map f xs) p = Some (f b0)" for xs
    using assms(1) unfolding stock_row_def by (induction xs) (auto split: if_splits)
  show "stock_row (map f rows) q = ((stock_row rows)(p \<mapsto> f b0)) q"
    using other [of rows] same [of rows] assms(3) by simp
qed

lemma place_receive_into [simp]: "place_of (receive_into b b0) = place_of b0"
  by (simp add: place_of_def receive_into_def)

lemma place_withdraw [simp]: "place_of (withdraw q b) = place_of b"
  by (simp add: place_of_def withdraw_def)

lemma recv_ok_balances:
  "recv_ok s \<Longrightarrow> map bal_id rows = map bal_id (rdb_balances s) \<Longrightarrow> map place_of rows = map place_of (rdb_balances s)
   \<Longrightarrow> recv_ok (s\<lparr>rdb_balances := rows\<rparr>)"
  by (simp add: recv_ok_def)

lemma recv_upsert:
  assumes "recv_ok s" "rtx_upsertBalance recv_tx s b = Some s'"
  shows "recv_ok s' \<and> recv_view_of s' = (recv_view_of s)\<lparr>rv_stock := (rv_stock (recv_view_of s))(place_of b \<mapsto>
           (case rv_stock (recv_view_of s) (place_of b) of None \<Rightarrow> b | Some b0 \<Rightarrow> receive_into b b0))\<rparr>"
proof (cases "stock_row (rdb_balances s) (place_of b)")
  case None
  then have place: "place_of b \<notin> place_of ` set (rdb_balances s)"
    by (auto simp: stock_row_def find_None_iff)
  from None assms(2) have fresh: "bal_id b \<notin> bal_id ` set (rdb_balances s)"
    and s': "s' = s\<lparr>rdb_balances := rdb_balances s @ [b]\<rparr>"
    by (auto simp: recv_tx_def list_ex_iff image_iff split: if_splits)
  from place fresh assms(1) have "recv_ok s'" by (simp add: s' recv_ok_def)
  with None show ?thesis by (simp add: s' recv_view_of_def stock_row_append)
next
  case (Some b0)
  let ?f = "\<lambda>q. if place_of q = place_of b then receive_into b q else q"
  have s': "s' = s\<lparr>rdb_balances := map ?f (rdb_balances s)\<rparr>" using Some assms(2) by (simp add: recv_tx_def)
  have keep: "map bal_id (map ?f (rdb_balances s)) = map bal_id (rdb_balances s)"
    "map place_of (map ?f (rdb_balances s)) = map place_of (rdb_balances s)"
    by (simp_all add: receive_into_def) (simp add: place_of_def)
  have "stock_row (map ?f (rdb_balances s)) = (stock_row (rdb_balances s))(place_of b \<mapsto> ?f b0)"
    by (rule stock_row_map) (use Some assms(1) in \<open>auto simp: recv_ok_def\<close>)
  moreover have "place_of b0 = place_of b" using stock_rowD [OF Some] by simp
  ultimately have "stock_row (map ?f (rdb_balances s)) = (stock_row (rdb_balances s))(place_of b \<mapsto> receive_into b b0)"
    by simp
  moreover have "recv_ok s'" unfolding s' by (rule recv_ok_balances [OF assms(1) keep])
  ultimately show ?thesis using Some by (simp add: s' recv_view_of_def)
qed

lemma recv_decrement:
  assumes "recv_ok s" "rtx_decrementBalance recv_tx s k t v q = (s', 1)"
    and b: "rv_stock (recv_view_of s) p = Some b" "bal_id b = k"
  shows "at_least q (bal_onHandQuantity b) \<and> at_least q (bal_availableQuantity b)
    \<and> recv_ok s' \<and> recv_view_of s' = (recv_view_of s)\<lparr>rv_stock := (rv_stock (recv_view_of s))(p \<mapsto> withdraw q b)\<rparr>"
proof -
  let ?hit = "\<lambda>b. bal_id b = k \<and> bal_tenantId b = t \<and> bal_version b = v
              \<and> at_least q (bal_onHandQuantity b) \<and> at_least q (bal_availableQuantity b)"
  let ?f = "\<lambda>b. if ?hit b then withdraw q b else b"
  have s': "s' = s\<lparr>rdb_balances := map ?f (rdb_balances s)\<rparr>" and n: "length (filter ?hit (rdb_balances s)) = 1"
    using assms(2) by (simp_all add: recv_tx_def Let_def)
  have bs: "b \<in> set (rdb_balances s)" "place_of b = p" "stock_row (rdb_balances s) p = Some b"
    using b stock_rowD by (auto simp: recv_view_of_def)
  have uniq: "c \<in> set (rdb_balances s) \<Longrightarrow> bal_id c = k \<Longrightarrow> c = b" for c
    using assms(1) bs(1) b(2) by (auto simp: recv_ok_def distinct_map dest: inj_onD)
  from n obtain c where "filter ?hit (rdb_balances s) = [c]" by (auto simp: length_Suc_conv)
  then have "c \<in> set (filter ?hit (rdb_balances s))" by simp
  then have "?hit c" "c = b" using uniq by auto
  then have hit: "?hit b" by simp
  have keep: "map bal_id (map ?f (rdb_balances s)) = map bal_id (rdb_balances s)"
    "map place_of (map ?f (rdb_balances s)) = map place_of (rdb_balances s)"
    by (simp_all add: withdraw_def) (simp add: place_of_def)
  have "stock_row (map ?f (rdb_balances s)) = (stock_row (rdb_balances s))(p \<mapsto> ?f b)"
    by (rule stock_row_map) (use bs uniq assms(1) in \<open>auto simp: recv_ok_def\<close>)
  then have st: "stock_row (map ?f (rdb_balances s)) = (stock_row (rdb_balances s))(p \<mapsto> withdraw q b)"
    using hit by simp
  have "recv_ok s'" unfolding s' by (rule recv_ok_balances [OF assms(1) keep])
  then show ?thesis using hit st by (simp add: s' recv_view_of_def)
qed

lemma lines_set_line [simp]: "map pol_id (po_lines (set_line k q po)) = map pol_id (po_lines po)"
  by (auto simp: set_line_def set_received_def)

lemma recv_guarded_ok:
  assumes "guarded po_id d g f (rdb_orders s) = (rows, 1)" "recv_ok s"
    and "\<And>po. distinct (map pol_id (po_lines po)) \<Longrightarrow> distinct (map pol_id (po_lines (f po)))"
  shows "recv_ok (s\<lparr>rdb_orders := rows\<rparr>) \<and> (\<exists>po. rv_orders (recv_view_of s) d = Some po \<and> g po
     \<and> recv_view_of (s\<lparr>rdb_orders := rows\<rparr>) = (recv_view_of s)\<lparr>rv_orders := (rv_orders (recv_view_of s))(d \<mapsto> f po)\<rparr>)"
proof -
  obtain r where r: "row_by po_id (rdb_orders s) d = Some r" "g r"
    "row_by po_id rows = (row_by po_id (rdb_orders s))(d \<mapsto> f r)" "set rows \<subseteq> insert (f r) (set (rdb_orders s))"
    using guarded_hit [OF assms(1)] by blast
  then have "r \<in> set (rdb_orders s)" using row_by_key by fast
  then have "recv_ok (s\<lparr>rdb_orders := rows\<rparr>)" using assms(2,3) r(4) by (auto simp: recv_ok_def list_all_iff)
  then show ?thesis using r by (auto simp: recv_view_of_def)
qed

interpretation list_receiving: receiving_store recv_tx recv_view_of recv_ok
proof unfold_locales
  show "recv_ok s \<Longrightarrow> rtx_upsertBalance recv_tx s b = Some s' \<Longrightarrow> recv_ok s' \<and>
      recv_view_of s' = (recv_view_of s)\<lparr>rv_stock := (rv_stock (recv_view_of s))(place_of b \<mapsto>
           (case rv_stock (recv_view_of s) (place_of b) of None \<Rightarrow> b | Some b0 \<Rightarrow> receive_into b b0))\<rparr>" for s b s'
    by (rule recv_upsert)
next
  fix s k t v q s' p b
  assume "recv_ok s" "rtx_decrementBalance recv_tx s k t v q = (s', 1)"
    "rv_stock (recv_view_of s) p = Some b" "bal_id b = k"
  then show "at_least q (bal_onHandQuantity b) \<and> at_least q (bal_availableQuantity b)
    \<and> recv_ok s' \<and> recv_view_of s' = (recv_view_of s)\<lparr>rv_stock := (rv_stock (recv_view_of s))(p \<mapsto> withdraw q b)\<rparr>"
    by (rule recv_decrement)
next
  fix s k d v bound q s'
  assume okay: "recv_ok s" and u: "rtx_updateOrderLine recv_tx s k d v bound q = (s', 1)"
  let ?g = "\<lambda>po. list_ex (\<lambda>l. pol_id l = k \<and> pol_version l = v
               \<and> (case bound of None \<Rightarrow> True | Some c \<Rightarrow> at_least c (pol_receivedQuantity l))) (po_lines po)"
  obtain rows where g: "guarded po_id d ?g (set_line k q) (rdb_orders s) = (rows, 1)" "s' = s\<lparr>rdb_orders := rows\<rparr>"
    using u by (auto simp: recv_tx_def split: prod.splits)
  from recv_guarded_ok [OF g(1) okay] show "recv_ok s' \<and> (\<exists>po l. rv_orders (recv_view_of s) d = Some po
      \<and> l \<in> set (po_lines po) \<and> pol_id l = k \<and> pol_version l = v
      \<and> (case bound of None \<Rightarrow> True | Some c \<Rightarrow> at_least c (pol_receivedQuantity l))
      \<and> recv_view_of s' = (recv_view_of s)\<lparr>rv_orders := (rv_orders (recv_view_of s))(d \<mapsto> set_line k q po)\<rparr>)"
    unfolding g(2) by (auto simp: list_ex_iff)
next
  fix s d t v st base s'
  assume okay: "recv_ok s" and u: "rtx_updateOrder recv_tx s d t v st base = (s', 1)"
  obtain rows where g: "guarded po_id d (\<lambda>po. po_tenantId po = t \<and> po_version po = v) (set_status st base) (rdb_orders s) = (rows, 1)"
    "s' = s\<lparr>rdb_orders := rows\<rparr>"
    using u by (auto simp: recv_tx_def split: prod.splits)
  from recv_guarded_ok [OF g(1) okay] show "recv_ok s' \<and> (\<exists>po. rv_orders (recv_view_of s) d = Some po
      \<and> po_tenantId po = t \<and> po_version po = v
      \<and> recv_view_of s' = (recv_view_of s)\<lparr>rv_orders := (rv_orders (recv_view_of s))(d \<mapsto> set_status st base po)\<rparr>)"
    unfolding g(2) by (simp add: set_status_def)
next
  fix s d t v required st s'
  assume okay: "recv_ok s" and u: "rtx_updateReceiving recv_tx s d t v required st = (s', 1)"
  obtain rows where g: "guarded rd_id d (\<lambda>x. rd_tenantId x = t \<and> rd_version x = v \<and> rd_postingStatus x = required)
      (set_posting st) (rdb_docs s) = (rows, 1)" "s' = s\<lparr>rdb_docs := rows\<rparr>"
    using u by (auto simp: recv_tx_def split: prod.splits)
  from guarded_hit [OF g(1)] obtain r where r: "row_by rd_id (rdb_docs s) d = Some r"
    "rd_tenantId r = t \<and> rd_version r = v \<and> rd_postingStatus r = required"
    "row_by rd_id rows = (row_by rd_id (rdb_docs s))(d \<mapsto> set_posting st r)"
    "set rows \<subseteq> insert (set_posting st r) (set (rdb_docs s))"
    by blast
  then have "r \<in> set (rdb_docs s)" using row_by_key by fast
  then have "recv_ok s'" using okay r(4) unfolding g(2) by (auto simp: recv_ok_def list_all_iff set_posting_def)
  then show "recv_ok s' \<and> (\<exists>doc. rv_docs (recv_view_of s) d = Some doc \<and> rd_tenantId doc = t \<and> rd_version doc = v
           \<and> rd_postingStatus doc = required
           \<and> recv_view_of s' = (recv_view_of s)\<lparr>rv_docs := (rv_docs (recv_view_of s))(d \<mapsto> set_posting st doc)\<rparr>)"
    using r unfolding g(2) by (auto simp: recv_view_of_def)
qed (auto simp: recv_tx_def recv_view_of_def recv_ok_def list_all_iff dest: row_by_key stock_rowD split: if_splits)

end
