(* ===== verification/Receiving_Ledger.thy ===== *)
theory Receiving_Ledger
  imports Receiving_Store Balance_Quantities
begin

text \<open>
  What receiving promises, as a machine on numbers: the stock at each place, the received quantity
  of each order line and the posting status of each document (\<open>receipts\<close>). \<open>post_receipt\<close> and
  \<open>reverse_receipt\<close> are its two operations, computed from the lines of the document alone. The work
  functions refine them: \<open>posting_refines\<close> and \<open>reversing_refines\<close>, proved for any database that
  satisfies \<open>receiving_store\<close>.

  \<open>shifted\<close> says what an iteration of either loop does to the tables; it composes, so each loop is
  one induction.
\<close>

section \<open>The machine on numbers\<close>

record receipts =
  rc_stock :: "place \<Rightarrow> int"
  rc_received :: "string \<Rightarrow> string \<Rightarrow> int"
  rc_posting :: "string \<Rightarrow> string option"

definition line_place :: "string \<Rightarrow> receiving_document \<Rightarrow> receiving_line \<Rightarrow> place" where
  "line_place t doc l =
     (t, js_text (rl_sku l), js_text (text_or (rl_warehouseId l) (rd_warehouseId doc)),
      receivingLocationKey (rl_location l))"

abbreviation accepted_of :: "receiving_line \<Rightarrow> int" where
  "accepted_of l \<equiv> column_units (rl_acceptedQty l)"

definition accepted_at :: "receiving_document \<Rightarrow> place \<Rightarrow> int" where
  "accepted_at doc = sum_at (line_place (rd_tenantId doc) doc) accepted_of (rd_lines doc)"

definition accepted_to :: "receiving_document \<Rightarrow> string \<Rightarrow> string \<Rightarrow> int" where
  "accepted_to doc orderId k =
     (if rd_poId doc = Some orderId then sum_at rl_purchaseOrderLineId accepted_of (rd_lines doc) (Some k) else 0)"

definition post_receipt :: "receiving_document \<Rightarrow> receipts \<Rightarrow> receipts" where
  "post_receipt doc r =
     \<lparr>rc_stock = (\<lambda>p. rc_stock r p + accepted_at doc p),
      rc_received = (\<lambda>d k. rc_received r d k + accepted_to doc d k),
      rc_posting = (rc_posting r)(rd_id doc \<mapsto> ''posted'')\<rparr>"

definition reverse_receipt :: "receiving_document \<Rightarrow> receipts \<Rightarrow> receipts" where
  "reverse_receipt doc r =
     \<lparr>rc_stock = (\<lambda>p. rc_stock r p - accepted_at doc p),
      rc_received = (\<lambda>d k. rc_received r d k - accepted_to doc d k),
      rc_posting = (rc_posting r)(rd_id doc \<mapsto> ''reversed'')\<rparr>"

definition on_hand_at :: "recv_view \<Rightarrow> place \<Rightarrow> int" where
  "on_hand_at v p = (case rv_stock v p of None \<Rightarrow> 0 | Some b \<Rightarrow> on_hand b)"

abbreviation line_assoc :: "po_line list \<Rightarrow> (string \<times> po_line) list" where
  "line_assoc ls \<equiv> map (\<lambda>l. (pol_id l, l)) ls"

definition received_in :: "po_line list \<Rightarrow> string \<Rightarrow> int" where
  "received_in ls k = (case map_of (line_assoc ls) k of None \<Rightarrow> 0 | Some l \<Rightarrow> received_of l)"

definition numbers :: "recv_view \<Rightarrow> receipts" where
  "numbers v =
     \<lparr>rc_stock = on_hand_at v,
      rc_received = (\<lambda>d k. case rv_orders v d of None \<Rightarrow> 0 | Some po \<Rightarrow> received_in (po_lines po) k),
      rc_posting = (\<lambda>d. map_option rd_postingStatus (rv_docs v d))\<rparr>"

section \<open>What the tables satisfy\<close>

definition stock_fine :: "recv_view \<Rightarrow> bool" where
  "stock_fine v \<longleftrightarrow> (\<forall>p b. rv_stock v p = Some b \<longrightarrow>
     bal_onHandQuantity b \<noteq> None \<and> bal_availableQuantity b \<noteq> None \<and> balance_ok b)"

definition move_place :: "receipt_movement \<Rightarrow> place" where
  "move_place m = (mov_tenantId m, mov_sku m, js_text (mov_warehouseId m), mov_locationKey m)"

definition move_total :: "recv_view \<Rightarrow> place \<Rightarrow> int" where
  "move_total v = sum_at move_place (\<lambda>m. column_units (mov_quantityIn m) - column_units (mov_quantityOut m)) (rv_moves v)"

definition receipt_fact :: "receipt_movement \<Rightarrow> place \<times> string option \<times> int" where
  "receipt_fact m = (move_place m, mov_sourceDocumentLineId m, column_units (mov_quantityIn m))"

definition receipt_facts :: "recv_view \<Rightarrow> string \<Rightarrow> string \<Rightarrow> (place \<times> string option \<times> int) multiset" where
  "receipt_facts v t d = image_mset receipt_fact (filter_mset (is_receipt t d) (mset (rv_moves v)))"

definition line_fact :: "receiving_document \<Rightarrow> receiving_line \<Rightarrow> place \<times> string option \<times> int" where
  "line_fact doc l = (line_place (rd_tenantId doc) doc l, Some (rl_id l), accepted_of l)"

text \<open>An unposted document has no receipt movements; a posted one has one for each of its lines, all
  positive.\<close>

definition receipts_match :: "recv_view \<Rightarrow> bool" where
  "receipts_match v \<longleftrightarrow> (\<forall>d doc. rv_docs v d = Some doc \<longrightarrow>
     (rd_postingStatus doc = ''unposted'' \<longrightarrow> receipt_facts v (rd_tenantId doc) d = {#})
     \<and> (rd_postingStatus doc = ''posted'' \<longrightarrow>
          receipt_facts v (rd_tenantId doc) d = mset (map (line_fact doc) (rd_lines doc))
          \<and> (\<forall>l\<in>set (rd_lines doc). 0 < accepted_of l)))"

text \<open>No order line has received less than nothing or more than was ordered.\<close>

definition within_order :: "po_line list \<Rightarrow> bool" where
  "within_order ls \<longleftrightarrow> (\<forall>l\<in>set ls. 0 \<le> received_of l \<and> received_of l \<le> ordered_of l)"

definition never_over_received :: "recv_view \<Rightarrow> bool" where
  "never_over_received v \<longleftrightarrow> (\<forall>d po. rv_orders v d = Some po \<longrightarrow> within_order (po_lines po))"

text \<open>An order whose lines received \<open>g\<close> more.\<close>

definition grown :: "(string \<Rightarrow> int) \<Rightarrow> po_line list \<Rightarrow> po_line list \<Rightarrow> bool" where
  "grown g = list_all2 (\<lambda>l l'. pol_id l' = pol_id l \<and> pol_orderedQuantity l' = pol_orderedQuantity l
     \<and> received_of l' = received_of l + g (pol_id l))"

definition shifted :: "string \<Rightarrow> (place \<Rightarrow> int) \<Rightarrow> (string \<Rightarrow> int) \<Rightarrow> recv_view \<Rightarrow> recv_view \<Rightarrow> bool" where
  "shifted d f g v v' \<longleftrightarrow>
     rv_docs v' = rv_docs v \<and> (\<forall>p. move_total v' p = move_total v p + f p)
     \<and> (stock_fine v \<longrightarrow> stock_fine v' \<and> (\<forall>p. on_hand_at v' p = on_hand_at v p + f p))
     \<and> (\<exists>po ls. rv_orders v d = Some po \<and> rv_orders v' = (rv_orders v)(d \<mapsto> po\<lparr>po_lines := ls\<rparr>)
          \<and> grown g (po_lines po) ls)"

lemma grown_refl: "(\<And>k. g k = 0) \<Longrightarrow> grown g ls ls"
  by (simp add: grown_def list_all2_same)

lemma grown_trans: "grown g ls ms \<Longrightarrow> grown h ms ns \<Longrightarrow> grown (\<lambda>k. g k + h k) ls ns"
  unfolding grown_def by (rule list_all2_trans) auto

lemma grown_ids: "grown g ls ms \<Longrightarrow> map pol_id ms = map pol_id ls"
  unfolding grown_def by (induction rule: list_all2_induct) auto

lemma grown_received_in: "grown g ls ms \<Longrightarrow> k \<in> pol_id ` set ls \<Longrightarrow> received_in ms k = received_in ls k + g k"
  unfolding grown_def by (induction rule: list_all2_induct) (auto simp: received_in_def)

lemma received_in_no_line: "k \<notin> pol_id ` set ls \<Longrightarrow> received_in ls k = 0"
  by (induction ls) (auto simp: received_in_def)

lemma shifted_refl:
  "rv_orders v d = Some po \<Longrightarrow> (\<And>p. f p = 0) \<Longrightarrow> (\<And>k. g k = 0) \<Longrightarrow> shifted d f g v v"
  by (auto simp: shifted_def intro!: exI [of _ "po_lines po"] grown_refl)

lemma shifted_trans:
  assumes "shifted d f g v u" "shifted d f' g' u w"
  shows "shifted d (\<lambda>p. f p + f' p) (\<lambda>k. g k + g' k) v w"
proof -
  obtain po :: purchase_order and ls where o: "rv_orders v d = Some po"
    "rv_orders u = (rv_orders v)(d \<mapsto> po\<lparr>po_lines := ls\<rparr>)" "grown g (po_lines po) ls"
    using assms(1) unfolding shifted_def by blast
  obtain po' :: purchase_order and ms where o': "rv_orders u d = Some po'"
    "rv_orders w = (rv_orders u)(d \<mapsto> po'\<lparr>po_lines := ms\<rparr>)" "grown g' (po_lines po') ms"
    using assms(2) unfolding shifted_def by blast
  have po': "po' = po\<lparr>po_lines := ls\<rparr>" using o(2) o'(1) by simp
  then have "grown g' ls ms" using o'(3) by simp
  then have "grown (\<lambda>k. g k + g' k) (po_lines po) ms" by (rule grown_trans [OF o(3)])
  moreover have "rv_orders w = (rv_orders v)(d \<mapsto> po\<lparr>po_lines := ms\<rparr>)" using o(2) o'(2) po' by simp
  ultimately show ?thesis using assms o(1) unfolding shifted_def by auto
qed

text \<open>Replacing one line of an order with distinct lines.\<close>

lemma set_line_grown:
  assumes "distinct (map pol_id (po_lines po))" "l \<in> set (po_lines po)"
  shows "grown (\<lambda>k. if k = pol_id l then q - received_of l else 0) (po_lines po) (po_lines (set_line (pol_id l) q po))"
proof -
  have "x \<in> set (po_lines po) \<Longrightarrow> pol_id x = pol_id l \<Longrightarrow> x = l" for x
    using assms by (auto simp: distinct_map dest: inj_onD)
  then show ?thesis
    by (auto simp: grown_def set_line_def set_received_def list_all2_conv_all_nth dest!: nth_mem)
qed

lemma set_line_assoc:
  assumes "distinct (map pol_id ls)" "l \<in> set ls"
  shows "AList.update (pol_id l) (set_received q l) (line_assoc ls)
    = line_assoc (map (\<lambda>x. if pol_id x = pol_id l then set_received q x else x) ls)"
  using assms
proof (induction ls)
  case (Cons x xs)
  show ?case
  proof (cases "pol_id x = pol_id l")
    case True
    then have xl: "x = l" using Cons.prems by (auto simp: distinct_map dest: inj_onD)
    have "map (\<lambda>y. if pol_id y = pol_id l then set_received q y else y) xs = xs"
      using Cons.prems(1) True by (intro map_idI) (auto simp: image_iff)
    then show ?thesis using xl by (simp add: set_received_def)
  next
    case False
    then show ?thesis using Cons by auto
  qed
qed simp

lemma update_new: "k \<notin> fst ` set m \<Longrightarrow> AList.update k v m = m @ [(k, v)]"
  by (induction m) auto

lemma line_map_distinct:
  assumes "distinct (map pol_id ls)"
  shows "line_map ls = line_assoc ls"
proof -
  have "fold (\<lambda>l m. AList.update (pol_id l) l m) xs m = m @ line_assoc xs"
    if "distinct (map pol_id xs)" "pol_id ` set xs \<inter> fst ` set m = {}" for xs m
    using that
  proof (induction xs arbitrary: m)
    case (Cons x xs)
    have "AList.update (pol_id x) x m = m @ [(pol_id x, x)]"
      using Cons.prems(2) by (intro update_new) auto
    then show ?case using Cons by auto
  qed simp
  then show ?thesis using assms by (simp add: line_map_def)
qed

end
