(* ===== verification/Receiving_Refinement.thy ===== *)
theory Receiving_Refinement
  imports Receiving_Ledger
begin

text \<open>
  Posting and reversing a receipt refine the machine on numbers of \<open>Receiving_Ledger\<close>.
\<close>

section \<open>The quantity plans of an allowed posting\<close>

definition plan_place :: "string \<Rightarrow> quantity_plan \<Rightarrow> place" where
  "plan_place t p = (t, qp_sku p, qp_warehouseId p, qp_locationKey p)"

abbreviation plan_key :: "quantity_plan \<Rightarrow> string" where
  "plan_key p \<equiv> pol_id (qp_poLine p)"

definition plan_for :: "string \<Rightarrow> receiving_document \<Rightarrow> purchase_order \<Rightarrow> receiving_line \<Rightarrow> quantity_plan \<Rightarrow> bool" where
  "plan_for t doc po l p \<longleftrightarrow>
     qp_line p = l \<and> plan_place t p = line_place t doc l \<and> qp_accepted p = accepted_of l \<and> 0 < qp_accepted p
     \<and> rl_purchaseOrderLineId l = Some (plan_key p) \<and> last_by pol_id (po_lines po) (plan_key p) = Some (qp_poLine p)
     \<and> js_trim (qp_warehouseId p) = qp_warehouseId p"

lemma js_text_Some [simp]: "js_text (Some s) = js_trim s"
  by (simp add: js_text_def)

lemma js_trim_text [simp]: "js_trim (js_text v) = js_text v"
  by (cases v) simp_all

lemma posting_lines_plans:
  assumes "posting_lines tx s t doc po lines acc = ([], plans, acc')"
  shows "list_all2 (plan_for t doc po) lines plans
    \<and> (\<forall>k. get0 acc' k = get0 acc k + sum_at plan_key qp_accepted plans k)
    \<and> (\<forall>p\<in>set plans. received_of (qp_poLine p) + get0 acc' (plan_key p) \<le> ordered_of (qp_poLine p))"
  using assms
proof (induction lines arbitrary: acc plans)
  case (Cons l ls)
  obtain poLine where po: "Option.bind (rl_purchaseOrderLineId l) (last_by pol_id (po_lines po)) = Some poLine"
    using Cons.prems by (auto simp: Let_def split: option.splits prod.splits)
  then have po_id: "rl_purchaseOrderLineId l = Some (pol_id poLine)"
    "last_by pol_id (po_lines po) (pol_id poLine) = Some poLine"
    by (auto simp: bind_eq_Some_conv dest: last_byD)
  let ?acc = "add_at (pol_id poLine) (accepted_of l) acc"
  obtain p ps where plans: "plans = p # ps" and rest: "posting_lines tx s t doc po ls ?acc = ([], ps, acc')"
    and p: "plan_for t doc po l p" "qp_poLine p = poLine"
    and bound: "received_of poLine + get0 ?acc (pol_id poLine) \<le> ordered_of poLine"
    using Cons.prems po po_id
    by (auto simp: Let_def plan_for_def plan_place_def line_place_def receivingLocationKey_def split: prod.splits)
  note IH = Cons.IH [OF rest]
  have key: "plan_key p = pol_id poLine" "qp_accepted p = accepted_of l"
    using p by (simp_all add: plan_for_def)
  have total: "get0 acc' k = get0 acc k + sum_at plan_key qp_accepted plans k" for k
    using IH key by (simp add: plans)
  have "received_of (qp_poLine p) + get0 acc' (plan_key p) \<le> ordered_of (qp_poLine p)"
  proof (cases "plan_key p \<in> plan_key ` set ps")
    case True
    then obtain q where q: "q \<in> set ps" "plan_key q = plan_key p" by auto
    from IH q(1) obtain l' where "plan_for t doc po l' q" by (metis list_all2_conv_all_nth in_set_conv_nth)
    then have "qp_poLine q = poLine" using q(2) key(1) po_id(2) by (simp add: plan_for_def)
    then show ?thesis using IH q(1) p(2) by auto
  next
    case False
    then have "get0 acc' (plan_key p) = get0 ?acc (plan_key p)"
      using IH sum_at_no_key [of "plan_key p" plan_key ps] by simp
    then show ?thesis using bound p(2) by simp
  qed
  moreover have "\<forall>q\<in>set ps. received_of (qp_poLine q) + get0 acc' (plan_key q) \<le> ordered_of (qp_poLine q)"
    using IH by blast
  ultimately have "\<forall>q\<in>set plans. received_of (qp_poLine q) + get0 acc' (plan_key q) \<le> ordered_of (qp_poLine q)"
    unfolding plans list.set by blast
  moreover have "list_all2 (plan_for t doc po) (l # ls) plans" using IH p(1) by (simp add: plans)
  ultimately show ?case using total by blast
qed simp

lemma posting_plan_allowed:
  assumes "rp_blockingIssues (buildReceivingPostingPlan tx s t doc po) = []"
  shows "rd_postingStatus doc = ''unposted''"
    "list_all2 (plan_for t doc po) (rd_lines doc) (rp_quantityPlans (buildReceivingPostingPlan tx s t doc po))"
    "\<forall>p\<in>set (rp_quantityPlans (buildReceivingPostingPlan tx s t doc po)).
       received_of (qp_poLine p)
         + sum_at plan_key qp_accepted (rp_quantityPlans (buildReceivingPostingPlan tx s t doc po)) (plan_key p)
       \<le> ordered_of (qp_poLine p)"
proof -
  obtain issues ps acc where eq: "posting_lines tx s t doc po (rd_lines doc) [] = (issues, ps, acc)"
    by (cases "posting_lines tx s t doc po (rd_lines doc) []") auto
  then have nil: "issues = []" and ps: "rp_quantityPlans (buildReceivingPostingPlan tx s t doc po) = ps"
    and st: "rd_postingStatus doc = ''unposted''"
    using assms by (simp_all add: buildReceivingPostingPlan_def Let_def)
  from posting_lines_plans [OF eq [unfolded nil]]
  show "list_all2 (plan_for t doc po) (rd_lines doc) (rp_quantityPlans (buildReceivingPostingPlan tx s t doc po))"
    "\<forall>p\<in>set (rp_quantityPlans (buildReceivingPostingPlan tx s t doc po)).
       received_of (qp_poLine p)
         + sum_at plan_key qp_accepted (rp_quantityPlans (buildReceivingPostingPlan tx s t doc po)) (plan_key p)
       \<le> ordered_of (qp_poLine p)"
    unfolding ps by auto
  show "rd_postingStatus doc = ''unposted''" by (rule st)
qed

section \<open>One iteration\<close>

lemma on_hand_at_upd: "on_hand_at (w\<lparr>rv_stock := (rv_stock v)(p \<mapsto> b)\<rparr>) q = (if q = p then on_hand b else on_hand_at v q)"
  by (simp add: on_hand_at_def)

lemma on_hand_at_frame [simp]:
  "on_hand_at (v\<lparr>rv_moves := ms\<rparr>) = on_hand_at v" "on_hand_at (v\<lparr>rv_orders := os\<rparr>) = on_hand_at v"
  "on_hand_at (v\<lparr>rv_docs := ds\<rparr>) = on_hand_at v"
  by (simp_all add: on_hand_at_def fun_eq_iff)

lemma stock_fine_frame [simp]:
  "stock_fine (v\<lparr>rv_moves := ms\<rparr>) = stock_fine v" "stock_fine (v\<lparr>rv_orders := os\<rparr>) = stock_fine v"
  "stock_fine (v\<lparr>rv_docs := ds\<rparr>) = stock_fine v"
  by (simp_all add: stock_fine_def)

lemma move_total_frame [simp]:
  "move_total (v\<lparr>rv_stock := st\<rparr>) = move_total v" "move_total (v\<lparr>rv_orders := os\<rparr>) = move_total v"
  "move_total (v\<lparr>rv_docs := ds\<rparr>) = move_total v"
  by (simp_all add: move_total_def)

lemma move_total_append:
  "move_total (v\<lparr>rv_moves := rv_moves v @ [m]\<rparr>) p = move_total v p
     + (if move_place m = p then column_units (mov_quantityIn m) - column_units (mov_quantityOut m) else 0)"
  by (simp add: move_total_def)

lemma move_total_reversed:
  "move_total (v\<lparr>rv_moves := map (\<lambda>m. if mov_id m = k then m\<lparr>mov_reversedByMovementId := r\<rparr> else m) (rv_moves v)\<rparr>)
     = move_total v"
proof -
  have "sum_at move_place (\<lambda>m. column_units (mov_quantityIn m) - column_units (mov_quantityOut m))
      (map (\<lambda>m. if mov_id m = k then m\<lparr>mov_reversedByMovementId := r\<rparr> else m) ms) p
    = sum_at move_place (\<lambda>m. column_units (mov_quantityIn m) - column_units (mov_quantityOut m)) ms p" for ms p
    by (induction ms) (auto simp: move_place_def)
  then show ?thesis by (simp add: move_total_def fun_eq_iff)
qed

lemma stock_fine_upd:
  "stock_fine v \<Longrightarrow> bal_onHandQuantity b \<noteq> None \<Longrightarrow> bal_availableQuantity b \<noteq> None \<Longrightarrow> balance_ok b
   \<Longrightarrow> stock_fine (w\<lparr>rv_stock := (rv_stock v)(p \<mapsto> b)\<rparr>)"
  by (simp add: stock_fine_def)

lemma receive_into_fine:
  assumes "bal_onHandQuantity b0 \<noteq> None" "bal_availableQuantity b0 \<noteq> None" "balance_ok b0"
    and "bal_onHandQuantity b = Some q" "bal_availableQuantity b = Some q" "0 \<le> q"
  shows "on_hand (receive_into b b0) = on_hand b0 + q" "balance_ok (receive_into b b0)"
    "bal_onHandQuantity (receive_into b b0) \<noteq> None" "bal_availableQuantity (receive_into b b0) \<noteq> None"
  using assms by (auto simp: receive_into_def balance_ok_def quantity_defs)

lemma withdraw_fine:
  assumes "at_least q (bal_onHandQuantity b)" "at_least q (bal_availableQuantity b)" "balance_ok b"
  shows "on_hand (withdraw q b) = on_hand b - q" "balance_ok (withdraw q b)"
    "bal_onHandQuantity (withdraw q b) \<noteq> None" "bal_availableQuantity (withdraw q b) \<noteq> None"
  using assms by (auto simp: withdraw_def balance_ok_def quantity_defs at_least_def split: option.splits)

context receiving_store
begin

lemma upsert_shift:
  assumes "ok s" "rtx_upsertBalance tx s (received_balance k t p) = Some s'" "0 \<le> qp_accepted p"
  shows "ok s' \<and> (\<exists>st. view s' = (view s)\<lparr>rv_stock := st\<rparr>) \<and> (stock_fine (view s) \<longrightarrow> stock_fine (view s')
    \<and> (\<forall>x. on_hand_at (view s') x = on_hand_at (view s) x + (if x = plan_place t p then qp_accepted p else 0)))"
proof -
  let ?b = "received_balance k t p"
  have pl: "place_of ?b = plan_place t p" by (simp add: received_balance_def place_of_def plan_place_def)
  have q: "bal_onHandQuantity ?b = Some (qp_accepted p)" "bal_availableQuantity ?b = Some (qp_accepted p)"
    and okb: "balance_ok ?b" "on_hand ?b = qp_accepted p"
    using assms(3) by (auto simp: received_balance_def balance_ok_def quantity_defs)
  note u = upsert_balance [OF assms(1,2), unfolded pl]
  show ?thesis
  proof (cases "rv_stock (view s) (plan_place t p)")
    case None
    then have "on_hand_at (view s) (plan_place t p) = 0" by (simp add: on_hand_at_def)
    with None u q okb show ?thesis by (auto simp: on_hand_at_upd stock_fine_upd)
  next
    case (Some b0)
    have fine: "stock_fine (view s) \<Longrightarrow> bal_onHandQuantity b0 \<noteq> None \<and> bal_availableQuantity b0 \<noteq> None \<and> balance_ok b0"
      using Some unfolding stock_fine_def by blast
    have at: "on_hand_at (view s) (plan_place t p) = on_hand b0" using Some by (simp add: on_hand_at_def)
    show ?thesis using u Some fine at receive_into_fine [OF _ _ _ q assms(3), of b0]
      by (auto simp: on_hand_at_upd stock_fine_upd)
  qed
qed

lemma line_shift:
  assumes "ok s" "rtx_updateOrderLine tx s (pol_id cur) d v bound q = (s', 1)"
    and "rv_orders (view s) d = Some po" "cur \<in> set (po_lines po)"
  shows "ok s' \<and> view s' = (view s)\<lparr>rv_orders := (rv_orders (view s))(d \<mapsto> set_line (pol_id cur) q po)\<rparr>
    \<and> grown (\<lambda>k. if k = pol_id cur then q - received_of cur else 0) (po_lines po) (po_lines (set_line (pol_id cur) q po))
    \<and> AList.update (pol_id cur) (set_received q cur) (line_assoc (po_lines po))
        = line_assoc (po_lines (set_line (pol_id cur) q po))"
  using update_order_line [OF assms(1,2)] assms(3,4) distinct_lines(2) [OF assms(1,3)]
    set_line_grown [OF distinct_lines(2) [OF assms(1,3)] assms(4)]
    set_line_assoc [OF distinct_lines(2) [OF assms(1,3)] assms(4)]
  by (auto simp: set_line_def)

lemma set_line_only_lines: "set_line k q po = po\<lparr>po_lines := po_lines (set_line k q po)\<rparr>"
  by (simp add: set_line_def)

lemma post_lines_shift:
  assumes "post_lines tx gen t docId d n plans m s = Inr (m', s', ids)" "ok s"
    and "rv_orders (view s) d = Some po" "m = line_assoc (po_lines po)"
    and "\<And>p. p \<in> set plans \<Longrightarrow> 0 \<le> qp_accepted p \<and> js_trim (qp_warehouseId p) = qp_warehouseId p"
  shows "ok s' \<and> shifted d (sum_at (plan_place t) qp_accepted plans) (sum_at plan_key qp_accepted plans) (view s) (view s')
    \<and> (\<exists>po'. rv_orders (view s') d = Some po' \<and> m' = line_assoc (po_lines po'))
    \<and> (\<exists>new. rv_moves (view s') = rv_moves (view s) @ new
        \<and> list_all2 (\<lambda>p r. \<exists>k. r = receipt_row k t docId (gen 1) p) plans new)"
  using assms
proof (induction plans arbitrary: n m s po m' s' ids)
  case Nil
  then show ?case by (auto intro: shifted_refl)
next
  case (Cons p plans)
  obtain s1 s2 s3 cur c where
    c1: "rtx_createMovement tx s (receipt_row (gen n) t docId (gen 1) p) = Some s1" and
    c2: "rtx_upsertBalance tx s1 (received_balance (gen (Suc n)) t p) = Some s2" and
    c3: "map_of m (plan_key p) = Some cur" and
    c4: "rtx_updateOrderLine tx s2 (pol_id cur) d (pol_version cur) None (received_of cur + qp_accepted p) = (s3, c)" and
    c5: "c = 1" and
    c6: "\<exists>ids'. post_lines tx gen t docId d (Suc (Suc n)) plans
           (AList.update (plan_key p) (set_received (received_of cur + qp_accepted p) cur) m) s3 = Inr (m', s', ids')"
    using Cons.prems(1) by (auto simp: Let_def split: option.splits prod.splits if_splits sum.splits)
  have q: "0 \<le> qp_accepted p" "js_trim (qp_warehouseId p) = qp_warehouseId p" using Cons.prems(5) by auto
  have cur: "cur \<in> set (po_lines po)" "pol_id cur = plan_key p"
    using c3 Cons.prems(4) by (auto dest!: map_of_SomeD)
  let ?row = "receipt_row (gen n) t docId (gen 1) p"
  have s1: "ok s1" "view s1 = (view s)\<lparr>rv_moves := rv_moves (view s) @ [?row]\<rparr>"
    using create_movement [OF Cons.prems(2) c1] by auto
  obtain st where s2: "ok s2" "view s2 = (view s1)\<lparr>rv_stock := st\<rparr>"
    "stock_fine (view s1) \<longrightarrow> stock_fine (view s2)
      \<and> (\<forall>x. on_hand_at (view s2) x = on_hand_at (view s1) x + (if x = plan_place t p then qp_accepted p else 0))"
    using upsert_shift [OF s1(1) c2 q(1)] by blast
  have o2: "rv_orders (view s2) d = Some po" using Cons.prems(3) s1(2) s2(2) by simp
  let ?po = "set_line (pol_id cur) (received_of cur + qp_accepted p) po"
  note ls = line_shift [OF s2(1) c4 [unfolded c5] o2 cur(1)]
  have row: "move_place ?row = plan_place t p"
    "column_units (mov_quantityIn ?row) - column_units (mov_quantityOut ?row) = qp_accepted p"
    using q(2) by (simp_all add: receipt_row_def move_place_def plan_place_def)
  have one: "shifted d (\<lambda>x. if plan_place t p = x then qp_accepted p else 0) (\<lambda>k. if plan_key p = k then qp_accepted p else 0)
      (view s) (view s3)"
    unfolding shifted_def
  proof (intro conjI)
    show "rv_docs (view s3) = rv_docs (view s)" using ls s1(2) s2(2) by simp
    show "\<forall>x. move_total (view s3) x = move_total (view s) x + (if plan_place t p = x then qp_accepted p else 0)"
      using ls s1(2) s2(2) row by (simp add: move_total_append)
    show "stock_fine (view s) \<longrightarrow> stock_fine (view s3)
      \<and> (\<forall>x. on_hand_at (view s3) x = on_hand_at (view s) x + (if plan_place t p = x then qp_accepted p else 0))"
      using ls s1(2) s2(3) by (simp add: eq_commute [of "plan_place t p"])
    have "rv_orders (view s3) = (rv_orders (view s))(d \<mapsto> po\<lparr>po_lines := po_lines ?po\<rparr>)"
      using ls s1(2) s2(2) set_line_only_lines by simp
    moreover have "grown (\<lambda>k. if plan_key p = k then qp_accepted p else 0) (po_lines po) (po_lines ?po)"
      using ls cur(2) by (simp add: eq_commute [of "plan_key p"] cong: if_cong)
    ultimately show "\<exists>po ls. rv_orders (view s) d = Some po \<and> rv_orders (view s3) = (rv_orders (view s))(d \<mapsto> po\<lparr>po_lines := ls\<rparr>)
          \<and> grown (\<lambda>k. if plan_key p = k then qp_accepted p else 0) (po_lines po) ls"
      using Cons.prems(3) by blast
  qed
  obtain ids' where c6': "post_lines tx gen t docId d (Suc (Suc n)) plans (line_assoc (po_lines ?po)) s3 = Inr (m', s', ids')"
    using c6 ls cur(2) Cons.prems(4) by auto
  have o3: "rv_orders (view s3) d = Some ?po" using ls by simp
  have IH: "ok s' \<and> shifted d (sum_at (plan_place t) qp_accepted plans) (sum_at plan_key qp_accepted plans) (view s3) (view s')
    \<and> (\<exists>po'. rv_orders (view s') d = Some po' \<and> m' = line_assoc (po_lines po'))
    \<and> (\<exists>new. rv_moves (view s') = rv_moves (view s3) @ new
        \<and> list_all2 (\<lambda>p r. \<exists>k. r = receipt_row k t docId (gen 1) p) plans new)"
    by (rule Cons.IH [OF c6' _ o3 refl]) (use ls Cons.prems(5) in auto)
  then obtain new where new: "rv_moves (view s') = rv_moves (view s3) @ new"
    "list_all2 (\<lambda>p r. \<exists>k. r = receipt_row k t docId (gen 1) p) plans new" by blast
  have "rv_moves (view s') = rv_moves (view s) @ ?row # new" using new(1) ls s1(2) s2(2) by simp
  then have "\<exists>new. rv_moves (view s') = rv_moves (view s) @ new
      \<and> list_all2 (\<lambda>p r. \<exists>k. r = receipt_row k t docId (gen 1) p) (p # plans) new"
    using new(2) by blast
  moreover have "shifted d (sum_at (plan_place t) qp_accepted (p # plans)) (sum_at plan_key qp_accepted (p # plans)) (view s) (view s')"
    using shifted_trans [OF one] IH by (simp add: sum_at_Cons [abs_def])
  ultimately show ?case using IH by blast
qed

abbreviation move_quantity :: "receipt_movement \<Rightarrow> int" where
  "move_quantity m \<equiv> column_units (mov_quantityIn m)"

abbreviation order_key :: "receiving_document \<Rightarrow> receipt_movement \<Rightarrow> string option" where
  "order_key doc m \<equiv> Option.bind (Option.bind (mov_sourceDocumentLineId m) (last_by rl_id (rd_lines doc)))
     rl_purchaseOrderLineId"

lemma receipt_facts_reversed:
  "receipt_facts (v\<lparr>rv_moves := map (\<lambda>m. if mov_id m = k then m\<lparr>mov_reversedByMovementId := r\<rparr> else m) (rv_moves v)\<rparr>) t d
     = receipt_facts v t d"
proof -
  have "image_mset receipt_fact (filter_mset (is_receipt t d)
      (mset (map (\<lambda>m. if mov_id m = k then m\<lparr>mov_reversedByMovementId := r\<rparr> else m) ms)))
    = image_mset receipt_fact (filter_mset (is_receipt t d) (mset ms))" for ms
    by (induction ms) (auto simp: receipt_fact_def is_receipt_def move_place_def)
  then show ?thesis by (simp add: receipt_facts_def)
qed

lemma receipt_facts_reversal_row:
  "receipt_facts (v\<lparr>rv_moves := rv_moves v @ [receipt_reversal_row k t' d' b m]\<rparr>) t d = receipt_facts v t d"
  by (simp add: receipt_facts_def is_receipt_def receipt_reversal_row_def)

lemma receipt_facts_frame:
  "receipt_facts (v\<lparr>rv_stock := st\<rparr>) t d = receipt_facts v t d" "receipt_facts (v\<lparr>rv_orders := os\<rparr>) t d = receipt_facts v t d"
  "receipt_facts (v\<lparr>rv_docs := ds\<rparr>) t d = receipt_facts v t d"
  by (simp_all add: receipt_facts_def)

lemma reverse_lines_shift:
  assumes "reverse_lines tx gen t doc d n origs m s = Inr (m', s', ids)" "ok s"
    and "rv_orders (view s) d = Some po" "m = line_assoc (po_lines po)"
    and "\<And>x. x \<in> set origs \<Longrightarrow> mov_tenantId x = t"
  shows "ok s' \<and> shifted d (\<lambda>p. - sum_at move_place move_quantity origs p)
        (\<lambda>k. - sum_at (order_key doc) move_quantity origs (Some k)) (view s) (view s')
    \<and> (\<exists>po'. rv_orders (view s') d = Some po' \<and> m' = line_assoc (po_lines po')
        \<and> ((\<forall>l\<in>set (po_lines po). 0 \<le> received_of l) \<longrightarrow> (\<forall>l\<in>set (po_lines po'). 0 \<le> received_of l)))
    \<and> (\<forall>t d. receipt_facts (view s') t d = receipt_facts (view s) t d)
    \<and> order_key doc ` set origs \<subseteq> Some ` pol_id ` set (po_lines po)"
  using assms
proof (induction origs arbitrary: n m s po m' s' ids)
  case Nil
  then show ?case by (auto intro: shifted_refl)
next
  case (Cons x origs)
  let ?q = "move_quantity x" and ?row = "receipt_reversal_row (gen n) t (rd_id doc) (gen 1) x"
  obtain b s1 s2 s3 s4 cur c c' where
    c0: "rtx_findBalance tx s (t, mov_sku x, js_text (mov_warehouseId x), mov_locationKey x) = Some b" and
    c1: "rtx_createMovement tx s ?row = Some s1" and
    c2: "rtx_setReversedBy tx s1 (mov_id x) (gen n) = Some s2" and
    c3: "rtx_decrementBalance tx s2 (bal_id b) t (bal_version b) ?q = (s3, c)" "c = 1" and
    c4: "Option.bind (Option.bind (mov_sourceDocumentLineId x) (last_by rl_id (rd_lines doc)))
                (\<lambda>rl. Option.bind (rl_purchaseOrderLineId rl) (map_of m)) = Some cur" and
    c5: "\<not> received_of cur < ?q" and
    c6: "rtx_updateOrderLine tx s3 (pol_id cur) d (pol_version cur) (Some ?q) (received_of cur - ?q) = (s4, c')" "c' = 1" and
    c7: "\<exists>ids'. reverse_lines tx gen t doc d (Suc n) origs
           (AList.update (pol_id cur) (set_received (received_of cur - ?q) cur) m) s4 = Inr (m', s', ids')"
    using Cons.prems(1) by (auto simp: Let_def split: option.splits prod.splits if_splits sum.splits)
  have t: "mov_tenantId x = t" using Cons.prems(5) by simp
  then have place: "move_place ?row = move_place x" "move_place x = (t, mov_sku x, js_text (mov_warehouseId x), mov_locationKey x)"
    by (simp_all add: move_place_def receipt_reversal_row_def)
  have key: "order_key doc x = Some (pol_id cur)" and cur: "cur \<in> set (po_lines po)"
    using c4 Cons.prems(4) by (auto simp: bind_eq_Some_conv dest!: map_of_SomeD)
  have s1: "ok s1" "view s1 = (view s)\<lparr>rv_moves := rv_moves (view s) @ [?row]\<rparr>"
    using create_movement [OF Cons.prems(2) c1] by auto
  have s2: "ok s2" "view s2 = (view s1)\<lparr>rv_moves := map (\<lambda>m. if mov_id m = mov_id x
           then m\<lparr>mov_reversedByMovementId := Some (gen n)\<rparr> else m) (rv_moves (view s1))\<rparr>"
    using set_reversed_by [OF s1(1) c2] by auto
  have b: "rv_stock (view s) (move_place x) = Some b" using c0 place(2) by (simp add: find_balance)
  then have "rv_stock (view s2) (move_place x) = Some b" using s1(2) s2(2) by simp
  note dec = decrement_balance [OF s2(1) c3(1) [unfolded c3(2)] this refl]
  then have s3: "ok s3" "view s3 = (view s2)\<lparr>rv_stock := (rv_stock (view s2))(move_place x \<mapsto> withdraw ?q b)\<rparr>" by auto
  have o3: "rv_orders (view s3) d = Some po" using Cons.prems(3) s1(2) s2(2) s3(2) by simp
  let ?po = "set_line (pol_id cur) (received_of cur - ?q) po"
  note ls = line_shift [OF s3(1) c6(1) [unfolded c6(2)] o3 cur]
  have mt: "move_total (view s4) p = move_total (view s) p + (if move_place x = p then - ?q else 0)" for p
  proof -
    have "move_total (view s4) = move_total (view s2)" using ls s3(2) by simp
    also have "\<dots> = move_total (view s1)" using s2(2) move_total_reversed by simp
    finally show ?thesis using s1(2) place(1) by (simp add: move_total_append receipt_reversal_row_def)
  qed
  have facts: "receipt_facts (view s4) t d = receipt_facts (view s) t d" for t d
  proof -
    have "receipt_facts (view s4) t d = receipt_facts (view s2) t d" using ls s3(2) by (simp add: receipt_facts_frame)
    also have "\<dots> = receipt_facts (view s1) t d" using s2(2) receipt_facts_reversed by simp
    finally show ?thesis using s1(2) by (simp add: receipt_facts_reversal_row)
  qed
  have fine: "stock_fine (view s) \<Longrightarrow> stock_fine (view s4)
      \<and> (\<forall>p. on_hand_at (view s4) p = on_hand_at (view s) p + (if move_place x = p then - ?q else 0))"
  proof -
    assume f: "stock_fine (view s)"
    have bok: "balance_ok b" using f b unfolding stock_fine_def by blast
    have at: "on_hand_at (view s) (move_place x) = on_hand b" using b by (simp add: on_hand_at_def)
    show ?thesis using withdraw_fine [OF _ _ bok, of ?q] dec f ls s1(2) s2(2) at
      by (auto simp: on_hand_at_upd stock_fine_upd)
  qed
  have one: "shifted d (\<lambda>p. if move_place x = p then - ?q else 0) (\<lambda>k. if pol_id cur = k then - ?q else 0)
      (view s) (view s4)"
    unfolding shifted_def
  proof (intro conjI)
    show "rv_docs (view s4) = rv_docs (view s)" using ls s1(2) s2(2) s3(2) by simp
    have "rv_orders (view s4) = (rv_orders (view s))(d \<mapsto> po\<lparr>po_lines := po_lines ?po\<rparr>)"
      using ls s1(2) s2(2) s3(2) set_line_only_lines by simp
    moreover have "grown (\<lambda>k. if pol_id cur = k then - ?q else 0) (po_lines po) (po_lines ?po)"
      using ls by (simp add: eq_commute [of "pol_id cur"] cong: if_cong)
    ultimately show "\<exists>po ls. rv_orders (view s) d = Some po \<and> rv_orders (view s4) = (rv_orders (view s))(d \<mapsto> po\<lparr>po_lines := ls\<rparr>)
          \<and> grown (\<lambda>k. if pol_id cur = k then - ?q else 0) (po_lines po) ls"
      using Cons.prems(3) by blast
  qed (use mt fine in auto)
  obtain ids' where c7': "reverse_lines tx gen t doc d (Suc n) origs (line_assoc (po_lines ?po)) s4 = Inr (m', s', ids')"
    using c7 ls Cons.prems(4) by auto
  have o4: "rv_orders (view s4) d = Some ?po" using ls by simp
  have IH: "ok s' \<and> shifted d (\<lambda>p. - sum_at move_place move_quantity origs p)
        (\<lambda>k. - sum_at (order_key doc) move_quantity origs (Some k)) (view s4) (view s')
    \<and> (\<exists>po'. rv_orders (view s') d = Some po' \<and> m' = line_assoc (po_lines po')
        \<and> ((\<forall>l\<in>set (po_lines ?po). 0 \<le> received_of l) \<longrightarrow> (\<forall>l\<in>set (po_lines po'). 0 \<le> received_of l)))
    \<and> (\<forall>t d. receipt_facts (view s') t d = receipt_facts (view s4) t d)
    \<and> order_key doc ` set origs \<subseteq> Some ` pol_id ` set (po_lines ?po)"
    by (rule Cons.IH [OF c7' _ o4 refl]) (use ls Cons.prems(5) in auto)
  have "(\<lambda>p. (if move_place x = p then - ?q else 0) + - sum_at move_place move_quantity origs p)
      = (\<lambda>p. - sum_at move_place move_quantity (x # origs) p)" by auto
  moreover have "(\<lambda>k. (if pol_id cur = k then - ?q else 0) + - sum_at (order_key doc) move_quantity origs (Some k))
      = (\<lambda>k. - sum_at (order_key doc) move_quantity (x # origs) (Some k))" using key by auto
  ultimately have "shifted d (\<lambda>p. - sum_at move_place move_quantity (x # origs) p)
        (\<lambda>k. - sum_at (order_key doc) move_quantity (x # origs) (Some k)) (view s) (view s')"
    using shifted_trans [OF one conjunct1 [OF conjunct2 [OF IH]]] by simp
  moreover have "(\<forall>l\<in>set (po_lines po). 0 \<le> received_of l) \<longrightarrow> (\<forall>l\<in>set (po_lines ?po). 0 \<le> received_of l)"
    using c5 by (auto simp: set_line_def set_received_def)
  moreover have "\<forall>t d. receipt_facts (view s') t d = receipt_facts (view s) t d" using IH facts by simp
  moreover have "pol_id ` set (po_lines ?po) = pol_id ` set (po_lines po)"
    by (metis lines_set_line set_map)
  then have "order_key doc ` set (x # origs) \<subseteq> Some ` pol_id ` set (po_lines po)" using IH key cur by simp
  ultimately show ?case using IH by blast
qed

end

end
