(* ===== verification/Receiving_Runs.thy ===== *)
theory Receiving_Runs
  imports Receiving_Refinement
begin

text \<open>
  The commands of receiving and their runs: each command refines its operation of the machine on
  numbers and keeps the invariant \<open>recv_inv\<close>, so along every run the stock and the received
  quantities are determined by which documents are posted.
\<close>

definition recv_inv :: "recv_view \<Rightarrow> bool" where
  "recv_inv v \<longleftrightarrow> stock_fine v \<and> receipts_match v \<and> never_over_received v"

lemma set_posting_simps [simp]:
  "rd_id (set_posting st d) = rd_id d" "rd_tenantId (set_posting st d) = rd_tenantId d"
  "rd_lines (set_posting st d) = rd_lines d" "rd_poId (set_posting st d) = rd_poId d"
  "rd_postingStatus (set_posting st d) = st" "rd_warehouseId (set_posting st d) = rd_warehouseId d"
  by (simp_all add: set_posting_def)

lemma line_place_posting [simp]: "line_place t (set_posting st d) = line_place t d"
  by (simp add: line_place_def fun_eq_iff)

lemma accepted_posting [simp]:
  "accepted_at (set_posting st d) = accepted_at d" "accepted_to (set_posting st d) = accepted_to d"
  "line_fact (set_posting st d) = line_fact d"
  by (simp_all add: accepted_at_def accepted_to_def line_fact_def fun_eq_iff)

lemma sum_at_Some [simp]: "sum_at (\<lambda>x. Some (f x)) q xs (Some k) = sum_at f q xs k"
  by (simp add: sum_at_def)

lemma sum_at_plans:
  assumes "list_all2 (plan_for t doc po) ls plans"
  shows "sum_at (plan_place t) qp_accepted plans p = sum_at (line_place t doc) accepted_of ls p"
    "sum_at plan_key qp_accepted plans k = sum_at rl_purchaseOrderLineId accepted_of ls (Some k)"
    "k \<notin> pol_id ` set (po_lines po) \<Longrightarrow> sum_at plan_key qp_accepted plans k = 0"
proof -
  have "list_all2 (\<lambda>l p. line_place t doc l = plan_place t p \<and> accepted_of l = qp_accepted p) ls plans"
    using assms by (rule list_all2_mono) (simp add: plan_for_def)
  then show "sum_at (plan_place t) qp_accepted plans p = sum_at (line_place t doc) accepted_of ls p"
    by (rule sum_at_list_all2 [symmetric])
  have "list_all2 (\<lambda>l p. rl_purchaseOrderLineId l = Some (plan_key p) \<and> accepted_of l = qp_accepted p) ls plans"
    using assms by (rule list_all2_mono) (simp add: plan_for_def)
  from sum_at_list_all2 [OF this, of "Some k"]
  show "sum_at plan_key qp_accepted plans k = sum_at rl_purchaseOrderLineId accepted_of ls (Some k)" by simp
  assume "k \<notin> pol_id ` set (po_lines po)"
  moreover have "plan_key ` set plans \<subseteq> pol_id ` set (po_lines po)"
    using list_all2_elem(2) [OF assms] by (fastforce simp: plan_for_def dest: last_byD)
  ultimately show "sum_at plan_key qp_accepted plans k = 0" by (intro sum_at_no_key) blast
qed

text \<open>The facts of the movements that a posting appends.\<close>

lemma posted_facts:
  assumes "list_all2 (plan_for (rd_tenantId doc) doc po) ls plans"
    and "list_all2 (\<lambda>p r. \<exists>k. r = receipt_row k (rd_tenantId doc) d b p) plans new"
  shows "image_mset receipt_fact (filter_mset (is_receipt t' d') (mset new))
    = (if t' = rd_tenantId doc \<and> d' = d then mset (map (line_fact doc) ls) else {#})"
  using assms
proof (induction ls arbitrary: plans new)
  case (Cons l ls)
  then obtain p plans' r new' k where ps: "plans = p # plans'" "new = r # new'" "r = receipt_row k (rd_tenantId doc) d b p"
    "plan_for (rd_tenantId doc) doc po l p" "list_all2 (plan_for (rd_tenantId doc) doc po) ls plans'"
    "list_all2 (\<lambda>p r. \<exists>k. r = receipt_row k (rd_tenantId doc) d b p) plans' new'"
    by (auto simp: list_all2_Cons1)
  moreover have "is_receipt t' d' r \<longleftrightarrow> t' = rd_tenantId doc \<and> d' = d" using ps(3) by (auto simp: is_receipt_def receipt_row_def)
  moreover have "receipt_fact r = line_fact doc l" using ps(3,4)
    by (auto simp: receipt_fact_def receipt_row_def move_place_def line_fact_def plan_for_def plan_place_def)
  ultimately show ?case using Cons.IH by auto
qed simp

text \<open>The commands of any users, one after another.\<close>

inductive receiving_step :: "'s receiving_tx \<Rightarrow> 's \<Rightarrow> 's \<Rightarrow> bool" for tx where
  posts: "postReceiving tx gen scope req s = Inr (s', ids) \<Longrightarrow> receiving_step tx s s'"
| reverses: "reverseReceiving tx gen scope req s = Inr (s', ids) \<Longrightarrow> receiving_step tx s s'"

inductive_cases receiving_stepE: "receiving_step tx s s'"

abbreviation receiving_run :: "'s receiving_tx \<Rightarrow> 's \<Rightarrow> 's \<Rightarrow> bool" where
  "receiving_run tx \<equiv> (receiving_step tx)\<^sup>*\<^sup>*"

text \<open>What the documents that are posted account for.\<close>

definition posted_doc :: "recv_view \<Rightarrow> string \<Rightarrow> receiving_document option" where
  "posted_doc v d = (case rv_docs v d of None \<Rightarrow> None
     | Some doc \<Rightarrow> if rd_postingStatus doc = ''posted'' then Some doc else None)"

definition posted_sum :: "(receiving_document \<Rightarrow> int) \<Rightarrow> recv_view \<Rightarrow> int" where
  "posted_sum f v = (\<Sum>d\<in>dom (rv_docs v). case posted_doc v d of None \<Rightarrow> 0 | Some doc \<Rightarrow> f doc)"

lemma posted_sum_change:
  assumes "finite (dom (rv_docs v))" "rv_docs v d = Some doc" "rv_docs v' = (rv_docs v)(d \<mapsto> doc')"
  shows "posted_sum f v' = posted_sum f v
    - (if rd_postingStatus doc = ''posted'' then f doc else 0) + (if rd_postingStatus doc' = ''posted'' then f doc' else 0)"
proof -
  have d: "dom (rv_docs v') = dom (rv_docs v)" "d \<in> dom (rv_docs v)" using assms(2,3) by auto
  have rest: "(\<Sum>e\<in>dom (rv_docs v) - {d}. case posted_doc v' e of None \<Rightarrow> 0 | Some doc \<Rightarrow> f doc)
      = (\<Sum>e\<in>dom (rv_docs v) - {d}. case posted_doc v e of None \<Rightarrow> 0 | Some doc \<Rightarrow> f doc)"
    by (rule sum.cong) (auto simp: posted_doc_def assms(3))
  show ?thesis unfolding posted_sum_def d(1) sum.remove [OF assms(1) d(2)] rest
    by (simp add: posted_doc_def assms(2,3))
qed

text \<open>What every run keeps.\<close>

definition run_constant :: "recv_view \<Rightarrow> recv_view \<Rightarrow> bool" where
  "run_constant v v' \<longleftrightarrow>
     dom (rv_docs v') = dom (rv_docs v)
     \<and> (\<forall>p. rc_stock (numbers v') p - posted_sum (\<lambda>doc. accepted_at doc p) v'
            = rc_stock (numbers v) p - posted_sum (\<lambda>doc. accepted_at doc p) v)
     \<and> (\<forall>d k. rc_received (numbers v') d k - posted_sum (\<lambda>doc. accepted_to doc d k) v'
            = rc_received (numbers v) d k - posted_sum (\<lambda>doc. accepted_to doc d k) v)
     \<and> (\<forall>p. rc_stock (numbers v') p - move_total v' p = rc_stock (numbers v) p - move_total v p)"

text \<open>A document is posted at most once and reversed at most once.\<close>

definition posting_path :: "string \<Rightarrow> string \<Rightarrow> bool" where
  "posting_path a b \<longleftrightarrow> a = b \<or> a = ''unposted'' \<and> b \<in> {''posted'', ''reversed''} \<or> a = ''posted'' \<and> b = ''reversed''"

definition order_status_set :: "purchase_order \<Rightarrow> recv_view \<Rightarrow> bool" where
  "order_status_set po v \<longleftrightarrow> (\<exists>po'. rv_orders v (po_id po) = Some po'
     \<and> po_status po' = poStatus (po_lines po') (po_status po) (po_receivingBaseStatus po))"

context receiving_store
begin

lemma load_found:
  assumes "loadPostingAggregate tx s t d = Inr (doc, po)"
  shows "rv_docs (view s) d = Some doc" "rd_id doc = d" "rd_tenantId doc = t" "rd_poId doc = Some (po_id po)"
    "rv_orders (view s) (po_id po) = Some po"
  using assms
  by (auto simp: loadPostingAggregate_def find_receiving find_order of_tenant_def dest: doc_key order_key
      split: option.splits if_splits)

lemma close_documents_effect:
  assumes "close_documents tx t doc po st base required posting ids s = Inr (s', ids')" "ok s"
    and "rv_orders (view s) (po_id po) = Some p" "rv_docs (view s) (rd_id doc) = Some x"
  shows "ok s' \<and> ids' = ids \<and> rd_postingStatus x = required
    \<and> view s' = (view s)\<lparr>rv_orders := (rv_orders (view s))(po_id po \<mapsto> set_status st base p),
                         rv_docs := (rv_docs (view s))(rd_id doc \<mapsto> set_posting posting x)\<rparr>"
proof -
  obtain s1 where s1: "rtx_updateOrder tx s (po_id po) t (po_version po) st base = (s1, 1)"
    "rtx_updateReceiving tx s1 (rd_id doc) t (rd_version doc) required posting = (s', 1)" "ids' = ids"
    using assms(1) by (auto simp: close_documents_def split: prod.splits if_splits)
  from update_order [OF assms(2) s1(1)] assms(3)
  have o: "ok s1" "view s1 = (view s)\<lparr>rv_orders := (rv_orders (view s))(po_id po \<mapsto> set_status st base p)\<rparr>" by auto
  from update_receiving [OF o(1) s1(2)] o(2) assms(4) s1(3) show ?thesis by auto
qed

lemma po_lines_set_status [simp]: "po_lines (set_status st base p) = po_lines p"
  by (simp add: set_status_def)

lemma numbers_of_shift:
  assumes sh: "shifted d f g v v1" and fine: "stock_fine v"
    and v': "rv_orders v' = (rv_orders v1)(d \<mapsto> set_status st base po1)" "rv_orders v1 d = Some po1"
      "rv_docs v' = (rv_docs v1)(rd_id doc \<mapsto> set_posting posting doc)" "rv_stock v' = rv_stock v1"
    and po: "rv_orders v d = Some po" and zero: "\<And>k. k \<notin> pol_id ` set (po_lines po) \<Longrightarrow> g k = 0"
  shows "numbers v' = \<lparr>rc_stock = (\<lambda>p. rc_stock (numbers v) p + f p),
     rc_received = (\<lambda>e k. rc_received (numbers v) e k + (if e = d then g k else 0)),
     rc_posting = (rc_posting (numbers v))(rd_id doc \<mapsto> posting)\<rparr>"
proof -
  obtain ls where ls: "rv_orders v1 = (rv_orders v)(d \<mapsto> po\<lparr>po_lines := ls\<rparr>)" "grown g (po_lines po) ls"
    using sh po unfolding shifted_def by auto
  then have po1: "po_lines po1 = ls" using v'(2) by auto
  have "received_in ls k = received_in (po_lines po) k + g k" for k
  proof (cases "k \<in> pol_id ` set (po_lines po)")
    case True
    then show ?thesis by (rule grown_received_in [OF ls(2)])
  next
    case False
    moreover have "pol_id ` set ls = pol_id ` set (po_lines po)" using grown_ids [OF ls(2)] by (metis set_map)
    ultimately show ?thesis using zero [OF False] by (simp add: received_in_no_line)
  qed
  then have rc: "rc_received (numbers v') = (\<lambda>e k. rc_received (numbers v) e k + (if e = d then g k else 0))"
    using v'(1,2) ls(1) po po1 by (auto simp: numbers_def fun_eq_iff split: option.splits)
  have oh: "on_hand_at v' = on_hand_at v1" using v'(4) by (simp add: on_hand_at_def fun_eq_iff)
  show ?thesis
    by (rule receipts.equality) (use sh fine v'(3) rc oh in \<open>auto simp: numbers_def shifted_def fun_eq_iff\<close>)
qed

lemma map_snd_assoc: "map snd (line_assoc ls) = ls"
  by (simp add: o_def)

lemma posting_refines:
  assumes "postReceiving tx gen scope req s = Inr (s', ids)" "ok s" "recv_inv (view s)"
  shows "\<exists>doc po. rv_docs (view s) (rq_receivingDocumentId req) = Some doc \<and> rd_id doc = rq_receivingDocumentId req
    \<and> rd_tenantId doc = rsc_tenantId scope \<and> rd_postingStatus doc = ''unposted''
    \<and> rv_docs (view s') = (rv_docs (view s))(rd_id doc \<mapsto> set_posting ''posted'' doc)
    \<and> numbers (view s') = post_receipt doc (numbers (view s))
    \<and> (\<forall>p. move_total (view s') p = move_total (view s) p + accepted_at doc p)
    \<and> rd_poId doc = Some (po_id po) \<and> rv_orders (view s) (po_id po) = Some po \<and> order_status_set po (view s')
    \<and> ok s' \<and> recv_inv (view s')"
proof -
  let ?t = "rsc_tenantId scope" and ?d = "rq_receivingDocumentId req"
  from assms(1) obtain doc po m s1 ids1 where
    load: "loadPostingAggregate tx s ?t ?d = Inr (doc, po)" and
    plan: "rp_blockingIssues (buildReceivingPostingPlan tx s ?t doc po) = []" and
    loop: "post_lines tx gen ?t (rd_id doc) (po_id po) 2 (rp_quantityPlans (buildReceivingPostingPlan tx s ?t doc po))
       (line_map (po_lines po)) s = Inr (m, s1, ids1)" and
    close: "close_documents tx ?t doc po (poStatus (map snd m) (po_status po) (po_receivingBaseStatus po))
       (text_or (po_receivingBaseStatus po) (Some (po_status po))) ''unposted'' ''posted'' ids1 s1 = Inr (s', ids)"
    by (auto simp: postReceiving_def Let_def split: prod.splits)
  note L = load_found [OF load]
  let ?plans = "rp_quantityPlans (buildReceivingPostingPlan tx s ?t doc po)"
  note P = posting_plan_allowed [OF plan]
  have assoc: "line_map (po_lines po) = line_assoc (po_lines po)"
    by (rule line_map_distinct [OF distinct_lines(2) [OF assms(2) L(5)]])
  have each: "p \<in> set ?plans \<Longrightarrow> 0 \<le> qp_accepted p \<and> js_trim (qp_warehouseId p) = qp_warehouseId p" for p
    using list_all2_elem(2) [OF P(2), of p] by (auto simp: plan_for_def intro: less_imp_le)
  have pos: "\<forall>l\<in>set (rd_lines doc). 0 < accepted_of l"
    using list_all2_elem(1) [OF P(2)] by (fastforce simp: plan_for_def)
  from post_lines_shift [OF loop assms(2) L(5) assoc each] obtain po1 new where
    A: "ok s1" and sh: "shifted (po_id po) (sum_at (plan_place ?t) qp_accepted ?plans) (sum_at plan_key qp_accepted ?plans) (view s) (view s1)" and
    po1: "rv_orders (view s1) (po_id po) = Some po1" "m = line_assoc (po_lines po1)" and
    new: "rv_moves (view s1) = rv_moves (view s) @ new"
      "list_all2 (\<lambda>p r. \<exists>k. r = receipt_row k ?t (rd_id doc) (gen 1) p) ?plans new"
    by blast
  have d1: "rv_docs (view s1) (rd_id doc) = Some doc" using sh L(1,2) by (simp add: shifted_def)
  note C = close_documents_effect [OF close A po1(1) d1]
  note S = sum_at_plans [OF P(2)]
  have num: "numbers (view s') = post_receipt doc (numbers (view s))"
  proof -
    have "numbers (view s') = \<lparr>rc_stock = (\<lambda>p. rc_stock (numbers (view s)) p + sum_at (plan_place ?t) qp_accepted ?plans p),
       rc_received = (\<lambda>e k. rc_received (numbers (view s)) e k + (if e = po_id po then sum_at plan_key qp_accepted ?plans k else 0)),
       rc_posting = (rc_posting (numbers (view s)))(rd_id doc \<mapsto> ''posted'')\<rparr>"
      by (rule numbers_of_shift [OF sh _ _ po1(1) _ _ L(5)])
        (use assms(3) C S(3) in \<open>auto simp: recv_inv_def\<close>)
    also have "\<dots> = post_receipt doc (numbers (view s))"
      by (rule receipts.equality)
        (use S(1,2) L(3,4) in \<open>auto simp: post_receipt_def accepted_at_def accepted_to_def fun_eq_iff\<close>)
    finally show ?thesis .
  qed
  have mt: "\<forall>p. move_total (view s') p = move_total (view s) p + accepted_at doc p"
    using sh C S(1) L(3) by (simp add: shifted_def accepted_at_def)
  have docs: "rv_docs (view s') = (rv_docs (view s))(rd_id doc \<mapsto> set_posting ''posted'' doc)"
    using C sh by (simp add: shifted_def)
  have facts: "receipt_facts (view s') t' d' = receipt_facts (view s) t' d'
      + (if t' = rd_tenantId doc \<and> d' = rd_id doc then mset (map (line_fact doc) (rd_lines doc)) else {#})" for t' d'
    using posted_facts [of doc po "rd_lines doc" ?plans "rd_id doc" "gen 1" new t' d'] P(2) new L(3) C
    by (simp add: receipt_facts_def)
  have "receipts_match (view s')"
    unfolding receipts_match_def
  proof (intro allI impI)
    fix d' doc' assume d': "rv_docs (view s') d' = Some doc'"
    show "(rd_postingStatus doc' = ''unposted'' \<longrightarrow> receipt_facts (view s') (rd_tenantId doc') d' = {#})
     \<and> (rd_postingStatus doc' = ''posted'' \<longrightarrow>
          receipt_facts (view s') (rd_tenantId doc') d' = mset (map (line_fact doc') (rd_lines doc'))
          \<and> (\<forall>l\<in>set (rd_lines doc'). 0 < accepted_of l))"
    proof (cases "d' = rd_id doc")
      case True
      then have "doc' = set_posting ''posted'' doc" using d' docs by simp
      moreover have "receipt_facts (view s) (rd_tenantId doc) (rd_id doc) = {#}"
        using assms(3) L(1,2) P(1) by (simp add: recv_inv_def receipts_match_def)
      ultimately show ?thesis using True facts pos by simp
    next
      case False
      then have "rv_docs (view s) d' = Some doc'" using d' docs by simp
      then show ?thesis using False facts assms(3) by (simp add: recv_inv_def receipts_match_def)
    qed
  qed
  moreover have "stock_fine (view s')" using sh assms(3) C by (auto simp: shifted_def recv_inv_def)
  moreover have "never_over_received (view s')"
    unfolding never_over_received_def
  proof (intro allI impI)
    fix e po' assume e: "rv_orders (view s') e = Some po'"
    obtain ls where ls: "rv_orders (view s1) = (rv_orders (view s))(po_id po \<mapsto> po\<lparr>po_lines := ls\<rparr>)"
      "grown (sum_at plan_key qp_accepted ?plans) (po_lines po) ls"
      using sh L(5) unfolding shifted_def by auto
    have old: "within_order (po_lines q)" if "rv_orders (view s) e = Some q" for q e
      using assms(3) that unfolding recv_inv_def never_over_received_def by blast
    show "within_order (po_lines po')"
    proof (cases "e = po_id po")
      case True
      then have po': "po_lines po' = ls" using e C ls(1) po1(1) by auto
      show ?thesis unfolding within_order_def po'
      proof
        fix l' assume l': "l' \<in> set ls"
        then obtain l where l: "l \<in> set (po_lines po)" "pol_id l' = pol_id l" "ordered_of l' = ordered_of l"
          "received_of l' = received_of l + sum_at plan_key qp_accepted ?plans (pol_id l)"
          using list_all2_elem(2) [OF ls(2) [unfolded grown_def] l'] by auto
        have l0: "0 \<le> received_of l \<and> received_of l \<le> ordered_of l"
          using old [OF L(5)] l(1) by (simp add: within_order_def)
        have "0 \<le> sum_at plan_key qp_accepted ?plans (pol_id l)" using each by (intro sum_at_nonneg) blast
        moreover have "received_of l' \<le> ordered_of l'"
        proof (cases "pol_id l \<in> plan_key ` set ?plans")
          case True
          then obtain p where p: "p \<in> set ?plans" "plan_key p = pol_id l" by auto
          then obtain r where "plan_for ?t doc po r p" using list_all2_elem(2) [OF P(2)] by blast
          then have "qp_poLine p \<in> set (po_lines po)" by (auto simp: plan_for_def dest: last_byD)
          then have "qp_poLine p = l" using p(2) l(1) distinct_lines(2) [OF assms(2) L(5)]
            by (auto simp: distinct_map dest: inj_onD)
          then show ?thesis using P(3) p(1) l by auto
        next
          case False
          then show ?thesis using l l0 by (simp add: sum_at_no_key)
        qed
        ultimately show "0 \<le> received_of l' \<and> received_of l' \<le> ordered_of l'" using l l0 by simp
      qed
    next
      case False
      then show ?thesis using e C ls(1) old by auto
    qed
  qed
  moreover have "order_status_set po (view s')"
    using C po1(1) unfolding po1(2) map_snd_assoc by (simp add: order_status_set_def set_status_def)
  ultimately show ?thesis using L P(1) docs num mt C by (auto simp: recv_inv_def)
qed

lemma reversing_refines:
  assumes "reverseReceiving tx gen scope req s = Inr (s', ids)" "ok s" "recv_inv (view s)"
  shows "\<exists>doc po. rv_docs (view s) (rq_receivingDocumentId req) = Some doc \<and> rd_id doc = rq_receivingDocumentId req
    \<and> rd_tenantId doc = rsc_tenantId scope \<and> rd_postingStatus doc = ''posted''
    \<and> rv_docs (view s') = (rv_docs (view s))(rd_id doc \<mapsto> set_posting ''reversed'' doc)
    \<and> numbers (view s') = reverse_receipt doc (numbers (view s))
    \<and> (\<forall>p. move_total (view s') p = move_total (view s) p - accepted_at doc p)
    \<and> rd_poId doc = Some (po_id po) \<and> rv_orders (view s) (po_id po) = Some po \<and> order_status_set po (view s')
    \<and> ok s' \<and> recv_inv (view s')"
proof -
  let ?t = "rsc_tenantId scope" and ?d = "rq_receivingDocumentId req"
  from assms(1) obtain doc po m s1 ids1 where
    load: "loadPostingAggregate tx s ?t ?d = Inr (doc, po)" and
    plan: "rp_blockingIssues (buildReceivingReversalPlan tx s ?t doc po) = []" and
    loop: "reverse_lines tx gen ?t doc (po_id po) 2 (rp_originalMovements (buildReceivingReversalPlan tx s ?t doc po))
       (line_map (po_lines po)) s = Inr (m, s1, ids1)" and
    close: "close_documents tx ?t doc po (poStatus (map snd m) (po_status po) (po_receivingBaseStatus po))
       None ''posted'' ''reversed'' ids1 s1 = Inr (s', ids)"
    by (auto simp: reverseReceiving_def Let_def split: prod.splits)
  note L = load_found [OF load]
  let ?origs = "rtx_receiptMovements tx s ?t (rd_id doc)"
  have origs: "rp_originalMovements (buildReceivingReversalPlan tx s ?t doc po) = ?origs"
    and posted: "rd_postingStatus doc = ''posted''"
    using plan by (auto simp: buildReceivingReversalPlan_def Let_def split: prod.splits if_splits)
  have assoc: "line_map (po_lines po) = line_assoc (po_lines po)"
    by (rule line_map_distinct [OF distinct_lines(2) [OF assms(2) L(5)]])
  have facts0: "image_mset receipt_fact (mset ?origs) = mset (map (line_fact doc) (rd_lines doc))"
    and pos: "\<And>l. l \<in> set (rd_lines doc) \<Longrightarrow> 0 < accepted_of l"
    using assms(3) L(1) posted unfolding recv_inv_def receipts_match_def L(2) receipt_facts_def receipt_movements L(3) [symmetric]
    by blast+
  have "x \<in># mset ?origs \<Longrightarrow> mov_tenantId x = ?t" for x
    unfolding receipt_movements by (auto simp: is_receipt_def)
  then have tenant: "x \<in> set ?origs \<Longrightarrow> mov_tenantId x = ?t" for x by simp
  from reverse_lines_shift [OF loop [unfolded origs] assms(2) L(5) assoc tenant] obtain po1 where
    A: "ok s1" and sh: "shifted (po_id po) (\<lambda>p. - sum_at move_place move_quantity ?origs p)
        (\<lambda>k. - sum_at (order_key doc) move_quantity ?origs (Some k)) (view s) (view s1)" and
    po1: "rv_orders (view s1) (po_id po) = Some po1" "m = line_assoc (po_lines po1)"
      "(\<forall>l\<in>set (po_lines po). 0 \<le> received_of l) \<longrightarrow> (\<forall>l\<in>set (po_lines po1). 0 \<le> received_of l)" and
    facts: "\<forall>t d. receipt_facts (view s1) t d = receipt_facts (view s) t d" and
    ids: "order_key doc ` set ?origs \<subseteq> Some ` pol_id ` set (po_lines po)"
    by blast
  have d1: "rv_docs (view s1) (rd_id doc) = Some doc" using sh L(1,2) by (simp add: shifted_def)
  note C = close_documents_effect [OF close A po1(1) d1]
  have line_of: "last_by rl_id (rd_lines doc) (rl_id l) = Some l" if "l \<in> set (rd_lines doc)" for l
    using that distinct_lines(1) [OF assms(2) L(1)] by (intro last_by_unique) (auto simp: distinct_map dest: inj_onD)
  have f1: "mset (map (\<lambda>m. (move_place m, mov_sourceDocumentLineId m, move_quantity m)) ?origs)
      = mset (map (\<lambda>l. (line_place ?t doc l, Some (rl_id l), accepted_of l)) (rd_lines doc))"
    using facts0 L(3) by (simp add: receipt_fact_def [abs_def] line_fact_def [abs_def])
  have places: "sum_at move_place move_quantity ?origs p = accepted_at doc p" for p
  proof -
    have "mset (map (\<lambda>m. (move_place m, move_quantity m)) ?origs)
        = image_mset (\<lambda>(p, _, q). (p, q)) (mset (map (\<lambda>m. (move_place m, mov_sourceDocumentLineId m, move_quantity m)) ?origs))"
      by (simp add: multiset.map_comp o_def)
    also have "\<dots> = mset (map (\<lambda>l. (line_place ?t doc l, accepted_of l)) (rd_lines doc))"
      unfolding f1 by (simp add: multiset.map_comp o_def)
    finally show ?thesis unfolding accepted_at_def L(3) by (rule sum_at_mset)
  qed
  have keys: "sum_at (order_key doc) move_quantity ?origs (Some k) = sum_at rl_purchaseOrderLineId accepted_of (rd_lines doc) (Some k)" for k
  proof -
    let ?key = "\<lambda>(_, i, q). (Option.bind (Option.bind i (last_by rl_id (rd_lines doc))) rl_purchaseOrderLineId, q)"
    have "mset (map (\<lambda>m. (order_key doc m, move_quantity m)) ?origs)
        = image_mset ?key (mset (map (\<lambda>m. (move_place m, mov_sourceDocumentLineId m, move_quantity m)) ?origs))"
      by (simp add: multiset.map_comp o_def)
    also have "\<dots> = mset (map (\<lambda>l. (rl_purchaseOrderLineId l, accepted_of l)) (rd_lines doc))"
      unfolding f1 using line_of by (auto simp: multiset.map_comp o_def intro!: image_mset_cong)
    finally show ?thesis by (rule sum_at_mset)
  qed
  have po_ls: "\<exists>ls. rv_orders (view s1) = (rv_orders (view s))(po_id po \<mapsto> po\<lparr>po_lines := ls\<rparr>)
      \<and> grown (\<lambda>k. - sum_at (order_key doc) move_quantity ?origs (Some k)) (po_lines po) ls"
    using sh L(5) unfolding shifted_def by auto
  then obtain ls where ls: "rv_orders (view s1) = (rv_orders (view s))(po_id po \<mapsto> po\<lparr>po_lines := ls\<rparr>)"
    "grown (\<lambda>k. - sum_at (order_key doc) move_quantity ?origs (Some k)) (po_lines po) ls" by blast
  have num: "numbers (view s') = reverse_receipt doc (numbers (view s))"
  proof -
    have zero: "- sum_at (order_key doc) move_quantity ?origs (Some k) = 0" if "k \<notin> pol_id ` set (po_lines po)" for k
      using ids that by (auto intro!: sum_at_no_key)
    have "numbers (view s') = \<lparr>rc_stock = (\<lambda>p. rc_stock (numbers (view s)) p + - sum_at move_place move_quantity ?origs p),
       rc_received = (\<lambda>e k. rc_received (numbers (view s)) e k
         + (if e = po_id po then - sum_at (order_key doc) move_quantity ?origs (Some k) else 0)),
       rc_posting = (rc_posting (numbers (view s)))(rd_id doc \<mapsto> ''reversed'')\<rparr>"
      by (rule numbers_of_shift [OF sh _ _ po1(1) _ _ L(5) zero])
        (use assms(3) C in \<open>auto simp: recv_inv_def\<close>)
    also have "\<dots> = reverse_receipt doc (numbers (view s))"
      by (rule receipts.equality)
        (use keys places L(4) in \<open>auto simp: reverse_receipt_def accepted_to_def fun_eq_iff\<close>)
    finally show ?thesis .
  qed
  have mt: "\<forall>p. move_total (view s') p = move_total (view s) p - accepted_at doc p"
    using sh C places by (simp add: shifted_def)
  have docs: "rv_docs (view s') = (rv_docs (view s))(rd_id doc \<mapsto> set_posting ''reversed'' doc)"
    using C sh by (simp add: shifted_def)
  have facts': "receipt_facts (view s') t d = receipt_facts (view s) t d" for t d
    using C facts by (simp add: receipt_facts_frame)
  have "receipts_match (view s')"
    using assms(3) by (auto simp: recv_inv_def receipts_match_def docs facts')
  moreover have "stock_fine (view s')" using sh assms(3) C by (auto simp: shifted_def recv_inv_def)
  moreover have "never_over_received (view s')"
    unfolding never_over_received_def
  proof (intro allI impI)
    fix e po' assume e: "rv_orders (view s') e = Some po'"
    have old: "within_order (po_lines q)" if "rv_orders (view s) e = Some q" for q e
      using assms(3) that unfolding recv_inv_def never_over_received_def by blast
    show "within_order (po_lines po')"
    proof (cases "e = po_id po")
      case True
      then have po': "po_lines po' = ls" using e C ls(1) po1(1) by auto
      have nn: "\<forall>l\<in>set ls. 0 \<le> received_of l"
        using po1(1,3) ls(1) old [OF L(5)] by (auto simp: within_order_def)
      show ?thesis unfolding within_order_def po'
      proof
        fix l' assume l': "l' \<in> set ls"
        then obtain l where l: "l \<in> set (po_lines po)" "ordered_of l' = ordered_of l"
          "received_of l' = received_of l - sum_at (order_key doc) move_quantity ?origs (Some (pol_id l))"
          using list_all2_elem(2) [OF ls(2) [unfolded grown_def] l'] by auto
        have "0 \<le> sum_at (order_key doc) move_quantity ?origs (Some (pol_id l))"
          unfolding keys using pos by (intro sum_at_nonneg) (auto intro: less_imp_le)
        then show "0 \<le> received_of l' \<and> received_of l' \<le> ordered_of l'"
          using l nn l' old [OF L(5)] by (auto simp: within_order_def)
      qed
    next
      case False
      then show ?thesis using e C ls(1) old by auto
    qed
  qed
  moreover have "order_status_set po (view s')"
    using C po1(1) unfolding po1(2) map_snd_assoc by (simp add: order_status_set_def set_status_def)
  ultimately show ?thesis using L posted docs num mt C by (auto simp: recv_inv_def)
qed


lemma step_change:
  assumes "receiving_step tx s s'" "ok s" "recv_inv (view s)"
  shows "\<exists>doc sg st. rv_docs (view s) (rd_id doc) = Some doc \<and> rv_docs (view s') = (rv_docs (view s))(rd_id doc \<mapsto> set_posting st doc)
    \<and> (rd_postingStatus doc = ''unposted'' \<and> st = ''posted'' \<and> sg = 1 \<or> rd_postingStatus doc = ''posted'' \<and> st = ''reversed'' \<and> sg = - 1)
    \<and> (\<forall>p. rc_stock (numbers (view s')) p = rc_stock (numbers (view s)) p + sg * accepted_at doc p)
    \<and> (\<forall>d k. rc_received (numbers (view s')) d k = rc_received (numbers (view s)) d k + sg * accepted_to doc d k)
    \<and> (\<forall>p. move_total (view s') p = move_total (view s) p + sg * accepted_at doc p)
    \<and> ok s' \<and> recv_inv (view s')"
proof -
  consider (posted) gen scope req ids where "postReceiving tx gen scope req s = Inr (s', ids)"
    | (reversed) gen scope req ids where "reverseReceiving tx gen scope req s = Inr (s', ids)"
    using assms(1) by (rule receiving_stepE)
  then show ?thesis
proof cases
  case (posted gen scope req ids)
  obtain doc where doc: "rv_docs (view s) (rq_receivingDocumentId req) = Some doc" "rd_id doc = rq_receivingDocumentId req"
    "rd_postingStatus doc = ''unposted''" "rv_docs (view s') = (rv_docs (view s))(rd_id doc \<mapsto> set_posting ''posted'' doc)"
    "numbers (view s') = post_receipt doc (numbers (view s))"
    "\<forall>p. move_total (view s') p = move_total (view s) p + accepted_at doc p" "ok s'" "recv_inv (view s')"
    using posting_refines [OF posted assms(2,3)] by blast
  show ?thesis
    by (rule exI [of _ doc], rule exI [of _ 1], rule exI [of _ "''posted''"]) (use doc in \<open>simp add: post_receipt_def\<close>)
next
  case (reversed gen scope req ids)
  obtain doc where doc: "rv_docs (view s) (rq_receivingDocumentId req) = Some doc" "rd_id doc = rq_receivingDocumentId req"
    "rd_postingStatus doc = ''posted''" "rv_docs (view s') = (rv_docs (view s))(rd_id doc \<mapsto> set_posting ''reversed'' doc)"
    "numbers (view s') = reverse_receipt doc (numbers (view s))"
    "\<forall>p. move_total (view s') p = move_total (view s) p - accepted_at doc p" "ok s'" "recv_inv (view s')"
    using reversing_refines [OF reversed assms(2,3)] by blast
  show ?thesis
    by (rule exI [of _ doc], rule exI [of _ "- 1"], rule exI [of _ "''reversed''"]) (use doc in \<open>simp add: reverse_receipt_def\<close>)
qed
qed

lemma run_inv:
  assumes "receiving_run tx s0 s" "ok s0" "recv_inv (view s0)"
  shows "ok s \<and> recv_inv (view s)"
  using assms(1) by induction (use assms step_change in blast)+

lemma run_posting_path:
  assumes "receiving_run tx s0 s" "ok s0" "recv_inv (view s0)" "rv_docs (view s0) d = Some doc0"
  shows "\<exists>doc. rv_docs (view s) d = Some doc \<and> posting_path (rd_postingStatus doc0) (rd_postingStatus doc)
    \<and> rd_lines doc = rd_lines doc0 \<and> rd_version doc0 \<le> rd_version doc"
  using assms(1)
proof induction
  case base
  then show ?case using assms(4) by (simp add: posting_path_def)
next
  case (step s s')
  then obtain doc where doc: "rv_docs (view s) d = Some doc" "posting_path (rd_postingStatus doc0) (rd_postingStatus doc)"
    "rd_lines doc = rd_lines doc0" "rd_version doc0 \<le> rd_version doc" by blast
  have "ok s" "recv_inv (view s)" using run_inv [OF step.hyps(1) assms(2,3)] by auto
  from step_change [OF step.hyps(2) this] doc show ?case
    by (auto simp: posting_path_def set_posting_def)
qed

lemma run_keeps:
  assumes "receiving_run tx s0 s" "ok s0" "recv_inv (view s0)" "finite (dom (rv_docs (view s0)))"
  shows "ok s \<and> recv_inv (view s) \<and> run_constant (view s0) (view s)"
  using assms(1)
proof induction
  case base
  then show ?case using assms by (simp add: run_constant_def)
next
  case (step s s')
  then have inv: "ok s" "recv_inv (view s)" and rc: "run_constant (view s0) (view s)" by auto
  obtain doc sg st where doc: "rv_docs (view s) (rd_id doc) = Some doc"
    "rv_docs (view s') = (rv_docs (view s))(rd_id doc \<mapsto> set_posting st doc)"
    "rd_postingStatus doc = ''unposted'' \<and> st = ''posted'' \<and> sg = 1 \<or> rd_postingStatus doc = ''posted'' \<and> st = ''reversed'' \<and> sg = - 1"
    "\<forall>p. rc_stock (numbers (view s')) p = rc_stock (numbers (view s)) p + sg * accepted_at doc p"
    "\<forall>d k. rc_received (numbers (view s')) d k = rc_received (numbers (view s)) d k + sg * accepted_to doc d k"
    "\<forall>p. move_total (view s') p = move_total (view s) p + sg * accepted_at doc p" "ok s'" "recv_inv (view s')"
    using step_change [OF step.hyps(2) inv] by blast
  have fin: "finite (dom (rv_docs (view s)))" using rc assms(4) by (simp add: run_constant_def)
  have ps: "posted_sum f (view s') = posted_sum f (view s) + sg * f doc" if "f (set_posting st doc) = f doc" for f
    using posted_sum_change [OF fin doc(1,2), of f] doc(3) that by auto
  have "dom (rv_docs (view s')) = dom (rv_docs (view s))" using doc(1,2) by auto
  then have "run_constant (view s0) (view s')"
    using rc doc(4-6) ps by (simp add: run_constant_def)
  then show ?case using doc(7,8) by simp
qed

end

end
