(* ===== verification/Receiving_Execution.thy ===== *)
theory Receiving_Execution
  imports Receiving_Service Command_Execution
begin

text \<open>
  How a receiving command is carried out: \<open>execute\<close> of \<open>receiving-posting-command-service.mjs\<close>. It differs
  from the one of \<open>Command_Execution\<close>: the execution is looked up once, before the transaction, and
  it is the unique key of the table that stops a second one inside; and it may provision the
  actor of a local deployment.

  An expected version is an integer when the request has one. \<open>sha\<close> is SHA-256.
\<close>

datatype recv_command = Post_receiving | Reverse_receiving

definition recv_command_type :: "recv_command \<Rightarrow> string" where
  "recv_command_type c = (case c of Post_receiving \<Rightarrow> ''receiving.post'' | Reverse_receiving \<Rightarrow> ''receiving.reverse'')"

record recv_input =
  ri_receivingDocumentId :: "string option"
  ri_idempotencyKey :: "string option"
  ri_expectedVersion :: "int option"
  ri_reason :: "string option"

datatype recv_failure =
    Recv_tenant_context_required | Recv_user_disabled | Recv_session_stale | Recv_actor_not_provisioned
  | Recv_identity_refused "identity_error issue" | Recv_unauthorized "decision option"
  | Recv_key_reused | Recv_refused "recv_code issue" | Recv_uncaught

definition int_text :: "int \<Rightarrow> string" where
  "int_text i = (if i < 0 then ''-'' else []) @ digits_of (nat \<bar>i\<bar>)"

text \<open>
  \<open>commandInput\<close>: the request, the key and the hash of the payload, whose fields \<open>stableValue\<close>
  sorts by name.
\<close>

definition recv_hash :: "(string \<Rightarrow> string) \<Rightarrow> recv_command \<Rightarrow> string \<Rightarrow> int option \<Rightarrow> string \<Rightarrow> string" where
  "recv_hash sha c docId expected reason =
     sha (stringify (JObj (case c of
         Post_receiving \<Rightarrow> [(''expectedVersion'', case expected of None \<Rightarrow> JNull | Some v \<Rightarrow> JNum (int_text v)),
                            (''receivingDocumentId'', JStr docId)]
       | Reverse_receiving \<Rightarrow> [(''reason'', JStr reason), (''receivingDocumentId'', JStr docId)])))"

definition commandInput ::
  "(string \<Rightarrow> string) \<Rightarrow> recv_command \<Rightarrow> recv_input \<Rightarrow> recv_failure + recv_request \<times> string \<times> string" where
  "commandInput sha c input =
     (let docId = js_text (ri_receivingDocumentId input);
          key = js_text (ri_idempotencyKey input);
          reason = js_text (ri_reason input)
      in and_then (fail_if (docId = []) (Recv_refused (Issue RECEIVING_VALIDATION_FAILED 400))) (\<lambda>_.
         and_then (fail_if (key = []) (Recv_refused (Issue RECEIVING_VALIDATION_FAILED 400))) (\<lambda>_.
         and_then (fail_if (c = Reverse_receiving \<and> reason = []) (Recv_refused (Issue RECEIVING_VALIDATION_FAILED 400))) (\<lambda>_.
         Inr (\<lparr>rq_receivingDocumentId = docId, rq_expectedVersion = map_option Some (ri_expectedVersion input),
               rq_reason = reason\<rparr>,
              key, recv_hash sha c docId (ri_expectedVersion input) reason)))))"

text \<open>
  The rows of tenants and users: whether a tenant exists, the user with an id (in any tenant), and
  creating a user; \<open>itx_resolve\<close> is \<open>resolveProvisionedActor\<close>.
\<close>

record actor_row =
  ar_tenantId :: string
  ar_role :: "string option"
  ar_status :: string

record 'w identity_tx =
  itx_tenantKnown :: "'w \<Rightarrow> string \<Rightarrow> bool"
  itx_findActor :: "'w \<Rightarrow> string \<Rightarrow> actor_row option"
  itx_createActor :: "'w \<Rightarrow> string \<Rightarrow> string \<Rightarrow> identity \<Rightarrow> 'w option"
  itx_resolve :: "'w \<Rightarrow> identity \<Rightarrow> identity_error issue + auth_context"

definition ensureTenantAndActor ::
  "'w identity_tx \<Rightarrow> bool \<Rightarrow> string \<Rightarrow> string \<Rightarrow> identity \<Rightarrow> 'w \<Rightarrow> recv_failure + 'w" where
  "ensureTenantAndActor itx allowLocalActorBootstrap tenantId actorId who w =
     (if \<not> itx_tenantKnown itx w tenantId then Inl Recv_tenant_context_required
      else case itx_findActor itx w actorId of
        Some a \<Rightarrow>
          if ar_tenantId a \<noteq> tenantId then Inl Recv_tenant_context_required
          else if ar_status a = ''disabled'' then Inl Recv_user_disabled
          else if js_lower (js_text (ar_role a)) \<noteq> js_lower (js_text (id_role who)) then Inl Recv_session_stale
          else Inr w
      | None \<Rightarrow>
          if \<not> allowLocalActorBootstrap then Inl Recv_actor_not_provisioned
          else case itx_createActor itx w tenantId actorId who of None \<Rightarrow> Inl Recv_uncaught | Some w' \<Rightarrow> Inr w')"

definition recv_replay :: "'r execution option \<Rightarrow> string \<Rightarrow> recv_failure + 'r option" where
  "recv_replay existing hash =
     (case existing of None \<Rightarrow> Inr None
      | Some e \<Rightarrow>
          if exe_requestHash e \<noteq> hash then Inl Recv_key_reused
          else if exe_status e \<noteq> ''completed'' \<or> exe_resultPayload e = None
          then Inl (Recv_refused (Issue RECEIVING_CONCURRENT_POSTING_CONFLICT 409))
          else Inr (exe_resultPayload e))"

text \<open>\<open>bootstrap\<close> and \<open>test\<close> are the two settings of the environment.\<close>

record recv_env =
  renv_nodeEnv :: "string option"
  renv_allowLocalActorBootstrap :: "string option"
  renv_sourceIsTest :: bool

definition recv_test :: "recv_env \<Rightarrow> bool" where
  "recv_test env \<longleftrightarrow> js_lower (js_text (renv_nodeEnv env)) = ''test''"

definition recv_bootstrap :: "recv_env \<Rightarrow> bool" where
  "recv_bootstrap env \<longleftrightarrow>
     recv_test env \<or> js_lower (js_text (renv_allowLocalActorBootstrap env)) \<in> {''1'', ''true'', ''yes''}"

definition recv_scope_of :: "recv_env \<Rightarrow> string \<Rightarrow> string \<Rightarrow> recv_scope" where
  "recv_scope_of env tenantId actorId =
     \<lparr>rsc_tenantId = tenantId, rsc_actorId = actorId, rsc_bypass = (recv_test env \<and> renv_sourceIsTest env)\<rparr>"

definition recv_work ::
  "'w receiving_tx \<Rightarrow> (nat \<Rightarrow> string) \<Rightarrow> recv_command \<Rightarrow> recv_scope \<Rightarrow> recv_request \<Rightarrow> 'w \<Rightarrow> 'w recv_result" where
  "recv_work tx gen c scope req w =
     (case c of Post_receiving \<Rightarrow> postReceiving tx gen scope req w
      | Reverse_receiving \<Rightarrow> reverseReceiving tx gen scope req w)"

text \<open>The transaction; \<open>None\<close> is the unique violation of the table of executions.\<close>

definition recv_transact ::
  "'w receiving_tx \<Rightarrow> 'w identity_tx \<Rightarrow> (nat \<Rightarrow> string) \<Rightarrow> recv_env \<Rightarrow> identity \<Rightarrow> recv_command \<Rightarrow> string \<Rightarrow> string
   \<Rightarrow> recv_request \<Rightarrow> string \<Rightarrow> string \<Rightarrow> ('w, string list) service_state
   \<Rightarrow> (recv_failure + ('w, string list) service_state \<times> string list) option" where
  "recv_transact tx itx gen env who c tenantId actorId req key hash s =
     (let k = (tenantId, recv_command_type c, key)
      in case ensureTenantAndActor itx (recv_bootstrap env) tenantId actorId who (sv_world s) of
           Inl e \<Rightarrow> Some (Inl e)
         | Inr w \<Rightarrow>
             (case itx_resolve itx w who of
                Inl e \<Rightarrow> Some (Inl (Recv_identity_refused e))
              | Inr actor \<Rightarrow>
                  (case assertAuthorized (Some actor) (recv_command_type c) tenantId [] None [] of
                     Inl d \<Rightarrow> Some (Inl (Recv_unauthorized d))
                   | Inr _ \<Rightarrow>
                       if sv_executions s k \<noteq> None then None
                       else case recv_work tx gen c (recv_scope_of env tenantId actorId) req w of
                         Inl e \<Rightarrow> Some (Inl (Recv_refused e))
                       | Inr (w', ids) \<Rightarrow>
                           Some (Inr (\<lparr>sv_executions = (sv_executions s)(k \<mapsto>
                               \<lparr>exe_requestHash = hash, exe_status = ''completed'', exe_resultPayload = Some ids\<rparr>),
                             sv_world = w'\<rparr>, ids)))))"

text \<open>
  \<open>s0\<close> is the state read before the transaction, \<open>s\<close> the one it runs in. \<open>abort\<close> is a unique violation
  or a serialization failure for which a concurrent transaction is to blame.
\<close>

definition recv_execute ::
  "'w receiving_tx \<Rightarrow> 'w identity_tx \<Rightarrow> (nat \<Rightarrow> string) \<Rightarrow> (string \<Rightarrow> string) \<Rightarrow> recv_env \<Rightarrow> identity \<Rightarrow> recv_command
   \<Rightarrow> recv_input \<Rightarrow> db_abort option \<Rightarrow> ('w, string list) service_state \<Rightarrow> ('w, string list) service_state
   \<Rightarrow> recv_failure + (('w, string list) service_state \<times> string list \<times> bool)" where
  "recv_execute tx itx gen sha env who c input abort s0 s =
     (let tenantId = js_text (id_tenantId who); actorId = js_text (id_userId who)
      in and_then (fail_if (\<not> id_authenticated who \<or> tenantId = [] \<or> actorId = []) Recv_tenant_context_required) (\<lambda>_.
         and_then (commandInput sha c input) (\<lambda>(req, key, hash).
         let k = (tenantId, recv_command_type c, key);
             concurrent = and_then (recv_replay (sv_executions s k) hash) (\<lambda>r. case r of
                 Some ids \<Rightarrow> Inr (s, ids, True)
               | None \<Rightarrow> Inl (Recv_refused (Issue RECEIVING_CONCURRENT_POSTING_CONFLICT 409)))
         in and_then (recv_replay (sv_executions s0 k) hash) (\<lambda>r. case r of
              Some ids \<Rightarrow> Inr (s, ids, True)
            | None \<Rightarrow>
                (case abort of
                   Some Serialization_failure \<Rightarrow> Inl (Recv_refused (Issue RECEIVING_CONCURRENT_POSTING_CONFLICT 409))
                 | Some Unique_violation \<Rightarrow> concurrent
                 | None \<Rightarrow>
                     (case recv_transact tx itx gen env who c tenantId actorId req key hash s of
                        None \<Rightarrow> concurrent
                      | Some (Inl e) \<Rightarrow> Inl e
                      | Some (Inr (s', ids)) \<Rightarrow> Inr (s', ids, False)))))))"

lemma recv_replay_Inr:
  "recv_replay e h = Inr (Some ids) \<longleftrightarrow>
     (\<exists>x. e = Some x \<and> exe_requestHash x = h \<and> exe_status x = ''completed'' \<and> exe_resultPayload x = Some ids)"
  "recv_replay e h = Inr None \<longleftrightarrow> e = None"
  by (auto simp: recv_replay_def split: option.splits)

lemma recv_execute_cases:
  assumes "recv_execute tx itx gen sha env who c input abort s0 s = Inr (s', ids, replayed)"
  shows "\<exists>req key hash. commandInput sha c input = Inr (req, key, hash) \<and> executions_kept s s'
    \<and> (if replayed then s' = s \<and> (\<exists>u\<in>{s0, s}.
           recv_replay (sv_executions u (js_text (id_tenantId who), recv_command_type c, key)) hash = Inr (Some ids))
       else sv_executions s0 (js_text (id_tenantId who), recv_command_type c, key) = None
         \<and> sv_executions s (js_text (id_tenantId who), recv_command_type c, key) = None
         \<and> recorded_as s' (js_text (id_tenantId who), recv_command_type c, key) hash ids)"
proof -
  let ?k = "\<lambda>key. (js_text (id_tenantId who), recv_command_type c, key)"
  obtain req key hash r where ci: "commandInput sha c input = Inr (req, key, hash)"
    and r: "recv_replay (sv_executions s0 (?k key)) hash = Inr r"
    using assms by (auto simp: recv_execute_def Let_def split: prod.splits)
  let ?conc = "and_then (recv_replay (sv_executions s (?k key)) hash) (\<lambda>r. case r of
                 Some ids \<Rightarrow> Inr (s, ids, True)
               | None \<Rightarrow> Inl (Recv_refused (Issue RECEIVING_CONCURRENT_POSTING_CONFLICT 409)))"
  have conc: "?conc = Inr (s', ids, replayed) \<Longrightarrow> replayed \<and> s' = s
      \<and> recv_replay (sv_executions s (?k key)) hash = Inr (Some ids)"
    by (auto split: option.splits)
  show ?thesis
  proof (cases r)
    case (Some x)
    then have "replayed \<and> s' = s \<and> x = ids" using assms ci r by (auto simp: recv_execute_def Let_def)
    then show ?thesis using ci r Some by auto
  next
    case None
    then have s0: "sv_executions s0 (?k key) = None" using r by (simp add: recv_replay_Inr)
    show ?thesis
    proof (cases abort)
      case (Some a)
      then have "?conc = Inr (s', ids, replayed)" using assms ci r None
        by (cases a) (auto simp: recv_execute_def Let_def)
      from conc [OF this] ci show ?thesis by auto
    next
      case None': None
      let ?t = "recv_transact tx itx gen env who c (js_text (id_tenantId who)) (js_text (id_userId who)) req key hash s"
      show ?thesis
      proof (cases ?t)
        case None'': None
        then have "?conc = Inr (s', ids, replayed)" using assms ci r None None' by (auto simp: recv_execute_def Let_def)
        from conc [OF this] ci show ?thesis by auto
      next
        case (Some y)
        then have y: "y = Inr (s', ids)" "\<not> replayed" using assms ci r None None'
          by (auto simp: recv_execute_def Let_def split: sum.splits)
        then show ?thesis using Some s0 ci
          by (auto simp: recv_transact_def Let_def executions_kept_def recorded_as_def split: sum.splits if_splits prod.splits)
      qed
    qed
  qed
qed

end
