(* ===== verification/Receiving_Properties.thy ===== *)
theory Receiving_Properties
  imports Receiving_Runs Receiving_Execution
begin

text \<open>
  The properties of receiving, stated of any database that satisfies the laws of
  \<open>receiving_store\<close>, with witnesses on a database of lists.
\<close>

section \<open>A purchase order and a delivery\<close>

definition rx_line :: "string \<Rightarrow> int \<Rightarrow> receiving_line" where
  "rx_line k q = \<lparr>rl_id = k, rl_purchaseOrderLineId = Some ''pl1'', rl_itemId = Some ''item1'', rl_sku = Some ''SKU'',
     rl_itemName = None, rl_acceptedQty = Some q, rl_rejectedQty = None, rl_unit = None,
     rl_warehouseId = None, rl_location = Some '' A ''\<rparr>"

definition rx_doc :: receiving_document where
  "rx_doc = \<lparr>rd_id = ''rd1'', rd_tenantId = ''t1'', rd_poId = Some ''po1'', rd_warehouseId = Some ''w1'',
     rd_workflowStatus = ''approved'', rd_postingStatus = ''unposted'', rd_version = 3,
     rd_lines = [rx_line ''a'' 300000, rx_line ''b'' 200000]\<rparr>"

definition rx_order :: purchase_order where
  "rx_order = \<lparr>po_id = ''po1'', po_tenantId = ''t1'', po_status = ''issued'', po_receivingBaseStatus = None, po_version = 1,
     po_lines = [\<lparr>pol_id = ''pl1'', pol_itemId = Some ''item1'', pol_sku = Some ''SKU'', pol_itemName = Some ''Item'',
       pol_orderedQuantity = Some 1000000, pol_receivedQuantity = None, pol_version = 0, pol_unit = None\<rparr>]\<rparr>"

definition rx_balance :: balance where
  "rx_balance = \<lparr>bal_id = ''b1'', bal_tenantId = ''t1'', bal_itemId = Some ''item1'', bal_sku = ''SKU'', bal_itemName = None,
     bal_warehouseId = Some ''w1'', bal_warehouseKey = ''w1'', bal_location = Some ''A'', bal_locationKey = ''a'', bal_unit = None,
     bal_onHandQuantity = Some 100000, bal_reservedQuantity = Some 40000, bal_availableQuantity = Some 60000, bal_version = 7\<rparr>"

definition rx_db :: recv_db where
  "rx_db = \<lparr>rdb_docs = [rx_doc], rdb_orders = [rx_order], rdb_balances = [rx_balance], rdb_movements = [],
     rdb_items = [(''t1'', ''item1'', ''SKU'')], rdb_warehouses = [(''t1'', ''w1'')], rdb_scopes = [(''t1'', ''u1'', ''w1'')]\<rparr>"

definition rx_scope :: recv_scope where
  "rx_scope = \<lparr>rsc_tenantId = ''t1'', rsc_actorId = ''u1'', rsc_bypass = False\<rparr>"

definition rx_request :: recv_request where
  "rx_request = \<lparr>rq_receivingDocumentId = ''rd1'', rq_expectedVersion = Some (Some 3), rq_reason = []\<rparr>"

definition rx_gen :: "nat \<Rightarrow> string" where
  "rx_gen n = ''id'' @ replicate n (CHR ''x'')"

definition rx_gen2 :: "nat \<Rightarrow> string" where
  "rx_gen2 n = ''jd'' @ replicate n (CHR ''x'')"

definition rx_posted :: recv_db where
  "rx_posted = (case postReceiving recv_tx rx_gen rx_scope rx_request rx_db of Inr r \<Rightarrow> fst r | Inl e \<Rightarrow> rx_db)"

definition rx_reversed :: recv_db where
  "rx_reversed = (case reverseReceiving recv_tx rx_gen2 rx_scope (rx_request\<lparr>rq_reason := ''wrong''\<rparr>) rx_posted of
     Inr r \<Rightarrow> fst r | Inl e \<Rightarrow> rx_db)"

lemma rx_posts: "postReceiving recv_tx rx_gen rx_scope rx_request rx_db = Inr (rx_posted, [''idxx'', ''idxxxx''])"
  by code_simp

lemma rx_reverses:
  "reverseReceiving recv_tx rx_gen2 rx_scope (rx_request\<lparr>rq_reason := ''wrong''\<rparr>) rx_posted
     = Inr (rx_reversed, [''jdxx'', ''jdxxx''])"
  by code_simp

lemma rx_run: "receiving_run recv_tx rx_db rx_posted" "receiving_run recv_tx rx_db rx_reversed"
  using posts [OF rx_posts] reverses [OF rx_reverses] by (auto intro: converse_rtranclp_into_rtranclp)

lemma rx_ok: "recv_ok rx_db"
  by code_simp

lemma rx_inv: "recv_inv (recv_view_of rx_db)"
  by (auto simp: recv_inv_def recv_view_of_def rx_db_def stock_fine_def stock_row_def rx_balance_def balance_ok_def
      quantity_defs receipts_match_def receipt_facts_def never_over_received_def within_order_def row_by_def rx_doc_def
      rx_order_def split: if_splits)

lemma rx_finite: "finite (dom (rv_docs (recv_view_of rx_db)))"
proof -
  have "dom (rv_docs (recv_view_of rx_db)) \<subseteq> {''rd1''}"
    by (auto simp: recv_view_of_def rx_db_def row_by_def rx_doc_def split: if_splits)
  then show ?thesis by (rule finite_subset) simp
qed

section \<open>Refinement\<close>

text \<open>C7: Posting and reversing a receiving document refine the machine on numbers: posting an unposted
  document adds the accepted quantity of each of its lines to the stock at the line's place and to
  the received quantity of its order line, and marks the document posted; reversing a posted one
  subtracts exactly the same and marks it reversed; nothing else changes in the numbers.\<close>

theorem receiving_refines_the_machine:
  assumes "receiving_store tx view ok" "ok s" "recv_inv (view s)"
    and "rv_docs (view s) (rq_receivingDocumentId req) = Some doc"
  shows "(postReceiving tx gen scope req s = Inr (s', ids) \<longrightarrow>
       rd_postingStatus doc = ''unposted'' \<and> numbers (view s') = post_receipt doc (numbers (view s)))
    \<and> (reverseReceiving tx gen scope req s = Inr (s', ids) \<longrightarrow>
       rd_postingStatus doc = ''posted'' \<and> numbers (view s') = reverse_receipt doc (numbers (view s)))"
  using receiving_store.posting_refines [OF assms(1) _ assms(2,3), of gen scope req s' ids]
    receiving_store.reversing_refines [OF assms(1) _ assms(2,3), of gen scope req s' ids] assms(4)
  by auto

theorem receiving_refines_the_machine_witness:
  "rc_stock (numbers (recv_view_of rx_posted)) (''t1'', ''SKU'', ''w1'', ''a'') = 600000"
proof -
  have "rv_docs (recv_view_of rx_db) (rq_receivingDocumentId rx_request) = Some rx_doc" by code_simp
  from receiving_refines_the_machine [OF list_receiving.receiving_store_axioms rx_ok rx_inv this,
      of rx_gen rx_scope rx_posted "[''idxx'', ''idxxxx'']"] rx_posts
  have "numbers (recv_view_of rx_posted) = post_receipt rx_doc (numbers (recv_view_of rx_db))" by simp
  moreover have "rc_stock (post_receipt rx_doc (numbers (recv_view_of rx_db))) (''t1'', ''SKU'', ''w1'', ''a'') = 600000"
    by code_simp
  ultimately show ?thesis by simp
qed

section \<open>Runs\<close>

text \<open>C5: Along every run of postings and reversals by any users, the stock at a place less what the
  posted documents brought there is constant, the received quantity of an order line less what the
  posted documents delivered for it is constant, and the stock moves exactly with the recorded
  movements. So a reversed receipt leaves no trace in the numbers, and none counts twice.\<close>

theorem stock_is_what_is_posted:
  assumes "receiving_store tx view ok" "receiving_run tx s0 s" "ok s0" "recv_inv (view s0)"
    and "finite (dom (rv_docs (view s0)))"
  shows "(\<forall>p. on_hand_at (view s) p - posted_sum (\<lambda>doc. accepted_at doc p) (view s)
            = on_hand_at (view s0) p - posted_sum (\<lambda>doc. accepted_at doc p) (view s0))
    \<and> (\<forall>d k. rc_received (numbers (view s)) d k - posted_sum (\<lambda>doc. accepted_to doc d k) (view s)
            = rc_received (numbers (view s0)) d k - posted_sum (\<lambda>doc. accepted_to doc d k) (view s0))
    \<and> (\<forall>p. on_hand_at (view s) p - move_total (view s) p = on_hand_at (view s0) p - move_total (view s0) p)"
  using receiving_store.run_keeps [OF assms] by (simp add: run_constant_def numbers_def)

theorem stock_is_what_is_posted_witness:
  "on_hand_at (recv_view_of rx_reversed) (''t1'', ''SKU'', ''w1'', ''a'')
     = on_hand_at (recv_view_of rx_db) (''t1'', ''SKU'', ''w1'', ''a'')"
proof -
  let ?p = "(''t1'', ''SKU'', ''w1'', ''a'')"
  have none: "posted_doc (recv_view_of rx_db) d = None" for d
    by (simp add: posted_doc_def recv_view_of_def rx_db_def row_by_def rx_doc_def)
  have docs: "rdb_docs rx_reversed = [rx_doc\<lparr>rd_postingStatus := ''reversed'', rd_version := 5\<rparr>]" by code_simp
  have none': "posted_doc (recv_view_of rx_reversed) d = None" for d
    by (simp add: posted_doc_def recv_view_of_def docs row_by_def rx_doc_def)
  show ?thesis
    using stock_is_what_is_posted [OF list_receiving.receiving_store_axioms rx_run(2) rx_ok rx_inv rx_finite]
    by (simp add: posted_sum_def none none')
qed

text \<open>C16: No order line is ever over-received: in every state a run reaches each line has received
  between zero and what was ordered, and at every place the available quantity is on-hand less
  reserved and on-hand covers what is reserved.\<close>

theorem receiving_never_exceeds_the_order:
  assumes "receiving_store tx view ok" "receiving_run tx s0 s" "ok s0" "recv_inv (view s0)"
    and "rv_orders (view s) d = Some po" "l \<in> set (po_lines po)" "rv_stock (view s) p = Some b"
  shows "0 \<le> received_of l \<and> received_of l \<le> ordered_of l \<and> balance_ok b"
proof -
  have "recv_inv (view s)" using receiving_store.run_inv [OF assms(1-4)] by simp
  then show ?thesis using assms(5-7)
    unfolding recv_inv_def never_over_received_def within_order_def stock_fine_def by blast
qed

definition rx_order_posted :: purchase_order where
  "rx_order_posted = (case row_by po_id (rdb_orders rx_posted) ''po1'' of Some po \<Rightarrow> po | None \<Rightarrow> rx_order)"

definition rx_balance_posted :: balance where
  "rx_balance_posted = (case stock_row (rdb_balances rx_posted) (''t1'', ''SKU'', ''w1'', ''a'') of Some b \<Rightarrow> b | None \<Rightarrow> rx_balance)"

theorem receiving_never_exceeds_the_order_witness:
  "received_of (hd (po_lines rx_order_posted)) = 500000
   \<and> received_of (hd (po_lines rx_order_posted)) \<le> ordered_of (hd (po_lines rx_order_posted))
   \<and> balance_ok rx_balance_posted"
proof -
  have o: "rv_orders (recv_view_of rx_posted) ''po1'' = Some rx_order_posted" by code_simp
  have b: "rv_stock (recv_view_of rx_posted) (''t1'', ''SKU'', ''w1'', ''a'') = Some rx_balance_posted" by code_simp
  have l: "hd (po_lines rx_order_posted) \<in> set (po_lines rx_order_posted)" by code_simp
  have "received_of (hd (po_lines rx_order_posted)) = 500000" by code_simp
  with receiving_never_exceeds_the_order [OF list_receiving.receiving_store_axioms rx_run(1) rx_ok rx_inv o l b]
  show ?thesis by simp
qed

text \<open>C28: A receiving document is posted at most once and reversed at most once: along every run its
  posting status only goes from unposted to posted to reversed, its version never falls and its
  lines never change.\<close>

theorem receipts_follow_their_machine:
  assumes "receiving_store tx view ok" "receiving_run tx s0 s" "ok s0" "recv_inv (view s0)"
    and "rv_docs (view s0) d = Some doc0"
  shows "\<exists>doc. rv_docs (view s) d = Some doc \<and> posting_path (rd_postingStatus doc0) (rd_postingStatus doc)
    \<and> rd_lines doc = rd_lines doc0 \<and> rd_version doc0 \<le> rd_version doc"
  by (rule receiving_store.run_posting_path [OF assms])

theorem receipts_follow_their_machine_witness:
  "\<exists>doc. rv_docs (recv_view_of rx_reversed) ''rd1'' = Some doc \<and> posting_path ''unposted'' (rd_postingStatus doc)
    \<and> rd_lines doc = rd_lines rx_doc"
proof -
  have d: "rv_docs (recv_view_of rx_db) ''rd1'' = Some rx_doc" by code_simp
  have "rd_postingStatus rx_doc = ''unposted''" by (simp add: rx_doc_def)
  with receipts_follow_their_machine [OF list_receiving.receiving_store_axioms rx_run(2) rx_ok rx_inv d] show ?thesis by auto
qed

section \<open>Executions\<close>

text \<open>C29: A receiving command that was carried out is never carried out again under its tenant, command
  and idempotency key: a later call that succeeds, by whichever user and after whatever other
  transactions, changes nothing and returns the recorded movements, and its request hash is the
  recorded one.\<close>

theorem receiving_command_is_carried_out_once:
  assumes "recv_execute tx itx gen sha env who c input abort s0 s = Inr (s1, ids, False)"
    and "executions_kept s1 s2" "executions_kept s0' s2"
    and "recv_execute tx' itx' gen' sha env' who' c input' abort' s0' s2 = Inr (s3, ids', replayed)"
    and "js_text (id_tenantId who') = js_text (id_tenantId who)"
    and "js_text (ri_idempotencyKey input') = js_text (ri_idempotencyKey input)"
  shows "s3 = s2 \<and> ids' = ids \<and> replayed
    \<and> (\<exists>req req' key hash. commandInput sha c input = Inr (req, key, hash) \<and> commandInput sha c input' = Inr (req', key, hash))"
proof -
  obtain req key hash where a: "commandInput sha c input = Inr (req, key, hash)"
    "recorded_as s1 (js_text (id_tenantId who), recv_command_type c, key) hash ids"
    using recv_execute_cases [OF assms(1)] by auto
  obtain req' key' hash' where b: "commandInput sha c input' = Inr (req', key', hash')"
    "if replayed then s3 = s2 \<and> (\<exists>u\<in>{s0', s2}.
           recv_replay (sv_executions u (js_text (id_tenantId who'), recv_command_type c, key')) hash' = Inr (Some ids'))
       else sv_executions s2 (js_text (id_tenantId who'), recv_command_type c, key') = None"
    using recv_execute_cases [OF assms(4)] by (auto split: if_splits)
  have key: "key' = key" using a(1) b(1) assms(6) by (auto simp: commandInput_def Let_def)
  let ?k = "(js_text (id_tenantId who), recv_command_type c, key)"
  have rec: "recorded_as s2 ?k hash ids" using a(2) assms(2) by (simp add: recorded_as_def executions_kept_def)
  then have replayed using b(2) assms(5) key by (auto simp: recorded_as_def split: if_splits)
  then obtain u where s3: "s3 = s2" and u: "u \<in> {s0', s2}"
    "recv_replay (sv_executions u ?k) hash' = Inr (Some ids')"
    using b(2) assms(5) key by auto
  then have "recv_replay (sv_executions s2 ?k) hash' = Inr (Some ids')"
    using assms(3) by (auto simp: recv_replay_Inr executions_kept_def)
  then have "hash' = hash" "ids' = ids" using rec by (auto simp: recv_replay_Inr recorded_as_def)
  then show ?thesis using s3 \<open>replayed\<close> a(1) b(1) key by blast
qed

definition rx_context :: auth_context where
  "rx_context = context_of_user
     \<lparr>us_id = ''u1'', us_tenantId = ''t1'', us_role = None, us_status = ''active'', us_warehouseScopes = [(''w1'', ''operate'')],
      us_roleAssignments = [\<lparr>ra_status = ''active'', ra_role = \<lparr>ro_id = ''r1'', ro_status = ''active'',
        ro_permissions = [''receiving.post'']\<rparr>\<rparr>]\<rparr>"

definition rx_identity :: identity where
  "rx_identity = \<lparr>id_authenticated = True, id_tenantId = Some ''t1'', id_userId = Some ''u1'', id_id = None, id_role = None\<rparr>"

definition rx_identity_tx :: "recv_db identity_tx" where
  "rx_identity_tx = \<lparr>itx_tenantKnown = (\<lambda>w t. t = ''t1''),
     itx_findActor = (\<lambda>w u. Some \<lparr>ar_tenantId = ''t1'', ar_role = None, ar_status = ''active''\<rparr>),
     itx_createActor = (\<lambda>w t u i. None), itx_resolve = (\<lambda>w i. Inr rx_context)\<rparr>"

definition rx_env :: recv_env where
  "rx_env = \<lparr>renv_nodeEnv = None, renv_allowLocalActorBootstrap = None, renv_sourceIsTest = False\<rparr>"

definition rx_input :: recv_input where
  "rx_input = \<lparr>ri_receivingDocumentId = Some '' rd1'', ri_idempotencyKey = Some ''k1'', ri_expectedVersion = Some 3, ri_reason = None\<rparr>"

definition rx_service :: "(recv_db, string list) service_state" where
  "rx_service = \<lparr>sv_executions = (\<lambda>_. None), sv_world = rx_db\<rparr>"

definition rx_served :: "(recv_db, string list) service_state" where
  "rx_served = \<lparr>sv_executions = (\<lambda>_. None)((''t1'', ''receiving.post'', ''k1'') \<mapsto>
       \<lparr>exe_requestHash = ''h'', exe_status = ''completed'', exe_resultPayload = Some [''idxx'', ''idxxxx'']\<rparr>),
     sv_world = rx_posted\<rparr>"

lemma rx_known: "knownPermission ''receiving.post''"
  by (simp add: knownPermission_def permissionCodes_def permissionCatalog_def definitions_operations_def permission_row_def)

lemma rx_authorized: "\<exists>d. assertAuthorized (Some rx_context) ''receiving.post'' ''t1'' [] None [] = Inr d"
proof -
  have "js_unique ([] :: string list) = []" by code_simp
  moreover have "ac_permissionCodes rx_context = [''receiving.post'']" "ac_complete rx_context" "ac_authenticated rx_context"
    "ac_tenantId rx_context = ''t1''"
    by (simp_all add: rx_context_def ac_permissionCodes_def context_of_user_def active_assignment_def permission_sources_def
        add_grant_def rx_known)
  ultimately show ?thesis by (simp add: assertAuthorized_def authorize_def Let_def rx_known unique_texts_def)
qed

lemma rx_texts: "js_text (Some ''t1'') = ''t1''" "js_text (Some ''u1'') = ''u1''" "js_text (Some '' rd1'') = ''rd1''"
  "js_text (Some ''k1'') = ''k1''" "js_text (Some '' k1'') = ''k1''"
  by code_simp+

lemma rx_command: "commandInput (\<lambda>_. ''h'') Post_receiving rx_input = Inr (rx_request, ''k1'', ''h'')"
  by (simp add: commandInput_def rx_input_def rx_texts rx_request_def recv_hash_def del: js_text_Some)

lemma rx_executes:
  "recv_execute recv_tx rx_identity_tx rx_gen (\<lambda>_. ''h'') rx_env rx_identity Post_receiving rx_input None rx_service rx_service
     = Inr (rx_served, [''idxx'', ''idxxxx''], False)"
proof -
  obtain d where d: "assertAuthorized (Some rx_context) ''receiving.post'' ''t1'' [] None [] = Inr d"
    using rx_authorized by blast
  have sc: "recv_scope_of rx_env ''t1'' ''u1'' = rx_scope"
    by (simp add: recv_scope_of_def rx_env_def rx_scope_def)
  have e: "ensureTenantAndActor rx_identity_tx b ''t1'' ''u1'' rx_identity rx_db = Inr rx_db" for b
    by (simp add: ensureTenantAndActor_def rx_identity_tx_def rx_identity_def)
  have w: "recv_work recv_tx rx_gen Post_receiving rx_scope rx_request rx_db = Inr (rx_posted, [''idxx'', ''idxxxx''])"
    using rx_posts by (simp add: recv_work_def)
  have "itx_resolve rx_identity_tx rx_db rx_identity = Inr rx_context" by (simp add: rx_identity_tx_def)
  then have t: "recv_transact recv_tx rx_identity_tx rx_gen rx_env rx_identity Post_receiving ''t1'' ''u1'' rx_request ''k1'' ''h'' rx_service
      = Some (Inr (rx_served, [''idxx'', ''idxxxx'']))"
    using d e w sc by (simp add: recv_transact_def recv_command_type_def rx_service_def rx_served_def)
  show ?thesis
    using t by (simp add: recv_execute_def rx_command rx_identity_def rx_texts recv_replay_def recv_command_type_def
        rx_service_def del: js_text_Some)
qed

theorem receiving_command_is_carried_out_once_witness:
  "recv_execute recv_tx rx_identity_tx rx_gen2 (\<lambda>_. ''h'') rx_env rx_identity Post_receiving
     (rx_input\<lparr>ri_idempotencyKey := Some '' k1''\<rparr>) None rx_service rx_served = Inr (rx_served, [''idxx'', ''idxxxx''], True)"
proof -
  let ?e = "recv_execute recv_tx rx_identity_tx rx_gen2 (\<lambda>_. ''h'') rx_env rx_identity Post_receiving
     (rx_input\<lparr>ri_idempotencyKey := Some '' k1''\<rparr>) None rx_service rx_served"
  have ci: "commandInput (\<lambda>_. ''h'') Post_receiving (rx_input\<lparr>ri_idempotencyKey := Some '' k1''\<rparr>) = Inr (rx_request, ''k1'', ''h'')"
    by (simp add: commandInput_def rx_input_def rx_texts rx_request_def recv_hash_def del: js_text_Some)
  obtain d where d: "assertAuthorized (Some rx_context) ''receiving.post'' ''t1'' [] None [] = Inr d"
    using rx_authorized by blast
  have "recv_transact recv_tx rx_identity_tx rx_gen2 rx_env rx_identity Post_receiving ''t1'' ''u1'' rx_request ''k1'' ''h'' rx_served = None"
    using d by (simp add: recv_transact_def ensureTenantAndActor_def rx_identity_tx_def rx_identity_def recv_command_type_def rx_served_def)
  then have "\<not> isl ?e"
    by (simp add: recv_execute_def ci rx_identity_def rx_texts recv_replay_def recv_command_type_def rx_service_def
        rx_served_def fail_if_def del: js_text_Some)
  then obtain s ids b where e: "?e = Inr (s, ids, b)" by (cases ?e) auto
  have "executions_kept rx_service rx_served" by (simp add: executions_kept_def rx_service_def)
  from receiving_command_is_carried_out_once [OF rx_executes executions_kept_refl this e refl] e show ?thesis
    by (simp add: rx_input_def rx_texts del: js_text_Some)
qed

section \<open>The status of the order\<close>

text \<open>C30: After every posting and reversal the status of the purchase order is the one its lines
  deserve: fully received exactly when it has lines and all have received what was ordered;
  partially received exactly when that is not so and some line has received something; and when no
  line has received anything, the status it had before receiving began: the recorded base status or,
  without one, approved in place of a receiving status and else the status unchanged. The base
  status must not itself be one of the two receiving statuses.\<close>

theorem order_status_follows_receipts:
  assumes "receiving_store tx view ok" "ok s" "recv_inv (view s)"
    and "postReceiving tx gen scope req s = Inr (s', ids) \<or> reverseReceiving tx gen scope req s = Inr (s', ids)"
    and "rv_docs (view s) (rq_receivingDocumentId req) = Some doc" "rd_poId doc = Some d"
    and "rv_orders (view s) d = Some po0"
    and "js_text (po_receivingBaseStatus po0) \<notin> {''partially_received'', ''fully_received''}"
  shows "\<exists>po. rv_orders (view s') d = Some po
    \<and> (po_status po = ''fully_received'' \<longleftrightarrow> po_lines po \<noteq> [] \<and> (\<forall>l\<in>set (po_lines po). ordered_of l \<le> received_of l))
    \<and> (po_status po = ''partially_received'' \<longleftrightarrow>
        \<not> (po_lines po \<noteq> [] \<and> (\<forall>l\<in>set (po_lines po). ordered_of l \<le> received_of l)) \<and> (\<exists>l\<in>set (po_lines po). 0 < received_of l))
    \<and> (po_status po \<notin> {''fully_received'', ''partially_received''} \<longrightarrow>
        po_status po = (if js_text (po_receivingBaseStatus po0) \<noteq> [] then js_text (po_receivingBaseStatus po0)
          else if po_status po0 \<in> {''partially_received'', ''fully_received''} then ''approved'' else po_status po0))"
proof -
  obtain po where po: "rd_poId doc = Some (po_id po)" "rv_orders (view s) (po_id po) = Some po" "order_status_set po (view s')"
    using assms(4)
  proof
    assume "postReceiving tx gen scope req s = Inr (s', ids)"
    from receiving_store.posting_refines [OF assms(1) this assms(2,3)] assms(5) show ?thesis using that by auto
  next
    assume "reverseReceiving tx gen scope req s = Inr (s', ids)"
    from receiving_store.reversing_refines [OF assms(1) this assms(2,3)] assms(5) show ?thesis using that by auto
  qed
  then have d: "po_id po = d" "po = po0" using assms(6,7) by auto
  then obtain po' where po': "rv_orders (view s') d = Some po'"
    "po_status po' = poStatus (po_lines po') (po_status po0) (po_receivingBaseStatus po0)"
    using po(3) by (auto simp: order_status_set_def)
  have "(po_status po' = ''fully_received'' \<longleftrightarrow> po_lines po' \<noteq> [] \<and> (\<forall>l\<in>set (po_lines po'). ordered_of l \<le> received_of l))
    \<and> (po_status po' = ''partially_received'' \<longleftrightarrow>
        \<not> (po_lines po' \<noteq> [] \<and> (\<forall>l\<in>set (po_lines po'). ordered_of l \<le> received_of l)) \<and> (\<exists>l\<in>set (po_lines po'). 0 < received_of l))
    \<and> (po_status po' \<notin> {''fully_received'', ''partially_received''} \<longrightarrow>
        po_status po' = (if js_text (po_receivingBaseStatus po0) \<noteq> [] then js_text (po_receivingBaseStatus po0)
          else if po_status po0 \<in> {''partially_received'', ''fully_received''} then ''approved'' else po_status po0))"
    using assms(8) unfolding po'(2) by (auto simp: poStatus_def list_all_iff list_ex_iff)
  with po'(1) show ?thesis by blast
qed

theorem order_status_follows_receipts_witness:
  "po_status rx_order_posted = ''partially_received''"
proof -
  have d: "rv_docs (recv_view_of rx_db) (rq_receivingDocumentId rx_request) = Some rx_doc" by code_simp
  have p: "rd_poId rx_doc = Some ''po1''" by (simp add: rx_doc_def)
  have base: "rv_orders (recv_view_of rx_db) ''po1'' = Some rx_order"
    "js_text (po_receivingBaseStatus rx_order) \<notin> {''partially_received'', ''fully_received''}"
    by (auto simp: recv_view_of_def rx_db_def row_by_def rx_order_def)
  have o: "rv_orders (recv_view_of rx_posted) ''po1'' = Some rx_order_posted" by code_simp
  have "\<exists>l\<in>set (po_lines rx_order_posted). received_of l < ordered_of l"
    "\<exists>l\<in>set (po_lines rx_order_posted). 0 < received_of l" by code_simp+
  with order_status_follows_receipts [OF list_receiving.receiving_store_axioms rx_ok rx_inv disjI1 [OF rx_posts] d p base] o
  show ?thesis by fastforce
qed

section \<open>Reconciliation\<close>

text \<open>C31: \<open>calculateMovementBalance\<close> counts inventory adjustments and cycle counts twice: the movements
  that posting an adjustment or a count records carry the change both as quantity in or out and as
  adjustment quantity, so their sum is twice the change of stock they stand for. The
  reconciliation of receiving therefore reports a mismatch for every balance that was adjusted.\<close>

theorem reconciliation_counts_adjustments_twice:
  "calculateMovementBalance (map (\<lambda>f. movement_row (newId f) t dt d (lineId f) batch None f)
       (ip_movementFacts (buildInventoryAdjustmentPostingPlan le tx s t adjustmentId)))
     = 2 * sum_list (map (\<lambda>f. mf_quantityIn f - mf_quantityOut f)
         (ip_movementFacts (buildInventoryAdjustmentPostingPlan le tx s t adjustmentId)))
   \<and> calculateMovementBalance (map (\<lambda>f. movement_row (newId f) t dt d (lineId f) batch None f)
       (ip_movementFacts (buildCycleCountPostingPlan tx s t countId)))
     = 2 * sum_list (map (\<lambda>f. mf_quantityIn f - mf_quantityOut f)
         (ip_movementFacts (buildCycleCountPostingPlan tx s t countId)))"
proof -
  have sums: "calculateMovementBalance (map (\<lambda>f. movement_row (newId f) t dt d (lineId f) batch None f) fs)
      = 2 * sum_list (map (\<lambda>f. mf_quantityIn f - mf_quantityOut f) fs)"
    if "\<forall>f\<in>set fs. mf_adjustmentQty f = mf_quantityIn f - mf_quantityOut f" for fs
  proof -
    have "fold (\<lambda>m total. total + column_units (mov_quantityIn m) - column_units (mov_quantityOut m)
        + column_units (mov_adjustmentQty m)) (map (\<lambda>f. movement_row (newId f) t dt d (lineId f) batch None f) fs) n
      = n + 2 * sum_list (map (\<lambda>f. mf_quantityIn f - mf_quantityOut f) fs)" for n
      using that by (induction fs arbitrary: n) (auto simp: movement_row_def)
    then show ?thesis by (simp add: calculateMovementBalance_def)
  qed
  have "\<forall>f\<in>set (ip_movementFacts (buildInventoryAdjustmentPostingPlan le tx s t adjustmentId)).
      mf_adjustmentQty f = mf_quantityIn f - mf_quantityOut f"
    by (auto simp: buildInventoryAdjustmentPostingPlan_def Let_def result_def adjustment_posting_line_def
        adjustment_fact_def split: option.splits prod.splits)
  moreover have "\<forall>f\<in>set (ip_movementFacts (buildCycleCountPostingPlan tx s t countId)).
      mf_adjustmentQty f = mf_quantityIn f - mf_quantityOut f"
    by (auto simp: buildCycleCountPostingPlan_def Let_def result_def count_posting_line_def
        split: option.splits if_splits)
  ultimately show ?thesis using sums by blast
qed

end
