(* ===== verification/Prisma_Tables.thy ===== *)
theory Prisma_Tables
  imports Prelude
begin

text \<open>
  The queries of one Prisma model, as the command services use them: \<open>findMany\<close>, \<open>findFirst\<close>,
  \<open>create\<close>, \<open>update\<close> of one row by its identifier, \<open>updateMany\<close> and \<open>deleteMany\<close> by a condition. Prisma
  and the database behind it are not part of the repository, so a model is a record of these
  functions over any type \<open>'s\<close> of database, and the locale \<open>prisma_table\<close> states what they do to
  the rows of the table: a \<open>where\<close> clause is a predicate on rows, \<open>data\<close> a function on a row.
  A query that fails (a unique index, a missing row) is \<open>None\<close> and rolls the transaction back.

  \<open>clash\<close> is the unique indexes of the table: two different rows never clash. \<open>good\<close> is those of the
  child rows that a row includes. The locale says nothing of the order in which rows are found, nor
  that a query succeeds. The last three laws say that \<open>rows\<close> and \<open>put\<close> are one field of the tables.
\<close>

record ('s, 'r) prisma_model =
  findMany :: "'s \<Rightarrow> ('r \<Rightarrow> bool) \<Rightarrow> 'r list"
  findFirst :: "'s \<Rightarrow> ('r \<Rightarrow> bool) \<Rightarrow> 'r option"
  createRow :: "'s \<Rightarrow> 'r \<Rightarrow> 's option"
  updateRow :: "'s \<Rightarrow> string \<Rightarrow> ('r \<Rightarrow> 'r) \<Rightarrow> 's option"
  updateMany :: "'s \<Rightarrow> ('r \<Rightarrow> bool) \<Rightarrow> ('r \<Rightarrow> 'r) \<Rightarrow> ('s \<times> nat) option"
  deleteMany :: "'s \<Rightarrow> ('r \<Rightarrow> bool) \<Rightarrow> 's"

definition update_where :: "('r \<Rightarrow> bool) \<Rightarrow> ('r \<Rightarrow> 'r) \<Rightarrow> 'r list \<Rightarrow> 'r list" where
  "update_where P f rs = map (\<lambda>r. if P r then f r else r) rs"

text \<open>No two rows at different places clash.\<close>

definition unclashed :: "('r \<Rightarrow> 'r \<Rightarrow> bool) \<Rightarrow> 'r list \<Rightarrow> bool" where
  "unclashed clash rs \<longleftrightarrow> sorted_wrt (\<lambda>a b. \<not> clash a b \<and> \<not> clash b a) rs"

section \<open>The laws\<close>

text \<open>
  \<open>tables s\<close> is the rows of every table of the state, \<open>rows\<close> picks those of this table and \<open>put\<close>
  replaces them, so each law also says that the other tables stay as they are.
\<close>

locale prisma_table =
  fixes m :: "('s, 'r) prisma_model"
    and tables :: "'s \<Rightarrow> 't"
    and rows :: "'t \<Rightarrow> 'r list"
    and put :: "('r list \<Rightarrow> 'r list) \<Rightarrow> 't \<Rightarrow> 't"
    and key :: "'r \<Rightarrow> string"
    and clash :: "'r \<Rightarrow> 'r \<Rightarrow> bool"
    and good :: "'r \<Rightarrow> bool"
  assumes found: "mset (findMany m s P) = mset (filter P (rows (tables s)))"
    and first_some: "findFirst m s P = Some r \<Longrightarrow> r \<in> set (rows (tables s)) \<and> P r"
    and first_none: "findFirst m s P = None \<Longrightarrow> r \<in> set (rows (tables s)) \<Longrightarrow> \<not> P r"
    and created: "createRow m s r = Some s' \<Longrightarrow>
          tables s' = put (\<lambda>rs. rs @ [r]) (tables s) \<and> good r
          \<and> (unclashed clash (rows (tables s)) \<longrightarrow> unclashed clash (rows (tables s) @ [r]))"
    and updated: "updateRow m s k f = Some s' \<Longrightarrow>
          tables s' = put (update_where (\<lambda>r. key r = k) f) (tables s)
          \<and> (\<exists>r\<in>set (rows (tables s)). key r = k) \<and> (\<forall>r\<in>set (rows (tables s)). key r = k \<longrightarrow> good (f r))
          \<and> (unclashed clash (rows (tables s)) \<longrightarrow> unclashed clash (update_where (\<lambda>r. key r = k) f (rows (tables s))))"
    and updated_many: "updateMany m s P f = Some (s', n) \<Longrightarrow>
          tables s' = put (update_where P f) (tables s) \<and> n = length (filter P (rows (tables s)))
          \<and> (\<forall>r\<in>set (rows (tables s)). P r \<longrightarrow> good (f r))
          \<and> (unclashed clash (rows (tables s)) \<longrightarrow> unclashed clash (update_where P f (rows (tables s))))"
    and deleted: "tables (deleteMany m s P) = put (filter (\<lambda>r. \<not> P r)) (tables s)"
    and same_key: "key a = key b \<Longrightarrow> clash a b"
    and rows_put [simp]: "rows (put g T) = g (rows T)"
    and put_put [simp]: "put g (put h T) = put (\<lambda>rs. g (h rs)) T"
    and put_rows [simp]: "put (\<lambda>rs. rs) T = T"
begin

lemma found_iff: "r \<in> set (findMany m s P) \<longleftrightarrow> r \<in> set (rows (tables s)) \<and> P r"
proof -
  have "set (findMany m s P) = set (filter P (rows (tables s)))"
    using found [of s P] by (rule mset_eq_setD)
  then show ?thesis by simp
qed

lemma unclashed_keys: "unclashed clash rs \<Longrightarrow> distinct (map key rs)"
  by (induction rs) (auto simp: unclashed_def dest: same_key)

end

text \<open>A unique index over a nullable column: nulls do not clash.\<close>

definition same_some :: "'a option \<Rightarrow> 'a option \<Rightarrow> bool" where
  "same_some a b \<longleftrightarrow> a \<noteq> None \<and> a = b"

section \<open>Facts about rows\<close>

lemma update_where_Nil [simp]: "update_where P f [] = []"
  by (simp add: update_where_def)

lemma update_where_Cons [simp]: "update_where P f (r # rs) = (if P r then f r else r) # update_where P f rs"
  by (simp add: update_where_def)

lemma update_where_append [simp]: "update_where P f (rs @ qs) = update_where P f rs @ update_where P f qs"
  by (simp add: update_where_def)

lemma set_update_where:
  "r \<in> set (update_where P f rs) \<longleftrightarrow> (\<exists>q\<in>set rs. r = (if P q then f q else q))"
  by (induction rs) auto

lemma update_where_other: "(\<And>r. r \<in> set rs \<Longrightarrow> \<not> P r) \<Longrightarrow> update_where P f rs = rs"
  by (induction rs) auto

lemma update_where_keys: "(\<And>r. P r \<Longrightarrow> key (f r) = key r) \<Longrightarrow> map key (update_where P f rs) = map key rs"
  by (induction rs) auto

lemma unclashed_Nil [simp]: "unclashed clash []"
  by (simp add: unclashed_def)

lemma unclashed_Cons:
  "unclashed clash (r # rs) \<longleftrightarrow> (\<forall>q\<in>set rs. \<not> clash r q \<and> \<not> clash q r) \<and> unclashed clash rs"
  by (auto simp: unclashed_def)

lemma unclashed_snoc:
  "unclashed clash (rs @ [r]) \<longleftrightarrow> unclashed clash rs \<and> (\<forall>q\<in>set rs. \<not> clash q r \<and> \<not> clash r q)"
  by (auto simp: unclashed_def sorted_wrt_append)

lemma unclashed_at:
  assumes "unclashed clash rs" "a \<in> set rs" "b \<in> set rs" "clash a b"
  shows "a = b"
  using assms by (induction rs) (auto simp: unclashed_Cons)

text \<open>The row with a given key in a table with distinct keys.\<close>

definition row_of :: "('r \<Rightarrow> string) \<Rightarrow> 'r list \<Rightarrow> string \<Rightarrow> 'r option" where
  "row_of key rs k = find (\<lambda>r. key r = k) rs"

lemma row_of_Some: "row_of key rs k = Some r \<Longrightarrow> r \<in> set rs \<and> key r = k"
  by (auto simp: row_of_def find_Some_iff in_set_conv_nth)

lemma row_of_in: "distinct (map key rs) \<Longrightarrow> r \<in> set rs \<Longrightarrow> row_of key rs (key r) = Some r"
  by (induction rs) (auto simp: row_of_def rev_image_eqI)

lemma row_of_None: "row_of key rs k = None \<longleftrightarrow> k \<notin> key ` set rs"
  by (induction rs) (auto simp: row_of_def)

lemma row_of_update:
  assumes "\<And>r. key r = k \<Longrightarrow> key (f r) = key r"
  shows "row_of key (update_where (\<lambda>r. key r = k) f rs) k' =
    (if k' = k then map_option f (row_of key rs k) else row_of key rs k')"
  using assms by (induction rs) (auto simp: row_of_def)

lemma row_of_snoc: "row_of key (rs @ [r]) k =
    (case row_of key rs k of Some q \<Rightarrow> Some q | None \<Rightarrow> if key r = k then Some r else None)"
  by (induction rs) (auto simp: row_of_def)

text \<open>A sum over the rows of a table, and how an update of one row changes it.\<close>

lemma sum_update_where:
  assumes "distinct (map key rs)" "row_of key rs k = Some r"
  shows "sum_list (map g (update_where (\<lambda>r. key r = k) f rs)) = sum_list (map g rs) - g r + (g (f r) :: int)"
  using assms
proof (induction rs)
  case (Cons q rs)
  show ?case
  proof (cases "key q = k")
    case True
    then have q: "q = r" using Cons.prems by (simp add: row_of_def)
    have "k \<notin> key ` set rs" using Cons.prems(1) True by auto
    then have "update_where (\<lambda>r. key r = k) f rs = rs" by (intro update_where_other) auto
    then show ?thesis using True q by simp
  next
    case False
    then have "row_of key rs k = Some r" using Cons.prems by (simp add: row_of_def)
    then show ?thesis using Cons False by simp
  qed
qed (simp add: row_of_def)

lemma sum_mset_rows: "mset xs = mset ys \<Longrightarrow> sum_list (map g xs) = (sum_list (map g ys) :: int)"
  by (metis mset_map sum_mset_sum_list)

section \<open>Loops of writes\<close>

text \<open>A query that must not be refused, and an \<open>updateMany\<close> that must change exactly one row.\<close>

definition or_error :: "'e \<Rightarrow> 's option \<Rightarrow> 'e + 's" where
  "or_error e r = (case r of None \<Rightarrow> Inl e | Some s \<Rightarrow> Inr s)"

lemma or_error_Inr [simp]: "or_error e r = Inr s \<longleftrightarrow> r = Some s"
  by (cases r) (auto simp: or_error_def)

definition one_row :: "'e \<Rightarrow> 'e \<Rightarrow> ('s \<times> nat) option \<Rightarrow> 'e + 's" where
  "one_row refused conflict r = (case r of
       None \<Rightarrow> Inl refused | Some (s, n) \<Rightarrow> if n \<noteq> 1 then Inl conflict else Inr s)"

lemma one_row_Inr [simp]: "one_row refused conflict r = Inr s \<longleftrightarrow> r = Some (s, 1)"
  by (auto simp: one_row_def split: option.splits)

text \<open>What a loop of writes to the rows named by a list of impacts does to the table.\<close>

definition write_all ::
  "('i \<Rightarrow> string) \<Rightarrow> ('r \<Rightarrow> string) \<Rightarrow> ('i \<Rightarrow> 'r \<Rightarrow> 'r) \<Rightarrow> 'i list \<Rightarrow> 'r list \<Rightarrow> 'r list" where
  "write_all kid key f impacts rs =
     map (\<lambda>r. case find (\<lambda>i. kid i = key r) impacts of None \<Rightarrow> r | Some i \<Rightarrow> f i r) rs"

lemma write_all_Nil [simp]: "write_all kid key f [] rs = rs"
  by (simp add: write_all_def map_idI)

lemma write_all_Cons:
  assumes "\<And>r. key (f i r) = key r" "kid i \<notin> kid ` set impacts"
  shows "write_all kid key f (i # impacts) rs = write_all kid key f impacts (update_where (\<lambda>r. key r = kid i) (f i) rs)"
proof -
  have none: "find (\<lambda>j. kid j = kid i) impacts = None" using assms(2) by (auto simp: find_None_iff intro: rev_image_eqI)
  show ?thesis unfolding write_all_def update_where_def map_map
    by (intro map_cong refl) (auto simp: assms(1) none split: option.splits)
qed

context prisma_table
begin

lemma update_one:
  assumes "updateMany m s (\<lambda>r. key r = k \<and> P r) f = Some (s', 1)" "unclashed clash (rows (tables s))"
  shows "rows (tables s') = update_where (\<lambda>r. key r = k) f (rows (tables s)) \<and> (\<exists>F. tables s' = put F (tables s))
    \<and> unclashed clash (rows (tables s')) \<and> (\<exists>r\<in>set (rows (tables s)). key r = k \<and> P r)"
proof -
  note u = updated_many [OF assms(1)]
  have "filter (\<lambda>r. key r = k \<and> P r) (rows (tables s)) \<noteq> []" using u by auto
  then obtain r where r: "r \<in> set (rows (tables s))" "key r = k" "P r" by (auto simp: filter_empty_conv)
  have "(key q = k \<and> P q) = (key q = k)" if "q \<in> set (rows (tables s))" for q
  proof (cases "key q = k")
    case True
    then have "q = r" using unclashed_at [OF assms(2) that r(1)] same_key [of q r] r(2) by simp
    then show ?thesis using r by simp
  qed simp
  then have "update_where (\<lambda>r. key r = k \<and> P r) f (rows (tables s)) = update_where (\<lambda>r. key r = k) f (rows (tables s))"
    unfolding update_where_def by (intro map_cong) simp_all
  then have "rows (tables s') = update_where (\<lambda>r. key r = k) f (rows (tables s))" using u by simp
  moreover have "unclashed clash (rows (tables s'))" using u assms(2) by simp
  ultimately show ?thesis using u r by blast
qed

lemma each_guarded:
  assumes "each (\<lambda>i s. one_row e1 e2 (updateMany m s (\<lambda>r. key r = kid i \<and> P i r) (f i))) impacts s = Inr s'"
    and "unclashed clash (rows (tables s))" "\<And>i r. key (f i r) = key r" "distinct (map kid impacts)"
  shows "rows (tables s') = write_all kid key f impacts (rows (tables s)) \<and> (\<exists>F. tables s' = put F (tables s))
    \<and> unclashed clash (rows (tables s'))"
  using assms
proof (induction impacts arbitrary: s)
  case Nil
  then show ?case by (auto intro: exI [of _ "\<lambda>rs. rs"])
next
  case (Cons i imps)
  then obtain s1 where s1: "updateMany m s (\<lambda>r. key r = kid i \<and> P i r) (f i) = Some (s1, 1)"
    and rest: "each (\<lambda>i s. one_row e1 e2 (updateMany m s (\<lambda>r. key r = kid i \<and> P i r) (f i))) imps s1 = Inr s'" by auto
  note u = update_one [OF s1 Cons.prems(2)]
  have "rows (tables s') = write_all kid key f imps (rows (tables s1)) \<and> (\<exists>F. tables s' = put F (tables s1)) \<and> unclashed clash (rows (tables s'))"
    by (rule Cons.IH [OF rest _ Cons.prems(3)]) (use u Cons.prems in auto)
  moreover have "write_all kid key f (i # imps) (rows (tables s)) = write_all kid key f imps (rows (tables s1))"
    using u Cons.prems by (subst write_all_Cons) auto
  ultimately show ?case using u by (metis put_put)
qed

lemma update_row_one:
  assumes "updateRow m s k f = Some s'" "unclashed clash (rows (tables s))"
  shows "rows (tables s') = update_where (\<lambda>r. key r = k) f (rows (tables s)) \<and> (\<exists>F. tables s' = put F (tables s))
    \<and> unclashed clash (rows (tables s'))"
  using updated [OF assms(1)] assms(2) by auto

lemma each_updated:
  assumes "each (\<lambda>i s. or_error e (updateRow m s (kid i) (f i))) impacts s = Inr s'"
    and "unclashed clash (rows (tables s))" "\<And>i r. key (f i r) = key r" "distinct (map kid impacts)"
  shows "rows (tables s') = write_all kid key f impacts (rows (tables s)) \<and> (\<exists>F. tables s' = put F (tables s))
    \<and> unclashed clash (rows (tables s'))"
  using assms
proof (induction impacts arbitrary: s)
  case Nil
  then show ?case by (auto intro: exI [of _ "\<lambda>rs. rs"])
next
  case (Cons i imps)
  then obtain s1 where s1: "updateRow m s (kid i) (f i) = Some s1"
    and rest: "each (\<lambda>i s. or_error e (updateRow m s (kid i) (f i))) imps s1 = Inr s'" by auto
  note u = update_row_one [OF s1 Cons.prems(2)]
  have "rows (tables s') = write_all kid key f imps (rows (tables s1)) \<and> (\<exists>F. tables s' = put F (tables s1)) \<and> unclashed clash (rows (tables s'))"
    by (rule Cons.IH [OF rest _ Cons.prems(3)]) (use u Cons.prems in auto)
  moreover have "write_all kid key f (i # imps) (rows (tables s)) = write_all kid key f imps (rows (tables s1))"
    using u Cons.prems by (subst write_all_Cons) auto
  ultimately show ?case using u by (metis put_put)
qed

lemma each_created:
  assumes "each (\<lambda>x s. or_error e (createRow m s (row x))) xs s = Inr s'" "unclashed clash (rows (tables s))"
  shows "rows (tables s') = rows (tables s) @ map row xs \<and> (\<exists>F. tables s' = put F (tables s)) \<and> unclashed clash (rows (tables s'))"
  using assms
proof (induction xs arbitrary: s)
  case Nil
  then show ?case by (auto intro: exI [of _ "\<lambda>rs. rs"])
next
  case (Cons x xs)
  then obtain s1 where s1: "createRow m s (row x) = Some s1"
    and rest: "each (\<lambda>x s. or_error e (createRow m s (row x))) xs s1 = Inr s'" by auto
  note c = created [OF s1]
  have "rows (tables s') = rows (tables s1) @ map row xs \<and> (\<exists>F. tables s' = put F (tables s1)) \<and> unclashed clash (rows (tables s'))"
    by (rule Cons.IH [OF rest]) (use c Cons.prems in auto)
  then show ?case using c by (auto intro!: exI)
qed

end

section \<open>Tables that are lists\<close>

text \<open>
  The model over a database that keeps each table as a list: \<open>rows\<close> and \<open>put\<close> are the field of the
  table and its update. It satisfies the laws, whatever the record around the table is.
\<close>

definition list_model ::
  "('t \<Rightarrow> 'r list) \<Rightarrow> (('r list \<Rightarrow> 'r list) \<Rightarrow> 't \<Rightarrow> 't) \<Rightarrow> ('r \<Rightarrow> string) \<Rightarrow> ('r \<Rightarrow> 'r \<Rightarrow> bool)
    \<Rightarrow> ('r \<Rightarrow> bool) \<Rightarrow> ('t, 'r) prisma_model" where
  "list_model rows put key clash good =
     \<lparr>findMany = (\<lambda>s P. filter P (rows s)),
      findFirst = (\<lambda>s P. find P (rows s)),
      createRow = (\<lambda>s r. if \<not> good r \<or> list_ex (\<lambda>q. clash q r \<or> clash r q) (rows s) then None else Some (put (\<lambda>rs. rs @ [r]) s)),
      updateRow = (\<lambda>s k f.
         let rs = update_where (\<lambda>r. key r = k) f (rows s)
         in if list_ex (\<lambda>r. key r = k) (rows s) \<and> list_all (\<lambda>r. key r = k \<longrightarrow> good (f r)) (rows s) \<and> unclashed clash rs
            then Some (put (update_where (\<lambda>r. key r = k) f) s) else None),
      updateMany = (\<lambda>s P f.
         if list_all (\<lambda>r. P r \<longrightarrow> good (f r)) (rows s) \<and> unclashed clash (update_where P f (rows s))
         then Some (put (update_where P f) s, length (filter P (rows s))) else None),
      deleteMany = (\<lambda>s P. put (filter (\<lambda>r. \<not> P r)) s)\<rparr>"

lemma list_model_table:
  assumes "\<And>a b. key a = key b \<Longrightarrow> clash a b" "\<And>f T. rows (put f T) = f (rows T)"
    and "\<And>f g T. put f (put g T) = put (\<lambda>rs. f (g rs)) T" "\<And>T. put (\<lambda>rs. rs) T = T"
  shows "prisma_table (list_model rows put key clash good) (\<lambda>s. s) rows put key clash good"
proof unfold_locales
  fix s P r
  show "findFirst (list_model rows put key clash good) s P = Some r \<Longrightarrow> r \<in> set (rows s) \<and> P r"
    by (auto simp: list_model_def find_Some_iff)
  show "findFirst (list_model rows put key clash good) s P = None \<Longrightarrow> r \<in> set (rows s) \<Longrightarrow> \<not> P r"
    by (auto simp: list_model_def find_None_iff)
qed (auto simp: list_model_def Let_def unclashed_snoc list_ex_iff list_all_iff assms split: if_splits)

end
