(* ===== verification/Finance_Rows.thy ===== *)
theory Finance_Rows
  imports Decimal Prisma_Tables
begin

text \<open>
  The rows that the procure-to-pay finance of \<open>operational-finance-policy.mjs\<close> and
  \<open>operational-finance-command-service.mjs\<close> reads and writes (\<open>prisma/schema.prisma\<close>).

  A row carries what the code's \<open>include\<close> loads with it: an invoice its lines, a line of a receipt
  or of a purchase order the columns of its document. Amounts, prices and quantities are
  \<open>Decimal(18, 4)\<close> columns, numbers of ten-thousandths here; columns that record who did
  something and when, and JSON metadata, are left out.
\<close>

section \<open>What an invoice is made from\<close>

record supplier =
  sup_id :: string
  sup_tenantId :: string
  sup_name :: string

text \<open>A \<open>ReceivingLine\<close> with its \<open>receivingDocument\<close>.\<close>

record receipt_source =
  rs_id :: string
  rs_receivingDocumentId :: string
  rs_purchaseOrderLineId :: "string option"
  rs_itemId :: "string option"
  rs_sku :: "string option"
  rs_acceptedQty :: "int option"
  rs_tenantId :: string
  rs_poId :: "string option"
  rs_supplierId :: "string option"
  rs_postingStatus :: string
  rs_reversed :: bool
  rs_currency :: string

text \<open>A \<open>PurchaseOrderLine\<close> with its \<open>purchaseOrder\<close>.\<close>

record order_source =
  os_id :: string
  os_purchaseOrderId :: string
  os_itemId :: "string option"
  os_sku :: "string option"
  os_itemName :: "string option"
  os_unit :: "string option"
  os_orderedQuantity :: "int option"
  os_unitPrice :: "int option"
  os_tenantId :: string
  os_supplierId :: "string option"
  os_currency :: string

text \<open>
  The workspace, with the tolerances of \<open>operationalSettings.review\<close>: \<open>None\<close> is a setting that is
  missing (then \<open>operationalSettingsSeed\<close> gives \<open>0.0000\<close>) or null.
\<close>

record finance_tenant =
  ten_id :: string
  ten_quantityTolerance :: "string option"
  ten_pricePercentageTolerance :: "string option"
  ten_priceAbsoluteTolerance :: "string option"
  ten_amountTolerance :: "string option"

section \<open>Supplier invoices\<close>

record invoice_line =
  il_id :: string
  il_lineNumber :: "int option"
  il_purchaseOrderLineId :: "string option"
  il_receivingLineId :: "string option"
  il_itemId :: "string option"
  il_sku :: "string option"
  il_itemName :: "string option"
  il_unit :: "string option"
  il_quantity :: "int option"
  il_unitPrice :: "int option"
  il_lineAmount :: "int option"
  il_enteredTaxAmount :: "int option"
  il_amount :: "int option"

record supplier_invoice =
  si_id :: string
  si_tenantId :: string
  si_invoiceNumber :: "string option"
  si_supplierId :: "string option"
  si_supplierName :: "string option"
  si_relatedPoId :: "string option"
  si_relatedGrnId :: "string option"
  si_invoiceDate :: "string option"
  si_dueDate :: "string option"
  si_subtotalAmount :: "int option"
  si_enteredTaxAmount :: "int option"
  si_totalAmount :: "int option"
  si_amount :: "int option"
  si_currency :: string
  si_status :: string
  si_matchStatus :: "string option"
  si_varianceAmount :: "int option"
  si_version :: int
  si_lines :: "invoice_line list"

section \<open>Three-way match\<close>

record match_line =
  ml_id :: string
  ml_supplierInvoiceLineId :: string
  ml_purchaseOrderLineId :: string
  ml_receivingLineId :: string
  ml_orderedQuantity :: int
  ml_receivedQuantity :: int
  ml_previouslyInvoicedQuantity :: int
  ml_invoiceQuantity :: int
  ml_poUnitPrice :: int
  ml_invoiceUnitPrice :: int
  ml_poLineAmount :: int
  ml_invoiceLineAmount :: int
  ml_quantityVariance :: int
  ml_priceVariance :: int
  ml_amountVariance :: int
  ml_currency :: string
  ml_status :: string

record three_way_match =
  tm_id :: string
  tm_tenantId :: string
  tm_matchNumber :: string
  tm_invoiceId :: string
  tm_poAmount :: int
  tm_invoiceAmount :: int
  tm_varianceAmount :: int
  tm_currency :: string
  tm_status :: string
  tm_lines :: "match_line list"

record match_exception =
  mx_id :: string
  mx_tenantId :: string
  mx_matchId :: string
  mx_matchLineId :: "string option"
  mx_supplierInvoiceId :: string
  mx_exceptionType :: string
  mx_status :: string
  mx_expectedValue :: int
  mx_actualValue :: int
  mx_varianceValue :: int
  mx_currency :: string
  mx_resolution :: "string option"
  mx_version :: int

section \<open>Payables and credit memos\<close>

record payable =
  pay_id :: string
  pay_tenantId :: string
  pay_supplierInvoiceId :: string
  pay_obligationNumber :: string
  pay_originalAmount :: int
  pay_outstandingAmount :: int
  pay_approvedCreditAmount :: int
  pay_currency :: string
  pay_status :: string
  pay_holdReason :: "string option"
  pay_version :: int

record memo_line =
  cml_id :: string
  cml_supplierInvoiceLineId :: string
  cml_returnPostingLineId :: string
  cml_quantity :: int
  cml_unitPrice :: int
  cml_lineAmount :: int
  cml_enteredTaxAmount :: int
  cml_totalAmount :: int
  cml_pricingSource :: string

record credit_memo =
  cm_id :: string
  cm_tenantId :: string
  cm_creditMemoNumber :: string
  cm_supplierInvoiceId :: string
  cm_returnPostingId :: string
  cm_currency :: string
  cm_subtotalAmount :: int
  cm_enteredTaxAmount :: int
  cm_totalAmount :: int
  cm_status :: string
  cm_version :: int
  cm_lines :: "memo_line list"

text \<open>
  A \<open>ReturnPostingDocument\<close> with its lines; \<open>rpl_sourceDocumentLineId\<close> is
  \<open>returnAuthorizationLine.returnRequestLine.sourceDocumentLineId\<close>.
\<close>

record posting_line =
  rpl_id :: string
  rpl_itemId :: string
  rpl_sku :: string
  rpl_quantity :: int
  rpl_sourceDocumentLineId :: "string option"

record return_posting =
  rp_id :: string
  rp_tenantId :: string
  rp_postingType :: string
  rp_postingStatus :: string
  rp_reversed :: bool
  rp_lines :: "posting_line list"

section \<open>The database\<close>

record 's finance_tx =
  ftx_receipts :: "('s, receipt_source) prisma_model"
  ftx_orders :: "('s, order_source) prisma_model"
  ftx_suppliers :: "('s, supplier) prisma_model"
  ftx_tenants :: "('s, finance_tenant) prisma_model"
  ftx_invoices :: "('s, supplier_invoice) prisma_model"
  ftx_matches :: "('s, three_way_match) prisma_model"
  ftx_exceptions :: "('s, match_exception) prisma_model"
  ftx_payables :: "('s, payable) prisma_model"
  ftx_memos :: "('s, credit_memo) prisma_model"
  ftx_postings :: "('s, return_posting) prisma_model"

section \<open>Decimal columns as text\<close>

text \<open>\<open>String(d)\<close> of a \<open>Decimal\<close> column: no trailing zeros. A null column prints as \<open>null\<close>.\<close>

definition column_text :: "int option \<Rightarrow> string" where
  "column_text v = (case v of None \<Rightarrow> ''null'' | Some u \<Rightarrow>
     (let shown = rev (dropWhile (\<lambda>c. c = CHR ''0'') (rev (outboundDecimalString u)))
      in if last shown = CHR ''.'' then butlast shown else shown))"

lemma decimal_units_whole:
  assumes w: "all_digits w" and sg: "sg = [] \<or> sg = ''-''"
  shows "outboundDecimalUnits (Some (sg @ w)) = Inr ((if sg = [] then 1 else - 1) * (int (digits_value w) * SCALE))"
proof -
  let ?s = "sg @ w"
  from w obtain c cs where wc: "w = c # cs" "is_digit c" by (cases w) (auto simp: all_digits_def)
  have "is_digit (last w)" using w by (simp add: all_digits_def list_all_iff)
  then have l: "\<not> js_space (last ?s)" using wc digit_not_special(3) by simp
  have h: "\<not> js_space (hd ?s)" using sg wc digit_not_special(3) by (auto simp: js_space_def)
  have t: "js_trim ?s = ?s" by (rule js_trim_id) (use sg wc h l in auto)
  have u: "unsigned_part ?s = w" using sg wc digit_not_special(2) by (auto simp: unsigned_part_def)
  have n: "is_negative ?s \<longleftrightarrow> sg \<noteq> []" using sg wc digit_not_special(2) by (auto simp: is_negative_def)
  have sp: "decimal_split w = (w, None)" using w by (simp add: all_digits_def split_no_dot)
  have ne: "?s \<noteq> []" using wc by simp
  have syn: "decimal_syntax ?s" using w by (simp add: decimal_syntax_def u sp)
  show ?thesis
    unfolding outboundDecimalUnits_def option.case Let_def t if_not_P [OF ne] u sp n
    using syn by (simp add: digits_value_def digit_value_def)
qed

lemma strip_zeros:
  obtains k where "f = rev (dropWhile (\<lambda>c. c = CHR ''0'') (rev f)) @ replicate k (CHR ''0'')"
proof -
  have "set (takeWhile (\<lambda>c. c = CHR ''0'') (rev f)) \<subseteq> {CHR ''0''}"
    by (auto dest: set_takeWhileD)
  then have "takeWhile (\<lambda>c. c = CHR ''0'') (rev f)
      = replicate (length (takeWhile (\<lambda>c. c = CHR ''0'') (rev f))) (CHR ''0'')"
    by (metis replicate_eqI singletonD subsetD)
  then have "rev f = replicate (length (takeWhile (\<lambda>c. c = CHR ''0'') (rev f))) (CHR ''0'')
      @ dropWhile (\<lambda>c. c = CHR ''0'') (rev f)"
    by (metis takeWhile_dropWhile_id)
  from arg_cong [OF this, of rev] show ?thesis by (simp add: that)
qed

lemma column_text_units [simp]: "outboundDecimalUnits (Some (column_text (Some u))) = Inr u"
proof -
  define sg where "sg = (if u < 0 then ''-'' else [])"
  define w where "w = digits_of (nat (\<bar>u\<bar> div SCALE))"
  define f where "f = pad_start 4 (digits_of (nat (\<bar>u\<bar> mod SCALE)))"
  have sg: "sg = [] \<or> sg = ''-''" by (simp add: sg_def)
  have w: "all_digits w" "w \<noteq> []" by (simp_all add: w_def)
  have "nat (\<bar>u\<bar> mod SCALE) < 10 ^ 4" by (simp add: SCALE_def nat_less_iff)
  then have len: "length f = 4" unfolding f_def by (intro pad_start_length digits_of_length) auto
  have fd: "list_all is_digit f" by (simp add: f_def pad_start_digits)
  define f' where "f' = rev (dropWhile (\<lambda>c. c = CHR ''0'') (rev f))"
  obtain k where k: "f = f' @ replicate k (CHR ''0'')" unfolding f'_def using strip_zeros [of f] by blast
  have v: "sg = [] \<and> int (digits_value w) * SCALE + int (digits_value f) = u
      \<or> sg = ''-'' \<and> int (digits_value w) * SCALE + int (digits_value f) = - u"
    by (simp add: sg_def w_def f_def SCALE_def pos_imp_zdiv_nonneg_iff)
  have s: "outboundDecimalString u = sg @ w @ ''.'' @ f"
    by (simp add: outboundDecimalString_def Let_def sg_def w_def f_def)
  have drop: "dropWhile (\<lambda>c. c = CHR ''0'') (xs @ CHR ''.'' # ys)
      = dropWhile (\<lambda>c. c = CHR ''0'') xs @ CHR ''.'' # ys" for xs ys :: string
    by (induction xs) auto
  have shown: "rev (dropWhile (\<lambda>c. c = CHR ''0'') (rev (outboundDecimalString u))) = sg @ w @ ''.'' @ f'"
    by (simp add: s drop f'_def)
  show ?thesis
  proof (cases "f' = []")
    case True
    then have "digits_value f = 0" using k by simp
    moreover have "column_text (Some u) = sg @ w"
      unfolding column_text_def option.case Let_def shown using True by (simp add: butlast_append)
    ultimately show ?thesis using v decimal_units_whole [OF w(1) sg] by auto
  next
    case False
    have le: "length f' \<le> 4" using k len by (metis length_append le_add1)
    have f'd: "list_all is_digit f'" using fd k by simp
    have "last f' \<noteq> CHR ''.''"
      using f'd False digit_not_special(1) by (metis last_in_set list_all_iff)
    then have ct: "column_text (Some u) = sg @ w @ ''.'' @ f'"
      unfolding column_text_def option.case Let_def shown using False by simp
    have zeros: "take n ''0000'' = replicate n (CHR ''0'')" if "n \<le> 4" for n
    proof -
      have "''0000'' = replicate 4 (CHR ''0'')" by (simp add: eval_nat_numeral)
      then show ?thesis using that by (metis min.absorb1 take_replicate)
    qed
    have "k = 4 - length f'" using k len by auto
    then have "take 4 (take 4 f' @ ''0000'') = f"
      using le k zeros [of "4 - length f'"] by simp
    then show ?thesis
      unfolding ct decimal_units_digits [OF w(1) f'd sg] using False le v by (auto simp: Let_def)
  qed
qed

lemma column_text_null [simp]: "outboundDecimalUnits (Some (column_text None)) = Inl Invalid_decimal"
  by (simp add: column_text_def) code_simp

end
