(* ===== verification/Finance_Policy.thy ===== *)
theory Finance_Policy
  imports Finance_Rows Inventory_Rows
begin

text \<open>
  \<open>operational-finance-policy.mjs\<close>: the plan of a supplier invoice against the receipts and the
  purchase order it bills, the three-way match of an invoice, and the plan of a supplier credit memo
  against posted returns. A plan is allowed when it has no blocking issue.

  The inputs are the normalised texts of \<open>normalizedInvoiceInput\<close> and \<open>normalizedCreditMemoInput\<close>.
  Messages, details and the counts of \<open>factsToCreate\<close> are left out.
\<close>

datatype fin_code =
    FINANCE_DECIMAL_INVALID | FINANCE_CURRENCY_INVALID | FINANCE_CURRENCY_MISMATCH
  | SUPPLIER_INVOICE_NUMBER_REQUIRED | SUPPLIER_REQUIRED | SUPPLIER_INVOICE_DATE_REQUIRED
  | SUPPLIER_INVOICE_LINES_REQUIRED | SUPPLIER_INVOICE_SOURCE_DUPLICATE | SUPPLIER_INVOICE_SOURCE_REQUIRED
  | SUPPLIER_NOT_FOUND | SUPPLIER_INVOICE_SOURCE_NOT_FOUND | SUPPLIER_INVOICE_SOURCE_MIXED
  | SUPPLIER_INVOICE_SOURCE_INVALID | SUPPLIER_INVOICE_QUANTITY_EXCEEDS_RECEIVED
  | SUPPLIER_INVOICE_LINE_AMOUNT_MISMATCH | SUPPLIER_INVOICE_TOTAL_MISMATCH
  | SUPPLIER_INVOICE_NOT_FOUND | SUPPLIER_INVOICE_STATUS_INVALID | SUPPLIER_INVOICE_FROZEN
  | THREE_WAY_MATCH_SOURCE_INVALID
  | MATCH_EXCEPTION_NOT_FOUND | MATCH_EXCEPTION_STATUS_INVALID | MATCH_EXCEPTION_DECISION_INVALID
  | MATCH_EXCEPTION_REVIEW_REQUIRED
  | PAYABLE_OBLIGATION_NOT_FOUND | PAYABLE_OBLIGATION_ALREADY_EXISTS | PAYABLE_STATUS_INVALID
  | SUPPLIER_RETURN_POSTING_REQUIRED | SUPPLIER_CREDIT_LINES_REQUIRED | SUPPLIER_CREDIT_SOURCE_LINE_INVALID
  | SUPPLIER_CREDIT_SOURCE_MISMATCH | SUPPLIER_CREDIT_QUANTITY_EXCEEDED | SUPPLIER_CREDIT_PRICING_SOURCE_INVALID
  | SUPPLIER_CREDIT_MEMO_NOT_FOUND | SUPPLIER_CREDIT_STATUS_INVALID | SUPPLIER_CREDIT_AMOUNT_EXCEEDED
  | FINANCE_VERSION_CONFLICT | FINANCE_VERSION_INVALID | FINANCE_VALIDATION_FAILED | IDEMPOTENCY_KEY_REQUIRED
  | FINANCE_UNIQUE_CONFLICT | FINANCE_UNCAUGHT

type_synonym fin_issue = "fin_code issue"

section \<open>Reading numbers and texts\<close>

datatype sign_rule = Positive | Non_negative

text \<open>\<open>units(value, issues, label, rule)\<close>: the issues it pushes and the number, if the text is one.\<close>

definition read_units :: "sign_rule \<Rightarrow> string \<Rightarrow> fin_issue list \<times> int option" where
  "read_units rule value =
     (case outboundDecimalUnits (Some value) of
        Inl _ \<Rightarrow> ([Issue FINANCE_DECIMAL_INVALID 422], None)
      | Inr parsed \<Rightarrow>
          (push_if (rule = Positive \<and> parsed \<le> 0) FINANCE_DECIMAL_INVALID 422
             @ push_if (rule = Non_negative \<and> parsed < 0) FINANCE_DECIMAL_INVALID 422, Some parsed))"

definition unique_ids :: "string list \<Rightarrow> string list" where
  "unique_ids values = js_unique (filter (\<lambda>s. s \<noteq> []) (map js_trim values))"

definition validCurrency :: "string \<Rightarrow> bool" where
  "validCurrency value =
     (length (js_trim value) = 3
      \<and> list_all (\<lambda>c. 65 \<le> (of_char c :: nat) \<and> (of_char c :: nat) \<le> 90) (js_trim value))"

section \<open>The plan of a supplier invoice\<close>

record invoice_line_input =
  ini_purchaseOrderLineId :: string
  ini_receivingLineId :: string
  ini_quantity :: string
  ini_unitPrice :: string
  ini_lineAmount :: string
  ini_enteredTaxAmount :: string

record invoice_input =
  in_invoiceNumber :: string
  in_supplierId :: string
  in_currency :: string
  in_invoiceDate :: string
  in_dueDate :: string
  in_totalAmount :: string
  in_lines :: "invoice_line_input list"

record plan_line =
  pln_lineNumber :: int
  pln_purchaseOrderLineId :: string
  pln_receivingLineId :: string
  pln_itemId :: "string option"
  pln_sku :: "string option"
  pln_itemName :: "string option"
  pln_unit :: "string option"
  pln_quantity :: int
  pln_unitPrice :: int
  pln_lineAmount :: int
  pln_enteredTaxAmount :: int

record invoice_plan =
  ivp_blockingIssues :: "fin_issue list"
  ivp_supplier :: "supplier option"
  ivp_purchaseOrderId :: "string option"
  ivp_receivingDocumentId :: "string option"
  ivp_currency :: string
  ivp_subtotalAmount :: int
  ivp_enteredTaxAmount :: int
  ivp_totalAmount :: int
  ivp_lines :: "plan_line list"

text \<open>The issues of the input alone; with any of them the plan ends there.\<close>

definition invoice_input_issues :: "invoice_input \<Rightarrow> fin_issue list" where
  "invoice_input_issues input =
     (let lines = in_lines input;
          receivingIds = map ini_receivingLineId lines;
          poLineIds = map ini_purchaseOrderLineId lines
      in push_if (js_trim (in_invoiceNumber input) = []) SUPPLIER_INVOICE_NUMBER_REQUIRED 422
       @ push_if (js_trim (in_supplierId input) = []) SUPPLIER_REQUIRED 422
       @ push_if (\<not> validCurrency (js_upper (js_trim (in_currency input)))) FINANCE_CURRENCY_INVALID 422
       @ push_if (js_trim (in_invoiceDate input) = [] \<or> js_trim (in_dueDate input) = []) SUPPLIER_INVOICE_DATE_REQUIRED 422
       @ push_if (lines = []) SUPPLIER_INVOICE_LINES_REQUIRED 422
       @ push_if (length (unique_ids receivingIds) \<noteq> length receivingIds
                  \<or> length (unique_ids poLineIds) \<noteq> length poLineIds) SUPPLIER_INVOICE_SOURCE_DUPLICATE 422
       @ push_if (list_ex (\<lambda>l. ini_receivingLineId l = [] \<or> ini_purchaseOrderLineId l = []) lines)
           SUPPLIER_INVOICE_SOURCE_REQUIRED 422)"

text \<open>
  \<open>supplierInvoiceLine.findMany\<close> by receiving line, tenant and status of the invoice, without the
  lines of the current invoice.
\<close>

definition committed_lines ::
  "'s finance_tx \<Rightarrow> 's \<Rightarrow> string \<Rightarrow> string list \<Rightarrow> string option \<Rightarrow> string list \<Rightarrow> invoice_line list" where
  "committed_lines tx s tenantId receivingIds currentInvoiceId statuses =
     concat (map (\<lambda>iv. filter (\<lambda>l. il_receivingLineId l \<in> Some ` set receivingIds) (si_lines iv))
       (findMany (ftx_invoices tx) s
          (\<lambda>iv. si_tenantId iv = tenantId \<and> si_status iv \<in> set statuses \<and> currentInvoiceId \<noteq> Some (si_id iv))))"

definition receiving_key :: "invoice_line \<Rightarrow> string" where
  "receiving_key l = (case il_receivingLineId l of None \<Rightarrow> [] | Some k \<Rightarrow> k)"

definition previousByReceiving :: "invoice_line list \<Rightarrow> (string \<times> int) list" where
  "previousByReceiving ls = add_all receiving_key (\<lambda>l. column_units (il_quantity l)) ls []"

definition consumingStatuses :: "string list" where
  "consumingStatuses = [''submitted'', ''matching'', ''exception'', ''matched'', ''approved'', ''held'']"

definition source_invalid :: "string \<Rightarrow> supplier option \<Rightarrow> receipt_source \<Rightarrow> order_source \<Rightarrow> bool" where
  "source_invalid tenantId supplier r o1 \<longleftrightarrow>
     rs_tenantId r \<noteq> tenantId
     \<or> os_tenantId o1 \<noteq> tenantId
     \<or> rs_postingStatus r \<noteq> ''posted''
     \<or> rs_reversed r
     \<or> rs_purchaseOrderLineId r \<noteq> Some (os_id o1)
     \<or> rs_poId r \<noteq> Some (os_purchaseOrderId o1)
     \<or> (case supplier of None \<Rightarrow> True | Some p \<Rightarrow> os_supplierId o1 \<noteq> Some (sup_id p))
     \<or> (case rs_supplierId r of None \<Rightarrow> False | Some k \<Rightarrow> k \<noteq> [] \<and> Some k \<noteq> map_option sup_id supplier)
     \<or> rs_itemId r \<noteq> os_itemId o1
     \<or> rs_sku r \<noteq> os_sku o1"

text \<open>The body of the loop over the lines: the issues of the line and, unless it \<open>continue\<close>s, its plan.\<close>

definition invoice_line_plan ::
  "string \<Rightarrow> string \<Rightarrow> supplier option \<Rightarrow> bool \<Rightarrow> (string \<times> int) list \<Rightarrow> receipt_source list \<Rightarrow> order_source list
   \<Rightarrow> nat \<times> invoice_line_input \<Rightarrow> fin_issue list \<times> plan_line list" where
  "invoice_line_plan tenantId currency supplier tenantFound previous receipts orders entry =
     (let (index, requested) = entry;
          (i1, quantity) = read_units Positive (ini_quantity requested);
          (i2, unitPrice) = read_units Non_negative (ini_unitPrice requested);
          (i3, lineAmount) = read_units Non_negative (ini_lineAmount requested);
          (i4, enteredTax) = read_units Non_negative (ini_enteredTaxAmount requested);
          numbers = i1 @ i2 @ i3 @ i4
      in case (last_by rs_id receipts (ini_receivingLineId requested), last_by os_id orders (ini_purchaseOrderLineId requested)) of
           (Some r, Some o1) \<Rightarrow>
             (numbers
              @ push_if (source_invalid tenantId supplier r o1) SUPPLIER_INVOICE_SOURCE_INVALID 409
              @ push_if (os_currency o1 \<noteq> currency \<or> rs_currency r \<noteq> currency \<or> \<not> tenantFound) FINANCE_CURRENCY_MISMATCH 409
              @ push_if (case quantity of None \<Rightarrow> False
                         | Some q \<Rightarrow> q + get0 previous (rs_id r) > column_units (rs_acceptedQty r))
                  SUPPLIER_INVOICE_QUANTITY_EXCEEDS_RECEIVED 409
              @ push_if (case (quantity, unitPrice, lineAmount) of
                           (Some q, Some p, Some a) \<Rightarrow> multiply q p \<noteq> a | _ \<Rightarrow> False)
                  SUPPLIER_INVOICE_LINE_AMOUNT_MISMATCH 422,
              [\<lparr>pln_lineNumber = int index + 1, pln_purchaseOrderLineId = os_id o1, pln_receivingLineId = rs_id r,
                pln_itemId = os_itemId o1, pln_sku = os_sku o1, pln_itemName = os_itemName o1, pln_unit = os_unit o1,
                pln_quantity = column_units quantity, pln_unitPrice = column_units unitPrice,
                pln_lineAmount = column_units lineAmount, pln_enteredTaxAmount = column_units enteredTax\<rparr>])
         | _ \<Rightarrow> (numbers, []))"

definition empty_invoice_plan :: "fin_issue list \<Rightarrow> invoice_plan" where
  "empty_invoice_plan issues =
     \<lparr>ivp_blockingIssues = issues, ivp_supplier = None, ivp_purchaseOrderId = None, ivp_receivingDocumentId = None,
      ivp_currency = [], ivp_subtotalAmount = 0, ivp_enteredTaxAmount = 0, ivp_totalAmount = 0, ivp_lines = []\<rparr>"

definition buildSupplierInvoicePlan ::
  "'s finance_tx \<Rightarrow> 's \<Rightarrow> string \<Rightarrow> invoice_input \<Rightarrow> string option \<Rightarrow> bool \<Rightarrow> invoice_plan" where
  "buildSupplierInvoicePlan tx s tenantId input currentInvoiceId countCommittedOnly =
     (let lines = in_lines input;
          currency = js_upper (js_trim (in_currency input));
          receivingIds = map ini_receivingLineId lines;
          poLineIds = map ini_purchaseOrderLineId lines
      in if invoice_input_issues input \<noteq> [] then empty_invoice_plan (invoice_input_issues input)
         else
           let receivingRows = findMany (ftx_receipts tx) s (\<lambda>r. rs_id r \<in> set receivingIds);
               poRows = findMany (ftx_orders tx) s (\<lambda>o1. os_id o1 \<in> set poLineIds);
               supplier = findFirst (ftx_suppliers tx) s
                 (\<lambda>p. sup_id p = js_trim (in_supplierId input) \<and> sup_tenantId p = tenantId);
               tenant = findFirst (ftx_tenants tx) s (\<lambda>t. ten_id t = tenantId);
               relatedPoIds = unique_ids (map os_purchaseOrderId poRows);
               relatedGrnIds = unique_ids (map rs_receivingDocumentId receivingRows);
               previousRows = (if countCommittedOnly then []
                 else committed_lines tx s tenantId receivingIds currentInvoiceId consumingStatuses);
               previous = previousByReceiving previousRows;
               planned = map (invoice_line_plan tenantId currency supplier (tenant \<noteq> None) previous receivingRows poRows)
                           (enumerate 0 lines);
               planLines = concat (map snd planned);
               subtotal = sum_list (map pln_lineAmount planLines);
               tax = sum_list (map pln_enteredTaxAmount planLines);
               total = subtotal + tax;
               totalIssues = (if js_trim (in_totalAmount input) = [] then []
                 else (case read_units Non_negative (in_totalAmount input) of
                         (issues, entered) \<Rightarrow> issues @ push_if (entered \<noteq> Some total) SUPPLIER_INVOICE_TOTAL_MISMATCH 422))
           in \<lparr>ivp_blockingIssues =
                 push_if (supplier = None) SUPPLIER_NOT_FOUND 404
                 @ push_if (length receivingRows \<noteq> length receivingIds \<or> length poRows \<noteq> length poLineIds)
                     SUPPLIER_INVOICE_SOURCE_NOT_FOUND 404
                 @ push_if (length relatedPoIds \<noteq> 1 \<or> length relatedGrnIds \<noteq> 1) SUPPLIER_INVOICE_SOURCE_MIXED 422
                 @ concat (map fst planned) @ totalIssues,
               ivp_supplier = supplier,
               ivp_purchaseOrderId = (case relatedPoIds of [] \<Rightarrow> None | k # _ \<Rightarrow> Some k),
               ivp_receivingDocumentId = (case relatedGrnIds of [] \<Rightarrow> None | k # _ \<Rightarrow> Some k),
               ivp_currency = currency, ivp_subtotalAmount = subtotal, ivp_enteredTaxAmount = tax,
               ivp_totalAmount = total, ivp_lines = planLines\<rparr>)"

section \<open>The three-way match\<close>

text \<open>
  A tolerance setting: the number of \<open>operationalSettings\<close>, or of \<open>operationalSettingsSeed\<close> where the
  workspace sets none; a negative or unreadable one counts as zero.
\<close>

definition toleranceUnits :: "string option \<Rightarrow> int" where
  "toleranceUnits value =
     (case outboundDecimalUnits (Some (case value of None \<Rightarrow> ''0.0000'' | Some v \<Rightarrow> v)) of
        Inl _ \<Rightarrow> 0
      | Inr parsed \<Rightarrow> if parsed < 0 then 0 else parsed)"

record tolerances =
  tol_quantity :: int
  tol_pricePercentage :: int
  tol_priceAbsolute :: int
  tol_amount :: int

definition review_tolerances :: "finance_tenant option \<Rightarrow> tolerances" where
  "review_tolerances tenant =
     \<lparr>tol_quantity = toleranceUnits (Option.bind tenant ten_quantityTolerance),
      tol_pricePercentage = toleranceUnits (Option.bind tenant ten_pricePercentageTolerance),
      tol_priceAbsolute = toleranceUnits (Option.bind tenant ten_priceAbsoluteTolerance),
      tol_amount = toleranceUnits (Option.bind tenant ten_amountTolerance)\<rparr>"

record exception_plan =
  xp_exceptionType :: string
  xp_expectedValue :: int
  xp_actualValue :: int
  xp_varianceValue :: int
  xp_supplierInvoiceLineId :: string
  xp_currency :: string

record match_plan =
  mp_blockingIssues :: "fin_issue list"
  mp_invoice :: "supplier_invoice option"
  mp_lines :: "match_line list"
  mp_exceptions :: "exception_plan list"
  mp_resultStatus :: string
  mp_purchaseOrderTotal :: int
  mp_invoiceTotal :: int
  mp_varianceTotal :: int

definition priceThreshold :: "tolerances \<Rightarrow> int \<Rightarrow> int" where
  "priceThreshold tol poPrice =
     (let percentageThreshold = (if poPrice = 0 then 0 else multiply \<bar>poPrice\<bar> (tol_pricePercentage tol) div 100)
      in if percentageThreshold > tol_priceAbsolute tol then percentageThreshold else tol_priceAbsolute tol)"

definition exception_if :: "bool \<Rightarrow> string \<Rightarrow> int \<Rightarrow> int \<Rightarrow> string \<Rightarrow> string \<Rightarrow> exception_plan list" where
  "exception_if cond kind expected actual lineId currency =
     (if cond then [\<lparr>xp_exceptionType = kind, xp_expectedValue = expected, xp_actualValue = actual,
        xp_varianceValue = actual - expected, xp_supplierInvoiceLineId = lineId, xp_currency = currency\<rparr>] else [])"

definition match_source_invalid :: "string \<Rightarrow> invoice_line \<Rightarrow> receipt_source \<Rightarrow> order_source \<Rightarrow> bool" where
  "match_source_invalid tenantId line r o1 \<longleftrightarrow>
     rs_tenantId r \<noteq> tenantId \<or> os_tenantId o1 \<noteq> tenantId \<or> rs_postingStatus r \<noteq> ''posted'' \<or> rs_reversed r
     \<or> rs_purchaseOrderLineId r \<noteq> Some (os_id o1) \<or> rs_itemId r \<noteq> il_itemId line \<or> rs_sku r \<noteq> il_sku line"

text \<open>
  The body of the loop over the invoice lines. The identifier of the match line is set when it is
  stored.
\<close>

definition match_line_plan ::
  "string \<Rightarrow> string \<Rightarrow> tolerances \<Rightarrow> (string \<times> int) list \<Rightarrow> receipt_source list \<Rightarrow> order_source list
   \<Rightarrow> invoice_line \<Rightarrow> fin_issue list \<times> match_line list \<times> exception_plan list" where
  "match_line_plan tenantId currency tol previous receipts orders line =
     (case (Option.bind (il_receivingLineId line) (last_by rs_id receipts),
            Option.bind (il_purchaseOrderLineId line) (last_by os_id orders)) of
        (Some r, Some o1) \<Rightarrow>
          if match_source_invalid tenantId line r o1 then ([Issue THREE_WAY_MATCH_SOURCE_INVALID 409], [], [])
          else if currency \<noteq> os_currency o1 \<or> currency \<noteq> rs_currency r then ([Issue FINANCE_CURRENCY_MISMATCH 409], [], [])
          else
            let invoiceQuantity = column_units (il_quantity line);
                receivedQuantity = column_units (rs_acceptedQty r);
                previouslyInvoiced = get0 previous (rs_id r);
                remaining = receivedQuantity - previouslyInvoiced;
                poPrice = column_units (os_unitPrice o1);
                invoicePrice = column_units (il_unitPrice line);
                invoiceLineAmount = (case il_lineAmount line of Some a \<Rightarrow> a | None \<Rightarrow> column_units (il_amount line));
                expectedAmount = multiply invoiceQuantity poPrice;
                lineExceptions =
                  exception_if (invoiceQuantity - remaining > tol_quantity tol) ''quantity'' remaining invoiceQuantity (il_id line) currency
                  @ exception_if (\<bar>invoicePrice - poPrice\<bar> > priceThreshold tol poPrice) ''price'' poPrice invoicePrice (il_id line) currency
                  @ exception_if (\<bar>invoiceLineAmount - expectedAmount\<bar> > tol_amount tol) ''amount'' expectedAmount invoiceLineAmount
                      (il_id line) currency
            in ([],
                [\<lparr>ml_id = [], ml_supplierInvoiceLineId = il_id line, ml_purchaseOrderLineId = os_id o1,
                  ml_receivingLineId = rs_id r, ml_orderedQuantity = column_units (os_orderedQuantity o1),
                  ml_receivedQuantity = receivedQuantity, ml_previouslyInvoicedQuantity = previouslyInvoiced,
                  ml_invoiceQuantity = invoiceQuantity, ml_poUnitPrice = poPrice, ml_invoiceUnitPrice = invoicePrice,
                  ml_poLineAmount = expectedAmount, ml_invoiceLineAmount = invoiceLineAmount,
                  ml_quantityVariance = invoiceQuantity - remaining, ml_priceVariance = invoicePrice - poPrice,
                  ml_amountVariance = invoiceLineAmount - expectedAmount, ml_currency = currency,
                  ml_status = (if lineExceptions = [] then ''matched'' else ''exception'')\<rparr>],
                lineExceptions)
      | _ \<Rightarrow> ([Issue THREE_WAY_MATCH_SOURCE_INVALID 409], [], []))"

definition matchedStatuses :: "string list" where
  "matchedStatuses = [''matching'', ''exception'', ''matched'', ''approved'', ''held'']"

definition some_ids :: "string option list \<Rightarrow> string list" where
  "some_ids ids = concat (map (\<lambda>k. case k of None \<Rightarrow> [] | Some i \<Rightarrow> [i]) ids)"

definition buildSupplierMatchPlan :: "'s finance_tx \<Rightarrow> 's \<Rightarrow> string \<Rightarrow> string \<Rightarrow> match_plan" where
  "buildSupplierMatchPlan tx s tenantId invoiceId =
     (case findFirst (ftx_invoices tx) s (\<lambda>iv. si_id iv = invoiceId \<and> si_tenantId iv = tenantId) of
        None \<Rightarrow> \<lparr>mp_blockingIssues = [Issue SUPPLIER_INVOICE_NOT_FOUND 404], mp_invoice = None, mp_lines = [],
                 mp_exceptions = [], mp_resultStatus = [], mp_purchaseOrderTotal = 0, mp_invoiceTotal = 0, mp_varianceTotal = 0\<rparr>
      | Some invoice \<Rightarrow>
          let tol = review_tolerances (findFirst (ftx_tenants tx) s (\<lambda>t. ten_id t = tenantId));
              receivingIds = some_ids (map il_receivingLineId (si_lines invoice));
              poLineIds = some_ids (map il_purchaseOrderLineId (si_lines invoice));
              receivingRows = findMany (ftx_receipts tx) s (\<lambda>r. rs_id r \<in> set receivingIds);
              poRows = findMany (ftx_orders tx) s (\<lambda>o1. os_id o1 \<in> set poLineIds);
              previous = previousByReceiving
                (committed_lines tx s tenantId receivingIds (Some (si_id invoice)) matchedStatuses);
              planned = map (match_line_plan tenantId (si_currency invoice) tol previous receivingRows poRows) (si_lines invoice);
              matchLines = concat (map (fst \<circ> snd) planned);
              exceptions = concat (map (snd \<circ> snd) planned);
              poTotal = sum_list (map ml_poLineAmount matchLines);
              invoiceTotal = sum_list (map ml_invoiceLineAmount matchLines)
          in \<lparr>mp_blockingIssues =
                push_if (si_status invoice \<notin> {''submitted'', ''matching'', ''exception''}) SUPPLIER_INVOICE_STATUS_INVALID 409
                @ concat (map fst planned),
              mp_invoice = Some invoice, mp_lines = matchLines, mp_exceptions = exceptions,
              mp_resultStatus = (if exceptions = [] then ''matched'' else ''exception''),
              mp_purchaseOrderTotal = poTotal, mp_invoiceTotal = invoiceTotal, mp_varianceTotal = invoiceTotal - poTotal\<rparr>)"

section \<open>The plan of a supplier credit memo\<close>

record memo_line_input =
  mi_supplierInvoiceLineId :: string
  mi_returnPostingLineId :: string
  mi_quantity :: string
  mi_pricingSource :: string
  mi_unitPrice :: string
  mi_enteredTaxAmount :: string

record memo_input =
  mem_creditMemoNumber :: string
  mem_supplierInvoiceId :: string
  mem_returnPostingId :: string
  mem_currency :: string
  mem_lines :: "memo_line_input list"

record memo_plan =
  cmp_blockingIssues :: "fin_issue list"
  cmp_invoice :: "supplier_invoice option"
  cmp_returnPosting :: "return_posting option"
  cmp_creditMemoNumber :: string
  cmp_currency :: string
  cmp_subtotalAmount :: int
  cmp_enteredTaxAmount :: int
  cmp_totalAmount :: int
  cmp_lines :: "memo_line list"

text \<open>\<open>supplierCreditMemoLine.findMany\<close> by invoice line and by tenant and status of the memo.\<close>

definition prior_credits :: "'s finance_tx \<Rightarrow> 's \<Rightarrow> string \<Rightarrow> string list \<Rightarrow> memo_line list" where
  "prior_credits tx s tenantId invoiceLineIds =
     concat (map (\<lambda>memo. filter (\<lambda>l. cml_supplierInvoiceLineId l \<in> set invoiceLineIds) (cm_lines memo))
       (findMany (ftx_memos tx) s (\<lambda>memo. cm_tenantId memo = tenantId \<and> cm_status memo \<in> {''draft'', ''approved''})))"

text \<open>The key \<open>`${supplierInvoiceLineId}|${returnPostingLineId}`\<close>.\<close>

definition memo_pair :: "string \<Rightarrow> string \<Rightarrow> string" where
  "memo_pair invoiceLineId postingLineId = invoiceLineId @ ''|'' @ postingLineId"

definition memo_key :: "memo_line \<Rightarrow> string" where
  "memo_key l = memo_pair (cml_supplierInvoiceLineId l) (cml_returnPostingLineId l)"

definition posting_usable :: "return_posting option \<Rightarrow> bool" where
  "posting_usable posting = (case posting of None \<Rightarrow> False
     | Some p \<Rightarrow> rp_postingType p = ''supplier_return_dispatch'' \<and> rp_postingStatus p = ''posted'' \<and> \<not> rp_reversed p)"

text \<open>The body of the loop over the requested lines. The identifier of the line is set when it is stored.\<close>

definition memo_line_plan ::
  "string \<Rightarrow> supplier_invoice \<Rightarrow> return_posting \<Rightarrow> (string \<times> int) list
   \<Rightarrow> memo_line_input \<Rightarrow> fin_issue list \<times> memo_line list" where
  "memo_line_plan currency invoice posting prior requested =
     (case (last_by il_id (si_lines invoice) (js_trim (mi_supplierInvoiceLineId requested)),
            last_by rpl_id (rp_lines posting) (js_trim (mi_returnPostingLineId requested))) of
        (Some invoiceLine, Some postingLine) \<Rightarrow>
          let (i1, quantity) = read_units Positive (mi_quantity requested);
              alreadyCredited = get0 prior (memo_pair (il_id invoiceLine) (rpl_id postingLine));
              pricingSource = (if js_trim (mi_pricingSource requested) = [] then ''original_invoice''
                               else js_trim (mi_pricingSource requested));
              (i2, unitPrice) = (if pricingSource = ''manual_reviewed'' then read_units Non_negative (mi_unitPrice requested)
                else (push_if (pricingSource \<noteq> ''original_invoice'') SUPPLIER_CREDIT_PRICING_SOURCE_INVALID 422,
                      Some (column_units (il_unitPrice invoiceLine))));
              (i3, enteredTax) = read_units Non_negative
                (if mi_enteredTaxAmount requested = [] then ''0'' else mi_enteredTaxAmount requested);
              lineAmount = (case (quantity, unitPrice) of (Some q, Some p) \<Rightarrow> multiply q p | _ \<Rightarrow> 0)
          in (push_if (il_receivingLineId invoiceLine \<noteq> rpl_sourceDocumentLineId postingLine
                       \<or> il_itemId invoiceLine \<noteq> Some (rpl_itemId postingLine)
                       \<or> il_sku invoiceLine \<noteq> Some (rpl_sku postingLine)
                       \<or> si_currency invoice \<noteq> currency) SUPPLIER_CREDIT_SOURCE_MISMATCH 409
              @ i1
              @ push_if (case quantity of None \<Rightarrow> False
                  | Some q \<Rightarrow> q + alreadyCredited > rpl_quantity postingLine
                             \<or> q + alreadyCredited > column_units (il_quantity invoiceLine)) SUPPLIER_CREDIT_QUANTITY_EXCEEDED 409
              @ i2 @ i3,
              [\<lparr>cml_id = [], cml_supplierInvoiceLineId = il_id invoiceLine, cml_returnPostingLineId = rpl_id postingLine,
                cml_quantity = column_units quantity, cml_unitPrice = column_units unitPrice, cml_lineAmount = lineAmount,
                cml_enteredTaxAmount = column_units enteredTax, cml_totalAmount = lineAmount + column_units enteredTax,
                cml_pricingSource = pricingSource\<rparr>])
      | _ \<Rightarrow> ([Issue SUPPLIER_CREDIT_SOURCE_LINE_INVALID 409], []))"

definition buildSupplierCreditMemoPlan :: "'s finance_tx \<Rightarrow> 's \<Rightarrow> string \<Rightarrow> memo_input \<Rightarrow> memo_plan" where
  "buildSupplierCreditMemoPlan tx s tenantId input =
     (let found = findFirst (ftx_invoices tx) s
            (\<lambda>iv. si_id iv = js_trim (mem_supplierInvoiceId input) \<and> si_tenantId iv = tenantId);
          posting = findFirst (ftx_postings tx) s
            (\<lambda>p. rp_id p = js_trim (mem_returnPostingId input) \<and> rp_tenantId p = tenantId);
          currency = js_upper (js_trim (mem_currency input));
          first = push_if (found = None) SUPPLIER_INVOICE_NOT_FOUND 404
                @ push_if (\<not> posting_usable posting) SUPPLIER_RETURN_POSTING_REQUIRED 409
                @ push_if (mem_lines input = []) SUPPLIER_CREDIT_LINES_REQUIRED 422;
          plan = (\<lambda>issues lines. \<lparr>cmp_blockingIssues = issues, cmp_invoice = found, cmp_returnPosting = posting,
            cmp_creditMemoNumber = js_trim (mem_creditMemoNumber input), cmp_currency = currency,
            cmp_subtotalAmount = sum_list (map cml_lineAmount lines),
            cmp_enteredTaxAmount = sum_list (map cml_enteredTaxAmount lines),
            cmp_totalAmount = sum_list (map cml_lineAmount lines) + sum_list (map cml_enteredTaxAmount lines),
            cmp_lines = lines\<rparr>)
      in case (first, found, posting) of
           ([], Some invoice, Some ret) \<Rightarrow>
             let credits = prior_credits tx s tenantId (map (\<lambda>l. js_trim (mi_supplierInvoiceLineId l)) (mem_lines input));
                 prior = add_all memo_key cml_quantity credits [];
                 planned = map (memo_line_plan currency invoice ret prior) (mem_lines input)
             in plan (concat (map fst planned)) (concat (map snd planned))
         | _ \<Rightarrow> plan first [])"

end
