(* ===== verification/Finance_Service.thy ===== *)
theory Finance_Service
  imports Finance_Policy
begin

text \<open>
  The commands of \<open>operational-finance-command-service.mjs\<close>: the work functions that its \<open>execute\<close>
  runs inside a serializable transaction, with the normalisation of their inputs.

  A command returns the new state and the identifier of the entity it reports, or the error that
  rolls the transaction back. \<open>gen n\<close> is the \<open>n\<close>-th identifier \<open>idFactory\<close> returns (number 0 is the
  execution row). \<open>FINANCE_UNIQUE_CONFLICT\<close> is a refused insert, \<open>FINANCE_UNCAUGHT\<close> any error that is not
  the service's own. \<open>date t\<close> is the ISO text of \<open>new Date(t)\<close>, \<open>None\<close> for an invalid date, which
  Prisma refuses. Row locks have no effect of their own in a serial history; a lock by tenant also
  checks that the row is there. Audit rows are not modelled.
\<close>

type_synonym 's fin_result = "fin_issue + 's \<times> string"

section \<open>Inputs\<close>

record invoice_line_request =
  ilr_purchaseOrderLineId :: "string option"
  ilr_receivingLineId :: "string option"
  ilr_quantity :: "string option"
  ilr_unitPrice :: "string option"
  ilr_lineAmount :: "string option"
  ilr_amount :: "string option"
  ilr_enteredTaxAmount :: "string option"

record invoice_request =
  ir_invoiceNumber :: "string option"
  ir_supplierId :: "string option"
  ir_currency :: "string option"
  ir_invoiceDate :: "string option"
  ir_dueDate :: "string option"
  ir_totalAmount :: "string option"
  ir_lines :: "invoice_line_request list"

text \<open>\<open>value || "0"\<close>: a missing or empty text is replaced.\<close>

definition or_zero :: "string option \<Rightarrow> string" where
  "or_zero v = (case v of None \<Rightarrow> ''0'' | Some t \<Rightarrow> if t = [] then ''0'' else t)"

definition normalizedInvoiceInput :: "invoice_request \<Rightarrow> invoice_input" where
  "normalizedInvoiceInput input =
     \<lparr>in_invoiceNumber = js_text (ir_invoiceNumber input), in_supplierId = js_text (ir_supplierId input),
      in_currency = js_upper (js_text (ir_currency input)), in_invoiceDate = js_text (ir_invoiceDate input),
      in_dueDate = js_text (ir_dueDate input), in_totalAmount = js_text (ir_totalAmount input),
      in_lines = map (\<lambda>line. \<lparr>ini_purchaseOrderLineId = js_text (ilr_purchaseOrderLineId line),
          ini_receivingLineId = js_text (ilr_receivingLineId line), ini_quantity = js_text (ilr_quantity line),
          ini_unitPrice = js_text (ilr_unitPrice line),
          ini_lineAmount = js_text (case ilr_lineAmount line of Some a \<Rightarrow> Some a | None \<Rightarrow> ilr_amount line),
          ini_enteredTaxAmount = js_trim (or_zero (ilr_enteredTaxAmount line))\<rparr>) (ir_lines input)\<rparr>"

record memo_line_request =
  mlr_supplierInvoiceLineId :: "string option"
  mlr_returnPostingLineId :: "string option"
  mlr_quantity :: "string option"
  mlr_pricingSource :: "string option"
  mlr_unitPrice :: "string option"
  mlr_enteredTaxAmount :: "string option"

record memo_request =
  mr_creditMemoNumber :: "string option"
  mr_supplierInvoiceId :: "string option"
  mr_returnPostingId :: "string option"
  mr_currency :: "string option"
  mr_lines :: "memo_line_request list"

definition normalizedCreditMemoInput :: "memo_request \<Rightarrow> memo_input" where
  "normalizedCreditMemoInput input =
     \<lparr>mem_creditMemoNumber = js_text (mr_creditMemoNumber input),
      mem_supplierInvoiceId = js_text (mr_supplierInvoiceId input),
      mem_returnPostingId = js_text (mr_returnPostingId input), mem_currency = js_upper (js_text (mr_currency input)),
      mem_lines = map (\<lambda>line. \<lparr>mi_supplierInvoiceLineId = js_text (mlr_supplierInvoiceLineId line),
          mi_returnPostingLineId = js_text (mlr_returnPostingLineId line), mi_quantity = js_text (mlr_quantity line),
          mi_pricingSource = (if js_text (mlr_pricingSource line) = [] then ''original_invoice''
                              else js_text (mlr_pricingSource line)),
          mi_unitPrice = js_text (mlr_unitPrice line),
          mi_enteredTaxAmount = js_trim (or_zero (mlr_enteredTaxAmount line))\<rparr>) (mr_lines input)\<rparr>"

text \<open>
  The input of a command on one document: the identifier, the expected version as the number it
  converts to (\<open>None\<close>: not an integer), and the texts the commands ask for.
\<close>

record fin_request =
  fq_id :: "string option"
  fq_expectedVersion :: "int option"
  fq_number :: "string option"
  fq_reason :: "string option"
  fq_decision :: "string option"
  fq_resolution :: "string option"

definition required :: "string option \<Rightarrow> fin_issue + string" where
  "required v = (if js_text v = [] then Inl (Issue FINANCE_VALIDATION_FAILED 422) else Inr (js_text v))"

definition expectedVersion :: "int option \<Rightarrow> fin_issue + int" where
  "expectedVersion v = (case v of None \<Rightarrow> Inl (Issue FINANCE_VERSION_INVALID 422)
     | Some n \<Rightarrow> if n < 0 then Inl (Issue FINANCE_VERSION_INVALID 422) else Inr n)"

definition enforce_issues :: "fin_issue list \<Rightarrow> fin_issue + unit" where
  "enforce_issues issues = (case issues of [] \<Rightarrow> Inr () | first # _ \<Rightarrow> Inl first)"

section \<open>Reading and writing one row\<close>

text \<open>\<open>lockTenantRow\<close> followed by \<open>findUnique\<close>.\<close>

definition locked_row ::
  "('s, 'r) prisma_model \<Rightarrow> ('r \<Rightarrow> string) \<Rightarrow> ('r \<Rightarrow> string) \<Rightarrow> fin_code \<Rightarrow> string \<Rightarrow> string \<Rightarrow> 's \<Rightarrow> fin_issue + 'r" where
  "locked_row m rowId rowTenant missing tenantId k s =
     (case findFirst m s (\<lambda>r. rowId r = k \<and> rowTenant r = tenantId) of
        None \<Rightarrow> Inl (Issue missing 404)
      | Some _ \<Rightarrow> (case findFirst m s (\<lambda>r. rowId r = k) of
            None \<Rightarrow> Inl (Issue FINANCE_UNCAUGHT 500)
          | Some r \<Rightarrow> Inr r))"

definition written :: "fin_code \<Rightarrow> int \<Rightarrow> 's option \<Rightarrow> fin_issue + 's" where
  "written c st r = (case r of None \<Rightarrow> Inl (Issue c st) | Some s \<Rightarrow> Inr s)"

abbreviation inserted :: "'s option \<Rightarrow> fin_issue + 's" where
  "inserted \<equiv> written FINANCE_UNIQUE_CONFLICT 409"

abbreviation saved :: "'s option \<Rightarrow> fin_issue + 's" where
  "saved \<equiv> written FINANCE_UNCAUGHT 500"

lemma written_Inr [simp]: "written c st r = Inr s \<longleftrightarrow> r = Some s"
  by (cases r) (auto simp: written_def)

lemma required_Inr [simp]: "required v = Inr t \<longleftrightarrow> t = js_text v \<and> t \<noteq> []"
  by (auto simp: required_def)

lemma expectedVersion_Inr [simp]: "expectedVersion v = Inr n \<longleftrightarrow> v = Some n \<and> 0 \<le> n"
  by (auto simp: expectedVersion_def split: option.splits)

lemma enforce_issues_Inr [simp]: "enforce_issues issues = Inr u \<longleftrightarrow> issues = []"
  by (cases issues) (auto simp: enforce_issues_def)

section \<open>Supplier invoices\<close>

definition supplierInvoiceLineData :: "(nat \<Rightarrow> string) \<Rightarrow> nat \<times> plan_line \<Rightarrow> invoice_line" where
  "supplierInvoiceLineData gen entry =
     (let (n, line) = entry
      in \<lparr>il_id = gen n, il_lineNumber = Some (pln_lineNumber line),
          il_purchaseOrderLineId = Some (pln_purchaseOrderLineId line),
          il_receivingLineId = Some (pln_receivingLineId line), il_itemId = pln_itemId line, il_sku = pln_sku line,
          il_itemName = pln_itemName line, il_unit = pln_unit line, il_quantity = Some (pln_quantity line),
          il_unitPrice = Some (pln_unitPrice line), il_lineAmount = Some (pln_lineAmount line),
          il_enteredTaxAmount = Some (pln_enteredTaxAmount line),
          il_amount = Some (pln_lineAmount line + pln_enteredTaxAmount line)\<rparr>)"

text \<open>The columns that creating and revising an invoice write from its plan; \<open>n\<close> numbers the lines.\<close>

definition invoice_data ::
  "(nat \<Rightarrow> string) \<Rightarrow> nat \<Rightarrow> invoice_input \<Rightarrow> invoice_plan \<Rightarrow> string \<Rightarrow> string \<Rightarrow> supplier_invoice \<Rightarrow> supplier_invoice" where
  "invoice_data gen n input plan invoiceDate dueDate iv =
     iv\<lparr>si_invoiceNumber := Some (js_trim (in_invoiceNumber input)),
         si_supplierId := map_option sup_id (ivp_supplier plan), si_supplierName := map_option sup_name (ivp_supplier plan),
         si_relatedPoId := ivp_purchaseOrderId plan, si_relatedGrnId := ivp_receivingDocumentId plan,
         si_invoiceDate := Some invoiceDate, si_dueDate := Some dueDate,
         si_subtotalAmount := Some (ivp_subtotalAmount plan), si_enteredTaxAmount := Some (ivp_enteredTaxAmount plan),
         si_totalAmount := Some (ivp_totalAmount plan), si_amount := Some (ivp_totalAmount plan),
         si_currency := ivp_currency plan,
         si_lines := map (supplierInvoiceLineData gen) (enumerate n (ivp_lines plan))\<rparr>"

definition new_invoice :: "string \<Rightarrow> string \<Rightarrow> supplier_invoice" where
  "new_invoice k tenantId =
     \<lparr>si_id = k, si_tenantId = tenantId, si_invoiceNumber = None, si_supplierId = None, si_supplierName = None,
      si_relatedPoId = None, si_relatedGrnId = None, si_invoiceDate = None, si_dueDate = None, si_subtotalAmount = None,
      si_enteredTaxAmount = None, si_totalAmount = None, si_amount = None, si_currency = [], si_status = ''draft'',
      si_matchStatus = Some ''not_matched'', si_varianceAmount = Some 0, si_version = 0, si_lines = []\<rparr>"

definition parsed_date :: "(string \<Rightarrow> string option) \<Rightarrow> string \<Rightarrow> fin_issue + string" where
  "parsed_date date t = (case date t of None \<Rightarrow> Inl (Issue FINANCE_UNCAUGHT 500) | Some d \<Rightarrow> Inr d)"

definition createSupplierInvoice ::
  "'s finance_tx \<Rightarrow> (nat \<Rightarrow> string) \<Rightarrow> (string \<Rightarrow> string option) \<Rightarrow> string \<Rightarrow> invoice_request \<Rightarrow> 's \<Rightarrow> 's fin_result" where
  "createSupplierInvoice tx gen date tenantId request s =
     (let input = normalizedInvoiceInput request;
          plan = buildSupplierInvoicePlan tx s tenantId input None True
      in and_then (enforce_issues (ivp_blockingIssues plan)) (\<lambda>_.
         and_then (parsed_date date (in_invoiceDate input)) (\<lambda>invoiceDate.
         and_then (parsed_date date (in_dueDate input)) (\<lambda>dueDate.
         and_then (inserted (createRow (ftx_invoices tx) s
                     (invoice_data gen 2 input plan invoiceDate dueDate (new_invoice (gen 1) tenantId))))
           (\<lambda>s1. Inr (s1, gen 1))))))"

definition reviseSupplierInvoice ::
  "'s finance_tx \<Rightarrow> (nat \<Rightarrow> string) \<Rightarrow> (string \<Rightarrow> string option) \<Rightarrow> string \<Rightarrow> fin_request \<Rightarrow> invoice_request \<Rightarrow> 's
   \<Rightarrow> 's fin_result" where
  "reviseSupplierInvoice tx gen date tenantId request body s =
     and_then (required (fq_id request)) (\<lambda>invoiceId.
     and_then (expectedVersion (fq_expectedVersion request)) (\<lambda>version.
     and_then (locked_row (ftx_invoices tx) si_id si_tenantId SUPPLIER_INVOICE_NOT_FOUND tenantId invoiceId s) (\<lambda>current.
     and_then (fail_if (si_status current \<noteq> ''draft'') (Issue SUPPLIER_INVOICE_FROZEN 409)) (\<lambda>_.
     and_then (fail_if (si_version current \<noteq> version) (Issue FINANCE_VERSION_CONFLICT 409)) (\<lambda>_.
       let input = normalizedInvoiceInput body;
           plan = buildSupplierInvoicePlan tx s tenantId input (Some (si_id current)) True
       in and_then (enforce_issues (ivp_blockingIssues plan)) (\<lambda>_.
          and_then (parsed_date date (in_invoiceDate input)) (\<lambda>invoiceDate.
          and_then (parsed_date date (in_dueDate input)) (\<lambda>dueDate.
          and_then (saved (updateRow (ftx_invoices tx) s (si_id current)
              (\<lambda>iv. (invoice_data gen 1 input plan invoiceDate dueDate iv)\<lparr>si_version := si_version iv + 1\<rparr>)))
            (\<lambda>s1. Inr (s1, si_id current))))))))))"

text \<open>\<open>invoiceInput(tx, invoice)\<close>: the input that the stored invoice amounts to.\<close>

definition invoiceInput :: "supplier_invoice \<Rightarrow> invoice_input" where
  "invoiceInput invoice =
     \<lparr>in_invoiceNumber = js_text (si_invoiceNumber invoice), in_supplierId = js_text (si_supplierId invoice),
      in_currency = si_currency invoice, in_invoiceDate = js_text (si_invoiceDate invoice),
      in_dueDate = js_text (si_dueDate invoice),
      in_totalAmount = column_text (case si_totalAmount invoice of Some a \<Rightarrow> Some a | None \<Rightarrow> si_amount invoice),
      in_lines = map (\<lambda>line. \<lparr>ini_purchaseOrderLineId = js_text (il_purchaseOrderLineId line),
          ini_receivingLineId = js_text (il_receivingLineId line), ini_quantity = column_text (il_quantity line),
          ini_unitPrice = column_text (il_unitPrice line),
          ini_lineAmount = column_text (case il_lineAmount line of Some a \<Rightarrow> Some a | None \<Rightarrow> il_amount line),
          ini_enteredTaxAmount = (case il_enteredTaxAmount line of None \<Rightarrow> ''0'' | Some a \<Rightarrow> column_text (Some a))\<rparr>)
        (si_lines invoice)\<rparr>"

definition submitSupplierInvoice :: "'s finance_tx \<Rightarrow> string \<Rightarrow> fin_request \<Rightarrow> 's \<Rightarrow> 's fin_result" where
  "submitSupplierInvoice tx tenantId request s =
     and_then (required (fq_id request)) (\<lambda>invoiceId.
     and_then (expectedVersion (fq_expectedVersion request)) (\<lambda>version.
     and_then (locked_row (ftx_invoices tx) si_id si_tenantId SUPPLIER_INVOICE_NOT_FOUND tenantId invoiceId s) (\<lambda>current.
     and_then (fail_if (si_status current \<noteq> ''draft'') (Issue SUPPLIER_INVOICE_STATUS_INVALID 409)) (\<lambda>_.
     and_then (fail_if (si_version current \<noteq> version) (Issue FINANCE_VERSION_CONFLICT 409)) (\<lambda>_.
     and_then (enforce_issues (ivp_blockingIssues
         (buildSupplierInvoicePlan tx s tenantId (invoiceInput current) (Some (si_id current)) False))) (\<lambda>_.
     and_then (saved (updateRow (ftx_invoices tx) s (si_id current)
         (\<lambda>iv. iv\<lparr>si_status := ''submitted'', si_version := si_version iv + 1\<rparr>)))
       (\<lambda>s1. Inr (s1, si_id current))))))))"

section \<open>Matching\<close>

definition new_exception ::
  "string \<Rightarrow> string \<Rightarrow> string \<Rightarrow> string \<Rightarrow> match_line list \<Rightarrow> exception_plan \<Rightarrow> match_exception" where
  "new_exception k tenantId matchId invoiceId lines e =
     \<lparr>mx_id = k, mx_tenantId = tenantId, mx_matchId = matchId,
      mx_matchLineId = map_option ml_id (last_by ml_supplierInvoiceLineId lines (xp_supplierInvoiceLineId e)),
      mx_supplierInvoiceId = invoiceId, mx_exceptionType = xp_exceptionType e, mx_status = ''open'',
      mx_expectedValue = xp_expectedValue e, mx_actualValue = xp_actualValue e, mx_varianceValue = xp_varianceValue e,
      mx_currency = xp_currency e, mx_resolution = None, mx_version = 0\<rparr>"

text \<open>\<open>for (const exception of plan.exceptions)\<close>\<close>

fun create_exceptions ::
  "'s finance_tx \<Rightarrow> (nat \<Rightarrow> string) \<Rightarrow> string \<Rightarrow> string \<Rightarrow> string \<Rightarrow> match_line list \<Rightarrow> nat \<Rightarrow> exception_plan list \<Rightarrow> 's
   \<Rightarrow> fin_issue + 's" where
  "create_exceptions tx gen tenantId matchId invoiceId lines n [] s = Inr s"
| "create_exceptions tx gen tenantId matchId invoiceId lines n (e # es) s =
     and_then (inserted (createRow (ftx_exceptions tx) s (new_exception (gen n) tenantId matchId invoiceId lines e)))
       (create_exceptions tx gen tenantId matchId invoiceId lines (Suc n) es)"

definition int_text :: "int \<Rightarrow> string" where
  "int_text n = (if n < 0 then ''-'' else []) @ digits_of (nat \<bar>n\<bar>)"

definition text_of :: "string option \<Rightarrow> string" where
  "text_of v = (case v of None \<Rightarrow> ''null'' | Some t \<Rightarrow> t)"

definition new_match ::
  "(nat \<Rightarrow> string) \<Rightarrow> string \<Rightarrow> string \<Rightarrow> supplier_invoice \<Rightarrow> match_plan \<Rightarrow> three_way_match" where
  "new_match gen tenantId number current plan =
     \<lparr>tm_id = gen 1, tm_tenantId = tenantId,
      tm_matchNumber = (if number = [] then ''MATCH-'' @ text_of (si_invoiceNumber current) @ ''-'' @ int_text (si_version current + 1)
                        else number),
      tm_invoiceId = si_id current, tm_poAmount = mp_purchaseOrderTotal plan, tm_invoiceAmount = mp_invoiceTotal plan,
      tm_varianceAmount = mp_varianceTotal plan, tm_currency = si_currency current, tm_status = mp_resultStatus plan,
      tm_lines = map (\<lambda>(n, l). l\<lparr>ml_id := gen n\<rparr>) (enumerate 2 (mp_lines plan))\<rparr>"

definition matchSupplierInvoice ::
  "'s finance_tx \<Rightarrow> (nat \<Rightarrow> string) \<Rightarrow> string \<Rightarrow> fin_request \<Rightarrow> 's \<Rightarrow> 's fin_result" where
  "matchSupplierInvoice tx gen tenantId request s =
     and_then (required (fq_id request)) (\<lambda>invoiceId.
     and_then (expectedVersion (fq_expectedVersion request)) (\<lambda>version.
     and_then (locked_row (ftx_invoices tx) si_id si_tenantId SUPPLIER_INVOICE_NOT_FOUND tenantId invoiceId s) (\<lambda>current.
     and_then (fail_if (si_status current \<noteq> ''submitted'') (Issue SUPPLIER_INVOICE_STATUS_INVALID 409)) (\<lambda>_.
     and_then (fail_if (si_version current \<noteq> version) (Issue FINANCE_VERSION_CONFLICT 409)) (\<lambda>_.
       let plan = buildSupplierMatchPlan tx s tenantId (si_id current)
       in and_then (enforce_issues (mp_blockingIssues plan)) (\<lambda>_.
          let match = new_match gen tenantId (js_text (fq_number request)) current plan
          in and_then (inserted (createRow (ftx_matches tx) s match)) (\<lambda>s1.
             and_then (create_exceptions tx gen tenantId (gen 1) (si_id current) (tm_lines match)
                (2 + length (mp_lines plan)) (mp_exceptions plan) s1) (\<lambda>s2.
             and_then (saved (updateRow (ftx_invoices tx) s2 (si_id current)
                (\<lambda>iv. iv\<lparr>si_status := mp_resultStatus plan, si_matchStatus := Some (mp_resultStatus plan),
                    si_varianceAmount := Some (mp_varianceTotal plan), si_version := si_version iv + 1\<rparr>)))
               (\<lambda>s3. Inr (s3, si_id current))))))))))"

definition reviewMatchException :: "'s finance_tx \<Rightarrow> string \<Rightarrow> fin_request \<Rightarrow> 's \<Rightarrow> 's fin_result" where
  "reviewMatchException tx tenantId request s =
     and_then (required (fq_id request)) (\<lambda>exceptionId.
     and_then (expectedVersion (fq_expectedVersion request)) (\<lambda>version.
     and_then (required (fq_decision request)) (\<lambda>decision.
     and_then (required (fq_resolution request)) (\<lambda>resolution.
     and_then (locked_row (ftx_exceptions tx) mx_id mx_tenantId MATCH_EXCEPTION_NOT_FOUND tenantId exceptionId s) (\<lambda>current.
     and_then (fail_if (mx_status current \<noteq> ''open'') (Issue MATCH_EXCEPTION_STATUS_INVALID 409)) (\<lambda>_.
     and_then (fail_if (mx_version current \<noteq> version) (Issue FINANCE_VERSION_CONFLICT 409)) (\<lambda>_.
     and_then (fail_if (decision \<notin> {''approved'', ''rejected''}) (Issue MATCH_EXCEPTION_DECISION_INVALID 422)) (\<lambda>_.
     and_then (saved (updateRow (ftx_exceptions tx) s (mx_id current)
         (\<lambda>e. e\<lparr>mx_status := decision, mx_resolution := Some resolution, mx_version := mx_version e + 1\<rparr>)))
       (\<lambda>s1. Inr (s1, mx_id current))))))))))"

section \<open>Approval and payables\<close>

definition unresolved :: "'s finance_tx \<Rightarrow> 's \<Rightarrow> string \<Rightarrow> match_exception list" where
  "unresolved tx s invoiceId =
     findMany (ftx_exceptions tx) s (\<lambda>e. mx_supplierInvoiceId e = invoiceId \<and> mx_status e \<in> {''open'', ''rejected''})"

definition new_payable :: "string \<Rightarrow> string \<Rightarrow> string \<Rightarrow> supplier_invoice \<Rightarrow> int \<Rightarrow> payable" where
  "new_payable k tenantId number current amount =
     \<lparr>pay_id = k, pay_tenantId = tenantId, pay_supplierInvoiceId = si_id current,
      pay_obligationNumber = (if number = [] then ''AP-'' @ text_of (si_invoiceNumber current) else number),
      pay_originalAmount = amount, pay_outstandingAmount = amount, pay_approvedCreditAmount = 0,
      pay_currency = si_currency current, pay_status = ''approved'', pay_holdReason = None, pay_version = 0\<rparr>"

definition invoice_amount :: "supplier_invoice \<Rightarrow> int option" where
  "invoice_amount iv = (case si_totalAmount iv of Some a \<Rightarrow> Some a | None \<Rightarrow> si_amount iv)"

definition approveSupplierInvoice ::
  "'s finance_tx \<Rightarrow> (nat \<Rightarrow> string) \<Rightarrow> string \<Rightarrow> fin_request \<Rightarrow> 's \<Rightarrow> 's fin_result" where
  "approveSupplierInvoice tx gen tenantId request s =
     and_then (required (fq_id request)) (\<lambda>invoiceId.
     and_then (expectedVersion (fq_expectedVersion request)) (\<lambda>version.
     and_then (locked_row (ftx_invoices tx) si_id si_tenantId SUPPLIER_INVOICE_NOT_FOUND tenantId invoiceId s) (\<lambda>current.
     and_then (fail_if (si_status current \<notin> {''matched'', ''exception''}) (Issue SUPPLIER_INVOICE_STATUS_INVALID 409)) (\<lambda>_.
     and_then (fail_if (si_version current \<noteq> version) (Issue FINANCE_VERSION_CONFLICT 409)) (\<lambda>_.
     and_then (fail_if (unresolved tx s (si_id current) \<noteq> []) (Issue MATCH_EXCEPTION_REVIEW_REQUIRED 409)) (\<lambda>_.
     and_then (saved (updateRow (ftx_invoices tx) s (si_id current)
         (\<lambda>iv. iv\<lparr>si_status := ''approved'', si_version := si_version iv + 1\<rparr>))) (\<lambda>s1.
       case (invoice_amount current, si_dueDate current) of
         (Some amount, Some _) \<Rightarrow>
           and_then (inserted (createRow (ftx_payables tx) s1
               (new_payable (gen 1) tenantId (js_text (fq_number request)) current amount)))
             (\<lambda>s2. Inr (s2, si_id current))
       | _ \<Rightarrow> Inl (Issue FINANCE_UNCAUGHT 500))))))))"

datatype payable_action = Hold | Release | Mark_export_ready

definition payable_change :: "payable_action \<Rightarrow> string option \<Rightarrow> payable \<Rightarrow> fin_issue + (payable \<Rightarrow> payable)" where
  "payable_change action reason current =
     (case action of
        Hold \<Rightarrow>
          and_then (fail_if (pay_status current \<notin> {''approved'', ''export_ready''}) (Issue PAYABLE_STATUS_INVALID 409)) (\<lambda>_.
          and_then (required reason) (\<lambda>r. Inr (\<lambda>p. p\<lparr>pay_status := ''held'', pay_holdReason := Some r\<rparr>)))
      | Release \<Rightarrow>
          and_then (fail_if (pay_status current \<noteq> ''held'') (Issue PAYABLE_STATUS_INVALID 409)) (\<lambda>_.
            Inr (\<lambda>p. p\<lparr>pay_status := ''approved'', pay_holdReason := None\<rparr>))
      | Mark_export_ready \<Rightarrow>
          and_then (fail_if (pay_status current \<noteq> ''approved'') (Issue PAYABLE_STATUS_INVALID 409)) (\<lambda>_.
            Inr (\<lambda>p. p\<lparr>pay_status := ''export_ready''\<rparr>)))"

definition changePayableStatus ::
  "'s finance_tx \<Rightarrow> string \<Rightarrow> payable_action \<Rightarrow> fin_request \<Rightarrow> 's \<Rightarrow> 's fin_result" where
  "changePayableStatus tx tenantId action request s =
     and_then (required (fq_id request)) (\<lambda>payableId.
     and_then (expectedVersion (fq_expectedVersion request)) (\<lambda>version.
     and_then (locked_row (ftx_payables tx) pay_id pay_tenantId PAYABLE_OBLIGATION_NOT_FOUND tenantId payableId s) (\<lambda>current.
     and_then (fail_if (pay_version current \<noteq> version) (Issue FINANCE_VERSION_CONFLICT 409)) (\<lambda>_.
     and_then (payable_change action (fq_reason request) current) (\<lambda>change.
     and_then (saved (updateRow (ftx_payables tx) s (pay_id current)
         (\<lambda>p. (change p)\<lparr>pay_version := pay_version p + 1\<rparr>))) (\<lambda>s1.
     and_then (saved (updateRow (ftx_invoices tx) s1 (pay_supplierInvoiceId current)
         (\<lambda>iv. iv\<lparr>si_status := (if action = Hold then ''held'' else ''approved''), si_version := si_version iv + 1\<rparr>)))
       (\<lambda>s2. Inr (s2, pay_id current))))))))"

section \<open>Supplier credit memos\<close>

definition createSupplierCreditMemo ::
  "'s finance_tx \<Rightarrow> (nat \<Rightarrow> string) \<Rightarrow> string \<Rightarrow> memo_request \<Rightarrow> 's \<Rightarrow> 's fin_result" where
  "createSupplierCreditMemo tx gen tenantId request s =
     (let plan = buildSupplierCreditMemoPlan tx s tenantId (normalizedCreditMemoInput request)
      in and_then (enforce_issues (cmp_blockingIssues plan)) (\<lambda>_.
         case (cmp_invoice plan, cmp_returnPosting plan) of
           (Some invoice, Some posting) \<Rightarrow>
             and_then (inserted (createRow (ftx_memos tx) s
               \<lparr>cm_id = gen 1, cm_tenantId = tenantId, cm_creditMemoNumber = cmp_creditMemoNumber plan,
                cm_supplierInvoiceId = si_id invoice, cm_returnPostingId = rp_id posting, cm_currency = cmp_currency plan,
                cm_subtotalAmount = cmp_subtotalAmount plan, cm_enteredTaxAmount = cmp_enteredTaxAmount plan,
                cm_totalAmount = cmp_totalAmount plan, cm_status = ''draft'', cm_version = 0,
                cm_lines = map (\<lambda>(n, l). l\<lparr>cml_id := gen n\<rparr>) (enumerate 2 (cmp_lines plan))\<rparr>))
             (\<lambda>s1. Inr (s1, gen 1))
         | _ \<Rightarrow> Inl (Issue FINANCE_UNCAUGHT 500)))"

text \<open>The part of the approval that takes the credit off the payable of the invoice, if there is one.\<close>

definition apply_credit :: "'s finance_tx \<Rightarrow> string \<Rightarrow> credit_memo \<Rightarrow> 's \<Rightarrow> fin_issue + 's" where
  "apply_credit tx tenantId current s =
     (case findFirst (ftx_payables tx) s (\<lambda>p. pay_supplierInvoiceId p = cm_supplierInvoiceId current) of
        None \<Rightarrow> Inr s
      | Some payable \<Rightarrow>
          and_then (locked_row (ftx_payables tx) pay_id pay_tenantId PAYABLE_OBLIGATION_NOT_FOUND tenantId (pay_id payable) s) (\<lambda>_.
          and_then (fail_if (pay_outstandingAmount payable - cm_totalAmount current < 0) (Issue SUPPLIER_CREDIT_AMOUNT_EXCEEDED 409)) (\<lambda>_.
            saved (updateRow (ftx_payables tx) s (pay_id payable)
              (\<lambda>p. p\<lparr>pay_outstandingAmount := pay_outstandingAmount payable - cm_totalAmount current,
                     pay_approvedCreditAmount := pay_approvedCreditAmount payable + cm_totalAmount current,
                     pay_version := pay_version p + 1\<rparr>)))))"

definition approveSupplierCreditMemo :: "'s finance_tx \<Rightarrow> string \<Rightarrow> fin_request \<Rightarrow> 's \<Rightarrow> 's fin_result" where
  "approveSupplierCreditMemo tx tenantId request s =
     and_then (required (fq_id request)) (\<lambda>memoId.
     and_then (expectedVersion (fq_expectedVersion request)) (\<lambda>version.
     and_then (locked_row (ftx_memos tx) cm_id cm_tenantId SUPPLIER_CREDIT_MEMO_NOT_FOUND tenantId memoId s) (\<lambda>current.
     and_then (fail_if (cm_status current \<noteq> ''draft'') (Issue SUPPLIER_CREDIT_STATUS_INVALID 409)) (\<lambda>_.
     and_then (fail_if (cm_version current \<noteq> version) (Issue FINANCE_VERSION_CONFLICT 409)) (\<lambda>_.
     and_then (apply_credit tx tenantId current s) (\<lambda>s1.
     and_then (saved (updateRow (ftx_memos tx) s1 (cm_id current)
         (\<lambda>m. m\<lparr>cm_status := ''approved'', cm_version := cm_version m + 1\<rparr>)))
       (\<lambda>s2. Inr (s2, cm_id current))))))))"

section \<open>All commands\<close>

datatype finance_command =
    Create_supplier_invoice invoice_request
  | Revise_supplier_invoice fin_request invoice_request
  | Submit_supplier_invoice fin_request
  | Match_supplier_invoice fin_request
  | Review_match_exception fin_request
  | Approve_supplier_invoice fin_request
  | Change_payable payable_action fin_request
  | Create_supplier_credit_memo memo_request
  | Approve_supplier_credit_memo fin_request

fun run_finance ::
  "'s finance_tx \<Rightarrow> (nat \<Rightarrow> string) \<Rightarrow> (string \<Rightarrow> string option) \<Rightarrow> string \<Rightarrow> finance_command \<Rightarrow> 's \<Rightarrow> 's fin_result" where
  "run_finance tx gen date t (Create_supplier_invoice body) s = createSupplierInvoice tx gen date t body s"
| "run_finance tx gen date t (Revise_supplier_invoice r body) s = reviseSupplierInvoice tx gen date t r body s"
| "run_finance tx gen date t (Submit_supplier_invoice r) s = submitSupplierInvoice tx t r s"
| "run_finance tx gen date t (Match_supplier_invoice r) s = matchSupplierInvoice tx gen t r s"
| "run_finance tx gen date t (Review_match_exception r) s = reviewMatchException tx t r s"
| "run_finance tx gen date t (Approve_supplier_invoice r) s = approveSupplierInvoice tx gen t r s"
| "run_finance tx gen date t (Change_payable a r) s = changePayableStatus tx t a r s"
| "run_finance tx gen date t (Create_supplier_credit_memo body) s = createSupplierCreditMemo tx gen t body s"
| "run_finance tx gen date t (Approve_supplier_credit_memo r) s = approveSupplierCreditMemo tx t r s"

end
