(* ===== verification/Finance_Store.thy ===== *)
theory Finance_Store
  imports Finance_Service
begin

text \<open>
  What finance relies on of its database: each model of \<open>finance_tx\<close> is a table of one state, with the
  unique indexes of \<open>prisma/schema.prisma\<close>. The database made of lists satisfies it.
\<close>

record fin_tables =
  ft_receipts :: "receipt_source list"
  ft_orders :: "order_source list"
  ft_suppliers :: "supplier list"
  ft_tenants :: "finance_tenant list"
  ft_invoices :: "supplier_invoice list"
  ft_matches :: "three_way_match list"
  ft_exceptions :: "match_exception list"
  ft_payables :: "payable list"
  ft_memos :: "credit_memo list"
  ft_postings :: "return_posting list"

section \<open>Unique indexes\<close>

definition invoice_clash :: "supplier_invoice \<Rightarrow> supplier_invoice \<Rightarrow> bool" where
  "invoice_clash a b \<longleftrightarrow> si_id a = si_id b \<or> list_ex (\<lambda>i. i \<in> set (map il_id (si_lines b))) (map il_id (si_lines a))"

definition invoice_good :: "supplier_invoice \<Rightarrow> bool" where
  "invoice_good a \<longleftrightarrow> distinct (map il_id (si_lines a))"

definition payable_clash :: "payable \<Rightarrow> payable \<Rightarrow> bool" where
  "payable_clash a b \<longleftrightarrow> pay_id a = pay_id b \<or> pay_supplierInvoiceId a = pay_supplierInvoiceId b
     \<or> pay_tenantId a = pay_tenantId b \<and> pay_obligationNumber a = pay_obligationNumber b"

definition memo_clash :: "credit_memo \<Rightarrow> credit_memo \<Rightarrow> bool" where
  "memo_clash a b \<longleftrightarrow> cm_id a = cm_id b
     \<or> cm_tenantId a = cm_tenantId b \<and> cm_creditMemoNumber a = cm_creditMemoNumber b"

definition memo_good :: "credit_memo \<Rightarrow> bool" where
  "memo_good a \<longleftrightarrow> distinct (map (\<lambda>l. (cml_supplierInvoiceLineId l, cml_returnPostingLineId l)) (cm_lines a))"

section \<open>The interface\<close>

context prisma_table
begin

lemma locked:
  assumes "locked_row m key rowTenant missing t k s = Inr r" "unclashed clash (rows (tables s))"
  shows "r \<in> set (rows (tables s)) \<and> key r = k \<and> rowTenant r = t"
proof -
  obtain r' where r': "findFirst m s (\<lambda>r. key r = k \<and> rowTenant r = t) = Some r'"
    using assms(1) by (auto simp: locked_row_def split: option.splits)
  then have r: "findFirst m s (\<lambda>r. key r = k) = Some r"
    using assms(1) by (auto simp: locked_row_def split: option.splits)
  have "r' = r"
    using first_some [OF r'] first_some [OF r] unclashed_at [OF assms(2), of r' r] same_key [of r' r] by simp
  then show ?thesis using first_some [OF r'] by simp
qed

end

locale finance_store =
  receipts: prisma_table "ftx_receipts tx" tables ft_receipts ft_receipts_update rs_id "\<lambda>a b. rs_id a = rs_id b" "\<lambda>_. True"
  + orders: prisma_table "ftx_orders tx" tables ft_orders ft_orders_update os_id "\<lambda>a b. os_id a = os_id b" "\<lambda>_. True"
  + suppliers: prisma_table "ftx_suppliers tx" tables ft_suppliers ft_suppliers_update sup_id "\<lambda>a b. sup_id a = sup_id b" "\<lambda>_. True"
  + tenants: prisma_table "ftx_tenants tx" tables ft_tenants ft_tenants_update ten_id "\<lambda>a b. ten_id a = ten_id b" "\<lambda>_. True"
  + invoices: prisma_table "ftx_invoices tx" tables ft_invoices ft_invoices_update si_id invoice_clash invoice_good
  + matches: prisma_table "ftx_matches tx" tables ft_matches ft_matches_update tm_id "\<lambda>a b. tm_id a = tm_id b" "\<lambda>_. True"
  + exceptions: prisma_table "ftx_exceptions tx" tables ft_exceptions ft_exceptions_update mx_id "\<lambda>a b. mx_id a = mx_id b" "\<lambda>_. True"
  + payables: prisma_table "ftx_payables tx" tables ft_payables ft_payables_update pay_id payable_clash "\<lambda>_. True"
  + memos: prisma_table "ftx_memos tx" tables ft_memos ft_memos_update cm_id memo_clash memo_good
  + postings: prisma_table "ftx_postings tx" tables ft_postings ft_postings_update rp_id "\<lambda>a b. rp_id a = rp_id b" "\<lambda>_. True"
  for tx :: "'s finance_tx" and tables :: "'s \<Rightarrow> fin_tables"

section \<open>The database of lists\<close>

definition list_finance :: "fin_tables finance_tx" where
  "list_finance =
     \<lparr>ftx_receipts = list_model ft_receipts ft_receipts_update rs_id (\<lambda>a b. rs_id a = rs_id b) (\<lambda>_. True),
      ftx_orders = list_model ft_orders ft_orders_update os_id (\<lambda>a b. os_id a = os_id b) (\<lambda>_. True),
      ftx_suppliers = list_model ft_suppliers ft_suppliers_update sup_id (\<lambda>a b. sup_id a = sup_id b) (\<lambda>_. True),
      ftx_tenants = list_model ft_tenants ft_tenants_update ten_id (\<lambda>a b. ten_id a = ten_id b) (\<lambda>_. True),
      ftx_invoices = list_model ft_invoices ft_invoices_update si_id invoice_clash invoice_good,
      ftx_matches = list_model ft_matches ft_matches_update tm_id (\<lambda>a b. tm_id a = tm_id b) (\<lambda>_. True),
      ftx_exceptions = list_model ft_exceptions ft_exceptions_update mx_id (\<lambda>a b. mx_id a = mx_id b) (\<lambda>_. True),
      ftx_payables = list_model ft_payables ft_payables_update pay_id payable_clash (\<lambda>_. True),
      ftx_memos = list_model ft_memos ft_memos_update cm_id memo_clash memo_good,
      ftx_postings = list_model ft_postings ft_postings_update rp_id (\<lambda>a b. rp_id a = rp_id b) (\<lambda>_. True)\<rparr>"

interpretation finance_lists: finance_store list_finance "\<lambda>s. s"
  unfolding finance_store_def list_finance_def
  by (simp add: list_model_table invoice_clash_def payable_clash_def memo_clash_def)

end
