(* ===== verification/Finance_Ledger.thy ===== *)
theory Finance_Ledger
  imports Finance_Store
begin

text \<open>
  The books of procure to pay: an abstract machine on the tables, whose steps are what the nine
  commands are meant to do, and the invariant its steps keep.

  The invariant says that receipts are not billed beyond what was accepted, that invoices add up,
  that approval follows a match whose exceptions are all approved, and that each approved
  invoice has its one payable, whose outstanding amount is the invoice total less the credits
  taken off it.
\<close>

section \<open>What the tables say\<close>

definition billed :: "supplier_invoice \<Rightarrow> string \<Rightarrow> int" where
  "billed iv k = sum_list (map (\<lambda>l. column_units (il_quantity l)) (filter (\<lambda>l. il_receivingLineId l = Some k) (si_lines iv)))"

definition consuming :: "string \<Rightarrow> string list \<Rightarrow> supplier_invoice \<Rightarrow> bool" where
  "consuming t statuses iv \<longleftrightarrow> si_tenantId iv = t \<and> si_status iv \<in> set statuses"

text \<open>What the submitted invoices of the tenant bill of a receiving line.\<close>

definition invoiced :: "fin_tables \<Rightarrow> string \<Rightarrow> string \<Rightarrow> int" where
  "invoiced T t k = sum_list (map (\<lambda>iv. if consuming t consumingStatuses iv then billed iv k else 0) (ft_invoices T))"

definition line_ok :: "invoice_line \<Rightarrow> bool" where
  "line_ok l \<longleftrightarrow> (\<exists>k p q u a x. il_receivingLineId l = Some k \<and> js_trim k = k \<and> il_purchaseOrderLineId l = Some p \<and> js_trim p = p
     \<and> il_quantity l = Some q \<and> 0 < q \<and> il_unitPrice l = Some u \<and> 0 \<le> u \<and> il_lineAmount l = Some a \<and> a = multiply q u
     \<and> il_enteredTaxAmount l = Some x \<and> 0 \<le> x \<and> il_amount l = Some (a + x))"

definition invoice_ok :: "supplier_invoice \<Rightarrow> bool" where
  "invoice_ok iv \<longleftrightarrow> si_lines iv \<noteq> [] \<and> (\<forall>l\<in>set (si_lines iv). line_ok l)
     \<and> distinct (map il_receivingLineId (si_lines iv))
     \<and> si_totalAmount iv = Some (sum_list (map (\<lambda>l. column_units (il_amount l)) (si_lines iv)))"

definition exceptions_of :: "fin_tables \<Rightarrow> string \<Rightarrow> match_exception list" where
  "exceptions_of T k = filter (\<lambda>e. mx_supplierInvoiceId e = k) (ft_exceptions T)"

definition payable_ok :: "payable \<Rightarrow> bool" where
  "payable_ok p \<longleftrightarrow> pay_outstandingAmount p = pay_originalAmount p - pay_approvedCreditAmount p \<and> 0 \<le> pay_outstandingAmount p"

text \<open>What the documents of one invoice must look like in each of its states.\<close>

definition status_of_payable :: "payable \<Rightarrow> string" where
  "status_of_payable p = (if pay_status p = ''held'' then ''held'' else ''approved'')"

definition invoice_backed :: "fin_tables \<Rightarrow> supplier_invoice \<Rightarrow> bool" where
  "invoice_backed T iv \<longleftrightarrow>
     (si_status iv \<in> {''matched'', ''exception'', ''approved'', ''held''} \<longrightarrow> (\<exists>m\<in>set (ft_matches T). tm_invoiceId m = si_id iv))
     \<and> (si_status iv \<in> {''approved'', ''held''} \<longrightarrow>
          (\<forall>e\<in>set (ft_exceptions T). mx_supplierInvoiceId e = si_id iv \<longrightarrow> mx_status e = ''approved'')
          \<and> (\<exists>p\<in>set (ft_payables T). pay_supplierInvoiceId p = si_id iv))
     \<and> (\<forall>p\<in>set (ft_payables T). pay_supplierInvoiceId p = si_id iv \<longrightarrow>
          si_status iv = status_of_payable p \<and> Some (pay_originalAmount p) = si_totalAmount iv)"

definition indexes_ok :: "fin_tables \<Rightarrow> bool" where
  "indexes_ok T \<longleftrightarrow> unclashed (\<lambda>a b. rs_id a = rs_id b) (ft_receipts T) \<and> unclashed (\<lambda>a b. os_id a = os_id b) (ft_orders T)
     \<and> unclashed invoice_clash (ft_invoices T) \<and> unclashed payable_clash (ft_payables T)
     \<and> unclashed (\<lambda>a b. mx_id a = mx_id b) (ft_exceptions T) \<and> unclashed memo_clash (ft_memos T)"

definition finance_inv :: "fin_tables \<Rightarrow> bool" where
  "finance_inv T \<longleftrightarrow> indexes_ok T
     \<and> (\<forall>r\<in>set (ft_receipts T). invoiced T (rs_tenantId r) (rs_id r) \<le> column_units (rs_acceptedQty r))
     \<and> (\<forall>iv\<in>set (ft_invoices T). invoice_ok iv \<and> invoice_backed T iv)
     \<and> (\<forall>e\<in>set (ft_exceptions T). mx_status e \<in> {''open'', ''approved'', ''rejected''})
     \<and> (\<forall>p\<in>set (ft_payables T). (\<exists>iv\<in>set (ft_invoices T). si_id iv = pay_supplierInvoiceId p) \<and> payable_ok p \<and> pay_status p \<in> {''approved'', ''held'', ''export_ready''})"

section \<open>The machine\<close>

definition set_status :: "string \<Rightarrow> supplier_invoice \<Rightarrow> supplier_invoice" where
  "set_status st iv = iv\<lparr>si_status := st, si_version := si_version iv + 1\<rparr>"

definition other_invoiced :: "fin_tables \<Rightarrow> string list \<Rightarrow> string \<Rightarrow> string \<Rightarrow> string \<Rightarrow> int" where
  "other_invoiced T statuses t k self =
     sum_list (map (\<lambda>iv. if consuming t statuses iv \<and> si_id iv \<noteq> self then billed iv k else 0) (ft_invoices T))"

definition payable_moves :: "payable_action \<Rightarrow> string \<Rightarrow> string \<Rightarrow> bool" where
  "payable_moves action a b \<longleftrightarrow> (case action of
       Hold \<Rightarrow> a \<in> {''approved'', ''export_ready''} \<and> b = ''held''
     | Release \<Rightarrow> a = ''held'' \<and> b = ''approved''
     | Mark_export_ready \<Rightarrow> a = ''approved'' \<and> b = ''export_ready'')"

inductive finance_step :: "fin_tables \<Rightarrow> fin_tables \<Rightarrow> bool" where
  created: "\<lbrakk>invoice_ok iv; si_status iv = ''draft'';
      unclashed invoice_clash (ft_invoices T) \<Longrightarrow> unclashed invoice_clash (ft_invoices T @ [iv])\<rbrakk>
    \<Longrightarrow> finance_step T (ft_invoices_update (\<lambda>rs. rs @ [iv]) T)"
| revised: "\<lbrakk>c \<in> set (ft_invoices T); si_status c = ''draft''; invoice_ok (f c); si_id (f c) = si_id c;
      si_tenantId (f c) = si_tenantId c; si_status (f c) = ''draft''; si_version (f c) = si_version c + 1;
      unclashed invoice_clash (ft_invoices T) \<Longrightarrow>
        unclashed invoice_clash (update_where (\<lambda>r. si_id r = si_id c) f (ft_invoices T))\<rbrakk>
    \<Longrightarrow> finance_step T (ft_invoices_update (update_where (\<lambda>r. si_id r = si_id c) f) T)"
| submitted: "\<lbrakk>c \<in> set (ft_invoices T); si_status c = ''draft'';
      \<And>r. r \<in> set (ft_receipts T) \<Longrightarrow> rs_tenantId r = si_tenantId c \<Longrightarrow> billed c (rs_id r) \<noteq> 0 \<Longrightarrow>
        billed c (rs_id r) + other_invoiced T consumingStatuses (rs_tenantId r) (rs_id r) (si_id c) \<le> column_units (rs_acceptedQty r)\<rbrakk>
    \<Longrightarrow> finance_step T (ft_invoices_update (update_where (\<lambda>r. si_id r = si_id c) (set_status ''submitted'')) T)"
| matched: "\<lbrakk>c \<in> set (ft_invoices T); si_status c = ''submitted''; st \<in> {''matched'', ''exception''};
      tm_invoiceId m = si_id c; tm_status m = st; es = [] \<longleftrightarrow> st = ''matched'';
      \<And>e. e \<in> set es \<Longrightarrow> mx_supplierInvoiceId e = si_id c \<and> mx_status e = ''open'';
      unclashed (\<lambda>a b. mx_id a = mx_id b) (ft_exceptions T) \<Longrightarrow>
        unclashed (\<lambda>a b. mx_id a = mx_id b) (ft_exceptions T @ es)\<rbrakk>
    \<Longrightarrow> finance_step T
          (ft_invoices_update (update_where (\<lambda>r. si_id r = si_id c)
             (\<lambda>iv. (set_status st iv)\<lparr>si_matchStatus := Some st, si_varianceAmount := Some v\<rparr>))
          (ft_exceptions_update (\<lambda>rs. rs @ es) (ft_matches_update (\<lambda>rs. rs @ [m]) T)))"
| reviewed: "\<lbrakk>e \<in> set (ft_exceptions T); mx_status e = ''open''; d \<in> {''approved'', ''rejected''}\<rbrakk>
    \<Longrightarrow> finance_step T (ft_exceptions_update (update_where (\<lambda>r. mx_id r = mx_id e)
          (\<lambda>r. r\<lparr>mx_status := d, mx_resolution := Some x, mx_version := mx_version r + 1\<rparr>)) T)"
| approved: "\<lbrakk>c \<in> set (ft_invoices T); si_status c \<in> {''matched'', ''exception''};
      \<And>e. e \<in> set (ft_exceptions T) \<Longrightarrow> mx_supplierInvoiceId e = si_id c \<Longrightarrow> mx_status e \<notin> {''open'', ''rejected''};
      pay_supplierInvoiceId p = si_id c; invoice_amount c = Some (pay_originalAmount p);
      pay_outstandingAmount p = pay_originalAmount p; pay_approvedCreditAmount p = 0; pay_status p = ''approved'';
      unclashed payable_clash (ft_payables T) \<Longrightarrow> unclashed payable_clash (ft_payables T @ [p])\<rbrakk>
    \<Longrightarrow> finance_step T (ft_payables_update (\<lambda>rs. rs @ [p])
          (ft_invoices_update (update_where (\<lambda>r. si_id r = si_id c) (set_status ''approved'')) T))"
| payable_changed: "\<lbrakk>q \<in> set (ft_payables T); payable_moves action (pay_status q) (pay_status (f q));
      \<And>p. pay_id (f p) = pay_id p \<and> pay_supplierInvoiceId (f p) = pay_supplierInvoiceId p
        \<and> pay_originalAmount (f p) = pay_originalAmount p \<and> pay_outstandingAmount (f p) = pay_outstandingAmount p
        \<and> pay_approvedCreditAmount (f p) = pay_approvedCreditAmount p \<and> pay_version (f p) = pay_version p + 1;
      unclashed payable_clash (ft_payables T) \<Longrightarrow>
        unclashed payable_clash (update_where (\<lambda>r. pay_id r = pay_id q) f (ft_payables T));
      c \<in> set (ft_invoices T); si_id c = pay_supplierInvoiceId q\<rbrakk>
    \<Longrightarrow> finance_step T (ft_invoices_update (update_where (\<lambda>r. si_id r = si_id c)
          (set_status (if action = Hold then ''held'' else ''approved'')))
          (ft_payables_update (update_where (\<lambda>r. pay_id r = pay_id q) f) T))"
| memo_created: "\<lbrakk>cm_status memo = ''draft'';
      unclashed memo_clash (ft_memos T) \<Longrightarrow> unclashed memo_clash (ft_memos T @ [memo])\<rbrakk>
    \<Longrightarrow> finance_step T (ft_memos_update (\<lambda>rs. rs @ [memo]) T)"
| memo_approved: "\<lbrakk>memo \<in> set (ft_memos T); cm_status memo = ''draft'';
      \<And>p. p \<in> set (ft_payables T) \<Longrightarrow> pay_supplierInvoiceId p \<noteq> cm_supplierInvoiceId memo\<rbrakk>
    \<Longrightarrow> finance_step T (ft_memos_update (update_where (\<lambda>r. cm_id r = cm_id memo)
          (\<lambda>m. m\<lparr>cm_status := ''approved'', cm_version := cm_version m + 1\<rparr>)) T)"
| memo_credited: "\<lbrakk>memo \<in> set (ft_memos T); cm_status memo = ''draft'';
      q \<in> set (ft_payables T); pay_supplierInvoiceId q = cm_supplierInvoiceId memo;
      cm_totalAmount memo \<le> pay_outstandingAmount q\<rbrakk>
    \<Longrightarrow> finance_step T (ft_memos_update (update_where (\<lambda>r. cm_id r = cm_id memo)
          (\<lambda>m. m\<lparr>cm_status := ''approved'', cm_version := cm_version m + 1\<rparr>))
          (ft_payables_update (update_where (\<lambda>r. pay_id r = pay_id q)
             (\<lambda>p. p\<lparr>pay_outstandingAmount := pay_outstandingAmount q - cm_totalAmount memo,
                    pay_approvedCreditAmount := pay_approvedCreditAmount q + cm_totalAmount memo,
                    pay_version := pay_version p + 1\<rparr>)) T))"

inductive_cases finance_stepE: "finance_step T T'"

section \<open>The invariant is kept\<close>

lemma finance_invI:
  assumes "indexes_ok T"
    and "\<And>r. r \<in> set (ft_receipts T) \<Longrightarrow> invoiced T (rs_tenantId r) (rs_id r) \<le> column_units (rs_acceptedQty r)"
    and "\<And>iv. iv \<in> set (ft_invoices T) \<Longrightarrow> invoice_ok iv"
    and "\<And>iv. iv \<in> set (ft_invoices T) \<Longrightarrow> invoice_backed T iv"
    and "\<And>e. e \<in> set (ft_exceptions T) \<Longrightarrow> mx_status e \<in> {''open'', ''approved'', ''rejected''}"
    and "\<And>p. p \<in> set (ft_payables T) \<Longrightarrow> (\<exists>iv\<in>set (ft_invoices T). si_id iv = pay_supplierInvoiceId p)
           \<and> payable_ok p \<and> pay_status p \<in> {''approved'', ''held'', ''export_ready''}"
  shows "finance_inv T"
  using assms unfolding finance_inv_def by blast

lemma finance_invD:
  assumes "finance_inv T"
  shows "indexes_ok T"
    and "r \<in> set (ft_receipts T) \<Longrightarrow> invoiced T (rs_tenantId r) (rs_id r) \<le> column_units (rs_acceptedQty r)"
    and "iv \<in> set (ft_invoices T) \<Longrightarrow> invoice_ok iv"
    and "iv \<in> set (ft_invoices T) \<Longrightarrow> invoice_backed T iv"
    and "e \<in> set (ft_exceptions T) \<Longrightarrow> mx_status e \<in> {''open'', ''approved'', ''rejected''}"
    and "p \<in> set (ft_payables T) \<Longrightarrow> \<exists>iv\<in>set (ft_invoices T). si_id iv = pay_supplierInvoiceId p"
    and "p \<in> set (ft_payables T) \<Longrightarrow> payable_ok p"
    and "p \<in> set (ft_payables T) \<Longrightarrow> pay_status p \<in> {''approved'', ''held'', ''export_ready''}"
  using assms unfolding finance_inv_def by blast+

lemma unclashed_distinct:
  "unclashed clash rs \<Longrightarrow> (\<And>a b. key a = key b \<Longrightarrow> clash a b) \<Longrightarrow> distinct (map key rs)"
  by (induction rs) (auto simp: unclashed_Cons)

lemma same_row:
  assumes "unclashed clash rs" "\<And>a b. key a = key b \<Longrightarrow> clash a b" "a \<in> set rs" "b \<in> set rs" "key a = key b"
  shows "a = b"
  using unclashed_at [OF assms(1,3,4)] assms(2,5) by blast

lemma invoice_keys: "unclashed invoice_clash rs \<Longrightarrow> distinct (map si_id rs)"
  by (rule unclashed_distinct [where clash = invoice_clash]) (simp_all add: invoice_clash_def)

lemma sum_without:
  assumes "distinct (map key rs)" "c \<in> set rs"
  shows "sum_list (map (\<lambda>r. if P r \<and> key r \<noteq> key c then g r else 0) rs)
    = sum_list (map (\<lambda>r. if P r then g r else 0) rs) - (if P c then g c else (0 :: int))"
  using assms
proof (induction rs)
  case (Cons r rs)
  show ?case
  proof (cases "c = r")
    case True
    have "sum_list (map (\<lambda>r. if P r \<and> key r \<noteq> key c then g r else 0) rs)
        = sum_list (map (\<lambda>r. if P r then g r else 0) rs)"
      using Cons.prems(1) True by (intro arg_cong [where f = sum_list] map_cong) (auto simp: rev_image_eqI)
    then show ?thesis using True by simp
  next
    case False
    then have "c \<in> set rs" "key r \<noteq> key c" using Cons.prems by auto
    then show ?thesis using Cons by simp
  qed
qed simp

lemma sum_replaced:
  fixes key :: "'r \<Rightarrow> string" and g :: "'r \<Rightarrow> int"
  assumes "distinct (map key rs)" "c \<in> set rs" "key (f c) = key c"
  shows "sum_list (map (\<lambda>r. if P r then g r else 0) (update_where (\<lambda>r. key r = key c) f rs))
    = sum_list (map (\<lambda>r. if P r \<and> key r \<noteq> key c then g r else 0) rs) + (if P (f c) then g (f c) else 0)"
  unfolding sum_without [OF assms(1,2)] sum_update_where [OF assms(1) row_of_in [OF assms(1,2)]] by simp

lemma invoiced_replaced:
  assumes "unclashed invoice_clash (ft_invoices T)" "c \<in> set (ft_invoices T)" "si_id (f c) = si_id c"
  shows "invoiced (ft_invoices_update (update_where (\<lambda>r. si_id r = si_id c) f) T) t k
    = other_invoiced T consumingStatuses t k (si_id c) + (if consuming t consumingStatuses (f c) then billed (f c) k else 0)"
  using sum_replaced [where f = f and key = si_id, OF invoice_keys [OF assms(1)] assms(2,3),
      of "consuming t consumingStatuses" "\<lambda>iv. billed iv k"]
  by (simp add: invoiced_def other_invoiced_def)

lemma invoiced_split:
  assumes "unclashed invoice_clash (ft_invoices T)" "c \<in> set (ft_invoices T)"
  shows "invoiced T t k = other_invoiced T consumingStatuses t k (si_id c)
    + (if consuming t consumingStatuses c then billed c k else 0)"
  using sum_without [OF invoice_keys [OF assms(1)] assms(2), of "consuming t consumingStatuses" "\<lambda>iv. billed iv k"]
  by (simp add: invoiced_def other_invoiced_def)

lemma invoiced_cong: "ft_invoices T' = ft_invoices T \<Longrightarrow> invoiced T' = invoiced T"
  by (simp add: invoiced_def fun_eq_iff)

lemma billed_cong: "si_lines a = si_lines b \<Longrightarrow> billed a = billed b"
  by (simp add: billed_def fun_eq_iff)

text \<open>A change of an invoice that stays committed leaves what is invoiced as it is.\<close>

lemma invoiced_kept:
  assumes "unclashed invoice_clash (ft_invoices T)" "c \<in> set (ft_invoices T)" "si_id (f c) = si_id c"
    and "si_tenantId (f c) = si_tenantId c" "si_status (f c) \<in> set consumingStatuses \<longleftrightarrow> si_status c \<in> set consumingStatuses"
    and "si_status c \<in> set consumingStatuses \<Longrightarrow> si_lines (f c) = si_lines c"
  shows "invoiced (ft_invoices_update (update_where (\<lambda>r. si_id r = si_id c) f) T) t k = invoiced T t k"
  using billed_cong [OF assms(6)]
  by (auto simp: invoiced_replaced [where f = f, OF assms(1-3)] invoiced_split [OF assms(1,2)] consuming_def assms(4,5))

lemma unclashed_update_same:
  assumes "\<And>a b. clash (f a) (f b) \<longleftrightarrow> clash a b" "\<And>a b. clash (f a) b \<longleftrightarrow> clash a b" "\<And>a b. clash a (f b) \<longleftrightarrow> clash a b"
  shows "unclashed clash (update_where P f rs) \<longleftrightarrow> unclashed clash rs"
proof (induction rs)
  case (Cons r rs)
  have c: "clash (if P a then f a else a) (if P b then f b else b) \<longleftrightarrow> clash a b" for a b
    by (simp add: assms)
  define g where "g = (\<lambda>q. if P q then f q else q)"
  have s: "set (update_where P f rs) = g ` set rs" by (simp add: update_where_def g_def)
  have c': "clash (g a) (g b) \<longleftrightarrow> clash a b" for a b using c by (simp add: g_def)
  have "update_where P f (r # rs) = g r # update_where P f rs" by (simp add: g_def)
  then show ?case using Cons by (simp only: unclashed_Cons s) (simp add: c')
qed simp

lemma set_status_fields [simp]:
  "si_id (set_status st iv) = si_id iv" "si_tenantId (set_status st iv) = si_tenantId iv"
  "si_lines (set_status st iv) = si_lines iv" "si_status (set_status st iv) = st"
  "si_totalAmount (set_status st iv) = si_totalAmount iv" "si_version (set_status st iv) = si_version iv + 1"
  by (simp_all add: set_status_def)

lemma invoice_ok_cong:
  "si_lines a = si_lines b \<Longrightarrow> si_totalAmount a = si_totalAmount b \<Longrightarrow> invoice_ok a = invoice_ok b"
  by (simp add: invoice_ok_def)

lemma invoice_clash_cong:
  "si_id a = si_id a' \<Longrightarrow> si_lines a = si_lines a' \<Longrightarrow> invoice_clash a b = invoice_clash a' b"
  "si_id b = si_id b' \<Longrightarrow> si_lines b = si_lines b' \<Longrightarrow> invoice_clash a b = invoice_clash a b'"
  by (simp_all add: invoice_clash_def)

lemma updated_row:
  assumes "unclashed clash rs" "\<And>a b. key a = key b \<Longrightarrow> clash a b" "c \<in> set rs"
    and "r \<in> set (update_where (\<lambda>r. key r = key c) f rs)"
  shows "r = f c \<or> r \<in> set rs \<and> key r \<noteq> key c"
proof -
  obtain q where q: "q \<in> set rs" "r = (if key q = key c then f q else q)"
    using assms(4) by (auto simp: set_update_where)
  show ?thesis
  proof (cases "key q = key c")
    case True
    have "q = c" by (rule same_row [OF assms(1,2) q(1) assms(3) True])
    then show ?thesis using q by simp
  qed (use q in simp)
qed

lemma updated_invoice:
  assumes "unclashed invoice_clash (ft_invoices T)" "c \<in> set (ft_invoices T)"
    and "r \<in> set (update_where (\<lambda>r. si_id r = si_id c) f (ft_invoices T))"
  shows "r = f c \<or> r \<in> set (ft_invoices T) \<and> si_id r \<noteq> si_id c"
  by (rule updated_row [where clash = invoice_clash, OF assms(1) _ assms(2,3)]) (simp add: invoice_clash_def)

lemma updated_ids:
  assumes "\<exists>iv\<in>set rs. si_id iv = k" "\<And>iv. si_id (f iv) = si_id iv \<or> \<not> P iv"
  shows "\<exists>iv\<in>set (update_where P f rs). si_id iv = k"
proof -
  obtain iv where iv: "iv \<in> set rs" "si_id iv = k" using assms(1) by blast
  then have "(if P iv then f iv else iv) \<in> set (update_where P f rs)" by (auto simp: set_update_where)
  moreover have "si_id (if P iv then f iv else iv) = k" using assms(2) [of iv] iv(2) by auto
  ultimately show ?thesis by blast
qed

lemma draft_has_no_payable:
  assumes "invoice_backed T c" "si_status c \<notin> {''approved'', ''held''}" "p \<in> set (ft_payables T)"
  shows "pay_supplierInvoiceId p \<noteq> si_id c"
  using assms by (auto simp: invoice_backed_def status_of_payable_def split: if_splits)

lemma backed_frame:
  assumes "invoice_backed T iv" "ft_matches T' = ft_matches T @ ms" "ft_payables T' = ft_payables T"
    and "\<And>e. e \<in> set (ft_exceptions T') \<Longrightarrow> mx_supplierInvoiceId e = si_id iv \<Longrightarrow> si_status iv \<in> {''approved'', ''held''} \<Longrightarrow>
           e \<in> set (ft_exceptions T)"
  shows "invoice_backed T' iv"
  using assms by (auto simp: invoice_backed_def)

lemma backed_payables:
  assumes "invoice_backed T iv" "ft_matches T' = ft_matches T" "ft_exceptions T' = ft_exceptions T"
    and "\<And>p. p \<in> set (ft_payables T) \<Longrightarrow> \<exists>p'\<in>set (ft_payables T'). pay_supplierInvoiceId p' = pay_supplierInvoiceId p"
    and "\<And>p. p \<in> set (ft_payables T') \<Longrightarrow> \<exists>p'\<in>set (ft_payables T). pay_supplierInvoiceId p' = pay_supplierInvoiceId p
           \<and> status_of_payable p' = status_of_payable p \<and> pay_originalAmount p' = pay_originalAmount p"
  shows "invoice_backed T' iv"
proof -
  have "\<exists>p\<in>set (ft_payables T'). pay_supplierInvoiceId p = si_id iv"
    if "\<exists>p\<in>set (ft_payables T). pay_supplierInvoiceId p = si_id iv" using that assms(4) by metis
  moreover have "si_status iv = status_of_payable p \<and> Some (pay_originalAmount p) = si_totalAmount iv"
    if "p \<in> set (ft_payables T')" "pay_supplierInvoiceId p = si_id iv" for p
    using assms(5) [OF that(1)] that(2) assms(1) unfolding invoice_backed_def by metis
  ultimately show ?thesis using assms(1-3) unfolding invoice_backed_def by simp
qed

lemma status_clash [simp]:
  "invoice_clash (set_status st a) b = invoice_clash a b" "invoice_clash a (set_status st b) = invoice_clash a b"
  by (simp_all add: invoice_clash_def)

lemma unclashed_status [simp]:
  "unclashed invoice_clash (update_where P (set_status st) rs) = unclashed invoice_clash rs"
  by (rule unclashed_update_same) simp_all

lemma created_inv:
  assumes T: "finance_inv T" and iv: "invoice_ok iv" "si_status iv = ''draft''"
    and u: "unclashed invoice_clash (ft_invoices T) \<Longrightarrow> unclashed invoice_clash (ft_invoices T @ [iv])"
  shows "finance_inv (ft_invoices_update (\<lambda>rs. rs @ [iv]) T)" (is "finance_inv ?T")
proof (rule finance_invI)
  note D = finance_invD [OF T]
  have ui: "unclashed invoice_clash (ft_invoices T @ [iv])" using u D(1) by (simp add: indexes_ok_def)
  then show "indexes_ok ?T" using D(1) by (simp add: indexes_ok_def)
  have "invoiced ?T t k = invoiced T t k" for t k
    using iv(2) by (simp add: invoiced_def consuming_def consumingStatuses_def)
  then show "invoiced ?T (rs_tenantId r) (rs_id r) \<le> column_units (rs_acceptedQty r)" if "r \<in> set (ft_receipts ?T)" for r
    using D(2) that by simp
  show "invoice_ok i" if "i \<in> set (ft_invoices ?T)" for i using that iv D(3) by auto
  show "invoice_backed ?T i" if "i \<in> set (ft_invoices ?T)" for i
  proof (cases "i = iv")
    case True
    have "pay_supplierInvoiceId p \<noteq> si_id iv" if "p \<in> set (ft_payables T)" for p
      using D(6) [OF that] ui by (auto simp: unclashed_snoc invoice_clash_def)
    then show ?thesis using True iv(2) by (simp add: invoice_backed_def)
  next
    case False
    then show ?thesis using that D(4) [of i] by (auto intro: backed_frame [where ms = "[]"])
  qed
qed (use finance_invD(5-8) [OF T] in auto)

lemma revised_inv:
  assumes T: "finance_inv T" and c: "c \<in> set (ft_invoices T)" "si_status c = ''draft''"
    and f: "invoice_ok (f c)" "si_id (f c) = si_id c" "si_tenantId (f c) = si_tenantId c" "si_status (f c) = ''draft''"
    and u: "unclashed invoice_clash (ft_invoices T) \<Longrightarrow>
        unclashed invoice_clash (update_where (\<lambda>r. si_id r = si_id c) f (ft_invoices T))"
  shows "finance_inv (ft_invoices_update (update_where (\<lambda>r. si_id r = si_id c) f) T)" (is "finance_inv ?T")
proof (rule finance_invI)
  note D = finance_invD [OF T]
  have ui: "unclashed invoice_clash (ft_invoices T)" using D(1) by (simp add: indexes_ok_def)
  then show "indexes_ok ?T" using D(1) u by (simp add: indexes_ok_def)
  have "invoiced ?T t k = invoiced T t k" for t k
    by (rule invoiced_kept [where f = f, OF ui c(1) f(2,3)]) (simp_all add: c f consumingStatuses_def)
  then show "invoiced ?T (rs_tenantId r) (rs_id r) \<le> column_units (rs_acceptedQty r)" if "r \<in> set (ft_receipts ?T)" for r
    using D(2) that by simp
  have cases: "i = f c \<or> i \<in> set (ft_invoices T)" if "i \<in> set (ft_invoices ?T)" for i
    using updated_invoice [OF ui c(1), of i f] that by auto
  show "invoice_ok i" if "i \<in> set (ft_invoices ?T)" for i using cases [OF that] f(1) D(3) by auto
  show "invoice_backed ?T i" if "i \<in> set (ft_invoices ?T)" for i
  proof (cases "i = f c")
    case True
    then show ?thesis using draft_has_no_payable [OF D(4) [OF c(1)]] c(2) f by (auto simp: invoice_backed_def)
  next
    case False
    then show ?thesis using cases [OF that] D(4) [of i] by (auto intro: backed_frame [where ms = "[]"])
  qed
  show "(\<exists>iv\<in>set (ft_invoices ?T). si_id iv = pay_supplierInvoiceId p) \<and> payable_ok p
      \<and> pay_status p \<in> {''approved'', ''held'', ''export_ready''}" if pin: "p \<in> set (ft_payables ?T)" for p
  proof -
    obtain iv where iv: "iv \<in> set (ft_invoices T)" "si_id iv = pay_supplierInvoiceId p" using D(6) [of p] pin by auto
    then have "si_id iv \<noteq> si_id c" using draft_has_no_payable [OF D(4) [OF c(1)], of p] c(2) pin by auto
    then have "\<exists>iv\<in>set (ft_invoices ?T). si_id iv = pay_supplierInvoiceId p"
      using iv by (auto simp: set_update_where intro!: bexI [of _ iv])
    then show ?thesis using D(7,8) pin by simp
  qed
qed (use finance_invD(5) [OF T] in simp)

lemma submitted_inv:
  assumes T: "finance_inv T" and c: "c \<in> set (ft_invoices T)" "si_status c = ''draft''"
    and q: "\<And>r. r \<in> set (ft_receipts T) \<Longrightarrow> rs_tenantId r = si_tenantId c \<Longrightarrow> billed c (rs_id r) \<noteq> 0 \<Longrightarrow>
        billed c (rs_id r) + other_invoiced T consumingStatuses (rs_tenantId r) (rs_id r) (si_id c) \<le> column_units (rs_acceptedQty r)"
  shows "finance_inv (ft_invoices_update (update_where (\<lambda>r. si_id r = si_id c) (set_status ''submitted'')) T)"
    (is "finance_inv ?T")
proof (rule finance_invI)
  note D = finance_invD [OF T]
  have ui: "unclashed invoice_clash (ft_invoices T)" using D(1) by (simp add: indexes_ok_def)
  show "indexes_ok ?T" using D(1) by (simp add: indexes_ok_def)
  show "invoiced ?T (rs_tenantId r) (rs_id r) \<le> column_units (rs_acceptedQty r)" if "r \<in> set (ft_receipts ?T)" for r
  proof -
    have r: "r \<in> set (ft_receipts T)" using that by simp
    have new: "invoiced ?T (rs_tenantId r) (rs_id r) = other_invoiced T consumingStatuses (rs_tenantId r) (rs_id r) (si_id c)
        + (if rs_tenantId r = si_tenantId c then billed c (rs_id r) else 0)"
      using invoiced_replaced [where f = "set_status ''submitted''", OF ui c(1)] billed_cong [of "set_status ''submitted'' c" c]
      by (simp add: consuming_def consumingStatuses_def)
    have old: "other_invoiced T consumingStatuses (rs_tenantId r) (rs_id r) (si_id c) = invoiced T (rs_tenantId r) (rs_id r)"
      using invoiced_split [OF ui c(1)] c(2) by (simp add: consuming_def consumingStatuses_def)
    show ?thesis
    proof (cases "rs_tenantId r = si_tenantId c \<and> billed c (rs_id r) \<noteq> 0")
      case True
      then show ?thesis using q [OF r] new by simp
    next
      case False
      then show ?thesis using D(2) [OF r] new old by auto
    qed
  qed
  have cases: "i = set_status ''submitted'' c \<or> i \<in> set (ft_invoices T)" if "i \<in> set (ft_invoices ?T)" for i
    using updated_invoice [OF ui c(1), of i "set_status ''submitted''"] that by auto
  show "invoice_ok i" if "i \<in> set (ft_invoices ?T)" for i
    using cases [OF that] D(3) c(1) invoice_ok_cong [of "set_status ''submitted'' c" c] by auto
  show "invoice_backed ?T i" if "i \<in> set (ft_invoices ?T)" for i
  proof (cases "i = set_status ''submitted'' c")
    case True
    then show ?thesis using draft_has_no_payable [OF D(4) [OF c(1)]] c(2) by (auto simp: invoice_backed_def)
  next
    case False
    then show ?thesis using cases [OF that] D(4) [of i] by (auto intro: backed_frame [where ms = "[]"])
  qed
  show "(\<exists>iv\<in>set (ft_invoices ?T). si_id iv = pay_supplierInvoiceId p) \<and> payable_ok p
      \<and> pay_status p \<in> {''approved'', ''held'', ''export_ready''}" if "p \<in> set (ft_payables ?T)" for p
    using D(6-8) [of p] that updated_ids [of "ft_invoices T" "pay_supplierInvoiceId p" "set_status ''submitted''"] by simp
qed (use finance_invD(5) [OF T] in simp)

lemma matched_inv:
  assumes T: "finance_inv T" and c: "c \<in> set (ft_invoices T)" "si_status c = ''submitted''"
    and st: "st \<in> {''matched'', ''exception''}" and m: "tm_invoiceId m = si_id c"
    and es: "\<And>e. e \<in> set es \<Longrightarrow> mx_supplierInvoiceId e = si_id c \<and> mx_status e = ''open''"
    and u: "unclashed (\<lambda>a b. mx_id a = mx_id b) (ft_exceptions T) \<Longrightarrow> unclashed (\<lambda>a b. mx_id a = mx_id b) (ft_exceptions T @ es)"
  shows "finance_inv (ft_invoices_update (update_where (\<lambda>r. si_id r = si_id c)
             (\<lambda>iv. (set_status st iv)\<lparr>si_matchStatus := Some st, si_varianceAmount := Some v\<rparr>))
          (ft_exceptions_update (\<lambda>rs. rs @ es) (ft_matches_update (\<lambda>rs. rs @ [m]) T)))"
    (is "finance_inv (ft_invoices_update (update_where _ ?f) ?M)" is "finance_inv ?T")
proof (rule finance_invI)
  note D = finance_invD [OF T]
  have ui: "unclashed invoice_clash (ft_invoices T)" using D(1) by (simp add: indexes_ok_def)
  have ui': "unclashed invoice_clash (update_where P ?f rs) = unclashed invoice_clash rs" for P rs
    by (rule unclashed_update_same) (simp_all add: invoice_clash_def)
  show "indexes_ok ?T" using D(1) u by (simp add: indexes_ok_def ui')
  have "invoiced ?T t k = invoiced ?M t k" for t k
    by (rule invoiced_kept [where f = ?f]) (use ui c st in \<open>auto simp: consumingStatuses_def\<close>)
  moreover have "invoiced ?M = invoiced T" by (rule invoiced_cong) simp
  ultimately show "invoiced ?T (rs_tenantId r) (rs_id r) \<le> column_units (rs_acceptedQty r)" if "r \<in> set (ft_receipts ?T)" for r
    using D(2) that by simp
  have cases: "i = ?f c \<or> i \<in> set (ft_invoices T) \<and> si_id i \<noteq> si_id c" if "i \<in> set (ft_invoices ?T)" for i
    using updated_invoice [OF ui c(1), of i ?f] that by auto
  show "invoice_ok i" if "i \<in> set (ft_invoices ?T)" for i
    using cases [OF that] D(3) c(1) invoice_ok_cong [of "?f c" c] by auto
  show "invoice_backed ?T i" if i: "i \<in> set (ft_invoices ?T)" for i
  proof (cases "i = ?f c")
    case True
    then show ?thesis using draft_has_no_payable [OF D(4) [OF c(1)]] c(2) st m by (auto simp: invoice_backed_def)
  next
    case False
    then have i': "i \<in> set (ft_invoices T)" "si_id i \<noteq> si_id c" using cases [OF i] by simp_all
    show ?thesis
      by (rule backed_frame [where ms = "[m]", OF D(4) [OF i'(1)]]) (use es i'(2) in auto)
  qed
  show "(\<exists>iv\<in>set (ft_invoices ?T). si_id iv = pay_supplierInvoiceId p) \<and> payable_ok p
      \<and> pay_status p \<in> {''approved'', ''held'', ''export_ready''}" if "p \<in> set (ft_payables ?T)" for p
    using D(6-8) [of p] that updated_ids [of "ft_invoices T" "pay_supplierInvoiceId p" ?f] by simp
  show "mx_status e \<in> {''open'', ''approved'', ''rejected''}" if "e \<in> set (ft_exceptions ?T)" for e
    using that D(5) es by auto
qed

lemma key_update_unclashed:
  assumes "\<And>r. key (f r) = key r"
  shows "unclashed (\<lambda>a b. key a = key b) (update_where P f rs) = unclashed (\<lambda>a b. key a = key b) rs"
  by (rule unclashed_update_same) (simp_all add: assms)

lemma reviewed_inv:
  assumes T: "finance_inv T" and e: "e \<in> set (ft_exceptions T)" "mx_status e = ''open''" and d: "d \<in> {''approved'', ''rejected''}"
  shows "finance_inv (ft_exceptions_update (update_where (\<lambda>r. mx_id r = mx_id e)
          (\<lambda>r. r\<lparr>mx_status := d, mx_resolution := Some x, mx_version := mx_version r + 1\<rparr>)) T)"
    (is "finance_inv (ft_exceptions_update (update_where _ ?f) T)" is "finance_inv ?T")
proof (rule finance_invI)
  note D = finance_invD [OF T]
  have ue: "unclashed (\<lambda>a b. mx_id a = mx_id b) (ft_exceptions T)" using D(1) by (simp add: indexes_ok_def)
  show "indexes_ok ?T" using D(1) by (simp add: indexes_ok_def key_update_unclashed)
  have cases: "r = ?f e \<or> r \<in> set (ft_exceptions T)" if "r \<in> set (ft_exceptions ?T)" for r
    using updated_row [where key = mx_id, OF ue _ e(1), of r ?f] that by auto
  show "mx_status r \<in> {''open'', ''approved'', ''rejected''}" if "r \<in> set (ft_exceptions ?T)" for r
    using cases [OF that] D(5) d by auto
  show "invoice_backed ?T i" if i: "i \<in> set (ft_invoices ?T)" for i
  proof (rule backed_frame [where ms = "[]", OF D(4) [of i]])
    fix r assume r: "r \<in> set (ft_exceptions ?T)" "mx_supplierInvoiceId r = si_id i" "si_status i \<in> {''approved'', ''held''}"
    then have "r \<noteq> ?f e" using D(4) [of i] i e by (auto simp: invoice_backed_def)
    then show "r \<in> set (ft_exceptions T)" using cases [OF r(1)] by simp
  qed (use i in simp_all)
qed (use finance_invD(2,3,6-8) [OF T] in \<open>auto simp: invoiced_def\<close>)

lemma approved_inv:
  assumes T: "finance_inv T" and c: "c \<in> set (ft_invoices T)" "si_status c \<in> {''matched'', ''exception''}"
    and e: "\<And>e. e \<in> set (ft_exceptions T) \<Longrightarrow> mx_supplierInvoiceId e = si_id c \<Longrightarrow> mx_status e \<notin> {''open'', ''rejected''}"
    and p: "pay_supplierInvoiceId p = si_id c" "invoice_amount c = Some (pay_originalAmount p)"
      "pay_outstandingAmount p = pay_originalAmount p" "pay_approvedCreditAmount p = 0" "pay_status p = ''approved''"
    and u: "unclashed payable_clash (ft_payables T) \<Longrightarrow> unclashed payable_clash (ft_payables T @ [p])"
  shows "finance_inv (ft_payables_update (\<lambda>rs. rs @ [p])
          (ft_invoices_update (update_where (\<lambda>r. si_id r = si_id c) (set_status ''approved'')) T))" (is "finance_inv ?T")
proof (rule finance_invI)
  note D = finance_invD [OF T]
  have ui: "unclashed invoice_clash (ft_invoices T)" using D(1) by (simp add: indexes_ok_def)
  show "indexes_ok ?T" using D(1) u by (simp add: indexes_ok_def)
  have "invoiced ?T t k = invoiced (ft_invoices_update (update_where (\<lambda>r. si_id r = si_id c) (set_status ''approved'')) T) t k" for t k
    by (simp add: invoiced_def)
  also have "\<dots> t k = invoiced T t k" for t k
    by (rule invoiced_kept [where f = "set_status ''approved''"]) (use ui c in \<open>auto simp: consumingStatuses_def\<close>)
  finally show "invoiced ?T (rs_tenantId r) (rs_id r) \<le> column_units (rs_acceptedQty r)" if "r \<in> set (ft_receipts ?T)" for r
    using D(2) that by simp
  have cases: "i = set_status ''approved'' c \<or> i \<in> set (ft_invoices T) \<and> si_id i \<noteq> si_id c" if "i \<in> set (ft_invoices ?T)" for i
    using updated_invoice [OF ui c(1), of i "set_status ''approved''"] that by auto
  show "invoice_ok i" if "i \<in> set (ft_invoices ?T)" for i
    using cases [OF that] D(3) c(1) invoice_ok_cong [of "set_status ''approved'' c" c] by auto
  have okc: "invoice_ok c" by (rule D(3) [OF c(1)])
  then have amount: "Some (pay_originalAmount p) = si_totalAmount c"
    using p(2) by (auto simp: invoice_ok_def invoice_amount_def)
  have nopay: "pay_supplierInvoiceId q \<noteq> si_id c" if "q \<in> set (ft_payables T)" for q
    using draft_has_no_payable [OF D(4) [OF c(1)] _ that] c(2) by auto
  show "invoice_backed ?T i" if i: "i \<in> set (ft_invoices ?T)" for i
  proof (cases "i = set_status ''approved'' c")
    case True
    have ex: "\<exists>m\<in>set (ft_matches T). tm_invoiceId m = si_id c" using D(4) [OF c(1)] c(2) by (auto simp: invoice_backed_def)
    have es: "mx_status e = ''approved''" if "e \<in> set (ft_exceptions T)" "mx_supplierInvoiceId e = si_id c" for e
      using e [OF that] D(5) [OF that(1)] by auto
    show ?thesis using True ex es p amount nopay by (auto simp: invoice_backed_def status_of_payable_def)
  next
    case False
    then have i': "i \<in> set (ft_invoices T)" "si_id i \<noteq> si_id c" using cases [OF i] by simp_all
    show ?thesis using D(4) [OF i'(1)] i'(2) p(1) by (auto simp: invoice_backed_def)
  qed
  have amount0: "0 \<le> pay_originalAmount p"
  proof -
    have "0 \<le> column_units (il_amount l)" if "l \<in> set (si_lines c)" for l
      using okc that by (auto simp: invoice_ok_def line_ok_def dest!: bspec [of _ _ l] intro!: add_nonneg_nonneg multiply_nonneg)
    then have "0 \<le> sum_list (map (\<lambda>l. column_units (il_amount l)) (si_lines c))" by (intro sum_list_nonneg) auto
    then show ?thesis using amount okc by (simp add: invoice_ok_def)
  qed
  show "(\<exists>iv\<in>set (ft_invoices ?T). si_id iv = pay_supplierInvoiceId q) \<and> payable_ok q
      \<and> pay_status q \<in> {''approved'', ''held'', ''export_ready''}" if "q \<in> set (ft_payables ?T)" for q
  proof (cases "q \<in> set (ft_payables T)")
    case True
    then show ?thesis
      using D(6-8) [of q] updated_ids [of "ft_invoices T" "pay_supplierInvoiceId q" "set_status ''approved''"] by simp
  next
    case False
    then have "q = p" using that by simp
    then show ?thesis
      using p c(1) amount0 updated_ids [of "ft_invoices T" "si_id c" "set_status ''approved''"] by (auto simp: payable_ok_def)
  qed
qed (use finance_invD(5) [OF T] in simp)

lemma payable_changed_inv:
  assumes T: "finance_inv T" and q: "q \<in> set (ft_payables T)" and mv: "payable_moves action (pay_status q) (pay_status (f q))"
    and f: "\<And>p. pay_id (f p) = pay_id p \<and> pay_supplierInvoiceId (f p) = pay_supplierInvoiceId p
        \<and> pay_originalAmount (f p) = pay_originalAmount p \<and> pay_outstandingAmount (f p) = pay_outstandingAmount p
        \<and> pay_approvedCreditAmount (f p) = pay_approvedCreditAmount p \<and> pay_version (f p) = pay_version p + 1"
    and u: "unclashed payable_clash (ft_payables T) \<Longrightarrow>
        unclashed payable_clash (update_where (\<lambda>r. pay_id r = pay_id q) f (ft_payables T))"
    and c: "c \<in> set (ft_invoices T)" "si_id c = pay_supplierInvoiceId q"
  shows "finance_inv (ft_invoices_update (update_where (\<lambda>r. si_id r = si_id c)
          (set_status (if action = Hold then ''held'' else ''approved'')))
          (ft_payables_update (update_where (\<lambda>r. pay_id r = pay_id q) f) T))"
    (is "finance_inv (ft_invoices_update (update_where _ (set_status ?st)) ?M)" is "finance_inv ?T")
proof (rule finance_invI)
  note D = finance_invD [OF T]
  have ui: "unclashed invoice_clash (ft_invoices T)" and up: "unclashed payable_clash (ft_payables T)"
    using D(1) by (simp_all add: indexes_ok_def)
  show "indexes_ok ?T" using D(1) u by (simp add: indexes_ok_def)
  have cst: "si_status c = status_of_payable q" "Some (pay_originalAmount q) = si_totalAmount c"
    using D(4) [OF c(1)] q c(2) by (auto simp: invoice_backed_def)
  then have cst': "si_status c \<in> {''approved'', ''held''}" by (simp add: status_of_payable_def)
  have st: "?st = status_of_payable (f q)"
    using mv by (cases action) (auto simp: payable_moves_def status_of_payable_def)
  have "invoiced ?T t k = invoiced ?M t k" for t k
    by (rule invoiced_kept [where f = "set_status ?st"]) (use ui c(1) cst' in \<open>auto simp: consumingStatuses_def\<close>)
  moreover have "invoiced ?M = invoiced T" by (rule invoiced_cong) simp
  ultimately show "invoiced ?T (rs_tenantId r) (rs_id r) \<le> column_units (rs_acceptedQty r)" if "r \<in> set (ft_receipts ?T)" for r
    using D(2) that by simp
  have cases: "i = set_status ?st c \<or> i \<in> set (ft_invoices T) \<and> si_id i \<noteq> si_id c" if "i \<in> set (ft_invoices ?T)" for i
    using updated_invoice [OF ui c(1), of i "set_status ?st"] that by auto
  have pcases: "p = f q \<or> p \<in> set (ft_payables T) \<and> pay_supplierInvoiceId p \<noteq> si_id c" if "p \<in> set (ft_payables ?T)" for p
  proof -
    have "p = f q \<or> p \<in> set (ft_payables T) \<and> pay_id p \<noteq> pay_id q"
      using updated_row [where key = pay_id and clash = payable_clash, OF up _ q, of p f] that by (auto simp: payable_clash_def)
    then show ?thesis
      using unclashed_at [OF up _ q, of p] c(2) by (auto simp: payable_clash_def)
  qed
  show "invoice_ok i" if "i \<in> set (ft_invoices ?T)" for i
    using cases [OF that] D(3) c(1) invoice_ok_cong [of "set_status ?st c" c] by auto
  show "invoice_backed ?T i" if i: "i \<in> set (ft_invoices ?T)" for i
  proof (cases "i = set_status ?st c")
    case True
    have fq: "f q \<in> set (ft_payables ?T)" using q by (auto simp: set_update_where)
    have only: "p = f q" if "p \<in> set (ft_payables ?T)" "pay_supplierInvoiceId p = si_id c" for p
      using pcases [OF that(1)] that(2) by simp
    have B: "(\<exists>m\<in>set (ft_matches T). tm_invoiceId m = si_id c)
        \<and> (\<forall>e\<in>set (ft_exceptions T). mx_supplierInvoiceId e = si_id c \<longrightarrow> mx_status e = ''approved'')"
      using D(4) [OF c(1)] cst' by (auto simp: invoice_backed_def)
    have "\<exists>p\<in>set (ft_payables ?T). pay_supplierInvoiceId p = si_id c" using fq f [of q] c(2) by auto
    moreover have "?st = status_of_payable p \<and> Some (pay_originalAmount p) = si_totalAmount c"
      if "p \<in> set (ft_payables ?T)" "pay_supplierInvoiceId p = si_id c" for p
      using only [OF that] st cst(2) f [of q] by simp
    ultimately show ?thesis unfolding invoice_backed_def True using B by simp
  next
    case False
    then have i': "i \<in> set (ft_invoices T)" "si_id i \<noteq> si_id c" using cases [OF i] by simp_all
    have same: "p \<in> set (ft_payables ?T) \<longleftrightarrow> p \<in> set (ft_payables T)" if "pay_supplierInvoiceId p = si_id i" for p
    proof -
      have "pay_id p \<noteq> pay_id q" if "p \<in> set (ft_payables T)"
        using unclashed_at [OF up that q] \<open>pay_supplierInvoiceId p = si_id i\<close> i'(2) c(2) by (auto simp: payable_clash_def)
      moreover have "p \<noteq> f q" using f [of q] that i'(2) c(2) by auto
      moreover have "p \<in> set (ft_payables ?T)" if "p \<in> set (ft_payables T)" "pay_id p \<noteq> pay_id q"
        using that by (auto simp: set_update_where)
      ultimately show ?thesis using pcases [of p] by blast
    qed
    show ?thesis using D(4) [OF i'(1)] same unfolding invoice_backed_def by auto
  qed
  show "(\<exists>iv\<in>set (ft_invoices ?T). si_id iv = pay_supplierInvoiceId p) \<and> payable_ok p
      \<and> pay_status p \<in> {''approved'', ''held'', ''export_ready''}" if p: "p \<in> set (ft_payables ?T)" for p
  proof (cases "p = f q")
    case True
    have "pay_status (f q) \<in> {''approved'', ''held'', ''export_ready''}"
      using mv by (cases action) (auto simp: payable_moves_def)
    moreover have "payable_ok (f q)" using D(7) [OF q] f [of q] by (simp add: payable_ok_def)
    moreover have "\<exists>iv\<in>set (ft_invoices ?T). si_id iv = pay_supplierInvoiceId (f q)"
      using updated_ids [of "ft_invoices T" "pay_supplierInvoiceId (f q)" "set_status ?st"] D(6) [OF q] f [of q] by simp
    ultimately show ?thesis using True by blast
  next
    case False
    then have "p \<in> set (ft_payables T)" using pcases [OF p] by simp
    then show ?thesis
      using D(6-8) [of p] updated_ids [of "ft_invoices T" "pay_supplierInvoiceId p" "set_status ?st"] by simp
  qed
qed (use finance_invD(5) [OF T] in simp)

lemma memo_approved_inv:
  assumes T: "finance_inv T"
  shows "finance_inv (ft_memos_update (update_where P (\<lambda>m. m\<lparr>cm_status := ''approved'', cm_version := cm_version m + 1\<rparr>)) T)"
    (is "finance_inv (ft_memos_update (update_where _ ?f) T)" is "finance_inv ?T")
proof (rule finance_invI)
  have "unclashed memo_clash (update_where P ?f rs) = unclashed memo_clash rs" for rs
    by (rule unclashed_update_same) (simp_all add: memo_clash_def)
  then show "indexes_ok ?T" using finance_invD(1) [OF T] by (simp add: indexes_ok_def)
  show "invoice_backed ?T i" if "i \<in> set (ft_invoices ?T)" for i
    using finance_invD(4) [OF T, of i] that by (simp add: invoice_backed_def)
qed (use finance_invD(2,3,5-8) [OF T] in \<open>auto simp: invoiced_def\<close>)

lemma memo_created_inv:
  assumes T: "finance_inv T" and u: "unclashed memo_clash (ft_memos T) \<Longrightarrow> unclashed memo_clash (ft_memos T @ [memo])"
  shows "finance_inv (ft_memos_update (\<lambda>rs. rs @ [memo]) T)" (is "finance_inv ?T")
proof (rule finance_invI)
  show "indexes_ok ?T" using finance_invD(1) [OF T] u by (simp add: indexes_ok_def)
  show "invoice_backed ?T i" if "i \<in> set (ft_invoices ?T)" for i
    using finance_invD(4) [OF T, of i] that by (simp add: invoice_backed_def)
qed (use finance_invD(2,3,5-8) [OF T] in \<open>auto simp: invoiced_def\<close>)

lemma credited_inv:
  assumes T: "finance_inv T" and q: "q \<in> set (ft_payables T)" and a: "amount \<le> pay_outstandingAmount q"
  shows "finance_inv (ft_payables_update (update_where (\<lambda>r. pay_id r = pay_id q)
             (\<lambda>p. p\<lparr>pay_outstandingAmount := pay_outstandingAmount q - amount,
                    pay_approvedCreditAmount := pay_approvedCreditAmount q + amount,
                    pay_version := pay_version p + 1\<rparr>)) T)"
    (is "finance_inv (ft_payables_update (update_where _ ?f) T)" is "finance_inv ?T")
proof (rule finance_invI)
  note D = finance_invD [OF T]
  have up: "unclashed payable_clash (ft_payables T)" using D(1) by (simp add: indexes_ok_def)
  have u: "unclashed payable_clash (update_where P ?f rs) = unclashed payable_clash rs" for P rs
    by (rule unclashed_update_same) (simp_all add: payable_clash_def)
  then show "indexes_ok ?T" using D(1) by (simp add: indexes_ok_def)
  have cases: "p = ?f q \<or> p \<in> set (ft_payables T)" if "p \<in> set (ft_payables ?T)" for p
    using updated_row [where key = pay_id and clash = payable_clash, OF up _ q, of p ?f] that by (auto simp: payable_clash_def)
  have mem: "(if pay_id p = pay_id q then ?f p else p) \<in> set (ft_payables ?T)" if "p \<in> set (ft_payables T)" for p
    using that by (auto simp: set_update_where)
  show "invoice_backed ?T i" if i: "i \<in> set (ft_invoices ?T)" for i
  proof -
    have b: "invoice_backed T i" using D(4) [of i] i by simp
    show ?thesis
    proof (rule backed_payables [OF b])
      show "\<exists>p'\<in>set (ft_payables ?T). pay_supplierInvoiceId p' = pay_supplierInvoiceId p" if "p \<in> set (ft_payables T)" for p
        using mem [OF that] by (intro bexI [OF _ mem [OF that]]) simp
      show "\<exists>p'\<in>set (ft_payables T). pay_supplierInvoiceId p' = pay_supplierInvoiceId p
          \<and> status_of_payable p' = status_of_payable p \<and> pay_originalAmount p' = pay_originalAmount p"
        if "p \<in> set (ft_payables ?T)" for p
        using cases [OF that]
      proof
        assume "p = ?f q"
        then show ?thesis using q by (intro bexI [of _ q]) (simp_all add: status_of_payable_def)
      qed auto
    qed simp_all
  qed
  show "(\<exists>iv\<in>set (ft_invoices ?T). si_id iv = pay_supplierInvoiceId p) \<and> payable_ok p
      \<and> pay_status p \<in> {''approved'', ''held'', ''export_ready''}" if p: "p \<in> set (ft_payables ?T)" for p
    using cases [OF p] D(6-8) [OF q] D(6-8) [of p] a by (auto simp: payable_ok_def)
qed (use finance_invD(2,3,5) [OF T] in \<open>auto simp: invoiced_def\<close>)

theorem step_inv: "finance_step T T' \<Longrightarrow> finance_inv T \<Longrightarrow> finance_inv T'"
proof (induction rule: finance_step.induct)
  case (created iv T)
  then show ?case by (intro created_inv) auto
next
  case (revised c T f)
  show ?case by (rule revised_inv [OF revised.prems revised.hyps(1-6,8)])
next
  case (submitted c T)
  show ?case by (rule submitted_inv [OF submitted.prems submitted.hyps(1,2)]) (rule submitted.hyps(3))
next
  case (matched c T st m es v)
  show ?case by (rule matched_inv [OF matched.prems matched.hyps(1,2,3,4,7,8)])
next
  case (reviewed e T d x)
  show ?case by (rule reviewed_inv [OF reviewed.prems reviewed.hyps])
next
  case (approved c T p)
  show ?case by (rule approved_inv [OF approved.prems approved.hyps])
next
  case (payable_changed q T action f c)
  show ?case by (rule payable_changed_inv [OF payable_changed.prems payable_changed.hyps])
next
  case (memo_created memo T)
  show ?case by (rule memo_created_inv [OF memo_created.prems memo_created.hyps(2)])
next
  case (memo_approved memo T)
  show ?case by (rule memo_approved_inv [OF memo_approved.prems])
next
  case (memo_credited memo T q)
  show ?case
    by (rule memo_approved_inv [OF credited_inv [OF memo_credited.prems memo_credited.hyps(3,5)]])
qed

end
