(* ===== verification/Finance_Plans.thy ===== *)
theory Finance_Plans
  imports Finance_Ledger
begin

text \<open>
  What an allowed plan of \<open>Finance_Policy\<close> guarantees: the facts with which \<open>Finance_Refinement\<close> shows
  that a command is a step of the machine of \<open>Finance_Ledger\<close>.
\<close>

section \<open>Numbers and identifiers\<close>

lemma read_units_ok:
  assumes "read_units rule v = ([], n)"
  shows "\<exists>u. n = Some u \<and> outboundDecimalUnits (Some v) = Inr u \<and> (rule = Positive \<longrightarrow> 0 < u) \<and> (rule = Non_negative \<longrightarrow> 0 \<le> u)"
  using assms by (auto simp: read_units_def split: sum.splits)

lemma unique_ids_length:
  assumes "length (unique_ids xs) = length xs" shows "distinct xs" "[] \<notin> set (map js_trim xs)"
proof -
  define f where "f = filter (\<lambda>s. s \<noteq> []) (map js_trim xs)"
  have "length (js_unique f) = card (set f)" using distinct_card [of "js_unique f"] by simp
  then have c: "card (set f) = length xs" using assms by (simp add: unique_ids_def f_def)
  have "length f \<le> length xs" using length_filter_le [of "\<lambda>s. s \<noteq> []" "map js_trim xs"] by (simp add: f_def)
  then have eq: "card (set f) = length f" "length f = length (map js_trim xs)"
    using c card_length [of f] by simp_all
  have full: "\<forall>s\<in>set (map js_trim xs). s \<noteq> []"
    using eq(2) length_filter_less [of _ "map js_trim xs" "\<lambda>s. s \<noteq> []"] unfolding f_def by force
  then show "[] \<notin> set (map js_trim xs)" by blast
  have "f = map js_trim xs" using full unfolding f_def by (simp only: filter_True)
  then have "distinct (map js_trim xs)" using card_distinct [OF eq(1)] by simp
  then show "distinct xs" by (simp add: distinct_map)
qed

context prisma_table
begin

text \<open>A search by a list of identifiers that finds as many rows as there are identifiers finds each.\<close>

lemma all_found:
  assumes u: "distinct (map key (rows (tables s)))"
    and len: "length (findMany m s (\<lambda>r. key r \<in> set ids)) = length ids" and k: "k \<in> set ids"
  shows "\<exists>r. last_by key (findMany m s (\<lambda>r. key r \<in> set ids)) k = Some r \<and> r \<in> set (rows (tables s)) \<and> key r = k"
proof -
  let ?F = "findMany m s (\<lambda>r. key r \<in> set ids)"
  have "mset (map key ?F) = mset (map key (filter (\<lambda>r. key r \<in> set ids) (rows (tables s))))"
    using found [of s "\<lambda>r. key r \<in> set ids"] by simp
  then have "distinct (map key ?F)" using u by (metis distinct_map_filter mset_eq_imp_distinct_iff)
  then have "card (set (map key ?F)) = length ids" using len by (metis distinct_card length_map)
  moreover have "set (map key ?F) \<subseteq> set ids" using found_iff by auto
  ultimately have "set (map key ?F) = set ids"
    by (metis List.finite_set card_length card_seteq)
  then have "last_by key ?F k \<noteq> None" using k by (auto simp: last_by_None)
  then obtain r where "last_by key ?F k = Some r" by auto
  then show ?thesis using last_byD [of key ?F k r] found_iff by blast
qed

end

section \<open>Supplier invoices\<close>

text \<open>What a line of an allowed plan looks like, given the rows it was planned from.\<close>

lemma invoice_line_plan_ok:
  assumes "fst (invoice_line_plan t currency supplier tenantFound previous receipts orders (n, l)) = []"
    and "last_by rs_id receipts (ini_receivingLineId l) = Some r" "last_by os_id orders (ini_purchaseOrderLineId l) = Some o1"
  shows "\<exists>q p a x. outboundDecimalUnits (Some (ini_quantity l)) = Inr q \<and> 0 < q \<and> 0 \<le> p \<and> 0 \<le> x \<and> a = multiply q p
    \<and> outboundDecimalUnits (Some (ini_unitPrice l)) = Inr p \<and> outboundDecimalUnits (Some (ini_lineAmount l)) = Inr a
    \<and> q + get0 previous (rs_id r) \<le> column_units (rs_acceptedQty r)
    \<and> \<not> source_invalid t supplier r o1 \<and> os_currency o1 = currency \<and> rs_currency r = currency
    \<and> snd (invoice_line_plan t currency supplier tenantFound previous receipts orders (n, l)) =
        [\<lparr>pln_lineNumber = int n + 1, pln_purchaseOrderLineId = os_id o1, pln_receivingLineId = rs_id r,
          pln_itemId = os_itemId o1, pln_sku = os_sku o1, pln_itemName = os_itemName o1, pln_unit = os_unit o1,
          pln_quantity = q, pln_unitPrice = p, pln_lineAmount = a, pln_enteredTaxAmount = x\<rparr>]"
proof -
  obtain i1 q where q: "read_units Positive (ini_quantity l) = (i1, q)" by fastforce
  obtain i2 p where p: "read_units Non_negative (ini_unitPrice l) = (i2, p)" by fastforce
  obtain i3 a where a: "read_units Non_negative (ini_lineAmount l) = (i3, a)" by fastforce
  obtain i4 x where x: "read_units Non_negative (ini_enteredTaxAmount l) = (i4, x)" by fastforce
  note unfolded = assms(1) [unfolded invoice_line_plan_def, simplified q p a x assms(2,3) Let_def prod.case option.case, simplified]
  have i: "i1 = []" "i2 = []" "i3 = []" "i4 = []" using unfolded by auto
  obtain q' p' a' x' where "q = Some q'" "p = Some p'" "a = Some a'" "x = Some x'"
      "0 < q'" "0 \<le> p'" "0 \<le> x'" "outboundDecimalUnits (Some (ini_quantity l)) = Inr q'"
      "outboundDecimalUnits (Some (ini_unitPrice l)) = Inr p'" "outboundDecimalUnits (Some (ini_lineAmount l)) = Inr a'"
    using read_units_ok [OF q [unfolded i]] read_units_ok [OF p [unfolded i]] read_units_ok [OF a [unfolded i]]
      read_units_ok [OF x [unfolded i]] by auto
  then show ?thesis
    using unfolded by (simp add: invoice_line_plan_def q p a x assms(2,3))
qed

lemma list_all2_singletons:
  "(\<And>x. x \<in> set xs \<Longrightarrow> \<exists>y. f x = [y] \<and> R x y) \<Longrightarrow> list_all2 R xs (concat (map f xs))"
proof (induction xs)
  case (Cons x xs)
  then obtain y where "f x = [y]" "R x y" by (metis list.set_intros(1))
  then show ?case using Cons by simp
qed simp

definition line_planned ::
  "fin_tables \<Rightarrow> string \<Rightarrow> string \<Rightarrow> supplier \<Rightarrow> (string \<times> int) list \<Rightarrow> invoice_line_input \<Rightarrow> plan_line \<Rightarrow> bool" where
  "line_planned T t currency supplier previous l pl \<longleftrightarrow>
     (\<exists>r\<in>set (ft_receipts T). \<exists>o1\<in>set (ft_orders T).
        rs_id r = ini_receivingLineId l \<and> os_id o1 = ini_purchaseOrderLineId l
        \<and> \<not> source_invalid t (Some supplier) r o1 \<and> os_currency o1 = currency \<and> rs_currency r = currency
        \<and> outboundDecimalUnits (Some (ini_quantity l)) = Inr (pln_quantity pl) \<and> 0 < pln_quantity pl
        \<and> pln_quantity pl + get0 previous (rs_id r) \<le> column_units (rs_acceptedQty r)
        \<and> outboundDecimalUnits (Some (ini_unitPrice l)) = Inr (pln_unitPrice pl) \<and> 0 \<le> pln_unitPrice pl
        \<and> pln_lineAmount pl = multiply (pln_quantity pl) (pln_unitPrice pl) \<and> 0 \<le> pln_enteredTaxAmount pl
        \<and> pln_receivingLineId pl = rs_id r \<and> pln_purchaseOrderLineId pl = os_id o1
        \<and> pln_itemId pl = os_itemId o1 \<and> pln_sku pl = os_sku o1)"

context finance_store
begin

lemma invoice_plan_ok:
  assumes plan_def: "plan = buildSupplierInvoicePlan tx s t input current flag"
    and ok: "ivp_blockingIssues plan = []" and ix: "indexes_ok (tables s)"
  shows "\<exists>supplier. ivp_supplier plan = Some supplier \<and> supplier \<in> set (ft_suppliers (tables s))
    \<and> list_all2 (line_planned (tables s) t (ivp_currency plan) supplier
         (previousByReceiving (if flag then [] else
            committed_lines tx s t (map ini_receivingLineId (in_lines input)) current consumingStatuses)))
        (in_lines input) (ivp_lines plan)"
    and "invoice_input_issues input = []"
    and "ivp_totalAmount plan = sum_list (map (\<lambda>l. pln_lineAmount l + pln_enteredTaxAmount l) (ivp_lines plan))"
proof -
  have i: "invoice_input_issues input = []"
    using ok unfolding plan_def buildSupplierInvoicePlan_def Let_def
    by (cases "invoice_input_issues input") (simp_all add: empty_invoice_plan_def)
  then show "invoice_input_issues input = []" .
  define R where "R = findMany (ftx_receipts tx) s (\<lambda>r. rs_id r \<in> set (map ini_receivingLineId (in_lines input)))"
  define Q where "Q = findMany (ftx_orders tx) s (\<lambda>r. os_id r \<in> set (map ini_purchaseOrderLineId (in_lines input)))"
  define currency where "currency = js_upper (js_trim (in_currency input))"
  define supplier where "supplier = findFirst (ftx_suppliers tx) s (\<lambda>p. sup_id p = js_trim (in_supplierId input) \<and> sup_tenantId p = t)"
  define tenant where "tenant = (findFirst (ftx_tenants tx) s (\<lambda>u. ten_id u = t) \<noteq> None)"
  define previous where "previous = previousByReceiving (if flag then [] else
      committed_lines tx s t (map ini_receivingLineId (in_lines input)) current consumingStatuses)"
  define f where "f = invoice_line_plan t currency supplier tenant previous R Q"
  have plan: "ivp_lines plan = concat (map snd (map f (enumerate 0 (in_lines input))))"
      "ivp_currency plan = currency" "ivp_supplier plan = supplier"
      "ivp_totalAmount plan = sum_list (map pln_lineAmount (ivp_lines plan)) + sum_list (map pln_enteredTaxAmount (ivp_lines plan))"
    unfolding plan_def buildSupplierInvoicePlan_def Let_def
    by (simp_all add: i f_def currency_def supplier_def tenant_def previous_def R_def Q_def)
  show "ivp_totalAmount plan = sum_list (map (\<lambda>l. pln_lineAmount l + pln_enteredTaxAmount l) (ivp_lines plan))"
    by (simp add: plan(4) sum_list_addf)
  have issues: "supplier \<noteq> None" "length R = length (map ini_receivingLineId (in_lines input))"
      "length Q = length (map ini_purchaseOrderLineId (in_lines input))" "concat (map fst (map f (enumerate 0 (in_lines input)))) = []"
    using ok unfolding plan_def buildSupplierInvoicePlan_def Let_def
    by (simp_all add: i f_def currency_def supplier_def tenant_def previous_def R_def Q_def del: concat_eq_Nil_conv map_map)
  then obtain sup where sup: "supplier = Some sup" by auto
  then have "sup \<in> set (ft_suppliers (tables s))" using suppliers.first_some unfolding supplier_def by blast
  moreover have "list_all2 (\<lambda>e. line_planned (tables s) t currency sup previous (snd e)) (enumerate 0 (in_lines input))
      (concat (map (\<lambda>e. snd (f e)) (enumerate 0 (in_lines input))))"
  proof (rule list_all2_singletons)
    fix e assume e: "e \<in> set (enumerate 0 (in_lines input))"
    obtain n l where nl: "e = (n, l)" by (cases e)
    have l: "l \<in> set (in_lines input)" using e nl by (metis in_set_enumerate_eq nth_mem snd_conv add.right_neutral minus_nat.diff_0 add_0)
    have "\<exists>r. last_by rs_id R (ini_receivingLineId l) = Some r \<and> r \<in> set (ft_receipts (tables s)) \<and> rs_id r = ini_receivingLineId l"
      unfolding R_def
      by (rule receipts.all_found) (use ix issues(2) l R_def in \<open>auto simp: indexes_ok_def intro: receipts.unclashed_keys\<close>)
    then obtain r where r: "last_by rs_id R (ini_receivingLineId l) = Some r" "r \<in> set (ft_receipts (tables s))"
        "rs_id r = ini_receivingLineId l" by blast
    have "\<exists>r. last_by os_id Q (ini_purchaseOrderLineId l) = Some r \<and> r \<in> set (ft_orders (tables s)) \<and> os_id r = ini_purchaseOrderLineId l"
      unfolding Q_def
      by (rule orders.all_found) (use ix issues(3) l Q_def in \<open>auto simp: indexes_ok_def intro: orders.unclashed_keys\<close>)
    then obtain o1 where o1: "last_by os_id Q (ini_purchaseOrderLineId l) = Some o1" "o1 \<in> set (ft_orders (tables s))"
        "os_id o1 = ini_purchaseOrderLineId l" by blast
    have "fst (f (n, l)) = []" using issues(4) e nl by (simp add: concat_eq_Nil_conv)
    from invoice_line_plan_ok [OF this [unfolded f_def] r(1) o1(1)]
    show "\<exists>y. snd (f e) = [y] \<and> line_planned (tables s) t currency sup previous (snd e) y"
      using r(2,3) o1(2,3) unfolding f_def line_planned_def nl sup by fastforce
  qed
  then have "list_all2 (line_planned (tables s) t currency sup previous) (map snd (enumerate 0 (in_lines input))) (ivp_lines plan)"
    by (simp only: plan(1) list_all2_map1 map_map comp_def)
  then have "list_all2 (line_planned (tables s) t currency sup previous) (in_lines input) (ivp_lines plan)" by simp
  ultimately show "\<exists>supplier. ivp_supplier plan = Some supplier \<and> supplier \<in> set (ft_suppliers (tables s))
    \<and> list_all2 (line_planned (tables s) t (ivp_currency plan) supplier
         (previousByReceiving (if flag then [] else
            committed_lines tx s t (map ini_receivingLineId (in_lines input)) current consumingStatuses)))
        (in_lines input) (ivp_lines plan)"
    using plan(2,3) sup by (simp flip: previous_def)
qed

end

end
