(* ===== verification/Finance_Refinement.thy ===== *)
theory Finance_Refinement
  imports Finance_Plans
begin

text \<open>
  Every command of finance that succeeds is a step of the machine of \<open>Finance_Ledger\<close>, so the
  invariant holds along every run of commands by any users of any tenants.
\<close>

context finance_store
begin

section \<open>What was invoiced before\<close>

lemma previous_is_other_invoiced:
  assumes "k \<in> set ids"
  shows "get0 (previousByReceiving (committed_lines tx s t ids (Some self) statuses)) k
    = other_invoiced (tables s) statuses t k self"
proof -
  let ?P = "\<lambda>iv. si_tenantId iv = t \<and> si_status iv \<in> set statuses \<and> Some self \<noteq> Some (si_id iv)"
  have inner: "filter (\<lambda>l. il_receivingLineId l \<in> Some ` set ids \<and> receiving_key l = k) ls
      = filter (\<lambda>l. il_receivingLineId l = Some k) ls" for ls
    using assms by (auto simp: receiving_key_def intro!: filter_cong)
  have "get0 (previousByReceiving (committed_lines tx s t ids (Some self) statuses)) k
      = sum_list (map (\<lambda>iv. billed iv k) (findMany (ftx_invoices tx) s ?P))"
    by (simp add: previousByReceiving_def get0_add_all committed_lines_def filter_concat sum_list_concat_map
        billed_def comp_def inner)
  also have "\<dots> = sum_list (map (\<lambda>iv. billed iv k) (filter ?P (ft_invoices (tables s))))"
    by (rule sum_mset_rows [OF invoices.found])
  also have "\<dots> = other_invoiced (tables s) statuses t k self"
    unfolding sum_list_map_filter' other_invoiced_def consuming_def
    by (intro arg_cong [where f = sum_list] map_cong) auto
  finally show ?thesis .
qed

section \<open>Creating and revising\<close>

lemma line_ok_planned:
  assumes "line_planned T t currency supplier previous l pl" "js_trim (ini_receivingLineId l) = ini_receivingLineId l"
    and "js_trim (ini_purchaseOrderLineId l) = ini_purchaseOrderLineId l"
  shows "line_ok (supplierInvoiceLineData gen (n, pl)) \<and> il_receivingLineId (supplierInvoiceLineData gen (n, pl)) = Some (ini_receivingLineId l)"
  using assms by (auto simp: line_planned_def line_ok_def supplierInvoiceLineData_def)

lemma input_trimmed:
  assumes "l \<in> set (in_lines (normalizedInvoiceInput body))"
  shows "js_trim (ini_receivingLineId l) = ini_receivingLineId l \<and> js_trim (ini_purchaseOrderLineId l) = ini_purchaseOrderLineId l"
proof -
  have "js_trim (js_text v) = js_text v" for v by (cases v) (simp_all add: js_text_def)
  then show ?thesis using assms by (auto simp: normalizedInvoiceInput_def)
qed

lemma sum_planned_amounts:
  "sum_list (map (\<lambda>l. column_units (il_amount l)) (map (supplierInvoiceLineData gen) (enumerate n pls)))
    = sum_list (map (\<lambda>l. pln_lineAmount l + pln_enteredTaxAmount l) pls)"
  by (induction pls arbitrary: n) (simp_all add: supplierInvoiceLineData_def)

lemma enumerate_all2:
  "list_all2 R xs ys \<Longrightarrow> list_all2 (\<lambda>x y. R x (snd y)) xs (enumerate n ys)"
  by (induction arbitrary: n rule: list_all2_induct) auto

lemma invoice_data_ok:
  assumes plan: "plan = buildSupplierInvoicePlan tx s t (normalizedInvoiceInput body) current True"
    and ok: "ivp_blockingIssues plan = []" and ix: "indexes_ok (tables s)"
  shows "invoice_ok (invoice_data gen n (normalizedInvoiceInput body) plan d1 d2 iv)"
proof -
  let ?input = "normalizedInvoiceInput body" and ?L = "map (supplierInvoiceLineData gen) (enumerate n (ivp_lines plan))"
  note P = invoice_plan_ok [OF plan ok ix]
  obtain supplier where all: "list_all2 (line_planned (tables s) t (ivp_currency plan) supplier
      (previousByReceiving [])) (in_lines ?input) (ivp_lines plan)" using P(1) by auto
  have inp: "in_lines ?input \<noteq> []" "length (unique_ids (map ini_receivingLineId (in_lines ?input))) = length (in_lines ?input)"
    using P(2) by (simp_all add: invoice_input_issues_def Let_def)
  have "list_all2 (\<lambda>l il. l \<in> set (in_lines ?input) \<longrightarrow> line_ok il \<and> il_receivingLineId il = Some (ini_receivingLineId l)) (in_lines ?input) ?L"
    unfolding list_all2_map2
    by (rule list_all2_mono [OF enumerate_all2 [OF all]]) (use line_ok_planned input_trimmed in fastforce)
  then have rel: "list_all2 (\<lambda>l il. line_ok il \<and> il_receivingLineId il = Some (ini_receivingLineId l)) (in_lines ?input) ?L"
    by (auto simp: list_all2_conv_all_nth)
  then have oks: "\<forall>il\<in>set ?L. line_ok il" using list_all2_elem(2) [OF rel] by blast
  have "map il_receivingLineId ?L = map (Some \<circ> ini_receivingLineId) (in_lines ?input)"
    using rel by (auto simp: list_all2_conv_all_nth intro!: nth_equalityI)
  moreover have "distinct (map ini_receivingLineId (in_lines ?input))"
    using unique_ids_length(1) [of "map ini_receivingLineId (in_lines ?input)"] inp(2) by simp
  ultimately have dist: "distinct (map il_receivingLineId ?L)"
    by (simp only: map_map [symmetric] distinct_map) (auto simp: inj_on_def)
  have "ivp_lines plan \<noteq> []" using list_all2_lengthD [OF all] inp(1) by auto
  then have "?L \<noteq> []" by (cases "ivp_lines plan") simp_all
  then show ?thesis
    using oks dist P(3) unfolding invoice_ok_def by (simp add: invoice_data_def sum_planned_amounts del: list.map_comp map_map)
qed

lemma created_step:
  assumes "createSupplierInvoice tx gen date t body s = Inr (s', k)" "indexes_ok (tables s)"
  shows "finance_step (tables s) (tables s')"
proof -
  let ?plan = "buildSupplierInvoicePlan tx s t (normalizedInvoiceInput body) None True"
  obtain d1 d2 where ok: "ivp_blockingIssues ?plan = []"
    and c: "createRow (ftx_invoices tx) s (invoice_data gen 2 (normalizedInvoiceInput body) ?plan d1 d2 (new_invoice (gen 1) t)) = Some s'"
    using assms(1) by (auto simp: createSupplierInvoice_def Let_def)
  show ?thesis
    unfolding conjunct1 [OF invoices.created [OF c]]
    by (rule finance_step.created [OF invoice_data_ok [OF refl ok assms(2)]])
      (use invoices.created [OF c] in \<open>simp_all add: invoice_data_def new_invoice_def\<close>)
qed

lemma revised_step:
  assumes "reviseSupplierInvoice tx gen date t r body s = Inr (s', k)" "indexes_ok (tables s)"
  shows "finance_step (tables s) (tables s')"
proof -
  obtain c d1 d2 where c: "locked_row (ftx_invoices tx) si_id si_tenantId SUPPLIER_INVOICE_NOT_FOUND t (js_text (fq_id r)) s = Inr c"
      "si_status c = ''draft''"
    and ok: "ivp_blockingIssues (buildSupplierInvoicePlan tx s t (normalizedInvoiceInput body) (Some (si_id c)) True) = []"
    and u: "updateRow (ftx_invoices tx) s (si_id c) (\<lambda>iv. (invoice_data gen 1 (normalizedInvoiceInput body)
        (buildSupplierInvoicePlan tx s t (normalizedInvoiceInput body) (Some (si_id c)) True) d1 d2 iv)\<lparr>si_version := si_version iv + 1\<rparr>) = Some s'"
    using assms(1) by (auto simp: reviseSupplierInvoice_def Let_def)
  have ui: "unclashed invoice_clash (ft_invoices (tables s))" using assms(2) by (simp add: indexes_ok_def)
  let ?f = "\<lambda>iv. (invoice_data gen 1 (normalizedInvoiceInput body)
        (buildSupplierInvoicePlan tx s t (normalizedInvoiceInput body) (Some (si_id c)) True) d1 d2 iv)\<lparr>si_version := si_version iv + 1\<rparr>"
  have okf: "invoice_ok (?f c)"
    using invoice_data_ok [OF refl ok assms(2), of gen 1 d1 d2 c] by (simp add: invoice_ok_def)
  note U = invoices.updated [OF u]
  show ?thesis
    unfolding conjunct1 [OF U]
    by (rule finance_step.revised [where f = ?f])
      (use invoices.locked [OF c(1) ui] c(2) okf U in \<open>simp_all add: invoice_data_def\<close>)
qed

section \<open>Submitting\<close>

lemma billed_line:
  assumes "invoice_ok c" "billed c k \<noteq> 0"
  shows "\<exists>l q. l \<in> set (si_lines c) \<and> il_receivingLineId l = Some k \<and> il_quantity l = Some q \<and> billed c k = q \<and> js_trim k = k"
proof -
  have "filter (\<lambda>l. il_receivingLineId l = Some k) (si_lines c) \<noteq> []" using assms(2) by (auto simp: billed_def)
  then obtain l where l: "l \<in> set (si_lines c)" "il_receivingLineId l = Some k"
    by (auto simp: filter_empty_conv)
  have "filter (\<lambda>m. il_receivingLineId m = il_receivingLineId l) ls = [l]"
    if "distinct (map il_receivingLineId ls)" "l \<in> set ls" for ls
    using that by (induction ls) (auto simp: filter_empty_conv rev_image_eqI)
  then have one: "filter (\<lambda>m. il_receivingLineId m = Some k) (si_lines c) = [l]"
    using l assms(1) by (simp add: invoice_ok_def)
  have "line_ok l" using assms(1) l(1) by (simp add: invoice_ok_def)
  then obtain q where "il_quantity l = Some q" "js_trim k = k" using l(2) by (auto simp: line_ok_def)
  then show ?thesis using l one by (auto simp: billed_def)
qed

lemma submitted_fits:
  assumes ok: "ivp_blockingIssues (buildSupplierInvoicePlan tx s t (invoiceInput c) (Some (si_id c)) False) = []"
    and T: "finance_inv (tables s)" and c: "c \<in> set (ft_invoices (tables s))"
    and r: "r \<in> set (ft_receipts (tables s))" "billed c (rs_id r) \<noteq> 0"
  shows "billed c (rs_id r) + other_invoiced (tables s) consumingStatuses t (rs_id r) (si_id c) \<le> column_units (rs_acceptedQty r)"
proof -
  let ?input = "invoiceInput c"
  have ix: "indexes_ok (tables s)" by (rule finance_invD(1) [OF T])
  obtain l q where l: "l \<in> set (si_lines c)" "il_receivingLineId l = Some (rs_id r)" "il_quantity l = Some q"
      "billed c (rs_id r) = q" "js_trim (rs_id r) = rs_id r"
    using billed_line [OF finance_invD(3) [OF T c] r(2)] by blast
  obtain supplier where all: "list_all2 (line_planned (tables s) t
      (ivp_currency (buildSupplierInvoicePlan tx s t ?input (Some (si_id c)) False)) supplier
      (previousByReceiving (committed_lines tx s t (map ini_receivingLineId (in_lines ?input)) (Some (si_id c)) consumingStatuses)))
      (in_lines ?input) (ivp_lines (buildSupplierInvoicePlan tx s t ?input (Some (si_id c)) False))"
    using invoice_plan_ok(1) [OF refl ok ix] by auto
  obtain i where i: "i \<in> set (in_lines ?input)" "ini_receivingLineId i = rs_id r" "ini_quantity i = column_text (Some q)"
    using l by (force simp: invoiceInput_def js_text_def)
  obtain r' where r': "r' \<in> set (ft_receipts (tables s))" "rs_id r' = rs_id r"
    and fit: "q + get0 (previousByReceiving (committed_lines tx s t (map ini_receivingLineId (in_lines ?input))
        (Some (si_id c)) consumingStatuses)) (rs_id r') \<le> column_units (rs_acceptedQty r')"
    using list_all2_elem(1) [OF all i(1)] i(2,3) by (auto simp: line_planned_def)
  have "r' = r"
    by (rule same_row [where key = rs_id and clash = "\<lambda>a b. rs_id a = rs_id b", OF _ _ r'(1) r(1) r'(2)]) (use ix in \<open>auto simp: indexes_ok_def\<close>)
  moreover have "rs_id r \<in> set (map ini_receivingLineId (in_lines ?input))" using i by force
  ultimately show ?thesis using fit l(4) by (simp only: previous_is_other_invoiced)
qed

lemma submitted_step:
  assumes "submitSupplierInvoice tx t r s = Inr (s', k)" "finance_inv (tables s)"
  shows "finance_step (tables s) (tables s')"
proof -
  have ui: "unclashed invoice_clash (ft_invoices (tables s))" using finance_invD(1) [OF assms(2)] by (simp add: indexes_ok_def)
  obtain c where c: "locked_row (ftx_invoices tx) si_id si_tenantId SUPPLIER_INVOICE_NOT_FOUND t (js_text (fq_id r)) s = Inr c"
      "si_status c = ''draft''"
    and ok: "ivp_blockingIssues (buildSupplierInvoicePlan tx s t (invoiceInput c) (Some (si_id c)) False) = []"
    and u: "updateRow (ftx_invoices tx) s (si_id c) (set_status ''submitted'') = Some s'"
    using assms(1) by (auto simp: submitSupplierInvoice_def set_status_def [abs_def])
  note L = invoices.locked [OF c(1) ui]
  show ?thesis
    unfolding conjunct1 [OF invoices.updated [OF u]]
  proof (rule finance_step.submitted)
    show "billed c (rs_id r) + other_invoiced (tables s) consumingStatuses (rs_tenantId r) (rs_id r) (si_id c)
        \<le> column_units (rs_acceptedQty r)"
      if "r \<in> set (ft_receipts (tables s))" "rs_tenantId r = si_tenantId c" "billed c (rs_id r) \<noteq> 0" for r
      using submitted_fits [OF ok assms(2) _ that(1,3)] L that(2) by simp
  qed (use L c(2) in simp_all)
qed

section \<open>Matching and reviewing\<close>

lemma exceptions_created:
  "create_exceptions tx gen t m k ls n es s = Inr s' \<Longrightarrow>
     \<exists>xs. tables s' = ft_exceptions_update (\<lambda>rs. rs @ xs) (tables s) \<and> length xs = length es
       \<and> (\<forall>e\<in>set xs. mx_supplierInvoiceId e = k \<and> mx_status e = ''open'')
       \<and> (unclashed (\<lambda>a b. mx_id a = mx_id b) (ft_exceptions (tables s)) \<longrightarrow>
           unclashed (\<lambda>a b. mx_id a = mx_id b) (ft_exceptions (tables s) @ xs))"
proof (induction es arbitrary: n s)
  case Nil
  then show ?case by (intro exI [of _ "[]"]) simp
next
  case (Cons e es)
  then obtain s1 where s1: "createRow (ftx_exceptions tx) s (new_exception (gen n) t m k ls e) = Some s1"
      "create_exceptions tx gen t m k ls (Suc n) es s1 = Inr s'" by auto
  note C = exceptions.created [OF s1(1)]
  obtain xs where xs: "tables s' = ft_exceptions_update (\<lambda>rs. rs @ xs) (tables s1)" "length xs = length es"
      "\<forall>e\<in>set xs. mx_supplierInvoiceId e = k \<and> mx_status e = ''open''"
      "unclashed (\<lambda>a b. mx_id a = mx_id b) (ft_exceptions (tables s1)) \<longrightarrow>
           unclashed (\<lambda>a b. mx_id a = mx_id b) (ft_exceptions (tables s1) @ xs)"
    using Cons.IH [OF s1(2)] by blast
  then show ?case
    using C by (intro exI [of _ "new_exception (gen n) t m k ls e # xs"]) (simp add: new_exception_def comp_def)
qed

lemma matched_step:
  assumes "matchSupplierInvoice tx gen t r s = Inr (s', k)" "indexes_ok (tables s)"
  shows "finance_step (tables s) (tables s')"
proof -
  have ui: "unclashed invoice_clash (ft_invoices (tables s))" using assms(2) by (simp add: indexes_ok_def)
  obtain c s1 s2 where c: "locked_row (ftx_invoices tx) si_id si_tenantId SUPPLIER_INVOICE_NOT_FOUND t (js_text (fq_id r)) s = Inr c"
      "si_status c = ''submitted''"
    and ok: "mp_blockingIssues (buildSupplierMatchPlan tx s t (si_id c)) = []"
    and m: "createRow (ftx_matches tx) s (new_match gen t (js_text (fq_number r)) c (buildSupplierMatchPlan tx s t (si_id c))) = Some s1"
    and e: "create_exceptions tx gen t (gen 1) (si_id c)
        (tm_lines (new_match gen t (js_text (fq_number r)) c (buildSupplierMatchPlan tx s t (si_id c))))
        (2 + length (mp_lines (buildSupplierMatchPlan tx s t (si_id c)))) (mp_exceptions (buildSupplierMatchPlan tx s t (si_id c))) s1 = Inr s2"
    and u': "updateRow (ftx_invoices tx) s2 (si_id c) (\<lambda>iv. iv
        \<lparr>si_status := mp_resultStatus (buildSupplierMatchPlan tx s t (si_id c)),
         si_matchStatus := Some (mp_resultStatus (buildSupplierMatchPlan tx s t (si_id c))),
         si_varianceAmount := Some (mp_varianceTotal (buildSupplierMatchPlan tx s t (si_id c))),
         si_version := si_version iv + 1\<rparr>) = Some s'"
    using assms(1) by (auto simp: matchSupplierInvoice_def Let_def)
  have "(\<lambda>iv. iv\<lparr>si_status := st, si_matchStatus := ms, si_varianceAmount := v, si_version := si_version iv + 1\<rparr>)
      = (\<lambda>iv. (set_status st iv)\<lparr>si_matchStatus := ms, si_varianceAmount := v\<rparr>)" for st ms v
    by (simp add: set_status_def fun_eq_iff)
  note u = u' [unfolded this]
  let ?plan = "buildSupplierMatchPlan tx s t (si_id c)"
  let ?match = "new_match gen t (js_text (fq_number r)) c ?plan"
  note L = invoices.locked [OF c(1) ui]
  obtain xs where xs: "tables s2 = ft_exceptions_update (\<lambda>rs. rs @ xs) (tables s1)" "length xs = length (mp_exceptions ?plan)"
      "\<forall>e\<in>set xs. mx_supplierInvoiceId e = si_id c \<and> mx_status e = ''open''"
      "unclashed (\<lambda>a b. mx_id a = mx_id b) (ft_exceptions (tables s1)) \<longrightarrow>
           unclashed (\<lambda>a b. mx_id a = mx_id b) (ft_exceptions (tables s1) @ xs)"
    using exceptions_created [OF e] by blast
  have t1: "tables s1 = ft_matches_update (\<lambda>rs. rs @ [?match]) (tables s)" using matches.created [OF m] by simp
  have status: "mp_resultStatus ?plan = (if mp_exceptions ?plan = [] then ''matched'' else ''exception'')"
    using ok by (auto simp: buildSupplierMatchPlan_def Let_def split: option.splits)
  show ?thesis
    unfolding conjunct1 [OF invoices.updated [OF u]] xs(1) t1
  proof (rule finance_step.matched)
    show "tm_invoiceId ?match = si_id c" "tm_status ?match = mp_resultStatus ?plan" by (simp_all add: new_match_def)
    show "xs = [] \<longleftrightarrow> mp_resultStatus ?plan = ''matched''" using xs(2) status by auto
    show "mp_resultStatus ?plan \<in> {''matched'', ''exception''}" using status by simp
  qed (use L c(2) xs(3,4) t1 in auto)
qed

lemma reviewed_step:
  assumes "reviewMatchException tx t r s = Inr (s', k)" "indexes_ok (tables s)"
  shows "finance_step (tables s) (tables s')"
proof -
  have ue: "unclashed (\<lambda>a b. mx_id a = mx_id b) (ft_exceptions (tables s))" using assms(2) by (simp add: indexes_ok_def)
  obtain c where c: "locked_row (ftx_exceptions tx) mx_id mx_tenantId MATCH_EXCEPTION_NOT_FOUND t (js_text (fq_id r)) s = Inr c"
      "mx_status c = ''open''" "js_text (fq_decision r) \<in> {''approved'', ''rejected''}"
    and u: "updateRow (ftx_exceptions tx) s (mx_id c) (\<lambda>e. e\<lparr>mx_status := js_text (fq_decision r),
        mx_resolution := Some (js_text (fq_resolution r)), mx_version := mx_version e + 1\<rparr>) = Some s'"
    using assms(1) by (auto simp: reviewMatchException_def)
  show ?thesis
    unfolding conjunct1 [OF exceptions.updated [OF u]]
    by (rule finance_step.reviewed) (use exceptions.locked [OF c(1) ue] c(2,3) in simp_all)
qed

section \<open>Approval, payables and credits\<close>

lemma approved_step:
  assumes "approveSupplierInvoice tx gen t r s = Inr (s', k)" "indexes_ok (tables s)"
  shows "finance_step (tables s) (tables s')"
proof -
  have ui: "unclashed invoice_clash (ft_invoices (tables s))" using assms(2) by (simp add: indexes_ok_def)
  obtain c s1 amount where c: "locked_row (ftx_invoices tx) si_id si_tenantId SUPPLIER_INVOICE_NOT_FOUND t (js_text (fq_id r)) s = Inr c"
      "si_status c \<in> {''matched'', ''exception''}" "unresolved tx s (si_id c) = []"
    and u: "updateRow (ftx_invoices tx) s (si_id c) (set_status ''approved'') = Some s1"
    and amount: "invoice_amount c = Some amount"
    and p: "createRow (ftx_payables tx) s1 (new_payable (gen 1) t (js_text (fq_number r)) c amount) = Some s'"
    using assms(1) by (auto simp: approveSupplierInvoice_def set_status_def [abs_def] split: option.splits)
  have none: "mx_status e \<notin> {''open'', ''rejected''}"
    if "e \<in> set (ft_exceptions (tables s))" "mx_supplierInvoiceId e = si_id c" for e
    using exceptions.found_iff [of e s "\<lambda>e. mx_supplierInvoiceId e = si_id c \<and> mx_status e \<in> {''open'', ''rejected''}"] c(3) that
    by (simp add: unresolved_def)
  have t1: "tables s1 = ft_invoices_update (update_where (\<lambda>r. si_id r = si_id c) (set_status ''approved'')) (tables s)"
    using invoices.updated [OF u] by simp
  note P = payables.created [OF p]
  show ?thesis
    unfolding conjunct1 [OF P] t1
    by (rule finance_step.approved) (use invoices.locked [OF c(1) ui] c(2) none amount P t1 in \<open>simp_all add: new_payable_def\<close>)
qed

lemma payable_changes:
  assumes "payable_change action reason q = Inr f"
  shows "payable_moves action (pay_status q) (pay_status (f q))"
    and "pay_id (f p) = pay_id p \<and> pay_supplierInvoiceId (f p) = pay_supplierInvoiceId p
        \<and> pay_originalAmount (f p) = pay_originalAmount p \<and> pay_outstandingAmount (f p) = pay_outstandingAmount p
        \<and> pay_approvedCreditAmount (f p) = pay_approvedCreditAmount p \<and> pay_version (f p) = pay_version p"
  using assms by (cases action; auto simp: payable_change_def payable_moves_def)+

lemma payable_changed_step:
  assumes "changePayableStatus tx t action r s = Inr (s', k)" "indexes_ok (tables s)"
  shows "finance_step (tables s) (tables s')"
proof -
  have up: "unclashed payable_clash (ft_payables (tables s))" using assms(2) by (simp add: indexes_ok_def)
  obtain q s1 f where q: "locked_row (ftx_payables tx) pay_id pay_tenantId PAYABLE_OBLIGATION_NOT_FOUND t (js_text (fq_id r)) s = Inr q"
    and f: "payable_change action (fq_reason r) q = Inr f"
    and u: "updateRow (ftx_payables tx) s (pay_id q) (\<lambda>p. (f p)\<lparr>pay_version := pay_version p + 1\<rparr>) = Some s1"
    and v: "updateRow (ftx_invoices tx) s1 (pay_supplierInvoiceId q) (set_status (if action = Hold then ''held'' else ''approved'')) = Some s'"
    using assms(1) by (auto simp: changePayableStatus_def set_status_def [abs_def])
  note U = payables.updated [OF u] and V = invoices.updated [OF v]
  obtain c where c: "c \<in> set (ft_invoices (tables s))" "si_id c = pay_supplierInvoiceId q" using V U by auto
  show ?thesis
    unfolding conjunct1 [OF V] conjunct1 [OF U] c(2) [symmetric]
    by (rule finance_step.payable_changed)
      (use payables.locked [OF q up] U c payable_changes [OF f] in simp_all)
qed

lemma memo_created_step:
  assumes "createSupplierCreditMemo tx gen t body s = Inr (s', k)"
  shows "finance_step (tables s) (tables s')"
proof -
  obtain memo where m: "createRow (ftx_memos tx) s memo = Some s'" "cm_status memo = ''draft''"
    using assms by (auto simp: createSupplierCreditMemo_def Let_def split: option.splits)
  show ?thesis
    unfolding conjunct1 [OF memos.created [OF m(1)]]
    by (rule finance_step.memo_created) (use m(2) memos.created [OF m(1)] in simp_all)
qed

lemma memo_approved_step:
  assumes "approveSupplierCreditMemo tx t r s = Inr (s', k)" "indexes_ok (tables s)"
  shows "finance_step (tables s) (tables s')"
proof -
  have um: "unclashed memo_clash (ft_memos (tables s))" using assms(2) by (simp add: indexes_ok_def)
  obtain c s1 where c: "locked_row (ftx_memos tx) cm_id cm_tenantId SUPPLIER_CREDIT_MEMO_NOT_FOUND t (js_text (fq_id r)) s = Inr c"
      "cm_status c = ''draft''"
    and a: "apply_credit tx t c s = Inr s1"
    and u: "updateRow (ftx_memos tx) s1 (cm_id c) (\<lambda>m. m\<lparr>cm_status := ''approved'', cm_version := cm_version m + 1\<rparr>) = Some s'"
    using assms(1) by (auto simp: approveSupplierCreditMemo_def)
  note L = memos.locked [OF c(1) um] and U = memos.updated [OF u]
  show ?thesis
  proof (cases "findFirst (ftx_payables tx) s (\<lambda>p. pay_supplierInvoiceId p = cm_supplierInvoiceId c)")
    case None
    then have s1: "s1 = s" using a by (simp add: apply_credit_def)
    show ?thesis
      unfolding conjunct1 [OF U] s1
      by (rule finance_step.memo_approved) (use L c(2) payables.first_none [OF None] in auto)
  next
    case (Some q)
    then have le: "cm_totalAmount c \<le> pay_outstandingAmount q"
      and p: "updateRow (ftx_payables tx) s (pay_id q) (\<lambda>p. p\<lparr>pay_outstandingAmount := pay_outstandingAmount q - cm_totalAmount c,
                     pay_approvedCreditAmount := pay_approvedCreditAmount q + cm_totalAmount c,
                     pay_version := pay_version p + 1\<rparr>) = Some s1"
      using a by (auto simp: apply_credit_def)
    show ?thesis
      unfolding conjunct1 [OF U] conjunct1 [OF payables.updated [OF p]]
      by (rule finance_step.memo_credited) (use L c(2) payables.first_some [OF Some] le in simp_all)
  qed
qed

section \<open>Runs\<close>

lemma command_step:
  assumes "run_finance tx gen date t cmd s = Inr (s', k)" "finance_inv (tables s)"
  shows "finance_step (tables s) (tables s')"
  using assms(1) finance_invD(1) [OF assms(2)] assms(2)
  by (cases cmd)
    (auto intro: created_step revised_step submitted_step matched_step reviewed_step approved_step
      payable_changed_step memo_created_step memo_approved_step)

end

inductive finance_run :: "'s finance_tx \<Rightarrow> 's \<Rightarrow> 's \<Rightarrow> bool" for tx where
  start: "finance_run tx s s"
| command: "finance_run tx s s1 \<Longrightarrow> run_finance tx gen date t cmd s1 = Inr (s2, k) \<Longrightarrow> finance_run tx s s2"

context finance_store
begin

lemma run_inv:
  assumes "finance_run tx s s'" "finance_inv (tables s)"
  shows "finance_inv (tables s')"
  using assms by (induction rule: finance_run.induct) (auto dest: command_step step_inv)

lemma run_steps:
  assumes "finance_run tx s s'" "finance_inv (tables s)"
  shows "finance_step\<^sup>*\<^sup>* (tables s) (tables s')"
  using assms
proof (induction rule: finance_run.induct)
  case (command s s1 gen date t cmd s2 k)
  then show ?case using command_step [OF command.hyps(2) run_inv [OF command.hyps(1) command.prems]]
    by (meson rtranclp.rtrancl_into_rtrancl)
qed simp

end

end
