(* ===== verification/Finance_Previews.thy ===== *)
theory Finance_Previews
  imports Finance_Refinement
begin

text \<open>
  The previews of \<open>operational-finance-command-service.mjs\<close>: what the user is shown before a command,
  as the blocking issues of the plan, or the error that the preview itself ends with. A preview looks
  the document up by the identifier as it was sent, a command by the trimmed one.
\<close>

type_synonym preview = "fin_issue + fin_issue list"

definition found_row ::
  "('s, 'r) prisma_model \<Rightarrow> ('r \<Rightarrow> string) \<Rightarrow> ('r \<Rightarrow> string) \<Rightarrow> fin_code \<Rightarrow> string \<Rightarrow> string \<Rightarrow> 's \<Rightarrow> fin_issue + 'r" where
  "found_row m rowId rowTenant missing tenantId k s =
     (case findFirst m s (\<lambda>r. rowId r = k \<and> rowTenant r = tenantId) of
        None \<Rightarrow> Inl (Issue missing 404) | Some r \<Rightarrow> Inr r)"

definition previewSupplierInvoice :: "'s finance_tx \<Rightarrow> string \<Rightarrow> invoice_request \<Rightarrow> 's \<Rightarrow> preview" where
  "previewSupplierInvoice tx tenantId body s =
     Inr (ivp_blockingIssues (buildSupplierInvoicePlan tx s tenantId (normalizedInvoiceInput body) None True))"

definition previewSubmitSupplierInvoice :: "'s finance_tx \<Rightarrow> string \<Rightarrow> string \<Rightarrow> fin_request \<Rightarrow> 's \<Rightarrow> preview" where
  "previewSubmitSupplierInvoice tx tenantId invoiceId request s =
     and_then (found_row (ftx_invoices tx) si_id si_tenantId SUPPLIER_INVOICE_NOT_FOUND tenantId invoiceId s) (\<lambda>invoice.
     and_then (expectedVersion (fq_expectedVersion request)) (\<lambda>version.
       Inr (ivp_blockingIssues (buildSupplierInvoicePlan tx s tenantId (invoiceInput invoice) (Some (si_id invoice)) False)
            @ push_if (si_status invoice \<noteq> ''draft'') SUPPLIER_INVOICE_STATUS_INVALID 409
            @ push_if (si_version invoice \<noteq> version) FINANCE_VERSION_CONFLICT 409)))"

definition previewMatchSupplierInvoice :: "'s finance_tx \<Rightarrow> string \<Rightarrow> string \<Rightarrow> fin_request \<Rightarrow> 's \<Rightarrow> preview" where
  "previewMatchSupplierInvoice tx tenantId invoiceId request s =
     (let plan = buildSupplierMatchPlan tx s tenantId invoiceId
      in and_then (expectedVersion (fq_expectedVersion request)) (\<lambda>version.
           Inr (mp_blockingIssues plan
                @ push_if (case mp_invoice plan of None \<Rightarrow> False | Some iv \<Rightarrow> si_version iv \<noteq> version) FINANCE_VERSION_CONFLICT 409)))"

definition previewReviewMatchException :: "'s finance_tx \<Rightarrow> string \<Rightarrow> string \<Rightarrow> fin_request \<Rightarrow> 's \<Rightarrow> preview" where
  "previewReviewMatchException tx tenantId exceptionId request s =
     and_then (found_row (ftx_exceptions tx) mx_id mx_tenantId MATCH_EXCEPTION_NOT_FOUND tenantId exceptionId s) (\<lambda>e.
     and_then (expectedVersion (fq_expectedVersion request)) (\<lambda>version.
       Inr (push_if (mx_version e \<noteq> version) FINANCE_VERSION_CONFLICT 409
            @ push_if (mx_status e \<noteq> ''open'') MATCH_EXCEPTION_STATUS_INVALID 409
            @ push_if (js_text (fq_decision request) \<notin> {''approved'', ''rejected''}) MATCH_EXCEPTION_DECISION_INVALID 422
            @ push_if (js_text (fq_resolution request) = []) FINANCE_VALIDATION_FAILED 422)))"

definition previewApproveSupplierInvoice :: "'s finance_tx \<Rightarrow> string \<Rightarrow> string \<Rightarrow> fin_request \<Rightarrow> 's \<Rightarrow> preview" where
  "previewApproveSupplierInvoice tx tenantId invoiceId request s =
     and_then (found_row (ftx_invoices tx) si_id si_tenantId SUPPLIER_INVOICE_NOT_FOUND tenantId invoiceId s) (\<lambda>invoice.
     and_then (expectedVersion (fq_expectedVersion request)) (\<lambda>version.
       Inr (push_if (si_version invoice \<noteq> version) FINANCE_VERSION_CONFLICT 409
            @ push_if (si_status invoice \<notin> {''matched'', ''exception''}) SUPPLIER_INVOICE_STATUS_INVALID 409
            @ push_if (unresolved tx s (si_id invoice) \<noteq> []) MATCH_EXCEPTION_REVIEW_REQUIRED 409
            @ push_if (findFirst (ftx_payables tx) s (\<lambda>p. pay_supplierInvoiceId p = si_id invoice) \<noteq> None)
                PAYABLE_OBLIGATION_ALREADY_EXISTS 409)))"

text \<open>
  The preview is called with the action of the route, \<open>mark-export-ready\<close>, the command with
  \<open>mark_export_ready\<close>: both are the constructor \<open>Mark_export_ready\<close>.
\<close>

definition previewPayableAction :: "'s finance_tx \<Rightarrow> string \<Rightarrow> payable_action \<Rightarrow> string \<Rightarrow> fin_request \<Rightarrow> 's \<Rightarrow> preview" where
  "previewPayableAction tx tenantId action payableId request s =
     and_then (found_row (ftx_payables tx) pay_id pay_tenantId PAYABLE_OBLIGATION_NOT_FOUND tenantId payableId s) (\<lambda>p.
     and_then (expectedVersion (fq_expectedVersion request)) (\<lambda>version.
       Inr (push_if (pay_version p \<noteq> version) FINANCE_VERSION_CONFLICT 409
            @ (case action of
                 Hold \<Rightarrow> push_if (pay_status p \<notin> {''approved'', ''export_ready''}) PAYABLE_STATUS_INVALID 409
                       @ push_if (js_text (fq_reason request) = []) FINANCE_VALIDATION_FAILED 422
               | Release \<Rightarrow> push_if (pay_status p \<noteq> ''held'') PAYABLE_STATUS_INVALID 409
               | Mark_export_ready \<Rightarrow> push_if (pay_status p \<noteq> ''approved'') PAYABLE_STATUS_INVALID 409))))"

definition previewSupplierCreditMemo :: "'s finance_tx \<Rightarrow> string \<Rightarrow> memo_request \<Rightarrow> 's \<Rightarrow> preview" where
  "previewSupplierCreditMemo tx tenantId body s =
     Inr (cmp_blockingIssues (buildSupplierCreditMemoPlan tx s tenantId (normalizedCreditMemoInput body)))"

definition previewApproveSupplierCreditMemo :: "'s finance_tx \<Rightarrow> string \<Rightarrow> string \<Rightarrow> fin_request \<Rightarrow> 's \<Rightarrow> preview" where
  "previewApproveSupplierCreditMemo tx tenantId memoId request s =
     and_then (found_row (ftx_memos tx) cm_id cm_tenantId SUPPLIER_CREDIT_MEMO_NOT_FOUND tenantId memoId s) (\<lambda>memo.
     and_then (expectedVersion (fq_expectedVersion request)) (\<lambda>version.
       Inr (push_if (cm_version memo \<noteq> version) FINANCE_VERSION_CONFLICT 409
            @ push_if (cm_status memo \<noteq> ''draft'') SUPPLIER_CREDIT_STATUS_INVALID 409
            @ push_if (case findFirst (ftx_payables tx) s (\<lambda>p. pay_supplierInvoiceId p = cm_supplierInvoiceId memo) of
                         None \<Rightarrow> False | Some p \<Rightarrow> cm_totalAmount memo > pay_outstandingAmount p)
                SUPPLIER_CREDIT_AMOUNT_EXCEEDED 409)))"

text \<open>The preview of a command; revising has none.\<close>

fun preview_of :: "'s finance_tx \<Rightarrow> string \<Rightarrow> string \<Rightarrow> finance_command \<Rightarrow> 's \<Rightarrow> preview option" where
  "preview_of tx t k (Create_supplier_invoice body) s = Some (previewSupplierInvoice tx t body s)"
| "preview_of tx t k (Revise_supplier_invoice r body) s = None"
| "preview_of tx t k (Submit_supplier_invoice r) s = Some (previewSubmitSupplierInvoice tx t k r s)"
| "preview_of tx t k (Match_supplier_invoice r) s = Some (previewMatchSupplierInvoice tx t k r s)"
| "preview_of tx t k (Review_match_exception r) s = Some (previewReviewMatchException tx t k r s)"
| "preview_of tx t k (Approve_supplier_invoice r) s = Some (previewApproveSupplierInvoice tx t k r s)"
| "preview_of tx t k (Change_payable a r) s = Some (previewPayableAction tx t a k r s)"
| "preview_of tx t k (Create_supplier_credit_memo body) s = Some (previewSupplierCreditMemo tx t body s)"
| "preview_of tx t k (Approve_supplier_credit_memo r) s = Some (previewApproveSupplierCreditMemo tx t k r s)"

text \<open>The identifier that a command on one document carries.\<close>

fun command_id :: "finance_command \<Rightarrow> string option" where
  "command_id (Revise_supplier_invoice r body) = fq_id r"
| "command_id (Submit_supplier_invoice r) = fq_id r"
| "command_id (Match_supplier_invoice r) = fq_id r"
| "command_id (Review_match_exception r) = fq_id r"
| "command_id (Approve_supplier_invoice r) = fq_id r"
| "command_id (Change_payable a r) = fq_id r"
| "command_id (Approve_supplier_credit_memo r) = fq_id r"
| "command_id _ = None"

fun_cases preview_ofE: "preview_of tx t k cmd s = Some p"

section \<open>A command that succeeds was previewed without issues\<close>

lemma found_of_locked:
  assumes "locked_row m rowId rowTenant missing t k s = Inr r"
    and "\<And>a b. findFirst m s (\<lambda>r. rowId r = k \<and> rowTenant r = t) = Some a \<Longrightarrow> findFirst m s (\<lambda>r. rowId r = k) = Some b \<Longrightarrow> a = b"
  shows "found_row m rowId rowTenant missing t k s = Inr r"
  using assms by (auto simp: locked_row_def found_row_def split: option.splits)

context prisma_table
begin

lemma locked_found:
  assumes "locked_row m key rowTenant missing t k s = Inr r" "unclashed clash (rows (tables s))"
  shows "found_row m key rowTenant missing t k s = Inr r"
proof (rule found_of_locked [OF assms(1)])
  fix a b
  assume a: "findFirst m s (\<lambda>r. key r = k \<and> rowTenant r = t) = Some a" and b: "findFirst m s (\<lambda>r. key r = k) = Some b"
  show "a = b" using first_some [OF a] first_some [OF b] unclashed_at [OF assms(2)] same_key [of a b] by simp
qed

end

context finance_store
begin

lemma preview_sound:
  assumes run: "run_finance tx gen date t cmd s = Inr (s', entity)" and T: "finance_inv (tables s)"
    and p: "preview_of tx t k cmd s = Some p" and k: "\<And>c. command_id cmd = Some c \<Longrightarrow> js_trim c = k"
  shows "p = Inr []"
proof -
  have ix: "indexes_ok (tables s)" by (rule finance_invD(1) [OF T])
  have ui: "unclashed invoice_clash (ft_invoices (tables s))" "unclashed (\<lambda>a b. mx_id a = mx_id b) (ft_exceptions (tables s))"
    "unclashed payable_clash (ft_payables (tables s))" "unclashed memo_clash (ft_memos (tables s))"
    using ix by (simp_all add: indexes_ok_def)
  have id: "js_text v = k" if "js_text v \<noteq> []" "\<And>c. v = Some c \<Longrightarrow> js_trim c = k" for v
    using that by (cases v) (auto simp: js_text_def)
  show ?thesis
    using p
  proof (cases cmd)
    case (Submit_supplier_invoice r)
    then have "js_text (fq_id r) = k" using run k by (intro id) (auto simp: submitSupplierInvoice_def)
    then show ?thesis using run p Submit_supplier_invoice
      by (auto simp: previewSubmitSupplierInvoice_def submitSupplierInvoice_def dest!: invoices.locked_found [OF _ ui(1)])
  next
    case (Match_supplier_invoice r)
    then have k': "js_text (fq_id r) = k" using run k by (intro id) (auto simp: matchSupplierInvoice_def)
    obtain c n where c: "locked_row (ftx_invoices tx) si_id si_tenantId SUPPLIER_INVOICE_NOT_FOUND t k s = Inr c"
        "fq_expectedVersion r = Some n" "0 \<le> n" "si_version c = n" "mp_blockingIssues (buildSupplierMatchPlan tx s t (si_id c)) = []"
      using run Match_supplier_invoice k' by (auto simp: matchSupplierInvoice_def Let_def)
    have "si_id c = k" using invoices.locked [OF c(1) ui(1)] by simp
    moreover have "mp_invoice (buildSupplierMatchPlan tx s t (si_id c)) = Some c"
    proof -
      have "findFirst (ftx_invoices tx) s (\<lambda>iv. si_id iv = k \<and> si_tenantId iv = t) = Some c"
        using invoices.locked_found [OF c(1) ui(1)] by (auto simp: found_row_def split: option.splits)
      then show ?thesis using \<open>si_id c = k\<close> by (simp add: buildSupplierMatchPlan_def Let_def)
    qed
    ultimately show ?thesis using p Match_supplier_invoice c
      by (auto simp: previewMatchSupplierInvoice_def Let_def expectedVersion_def)
  next
    case (Review_match_exception r)
    then have "js_text (fq_id r) = k" using run k by (intro id) (auto simp: reviewMatchException_def)
    then show ?thesis using run p Review_match_exception
      by (auto simp: previewReviewMatchException_def reviewMatchException_def dest!: exceptions.locked_found [OF _ ui(2)])
  next
    case (Approve_supplier_invoice r)
    then have k': "js_text (fq_id r) = k" using run k by (intro id) (auto simp: approveSupplierInvoice_def)
    obtain c n where c: "locked_row (ftx_invoices tx) si_id si_tenantId SUPPLIER_INVOICE_NOT_FOUND t k s = Inr c"
        "fq_expectedVersion r = Some n" "0 \<le> n" "si_version c = n" "si_status c \<in> {''matched'', ''exception''}"
        "unresolved tx s (si_id c) = []"
      using run Approve_supplier_invoice k' by (auto simp: approveSupplierInvoice_def)
    have "findFirst (ftx_payables tx) s (\<lambda>p. pay_supplierInvoiceId p = si_id c) = None"
    proof (rule ccontr)
      assume "findFirst (ftx_payables tx) s (\<lambda>p. pay_supplierInvoiceId p = si_id c) \<noteq> None"
      then obtain q where q: "q \<in> set (ft_payables (tables s))" "pay_supplierInvoiceId q = si_id c"
        using payables.first_some by blast
      have "c \<in> set (ft_invoices (tables s))" using invoices.locked [OF c(1) ui(1)] by simp
      then show False using draft_has_no_payable [OF finance_invD(4) [OF T] _ q(1), of c] c(5) q(2) by auto
    qed
    then show ?thesis using p Approve_supplier_invoice c invoices.locked_found [OF c(1) ui(1)]
      by (auto simp: previewApproveSupplierInvoice_def)
  next
    case (Change_payable a r)
    then have "js_text (fq_id r) = k" using run k by (intro id) (auto simp: changePayableStatus_def)
    then show ?thesis using run p Change_payable
      by (cases a) (auto simp: previewPayableAction_def changePayableStatus_def payable_change_def
          dest!: payables.locked_found [OF _ ui(3)])
  next
    case (Approve_supplier_credit_memo r)
    then have "js_text (fq_id r) = k" using run k by (intro id) (auto simp: approveSupplierCreditMemo_def)
    then show ?thesis using run p Approve_supplier_credit_memo
      by (auto simp: previewApproveSupplierCreditMemo_def approveSupplierCreditMemo_def apply_credit_def
          dest!: memos.locked_found [OF _ ui(4)] split: option.splits)
  qed (use run in \<open>auto simp: previewSupplierInvoice_def createSupplierInvoice_def previewSupplierCreditMemo_def
      createSupplierCreditMemo_def Let_def\<close>)
qed

end

end
