(* ===== verification/Finance_Lifecycle.thy ===== *)
theory Finance_Lifecycle
  imports Finance_Previews
begin

text \<open>
  The life of a supplier invoice along the steps of the machine, and what the invariant makes of the
  three-way match.
\<close>

section \<open>The states of an invoice\<close>

definition invoice_edges :: "(string \<times> string) list" where
  "invoice_edges =
     [(''draft'', ''draft''), (''draft'', ''submitted''), (''submitted'', ''matched''), (''submitted'', ''exception''),
      (''matched'', ''approved''), (''exception'', ''approved''), (''approved'', ''held''), (''held'', ''approved''),
      (''approved'', ''approved'')]"

definition invoice_edge :: "string \<Rightarrow> string \<Rightarrow> bool" where
  "invoice_edge a b \<longleftrightarrow> (a, b) \<in> set invoice_edges"

text \<open>
  \<open>frozen a b\<close>: \<open>b\<close> is \<open>a\<close> but for its status, its version and what the match writes; \<open>settled a b\<close>: not
  even that.
\<close>

definition frozen :: "supplier_invoice \<Rightarrow> supplier_invoice \<Rightarrow> bool" where
  "frozen a b \<longleftrightarrow> b = a\<lparr>si_status := si_status b, si_version := si_version b,
     si_matchStatus := si_matchStatus b, si_varianceAmount := si_varianceAmount b\<rparr>"

definition settled :: "supplier_invoice \<Rightarrow> supplier_invoice \<Rightarrow> bool" where
  "settled a b \<longleftrightarrow> b = a\<lparr>si_status := si_status b, si_version := si_version b\<rparr>"

lemma frozen_refl [simp]: "frozen a a" and settled_refl [simp]: "settled a a"
  by (simp_all add: frozen_def settled_def)

lemma frozen_trans: "frozen a b \<Longrightarrow> frozen b c \<Longrightarrow> frozen a c"
  unfolding frozen_def by (cases a; cases b; cases c) simp

lemma settled_trans: "settled a b \<Longrightarrow> settled b c \<Longrightarrow> settled a c"
  unfolding settled_def by (cases a; cases b; cases c) simp

lemma frozen_set_status [simp]:
  "frozen iv (set_status st iv)" "settled iv (set_status st iv)"
  "frozen iv ((set_status st iv)\<lparr>si_matchStatus := m, si_varianceAmount := v\<rparr>)"
  by (simp_all add: frozen_def settled_def set_status_def)

text \<open>
  What one step makes of an invoice: nothing, or one edge with the next version; only a draft changes
  its lines and amounts, and only the match of a submitted invoice writes the match status and the
  variance.
\<close>

definition invoice_next :: "supplier_invoice \<Rightarrow> supplier_invoice \<Rightarrow> bool" where
  "invoice_next a b \<longleftrightarrow> si_id b = si_id a \<and> si_tenantId b = si_tenantId a
     \<and> (si_status a \<noteq> ''draft'' \<longrightarrow> frozen a b) \<and> (si_status a \<notin> {''draft'', ''submitted''} \<longrightarrow> settled a b)
     \<and> (b = a \<or> invoice_edge (si_status a) (si_status b) \<and> si_version b = si_version a + 1)"

lemma invoice_next_refl [simp]: "invoice_next a a"
  by (simp add: invoice_next_def)

lemma step_invoice:
  assumes "finance_step T T'" "finance_inv T" "a \<in> set (ft_invoices T)"
  shows "\<exists>b\<in>set (ft_invoices T'). invoice_next a b"
proof -
  have ui: "unclashed invoice_clash (ft_invoices T)" using finance_invD(1) [OF assms(2)] by (simp add: indexes_ok_def)
  have same: "a = c" if "c \<in> set (ft_invoices T)" "si_id a = si_id c" for c
    using unclashed_at [OF ui assms(3) that(1)] that(2) by (simp add: invoice_clash_def)
  have upd: "\<exists>b\<in>set (update_where (\<lambda>r. si_id r = si_id c) f (ft_invoices T)). invoice_next a b"
    if "c \<in> set (ft_invoices T)" "invoice_next c (f c)" for c f
  proof -
    have "(if si_id a = si_id c then f a else a) \<in> set (update_where (\<lambda>r. si_id r = si_id c) f (ft_invoices T))"
      using assms(3) by (auto simp: set_update_where)
    moreover have "invoice_next a (if si_id a = si_id c then f a else a)" using that same [OF that(1)] by auto
    ultimately show ?thesis by blast
  qed
  from assms(1) show ?thesis
  proof cases
    case (payable_changed q action f c)
    have "pay_status q \<noteq> ''held'' \<or> action = Release" using payable_changed(3) by (cases action) (auto simp: payable_moves_def)
    moreover have "si_status c = status_of_payable q"
      using finance_invD(4) [OF assms(2) payable_changed(6)] payable_changed(2,7) by (auto simp: invoice_backed_def)
    ultimately have "invoice_next c (set_status (if action = Hold then ''held'' else ''approved'') c)"
      using payable_changed(3)
      by (cases action) (auto simp: invoice_next_def invoice_edge_def invoice_edges_def status_of_payable_def payable_moves_def)
    then show ?thesis using upd [OF payable_changed(6)] payable_changed(1) by simp
  next
    case (created iv)
    then show ?thesis using assms(3) by (intro bexI [of _ a]) auto
  next
    case (revised c f)
    have "invoice_next c (f c)" using revised by (simp add: invoice_next_def invoice_edge_def invoice_edges_def)
    then show ?thesis using upd [OF revised(2)] revised(1) by simp
  next
    case (submitted c)
    have "invoice_next c (set_status ''submitted'' c)" using submitted by (simp add: invoice_next_def invoice_edge_def invoice_edges_def)
    then show ?thesis using upd [OF submitted(2)] submitted(1) by simp
  next
    case (matched c st m es v)
    have "invoice_next c ((set_status st c)\<lparr>si_matchStatus := Some st, si_varianceAmount := Some v\<rparr>)"
      using matched by (auto simp: invoice_next_def invoice_edge_def invoice_edges_def)
    then show ?thesis
      using upd [OF matched(2), of "\<lambda>iv. (set_status st iv)\<lparr>si_matchStatus := Some st, si_varianceAmount := Some v\<rparr>"]
        matched(1) by simp
  next
    case (approved c p)
    have "invoice_next c (set_status ''approved'' c)" using approved by (auto simp: invoice_next_def invoice_edge_def invoice_edges_def)
    then show ?thesis using upd [OF approved(2)] approved(1) by simp
  qed (use assms(3) in \<open>auto intro!: bexI [of _ a]\<close>)
qed

definition invoice_later :: "supplier_invoice \<Rightarrow> supplier_invoice \<Rightarrow> bool" where
  "invoice_later a b \<longleftrightarrow> si_id b = si_id a \<and> si_tenantId b = si_tenantId a \<and> invoice_edge\<^sup>*\<^sup>* (si_status a) (si_status b)
     \<and> si_version a \<le> si_version b
     \<and> (si_status a \<noteq> ''draft'' \<longrightarrow> frozen a b \<and> si_status b \<noteq> ''draft'')
     \<and> (si_status a \<notin> {''draft'', ''submitted''} \<longrightarrow> settled a b \<and> si_status b \<notin> {''draft'', ''submitted''})"

lemma later_next:
  assumes "invoice_later a b" "invoice_next b c" shows "invoice_later a c"
proof (cases "c = b")
  case False
  then have e: "invoice_edge (si_status b) (si_status c)" "si_version c = si_version b + 1"
    using assms(2) by (auto simp: invoice_next_def)
  have "si_status c = ''draft'' \<Longrightarrow> si_status b = ''draft''" "si_status c = ''submitted'' \<Longrightarrow> si_status b = ''draft''"
    using e(1) by (auto simp: invoice_edge_def invoice_edges_def)
  then show ?thesis using assms e frozen_trans [of a b c] settled_trans [of a b c]
    unfolding invoice_later_def invoice_next_def by (auto intro: rtranclp.rtrancl_into_rtrancl)
qed (use assms(1) in simp)

lemma steps_invoice:
  assumes "finance_step\<^sup>*\<^sup>* T T'" "finance_inv T" "a \<in> set (ft_invoices T)"
  shows "finance_inv T' \<and> (\<exists>b\<in>set (ft_invoices T'). invoice_later a b)"
  using assms(1)
proof (induction rule: rtranclp_induct)
  case base
  have "invoice_later a a" by (simp add: invoice_later_def)
  then show ?case using assms(2,3) by blast
next
  case (step T1 T2)
  then obtain b where b: "b \<in> set (ft_invoices T1)" "invoice_later a b" and inv: "finance_inv T1" by blast
  then obtain c where "c \<in> set (ft_invoices T2)" "invoice_next b c" using step_invoice [OF step.hyps(2)] by blast
  then show ?case using later_next [OF b(2)] step_inv [OF step.hyps(2) inv] by blast
qed

section \<open>The match\<close>

text \<open>What the plan says of one matched line.\<close>

definition within_tolerance :: "tolerances \<Rightarrow> match_line \<Rightarrow> bool" where
  "within_tolerance tol l \<longleftrightarrow> ml_quantityVariance l \<le> tol_quantity tol \<and> \<bar>ml_priceVariance l\<bar> \<le> priceThreshold tol (ml_poUnitPrice l)
     \<and> \<bar>ml_amountVariance l\<bar> \<le> tol_amount tol"

lemma exception_if_Nil [simp]: "exception_if cond a b c d e = [] \<longleftrightarrow> \<not> cond"
  by (simp add: exception_if_def)

lemma match_line_plan_ok:
  assumes "fst (match_line_plan t currency tol previous receipts orders l) = []"
  shows "\<exists>ml. fst (snd (match_line_plan t currency tol previous receipts orders l)) = [ml]
    \<and> (snd (snd (match_line_plan t currency tol previous receipts orders l)) = [] \<longleftrightarrow> within_tolerance tol ml)
    \<and> (ml_status ml = ''matched'' \<longleftrightarrow> within_tolerance tol ml)
    \<and> ml_supplierInvoiceLineId ml = il_id l \<and> ml_invoiceQuantity ml = column_units (il_quantity l)
    \<and> ml_invoiceUnitPrice ml = column_units (il_unitPrice l)
    \<and> ml_quantityVariance ml = ml_invoiceQuantity ml - (ml_receivedQuantity ml - ml_previouslyInvoicedQuantity ml)
    \<and> ml_priceVariance ml = ml_invoiceUnitPrice ml - ml_poUnitPrice ml
    \<and> ml_amountVariance ml = ml_invoiceLineAmount ml - ml_poLineAmount ml
    \<and> ml_poLineAmount ml = multiply (ml_invoiceQuantity ml) (ml_poUnitPrice ml)
    \<and> ml_invoiceLineAmount ml = (case il_lineAmount l of Some a \<Rightarrow> a | None \<Rightarrow> column_units (il_amount l))
    \<and> (\<exists>o1. Option.bind (il_purchaseOrderLineId l) (last_by os_id orders) = Some o1 \<and> ml_poUnitPrice ml = column_units (os_unitPrice o1))
    \<and> (\<exists>r. Option.bind (il_receivingLineId l) (last_by rs_id receipts) = Some r \<and> ml_receivedQuantity ml = column_units (rs_acceptedQty r)
        \<and> ml_previouslyInvoicedQuantity ml = get0 previous (rs_id r) \<and> rs_tenantId r = t)"
proof (cases "Option.bind (il_receivingLineId l) (last_by rs_id receipts)")
  case None
  then show ?thesis using assms by (simp add: match_line_plan_def)
next
  case (Some r)
  show ?thesis
  proof (cases "Option.bind (il_purchaseOrderLineId l) (last_by os_id orders)")
    case None
    then show ?thesis using assms Some by (simp add: match_line_plan_def)
  next
    case (Some o1)
    then show ?thesis
      using assms \<open>Option.bind (il_receivingLineId l) (last_by rs_id receipts) = Some r\<close>
      by (auto simp: match_line_plan_def Let_def within_tolerance_def match_source_invalid_def split: if_splits)
  qed
qed

lemma match_plan_ok:
  assumes ok: "mp_blockingIssues (buildSupplierMatchPlan tx s t k) = []"
  obtains iv receipts orders previous where
    "findFirst (ftx_invoices tx) s (\<lambda>iv. si_id iv = k \<and> si_tenantId iv = t) = Some iv"
    "receipts = findMany (ftx_receipts tx) s (\<lambda>r. rs_id r \<in> set (some_ids (map il_receivingLineId (si_lines iv))))"
    "orders = findMany (ftx_orders tx) s (\<lambda>o1. os_id o1 \<in> set (some_ids (map il_purchaseOrderLineId (si_lines iv))))"
    "previous = previousByReceiving
        (committed_lines tx s t (some_ids (map il_receivingLineId (si_lines iv))) (Some (si_id iv)) matchedStatuses)"
    "list_all2 (\<lambda>l ml. fst (snd (match_line_plan t (si_currency iv) (review_tolerances (findFirst (ftx_tenants tx) s (\<lambda>u. ten_id u = t)))
          previous receipts orders l)) = [ml]
         \<and> fst (match_line_plan t (si_currency iv) (review_tolerances (findFirst (ftx_tenants tx) s (\<lambda>u. ten_id u = t)))
          previous receipts orders l) = [])
        (si_lines iv) (mp_lines (buildSupplierMatchPlan tx s t k))"
    "mp_exceptions (buildSupplierMatchPlan tx s t k)
        = concat (map (\<lambda>l. snd (snd (match_line_plan t (si_currency iv)
            (review_tolerances (findFirst (ftx_tenants tx) s (\<lambda>u. ten_id u = t))) previous receipts orders l))) (si_lines iv))"
    "mp_resultStatus (buildSupplierMatchPlan tx s t k)
        = (if mp_exceptions (buildSupplierMatchPlan tx s t k) = [] then ''matched'' else ''exception'')"
proof -
  obtain iv where iv: "findFirst (ftx_invoices tx) s (\<lambda>iv. si_id iv = k \<and> si_tenantId iv = t) = Some iv"
    using ok by (auto simp: buildSupplierMatchPlan_def split: option.splits)
  define tol where "tol = review_tolerances (findFirst (ftx_tenants tx) s (\<lambda>u. ten_id u = t))"
  define ids where "ids = some_ids (map il_receivingLineId (si_lines iv))"
  define R where "R = findMany (ftx_receipts tx) s (\<lambda>r. rs_id r \<in> set ids)"
  define Q where "Q = findMany (ftx_orders tx) s (\<lambda>o1. os_id o1 \<in> set (some_ids (map il_purchaseOrderLineId (si_lines iv))))"
  define previous where "previous = previousByReceiving (committed_lines tx s t ids (Some (si_id iv)) matchedStatuses)"
  define f where "f = match_line_plan t (si_currency iv) tol previous R Q"
  have plan: "mp_lines (buildSupplierMatchPlan tx s t k) = concat (map (\<lambda>l. fst (snd (f l))) (si_lines iv))"
      "mp_exceptions (buildSupplierMatchPlan tx s t k) = concat (map (\<lambda>l. snd (snd (f l))) (si_lines iv))"
      "mp_resultStatus (buildSupplierMatchPlan tx s t k)
        = (if mp_exceptions (buildSupplierMatchPlan tx s t k) = [] then ''matched'' else ''exception'')"
      "concat (map (\<lambda>l. fst (f l)) (si_lines iv)) = []"
    using ok unfolding buildSupplierMatchPlan_def iv option.case Let_def
    by (simp_all add: f_def tol_def R_def Q_def ids_def previous_def comp_def del: concat_eq_Nil_conv)
  have none: "fst (f l) = []" if "l \<in> set (si_lines iv)" for l
    using plan(4) that by (auto simp: concat_eq_Nil_conv)
  have A: "list_all2 (\<lambda>l ml. fst (snd (f l)) = [ml] \<and> fst (f l) = []) (si_lines iv) (concat (map (\<lambda>l. fst (snd (f l))) (si_lines iv)))"
  proof (rule list_all2_singletons)
    fix l assume "l \<in> set (si_lines iv)"
    then show "\<exists>ml. fst (snd (f l)) = [ml] \<and> fst (snd (f l)) = [ml] \<and> fst (f l) = []"
      using none match_line_plan_ok [of t "si_currency iv" tol previous R Q l] unfolding f_def by blast
  qed
  show ?thesis
    by (rule that [OF iv R_def [unfolded ids_def] Q_def previous_def [unfolded ids_def] _ _ plan(3), unfolded tol_def [symmetric]])
      (use A in \<open>simp_all add: plan(1,2) f_def\<close>)
qed

lemma match_result:
  assumes "mp_blockingIssues (buildSupplierMatchPlan tx s t k) = []"
    and tol: "tol = review_tolerances (findFirst (ftx_tenants tx) s (\<lambda>u. ten_id u = t))"
  shows "mp_resultStatus (buildSupplierMatchPlan tx s t k) = ''matched''
      \<longleftrightarrow> (\<forall>ml\<in>set (mp_lines (buildSupplierMatchPlan tx s t k)). within_tolerance tol ml)"
    and "ml \<in> set (mp_lines (buildSupplierMatchPlan tx s t k)) \<Longrightarrow>
        ml_quantityVariance ml = ml_invoiceQuantity ml - (ml_receivedQuantity ml - ml_previouslyInvoicedQuantity ml)
      \<and> ml_priceVariance ml = ml_invoiceUnitPrice ml - ml_poUnitPrice ml
      \<and> ml_amountVariance ml = ml_invoiceLineAmount ml - multiply (ml_invoiceQuantity ml) (ml_poUnitPrice ml)"
proof -
  obtain iv receipts orders previous where "findFirst (ftx_invoices tx) s (\<lambda>iv. si_id iv = k \<and> si_tenantId iv = t) = Some iv"
      "receipts = findMany (ftx_receipts tx) s (\<lambda>r. rs_id r \<in> set (some_ids (map il_receivingLineId (si_lines iv))))"
      "orders = findMany (ftx_orders tx) s (\<lambda>o1. os_id o1 \<in> set (some_ids (map il_purchaseOrderLineId (si_lines iv))))"
      "previous = previousByReceiving
        (committed_lines tx s t (some_ids (map il_receivingLineId (si_lines iv))) (Some (si_id iv)) matchedStatuses)"
    and all: "list_all2 (\<lambda>l ml. fst (snd (match_line_plan t (si_currency iv) tol previous receipts orders l)) = [ml]
         \<and> fst (match_line_plan t (si_currency iv) tol previous receipts orders l) = [])
        (si_lines iv) (mp_lines (buildSupplierMatchPlan tx s t k))"
    and e: "mp_exceptions (buildSupplierMatchPlan tx s t k)
        = concat (map (\<lambda>l. snd (snd (match_line_plan t (si_currency iv) tol previous receipts orders l))) (si_lines iv))"
    and st: "mp_resultStatus (buildSupplierMatchPlan tx s t k)
        = (if mp_exceptions (buildSupplierMatchPlan tx s t k) = [] then ''matched'' else ''exception'')"
    by (rule match_plan_ok [OF assms(1), folded tol])
  have line: "(snd (snd (match_line_plan t (si_currency iv) tol previous receipts orders l)) = [] \<longleftrightarrow> within_tolerance tol ml)
      \<and> ml_quantityVariance ml = ml_invoiceQuantity ml - (ml_receivedQuantity ml - ml_previouslyInvoicedQuantity ml)
      \<and> ml_priceVariance ml = ml_invoiceUnitPrice ml - ml_poUnitPrice ml
      \<and> ml_amountVariance ml = ml_invoiceLineAmount ml - multiply (ml_invoiceQuantity ml) (ml_poUnitPrice ml)"
    if "fst (snd (match_line_plan t (si_currency iv) tol previous receipts orders l)) = [ml]
         \<and> fst (match_line_plan t (si_currency iv) tol previous receipts orders l) = []" for l ml
    using match_line_plan_ok [of t "si_currency iv" tol previous receipts orders l] that by auto
  have "mp_exceptions (buildSupplierMatchPlan tx s t k) = []
      \<longleftrightarrow> (\<forall>l\<in>set (si_lines iv). snd (snd (match_line_plan t (si_currency iv) tol previous receipts orders l)) = [])"
    by (simp add: e)
  also have "\<dots> \<longleftrightarrow> (\<forall>ml\<in>set (mp_lines (buildSupplierMatchPlan tx s t k)). within_tolerance tol ml)"
    using list_all2_elem [OF all] line by metis
  finally show "mp_resultStatus (buildSupplierMatchPlan tx s t k) = ''matched''
      \<longleftrightarrow> (\<forall>ml\<in>set (mp_lines (buildSupplierMatchPlan tx s t k)). within_tolerance tol ml)"
    using st by simp
  assume "ml \<in> set (mp_lines (buildSupplierMatchPlan tx s t k))"
  then show "ml_quantityVariance ml = ml_invoiceQuantity ml - (ml_receivedQuantity ml - ml_previouslyInvoicedQuantity ml)
      \<and> ml_priceVariance ml = ml_invoiceUnitPrice ml - ml_poUnitPrice ml
      \<and> ml_amountVariance ml = ml_invoiceLineAmount ml - multiply (ml_invoiceQuantity ml) (ml_poUnitPrice ml)"
    using list_all2_elem(2) [OF all] line by metis
qed

text \<open>What the match decides of one line, in terms of the stored invoice line and order line.\<close>

definition line_agrees :: "fin_tables \<Rightarrow> tolerances \<Rightarrow> invoice_line \<Rightarrow> bool" where
  "line_agrees T tol l \<longleftrightarrow> (\<exists>o1\<in>set (ft_orders T). il_purchaseOrderLineId l = Some (os_id o1)
     \<and> \<bar>column_units (il_unitPrice l) - column_units (os_unitPrice o1)\<bar> \<le> priceThreshold tol (column_units (os_unitPrice o1))
     \<and> \<bar>column_units (il_lineAmount l) - multiply (column_units (il_quantity l)) (column_units (os_unitPrice o1))\<bar> \<le> tol_amount tol)"

text \<open>Because a submitted invoice fits what was received, the match never finds too much quantity.\<close>

lemma tolerance_nonneg: "0 \<le> tol_quantity (review_tolerances u)"
  by (auto simp: review_tolerances_def toleranceUnits_def split: sum.splits)

context finance_store
begin

lemma quantity_fits:
  assumes T: "finance_inv (tables s)" and ok: "mp_blockingIssues (buildSupplierMatchPlan tx s t k) = []"
    and ml: "ml \<in> set (mp_lines (buildSupplierMatchPlan tx s t k))"
  shows "ml_quantityVariance ml \<le> 0"
proof -
  have ix: "indexes_ok (tables s)" by (rule finance_invD(1) [OF T])
  then have ui: "unclashed invoice_clash (ft_invoices (tables s))" by (simp add: indexes_ok_def)
  define tol where "tol = review_tolerances (findFirst (ftx_tenants tx) s (\<lambda>u. ten_id u = t))"
  obtain iv receipts orders previous where iv: "findFirst (ftx_invoices tx) s (\<lambda>iv. si_id iv = k \<and> si_tenantId iv = t) = Some iv"
    and rs: "receipts = findMany (ftx_receipts tx) s (\<lambda>r. rs_id r \<in> set (some_ids (map il_receivingLineId (si_lines iv))))"
    and "orders = findMany (ftx_orders tx) s (\<lambda>o1. os_id o1 \<in> set (some_ids (map il_purchaseOrderLineId (si_lines iv))))"
    and prev: "previous = previousByReceiving
        (committed_lines tx s t (some_ids (map il_receivingLineId (si_lines iv))) (Some (si_id iv)) matchedStatuses)"
    and all: "list_all2 (\<lambda>l ml. fst (snd (match_line_plan t (si_currency iv) tol previous receipts orders l)) = [ml]
         \<and> fst (match_line_plan t (si_currency iv) tol previous receipts orders l) = [])
        (si_lines iv) (mp_lines (buildSupplierMatchPlan tx s t k))"
    and "mp_exceptions (buildSupplierMatchPlan tx s t k)
        = concat (map (\<lambda>l. snd (snd (match_line_plan t (si_currency iv) tol previous receipts orders l))) (si_lines iv))"
      "mp_resultStatus (buildSupplierMatchPlan tx s t k)
        = (if mp_exceptions (buildSupplierMatchPlan tx s t k) = [] then ''matched'' else ''exception'')"
    by (rule match_plan_ok [OF ok, folded tol_def])
  have mem: "iv \<in> set (ft_invoices (tables s))" "si_tenantId iv = t" using invoices.first_some [OF iv] by simp_all
  have "si_status iv \<in> {''submitted'', ''matching'', ''exception''}"
    using ok iv by (auto simp: buildSupplierMatchPlan_def Let_def)
  then have cons: "consuming t consumingStatuses iv" using mem(2) by (auto simp: consuming_def consumingStatuses_def)
  obtain l where l: "l \<in> set (si_lines iv)"
      "fst (snd (match_line_plan t (si_currency iv) tol previous receipts orders l)) = [ml]"
      "fst (match_line_plan t (si_currency iv) tol previous receipts orders l) = []"
    using list_all2_elem(2) [OF all ml] by blast
  obtain r where r: "Option.bind (il_receivingLineId l) (last_by rs_id receipts) = Some r"
      "ml_receivedQuantity ml = column_units (rs_acceptedQty r)" "ml_previouslyInvoicedQuantity ml = get0 previous (rs_id r)"
      "rs_tenantId r = t" "ml_quantityVariance ml = ml_invoiceQuantity ml - (ml_receivedQuantity ml - ml_previouslyInvoicedQuantity ml)"
      "ml_invoiceQuantity ml = column_units (il_quantity l)"
    using match_line_plan_ok [OF l(3)] l(2) by auto
  have rl: "il_receivingLineId l = Some (rs_id r)" "r \<in> set (ft_receipts (tables s))"
    using r(1) last_byD [of rs_id receipts _ r] receipts.found_iff unfolding rs by (cases "il_receivingLineId l"; fastforce)+
  have okiv: "invoice_ok iv" by (rule finance_invD(3) [OF T mem(1)])
  have nonneg: "0 \<le> billed j q" if "j \<in> set (ft_invoices (tables s))" for j q
    using finance_invD(3) [OF T that] unfolding billed_def invoice_ok_def
    by (intro sum_list_nonneg) (auto simp: line_ok_def dest!: bspec intro: less_imp_le)
  have "column_units (il_quantity l) \<le> billed iv (rs_id r)"
  proof -
    have "0 \<le> column_units (il_quantity m)" if "m \<in> set (si_lines iv)" for m
      using okiv that by (auto simp: invoice_ok_def line_ok_def dest!: bspec intro: less_imp_le)
    then show ?thesis unfolding billed_def using l(1) rl(1)
      by (intro member_le_sum_list) auto
  qed
  moreover have "get0 previous (rs_id r) = other_invoiced (tables s) matchedStatuses t (rs_id r) (si_id iv)"
    unfolding prev using l(1) rl(1) by (intro previous_is_other_invoiced) (force simp: some_ids_def)
  moreover have "other_invoiced (tables s) matchedStatuses t (rs_id r) (si_id iv)
      \<le> other_invoiced (tables s) consumingStatuses t (rs_id r) (si_id iv)"
    unfolding other_invoiced_def using nonneg
    by (intro sum_list_mono) (auto simp: consuming_def matchedStatuses_def consumingStatuses_def)
  moreover have "billed iv (rs_id r) + other_invoiced (tables s) consumingStatuses t (rs_id r) (si_id iv) \<le> column_units (rs_acceptedQty r)"
    using invoiced_split [OF ui mem(1), of t "rs_id r"] cons finance_invD(2) [OF T rl(2)] r(4) by simp
  ultimately show ?thesis using r by simp
qed

lemma match_lines_agree:
  assumes T: "finance_inv (tables s)" and ok: "mp_blockingIssues (buildSupplierMatchPlan tx s t k) = []"
    and tol: "tol = review_tolerances (findFirst (ftx_tenants tx) s (\<lambda>u. ten_id u = t))"
  obtains iv where "findFirst (ftx_invoices tx) s (\<lambda>iv. si_id iv = k \<and> si_tenantId iv = t) = Some iv"
    "mp_resultStatus (buildSupplierMatchPlan tx s t k)
      = (if \<forall>l\<in>set (si_lines iv). line_agrees (tables s) tol l then ''matched'' else ''exception'')"
proof -
  have uo: "unclashed (\<lambda>a b. os_id a = os_id b) (ft_orders (tables s))" using finance_invD(1) [OF T] by (simp add: indexes_ok_def)
  let ?plan = "buildSupplierMatchPlan tx s t k"
  obtain iv receipts orders previous where iv: "findFirst (ftx_invoices tx) s (\<lambda>iv. si_id iv = k \<and> si_tenantId iv = t) = Some iv"
    and "receipts = findMany (ftx_receipts tx) s (\<lambda>r. rs_id r \<in> set (some_ids (map il_receivingLineId (si_lines iv))))"
    and os: "orders = findMany (ftx_orders tx) s (\<lambda>o1. os_id o1 \<in> set (some_ids (map il_purchaseOrderLineId (si_lines iv))))"
    and "previous = previousByReceiving
        (committed_lines tx s t (some_ids (map il_receivingLineId (si_lines iv))) (Some (si_id iv)) matchedStatuses)"
    and all: "list_all2 (\<lambda>l ml. fst (snd (match_line_plan t (si_currency iv) tol previous receipts orders l)) = [ml]
         \<and> fst (match_line_plan t (si_currency iv) tol previous receipts orders l) = [])
        (si_lines iv) (mp_lines ?plan)"
    and "mp_exceptions ?plan
        = concat (map (\<lambda>l. snd (snd (match_line_plan t (si_currency iv) tol previous receipts orders l))) (si_lines iv))"
    and st: "mp_resultStatus ?plan = (if mp_exceptions ?plan = [] then ''matched'' else ''exception'')"
    by (rule match_plan_ok [OF ok, folded tol])
  have okiv: "invoice_ok iv" using invoices.first_some [OF iv] finance_invD(3) [OF T] by simp
  have line: "within_tolerance tol ml \<longleftrightarrow> line_agrees (tables s) tol l"
    if l: "l \<in> set (si_lines iv)" and ml: "ml \<in> set (mp_lines ?plan)"
      and pl: "fst (snd (match_line_plan t (si_currency iv) tol previous receipts orders l)) = [ml]"
        "fst (match_line_plan t (si_currency iv) tol previous receipts orders l) = []" for l ml
  proof -
    obtain o1 where o1: "Option.bind (il_purchaseOrderLineId l) (last_by os_id orders) = Some o1"
        "ml_poUnitPrice ml = column_units (os_unitPrice o1)"
      and f: "ml_invoiceQuantity ml = column_units (il_quantity l)" "ml_priceVariance ml = column_units (il_unitPrice l) - ml_poUnitPrice ml"
        "ml_amountVariance ml = ml_invoiceLineAmount ml - multiply (column_units (il_quantity l)) (ml_poUnitPrice ml)"
        "ml_invoiceLineAmount ml = (case il_lineAmount l of Some a \<Rightarrow> a | None \<Rightarrow> column_units (il_amount l))"
      using match_line_plan_ok [OF pl(2)] pl(1) by auto
    have la: "ml_invoiceLineAmount ml = column_units (il_lineAmount l)"
      using okiv l f(4) by (auto simp: invoice_ok_def line_ok_def column_units_def)
    have ol: "o1 \<in> set (ft_orders (tables s))" "il_purchaseOrderLineId l = Some (os_id o1)"
      using o1(1) last_byD [of os_id orders _ o1] orders.found_iff unfolding os by (cases "il_purchaseOrderLineId l"; fastforce)+
    have one: "o2 = o1" if "o2 \<in> set (ft_orders (tables s))" "os_id o2 = os_id o1" for o2
      using unclashed_at [OF uo that(1) ol(1)] that(2) by simp
    have "ml_quantityVariance ml \<le> tol_quantity tol"
      using quantity_fits [OF T ok ml] tolerance_nonneg unfolding tol by (meson order_trans)
    then have "within_tolerance tol ml \<longleftrightarrow>
        \<bar>column_units (il_unitPrice l) - column_units (os_unitPrice o1)\<bar> \<le> priceThreshold tol (column_units (os_unitPrice o1))
     \<and> \<bar>column_units (il_lineAmount l) - multiply (column_units (il_quantity l)) (column_units (os_unitPrice o1))\<bar> \<le> tol_amount tol"
      by (simp add: within_tolerance_def f(2,3) la o1(2))
    moreover have "(\<exists>o2\<in>set (ft_orders (tables s)). il_purchaseOrderLineId l = Some (os_id o2) \<and> P o2) \<longleftrightarrow> P o1" for P
    proof
      assume "\<exists>o2\<in>set (ft_orders (tables s)). il_purchaseOrderLineId l = Some (os_id o2) \<and> P o2"
      then obtain o2 where o2: "o2 \<in> set (ft_orders (tables s))" "os_id o2 = os_id o1" "P o2" using ol(2) by auto
      from one [OF o2(1,2)] o2(3) show "P o1" by simp
    next
      assume "P o1"
      then show "\<exists>o2\<in>set (ft_orders (tables s)). il_purchaseOrderLineId l = Some (os_id o2) \<and> P o2" using ol by blast
    qed
    ultimately show ?thesis unfolding line_agrees_def by (simp only:)
  qed
  have "mp_resultStatus ?plan = ''matched'' \<longleftrightarrow> (\<forall>ml\<in>set (mp_lines ?plan). within_tolerance tol ml)"
    by (rule match_result(1) [OF ok tol])
  also have "\<dots> \<longleftrightarrow> (\<forall>l\<in>set (si_lines iv). line_agrees (tables s) tol l)"
  proof
    assume a: "\<forall>ml\<in>set (mp_lines ?plan). within_tolerance tol ml"
    show "\<forall>l\<in>set (si_lines iv). line_agrees (tables s) tol l"
    proof
      fix l assume l: "l \<in> set (si_lines iv)"
      then obtain ml where "ml \<in> set (mp_lines ?plan)"
        "fst (snd (match_line_plan t (si_currency iv) tol previous receipts orders l)) = [ml]"
        "fst (match_line_plan t (si_currency iv) tol previous receipts orders l) = []" using list_all2_elem(1) [OF all l] by blast
      then show "line_agrees (tables s) tol l" using line [OF l] a by blast
    qed
  next
    assume a: "\<forall>l\<in>set (si_lines iv). line_agrees (tables s) tol l"
    show "\<forall>ml\<in>set (mp_lines ?plan). within_tolerance tol ml"
    proof
      fix ml assume ml: "ml \<in> set (mp_lines ?plan)"
      then obtain l where "l \<in> set (si_lines iv)"
        "fst (snd (match_line_plan t (si_currency iv) tol previous receipts orders l)) = [ml]"
        "fst (match_line_plan t (si_currency iv) tol previous receipts orders l) = []" using list_all2_elem(2) [OF all ml] by blast
      then show "within_tolerance tol ml" using line [OF _ ml] a by blast
    qed
  qed
  finally show ?thesis using st by (intro that [OF iv]) (auto split: if_splits)
qed

lemma match_stored:
  assumes m: "matchSupplierInvoice tx gen t r s = Inr (s', k)" and T: "finance_inv (tables s)"
    and tol: "tol = review_tolerances (findFirst (ftx_tenants tx) s (\<lambda>u. ten_id u = t))"
  shows "\<exists>c\<in>set (ft_invoices (tables s)). \<exists>iv\<in>set (ft_invoices (tables s')).
      si_id c = k \<and> si_tenantId c = t \<and> si_status c = ''submitted'' \<and> frozen c iv
      \<and> si_status iv = (if \<forall>l\<in>set (si_lines c). line_agrees (tables s) tol l then ''matched'' else ''exception'')
      \<and> si_matchStatus iv = Some (si_status iv)"
proof -
  have ui: "unclashed invoice_clash (ft_invoices (tables s))" using finance_invD(1) [OF T] by (simp add: indexes_ok_def)
  obtain c s1 s2 where c: "locked_row (ftx_invoices tx) si_id si_tenantId SUPPLIER_INVOICE_NOT_FOUND t (js_text (fq_id r)) s = Inr c"
      "si_status c = ''submitted''" and k: "k = si_id c"
    and ok: "mp_blockingIssues (buildSupplierMatchPlan tx s t (si_id c)) = []"
    and m: "createRow (ftx_matches tx) s (new_match gen t (js_text (fq_number r)) c (buildSupplierMatchPlan tx s t (si_id c))) = Some s1"
    and e: "create_exceptions tx gen t (gen 1) (si_id c)
        (tm_lines (new_match gen t (js_text (fq_number r)) c (buildSupplierMatchPlan tx s t (si_id c))))
        (2 + length (mp_lines (buildSupplierMatchPlan tx s t (si_id c)))) (mp_exceptions (buildSupplierMatchPlan tx s t (si_id c))) s1 = Inr s2"
    and u: "updateRow (ftx_invoices tx) s2 (si_id c) (\<lambda>iv. iv
        \<lparr>si_status := mp_resultStatus (buildSupplierMatchPlan tx s t (si_id c)),
         si_matchStatus := Some (mp_resultStatus (buildSupplierMatchPlan tx s t (si_id c))),
         si_varianceAmount := Some (mp_varianceTotal (buildSupplierMatchPlan tx s t (si_id c))),
         si_version := si_version iv + 1\<rparr>) = Some s'"
    using m by (auto simp: matchSupplierInvoice_def Let_def)
  note L = invoices.locked [OF c(1) ui]
  obtain iv where iv: "findFirst (ftx_invoices tx) s (\<lambda>iv. si_id iv = si_id c \<and> si_tenantId iv = t) = Some iv"
    and st: "mp_resultStatus (buildSupplierMatchPlan tx s t (si_id c))
      = (if \<forall>l\<in>set (si_lines iv). line_agrees (tables s) tol l then ''matched'' else ''exception'')"
    by (rule match_lines_agree [OF T ok tol])
  have "iv = c" using invoices.first_some [OF iv] L unclashed_at [OF ui, of iv c] by (simp add: invoice_clash_def)
  note st = st [unfolded this]
  let ?f = "\<lambda>iv. iv
        \<lparr>si_status := mp_resultStatus (buildSupplierMatchPlan tx s t (si_id c)),
         si_matchStatus := Some (mp_resultStatus (buildSupplierMatchPlan tx s t (si_id c))),
         si_varianceAmount := Some (mp_varianceTotal (buildSupplierMatchPlan tx s t (si_id c))),
         si_version := si_version iv + 1\<rparr>"
  have "ft_invoices (tables s2) = ft_invoices (tables s)"
    using exceptions_created [OF e] matches.created [OF m] by auto
  then have rows: "ft_invoices (tables s') = update_where (\<lambda>r. si_id r = si_id c) ?f (ft_invoices (tables s))"
    using invoices.updated [OF u] by simp
  have "?f c \<in> set (ft_invoices (tables s'))"
    unfolding rows set_update_where by (rule bexI [of _ c]) (simp_all add: L)
  moreover have "frozen c (?f c)" by (simp add: frozen_def)
  ultimately show ?thesis using L c(2) k st by (intro bexI [of _ c] bexI [of _ "?f c"]) simp_all
qed

end

end
