(* ===== verification/Finance_Credits.thy ===== *)
theory Finance_Credits
  imports Finance_Lifecycle
begin

text \<open>
  What the approved credit memos of an invoice do to its payable: the credit recorded on the payable
  moves with the total of the approved memos, from the approval of the invoice on, and is always the
  sum of the totals of some of them.
\<close>

text \<open>The totals of the approved memos of the invoice \<open>k\<close> whose ids satisfy \<open>P\<close>.\<close>

definition credit_sum :: "fin_tables \<Rightarrow> string \<Rightarrow> (string \<Rightarrow> bool) \<Rightarrow> int" where
  "credit_sum T k P = sum_list (map (\<lambda>m. if cm_status m = ''approved'' \<and> cm_supplierInvoiceId m = k \<and> P (cm_id m)
     then cm_totalAmount m else 0) (ft_memos T))"

abbreviation approved_credits :: "fin_tables \<Rightarrow> string \<Rightarrow> int" where
  "approved_credits T k \<equiv> credit_sum T k (\<lambda>_. True)"

definition credits_backed :: "fin_tables \<Rightarrow> bool" where
  "credits_backed T \<longleftrightarrow>
     (\<forall>p\<in>set (ft_payables T). \<exists>P. pay_approvedCreditAmount p = credit_sum T (pay_supplierInvoiceId p) P)"

lemma memo_keys: "unclashed memo_clash ms \<Longrightarrow> distinct (map cm_id ms)"
  by (rule unclashed_distinct [where clash = memo_clash]) (simp_all add: memo_clash_def)

abbreviation approve_memo :: "credit_memo \<Rightarrow> credit_memo" where
  "approve_memo m \<equiv> m\<lparr>cm_status := ''approved'', cm_version := cm_version m + 1\<rparr>"

lemma credit_sum_approve:
  assumes "distinct (map cm_id (ft_memos T))" "memo \<in> set (ft_memos T)" "cm_status memo = ''draft''"
    and "ft_memos T' = update_where (\<lambda>r. cm_id r = cm_id memo) approve_memo (ft_memos T)"
  shows "credit_sum T' k P
    = credit_sum T k P + (if cm_supplierInvoiceId memo = k \<and> P (cm_id memo) then cm_totalAmount memo else 0)"
  using sum_update_where [OF assms(1) row_of_in [OF assms(1,2)], of _ approve_memo] assms(3)
  unfolding credit_sum_def assms(4) by simp

lemma credit_sum_draft:
  assumes "distinct (map cm_id (ft_memos T))" "memo \<in> set (ft_memos T)" "cm_status memo = ''draft''"
  shows "credit_sum T k (\<lambda>i. P i \<or> i = cm_id memo) = credit_sum T k P"
proof -
  have "cm_status m \<noteq> ''approved''" if "m \<in> set (ft_memos T)" "cm_id m = cm_id memo" for m
  proof -
    have "m = memo" using that assms(1,2) by (auto simp: distinct_map dest: inj_onD)
    then show ?thesis using assms(3) by simp
  qed
  then show ?thesis unfolding credit_sum_def by (intro arg_cong [of _ _ sum_list] map_cong) auto
qed

text \<open>
  A step gives each payable a credit that grows exactly with the approved memos of its invoice; new
  payables start without credit.
\<close>

definition credit_moves :: "fin_tables \<Rightarrow> fin_tables \<Rightarrow> payable \<Rightarrow> payable \<Rightarrow> bool" where
  "credit_moves T T' p p' \<longleftrightarrow> pay_id p' = pay_id p \<and> pay_supplierInvoiceId p' = pay_supplierInvoiceId p
     \<and> pay_originalAmount p' = pay_originalAmount p
     \<and> (\<exists>d i. pay_approvedCreditAmount p' = pay_approvedCreditAmount p + d
          \<and> (\<forall>P. credit_sum T (pay_supplierInvoiceId p) (\<lambda>j. P j \<or> j = i) = credit_sum T (pay_supplierInvoiceId p) P \<or> d = 0)
          \<and> (\<forall>P. credit_sum T' (pay_supplierInvoiceId p) P = credit_sum T (pay_supplierInvoiceId p) P + (if P i then d else 0)))"

lemma credit_moves_same:
  assumes "pay_id p' = pay_id p" "pay_supplierInvoiceId p' = pay_supplierInvoiceId p"
    "pay_originalAmount p' = pay_originalAmount p" "pay_approvedCreditAmount p' = pay_approvedCreditAmount p"
    "\<And>P. credit_sum T' (pay_supplierInvoiceId p) P = credit_sum T (pay_supplierInvoiceId p) P"
  shows "credit_moves T T' p p'"
  unfolding credit_moves_def using assms by (intro conjI exI [of _ 0]) auto

lemma memos_same: "ft_memos T' = ft_memos T \<Longrightarrow> credit_sum T' k P = credit_sum T k P"
  by (simp add: credit_sum_def)

lemma credit_moves_update:
  assumes "ft_payables T' = update_where P f (ft_payables T)"
    and "\<And>p. p \<in> set (ft_payables T) \<Longrightarrow> credit_moves T T' p (if P p then f p else p)"
  shows "(\<forall>p\<in>set (ft_payables T). \<exists>p'\<in>set (ft_payables T'). credit_moves T T' p p')
    \<and> (\<forall>p'\<in>set (ft_payables T'). pay_approvedCreditAmount p' = 0 \<or> (\<exists>p\<in>set (ft_payables T). credit_moves T T' p p'))"
proof (intro conjI ballI)
  fix p assume p: "p \<in> set (ft_payables T)"
  then have "(if P p then f p else p) \<in> set (ft_payables T')" unfolding assms(1) set_update_where by blast
  then show "\<exists>p'\<in>set (ft_payables T'). credit_moves T T' p p'" using assms(2) [OF p] by blast
next
  fix p' assume "p' \<in> set (ft_payables T')"
  then obtain p where "p \<in> set (ft_payables T)" "p' = (if P p then f p else p)" unfolding assms(1) set_update_where by blast
  then show "pay_approvedCreditAmount p' = 0 \<or> (\<exists>p\<in>set (ft_payables T). credit_moves T T' p p')" using assms(2) by blast
qed

text \<open>Which payable a payable after the step comes from.\<close>

lemma step_credit:
  assumes "finance_step T T'" "finance_inv T"
  shows "(\<forall>p\<in>set (ft_payables T). \<exists>p'\<in>set (ft_payables T'). credit_moves T T' p p')
    \<and> (\<forall>p'\<in>set (ft_payables T'). pay_approvedCreditAmount p' = 0 \<or> (\<exists>p\<in>set (ft_payables T). credit_moves T T' p p'))"
proof -
  have up: "unclashed payable_clash (ft_payables T)" and um: "distinct (map cm_id (ft_memos T))"
    using finance_invD(1) [OF assms(2)] memo_keys by (simp_all add: indexes_ok_def)
  have keep: ?thesis if rows: "ft_payables T' = ft_payables T"
    and sums: "\<And>p P. p \<in> set (ft_payables T) \<Longrightarrow> credit_sum T' (pay_supplierInvoiceId p) P = credit_sum T (pay_supplierInvoiceId p) P"
  proof -
    have "credit_moves T T' p p" if "p \<in> set (ft_payables T)" for p
      by (rule credit_moves_same) (simp_all add: sums that)
    then show ?thesis unfolding rows by blast
  qed
  from assms(1) show ?thesis
  proof cases
    case (memo_created memo)
    have "credit_sum T' k P = credit_sum T k P" for k P using memo_created by (simp add: credit_sum_def)
    then show ?thesis using memo_created(1) by (intro keep) simp_all
  next
    case (memo_approved memo)
    note grow = credit_sum_approve [OF um memo_approved(2,3), of T']
    show ?thesis
    proof (rule keep)
      fix p P assume "p \<in> set (ft_payables T)"
      then show "credit_sum T' (pay_supplierInvoiceId p) P = credit_sum T (pay_supplierInvoiceId p) P"
        using grow memo_approved(1) memo_approved(4) [of p] by simp
    qed (simp add: memo_approved(1))
  next
    case (memo_credited memo q)
    let ?f = "\<lambda>p. p\<lparr>pay_outstandingAmount := pay_outstandingAmount q - cm_totalAmount memo,
                    pay_approvedCreditAmount := pay_approvedCreditAmount q + cm_totalAmount memo,
                    pay_version := pay_version p + 1\<rparr>"
    have rows: "ft_payables T' = update_where (\<lambda>r. pay_id r = pay_id q) ?f (ft_payables T)"
      "ft_memos T' = update_where (\<lambda>r. cm_id r = cm_id memo) approve_memo (ft_memos T)"
      using memo_credited(1) by simp_all
    note grow = credit_sum_approve [OF um memo_credited(2,3) rows(2)]
      and fresh = credit_sum_draft [OF um memo_credited(2,3)]
    have moved: "credit_moves T T' p (if pay_id p = pay_id q then ?f p else p)" if "p \<in> set (ft_payables T)" for p
    proof (cases "pay_id p = pay_id q")
      case True
      then have p: "p = q" using unclashed_at [OF up that memo_credited(4)] by (simp add: payable_clash_def)
      show ?thesis unfolding credit_moves_def
        by (intro conjI exI [of _ "cm_totalAmount memo"] exI [of _ "cm_id memo"])
          (use p memo_credited(5) grow fresh in simp_all)
    next
      case False
      then have "pay_supplierInvoiceId p \<noteq> cm_supplierInvoiceId memo"
        using unclashed_at [OF up that memo_credited(4)] memo_credited(5) by (auto simp: payable_clash_def)
      then have "credit_sum T' (pay_supplierInvoiceId p) P = credit_sum T (pay_supplierInvoiceId p) P" for P
        using grow by auto
      then show ?thesis using False credit_moves_same [OF refl refl refl refl] by simp
    qed
    show ?thesis by (rule credit_moves_update [OF rows(1) moved])
  next
    case (payable_changed q action f c)
    have rows: "ft_payables T' = update_where (\<lambda>r. pay_id r = pay_id q) f (ft_payables T)" "ft_memos T' = ft_memos T"
      using payable_changed(1) by simp_all
    have "credit_moves T T' p (if pay_id p = pay_id q then f p else p)" for p
      using payable_changed(4) [of p] by (intro credit_moves_same memos_same rows(2)) auto
    then show ?thesis by (intro credit_moves_update [OF rows(1)])
  next
    case (approved c p)
    have rows: "ft_payables T' = ft_payables T @ [p]" "ft_memos T' = ft_memos T" using approved(1) by simp_all
    have "credit_moves T T' q q" for q using credit_moves_same [OF refl refl refl refl memos_same [OF rows(2)]] .
    then show ?thesis using approved(8) unfolding rows(1) by auto
  qed (rule keep, simp, simp add: credit_sum_def)+
qed

lemma step_credits_backed:
  assumes "finance_step T T'" "finance_inv T" "credits_backed T"
  shows "credits_backed T'"
  unfolding credits_backed_def
proof
  fix p' assume "p' \<in> set (ft_payables T')"
  with step_credit [OF assms(1,2)] consider "pay_approvedCreditAmount p' = 0"
    | p where "p \<in> set (ft_payables T)" "credit_moves T T' p p'" by blast
  then show "\<exists>P. pay_approvedCreditAmount p' = credit_sum T' (pay_supplierInvoiceId p') P"
  proof cases
    case 1
    then have "pay_approvedCreditAmount p' = credit_sum T' (pay_supplierInvoiceId p') (\<lambda>_. False)" by (simp add: credit_sum_def)
    then show ?thesis by blast
  next
    case (2 p)
    let ?k = "pay_supplierInvoiceId p"
    obtain P where P: "pay_approvedCreditAmount p = credit_sum T ?k P" using assms(3) 2(1) by (auto simp: credits_backed_def)
    obtain d i where d: "pay_approvedCreditAmount p' = pay_approvedCreditAmount p + d"
      "\<And>P. credit_sum T ?k (\<lambda>j. P j \<or> j = i) = credit_sum T ?k P \<or> d = 0"
      "\<And>P. credit_sum T' ?k P = credit_sum T ?k P + (if P i then d else 0)" and k: "pay_supplierInvoiceId p' = ?k"
      using 2(2) by (auto simp: credit_moves_def)
    show ?thesis
    proof (cases "d = 0")
      case True
      then show ?thesis using d(1,3) P k by (intro exI [of _ P]) simp
    next
      case False
      then show ?thesis using d(1) d(2) [of P] d(3) [of "\<lambda>j. P j \<or> j = i"] P k by (intro exI [of _ "\<lambda>j. P j \<or> j = i"]) simp
    qed
  qed
qed

text \<open>Along the steps, a payable keeps its amount, and its credit grows with the approved memos.\<close>

lemma steps_credit:
  assumes "finance_step\<^sup>*\<^sup>* T T'" "finance_inv T" "p \<in> set (ft_payables T)"
  shows "finance_inv T' \<and> (\<exists>p'\<in>set (ft_payables T'). pay_supplierInvoiceId p' = pay_supplierInvoiceId p
    \<and> pay_originalAmount p' = pay_originalAmount p
    \<and> pay_approvedCreditAmount p' - approved_credits T' (pay_supplierInvoiceId p)
        = pay_approvedCreditAmount p - approved_credits T (pay_supplierInvoiceId p))"
  using assms(1)
proof (induction rule: rtranclp_induct)
  case base
  then show ?case using assms(2,3) by blast
next
  case (step T1 T2)
  then obtain p1 where p1: "p1 \<in> set (ft_payables T1)" "pay_supplierInvoiceId p1 = pay_supplierInvoiceId p"
    "pay_originalAmount p1 = pay_originalAmount p"
    "pay_approvedCreditAmount p1 - approved_credits T1 (pay_supplierInvoiceId p)
        = pay_approvedCreditAmount p - approved_credits T (pay_supplierInvoiceId p)"
    and inv: "finance_inv T1" by blast
  obtain p2 where p2: "p2 \<in> set (ft_payables T2)" "credit_moves T1 T2 p1 p2" using step_credit [OF step.hyps(2) inv] p1(1) by blast
  have "pay_approvedCreditAmount p2 - approved_credits T2 (pay_supplierInvoiceId p1)
      = pay_approvedCreditAmount p1 - approved_credits T1 (pay_supplierInvoiceId p1)"
    using p2(2) by (auto simp: credit_moves_def)
  then show ?case using p1 p2 step_inv [OF step.hyps(2) inv] by (auto simp: credit_moves_def intro!: bexI [of _ p2])
qed

context finance_store
begin

lemma run_credits_backed:
  assumes "finance_run tx s s'" "finance_inv (tables s)" "credits_backed (tables s)"
  shows "credits_backed (tables s')"
  using assms
proof (induction rule: finance_run.induct)
  case (command s s1 gen date t cmd s2 k)
  have inv: "finance_inv (tables s1)" by (rule run_inv [OF command.hyps(1) command.prems(1)])
  show ?case by (rule step_credits_backed [OF command_step [OF command.hyps(2) inv] inv command.IH [OF command.prems]])
qed simp

text \<open>Approving an invoice opens its payable for the whole total, whatever was credited before.\<close>

lemma approval_opens_payable:
  assumes "run_finance tx gen date t (Approve_supplier_invoice r) s = Inr (s', k)" "finance_inv (tables s)"
  shows "\<exists>p\<in>set (ft_payables (tables s')). pay_supplierInvoiceId p = k \<and> pay_approvedCreditAmount p = 0
    \<and> (\<exists>iv\<in>set (ft_invoices (tables s)). si_id iv = k \<and> si_totalAmount iv = Some (pay_originalAmount p))
    \<and> ft_memos (tables s') = ft_memos (tables s)"
proof -
  have ui: "unclashed invoice_clash (ft_invoices (tables s))" using finance_invD(1) [OF assms(2)] by (simp add: indexes_ok_def)
  obtain c s1 amount where c: "locked_row (ftx_invoices tx) si_id si_tenantId SUPPLIER_INVOICE_NOT_FOUND t (js_text (fq_id r)) s = Inr c"
    and u: "updateRow (ftx_invoices tx) s (si_id c) (set_status ''approved'') = Some s1"
    and amount: "invoice_amount c = Some amount" and k: "k = si_id c"
    and p: "createRow (ftx_payables tx) s1 (new_payable (gen 1) t (js_text (fq_number r)) c amount) = Some s'"
    using assms(1) by (auto simp: approveSupplierInvoice_def set_status_def [abs_def] split: option.splits)
  have t1: "tables s1 = ft_invoices_update (update_where (\<lambda>r. si_id r = si_id c) (set_status ''approved'')) (tables s)"
    using invoices.updated [OF u] by simp
  have mem: "c \<in> set (ft_invoices (tables s))" using invoices.locked [OF c ui] by simp
  then have "si_totalAmount c = Some amount"
    using finance_invD(3) [OF assms(2) mem] amount by (auto simp: invoice_ok_def invoice_amount_def split: option.splits)
  then show ?thesis using payables.created [OF p] t1 mem k by (auto simp: new_payable_def)
qed

end

end
