(* ===== verification/Finance_Properties.thy ===== *)
theory Finance_Properties
  imports Finance_Credits
begin

text \<open>
  The properties of procure-to-pay finance, stated of any database with the laws of \<open>finance_store\<close>,
  with witnesses on the database of lists.
\<close>

section \<open>A receipt and its invoice\<close>

definition fx_receipt :: receipt_source where
  "fx_receipt = \<lparr>rs_id = ''r1'', rs_receivingDocumentId = ''g1'', rs_purchaseOrderLineId = Some ''p1'', rs_itemId = Some ''i1'',
     rs_sku = Some ''s1'', rs_acceptedQty = Some 50000, rs_tenantId = ''t1'', rs_poId = Some ''po1'', rs_supplierId = None,
     rs_postingStatus = ''posted'', rs_reversed = False, rs_currency = ''USD''\<rparr>"

definition fx_order :: order_source where
  "fx_order = \<lparr>os_id = ''p1'', os_purchaseOrderId = ''po1'', os_itemId = Some ''i1'', os_sku = Some ''s1'', os_itemName = None,
     os_unit = None, os_orderedQuantity = Some 50000, os_unitPrice = Some 30000, os_tenantId = ''t1'',
     os_supplierId = Some ''sup1'', os_currency = ''USD''\<rparr>"

definition fx_posting :: return_posting where
  "fx_posting = \<lparr>rp_id = ''ret1'', rp_tenantId = ''t1'', rp_postingType = ''supplier_return_dispatch'', rp_postingStatus = ''posted'',
     rp_reversed = False, rp_lines = [\<lparr>rpl_id = ''rl1'', rpl_itemId = ''i1'', rpl_sku = ''s1'', rpl_quantity = 10000,
       rpl_sourceDocumentLineId = Some ''r1''\<rparr>]\<rparr>"

definition fx_db :: fin_tables where
  "fx_db = \<lparr>ft_receipts = [fx_receipt], ft_orders = [fx_order],
     ft_suppliers = [\<lparr>sup_id = ''sup1'', sup_tenantId = ''t1'', sup_name = ''Acme''\<rparr>],
     ft_tenants = [\<lparr>ten_id = ''t1'', ten_quantityTolerance = None, ten_pricePercentageTolerance = None,
       ten_priceAbsoluteTolerance = None, ten_amountTolerance = None\<rparr>],
     ft_invoices = [], ft_matches = [], ft_exceptions = [], ft_payables = [], ft_memos = [], ft_postings = [fx_posting]\<rparr>"


text \<open>The \<open>k\<close>-th command draws its own identifiers.\<close>

definition fx_gen :: "nat \<Rightarrow> nat \<Rightarrow> string" where
  "fx_gen k n = replicate (Suc k) (CHR ''c'') @ replicate n (CHR ''x'')"

definition fx_body :: "string \<Rightarrow> string \<Rightarrow> string \<Rightarrow> invoice_request" where
  "fx_body q p a = \<lparr>ir_invoiceNumber = Some ''INV'', ir_supplierId = Some ''sup1'', ir_currency = Some ''usd'',
     ir_invoiceDate = Some ''2026-01-01'', ir_dueDate = Some ''2026-02-01'', ir_totalAmount = None,
     ir_lines = [\<lparr>ilr_purchaseOrderLineId = Some ''p1'', ilr_receivingLineId = Some '' r1 '', ilr_quantity = Some q,
       ilr_unitPrice = Some p, ilr_lineAmount = None, ilr_amount = Some a, ilr_enteredTaxAmount = None\<rparr>]\<rparr>"

definition fx_request :: "string \<Rightarrow> int \<Rightarrow> fin_request" where
  "fx_request k v = \<lparr>fq_id = Some k, fq_expectedVersion = Some v, fq_number = None, fq_reason = Some ''late'',
     fq_decision = Some ''approved'', fq_resolution = Some ''agreed''\<rparr>"

definition fx_run :: "nat \<Rightarrow> finance_command \<Rightarrow> fin_tables \<Rightarrow> fin_tables fin_result" where
  "fx_run k = run_finance list_finance (fx_gen k) (\<lambda>t. if t = [] then None else Some t) ''t1''"

fun fx_runs :: "nat \<Rightarrow> finance_command list \<Rightarrow> fin_tables \<Rightarrow> fin_issue + fin_tables" where
  "fx_runs k [] s = Inr s"
| "fx_runs k (c # cs) s = and_then (fx_run k c s) (\<lambda>(s', _). fx_runs (Suc k) cs s')"

lemma fx_runs_run: "fx_runs k cs s = Inr s' \<Longrightarrow> finance_run list_finance s0 s \<Longrightarrow> finance_run list_finance s0 s'"
proof (induction cs arbitrary: k s)
  case (Cons c cs)
  then obtain s1 e where "fx_run k c s = Inr (s1, e)" "fx_runs (Suc k) cs s1 = Inr s'" by (auto split: prod.splits)
  then show ?case using Cons.IH [of "Suc k" s1] finance_run.command [OF Cons.prems(2)] unfolding fx_run_def by blast
qed simp

lemma fx_inv: "finance_inv fx_db"
  by (simp add: finance_inv_def indexes_ok_def fx_db_def invoiced_def unclashed_Cons fx_receipt_def)

definition fx_matched :: "finance_command list" where
  "fx_matched = [Create_supplier_invoice (fx_body ''2'' ''4'' ''8''), Submit_supplier_invoice (fx_request ''cx'' 0),
     Match_supplier_invoice (fx_request ''cx'' 1)]"

definition fx_reviewed :: "finance_command list" where
  "fx_reviewed = fx_matched @ [Review_match_exception (fx_request ''cccxxx'' 0), Review_match_exception (fx_request ''cccxxxx'' 0)]"

definition fx_held :: "finance_command list" where
  "fx_held = fx_reviewed @ [Approve_supplier_invoice (fx_request ''cx'' 2), Change_payable Hold (fx_request ''ccccccx'' 0)]"

definition fx_state :: "finance_command list \<Rightarrow> fin_tables" where
  "fx_state cs = (case fx_runs 0 cs fx_db of Inl _ \<Rightarrow> fx_db | Inr s \<Rightarrow> s)"

lemma fx_state_run: "finance_run list_finance fx_db (fx_state cs)"
  using fx_runs_run [of 0 cs fx_db] by (auto simp: fx_state_def finance_run.start split: sum.splits)

section \<open>Receipts\<close>

text \<open>C34: A receipt is never billed beyond what was accepted: along every run of finance commands by any
  users, the quantities that the submitted, matched, approved and held invoices of the tenant bill of
  a receiving line stay within its accepted quantity.\<close>

theorem receipts_are_not_billed_twice:
  assumes "finance_store tx tables" "finance_run tx s0 s" "finance_inv (tables s0)" "r \<in> set (ft_receipts (tables s))"
  shows "invoiced (tables s) (rs_tenantId r) (rs_id r) \<le> column_units (rs_acceptedQty r)"
  by (rule finance_invD(2) [OF finance_store.run_inv [OF assms(1-3)] assms(4)])

theorem receipts_are_not_billed_twice_witness:
  "invoiced (fx_state fx_held) ''t1'' ''r1'' \<le> 50000 \<and> invoiced (fx_state fx_held) ''t1'' ''r1'' = 20000"
proof -
  have "fx_receipt \<in> set (ft_receipts (fx_state fx_held))" by code_simp
  from receipts_are_not_billed_twice [OF finance_lists.finance_store_axioms fx_state_run _ this] fx_inv
  have "invoiced (fx_state fx_held) ''t1'' ''r1'' \<le> 50000" by (simp add: fx_receipt_def)
  moreover have "invoiced (fx_state fx_held) ''t1'' ''r1'' = 20000" by code_simp
  ultimately show ?thesis by simp
qed

section \<open>Approval\<close>



section \<open>The life of an invoice\<close>



section \<open>The three-way match\<close>

text \<open>C37: The match of a submitted invoice decides on prices and amounts alone. When the command succeeds
  it stores the status matched if for every line of the invoice the unit price is within the price
  tolerance of the workspace of the price of its order line and the line amount within the amount
  tolerance of the invoiced quantity at that price, and the status exception otherwise; the match
  status is the same. The quantity is never in excess, because submitting already refused what was
  not received.\<close>

theorem match_decides_on_prices_and_amounts:
  assumes "finance_store tx tables" "finance_run tx s0 s" "finance_inv (tables s0)"
    and "matchSupplierInvoice tx gen t r s = Inr (s', k)"
    and "tol = review_tolerances (findFirst (ftx_tenants tx) s (\<lambda>u. ten_id u = t))"
  shows "(\<exists>c\<in>set (ft_invoices (tables s)). \<exists>iv\<in>set (ft_invoices (tables s')).
      si_id c = k \<and> si_id iv = k \<and> si_status c = ''submitted'' \<and> si_lines iv = si_lines c
      \<and> si_status iv = (if \<forall>l\<in>set (si_lines c). \<exists>o1\<in>set (ft_orders (tables s)). il_purchaseOrderLineId l = Some (os_id o1)
            \<and> \<bar>column_units (il_unitPrice l) - column_units (os_unitPrice o1)\<bar> \<le> priceThreshold tol (column_units (os_unitPrice o1))
            \<and> \<bar>column_units (il_lineAmount l) - multiply (column_units (il_quantity l)) (column_units (os_unitPrice o1))\<bar> \<le> tol_amount tol
          then ''matched'' else ''exception'')
      \<and> si_matchStatus iv = Some (si_status iv))
    \<and> (\<forall>l\<in>set (mp_lines (buildSupplierMatchPlan tx s t k)).
          ml_invoiceQuantity l + ml_previouslyInvoicedQuantity l \<le> ml_receivedQuantity l)"
    (is "?stored \<and> ?fits")
proof
  have T: "finance_inv (tables s)" by (rule finance_store.run_inv [OF assms(1-3)])
  obtain c iv where c: "c \<in> set (ft_invoices (tables s))" "iv \<in> set (ft_invoices (tables s'))" "si_id c = k"
      "si_status c = ''submitted''" "frozen c iv" "si_matchStatus iv = Some (si_status iv)"
      "si_status iv = (if \<forall>l\<in>set (si_lines c). line_agrees (tables s) tol l then ''matched'' else ''exception'')"
    using finance_store.match_stored [OF assms(1,4) T assms(5)] by (elim bexE conjE) (rule that)
  have "si_id iv = si_id c" "si_lines iv = si_lines c"
    using arg_cong [OF c(5) [unfolded frozen_def], of si_id] arg_cong [OF c(5) [unfolded frozen_def], of si_lines] by simp_all
  then show ?stored using c unfolding line_agrees_def by (intro bexI [of _ c] bexI [of _ iv] conjI) simp_all
  have ok: "mp_blockingIssues (buildSupplierMatchPlan tx s t k) = []"
    using assms(4) by (auto simp: matchSupplierInvoice_def Let_def)
  show ?fits
  proof
    fix l assume "l \<in> set (mp_lines (buildSupplierMatchPlan tx s t k))"
    then show "ml_invoiceQuantity l + ml_previouslyInvoicedQuantity l \<le> ml_receivedQuantity l"
      using finance_store.quantity_fits [OF assms(1) T ok, of l] match_result(2) [OF ok assms(5), of l] by simp
  qed
qed

text \<open>The invoice bills at 4 what was ordered at 3: it ends in exception.\<close>

theorem match_decides_on_prices_and_amounts_witness:
  "\<exists>iv\<in>set (ft_invoices (fx_state fx_matched)). si_id iv = ''cx'' \<and> si_status iv = ''exception''
     \<and> si_matchStatus iv = Some ''exception''"
proof -
  let ?s = "fx_state (take 2 fx_matched)"
  let ?tol = "review_tolerances (findFirst (ftx_tenants list_finance) ?s (\<lambda>u. ten_id u = ''t1''))"
  have run: "matchSupplierInvoice list_finance (fx_gen 2) ''t1'' (fx_request ''cx'' 1) ?s = Inr (fx_state fx_matched, ''cx'')"
    by code_simp
  have dev: "list_all (\<lambda>iv. list_ex (\<lambda>l. list_all (\<lambda>o1. \<not> \<bar>column_units (il_unitPrice l) - column_units (os_unitPrice o1)\<bar>
      \<le> priceThreshold ?tol (column_units (os_unitPrice o1))) (ft_orders ?s)) (si_lines iv)) (ft_invoices ?s)" by code_simp
  obtain c iv where c: "c \<in> set (ft_invoices ?s)" "iv \<in> set (ft_invoices (fx_state fx_matched))" "si_id iv = ''cx''"
      "si_matchStatus iv = Some (si_status iv)"
      "si_status iv = (if \<forall>l\<in>set (si_lines c). \<exists>o1\<in>set (ft_orders ?s). il_purchaseOrderLineId l = Some (os_id o1)
            \<and> \<bar>column_units (il_unitPrice l) - column_units (os_unitPrice o1)\<bar> \<le> priceThreshold ?tol (column_units (os_unitPrice o1))
            \<and> \<bar>column_units (il_lineAmount l) - multiply (column_units (il_quantity l)) (column_units (os_unitPrice o1))\<bar> \<le> tol_amount ?tol
          then ''matched'' else ''exception'')"
    using match_decides_on_prices_and_amounts [OF finance_lists.finance_store_axioms fx_state_run fx_inv run refl] by blast
  have "\<exists>l\<in>set (si_lines c). \<forall>o1\<in>set (ft_orders ?s). \<not> \<bar>column_units (il_unitPrice l) - column_units (os_unitPrice o1)\<bar>
      \<le> priceThreshold ?tol (column_units (os_unitPrice o1))"
    using dev c(1) unfolding list_all_iff list_ex_iff by blast
  then have "si_status iv = ''exception''" unfolding c(5) by (intro if_not_P) blast
  with c show ?thesis by auto
qed

section \<open>Previews\<close>

text \<open>C38: A preview never blocks what the command would do: when a command succeeds, its preview in the
  same state shows no blocking issue. The preview of a creation is that of the request; the preview of
  a command on a document is asked for with the identifier of the command without the white space
  around it. Revising an invoice has no preview.\<close>

theorem previews_never_block_wrongly:
  assumes "finance_store tx tables" "finance_run tx s0 s" "finance_inv (tables s0)"
    and "run_finance tx gen date t cmd s = Inr (s', entity)"
    and "command_id cmd = None \<or> js_text (command_id cmd) = k"
    and "preview_of tx t k cmd s = Some p"
  shows "p = Inr []"
  by (rule finance_store.preview_sound [OF assms(1,4) finance_store.run_inv [OF assms(1-3)] assms(6)])
    (use assms(5) in \<open>auto simp: js_text_def\<close>)

theorem previews_never_block_wrongly_witness:
  "previewApproveSupplierInvoice list_finance ''t1'' ''cx'' (fx_request ''cx'' 2) (fx_state fx_reviewed) = Inr []"
proof -
  have "\<exists>r. run_finance list_finance (fx_gen 5) (\<lambda>t. Some t) ''t1'' (Approve_supplier_invoice (fx_request ''cx'' 2))
      (fx_state fx_reviewed) = Inr r"
  proof -
    have "(case run_finance list_finance (fx_gen 5) (\<lambda>t. Some t) ''t1'' (Approve_supplier_invoice (fx_request ''cx'' 2))
      (fx_state fx_reviewed) of Inl _ \<Rightarrow> False | Inr _ \<Rightarrow> True)" by code_simp
    then show ?thesis by (auto split: sum.splits)
  qed
  then obtain s' e where "run_finance list_finance (fx_gen 5) (\<lambda>t. Some t) ''t1'' (Approve_supplier_invoice (fx_request ''cx'' 2))
      (fx_state fx_reviewed) = Inr (s', e)" by auto
  from previews_never_block_wrongly [OF finance_lists.finance_store_axioms fx_state_run _ this, of "''cx''"] fx_inv
  show ?thesis by (simp add: fx_request_def js_text_def js_trim_def js_space_def)
qed

text \<open>
  The converse fails: the preview of a match accepts an invoice in exception, which the command
  refuses.
\<close>

lemma match_preview_promises_too_much:
  "previewMatchSupplierInvoice list_finance ''t1'' ''cx'' (fx_request ''cx'' 2) (fx_state fx_matched) = Inr []
   \<and> matchSupplierInvoice list_finance (fx_gen 3) ''t1'' (fx_request ''cx'' 2) (fx_state fx_matched)
       = Inl (Issue SUPPLIER_INVOICE_STATUS_INVALID 409)"
  by code_simp

section \<open>Credits\<close>





end
