(* ===== verification/Outbound_Rows.thy ===== *)
theory Outbound_Rows
  imports Prisma_Tables Balance_Quantities
begin

text \<open>
  The tables of sales orders, reservations and shipments, with the columns that
  \<open>outbound-posting-command-service.mjs\<close> and \<open>sales-order-workbench-service.mjs\<close> read or write. Each
  model of \<open>prisma/schema.prisma\<close> is a table of its own here; a relation that the code includes is a
  query by foreign key. \<open>outbound_tx\<close> is what the code asks of the database: one \<open>prisma_model\<close>
  per table. Balances and movements are the rows of \<open>Inventory_Rows\<close>.

  \<open>res_status\<close> and the other statuses are text columns, as in the schema. Timestamps, prices as
  they are shown, users and the metadata of a row are left out.
\<close>

record sales_order =
  so_id :: string
  so_tenantId :: string
  so_orderNumber :: string
  so_customerId :: "string option"
  so_customerName :: string
  so_workflowStatus :: string
  so_reservationStatus :: string
  so_fulfillmentStatus :: string
  so_currency :: string
  so_version :: int

record order_line =
  ol_id :: string
  ol_salesOrderId :: string
  ol_itemId :: string
  ol_sku :: string
  ol_itemName :: string
  ol_orderedQuantity :: int
  ol_reservedQuantity :: int
  ol_fulfilledQuantity :: int
  ol_unit :: string
  ol_unitPrice :: "int option"
  ol_amount :: "int option"
  ol_version :: int

record reservation =
  res_id :: string
  res_tenantId :: string
  res_salesOrderId :: string
  res_salesOrderLineId :: string
  res_itemId :: string
  res_sku :: string
  res_warehouseId :: string
  res_location :: "string option"
  res_locationKey :: string
  res_reservedQuantity :: int
  res_allocatedQuantity :: int
  res_consumedQuantity :: int
  res_releasedQuantity :: int
  res_status :: string
  res_version :: int

record reservation_event =
  rev_id :: string
  rev_tenantId :: string
  rev_reservationId :: string
  rev_eventType :: string
  rev_quantity :: int

record shipment =
  shp_id :: string
  shp_tenantId :: string
  shp_shipmentNumber :: string
  shp_salesOrderId :: string
  shp_workflowStatus :: string
  shp_postingStatus :: string
  shp_version :: int

record shipment_line =
  spl_id :: string
  spl_shipmentId :: string
  spl_salesOrderLineId :: string
  spl_itemId :: string
  spl_sku :: string
  spl_requestedQuantity :: int
  spl_postedQuantity :: int
  spl_unit :: string
  spl_version :: int

record allocation =
  sal_id :: string
  sal_tenantId :: string
  sal_shipmentLineId :: string
  sal_reservationId :: string
  sal_warehouseId :: string
  sal_location :: "string option"
  sal_locationKey :: string
  sal_quantity :: int
  sal_status :: string
  sal_version :: int

record outbound_item =
  oit_id :: string
  oit_tenantId :: string
  oit_sku :: string
  oit_name :: string
  oit_unit :: "string option"
  oit_status :: string

record warehouse =
  wh_id :: string
  wh_tenantId :: string
  wh_status :: string

record outbound_movement = movement +
  mov_relatedSalesOrderId :: "string option"

record 's outbound_tx =
  otx_orders :: "('s, sales_order) prisma_model"
  otx_orderLines :: "('s, order_line) prisma_model"
  otx_reservations :: "('s, reservation) prisma_model"
  otx_events :: "('s, reservation_event) prisma_model"
  otx_shipments :: "('s, shipment) prisma_model"
  otx_shipmentLines :: "('s, shipment_line) prisma_model"
  otx_allocations :: "('s, allocation) prisma_model"
  otx_balances :: "('s, balance) prisma_model"
  otx_movements :: "('s, outbound_movement) prisma_model"
  otx_items :: "('s, outbound_item) prisma_model"
  otx_warehouses :: "('s, warehouse) prisma_model"

end
