(* ===== verification/Outbound_Policy.thy ===== *)
theory Outbound_Policy
  imports Outbound_Rows
begin

text \<open>
  The plans of \<open>outbound-transaction-policy.mjs\<close>: reserving stock for a sales order, releasing a
  reservation, drafting, cancelling, posting and reversing a shipment. A plan reads the database and
  lists the issues that block it and the impacts the command writes.

  \<open>le\<close> is \<open>localeCompare\<close>. A loop over a \<open>Map\<close> that keeps an object and a running quantity for each
  key is a pair of \<open>last_by\<close> (the object of the last entry) and \<open>add_all\<close> (the quantity). An absent
  text of a request is the empty text. The columns of the tables are decimals already, so reading one
  cannot fail; the text of a requested quantity can. \<open>OUTBOUND_UNCAUGHT\<close> stands for the
  \<open>TypeError\<close> of a line that is not among those of the order. A required relation is a foreign key of
  the schema, so the row an \<open>include\<close> asks for is there.
\<close>

datatype out_code =
    RESERVATION_VALIDATION_FAILED | SALES_ORDER_NOT_FOUND | SALES_ORDER_NOT_CONFIRMED
  | SALES_ORDER_ITEM_INVALID | RESERVATION_INSUFFICIENT_AVAILABLE | RESERVATION_OVER_ORDERED
  | RESERVATION_NOT_FOUND | RESERVATION_VERSION_CONFLICT | RESERVATION_ALREADY_ALLOCATED
  | RESERVATION_QUANTITY_CONFLICT | SHIPMENT_NUMBER_CONFLICT | SHIPMENT_RESERVATION_INSUFFICIENT
  | SHIPMENT_NOT_FOUND | SHIPMENT_ALREADY_CANCELLED | SHIPMENT_NOT_CANCELLABLE | SALES_ORDER_ON_HOLD
  | SALES_ORDER_INVALID_STATE | SHIPMENT_ALREADY_POSTED | SHIPMENT_ALREADY_REVERSED | SHIPMENT_NOT_READY
  | SHIPMENT_OVER_FULFILLMENT | SHIPMENT_REVERSAL_NOT_SAFE | SALES_ORDER_VERSION_CONFLICT
  | SHIPMENT_VERSION_CONFLICT | OUTBOUND_CONCURRENT_TRANSACTION_CONFLICT | OUTBOUND_WAREHOUSE_SCOPE_DENIED
  | SALES_ORDER_VALIDATION_FAILED | SALES_ORDER_NUMBER_CONFLICT | SALES_ORDER_DRAFT_REVISION_INCOMPLETE
  | OUTBOUND_UNCAUGHT

type_synonym out_issue = "out_code issue"

section \<open>Statuses\<close>

definition outboundReservationStatus :: "reservation \<Rightarrow> string" where
  "outboundReservationStatus r =
     (let reserved = res_reservedQuantity r; allocated = res_allocatedQuantity r;
          consumed = res_consumedQuantity r; active = reserved - consumed - res_releasedQuantity r
      in if active = 0 then (if consumed = reserved then ''consumed'' else ''released'')
         else if consumed > 0 then ''partially_consumed''
         else if allocated = active then ''allocated''
         else if allocated > 0 then ''partially_allocated''
         else ''active'')"

text \<open>The reservation status and the fulfilment status.\<close>

definition outboundOrderStatuses :: "order_line list \<Rightarrow> string \<times> string" where
  "outboundOrderStatuses lines =
     ((if lines = [] \<or> list_all (\<lambda>l. ol_reservedQuantity l = 0) lines then ''not_reserved''
       else if list_all (\<lambda>l. ol_reservedQuantity l + ol_fulfilledQuantity l \<ge> ol_orderedQuantity l) lines then ''fully_reserved''
       else ''partially_reserved''),
      (if lines = [] \<or> list_all (\<lambda>l. ol_fulfilledQuantity l = 0) lines then ''not_fulfilled''
       else if list_all (\<lambda>l. ol_fulfilledQuantity l \<ge> ol_orderedQuantity l) lines then ''fully_fulfilled''
       else ''partially_fulfilled''))"

section \<open>The parts of a plan\<close>

record stock_impact =
  sti_balanceId :: string
  sti_quantity :: int
  sti_onHandBefore :: int
  sti_onHandAfter :: int
  sti_reservedBefore :: int
  sti_reservedAfter :: int
  sti_availableBefore :: int
  sti_availableAfter :: int
  sti_version :: int

record reservation_impact =
  rsi_reservation :: reservation
  rsi_quantity :: int
  rsi_allocatedAfter :: int
  rsi_consumedAfter :: int
  rsi_releasedAfter :: int
  rsi_statusAfter :: string

record line_impact =
  oli_salesOrderLineId :: string
  oli_quantity :: int
  oli_reservedBefore :: int
  oli_reservedAfter :: int
  oli_fulfilledBefore :: int
  oli_fulfilledAfter :: int
  oli_version :: int

record shipment_line_impact =
  sli_shipmentLineId :: string
  sli_postedBefore :: int
  sli_postedAfter :: int
  sli_quantity :: int
  sli_version :: int

record 'q outbound_plan =
  op_blockingIssues :: "out_issue list"
  op_order :: "sales_order option"
  op_shipment :: "shipment option"
  op_quantityPlans :: "'q list"
  op_reservationImpacts :: "reservation_impact list"
  op_balanceImpacts :: "stock_impact list"
  op_lineImpacts :: "line_impact list"
  op_shipmentLineImpacts :: "shipment_line_impact list"
  op_statusAfter :: "string \<times> string"

definition out_basePlan :: "out_issue list \<Rightarrow> 'q outbound_plan" where
  "out_basePlan issues =
     \<lparr>op_blockingIssues = issues, op_order = None, op_shipment = None, op_quantityPlans = [],
      op_reservationImpacts = [], op_balanceImpacts = [], op_lineImpacts = [], op_shipmentLineImpacts = [],
      op_statusAfter = ([], [])\<rparr>"

definition safeUnits :: "string \<Rightarrow> out_issue list \<times> int option" where
  "safeUnits value = (case outboundDecimalUnits (Some value) of
       Inl _ \<Rightarrow> ([Issue RESERVATION_VALIDATION_FAILED 422], None)
     | Inr parsed \<Rightarrow> ([], Some parsed))"

definition balanceKey :: "string \<Rightarrow> string \<Rightarrow> string \<Rightarrow> string" where
  "balanceKey sku warehouseId locKey = js_trim sku @ ''|'' @ js_trim warehouseId @ ''|'' @ js_trim locKey"

text \<open>\<open>inventoryBalance.findUnique\<close> by tenant, SKU, warehouse key and location key.\<close>

definition balance_at :: "'s outbound_tx \<Rightarrow> 's \<Rightarrow> string \<Rightarrow> string \<Rightarrow> string \<Rightarrow> string \<Rightarrow> balance option" where
  "balance_at tx s tenantId sku warehouseId locKey =
     findFirst (otx_balances tx) s (\<lambda>b. bal_tenantId b = tenantId \<and> bal_sku b = sku
       \<and> bal_warehouseKey b = warehouseId \<and> bal_locationKey b = locKey)"

text \<open>The issue for a balance that was not found: another SKU of the item at the place, or none.\<close>

definition balance_missing ::
  "'s outbound_tx \<Rightarrow> 's \<Rightarrow> string \<Rightarrow> string \<Rightarrow> string \<Rightarrow> string \<Rightarrow> out_issue \<Rightarrow> out_issue" where
  "balance_missing tx s tenantId warehouseId locKey itemId otherwise =
     (case findFirst (otx_balances tx) s (\<lambda>b. bal_tenantId b = tenantId \<and> bal_warehouseKey b = warehouseId
        \<and> bal_locationKey b = locKey \<and> bal_itemId b = Some itemId) of
        Some _ \<Rightarrow> Issue SALES_ORDER_ITEM_INVALID 422 | None \<Rightarrow> otherwise)"

text \<open>The impact on a balance of changing its on-hand and its reserved quantity.\<close>

definition stock_impact_of :: "balance \<Rightarrow> int \<Rightarrow> int \<Rightarrow> int \<Rightarrow> int \<Rightarrow> stock_impact" where
  "stock_impact_of b quantity dOnHand dReserved dAvailable =
     \<lparr>sti_balanceId = bal_id b, sti_quantity = quantity,
      sti_onHandBefore = on_hand b, sti_onHandAfter = on_hand b + dOnHand,
      sti_reservedBefore = reserved b, sti_reservedAfter = reserved b + dReserved,
      sti_availableBefore = available b, sti_availableAfter = available b + dAvailable, sti_version = bal_version b\<rparr>"

definition line_impact_of :: "order_line \<Rightarrow> int \<Rightarrow> int \<Rightarrow> int \<Rightarrow> line_impact" where
  "line_impact_of line quantity dReserved dFulfilled =
     \<lparr>oli_salesOrderLineId = ol_id line, oli_quantity = quantity,
      oli_reservedBefore = ol_reservedQuantity line, oli_reservedAfter = ol_reservedQuantity line + dReserved,
      oli_fulfilledBefore = ol_fulfilledQuantity line, oli_fulfilledAfter = ol_fulfilledQuantity line + dFulfilled,
      oli_version = ol_version line\<rparr>"

text \<open>The impact on a reservation of changing its allocated, consumed and released quantity.\<close>

definition reservation_impact_of :: "reservation \<Rightarrow> int \<Rightarrow> int \<Rightarrow> int \<Rightarrow> int \<Rightarrow> reservation_impact" where
  "reservation_impact_of r quantity dAllocated dConsumed dReleased =
     (let allocated = res_allocatedQuantity r + dAllocated; consumed = res_consumedQuantity r + dConsumed;
          released = res_releasedQuantity r + dReleased
      in \<lparr>rsi_reservation = r, rsi_quantity = quantity, rsi_allocatedAfter = allocated, rsi_consumedAfter = consumed,
          rsi_releasedAfter = released,
          rsi_statusAfter = outboundReservationStatus
            (r\<lparr>res_allocatedQuantity := allocated, res_consumedQuantity := consumed, res_releasedQuantity := released\<rparr>)\<rparr>)"

definition order_lines :: "'s outbound_tx \<Rightarrow> 's \<Rightarrow> string \<Rightarrow> order_line list" where
  "order_lines tx s orderId = findMany (otx_orderLines tx) s (\<lambda>l. ol_salesOrderId l = orderId)"

definition loadOrder :: "'s outbound_tx \<Rightarrow> 's \<Rightarrow> string \<Rightarrow> string \<Rightarrow> (sales_order \<times> order_line list) option" where
  "loadOrder tx s tenantId salesOrderId =
     (case findFirst (otx_orders tx) s (\<lambda>so1. so_id so1 = js_trim salesOrderId \<and> so_tenantId so1 = tenantId) of
        None \<Rightarrow> None | Some so1 \<Rightarrow> Some (so1, order_lines tx s (so_id so1)))"

definition projectOrderLines :: "order_line list \<Rightarrow> line_impact list \<Rightarrow> order_line list" where
  "projectOrderLines lines impacts =
     map (\<lambda>line. case last_by oli_salesOrderLineId impacts (ol_id line) of
         None \<Rightarrow> line
       | Some impact \<Rightarrow> line\<lparr>ol_reservedQuantity := oli_reservedAfter impact, ol_fulfilledQuantity := oli_fulfilledAfter impact\<rparr>) lines"

definition validateOrderItems :: "'s outbound_tx \<Rightarrow> 's \<Rightarrow> string \<Rightarrow> order_line list \<Rightarrow> out_issue list" where
  "validateOrderItems tx s tenantId lines =
     (let itemIds = map (\<lambda>l. js_trim (ol_itemId l)) lines;
          items = findMany (otx_items tx) s (\<lambda>i. oit_tenantId i = tenantId \<and> oit_id i \<in> set itemIds - {[]})
      in concat (map (\<lambda>line. push_if (case last_by oit_id items (ol_itemId line) of
             None \<Rightarrow> True
           | Some item \<Rightarrow> oit_tenantId item \<noteq> tenantId \<or> oit_id item \<noteq> ol_itemId line \<or> oit_sku item \<noteq> ol_sku line
               \<or> oit_status item \<noteq> ''active'') SALES_ORDER_ITEM_INVALID 422) lines))"

section \<open>Reserving\<close>

record reserve_input =
  rvi_salesOrderLineId :: string
  rvi_warehouseId :: string
  rvi_location :: string
  rvi_quantity :: string

record reserve_entry =
  rve_salesOrderLineId :: string
  rve_warehouseId :: string
  rve_location :: string
  rve_locationKey :: string
  rve_quantity :: int
  rve_sku :: string
  rve_itemId :: string

definition rve_balanceKey :: "reserve_entry \<Rightarrow> string" where
  "rve_balanceKey e = balanceKey (rve_sku e) (rve_warehouseId e) (rve_locationKey e)"

text \<open>The body of the loop over the requested allocations.\<close>

definition reserve_entry_plan :: "order_line list \<Rightarrow> reserve_input \<Rightarrow> out_issue list \<times> reserve_entry list" where
  "reserve_entry_plan lines req =
     (let lineId = js_trim (rvi_salesOrderLineId req); warehouseId = js_trim (rvi_warehouseId req);
          location = js_trim (rvi_location req); line = last_by ol_id lines lineId;
          (i1, quantity) = safeUnits (rvi_quantity req)
      in (i1 @ push_if (line = None) RESERVATION_VALIDATION_FAILED 422
            @ push_if (warehouseId = []) RESERVATION_VALIDATION_FAILED 422
            @ push_if (case quantity of None \<Rightarrow> False | Some q \<Rightarrow> q \<le> 0) RESERVATION_VALIDATION_FAILED 422,
          case (line, quantity) of
            (Some l, Some q) \<Rightarrow>
              if warehouseId = [] \<or> q \<le> 0 then []
              else [\<lparr>rve_salesOrderLineId = lineId, rve_warehouseId = warehouseId, rve_location = location,
                     rve_locationKey = js_lower location, rve_quantity = q, rve_sku = ol_sku l, rve_itemId = ol_itemId l\<rparr>]
          | _ \<Rightarrow> []))"

definition reserve_balance_plan ::
  "'s outbound_tx \<Rightarrow> 's \<Rightarrow> string \<Rightarrow> reserve_entry list \<Rightarrow> (string \<times> int) list \<Rightarrow> string \<Rightarrow> out_issue list \<times> stock_impact list" where
  "reserve_balance_plan tx s tenantId entries byBalance k =
     (case find (\<lambda>e. rve_balanceKey e = k) entries of
        None \<Rightarrow> ([], [])
      | Some e \<Rightarrow>
          (case balance_at tx s tenantId (rve_sku e) (rve_warehouseId e) (rve_locationKey e) of
             None \<Rightarrow> ([balance_missing tx s tenantId (rve_warehouseId e) (rve_locationKey e) (rve_itemId e)
                        (Issue RESERVATION_INSUFFICIENT_AVAILABLE 422)], [])
           | Some b \<Rightarrow>
               let quantity = get0 byBalance k
               in (push_if (bal_itemId b \<noteq> Some (rve_itemId e) \<or> bal_sku b \<noteq> rve_sku e) SALES_ORDER_ITEM_INVALID 422
                   @ push_if (available b \<noteq> on_hand b - reserved b) RESERVATION_VALIDATION_FAILED 422
                   @ push_if (available b < quantity) RESERVATION_INSUFFICIENT_AVAILABLE 422,
                   [stock_impact_of b quantity 0 quantity (- quantity)])))"

definition reserve_line_plan :: "order_line list \<Rightarrow> (string \<times> int) list \<Rightarrow> string \<Rightarrow> out_issue list \<times> line_impact list" where
  "reserve_line_plan lines byLine lineId =
     (case last_by ol_id lines lineId of
        None \<Rightarrow> ([], [])
      | Some line \<Rightarrow>
          let quantity = get0 byLine lineId
          in (push_if (ol_reservedQuantity line + ol_fulfilledQuantity line + quantity > ol_orderedQuantity line)
                RESERVATION_OVER_ORDERED 422,
              [line_impact_of line quantity quantity 0]))"

definition buildSalesOrderReservationPlan ::
  "(string \<Rightarrow> string \<Rightarrow> bool) \<Rightarrow> 's outbound_tx \<Rightarrow> 's \<Rightarrow> string \<Rightarrow> string \<Rightarrow> reserve_input list \<Rightarrow> reserve_entry outbound_plan" where
  "buildSalesOrderReservationPlan le tx s tenantId salesOrderId allocations =
     (case loadOrder tx s tenantId salesOrderId of
        None \<Rightarrow> out_basePlan [Issue SALES_ORDER_NOT_FOUND 404]
      | Some (so1, lines) \<Rightarrow>
          let read = map (reserve_entry_plan lines) allocations;
              entries = concat (map snd read);
              byBalance = add_all rve_balanceKey rve_quantity entries [];
              byLine = add_all rve_salesOrderLineId rve_quantity entries [];
              warehouseIds = sorted_ids le (map rve_warehouseId entries);
              activeWarehouses = map wh_id (findMany (otx_warehouses tx) s
                (\<lambda>w. wh_tenantId w = tenantId \<and> wh_id w \<in> set warehouseIds \<and> wh_status w = ''active''));
              balances = map (reserve_balance_plan tx s tenantId entries byBalance) (sorted_ids le (map fst byBalance));
              lineImpacts = map (reserve_line_plan lines byLine) (sorted_ids le (map fst byLine));
              impacts = concat (map snd lineImpacts)
          in (out_basePlan
                (push_if (so_workflowStatus so1 \<noteq> ''confirmed'') SALES_ORDER_NOT_CONFIRMED 409
                 @ push_if (allocations = []) RESERVATION_VALIDATION_FAILED 422
                 @ validateOrderItems tx s tenantId lines
                 @ concat (map fst read)
                 @ concat (map (\<lambda>w. push_if (w \<notin> set activeWarehouses) RESERVATION_VALIDATION_FAILED 422) warehouseIds)
                 @ concat (map fst balances)
                 @ concat (map fst lineImpacts)))
             \<lparr>op_order := Some so1, op_quantityPlans := entries, op_balanceImpacts := concat (map snd balances),
              op_lineImpacts := impacts, op_statusAfter := outboundOrderStatuses (projectOrderLines lines impacts)\<rparr>)"

section \<open>Releasing\<close>

record release_input =
  rli_reservationId :: string
  rli_quantity :: string
  rli_expectedReservationVersion :: "int option"

record release_entry =
  rle_reservationId :: string
  rle_quantity :: int
  rle_expectedReservationVersion :: "int option"

definition release_entry_plan :: "release_input \<Rightarrow> out_issue list \<times> release_entry list" where
  "release_entry_plan req =
     (let resId = js_trim (rli_reservationId req); (i1, quantity) = safeUnits (rli_quantity req)
      in (i1 @ push_if (case quantity of None \<Rightarrow> False | Some q \<Rightarrow> q \<le> 0) RESERVATION_VALIDATION_FAILED 422,
          case quantity of
            None \<Rightarrow> []
          | Some q \<Rightarrow> if resId = [] \<or> q \<le> 0 then []
              else [\<lparr>rle_reservationId = resId, rle_quantity = q,
                     rle_expectedReservationVersion = rli_expectedReservationVersion req\<rparr>]))"

definition release_reservation_plan ::
  "reservation list \<Rightarrow> release_entry list \<Rightarrow> (string \<times> int) list \<Rightarrow> string \<Rightarrow> out_issue list \<times> reservation_impact list" where
  "release_reservation_plan found entries releaseByReservation resId =
     (case last_by res_id found resId of
        None \<Rightarrow> ([Issue RESERVATION_NOT_FOUND 404], [])
      | Some r \<Rightarrow>
          let quantity = get0 releaseByReservation resId;
              expected = Option.bind (last_by rle_reservationId entries resId) rle_expectedReservationVersion;
              allocatable = res_reservedQuantity r - res_consumedQuantity r - res_releasedQuantity r - res_allocatedQuantity r
          in (push_if (case expected of None \<Rightarrow> False | Some v \<Rightarrow> v \<noteq> res_version r) RESERVATION_VERSION_CONFLICT 409
              @ push_if (quantity > allocatable)
                  (if res_allocatedQuantity r > 0 then RESERVATION_ALREADY_ALLOCATED else RESERVATION_QUANTITY_CONFLICT) 409,
              [reservation_impact_of r quantity 0 0 quantity]))"

definition rsi_balanceKey :: "reservation_impact \<Rightarrow> string" where
  "rsi_balanceKey i = (let r = rsi_reservation i in balanceKey (res_sku r) (res_warehouseId r) (res_locationKey r))"

definition rsi_lineId :: "reservation_impact \<Rightarrow> string" where
  "rsi_lineId i = res_salesOrderLineId (rsi_reservation i)"

definition release_balance_plan ::
  "'s outbound_tx \<Rightarrow> 's \<Rightarrow> reservation_impact list \<Rightarrow> (string \<times> int) list \<Rightarrow> string \<Rightarrow> out_issue list \<times> stock_impact list" where
  "release_balance_plan tx s impacts balanceDeltas k =
     (case last_by rsi_balanceKey impacts k of
        None \<Rightarrow> ([], [])
      | Some i \<Rightarrow>
          let r = rsi_reservation i; quantity = get0 balanceDeltas k
          in case balance_at tx s (res_tenantId r) (res_sku r) (res_warehouseId r) (res_locationKey r) of
               None \<Rightarrow> ([Issue RESERVATION_QUANTITY_CONFLICT 409], [])
             | Some b \<Rightarrow>
                 (push_if (reserved b < quantity \<or> available b \<noteq> on_hand b - reserved b) RESERVATION_QUANTITY_CONFLICT 409,
                  [stock_impact_of b quantity 0 (- quantity) quantity]))"

definition release_line_plan :: "order_line list \<Rightarrow> (string \<times> int) list \<Rightarrow> string \<Rightarrow> out_issue list \<times> line_impact list" where
  "release_line_plan lines lineDeltas lineId =
     (case last_by ol_id lines lineId of
        None \<Rightarrow> ([], [])
      | Some line \<Rightarrow>
          let quantity = get0 lineDeltas lineId
          in (push_if (ol_reservedQuantity line < quantity) RESERVATION_QUANTITY_CONFLICT 409,
              [line_impact_of line quantity (- quantity) 0]))"

text \<open>The \<open>TypeError\<close> of a line that is not there ends the whole plan.\<close>

definition unless_uncaught :: "order_line list \<Rightarrow> string list \<Rightarrow> out_issue list \<Rightarrow> out_issue list" where
  "unless_uncaught lines lineIds issues =
     (if list_ex (\<lambda>k. last_by ol_id lines k = None) lineIds then [Issue OUTBOUND_UNCAUGHT 500] else issues)"

definition buildReservationReleasePlan ::
  "(string \<Rightarrow> string \<Rightarrow> bool) \<Rightarrow> 's outbound_tx \<Rightarrow> 's \<Rightarrow> string \<Rightarrow> string \<Rightarrow> string \<Rightarrow> release_input list
   \<Rightarrow> release_entry outbound_plan" where
  "buildReservationReleasePlan le tx s tenantId salesOrderId reason releases =
     (case loadOrder tx s tenantId salesOrderId of
        None \<Rightarrow> out_basePlan [Issue SALES_ORDER_NOT_FOUND 404]
      | Some (so1, lines) \<Rightarrow>
          let read = map release_entry_plan releases;
              entries = concat (map snd read);
              releaseByReservation = add_all rle_reservationId rle_quantity entries [];
              resIds = sorted_ids le (map fst releaseByReservation);
              found = findMany (otx_reservations tx) s
                (\<lambda>r. res_tenantId r = tenantId \<and> res_salesOrderId r = so_id so1 \<and> res_id r \<in> set resIds);
              planned = map (release_reservation_plan found entries releaseByReservation) resIds;
              impacts = concat (map snd planned);
              lineDeltas = add_all rsi_lineId rsi_quantity impacts [];
              balanceDeltas = add_all rsi_balanceKey rsi_quantity impacts [];
              balances = map (release_balance_plan tx s impacts balanceDeltas) (sorted_ids le (map fst balanceDeltas));
              lineIds = sorted_ids le (map fst lineDeltas);
              linePlans = map (release_line_plan lines lineDeltas) lineIds;
              lineImpacts = concat (map snd linePlans)
          in (out_basePlan
                (unless_uncaught lines lineIds
                  (push_if (js_trim reason = []) RESERVATION_VALIDATION_FAILED 422
                   @ push_if (releases = []) RESERVATION_VALIDATION_FAILED 422
                   @ concat (map fst read) @ concat (map fst planned)
                   @ concat (map fst balances) @ concat (map fst linePlans))))
             \<lparr>op_order := Some so1, op_quantityPlans := entries, op_reservationImpacts := impacts,
              op_balanceImpacts := concat (map snd balances), op_lineImpacts := lineImpacts,
              op_statusAfter := outboundOrderStatuses (projectOrderLines lines lineImpacts)\<rparr>)"

end
