(* ===== verification/Shipment_Policy.thy ===== *)
theory Shipment_Policy
  imports Outbound_Policy
begin

text \<open>
  The plans of \<open>outbound-transaction-policy.mjs\<close> for shipments: the draft that allocates reservations,
  its cancellation, posting and reversal. \<open>loadShipment\<close> is the \<open>findFirst\<close> with the order, the
  lines and their allocations included.
\<close>

section \<open>Drafting a shipment\<close>

record draft_allocation_input =
  dai_reservationId :: string
  dai_quantity :: string

record draft_line_input =
  dli_salesOrderLineId :: string
  dli_allocations :: "draft_allocation_input list"

record draft_line =
  dln_orderLine :: order_line
  dln_allocations :: "(reservation \<times> int) list"

definition dln_requestedQuantity :: "draft_line \<Rightarrow> int" where
  "dln_requestedQuantity l = sum_list (map snd (dln_allocations l))"

text \<open>The body of the inner loop, over the allocations of a requested line.\<close>

definition draft_allocation_plan ::
  "reservation list \<Rightarrow> string \<Rightarrow> draft_allocation_input \<Rightarrow> out_issue list \<times> (reservation \<times> int) list" where
  "draft_allocation_plan found lineId req =
     (let (i1, quantity) = safeUnits (dai_quantity req);
          reservation = last_by res_id found (js_trim (dai_reservationId req))
      in (i1 @ (case reservation of
                  None \<Rightarrow> [Issue RESERVATION_NOT_FOUND 404]
                | Some r \<Rightarrow> push_if (res_salesOrderLineId r \<noteq> lineId) RESERVATION_VALIDATION_FAILED 422)
             @ push_if (case quantity of None \<Rightarrow> False | Some q \<Rightarrow> q \<le> 0) RESERVATION_VALIDATION_FAILED 422,
          case (reservation, quantity) of
            (Some r, Some q) \<Rightarrow> if res_salesOrderLineId r \<noteq> lineId \<or> q \<le> 0 then [] else [(r, q)]
          | _ \<Rightarrow> []))"

definition draft_line_plan ::
  "order_line list \<Rightarrow> reservation list \<Rightarrow> draft_line_input \<Rightarrow> out_issue list \<times> draft_line list" where
  "draft_line_plan lines found req =
     (let lineId = js_trim (dli_salesOrderLineId req)
      in case last_by ol_id lines lineId of
           None \<Rightarrow> ([Issue RESERVATION_VALIDATION_FAILED 422], [])
         | Some line \<Rightarrow>
             let planned = map (draft_allocation_plan found lineId) (dli_allocations req);
                 allocations = concat (map snd planned)
             in (concat (map fst planned) @ push_if (allocations = []) RESERVATION_VALIDATION_FAILED 422,
                 [\<lparr>dln_orderLine = line, dln_allocations = allocations\<rparr>]))"

definition draft_reservation_plan ::
  "reservation list \<Rightarrow> (string \<times> int) list \<Rightarrow> string \<Rightarrow> out_issue list \<times> reservation_impact list" where
  "draft_reservation_plan found byReservation resId =
     (case last_by res_id found resId of
        None \<Rightarrow> ([], [])
      | Some r \<Rightarrow>
          let quantity = get0 byReservation resId;
              allocatable = res_reservedQuantity r - res_allocatedQuantity r - res_consumedQuantity r - res_releasedQuantity r
          in (push_if (quantity > allocatable) SHIPMENT_RESERVATION_INSUFFICIENT 409,
              [reservation_impact_of r quantity quantity 0 0]))"

definition buildShipmentDraftPlan ::
  "(string \<Rightarrow> string \<Rightarrow> bool) \<Rightarrow> 's outbound_tx \<Rightarrow> 's \<Rightarrow> string \<Rightarrow> string \<Rightarrow> string \<Rightarrow> draft_line_input list
   \<Rightarrow> draft_line outbound_plan" where
  "buildShipmentDraftPlan le tx s tenantId salesOrderId shipmentNumber lines =
     (case loadOrder tx s tenantId salesOrderId of
        None \<Rightarrow> out_basePlan [Issue SALES_ORDER_NOT_FOUND 404]
      | Some (so1, orderLines) \<Rightarrow>
          let number = js_trim shipmentNumber;
              duplicate = (number \<noteq> [] \<and>
                findFirst (otx_shipments tx) s (\<lambda>d. shp_tenantId d = tenantId \<and> shp_shipmentNumber d = number) \<noteq> None);
              resIds = concat (map (\<lambda>l. map (\<lambda>a. js_trim (dai_reservationId a)) (dli_allocations l)) lines);
              found = findMany (otx_reservations tx) s
                (\<lambda>r. res_tenantId r = tenantId \<and> res_salesOrderId r = so_id so1 \<and> res_id r \<in> set resIds - {[]});
              planned = map (draft_line_plan orderLines found) lines;
              quantityPlans = concat (map snd planned);
              allocated = concat (map dln_allocations quantityPlans);
              byReservation = add_all (\<lambda>a. res_id (fst a)) snd allocated [];
              reservations = map (draft_reservation_plan found byReservation) (sorted_ids le (map fst byReservation))
          in (out_basePlan
                (push_if (so_workflowStatus so1 \<noteq> ''confirmed'') SALES_ORDER_NOT_CONFIRMED 409
                 @ push_if (number = []) RESERVATION_VALIDATION_FAILED 422
                 @ push_if (lines = []) RESERVATION_VALIDATION_FAILED 422
                 @ validateOrderItems tx s tenantId orderLines
                 @ push_if duplicate SHIPMENT_NUMBER_CONFLICT 409
                 @ concat (map fst planned)
                 @ concat (map fst reservations)))
             \<lparr>op_order := Some so1, op_quantityPlans := quantityPlans, op_reservationImpacts := concat (map snd reservations)\<rparr>)"

section \<open>A shipment with its lines and allocations\<close>

record shipped =
  shd_allocation :: allocation
  shd_line :: shipment_line
  shd_reservation :: reservation

record loaded_shipment =
  lsh_shipment :: shipment
  lsh_order :: sales_order
  lsh_orderLines :: "order_line list"
  lsh_lines :: "shipment_line list"
  lsh_allocations :: "shipped list"

definition load_allocations :: "'s outbound_tx \<Rightarrow> 's \<Rightarrow> shipment_line \<Rightarrow> shipped list" where
  "load_allocations tx s line =
     concat (map (\<lambda>a. case findFirst (otx_reservations tx) s (\<lambda>r. res_id r = sal_reservationId a) of
         None \<Rightarrow> [] | Some r \<Rightarrow> [\<lparr>shd_allocation = a, shd_line = line, shd_reservation = r\<rparr>])
       (findMany (otx_allocations tx) s (\<lambda>a. sal_shipmentLineId a = spl_id line)))"

definition loadShipment :: "'s outbound_tx \<Rightarrow> 's \<Rightarrow> string \<Rightarrow> string \<Rightarrow> loaded_shipment option" where
  "loadShipment tx s tenantId shipmentId =
     (case findFirst (otx_shipments tx) s (\<lambda>d. shp_id d = js_trim shipmentId \<and> shp_tenantId d = tenantId) of
        None \<Rightarrow> None
      | Some d \<Rightarrow>
          (case findFirst (otx_orders tx) s (\<lambda>so1. so_id so1 = shp_salesOrderId d) of
             None \<Rightarrow> None
           | Some so1 \<Rightarrow>
               let lines = findMany (otx_shipmentLines tx) s (\<lambda>l. spl_shipmentId l = shp_id d)
               in Some \<lparr>lsh_shipment = d, lsh_order = so1, lsh_orderLines = order_lines tx s (so_id so1), lsh_lines = lines,
                        lsh_allocations = concat (map (load_allocations tx s) lines)\<rparr>))"

definition shd_quantity :: "shipped \<Rightarrow> int" where
  "shd_quantity a = sal_quantity (shd_allocation a)"

definition shd_reservationId :: "shipped \<Rightarrow> string" where
  "shd_reservationId a = sal_reservationId (shd_allocation a)"

definition shd_balanceKey :: "shipped \<Rightarrow> string" where
  "shd_balanceKey a = balanceKey (res_sku (shd_reservation a)) (sal_warehouseId (shd_allocation a)) (sal_locationKey (shd_allocation a))"

definition shd_lineId :: "shipped \<Rightarrow> string" where
  "shd_lineId a = spl_salesOrderLineId (shd_line a)"

section \<open>Cancelling a draft\<close>

definition cancel_reservation_plan ::
  "shipped list \<Rightarrow> (string \<times> int) list \<Rightarrow> string \<Rightarrow> out_issue list \<times> reservation_impact list" where
  "cancel_reservation_plan allocations byReservation resId =
     (case last_by shd_reservationId allocations resId of
        None \<Rightarrow> ([], [])
      | Some a \<Rightarrow>
          let r = shd_reservation a; quantity = get0 byReservation resId
          in (push_if (res_allocatedQuantity r < quantity) SHIPMENT_RESERVATION_INSUFFICIENT 409,
              [reservation_impact_of r quantity (- quantity) 0 0]))"

definition buildShipmentCancellationPlan ::
  "(string \<Rightarrow> string \<Rightarrow> bool) \<Rightarrow> 's outbound_tx \<Rightarrow> 's \<Rightarrow> string \<Rightarrow> string \<Rightarrow> string \<Rightarrow> unit outbound_plan" where
  "buildShipmentCancellationPlan le tx s tenantId shipmentId reason =
     (case loadShipment tx s tenantId shipmentId of
        None \<Rightarrow> out_basePlan [Issue SHIPMENT_NOT_FOUND 404]
      | Some ld \<Rightarrow>
          let d = lsh_shipment ld;
              allocations = filter (\<lambda>a. sal_status (shd_allocation a) = ''allocated'') (lsh_allocations ld);
              byReservation = add_all shd_reservationId shd_quantity allocations [];
              planned = map (cancel_reservation_plan allocations byReservation) (sorted_ids le (map fst byReservation))
          in (out_basePlan
                (push_if (js_trim reason = []) RESERVATION_VALIDATION_FAILED 422
                 @ (if shp_workflowStatus d = ''cancelled'' then [Issue SHIPMENT_ALREADY_CANCELLED 409]
                    else push_if (shp_workflowStatus d \<notin> {''draft'', ''ready''} \<or> shp_postingStatus d \<noteq> ''unposted'')
                           SHIPMENT_NOT_CANCELLABLE 409)
                 @ concat (map fst planned)))
             \<lparr>op_shipment := Some d, op_reservationImpacts := concat (map snd planned)\<rparr>)"

section \<open>Posting\<close>

definition post_reservation_plan ::
  "shipped list \<Rightarrow> (string \<times> int) list \<Rightarrow> string \<Rightarrow> out_issue list \<times> reservation_impact list" where
  "post_reservation_plan allocations byReservation resId =
     (case last_by shd_reservationId allocations resId of
        None \<Rightarrow> ([], [])
      | Some a \<Rightarrow>
          let r = shd_reservation a; quantity = get0 byReservation resId
          in (push_if (res_allocatedQuantity r < quantity
                  \<or> res_reservedQuantity r - res_consumedQuantity r - res_releasedQuantity r < quantity)
                SHIPMENT_RESERVATION_INSUFFICIENT 409,
              [reservation_impact_of r quantity (- quantity) quantity 0]))"

text \<open>The balance of an allocation: the spread of the allocation supplies its own tenant.\<close>

definition shipped_balance :: "'s outbound_tx \<Rightarrow> 's \<Rightarrow> shipped \<Rightarrow> balance option" where
  "shipped_balance tx s a =
     (let al = shd_allocation a
      in balance_at tx s (sal_tenantId al) (res_sku (shd_reservation a)) (sal_warehouseId al) (sal_locationKey al))"

definition shipped_missing :: "'s outbound_tx \<Rightarrow> 's \<Rightarrow> string \<Rightarrow> shipped \<Rightarrow> out_issue \<Rightarrow> out_issue" where
  "shipped_missing tx s tenantId a otherwise =
     balance_missing tx s tenantId (sal_warehouseId (shd_allocation a)) (sal_locationKey (shd_allocation a))
       (res_itemId (shd_reservation a)) otherwise"

definition post_balance_plan ::
  "'s outbound_tx \<Rightarrow> 's \<Rightarrow> string \<Rightarrow> shipped list \<Rightarrow> (string \<times> int) list \<Rightarrow> string \<Rightarrow> out_issue list \<times> stock_impact list" where
  "post_balance_plan tx s tenantId allocations byBalance k =
     (case last_by shd_balanceKey allocations k of
        None \<Rightarrow> ([], [])
      | Some a \<Rightarrow>
          let quantity = get0 byBalance k
          in case shipped_balance tx s a of
               None \<Rightarrow> ([shipped_missing tx s tenantId a (Issue SHIPMENT_RESERVATION_INSUFFICIENT 409)], [])
             | Some b \<Rightarrow>
                 (push_if (bal_itemId b \<noteq> Some (res_itemId (shd_reservation a)) \<or> bal_sku b \<noteq> res_sku (shd_reservation a))
                    SALES_ORDER_ITEM_INVALID 422
                  @ push_if (available b \<noteq> on_hand b - reserved b) SHIPMENT_RESERVATION_INSUFFICIENT 409
                  @ push_if (on_hand b < quantity \<or> reserved b < quantity) SHIPMENT_RESERVATION_INSUFFICIENT 409,
                  [stock_impact_of b quantity (- quantity) (- quantity) 0]))"

definition post_line_plan :: "order_line list \<Rightarrow> (string \<times> int) list \<Rightarrow> string \<Rightarrow> out_issue list \<times> line_impact list" where
  "post_line_plan lines byOrderLine lineId =
     (case last_by ol_id lines lineId of
        None \<Rightarrow> ([], [])
      | Some line \<Rightarrow>
          let quantity = get0 byOrderLine lineId
          in (push_if (ol_reservedQuantity line < quantity) SHIPMENT_RESERVATION_INSUFFICIENT 409
              @ push_if (ol_fulfilledQuantity line + quantity > ol_orderedQuantity line) SHIPMENT_OVER_FULFILLMENT 409,
              [line_impact_of line quantity (- quantity) quantity]))"

definition shipment_line_impact_of :: "shipment_line \<Rightarrow> int \<Rightarrow> int \<Rightarrow> shipment_line_impact" where
  "shipment_line_impact_of l quantity dPosted =
     \<lparr>sli_shipmentLineId = spl_id l, sli_postedBefore = spl_postedQuantity l,
      sli_postedAfter = spl_postedQuantity l + dPosted, sli_quantity = quantity, sli_version = spl_version l\<rparr>"

definition posting_status_issues :: "sales_order \<Rightarrow> shipment \<Rightarrow> out_issue list" where
  "posting_status_issues so1 d =
     (if so_workflowStatus so1 = ''on_hold'' then [Issue SALES_ORDER_ON_HOLD 409]
      else push_if (so_workflowStatus so1 \<noteq> ''confirmed'') SALES_ORDER_INVALID_STATE 409)
     @ (if shp_postingStatus d = ''posted'' then [Issue SHIPMENT_ALREADY_POSTED 409]
        else if shp_postingStatus d = ''reversed'' then [Issue SHIPMENT_ALREADY_REVERSED 409]
        else if shp_workflowStatus d = ''cancelled'' then [Issue SHIPMENT_ALREADY_CANCELLED 409]
        else push_if (shp_workflowStatus d \<noteq> ''ready'' \<or> shp_postingStatus d \<noteq> ''unposted'') SHIPMENT_NOT_READY 409)"

definition buildShipmentPostingPlan ::
  "(string \<Rightarrow> string \<Rightarrow> bool) \<Rightarrow> 's outbound_tx \<Rightarrow> 's \<Rightarrow> string \<Rightarrow> string \<Rightarrow> shipped outbound_plan" where
  "buildShipmentPostingPlan le tx s tenantId shipmentId =
     (case loadShipment tx s tenantId shipmentId of
        None \<Rightarrow> out_basePlan [Issue SHIPMENT_NOT_FOUND 404]
      | Some ld \<Rightarrow>
          let d = lsh_shipment ld; allocations = lsh_allocations ld;
              byReservation = add_all shd_reservationId shd_quantity allocations [];
              byBalance = add_all shd_balanceKey shd_quantity allocations [];
              byOrderLine = add_all shd_lineId shd_quantity allocations [];
              byShipmentLine = add_all (\<lambda>a. spl_id (shd_line a)) shd_quantity allocations [];
              reservations = map (post_reservation_plan allocations byReservation) (sorted_ids le (map fst byReservation));
              balances = map (post_balance_plan tx s tenantId allocations byBalance) (sorted_ids le (map fst byBalance));
              lineIds = sorted_ids le (map fst byOrderLine);
              linePlans = map (post_line_plan (lsh_orderLines ld) byOrderLine) lineIds;
              lineImpacts = concat (map snd linePlans)
          in (out_basePlan
                (unless_uncaught (lsh_orderLines ld) lineIds
                  (validateOrderItems tx s tenantId (lsh_orderLines ld)
                   @ posting_status_issues (lsh_order ld) d
                   @ push_if (allocations = [] \<or> list_ex (\<lambda>a. sal_status (shd_allocation a) \<noteq> ''allocated'') allocations)
                       SHIPMENT_NOT_READY 409
                   @ concat (map fst reservations) @ concat (map fst balances) @ concat (map fst linePlans))))
             \<lparr>op_order := Some (lsh_order ld), op_shipment := Some d, op_quantityPlans := allocations,
              op_reservationImpacts := concat (map snd reservations), op_balanceImpacts := concat (map snd balances),
              op_lineImpacts := lineImpacts,
              op_shipmentLineImpacts := map (\<lambda>l. let q = get0 byShipmentLine (spl_id l) in shipment_line_impact_of l q q) (lsh_lines ld),
              op_statusAfter := outboundOrderStatuses (projectOrderLines (lsh_orderLines ld) lineImpacts)\<rparr>)"

section \<open>Reversing\<close>

definition movement_of :: "outbound_movement list \<Rightarrow> shipped \<Rightarrow> outbound_movement option" where
  "movement_of movements a = last_by mov_sourceDocumentLineId movements (Some (sal_id (shd_allocation a)))"

text \<open>\<open>movementMatches\<close>: the posting of the allocation, not yet reversed, with its quantity and place.\<close>

definition movement_matches_allocation ::
  "string \<Rightarrow> shipment \<Rightarrow> order_line list \<Rightarrow> outbound_movement option \<Rightarrow> shipped \<Rightarrow> bool" where
  "movement_matches_allocation tenantId d orderLines movement a =
     (case movement of
        None \<Rightarrow> False
      | Some mv \<Rightarrow>
          let al = shd_allocation a; r = shd_reservation a
          in mov_movementType mv = ''shipment_posting'' \<and> mov_tenantId mv = tenantId
             \<and> mov_sourceDocumentType mv = Some ''ShipmentDocument'' \<and> mov_sourceDocumentId mv = Some (shp_id d)
             \<and> mov_sourceDocumentLineId mv = Some (sal_id al) \<and> mov_relatedSalesOrderId mv = Some (shp_salesOrderId d)
             \<and> mov_reversedByMovementId mv \<in> {None, Some []}
             \<and> column_units (mov_quantityOut mv) = sal_quantity al \<and> column_units (mov_quantityIn mv) = 0
             \<and> mov_sku mv = res_sku r \<and> mov_itemId mv = Some (res_itemId r)
             \<and> mov_warehouseId mv = Some (sal_warehouseId al) \<and> js_trim (mov_locationKey mv) = js_trim (sal_locationKey al)
             \<and> js_text (mov_unit mv) = js_trim (spl_unit (shd_line a)) \<and> sal_status al = ''consumed''
             \<and> res_tenantId r = tenantId \<and> res_salesOrderLineId r = spl_salesOrderLineId (shd_line a)
             \<and> (case find (\<lambda>l. ol_id l = spl_salesOrderLineId (shd_line a)) orderLines of
                  None \<Rightarrow> False | Some l \<Rightarrow> ol_itemId l = res_itemId r))"

definition reverse_reservation_plan ::
  "shipped list \<Rightarrow> (string \<times> int) list \<Rightarrow> string \<Rightarrow> out_issue list \<times> reservation_impact list" where
  "reverse_reservation_plan allocations byReservation resId =
     (case last_by shd_reservationId allocations resId of
        None \<Rightarrow> ([], [])
      | Some a \<Rightarrow>
          let r = shd_reservation a; quantity = get0 byReservation resId
          in (push_if (res_consumedQuantity r < quantity) SHIPMENT_REVERSAL_NOT_SAFE 409,
              [reservation_impact_of r quantity 0 (- quantity) 0]))"

definition reverse_balance_plan ::
  "'s outbound_tx \<Rightarrow> 's \<Rightarrow> string \<Rightarrow> shipped list \<Rightarrow> (string \<times> int) list \<Rightarrow> string \<Rightarrow> out_issue list \<times> stock_impact list" where
  "reverse_balance_plan tx s tenantId allocations byBalance k =
     (case last_by shd_balanceKey allocations k of
        None \<Rightarrow> ([], [])
      | Some a \<Rightarrow>
          let quantity = get0 byBalance k
          in case shipped_balance tx s a of
               None \<Rightarrow> ([shipped_missing tx s tenantId a (Issue SHIPMENT_REVERSAL_NOT_SAFE 409)], [])
             | Some b \<Rightarrow>
                 (push_if (bal_itemId b \<noteq> Some (res_itemId (shd_reservation a)) \<or> bal_sku b \<noteq> res_sku (shd_reservation a))
                    SALES_ORDER_ITEM_INVALID 422
                  @ push_if (available b \<noteq> on_hand b - reserved b) SHIPMENT_REVERSAL_NOT_SAFE 409,
                  [stock_impact_of b quantity quantity quantity 0]))"

definition reverse_line_plan :: "order_line list \<Rightarrow> (string \<times> int) list \<Rightarrow> string \<Rightarrow> out_issue list \<times> line_impact list" where
  "reverse_line_plan lines byOrderLine lineId =
     (case last_by ol_id lines lineId of
        None \<Rightarrow> ([], [])
      | Some line \<Rightarrow>
          let quantity = get0 byOrderLine lineId
          in (push_if (ol_fulfilledQuantity line < quantity) SHIPMENT_REVERSAL_NOT_SAFE 409,
              [line_impact_of line quantity quantity (- quantity)]))"

definition buildShipmentReversalPlan ::
  "(string \<Rightarrow> string \<Rightarrow> bool) \<Rightarrow> 's outbound_tx \<Rightarrow> 's \<Rightarrow> string \<Rightarrow> string \<Rightarrow> string \<Rightarrow> (shipped \<times> outbound_movement) outbound_plan" where
  "buildShipmentReversalPlan le tx s tenantId shipmentId reason =
     (case loadShipment tx s tenantId shipmentId of
        None \<Rightarrow> out_basePlan [Issue SHIPMENT_NOT_FOUND 404]
      | Some ld \<Rightarrow>
          let d = lsh_shipment ld;
              movements = findMany (otx_movements tx) s (\<lambda>mv. mov_tenantId mv = tenantId
                \<and> mov_sourceDocumentId mv = Some (shp_id d) \<and> mov_movementType mv = ''shipment_posting'');
              matching = filter (\<lambda>a. movement_matches_allocation tenantId d (lsh_orderLines ld) (movement_of movements a) a)
                (lsh_allocations ld);
              byReservation = add_all shd_reservationId shd_quantity matching [];
              byBalance = add_all shd_balanceKey shd_quantity matching [];
              byOrderLine = add_all shd_lineId shd_quantity matching [];
              byShipmentLine = add_all (\<lambda>a. spl_id (shd_line a)) shd_quantity matching [];
              reservations = map (reverse_reservation_plan matching byReservation) (sorted_ids le (map fst byReservation));
              balances = map (reverse_balance_plan tx s tenantId matching byBalance) (sorted_ids le (map fst byBalance));
              linePlans = map (reverse_line_plan (lsh_orderLines ld) byOrderLine) (sorted_ids le (map fst byOrderLine));
              lineImpacts = concat (map snd linePlans)
          in (out_basePlan
                (validateOrderItems tx s tenantId (lsh_orderLines ld)
                 @ push_if (js_trim reason = []) RESERVATION_VALIDATION_FAILED 422
                 @ (if shp_postingStatus d = ''reversed'' then [Issue SHIPMENT_ALREADY_REVERSED 409]
                    else push_if (shp_postingStatus d \<noteq> ''posted'') SHIPMENT_REVERSAL_NOT_SAFE 409)
                 @ concat (map (\<lambda>a. push_if (\<not> movement_matches_allocation tenantId d (lsh_orderLines ld) (movement_of movements a) a)
                     SHIPMENT_REVERSAL_NOT_SAFE 409) (lsh_allocations ld))
                 @ concat (map fst reservations) @ concat (map fst balances) @ concat (map fst linePlans)
                 @ concat (map (\<lambda>l. push_if (spl_postedQuantity l < get0 byShipmentLine (spl_id l)) SHIPMENT_REVERSAL_NOT_SAFE 409)
                     (lsh_lines ld))))
             \<lparr>op_order := Some (lsh_order ld), op_shipment := Some d,
              op_quantityPlans := concat (map (\<lambda>a. case movement_of movements a of None \<Rightarrow> [] | Some mv \<Rightarrow> [(a, mv)]) (lsh_allocations ld)),
              op_reservationImpacts := concat (map snd reservations), op_balanceImpacts := concat (map snd balances),
              op_lineImpacts := lineImpacts,
              op_shipmentLineImpacts := map (\<lambda>l. let q = get0 byShipmentLine (spl_id l) in shipment_line_impact_of l q (- q)) (lsh_lines ld),
              op_statusAfter := outboundOrderStatuses (projectOrderLines (lsh_orderLines ld) lineImpacts)\<rparr>)"

end
