(* ===== verification/Outbound_Service.thy ===== *)
theory Outbound_Service
  imports Shipment_Policy Inventory_Service
begin

text \<open>
  The commands of \<open>outbound-posting-command-service.mjs\<close>: the normalisation of a request and the work
  function that \<open>execute\<close> runs in a serializable transaction.

  A command returns the new state and the identifier of the entity it reports, or the error that
  rolls the transaction back. \<open>gen n\<close> is the \<open>n\<close>-th identifier of \<open>idFactory\<close> (number 0 is the
  execution row). \<open>OUTBOUND_UNCAUGHT\<close> is an error that is not the service's own, such as a refused
  insert. A lock of one row by tenant also checks that it is there; otherwise row locks have no effect
  in a serial history. The audit row and the returned document are not modelled.
\<close>

type_synonym 's out_result = "out_issue + 's \<times> string"

section \<open>Requests\<close>

definition out_required :: "string \<Rightarrow> out_issue + string" where
  "out_required v = (if js_trim v = [] then Inl (Issue RESERVATION_VALIDATION_FAILED 422) else Inr (js_trim v))"

definition out_expectedVersion :: "int option \<Rightarrow> out_issue + int" where
  "out_expectedVersion v = (case v of None \<Rightarrow> Inl (Issue RESERVATION_VALIDATION_FAILED 422)
     | Some n \<Rightarrow> if n < 0 then Inl (Issue RESERVATION_VALIDATION_FAILED 422) else Inr n)"

definition out_quantity :: "string \<Rightarrow> out_issue + string" where
  "out_quantity v = (case outboundDecimalUnits (Some v) of
       Inl _ \<Rightarrow> Inl (Issue RESERVATION_VALIDATION_FAILED 422)
     | Inr units \<Rightarrow> if units \<le> 0 then Inl (Issue RESERVATION_VALIDATION_FAILED 422) else Inr (outboundDecimalString units))"

record reserve_request =
  orq_salesOrderId :: string
  orq_expectedOrderVersion :: "int option"
  orq_allocations :: "reserve_input list"

record release_request =
  olq_salesOrderId :: string
  olq_expectedOrderVersion :: "int option"
  olq_reason :: string
  olq_releases :: "release_input list"

record draft_request =
  odq_salesOrderId :: string
  odq_shipmentNumber :: string
  odq_expectedOrderVersion :: "int option"
  odq_lines :: "draft_line_input list"

record shipment_request =
  osq_shipmentId :: string
  osq_expectedShipmentVersion :: "int option"
  osq_reason :: string

definition normalize_reserve :: "reserve_request \<Rightarrow> out_issue + string \<times> int \<times> reserve_input list" where
  "normalize_reserve q =
     and_then (out_required (orq_salesOrderId q)) (\<lambda>orderId.
     and_then (out_expectedVersion (orq_expectedOrderVersion q)) (\<lambda>version.
     and_then (map_or_fail (\<lambda>e.
         and_then (out_required (rvi_salesOrderLineId e)) (\<lambda>lineId.
         and_then (out_required (rvi_warehouseId e)) (\<lambda>warehouseId.
         and_then (out_quantity (rvi_quantity e)) (\<lambda>quantity.
           Inr \<lparr>rvi_salesOrderLineId = lineId, rvi_warehouseId = warehouseId, rvi_location = js_trim (rvi_location e),
                rvi_quantity = quantity\<rparr>)))) (orq_allocations q)) (\<lambda>allocations.
       Inr (orderId, version, allocations))))"

definition normalize_release :: "release_request \<Rightarrow> out_issue + string \<times> int \<times> string \<times> release_input list" where
  "normalize_release q =
     and_then (out_required (olq_salesOrderId q)) (\<lambda>orderId.
     and_then (out_expectedVersion (olq_expectedOrderVersion q)) (\<lambda>version.
     and_then (out_required (olq_reason q)) (\<lambda>reason.
     and_then (map_or_fail (\<lambda>e.
         and_then (out_required (rli_reservationId e)) (\<lambda>resId.
         and_then (out_quantity (rli_quantity e)) (\<lambda>quantity.
         and_then (out_expectedVersion (rli_expectedReservationVersion e)) (\<lambda>v.
           Inr \<lparr>rli_reservationId = resId, rli_quantity = quantity, rli_expectedReservationVersion = Some v\<rparr>))))
         (olq_releases q)) (\<lambda>releases.
       Inr (orderId, version, reason, releases)))))"

definition normalize_draft :: "draft_request \<Rightarrow> out_issue + string \<times> string \<times> int \<times> draft_line_input list" where
  "normalize_draft q =
     and_then (out_required (odq_salesOrderId q)) (\<lambda>orderId.
     and_then (out_required (odq_shipmentNumber q)) (\<lambda>number.
     and_then (out_expectedVersion (odq_expectedOrderVersion q)) (\<lambda>version.
     and_then (map_or_fail (\<lambda>l.
         and_then (out_required (dli_salesOrderLineId l)) (\<lambda>lineId.
         and_then (map_or_fail (\<lambda>e.
             and_then (out_required (dai_reservationId e)) (\<lambda>resId.
             and_then (out_quantity (dai_quantity e)) (\<lambda>quantity.
               Inr \<lparr>dai_reservationId = resId, dai_quantity = quantity\<rparr>))) (dli_allocations l)) (\<lambda>allocations.
           Inr \<lparr>dli_salesOrderLineId = lineId, dli_allocations = allocations\<rparr>))) (odq_lines q)) (\<lambda>lines.
       Inr (orderId, number, version, lines)))))"

definition normalize_shipment :: "bool \<Rightarrow> shipment_request \<Rightarrow> out_issue + string \<times> int \<times> string" where
  "normalize_shipment withReason q =
     and_then (out_required (osq_shipmentId q)) (\<lambda>shipmentId.
     and_then (out_expectedVersion (osq_expectedShipmentVersion q)) (\<lambda>version.
     and_then (if withReason then out_required (osq_reason q) else Inr []) (\<lambda>reason.
       Inr (shipmentId, version, reason))))"

section \<open>Reading and writing\<close>

definition out_enforce :: "out_issue list \<Rightarrow> out_issue + unit" where
  "out_enforce issues = (case issues of [] \<Rightarrow> Inr () | first # _ \<Rightarrow> Inl first)"

lemma out_enforce_Inr [simp]: "out_enforce issues = Inr u \<longleftrightarrow> issues = []"
  by (cases issues) (auto simp: out_enforce_def)

definition out_warehouses :: "actor \<Rightarrow> string list \<Rightarrow> out_issue + unit" where
  "out_warehouses actor ids =
     fail_if (\<not> hasWarehouseAccess actor (map Some ids) Operate) (Issue OUTBOUND_WAREHOUSE_SCOPE_DENIED 403)"

abbreviation out_saved :: "'s option \<Rightarrow> out_issue + 's" where
  "out_saved \<equiv> or_error (Issue OUTBOUND_UNCAUGHT 500)"

text \<open>An \<open>updateMany\<close> that must change exactly one row.\<close>

abbreviation out_guarded :: "out_code \<Rightarrow> ('s \<times> nat) option \<Rightarrow> out_issue + 's" where
  "out_guarded c \<equiv> one_row (Issue OUTBOUND_UNCAUGHT 500) (Issue c 409)"

text \<open>An \<open>updateMany\<close> whose count is not looked at.\<close>

abbreviation out_updated :: "('s \<times> nat) option \<Rightarrow> out_issue + 's" where
  "out_updated r \<equiv> out_saved (map_option fst r)"

definition out_locked ::
  "('s, 'r) prisma_model \<Rightarrow> ('r \<Rightarrow> string) \<Rightarrow> ('r \<Rightarrow> string) \<Rightarrow> out_code \<Rightarrow> string \<Rightarrow> string \<Rightarrow> 's \<Rightarrow> out_issue + 'r" where
  "out_locked m rowId rowTenant missing tenantId k s =
     (case findFirst m s (\<lambda>r. rowId r = k \<and> rowTenant r = tenantId) of
        None \<Rightarrow> Inl (Issue missing 404) | Some r \<Rightarrow> Inr r)"

definition column_at_least :: "int option \<Rightarrow> int \<Rightarrow> bool" where
  "column_at_least column q = (case column of None \<Rightarrow> False | Some v \<Rightarrow> q \<le> v)"

definition set_reserved :: "stock_impact \<Rightarrow> balance \<Rightarrow> balance" where
  "set_reserved i b = b\<lparr>bal_reservedQuantity := Some (sti_reservedAfter i),
     bal_availableQuantity := Some (sti_availableAfter i), bal_version := bal_version b + 1\<rparr>"

definition set_stock :: "stock_impact \<Rightarrow> balance \<Rightarrow> balance" where
  "set_stock i b = b\<lparr>bal_onHandQuantity := Some (sti_onHandAfter i), bal_reservedQuantity := Some (sti_reservedAfter i),
     bal_availableQuantity := Some (sti_availableAfter i), bal_version := bal_version b + 1\<rparr>"

definition write_balance ::
  "'s outbound_tx \<Rightarrow> (stock_impact \<Rightarrow> balance \<Rightarrow> bool) \<Rightarrow> (stock_impact \<Rightarrow> balance \<Rightarrow> balance) \<Rightarrow> stock_impact \<Rightarrow> 's \<Rightarrow> out_issue + 's" where
  "write_balance tx guard f i s =
     out_guarded OUTBOUND_CONCURRENT_TRANSACTION_CONFLICT
       (updateMany (otx_balances tx) s (\<lambda>b. bal_id b = sti_balanceId i \<and> bal_version b = sti_version i \<and> guard i b) (f i))"

definition new_event :: "string \<Rightarrow> string \<Rightarrow> string \<Rightarrow> string \<Rightarrow> int \<Rightarrow> reservation_event" where
  "new_event eventId tenantId resId eventType quantity =
     \<lparr>rev_id = eventId, rev_tenantId = tenantId, rev_reservationId = resId, rev_eventType = eventType, rev_quantity = quantity\<rparr>"

text \<open>
  The guarded update of a reservation followed by its event. Each command writes the columns it
  changes; the others, here and in \<open>move_line\<close>, keep the value that the plan read under the same version.
\<close>

definition set_reservation :: "reservation_impact \<Rightarrow> reservation \<Rightarrow> reservation" where
  "set_reservation i r = r\<lparr>res_allocatedQuantity := rsi_allocatedAfter i, res_consumedQuantity := rsi_consumedAfter i,
     res_releasedQuantity := rsi_releasedAfter i, res_status := rsi_statusAfter i, res_version := res_version r + 1\<rparr>"

definition write_reservation ::
  "'s outbound_tx \<Rightarrow> out_code \<Rightarrow> (reservation \<Rightarrow> bool) \<Rightarrow> string \<Rightarrow> string \<Rightarrow> string \<times> reservation_impact
   \<Rightarrow> 's \<Rightarrow> out_issue + 's" where
  "write_reservation tx c guard tenantId eventType e s =
     (let i = snd e; r = rsi_reservation i
      in and_then (out_guarded c (updateMany (otx_reservations tx) s
           (\<lambda>q. res_id q = res_id r \<and> res_version q = res_version r \<and> guard q) (set_reservation i))) (\<lambda>s1.
         out_saved (createRow (otx_events tx) s1 (new_event (fst e) tenantId (res_id r) eventType (rsi_quantity i)))))"

definition move_line :: "line_impact \<Rightarrow> order_line \<Rightarrow> order_line" where
  "move_line i l = l\<lparr>ol_reservedQuantity := oli_reservedAfter i, ol_fulfilledQuantity := oli_fulfilledAfter i,
     ol_version := ol_version l + 1\<rparr>"

definition write_line ::
  "'s outbound_tx \<Rightarrow> out_code \<Rightarrow> (line_impact \<Rightarrow> order_line \<Rightarrow> bool) \<Rightarrow> line_impact \<Rightarrow> 's \<Rightarrow> out_issue + 's" where
  "write_line tx c guard i s =
     out_guarded c (updateMany (otx_orderLines tx) s
       (\<lambda>l. ol_id l = oli_salesOrderLineId i \<and> ol_version l = oli_version i \<and> guard i l) (move_line i))"

text \<open>\<open>zip\<close>ping identifiers: \<open>with_ids gen n xs\<close> gives the \<open>i\<close>-th element the \<open>(n + i)\<close>-th identifier.\<close>

definition with_ids :: "(nat \<Rightarrow> string) \<Rightarrow> nat \<Rightarrow> 'a list \<Rightarrow> (string \<times> 'a) list" where
  "with_ids gen n xs = map (\<lambda>(k, x). (gen k, x)) (enumerate n xs)"

section \<open>Reserving and releasing\<close>

definition new_reservation :: "string \<Rightarrow> string \<Rightarrow> string \<Rightarrow> reserve_entry \<Rightarrow> reservation" where
  "new_reservation resId tenantId orderId e =
     \<lparr>res_id = resId, res_tenantId = tenantId, res_salesOrderId = orderId, res_salesOrderLineId = rve_salesOrderLineId e,
      res_itemId = rve_itemId e, res_sku = rve_sku e, res_warehouseId = rve_warehouseId e,
      res_location = (if rve_location e = [] then None else Some (rve_location e)), res_locationKey = rve_locationKey e,
      res_reservedQuantity = rve_quantity e, res_allocatedQuantity = 0, res_consumedQuantity = 0, res_releasedQuantity = 0,
      res_status = ''active'', res_version = 0\<rparr>"

definition create_reservation ::
  "'s outbound_tx \<Rightarrow> (nat \<Rightarrow> string) \<Rightarrow> string \<Rightarrow> string \<Rightarrow> nat \<times> reserve_entry \<Rightarrow> 's \<Rightarrow> out_issue + 's" where
  "create_reservation tx gen tenantId orderId ne s =
     (let n = fst ne; e = snd ne
      in and_then (out_saved (createRow (otx_reservations tx) s (new_reservation (gen (2 * n + 1)) tenantId orderId e))) (\<lambda>s1.
         out_saved (createRow (otx_events tx) s1
           (new_event (gen (2 * n + 2)) tenantId (gen (2 * n + 1)) ''reserved'' (rve_quantity e)))))"

definition reserveSalesOrderInventory ::
  "(string \<Rightarrow> string \<Rightarrow> bool) \<Rightarrow> 's outbound_tx \<Rightarrow> (nat \<Rightarrow> string) \<Rightarrow> actor \<Rightarrow> reserve_request \<Rightarrow> 's \<Rightarrow> 's out_result" where
  "reserveSalesOrderInventory le tx gen actor q s =
     (let t = act_tenantId actor in
      and_then (normalize_reserve q) (\<lambda>(orderId, version, allocations).
      and_then (out_locked (otx_orders tx) so_id so_tenantId SALES_ORDER_NOT_FOUND t orderId s) (\<lambda>so1.
      and_then (fail_if (so_version so1 \<noteq> version) (Issue SALES_ORDER_VERSION_CONFLICT 409)) (\<lambda>_.
      let plan = buildSalesOrderReservationPlan le tx s t orderId allocations in
      and_then (out_enforce (op_blockingIssues plan)) (\<lambda>_.
      and_then (out_warehouses actor (map rve_warehouseId (op_quantityPlans plan))) (\<lambda>_.
      and_then (each (write_balance tx (\<lambda>i b. bal_tenantId b = t \<and> column_at_least (bal_availableQuantity b) (sti_quantity i)) set_reserved)
          (op_balanceImpacts plan) s) (\<lambda>s1.
      and_then (each (write_line tx SALES_ORDER_VERSION_CONFLICT (\<lambda>i l. ol_salesOrderId l = so_id so1))
          (op_lineImpacts plan) s1) (\<lambda>s2.
      and_then (each (create_reservation tx gen t (so_id so1)) (enumerate 0 (op_quantityPlans plan)) s2) (\<lambda>s3.
      and_then (out_guarded SALES_ORDER_VERSION_CONFLICT (updateMany (otx_orders tx) s3
          (\<lambda>o1. so_id o1 = so_id so1 \<and> so_tenantId o1 = t \<and> so_version o1 = so_version so1)
          (\<lambda>o1. o1\<lparr>so_reservationStatus := fst (op_statusAfter plan), so_version := so_version o1 + 1\<rparr>))) (\<lambda>s4.
      Inr (s4, so_id so1)))))))))))"

definition releaseSalesOrderReservation ::
  "(string \<Rightarrow> string \<Rightarrow> bool) \<Rightarrow> 's outbound_tx \<Rightarrow> (nat \<Rightarrow> string) \<Rightarrow> actor \<Rightarrow> release_request \<Rightarrow> 's \<Rightarrow> 's out_result" where
  "releaseSalesOrderReservation le tx gen actor q s =
     (let t = act_tenantId actor in
      and_then (normalize_release q) (\<lambda>(orderId, version, reason, releases).
      and_then (out_locked (otx_orders tx) so_id so_tenantId SALES_ORDER_NOT_FOUND t orderId s) (\<lambda>so1.
      and_then (fail_if (so_version so1 \<noteq> version) (Issue SALES_ORDER_VERSION_CONFLICT 409)) (\<lambda>_.
      and_then (map_or_fail (\<lambda>e. out_locked (otx_reservations tx) res_id res_tenantId RESERVATION_NOT_FOUND t (rli_reservationId e) s)
          releases) (\<lambda>_.
      let plan = buildReservationReleasePlan le tx s t orderId reason releases in
      and_then (out_enforce (op_blockingIssues plan)) (\<lambda>_.
      and_then (out_warehouses actor (map (\<lambda>i. res_warehouseId (rsi_reservation i)) (op_reservationImpacts plan))) (\<lambda>_.
      and_then (each (write_balance tx (\<lambda>i b. column_at_least (bal_reservedQuantity b) (sti_quantity i)) set_reserved)
          (op_balanceImpacts plan) s) (\<lambda>s1.
      and_then (each (write_line tx RESERVATION_QUANTITY_CONFLICT (\<lambda>i l. ol_reservedQuantity l \<ge> oli_quantity i))
          (op_lineImpacts plan) s1) (\<lambda>s2.
      and_then (each (write_reservation tx RESERVATION_VERSION_CONFLICT (\<lambda>r. res_tenantId r = t) t ''released'')
          (with_ids gen 1 (op_reservationImpacts plan)) s2) (\<lambda>s3.
      and_then (out_saved (updateRow (otx_orders tx) s3 (so_id so1)
          (\<lambda>o1. o1\<lparr>so_reservationStatus := fst (op_statusAfter plan), so_version := so_version o1 + 1\<rparr>))) (\<lambda>s4.
      Inr (s4, so_id so1))))))))))))"

end
