(* ===== verification/Shipment_Service.thy ===== *)
theory Shipment_Service
  imports Outbound_Service
begin

text \<open>
  The commands of \<open>outbound-posting-command-service.mjs\<close> on shipments. \<open>lockShipmentAggregate\<close> checks that
  the shipment is there and returns its lines and allocations.
\<close>

definition shipment_lines :: "'s outbound_tx \<Rightarrow> 's \<Rightarrow> string \<Rightarrow> shipment_line list" where
  "shipment_lines tx s shipmentId = findMany (otx_shipmentLines tx) s (\<lambda>l. spl_shipmentId l = shipmentId)"

definition locked_allocations :: "'s outbound_tx \<Rightarrow> 's \<Rightarrow> string \<Rightarrow> string list \<Rightarrow> allocation list" where
  "locked_allocations tx s tenantId lineIds =
     findMany (otx_allocations tx) s (\<lambda>a. sal_tenantId a = tenantId \<and> sal_shipmentLineId a \<in> set lineIds)"

text \<open>The \<open>updateMany\<close> on the allocations of a shipment in one status.\<close>

definition move_allocations ::
  "'s outbound_tx \<Rightarrow> string \<Rightarrow> string list \<Rightarrow> string \<Rightarrow> string \<Rightarrow> 's \<Rightarrow> out_issue + 's" where
  "move_allocations tx tenantId lineIds status newStatus s =
     out_updated (updateMany (otx_allocations tx) s
       (\<lambda>a. sal_tenantId a = tenantId \<and> sal_shipmentLineId a \<in> set lineIds \<and> sal_status a = status)
       (\<lambda>a. a\<lparr>sal_status := newStatus, sal_version := sal_version a + 1\<rparr>))"

section \<open>Drafting\<close>

definition new_shipment :: "string \<Rightarrow> string \<Rightarrow> string \<Rightarrow> string \<Rightarrow> shipment" where
  "new_shipment shipmentId tenantId number orderId =
     \<lparr>shp_id = shipmentId, shp_tenantId = tenantId, shp_shipmentNumber = number, shp_salesOrderId = orderId,
      shp_workflowStatus = ''ready'', shp_postingStatus = ''unposted'', shp_version = 0\<rparr>"

definition new_shipment_line :: "string \<Rightarrow> string \<Rightarrow> draft_line \<Rightarrow> shipment_line" where
  "new_shipment_line lineId shipmentId l =
     (let o1 = dln_orderLine l
      in \<lparr>spl_id = lineId, spl_shipmentId = shipmentId, spl_salesOrderLineId = ol_id o1, spl_itemId = ol_itemId o1,
          spl_sku = ol_sku o1, spl_requestedQuantity = dln_requestedQuantity l, spl_postedQuantity = 0,
          spl_unit = ol_unit o1, spl_version = 0\<rparr>)"

definition new_allocation :: "string \<Rightarrow> string \<Rightarrow> string \<Rightarrow> reservation \<times> int \<Rightarrow> allocation" where
  "new_allocation allocId tenantId lineId e =
     (let r = fst e
      in \<lparr>sal_id = allocId, sal_tenantId = tenantId, sal_shipmentLineId = lineId, sal_reservationId = res_id r,
          sal_warehouseId = res_warehouseId r, sal_location = res_location r, sal_locationKey = res_locationKey r,
          sal_quantity = snd e, sal_status = ''allocated'', sal_version = 0\<rparr>)"

text \<open>The loop over the planned lines; it also counts the identifiers it takes.\<close>

fun create_shipment_lines ::
  "'s outbound_tx \<Rightarrow> (nat \<Rightarrow> string) \<Rightarrow> string \<Rightarrow> string \<Rightarrow> nat \<Rightarrow> draft_line list \<Rightarrow> 's \<Rightarrow> out_issue + 's" where
  "create_shipment_lines tx gen tenantId shipmentId n [] s = Inr s"
| "create_shipment_lines tx gen tenantId shipmentId n (l # ls) s =
     and_then (out_saved (createRow (otx_shipmentLines tx) s (new_shipment_line (gen n) shipmentId l))) (\<lambda>s1.
     and_then (each (\<lambda>(k, e) s. out_saved (createRow (otx_allocations tx) s (new_allocation k tenantId (gen n) e)))
         (with_ids gen (n + 1) (dln_allocations l)) s1)
       (create_shipment_lines tx gen tenantId shipmentId (n + 1 + length (dln_allocations l)) ls))"

definition ids_taken :: "draft_line list \<Rightarrow> nat" where
  "ids_taken ls = sum_list (map (\<lambda>l. 1 + length (dln_allocations l)) ls)"

definition createShipmentDraft ::
  "(string \<Rightarrow> string \<Rightarrow> bool) \<Rightarrow> 's outbound_tx \<Rightarrow> (nat \<Rightarrow> string) \<Rightarrow> actor \<Rightarrow> draft_request \<Rightarrow> 's \<Rightarrow> 's out_result" where
  "createShipmentDraft le tx gen actor q s =
     (let t = act_tenantId actor in
      and_then (normalize_draft q) (\<lambda>(orderId, number, version, lines).
      and_then (out_locked (otx_orders tx) so_id so_tenantId SALES_ORDER_NOT_FOUND t orderId s) (\<lambda>so1.
      and_then (fail_if (so_version so1 \<noteq> version) (Issue SALES_ORDER_VERSION_CONFLICT 409)) (\<lambda>_.
      and_then (map_or_fail (\<lambda>e. out_locked (otx_reservations tx) res_id res_tenantId RESERVATION_NOT_FOUND t (dai_reservationId e) s)
          (concat (map dli_allocations lines))) (\<lambda>_.
      let plan = buildShipmentDraftPlan le tx s t orderId number lines in
      and_then (out_enforce (op_blockingIssues plan)) (\<lambda>_.
      and_then (out_warehouses actor (map (\<lambda>i. res_warehouseId (rsi_reservation i)) (op_reservationImpacts plan))) (\<lambda>_.
      and_then (out_saved (createRow (otx_shipments tx) s (new_shipment (gen 1) t number (so_id so1)))) (\<lambda>s1.
      and_then (create_shipment_lines tx gen t (gen 1) 2 (op_quantityPlans plan) s1) (\<lambda>s2.
      and_then (each (write_reservation tx OUTBOUND_CONCURRENT_TRANSACTION_CONFLICT (\<lambda>_. True) t ''allocated'')
          (with_ids gen (2 + ids_taken (op_quantityPlans plan)) (op_reservationImpacts plan)) s2) (\<lambda>s3.
      and_then (out_saved (updateRow (otx_orders tx) s3 (so_id so1) (\<lambda>o1. o1\<lparr>so_version := so_version o1 + 1\<rparr>))) (\<lambda>s4.
      Inr (s4, gen 1))))))))))))"

section \<open>Cancelling\<close>

definition cancelShipmentDraft ::
  "(string \<Rightarrow> string \<Rightarrow> bool) \<Rightarrow> 's outbound_tx \<Rightarrow> (nat \<Rightarrow> string) \<Rightarrow> actor \<Rightarrow> shipment_request \<Rightarrow> 's \<Rightarrow> 's out_result" where
  "cancelShipmentDraft le tx gen actor q s =
     (let t = act_tenantId actor in
      and_then (normalize_shipment True q) (\<lambda>(shipmentId, version, reason).
      and_then (out_locked (otx_shipments tx) shp_id shp_tenantId SHIPMENT_NOT_FOUND t shipmentId s) (\<lambda>d.
      and_then (fail_if (shp_version d \<noteq> version) (Issue SHIPMENT_VERSION_CONFLICT 409)) (\<lambda>_.
      let plan = buildShipmentCancellationPlan le tx s t shipmentId reason;
          lineIds = map spl_id (shipment_lines tx s shipmentId);
          locked = locked_allocations tx s t lineIds in
      and_then (out_enforce (op_blockingIssues plan)) (\<lambda>_.
      and_then (out_warehouses actor (map sal_warehouseId locked)) (\<lambda>_.
      and_then (each (write_reservation tx OUTBOUND_CONCURRENT_TRANSACTION_CONFLICT (\<lambda>_. True) t ''deallocated'')
          (with_ids gen 1 (op_reservationImpacts plan)) s) (\<lambda>s1.
      and_then (move_allocations tx t lineIds ''allocated'' ''deallocated'' s1) (\<lambda>s2.
      and_then (out_saved (updateRow (otx_shipments tx) s2 (shp_id d)
          (\<lambda>x. x\<lparr>shp_workflowStatus := ''cancelled'', shp_version := shp_version x + 1\<rparr>))) (\<lambda>s3.
      Inr (s3, shp_id d))))))))))"

section \<open>Posting\<close>

definition shipment_movement ::
  "string \<Rightarrow> string \<Rightarrow> string \<Rightarrow> shipment \<Rightarrow> order_line list \<Rightarrow> shipped \<Rightarrow> outbound_movement" where
  "shipment_movement movId tenantId batchId d orderLines a =
     (let al = shd_allocation a; r = shd_reservation a; line = shd_line a
      in \<lparr>mov_id = movId, mov_tenantId = tenantId, mov_itemId = Some (res_itemId r), mov_sku = res_sku r,
          mov_itemName = (case find (\<lambda>l. ol_id l = spl_salesOrderLineId line) orderLines of None \<Rightarrow> None
            | Some l \<Rightarrow> if ol_itemName l = [] then None else Some (ol_itemName l)),
          mov_warehouseId = Some (sal_warehouseId al), mov_location = sal_location al, mov_locationKey = sal_locationKey al,
          mov_movementType = ''shipment_posting'', mov_sourceDocumentType = Some ''ShipmentDocument'',
          mov_sourceDocumentId = Some (shp_id d), mov_sourceDocumentLineId = Some (sal_id al),
          mov_quantityIn = Some 0, mov_quantityOut = Some (sal_quantity al), mov_adjustmentQty = Some 0,
          mov_status = ''posted'', mov_unit = Some (spl_unit line), mov_postingBatchId = Some batchId,
          mov_reversalOfMovementId = None, mov_reversedByMovementId = None, mov_balanceId = None,
          mov_relatedSalesOrderId = Some (shp_salesOrderId d)\<rparr>)"

definition write_shipment_line :: "'s outbound_tx \<Rightarrow> shipment_line_impact \<Rightarrow> 's \<Rightarrow> out_issue + 's" where
  "write_shipment_line tx i s =
     out_saved (updateRow (otx_shipmentLines tx) s (sli_shipmentLineId i)
       (\<lambda>l. l\<lparr>spl_postedQuantity := sli_postedAfter i, spl_version := spl_version l + 1\<rparr>))"

text \<open>The end of both commands: the statuses of the order and of the shipment.\<close>

definition close_shipment ::
  "'s outbound_tx \<Rightarrow> shipment \<Rightarrow> string \<times> string \<Rightarrow> string \<Rightarrow> 's \<Rightarrow> 's out_result" where
  "close_shipment tx d statuses postingStatus s =
     and_then (out_saved (updateRow (otx_orders tx) s (shp_salesOrderId d)
         (\<lambda>o1. o1\<lparr>so_reservationStatus := fst statuses, so_fulfillmentStatus := snd statuses, so_version := so_version o1 + 1\<rparr>))) (\<lambda>s1.
     and_then (out_saved (updateRow (otx_shipments tx) s1 (shp_id d)
         (\<lambda>x. x\<lparr>shp_postingStatus := postingStatus, shp_version := shp_version x + 1\<rparr>))) (\<lambda>s2.
     Inr (s2, shp_id d)))"

definition postShipment ::
  "(string \<Rightarrow> string \<Rightarrow> bool) \<Rightarrow> 's outbound_tx \<Rightarrow> (nat \<Rightarrow> string) \<Rightarrow> actor \<Rightarrow> shipment_request \<Rightarrow> 's \<Rightarrow> 's out_result" where
  "postShipment le tx gen actor q s =
     (let t = act_tenantId actor in
      and_then (normalize_shipment False q) (\<lambda>(shipmentId, version, _).
      and_then (out_locked (otx_shipments tx) shp_id shp_tenantId SHIPMENT_NOT_FOUND t shipmentId s) (\<lambda>d.
      and_then (out_locked (otx_orders tx) so_id so_tenantId SALES_ORDER_NOT_FOUND t (shp_salesOrderId d) s) (\<lambda>so1.
      and_then (fail_if (so_workflowStatus so1 = ''on_hold'') (Issue SALES_ORDER_ON_HOLD 409)) (\<lambda>_.
      and_then (fail_if (so_workflowStatus so1 \<noteq> ''confirmed'') (Issue SALES_ORDER_INVALID_STATE 409)) (\<lambda>_.
      and_then (fail_if (shp_version d \<noteq> version) (Issue SHIPMENT_VERSION_CONFLICT 409)) (\<lambda>_.
      let plan = buildShipmentPostingPlan le tx s t shipmentId;
          lineIds = map spl_id (shipment_lines tx s shipmentId);
          locked = locked_allocations tx s t lineIds;
          orderLines = order_lines tx s (shp_salesOrderId d);
          n = length (op_quantityPlans plan) in
      and_then (out_enforce (op_blockingIssues plan)) (\<lambda>_.
      and_then (out_warehouses actor (map sal_warehouseId locked)) (\<lambda>_.
      and_then (each (\<lambda>e s. out_saved (createRow (otx_movements tx) s
            (shipment_movement (fst e) t (gen 1) d orderLines (snd e))))
          (with_ids gen 2 (op_quantityPlans plan)) s) (\<lambda>s1.
      and_then (each (write_balance tx (\<lambda>i b. column_at_least (bal_onHandQuantity b) (sti_quantity i)
            \<and> column_at_least (bal_reservedQuantity b) (sti_quantity i)) set_stock) (op_balanceImpacts plan) s1) (\<lambda>s2.
      and_then (each (write_reservation tx OUTBOUND_CONCURRENT_TRANSACTION_CONFLICT (\<lambda>_. True) t ''consumed'')
          (with_ids gen (2 + n) (op_reservationImpacts plan)) s2) (\<lambda>s3.
      and_then (each (write_line tx OUTBOUND_CONCURRENT_TRANSACTION_CONFLICT (\<lambda>_ _. True)) (op_lineImpacts plan) s3) (\<lambda>s4.
      and_then (each (write_shipment_line tx) (op_shipmentLineImpacts plan) s4) (\<lambda>s5.
      and_then (move_allocations tx t lineIds ''allocated'' ''consumed'' s5) (\<lambda>s6.
      close_shipment tx d (op_statusAfter plan) ''posted'' s6)))))))))))))))"

section \<open>Reversing\<close>

definition reversal_movement ::
  "string \<Rightarrow> string \<Rightarrow> string \<Rightarrow> shipment \<Rightarrow> shipped \<Rightarrow> outbound_movement \<Rightarrow> outbound_movement" where
  "reversal_movement movId tenantId batchId d a original =
     original\<lparr>mov_id := movId, mov_tenantId := tenantId,
       mov_itemId := (case mov_itemId original of None \<Rightarrow> Some (res_itemId (shd_reservation a))
         | Some i \<Rightarrow> if i = [] then Some (res_itemId (shd_reservation a)) else Some i),
       mov_movementType := ''shipment_reversal'', mov_sourceDocumentType := Some ''ShipmentDocument'',
       mov_sourceDocumentId := Some (shp_id d), mov_sourceDocumentLineId := Some (sal_id (shd_allocation a)),
       mov_quantityIn := Some (sal_quantity (shd_allocation a)), mov_quantityOut := Some 0, mov_adjustmentQty := Some 0,
       mov_status := ''posted'', mov_postingBatchId := Some batchId, mov_reversalOfMovementId := Some (mov_id original),
       mov_reversedByMovementId := None, mov_balanceId := None, mov_relatedSalesOrderId := Some (shp_salesOrderId d)\<rparr>"

definition reverse_movement ::
  "'s outbound_tx \<Rightarrow> string \<Rightarrow> string \<Rightarrow> shipment \<Rightarrow> string \<times> shipped \<times> outbound_movement \<Rightarrow> 's \<Rightarrow> out_issue + 's" where
  "reverse_movement tx tenantId batchId d e s =
     (let original = snd (snd e); reversal = reversal_movement (fst e) tenantId batchId d (fst (snd e)) original
      in and_then (out_saved (createRow (otx_movements tx) s reversal)) (\<lambda>s1.
         out_saved (updateRow (otx_movements tx) s1 (mov_id original) (\<lambda>m. m\<lparr>mov_reversedByMovementId := Some (mov_id reversal)\<rparr>))))"

definition reverseShipment ::
  "(string \<Rightarrow> string \<Rightarrow> bool) \<Rightarrow> 's outbound_tx \<Rightarrow> (nat \<Rightarrow> string) \<Rightarrow> actor \<Rightarrow> shipment_request \<Rightarrow> 's \<Rightarrow> 's out_result" where
  "reverseShipment le tx gen actor q s =
     (let t = act_tenantId actor in
      and_then (normalize_shipment True q) (\<lambda>(shipmentId, version, reason).
      and_then (out_locked (otx_shipments tx) shp_id shp_tenantId SHIPMENT_NOT_FOUND t shipmentId s) (\<lambda>d.
      and_then (out_locked (otx_orders tx) so_id so_tenantId SALES_ORDER_NOT_FOUND t (shp_salesOrderId d) s) (\<lambda>so1.
      and_then (fail_if (shp_version d \<noteq> version) (Issue SHIPMENT_VERSION_CONFLICT 409)) (\<lambda>_.
      let plan = buildShipmentReversalPlan le tx s t shipmentId reason;
          lineIds = map spl_id (shipment_lines tx s shipmentId);
          locked = locked_allocations tx s t lineIds;
          n = length (op_quantityPlans plan) in
      and_then (out_enforce (op_blockingIssues plan)) (\<lambda>_.
      and_then (out_warehouses actor (map sal_warehouseId locked)) (\<lambda>_.
      and_then (each (reverse_movement tx t (gen 1) d) (with_ids gen 2 (op_quantityPlans plan)) s) (\<lambda>s1.
      and_then (each (write_balance tx (\<lambda>_ _. True) set_stock) (op_balanceImpacts plan) s1) (\<lambda>s2.
      and_then (each (write_reservation tx OUTBOUND_CONCURRENT_TRANSACTION_CONFLICT (\<lambda>_. True) t ''restored'')
          (with_ids gen (2 + n) (op_reservationImpacts plan)) s2) (\<lambda>s3.
      and_then (each (\<lambda>i s. out_saved (updateRow (otx_orderLines tx) s (oli_salesOrderLineId i) (move_line i)))
          (op_lineImpacts plan) s3) (\<lambda>s4.
      and_then (each (write_shipment_line tx) (op_shipmentLineImpacts plan) s4) (\<lambda>s5.
      and_then (move_allocations tx t lineIds ''consumed'' ''reversed'' s5) (\<lambda>s6.
      close_shipment tx d (op_statusAfter plan) ''reversed'' s6)))))))))))))"

end
