(* ===== verification/Sales_Orders.thy ===== *)
theory Sales_Orders
  imports Shipment_Service
begin

text \<open>
  The life of a sales order before it is shipped, from \<open>sales-order-workbench-service.mjs\<close>: creating
  and revising a draft, confirming, holding and resuming. The lines of an order get their identifiers from
  \<open>randomUUID\<close>, the argument \<open>uuid\<close>; the order itself from \<open>idFactory\<close>. The promised date is not modelled.
  \<open>outbound_command\<close> collects the nine commands that write the tables of \<open>Outbound_Rows\<close>.
\<close>

section \<open>Lines\<close>

record order_line_input =
  oin_itemId :: string
  oin_quantity :: string
  oin_unitPrice :: "string option"

definition order_invalid :: out_issue where
  "order_invalid = Issue SALES_ORDER_VALIDATION_FAILED 422"

definition order_quantity :: "string \<Rightarrow> out_issue + int" where
  "order_quantity v = (case outboundDecimalUnits (Some v) of
     Inl _ \<Rightarrow> Inl order_invalid | Inr r \<Rightarrow> if r \<le> 0 then Inl order_invalid else Inr r)"

definition order_price :: "string option \<Rightarrow> out_issue + int option" where
  "order_price v = (if js_text v = [] then Inr None else
     (case outboundDecimalUnits v of
        Inl _ \<Rightarrow> Inl order_invalid | Inr r \<Rightarrow> if r < 0 then Inl order_invalid else Inr (Some r)))"

definition order_amount :: "int \<Rightarrow> int option \<Rightarrow> int option" where
  "order_amount quantity price = map_option (\<lambda>p. (quantity * p + 5000) div SCALE) price"

definition normalize_order_line :: "order_line_input \<Rightarrow> out_issue + string \<times> int \<times> int option" where
  "normalize_order_line l =
     and_then (order_quantity (oin_quantity l)) (\<lambda>quantity.
     and_then (order_price (oin_unitPrice l)) (\<lambda>price. Inr (js_trim (oin_itemId l), quantity, price)))"

definition new_order_line :: "string \<Rightarrow> string \<Rightarrow> outbound_item \<Rightarrow> int \<Rightarrow> int option \<Rightarrow> order_line" where
  "new_order_line lineId orderId item quantity price =
     \<lparr>ol_id = lineId, ol_salesOrderId = orderId, ol_itemId = oit_id item, ol_sku = oit_sku item, ol_itemName = oit_name item,
      ol_orderedQuantity = quantity, ol_reservedQuantity = 0, ol_fulfilledQuantity = 0,
      ol_unit = (if js_text (oit_unit item) = [] then ''EA'' else js_text (oit_unit item)),
      ol_unitPrice = price, ol_amount = order_amount quantity price, ol_version = 0\<rparr>"

definition authoritativeLines ::
  "'s outbound_tx \<Rightarrow> 's \<Rightarrow> (nat \<Rightarrow> string) \<Rightarrow> string \<Rightarrow> string \<Rightarrow> order_line_input list \<Rightarrow> out_issue + order_line list" where
  "authoritativeLines tx s uuid tenantId orderId lines =
     and_then (fail_if (lines = []) order_invalid) (\<lambda>_.
     and_then (map_or_fail normalize_order_line lines) (\<lambda>normalized.
     and_then (fail_if (list_ex (\<lambda>l. fst l = []) normalized) order_invalid) (\<lambda>_.
     let items = findMany (otx_items tx) s
           (\<lambda>i. oit_tenantId i = tenantId \<and> oit_id i \<in> set (map fst normalized) \<and> oit_status i = ''active'')
     in map_or_fail (\<lambda>(n, itemId, quantity, price).
          case last_by oit_id items itemId of
            None \<Rightarrow> Inl (Issue SALES_ORDER_ITEM_INVALID 422)
          | Some item \<Rightarrow> Inr (new_order_line (uuid n) orderId item quantity price)) (enumerate 0 normalized))))"

section \<open>Drafts\<close>

record order_request =
  orr_orderNumber :: string
  orr_customerName :: string
  orr_customerId :: string
  orr_currency :: string
  orr_lines :: "order_line_input list"

definition create_order_lines :: "'s outbound_tx \<Rightarrow> order_line list \<Rightarrow> 's \<Rightarrow> out_issue + 's" where
  "create_order_lines tx lines s = each (\<lambda>l s. out_saved (createRow (otx_orderLines tx) s l)) lines s"

definition createOrder ::
  "'s outbound_tx \<Rightarrow> (nat \<Rightarrow> string) \<Rightarrow> (nat \<Rightarrow> string) \<Rightarrow> actor \<Rightarrow> order_request \<Rightarrow> 's \<Rightarrow> 's out_result" where
  "createOrder tx gen uuid actor q s =
     (let t = act_tenantId actor; number = js_trim (orr_orderNumber q); name = js_trim (orr_customerName q);
          currency = js_upper (js_trim (orr_currency q)) in
      and_then (fail_if (number = [] \<or> name = [] \<or> \<not> currency_code currency) order_invalid) (\<lambda>_.
      and_then (fail_if (findFirst (otx_orders tx) s (\<lambda>o1. so_tenantId o1 = t \<and> so_orderNumber o1 = number) \<noteq> None)
          (Issue SALES_ORDER_NUMBER_CONFLICT 409)) (\<lambda>_.
      and_then (authoritativeLines tx s uuid t (gen 1) (orr_lines q)) (\<lambda>lines.
      and_then (out_saved (createRow (otx_orders tx) s
          \<lparr>so_id = gen 1, so_tenantId = t, so_orderNumber = number,
           so_customerId = (if js_trim (orr_customerId q) = [] then None else Some (js_trim (orr_customerId q))),
           so_customerName = name, so_workflowStatus = ''draft'', so_reservationStatus = ''not_reserved'',
           so_fulfillmentStatus = ''not_fulfilled'', so_currency = currency, so_version = 0\<rparr>)) (\<lambda>s1.
      and_then (create_order_lines tx lines s1) (\<lambda>s2. Inr (s2, gen 1)))))))"

record revision_request =
  orv_id :: string
  orv_expectedOrderVersion :: "int option"
  orv_revisionMode :: string
  orv_expectedLineIds :: "string list"
  orv_header :: order_request

definition order_version :: "int option \<Rightarrow> out_issue + int" where
  "order_version v = (case v of None \<Rightarrow> Inl order_invalid | Some n \<Rightarrow> if n < 0 then Inl order_invalid else Inr n)"

definition reviseOrder :: "'s outbound_tx \<Rightarrow> (nat \<Rightarrow> string) \<Rightarrow> actor \<Rightarrow> revision_request \<Rightarrow> 's \<Rightarrow> 's out_result" where
  "reviseOrder tx uuid actor q s =
     (let t = act_tenantId actor; h = orv_header q in
      and_then (order_version (orv_expectedOrderVersion q)) (\<lambda>version.
      and_then (out_locked (otx_orders tx) so_id so_tenantId SALES_ORDER_NOT_FOUND t (js_trim (orv_id q)) s) (\<lambda>current.
      and_then (fail_if (so_workflowStatus current \<noteq> ''draft'') (Issue SALES_ORDER_INVALID_STATE 409)) (\<lambda>_.
      and_then (fail_if (so_version current \<noteq> version) (Issue SALES_ORDER_VERSION_CONFLICT 409)) (\<lambda>_.
      and_then (fail_if (findMany (otx_reservations tx) s (\<lambda>r. res_salesOrderId r = so_id current) \<noteq> []
            \<or> findMany (otx_shipments tx) s (\<lambda>d. shp_salesOrderId d = so_id current) \<noteq> [])
          (Issue SALES_ORDER_INVALID_STATE 409)) (\<lambda>_.
      and_then (fail_if (orv_revisionMode q \<noteq> ''replace_all''
            \<or> js_sort (\<le>) (map js_trim (orv_expectedLineIds q)) \<noteq> js_sort (\<le>) (map ol_id (order_lines tx s (so_id current))))
          (Issue SALES_ORDER_DRAFT_REVISION_INCOMPLETE 409)) (\<lambda>_.
      and_then (authoritativeLines tx s uuid t (so_id current) (orr_lines h)) (\<lambda>lines.
      let currency = js_upper (js_trim (if orr_currency h = [] then so_currency current else orr_currency h)) in
      and_then (fail_if (\<not> currency_code currency) order_invalid) (\<lambda>_.
      let s1 = deleteMany (otx_orderLines tx) s (\<lambda>l. ol_salesOrderId l = so_id current) in
      and_then (out_saved (updateRow (otx_orders tx) s1 (so_id current)
          (\<lambda>o1. o1\<lparr>so_customerName := js_trim (if orr_customerName h = [] then so_customerName current else orr_customerName h),
                 so_customerId := (if js_trim (orr_customerId h) = [] then None else Some (js_trim (orr_customerId h))),
                 so_currency := currency, so_version := so_version o1 + 1\<rparr>))) (\<lambda>s2.
      and_then (create_order_lines tx lines s2) (\<lambda>s3. Inr (s3, so_id current))))))))))))"

section \<open>Confirming, holding and resuming\<close>

datatype order_action = Confirm | Hold_order | Resume

definition transition_edge :: "order_action \<Rightarrow> string \<times> string" where
  "transition_edge action = (case action of
       Confirm \<Rightarrow> (''draft'', ''confirmed'') | Hold_order \<Rightarrow> (''confirmed'', ''on_hold'') | Resume \<Rightarrow> (''on_hold'', ''confirmed''))"

definition transition ::
  "'s outbound_tx \<Rightarrow> (nat \<Rightarrow> string) \<Rightarrow> actor \<Rightarrow> order_action \<Rightarrow> string \<Rightarrow> int option \<Rightarrow> 's \<Rightarrow> 's out_result" where
  "transition tx uuid actor action orderId expected s =
     (let t = act_tenantId actor in
      and_then (order_version expected) (\<lambda>version.
      and_then (out_locked (otx_orders tx) so_id so_tenantId SALES_ORDER_NOT_FOUND t (js_trim orderId) s) (\<lambda>current.
      and_then (fail_if (so_version current \<noteq> version) (Issue SALES_ORDER_VERSION_CONFLICT 409)) (\<lambda>_.
      and_then (fail_if (so_workflowStatus current \<noteq> fst (transition_edge action)) (Issue SALES_ORDER_INVALID_STATE 409)) (\<lambda>_.
      let lines = order_lines tx s (so_id current) in
      and_then (fail_if (lines = []) order_invalid) (\<lambda>_.
      and_then (authoritativeLines tx s uuid t (so_id current)
          (map (\<lambda>l. \<lparr>oin_itemId = ol_itemId l, oin_quantity = outboundDecimalString (ol_orderedQuantity l),
             oin_unitPrice = map_option outboundDecimalString (ol_unitPrice l)\<rparr>) lines)) (\<lambda>_.
      and_then (out_saved (updateRow (otx_orders tx) s (so_id current)
          (\<lambda>o1. o1\<lparr>so_workflowStatus := snd (transition_edge action), so_version := so_version o1 + 1\<rparr>))) (\<lambda>s1.
      Inr (s1, so_id current)))))))))"

section \<open>All commands\<close>

datatype outbound_command =
    Create_order order_request
  | Revise_order revision_request
  | Transition order_action string "int option"
  | Reserve reserve_request
  | Release_reservation release_request
  | Create_shipment_draft draft_request
  | Cancel_shipment shipment_request
  | Post_shipment shipment_request
  | Reverse_shipment shipment_request

fun run_outbound ::
  "(string \<Rightarrow> string \<Rightarrow> bool) \<Rightarrow> 's outbound_tx \<Rightarrow> (nat \<Rightarrow> string) \<Rightarrow> (nat \<Rightarrow> string) \<Rightarrow> actor \<Rightarrow> outbound_command \<Rightarrow> 's \<Rightarrow> 's out_result" where
  "run_outbound le tx gen uuid actor (Create_order q) s = createOrder tx gen uuid actor q s"
| "run_outbound le tx gen uuid actor (Revise_order q) s = reviseOrder tx uuid actor q s"
| "run_outbound le tx gen uuid actor (Transition action k v) s = transition tx uuid actor action k v s"
| "run_outbound le tx gen uuid actor (Reserve q) s = reserveSalesOrderInventory le tx gen actor q s"
| "run_outbound le tx gen uuid actor (Release_reservation q) s = releaseSalesOrderReservation le tx gen actor q s"
| "run_outbound le tx gen uuid actor (Create_shipment_draft q) s = createShipmentDraft le tx gen actor q s"
| "run_outbound le tx gen uuid actor (Cancel_shipment q) s = cancelShipmentDraft le tx gen actor q s"
| "run_outbound le tx gen uuid actor (Post_shipment q) s = postShipment le tx gen actor q s"
| "run_outbound le tx gen uuid actor (Reverse_shipment q) s = reverseShipment le tx gen actor q s"

end
