(* ===== verification/Outbound_Store.thy ===== *)
theory Outbound_Store
  imports Sales_Orders
begin

text \<open>
  What the outbound commands rely on of their database: each model of \<open>outbound_tx\<close> is a table of one
  state, with the unique indexes of \<open>prisma/schema.prisma\<close>. The database made of lists satisfies it.
\<close>

record out_tables =
  ot_orders :: "sales_order list"
  ot_orderLines :: "order_line list"
  ot_reservations :: "reservation list"
  ot_events :: "reservation_event list"
  ot_shipments :: "shipment list"
  ot_shipmentLines :: "shipment_line list"
  ot_allocations :: "allocation list"
  ot_balances :: "balance list"
  ot_movements :: "outbound_movement list"
  ot_items :: "outbound_item list"
  ot_warehouses :: "warehouse list"

section \<open>Unique indexes\<close>

definition order_clash :: "sales_order \<Rightarrow> sales_order \<Rightarrow> bool" where
  "order_clash a b \<longleftrightarrow> so_id a = so_id b \<or> so_tenantId a = so_tenantId b \<and> so_orderNumber a = so_orderNumber b"

definition shipment_clash :: "shipment \<Rightarrow> shipment \<Rightarrow> bool" where
  "shipment_clash a b \<longleftrightarrow> shp_id a = shp_id b
     \<or> shp_tenantId a = shp_tenantId b \<and> shp_shipmentNumber a = shp_shipmentNumber b"

definition balance_clash :: "balance \<Rightarrow> balance \<Rightarrow> bool" where
  "balance_clash a b \<longleftrightarrow> bal_id a = bal_id b
     \<or> bal_tenantId a = bal_tenantId b \<and> bal_sku a = bal_sku b \<and> bal_warehouseKey a = bal_warehouseKey b
       \<and> bal_locationKey a = bal_locationKey b"

definition movement_clash :: "outbound_movement \<Rightarrow> outbound_movement \<Rightarrow> bool" where
  "movement_clash a b \<longleftrightarrow> mov_id a = mov_id b
     \<or> mov_tenantId a = mov_tenantId b \<and> mov_movementType a = mov_movementType b
       \<and> same_some (mov_sourceDocumentLineId a) (mov_sourceDocumentLineId b)
     \<or> same_some (mov_reversalOfMovementId a) (mov_reversalOfMovementId b)
     \<or> same_some (mov_reversedByMovementId a) (mov_reversedByMovementId b)"

definition item_clash :: "outbound_item \<Rightarrow> outbound_item \<Rightarrow> bool" where
  "item_clash a b \<longleftrightarrow> oit_id a = oit_id b \<or> oit_tenantId a = oit_tenantId b \<and> oit_sku a = oit_sku b"

lemmas clash_defs = order_clash_def shipment_clash_def balance_clash_def movement_clash_def item_clash_def

section \<open>The interface\<close>

locale outbound_store =
  orders: prisma_table "otx_orders tx" tables ot_orders ot_orders_update so_id order_clash "\<lambda>_. True"
  + lines: prisma_table "otx_orderLines tx" tables ot_orderLines ot_orderLines_update ol_id "\<lambda>a b. ol_id a = ol_id b" "\<lambda>_. True"
  + reservations: prisma_table "otx_reservations tx" tables ot_reservations ot_reservations_update res_id "\<lambda>a b. res_id a = res_id b" "\<lambda>_. True"
  + events: prisma_table "otx_events tx" tables ot_events ot_events_update rev_id "\<lambda>a b. rev_id a = rev_id b" "\<lambda>_. True"
  + shipments: prisma_table "otx_shipments tx" tables ot_shipments ot_shipments_update shp_id shipment_clash "\<lambda>_. True"
  + shiplines: prisma_table "otx_shipmentLines tx" tables ot_shipmentLines ot_shipmentLines_update spl_id "\<lambda>a b. spl_id a = spl_id b" "\<lambda>_. True"
  + allocations: prisma_table "otx_allocations tx" tables ot_allocations ot_allocations_update sal_id "\<lambda>a b. sal_id a = sal_id b" "\<lambda>_. True"
  + balances: prisma_table "otx_balances tx" tables ot_balances ot_balances_update bal_id balance_clash "\<lambda>_. True"
  + movements: prisma_table "otx_movements tx" tables ot_movements ot_movements_update mov_id movement_clash "\<lambda>_. True"
  + items: prisma_table "otx_items tx" tables ot_items ot_items_update oit_id item_clash "\<lambda>_. True"
  + warehouses: prisma_table "otx_warehouses tx" tables ot_warehouses ot_warehouses_update wh_id "\<lambda>a b. wh_id a = wh_id b" "\<lambda>_. True"
  for tx :: "'s outbound_tx" and tables :: "'s \<Rightarrow> out_tables"

section \<open>The database of lists\<close>

definition list_outbound :: "out_tables outbound_tx" where
  "list_outbound =
     \<lparr>otx_orders = list_model ot_orders ot_orders_update so_id order_clash (\<lambda>_. True),
      otx_orderLines = list_model ot_orderLines ot_orderLines_update ol_id (\<lambda>a b. ol_id a = ol_id b) (\<lambda>_. True),
      otx_reservations = list_model ot_reservations ot_reservations_update res_id (\<lambda>a b. res_id a = res_id b) (\<lambda>_. True),
      otx_events = list_model ot_events ot_events_update rev_id (\<lambda>a b. rev_id a = rev_id b) (\<lambda>_. True),
      otx_shipments = list_model ot_shipments ot_shipments_update shp_id shipment_clash (\<lambda>_. True),
      otx_shipmentLines = list_model ot_shipmentLines ot_shipmentLines_update spl_id (\<lambda>a b. spl_id a = spl_id b) (\<lambda>_. True),
      otx_allocations = list_model ot_allocations ot_allocations_update sal_id (\<lambda>a b. sal_id a = sal_id b) (\<lambda>_. True),
      otx_balances = list_model ot_balances ot_balances_update bal_id balance_clash (\<lambda>_. True),
      otx_movements = list_model ot_movements ot_movements_update mov_id movement_clash (\<lambda>_. True),
      otx_items = list_model ot_items ot_items_update oit_id item_clash (\<lambda>_. True),
      otx_warehouses = list_model ot_warehouses ot_warehouses_update wh_id (\<lambda>a b. wh_id a = wh_id b) (\<lambda>_. True)\<rparr>"

interpretation outbound_lists: outbound_store list_outbound "\<lambda>s. s"
  unfolding outbound_store_def list_outbound_def
  by (simp add: list_model_table clash_defs)

end
