(* ===== verification/Grouped_Impacts.thy ===== *)
theory Grouped_Impacts
  imports Prisma_Tables
begin

text \<open>
  The scheme that the posting plans share: a loop adds the quantities of many items up by a text key
  in a \<open>Map\<close>, a second loop over the sorted keys finds the row of each key and plans its impact, and
  a third writes the impacts. \<open>grouped_write\<close> says what the three do to the table: every row at the
  place of some item changes once, by the total quantity of the items at its place.
\<close>

lemma add_all_keys: "set (sorted_ids le (map fst (add_all gk qty xs []))) = gk ` set xs - {[]}"
  using keys_add_all [of gk qty xs "[]"] by (simp add: image_set [symmetric] del: image_set)

lemma find_map_key:
  assumes "distinct (map (\<lambda>k. kid (f k)) ks)"
  shows "find (\<lambda>i. kid i = y) (map f ks) = map_option f (find (\<lambda>k. kid (f k) = y) ks)"
  using assms by (induction ks) auto

lemma find_distinct:
  "distinct (map g ks) \<Longrightarrow> k \<in> set ks \<Longrightarrow> find (\<lambda>j. g j = g k) ks = Some k"
  by (induction ks) (auto simp: rev_image_eqI)

lemma grouped:
  fixes gk :: "'x \<Rightarrow> string" and place :: "'x \<Rightarrow> 'p" and rk :: "'r \<Rightarrow> 'k" and spot :: "'r \<Rightarrow> 'p"
  defines "m \<equiv> \<lambda>xs qty. add_all gk qty xs []"
  assumes planned: "\<And>k. k \<in> gk ` set xs \<Longrightarrow>
      \<exists>x\<in>set xs. \<exists>r\<in>set rs. gk x = k \<and> place x = spot r \<and> plan k = [I r (get0 (m xs qty) k)]"
    and inj: "\<And>x y. x \<in> set xs \<Longrightarrow> y \<in> set xs \<Longrightarrow> gk x = gk y \<longleftrightarrow> place x = place y"
    and ne: "\<And>x. x \<in> set xs \<Longrightarrow> gk x \<noteq> []"
    and uniq: "\<And>r q. r \<in> set rs \<Longrightarrow> q \<in> set rs \<Longrightarrow> spot r = spot q \<or> rk r = rk q \<Longrightarrow> r = q"
    and kid: "\<And>r q. kid (I r q) = rk r"
    and imps: "imps = concat (map plan (sorted_ids le (map fst (m xs qty))))"
  shows "distinct (map kid imps)"
    and "r \<in> set rs \<Longrightarrow> find (\<lambda>i. kid i = rk r) imps
      = (if spot r \<in> place ` set xs then Some (I r (sum_at place qty xs (spot r))) else None)"
proof -
  let ?ks = "sorted_ids le (map fst (m xs qty))"
  have ks: "set ?ks = gk ` set xs" using add_all_keys [of le gk qty xs] ne unfolding m_def by auto
  obtain \<rho> where \<rho>: "\<And>k. k \<in> gk ` set xs \<Longrightarrow>
      \<rho> k \<in> set rs \<and> (\<exists>x\<in>set xs. gk x = k \<and> place x = spot (\<rho> k)) \<and> plan k = [I (\<rho> k) (get0 (m xs qty) k)]"
    using planned by (metis (no_types, lifting))
  have total: "get0 (m xs qty) k = sum_at place qty xs (spot (\<rho> k))" if "k \<in> gk ` set xs" for k
  proof -
    from \<rho> [OF that] obtain x where x: "x \<in> set xs" "gk x = k" "place x = spot (\<rho> k)" by blast
    have "filter (\<lambda>y. gk y = k) xs = filter (\<lambda>y. place y = spot (\<rho> k)) xs"
      using inj x by (intro filter_cong) auto
    then show ?thesis by (simp add: m_def get0_add_all sum_at_def)
  qed
  let ?f = "\<lambda>k. I (\<rho> k) (sum_at place qty xs (spot (\<rho> k)))"
  have "plan k = [?f k]" if "k \<in> set ?ks" for k
    using \<rho> [of k] total [of k] that [unfolded ks] by simp
  then have "imps = concat (map (\<lambda>k. [?f k]) ?ks)"
    unfolding imps by (intro arg_cong [where f = concat] map_cong refl)
  then have imps': "imps = map ?f ?ks" by simp
  have \<rho>_inj: "k = k'" if "k \<in> gk ` set xs" "k' \<in> gk ` set xs" "rk (\<rho> k) = rk (\<rho> k')" for k k'
  proof -
    have "\<rho> k = \<rho> k'" using uniq \<rho> that by metis
    moreover from \<rho> [OF that(1)] obtain x where "x \<in> set xs" "gk x = k" "place x = spot (\<rho> k)" by blast
    moreover from \<rho> [OF that(2)] obtain x' where "x' \<in> set xs" "gk x' = k'" "place x' = spot (\<rho> k')" by blast
    ultimately show ?thesis using inj by metis
  qed
  have inj_on: "inj_on (\<lambda>k. rk (\<rho> k)) (gk ` set xs)" by (rule inj_onI) (rule \<rho>_inj)
  have dist: "distinct (map (\<lambda>k. kid (?f k)) ?ks)"
    using inj_on ks by (simp add: kid distinct_map)
  then show "distinct (map kid imps)" by (simp add: imps' comp_def)
  assume r: "r \<in> set rs"
  have fnd: "find (\<lambda>i. kid i = rk r) imps = map_option ?f (find (\<lambda>k. rk (\<rho> k) = rk r) ?ks)"
    unfolding imps' using find_map_key [of kid ?f ?ks "rk r"] dist by (simp add: kid)
  show "find (\<lambda>i. kid i = rk r) imps
      = (if spot r \<in> place ` set xs then Some (I r (sum_at place qty xs (spot r))) else None)"
  proof (cases "spot r \<in> place ` set xs")
    case True
    then obtain x where x: "x \<in> set xs" "place x = spot r" by auto
    then have k: "gk x \<in> gk ` set xs" by blast
    then obtain y where "y \<in> set xs" "gk y = gk x" "place y = spot (\<rho> (gk x))" using \<rho> by metis
    then have "spot (\<rho> (gk x)) = spot r" using inj x by metis
    then have \<rho>r: "\<rho> (gk x) = r" using uniq \<rho> [OF k] r by blast
    have "gk x \<in> set ?ks" unfolding ks by (rule k)
    then have "find (\<lambda>k. rk (\<rho> k) = rk r) ?ks = Some (gk x)"
      using find_distinct [of "\<lambda>k. rk (\<rho> k)" ?ks "gk x"] dist [unfolded kid] \<rho>r by metis
    then show ?thesis using fnd True \<rho>r by simp
  next
    case False
    have "rk (\<rho> k) \<noteq> rk r" if "k \<in> set ?ks" for k
    proof
      assume "rk (\<rho> k) = rk r"
      then have "\<rho> k = r" using uniq \<rho> r that ks by blast
      then show False using \<rho> that ks False by (metis image_eqI)
    qed
    then have "find (\<lambda>k. rk (\<rho> k) = rk r) ?ks = None" by (auto simp: find_None_iff)
    then show ?thesis using fnd False by simp
  qed
qed

lemma grouped_write:
  assumes "\<And>r. r \<in> set rs \<Longrightarrow> find (\<lambda>i. kid i = rk r) imps
      = (if spot r \<in> place ` set xs then Some (I r (sum_at place qty xs (spot r))) else None)"
  shows "write_all kid rk f imps rs
    = map (\<lambda>r. if spot r \<in> place ` set xs then f (I r (sum_at place qty xs (spot r))) r else r) rs"
  unfolding write_all_def using assms by (intro map_cong refl) simp

text \<open>Adding up at a place through the rows that the items refer to.\<close>

lemma sum_at_via:
  assumes "\<And>x. x \<in> set xs \<Longrightarrow> \<exists>r\<in>set rs. rk r = via x \<and> spot r = place x" "distinct (map rk rs)"
  shows "sum_at place qty xs p = sum_list (map (\<lambda>r. if spot r = p then sum_at via qty xs (rk r) else 0) rs)"
  using assms(1)
proof (induction xs)
  case Nil
  show ?case by (simp add: sum_list_zero)
next
  case (Cons x xs)
  obtain r where r: "r \<in> set rs" "rk r = via x" "spot r = place x" using Cons.prems [of x] by auto
  have one: "sum_list (map (\<lambda>q. if spot q = p \<and> rk q = via x then qty x else 0) rs) = (if place x = p then qty x else 0)"
    using r assms(2)
  proof (induction rs)
    case (Cons q rs)
    have rest: "sum_list (map (\<lambda>q. if spot q = p \<and> rk q = via x then qty x else 0) rs) = 0" if "rk q = via x"
      using that Cons.prems(4) by (intro sum_list_zero) (auto simp: rev_image_eqI)
    show ?case
    proof (cases "rk q = via x")
      case True
      then have "q = r" using Cons.prems by (auto simp: rev_image_eqI)
      then show ?thesis using True rest Cons.prems(3) by auto
    next
      case False
      then show ?thesis using Cons by auto
    qed
  qed simp
  have "sum_list (map (\<lambda>q. if spot q = p then sum_at via qty (x # xs) (rk q) else 0) rs)
    = sum_list (map (\<lambda>q. (if spot q = p \<and> rk q = via x then qty x else 0) + (if spot q = p then sum_at via qty xs (rk q) else 0)) rs)"
    by (intro arg_cong [where f = sum_list] map_cong) auto
  also have "\<dots> = (if place x = p then qty x else 0) + sum_at place qty xs p"
    using Cons one by (simp add: sum_list_addf)
  finally show ?case by simp
qed

end
