(* ===== verification/Outbound_Ledger.thy ===== *)
theory Outbound_Ledger
  imports Outbound_Store Grouped_Impacts
begin

text \<open>
  The books of outbound stock: what reservations, order lines, balances and shipments say of each
  other (\<open>out_inv\<close>), and an abstract machine on the tables whose steps keep it.

  Each posting of \<open>outbound-posting-command-service.mjs\<close> moves quantities of reservations from one column
  to another: \<open>ledger_move\<close> names the five ways, \<open>e\<close> the quantity for each reservation. The order
  lines and the balances move by what their reservations move by.
\<close>

section \<open>What the tables say\<close>

type_synonym stock_place = "string \<times> string \<times> string \<times> string"

definition res_place :: "reservation \<Rightarrow> stock_place" where
  "res_place r = (res_tenantId r, res_sku r, res_warehouseId r, res_locationKey r)"

definition bal_place :: "balance \<Rightarrow> stock_place" where
  "bal_place b = (bal_tenantId b, bal_sku b, bal_warehouseKey b, bal_locationKey b)"

text \<open>The place of a movement; a reversal copies the location key of its original untrimmed.\<close>

definition out_move_place :: "outbound_movement \<Rightarrow> stock_place" where
  "out_move_place m = (mov_tenantId m, mov_sku m, js_text (mov_warehouseId m), js_trim (mov_locationKey m))"

definition net_quantity :: "outbound_movement \<Rightarrow> int" where
  "net_quantity m = column_units (mov_quantityIn m) - column_units (mov_quantityOut m)"

definition moved_at :: "out_tables \<Rightarrow> stock_place \<Rightarrow> int" where
  "moved_at T = sum_at out_move_place net_quantity (ot_movements T)"

definition res_open :: "reservation \<Rightarrow> int" where
  "res_open r = res_reservedQuantity r - res_consumedQuantity r - res_releasedQuantity r"

definition in_status :: "string \<Rightarrow> allocation \<Rightarrow> int" where
  "in_status st a = (if sal_status a = st then sal_quantity a else 0)"

text \<open>A part of a balance key: \<open>balanceKey\<close> joins the parts with a bar.\<close>

definition clean_name :: "string \<Rightarrow> bool" where
  "clean_name x \<longleftrightarrow> js_trim x = x \<and> CHR ''|'' \<notin> set x"

definition names_clean :: "out_tables \<Rightarrow> bool" where
  "names_clean T \<longleftrightarrow> (\<forall>i\<in>set (ot_items T). clean_name (oit_sku i)) \<and> (\<forall>w\<in>set (ot_warehouses T). clean_name (wh_id w))"

definition indexed :: "out_tables \<Rightarrow> bool" where
  "indexed T \<longleftrightarrow> unclashed order_clash (ot_orders T) \<and> unclashed (\<lambda>a b. ol_id a = ol_id b) (ot_orderLines T)
     \<and> unclashed (\<lambda>a b. res_id a = res_id b) (ot_reservations T) \<and> unclashed (\<lambda>a b. rev_id a = rev_id b) (ot_events T)
     \<and> unclashed shipment_clash (ot_shipments T) \<and> unclashed (\<lambda>a b. spl_id a = spl_id b) (ot_shipmentLines T)
     \<and> unclashed (\<lambda>a b. sal_id a = sal_id b) (ot_allocations T) \<and> unclashed balance_clash (ot_balances T)
     \<and> unclashed movement_clash (ot_movements T) \<and> unclashed item_clash (ot_items T)"

text \<open>A line of an order has what its reservations hold, fulfils what they consumed, and is not oversold.\<close>

definition order_line_fine :: "out_tables \<Rightarrow> order_line \<Rightarrow> bool" where
  "order_line_fine T l \<longleftrightarrow> ol_id l \<noteq> [] \<and> clean_name (ol_sku l)
     \<and> ol_reservedQuantity l = sum_at res_salesOrderLineId res_open (ot_reservations T) (ol_id l)
     \<and> ol_fulfilledQuantity l = sum_at res_salesOrderLineId res_consumedQuantity (ot_reservations T) (ol_id l)
     \<and> ol_reservedQuantity l + ol_fulfilledQuantity l \<le> ol_orderedQuantity l"

definition reservation_bounded :: "reservation \<Rightarrow> bool" where
  "reservation_bounded r \<longleftrightarrow> 0 \<le> res_allocatedQuantity r \<and> 0 \<le> res_consumedQuantity r \<and> 0 \<le> res_releasedQuantity r
     \<and> res_allocatedQuantity r \<le> res_open r"

definition reservation_of_line :: "reservation \<Rightarrow> order_line \<Rightarrow> bool" where
  "reservation_of_line r l \<longleftrightarrow> ol_id l = res_salesOrderLineId r \<and> ol_salesOrderId l = res_salesOrderId r
     \<and> ol_itemId l = res_itemId r \<and> ol_sku l = res_sku r"

definition reservation_linked :: "out_tables \<Rightarrow> reservation \<Rightarrow> bool" where
  "reservation_linked T r \<longleftrightarrow> res_id r \<noteq> [] \<and> clean_name (res_sku r) \<and> clean_name (res_warehouseId r)
     \<and> js_trim (res_locationKey r) = res_locationKey r
     \<and> (\<exists>l\<in>set (ot_orderLines T). reservation_of_line r l)
     \<and> (\<exists>b\<in>set (ot_balances T). bal_place b = res_place r \<and> bal_itemId b = Some (res_itemId r))"

definition allocations_explain :: "out_tables \<Rightarrow> reservation \<Rightarrow> bool" where
  "allocations_explain T r \<longleftrightarrow>
     res_allocatedQuantity r = sum_at sal_reservationId (in_status ''allocated'') (ot_allocations T) (res_id r)
     \<and> res_consumedQuantity r = sum_at sal_reservationId (in_status ''consumed'') (ot_allocations T) (res_id r)"

text \<open>A balance has its opening stock and what was moved, and holds back what is reserved there.\<close>

definition balance_fine :: "(stock_place \<Rightarrow> int) \<Rightarrow> out_tables \<Rightarrow> balance \<Rightarrow> bool" where
  "balance_fine opening T b \<longleftrightarrow> balance_ok b \<and> on_hand b = opening (bal_place b) + moved_at T (bal_place b)
     \<and> reserved b = sum_at res_place res_open (ot_reservations T) (bal_place b)"

definition allocation_of :: "allocation \<Rightarrow> reservation \<Rightarrow> shipment_line \<Rightarrow> shipment \<Rightarrow> bool" where
  "allocation_of a r l d \<longleftrightarrow> res_id r = sal_reservationId a \<and> res_tenantId r = sal_tenantId a
     \<and> res_warehouseId r = sal_warehouseId a \<and> res_locationKey r = sal_locationKey a
     \<and> spl_id l = sal_shipmentLineId a \<and> spl_salesOrderLineId l = res_salesOrderLineId r \<and> spl_shipmentId l = shp_id d
     \<and> shp_tenantId d = sal_tenantId a \<and> shp_salesOrderId d = res_salesOrderId r"

definition allocation_fine :: "out_tables \<Rightarrow> allocation \<Rightarrow> bool" where
  "allocation_fine T a \<longleftrightarrow> 0 < sal_quantity a \<and> (\<exists>r\<in>set (ot_reservations T). \<exists>l\<in>set (ot_shipmentLines T).
     \<exists>d\<in>set (ot_shipments T). allocation_of a r l d)"

definition allocations_of :: "out_tables \<Rightarrow> shipment \<Rightarrow> allocation list" where
  "allocations_of T d =
     filter (\<lambda>a. sal_shipmentLineId a \<in> spl_id ` {l \<in> set (ot_shipmentLines T). spl_shipmentId l = shp_id d}) (ot_allocations T)"

text \<open>A shipment that may still be posted has allocations, and they are all open.\<close>

definition shippable :: "shipment \<Rightarrow> bool" where
  "shippable d \<longleftrightarrow> shp_workflowStatus d \<noteq> ''cancelled'' \<and> shp_postingStatus d = ''unposted''"

definition shipment_fine :: "out_tables \<Rightarrow> shipment \<Rightarrow> bool" where
  "shipment_fine T d \<longleftrightarrow> shp_id d \<noteq> []
     \<and> (\<exists>o1\<in>set (ot_orders T). so_id o1 = shp_salesOrderId d \<and> so_tenantId o1 = shp_tenantId d)
     \<and> (shippable d \<longrightarrow> allocations_of T d \<noteq> [] \<and> (\<forall>a\<in>set (allocations_of T d). sal_status a = ''allocated''))"

definition out_inv :: "(stock_place \<Rightarrow> int) \<Rightarrow> out_tables \<Rightarrow> bool" where
  "out_inv opening T \<longleftrightarrow> indexed T \<and> names_clean T
     \<and> (\<forall>l\<in>set (ot_orderLines T). order_line_fine T l)
     \<and> (\<forall>r\<in>set (ot_reservations T). reservation_bounded r \<and> reservation_linked T r \<and> allocations_explain T r)
     \<and> (\<forall>b\<in>set (ot_balances T). balance_fine opening T b)
     \<and> (\<forall>a\<in>set (ot_allocations T). allocation_fine T a)
     \<and> (\<forall>d\<in>set (ot_shipments T). shipment_fine T d)"

section \<open>Moving quantities\<close>

datatype ledger_move = Releasing | Allocating | Deallocating | Consuming | Restoring

fun dAllocated :: "ledger_move \<Rightarrow> int" where
  "dAllocated Allocating = 1" | "dAllocated Deallocating = -1" | "dAllocated Consuming = -1" | "dAllocated _ = 0"

fun dConsumed :: "ledger_move \<Rightarrow> int" where
  "dConsumed Consuming = 1" | "dConsumed Restoring = -1" | "dConsumed _ = 0"

fun dReleased :: "ledger_move \<Rightarrow> int" where
  "dReleased Releasing = 1" | "dReleased _ = 0"

definition dOpen :: "ledger_move \<Rightarrow> int" where
  "dOpen k = - dConsumed k - dReleased k"

fun movable :: "ledger_move \<Rightarrow> reservation \<Rightarrow> int" where
  "movable Releasing r = res_open r - res_allocatedQuantity r"
| "movable Allocating r = res_open r - res_allocatedQuantity r"
| "movable Deallocating r = res_allocatedQuantity r"
| "movable Consuming r = res_allocatedQuantity r"
| "movable Restoring r = res_consumedQuantity r"

definition res_moved :: "ledger_move \<Rightarrow> int \<Rightarrow> reservation \<Rightarrow> reservation \<Rightarrow> bool" where
  "res_moved k q r r' \<longleftrightarrow> (\<exists>st v. r' = r\<lparr>res_allocatedQuantity := res_allocatedQuantity r + dAllocated k * q,
     res_consumedQuantity := res_consumedQuantity r + dConsumed k * q,
     res_releasedQuantity := res_releasedQuantity r + dReleased k * q, res_status := st, res_version := v\<rparr>)"

definition line_moved :: "ledger_move \<Rightarrow> int \<Rightarrow> order_line \<Rightarrow> order_line \<Rightarrow> bool" where
  "line_moved k q l l' \<longleftrightarrow> (\<exists>v. l' = l\<lparr>ol_reservedQuantity := ol_reservedQuantity l + dOpen k * q,
     ol_fulfilledQuantity := ol_fulfilledQuantity l + dConsumed k * q, ol_version := v\<rparr>)"

definition balance_moved :: "int \<Rightarrow> int \<Rightarrow> balance \<Rightarrow> balance \<Rightarrow> bool" where
  "balance_moved dOnHand dReserved b b' \<longleftrightarrow> bal_place b' = bal_place b \<and> bal_itemId b' = bal_itemId b
     \<and> on_hand b' = on_hand b + dOnHand \<and> reserved b' = reserved b + dReserved
     \<and> available b' = available b + dOnHand - dReserved"

abbreviation line_total :: "(string \<Rightarrow> int) \<Rightarrow> out_tables \<Rightarrow> string \<Rightarrow> int" where
  "line_total e T \<equiv> sum_at res_salesOrderLineId (\<lambda>r. e (res_id r)) (ot_reservations T)"

abbreviation place_total :: "(string \<Rightarrow> int) \<Rightarrow> out_tables \<Rightarrow> stock_place \<Rightarrow> int" where
  "place_total e T \<equiv> sum_at res_place (\<lambda>r. e (res_id r)) (ot_reservations T)"

definition orders_kept :: "out_tables \<Rightarrow> out_tables \<Rightarrow> bool" where
  "orders_kept T T' \<longleftrightarrow> (\<forall>a\<in>set (ot_orders T). \<exists>b\<in>set (ot_orders T'). so_id b = so_id a \<and> so_tenantId b = so_tenantId a)"

definition ledger_moved :: "ledger_move \<Rightarrow> (string \<Rightarrow> int) \<Rightarrow> out_tables \<Rightarrow> out_tables \<Rightarrow> bool" where
  "ledger_moved k e T T' \<longleftrightarrow>
     (\<forall>r\<in>set (ot_reservations T). 0 \<le> e (res_id r) \<and> e (res_id r) \<le> movable k r)
     \<and> list_all2 (\<lambda>r. res_moved k (e (res_id r)) r) (ot_reservations T) (ot_reservations T')
     \<and> list_all2 (\<lambda>l. line_moved k (line_total e T (ol_id l)) l) (ot_orderLines T) (ot_orderLines T')
     \<and> list_all2 (\<lambda>b. balance_moved (- dConsumed k * place_total e T (bal_place b)) (dOpen k * place_total e T (bal_place b)) b)
         (ot_balances T) (ot_balances T')
     \<and> (\<forall>b\<in>set (ot_balances T). moved_at T' (bal_place b) = moved_at T (bal_place b) - dConsumed k * place_total e T (bal_place b))
     \<and> ot_items T' = ot_items T \<and> ot_warehouses T' = ot_warehouses T \<and> orders_kept T T' \<and> indexed T'"


section \<open>A move keeps the books\<close>

lemma sum_at_moved:
  "list_all2 (\<lambda>r r'. key r' = key r \<and> qty r' = qty r + c * d r) rs rs'
   \<Longrightarrow> sum_at key qty rs' p = sum_at key qty rs p + c * sum_at key d rs p"
  by (induction rule: list_all2_induct) (auto simp: algebra_simps)

lemma res_moved_identity:
  assumes "res_moved k q r r'"
  shows "res_id r' = res_id r" "res_tenantId r' = res_tenantId r" "res_salesOrderId r' = res_salesOrderId r"
    "res_salesOrderLineId r' = res_salesOrderLineId r" "res_itemId r' = res_itemId r" "res_sku r' = res_sku r"
    "res_warehouseId r' = res_warehouseId r" "res_locationKey r' = res_locationKey r" "res_place r' = res_place r"
  using assms by (auto simp: res_moved_def res_place_def)

lemma res_moved_quantities:
  assumes "res_moved k q r r'"
  shows "res_open r' = res_open r + dOpen k * q" "res_allocatedQuantity r' = res_allocatedQuantity r + dAllocated k * q"
    "res_consumedQuantity r' = res_consumedQuantity r + dConsumed k * q"
  using assms by (auto simp: res_moved_def res_open_def dOpen_def algebra_simps)

lemma res_moved_bounded:
  assumes "reservation_bounded r" "0 \<le> q" "q \<le> movable k r" "res_moved k q r r'"
  shows "reservation_bounded r'"
  using assms by (cases k) (auto simp: res_moved_def reservation_bounded_def res_open_def)

lemma moves_of_ledger:
  assumes "ledger_moved k e T T'"
  shows "sum_at res_salesOrderLineId res_open (ot_reservations T') i
      = sum_at res_salesOrderLineId res_open (ot_reservations T) i + dOpen k * line_total e T i"
    and "sum_at res_salesOrderLineId res_consumedQuantity (ot_reservations T') i
      = sum_at res_salesOrderLineId res_consumedQuantity (ot_reservations T) i + dConsumed k * line_total e T i"
    and "sum_at res_place res_open (ot_reservations T') p
      = sum_at res_place res_open (ot_reservations T) p + dOpen k * place_total e T p"
proof -
  have m: "list_all2 (\<lambda>r. res_moved k (e (res_id r)) r) (ot_reservations T) (ot_reservations T')"
    using assms by (simp add: ledger_moved_def)
  show "sum_at res_salesOrderLineId res_open (ot_reservations T') i
      = sum_at res_salesOrderLineId res_open (ot_reservations T) i + dOpen k * line_total e T i"
    by (rule sum_at_moved, rule list_all2_mono [OF m]) (auto simp: res_moved_identity res_moved_quantities)
  show "sum_at res_salesOrderLineId res_consumedQuantity (ot_reservations T') i
      = sum_at res_salesOrderLineId res_consumedQuantity (ot_reservations T) i + dConsumed k * line_total e T i"
    by (rule sum_at_moved, rule list_all2_mono [OF m]) (auto simp: res_moved_identity res_moved_quantities)
  show "sum_at res_place res_open (ot_reservations T') p
      = sum_at res_place res_open (ot_reservations T) p + dOpen k * place_total e T p"
    by (rule sum_at_moved, rule list_all2_mono [OF m]) (auto simp: res_moved_identity res_moved_quantities)
qed

lemma moves_nonneg:
  assumes "ledger_moved k e T T'"
  shows "0 \<le> line_total e T i" "0 \<le> place_total e T p"
  using assms by (auto simp: ledger_moved_def intro!: sum_at_nonneg)

lemma ledger_moved_lines:
  assumes "\<forall>l\<in>set (ot_orderLines T). order_line_fine T l" "ledger_moved k e T T'" "l' \<in> set (ot_orderLines T')"
  shows "order_line_fine T' l'"
proof -
  have "list_all2 (\<lambda>l. line_moved k (line_total e T (ol_id l)) l) (ot_orderLines T) (ot_orderLines T')"
    using assms(2) by (simp add: ledger_moved_def)
  from list_all2_elem(2) [OF this assms(3)] obtain l
    where l: "l \<in> set (ot_orderLines T)" "line_moved k (line_total e T (ol_id l)) l l'" by blast
  have "dOpen k * line_total e T (ol_id l) + dConsumed k * line_total e T (ol_id l) \<le> 0"
    using moves_nonneg(1) [OF assms(2)] by (cases k) (auto simp: dOpen_def)
  moreover have "order_line_fine T l" using assms(1) l(1) by simp
  moreover obtain v where "l' = l\<lparr>ol_reservedQuantity := ol_reservedQuantity l + dOpen k * line_total e T (ol_id l),
     ol_fulfilledQuantity := ol_fulfilledQuantity l + dConsumed k * line_total e T (ol_id l), ol_version := v\<rparr>"
    using l(2) by (auto simp: line_moved_def)
  ultimately show ?thesis by (simp add: order_line_fine_def moves_of_ledger [OF assms(2)])
qed

lemma ledger_moved_balances:
  assumes "\<forall>b\<in>set (ot_balances T). balance_fine opening T b" "ledger_moved k e T T'"
    and "\<forall>r\<in>set (ot_reservations T'). reservation_bounded r" "b' \<in> set (ot_balances T')"
  shows "balance_fine opening T' b'"
proof -
  have "list_all2 (\<lambda>b. balance_moved (- dConsumed k * place_total e T (bal_place b)) (dOpen k * place_total e T (bal_place b)) b)
         (ot_balances T) (ot_balances T')"
    using assms(2) by (simp add: ledger_moved_def)
  from list_all2_elem(2) [OF this assms(4)] obtain b where b: "b \<in> set (ot_balances T)"
    "balance_moved (- dConsumed k * place_total e T (bal_place b)) (dOpen k * place_total e T (bal_place b)) b b'" by blast
  have fine: "balance_fine opening T b" using assms(1) b(1) by simp
  have moved: "moved_at T' (bal_place b) = moved_at T (bal_place b) - dConsumed k * place_total e T (bal_place b)"
    using assms(2) b(1) by (simp add: ledger_moved_def)
  have res: "reserved b' = sum_at res_place res_open (ot_reservations T') (bal_place b)"
    using fine b(2) by (simp add: balance_fine_def balance_moved_def moves_of_ledger [OF assms(2)])
  also have "0 \<le> \<dots>" using assms(3) by (intro sum_at_nonneg) (auto simp: reservation_bounded_def)
  finally have "0 \<le> reserved b'" .
  moreover have "dOpen k * place_total e T (bal_place b) \<le> - dConsumed k * place_total e T (bal_place b)"
    using moves_nonneg(2) [OF assms(2)] by (cases k) (auto simp: dOpen_def)
  ultimately have "balance_ok b'" using fine b(2) by (auto simp: balance_fine_def balance_ok_def balance_moved_def)
  then show ?thesis using fine b(2) moved res by (simp add: balance_fine_def balance_moved_def)
qed

lemma ledger_moved_reservations:
  assumes "\<forall>r\<in>set (ot_reservations T). reservation_bounded r \<and> reservation_linked T r" "ledger_moved k e T T'"
    and "r' \<in> set (ot_reservations T')"
  shows "reservation_bounded r' \<and> reservation_linked T' r'"
proof -
  have m: "list_all2 (\<lambda>r. res_moved k (e (res_id r)) r) (ot_reservations T) (ot_reservations T')"
    "list_all2 (\<lambda>l. line_moved k (line_total e T (ol_id l)) l) (ot_orderLines T) (ot_orderLines T')"
    "list_all2 (\<lambda>b. balance_moved (- dConsumed k * place_total e T (bal_place b)) (dOpen k * place_total e T (bal_place b)) b)
         (ot_balances T) (ot_balances T')"
    "\<And>r. r \<in> set (ot_reservations T) \<Longrightarrow> 0 \<le> e (res_id r) \<and> e (res_id r) \<le> movable k r"
    using assms(2) by (simp_all add: ledger_moved_def)
  from list_all2_elem(2) [OF m(1) assms(3)] obtain r
    where r: "r \<in> set (ot_reservations T)" "res_moved k (e (res_id r)) r r'" by blast
  have "reservation_bounded r" "0 \<le> e (res_id r)" "e (res_id r) \<le> movable k r" using assms(1) r(1) m(4) by simp_all
  then have "reservation_bounded r'" using r(2) by (rule res_moved_bounded)
  moreover have "reservation_linked T' r'"
  proof -
    have linked: "reservation_linked T r" using assms(1) r(1) by simp
    then obtain l where l: "l \<in> set (ot_orderLines T)" "reservation_of_line r l" by (auto simp: reservation_linked_def)
    from list_all2_elem(1) [OF m(2) l(1)] obtain l'
      where l': "l' \<in> set (ot_orderLines T')" "line_moved k (line_total e T (ol_id l)) l l'" by blast
    from linked obtain b where b: "b \<in> set (ot_balances T)" "bal_place b = res_place r" "bal_itemId b = Some (res_itemId r)"
      by (auto simp: reservation_linked_def)
    from list_all2_elem(1) [OF m(3) b(1)] obtain b' where b': "b' \<in> set (ot_balances T')"
      "balance_moved (- dConsumed k * place_total e T (bal_place b)) (dOpen k * place_total e T (bal_place b)) b b'" by blast
    have "reservation_of_line r' l'"
      using l(2) l'(2) by (auto simp: reservation_of_line_def line_moved_def res_moved_identity [OF r(2)])
    moreover have "bal_place b' = res_place r' \<and> bal_itemId b' = Some (res_itemId r')"
      using b b'(2) by (simp add: balance_moved_def res_moved_identity [OF r(2)])
    ultimately show ?thesis using linked l'(1) b'(1)
      by (auto simp: reservation_linked_def res_moved_identity [OF r(2)])
  qed
  ultimately show ?thesis ..
qed


section \<open>Shipments and their allocations\<close>

definition line_ids :: "out_tables \<Rightarrow> shipment \<Rightarrow> string set" where
  "line_ids T d = {spl_id l |l. l \<in> set (ot_shipmentLines T) \<and> spl_shipmentId l = shp_id d}"

lemma allocations_of_line_ids: "allocations_of T d = filter (\<lambda>a. sal_shipmentLineId a \<in> line_ids T d) (ot_allocations T)"
  unfolding allocations_of_def line_ids_def by (intro filter_cong) auto

definition same_shipment :: "shipment \<Rightarrow> shipment \<Rightarrow> bool" where
  "same_shipment d d' \<longleftrightarrow> shp_id d' = shp_id d \<and> shp_tenantId d' = shp_tenantId d \<and> shp_salesOrderId d' = shp_salesOrderId d"

definition same_shipment_line :: "shipment_line \<Rightarrow> shipment_line \<Rightarrow> bool" where
  "same_shipment_line l l' \<longleftrightarrow> spl_id l' = spl_id l \<and> spl_shipmentId l' = spl_shipmentId l
     \<and> spl_salesOrderLineId l' = spl_salesOrderLineId l"

definition same_allocation :: "allocation \<Rightarrow> allocation \<Rightarrow> bool" where
  "same_allocation a a' \<longleftrightarrow> sal_shipmentLineId a' = sal_shipmentLineId a \<and> sal_reservationId a' = sal_reservationId a
     \<and> sal_tenantId a' = sal_tenantId a \<and> sal_warehouseId a' = sal_warehouseId a \<and> sal_locationKey a' = sal_locationKey a
     \<and> sal_quantity a' = sal_quantity a"

lemma allocation_fine_kept:
  assumes "allocation_fine T a" "same_allocation a a'"
    and "\<And>r. r \<in> set (ot_reservations T) \<Longrightarrow> \<exists>r'\<in>set (ot_reservations T'). res_id r' = res_id r \<and> res_tenantId r' = res_tenantId r
       \<and> res_salesOrderId r' = res_salesOrderId r \<and> res_salesOrderLineId r' = res_salesOrderLineId r
       \<and> res_warehouseId r' = res_warehouseId r \<and> res_locationKey r' = res_locationKey r"
    and "\<And>l. l \<in> set (ot_shipmentLines T) \<Longrightarrow> \<exists>l'\<in>set (ot_shipmentLines T'). same_shipment_line l l'"
    and "\<And>d. d \<in> set (ot_shipments T) \<Longrightarrow> \<exists>d'\<in>set (ot_shipments T'). same_shipment d d'"
  shows "allocation_fine T' a'"
proof -
  obtain r l d where a: "r \<in> set (ot_reservations T)" "l \<in> set (ot_shipmentLines T)" "d \<in> set (ot_shipments T)" "allocation_of a r l d"
    using assms(1) by (auto simp: allocation_fine_def)
  obtain r' where r': "r' \<in> set (ot_reservations T')" "res_id r' = res_id r \<and> res_tenantId r' = res_tenantId r
       \<and> res_salesOrderId r' = res_salesOrderId r \<and> res_salesOrderLineId r' = res_salesOrderLineId r
       \<and> res_warehouseId r' = res_warehouseId r \<and> res_locationKey r' = res_locationKey r" using assms(3) [OF a(1)] by blast
  obtain l' where l': "l' \<in> set (ot_shipmentLines T')" "same_shipment_line l l'" using assms(4) [OF a(2)] by blast
  obtain d' where d': "d' \<in> set (ot_shipments T')" "same_shipment d d'" using assms(5) [OF a(3)] by blast
  have "allocation_of a' r' l' d'"
    using a(4) assms(2) r'(2) l'(2) d'(2)
    by (simp add: allocation_of_def same_allocation_def same_shipment_def same_shipment_line_def)
  then show ?thesis using assms(1,2) r'(1) l'(1) d'(1) by (auto simp: allocation_fine_def same_allocation_def)
qed

lemma ledger_reservations_kept:
  assumes "ledger_moved k e T T'" "r \<in> set (ot_reservations T)"
  shows "\<exists>r'\<in>set (ot_reservations T'). res_id r' = res_id r \<and> res_tenantId r' = res_tenantId r
       \<and> res_salesOrderId r' = res_salesOrderId r \<and> res_salesOrderLineId r' = res_salesOrderLineId r
       \<and> res_warehouseId r' = res_warehouseId r \<and> res_locationKey r' = res_locationKey r"
proof -
  have "list_all2 (\<lambda>r. res_moved k (e (res_id r)) r) (ot_reservations T) (ot_reservations T')"
    using assms(1) by (simp add: ledger_moved_def)
  from list_all2_elem(1) [OF this assms(2)] show ?thesis by (blast intro: res_moved_identity)
qed

definition move_status :: "string set \<Rightarrow> string \<Rightarrow> string \<Rightarrow> allocation list \<Rightarrow> allocation list" where
  "move_status ids old new =
     update_where (\<lambda>a. sal_shipmentLineId a \<in> ids \<and> sal_status a = old) (\<lambda>a. a\<lparr>sal_status := new, sal_version := sal_version a + 1\<rparr>)"

definition moved_quantity :: "string set \<Rightarrow> string \<Rightarrow> allocation list \<Rightarrow> string \<Rightarrow> int" where
  "moved_quantity ids old as =
     sum_at sal_reservationId sal_quantity (filter (\<lambda>a. sal_shipmentLineId a \<in> ids \<and> sal_status a = old) as)"

lemma move_status_sums:
  "old \<noteq> new \<Longrightarrow> sum_at sal_reservationId (in_status st) (move_status ids old new as) i
   = sum_at sal_reservationId (in_status st) as i + (if st = new then moved_quantity ids old as i else 0)
     - (if st = old then moved_quantity ids old as i else 0)"
  by (induction as) (auto simp: move_status_def moved_quantity_def in_status_def)

lemma move_status_same: "a' \<in> set (move_status ids old new as) \<Longrightarrow> \<exists>a\<in>set as. same_allocation a a'"
  by (auto simp: move_status_def set_update_where same_allocation_def)

lemma move_status_elsewhere:
  "(\<And>a. a \<in> set as \<Longrightarrow> sal_shipmentLineId a \<in> J \<Longrightarrow> \<not> (sal_shipmentLineId a \<in> I \<and> sal_status a = old))
   \<Longrightarrow> filter (\<lambda>a. sal_shipmentLineId a \<in> J) (move_status I old new as) = filter (\<lambda>a. sal_shipmentLineId a \<in> J) as"
  unfolding move_status_def by (induction as) auto

text \<open>The three ways a shipment moves its allocations.\<close>

definition shipment_move :: "ledger_move \<Rightarrow> string \<Rightarrow> string \<Rightarrow> bool" where
  "shipment_move k old new \<longleftrightarrow> (k, old, new) \<in> {(Deallocating, ''allocated'', ''deallocated''),
     (Consuming, ''allocated'', ''consumed''), (Restoring, ''consumed'', ''reversed'')}"

lemma shipment_move_explains:
  assumes "\<forall>r\<in>set (ot_reservations T). allocations_explain T r" "ledger_moved k e T T'" "shipment_move k old new"
    and "ot_allocations T' = move_status ids old new (ot_allocations T)"
    and "\<And>r. r \<in> set (ot_reservations T) \<Longrightarrow> e (res_id r) = moved_quantity ids old (ot_allocations T) (res_id r)"
    and "r' \<in> set (ot_reservations T')"
  shows "allocations_explain T' r'"
proof -
  have "list_all2 (\<lambda>r. res_moved k (e (res_id r)) r) (ot_reservations T) (ot_reservations T')"
    using assms(2) by (simp add: ledger_moved_def)
  from list_all2_elem(2) [OF this assms(6)] obtain r
    where r: "r \<in> set (ot_reservations T)" "res_moved k (e (res_id r)) r r'" by blast
  have ex: "allocations_explain T r" using assms(1) r(1) by simp
  let ?q = "moved_quantity ids old (ot_allocations T) (res_id r)"
  have r': "res_id r' = res_id r" "res_allocatedQuantity r' = res_allocatedQuantity r + dAllocated k * ?q"
    "res_consumedQuantity r' = res_consumedQuantity r + dConsumed k * ?q"
    using res_moved_identity(1) [OF r(2)] res_moved_quantities(2,3) [OF r(2)] assms(5) [OF r(1)] by metis+
  consider "k = Deallocating" "old = ''allocated''" "new = ''deallocated''"
    | "k = Consuming" "old = ''allocated''" "new = ''consumed''" | "k = Restoring" "old = ''consumed''" "new = ''reversed''"
    using assms(3) by (auto simp: shipment_move_def)
  then show ?thesis
    by cases (use ex in \<open>simp_all add: allocations_explain_def assms(4) move_status_sums r'\<close>)
qed

lemma sole_shipment:
  assumes "indexed T" "a \<in> set (ot_allocations T)" "sal_shipmentLineId a \<in> line_ids T d" "sal_shipmentLineId a \<in> line_ids T d'"
    and "d \<in> set (ot_shipments T)" "d' \<in> set (ot_shipments T)"
  shows "d = d'"
proof -
  obtain l l' where l: "l \<in> set (ot_shipmentLines T)" "spl_shipmentId l = shp_id d" "spl_id l = sal_shipmentLineId a"
    "l' \<in> set (ot_shipmentLines T)" "spl_shipmentId l' = shp_id d'" "spl_id l' = sal_shipmentLineId a"
    using assms(3,4) by (auto simp: line_ids_def)
  then have "l = l'" using assms(1) by (auto simp: indexed_def dest: unclashed_at)
  then have "shp_id d = shp_id d'" using l by simp
  then show ?thesis using assms(1,5,6) by (auto simp: indexed_def shipment_clash_def intro: unclashed_at [where clash = shipment_clash])
qed


section \<open>The machine\<close>

definition fresh_line :: "out_tables \<Rightarrow> order_line \<Rightarrow> bool" where
  "fresh_line T l \<longleftrightarrow> ol_id l \<noteq> [] \<and> ol_reservedQuantity l = 0 \<and> ol_fulfilledQuantity l = 0 \<and> 0 \<le> ol_orderedQuantity l
     \<and> (\<exists>i\<in>set (ot_items T). ol_sku l = oit_sku i)"

definition fresh_reservation :: "out_tables \<Rightarrow> reservation \<Rightarrow> bool" where
  "fresh_reservation T r \<longleftrightarrow> res_id r \<noteq> [] \<and> 0 \<le> res_reservedQuantity r \<and> res_allocatedQuantity r = 0
     \<and> res_consumedQuantity r = 0 \<and> res_releasedQuantity r = 0
     \<and> js_trim (res_locationKey r) = res_locationKey r \<and> (\<exists>w\<in>set (ot_warehouses T). wh_id w = res_warehouseId r)
     \<and> (\<exists>l\<in>set (ot_orderLines T). reservation_of_line r l)
     \<and> (\<exists>b\<in>set (ot_balances T). bal_place b = res_place r \<and> bal_itemId b = Some (res_itemId r))"

text \<open>The lines and balances after reserving \<open>rs\<close>.\<close>

definition line_reserved :: "reservation list \<Rightarrow> order_line \<Rightarrow> order_line \<Rightarrow> bool" where
  "line_reserved rs l l' \<longleftrightarrow>
     (let q = sum_at res_salesOrderLineId res_reservedQuantity rs (ol_id l)
      in (\<exists>v. l' = l\<lparr>ol_reservedQuantity := ol_reservedQuantity l + q, ol_version := v\<rparr>)
         \<and> (q = 0 \<or> ol_reservedQuantity l + ol_fulfilledQuantity l + q \<le> ol_orderedQuantity l))"

definition balance_reserved :: "reservation list \<Rightarrow> balance \<Rightarrow> balance \<Rightarrow> bool" where
  "balance_reserved rs b b' \<longleftrightarrow>
     (let q = sum_at res_place res_reservedQuantity rs (bal_place b)
      in balance_moved 0 q b b' \<and> (q = 0 \<or> q \<le> available b))"

inductive outbound_step :: "out_tables \<Rightarrow> out_tables \<Rightarrow> bool" where
  order_written: "\<lbrakk>T' = T\<lparr>ot_orders := os, ot_orderLines := filter keep (ot_orderLines T) @ new\<rparr>;
      orders_kept T T'; indexed T'; \<And>l. l \<in> set new \<Longrightarrow> fresh_line T l;
      \<And>l r. l \<in> set (ot_orderLines T) \<Longrightarrow> \<not> keep l \<Longrightarrow> r \<in> set (ot_reservations T) \<Longrightarrow> res_salesOrderId r \<noteq> ol_salesOrderId l\<rbrakk>
    \<Longrightarrow> outbound_step T T'"
| stock_reserved: "\<lbrakk>T' = T\<lparr>ot_orders := os, ot_orderLines := ls, ot_balances := bs, ot_reservations := ot_reservations T @ new, ot_events := es\<rparr>;
      orders_kept T T'; indexed T'; \<And>r. r \<in> set new \<Longrightarrow> fresh_reservation T r;
      list_all2 (line_reserved new) (ot_orderLines T) ls; list_all2 (balance_reserved new) (ot_balances T) bs\<rbrakk>
    \<Longrightarrow> outbound_step T T'"
| released: "\<lbrakk>ledger_moved Releasing e T T'; ot_shipments T' = ot_shipments T; ot_shipmentLines T' = ot_shipmentLines T;
      ot_allocations T' = ot_allocations T\<rbrakk>
    \<Longrightarrow> outbound_step T T'"
| drafted: "\<lbrakk>ledger_moved Allocating e T T'; ot_shipments T' = ot_shipments T @ [d]; shippable d; shp_id d \<noteq> [];
      \<exists>o1\<in>set (ot_orders T). so_id o1 = shp_salesOrderId d \<and> so_tenantId o1 = shp_tenantId d;
      ot_shipmentLines T' = ot_shipmentLines T @ ls; \<And>l. l \<in> set ls \<Longrightarrow> spl_shipmentId l = shp_id d;
      ot_allocations T' = ot_allocations T @ as; as \<noteq> [];
      \<And>a. a \<in> set as \<Longrightarrow> 0 < sal_quantity a \<and> sal_status a = ''allocated''
        \<and> (\<exists>r\<in>set (ot_reservations T). \<exists>l\<in>set ls. allocation_of a r l d);
      \<And>r. r \<in> set (ot_reservations T) \<Longrightarrow> e (res_id r) = sum_at sal_reservationId sal_quantity as (res_id r)\<rbrakk>
    \<Longrightarrow> outbound_step T T'"
| shipment_moved: "\<lbrakk>ledger_moved k e T T'; shipment_move k old new; d \<in> set (ot_shipments T);
      list_all2 (\<lambda>x x'. same_shipment x x' \<and> (if x = d then \<not> shippable x' else x' = x)) (ot_shipments T) (ot_shipments T');
      list_all2 same_shipment_line (ot_shipmentLines T) (ot_shipmentLines T');
      ot_allocations T' = move_status (line_ids T d) old new (ot_allocations T);
      \<And>r. r \<in> set (ot_reservations T) \<Longrightarrow> e (res_id r) = moved_quantity (line_ids T d) old (ot_allocations T) (res_id r)\<rbrakk>
    \<Longrightarrow> outbound_step T T'"

section \<open>The steps keep the books\<close>

lemma order_kept:
  assumes "\<exists>o1\<in>set (ot_orders T). so_id o1 = k \<and> so_tenantId o1 = t" "orders_kept T T'"
  shows "\<exists>o1\<in>set (ot_orders T'). so_id o1 = k \<and> so_tenantId o1 = t"
  using assms unfolding orders_kept_def by metis

lemma shipment_fine_kept:
  assumes "shipment_fine T d" "orders_kept T T'" "allocations_of T' d = allocations_of T d"
  shows "shipment_fine T' d"
  using assms(1,3) order_kept [OF _ assms(2), of "shp_salesOrderId d" "shp_tenantId d"] by (simp add: shipment_fine_def)

lemma order_written_inv:
  assumes "out_inv opening T" "T' = T\<lparr>ot_orders := os, ot_orderLines := filter keep (ot_orderLines T) @ new\<rparr>"
    "orders_kept T T'" "indexed T'" "\<And>l. l \<in> set new \<Longrightarrow> fresh_line T l"
    "\<And>l r. l \<in> set (ot_orderLines T) \<Longrightarrow> \<not> keep l \<Longrightarrow> r \<in> set (ot_reservations T) \<Longrightarrow> res_salesOrderId r \<noteq> ol_salesOrderId l"
  shows "out_inv opening T'"
proof -
  note inv = assms(1) [unfolded out_inv_def]
  have res: "ot_reservations T' = ot_reservations T" "ot_items T' = ot_items T" "ot_orderLines T' = filter keep (ot_orderLines T) @ new"
    "ot_warehouses T' = ot_warehouses T" "ot_balances T' = ot_balances T" "ot_allocations T' = ot_allocations T"
    "ot_shipmentLines T' = ot_shipmentLines T" "ot_shipments T' = ot_shipments T" "ot_movements T' = ot_movements T"
    using assms(2) by simp_all
  have kept: "\<exists>l\<in>set (filter keep (ot_orderLines T)). reservation_of_line r l" if "r \<in> set (ot_reservations T)" for r
  proof -
    have "reservation_linked T r" using inv that by simp
    then obtain l where l: "l \<in> set (ot_orderLines T)" "reservation_of_line r l" by (auto simp: reservation_linked_def)
    moreover have "keep l" using assms(6) [OF l(1) _ that] l(2) by (auto simp: reservation_of_line_def)
    ultimately show ?thesis by auto
  qed
  have distinct: "unclashed (\<lambda>a b. ol_id a = ol_id b) (filter keep (ot_orderLines T) @ new)"
    using assms(4) res(3) by (simp add: indexed_def)
  have "order_line_fine T' l" if "l \<in> set (filter keep (ot_orderLines T) @ new)" for l
  proof (cases "l \<in> set new")
    case True
    have "res_salesOrderLineId r \<noteq> ol_id l" if r: "r \<in> set (ot_reservations T)" for r
    proof -
      obtain l0 where "l0 \<in> set (filter keep (ot_orderLines T))" "ol_id l0 = res_salesOrderLineId r"
        using kept [OF r] by (auto simp: reservation_of_line_def)
      then show ?thesis using distinct True by (auto simp: unclashed_def sorted_wrt_append)
    qed
    then have "ol_id l \<notin> res_salesOrderLineId ` set (ot_reservations T)" by (metis imageE)
    then show ?thesis using assms(5) [OF True] inv
      by (auto simp: order_line_fine_def fresh_line_def res sum_at_no_key names_clean_def)
  next
    case False
    then have "order_line_fine T l" using that inv by auto
    then show ?thesis by (simp add: order_line_fine_def res)
  qed
  moreover have "reservation_linked T' r" if "r \<in> set (ot_reservations T)" for r
    using inv kept [OF that] that by (auto simp: reservation_linked_def res)
  moreover have "shipment_fine T' d" if "d \<in> set (ot_shipments T)" for d
    by (rule shipment_fine_kept [OF _ assms(3)]) (use inv that in \<open>simp_all add: allocations_of_def res\<close>)
  ultimately show ?thesis using inv assms(4)
    by (simp add: out_inv_def res names_clean_def allocations_explain_def balance_fine_def moved_at_def allocation_fine_def)
qed


lemma sum_at_fresh:
  "(\<And>r. r \<in> set rs \<Longrightarrow> f r = g r) \<Longrightarrow> sum_at key f rs p = sum_at key g rs p"
  by (induction rs) auto

lemma stock_reserved_inv:
  assumes "out_inv opening T"
    "T' = T\<lparr>ot_orders := os, ot_orderLines := ls, ot_balances := bs, ot_reservations := ot_reservations T @ new, ot_events := es\<rparr>"
    "orders_kept T T'" "indexed T'" "\<And>r. r \<in> set new \<Longrightarrow> fresh_reservation T r"
    "list_all2 (line_reserved new) (ot_orderLines T) ls" "list_all2 (balance_reserved new) (ot_balances T) bs"
  shows "out_inv opening T'"
proof -
  note inv = assms(1) [unfolded out_inv_def]
  have T': "ot_reservations T' = ot_reservations T @ new" "ot_items T' = ot_items T" "ot_orderLines T' = ls"
    "ot_warehouses T' = ot_warehouses T" "ot_balances T' = bs" "ot_allocations T' = ot_allocations T"
    "ot_shipmentLines T' = ot_shipmentLines T" "ot_shipments T' = ot_shipments T" "ot_movements T' = ot_movements T"
    using assms(2) by simp_all
  have open_new: "sum_at key res_open new p = sum_at key res_reservedQuantity new p" for key :: "reservation \<Rightarrow> 'k" and p
    using assms(5) by (intro sum_at_fresh) (simp add: fresh_reservation_def res_open_def)
  have consumed_new: "sum_at key res_consumedQuantity new p = 0" for key :: "reservation \<Rightarrow> 'k" and p
    using assms(5) by (induction new) (simp_all add: fresh_reservation_def)
  have "order_line_fine T' l'" if "l' \<in> set ls" for l'
  proof -
    from list_all2_elem(2) [OF assms(6) that] obtain l where l: "l \<in> set (ot_orderLines T)" "line_reserved new l l'" by blast
    have fine: "order_line_fine T l" using inv l(1) by simp
    define q where "q = sum_at res_salesOrderLineId res_reservedQuantity new (ol_id l)"
    obtain v where "l' = l\<lparr>ol_reservedQuantity := ol_reservedQuantity l + q, ol_version := v\<rparr>"
      "q = 0 \<or> ol_reservedQuantity l + ol_fulfilledQuantity l + q \<le> ol_orderedQuantity l"
      using l(2) by (auto simp: line_reserved_def Let_def q_def)
    then show ?thesis using fine by (auto simp: order_line_fine_def T' open_new consumed_new q_def [symmetric])
  qed
  moreover have "balance_fine opening T' b'" if "b' \<in> set bs" for b'
  proof -
    from list_all2_elem(2) [OF assms(7) that] obtain b where b: "b \<in> set (ot_balances T)" "balance_reserved new b b'" by blast
    have fine: "balance_fine opening T b" using inv b(1) by simp
    define q where "q = sum_at res_place res_reservedQuantity new (bal_place b)"
    have q: "balance_moved 0 q b b'" "q = 0 \<or> q \<le> available b" using b(2) by (auto simp: balance_reserved_def Let_def q_def)
    have "0 \<le> q" unfolding q_def using assms(5) by (intro sum_at_nonneg) (simp add: fresh_reservation_def)
    then show ?thesis using q fine
      by (auto simp: balance_fine_def balance_moved_def balance_ok_def T' open_new q_def [symmetric] moved_at_def)
  qed
  moreover have "reservation_linked T' r" if linked: "reservation_linked T r" for r
  proof -
    obtain l b where lb: "l \<in> set (ot_orderLines T)" "reservation_of_line r l" "b \<in> set (ot_balances T)" "bal_place b = res_place r"
      "bal_itemId b = Some (res_itemId r)" using linked by (auto simp: reservation_linked_def)
    from list_all2_elem(1) [OF assms(6) lb(1)] obtain l' where l': "l' \<in> set ls" "line_reserved new l l'" by blast
    from list_all2_elem(1) [OF assms(7) lb(3)] obtain b' where b': "b' \<in> set bs" "balance_reserved new b b'" by blast
    have "reservation_of_line r l'" "bal_place b' = res_place r" "bal_itemId b' = Some (res_itemId r)"
      using lb l'(2) b'(2) by (auto simp: line_reserved_def balance_reserved_def balance_moved_def reservation_of_line_def Let_def)
    then show ?thesis using linked l'(1) b'(1) by (auto simp: reservation_linked_def T')
  qed
  moreover have "reservation_linked T r \<and> reservation_bounded r" if "r \<in> set new" for r
  proof -
    have f: "fresh_reservation T r" using assms(5) that .
    then obtain l where "l \<in> set (ot_orderLines T)" "reservation_of_line r l" by (auto simp: fresh_reservation_def)
    then have "clean_name (res_sku r)" using inv by (auto simp: order_line_fine_def reservation_of_line_def)
    moreover have "clean_name (res_warehouseId r)" using f inv by (auto simp: fresh_reservation_def names_clean_def)
    ultimately show ?thesis using f by (auto simp: fresh_reservation_def reservation_linked_def reservation_bounded_def res_open_def)
  qed
  moreover have "allocations_explain T' r" if r: "r \<in> set new" for r
  proof -
    have "sal_reservationId a \<noteq> res_id r" if a: "a \<in> set (ot_allocations T)" for a
    proof -
      have "allocation_fine T a" using inv a by simp
      then obtain r0 where "r0 \<in> set (ot_reservations T)" "res_id r0 = sal_reservationId a"
        by (auto simp: allocation_fine_def allocation_of_def)
      moreover have "unclashed (\<lambda>a b. res_id a = res_id b) (ot_reservations T @ new)" using assms(4) by (simp add: indexed_def T')
      ultimately show ?thesis using r by (auto simp: unclashed_def sorted_wrt_append)
    qed
    then have "res_id r \<notin> sal_reservationId ` set (ot_allocations T)" by (metis imageE)
    then show ?thesis using assms(5) [OF r] by (simp add: allocations_explain_def T' sum_at_no_key fresh_reservation_def)
  qed
  moreover have "shipment_fine T' d" if "d \<in> set (ot_shipments T)" for d
    by (rule shipment_fine_kept [OF _ assms(3)]) (use inv that in \<open>simp_all add: allocations_of_def T'\<close>)
  moreover have "allocation_fine T' a" if "a \<in> set (ot_allocations T)" for a
    by (rule allocation_fine_kept [of T a]) (use inv that in \<open>auto simp: same_allocation_def same_shipment_def same_shipment_line_def T'\<close>)
  moreover have "allocations_explain T' r" if "r \<in> set (ot_reservations T)" for r
    using inv that by (simp add: allocations_explain_def T')
  ultimately show ?thesis using inv assms(4) by (auto simp: out_inv_def T' names_clean_def)
qed

text \<open>What a move leaves to show: what it does to the shipments and their allocations.\<close>

lemma ledger_moved_inv:
  assumes "out_inv opening T" "ledger_moved k e T T'"
    and "\<And>r. r \<in> set (ot_reservations T') \<Longrightarrow> allocations_explain T' r"
    and "\<And>a. a \<in> set (ot_allocations T') \<Longrightarrow> allocation_fine T' a"
    and "\<And>d. d \<in> set (ot_shipments T') \<Longrightarrow> shipment_fine T' d"
  shows "out_inv opening T'"
proof -
  note inv = assms(1) [unfolded out_inv_def]
  have res: "\<forall>r\<in>set (ot_reservations T'). reservation_bounded r \<and> reservation_linked T' r"
    using ledger_moved_reservations [OF _ assms(2)] inv by blast
  moreover have "\<forall>l\<in>set (ot_orderLines T'). order_line_fine T' l" using ledger_moved_lines [OF _ assms(2)] inv by blast
  moreover have "\<forall>b\<in>set (ot_balances T'). balance_fine opening T' b"
    using ledger_moved_balances [OF _ assms(2)] inv res by blast
  moreover have "indexed T'" "names_clean T'" using assms(2) inv by (simp_all add: ledger_moved_def names_clean_def)
  ultimately show ?thesis using assms(3-5) by (simp add: out_inv_def)
qed

lemma ledger_orders_kept: "ledger_moved k e T T' \<Longrightarrow> orders_kept T T'"
  by (simp add: ledger_moved_def)

lemma released_inv:
  assumes "out_inv opening T" "ledger_moved Releasing e T T'" "ot_shipments T' = ot_shipments T"
    "ot_shipmentLines T' = ot_shipmentLines T" "ot_allocations T' = ot_allocations T"
  shows "out_inv opening T'"
proof (rule ledger_moved_inv [OF assms(1,2)])
  note inv = assms(1) [unfolded out_inv_def]
  show "allocations_explain T' r'" if "r' \<in> set (ot_reservations T')" for r'
  proof -
    have "list_all2 (\<lambda>r. res_moved Releasing (e (res_id r)) r) (ot_reservations T) (ot_reservations T')"
      using assms(2) by (simp add: ledger_moved_def)
    from list_all2_elem(2) [OF this that] obtain r
      where r: "r \<in> set (ot_reservations T)" "res_moved Releasing (e (res_id r)) r r'" by blast
    have "allocations_explain T r" using inv r(1) by simp
    then show ?thesis
      by (simp add: allocations_explain_def assms(5) res_moved_identity [OF r(2)] res_moved_quantities [OF r(2)])
  qed
  show "allocation_fine T' a" if "a \<in> set (ot_allocations T')" for a
    by (rule allocation_fine_kept [OF _ _ ledger_reservations_kept [OF assms(2)]])
      (use inv that assms(3-5) in \<open>auto simp: same_allocation_def same_shipment_def same_shipment_line_def\<close>)
  show "shipment_fine T' d" if "d \<in> set (ot_shipments T')" for d
    by (rule shipment_fine_kept [OF _ ledger_orders_kept [OF assms(2)]])
      (use inv that in \<open>simp_all add: allocations_of_def assms(3-5)\<close>)
qed

lemma drafted_inv:
  assumes "out_inv opening T" "ledger_moved Allocating e T T'" "ot_shipments T' = ot_shipments T @ [d]" "shippable d" "shp_id d \<noteq> []"
    "\<exists>o1\<in>set (ot_orders T). so_id o1 = shp_salesOrderId d \<and> so_tenantId o1 = shp_tenantId d"
    "ot_shipmentLines T' = ot_shipmentLines T @ ls" "\<And>l. l \<in> set ls \<Longrightarrow> spl_shipmentId l = shp_id d"
    "ot_allocations T' = ot_allocations T @ as" "as \<noteq> []"
    "\<And>a. a \<in> set as \<Longrightarrow> 0 < sal_quantity a \<and> sal_status a = ''allocated''
        \<and> (\<exists>r\<in>set (ot_reservations T). \<exists>l\<in>set ls. allocation_of a r l d)"
    "\<And>r. r \<in> set (ot_reservations T) \<Longrightarrow> e (res_id r) = sum_at sal_reservationId sal_quantity as (res_id r)"
  shows "out_inv opening T'"
proof (rule ledger_moved_inv [OF assms(1,2)])
  note inv = assms(1) [unfolded out_inv_def]
  have ix: "indexed T'" using assms(2) by (simp add: ledger_moved_def)
  have allocated: "sum_at sal_reservationId (in_status ''allocated'') as i = sum_at sal_reservationId sal_quantity as i"
    "sum_at sal_reservationId (in_status ''consumed'') as i = 0" for i
    using assms(11) by (induction as) (simp_all add: in_status_def)
  show "allocations_explain T' r'" if "r' \<in> set (ot_reservations T')" for r'
  proof -
    have "list_all2 (\<lambda>r. res_moved Allocating (e (res_id r)) r) (ot_reservations T) (ot_reservations T')"
      using assms(2) by (simp add: ledger_moved_def)
    from list_all2_elem(2) [OF this that] obtain r
      where r: "r \<in> set (ot_reservations T)" "res_moved Allocating (e (res_id r)) r r'" by blast
    have "allocations_explain T r" using inv r(1) by simp
    then show ?thesis using assms(12) [OF r(1)]
      by (simp add: allocations_explain_def assms(9) allocated res_moved_identity [OF r(2)] res_moved_quantities [OF r(2)])
  qed
  show "allocation_fine T' a" if "a \<in> set (ot_allocations T')" for a
  proof (cases "a \<in> set as")
    case True
    obtain r l where a: "r \<in> set (ot_reservations T)" "l \<in> set ls" "allocation_of a r l d" using assms(11) [OF True] by blast
    obtain r' where "r' \<in> set (ot_reservations T')" "res_id r' = res_id r \<and> res_tenantId r' = res_tenantId r
       \<and> res_salesOrderId r' = res_salesOrderId r \<and> res_salesOrderLineId r' = res_salesOrderLineId r
       \<and> res_warehouseId r' = res_warehouseId r \<and> res_locationKey r' = res_locationKey r"
      using ledger_reservations_kept [OF assms(2) a(1)] by blast
    moreover from this a(3) have "allocation_of a r' l d" by (simp add: allocation_of_def)
    ultimately show ?thesis using a(2) assms(11) [OF True] by (auto simp: allocation_fine_def assms(3,7))
  next
    case False
    then have "allocation_fine T a" using inv that by (simp add: assms(9))
    then show ?thesis
      by (rule allocation_fine_kept [OF _ _ ledger_reservations_kept [OF assms(2)]])
        (auto simp: same_allocation_def same_shipment_def same_shipment_line_def assms(3,7))
  qed
  have own: "sal_shipmentLineId a \<in> spl_id ` {l \<in> set ls. spl_shipmentId l = shp_id d}" if a: "a \<in> set as" for a
  proof -
    obtain l where "l \<in> set ls" "spl_id l = sal_shipmentLineId a" using assms(11) [OF a] by (auto simp: allocation_of_def)
    then show ?thesis using assms(8) by (intro image_eqI [where x = l]) auto
  qed
  have fresh: "spl_id l \<noteq> sal_shipmentLineId a" if l: "l \<in> set ls" and a: "a \<in> set (ot_allocations T)" for l a
  proof -
    have "allocation_fine T a" using inv a by simp
    then obtain l0 where "l0 \<in> set (ot_shipmentLines T)" "spl_id l0 = sal_shipmentLineId a"
      by (auto simp: allocation_fine_def allocation_of_def)
    moreover have "unclashed (\<lambda>a b. spl_id a = spl_id b) (ot_shipmentLines T @ ls)" using ix by (simp add: indexed_def assms(7))
    ultimately show ?thesis using l by (auto simp: unclashed_def sorted_wrt_append)
  qed
  show "shipment_fine T' d'" if d': "d' \<in> set (ot_shipments T')" for d'
  proof (cases "d' = d")
    case True
    have none: "sal_shipmentLineId a \<notin> spl_id ` {l \<in> set (ot_shipmentLines T @ ls). spl_shipmentId l = shp_id d}"
      if a: "a \<in> set (ot_allocations T)" for a
    proof -
      have "spl_shipmentId l \<noteq> shp_id d" if l: "l \<in> set (ot_shipmentLines T)" "spl_id l = sal_shipmentLineId a" for l
      proof -
        have "allocation_fine T a" using inv a by simp
        then obtain l0 d0 where l0: "l0 \<in> set (ot_shipmentLines T)" "d0 \<in> set (ot_shipments T)" "spl_id l0 = sal_shipmentLineId a"
          "spl_shipmentId l0 = shp_id d0" by (auto simp: allocation_fine_def allocation_of_def)
        have "l = l0" using inv l l0 by (auto simp: indexed_def dest: unclashed_at)
        moreover have "unclashed shipment_clash (ot_shipments T @ [d])" using ix by (simp add: indexed_def assms(3))
        then have "shp_id d0 \<noteq> shp_id d" using l0(2) by (auto simp: unclashed_snoc shipment_clash_def)
        ultimately show ?thesis using l0(4) by simp
      qed
      then show ?thesis using fresh [OF _ a] by fastforce
    qed
    have own': "sal_shipmentLineId a \<in> spl_id ` {l \<in> set (ot_shipmentLines T @ ls). spl_shipmentId l = shp_id d}" if "a \<in> set as" for a
      using own [OF that] by fastforce
    have "allocations_of T' d = as"
      using none own' unfolding allocations_of_def assms(7,9) by (auto simp: filter_empty_conv filter_id_conv)
    then show ?thesis using True assms(4,5,10,11) order_kept [OF assms(6) ledger_orders_kept [OF assms(2)]]
      by (auto simp: shipment_fine_def)
  next
    case False
    then have old: "d' \<in> set (ot_shipments T)" using d' by (simp add: assms(3))
    have "unclashed shipment_clash (ot_shipments T @ [d])" using ix by (simp add: indexed_def assms(3))
    then have ne: "shp_id d' \<noteq> shp_id d" using old by (auto simp: unclashed_snoc shipment_clash_def)
    then have ids: "{l \<in> set (ot_shipmentLines T @ ls). spl_shipmentId l = shp_id d'} = {l \<in> set (ot_shipmentLines T). spl_shipmentId l = shp_id d'}"
      using assms(8) by auto
    have "sal_shipmentLineId a \<notin> spl_id ` {l \<in> set (ot_shipmentLines T). spl_shipmentId l = shp_id d'}" if a: "a \<in> set as" for a
    proof -
      obtain l where "l \<in> set ls" "spl_id l = sal_shipmentLineId a" using own [OF a] by auto
      moreover have "unclashed (\<lambda>a b. spl_id a = spl_id b) (ot_shipmentLines T @ ls)" using ix by (simp add: indexed_def assms(7))
      ultimately show ?thesis by (auto simp: unclashed_def sorted_wrt_append)
    qed
    then have "allocations_of T' d' = allocations_of T d'"
      unfolding allocations_of_def assms(7,9) ids by (simp add: filter_empty_conv)
    then show ?thesis using shipment_fine_kept [OF _ ledger_orders_kept [OF assms(2)]] inv old by blast
  qed
qed


lemma shipment_lines_kept:
  assumes "list_all2 same_shipment_line ls ls'"
  shows "{spl_id l |l. l \<in> set ls' \<and> spl_shipmentId l = k} = {spl_id l |l. l \<in> set ls \<and> spl_shipmentId l = k}"
proof (intro set_eqI iffI)
  fix x
  assume "x \<in> {spl_id l |l. l \<in> set ls' \<and> spl_shipmentId l = k}"
  then obtain l' where l': "l' \<in> set ls'" "spl_shipmentId l' = k" "x = spl_id l'" by blast
  from list_all2_elem(2) [OF assms l'(1)] obtain l where "l \<in> set ls" "same_shipment_line l l'" by blast
  with l' show "x \<in> {spl_id l |l. l \<in> set ls \<and> spl_shipmentId l = k}" by (auto simp: same_shipment_line_def)
next
  fix x
  assume "x \<in> {spl_id l |l. l \<in> set ls \<and> spl_shipmentId l = k}"
  then obtain l where l: "l \<in> set ls" "spl_shipmentId l = k" "x = spl_id l" by blast
  from list_all2_elem(1) [OF assms l(1)] obtain l' where "l' \<in> set ls'" "same_shipment_line l l'" by blast
  with l show "x \<in> {spl_id l |l. l \<in> set ls' \<and> spl_shipmentId l = k}" by (auto simp: same_shipment_line_def) (metis)
qed

lemma shipment_moved_inv:
  assumes "out_inv opening T" "ledger_moved k e T T'" "shipment_move k old new" "d \<in> set (ot_shipments T)"
    "list_all2 (\<lambda>x x'. same_shipment x x' \<and> (if x = d then \<not> shippable x' else x' = x)) (ot_shipments T) (ot_shipments T')"
    "list_all2 same_shipment_line (ot_shipmentLines T) (ot_shipmentLines T')"
    "ot_allocations T' = move_status (line_ids T d) old new (ot_allocations T)"
    "\<And>r. r \<in> set (ot_reservations T) \<Longrightarrow> e (res_id r) = moved_quantity (line_ids T d) old (ot_allocations T) (res_id r)"
  shows "out_inv opening T'"
proof (rule ledger_moved_inv [OF assms(1,2)])
  note inv = assms(1) [unfolded out_inv_def]
  show "allocations_explain T' r" if "r \<in> set (ot_reservations T')" for r
    using shipment_move_explains [OF _ assms(2,3,7,8) that] inv by blast
  show "allocation_fine T' a'" if a': "a' \<in> set (ot_allocations T')" for a'
  proof -
    obtain a where "a \<in> set (ot_allocations T)" "same_allocation a a'" using move_status_same [OF a' [unfolded assms(7)]] by blast
    then show ?thesis
      using inv list_all2_elem(1) [OF assms(6)] list_all2_elem(1) [OF assms(5)]
      by (intro allocation_fine_kept [OF _ _ ledger_reservations_kept [OF assms(2)]]) blast+
  qed
  show "shipment_fine T' x'" if x': "x' \<in> set (ot_shipments T')" for x'
  proof -
    obtain x where x: "x \<in> set (ot_shipments T)" "same_shipment x x'" "if x = d then \<not> shippable x' else x' = x"
      using list_all2_elem(2) [OF assms(5) x'] by blast
    have ids: "line_ids T' x' = line_ids T x"
      unfolding line_ids_def using shipment_lines_kept [OF assms(6), of "shp_id x"] x(2) by (simp add: same_shipment_def)
    have fine: "shipment_fine T x" using inv x(1) by simp
    have order: "\<exists>o1\<in>set (ot_orders T'). so_id o1 = shp_salesOrderId x' \<and> so_tenantId o1 = shp_tenantId x'"
      using order_kept [OF _ ledger_orders_kept [OF assms(2)]] fine x(2) by (auto simp: shipment_fine_def same_shipment_def)
    show ?thesis
    proof (cases "x = d")
      case True
      then show ?thesis using fine order x by (simp add: shipment_fine_def same_shipment_def)
    next
      case False
      have "\<not> (sal_shipmentLineId a \<in> line_ids T d \<and> sal_status a = old)"
        if a: "a \<in> set (ot_allocations T)" "sal_shipmentLineId a \<in> line_ids T x" for a
        using sole_shipment [OF _ a(1) _ a(2) assms(4) x(1)] inv False by blast
      then have "filter (\<lambda>a. sal_shipmentLineId a \<in> line_ids T x) (move_status (line_ids T d) old new (ot_allocations T))
        = filter (\<lambda>a. sal_shipmentLineId a \<in> line_ids T x) (ot_allocations T)"
        by (rule move_status_elsewhere)
      then have "allocations_of T' x' = allocations_of T x" by (simp add: allocations_of_line_ids assms(7) ids)
      then show ?thesis using fine order False x by (simp add: shipment_fine_def)
    qed
  qed
qed

theorem outbound_step_inv:
  assumes "outbound_step T T'" "out_inv opening T"
  shows "out_inv opening T'"
  using assms
proof (cases rule: outbound_step.cases)
  case (order_written os keep new)
  show ?thesis by (rule order_written_inv [OF assms(2) order_written])
next
  case (stock_reserved os ls bs new es)
  show ?thesis by (rule stock_reserved_inv [OF assms(2) stock_reserved])
next
  case (released e)
  show ?thesis by (rule released_inv [OF assms(2) released])
next
  case (drafted e d ls as)
  show ?thesis by (rule drafted_inv [OF assms(2) drafted])
next
  case (shipment_moved k e old new d)
  show ?thesis by (rule shipment_moved_inv [OF assms(2) shipment_moved])
qed

end
