(* ===== verification/Outbound_Loops.thy ===== *)
theory Outbound_Loops
  imports Outbound_Ledger
begin

text \<open>
  What each loop of writes of the outbound commands does to the tables, for any database that
  satisfies \<open>outbound_store\<close>: one table is replaced by its \<open>write_all\<close>, or grows by new rows, and the
  unique indexes stay.
\<close>

abbreviation rsi_id :: "reservation_impact \<Rightarrow> string" where
  "rsi_id i \<equiv> res_id (rsi_reservation i)"

context outbound_store
begin

lemma locked_row:
  assumes "out_locked (otx_orders tx) so_id so_tenantId c t k s = Inr r"
  shows "r \<in> set (ot_orders (tables s))" "so_id r = k" "so_tenantId r = t"
  using assms orders.first_some unfolding out_locked_def by (auto split: option.splits)

lemma locked_shipment:
  assumes "out_locked (otx_shipments tx) shp_id shp_tenantId c t k s = Inr r"
  shows "r \<in> set (ot_shipments (tables s))" "shp_id r = k" "shp_tenantId r = t"
  using assms shipments.first_some unfolding out_locked_def by (auto split: option.splits)

lemma balances_loop:
  assumes "each (write_balance tx P f) imps s = Inr s'" "indexed (tables s)" "distinct (map sti_balanceId imps)"
    and "\<And>i b. bal_id (f i b) = bal_id b"
  shows "tables s' = (tables s)\<lparr>ot_balances := write_all sti_balanceId bal_id f imps (ot_balances (tables s))\<rparr> \<and> indexed (tables s')"
proof -
  have "ot_balances (tables s') = write_all sti_balanceId bal_id f imps (ot_balances (tables s))
      \<and> (\<exists>F. tables s' = ot_balances_update F (tables s)) \<and> unclashed balance_clash (ot_balances (tables s'))"
    by (rule balances.each_guarded [OF assms(1) [unfolded write_balance_def [abs_def]] _ assms(4,3)])
      (use assms(2) in \<open>simp add: indexed_def\<close>)
  then obtain F where F: "tables s' = ot_balances_update F (tables s)"
    and rows: "ot_balances (tables s') = write_all sti_balanceId bal_id f imps (ot_balances (tables s))"
    and ok: "unclashed balance_clash (ot_balances (tables s'))" by blast
  have "tables s' = (tables s)\<lparr>ot_balances := write_all sti_balanceId bal_id f imps (ot_balances (tables s))\<rparr>"
    by (rule out_tables.equality) (use F rows in simp_all)
  then show ?thesis using assms(2) ok by (simp add: indexed_def)
qed

lemma lines_loop:
  assumes "each (write_line tx c P) imps s = Inr s'" "indexed (tables s)" "distinct (map oli_salesOrderLineId imps)"
  shows "tables s' = (tables s)\<lparr>ot_orderLines := write_all oli_salesOrderLineId ol_id move_line imps (ot_orderLines (tables s))\<rparr>
    \<and> indexed (tables s')"
proof -
  have "ot_orderLines (tables s') = write_all oli_salesOrderLineId ol_id move_line imps (ot_orderLines (tables s))
      \<and> (\<exists>F. tables s' = ot_orderLines_update F (tables s)) \<and> unclashed (\<lambda>a b. ol_id a = ol_id b) (ot_orderLines (tables s'))"
    by (rule lines.each_guarded [OF assms(1) [unfolded write_line_def [abs_def]] _ _ assms(3)])
      (use assms(2) in \<open>simp_all add: indexed_def move_line_def\<close>)
  then obtain F where F: "tables s' = ot_orderLines_update F (tables s)"
    and rows: "ot_orderLines (tables s') = write_all oli_salesOrderLineId ol_id move_line imps (ot_orderLines (tables s))"
    and ok: "unclashed (\<lambda>a b. ol_id a = ol_id b) (ot_orderLines (tables s'))" by blast
  have "tables s' = (tables s)\<lparr>ot_orderLines := write_all oli_salesOrderLineId ol_id move_line imps (ot_orderLines (tables s))\<rparr>"
    by (rule out_tables.equality) (use F rows in simp_all)
  then show ?thesis using assms(2) ok by (simp add: indexed_def)
qed

lemma lines_update_loop:
  assumes "each (\<lambda>i s. out_saved (updateRow (otx_orderLines tx) s (oli_salesOrderLineId i) (move_line i))) imps s = Inr s'"
    "indexed (tables s)" "distinct (map oli_salesOrderLineId imps)"
  shows "tables s' = (tables s)\<lparr>ot_orderLines := write_all oli_salesOrderLineId ol_id move_line imps (ot_orderLines (tables s))\<rparr>
    \<and> indexed (tables s')"
proof -
  have "ot_orderLines (tables s') = write_all oli_salesOrderLineId ol_id move_line imps (ot_orderLines (tables s))
      \<and> (\<exists>F. tables s' = ot_orderLines_update F (tables s)) \<and> unclashed (\<lambda>a b. ol_id a = ol_id b) (ot_orderLines (tables s'))"
    by (rule lines.each_updated [OF assms(1) _ _ assms(3)]) (use assms(2) in \<open>simp_all add: indexed_def move_line_def\<close>)
  then obtain F where F: "tables s' = ot_orderLines_update F (tables s)"
    and rows: "ot_orderLines (tables s') = write_all oli_salesOrderLineId ol_id move_line imps (ot_orderLines (tables s))"
    and ok: "unclashed (\<lambda>a b. ol_id a = ol_id b) (ot_orderLines (tables s'))" by blast
  have "tables s' = (tables s)\<lparr>ot_orderLines := write_all oli_salesOrderLineId ol_id move_line imps (ot_orderLines (tables s))\<rparr>"
    by (rule out_tables.equality) (use F rows in simp_all)
  then show ?thesis using assms(2) ok by (simp add: indexed_def)
qed

lemma shipment_lines_loop:
  assumes "each (write_shipment_line tx) imps s = Inr s'" "indexed (tables s)" "distinct (map sli_shipmentLineId imps)"
  shows "\<exists>ls. tables s' = (tables s)\<lparr>ot_shipmentLines := ls\<rparr> \<and> indexed (tables s')
    \<and> list_all2 same_shipment_line (ot_shipmentLines (tables s)) ls"
proof -
  define f :: "shipment_line_impact \<Rightarrow> shipment_line \<Rightarrow> shipment_line"
    where "f = (\<lambda>i l. l\<lparr>spl_postedQuantity := sli_postedAfter i, spl_version := spl_version l + 1\<rparr>)"
  have w: "write_shipment_line tx = (\<lambda>i s. out_saved (updateRow (otx_shipmentLines tx) s (sli_shipmentLineId i) (f i)))"
    by (simp add: fun_eq_iff write_shipment_line_def f_def)
  let ?ls = "write_all sli_shipmentLineId spl_id f imps (ot_shipmentLines (tables s))"
  have "ot_shipmentLines (tables s') = ?ls \<and> (\<exists>F. tables s' = ot_shipmentLines_update F (tables s))
      \<and> unclashed (\<lambda>a b. spl_id a = spl_id b) (ot_shipmentLines (tables s'))"
    by (rule shiplines.each_updated [OF assms(1) [unfolded w] _ _ assms(3)]) (use assms(2) in \<open>simp_all add: indexed_def f_def\<close>)
  then obtain F where F: "tables s' = ot_shipmentLines_update F (tables s)" and rows: "ot_shipmentLines (tables s') = ?ls"
    and ok: "unclashed (\<lambda>a b. spl_id a = spl_id b) (ot_shipmentLines (tables s'))" by blast
  have t: "tables s' = (tables s)\<lparr>ot_shipmentLines := ?ls\<rparr>"
    by (rule out_tables.equality) (use F rows in simp_all)
  have "list_all2 same_shipment_line (ot_shipmentLines (tables s)) ?ls"
    by (simp add: write_all_def list_all2_map2 list_all2_same same_shipment_line_def f_def split: option.splits)
  then show ?thesis using t assms(2) ok by (auto simp: indexed_def)
qed

lemma reservations_loop:
  assumes "each (write_reservation tx c P t ty) es s = Inr s'" "indexed (tables s)" "distinct (map (rsi_id \<circ> snd) es)"
  shows "\<exists>evs. tables s' = (tables s)\<lparr>ot_reservations := write_all rsi_id res_id set_reservation (map snd es) (ot_reservations (tables s)),
      ot_events := evs\<rparr> \<and> indexed (tables s')"
  using assms
proof (induction es arbitrary: s)
  case Nil
  have "tables s = (tables s)\<lparr>ot_reservations := ot_reservations (tables s), ot_events := ot_events (tables s)\<rparr>" by simp
  then show ?case using Nil by (intro exI [of _ "ot_events (tables s)"]) simp
next
  case (Cons e es)
  let ?i = "snd e"
  obtain s1 s2 where s1: "updateMany (otx_reservations tx) s (\<lambda>q. res_id q = rsi_id ?i \<and> res_version q = res_version (rsi_reservation ?i) \<and> P q)
        (set_reservation ?i) = Some (s1, 1)"
    and s2: "createRow (otx_events tx) s1 (new_event (fst e) t (rsi_id ?i) ty (rsi_quantity ?i)) = Some s2"
    and rest: "each (write_reservation tx c P t ty) es s2 = Inr s'"
  proof -
    from Cons.prems(1) obtain s2 where "write_reservation tx c P t ty e s = Inr s2"
      and rest: "each (write_reservation tx c P t ty) es s2 = Inr s'" by auto
    then show thesis using that by (auto simp: write_reservation_def Let_def)
  qed
  have u: "ot_reservations (tables s1) = update_where (\<lambda>r. res_id r = rsi_id ?i) (set_reservation ?i) (ot_reservations (tables s))
      \<and> (\<exists>F. tables s1 = ot_reservations_update F (tables s)) \<and> unclashed (\<lambda>a b. res_id a = res_id b) (ot_reservations (tables s1))"
    using reservations.update_one [OF s1] Cons.prems(2) unfolding indexed_def by blast
  then obtain F where F: "tables s1 = ot_reservations_update F (tables s)"
    and ok: "unclashed (\<lambda>a b. res_id a = res_id b) (ot_reservations (tables s1))" by blast
  have ix1: "indexed (tables s1)" using ok Cons.prems(2) by (simp add: indexed_def F)
  have t2: "tables s2 = ot_events_update (\<lambda>rs. rs @ [new_event (fst e) t (rsi_id ?i) ty (rsi_quantity ?i)]) (tables s1)"
    "indexed (tables s2)"
    using events.created [OF s2] ix1 by (simp_all add: indexed_def)
  obtain evs where evs: "tables s' = (tables s2)\<lparr>ot_reservations := write_all rsi_id res_id set_reservation (map snd es) (ot_reservations (tables s2)),
      ot_events := evs\<rparr>" "indexed (tables s')"
    using Cons.IH [OF rest t2(2)] Cons.prems(3) by auto
  have "write_all rsi_id res_id set_reservation (map snd (e # es)) (ot_reservations (tables s))
    = write_all rsi_id res_id set_reservation (map snd es) (ot_reservations (tables s2))"
    using Cons.prems(3) u unfolding list.map by (subst write_all_Cons) (auto simp: set_reservation_def t2(1) image_comp)
  then have "tables s' = (tables s)\<lparr>ot_reservations := write_all rsi_id res_id set_reservation (map snd (e # es)) (ot_reservations (tables s)),
      ot_events := evs\<rparr>"
    by (intro out_tables.equality) (use evs(1) t2(1) F in simp_all)
  then show ?case using evs(2) by blast
qed

lemma movements_created_loop:
  assumes "each (\<lambda>x s. out_saved (createRow (otx_movements tx) s (row x))) xs s = Inr s'" "indexed (tables s)"
  shows "tables s' = (tables s)\<lparr>ot_movements := ot_movements (tables s) @ map row xs\<rparr> \<and> indexed (tables s')"
proof -
  have "ot_movements (tables s') = ot_movements (tables s) @ map row xs \<and> (\<exists>F. tables s' = ot_movements_update F (tables s))
      \<and> unclashed movement_clash (ot_movements (tables s'))"
    by (rule movements.each_created [OF assms(1)]) (use assms(2) in \<open>simp add: indexed_def\<close>)
  then obtain F where F: "tables s' = ot_movements_update F (tables s)" and rows: "ot_movements (tables s') = ot_movements (tables s) @ map row xs"
    and ok: "unclashed movement_clash (ot_movements (tables s'))" by blast
  have "tables s' = (tables s)\<lparr>ot_movements := ot_movements (tables s) @ map row xs\<rparr>"
    by (rule out_tables.equality) (use F rows in simp_all)
  then show ?thesis using assms(2) ok by (simp add: indexed_def)
qed

lemma order_updated:
  assumes "updateRow (otx_orders tx) s k f = Some s'" "indexed (tables s)" "\<And>o1. so_id (f o1) = so_id o1 \<and> so_tenantId (f o1) = so_tenantId o1"
  shows "\<exists>os. tables s' = (tables s)\<lparr>ot_orders := os\<rparr> \<and> indexed (tables s') \<and> orders_kept (tables s) (tables s')"
proof -
  note u = orders.updated [OF assms(1)]
  have "tables s' = (tables s)\<lparr>ot_orders := update_where (\<lambda>r. so_id r = k) f (ot_orders (tables s))\<rparr>"
    by (rule out_tables.equality) (use u in simp_all)
  moreover have "indexed (tables s')" using u assms(2) by (simp add: indexed_def)
  moreover have "orders_kept (tables s) (tables s')"
    unfolding orders_kept_def
  proof
    fix a assume "a \<in> set (ot_orders (tables s))"
    then have "(if so_id a = k then f a else a) \<in> set (ot_orders (tables s'))" using u by (auto simp: set_update_where)
    then show "\<exists>b\<in>set (ot_orders (tables s')). so_id b = so_id a \<and> so_tenantId b = so_tenantId a"
      using assms(3) by (intro bexI) auto
  qed
  ultimately show ?thesis by blast
qed

lemma shipment_updated:
  assumes "updateRow (otx_shipments tx) s (shp_id d) f = Some s'" "indexed (tables s)" "d \<in> set (ot_shipments (tables s))"
    and "\<And>x. same_shipment x (f x)" "\<not> shippable (f d)"
  shows "\<exists>ds. tables s' = (tables s)\<lparr>ot_shipments := ds\<rparr> \<and> indexed (tables s')
    \<and> list_all2 (\<lambda>x x'. same_shipment x x' \<and> (if x = d then \<not> shippable x' else x' = x)) (ot_shipments (tables s)) ds"
proof -
  note u = shipments.updated [OF assms(1)]
  let ?ds = "update_where (\<lambda>r. shp_id r = shp_id d) f (ot_shipments (tables s))"
  have "tables s' = (tables s)\<lparr>ot_shipments := ?ds\<rparr>" by (rule out_tables.equality) (use u in simp_all)
  moreover have "indexed (tables s')" using u assms(2) by (simp add: indexed_def)
  moreover have "x = d" if "x \<in> set (ot_shipments (tables s))" "shp_id x = shp_id d" for x
    using that assms(2,3) by (auto simp: indexed_def shipment_clash_def intro: unclashed_at [where clash = shipment_clash])
  then have "list_all2 (\<lambda>x x'. same_shipment x x' \<and> (if x = d then \<not> shippable x' else x' = x)) (ot_shipments (tables s)) ?ds"
    using assms(4,5) by (auto simp: update_where_def list_all2_map2 list_all2_same same_shipment_def)
  ultimately show ?thesis by blast
qed

lemma allocations_moved:
  assumes "move_allocations tx t ids old new s = Inr s'" "indexed (tables s)"
    and "\<And>a. a \<in> set (ot_allocations (tables s)) \<Longrightarrow> sal_shipmentLineId a \<in> set ids \<Longrightarrow> sal_tenantId a = t"
  shows "tables s' = (tables s)\<lparr>ot_allocations := move_status (set ids) old new (ot_allocations (tables s))\<rparr> \<and> indexed (tables s')"
proof -
  obtain n where "updateMany (otx_allocations tx) s (\<lambda>a. sal_tenantId a = t \<and> sal_shipmentLineId a \<in> set ids \<and> sal_status a = old)
       (\<lambda>a. a\<lparr>sal_status := new, sal_version := sal_version a + 1\<rparr>) = Some (s', n)"
    using assms(1) by (auto simp: move_allocations_def)
  note u = allocations.updated_many [OF this]
  have "update_where (\<lambda>a. sal_tenantId a = t \<and> sal_shipmentLineId a \<in> set ids \<and> sal_status a = old)
       (\<lambda>a. a\<lparr>sal_status := new, sal_version := sal_version a + 1\<rparr>) (ot_allocations (tables s))
    = move_status (set ids) old new (ot_allocations (tables s))"
    unfolding move_status_def update_where_def using assms(3) by (intro map_cong) auto
  then have "tables s' = (tables s)\<lparr>ot_allocations := move_status (set ids) old new (ot_allocations (tables s))\<rparr>"
    by (intro out_tables.equality) (use u in simp_all)
  moreover have "indexed (tables s')" using u assms(2) by (simp add: indexed_def)
  ultimately show ?thesis ..
qed

lemma reservations_created:
  assumes "each (create_reservation tx gen t k) es s = Inr s'" "indexed (tables s)"
  shows "\<exists>evs. tables s' = (tables s)\<lparr>ot_reservations := ot_reservations (tables s)
        @ map (\<lambda>ne. new_reservation (gen (2 * fst ne + 1)) t k (snd ne)) es, ot_events := evs\<rparr> \<and> indexed (tables s')"
  using assms
proof (induction es arbitrary: s)
  case Nil
  then show ?case by (intro exI [of _ "ot_events (tables s)"]) simp
next
  case (Cons ne es)
  let ?r = "new_reservation (gen (2 * fst ne + 1)) t k (snd ne)"
  obtain s2 where "create_reservation tx gen t k ne s = Inr s2" and rest: "each (create_reservation tx gen t k) es s2 = Inr s'"
    using Cons.prems(1) by auto
  then obtain s1 ev where s1: "createRow (otx_reservations tx) s ?r = Some s1" and s2: "createRow (otx_events tx) s1 ev = Some s2"
    by (auto simp: create_reservation_def Let_def)
  have t2: "tables s2 = (tables s)\<lparr>ot_reservations := ot_reservations (tables s) @ [?r], ot_events := ot_events (tables s) @ [ev]\<rparr>"
    by (rule out_tables.equality) (use reservations.created [OF s1] events.created [OF s2] in simp_all)
  have "indexed (tables s2)"
    using reservations.created [OF s1] events.created [OF s2] Cons.prems(2) by (simp add: indexed_def)
  from Cons.IH [OF rest this] obtain evs where "tables s' = (tables s2)\<lparr>ot_reservations := ot_reservations (tables s2)
        @ map (\<lambda>ne. new_reservation (gen (2 * fst ne + 1)) t k (snd ne)) es, ot_events := evs\<rparr>" "indexed (tables s')" by blast
  then show ?case using t2 by auto
qed

definition draft_rows :: "string \<Rightarrow> string \<Rightarrow> draft_line list \<Rightarrow> shipment_line list \<Rightarrow> allocation list \<Rightarrow> bool" where
  "draft_rows t shipmentId plans ls as \<longleftrightarrow> (\<forall>l\<in>set ls. spl_shipmentId l = shipmentId)
     \<and> (\<forall>a\<in>set as. sal_tenantId a = t \<and> sal_status a = ''allocated'' \<and> (\<exists>p\<in>set plans. \<exists>e\<in>set (dln_allocations p). \<exists>l\<in>set ls.
          sal_quantity a = snd e \<and> sal_reservationId a = res_id (fst e) \<and> sal_warehouseId a = res_warehouseId (fst e)
          \<and> sal_locationKey a = res_locationKey (fst e) \<and> sal_shipmentLineId a = spl_id l
          \<and> spl_salesOrderLineId l = ol_id (dln_orderLine p)))
     \<and> (\<forall>k. sum_at sal_reservationId sal_quantity as k
          = sum_at (\<lambda>e. res_id (fst e)) snd (concat (map dln_allocations plans)) k)
     \<and> length as = length (concat (map dln_allocations plans))"

lemma shipment_lines_created:
  assumes "create_shipment_lines tx gen t shipmentId n plans s = Inr s'" "indexed (tables s)"
  shows "\<exists>ls as. tables s' = (tables s)\<lparr>ot_shipmentLines := ot_shipmentLines (tables s) @ ls,
      ot_allocations := ot_allocations (tables s) @ as\<rparr> \<and> indexed (tables s') \<and> draft_rows t shipmentId plans ls as"
  using assms
proof (induction plans arbitrary: n s)
  case Nil
  then show ?case by (intro exI [of _ "[]"]) (simp add: draft_rows_def)
next
  case (Cons p ps)
  let ?l = "new_shipment_line (gen n) shipmentId p" and ?es = "with_ids gen (n + 1) (dln_allocations p)"
  let ?row = "\<lambda>(k, e). new_allocation k t (gen n) e"
  obtain s1 s2 where s1: "createRow (otx_shipmentLines tx) s ?l = Some s1"
    and s2: "each (\<lambda>(k, e) s. out_saved (createRow (otx_allocations tx) s (new_allocation k t (gen n) e))) ?es s1 = Inr s2"
    and rest: "create_shipment_lines tx gen t shipmentId (n + 1 + length (dln_allocations p)) ps s2 = Inr s'"
    using Cons.prems(1) by auto
  note c = shiplines.created [OF s1]
  have ix1: "indexed (tables s1)" using c Cons.prems(2) by (simp add: indexed_def)
  have eq: "(\<lambda>(k, e) s. out_saved (createRow (otx_allocations tx) s (new_allocation k t (gen n) e)))
    = (\<lambda>x s. out_saved (createRow (otx_allocations tx) s (?row x)))" by auto
  have a: "ot_allocations (tables s2) = ot_allocations (tables s1) @ map ?row ?es \<and> (\<exists>F. tables s2 = ot_allocations_update F (tables s1))
      \<and> unclashed (\<lambda>a b. sal_id a = sal_id b) (ot_allocations (tables s2))"
    by (rule allocations.each_created [OF s2 [unfolded eq]]) (use ix1 in \<open>simp add: indexed_def\<close>)
  then obtain F where F: "tables s2 = ot_allocations_update F (tables s1)" and rows: "ot_allocations (tables s2) = ot_allocations (tables s1) @ map ?row ?es"
    and ok: "unclashed (\<lambda>a b. sal_id a = sal_id b) (ot_allocations (tables s2))" by blast
  have t2: "tables s2 = (tables s)\<lparr>ot_shipmentLines := ot_shipmentLines (tables s) @ [?l],
      ot_allocations := ot_allocations (tables s) @ map ?row ?es\<rparr>"
    by (rule out_tables.equality) (use c F rows in simp_all)
  have "indexed (tables s2)" using ix1 ok F by (simp add: indexed_def)
  from Cons.IH [OF rest this] obtain ls as where later: "tables s' = (tables s2)\<lparr>ot_shipmentLines := ot_shipmentLines (tables s2) @ ls,
      ot_allocations := ot_allocations (tables s2) @ as\<rparr>" "indexed (tables s')" "draft_rows t shipmentId ps ls as" by blast
  have snds: "map snd ?es = dln_allocations p" by (simp add: with_ids_def comp_def split_def)
  have sums: "sum_at sal_reservationId sal_quantity (map ?row es) k = sum_at (\<lambda>e. res_id (fst e)) snd (map snd es) k" for es k
    by (induction es) (auto simp: new_allocation_def Let_def)
  have own: "\<forall>a\<in>set (map ?row ?es). sal_tenantId a = t \<and> sal_status a = ''allocated'' \<and> (\<exists>e\<in>set (dln_allocations p).
      sal_quantity a = snd e \<and> sal_reservationId a = res_id (fst e) \<and> sal_warehouseId a = res_warehouseId (fst e)
          \<and> sal_locationKey a = res_locationKey (fst e) \<and> sal_shipmentLineId a = spl_id ?l)"
  proof
    fix a assume "a \<in> set (map ?row ?es)"
    then obtain k e where a: "(k, e) \<in> set ?es" "a = new_allocation k t (gen n) e" by auto
    have "e \<in> set (dln_allocations p)" using imageI [OF a(1), of snd] snds by (metis list.set_map snd_conv)
    then show "sal_tenantId a = t \<and> sal_status a = ''allocated'' \<and> (\<exists>e\<in>set (dln_allocations p).
      sal_quantity a = snd e \<and> sal_reservationId a = res_id (fst e) \<and> sal_warehouseId a = res_warehouseId (fst e)
          \<and> sal_locationKey a = res_locationKey (fst e) \<and> sal_shipmentLineId a = spl_id ?l)"
      unfolding a(2) by (auto simp: new_allocation_def new_shipment_line_def Let_def)
  qed
  have "spl_salesOrderLineId ?l = ol_id (dln_orderLine p)" "spl_shipmentId ?l = shipmentId"
    by (simp_all add: new_shipment_line_def Let_def)
  then have "draft_rows t shipmentId (p # ps) (?l # ls) (map ?row ?es @ as)"
    using later(3) own sums [of ?es] snds unfolding draft_rows_def
    by (auto simp: with_ids_def simp del: set_map)
  moreover have "tables s' = (tables s)\<lparr>ot_shipmentLines := ot_shipmentLines (tables s) @ (?l # ls),
      ot_allocations := ot_allocations (tables s) @ (map ?row ?es @ as)\<rparr>"
    by (rule out_tables.equality) (use later(1) t2 in simp_all)
  ultimately show ?case using later(2) by blast
qed

lemma movements_reversed:
  assumes "each (reverse_movement tx t batch d) es s = Inr s'" "indexed (tables s)"
  shows "\<exists>ms. tables s' = (tables s)\<lparr>ot_movements := ms\<rparr> \<and> indexed (tables s')
    \<and> (\<forall>p. sum_at out_move_place net_quantity ms p = moved_at (tables s) p
        + sum_at out_move_place net_quantity (map (\<lambda>e. reversal_movement (fst e) t batch d (fst (snd e)) (snd (snd e))) es) p)"
  using assms
proof (induction es arbitrary: s)
  case Nil
  then show ?case by (intro exI [of _ "ot_movements (tables s)"]) (simp add: moved_at_def)
next
  case (Cons e es)
  let ?m = "reversal_movement (fst e) t batch d (fst (snd e)) (snd (snd e))"
  obtain s2 where "reverse_movement tx t batch d e s = Inr s2" and rest: "each (reverse_movement tx t batch d) es s2 = Inr s'"
    using Cons.prems(1) by auto
  then obtain s1 where s1: "createRow (otx_movements tx) s ?m = Some s1"
    and s2: "updateRow (otx_movements tx) s1 (mov_id (snd (snd e))) (\<lambda>m. m\<lparr>mov_reversedByMovementId := Some (mov_id ?m)\<rparr>) = Some s2"
    by (auto simp: reverse_movement_def Let_def)
  note c = movements.created [OF s1] and u = movements.updated [OF s2]
  let ?ms = "update_where (\<lambda>r. mov_id r = mov_id (snd (snd e))) (\<lambda>m. m\<lparr>mov_reversedByMovementId := Some (mov_id ?m)\<rparr>)
      (ot_movements (tables s) @ [?m])"
  have t2: "tables s2 = (tables s)\<lparr>ot_movements := ?ms\<rparr>" by (rule out_tables.equality) (use c u in simp_all)
  have "indexed (tables s2)" using c u Cons.prems(2) by (simp add: indexed_def)
  from Cons.IH [OF rest this] obtain ms where later: "tables s' = (tables s2)\<lparr>ot_movements := ms\<rparr>" "indexed (tables s')"
    "\<forall>p. sum_at out_move_place net_quantity ms p = moved_at (tables s2) p
        + sum_at out_move_place net_quantity (map (\<lambda>e. reversal_movement (fst e) t batch d (fst (snd e)) (snd (snd e))) es) p" by blast
  have same: "sum_at out_move_place net_quantity (update_where P (\<lambda>m. m\<lparr>mov_reversedByMovementId := v\<rparr>) rs) p
    = sum_at out_move_place net_quantity rs p" for P v rs p
    by (induction rs) (auto simp: out_move_place_def net_quantity_def)
  have sel: "ot_movements (T\<lparr>ot_movements := x\<rparr>) = x" for T :: out_tables and x by simp
  have "ot_movements (tables s2) = ?ms" unfolding t2 by (rule sel)
  then have "moved_at (tables s2) p = moved_at (tables s) p + (if out_move_place ?m = p then net_quantity ?m else 0)" for p
    unfolding moved_at_def by (simp only: same sum_at_append sum_at_Cons sum_at_Nil)
  then show ?case using later t2 by (intro exI [of _ ms]) simp
qed

end

end
