(* ===== verification/Outbound_Plans.thy ===== *)
theory Outbound_Plans
  imports Outbound_Loops
begin

text \<open>
  What an allowed plan of \<open>Outbound_Policy\<close> and \<open>Shipment_Policy\<close> does to a table: the impacts name
  different rows, and writing them moves every reservation, order line and balance by what the plan
  moves there. The keys of \<open>balanceKey\<close> tell the places apart because SKUs and warehouses contain no bar.
\<close>

section \<open>Balance keys\<close>

lemma separator_inj:
  assumes "c \<notin> set a" "c \<notin> set a'"
  shows "a @ c # x = a' @ c # x' \<longleftrightarrow> a = a' \<and> x = x'"
  using assms
proof (induction a arbitrary: a')
  case Nil
  then show ?case by (cases a') auto
next
  case (Cons y a)
  then show ?case by (cases a') auto
qed

lemma balanceKey_inj:
  assumes "clean_name k" "clean_name w" "js_trim l = l" "clean_name k'" "clean_name w'" "js_trim l' = l'"
  shows "balanceKey k w l = balanceKey k' w' l' \<longleftrightarrow> k = k' \<and> w = w' \<and> l = l'"
  using assms by (simp add: balanceKey_def clean_name_def separator_inj)

lemma balanceKey_nonempty [simp]: "balanceKey k w l \<noteq> []"
  by (simp add: balanceKey_def)

section \<open>Rows found by their identifiers\<close>

lemma same_reservation: "indexed T \<Longrightarrow> r \<in> set (ot_reservations T) \<Longrightarrow> q \<in> set (ot_reservations T) \<Longrightarrow> res_id r = res_id q \<Longrightarrow> r = q"
  by (auto simp: indexed_def dest: unclashed_at)

lemma same_shipment_line_row:
  "indexed T \<Longrightarrow> l \<in> set (ot_shipmentLines T) \<Longrightarrow> q \<in> set (ot_shipmentLines T) \<Longrightarrow> spl_id l = spl_id q \<Longrightarrow> l = q"
  by (auto simp: indexed_def dest: unclashed_at)

lemma same_shipment_row:
  "indexed T \<Longrightarrow> d \<in> set (ot_shipments T) \<Longrightarrow> q \<in> set (ot_shipments T) \<Longrightarrow> shp_id d = shp_id q \<Longrightarrow> d = q"
  by (auto simp: indexed_def shipment_clash_def dest: unclashed_at [where clash = shipment_clash])

lemma same_line: "indexed T \<Longrightarrow> l \<in> set (ot_orderLines T) \<Longrightarrow> q \<in> set (ot_orderLines T) \<Longrightarrow> ol_id l = ol_id q \<Longrightarrow> l = q"
  by (auto simp: indexed_def dest: unclashed_at)

lemma same_balance:
  "indexed T \<Longrightarrow> b \<in> set (ot_balances T) \<Longrightarrow> q \<in> set (ot_balances T) \<Longrightarrow> bal_place b = bal_place q \<or> bal_id b = bal_id q \<Longrightarrow> b = q"
  by (auto simp: indexed_def balance_clash_def bal_place_def dest: unclashed_at [where clash = balance_clash])

lemma distinct_ids:
  assumes "indexed T"
  shows "distinct (map res_id (ot_reservations T))" "distinct (map ol_id (ot_orderLines T))" "distinct (map bal_id (ot_balances T))"
proof -
  have "unclashed c rs \<Longrightarrow> (\<And>a b. k a = k b \<Longrightarrow> c a b) \<Longrightarrow> distinct (map k rs)" for c :: "'r \<Rightarrow> 'r \<Rightarrow> bool" and k :: "'r \<Rightarrow> string" and rs
    by (induction rs) (auto simp: unclashed_Cons)
  then show "distinct (map res_id (ot_reservations T))" "distinct (map ol_id (ot_orderLines T))" "distinct (map bal_id (ot_balances T))"
    using assms unfolding indexed_def balance_clash_def by blast+
qed

lemma grouped_list_all2:
  assumes "\<And>r. r \<in> set rs \<Longrightarrow> find (\<lambda>i. kid i = rk r) imps
      = (if spot r \<in> place ` set xs then Some (I r (sum_at place qty xs (spot r))) else None)"
    and "\<And>r. r \<in> set rs \<Longrightarrow> spot r \<in> place ` set xs \<Longrightarrow> R r (f (I r (sum_at place qty xs (spot r))) r)"
    and "\<And>r. r \<in> set rs \<Longrightarrow> spot r \<notin> place ` set xs \<Longrightarrow> R r r"
  shows "list_all2 R rs (write_all kid rk f imps rs)"
proof -
  have "write_all kid rk f imps rs = map (\<lambda>r. if spot r \<in> place ` set xs then f (I r (sum_at place qty xs (spot r))) r else r) rs"
    by (rule grouped_write) (rule assms(1))
  then show ?thesis using assms(2,3) by (simp add: list_all2_map2 list_all2_same)
qed

lemma sum_at_if: "sum_at key f rs p = sum_list (map (\<lambda>r. if key r = p then f r else 0) rs)"
  by (induction rs) auto

lemma sum_at_reference:
  assumes "\<And>x. x \<in> set xs \<Longrightarrow> \<exists>r\<in>set rs. rk r = via x \<and> spot r = place x" "distinct (map rk rs)"
  shows "sum_at place qty xs p = sum_at spot (\<lambda>r. sum_at via qty xs (rk r)) rs p"
  unfolding sum_at_if [of spot] by (rule sum_at_via [OF assms])

section \<open>Writing the impacts\<close>

definition moving_impact :: "ledger_move \<Rightarrow> reservation \<Rightarrow> int \<Rightarrow> reservation_impact" where
  "moving_impact k r q = reservation_impact_of r q (dAllocated k * q) (dConsumed k * q) (dReleased k * q)"

lemma moving_impact_simps [simp]: "rsi_reservation (moving_impact k r q) = r" "rsi_quantity (moving_impact k r q) = q"
  by (simp_all add: moving_impact_def reservation_impact_of_def Let_def)

lemma moving_impact_moves: "res_moved k q r (set_reservation (moving_impact k r q) r)"
  by (auto simp: res_moved_def set_reservation_def moving_impact_def reservation_impact_of_def Let_def)

lemma res_moved_zero: "res_moved k 0 r r"
  by (auto simp: res_moved_def intro!: exI [of _ "res_status r"] exI [of _ "res_version r"])

lemma reservations_moved:
  assumes ix: "indexed T" and ne: "\<And>x. x \<in> set xs \<Longrightarrow> key x \<noteq> []"
    and planned: "\<And>j. j \<in> key ` set xs \<Longrightarrow>
      \<exists>r\<in>set (ot_reservations T). res_id r = j \<and> plan j = [moving_impact k r (get0 (add_all key qty xs []) j)]"
    and imps: "imps = concat (map plan (sorted_ids le (map fst (add_all key qty xs []))))"
  shows "distinct (map rsi_id imps)"
    and "list_all2 (\<lambda>r. res_moved k (sum_at key qty xs (res_id r)) r) (ot_reservations T)
      (write_all rsi_id res_id set_reservation imps (ot_reservations T))"
    and "r \<in> set (ot_reservations T) \<Longrightarrow> find (\<lambda>i. rsi_id i = res_id r) imps
      = (if res_id r \<in> key ` set xs then Some (moving_impact k r (sum_at key qty xs (res_id r))) else None)"
proof -
  have p: "\<exists>x\<in>set xs. \<exists>r\<in>set (ot_reservations T). key x = j \<and> key x = res_id r
    \<and> plan j = [moving_impact k r (get0 (add_all key qty xs []) j)]" if "j \<in> key ` set xs" for j
    using planned [OF that] that by (metis (no_types, lifting) imageE)
  note g = grouped [where kid = rsi_id and rk = res_id and spot = res_id and place = key, OF p _ ne _ _ imps]
  show "distinct (map rsi_id imps)" by (rule g(1)) (use same_reservation [OF ix] in auto)
  have f: "find (\<lambda>i. rsi_id i = res_id r) imps
      = (if res_id r \<in> key ` set xs then Some (moving_impact k r (sum_at key qty xs (res_id r))) else None)"
    if "r \<in> set (ot_reservations T)" for r
    by (rule g(2)) (use same_reservation [OF ix] that in auto)
  show "list_all2 (\<lambda>r. res_moved k (sum_at key qty xs (res_id r)) r) (ot_reservations T)
      (write_all rsi_id res_id set_reservation imps (ot_reservations T))"
    by (rule grouped_list_all2 [where I = "moving_impact k" and spot = res_id and place = key and qty = qty and xs = xs, OF f]) (auto simp: moving_impact_moves res_moved_zero sum_at_no_key)
  show "find (\<lambda>i. rsi_id i = res_id r) imps
      = (if res_id r \<in> key ` set xs then Some (moving_impact k r (sum_at key qty xs (res_id r))) else None)"
    if "r \<in> set (ot_reservations T)" by (rule f [OF that])
qed

definition line_impact_moving :: "ledger_move \<Rightarrow> order_line \<Rightarrow> int \<Rightarrow> line_impact" where
  "line_impact_moving k l q = line_impact_of l q (dOpen k * q) (dConsumed k * q)"

lemma lines_written:
  assumes ix: "indexed T" and ne: "\<And>x. x \<in> set xs \<Longrightarrow> key x \<noteq> []"
    and planned: "\<And>j. j \<in> key ` set xs \<Longrightarrow>
      \<exists>l\<in>set (ot_orderLines T). ol_id l = j \<and> plan j = [I l (get0 (add_all key qty xs []) j)]"
    and kid: "\<And>l q. oli_salesOrderLineId (I l q) = ol_id l"
    and imps: "imps = concat (map plan (sorted_ids le (map fst (add_all key qty xs []))))"
    and moves: "\<And>l. l \<in> set (ot_orderLines T) \<Longrightarrow> ol_id l \<in> key ` set xs \<Longrightarrow>
      R l (move_line (I l (sum_at key qty xs (ol_id l))) l)"
    and stays: "\<And>l. l \<in> set (ot_orderLines T) \<Longrightarrow> ol_id l \<notin> key ` set xs \<Longrightarrow> R l l"
  shows "distinct (map oli_salesOrderLineId imps)"
    and "list_all2 R (ot_orderLines T) (write_all oli_salesOrderLineId ol_id move_line imps (ot_orderLines T))"
proof -
  have p: "\<exists>x\<in>set xs. \<exists>r\<in>set (ot_orderLines T). key x = j \<and> key x = ol_id r
    \<and> plan j = [I r (get0 (add_all key qty xs []) j)]" if "j \<in> key ` set xs" for j
    using planned [OF that] that by (metis (no_types, lifting) imageE)
  note g = grouped [where kid = oli_salesOrderLineId and rk = ol_id and spot = ol_id and place = key, OF p _ ne _ kid imps]
  show "distinct (map oli_salesOrderLineId imps)" by (rule g(1)) (use same_line [OF ix] in auto)
  have f: "find (\<lambda>i. oli_salesOrderLineId i = ol_id r) imps
      = (if ol_id r \<in> key ` set xs then Some (I r (sum_at key qty xs (ol_id r))) else None)"
    if "r \<in> set (ot_orderLines T)" for r
    by (rule g(2)) (use same_line [OF ix] that in auto)
  show "list_all2 R (ot_orderLines T) (write_all oli_salesOrderLineId ol_id move_line imps (ot_orderLines T))"
    by (rule grouped_list_all2 [where I = "I" and spot = ol_id and place = key and qty = qty and xs = xs, OF f]) (auto simp: moves stays)
qed

lemma line_impact_moves: "line_moved k q l (move_line (line_impact_moving k l q) l)"
  by (auto simp: line_moved_def move_line_def line_impact_moving_def line_impact_of_def)

lemma line_moved_zero: "line_moved k 0 l l"
  by (auto simp: line_moved_def intro!: exI [of _ "ol_version l"])

lemma balances_written:
  assumes ix: "indexed T"
    and planned: "\<And>j. j \<in> gk ` set xs \<Longrightarrow> \<exists>x\<in>set xs. \<exists>b\<in>set (ot_balances T). gk x = j \<and> place x = bal_place b
      \<and> plan j = [I b (get0 (add_all gk qty xs []) j)]"
    and inj: "\<And>x y. x \<in> set xs \<Longrightarrow> y \<in> set xs \<Longrightarrow> gk x = gk y \<longleftrightarrow> place x = place y"
    and ne: "\<And>x. x \<in> set xs \<Longrightarrow> gk x \<noteq> []"
    and kid: "\<And>b q. sti_balanceId (I b q) = bal_id b"
    and imps: "imps = concat (map plan (sorted_ids le (map fst (add_all gk qty xs []))))"
    and moves: "\<And>b. b \<in> set (ot_balances T) \<Longrightarrow> bal_place b \<in> place ` set xs \<Longrightarrow>
      R b (f (I b (sum_at place qty xs (bal_place b))) b)"
    and stays: "\<And>b. b \<in> set (ot_balances T) \<Longrightarrow> bal_place b \<notin> place ` set xs \<Longrightarrow> R b b"
  shows "distinct (map sti_balanceId imps)"
    and "list_all2 R (ot_balances T) (write_all sti_balanceId bal_id f imps (ot_balances T))"
proof -
  note g = grouped [where kid = sti_balanceId and rk = bal_id and spot = bal_place and place = place, OF planned inj ne _ kid imps]
  show "distinct (map sti_balanceId imps)" by (rule g(1)) (use same_balance [OF ix] in auto)
  have f: "find (\<lambda>i. sti_balanceId i = bal_id r) imps
      = (if bal_place r \<in> place ` set xs then Some (I r (sum_at place qty xs (bal_place r))) else None)"
    if "r \<in> set (ot_balances T)" for r
    by (rule g(2)) (use same_balance [OF ix] that in auto)
  show "list_all2 R (ot_balances T) (write_all sti_balanceId bal_id f imps (ot_balances T))"
    by (rule grouped_list_all2 [where I = "I" and spot = bal_place and place = place and qty = qty and xs = xs, OF f]) (auto simp: moves stays)
qed

lemma balance_moved_zero: "available b = on_hand b - reserved b \<Longrightarrow> balance_moved 0 0 b b"
  by (simp add: balance_moved_def)

lemma set_reserved_moves: "balance_moved 0 d b (set_reserved (stock_impact_of b q 0 d (- d)) b)"
  by (simp add: balance_moved_def set_reserved_def stock_impact_of_def quantity_defs bal_place_def)

lemma set_stock_moves: "balance_moved h d b (set_stock (stock_impact_of b q h d (h - d)) b)"
  by (simp add: balance_moved_def set_stock_def stock_impact_of_def quantity_defs bal_place_def)

section \<open>The allocations of a shipment\<close>

definition shipped_place :: "shipped \<Rightarrow> stock_place" where
  "shipped_place a = (let al = shd_allocation a
     in (sal_tenantId al, res_sku (shd_reservation a), sal_warehouseId al, sal_locationKey al))"

definition shipped_fine :: "out_tables \<Rightarrow> string \<Rightarrow> shipped \<Rightarrow> bool" where
  "shipped_fine T t a \<longleftrightarrow> shd_reservation a \<in> set (ot_reservations T) \<and> shd_reservationId a = res_id (shd_reservation a)
     \<and> shipped_place a = res_place (shd_reservation a) \<and> sal_tenantId (shd_allocation a) = t
     \<and> shd_lineId a = res_salesOrderLineId (shd_reservation a) \<and> 0 < shd_quantity a"

abbreviation shipped_of :: "shipped list \<Rightarrow> string \<Rightarrow> int" where
  "shipped_of xs \<equiv> sum_at shd_reservationId shd_quantity xs"

lemma shipped_totals:
  assumes "indexed T" "\<And>a. a \<in> set xs \<Longrightarrow> shipped_fine T t a"
  shows "sum_at shipped_place shd_quantity xs p = place_total (shipped_of xs) T p"
    and "sum_at shd_lineId shd_quantity xs i = line_total (shipped_of xs) T i"
  using assms(2) distinct_ids(1) [OF assms(1)] by (auto intro!: sum_at_reference simp: shipped_fine_def)

section \<open>Loading a shipment\<close>

lemma mset_concat_filter:
  assumes "distinct (map k ls)"
  shows "mset (concat (map (\<lambda>l. filter (\<lambda>a. f a = k l) as) ls)) = mset (filter (\<lambda>a. f a \<in> k ` set ls) as)"
  using assms
proof (induction ls)
  case (Cons l ls)
  have "mset (filter (\<lambda>a. f a = k l) as) + mset (filter (\<lambda>a. f a \<in> k ` set ls) as) = mset (filter (\<lambda>a. f a \<in> k ` set (l # ls)) as)"
    using Cons.prems by (induction as) auto
  then show ?case using Cons by simp
qed simp

lemma concat_mset: "(\<And>x. x \<in> set xs \<Longrightarrow> mset (f x) = mset (g x)) \<Longrightarrow> mset (concat (map f xs)) = mset (concat (map g xs))"
  by (induction xs) auto

context outbound_store
begin

lemma order_lines_rows: "l \<in> set (order_lines tx s k) \<longleftrightarrow> l \<in> set (ot_orderLines (tables s)) \<and> ol_salesOrderId l = k"
  by (simp add: order_lines_def lines.found_iff)

lemma found_reservation:
  assumes "indexed (tables s)" "r \<in> set (ot_reservations (tables s))"
  shows "findFirst (otx_reservations tx) s (\<lambda>q. res_id q = res_id r) = Some r"
proof -
  have "findFirst (otx_reservations tx) s (\<lambda>q. res_id q = res_id r) \<noteq> None"
    using reservations.first_none [of s "\<lambda>q. res_id q = res_id r" r] assms(2) by blast
  then obtain q where q: "findFirst (otx_reservations tx) s (\<lambda>q. res_id q = res_id r) = Some q" by blast
  then show ?thesis using reservations.first_some [OF q] same_reservation [OF assms(1)] assms(2) by metis
qed

lemma loaded_allocation:
  assumes inv: "out_inv opening (tables s)" and d: "d \<in> set (ot_shipments (tables s))"
    and l: "l \<in> set (ot_shipmentLines (tables s))" "spl_shipmentId l = shp_id d"
    and a: "a \<in> set (ot_allocations (tables s))" "sal_shipmentLineId a = spl_id l"
  shows "\<exists>r\<in>set (ot_reservations (tables s)). res_id r = sal_reservationId a \<and> allocation_of a r l d"
proof -
  note inv' = inv [unfolded out_inv_def]
  have "allocation_fine (tables s) a" using inv' a(1) by simp
  then obtain r l0 d0 where r: "r \<in> set (ot_reservations (tables s))" "l0 \<in> set (ot_shipmentLines (tables s))"
    "d0 \<in> set (ot_shipments (tables s))" "allocation_of a r l0 d0" by (auto simp: allocation_fine_def)
  have ix: "indexed (tables s)" using inv' by simp
  have eqs: "spl_id l0 = spl_id l" "spl_shipmentId l0 = shp_id d0" "res_id r = sal_reservationId a"
    using r(4) a(2) by (simp_all add: allocation_of_def)
  have l0: "l0 = l" by (rule same_shipment_line_row [OF ix r(2) l(1) eqs(1)])
  have "shp_id d0 = shp_id d" using eqs(2) l(2) unfolding l0 by simp
  then have d0: "d0 = d" by (rule same_shipment_row [OF ix r(3) d])
  show ?thesis using r(1,4) eqs(3) unfolding l0 d0 by blast
qed

lemma loaded_line:
  assumes inv: "out_inv opening (tables s)" and d: "d \<in> set (ot_shipments (tables s))"
    and l: "l \<in> set (ot_shipmentLines (tables s))" "spl_shipmentId l = shp_id d"
  shows "mset (map shd_allocation (load_allocations tx s l)) = mset (filter (\<lambda>a. sal_shipmentLineId a = spl_id l) (ot_allocations (tables s)))"
    and "a \<in> set (load_allocations tx s l) \<Longrightarrow> shd_line a = l \<and> allocation_of (shd_allocation a) (shd_reservation a) l d
      \<and> shd_reservation a \<in> set (ot_reservations (tables s)) \<and> shd_allocation a \<in> set (ot_allocations (tables s))"
proof -
  let ?as = "findMany (otx_allocations tx) s (\<lambda>a. sal_shipmentLineId a = spl_id l)"
  have ix: "indexed (tables s)" using inv by (simp add: out_inv_def)
  have one: "\<exists>r\<in>set (ot_reservations (tables s)). allocation_of a r l d
      \<and> findFirst (otx_reservations tx) s (\<lambda>r. res_id r = sal_reservationId a) = Some r" if "a \<in> set ?as" for a
  proof -
    have "a \<in> set (ot_allocations (tables s))" "sal_shipmentLineId a = spl_id l" using that by (simp_all add: allocations.found_iff)
    from loaded_allocation [OF inv d l this] obtain r where "r \<in> set (ot_reservations (tables s))" "res_id r = sal_reservationId a"
      "allocation_of a r l d" by blast
    then show ?thesis using found_reservation [OF ix] by metis
  qed
  have "map shd_allocation (load_allocations tx s l) = ?as"
  proof -
    have "map shd_allocation (concat (map (\<lambda>a. case findFirst (otx_reservations tx) s (\<lambda>r. res_id r = sal_reservationId a) of
         None \<Rightarrow> [] | Some r \<Rightarrow> [\<lparr>shd_allocation = a, shd_line = l, shd_reservation = r\<rparr>]) as)) = as"
      if "\<And>a. a \<in> set as \<Longrightarrow> \<exists>r. findFirst (otx_reservations tx) s (\<lambda>r. res_id r = sal_reservationId a) = Some r" for as
      using that
    proof (induction as)
      case (Cons a as)
      obtain r where "findFirst (otx_reservations tx) s (\<lambda>r. res_id r = sal_reservationId a) = Some r" using Cons.prems by auto
      then show ?case using Cons by simp
    qed simp
    then show ?thesis unfolding load_allocations_def using one by blast
  qed
  then show "mset (map shd_allocation (load_allocations tx s l)) = mset (filter (\<lambda>a. sal_shipmentLineId a = spl_id l) (ot_allocations (tables s)))"
    using allocations.found by simp
  assume "a \<in> set (load_allocations tx s l)"
  then obtain b where b: "b \<in> set ?as" "a \<in> set (case findFirst (otx_reservations tx) s (\<lambda>r. res_id r = sal_reservationId b) of
         None \<Rightarrow> [] | Some r \<Rightarrow> [\<lparr>shd_allocation = b, shd_line = l, shd_reservation = r\<rparr>])"
    by (auto simp: load_allocations_def)
  obtain r where r: "r \<in> set (ot_reservations (tables s))" "allocation_of b r l d"
    "findFirst (otx_reservations tx) s (\<lambda>r. res_id r = sal_reservationId b) = Some r" using one [OF b(1)] by blast
  then have "a = \<lparr>shd_allocation = b, shd_line = l, shd_reservation = r\<rparr>" using b(2) by simp
  then show "shd_line a = l \<and> allocation_of (shd_allocation a) (shd_reservation a) l d
      \<and> shd_reservation a \<in> set (ot_reservations (tables s)) \<and> shd_allocation a \<in> set (ot_allocations (tables s))"
    using r b(1) allocations.found_iff by auto
qed

lemma loaded:
  assumes "loadShipment tx s t k = Some ld" "out_inv opening (tables s)"
  shows "lsh_shipment ld \<in> set (ot_shipments (tables s))" "shp_id (lsh_shipment ld) = js_trim k" "shp_tenantId (lsh_shipment ld) = t"
    and "lsh_order ld \<in> set (ot_orders (tables s))" "so_id (lsh_order ld) = shp_salesOrderId (lsh_shipment ld)"
    and "lsh_orderLines ld = order_lines tx s (so_id (lsh_order ld))"
    and "set (lsh_lines ld) = {l \<in> set (ot_shipmentLines (tables s)). spl_shipmentId l = shp_id (lsh_shipment ld)}"
    and "distinct (map spl_id (lsh_lines ld))"
    and "mset (map shd_allocation (lsh_allocations ld)) = mset (allocations_of (tables s) (lsh_shipment ld))"
    and "a \<in> set (lsh_allocations ld) \<Longrightarrow> shipped_fine (tables s) t a
      \<and> (\<exists>l\<in>set (lsh_orderLines ld). ol_id l = shd_lineId a) \<and> shd_line a \<in> set (lsh_lines ld)"
proof -
  let ?d = "lsh_shipment ld"
  have ix: "indexed (tables s)" using assms(2) by (simp add: out_inv_def)
  obtain d so1 where d: "findFirst (otx_shipments tx) s (\<lambda>d. shp_id d = js_trim k \<and> shp_tenantId d = t) = Some d"
    and so1: "findFirst (otx_orders tx) s (\<lambda>so1. so_id so1 = shp_salesOrderId d) = Some so1"
    and ld: "ld = \<lparr>lsh_shipment = d, lsh_order = so1, lsh_orderLines = order_lines tx s (so_id so1),
        lsh_lines = findMany (otx_shipmentLines tx) s (\<lambda>l. spl_shipmentId l = shp_id d),
        lsh_allocations = concat (map (load_allocations tx s) (findMany (otx_shipmentLines tx) s (\<lambda>l. spl_shipmentId l = shp_id d)))\<rparr>"
    using assms(1) by (auto simp: loadShipment_def Let_def split: option.splits)
  show d1: "?d \<in> set (ot_shipments (tables s))" and "shp_id ?d = js_trim k" and d3: "shp_tenantId ?d = t"
    using shipments.first_some [OF d] by (simp_all add: ld)
  show "lsh_order ld \<in> set (ot_orders (tables s))" and o1: "so_id (lsh_order ld) = shp_salesOrderId ?d"
    using orders.first_some [OF so1] by (simp_all add: ld)
  show ol: "lsh_orderLines ld = order_lines tx s (so_id (lsh_order ld))" by (simp add: ld)
  show ls: "set (lsh_lines ld) = {l \<in> set (ot_shipmentLines (tables s)). spl_shipmentId l = shp_id ?d}"
    by (auto simp: ld shiplines.found_iff)
  have "mset (map spl_id (lsh_lines ld)) = mset (map spl_id (filter (\<lambda>l. spl_shipmentId l = shp_id ?d) (ot_shipmentLines (tables s))))"
    using shiplines.found by (simp add: ld)
  moreover have "distinct (map spl_id (ot_shipmentLines (tables s)))"
    using ix shiplines.unclashed_keys by (simp add: indexed_def)
  ultimately show dist: "distinct (map spl_id (lsh_lines ld))"
    using distinct_map_filter mset_eq_imp_distinct_iff by metis
  have "mset (map shd_allocation (lsh_allocations ld)) = mset (concat (map (\<lambda>l. map shd_allocation (load_allocations tx s l)) (lsh_lines ld)))"
    by (simp add: ld map_concat comp_def)
  also have "\<dots> = mset (concat (map (\<lambda>l. filter (\<lambda>a. sal_shipmentLineId a = spl_id l) (ot_allocations (tables s))) (lsh_lines ld)))"
    by (rule concat_mset) (use loaded_line(1) [OF assms(2) d1] ls in auto)
  also have "\<dots> = mset (filter (\<lambda>a. sal_shipmentLineId a \<in> spl_id ` set (lsh_lines ld)) (ot_allocations (tables s)))"
    by (rule mset_concat_filter [OF dist])
  finally show "mset (map shd_allocation (lsh_allocations ld)) = mset (allocations_of (tables s) ?d)"
    by (simp only: allocations_of_def ls)
  assume "a \<in> set (lsh_allocations ld)"
  then obtain l where l: "l \<in> set (lsh_lines ld)" "a \<in> set (load_allocations tx s l)" by (auto simp: ld)
  have "l \<in> set (ot_shipmentLines (tables s))" "spl_shipmentId l = shp_id ?d" using l(1) ls by auto
  from loaded_line(2) [OF assms(2) d1 this l(2)] have a: "shd_line a = l" "allocation_of (shd_allocation a) (shd_reservation a) l ?d"
    "shd_reservation a \<in> set (ot_reservations (tables s))" "shd_allocation a \<in> set (ot_allocations (tables s))" by simp_all
  have "allocation_fine (tables s) (shd_allocation a)" using assms(2) a(4) by (simp add: out_inv_def)
  then have "0 < shd_quantity a" by (simp add: allocation_fine_def shd_quantity_def)
  then have "shipped_fine (tables s) t a"
    using a d3 by (auto simp: shipped_fine_def allocation_of_def shd_reservationId_def shd_lineId_def shipped_place_def res_place_def Let_def)
  moreover have "reservation_linked (tables s) (shd_reservation a)" using assms(2) a(3) by (simp add: out_inv_def)
  then obtain ol where "ol \<in> set (ot_orderLines (tables s))" "reservation_of_line (shd_reservation a) ol"
    by (auto simp: reservation_linked_def)
  then have "\<exists>l\<in>set (lsh_orderLines ld). ol_id l = shd_lineId a"
    using a(1,2) unfolding ol o1
    by (intro bexI [of _ ol]) (auto simp: order_lines_rows reservation_of_line_def allocation_of_def shd_lineId_def)
  ultimately show "shipped_fine (tables s) t a \<and> (\<exists>l\<in>set (lsh_orderLines ld). ol_id l = shd_lineId a) \<and> shd_line a \<in> set (lsh_lines ld)"
    using a(1) l(1) by blast
qed

end

section \<open>The plans of a shipment\<close>

lemma last_by_key:
  assumes "j \<in> key ` set xs" obtains x where "x \<in> set xs" "key x = j" "last_by key xs j = Some x"
proof -
  have "last_by key xs j \<noteq> None" using assms by (simp add: last_by_None)
  then obtain x where "last_by key xs j = Some x" by auto
  then show thesis using that last_byD by metis
qed

lemma get0_group: "get0 (add_all key qty xs []) j = sum_at key qty xs j"
  by (simp add: get0_add_all sum_at_def)

lemma out_invD:
  assumes "out_inv opening T"
  shows "indexed T" "names_clean T" "l \<in> set (ot_orderLines T) \<Longrightarrow> order_line_fine T l"
    "r \<in> set (ot_reservations T) \<Longrightarrow> reservation_bounded r \<and> reservation_linked T r \<and> allocations_explain T r"
    "b \<in> set (ot_balances T) \<Longrightarrow> balance_fine opening T b" "a \<in> set (ot_allocations T) \<Longrightarrow> allocation_fine T a"
    "d \<in> set (ot_shipments T) \<Longrightarrow> shipment_fine T d"
  using assms by (simp_all add: out_inv_def)

abbreviation "keys_of le key qty xs \<equiv> sorted_ids le (map fst (add_all key qty xs []))"

lemma shipped_reservations:
  assumes inv: "out_inv opening T" and fine: "\<And>a. a \<in> set xs \<Longrightarrow> shipped_fine T t a"
    and plan: "\<And>a j. last_by shd_reservationId xs j = Some a \<Longrightarrow>
      snd (plan j) = [moving_impact k (shd_reservation a) (get0 (add_all shd_reservationId shd_quantity xs []) j)]"
    and imps: "imps = concat (map snd (map plan (keys_of le shd_reservationId shd_quantity xs)))"
  shows "distinct (map rsi_id imps)"
    and "list_all2 (\<lambda>r. res_moved k (shipped_of xs (res_id r)) r) (ot_reservations T)
      (write_all rsi_id res_id set_reservation imps (ot_reservations T))"
proof -
  have ne: "shd_reservationId a \<noteq> []" if "a \<in> set xs" for a
    using fine [OF that] out_invD(4) [OF inv, of "shd_reservation a"] by (simp add: shipped_fine_def reservation_linked_def)
  have planned: "\<exists>r\<in>set (ot_reservations T). res_id r = j
      \<and> (snd \<circ> plan) j = [moving_impact k r (get0 (add_all shd_reservationId shd_quantity xs []) j)]"
    if j: "j \<in> shd_reservationId ` set xs" for j
  proof -
    obtain a where a: "a \<in> set xs" "shd_reservationId a = j" "last_by shd_reservationId xs j = Some a" by (rule last_by_key [OF j])
    then show ?thesis using fine [OF a(1)] plan [OF a(3)] by (intro bexI [of _ "shd_reservation a"]) (auto simp: shipped_fine_def)
  qed
  have imps': "imps = concat (map (snd \<circ> plan) (keys_of le shd_reservationId shd_quantity xs))" by (simp add: imps)
  from reservations_moved [OF out_invD(1) [OF inv] ne planned imps']
  show "distinct (map rsi_id imps)" "list_all2 (\<lambda>r. res_moved k (shipped_of xs (res_id r)) r) (ot_reservations T)
      (write_all rsi_id res_id set_reservation imps (ot_reservations T))" by blast+
qed

lemma shipped_bounds:
  assumes inv: "out_inv opening T" and fine: "\<And>a. a \<in> set xs \<Longrightarrow> shipped_fine T t a"
    and allowed: "concat (map fst (map plan (keys_of le shd_reservationId shd_quantity xs))) = []"
    and guard: "\<And>a j. last_by shd_reservationId xs j = Some a \<Longrightarrow> fst (plan j) = [] \<Longrightarrow>
      get0 (add_all shd_reservationId shd_quantity xs []) j \<le> movable k (shd_reservation a)"
    and r: "r \<in> set (ot_reservations T)"
  shows "0 \<le> shipped_of xs (res_id r) \<and> shipped_of xs (res_id r) \<le> movable k r"
proof (cases "res_id r \<in> shd_reservationId ` set xs")
  case True
  obtain a where a: "a \<in> set xs" "shd_reservationId a = res_id r" "last_by shd_reservationId xs (res_id r) = Some a"
    by (rule last_by_key [OF True])
  have "shd_reservation a = r"
    using fine [OF a(1)] a(2) same_reservation [OF out_invD(1) [OF inv]] r by (auto simp: shipped_fine_def)
  moreover have "res_id r \<in> set (keys_of le shd_reservationId shd_quantity xs)"
    unfolding add_all_keys using True out_invD(4) [OF inv r] by (simp add: reservation_linked_def)
  then have "fst (plan (res_id r)) = []" using allowed by (simp add: concat_map_Nil)
  ultimately have "shipped_of xs (res_id r) \<le> movable k r" using guard [OF a(3)] by (simp add: get0_group)
  moreover have "0 \<le> shipped_of xs (res_id r)" using fine by (intro sum_at_nonneg) (auto simp: shipped_fine_def intro: less_imp_le)
  ultimately show ?thesis by simp
next
  case False
  then have "shipped_of xs (res_id r) = 0" by (rule sum_at_no_key)
  moreover have "0 \<le> movable k r" using out_invD(4) [OF inv r] by (cases k) (auto simp: reservation_bounded_def)
  ultimately show ?thesis by simp
qed

lemma shipped_lines:
  assumes inv: "out_inv opening T" and fine: "\<And>a. a \<in> set xs \<Longrightarrow> shipped_fine T t a"
    and rows: "set ls \<subseteq> set (ot_orderLines T)" and loaded: "\<And>a. a \<in> set xs \<Longrightarrow> \<exists>l\<in>set ls. ol_id l = shd_lineId a"
    and plan: "\<And>l j. last_by ol_id ls j = Some l \<Longrightarrow>
      snd (plan j) = [line_impact_moving k l (get0 (add_all shd_lineId shd_quantity xs []) j)]"
    and imps: "imps = concat (map snd (map plan (keys_of le shd_lineId shd_quantity xs)))"
  shows "distinct (map oli_salesOrderLineId imps)"
    and "list_all2 (\<lambda>l. line_moved k (line_total (shipped_of xs) T (ol_id l)) l) (ot_orderLines T)
      (write_all oli_salesOrderLineId ol_id move_line imps (ot_orderLines T))"
proof -
  have ne: "shd_lineId a \<noteq> []" if "a \<in> set xs" for a
    using loaded [OF that] rows out_invD(3) [OF inv] by (auto simp: order_line_fine_def)
  have planned: "\<exists>l\<in>set (ot_orderLines T). ol_id l = j
      \<and> (snd \<circ> plan) j = [line_impact_moving k l (get0 (add_all shd_lineId shd_quantity xs []) j)]"
    if "j \<in> shd_lineId ` set xs" for j
  proof -
    have "j \<in> ol_id ` set ls" using that loaded by force
    then obtain l where l: "l \<in> set ls" "ol_id l = j" "last_by ol_id ls j = Some l" by (rule last_by_key)
    then show ?thesis using plan [OF l(3)] rows by auto
  qed
  have imps': "imps = concat (map (snd \<circ> plan) (keys_of le shd_lineId shd_quantity xs))" by (simp add: imps)
  have kid: "oli_salesOrderLineId (line_impact_moving k l q) = ol_id l" for l q
    by (simp add: line_impact_moving_def line_impact_of_def)
  note totals = shipped_totals(2) [OF out_invD(1) [OF inv] fine, of xs, symmetric]
  note w = lines_written [where R = "\<lambda>l. line_moved k (line_total (shipped_of xs) T (ol_id l)) l",
      OF out_invD(1) [OF inv] ne planned kid imps']
  show "distinct (map oli_salesOrderLineId imps)"
    by (rule w(1)) (auto simp: totals line_impact_moves line_moved_zero sum_at_no_key)
  show "list_all2 (\<lambda>l. line_moved k (line_total (shipped_of xs) T (ol_id l)) l) (ot_orderLines T)
      (write_all oli_salesOrderLineId ol_id move_line imps (ot_orderLines T))"
    by (rule w(2)) (auto simp: totals line_impact_moves line_moved_zero sum_at_no_key)
qed

end
