(* ===== verification/Outbound_Refinement.thy ===== *)
theory Outbound_Refinement
  imports Outbound_Plans
begin

text \<open>
  Every command on reservations and shipments that succeeds is a step of the machine of
  \<open>Outbound_Ledger\<close>, for any database that satisfies \<open>outbound_store\<close> and books that satisfy \<open>out_inv\<close>.
\<close>

lemma filter_status:
  assumes "mset (map shd_allocation xs) = mset as"
  shows "sum_at shd_reservationId shd_quantity (filter (\<lambda>a. sal_status (shd_allocation a) = st) xs) i
    = sum_at sal_reservationId sal_quantity (filter (\<lambda>a. sal_status a = st) as) i"
proof -
  have "sum_at shd_reservationId shd_quantity (filter (\<lambda>a. sal_status (shd_allocation a) = st) xs) i
    = sum_at sal_reservationId sal_quantity (filter (\<lambda>a. sal_status a = st) (map shd_allocation xs)) i" for xs
    by (induction xs) (auto simp: shd_reservationId_def shd_quantity_def)
  also have "\<dots> xs = sum_at sal_reservationId sal_quantity (filter (\<lambda>a. sal_status a = st) as) i"
    by (rule sum_at_mset) (use assms in simp)
  finally show ?thesis .
qed

lemma moved_quantity_of:
  "moved_quantity (line_ids T d) old (ot_allocations T) i
   = sum_at sal_reservationId sal_quantity (filter (\<lambda>a. sal_status a = old) (allocations_of T d)) i"
proof -
  have "filter (\<lambda>a. sal_shipmentLineId a \<in> line_ids T d \<and> sal_status a = old) (ot_allocations T)
    = filter (\<lambda>a. sal_status a = old) (allocations_of T d)"
    by (simp add: allocations_of_line_ids conj_commute)
  then show ?thesis by (simp add: moved_quantity_def)
qed

definition moving_stock :: "ledger_move \<Rightarrow> balance \<Rightarrow> int \<Rightarrow> stock_impact" where
  "moving_stock k b q = stock_impact_of b q (- dConsumed k * q) (dOpen k * q) (- dConsumed k * q - dOpen k * q)"

lemma moving_stock_id: "sti_balanceId (moving_stock k b q) = bal_id b"
  by (simp add: moving_stock_def stock_impact_of_def)

lemma moving_stock_moves: "balance_moved (- dConsumed k * q) (dOpen k * q) b (set_stock (moving_stock k b q) b)"
  unfolding moving_stock_def by (rule set_stock_moves)

text \<open>The step of the machine that a command on the shipment \<open>d\<close> takes.\<close>

definition moves_shipment :: "ledger_move \<Rightarrow> string \<Rightarrow> string \<Rightarrow> shipment \<Rightarrow> out_tables \<Rightarrow> out_tables \<Rightarrow> bool" where
  "moves_shipment k old new d T T' \<longleftrightarrow> shipment_move k old new \<and> d \<in> set (ot_shipments T)
     \<and> list_all2 (\<lambda>x x'. same_shipment x x' \<and> (if x = d then \<not> shippable x' else x' = x)) (ot_shipments T) (ot_shipments T')
     \<and> list_all2 same_shipment_line (ot_shipmentLines T) (ot_shipmentLines T')
     \<and> ot_allocations T' = move_status (line_ids T d) old new (ot_allocations T)
     \<and> (\<exists>e. ledger_moved k e T T'
          \<and> (\<forall>r\<in>set (ot_reservations T). e (res_id r) = moved_quantity (line_ids T d) old (ot_allocations T) (res_id r)))"

lemma moves_shipmentI:
  assumes "ledger_moved k e T T'" "shipment_move k old new" "d \<in> set (ot_shipments T)"
    "list_all2 (\<lambda>x x'. same_shipment x x' \<and> (if x = d then \<not> shippable x' else x' = x)) (ot_shipments T) (ot_shipments T')"
    "list_all2 same_shipment_line (ot_shipmentLines T) (ot_shipmentLines T')"
    "ot_allocations T' = move_status (line_ids T d) old new (ot_allocations T)"
    "\<And>r. r \<in> set (ot_reservations T) \<Longrightarrow> e (res_id r) = moved_quantity (line_ids T d) old (ot_allocations T) (res_id r)"
  shows "moves_shipment k old new d T T'"
  using assms unfolding moves_shipment_def by blast

lemma moves_shipment_step: "moves_shipment k old new d T T' \<Longrightarrow> outbound_step T T'"
  unfolding moves_shipment_def by (elim conjE exE, rule outbound_step.shipment_moved) blast+

text \<open>What an allowed plan to post or reverse a loaded shipment comes to.\<close>

definition plan_moves :: "out_tables \<Rightarrow> loaded_shipment \<Rightarrow> ledger_move \<Rightarrow> string \<Rightarrow> 'q outbound_plan \<Rightarrow> bool" where
  "plan_moves T ld m old p \<longleftrightarrow>
     (let e = shipped_of (lsh_allocations ld)
      in (\<forall>a\<in>set (lsh_allocations ld). sal_status (shd_allocation a) = old)
         \<and> (\<forall>x\<in>set (ot_reservations T). 0 \<le> e (res_id x) \<and> e (res_id x) \<le> movable m x)
         \<and> distinct (map rsi_id (op_reservationImpacts p))
         \<and> list_all2 (\<lambda>r. res_moved m (e (res_id r)) r) (ot_reservations T)
             (write_all rsi_id res_id set_reservation (op_reservationImpacts p) (ot_reservations T))
         \<and> distinct (map sti_balanceId (op_balanceImpacts p))
         \<and> list_all2 (\<lambda>b. balance_moved (- dConsumed m * place_total e T (bal_place b)) (dOpen m * place_total e T (bal_place b)) b)
             (ot_balances T) (write_all sti_balanceId bal_id set_stock (op_balanceImpacts p) (ot_balances T))
         \<and> distinct (map oli_salesOrderLineId (op_lineImpacts p))
         \<and> list_all2 (\<lambda>l. line_moved m (line_total e T (ol_id l)) l) (ot_orderLines T)
             (write_all oli_salesOrderLineId ol_id move_line (op_lineImpacts p) (ot_orderLines T))
         \<and> distinct (map sli_shipmentLineId (op_shipmentLineImpacts p)))"

context outbound_store
begin

lemma shipped_balance_there:
  assumes inv: "out_inv opening (tables s)" and fine: "shipped_fine (tables s) t a"
  shows "\<exists>b\<in>set (ot_balances (tables s)). shipped_balance tx s a = Some b \<and> shipped_place a = bal_place b
    \<and> bal_itemId b = Some (res_itemId (shd_reservation a))"
proof -
  have "reservation_linked (tables s) (shd_reservation a)"
    using fine out_invD(4) [OF inv, of "shd_reservation a"] by (simp add: shipped_fine_def)
  then obtain b where b: "b \<in> set (ot_balances (tables s))" "bal_place b = res_place (shd_reservation a)"
    "bal_itemId b = Some (res_itemId (shd_reservation a))" by (auto simp: reservation_linked_def)
  have place: "bal_place b = shipped_place a" using b(2) fine by (simp add: shipped_fine_def)
  then have "shipped_balance tx s a \<noteq> None"
    using balances.first_none [of s _ b] b(1)
    by (auto simp: shipped_balance_def balance_at_def shipped_place_def bal_place_def Let_def)
  then obtain b' where b': "shipped_balance tx s a = Some b'" by auto
  then have row: "b' \<in> set (ot_balances (tables s))" "bal_place b' = shipped_place a"
    by (auto simp: shipped_balance_def balance_at_def shipped_place_def bal_place_def Let_def dest!: balances.first_some)
  then have "b' = b" using same_balance [OF out_invD(1) [OF inv] row(1) b(1)] place by simp
  then show ?thesis using b b' place by auto
qed

lemma shipped_key_inj:
  assumes inv: "out_inv opening (tables s)" and fine: "shipped_fine (tables s) t a" "shipped_fine (tables s) t b"
  shows "shd_balanceKey a = shd_balanceKey b \<longleftrightarrow> shipped_place a = shipped_place b"
proof -
  have c: "reservation_linked (tables s) (shd_reservation c) \<and> sal_warehouseId (shd_allocation c) = res_warehouseId (shd_reservation c)
      \<and> sal_locationKey (shd_allocation c) = res_locationKey (shd_reservation c) \<and> sal_tenantId (shd_allocation c) = t"
    if "shipped_fine (tables s) t c" for c
    using that out_invD(4) [OF inv, of "shd_reservation c"] by (auto simp: shipped_fine_def shipped_place_def res_place_def Let_def)
  show ?thesis
    using c [OF fine(1)] c [OF fine(2)]
    by (simp add: shd_balanceKey_def shipped_place_def Let_def reservation_linked_def balanceKey_inj)
qed

lemma shipped_balances:
  assumes inv: "out_inv opening (tables s)" and fine: "\<And>a. a \<in> set xs \<Longrightarrow> shipped_fine (tables s) t a"
    and plan: "\<And>a b j. last_by shd_balanceKey xs j = Some a \<Longrightarrow> shipped_balance tx s a = Some b \<Longrightarrow>
      snd (plan j) = [I b (get0 (add_all shd_balanceKey shd_quantity xs []) j)]"
    and kid: "\<And>b q. sti_balanceId (I b q) = bal_id b"
    and imps: "imps = concat (map snd (map plan (keys_of le shd_balanceKey shd_quantity xs)))"
    and moves: "\<And>b q. balance_moved (- dConsumed k * q) (dOpen k * q) b (f (I b q) b)"
  shows "distinct (map sti_balanceId imps)"
    and "list_all2 (\<lambda>b. balance_moved (- dConsumed k * place_total (shipped_of xs) (tables s) (bal_place b))
        (dOpen k * place_total (shipped_of xs) (tables s) (bal_place b)) b) (ot_balances (tables s))
      (write_all sti_balanceId bal_id f imps (ot_balances (tables s)))"
proof -
  let ?T = "tables s"
  note ix = out_invD(1) [OF inv]
  have planned: "\<exists>a\<in>set xs. \<exists>b\<in>set (ot_balances ?T). shd_balanceKey a = j \<and> shipped_place a = bal_place b
      \<and> (snd \<circ> plan) j = [I b (get0 (add_all shd_balanceKey shd_quantity xs []) j)]" if j: "j \<in> shd_balanceKey ` set xs" for j
  proof -
    obtain a where a: "a \<in> set xs" "shd_balanceKey a = j" "last_by shd_balanceKey xs j = Some a" by (rule last_by_key [OF j])
    from shipped_balance_there [OF inv fine [OF a(1)]] obtain b where "b \<in> set (ot_balances ?T)" "shipped_balance tx s a = Some b" "shipped_place a = bal_place b" by blast
    then show ?thesis using a plan [OF a(3)] by auto
  qed
  have inj: "shd_balanceKey a = shd_balanceKey b \<longleftrightarrow> shipped_place a = shipped_place b" if "a \<in> set xs" "b \<in> set xs" for a b
    by (rule shipped_key_inj [OF inv fine [OF that(1)] fine [OF that(2)]])
  have imps': "imps = concat (map (snd \<circ> plan) (keys_of le shd_balanceKey shd_quantity xs))" by (simp add: imps)
  have ne: "shd_balanceKey a \<noteq> []" for a by (simp add: shd_balanceKey_def)
  note totals = shipped_totals(1) [OF ix fine, of xs, symmetric]
  have zero: "balance_moved 0 0 b b" if "b \<in> set (ot_balances ?T)" for b
    using out_invD(5) [OF inv that] by (simp add: balance_fine_def balance_ok_def balance_moved_zero)
  note w = balances_written [where f = f and R = "\<lambda>b. balance_moved (- dConsumed k * place_total (shipped_of xs) ?T (bal_place b))
        (dOpen k * place_total (shipped_of xs) ?T (bal_place b)) b", OF ix planned inj ne kid imps']
  show "distinct (map sti_balanceId imps)"
    by (rule w(1)) (auto simp: totals zero sum_at_no_key simp del: mult_minus_left intro: moves)
  show "list_all2 (\<lambda>b. balance_moved (- dConsumed k * place_total (shipped_of xs) ?T (bal_place b))
        (dOpen k * place_total (shipped_of xs) ?T (bal_place b)) b) (ot_balances ?T)
      (write_all sti_balanceId bal_id f imps (ot_balances ?T))"
    by (rule w(2)) (auto simp: totals zero sum_at_no_key simp del: mult_minus_left intro: moves)
qed

lemma line_ids_of: "set (map spl_id (shipment_lines tx s (shp_id d))) = line_ids (tables s) d"
  by (auto simp: shipment_lines_def shiplines.found_iff line_ids_def)

lemma shipped_by_status:
  assumes "loadShipment tx s t k = Some ld" "out_inv opening (tables s)"
  shows "shipped_of (filter (\<lambda>a. sal_status (shd_allocation a) = old) (lsh_allocations ld)) i
    = moved_quantity (line_ids (tables s) (lsh_shipment ld)) old (ot_allocations (tables s)) i"
  using filter_status [OF loaded(9) [OF assms]] by (simp add: moved_quantity_of)

lemma allocations_tenant:
  assumes "out_inv opening (tables s)" "d \<in> set (ot_shipments (tables s))"
    and "a \<in> set (ot_allocations (tables s))" "sal_shipmentLineId a \<in> line_ids (tables s) d"
  shows "sal_tenantId a = shp_tenantId d"
proof -
  obtain l where "l \<in> set (ot_shipmentLines (tables s))" "spl_shipmentId l = shp_id d" "spl_id l = sal_shipmentLineId a"
    using assms(4) by (auto simp: line_ids_def)
  then obtain r where "allocation_of a r l d" using loaded_allocation [OF assms(1,2) _ _ assms(3)] by metis
  then show ?thesis by (simp add: allocation_of_def)
qed

section \<open>Cancelling a shipment\<close>

lemma unmoved:
  assumes "dOpen k = 0" "dConsumed k = 0"
  shows "line_moved k q l l" "list_all2 (\<lambda>l. line_moved k (f l) l) ls ls"
    "(\<And>b. b \<in> set bs \<Longrightarrow> balance_ok b) \<Longrightarrow> list_all2 (\<lambda>b. balance_moved (- dConsumed k * g b) (dOpen k * g b) b) bs bs"
proof -
  show same: "line_moved k q l l" for q l
    using assms by (auto simp: line_moved_def intro: exI [of _ "ol_version l"])
  then show "list_all2 (\<lambda>l. line_moved k (f l) l) ls ls" by (simp add: list_all2_same)
  show "list_all2 (\<lambda>b. balance_moved (- dConsumed k * g b) (dOpen k * g b) b) bs bs" if "\<And>b. b \<in> set bs \<Longrightarrow> balance_ok b"
    using assms that by (simp add: list_all2_same balance_moved_def balance_ok_def)
qed

lemma orders_kept_same: "ot_orders T' = ot_orders T \<Longrightarrow> orders_kept T T'"
  by (auto simp: orders_kept_def)

lemma cancel_step:
  assumes run: "cancelShipmentDraft le tx gen actor q s = Inr (s', i)" and inv: "out_inv opening (tables s)"
  shows "outbound_step (tables s) (tables s')"
proof -
  let ?T = "tables s" and ?t = "act_tenantId actor"
  obtain k version reason d s1 s2 where norm: "normalize_shipment True q = Inr (k, version, reason)"
    and d: "out_locked (otx_shipments tx) shp_id shp_tenantId SHIPMENT_NOT_FOUND ?t k s = Inr d"
    and allowed: "op_blockingIssues (buildShipmentCancellationPlan le tx s ?t k reason) = []"
    and s1: "each (write_reservation tx OUTBOUND_CONCURRENT_TRANSACTION_CONFLICT (\<lambda>_. True) ?t ''deallocated'')
          (with_ids gen 1 (op_reservationImpacts (buildShipmentCancellationPlan le tx s ?t k reason))) s = Inr s1"
    and s2: "move_allocations tx ?t (map spl_id (shipment_lines tx s k)) ''allocated'' ''deallocated'' s1 = Inr s2"
    and s3: "updateRow (otx_shipments tx) s2 (shp_id d) (\<lambda>x. x\<lparr>shp_workflowStatus := ''cancelled'', shp_version := shp_version x + 1\<rparr>) = Some s'"
    using run by (auto simp: cancelShipmentDraft_def Let_def)
  obtain ld where ld: "loadShipment tx s ?t k = Some ld"
    using allowed by (cases "loadShipment tx s ?t k") (auto simp: buildShipmentCancellationPlan_def out_basePlan_def)
  note l = loaded [OF ld inv]
  have trim: "js_trim k = k" using norm by (auto simp: normalize_shipment_def out_required_def split: if_splits)
  have dk: "d = lsh_shipment ld"
    using same_shipment_row [OF out_invD(1) [OF inv] locked_shipment(1) [OF d] l(1)] locked_shipment(2) [OF d] l(2) trim by simp
  let ?xs = "filter (\<lambda>a. sal_status (shd_allocation a) = ''allocated'') (lsh_allocations ld)"
  let ?plan = "cancel_reservation_plan ?xs (add_all shd_reservationId shd_quantity ?xs [])"
  let ?imps = "concat (map snd (map ?plan (keys_of le shd_reservationId shd_quantity ?xs)))"
  have issues: "concat (map fst (map ?plan (keys_of le shd_reservationId shd_quantity ?xs))) = []"
    and imps: "op_reservationImpacts (buildShipmentCancellationPlan le tx s ?t k reason) = ?imps"
    using allowed by (simp_all add: buildShipmentCancellationPlan_def ld Let_def out_basePlan_def)
  have fine: "shipped_fine ?T ?t a" if "a \<in> set ?xs" for a using l(10) that by auto
  have plan: "snd (?plan j) = [moving_impact Deallocating (shd_reservation a) (get0 (add_all shd_reservationId shd_quantity ?xs []) j)]"
    if "last_by shd_reservationId ?xs j = Some a" for a j
    using that by (simp add: cancel_reservation_plan_def Let_def moving_impact_def)
  note r = shipped_reservations [OF inv fine plan refl]
  have bounds: "0 \<le> shipped_of ?xs (res_id x) \<and> shipped_of ?xs (res_id x) \<le> movable Deallocating x"
    if "x \<in> set (ot_reservations ?T)" for x
    by (rule shipped_bounds [OF inv fine issues _ that]) (auto simp: cancel_reservation_plan_def Let_def)
  have snds: "map snd (with_ids gen n ys) = ys" for n and ys :: "reservation_impact list" by (simp add: with_ids_def comp_def split_def)
  obtain evs where t1: "tables s1 = ?T\<lparr>ot_reservations := write_all rsi_id res_id set_reservation ?imps (ot_reservations ?T), ot_events := evs\<rparr>"
    "indexed (tables s1)"
    using reservations_loop [OF s1 out_invD(1) [OF inv]] r(1) unfolding imps snds by (auto simp: snds map_map [symmetric] simp del: map_map)
  have ids: "set (map spl_id (shipment_lines tx s k)) = line_ids ?T d"
    using line_ids_of [of s d] dk l(2) trim by simp
  have t2: "tables s2 = (tables s1)\<lparr>ot_allocations := move_status (line_ids ?T d) ''allocated'' ''deallocated'' (ot_allocations (tables s1))\<rparr>"
    "indexed (tables s2)"
    using allocations_moved [OF s2 t1(2)] allocations_tenant [OF inv, of d] ids dk l(1,3) t1(1) by auto
  obtain ds where t3: "tables s' = (tables s2)\<lparr>ot_shipments := ds\<rparr>" "indexed (tables s')"
    "list_all2 (\<lambda>x x'. same_shipment x x' \<and> (if x = d then \<not> shippable x' else x' = x)) (ot_shipments (tables s2)) ds"
    using shipment_updated [OF s3 t2(2)] dk l(1) t2(1) t1(1) by (auto simp: same_shipment_def shippable_def)
  show ?thesis
  proof (rule outbound_step.shipment_moved [where k = Deallocating and e = "shipped_of ?xs" and d = d])
    show "ledger_moved Deallocating (shipped_of ?xs) ?T (tables s')"
      using bounds r(2) t1 t2 t3 unmoved [of Deallocating] out_invD(5) [OF inv]
      by (simp add: ledger_moved_def orders_kept_same moved_at_def dOpen_def balance_fine_def)
    show "shipment_move Deallocating ''allocated'' ''deallocated''" by (simp add: shipment_move_def)
    show "d \<in> set (ot_shipments ?T)" using dk l(1) by simp
    show "list_all2 (\<lambda>x x'. same_shipment x x' \<and> (if x = d then \<not> shippable x' else x' = x)) (ot_shipments ?T) (ot_shipments (tables s'))"
      using t1 t2 t3 by simp
    show "list_all2 same_shipment_line (ot_shipmentLines ?T) (ot_shipmentLines (tables s'))"
      using t1 t2 t3 by (simp add: list_all2_same same_shipment_line_def)
    show "ot_allocations (tables s') = move_status (line_ids ?T d) ''allocated'' ''deallocated'' (ot_allocations ?T)"
      using t1 t2 t3 by simp
    show "shipped_of ?xs (res_id x) = moved_quantity (line_ids ?T d) ''allocated'' (ot_allocations ?T) (res_id x)" for x
      using shipped_by_status [OF ld inv] dk by simp
  qed
qed

section \<open>Posting a shipment\<close>

lemma posted_movements:
  assumes inv: "out_inv opening (tables s)" and fine: "\<And>a. a \<in> set (map snd es) \<Longrightarrow> shipped_fine (tables s) t a"
  shows "sum_at out_move_place net_quantity (map (\<lambda>e. shipment_movement (fst e) t batch d ls (snd e)) es) p
    = - sum_at shipped_place shd_quantity (map snd es) p"
  using fine
proof (induction es)
  case (Cons e es)
  have f: "shipped_fine (tables s) t (snd e)" using Cons.prems by simp
  then have "reservation_linked (tables s) (shd_reservation (snd e))" using out_invD(4) [OF inv] by (simp add: shipped_fine_def)
  then have "out_move_place (shipment_movement (fst e) t batch d ls (snd e)) = shipped_place (snd e)"
    using f by (auto simp: out_move_place_def shipment_movement_def shipped_fine_def shipped_place_def res_place_def
        reservation_linked_def clean_name_def js_text_def Let_def)
  moreover have "net_quantity (shipment_movement (fst e) t batch d ls (snd e)) = - shd_quantity (snd e)"
    by (simp add: net_quantity_def shipment_movement_def shd_quantity_def Let_def)
  moreover have "sum_at out_move_place net_quantity (map (\<lambda>e. shipment_movement (fst e) t batch d ls (snd e)) es) p
    = - sum_at shipped_place shd_quantity (map snd es) p" by (rule Cons.IH) (use Cons.prems in simp)
  ultimately show ?case by simp
qed simp

lemma shipment_closed:
  assumes "close_shipment tx d statuses posting s = Inr (s', i)" "indexed (tables s)" "d \<in> set (ot_shipments (tables s))" "posting \<noteq> ''unposted''"
  shows "\<exists>os ds. tables s' = (tables s)\<lparr>ot_orders := os, ot_shipments := ds\<rparr> \<and> indexed (tables s') \<and> orders_kept (tables s) (tables s')
    \<and> list_all2 (\<lambda>x x'. same_shipment x x' \<and> (if x = d then \<not> shippable x' else x' = x)) (ot_shipments (tables s)) ds"
proof -
  obtain s1 where s1: "updateRow (otx_orders tx) s (shp_salesOrderId d)
         (\<lambda>o1. o1\<lparr>so_reservationStatus := fst statuses, so_fulfillmentStatus := snd statuses, so_version := so_version o1 + 1\<rparr>) = Some s1"
    and s2: "updateRow (otx_shipments tx) s1 (shp_id d) (\<lambda>x. x\<lparr>shp_postingStatus := posting, shp_version := shp_version x + 1\<rparr>) = Some s'"
    using assms(1) by (auto simp: close_shipment_def)
  obtain os where t1: "tables s1 = (tables s)\<lparr>ot_orders := os\<rparr>" "indexed (tables s1)" "orders_kept (tables s) (tables s1)"
    using order_updated [OF s1 assms(2)] by auto
  obtain ds where t2: "tables s' = (tables s1)\<lparr>ot_shipments := ds\<rparr>" "indexed (tables s')"
    "list_all2 (\<lambda>x x'. same_shipment x x' \<and> (if x = d then \<not> shippable x' else x' = x)) (ot_shipments (tables s1)) ds"
    using shipment_updated [OF s2 t1(2)] assms(3,4) t1(1) by (auto simp: same_shipment_def shippable_def)
  have "orders_kept (tables s) (tables s')" using t1(3) t2(1) by (simp add: orders_kept_def)
  then show ?thesis using t2 by (intro exI [of _ os] exI [of _ ds]) (simp add: t1(1))
qed

lemma shipment_line_impacts_distinct:
  assumes "loadShipment tx s t k = Some ld" "out_inv opening (tables s)"
  shows "distinct (map sli_shipmentLineId (map (\<lambda>l. shipment_line_impact_of l (f l) (g l)) (lsh_lines ld)))"
  using loaded(8) [OF assms] by (simp add: comp_def shipment_line_impact_of_def)

lemma snd_with_ids: "map snd (with_ids gen n ys) = ys"
  by (simp add: with_ids_def comp_def split_def)

lemma set_stock_id: "bal_id (set_stock i b) = bal_id b" "bal_id (set_reserved i b) = bal_id b"
  by (simp_all add: set_stock_def set_reserved_def)

text \<open>The writes that posting and reversing share.\<close>

lemma posting_moves:
  assumes inv: "out_inv opening (tables s)" and ld: "loadShipment tx s t k = Some ld" and d: "d = lsh_shipment ld" "shp_id d = k"
    and plan: "plan_moves (tables s) ld m old p" and move: "shipment_move m old new"
    and ms: "tables s1 = (tables s)\<lparr>ot_movements := ms\<rparr>" "indexed (tables s1)"
      "\<And>p. sum_at out_move_place net_quantity ms p = moved_at (tables s) p - dConsumed m * sum_at shipped_place shd_quantity (lsh_allocations ld) p"
    and s2: "each (write_balance tx P set_stock) (op_balanceImpacts p) s1 = Inr s2"
    and s3: "each (write_reservation tx c R t ty) (with_ids gen n (op_reservationImpacts p)) s2 = Inr s3"
    and s4: "distinct (map oli_salesOrderLineId (op_lineImpacts p)) \<Longrightarrow> indexed (tables s3) \<Longrightarrow> tables s4 = (tables s3)
        \<lparr>ot_orderLines := write_all oli_salesOrderLineId ol_id move_line (op_lineImpacts p) (ot_orderLines (tables s3))\<rparr> \<and> indexed (tables s4)"
    and s5: "each (write_shipment_line tx) (op_shipmentLineImpacts p) s4 = Inr s5"
    and s6: "move_allocations tx t (map spl_id (shipment_lines tx s k)) old new s5 = Inr s6"
    and s7: "close_shipment tx d statuses posting s6 = Inr (s', i)" "posting \<noteq> ''unposted''"
  shows "moves_shipment m old new d (tables s) (tables s')" "i = shp_id d"
    and "\<forall>a\<in>set (allocations_of (tables s) d). sal_status a = old"
proof -
  let ?T = "tables s" and ?e = "shipped_of (lsh_allocations ld)"
  let ?ri = "op_reservationImpacts p" and ?bi = "op_balanceImpacts p" and ?li = "op_lineImpacts p"
  note pl = plan [unfolded plan_moves_def Let_def]
  note l_d = loaded [OF ld inv]
  have t2: "tables s2 = (tables s1)\<lparr>ot_balances := write_all sti_balanceId bal_id set_stock ?bi (ot_balances (tables s1))\<rparr>" "indexed (tables s2)"
    using balances_loop [OF s2 ms(2) _ set_stock_id(1)] pl by blast+
  obtain evs where t3: "tables s3 = (tables s2)\<lparr>ot_reservations := write_all rsi_id res_id set_reservation ?ri (ot_reservations (tables s2)),
      ot_events := evs\<rparr>" "indexed (tables s3)"
    using reservations_loop [OF s3 t2(2)] pl by (auto simp: snd_with_ids map_map [symmetric] simp del: map_map)
  have t4: "tables s4 = (tables s3)\<lparr>ot_orderLines := write_all oli_salesOrderLineId ol_id move_line ?li (ot_orderLines (tables s3))\<rparr>
      \<and> indexed (tables s4)" using s4 t3(2) pl by blast
  obtain ls where t5: "tables s5 = (tables s4)\<lparr>ot_shipmentLines := ls\<rparr>" "indexed (tables s5)"
    "list_all2 same_shipment_line (ot_shipmentLines (tables s4)) ls"
    using shipment_lines_loop [OF s5] t4 pl by blast
  have ids: "set (map spl_id (shipment_lines tx s k)) = line_ids ?T d" using line_ids_of [of s d] d(2) by simp
  have allocs5: "ot_allocations (tables s5) = ot_allocations ?T" using ms(1) t2 t3 t4 t5 by simp
  have t6: "tables s6 = (tables s5)\<lparr>ot_allocations := move_status (line_ids ?T d) old new (ot_allocations (tables s5))\<rparr>" "indexed (tables s6)"
    using allocations_moved [OF s6 t5(2)] allocations_tenant [OF inv, of d] ids allocs5 d(1) l_d(1,3) by auto
  have ships6: "ot_shipments (tables s6) = ot_shipments ?T" using ms(1) t2 t3 t4 t5 t6 by simp
  obtain os ds where t7: "tables s' = (tables s6)\<lparr>ot_orders := os, ot_shipments := ds\<rparr>" "indexed (tables s')" "orders_kept (tables s6) (tables s')"
    "list_all2 (\<lambda>x x'. same_shipment x x' \<and> (if x = d then \<not> shippable x' else x' = x)) (ot_shipments (tables s6)) ds"
    using shipment_closed [OF s7(1) t6(2) _ s7(2)] ships6 d(1) l_d(1) by (metis (no_types, lifting))
  have T': "ot_reservations (tables s') = write_all rsi_id res_id set_reservation ?ri (ot_reservations ?T)"
    "ot_orderLines (tables s') = write_all oli_salesOrderLineId ol_id move_line ?li (ot_orderLines ?T)"
    "ot_balances (tables s') = write_all sti_balanceId bal_id set_stock ?bi (ot_balances ?T)"
    "ot_movements (tables s') = ms" "ot_items (tables s') = ot_items ?T" "ot_warehouses (tables s') = ot_warehouses ?T"
    "ot_shipments (tables s') = ds" "ot_shipmentLines (tables s') = ls" "ot_orders (tables s6) = ot_orders ?T"
    "ot_shipmentLines (tables s4) = ot_shipmentLines ?T"
    "ot_allocations (tables s') = move_status (line_ids ?T d) old new (ot_allocations ?T)"
    using ms(1) t2 t3 t4 t5 t6 t7 by simp_all
  have total: "sum_at shipped_place shd_quantity (lsh_allocations ld) p = place_total ?e ?T p" for p
    using shipped_totals(1) [OF out_invD(1) [OF inv]] l_d(10) by blast
  show "i = shp_id d" using s7(1) by (auto simp: close_shipment_def)
  have "set (map shd_allocation (lsh_allocations ld)) = set (allocations_of ?T d)" using l_d(9) d(1) by (metis mset_eq_setD)
  then show "\<forall>a\<in>set (allocations_of ?T d). sal_status a = old" using pl by force
  show "moves_shipment m old new d ?T (tables s')"
  proof (rule moves_shipmentI [where e = ?e, OF _ move])
    have "orders_kept ?T (tables s')" using t7(3) T' by (simp add: orders_kept_def)
    then show "ledger_moved m ?e ?T (tables s')"
      using pl t7(2) by (simp add: ledger_moved_def T' ms(3) total moved_at_def)
    show "d \<in> set (ot_shipments ?T)" using d(1) l_d(1) by simp
    show "list_all2 (\<lambda>x x'. same_shipment x x' \<and> (if x = d then \<not> shippable x' else x' = x)) (ot_shipments ?T) (ot_shipments (tables s'))"
      using t7(4) by (simp only: T' ships6)
    show "list_all2 same_shipment_line (ot_shipmentLines ?T) (ot_shipmentLines (tables s'))" using t5(3) by (simp add: T')
    show "ot_allocations (tables s') = move_status (line_ids ?T d) old new (ot_allocations ?T)" by (simp add: T')
    have "filter (\<lambda>a. sal_status (shd_allocation a) = old) (lsh_allocations ld) = lsh_allocations ld"
      using pl by (simp add: filter_id_conv)
    then show "?e (res_id x) = moved_quantity (line_ids ?T d) old (ot_allocations ?T) (res_id x)" for x
      using shipped_by_status [OF ld inv, of old] d(1) by simp
  qed
qed

lemma post_planned:
  assumes inv: "out_inv opening (tables s)" and ld: "loadShipment tx s t k = Some ld"
    and allowed: "op_blockingIssues (buildShipmentPostingPlan le tx s t k) = []"
  shows "plan_moves (tables s) ld Consuming ''allocated'' (buildShipmentPostingPlan le tx s t k)"
proof -
  let ?T = "tables s" and ?p = "buildShipmentPostingPlan le tx s t k"
  note l = loaded [OF ld inv]
  let ?xs = "lsh_allocations ld"
  let ?rp = "post_reservation_plan ?xs (add_all shd_reservationId shd_quantity ?xs [])"
    and ?bp = "post_balance_plan tx s t ?xs (add_all shd_balanceKey shd_quantity ?xs [])"
    and ?lp = "post_line_plan (lsh_orderLines ld) (add_all shd_lineId shd_quantity ?xs [])"
  have status: "sal_status (shd_allocation a) = ''allocated''" if "a \<in> set ?xs" for a
    using allowed that by (auto simp: buildShipmentPostingPlan_def ld Let_def out_basePlan_def unless_uncaught_def list_ex_iff split: if_splits)
  have issues: "concat (map fst (map ?rp (keys_of le shd_reservationId shd_quantity ?xs))) = []"
    using allowed by (simp add: buildShipmentPostingPlan_def ld Let_def out_basePlan_def unless_uncaught_def split: if_splits)
  have plans: "op_reservationImpacts ?p = concat (map snd (map ?rp (keys_of le shd_reservationId shd_quantity ?xs)))"
    "op_balanceImpacts ?p = concat (map snd (map ?bp (keys_of le shd_balanceKey shd_quantity ?xs)))"
    "op_lineImpacts ?p = concat (map snd (map ?lp (keys_of le shd_lineId shd_quantity ?xs)))"
    "op_shipmentLineImpacts ?p = map (\<lambda>l. let q = get0 (add_all (\<lambda>a. spl_id (shd_line a)) shd_quantity ?xs []) (spl_id l)
        in shipment_line_impact_of l q q) (lsh_lines ld)"
    by (simp_all add: buildShipmentPostingPlan_def ld Let_def out_basePlan_def)
  have fine: "shipped_fine ?T t a" if "a \<in> set ?xs" for a using l(10) [OF that] by blast
  have "snd (?rp j) = [moving_impact Consuming (shd_reservation a) (get0 (add_all shd_reservationId shd_quantity ?xs []) j)]"
    if "last_by shd_reservationId ?xs j = Some a" for a j
    using that by (simp add: post_reservation_plan_def Let_def moving_impact_def)
  note r = shipped_reservations [OF inv fine this plans(1)]
  have bounds: "0 \<le> shipped_of ?xs (res_id x) \<and> shipped_of ?xs (res_id x) \<le> movable Consuming x"
    if "x \<in> set (ot_reservations ?T)" for x
    by (rule shipped_bounds [OF inv fine issues _ that]) (auto simp: post_reservation_plan_def Let_def)
  have "snd (?bp j) = [moving_stock Consuming b (get0 (add_all shd_balanceKey shd_quantity ?xs []) j)]"
    if "last_by shd_balanceKey ?xs j = Some a" "shipped_balance tx s a = Some b" for a b j
    using that by (simp add: post_balance_plan_def Let_def moving_stock_def dOpen_def)
  note bal = shipped_balances [OF inv fine this moving_stock_id plans(2) moving_stock_moves]
  have rows: "set (lsh_orderLines ld) \<subseteq> set (ot_orderLines ?T)" using l(6) by (auto simp: order_lines_rows)
  have at: "\<exists>x\<in>set (lsh_orderLines ld). ol_id x = shd_lineId a" if "a \<in> set ?xs" for a using l(10) [OF that] by blast
  have "snd (?lp j) = [line_impact_moving Consuming x (get0 (add_all shd_lineId shd_quantity ?xs []) j)]"
    if "last_by ol_id (lsh_orderLines ld) j = Some x" for x j
    using that by (simp add: post_line_plan_def Let_def line_impact_moving_def dOpen_def)
  note li = shipped_lines [OF inv fine rows at this plans(3)]
  have si: "distinct (map sli_shipmentLineId (op_shipmentLineImpacts ?p))"
    unfolding plans(4) Let_def by (rule shipment_line_impacts_distinct [OF ld inv])
  have all_bounds: "\<forall>x\<in>set (ot_reservations ?T). 0 \<le> shipped_of ?xs (res_id x) \<and> shipped_of ?xs (res_id x) \<le> movable Consuming x"
    using bounds by blast
  show ?thesis unfolding plan_moves_def Let_def
    by (intro conjI) (use status in blast, (rule all_bounds r bal li si; assumption?)+)
qed

lemma post_moves:
  assumes run: "postShipment le tx gen actor q s = Inr (s', i)" and inv: "out_inv opening (tables s)"
  shows "\<exists>d. moves_shipment Consuming ''allocated'' ''consumed'' d (tables s) (tables s') \<and> i = shp_id d
    \<and> (\<forall>a\<in>set (allocations_of (tables s) d). sal_status a = ''allocated'')"
proof -
  let ?T = "tables s" and ?t = "act_tenantId actor"
  obtain k version reason d so1 where norm: "normalize_shipment False q = Inr (k, version, reason)"
    and d: "out_locked (otx_shipments tx) shp_id shp_tenantId SHIPMENT_NOT_FOUND ?t k s = Inr d"
    and allowed: "op_blockingIssues (buildShipmentPostingPlan le tx s ?t k) = []"
    using run by (auto simp: postShipment_def Let_def)
  let ?p = "buildShipmentPostingPlan le tx s ?t k" and ?ol = "order_lines tx s (shp_salesOrderId d)"
  obtain s1 s2 s3 s4 s5 s6
    where s1: "each (\<lambda>e s0. out_saved (createRow (otx_movements tx) s0 (shipment_movement (fst e) ?t (gen 1) d ?ol (snd e))))
          (with_ids gen 2 (op_quantityPlans ?p)) s = Inr s1"
    and s2: "each (write_balance tx (\<lambda>i b. column_at_least (bal_onHandQuantity b) (sti_quantity i)
            \<and> column_at_least (bal_reservedQuantity b) (sti_quantity i)) set_stock) (op_balanceImpacts ?p) s1 = Inr s2"
    and s3: "each (write_reservation tx OUTBOUND_CONCURRENT_TRANSACTION_CONFLICT (\<lambda>_. True) ?t ''consumed'')
          (with_ids gen (2 + length (op_quantityPlans ?p)) (op_reservationImpacts ?p)) s2 = Inr s3"
    and s4: "each (write_line tx OUTBOUND_CONCURRENT_TRANSACTION_CONFLICT (\<lambda>_ _. True)) (op_lineImpacts ?p) s3 = Inr s4"
    and s5: "each (write_shipment_line tx) (op_shipmentLineImpacts ?p) s4 = Inr s5"
    and s6: "move_allocations tx ?t (map spl_id (shipment_lines tx s k)) ''allocated'' ''consumed'' s5 = Inr s6"
    and s7: "close_shipment tx d (op_statusAfter ?p) ''posted'' s6 = Inr (s', i)"
    using run norm d by (auto simp: postShipment_def Let_def)
  obtain ld where ld: "loadShipment tx s ?t k = Some ld"
    using allowed by (cases "loadShipment tx s ?t k") (auto simp: buildShipmentPostingPlan_def out_basePlan_def)
  note l = loaded [OF ld inv]
  have trim: "js_trim k = k" using norm by (auto simp: normalize_shipment_def out_required_def split: if_splits)
  have dk: "d = lsh_shipment ld"
    using same_shipment_row [OF out_invD(1) [OF inv] locked_shipment(1) [OF d] l(1)] locked_shipment(2) [OF d] l(2) trim by simp
  let ?xs = "lsh_allocations ld"
  have entries: "op_quantityPlans ?p = ?xs" by (simp add: buildShipmentPostingPlan_def ld Let_def out_basePlan_def)
  have fine: "shipped_fine ?T ?t a" if "a \<in> set ?xs" for a using l(10) [OF that] by blast
  have t1: "tables s1 = ?T\<lparr>ot_movements := ot_movements ?T
      @ map (\<lambda>e. shipment_movement (fst e) ?t (gen 1) d ?ol (snd e)) (with_ids gen 2 ?xs)\<rparr>" "indexed (tables s1)"
    using movements_created_loop [OF s1 out_invD(1) [OF inv]] unfolding entries by blast+
  have sums: "sum_at out_move_place net_quantity (ot_movements ?T
      @ map (\<lambda>e. shipment_movement (fst e) ?t (gen 1) d ?ol (snd e)) (with_ids gen 2 ?xs)) p
    = moved_at ?T p - dConsumed Consuming * sum_at shipped_place shd_quantity ?xs p" for p
    using posted_movements [OF inv, of "with_ids gen 2 ?xs"] fine by (simp add: moved_at_def snd_with_ids set_map [symmetric] del: set_map)
  have sm: "shipment_move Consuming ''allocated'' ''consumed''" by (simp add: shipment_move_def)
  have "tables s4 = (tables s3)\<lparr>ot_orderLines := write_all oli_salesOrderLineId ol_id move_line (op_lineImpacts ?p) (ot_orderLines (tables s3))\<rparr>
      \<and> indexed (tables s4)" if "distinct (map oli_salesOrderLineId (op_lineImpacts ?p))" "indexed (tables s3)"
    by (rule lines_loop [OF s4 that(2,1)])
  note m = posting_moves [OF inv ld dk locked_shipment(2) [OF d] post_planned [OF inv ld allowed] sm t1 sums s2 s3 this s5 s6 s7]
  show ?thesis by (rule exI [of _ d]) (use m in simp)
qed

lemma post_step:
  assumes "postShipment le tx gen actor q s = Inr (s', i)" "out_inv opening (tables s)"
  shows "outbound_step (tables s) (tables s')"
  using post_moves [OF assms] moves_shipment_step by blast

section \<open>Reversing a shipment\<close>

lemma reversed_movements:
  assumes inv: "out_inv opening (tables s)"
    and "\<And>e. e \<in> set es \<Longrightarrow> shipped_fine (tables s) t (fst (snd e)) \<and> movement_matches_allocation t d ls (Some (snd (snd e))) (fst (snd e))"
  shows "sum_at out_move_place net_quantity (map (\<lambda>e. reversal_movement (fst e) t batch d (fst (snd e)) (snd (snd e))) es) p
    = sum_at shipped_place shd_quantity (map (fst \<circ> snd) es) p"
  using assms(2)
proof (induction es)
  case (Cons e es)
  let ?a = "fst (snd e)" and ?m = "snd (snd e)"
  have f: "shipped_fine (tables s) t ?a" and match: "movement_matches_allocation t d ls (Some ?m) ?a" using Cons.prems by simp_all
  then have linked: "reservation_linked (tables s) (shd_reservation ?a)" using out_invD(4) [OF inv] by (simp add: shipped_fine_def)
  have m: "mov_sku ?m = res_sku (shd_reservation ?a)" "mov_warehouseId ?m = Some (sal_warehouseId (shd_allocation ?a))"
    "js_trim (mov_locationKey ?m) = js_trim (sal_locationKey (shd_allocation ?a))"
    using match by (simp_all add: movement_matches_allocation_def Let_def)
  have "out_move_place (reversal_movement (fst e) t batch d ?a ?m) = shipped_place ?a"
    using f linked m by (auto simp: out_move_place_def reversal_movement_def shipped_fine_def shipped_place_def res_place_def
        reservation_linked_def clean_name_def js_text_def Let_def)
  moreover have "net_quantity (reversal_movement (fst e) t batch d ?a ?m) = shd_quantity ?a"
    by (simp add: net_quantity_def reversal_movement_def shd_quantity_def)
  moreover have "sum_at out_move_place net_quantity (map (\<lambda>e. reversal_movement (fst e) t batch d (fst (snd e)) (snd (snd e))) es) p
    = sum_at shipped_place shd_quantity (map (fst \<circ> snd) es) p" by (rule Cons.IH) (use Cons.prems in simp)
  ultimately show ?case by (simp add: comp_def)
qed simp

lemma reversal_planned:
  assumes inv: "out_inv opening (tables s)" and ld: "loadShipment tx s t k = Some ld" and d: "d = lsh_shipment ld"
    and allowed: "op_blockingIssues (buildShipmentReversalPlan le tx s t k reason) = []"
  shows "plan_moves (tables s) ld Restoring ''consumed'' (buildShipmentReversalPlan le tx s t k reason)"
proof -
  let ?T = "tables s" and ?p = "buildShipmentReversalPlan le tx s t k reason"
  note l = loaded [OF ld inv]
  let ?xs = "lsh_allocations ld"
  define mvs where "mvs = findMany (otx_movements tx) s (\<lambda>mv. mov_tenantId mv = t
                \<and> mov_sourceDocumentId mv = Some (shp_id d) \<and> mov_movementType mv = ''shipment_posting'')"
  have match: "movement_matches_allocation t d (lsh_orderLines ld) (movement_of mvs a) a" if "a \<in> set ?xs" for a
    using allowed that unfolding buildShipmentReversalPlan_def ld option.case Let_def d [symmetric] mvs_def [symmetric]
    by (simp add: out_basePlan_def concat_map_Nil)
  then have all: "filter (\<lambda>a. movement_matches_allocation t d (lsh_orderLines ld) (movement_of mvs a) a) ?xs = ?xs"
    by (simp add: filter_id_conv)
  let ?rp = "reverse_reservation_plan ?xs (add_all shd_reservationId shd_quantity ?xs [])"
    and ?bp = "reverse_balance_plan tx s t ?xs (add_all shd_balanceKey shd_quantity ?xs [])"
    and ?lp = "reverse_line_plan (lsh_orderLines ld) (add_all shd_lineId shd_quantity ?xs [])"
  have status: "sal_status (shd_allocation a) = ''consumed''" if "a \<in> set ?xs" for a
    using match [OF that] by (auto simp: movement_matches_allocation_def Let_def split: option.splits)
  have issues: "concat (map fst (map ?rp (keys_of le shd_reservationId shd_quantity ?xs))) = []"
    using allowed unfolding buildShipmentReversalPlan_def ld option.case Let_def d [symmetric] mvs_def [symmetric] all
    by (simp add: out_basePlan_def)
  have plans: "op_reservationImpacts ?p = concat (map snd (map ?rp (keys_of le shd_reservationId shd_quantity ?xs)))"
    "op_balanceImpacts ?p = concat (map snd (map ?bp (keys_of le shd_balanceKey shd_quantity ?xs)))"
    "op_lineImpacts ?p = concat (map snd (map ?lp (keys_of le shd_lineId shd_quantity ?xs)))"
    "op_shipmentLineImpacts ?p = map (\<lambda>l. let q = get0 (add_all (\<lambda>a. spl_id (shd_line a)) shd_quantity ?xs []) (spl_id l)
        in shipment_line_impact_of l q (- q)) (lsh_lines ld)"
    unfolding buildShipmentReversalPlan_def ld option.case Let_def d [symmetric] mvs_def [symmetric] all
    by (simp_all add: out_basePlan_def)
  have fine: "shipped_fine ?T t a" if "a \<in> set ?xs" for a using l(10) [OF that] by blast
  have "snd (?rp j) = [moving_impact Restoring (shd_reservation a) (get0 (add_all shd_reservationId shd_quantity ?xs []) j)]"
    if "last_by shd_reservationId ?xs j = Some a" for a j
    using that by (simp add: reverse_reservation_plan_def Let_def moving_impact_def)
  note r = shipped_reservations [OF inv fine this plans(1)]
  have bounds: "0 \<le> shipped_of ?xs (res_id x) \<and> shipped_of ?xs (res_id x) \<le> movable Restoring x"
    if "x \<in> set (ot_reservations ?T)" for x
    by (rule shipped_bounds [OF inv fine issues _ that]) (auto simp: reverse_reservation_plan_def Let_def)
  have "snd (?bp j) = [moving_stock Restoring b (get0 (add_all shd_balanceKey shd_quantity ?xs []) j)]"
    if "last_by shd_balanceKey ?xs j = Some a" "shipped_balance tx s a = Some b" for a b j
    using that by (simp add: reverse_balance_plan_def Let_def moving_stock_def dOpen_def)
  note bal = shipped_balances [OF inv fine this moving_stock_id plans(2) moving_stock_moves]
  have rows: "set (lsh_orderLines ld) \<subseteq> set (ot_orderLines ?T)" using l(6) by (auto simp: order_lines_rows)
  have at: "\<exists>x\<in>set (lsh_orderLines ld). ol_id x = shd_lineId a" if "a \<in> set ?xs" for a using l(10) [OF that] by blast
  have "snd (?lp j) = [line_impact_moving Restoring x (get0 (add_all shd_lineId shd_quantity ?xs []) j)]"
    if "last_by ol_id (lsh_orderLines ld) j = Some x" for x j
    using that by (simp add: reverse_line_plan_def Let_def line_impact_moving_def dOpen_def)
  note li = shipped_lines [OF inv fine rows at this plans(3)]
  have si: "distinct (map sli_shipmentLineId (op_shipmentLineImpacts ?p))"
    unfolding plans(4) Let_def by (rule shipment_line_impacts_distinct [OF ld inv])
  have all_bounds: "\<forall>x\<in>set (ot_reservations ?T). 0 \<le> shipped_of ?xs (res_id x) \<and> shipped_of ?xs (res_id x) \<le> movable Restoring x"
    using bounds by blast
  show ?thesis unfolding plan_moves_def Let_def
    by (intro conjI) (use status in blast, (rule all_bounds r bal li si; assumption?)+)
qed

lemma reversal_entries:
  assumes inv: "out_inv opening (tables s)" and ld: "loadShipment tx s t k = Some ld" and d: "d = lsh_shipment ld"
    and allowed: "op_blockingIssues (buildShipmentReversalPlan le tx s t k reason) = []"
    and es: "map snd es = op_quantityPlans (buildShipmentReversalPlan le tx s t k reason)"
  shows "sum_at out_move_place net_quantity (map (\<lambda>e. reversal_movement (fst e) t batch d (fst (snd e)) (snd (snd e))) es) p
    = sum_at shipped_place shd_quantity (lsh_allocations ld) p"
proof -
  let ?p = "buildShipmentReversalPlan le tx s t k reason" and ?T = "tables s" and ?xs = "lsh_allocations ld"
  define mvs where "mvs = findMany (otx_movements tx) s (\<lambda>mv. mov_tenantId mv = t
                \<and> mov_sourceDocumentId mv = Some (shp_id d) \<and> mov_movementType mv = ''shipment_posting'')"
  have match: "movement_matches_allocation t d (lsh_orderLines ld) (movement_of mvs a) a" if "a \<in> set ?xs" for a
    using allowed that unfolding buildShipmentReversalPlan_def ld option.case Let_def d [symmetric] mvs_def [symmetric]
    by (simp add: out_basePlan_def concat_map_Nil)
  have all: "filter (\<lambda>a. movement_matches_allocation t d (lsh_orderLines ld) (movement_of mvs a) a) ?xs = ?xs"
    using match by (simp add: filter_id_conv)
  have plans: "op_quantityPlans ?p = concat (map (\<lambda>a. case movement_of mvs a of None \<Rightarrow> [] | Some mv \<Rightarrow> [(a, mv)]) ?xs)"
    unfolding buildShipmentReversalPlan_def ld option.case Let_def d [symmetric] mvs_def [symmetric] all by (simp add: out_basePlan_def)
  have fine: "shipped_fine ?T t a" if "a \<in> set ?xs" for a using loaded(10) [OF ld inv that] by blast
  have posted: "shipped_fine ?T t (fst (snd e)) \<and> movement_matches_allocation t d (lsh_orderLines ld) (Some (snd (snd e))) (fst (snd e))"
    if "e \<in> set es" for e
  proof -
    have "snd e \<in> set (op_quantityPlans ?p)" using imageI [OF that, of snd] es by (metis list.set_map)
    then obtain a where "a \<in> set ?xs" "movement_of mvs a = Some (snd (snd e))" "fst (snd e) = a"
      unfolding plans by (auto split: option.splits)
    then show ?thesis using fine match by metis
  qed
  have "map fst (concat (map (\<lambda>a. case movement_of mvs a of None \<Rightarrow> [] | Some mv \<Rightarrow> [(a, mv)]) ys)) = ys" if "set ys \<subseteq> set ?xs" for ys
    using that
  proof (induction ys)
    case (Cons a ys)
    have "movement_of mvs a \<noteq> None" using match [of a] Cons.prems by (auto simp: movement_matches_allocation_def split: option.splits)
    then show ?case using Cons by auto
  qed simp
  then have "map (fst \<circ> snd) es = ?xs"
    unfolding plans map_map [symmetric] es by blast
  then show ?thesis using reversed_movements [OF inv posted] by simp
qed

lemma reverse_moves:
  assumes run: "reverseShipment le tx gen actor q s = Inr (s', i)" and inv: "out_inv opening (tables s)"
  shows "\<exists>d. moves_shipment Restoring ''consumed'' ''reversed'' d (tables s) (tables s') \<and> i = shp_id d
    \<and> (\<forall>a\<in>set (allocations_of (tables s) d). sal_status a = ''consumed'')"
proof -
  let ?T = "tables s" and ?t = "act_tenantId actor"
  obtain k version reason d so1 where norm: "normalize_shipment True q = Inr (k, version, reason)"
    and d: "out_locked (otx_shipments tx) shp_id shp_tenantId SHIPMENT_NOT_FOUND ?t k s = Inr d"
    and allowed: "op_blockingIssues (buildShipmentReversalPlan le tx s ?t k reason) = []"
    using run by (auto simp: reverseShipment_def Let_def)
  let ?p = "buildShipmentReversalPlan le tx s ?t k reason"
  obtain s1 s2 s3 s4 s5 s6
    where s1: "each (reverse_movement tx ?t (gen 1) d) (with_ids gen 2 (op_quantityPlans ?p)) s = Inr s1"
    and s2: "each (write_balance tx (\<lambda>_ _. True) set_stock) (op_balanceImpacts ?p) s1 = Inr s2"
    and s3: "each (write_reservation tx OUTBOUND_CONCURRENT_TRANSACTION_CONFLICT (\<lambda>_. True) ?t ''restored'')
          (with_ids gen (2 + length (op_quantityPlans ?p)) (op_reservationImpacts ?p)) s2 = Inr s3"
    and s4: "each (\<lambda>i s. out_saved (updateRow (otx_orderLines tx) s (oli_salesOrderLineId i) (move_line i))) (op_lineImpacts ?p) s3 = Inr s4"
    and s5: "each (write_shipment_line tx) (op_shipmentLineImpacts ?p) s4 = Inr s5"
    and s6: "move_allocations tx ?t (map spl_id (shipment_lines tx s k)) ''consumed'' ''reversed'' s5 = Inr s6"
    and s7: "close_shipment tx d (op_statusAfter ?p) ''reversed'' s6 = Inr (s', i)"
    using run norm d by (auto simp: reverseShipment_def Let_def)
  obtain ld where ld: "loadShipment tx s ?t k = Some ld"
    using allowed by (cases "loadShipment tx s ?t k") (auto simp: buildShipmentReversalPlan_def out_basePlan_def)
  note l = loaded [OF ld inv]
  have trim: "js_trim k = k" using norm by (auto simp: normalize_shipment_def out_required_def split: if_splits)
  have dk: "d = lsh_shipment ld"
    using same_shipment_row [OF out_invD(1) [OF inv] locked_shipment(1) [OF d] l(1)] locked_shipment(2) [OF d] l(2) trim by simp
  have es: "map snd (with_ids gen 2 (op_quantityPlans ?p)) = op_quantityPlans ?p" by (rule snd_with_ids)
  obtain ms where t1: "tables s1 = ?T\<lparr>ot_movements := ms\<rparr>" "indexed (tables s1)"
    "\<And>p. sum_at out_move_place net_quantity ms p = moved_at ?T p - dConsumed Restoring * sum_at shipped_place shd_quantity (lsh_allocations ld) p"
    using movements_reversed [OF s1 out_invD(1) [OF inv]] reversal_entries [OF inv ld dk allowed es] by auto
  have sm: "shipment_move Restoring ''consumed'' ''reversed''" by (simp add: shipment_move_def)
  have "tables s4 = (tables s3)\<lparr>ot_orderLines := write_all oli_salesOrderLineId ol_id move_line (op_lineImpacts ?p) (ot_orderLines (tables s3))\<rparr>
      \<and> indexed (tables s4)" if "distinct (map oli_salesOrderLineId (op_lineImpacts ?p))" "indexed (tables s3)"
    by (rule lines_update_loop [OF s4 that(2,1)])
  note m = posting_moves [OF inv ld dk locked_shipment(2) [OF d] reversal_planned [OF inv ld dk allowed] sm t1 s2 s3 this s5 s6 s7]
  show ?thesis by (rule exI [of _ d]) (use m in simp)
qed

lemma reverse_step:
  assumes "reverseShipment le tx gen actor q s = Inr (s', i)" "out_inv opening (tables s)"
  shows "outbound_step (tables s) (tables s')"
  using reverse_moves [OF assms] moves_shipment_step by blast

end

end
