(* ===== verification/Outbound_Commands.thy ===== *)
theory Outbound_Commands
  imports Outbound_Refinement
begin

text \<open>
  The commands on an order as steps of the machine of \<open>Outbound_Ledger\<close>: releasing and reserving stock,
  drafting a shipment, and writing the order itself.
\<close>

section \<open>Quantities read from a request\<close>

lemma entry_positive:
  assumes "fst (release_entry_plan e) = []" "x \<in> set (snd (release_entry_plan e))"
  shows "0 < rle_quantity x \<and> rle_reservationId x \<noteq> []"
  using assms by (auto simp: release_entry_plan_def Let_def split: prod.splits option.splits if_splits)

lemma sum_at_distinct:
  "distinct (map kid xs) \<Longrightarrow> sum_at kid qty xs k = (case find (\<lambda>i. kid i = k) xs of None \<Rightarrow> 0 | Some i \<Rightarrow> qty i)"
proof (induction xs)
  case (Cons x xs)
  show ?case
  proof (cases "kid x = k")
    case True
    then have "sum_at kid qty xs k = 0" using Cons.prems by (intro sum_at_no_key) auto
    then show ?thesis using True by simp
  next
    case False
    then show ?thesis using Cons by simp
  qed
qed simp

context outbound_store
begin

section \<open>Releasing\<close>

lemma balance_there:
  assumes "reservation_linked (tables s) r"
  shows "\<exists>b\<in>set (ot_balances (tables s)). balance_at tx s (res_tenantId r) (res_sku r) (res_warehouseId r) (res_locationKey r) = Some b
    \<and> bal_place b = res_place r"
proof -
  obtain b where b: "b \<in> set (ot_balances (tables s))" "bal_place b = res_place r" using assms by (auto simp: reservation_linked_def)
  then have "balance_at tx s (res_tenantId r) (res_sku r) (res_warehouseId r) (res_locationKey r) \<noteq> None"
    using balances.first_none [of s _ b] by (auto simp: balance_at_def res_place_def bal_place_def)
  then obtain b' where "balance_at tx s (res_tenantId r) (res_sku r) (res_warehouseId r) (res_locationKey r) = Some b'" by auto
  moreover from this have "b' \<in> set (ot_balances (tables s))" "bal_place b' = res_place r"
    by (auto simp: balance_at_def res_place_def bal_place_def dest!: balances.first_some)
  ultimately show ?thesis by blast
qed

abbreviation released_of :: "reservation_impact list \<Rightarrow> string \<Rightarrow> int" where
  "released_of imps \<equiv> sum_at rsi_id rsi_quantity imps"

lemma impact_totals:
  assumes "indexed T" "\<And>i. i \<in> set imps \<Longrightarrow> rsi_reservation i \<in> set (ot_reservations T)"
  shows "sum_at (\<lambda>i. res_place (rsi_reservation i)) rsi_quantity imps p = place_total (released_of imps) T p"
    and "sum_at rsi_lineId rsi_quantity imps j = line_total (released_of imps) T j"
  using assms(2) distinct_ids(1) [OF assms(1)] by (auto intro!: sum_at_reference simp: rsi_lineId_def)

lemma released_balances:
  assumes inv: "out_inv opening (tables s)" and rows: "\<And>i. i \<in> set imps \<Longrightarrow> rsi_reservation i \<in> set (ot_reservations (tables s))"
    and bi: "bi = concat (map snd (map (release_balance_plan tx s imps (add_all rsi_balanceKey rsi_quantity imps []))
      (keys_of le rsi_balanceKey rsi_quantity imps)))" and same: "\<And>i. i \<in> set imps \<Longrightarrow> res_tenantId (rsi_reservation i) = t"
  shows "distinct (map sti_balanceId bi)"
    and "list_all2 (\<lambda>b. balance_moved (- dConsumed Releasing * place_total (released_of imps) (tables s) (bal_place b))
        (dOpen Releasing * place_total (released_of imps) (tables s) (bal_place b)) b) (ot_balances (tables s))
      (write_all sti_balanceId bal_id set_reserved bi (ot_balances (tables s)))"
proof -
  let ?T = "tables s" and ?plan = "release_balance_plan tx s imps (add_all rsi_balanceKey rsi_quantity imps [])"
    and ?place = "\<lambda>i. res_place (rsi_reservation i)" and ?I = "\<lambda>b q. stock_impact_of b q 0 (- q) q"
  note ix = out_invD(1) [OF inv]
  have linked: "reservation_linked ?T (rsi_reservation i)" if "i \<in> set imps" for i
    using out_invD(4) [OF inv rows [OF that]] by simp
  have planned: "\<exists>i\<in>set imps. \<exists>b\<in>set (ot_balances ?T). rsi_balanceKey i = j \<and> ?place i = bal_place b
      \<and> (snd \<circ> ?plan) j = [?I b (get0 (add_all rsi_balanceKey rsi_quantity imps []) j)]" if j: "j \<in> rsi_balanceKey ` set imps" for j
  proof -
    obtain i where i: "i \<in> set imps" "rsi_balanceKey i = j" "last_by rsi_balanceKey imps j = Some i" by (rule last_by_key [OF j])
    from balance_there [OF linked [OF i(1)]] obtain b where "b \<in> set (ot_balances ?T)"
      "balance_at tx s (res_tenantId (rsi_reservation i)) (res_sku (rsi_reservation i)) (res_warehouseId (rsi_reservation i))
        (res_locationKey (rsi_reservation i)) = Some b" "bal_place b = ?place i" by blast
    then show ?thesis using i by (intro bexI [of _ i] bexI [of _ b]) (simp_all add: release_balance_plan_def Let_def)
  qed
  have inj: "rsi_balanceKey i = rsi_balanceKey j \<longleftrightarrow> ?place i = ?place j" if "i \<in> set imps" "j \<in> set imps" for i j
    using linked [OF that(1)] linked [OF that(2)] same [OF that(1)] same [OF that(2)]
    by (simp add: rsi_balanceKey_def res_place_def Let_def reservation_linked_def balanceKey_inj)
  have bi': "bi = concat (map (snd \<circ> ?plan) (keys_of le rsi_balanceKey rsi_quantity imps))" by (simp add: bi)
  have ne: "rsi_balanceKey i \<noteq> []" for i by (simp add: rsi_balanceKey_def Let_def)
  have kid: "sti_balanceId (?I b q) = bal_id b" for b q by (simp add: stock_impact_of_def)
  note totals = impact_totals(1) [OF ix rows, of imps, symmetric]
  have zero: "balance_moved 0 0 b b" if "b \<in> set (ot_balances ?T)" for b
    using out_invD(5) [OF inv that] by (simp add: balance_fine_def balance_ok_def balance_moved_zero)
  have moves: "balance_moved 0 (- q) b (set_reserved (?I b q) b)" for b q using set_reserved_moves [of "- q" b q] by simp
  note w = balances_written [where f = set_reserved and R = "\<lambda>b. balance_moved (- dConsumed Releasing * place_total (released_of imps) ?T (bal_place b))
        (dOpen Releasing * place_total (released_of imps) ?T (bal_place b)) b", OF ix planned inj ne kid bi']
  show "distinct (map sti_balanceId bi)"
    by (rule w(1)) (auto simp: totals zero moves dOpen_def sum_at_no_key)
  show "list_all2 (\<lambda>b. balance_moved (- dConsumed Releasing * place_total (released_of imps) ?T (bal_place b))
        (dOpen Releasing * place_total (released_of imps) ?T (bal_place b)) b) (ot_balances ?T)
      (write_all sti_balanceId bal_id set_reserved bi (ot_balances ?T))"
    by (rule w(2)) (auto simp: totals zero moves dOpen_def sum_at_no_key)
qed

lemma released_lines:
  assumes inv: "out_inv opening (tables s)" and rows: "\<And>i. i \<in> set imps \<Longrightarrow> rsi_reservation i \<in> set (ot_reservations (tables s))"
    and order: "\<And>i. i \<in> set imps \<Longrightarrow> res_salesOrderId (rsi_reservation i) = k"
    and li: "li = concat (map snd (map (release_line_plan (order_lines tx s k) (add_all rsi_lineId rsi_quantity imps []))
      (keys_of le rsi_lineId rsi_quantity imps)))"
  shows "distinct (map oli_salesOrderLineId li)"
    and "list_all2 (\<lambda>l. line_moved Releasing (line_total (released_of imps) (tables s) (ol_id l)) l) (ot_orderLines (tables s))
      (write_all oli_salesOrderLineId ol_id move_line li (ot_orderLines (tables s)))"
proof -
  let ?T = "tables s" and ?plan = "release_line_plan (order_lines tx s k) (add_all rsi_lineId rsi_quantity imps [])"
  note ix = out_invD(1) [OF inv]
  have line: "\<exists>l\<in>set (order_lines tx s k). ol_id l = rsi_lineId i" if i: "i \<in> set imps" for i
  proof -
    obtain l where "l \<in> set (ot_orderLines ?T)" "reservation_of_line (rsi_reservation i) l"
      using out_invD(4) [OF inv, of "rsi_reservation i"] rows [OF i] by (auto simp: reservation_linked_def)
    then show ?thesis using order [OF i]
      by (intro bexI [of _ l]) (simp_all add: order_lines_rows reservation_of_line_def rsi_lineId_def)
  qed
  have ne: "rsi_lineId i \<noteq> []" if "i \<in> set imps" for i
    using line [OF that] out_invD(3) [OF inv] by (auto simp: order_line_fine_def order_lines_rows)
  have planned: "\<exists>l\<in>set (ot_orderLines ?T). ol_id l = j
      \<and> (snd \<circ> ?plan) j = [line_impact_moving Releasing l (get0 (add_all rsi_lineId rsi_quantity imps []) j)]"
    if "j \<in> rsi_lineId ` set imps" for j
  proof -
    have "j \<in> ol_id ` set (order_lines tx s k)" using that line by force
    then obtain l where l: "l \<in> set (order_lines tx s k)" "ol_id l = j" "last_by ol_id (order_lines tx s k) j = Some l" by (rule last_by_key)
    then show ?thesis
      by (intro bexI [of _ l]) (simp_all add: release_line_plan_def line_impact_moving_def dOpen_def order_lines_rows Let_def)
  qed
  have li': "li = concat (map (snd \<circ> ?plan) (keys_of le rsi_lineId rsi_quantity imps))" by (simp add: li)
  have kid: "oli_salesOrderLineId (line_impact_moving Releasing l q) = ol_id l" for l q
    by (simp add: line_impact_moving_def line_impact_of_def)
  note totals = impact_totals(2) [OF ix rows, of imps, symmetric]
  note w = lines_written [where R = "\<lambda>l. line_moved Releasing (line_total (released_of imps) ?T (ol_id l)) l", OF ix ne planned kid li']
  show "distinct (map oli_salesOrderLineId li)"
    by (rule w(1)) (auto simp: totals line_impact_moves line_moved_zero sum_at_no_key)
  show "list_all2 (\<lambda>l. line_moved Releasing (line_total (released_of imps) ?T (ol_id l)) l) (ot_orderLines ?T)
      (write_all oli_salesOrderLineId ol_id move_line li (ot_orderLines ?T))"
    by (rule w(2)) (auto simp: totals line_impact_moves line_moved_zero sum_at_no_key)
qed

lemma released_reservations:
  assumes inv: "out_inv opening (tables s)" and found: "\<And>r. r \<in> set found \<longleftrightarrow> r \<in> set (ot_reservations (tables s)) \<and> P r"
    and pos: "\<And>x. x \<in> set entries \<Longrightarrow> 0 < rle_quantity x \<and> rle_reservationId x \<noteq> []"
    and plan: "plan = release_reservation_plan found entries (add_all rle_reservationId rle_quantity entries [])"
    and allowed: "concat (map fst (map plan (keys_of le rle_reservationId rle_quantity entries))) = []"
    and imps: "imps = concat (map snd (map plan (keys_of le rle_reservationId rle_quantity entries)))"
  shows "distinct (map rsi_id imps)"
    and "list_all2 (\<lambda>r. res_moved Releasing (released_of imps (res_id r)) r) (ot_reservations (tables s))
      (write_all rsi_id res_id set_reservation imps (ot_reservations (tables s)))"
    and "r \<in> set (ot_reservations (tables s)) \<Longrightarrow> 0 \<le> released_of imps (res_id r) \<and> released_of imps (res_id r) \<le> movable Releasing r"
    and "i \<in> set imps \<Longrightarrow> rsi_reservation i \<in> set found"
proof -
  let ?T = "tables s" and ?sum = "sum_at rle_reservationId rle_quantity entries"
  note ix = out_invD(1) [OF inv]
  have key: "j \<in> set (keys_of le rle_reservationId rle_quantity entries)" if "j \<in> rle_reservationId ` set entries" for j
    unfolding add_all_keys using that pos by auto
  have planned: "\<exists>r\<in>set (ot_reservations ?T). res_id r = j
      \<and> (snd \<circ> plan) j = [moving_impact Releasing r (get0 (add_all rle_reservationId rle_quantity entries []) j)]"
    and guard: "\<And>r. r \<in> set (ot_reservations ?T) \<Longrightarrow> res_id r = j \<Longrightarrow> ?sum j \<le> movable Releasing r"
    if j: "j \<in> rle_reservationId ` set entries" for j
  proof -
    have ok: "fst (plan j) = []" using allowed key [OF j] by (simp add: concat_map_Nil)
    then obtain r where r: "last_by res_id found j = Some r" by (auto simp: plan release_reservation_plan_def split: option.splits)
    then have row: "r \<in> set (ot_reservations ?T)" "res_id r = j" using last_byD [OF r] found by auto
    show "\<exists>r\<in>set (ot_reservations ?T). res_id r = j
      \<and> (snd \<circ> plan) j = [moving_impact Releasing r (get0 (add_all rle_reservationId rle_quantity entries []) j)]"
      using row r by (intro bexI [of _ r]) (simp_all add: plan release_reservation_plan_def moving_impact_def Let_def)
    have "?sum j \<le> movable Releasing r"
      using ok r by (simp add: plan release_reservation_plan_def get0_group res_open_def Let_def split: if_splits)
    then show "?sum j \<le> movable Releasing q" if "q \<in> set (ot_reservations ?T)" "res_id q = j" for q
      using that row same_reservation [OF ix, of q r] by simp
  qed
  have ne: "rle_reservationId x \<noteq> []" if "x \<in> set entries" for x using pos [OF that] by simp
  have imps': "imps = concat (map (snd \<circ> plan) (keys_of le rle_reservationId rle_quantity entries))" by (simp add: imps)
  have m: "distinct (map rsi_id imps)"
    "list_all2 (\<lambda>r. res_moved Releasing (?sum (res_id r)) r) (ot_reservations ?T)
      (write_all rsi_id res_id set_reservation imps (ot_reservations ?T))"
    "\<And>r. r \<in> set (ot_reservations ?T) \<Longrightarrow> find (\<lambda>i. rsi_id i = res_id r) imps
      = (if res_id r \<in> rle_reservationId ` set entries then Some (moving_impact Releasing r (?sum (res_id r))) else None)"
    using reservations_moved [where k = Releasing, OF ix ne planned imps'] by blast+
  show dist: "distinct (map rsi_id imps)" by (rule m(1))
  have e: "released_of imps (res_id r) = ?sum (res_id r)" if "r \<in> set (ot_reservations ?T)" for r
    using m(3) [OF that] by (auto simp: sum_at_distinct [OF dist] sum_at_no_key)
  have same: "list_all2 R rs qs" if "list_all2 R' rs qs" "\<And>r. r \<in> set rs \<Longrightarrow> R r = R' r" for R R' :: "reservation \<Rightarrow> reservation \<Rightarrow> bool" and rs qs
    using that by (simp add: list_all2_conv_all_nth)
  show "list_all2 (\<lambda>r. res_moved Releasing (released_of imps (res_id r)) r) (ot_reservations ?T)
      (write_all rsi_id res_id set_reservation imps (ot_reservations ?T))"
    by (rule same [OF m(2)]) (simp add: e)
  show "0 \<le> released_of imps (res_id r) \<and> released_of imps (res_id r) \<le> movable Releasing r" if r: "r \<in> set (ot_reservations ?T)"
  proof (cases "res_id r \<in> rle_reservationId ` set entries")
    case True
    have "0 \<le> ?sum (res_id r)" using pos by (intro sum_at_nonneg) (auto intro: less_imp_le)
    then show ?thesis using guard [OF True r refl] by (simp add: e [OF r])
  next
    case False
    then show ?thesis using out_invD(4) [OF inv r] by (simp add: e [OF r] sum_at_no_key reservation_bounded_def)
  qed
  show "rsi_reservation i \<in> set found" if i: "i \<in> set imps"
  proof -
    obtain j where "i \<in> set (snd (plan j))" using i by (auto simp: imps)
    then obtain r where "last_by res_id found j = Some r" "rsi_reservation i = r"
      by (auto simp: plan release_reservation_plan_def reservation_impact_of_def Let_def split: option.splits)
    then show ?thesis using last_byD by metis
  qed
qed

lemma release_step:
  assumes run: "releaseSalesOrderReservation le tx gen actor q s = Inr (s', i)" and inv: "out_inv opening (tables s)"
  shows "outbound_step (tables s) (tables s')"
proof -
  let ?T = "tables s" and ?t = "act_tenantId actor"
  obtain k version reason releases so1 where norm: "normalize_release q = Inr (k, version, reason, releases)"
    and so1: "out_locked (otx_orders tx) so_id so_tenantId SALES_ORDER_NOT_FOUND ?t k s = Inr so1"
    and allowed: "op_blockingIssues (buildReservationReleasePlan le tx s ?t k reason releases) = []"
    using run by (auto simp: releaseSalesOrderReservation_def Let_def)
  let ?p = "buildReservationReleasePlan le tx s ?t k reason releases"
  obtain s1 s2 s3
    where s1: "each (write_balance tx (\<lambda>i b. column_at_least (bal_reservedQuantity b) (sti_quantity i)) set_reserved)
          (op_balanceImpacts ?p) s = Inr s1"
    and s2: "each (write_line tx RESERVATION_QUANTITY_CONFLICT (\<lambda>i l. ol_reservedQuantity l \<ge> oli_quantity i))
          (op_lineImpacts ?p) s1 = Inr s2"
    and s3: "each (write_reservation tx RESERVATION_VERSION_CONFLICT (\<lambda>r. res_tenantId r = ?t) ?t ''released'')
          (with_ids gen 1 (op_reservationImpacts ?p)) s2 = Inr s3"
    and s4: "updateRow (otx_orders tx) s3 (so_id so1)
          (\<lambda>o1. o1\<lparr>so_reservationStatus := fst (op_statusAfter ?p), so_version := so_version o1 + 1\<rparr>) = Some s'"
    using run norm so1 by (auto simp: releaseSalesOrderReservation_def Let_def)
  obtain so2 lines where lo: "loadOrder tx s ?t k = Some (so2, lines)"
    using allowed by (cases "loadOrder tx s ?t k") (auto simp: buildReservationReleasePlan_def out_basePlan_def)
  have lines: "lines = order_lines tx s (so_id so2)" using lo by (auto simp: loadOrder_def split: option.splits)
  define entries where "entries = concat (map snd (map release_entry_plan releases))"
  let ?ids = "keys_of le rle_reservationId rle_quantity entries"
  define found where "found = findMany (otx_reservations tx) s
      (\<lambda>r. res_tenantId r = ?t \<and> res_salesOrderId r = so_id so2 \<and> res_id r \<in> set ?ids)"
  define plan where "plan = release_reservation_plan found entries (add_all rle_reservationId rle_quantity entries [])"
  define imps where "imps = concat (map snd (map plan ?ids))"
  note planned = buildReservationReleasePlan_def lo option.case prod.case Let_def entries_def [symmetric] found_def [symmetric]
    plan_def [symmetric] imps_def [symmetric]
  have ri: "op_reservationImpacts ?p = imps"
    and bi: "op_balanceImpacts ?p = concat (map snd (map (release_balance_plan tx s imps (add_all rsi_balanceKey rsi_quantity imps []))
      (keys_of le rsi_balanceKey rsi_quantity imps)))"
    and li: "op_lineImpacts ?p = concat (map snd (map (release_line_plan (order_lines tx s (so_id so2)) (add_all rsi_lineId rsi_quantity imps []))
      (keys_of le rsi_lineId rsi_quantity imps)))"
    unfolding planned lines [symmetric] by (simp_all add: out_basePlan_def)
  have issues: "concat (map fst (map release_entry_plan releases)) = []" "concat (map fst (map plan ?ids)) = []"
    using allowed unfolding planned by (simp_all add: out_basePlan_def unless_uncaught_def split: if_splits)
  have pos: "0 < rle_quantity x \<and> rle_reservationId x \<noteq> []" if "x \<in> set entries" for x
    using that issues(1) entry_positive by (auto simp: entries_def concat_map_Nil)
  have found: "r \<in> set found \<longleftrightarrow> r \<in> set (ot_reservations ?T)
      \<and> (res_tenantId r = ?t \<and> res_salesOrderId r = so_id so2 \<and> res_id r \<in> set ?ids)" for r
    by (simp add: found_def reservations.found_iff)
  have r: "distinct (map rsi_id imps)" "list_all2 (\<lambda>r. res_moved Releasing (released_of imps (res_id r)) r) (ot_reservations ?T)
      (write_all rsi_id res_id set_reservation imps (ot_reservations ?T))"
    "\<And>r. r \<in> set (ot_reservations ?T) \<Longrightarrow> 0 \<le> released_of imps (res_id r) \<and> released_of imps (res_id r) \<le> movable Releasing r"
    "\<And>i. i \<in> set imps \<Longrightarrow> rsi_reservation i \<in> set found"
    using released_reservations [OF inv found pos plan_def issues(2) imps_def] by blast+
  have rows: "rsi_reservation i \<in> set (ot_reservations ?T)" "res_tenantId (rsi_reservation i) = ?t"
    "res_salesOrderId (rsi_reservation i) = so_id so2" if "i \<in> set imps" for i
    using r(4) [OF that] found by auto
  note b = released_balances [OF inv rows(1) bi rows(2)]
  note l = released_lines [OF inv rows(1) rows(3) li]
  have t1: "tables s1 = ?T\<lparr>ot_balances := write_all sti_balanceId bal_id set_reserved (op_balanceImpacts ?p) (ot_balances ?T)\<rparr>"
    "indexed (tables s1)"
    using balances_loop [OF s1 out_invD(1) [OF inv] b(1) set_stock_id(2)] by blast+
  have t2: "tables s2 = (tables s1)\<lparr>ot_orderLines := write_all oli_salesOrderLineId ol_id move_line (op_lineImpacts ?p)
      (ot_orderLines (tables s1))\<rparr>" "indexed (tables s2)"
    using lines_loop [OF s2 t1(2) l(1)] by blast+
  obtain evs where t3: "tables s3 = (tables s2)\<lparr>ot_reservations := write_all rsi_id res_id set_reservation imps (ot_reservations (tables s2)),
      ot_events := evs\<rparr>" "indexed (tables s3)"
    using reservations_loop [OF s3 t2(2)] r(1) by (auto simp: ri snd_with_ids map_map [symmetric] simp del: map_map)
  obtain os where t4: "tables s' = (tables s3)\<lparr>ot_orders := os\<rparr>" "indexed (tables s')" "orders_kept (tables s3) (tables s')"
    using order_updated [OF s4 t3(2)] by auto
  have T': "ot_reservations (tables s') = write_all rsi_id res_id set_reservation imps (ot_reservations ?T)"
    "ot_orderLines (tables s') = write_all oli_salesOrderLineId ol_id move_line (op_lineImpacts ?p) (ot_orderLines ?T)"
    "ot_balances (tables s') = write_all sti_balanceId bal_id set_reserved (op_balanceImpacts ?p) (ot_balances ?T)"
    "ot_movements (tables s') = ot_movements ?T" "ot_items (tables s') = ot_items ?T" "ot_warehouses (tables s') = ot_warehouses ?T"
    "ot_shipments (tables s') = ot_shipments ?T" "ot_shipmentLines (tables s') = ot_shipmentLines ?T"
    "ot_allocations (tables s') = ot_allocations ?T" "ot_orders (tables s3) = ot_orders ?T"
    using t1 t2 t3 t4 by simp_all
  show ?thesis
  proof (rule outbound_step.released [where e = "released_of imps"])
    have "orders_kept ?T (tables s')" using t4(3) T' by (simp add: orders_kept_def)
    then show "ledger_moved Releasing (released_of imps) ?T (tables s')"
      using r(2,3) b(2) l(2) t4(2) by (simp add: ledger_moved_def T' moved_at_def)
  qed (simp_all only: T')
qed

section \<open>Drafting a shipment\<close>

lemma draft_positive:
  assumes "fst (draft_allocation_plan found lineId req) = []" "e \<in> set (snd (draft_allocation_plan found lineId req))"
  shows "fst e \<in> set found \<and> 0 < snd e \<and> res_salesOrderLineId (fst e) = lineId"
  using assms by (auto simp: draft_allocation_plan_def Let_def split: prod.splits option.splits if_splits dest: last_byD)

lemma draft_line_planned:
  assumes "fst (draft_line_plan lines found req) = []" "p \<in> set (snd (draft_line_plan lines found req))"
  shows "dln_allocations p \<noteq> []"
    and "e \<in> set (dln_allocations p) \<Longrightarrow> fst e \<in> set found \<and> 0 < snd e \<and> res_salesOrderLineId (fst e) = ol_id (dln_orderLine p)"
proof -
  let ?id = "js_trim (dli_salesOrderLineId req)" and ?plans = "map (draft_allocation_plan found (js_trim (dli_salesOrderLineId req))) (dli_allocations req)"
  obtain l where l: "last_by ol_id lines ?id = Some l"
    using assms(1) by (cases "last_by ol_id lines ?id") (auto simp: draft_line_plan_def Let_def)
  have p: "p = \<lparr>dln_orderLine = l, dln_allocations = concat (map snd ?plans)\<rparr>" and issues: "concat (map fst ?plans) = []"
    "concat (map snd ?plans) \<noteq> []"
    using assms l by (auto simp: draft_line_plan_def Let_def split: if_splits)
  show "dln_allocations p \<noteq> []" using issues(2) by (simp add: p)
  assume "e \<in> set (dln_allocations p)"
  then obtain a where "a \<in> set (dli_allocations req)" "e \<in> set (snd (draft_allocation_plan found ?id a))" by (auto simp: p)
  moreover from this(1) have "fst (draft_allocation_plan found ?id a) = []" using issues(1) by (simp add: concat_map_Nil)
  ultimately show "fst e \<in> set found \<and> 0 < snd e \<and> res_salesOrderLineId (fst e) = ol_id (dln_orderLine p)"
    using draft_positive last_byD(2) [OF l] by (simp add: p)
qed

abbreviation drafted_of :: "draft_line list \<Rightarrow> (reservation \<times> int) list" where
  "drafted_of plans \<equiv> concat (map dln_allocations plans)"

lemma draft_planned:
  assumes inv: "out_inv opening (tables s)"
    and allowed: "op_blockingIssues (buildShipmentDraftPlan le tx s t k number lines) = []"
  defines "p \<equiv> buildShipmentDraftPlan le tx s t k number lines"
  shows "\<exists>so2\<in>set (ot_orders (tables s)). so_id so2 = js_trim k \<and> so_tenantId so2 = t"
    and "drafted_of (op_quantityPlans p) \<noteq> []"
    and "\<And>d e. d \<in> set (op_quantityPlans p) \<Longrightarrow> e \<in> set (dln_allocations d) \<Longrightarrow> fst e \<in> set (ot_reservations (tables s)) \<and> 0 < snd e
      \<and> res_salesOrderLineId (fst e) = ol_id (dln_orderLine d) \<and> res_tenantId (fst e) = t \<and> res_salesOrderId (fst e) = js_trim k"
    and "distinct (map rsi_id (op_reservationImpacts p))"
    and "list_all2 (\<lambda>r. res_moved Allocating (sum_at (res_id \<circ> fst) snd (drafted_of (op_quantityPlans p)) (res_id r)) r)
      (ot_reservations (tables s)) (write_all rsi_id res_id set_reservation (op_reservationImpacts p) (ot_reservations (tables s)))"
    and "\<And>r. r \<in> set (ot_reservations (tables s)) \<Longrightarrow> 0 \<le> sum_at (res_id \<circ> fst) snd (drafted_of (op_quantityPlans p)) (res_id r)
      \<and> sum_at (res_id \<circ> fst) snd (drafted_of (op_quantityPlans p)) (res_id r) \<le> movable Allocating r"
proof -
  let ?T = "tables s"
  note ix = out_invD(1) [OF inv]
  obtain so2 ols where lo: "loadOrder tx s t k = Some (so2, ols)"
    using allowed by (cases "loadOrder tx s t k") (auto simp: buildShipmentDraftPlan_def out_basePlan_def)
  have so2: "so2 \<in> set (ot_orders ?T)" "so_id so2 = js_trim k" "so_tenantId so2 = t"
    using lo orders.first_some unfolding loadOrder_def by (auto split: option.splits)
  then show "\<exists>so2\<in>set (ot_orders ?T). so_id so2 = js_trim k \<and> so_tenantId so2 = t" by blast
  define ids where "ids = concat (map (\<lambda>l. map (\<lambda>a. js_trim (dai_reservationId a)) (dli_allocations l)) lines)"
  define found where "found = findMany (otx_reservations tx) s
      (\<lambda>r. res_tenantId r = t \<and> res_salesOrderId r = so_id so2 \<and> res_id r \<in> set ids - {[]})"
  define plans where "plans = concat (map snd (map (draft_line_plan ols found) lines))"
  define xs where "xs = drafted_of plans"
  let ?key = "\<lambda>a :: reservation \<times> int. res_id (fst a)"
  define plan where "plan = draft_reservation_plan found (add_all ?key snd xs [])"
  note planned = buildShipmentDraftPlan_def lo option.case prod.case Let_def ids_def [symmetric] found_def [symmetric]
    plans_def [symmetric] xs_def [symmetric] plan_def [symmetric]
  have qp: "op_quantityPlans p = plans" and ri: "op_reservationImpacts p = concat (map snd (map plan (keys_of le ?key snd xs)))"
    unfolding p_def planned by (simp_all add: out_basePlan_def)
  have issues: "lines \<noteq> []" "concat (map fst (map (draft_line_plan ols found) lines)) = []"
    "concat (map fst (map plan (keys_of le ?key snd xs))) = []"
    using allowed unfolding planned by (simp_all add: out_basePlan_def split: if_splits)
  have line: "fst (draft_line_plan ols found l) = []" if "l \<in> set lines" for l using issues(2) that by (simp add: concat_map_Nil)
  have foundD: "r \<in> set (ot_reservations ?T) \<and> res_tenantId r = t \<and> res_salesOrderId r = js_trim k" if "r \<in> set found" for r
    using that so2(2) by (simp add: found_def reservations.found_iff)
  have row: "fst e \<in> set found \<and> 0 < snd e \<and> res_salesOrderLineId (fst e) = ol_id (dln_orderLine d)"
    if d: "d \<in> set plans" "e \<in> set (dln_allocations d)" for d e
  proof -
    obtain l where "l \<in> set lines" "d \<in> set (snd (draft_line_plan ols found l))" using d(1) by (auto simp: plans_def)
    then show ?thesis using draft_line_planned(2) [OF line _ d(2)] by blast
  qed
  then show "fst e \<in> set (ot_reservations ?T) \<and> 0 < snd e \<and> res_salesOrderLineId (fst e) = ol_id (dln_orderLine d)
      \<and> res_tenantId (fst e) = t \<and> res_salesOrderId (fst e) = js_trim k"
    if "d \<in> set (op_quantityPlans p)" "e \<in> set (dln_allocations d)" for d e
    using that foundD unfolding qp by blast
  obtain l where l: "l \<in> set lines" using issues(1) by (cases lines) auto
  obtain o1 where "last_by ol_id ols (js_trim (dli_salesOrderLineId l)) = Some o1"
    using line [OF l] by (cases "last_by ol_id ols (js_trim (dli_salesOrderLineId l))") (auto simp: draft_line_plan_def Let_def)
  then obtain d where d: "d \<in> set (snd (draft_line_plan ols found l))" by (auto simp: draft_line_plan_def Let_def)
  then have "dln_allocations d \<noteq> []" "d \<in> set plans" using draft_line_planned(1) line [OF l] l by (auto simp: plans_def)
  then show "drafted_of (op_quantityPlans p) \<noteq> []" unfolding qp by auto
  have xs: "fst a \<in> set found \<and> 0 < snd a" if a: "a \<in> set xs" for a
  proof -
    obtain d where "d \<in> set plans" "a \<in> set (dln_allocations d)" using a by (auto simp: xs_def)
    then show ?thesis using row by blast
  qed
  have ne: "?key a \<noteq> []" if "a \<in> set xs" for a
    using xs [OF that] out_invD(4) [OF inv, of "fst a"] foundD by (auto simp: reservation_linked_def)
  have at: "\<exists>r\<in>set (ot_reservations ?T). res_id r = j \<and> last_by res_id found j = Some r" if "j \<in> ?key ` set xs" for j
  proof -
    have "j \<in> res_id ` set found" using that xs by auto
    then obtain r where "r \<in> set found" "res_id r = j" "last_by res_id found j = Some r" by (rule last_by_key)
    then show ?thesis using foundD by blast
  qed
  then have planned: "\<exists>r\<in>set (ot_reservations ?T). res_id r = j
      \<and> (snd \<circ> plan) j = [moving_impact Allocating r (get0 (add_all ?key snd xs []) j)]" if "j \<in> ?key ` set xs" for j
    using that by (fastforce simp: plan_def draft_reservation_plan_def moving_impact_def Let_def)
  have ri': "op_reservationImpacts p = concat (map (snd \<circ> plan) (keys_of le ?key snd xs))" by (simp add: ri)
  have key: "?key = res_id \<circ> fst" by auto
  from reservations_moved [where k = Allocating, OF ix ne planned ri']
  show "distinct (map rsi_id (op_reservationImpacts p))"
    "list_all2 (\<lambda>r. res_moved Allocating (sum_at (res_id \<circ> fst) snd (drafted_of (op_quantityPlans p)) (res_id r)) r)
      (ot_reservations ?T) (write_all rsi_id res_id set_reservation (op_reservationImpacts p) (ot_reservations ?T))"
    unfolding qp key xs_def [symmetric] by blast+
  show "0 \<le> sum_at (res_id \<circ> fst) snd (drafted_of (op_quantityPlans p)) (res_id r)
      \<and> sum_at (res_id \<circ> fst) snd (drafted_of (op_quantityPlans p)) (res_id r) \<le> movable Allocating r"
    if r: "r \<in> set (ot_reservations ?T)" for r
    unfolding qp xs_def [symmetric] key [symmetric]
  proof (cases "res_id r \<in> ?key ` set xs")
    case True
    obtain q where q: "q \<in> set (ot_reservations ?T)" "res_id q = res_id r" "last_by res_id found (res_id r) = Some q"
      using at [OF True] by blast
    have "res_id r \<in> set (keys_of le ?key snd xs)" unfolding add_all_keys using True out_invD(4) [OF inv r] by (simp add: reservation_linked_def)
    then have "fst (plan (res_id r)) = []" using issues(3) by (simp add: concat_map_Nil)
    then have "sum_at ?key snd xs (res_id r) \<le> movable Allocating q"
      using q(3) by (simp add: plan_def draft_reservation_plan_def get0_group res_open_def Let_def split: if_splits)
    moreover have "0 \<le> sum_at ?key snd xs (res_id r)" using xs by (intro sum_at_nonneg) (auto intro: less_imp_le)
    ultimately show "0 \<le> sum_at ?key snd xs (res_id r) \<and> sum_at ?key snd xs (res_id r) \<le> movable Allocating r"
      using same_reservation [OF ix q(1) r q(2)] by simp
  next
    case False
    then show "0 \<le> sum_at ?key snd xs (res_id r) \<and> sum_at ?key snd xs (res_id r) \<le> movable Allocating r"
      using out_invD(4) [OF inv r] by (simp add: sum_at_no_key reservation_bounded_def)
  qed
qed

lemma draft_step:
  assumes run: "createShipmentDraft le tx gen actor q s = Inr (s', i)" and inv: "out_inv opening (tables s)" and gen: "gen 1 \<noteq> []"
  shows "outbound_step (tables s) (tables s')"
proof -
  let ?T = "tables s" and ?t = "act_tenantId actor"
  obtain k number version lines so1 where norm: "normalize_draft q = Inr (k, number, version, lines)"
    and so1: "out_locked (otx_orders tx) so_id so_tenantId SALES_ORDER_NOT_FOUND ?t k s = Inr so1"
    and allowed: "op_blockingIssues (buildShipmentDraftPlan le tx s ?t k number lines) = []"
    using run by (auto simp: createShipmentDraft_def Let_def)
  let ?p = "buildShipmentDraftPlan le tx s ?t k number lines" and ?d = "new_shipment (gen 1) ?t number (so_id so1)"
  let ?plans = "op_quantityPlans ?p"
  obtain s1 s2 s3
    where s1: "createRow (otx_shipments tx) s ?d = Some s1"
    and s2: "create_shipment_lines tx gen ?t (gen 1) 2 ?plans s1 = Inr s2"
    and s3: "each (write_reservation tx OUTBOUND_CONCURRENT_TRANSACTION_CONFLICT (\<lambda>_. True) ?t ''allocated'')
          (with_ids gen (2 + ids_taken ?plans) (op_reservationImpacts ?p)) s2 = Inr s3"
    and s4: "updateRow (otx_orders tx) s3 (so_id so1) (\<lambda>o1. o1\<lparr>so_version := so_version o1 + 1\<rparr>) = Some s'"
    using run norm so1 by (auto simp: createShipmentDraft_def Let_def)
  have trim: "js_trim k = k" using norm by (auto simp: normalize_draft_def out_required_def split: if_splits)
  note o1 = locked_row [OF so1]
  note plan = draft_planned [OF inv allowed, unfolded trim]
  have t1: "tables s1 = ?T\<lparr>ot_shipments := ot_shipments ?T @ [?d]\<rparr>" "indexed (tables s1)"
  proof -
    note c = shipments.created [OF s1]
    show t: "tables s1 = ?T\<lparr>ot_shipments := ot_shipments ?T @ [?d]\<rparr>" by (rule out_tables.equality) (use c in simp_all)
    show "indexed (tables s1)" using c out_invD(1) [OF inv] by (simp add: indexed_def)
  qed
  obtain ls as where t2: "tables s2 = (tables s1)\<lparr>ot_shipmentLines := ot_shipmentLines (tables s1) @ ls,
      ot_allocations := ot_allocations (tables s1) @ as\<rparr>" "indexed (tables s2)" and rows: "draft_rows ?t (gen 1) ?plans ls as"
    using shipment_lines_created [OF s2 t1(2)] by blast
  obtain evs where t3: "tables s3 = (tables s2)\<lparr>ot_reservations := write_all rsi_id res_id set_reservation (op_reservationImpacts ?p)
      (ot_reservations (tables s2)), ot_events := evs\<rparr>" "indexed (tables s3)"
    using reservations_loop [OF s3 t2(2)] plan(4) by (auto simp: snd_with_ids map_map [symmetric] simp del: map_map)
  obtain os where t4: "tables s' = (tables s3)\<lparr>ot_orders := os\<rparr>" "indexed (tables s')" "orders_kept (tables s3) (tables s')"
    using order_updated [OF s4 t3(2)] by auto
  have T': "ot_reservations (tables s') = write_all rsi_id res_id set_reservation (op_reservationImpacts ?p) (ot_reservations ?T)"
    "ot_orderLines (tables s') = ot_orderLines ?T" "ot_balances (tables s') = ot_balances ?T"
    "ot_movements (tables s') = ot_movements ?T" "ot_items (tables s') = ot_items ?T" "ot_warehouses (tables s') = ot_warehouses ?T"
    "ot_shipments (tables s') = ot_shipments ?T @ [?d]" "ot_shipmentLines (tables s') = ot_shipmentLines ?T @ ls"
    "ot_allocations (tables s') = ot_allocations ?T @ as" "ot_orders (tables s3) = ot_orders ?T"
    using t1 t2 t3 t4 by simp_all
  let ?e = "sum_at (res_id \<circ> fst) snd (drafted_of ?plans)"
  have own: "0 < sal_quantity a \<and> sal_status a = ''allocated'' \<and> (\<exists>r\<in>set (ot_reservations ?T). \<exists>l\<in>set ls. allocation_of a r l ?d)"
    if a: "a \<in> set as" for a
  proof -
    obtain d e l where row: "d \<in> set ?plans" "e \<in> set (dln_allocations d)" "l \<in> set ls" "spl_shipmentId l = gen 1"
      "sal_tenantId a = ?t" "sal_status a = ''allocated''" "sal_quantity a = snd e" "sal_reservationId a = res_id (fst e)"
      "sal_warehouseId a = res_warehouseId (fst e)" "sal_locationKey a = res_locationKey (fst e)"
      "sal_shipmentLineId a = spl_id l" "spl_salesOrderLineId l = ol_id (dln_orderLine d)"
      using rows a unfolding draft_rows_def by blast
    note e = plan(3) [OF row(1,2)]
    then have "allocation_of a (fst e) l ?d" using row o1 by (simp add: allocation_of_def new_shipment_def)
    then show ?thesis using e row by auto
  qed
  show ?thesis
  proof (rule outbound_step.drafted [where e = ?e and d = ?d and ls = ls and as = as])
    have "orders_kept ?T (tables s')" using t4(3) T' by (simp add: orders_kept_def)
    then show "ledger_moved Allocating ?e ?T (tables s')"
      using plan(5,6) t4(2) unmoved [of Allocating] out_invD(5) [OF inv]
      by (simp add: ledger_moved_def T' moved_at_def dOpen_def balance_fine_def)
    show "shippable ?d" by (simp add: shippable_def new_shipment_def)
    show "shp_id ?d \<noteq> []" using gen by (simp add: new_shipment_def)
    show "\<exists>o1\<in>set (ot_orders ?T). so_id o1 = shp_salesOrderId ?d \<and> so_tenantId o1 = shp_tenantId ?d"
      using o1 by (auto simp: new_shipment_def)
    show "as \<noteq> []" using rows plan(2) by (auto simp: draft_rows_def)
    show "?e (res_id r) = sum_at sal_reservationId sal_quantity as (res_id r)" for r
      using rows by (simp add: draft_rows_def comp_def)
    show "spl_shipmentId l = shp_id ?d" if "l \<in> set ls" for l using rows that by (simp add: draft_rows_def new_shipment_def)
  qed (simp_all only: T' own)
qed

end

end
