(* ===== verification/Outbound_Reserving.thy ===== *)
theory Outbound_Reserving
  imports Outbound_Commands
begin

text \<open>
  Reserving stock for an order as a step of the machine of \<open>Outbound_Ledger\<close>: the new reservations
  are at places with a balance of the same item, and what they take is there.
\<close>

section \<open>Location keys\<close>

lemma js_space_lower [simp]: "js_space (lower_char c) \<longleftrightarrow> js_space c"
  by (auto simp: js_space_def lower_char_def Let_def of_char_of)

lemma js_trim_lower: "js_trim (js_lower s) = js_lower (js_trim s)"
  by (simp add: js_trim_def js_lower_def dropWhile_map rev_map comp_def)

section \<open>The entries\<close>

definition entry_place :: "string \<Rightarrow> reserve_entry \<Rightarrow> stock_place" where
  "entry_place t e = (t, rve_sku e, rve_warehouseId e, rve_locationKey e)"

lemma reserve_entry:
  assumes "fst (reserve_entry_plan lines q) = []" "e \<in> set (snd (reserve_entry_plan lines q))"
  shows "0 < rve_quantity e" "js_trim (rve_locationKey e) = rve_locationKey e" "rve_warehouseId e \<noteq> []"
    "\<exists>l\<in>set lines. ol_id l = rve_salesOrderLineId e \<and> ol_sku l = rve_sku e \<and> ol_itemId l = rve_itemId e"
  using assms
  by (auto simp: reserve_entry_plan_def Let_def js_trim_lower split: prod.splits option.splits if_splits dest: last_byD)

lemma sum_at_regrouped:
  "(\<And>x y. x \<in> set xs \<Longrightarrow> y \<in> set xs \<Longrightarrow> gk x = gk y \<longleftrightarrow> place x = place y) \<Longrightarrow> x \<in> set xs
   \<Longrightarrow> sum_at gk qty xs (gk x) = sum_at place qty xs (place x)"
  unfolding sum_at_def by (intro arg_cong [where f = sum_list] arg_cong [where f = "map qty"] filter_cong) auto

definition reserved_rows :: "(nat \<Rightarrow> string) \<Rightarrow> string \<Rightarrow> string \<Rightarrow> reserve_entry list \<Rightarrow> reservation list" where
  "reserved_rows gen t k es = map (\<lambda>ne. new_reservation (gen (2 * fst ne + 1)) t k (snd ne)) (enumerate 0 es)"

lemma reserved_sums:
  "sum_at res_place res_reservedQuantity (reserved_rows gen t k es) p = sum_at (entry_place t) rve_quantity es p"
  "sum_at res_salesOrderLineId res_reservedQuantity (reserved_rows gen t k es) j = sum_at rve_salesOrderLineId rve_quantity es j"
proof -
  have "sum_at res_place res_reservedQuantity (map (\<lambda>ne. new_reservation (gen (2 * fst ne + 1)) t k (snd ne)) (enumerate n es)) p
      = sum_at (entry_place t) rve_quantity es p"
    "sum_at res_salesOrderLineId res_reservedQuantity (map (\<lambda>ne. new_reservation (gen (2 * fst ne + 1)) t k (snd ne)) (enumerate n es)) j
      = sum_at rve_salesOrderLineId rve_quantity es j" for n
    by (induction es arbitrary: n) (auto simp: new_reservation_def res_place_def entry_place_def)
  then show "sum_at res_place res_reservedQuantity (reserved_rows gen t k es) p = sum_at (entry_place t) rve_quantity es p"
    "sum_at res_salesOrderLineId res_reservedQuantity (reserved_rows gen t k es) j = sum_at rve_salesOrderLineId rve_quantity es j"
    unfolding reserved_rows_def by blast+
qed

lemma reserved_row:
  "r \<in> set (reserved_rows gen t k es) \<Longrightarrow> \<exists>e\<in>set es. \<exists>n. r = new_reservation (gen n) t k e"
proof -
  assume "r \<in> set (reserved_rows gen t k es)"
  then obtain ne where ne: "ne \<in> set (enumerate 0 es)" "r = new_reservation (gen (2 * fst ne + 1)) t k (snd ne)"
    by (auto simp: reserved_rows_def)
  have "snd ne \<in> set es" using imageI [OF ne(1), of snd] by (metis list.set_map map_snd_enumerate)
  then show ?thesis using ne(2) by blast
qed

context outbound_store
begin

text \<open>The items of an order with no invalid line have their SKU in the catalogue.\<close>

lemma order_items:
  assumes "validateOrderItems tx s t ls = []" "l \<in> set ls"
  shows "\<exists>i\<in>set (ot_items (tables s)). oit_tenantId i = t \<and> oit_id i = ol_itemId l \<and> oit_sku i = ol_sku l"
proof -
  define found where "found = findMany (otx_items tx) s
      (\<lambda>i. oit_tenantId i = t \<and> oit_id i \<in> set (map (\<lambda>l. js_trim (ol_itemId l)) ls) - {[]})"
  obtain i where i: "last_by oit_id found (ol_itemId l) = Some i" "oit_tenantId i = t" "oit_id i = ol_itemId l" "oit_sku i = ol_sku l"
    using assms unfolding validateOrderItems_def Let_def found_def [symmetric]
    by (cases "last_by oit_id found (ol_itemId l)") (auto simp: concat_map_Nil split: if_splits)
  then have "i \<in> set (ot_items (tables s))" using last_byD(1) [OF i(1)] by (simp add: found_def items.found_iff)
  then show ?thesis using i by blast
qed

lemma same_item:
  assumes "indexed T" "i \<in> set (ot_items T)" "j \<in> set (ot_items T)" "oit_tenantId i = oit_tenantId j" "oit_sku i = oit_sku j"
  shows "i = j"
  using assms by (auto simp: indexed_def item_clash_def intro: unclashed_at [where clash = item_clash])

lemma order_guarded:
  assumes "updateMany (otx_orders tx) s (\<lambda>o1. so_id o1 = k \<and> P o1) f = Some (s', 1)" "indexed (tables s)"
    "\<And>o1. so_id (f o1) = so_id o1 \<and> so_tenantId (f o1) = so_tenantId o1"
  shows "\<exists>os. tables s' = (tables s)\<lparr>ot_orders := os\<rparr> \<and> indexed (tables s') \<and> orders_kept (tables s) (tables s')"
proof -
  let ?os = "update_where (\<lambda>o1. so_id o1 = k) f (ot_orders (tables s))"
  have u: "ot_orders (tables s') = ?os \<and> (\<exists>F. tables s' = ot_orders_update F (tables s)) \<and> unclashed order_clash (ot_orders (tables s'))"
    using orders.update_one [OF assms(1)] assms(2) unfolding indexed_def by blast
  then obtain F where "tables s' = ot_orders_update F (tables s)" by blast
  then have t: "tables s' = (tables s)\<lparr>ot_orders := ?os\<rparr>" by (intro out_tables.equality) (use u in simp_all)
  moreover have "indexed (tables s')" using u assms(2) unfolding t by (simp add: indexed_def)
  moreover have "orders_kept (tables s) (tables s')"
    unfolding orders_kept_def
  proof
    fix a assume "a \<in> set (ot_orders (tables s))"
    then have "(if so_id a = k then f a else a) \<in> set (ot_orders (tables s'))" using u by (auto simp: set_update_where)
    then show "\<exists>b\<in>set (ot_orders (tables s')). so_id b = so_id a \<and> so_tenantId b = so_tenantId a"
      using assms(3) by (intro bexI) auto
  qed
  ultimately show ?thesis by blast
qed

section \<open>The plan\<close>

lemma reserve_planned:
  assumes inv: "out_inv opening (tables s)"
    and allowed: "op_blockingIssues (buildSalesOrderReservationPlan le tx s t k allocations) = []"
  defines "p \<equiv> buildSalesOrderReservationPlan le tx s t k allocations"
  shows "\<And>e. e \<in> set (op_quantityPlans p) \<Longrightarrow> 0 < rve_quantity e \<and> js_trim (rve_locationKey e) = rve_locationKey e
      \<and> (\<exists>w\<in>set (ot_warehouses (tables s)). wh_id w = rve_warehouseId e)
      \<and> (\<exists>l\<in>set (ot_orderLines (tables s)). ol_id l = rve_salesOrderLineId e \<and> ol_salesOrderId l = js_trim k
            \<and> ol_itemId l = rve_itemId e \<and> ol_sku l = rve_sku e)
      \<and> (\<exists>b\<in>set (ot_balances (tables s)). bal_place b = entry_place t e \<and> bal_itemId b = Some (rve_itemId e))"
    and "distinct (map sti_balanceId (op_balanceImpacts p))" "distinct (map oli_salesOrderLineId (op_lineImpacts p))"
    and "list_all2 (balance_reserved (reserved_rows gen t k' (op_quantityPlans p))) (ot_balances (tables s))
      (write_all sti_balanceId bal_id set_reserved (op_balanceImpacts p) (ot_balances (tables s)))"
    and "list_all2 (line_reserved (reserved_rows gen t k' (op_quantityPlans p))) (ot_orderLines (tables s))
      (write_all oli_salesOrderLineId ol_id move_line (op_lineImpacts p) (ot_orderLines (tables s)))"
proof -
  let ?T = "tables s"
  note ix = out_invD(1) [OF inv]
  obtain so2 ols where lo: "loadOrder tx s t k = Some (so2, ols)"
    using allowed by (cases "loadOrder tx s t k") (auto simp: buildSalesOrderReservationPlan_def out_basePlan_def)
  have so2: "so_id so2 = js_trim k" "ols = order_lines tx s (so_id so2)"
    using lo orders.first_some unfolding loadOrder_def by (auto split: option.splits)
  define es where "es = concat (map snd (map (reserve_entry_plan ols) allocations))"
  define active where "active = map wh_id (findMany (otx_warehouses tx) s
      (\<lambda>w. wh_tenantId w = t \<and> wh_id w \<in> set (sorted_ids le (map rve_warehouseId es)) \<and> wh_status w = ''active''))"
  define bplan where "bplan = reserve_balance_plan tx s t es (add_all rve_balanceKey rve_quantity es [])"
  define lplan where "lplan = reserve_line_plan ols (add_all rve_salesOrderLineId rve_quantity es [])"
  note planned = buildSalesOrderReservationPlan_def lo option.case prod.case Let_def es_def [symmetric] active_def [symmetric]
    bplan_def [symmetric] lplan_def [symmetric]
  have qp: "op_quantityPlans p = es"
    and bi: "op_balanceImpacts p = concat (map snd (map bplan (keys_of le rve_balanceKey rve_quantity es)))"
    and li: "op_lineImpacts p = concat (map snd (map lplan (keys_of le rve_salesOrderLineId rve_quantity es)))"
    unfolding p_def planned by (simp_all add: out_basePlan_def)
  have issues: "validateOrderItems tx s t ols = []" "concat (map fst (map (reserve_entry_plan ols) allocations)) = []"
    "concat (map (\<lambda>w. push_if (w \<notin> set active) RESERVATION_VALIDATION_FAILED 422) (sorted_ids le (map rve_warehouseId es))) = []"
    "concat (map fst (map bplan (keys_of le rve_balanceKey rve_quantity es))) = []"
    "concat (map fst (map lplan (keys_of le rve_salesOrderLineId rve_quantity es))) = []"
    using allowed unfolding planned by (simp_all add: out_basePlan_def split: if_splits)
  have line: "0 < rve_quantity e" "js_trim (rve_locationKey e) = rve_locationKey e" "rve_warehouseId e \<noteq> []"
    "\<exists>l\<in>set ols. ol_id l = rve_salesOrderLineId e \<and> ol_sku l = rve_sku e \<and> ol_itemId l = rve_itemId e" if e: "e \<in> set es" for e
  proof -
    obtain q where q: "q \<in> set allocations" "e \<in> set (snd (reserve_entry_plan ols q))" using e by (auto simp: es_def)
    moreover have "fst (reserve_entry_plan ols q) = []" using issues(2) q(1) by (simp add: concat_map_Nil)
    ultimately show "0 < rve_quantity e" "js_trim (rve_locationKey e) = rve_locationKey e" "rve_warehouseId e \<noteq> []"
      "\<exists>l\<in>set ols. ol_id l = rve_salesOrderLineId e \<and> ol_sku l = rve_sku e \<and> ol_itemId l = rve_itemId e"
      using reserve_entry by blast+
  qed
  have olsD: "l \<in> set (ot_orderLines ?T)" "ol_salesOrderId l = js_trim k" "clean_name (ol_sku l)" "ol_id l \<noteq> []" if "l \<in> set ols" for l
    using that so2 out_invD(3) [OF inv, of l] by (simp_all add: order_lines_rows order_line_fine_def)
  have house: "\<exists>w\<in>set (ot_warehouses ?T). wh_id w = rve_warehouseId e" if e: "e \<in> set es" for e
  proof -
    have "rve_warehouseId e \<in> set (sorted_ids le (map rve_warehouseId es))" using e line(3) [OF e] by simp
    then have "rve_warehouseId e \<in> set active" using issues(3) by (auto simp: concat_map_Nil split: if_splits)
    then show ?thesis by (auto simp: active_def warehouses.found_iff)
  qed
  have clean: "clean_name (rve_sku e)" "clean_name (rve_warehouseId e)" if e: "e \<in> set es" for e
  proof -
    show "clean_name (rve_sku e)" using line(4) [OF e] olsD(3) by metis
    show "clean_name (rve_warehouseId e)" using house [OF e] out_invD(2) [OF inv] by (auto simp: names_clean_def)
  qed
  have inj: "rve_balanceKey x = rve_balanceKey y \<longleftrightarrow> entry_place t x = entry_place t y" if "x \<in> set es" "y \<in> set es" for x y
    using clean [OF that(1)] clean [OF that(2)] line(2) [OF that(1)] line(2) [OF that(2)]
    by (simp add: rve_balanceKey_def balanceKey_inj entry_place_def)
  have item: "rve_itemId x = rve_itemId y" if xy: "x \<in> set es" "y \<in> set es" "entry_place t x = entry_place t y" for x y
  proof -
    have "\<exists>i\<in>set (ot_items ?T). oit_tenantId i = t \<and> oit_id i = rve_itemId e \<and> oit_sku i = rve_sku e" if "e \<in> set es" for e
      using line(4) [OF that] order_items [OF issues(1)] by metis
    from this [OF xy(1)] this [OF xy(2)] show ?thesis using same_item [OF ix] xy(3) by (metis entry_place_def prod.inject)
  qed
  define at where "at = (\<lambda>b j. \<exists>x\<in>set es. rve_balanceKey x = j \<and> entry_place t x = bal_place b \<and> bal_itemId b = Some (rve_itemId x)
      \<and> sum_at rve_balanceKey rve_quantity es j \<le> available b)"
  have balance: "\<exists>b\<in>set (ot_balances ?T). at b j
      \<and> (snd \<circ> bplan) j = [(\<lambda>b q. stock_impact_of b q 0 q (- q)) b (get0 (add_all rve_balanceKey rve_quantity es []) j)]"
    if j: "j \<in> rve_balanceKey ` set es" for j
  proof -
    have "find (\<lambda>e. rve_balanceKey e = j) es \<noteq> None" using j by (auto simp: find_None_iff)
    then obtain x where x: "find (\<lambda>e. rve_balanceKey e = j) es = Some x" by auto
    then have x': "x \<in> set es" "rve_balanceKey x = j" by (auto simp: find_Some_iff in_set_conv_nth)
    have "j \<in> set (keys_of le rve_balanceKey rve_quantity es)" unfolding add_all_keys using j by (auto simp: rve_balanceKey_def)
    then have ok: "fst (bplan j) = []" using issues(4) by (simp add: concat_map_Nil)
    then obtain b where b: "balance_at tx s t (rve_sku x) (rve_warehouseId x) (rve_locationKey x) = Some b"
      by (cases "balance_at tx s t (rve_sku x) (rve_warehouseId x) (rve_locationKey x)") (auto simp: bplan_def reserve_balance_plan_def x)
    have "b \<in> set (ot_balances ?T)" "bal_place b = entry_place t x"
      using b by (auto simp: balance_at_def entry_place_def bal_place_def dest!: balances.first_some)
    then show ?thesis using ok b x x'
      by (intro bexI [of _ b]) (auto simp: at_def bplan_def reserve_balance_plan_def get0_group Let_def split: if_splits)
  qed
  show "0 < rve_quantity e \<and> js_trim (rve_locationKey e) = rve_locationKey e
      \<and> (\<exists>w\<in>set (ot_warehouses ?T). wh_id w = rve_warehouseId e)
      \<and> (\<exists>l\<in>set (ot_orderLines ?T). ol_id l = rve_salesOrderLineId e \<and> ol_salesOrderId l = js_trim k
            \<and> ol_itemId l = rve_itemId e \<and> ol_sku l = rve_sku e)
      \<and> (\<exists>b\<in>set (ot_balances ?T). bal_place b = entry_place t e \<and> bal_itemId b = Some (rve_itemId e))"
    if "e \<in> set (op_quantityPlans p)" for e
  proof -
    have e: "e \<in> set es" using that by (simp add: qp)
    then obtain b x where "b \<in> set (ot_balances ?T)" "x \<in> set es" "rve_balanceKey x = rve_balanceKey e"
      "entry_place t x = bal_place b" "bal_itemId b = Some (rve_itemId x)"
      using balance [of "rve_balanceKey e"] by (auto simp: at_def)
    moreover from this have "entry_place t x = entry_place t e" using inj e by blast
    ultimately have "\<exists>b\<in>set (ot_balances ?T). bal_place b = entry_place t e \<and> bal_itemId b = Some (rve_itemId e)"
      using item e by metis
    then show ?thesis using line [OF e] house [OF e] olsD by blast
  qed
  let ?rs = "reserved_rows gen t k' (op_quantityPlans p)"
  have bi': "op_balanceImpacts p = concat (map (snd \<circ> bplan) (keys_of le rve_balanceKey rve_quantity es))" by (simp add: bi)
  have planned: "\<exists>x\<in>set es. \<exists>b\<in>set (ot_balances ?T). rve_balanceKey x = j \<and> entry_place t x = bal_place b
      \<and> (snd \<circ> bplan) j = [(\<lambda>b q. stock_impact_of b q 0 q (- q)) b (get0 (add_all rve_balanceKey rve_quantity es []) j)]"
    if "j \<in> rve_balanceKey ` set es" for j
    using balance [OF that] unfolding at_def by blast
  have ne: "rve_balanceKey e \<noteq> []" for e by (simp add: rve_balanceKey_def)
  have kid: "sti_balanceId ((\<lambda>b q. stock_impact_of b q 0 q (- q)) b q) = bal_id b" for b q by (simp add: stock_impact_of_def)
  have moves: "balance_reserved ?rs b (set_reserved ((\<lambda>b q. stock_impact_of b q 0 q (- q)) b (sum_at (entry_place t) rve_quantity es (bal_place b))) b)"
    if b: "b \<in> set (ot_balances ?T)" "bal_place b \<in> entry_place t ` set es" for b
  proof -
    obtain x where x: "x \<in> set es" "bal_place b = entry_place t x" using b(2) by auto
    then obtain b' y where b': "b' \<in> set (ot_balances ?T)" "y \<in> set es" "rve_balanceKey y = rve_balanceKey x"
      "entry_place t y = bal_place b'" "sum_at rve_balanceKey rve_quantity es (rve_balanceKey x) \<le> available b'"
      using balance [of "rve_balanceKey x"] by (auto simp: at_def)
    then have "bal_place b' = bal_place b" using inj x by metis
    then have "b' = b" using same_balance [OF ix b'(1) b(1)] by blast
    moreover have "sum_at rve_balanceKey rve_quantity es (rve_balanceKey x) = sum_at (entry_place t) rve_quantity es (entry_place t x)"
      by (rule sum_at_regrouped) (use inj x(1) in blast)+
    ultimately show ?thesis using b'(5) x set_reserved_moves
      by (simp add: balance_reserved_def qp reserved_sums Let_def)
  qed
  have stays: "balance_reserved ?rs b b" if b: "b \<in> set (ot_balances ?T)" "bal_place b \<notin> entry_place t ` set es" for b
    using out_invD(5) [OF inv b(1)] b(2)
    by (simp add: balance_reserved_def qp reserved_sums sum_at_no_key balance_fine_def balance_ok_def balance_moved_zero)
  note w = balances_written [where f = set_reserved and R = "balance_reserved ?rs", OF ix planned inj ne kid bi' moves stays]
  show "distinct (map sti_balanceId (op_balanceImpacts p))"
    "list_all2 (balance_reserved ?rs) (ot_balances ?T)
      (write_all sti_balanceId bal_id set_reserved (op_balanceImpacts p) (ot_balances ?T))"
    by (rule w; assumption)+
  have order: "\<exists>l\<in>set (ot_orderLines ?T). (ol_id l = j \<and> ol_reservedQuantity l + ol_fulfilledQuantity l
        + sum_at rve_salesOrderLineId rve_quantity es j \<le> ol_orderedQuantity l)
      \<and> (snd \<circ> lplan) j = [(\<lambda>l q. line_impact_of l q q 0) l (get0 (add_all rve_salesOrderLineId rve_quantity es []) j)]"
    if j: "j \<in> rve_salesOrderLineId ` set es" for j
  proof -
    have "j \<in> ol_id ` set ols" using j line(4) by force
    then obtain l where l: "l \<in> set ols" "ol_id l = j" "last_by ol_id ols j = Some l" by (rule last_by_key)
    have "j \<noteq> []" using l olsD(4) by blast
    then have "j \<in> set (keys_of le rve_salesOrderLineId rve_quantity es)" unfolding add_all_keys using j by simp
    then have "fst (lplan j) = []" using issues(5) by (simp add: concat_map_Nil)
    then show ?thesis using l olsD
      by (intro bexI [of _ l]) (auto simp: lplan_def reserve_line_plan_def get0_group Let_def split: if_splits)
  qed
  have ne': "rve_salesOrderLineId e \<noteq> []" if "e \<in> set es" for e
    using line(4) [OF that] olsD(4) by metis
  have planned': "\<exists>l\<in>set (ot_orderLines ?T). ol_id l = j
      \<and> (snd \<circ> lplan) j = [(\<lambda>l q. line_impact_of l q q 0) l (get0 (add_all rve_salesOrderLineId rve_quantity es []) j)]"
    if "j \<in> rve_salesOrderLineId ` set es" for j
    using order [OF that] by blast
  have li': "op_lineImpacts p = concat (map (snd \<circ> lplan) (keys_of le rve_salesOrderLineId rve_quantity es))" by (simp add: li)
  have kid': "oli_salesOrderLineId ((\<lambda>l q. line_impact_of l q q 0) l q) = ol_id l" for l q by (simp add: line_impact_of_def)
  have moves': "line_reserved ?rs l (move_line ((\<lambda>l q. line_impact_of l q q 0) l (sum_at rve_salesOrderLineId rve_quantity es (ol_id l))) l)"
    if l: "l \<in> set (ot_orderLines ?T)" "ol_id l \<in> rve_salesOrderLineId ` set es" for l
    using order [OF l(2)] same_line [OF ix _ l(1)]
    by (auto simp: line_reserved_def qp reserved_sums move_line_def line_impact_of_def Let_def)
  have stays': "line_reserved ?rs l l" if "ol_id l \<notin> rve_salesOrderLineId ` set es" for l
    using that by (auto simp: line_reserved_def qp reserved_sums sum_at_no_key intro!: exI [of _ "ol_version l"])
  note w = lines_written [where R = "line_reserved ?rs", OF ix ne' planned' kid' li' moves' stays']
  show "distinct (map oli_salesOrderLineId (op_lineImpacts p))"
    "list_all2 (line_reserved ?rs) (ot_orderLines ?T)
      (write_all oli_salesOrderLineId ol_id move_line (op_lineImpacts p) (ot_orderLines ?T))"
    by (rule w; assumption)+
qed

section \<open>The command\<close>

lemma reserve_step:
  assumes run: "reserveSalesOrderInventory le tx gen actor q s = Inr (s', i)" and inv: "out_inv opening (tables s)"
    and gen: "\<And>n. gen n \<noteq> []"
  shows "outbound_step (tables s) (tables s')"
proof -
  let ?T = "tables s" and ?t = "act_tenantId actor"
  obtain k version allocations so1 where norm: "normalize_reserve q = Inr (k, version, allocations)"
    and so1: "out_locked (otx_orders tx) so_id so_tenantId SALES_ORDER_NOT_FOUND ?t k s = Inr so1"
    and allowed: "op_blockingIssues (buildSalesOrderReservationPlan le tx s ?t k allocations) = []"
    using run by (auto simp: reserveSalesOrderInventory_def Let_def)
  let ?p = "buildSalesOrderReservationPlan le tx s ?t k allocations"
  obtain s1 s2 s3
    where s1: "each (write_balance tx (\<lambda>i b. bal_tenantId b = ?t \<and> column_at_least (bal_availableQuantity b) (sti_quantity i)) set_reserved)
          (op_balanceImpacts ?p) s = Inr s1"
    and s2: "each (write_line tx SALES_ORDER_VERSION_CONFLICT (\<lambda>i l. ol_salesOrderId l = so_id so1)) (op_lineImpacts ?p) s1 = Inr s2"
    and s3: "each (create_reservation tx gen ?t (so_id so1)) (enumerate 0 (op_quantityPlans ?p)) s2 = Inr s3"
    and s4: "updateMany (otx_orders tx) s3 (\<lambda>o1. so_id o1 = so_id so1 \<and> so_tenantId o1 = ?t \<and> so_version o1 = so_version so1)
          (\<lambda>o1. o1\<lparr>so_reservationStatus := fst (op_statusAfter ?p), so_version := so_version o1 + 1\<rparr>) = Some (s', 1)"
    using run norm so1 by (auto simp: reserveSalesOrderInventory_def Let_def)
  have "js_trim k = k" using norm by (auto simp: normalize_reserve_def out_required_def split: if_splits)
  then have k: "js_trim k = so_id so1" using locked_row(2) [OF so1] by simp
  let ?new = "reserved_rows gen ?t (so_id so1) (op_quantityPlans ?p)"
  note plan = reserve_planned [OF inv allowed, unfolded k]
  have t1: "tables s1 = ?T\<lparr>ot_balances := write_all sti_balanceId bal_id set_reserved (op_balanceImpacts ?p) (ot_balances ?T)\<rparr>"
    "indexed (tables s1)"
    using balances_loop [OF s1 out_invD(1) [OF inv] plan(2) set_stock_id(2)] by blast+
  have t2: "tables s2 = (tables s1)\<lparr>ot_orderLines := write_all oli_salesOrderLineId ol_id move_line (op_lineImpacts ?p)
      (ot_orderLines (tables s1))\<rparr>" "indexed (tables s2)"
    using lines_loop [OF s2 t1(2) plan(3)] by blast+
  obtain evs where t3: "tables s3 = (tables s2)\<lparr>ot_reservations := ot_reservations (tables s2) @ ?new, ot_events := evs\<rparr>" "indexed (tables s3)"
    using reservations_created [OF s3 t2(2)] unfolding reserved_rows_def by blast
  obtain os where t4: "tables s' = (tables s3)\<lparr>ot_orders := os\<rparr>" "indexed (tables s')" "orders_kept (tables s3) (tables s')"
    using order_guarded [OF s4 t3(2)] by auto
  show ?thesis
  proof (rule outbound_step.stock_reserved [where new = ?new])
    show "tables s' = ?T\<lparr>ot_orders := os, ot_orderLines := write_all oli_salesOrderLineId ol_id move_line (op_lineImpacts ?p) (ot_orderLines ?T),
        ot_balances := write_all sti_balanceId bal_id set_reserved (op_balanceImpacts ?p) (ot_balances ?T),
        ot_reservations := ot_reservations ?T @ ?new, ot_events := evs\<rparr>"
      by (rule out_tables.equality) (use t1 t2 t3 t4 in simp_all)
    show "orders_kept ?T (tables s')" using t4(3) t3 t2 t1 by (simp add: orders_kept_def)
    show "indexed (tables s')" by (rule t4(2))
    show "list_all2 (line_reserved ?new) (ot_orderLines ?T)
        (write_all oli_salesOrderLineId ol_id move_line (op_lineImpacts ?p) (ot_orderLines ?T))" by (rule plan(5))
    show "list_all2 (balance_reserved ?new) (ot_balances ?T)
        (write_all sti_balanceId bal_id set_reserved (op_balanceImpacts ?p) (ot_balances ?T))" by (rule plan(4))
    show "fresh_reservation ?T r" if r: "r \<in> set ?new" for r
    proof -
      obtain e n where e: "e \<in> set (op_quantityPlans ?p)" "r = new_reservation (gen n) ?t (so_id so1) e"
        using reserved_row [OF r] by blast
      from plan(1) [OF e(1)] show ?thesis using gen
        by (auto simp: fresh_reservation_def e(2) new_reservation_def reservation_of_line_def res_place_def entry_place_def)
    qed
  qed
qed

section \<open>Writing an order\<close>

lemma authoritative_fresh:
  assumes "authoritativeLines tx s uuid t k ins = Inr ls" "l \<in> set ls" "\<And>n. uuid n \<noteq> []"
  shows "fresh_line (tables s) l"
proof -
  obtain ns where ns: "map_or_fail normalize_order_line ins = Inr ns" using assms(1) by (auto simp: authoritativeLines_def)
  define found where "found = findMany (otx_items tx) s (\<lambda>i. oit_tenantId i = t \<and> oit_id i \<in> set (map fst ns) \<and> oit_status i = ''active'')"
  have "map_or_fail (\<lambda>(n, itemId, quantity, price).
          case last_by oit_id found itemId of
            None \<Rightarrow> Inl (Issue SALES_ORDER_ITEM_INVALID 422)
          | Some item \<Rightarrow> Inr (new_order_line (uuid n) k item quantity price)) (enumerate 0 ns) = Inr ls"
    using assms(1) ns by (auto simp: authoritativeLines_def found_def Let_def)
  from list_all2_elem(2) [OF map_or_fail_Inr [OF this] assms(2)] obtain n itemId quantity price item
    where e: "(n, itemId, quantity, price) \<in> set (enumerate 0 ns)" "last_by oit_id found itemId = Some item"
      "l = new_order_line (uuid n) k item quantity price" by (fastforce split: option.splits)
  have "(itemId, quantity, price) \<in> set ns" using imageI [OF e(1), of snd] by (metis list.set_map map_snd_enumerate snd_conv)
  from list_all2_elem(2) [OF map_or_fail_Inr [OF ns] this] obtain x where "normalize_order_line x = Inr (itemId, quantity, price)" by blast
  then have "0 < quantity" by (auto simp: normalize_order_line_def order_quantity_def split: sum.splits if_splits)
  moreover have "item \<in> set (ot_items (tables s))" using last_byD(1) [OF e(2)] by (simp add: found_def items.found_iff)
  ultimately show ?thesis using assms(3) by (auto simp: fresh_line_def e(3) new_order_line_def)
qed

lemma order_lines_created:
  assumes "create_order_lines tx ls s = Inr s'" "indexed (tables s)"
  shows "tables s' = (tables s)\<lparr>ot_orderLines := ot_orderLines (tables s) @ ls\<rparr> \<and> indexed (tables s')"
proof -
  have "ot_orderLines (tables s') = ot_orderLines (tables s) @ map (\<lambda>l. l) ls \<and> (\<exists>F. tables s' = ot_orderLines_update F (tables s))
      \<and> unclashed (\<lambda>a b. ol_id a = ol_id b) (ot_orderLines (tables s'))"
    by (rule lines.each_created [OF assms(1) [unfolded create_order_lines_def]]) (use assms(2) in \<open>simp add: indexed_def\<close>)
  then obtain F where F: "tables s' = ot_orderLines_update F (tables s)" and rows: "ot_orderLines (tables s') = ot_orderLines (tables s) @ ls"
    and ok: "unclashed (\<lambda>a b. ol_id a = ol_id b) (ot_orderLines (tables s'))" by auto
  have "tables s' = (tables s)\<lparr>ot_orderLines := ot_orderLines (tables s) @ ls\<rparr>"
    by (rule out_tables.equality) (use F rows in simp_all)
  then show ?thesis using assms(2) ok by (simp add: indexed_def)
qed

lemma create_order_step:
  assumes run: "createOrder tx gen uuid actor q s = Inr (s', i)" and inv: "out_inv opening (tables s)" and uuid: "\<And>n. uuid n \<noteq> []"
  shows "outbound_step (tables s) (tables s')"
proof -
  obtain ls o1 s1 where ls: "authoritativeLines tx s uuid (act_tenantId actor) (gen 1) (orr_lines q) = Inr ls"
    and s1: "createRow (otx_orders tx) s o1 = Some s1" and s2: "create_order_lines tx ls s1 = Inr s'"
    using run by (auto simp: createOrder_def Let_def)
  note c = orders.created [OF s1]
  have t1: "tables s1 = (tables s)\<lparr>ot_orders := ot_orders (tables s) @ [o1]\<rparr>" by (rule out_tables.equality) (use c in simp_all)
  have "indexed (tables s1)" using c out_invD(1) [OF inv] by (simp add: indexed_def)
  from order_lines_created [OF s2 this] have t2: "tables s' = (tables s1)\<lparr>ot_orderLines := ot_orderLines (tables s1) @ ls\<rparr>" "indexed (tables s')"
    by blast+
  show ?thesis
  proof (rule outbound_step.order_written [where keep = "\<lambda>_. True" and new = ls])
    show "tables s' = (tables s)\<lparr>ot_orders := ot_orders (tables s) @ [o1], ot_orderLines := filter (\<lambda>_. True) (ot_orderLines (tables s)) @ ls\<rparr>"
      by (simp add: t1 t2(1))
    show "orders_kept (tables s) (tables s')" by (auto simp: orders_kept_def t1 t2(1))
    show "fresh_line (tables s) l" if "l \<in> set ls" for l by (rule authoritative_fresh [OF ls that uuid])
  qed (rule t2(2), simp)
qed

lemma revise_order_step:
  assumes run: "reviseOrder tx uuid actor q s = Inr (s', i)" and inv: "out_inv opening (tables s)" and uuid: "\<And>n. uuid n \<noteq> []"
  shows "outbound_step (tables s) (tables s')"
proof -
  let ?T = "tables s" and ?h = "orv_header q"
  let ?F = "\<lambda>current o1. o1\<lparr>so_customerName := js_trim (if orr_customerName ?h = [] then so_customerName current else orr_customerName ?h),
      so_customerId := (if js_trim (orr_customerId ?h) = [] then None else Some (js_trim (orr_customerId ?h))),
      so_currency := js_upper (js_trim (if orr_currency ?h = [] then so_currency current else orr_currency ?h)),
      so_version := so_version o1 + 1\<rparr>"
  obtain current :: sales_order and ls s2 where none: "findMany (otx_reservations tx) s (\<lambda>r. res_salesOrderId r = so_id current) = []"
    and ls: "authoritativeLines tx s uuid (act_tenantId actor) (so_id current) (orr_lines (orv_header q)) = Inr ls"
    and s2: "updateRow (otx_orders tx) (deleteMany (otx_orderLines tx) s (\<lambda>l. ol_salesOrderId l = so_id current)) (so_id current) (?F current) = Some s2"
    and s3: "create_order_lines tx ls s2 = Inr s'"
    using run by (auto simp: reviseOrder_def Let_def)
  let ?keep = "\<lambda>l. ol_salesOrderId l \<noteq> so_id current"
  define s1 where "s1 = deleteMany (otx_orderLines tx) s (\<lambda>l. ol_salesOrderId l = so_id current)"
  have t1: "tables s1 = ?T\<lparr>ot_orderLines := filter ?keep (ot_orderLines ?T)\<rparr>"
    unfolding s1_def by (rule out_tables.equality) (simp_all add: lines.deleted)
  have "unclashed c (filter P rs)" if "unclashed c rs" for c :: "order_line \<Rightarrow> order_line \<Rightarrow> bool" and P rs
    using that by (induction rs) (auto simp: unclashed_Cons)
  then have "indexed (tables s1)" using out_invD(1) [OF inv] unfolding t1 by (simp add: indexed_def)
  from order_updated [OF s2 [folded s1_def] this] obtain os where t2: "tables s2 = (tables s1)\<lparr>ot_orders := os\<rparr>" "indexed (tables s2)"
    "orders_kept (tables s1) (tables s2)" by auto
  have t3: "tables s' = (tables s2)\<lparr>ot_orderLines := ot_orderLines (tables s2) @ ls\<rparr>" "indexed (tables s')"
    using order_lines_created [OF s3 t2(2)] by blast+
  show ?thesis
  proof (rule outbound_step.order_written [where keep = ?keep and new = ls])
    show "tables s' = ?T\<lparr>ot_orders := os, ot_orderLines := filter ?keep (ot_orderLines ?T) @ ls\<rparr>" by (simp add: t1 t2(1) t3(1))
    show "orders_kept ?T (tables s')" using t2(3) t3(1) t1 by (simp add: orders_kept_def)
    show "fresh_line ?T l" if "l \<in> set ls" for l by (rule authoritative_fresh [OF ls that uuid])
    show "res_salesOrderId r \<noteq> ol_salesOrderId l" if "\<not> ?keep l" "r \<in> set (ot_reservations ?T)" for l r
      using none that reservations.found_iff [of r s "\<lambda>r. res_salesOrderId r = so_id current"] by auto
  qed (rule t3(2))
qed

lemma transition_step:
  assumes run: "transition tx uuid actor action k v s = Inr (s', i)" and inv: "out_inv opening (tables s)"
  shows "outbound_step (tables s) (tables s')"
proof -
  obtain current :: sales_order where s1: "updateRow (otx_orders tx) s (so_id current)
      (\<lambda>o1. o1\<lparr>so_workflowStatus := snd (transition_edge action), so_version := so_version o1 + 1\<rparr>) = Some s'"
    using run by (auto simp: transition_def Let_def)
  obtain os where t: "tables s' = (tables s)\<lparr>ot_orders := os\<rparr>" "indexed (tables s')" "orders_kept (tables s) (tables s')"
    using order_updated [OF s1 out_invD(1) [OF inv]] by auto
  show ?thesis
    by (rule outbound_step.order_written [where keep = "\<lambda>_. True" and new = "[]", OF _ t(3,2)]) (simp_all add: t(1))
qed

section \<open>Every command\<close>

text \<open>A command that succeeds is a step of the machine, so it keeps the books.\<close>

lemma outbound_refines:
  assumes "run_outbound le tx gen uuid actor cmd s = Inr (s', i)" "out_inv opening (tables s)"
    "\<And>n. gen n \<noteq> []" "\<And>n. uuid n \<noteq> []"
  shows "outbound_step (tables s) (tables s')"
proof (cases cmd)
  case (Create_order q)
  then show ?thesis using assms create_order_step by simp
next
  case (Revise_order q)
  then show ?thesis using assms revise_order_step by simp
next
  case (Transition action k v)
  then show ?thesis using assms transition_step by simp
next
  case (Reserve q)
  then show ?thesis using assms reserve_step by simp
next
  case (Release_reservation q)
  then show ?thesis using assms release_step by simp
next
  case (Create_shipment_draft q)
  then show ?thesis using assms draft_step by simp
next
  case (Cancel_shipment q)
  then show ?thesis using assms cancel_step by simp
next
  case (Post_shipment q)
  then show ?thesis using assms post_step by simp
next
  case (Reverse_shipment q)
  then show ?thesis using assms reverse_step by simp
qed

end

end
