(* ===== verification/Outbound_Reversal.thy ===== *)
theory Outbound_Reversal
  imports Outbound_Reserving
begin

text \<open>
  Why reversing a shipment undoes its posting, whatever runs in between: the allocations of a shipment
  never change, and neither do the reservations, lines and places they refer to.
\<close>

section \<open>What no step changes\<close>

definition allocated_quantities :: "out_tables \<Rightarrow> string \<Rightarrow> (string \<times> int) list" where
  "allocated_quantities T k = map (\<lambda>a. (sal_reservationId a, sal_quantity a))
     (filter (\<lambda>a. sal_shipmentLineId a \<in> {spl_id l |l. l \<in> set (ot_shipmentLines T) \<and> spl_shipmentId l = k}) (ot_allocations T))"

lemma allocated_quantities_of: "allocated_quantities T (shp_id d) = map (\<lambda>a. (sal_reservationId a, sal_quantity a)) (allocations_of T d)"
  by (simp add: allocated_quantities_def allocations_of_line_ids line_ids_def)

definition reservation_key :: "reservation \<Rightarrow> string \<times> stock_place \<times> string" where
  "reservation_key r = (res_id r, res_place r, res_salesOrderLineId r)"

text \<open>Shipments, places and lines stay; reservations keep their keys, and new ones come at the end.\<close>

definition outbound_kept :: "out_tables \<Rightarrow> out_tables \<Rightarrow> bool" where
  "outbound_kept T T' \<longleftrightarrow> (\<exists>new. map reservation_key (ot_reservations T') = map reservation_key (ot_reservations T) @ new)
     \<and> (\<forall>d\<in>set (ot_shipments T). shp_id d \<in> shp_id ` set (ot_shipments T')
          \<and> allocated_quantities T' (shp_id d) = allocated_quantities T (shp_id d))"

lemma outbound_kept_refl: "outbound_kept T T"
  by (simp add: outbound_kept_def)

lemma outbound_kept_trans:
  assumes "outbound_kept T T'" "outbound_kept T' T''"
  shows "outbound_kept T T''"
  unfolding outbound_kept_def
proof (intro conjI ballI)
  show "\<exists>new. map reservation_key (ot_reservations T'') = map reservation_key (ot_reservations T) @ new"
    using assms unfolding outbound_kept_def by (metis append.assoc)
  fix d assume "d \<in> set (ot_shipments T)"
  then have d: "shp_id d \<in> shp_id ` set (ot_shipments T')" "allocated_quantities T' (shp_id d) = allocated_quantities T (shp_id d)"
    using assms(1) by (simp_all add: outbound_kept_def)
  then obtain d' where "d' \<in> set (ot_shipments T')" "shp_id d' = shp_id d" by force
  then show "shp_id d \<in> shp_id ` set (ot_shipments T'')" "allocated_quantities T'' (shp_id d) = allocated_quantities T (shp_id d)"
    using assms(2) d(2) unfolding outbound_kept_def by metis+
qed

lemma ledger_moved_keys:
  assumes "ledger_moved k e T T'"
  shows "map reservation_key (ot_reservations T') = map reservation_key (ot_reservations T)"
proof -
  have "list_all2 (\<lambda>r. res_moved k (e (res_id r)) r) (ot_reservations T) (ot_reservations T')"
    using assms by (simp add: ledger_moved_def)
  then show ?thesis
    by (induction rule: list_all2_induct) (auto simp: reservation_key_def res_moved_identity)
qed

lemma move_status_quantities:
  "map (\<lambda>a. (sal_reservationId a, sal_quantity a)) (filter (\<lambda>a. sal_shipmentLineId a \<in> I) (move_status J old new as))
   = map (\<lambda>a. (sal_reservationId a, sal_quantity a)) (filter (\<lambda>a. sal_shipmentLineId a \<in> I) as)"
  by (induction as) (auto simp: move_status_def)

lemma drafted_elsewhere:
  assumes inv: "out_inv opening T" and ix: "indexed T'"
    and T': "ot_shipments T' = ot_shipments T @ [d]" "ot_shipmentLines T' = ot_shipmentLines T @ ls" "ot_allocations T' = ot_allocations T @ as"
    and ls: "\<And>l. l \<in> set ls \<Longrightarrow> spl_shipmentId l = shp_id d"
    and as: "\<And>a. a \<in> set as \<Longrightarrow> \<exists>r\<in>set (ot_reservations T). \<exists>l\<in>set ls. allocation_of a r l d"
    and d': "d' \<in> set (ot_shipments T)"
  shows "allocated_quantities T' (shp_id d') = allocated_quantities T (shp_id d')"
proof -
  have "unclashed shipment_clash (ot_shipments T @ [d])" using ix by (simp add: indexed_def T'(1))
  then have "shp_id d' \<noteq> shp_id d" using d' by (auto simp: unclashed_snoc shipment_clash_def)
  then have ids: "{spl_id l |l. l \<in> set (ot_shipmentLines T') \<and> spl_shipmentId l = shp_id d'}
      = {spl_id l |l. l \<in> set (ot_shipmentLines T) \<and> spl_shipmentId l = shp_id d'}"
    using ls by (auto simp: T'(2))
  have "sal_shipmentLineId a \<noteq> spl_id l0" if a: "a \<in> set as" and l0: "l0 \<in> set (ot_shipmentLines T)" for a l0
  proof -
    obtain l where "l \<in> set ls" "spl_id l = sal_shipmentLineId a" using as [OF a] by (auto simp: allocation_of_def)
    moreover have "unclashed (\<lambda>a b. spl_id a = spl_id b) (ot_shipmentLines T @ ls)" using ix by (simp add: indexed_def T'(2))
    ultimately show ?thesis using l0 by (auto simp: unclashed_def sorted_wrt_append)
  qed
  then have "filter (\<lambda>a. sal_shipmentLineId a \<in> {spl_id l |l. l \<in> set (ot_shipmentLines T) \<and> spl_shipmentId l = shp_id d'}) as = []"
    by (auto simp: filter_empty_conv)
  then show ?thesis unfolding allocated_quantities_def ids T'(3) by simp
qed

lemma outbound_step_keeps:
  assumes "outbound_step T T'" "out_inv opening T"
  shows "outbound_kept T T'"
  using assms(1)
proof (cases rule: outbound_step.cases)
  case (order_written os keep new)
  then show ?thesis by (simp add: outbound_kept_def allocated_quantities_def)
next
  case (stock_reserved os ls bs new es)
  then show ?thesis by (simp add: outbound_kept_def allocated_quantities_def)
next
  case (released e)
  then show ?thesis using ledger_moved_keys [OF released(1)] by (simp add: outbound_kept_def allocated_quantities_def)
next
  case (drafted e d ls as)
  have "indexed T'" using drafted(1) by (simp add: ledger_moved_def)
  then show ?thesis
    using ledger_moved_keys [OF drafted(1)] drafted_elsewhere [OF assms(2) _ drafted(2,6,8,7)] drafted(2,10)
    by (simp add: outbound_kept_def)
next
  case (shipment_moved k e old new d)
  have "shp_id x \<in> shp_id ` set (ot_shipments T')" if x: "x \<in> set (ot_shipments T)" for x
  proof -
    obtain y where "y \<in> set (ot_shipments T')" "same_shipment x y" using list_all2_elem(1) [OF shipment_moved(4) x] by blast
    then show ?thesis by (intro image_eqI [of _ _ y]) (simp_all add: same_shipment_def)
  qed
  moreover have "allocated_quantities T' n = allocated_quantities T n" for n
    unfolding allocated_quantities_def shipment_moved(6) shipment_lines_kept [OF shipment_moved(5)] by (rule move_status_quantities)
  ultimately show ?thesis using ledger_moved_keys [OF shipment_moved(1)] by (simp add: outbound_kept_def)
qed

section \<open>Equal moves\<close>

text \<open>What a move of a whole shipment takes from the reservations is what its allocations hold.\<close>

lemma moved_all:
  assumes "\<forall>a\<in>set (allocations_of T d). sal_status a = old"
  shows "moved_quantity (line_ids T d) old (ot_allocations T) i = sum_at fst snd (allocated_quantities T (shp_id d)) i"
proof -
  have "filter (\<lambda>a. sal_shipmentLineId a \<in> line_ids T d \<and> sal_status a = old) (ot_allocations T) = allocations_of T d"
    unfolding allocations_of_line_ids using assms by (intro filter_cong) (auto simp: allocations_of_line_ids)
  moreover have "sum_at sal_reservationId sal_quantity as i = sum_at fst snd (map (\<lambda>a. (sal_reservationId a, sal_quantity a)) as) i" for as
    by (induction as) auto
  ultimately show ?thesis by (simp add: moved_quantity_def allocated_quantities_of)
qed

lemma totals_by_key:
  "place_total e T p = sum_at (\<lambda>k. fst (snd k)) (\<lambda>k. e (fst k)) (map reservation_key (ot_reservations T)) p"
  "line_total e T i = sum_at (\<lambda>k. snd (snd k)) (\<lambda>k. e (fst k)) (map reservation_key (ot_reservations T)) i"
proof -
  have "sum_at res_place (\<lambda>r. e (res_id r)) rs p = sum_at (\<lambda>k. fst (snd k)) (\<lambda>k. e (fst k)) (map reservation_key rs) p"
    "sum_at res_salesOrderLineId (\<lambda>r. e (res_id r)) rs i = sum_at (\<lambda>k. snd (snd k)) (\<lambda>k. e (fst k)) (map reservation_key rs) i" for rs
    by (induction rs) (auto simp: reservation_key_def)
  then show "place_total e T p = sum_at (\<lambda>k. fst (snd k)) (\<lambda>k. e (fst k)) (map reservation_key (ot_reservations T)) p"
    "line_total e T i = sum_at (\<lambda>k. snd (snd k)) (\<lambda>k. e (fst k)) (map reservation_key (ot_reservations T)) i" by blast+
qed

lemma sum_at_zero: "(\<And>x. x \<in> set xs \<Longrightarrow> qty x = 0) \<Longrightarrow> sum_at key qty xs k = 0"
  by (induction xs) auto

lemma equal_totals:
  assumes inv: "out_inv opening T" "out_inv opening' T'" and kept: "outbound_kept T T'" and d: "d \<in> set (ot_shipments T)"
    and e: "\<And>r. r \<in> set (ot_reservations T) \<Longrightarrow> e (res_id r) = sum_at fst snd (allocated_quantities T (shp_id d)) (res_id r)"
    and e': "\<And>r. r \<in> set (ot_reservations T') \<Longrightarrow> e' (res_id r) = sum_at fst snd (allocated_quantities T' (shp_id d)) (res_id r)"
  shows "place_total e' T' p = place_total e T p" "line_total e' T' i = line_total e T i"
proof -
  obtain new where new: "map reservation_key (ot_reservations T') = map reservation_key (ot_reservations T) @ new"
    and same: "allocated_quantities T' (shp_id d) = allocated_quantities T (shp_id d)"
    using kept d by (auto simp: outbound_kept_def)
  have dist: "distinct (map fst (map reservation_key (ot_reservations T) @ new))"
    using distinct_ids(1) [OF out_invD(1) [OF inv(2)]] unfolding new [symmetric] by (simp add: comp_def reservation_key_def)
  have in_T': "\<exists>r\<in>set (ot_reservations T'). reservation_key r = k" if "k \<in> set (map reservation_key (ot_reservations T) @ new)" for k
    using that unfolding new [symmetric] by auto
  have old: "e' (fst k) = e (fst k)" if k: "k \<in> set (map reservation_key (ot_reservations T))" for k
  proof -
    obtain r r' where "r \<in> set (ot_reservations T)" "reservation_key r = k" "r' \<in> set (ot_reservations T')" "reservation_key r' = k"
      using k in_T' [of k] by auto
    then show ?thesis using e [of r] e' [of r'] same by (auto simp: reservation_key_def)
  qed
  have fresh: "e' (fst k) = 0" if k: "k \<in> set new" for k
  proof -
    obtain r' where r': "r' \<in> set (ot_reservations T')" "reservation_key r' = k" using in_T' [of k] k by auto
    have "fst k \<notin> fst ` set (allocated_quantities T (shp_id d))"
    proof
      assume "fst k \<in> fst ` set (allocated_quantities T (shp_id d))"
      then obtain a where "a \<in> set (ot_allocations T)" "sal_reservationId a = fst k"
        by (auto simp: allocated_quantities_of allocations_of_def)
      then obtain r where "r \<in> set (ot_reservations T)" "res_id r = fst k"
        using out_invD(6) [OF inv(1)] by (fastforce simp: allocation_fine_def allocation_of_def)
      then have "fst k \<in> fst ` set (map reservation_key (ot_reservations T))"
        unfolding list.set_map image_image by (intro image_eqI [of _ _ r]) (simp_all add: reservation_key_def)
      moreover have "fst k \<in> fst ` set new" using k by (rule imageI)
      moreover have "fst ` set (map reservation_key (ot_reservations T)) \<inter> fst ` set new = {}" using dist by (simp add: image_comp)
      ultimately show False by blast
    qed
    then show ?thesis using e' [OF r'(1)] r'(2) same by (auto simp: reservation_key_def sum_at_no_key)
  qed
  note split = totals_by_key [of _ T'] totals_by_key [of _ T] new sum_at_append
  note zero = sum_at_zero [of new "\<lambda>k. e' (fst k)", OF fresh]
  show "place_total e' T' p = place_total e T p" "line_total e' T' i = line_total e T i"
    unfolding split by (simp_all only: zero sum_at_fresh [OF old] add_0_right)
qed

section \<open>What a move does to the totals\<close>

text \<open>The stock at a place and the quantities of an order line, zero where there is none.\<close>

definition on_hand_at :: "out_tables \<Rightarrow> stock_place \<Rightarrow> int" where
  "on_hand_at T p = sum_at bal_place on_hand (ot_balances T) p"

definition reserved_at :: "out_tables \<Rightarrow> stock_place \<Rightarrow> int" where
  "reserved_at T p = sum_at bal_place reserved (ot_balances T) p"

definition line_reserved_of :: "out_tables \<Rightarrow> string \<Rightarrow> int" where
  "line_reserved_of T i = sum_at ol_id ol_reservedQuantity (ot_orderLines T) i"

definition line_fulfilled_of :: "out_tables \<Rightarrow> string \<Rightarrow> int" where
  "line_fulfilled_of T i = sum_at ol_id ol_fulfilledQuantity (ot_orderLines T) i"

lemma sum_at_own: "distinct (map key rs) \<Longrightarrow> sum_at key (\<lambda>r. g (key r)) rs p = (if p \<in> key ` set rs then g p else 0)"
  by (induction rs) (auto simp: sum_at_no_key)

lemma balance_total:
  assumes "out_inv opening T"
  shows "sum_at bal_place (\<lambda>b. place_total e T (bal_place b)) (ot_balances T) p = place_total e T p"
proof -
  have "distinct (map bal_place (ot_balances T))"
  proof -
    have "unclashed balance_clash bs \<Longrightarrow> distinct (map bal_place bs)" for bs
      by (induction bs) (auto simp: unclashed_Cons balance_clash_def bal_place_def)
    then show ?thesis using out_invD(1) [OF assms] by (simp add: indexed_def)
  qed
  moreover have "place_total e T p = 0" if "p \<notin> bal_place ` set (ot_balances T)"
  proof (rule sum_at_no_key)
    show "p \<notin> res_place ` set (ot_reservations T)"
      using that out_invD(4) [OF assms] by (force simp: reservation_linked_def)
  qed
  ultimately show ?thesis by (simp add: sum_at_own)
qed

lemma order_line_total:
  assumes "out_inv opening T"
  shows "sum_at ol_id (\<lambda>l. line_total e T (ol_id l)) (ot_orderLines T) i = line_total e T i"
proof -
  have "line_total e T i = 0" if "i \<notin> ol_id ` set (ot_orderLines T)"
  proof (rule sum_at_no_key)
    show "i \<notin> res_salesOrderLineId ` set (ot_reservations T)"
      using that out_invD(4) [OF assms] by (force simp: reservation_linked_def reservation_of_line_def)
  qed
  then show ?thesis using distinct_ids(2) [OF out_invD(1) [OF assms]] by (simp add: sum_at_own)
qed

lemma ledger_totals:
  assumes "ledger_moved k e T T'" "out_inv opening T"
  shows "on_hand_at T' p = on_hand_at T p - dConsumed k * place_total e T p"
    and "reserved_at T' p = reserved_at T p + dOpen k * place_total e T p"
    and "line_reserved_of T' i = line_reserved_of T i + dOpen k * line_total e T i"
    and "line_fulfilled_of T' i = line_fulfilled_of T i + dConsumed k * line_total e T i"
proof -
  have b: "list_all2 (\<lambda>b. balance_moved (- dConsumed k * place_total e T (bal_place b)) (dOpen k * place_total e T (bal_place b)) b)
      (ot_balances T) (ot_balances T')"
    and l: "list_all2 (\<lambda>l. line_moved k (line_total e T (ol_id l)) l) (ot_orderLines T) (ot_orderLines T')"
    using assms(1) by (simp_all add: ledger_moved_def)
  note bt = balance_total [OF assms(2), of e p] and lt = order_line_total [OF assms(2), of e i]
  have "on_hand_at T' p = on_hand_at T p + (- dConsumed k) * sum_at bal_place (\<lambda>b. place_total e T (bal_place b)) (ot_balances T) p"
    unfolding on_hand_at_def by (rule sum_at_moved, rule list_all2_mono [OF b]) (simp add: balance_moved_def)
  then show "on_hand_at T' p = on_hand_at T p - dConsumed k * place_total e T p" by (simp add: bt)
  have "reserved_at T' p = reserved_at T p + dOpen k * sum_at bal_place (\<lambda>b. place_total e T (bal_place b)) (ot_balances T) p"
    unfolding reserved_at_def by (rule sum_at_moved, rule list_all2_mono [OF b]) (simp add: balance_moved_def)
  then show "reserved_at T' p = reserved_at T p + dOpen k * place_total e T p" by (simp add: bt)
  have "line_reserved_of T' i = line_reserved_of T i + dOpen k * sum_at ol_id (\<lambda>l. line_total e T (ol_id l)) (ot_orderLines T) i"
    unfolding line_reserved_of_def by (rule sum_at_moved, rule list_all2_mono [OF l]) (auto simp: line_moved_def)
  then show "line_reserved_of T' i = line_reserved_of T i + dOpen k * line_total e T i" by (simp add: lt)
  have "line_fulfilled_of T' i = line_fulfilled_of T i + dConsumed k * sum_at ol_id (\<lambda>l. line_total e T (ol_id l)) (ot_orderLines T) i"
    unfolding line_fulfilled_of_def by (rule sum_at_moved, rule list_all2_mono [OF l]) (auto simp: line_moved_def)
  then show "line_fulfilled_of T' i = line_fulfilled_of T i + dConsumed k * line_total e T i" by (simp add: lt)
qed

lemma reversal_opposite:
  assumes post: "moves_shipment Consuming ''allocated'' ''consumed'' d T0 T1" "\<forall>a\<in>set (allocations_of T0 d). sal_status a = ''allocated''"
    and undo: "moves_shipment Restoring ''consumed'' ''reversed'' d' T2 T3" "\<forall>a\<in>set (allocations_of T2 d'). sal_status a = ''consumed''"
    and same: "shp_id d' = shp_id d" and kept: "outbound_kept T0 T2" and inv: "out_inv opening T0" "out_inv opening T2"
  shows "on_hand_at T3 p - on_hand_at T2 p = on_hand_at T0 p - on_hand_at T1 p"
    and "reserved_at T3 p - reserved_at T2 p = reserved_at T0 p - reserved_at T1 p"
    and "line_reserved_of T3 i - line_reserved_of T2 i = line_reserved_of T0 i - line_reserved_of T1 i"
    and "line_fulfilled_of T3 i - line_fulfilled_of T2 i = line_fulfilled_of T0 i - line_fulfilled_of T1 i"
proof -
  obtain e where e: "ledger_moved Consuming e T0 T1" "\<And>r. r \<in> set (ot_reservations T0) \<Longrightarrow>
      e (res_id r) = sum_at fst snd (allocated_quantities T0 (shp_id d)) (res_id r)" and d: "d \<in> set (ot_shipments T0)"
    using post(1) unfolding moves_shipment_def moved_all [OF post(2)] by blast
  obtain e' where e': "ledger_moved Restoring e' T2 T3" "\<And>r. r \<in> set (ot_reservations T2) \<Longrightarrow>
      e' (res_id r) = sum_at fst snd (allocated_quantities T2 (shp_id d)) (res_id r)"
    using undo(1) unfolding moves_shipment_def moved_all [OF undo(2)] same by blast
  note eq = equal_totals [OF inv kept d e(2) e'(2)]
  show "on_hand_at T3 p - on_hand_at T2 p = on_hand_at T0 p - on_hand_at T1 p"
    "reserved_at T3 p - reserved_at T2 p = reserved_at T0 p - reserved_at T1 p"
    "line_reserved_of T3 i - line_reserved_of T2 i = line_reserved_of T0 i - line_reserved_of T1 i"
    "line_fulfilled_of T3 i - line_fulfilled_of T2 i = line_fulfilled_of T0 i - line_fulfilled_of T1 i"
    using eq by (simp_all add: ledger_totals [OF e(1) inv(1)] ledger_totals [OF e'(1) inv(2)] dOpen_def)
qed

end
