(* ===== verification/Outbound_Example.thy ===== *)
theory Outbound_Example
  imports Outbound_Reversal
begin

text \<open>
  An order of three units of an item, of which five are in the warehouse: two are reserved, one
  drafted, shipped and taken back. The states are written out, and each command is shown to lead from
  one to the next.
\<close>

definition ox_books ::
  "string \<times> string \<times> int \<Rightarrow> int \<times> int \<times> int \<Rightarrow> int \<times> int \<times> int \<Rightarrow> out_tables" where
  "ox_books so l b =
     (let (status, fulfilment, orderVersion) = so; (ordered, fulfilled, lineVersion) = l; (onHand, held, balanceVersion) = b in
     \<lparr>ot_orders = [\<lparr>so_id = ''o'', so_tenantId = ''t'', so_orderNumber = ''SO'', so_customerId = None, so_customerName = ''C'',
        so_workflowStatus = ''confirmed'', so_reservationStatus = status, so_fulfillmentStatus = fulfilment,
        so_currency = ''USD'', so_version = orderVersion\<rparr>],
      ot_orderLines = [\<lparr>ol_id = ''l'', ol_salesOrderId = ''o'', ol_itemId = ''i'', ol_sku = ''k'', ol_itemName = ''n'',
        ol_orderedQuantity = 30000, ol_reservedQuantity = ordered, ol_fulfilledQuantity = fulfilled, ol_unit = ''u'', ol_unitPrice = None,
        ol_amount = None, ol_version = lineVersion\<rparr>],
      ot_reservations = [], ot_events = [], ot_shipments = [], ot_shipmentLines = [], ot_allocations = [],
      ot_balances = [\<lparr>bal_id = ''b'', bal_tenantId = ''t'', bal_itemId = Some ''i'', bal_sku = ''k'', bal_itemName = None,
        bal_warehouseId = Some ''w'', bal_warehouseKey = ''w'', bal_location = None, bal_locationKey = [], bal_unit = None,
        bal_onHandQuantity = Some onHand, bal_reservedQuantity = Some held, bal_availableQuantity = Some (onHand - held),
        bal_version = balanceVersion\<rparr>],
      ot_movements = [],
      ot_items = [\<lparr>oit_id = ''i'', oit_tenantId = ''t'', oit_sku = ''k'', oit_name = ''n'', oit_unit = None, oit_status = ''active''\<rparr>],
      ot_warehouses = [\<lparr>wh_id = ''w'', wh_tenantId = ''t'', wh_status = ''active''\<rparr>]\<rparr>)"

definition ox_reservation :: "int \<Rightarrow> int \<Rightarrow> string \<Rightarrow> int \<Rightarrow> reservation" where
  "ox_reservation allocated consumed status version =
     \<lparr>res_id = ''ax'', res_tenantId = ''t'', res_salesOrderId = ''o'', res_salesOrderLineId = ''l'', res_itemId = ''i'', res_sku = ''k'',
      res_warehouseId = ''w'', res_location = None, res_locationKey = [], res_reservedQuantity = 20000,
      res_allocatedQuantity = allocated, res_consumedQuantity = consumed, res_releasedQuantity = 0, res_status = status,
      res_version = version\<rparr>"

definition ox_event :: "string \<Rightarrow> string \<Rightarrow> int \<Rightarrow> reservation_event" where
  "ox_event k type quantity = new_event k ''t'' ''ax'' type quantity"

definition ox_shipped :: "string \<Rightarrow> string \<Rightarrow> int \<Rightarrow> int \<Rightarrow> out_tables \<Rightarrow> out_tables" where
  "ox_shipped posting status posted version T = T\<lparr>
      ot_shipments := [\<lparr>shp_id = ''bx'', shp_tenantId = ''t'', shp_shipmentNumber = ''S'', shp_salesOrderId = ''o'',
        shp_workflowStatus = ''ready'', shp_postingStatus = posting, shp_version = version\<rparr>],
      ot_shipmentLines := [\<lparr>spl_id = ''bxx'', spl_shipmentId = ''bx'', spl_salesOrderLineId = ''l'', spl_itemId = ''i'',
        spl_sku = ''k'', spl_requestedQuantity = 10000, spl_postedQuantity = posted, spl_unit = ''u'', spl_version = version\<rparr>],
      ot_allocations := [\<lparr>sal_id = ''bxxx'', sal_tenantId = ''t'', sal_shipmentLineId = ''bxx'', sal_reservationId = ''ax'',
        sal_warehouseId = ''w'', sal_location = None, sal_locationKey = [], sal_quantity = 10000, sal_status = status,
        sal_version = version\<rparr>]\<rparr>"

definition ox_movement :: "string \<Rightarrow> string \<Rightarrow> int \<Rightarrow> int \<Rightarrow> string \<Rightarrow> string option \<Rightarrow> string option \<Rightarrow> outbound_movement" where
  "ox_movement k type qin qout batch reversalOf reversedBy =
     \<lparr>mov_id = k, mov_tenantId = ''t'', mov_itemId = Some ''i'', mov_sku = ''k'', mov_itemName = Some ''n'',
      mov_warehouseId = Some ''w'', mov_location = None, mov_locationKey = [], mov_movementType = type,
      mov_sourceDocumentType = Some ''ShipmentDocument'', mov_sourceDocumentId = Some ''bx'',
      mov_sourceDocumentLineId = Some ''bxxx'', mov_quantityIn = Some qin, mov_quantityOut = Some qout,
      mov_adjustmentQty = Some 0, mov_status = ''posted'', mov_unit = Some ''u'', mov_postingBatchId = Some batch,
      mov_reversalOfMovementId = reversalOf, mov_reversedByMovementId = reversedBy, mov_balanceId = None,
      mov_relatedSalesOrderId = Some ''o''\<rparr>"

definition ox_db :: out_tables where
  "ox_db = ox_books (''not_reserved'', ''not_fulfilled'', 0) (0, 0, 0) (50000, 0, 0)"

definition ox_reserved :: out_tables where
  "ox_reserved = (ox_books (''partially_reserved'', ''not_fulfilled'', 1) (20000, 0, 1) (50000, 20000, 1))
     \<lparr>ot_reservations := [ox_reservation 0 0 ''active'' 0], ot_events := [ox_event ''axx'' ''reserved'' 20000]\<rparr>"

definition ox_drafted :: out_tables where
  "ox_drafted = ox_shipped ''unposted'' ''allocated'' 0 0
     ((ox_books (''partially_reserved'', ''not_fulfilled'', 2) (20000, 0, 1) (50000, 20000, 1))
     \<lparr>ot_reservations := [ox_reservation 10000 0 ''partially_allocated'' 1],
      ot_events := [ox_event ''axx'' ''reserved'' 20000, ox_event ''bxxxx'' ''allocated'' 10000]\<rparr>)"

definition ox_posted :: out_tables where
  "ox_posted = ox_shipped ''posted'' ''consumed'' 10000 1
     ((ox_books (''partially_reserved'', ''partially_fulfilled'', 3) (10000, 10000, 2) (40000, 10000, 2))
     \<lparr>ot_reservations := [ox_reservation 0 10000 ''partially_consumed'' 2],
      ot_events := [ox_event ''axx'' ''reserved'' 20000, ox_event ''bxxxx'' ''allocated'' 10000, ox_event ''cxxx'' ''consumed'' 10000],
      ot_movements := [ox_movement ''cxx'' ''shipment_posting'' 0 10000 ''cx'' None None]\<rparr>)"

definition ox_reversed :: out_tables where
  "ox_reversed = ox_shipped ''reversed'' ''reversed'' 0 2
     ((ox_books (''partially_reserved'', ''not_fulfilled'', 4) (20000, 0, 3) (50000, 20000, 3))
     \<lparr>ot_reservations := [ox_reservation 0 0 ''active'' 3],
      ot_events := [ox_event ''axx'' ''reserved'' 20000, ox_event ''bxxxx'' ''allocated'' 10000, ox_event ''cxxx'' ''consumed'' 10000,
        ox_event ''dxxx'' ''restored'' 10000],
      ot_movements := [ox_movement ''cxx'' ''shipment_posting'' 0 10000 ''cx'' None (Some ''dxx''),
        ox_movement ''dxx'' ''shipment_reversal'' 10000 0 ''dx'' (Some ''cxx'') None]\<rparr>)"

section \<open>The commands\<close>

definition ox_gen :: "string \<Rightarrow> nat \<Rightarrow> string" where
  "ox_gen r n = r @ replicate n CHR ''x''"

definition ox_actor :: actor where
  "ox_actor = \<lparr>act_tenantId = ''t'', act_userId = ''u'', act_allWarehouses = False, act_readWarehouseIds = [''w''],
     act_operateWarehouseIds = [''w'']\<rparr>"

definition ox_reserve :: reserve_request where
  "ox_reserve = \<lparr>orq_salesOrderId = ''o'', orq_expectedOrderVersion = Some 0,
     orq_allocations = [\<lparr>rvi_salesOrderLineId = ''l'', rvi_warehouseId = ''w'', rvi_location = [], rvi_quantity = ''2''\<rparr>]\<rparr>"

definition ox_draft :: draft_request where
  "ox_draft = \<lparr>odq_salesOrderId = ''o'', odq_shipmentNumber = ''S'', odq_expectedOrderVersion = Some 1,
     odq_lines = [\<lparr>dli_salesOrderLineId = ''l'', dli_allocations = [\<lparr>dai_reservationId = ''ax'', dai_quantity = ''1''\<rparr>]\<rparr>]\<rparr>"

definition ox_ship :: "int \<Rightarrow> shipment_request" where
  "ox_ship v = \<lparr>osq_shipmentId = ''bx'', osq_expectedShipmentVersion = Some v, osq_reason = ''why''\<rparr>"

lemma ox_reserve_run:
  "reserveSalesOrderInventory (\<le>) list_outbound (ox_gen ''a'') ox_actor ox_reserve ox_db = Inr (ox_reserved, ''o'')"
  by code_simp

lemma ox_draft_run:
  "createShipmentDraft (\<le>) list_outbound (ox_gen ''b'') ox_actor ox_draft ox_reserved = Inr (ox_drafted, ''bx'')"
  by code_simp

lemma ox_post_run:
  "postShipment (\<le>) list_outbound (ox_gen ''c'') ox_actor (ox_ship 0) ox_drafted = Inr (ox_posted, ''bx'')"
  by code_simp

lemma ox_reverse_run:
  "reverseShipment (\<le>) list_outbound (ox_gen ''d'') ox_actor (ox_ship 1) ox_posted = Inr (ox_reversed, ''bx'')"
  by code_simp

end
