(* ===== verification/Outbound_Properties.thy ===== *)
theory Outbound_Properties
  imports Outbound_Example Inventory_Ledger
begin

text \<open>
  The properties of the outbound commands: along any sequence of commands of any users the
  reservations explain what is held back, nothing is oversold, and what was allocated can be shipped.
\<close>

section \<open>Sequences of commands\<close>

text \<open>One call of \<open>execute\<close>: the command commits, or its error rolls the transaction back.\<close>

inductive outbound_call ::
  "(string \<Rightarrow> string \<Rightarrow> bool) \<Rightarrow> 's outbound_tx \<Rightarrow> 's \<Rightarrow> 's \<Rightarrow> bool"
  for le tx where
  succeeds: "id_factory gen \<Longrightarrow> id_factory uuid \<Longrightarrow> run_outbound le tx gen uuid actor cmd s = Inr (s', i) \<Longrightarrow> outbound_call le tx s s'"
| refused: "run_outbound le tx gen uuid actor cmd s = Inl e \<Longrightarrow> outbound_call le tx s s"

inductive outbound_reachable ::
  "(string \<Rightarrow> string \<Rightarrow> bool) \<Rightarrow> 's outbound_tx \<Rightarrow> 's \<Rightarrow> 's \<Rightarrow> bool"
  for le tx s0 where
  initially: "outbound_reachable le tx s0 s0"
| after: "outbound_reachable le tx s0 s \<Longrightarrow> outbound_call le tx s s' \<Longrightarrow> outbound_reachable le tx s0 s'"

inductive_cases outbound_callE: "outbound_call le tx s s'"

context outbound_store
begin

lemma call_books:
  assumes "outbound_call le tx s s'" "out_inv opening (tables s)"
  shows "out_inv opening (tables s')"
  using assms(1)
proof (cases rule: outbound_call.cases)
  case (succeeds gen uuid actor cmd i)
  then show ?thesis using outbound_step_inv [OF outbound_refines [OF succeeds(3) assms(2)] assms(2)] by (simp add: id_factory_def)
next
  case refused
  then show ?thesis using assms(2) by simp
qed

lemma reachable_books:
  assumes "outbound_reachable le tx s0 s" "out_inv opening (tables s0)"
  shows "out_inv opening (tables s)"
  using assms by (induction rule: outbound_reachable.induct) (auto intro: call_books)

section \<open>Shipping what was allocated\<close>

lemma sum_at_filter_le:
  assumes "\<And>x. x \<in> set xs \<Longrightarrow> 0 \<le> qty x"
  shows "sum_at key qty (filter P xs) k \<le> sum_at key qty xs k"
  using assms
proof (induction xs)
  case (Cons x xs)
  then have "0 \<le> qty x" "sum_at key qty (filter P xs) k \<le> sum_at key qty xs k" by simp_all
  then show ?case by simp
qed simp

lemma shipped_le_allocated:
  assumes inv: "out_inv opening (tables s)" and ld: "loadShipment tx s t k = Some ld" and ship: "shippable (lsh_shipment ld)"
    and r: "r \<in> set (ot_reservations (tables s))"
  shows "shipped_of (lsh_allocations ld) (res_id r) \<le> res_allocatedQuantity r"
proof -
  let ?T = "tables s" and ?d = "lsh_shipment ld"
  note l = loaded [OF ld inv]
  have open_as: "sal_status a = ''allocated''" if "a \<in> set (allocations_of ?T ?d)" for a
    using out_invD(7) [OF inv l(1)] ship that by (simp add: shipment_fine_def)
  then have all: "filter (\<lambda>a. sal_status a = ''allocated'') (allocations_of ?T ?d) = allocations_of ?T ?d" by (simp add: filter_id_conv)
  have "set (map shd_allocation (lsh_allocations ld)) = set (allocations_of ?T ?d)" using l(9) by (rule mset_eq_setD)
  then have "filter (\<lambda>a. sal_status (shd_allocation a) = ''allocated'') (lsh_allocations ld) = lsh_allocations ld"
    using open_as by (auto simp: filter_id_conv)
  then have "shipped_of (lsh_allocations ld) (res_id r) = sum_at sal_reservationId sal_quantity (allocations_of ?T ?d) (res_id r)"
    using filter_status [OF l(9), of "''allocated''"] all by simp
  also have "\<dots> = sum_at sal_reservationId (in_status ''allocated'') (allocations_of ?T ?d) (res_id r)"
    using open_as by (intro sum_at_fresh) (simp add: in_status_def)
  also have "\<dots> \<le> sum_at sal_reservationId (in_status ''allocated'') (ot_allocations ?T) (res_id r)"
    unfolding allocations_of_def
  proof (rule sum_at_filter_le)
    show "0 \<le> in_status ''allocated'' a" if "a \<in> set (ot_allocations ?T)" for a
      using out_invD(6) [OF inv that] by (simp add: allocation_fine_def in_status_def)
  qed
  also have "\<dots> = res_allocatedQuantity r" using out_invD(4) [OF inv r] by (simp add: allocations_explain_def)
  finally show ?thesis .
qed

lemma sum_at_mono:
  assumes "\<And>x. x \<in> set xs \<Longrightarrow> f x \<le> g x"
  shows "sum_at key f xs k \<le> sum_at key g xs k"
  using assms by (induction xs) (auto intro: add_mono)

lemma shipped_within:
  assumes inv: "out_inv opening (tables s)" and ld: "loadShipment tx s t k = Some ld" and ship: "shippable (lsh_shipment ld)"
  shows "a \<in> set (lsh_allocations ld) \<Longrightarrow> shipped_of (lsh_allocations ld) (shd_reservationId a) \<le> res_allocatedQuantity (shd_reservation a)"
    and "b \<in> set (ot_balances (tables s)) \<Longrightarrow> sum_at shipped_place shd_quantity (lsh_allocations ld) (bal_place b) \<le> reserved b"
    and "l \<in> set (ot_orderLines (tables s)) \<Longrightarrow> sum_at shd_lineId shd_quantity (lsh_allocations ld) (ol_id l) \<le> ol_reservedQuantity l"
proof -
  let ?T = "tables s" and ?xs = "lsh_allocations ld"
  note l_d = loaded [OF ld inv]
  have fine: "shipped_fine ?T t a" if "a \<in> set ?xs" for a using l_d(10) [OF that] by blast
  show "a \<in> set ?xs \<Longrightarrow> shipped_of ?xs (shd_reservationId a) \<le> res_allocatedQuantity (shd_reservation a)"
    using shipped_le_allocated [OF inv ld ship, of "shd_reservation a"] fine [of a] by (simp add: shipped_fine_def)
  have le_open: "shipped_of ?xs (res_id r) \<le> res_open r" if "r \<in> set (ot_reservations ?T)" for r
    using shipped_le_allocated [OF inv ld ship that] out_invD(4) [OF inv that] by (simp add: reservation_bounded_def)
  note totals = shipped_totals [OF out_invD(1) [OF inv] fine]
  show "sum_at shipped_place shd_quantity ?xs (bal_place b) \<le> reserved b" if "b \<in> set (ot_balances ?T)"
  proof -
    have "sum_at shipped_place shd_quantity ?xs (bal_place b) = place_total (shipped_of ?xs) ?T (bal_place b)" by (rule totals(1))
    also have "\<dots> \<le> sum_at res_place res_open (ot_reservations ?T) (bal_place b)" by (rule sum_at_mono) (rule le_open)
    finally show ?thesis using out_invD(5) [OF inv that] by (simp add: balance_fine_def)
  qed
  show "sum_at shd_lineId shd_quantity ?xs (ol_id l) \<le> ol_reservedQuantity l" if "l \<in> set (ot_orderLines ?T)"
  proof -
    have "sum_at shd_lineId shd_quantity ?xs (ol_id l) = line_total (shipped_of ?xs) ?T (ol_id l)" by (rule totals(2))
    also have "\<dots> \<le> sum_at res_salesOrderLineId res_open (ot_reservations ?T) (ol_id l)" by (rule sum_at_mono) (rule le_open)
    finally show ?thesis using out_invD(3) [OF inv that] by (simp add: order_line_fine_def)
  qed
qed

lemma ready_not_blocked:
  assumes inv: "out_inv opening (tables s)" and d: "d \<in> set (ot_shipments (tables s))" "js_trim k = shp_id d"
    and ready: "shp_workflowStatus d = ''ready''" "shp_postingStatus d = ''unposted''"
    and order: "o1 \<in> set (ot_orders (tables s))" "so_id o1 = shp_salesOrderId d" "so_workflowStatus o1 = ''confirmed''"
    and items: "validateOrderItems tx s (shp_tenantId d) (order_lines tx s (so_id o1)) = []"
  shows "op_blockingIssues (buildShipmentPostingPlan le tx s (shp_tenantId d) k) = []"
proof -
  let ?T = "tables s" and ?t = "shp_tenantId d"
  note ix = out_invD(1) [OF inv]
  have same_order: "o2 = o1" if "o2 \<in> set (ot_orders ?T)" "so_id o2 = so_id o1" for o2
    using that order(1) ix by (auto simp: indexed_def order_clash_def intro: unclashed_at [where clash = order_clash])
  have "findFirst (otx_shipments tx) s (\<lambda>d. shp_id d = js_trim k \<and> shp_tenantId d = ?t) \<noteq> None"
    using shipments.first_none [of s _ d] d by auto
  then obtain d' where d': "findFirst (otx_shipments tx) s (\<lambda>d. shp_id d = js_trim k \<and> shp_tenantId d = ?t) = Some d'" by auto
  then have "d' = d" using shipments.first_some [OF d'] d same_shipment_row [OF ix _ d(1)] by simp
  moreover have "findFirst (otx_orders tx) s (\<lambda>so1. so_id so1 = shp_salesOrderId d) \<noteq> None"
    using orders.first_none [of s _ o1] order by auto
  then obtain o2 where "findFirst (otx_orders tx) s (\<lambda>so1. so_id so1 = shp_salesOrderId d) = Some o2" by auto
  ultimately obtain ld where ld: "loadShipment tx s ?t k = Some ld" using d' by (simp add: loadShipment_def Let_def)
  note l = loaded [OF ld inv]
  have ld_d: "lsh_shipment ld = d" using same_shipment_row [OF ix l(1) d(1)] l(2) d(2) by simp
  have ld_o: "lsh_order ld = o1" by (rule same_order [OF l(4)]) (simp add: l(5) ld_d order(2))
  let ?xs = "lsh_allocations ld"
  have ship: "shippable (lsh_shipment ld)" using ready by (simp add: shippable_def ld_d)
  note within = shipped_within [OF inv ld ship]
  have fine: "shipped_fine ?T ?t a" if "a \<in> set ?xs" for a using l(10) [OF that] by blast
  have statuses: "?xs \<noteq> []" "\<And>a. a \<in> set ?xs \<Longrightarrow> sal_status (shd_allocation a) = ''allocated''"
  proof -
    have sd: "allocations_of ?T d \<noteq> []" "\<forall>a\<in>set (allocations_of ?T d). sal_status a = ''allocated''"
      using out_invD(7) [OF inv d(1)] ship ld_d by (simp_all add: shipment_fine_def)
    have "set (map shd_allocation ?xs) = set (allocations_of ?T d)" using l(9) ld_d by (metis mset_eq_setD)
    then show "?xs \<noteq> []" "\<And>a. a \<in> set ?xs \<Longrightarrow> sal_status (shd_allocation a) = ''allocated''" using sd by force+
  qed
  have lines: "\<exists>x. last_by ol_id (lsh_orderLines ld) j = Some x \<and> x \<in> set (ot_orderLines ?T) \<and> ol_id x = j" if "j \<in> shd_lineId ` set ?xs" for j
  proof -
    have "j \<in> ol_id ` set (lsh_orderLines ld)" using that l(10) by force
    then obtain x where x: "x \<in> set (lsh_orderLines ld)" "ol_id x = j" "last_by ol_id (lsh_orderLines ld) j = Some x" by (rule last_by_key)
    then show ?thesis using l(6) by (simp add: order_lines_rows)
  qed
  have res: "fst (post_reservation_plan ?xs (add_all shd_reservationId shd_quantity ?xs []) j) = []" for j
  proof (cases "last_by shd_reservationId ?xs j")
    case (Some a)
    note a = last_byD [OF Some]
    have "reservation_bounded (shd_reservation a)" using fine [OF a(1)] out_invD(4) [OF inv] by (simp add: shipped_fine_def)
    then show ?thesis using within(1) [OF a(1)] a(2) Some
      by (simp add: post_reservation_plan_def get0_group Let_def reservation_bounded_def res_open_def)
  qed (simp add: post_reservation_plan_def)
  have bal: "fst (post_balance_plan tx s ?t ?xs (add_all shd_balanceKey shd_quantity ?xs []) j) = []" for j
  proof (cases "last_by shd_balanceKey ?xs j")
    case (Some a)
    note a = last_byD [OF Some]
    obtain b where b: "b \<in> set (ot_balances ?T)" "shipped_balance tx s a = Some b" "shipped_place a = bal_place b"
      "bal_itemId b = Some (res_itemId (shd_reservation a))" using shipped_balance_there [OF inv fine [OF a(1)]] by blast
    have "sum_at shd_balanceKey shd_quantity ?xs j = sum_at shipped_place shd_quantity ?xs (shipped_place a)"
      unfolding a(2) [symmetric] by (rule sum_at_regrouped [OF shipped_key_inj [OF inv fine fine] a(1)])
    then have "sum_at shd_balanceKey shd_quantity ?xs j \<le> reserved b" using within(2) [OF b(1)] b(3) by simp
    moreover have "bal_sku b = res_sku (shd_reservation a)" using b(3) by (simp add: shipped_place_def bal_place_def Let_def)
    moreover have "balance_ok b" using out_invD(5) [OF inv b(1)] by (simp add: balance_fine_def)
    ultimately show ?thesis using Some b(2,4) by (simp add: post_balance_plan_def get0_group balance_ok_def Let_def)
  qed (simp add: post_balance_plan_def)
  have lin: "fst (post_line_plan (lsh_orderLines ld) (add_all shd_lineId shd_quantity ?xs []) j) = []" if j: "j \<in> shd_lineId ` set ?xs" for j
  proof -
    obtain x where x: "last_by ol_id (lsh_orderLines ld) j = Some x" "x \<in> set (ot_orderLines ?T)" "ol_id x = j" using lines [OF j] by blast
    then show ?thesis using within(3) [OF x(2)] out_invD(3) [OF inv x(2)]
      by (simp add: post_line_plan_def get0_group order_line_fine_def Let_def)
  qed
  have keys: "j \<in> shd_lineId ` set ?xs" if "j \<in> fst ` set (add_all shd_lineId shd_quantity ?xs []) - {[]}" for j
    using that add_all_keys [of le shd_lineId shd_quantity ?xs] by auto
  have "last_by ol_id (lsh_orderLines ld) j \<noteq> None" if "j \<in> shd_lineId ` set ?xs" for j using lines [OF that] by auto
  note planned = this [OF keys] lin [OF keys]
  then show ?thesis
    using items statuses res bal ready order(3) unfolding buildShipmentPostingPlan_def ld option.case Let_def
    by (simp add: out_basePlan_def unless_uncaught_def list_ex_iff posting_status_issues_def add_all_keys ld_d ld_o l(6) concat_map_Nil)
qed

section \<open>Between posting and reversing\<close>

lemma reachable_keeps:
  assumes "outbound_reachable le tx s0 s" "out_inv opening (tables s0)"
  shows "outbound_kept (tables s0) (tables s)"
  using assms
proof (induction rule: outbound_reachable.induct)
  case initially
  show ?case by (rule outbound_kept_refl)
next
  case (after s s')
  have inv: "out_inv opening (tables s)" by (rule reachable_books [OF after(1,4)])
  have "outbound_kept (tables s) (tables s')" using after(2)
  proof (cases rule: outbound_call.cases)
    case (succeeds gen uuid actor cmd i)
    then show ?thesis using outbound_step_keeps [OF outbound_refines [OF succeeds(3) inv] inv] by (simp add: id_factory_def)
  next
    case refused
    then show ?thesis by (simp add: outbound_kept_refl)
  qed
  then show ?case using outbound_kept_trans after by blast
qed

lemma posted_and_reversed:
  assumes inv: "out_inv opening (tables s0)" and gen: "id_factory gen"
    and post: "postShipment le tx gen actor q s0 = Inr (s1, i)" and between: "outbound_reachable le tx s1 s2"
    and undo: "reverseShipment le tx gen' actor' q' s2 = Inr (s3, i)"
  shows "on_hand_at (tables s3) p - on_hand_at (tables s2) p = on_hand_at (tables s0) p - on_hand_at (tables s1) p
    \<and> reserved_at (tables s3) p - reserved_at (tables s2) p = reserved_at (tables s0) p - reserved_at (tables s1) p
    \<and> line_reserved_of (tables s3) l - line_reserved_of (tables s2) l = line_reserved_of (tables s0) l - line_reserved_of (tables s1) l
    \<and> line_fulfilled_of (tables s3) l - line_fulfilled_of (tables s2) l = line_fulfilled_of (tables s0) l - line_fulfilled_of (tables s1) l"
proof -
  have step: "outbound_step (tables s0) (tables s1)" by (rule post_step [OF post inv])
  have inv1: "out_inv opening (tables s1)" by (rule outbound_step_inv [OF step inv])
  have inv2: "out_inv opening (tables s2)" by (rule reachable_books [OF between inv1])
  have kept: "outbound_kept (tables s0) (tables s2)"
    using outbound_kept_trans [OF outbound_step_keeps [OF step inv] reachable_keeps [OF between inv1]] .
  obtain d where d: "moves_shipment Consuming ''allocated'' ''consumed'' d (tables s0) (tables s1)" "i = shp_id d"
    "\<forall>a\<in>set (allocations_of (tables s0) d). sal_status a = ''allocated''" using post_moves [OF post inv] by blast
  obtain d' where d': "moves_shipment Restoring ''consumed'' ''reversed'' d' (tables s2) (tables s3)" "i = shp_id d'"
    "\<forall>a\<in>set (allocations_of (tables s2) d'). sal_status a = ''consumed''" using reverse_moves [OF undo inv2] by blast
  have same: "shp_id d' = shp_id d" using d(2) d'(2) by simp
  show ?thesis using reversal_opposite [OF d(1,3) d'(1,3) same kept inv inv2] by blast
qed

end

section \<open>The example is reachable\<close>

lemma ox_factory:
  assumes "js_space c = False"
  shows "id_factory (ox_gen [c])"
  unfolding id_factory_def
proof (intro conjI allI injI)
  show "m = n" if "ox_gen [c] m = ox_gen [c] n" for m n using that by (simp add: ox_gen_def)
  show "ox_gen [c] n \<noteq> []" for n by (simp add: ox_gen_def)
  have "\<not> js_space (CHR ''x'')" by code_simp
  then show "js_trim (ox_gen [c] n) = ox_gen [c] n" for n
    by (intro js_trim_id) (cases n; simp add: ox_gen_def assms)+
qed

lemma ox_call:
  assumes "run_outbound (\<le>) list_outbound (ox_gen [c]) (ox_gen ''u'') ox_actor cmd s = Inr (s', i)" "js_space c = False"
  shows "outbound_call (\<le>) list_outbound s s'"
proof (rule outbound_call.succeeds [OF ox_factory [OF assms(2)] _ assms(1)])
  have "js_space CHR ''u'' = False" by code_simp
  then show "id_factory (ox_gen ''u'')" by (rule ox_factory)
qed

lemma ox_steps:
  "outbound_call (\<le>) list_outbound ox_db ox_reserved" "outbound_call (\<le>) list_outbound ox_reserved ox_drafted"
  "outbound_call (\<le>) list_outbound ox_drafted ox_posted"
proof -
  have c: "js_space CHR ''a'' = False" "js_space CHR ''b'' = False" "js_space CHR ''c'' = False" by code_simp+
  show "outbound_call (\<le>) list_outbound ox_db ox_reserved"
    by (rule ox_call [where cmd = "Reserve ox_reserve", OF _ c(1)]) (simp add: ox_reserve_run)
  show "outbound_call (\<le>) list_outbound ox_reserved ox_drafted"
    by (rule ox_call [where cmd = "Create_shipment_draft ox_draft", OF _ c(2)]) (simp add: ox_draft_run)
  show "outbound_call (\<le>) list_outbound ox_drafted ox_posted"
    by (rule ox_call [where cmd = "Post_shipment (ox_ship 0)", OF _ c(3)]) (simp add: ox_post_run)
qed

lemma ox_reach:
  "outbound_reachable (\<le>) list_outbound ox_db ox_drafted" "outbound_reachable (\<le>) list_outbound ox_db ox_posted"
proof -
  show "outbound_reachable (\<le>) list_outbound ox_db ox_drafted"
    by (rule outbound_reachable.after [OF outbound_reachable.after [OF outbound_reachable.initially ox_steps(1)] ox_steps(2)])
  then show "outbound_reachable (\<le>) list_outbound ox_db ox_posted" by (rule outbound_reachable.after [OF _ ox_steps(3)])
qed

definition ox_opening :: "stock_place \<Rightarrow> int" where
  "ox_opening p = 50000"

lemma ox_inv: "out_inv ox_opening ox_db"
  by code_simp

lemmas ox_store = outbound_lists.outbound_store_axioms

section \<open>Reservations and stock\<close>

text \<open>C6: In every state reached by any sequence of outbound commands of any users, every balance has the
  stock it opened with plus the movements at its place, holds back exactly what the reservations there have
  open, and has available what is on hand less what is held back; every order line is reserved and
  fulfilled by exactly what its reservations have open and have consumed.\<close>

theorem reservations_explain_stock:
  assumes "outbound_store tx tables" "outbound_reachable le tx s0 s" "out_inv opening (tables s0)"
  shows "(\<forall>b\<in>set (ot_balances (tables s)). on_hand b = opening (bal_place b) + moved_at (tables s) (bal_place b)
      \<and> reserved b = sum_at res_place res_open (ot_reservations (tables s)) (bal_place b) \<and> available b = on_hand b - reserved b)
    \<and> (\<forall>l\<in>set (ot_orderLines (tables s)).
        ol_reservedQuantity l = sum_at res_salesOrderLineId res_open (ot_reservations (tables s)) (ol_id l)
      \<and> ol_fulfilledQuantity l = sum_at res_salesOrderLineId res_consumedQuantity (ot_reservations (tables s)) (ol_id l))"
  using outbound_store.reachable_books [OF assms]
  by (simp add: out_inv_def balance_fine_def balance_ok_def order_line_fine_def)

theorem reservations_explain_stock_witness:
  "list_all (\<lambda>b. on_hand b = ox_opening (bal_place b) + moved_at ox_posted (bal_place b)
      \<and> reserved b = sum_at res_place res_open (ot_reservations ox_posted) (bal_place b)
      \<and> available b = on_hand b - reserved b) (ot_balances ox_posted)
    \<and> list_all (\<lambda>l. ol_reservedQuantity l = sum_at res_salesOrderLineId res_open (ot_reservations ox_posted) (ol_id l)
      \<and> ol_fulfilledQuantity l = sum_at res_salesOrderLineId res_consumedQuantity (ot_reservations ox_posted) (ol_id l))
      (ot_orderLines ox_posted)"
  unfolding list_all_iff by (rule reservations_explain_stock [OF ox_store ox_reach(2) ox_inv])

text \<open>C9: Nothing is oversold: in every reachable state an order line has no more reserved and fulfilled than
  was ordered, a reservation has no more allocated to shipments than it has open, each allocation is
  positive, and no balance holds back more than it has on hand.\<close>

theorem orders_are_not_oversold:
  assumes "outbound_store tx tables" "outbound_reachable le tx s0 s" "out_inv opening (tables s0)"
  shows "(\<forall>l\<in>set (ot_orderLines (tables s)). 0 \<le> ol_reservedQuantity l \<and> 0 \<le> ol_fulfilledQuantity l
      \<and> ol_reservedQuantity l + ol_fulfilledQuantity l \<le> ol_orderedQuantity l)
    \<and> (\<forall>r\<in>set (ot_reservations (tables s)). 0 \<le> res_allocatedQuantity r \<and> res_allocatedQuantity r \<le> res_open r)
    \<and> (\<forall>a\<in>set (ot_allocations (tables s)). 0 < sal_quantity a)
    \<and> (\<forall>b\<in>set (ot_balances (tables s)). 0 \<le> reserved b \<and> reserved b \<le> on_hand b)"
proof -
  have inv: "out_inv opening (tables s)" by (rule outbound_store.reachable_books [OF assms])
  have r: "reservation_bounded r" if "r \<in> set (ot_reservations (tables s))" for r using out_invD(4) [OF inv that] by blast
  then have "0 \<le> res_open r \<and> 0 \<le> res_consumedQuantity r" if "r \<in> set (ot_reservations (tables s))" for r
    using that unfolding reservation_bounded_def by (meson order_trans)
  then have "0 \<le> sum_at res_salesOrderLineId res_open (ot_reservations (tables s)) i"
    "0 \<le> sum_at res_salesOrderLineId res_consumedQuantity (ot_reservations (tables s)) i" for i
    by (auto intro!: sum_at_nonneg)
  then have "0 \<le> ol_reservedQuantity l \<and> 0 \<le> ol_fulfilledQuantity l \<and> ol_reservedQuantity l + ol_fulfilledQuantity l \<le> ol_orderedQuantity l"
    if "l \<in> set (ot_orderLines (tables s))" for l
    using out_invD(3) [OF inv that] by (simp add: order_line_fine_def)
  moreover have "0 \<le> reserved b \<and> reserved b \<le> on_hand b" if "b \<in> set (ot_balances (tables s))" for b
    using out_invD(5) [OF inv that] by (simp add: balance_fine_def balance_ok_def)
  moreover have "0 < sal_quantity a" if "a \<in> set (ot_allocations (tables s))" for a
    using out_invD(6) [OF inv that] by (simp add: allocation_fine_def)
  ultimately show ?thesis using r by (simp add: reservation_bounded_def)
qed

theorem orders_are_not_oversold_witness:
  "list_all (\<lambda>l. 0 \<le> ol_reservedQuantity l \<and> 0 \<le> ol_fulfilledQuantity l
      \<and> ol_reservedQuantity l + ol_fulfilledQuantity l \<le> ol_orderedQuantity l) (ot_orderLines ox_posted)
    \<and> list_all (\<lambda>r. 0 \<le> res_allocatedQuantity r \<and> res_allocatedQuantity r \<le> res_open r) (ot_reservations ox_posted)
    \<and> list_all (\<lambda>a. 0 < sal_quantity a) (ot_allocations ox_posted)
    \<and> list_all (\<lambda>b. 0 \<le> reserved b \<and> reserved b \<le> on_hand b) (ot_balances ox_posted)"
  unfolding list_all_iff by (rule orders_are_not_oversold [OF ox_store ox_reach(2) ox_inv])

section \<open>Shipments\<close>

text \<open>C10: What was allocated can be shipped: in every reachable state the plan to post a ready shipment that was
  not posted yet, of a confirmed order whose lines have active items, is never blocked, whatever was
  reserved, released, drafted or shipped in between.\<close>

theorem ready_shipment_can_be_posted:
  assumes "outbound_store tx tables" "outbound_reachable le tx s0 s" "out_inv opening (tables s0)"
    and "d \<in> set (ot_shipments (tables s))" "js_trim k = shp_id d"
    and "shp_workflowStatus d = ''ready''" "shp_postingStatus d = ''unposted''"
    and "o1 \<in> set (ot_orders (tables s))" "so_id o1 = shp_salesOrderId d" "so_workflowStatus o1 = ''confirmed''"
    and "validateOrderItems tx s (shp_tenantId d) (order_lines tx s (so_id o1)) = []"
  shows "op_blockingIssues (buildShipmentPostingPlan le tx s (shp_tenantId d) k) = []"
  by (rule outbound_store.ready_not_blocked [OF assms(1) outbound_store.reachable_books [OF assms(1-3)] assms(4-)])

theorem ready_shipment_can_be_posted_witness:
  "op_blockingIssues (buildShipmentPostingPlan (\<le>) list_outbound ox_drafted ''t'' ''bx'') = []"
proof -
  let ?d = "hd (ot_shipments ox_drafted)" and ?o = "hd (ot_orders ox_drafted)"
  have d: "?d \<in> set (ot_shipments ox_drafted)" "js_trim ''bx'' = shp_id ?d" "shp_workflowStatus ?d = ''ready''"
    "shp_postingStatus ?d = ''unposted''" "?o \<in> set (ot_orders ox_drafted)" "so_id ?o = shp_salesOrderId ?d"
    "so_workflowStatus ?o = ''confirmed''"
    "validateOrderItems list_outbound ox_drafted (shp_tenantId ?d) (order_lines list_outbound ox_drafted (so_id ?o)) = []"
    by code_simp+
  have "shp_tenantId ?d = ''t''" by code_simp
  then show ?thesis using ready_shipment_can_be_posted [OF ox_store ox_reach(1) ox_inv d] by simp
qed

text \<open>C11: Reversing a shipment undoes its posting: whatever commands run in between, the reversal changes the
  stock and the held-back stock of every place and the reserved and fulfilled quantity of every
  order line by the opposite of what the posting changed them by.\<close>

theorem shipment_reversal_undoes_posting:
  assumes "outbound_store tx tables" "out_inv opening (tables s0)" "id_factory gen"
    and "postShipment le tx gen actor q s0 = Inr (s1, i)" "outbound_reachable le tx s1 s2"
    and "reverseShipment le tx gen' actor' q' s2 = Inr (s3, i)"
  shows "on_hand_at (tables s3) p - on_hand_at (tables s2) p = on_hand_at (tables s0) p - on_hand_at (tables s1) p
    \<and> reserved_at (tables s3) p - reserved_at (tables s2) p = reserved_at (tables s0) p - reserved_at (tables s1) p
    \<and> line_reserved_of (tables s3) l - line_reserved_of (tables s2) l = line_reserved_of (tables s0) l - line_reserved_of (tables s1) l
    \<and> line_fulfilled_of (tables s3) l - line_fulfilled_of (tables s2) l = line_fulfilled_of (tables s0) l - line_fulfilled_of (tables s1) l"
  by (rule outbound_store.posted_and_reversed [OF assms])

theorem shipment_reversal_undoes_posting_witness:
  "\<forall>p l. on_hand_at ox_reversed p - on_hand_at ox_posted p = on_hand_at ox_drafted p - on_hand_at ox_posted p
    \<and> reserved_at ox_reversed p - reserved_at ox_posted p = reserved_at ox_drafted p - reserved_at ox_posted p
    \<and> line_reserved_of ox_reversed l - line_reserved_of ox_posted l = line_reserved_of ox_drafted l - line_reserved_of ox_posted l
    \<and> line_fulfilled_of ox_reversed l - line_fulfilled_of ox_posted l = line_fulfilled_of ox_drafted l - line_fulfilled_of ox_posted l"
proof -
  have inv: "out_inv ox_opening ox_drafted" by (rule outbound_store.reachable_books [OF ox_store ox_reach(1) ox_inv])
  have "js_space CHR ''c'' = False" by code_simp
  from shipment_reversal_undoes_posting [OF ox_store inv ox_factory [OF this] ox_post_run outbound_reachable.initially ox_reverse_run]
  show ?thesis by (intro allI)
qed

text \<open>C8: The commands refine the machine on the books: every command that succeeds is one of its five steps
  (writing an order, reserving, releasing, drafting, moving a shipment) on the tables, so the code
  implements the abstract specification.\<close>

theorem outbound_refines_the_machine:
  assumes "outbound_store tx tables" "out_inv opening (tables s)" "id_factory gen" "id_factory uuid"
    and "run_outbound le tx gen uuid actor cmd s = Inr (s', i)"
  shows "outbound_step (tables s) (tables s')"
  by (rule outbound_store.outbound_refines [OF assms(1,5,2)]) (use assms(3,4) in \<open>simp_all add: id_factory_def\<close>)

theorem outbound_refines_the_machine_witness: "outbound_step ox_db ox_reserved"
proof -
  have c: "js_space CHR ''a'' = False" "js_space CHR ''u'' = False" by code_simp+
  show ?thesis
    by (rule outbound_refines_the_machine [where cmd = "Reserve ox_reserve", OF ox_store ox_inv ox_factory [OF c(1)] ox_factory [OF c(2)]])
      (simp, rule ox_reserve_run)
qed

end
