(* ===== verification/Treasury_Rows.thy ===== *)
theory Treasury_Rows
  imports Finance_Rows Authorization
begin

text \<open>
  The rows that settlements (\<open>internal-settlement-command-service.mjs\<close>), advance applications
  (\<open>advance-application-command-service.mjs\<close>) and internal transfers
  (\<open>internal-transfer-command-service.mjs\<close>) read and write (\<open>prisma/schema.prisma\<close>).

  Amounts are \<open>Decimal(18, 4)\<close> columns, numbers of ten-thousandths here. Columns that record who did
  something and when, references of a sync client and JSON metadata are left out, but for
  \<open>metadata.createdById\<close>, which the commands look at.
\<close>

section \<open>Cashbook\<close>

record cash_account =
  ca_id :: string
  ca_tenantId :: string
  ca_accountCode :: string
  ca_name :: string
  ca_accountType :: string
  ca_currency :: string
  ca_openingBalance :: int
  ca_currentBalance :: int
  ca_status :: string
  ca_version :: int

record cash_entry =
  ce_id :: string
  ce_tenantId :: string
  ce_cashbookAccountId :: string
  ce_settlementId :: "string option"
  ce_internalTransferId :: "string option"
  ce_entryNumber :: string
  ce_entryType :: string
  ce_direction :: string
  ce_amount :: int
  ce_currency :: string
  ce_balanceBefore :: int
  ce_balanceAfter :: int
  ce_postingBatchId :: string
  ce_reversalOfEntryId :: "string option"
  ce_reversedByEntryId :: "string option"

section \<open>Settlements\<close>

record settlement =
  st_id :: string
  st_tenantId :: string
  st_settlementNumber :: string
  st_direction :: string
  st_counterpartyType :: string
  st_counterpartyId :: "string option"
  st_counterpartyName :: "string option"
  st_cashbookAccountId :: string
  st_currency :: string
  st_amount :: int
  st_cashAmount :: int
  st_discountAmount :: int
  st_totalSettlementAmount :: int
  st_advanceCreatedAmount :: int
  st_settlementDate :: string
  st_status :: string
  st_workflowStatus :: string
  st_postingStatus :: string
  st_externalReference :: "string option"
  st_memo :: "string option"
  st_createdById :: "string option"
  st_version :: int

record settle_alloc =
  sa_id :: string
  sa_tenantId :: string
  sa_settlementId :: string
  sa_obligationType :: string
  sa_payableObligationId :: "string option"
  sa_receivableObligationId :: "string option"
  sa_amount :: int
  sa_cashAppliedAmount :: int
  sa_discountAmount :: int
  sa_totalSettlementAmount :: int
  sa_discountReason :: "string option"
  sa_currency :: string

text \<open>
  A \<open>PayableObligation\<close> with the supplier of its \<open>supplierInvoice\<close>, or a \<open>ReceivableObligation\<close> with the
  customer of its \<open>customerInvoice\<close>. A payable has no \<open>disputeStatus\<close>.
\<close>

record obligation =
  ob_id :: string
  ob_tenantId :: string
  ob_originalAmount :: int
  ob_outstandingAmount :: int
  ob_approvedCreditAmount :: int
  ob_currency :: string
  ob_status :: string
  ob_disputeStatus :: string
  ob_partnerId :: "string option"
  ob_partnerName :: "string option"
  ob_version :: int

record document_link =
  dl_id :: string
  dl_tenantId :: string
  dl_sourceType :: string
  dl_sourceId :: string
  dl_targetType :: string
  dl_targetId :: string
  dl_relationship :: string
  dl_status :: "string option"

section \<open>Advances and transfers\<close>

record partner_advance =
  pa_id :: string
  pa_tenantId :: string
  pa_advanceNumber :: string
  pa_advanceType :: string
  pa_supplierId :: "string option"
  pa_customerId :: "string option"
  pa_currency :: string
  pa_originalAmount :: int
  pa_appliedAmount :: int
  pa_remainingAmount :: int
  pa_sourceSettlementId :: string
  pa_status :: string
  pa_version :: int

record advance_application =
  aa_id :: string
  aa_tenantId :: string
  aa_applicationNumber :: string
  aa_advanceId :: string
  aa_payableObligationId :: "string option"
  aa_receivableObligationId :: "string option"
  aa_appliedAmount :: int
  aa_currency :: string
  aa_workflowStatus :: string
  aa_postingStatus :: string
  aa_createdById :: "string option"
  aa_version :: int

record internal_transfer =
  tr_id :: string
  tr_tenantId :: string
  tr_transferNumber :: string
  tr_fromCashbookAccountId :: string
  tr_toCashbookAccountId :: string
  tr_currency :: string
  tr_amount :: int
  tr_transferDate :: string
  tr_externalReference :: "string option"
  tr_memo :: "string option"
  tr_workflowStatus :: string
  tr_postingStatus :: string
  tr_createdById :: "string option"
  tr_version :: int

text \<open>
  The workspace with \<open>operationalSettings.settlementPolicy\<close>: \<open>None\<close> is a setting that is missing (or, for
  a threshold, null).
\<close>

record treasury_tenant =
  tn_id :: string
  tn_settlementApprovalRequired :: "bool option"
  tn_settlementSelfApprovalAllowed :: "bool option"
  tn_settlementSelfPostingAllowed :: "bool option"
  tn_settlementApprovalThreshold :: "string option"
  tn_settlementDiscountThreshold :: "string option"

section \<open>The database\<close>

record 's treasury_tx =
  ttx_accounts :: "('s, cash_account) prisma_model"
  ttx_entries :: "('s, cash_entry) prisma_model"
  ttx_settlements :: "('s, settlement) prisma_model"
  ttx_allocations :: "('s, settle_alloc) prisma_model"
  ttx_payables :: "('s, obligation) prisma_model"
  ttx_receivables :: "('s, obligation) prisma_model"
  ttx_links :: "('s, document_link) prisma_model"
  ttx_advances :: "('s, partner_advance) prisma_model"
  ttx_applications :: "('s, advance_application) prisma_model"
  ttx_transfers :: "('s, internal_transfer) prisma_model"
  ttx_tenants :: "('s, treasury_tenant) prisma_model"

text \<open>\<open>a || b\<close> of two nullable text columns, and a nullable column as text (null and empty are alike).\<close>

definition column_or :: "string option \<Rightarrow> string option \<Rightarrow> string" where
  "column_or a b = (case a of Some (c # cs) \<Rightarrow> c # cs | _ \<Rightarrow> (case b of Some t \<Rightarrow> t | None \<Rightarrow> []))"

definition null_if_empty :: "string \<Rightarrow> string option" where
  "null_if_empty t = (if t = [] then None else Some t)"

text \<open>\<open>allocation.payableObligationId || allocation.receivableObligationId\<close>\<close>

definition sa_obligationId :: "settle_alloc \<Rightarrow> string" where
  "sa_obligationId a = column_or (sa_payableObligationId a) (sa_receivableObligationId a)"

definition aa_obligationId :: "advance_application \<Rightarrow> string" where
  "aa_obligationId a = column_or (aa_payableObligationId a) (aa_receivableObligationId a)"

end
