(* ===== verification/Settlement_Policy.thy ===== *)
theory Settlement_Policy
  imports Treasury_Rows
begin

text \<open>
  \<open>normalizeSettlement\<close> and \<open>settlementPlan\<close> of \<open>internal-settlement-command-service.mjs\<close>, and
  \<open>obligation-status-policy.mjs\<close>.

  A text that a request leaves out is empty, but for the amounts of an allocation, where
  \<open>a ?? b\<close> tells a missing field from an empty one. \<open>TREASURY_UNCAUGHT\<close> is an error that is not the
  services' own. The details of an issue are not modelled.
\<close>

datatype treasury_code =
    SETTLEMENT_NUMBER_REQUIRED | CASHBOOK_ACCOUNT_REQUIRED | SETTLEMENT_CURRENCY_INVALID
  | SETTLEMENT_ALLOCATIONS_REQUIRED | SETTLEMENT_DIRECTION_INVALID | SETTLEMENT_COUNTERPARTY_INVALID
  | SETTLEMENT_AMOUNT_INVALID | SETTLEMENT_ALLOCATION_DUPLICATE | SETTLEMENT_OBLIGATION_TYPE_INVALID
  | SETTLEMENT_ALLOCATION_TOTAL_MISMATCH | SETTLEMENT_DISCOUNT_REASON_REQUIRED | CASHBOOK_ACCOUNT_NOT_AVAILABLE
  | SETTLEMENT_CURRENCY_MISMATCH | SETTLEMENT_OBLIGATION_NOT_FOUND | PAYABLE_NOT_SETTLEABLE
  | RECEIVABLE_NOT_SETTLEABLE | SETTLEMENT_OVER_ALLOCATION | SETTLEMENT_COUNTERPARTY_MISMATCH
  | SETTLEMENT_DATE_INVALID | SETTLEMENT_VERSION_INVALID | CASHBOOK_ACCOUNT_INVALID | SETTLEMENT_UNIQUE_CONFLICT
  | SETTLEMENT_NOT_FOUND | SETTLEMENT_VERSION_CONFLICT | SYNC_VERSION_CONFLICT | SETTLEMENT_NOT_REVISABLE
  | SETTLEMENT_WORKFLOW_CONFLICT | SETTLEMENT_REASON_REQUIRED | SETTLEMENT_SELF_APPROVAL_BLOCKED
  | SETTLEMENT_NOT_POSTABLE | SETTLEMENT_SELF_POSTING_BLOCKED | CASHBOOK_INSUFFICIENT_BALANCE
  | SETTLEMENT_REVERSAL_REASON_REQUIRED | SETTLEMENT_NOT_REVERSIBLE | SETTLEMENT_REVERSAL_NOT_SAFE
  | SETTLEMENT_EVIDENCE_MISMATCH
  | ADVANCE_VERSION_INVALID | ADVANCE_NOT_AVAILABLE | ADVANCE_APPLICATION_OBLIGATION_INVALID
  | ADVANCE_APPLICATION_OBLIGATION_NOT_FOUND | ADVANCE_APPLICATION_OBLIGATION_SETTLED
  | ADVANCE_APPLICATION_OBLIGATION_NOT_ELIGIBLE | ADVANCE_APPLICATION_CURRENCY_MISMATCH
  | ADVANCE_APPLICATION_PARTNER_MISMATCH | ADVANCE_APPLICATION_AMOUNT_INVALID | ADVANCE_APPLICATION_NUMBER_REQUIRED
  | ADVANCE_APPLICATION_NOT_FOUND | ADVANCE_APPLICATION_WORKFLOW_CONFLICT | ADVANCE_APPLICATION_SELF_APPROVAL_BLOCKED
  | ADVANCE_APPLICATION_NOT_POSTABLE | ADVANCE_APPLICATION_REVERSAL_REASON_REQUIRED
  | ADVANCE_APPLICATION_NOT_REVERSIBLE | ADVANCE_APPLICATION_REVERSAL_NOT_SAFE
  | TRANSFER_VERSION_INVALID | TRANSFER_DATE_INVALID | TRANSFER_REQUIRED_FIELDS | TRANSFER_SAME_ACCOUNT
  | TRANSFER_AMOUNT_INVALID | TRANSFER_ACCOUNT_NOT_AVAILABLE | TRANSFER_CURRENCY_MISMATCH | TRANSFER_NOT_FOUND
  | TRANSFER_NOT_REVISABLE | TRANSFER_WORKFLOW_CONFLICT | TRANSFER_REASON_REQUIRED | TRANSFER_SELF_APPROVAL_BLOCKED
  | TRANSFER_NOT_POSTABLE | TRANSFER_REVERSAL_REASON_REQUIRED | TRANSFER_NOT_REVERSIBLE
  | TRANSFER_EVIDENCE_MISMATCH | TRANSFER_REVERSAL_NOT_SAFE
  | AUTHORIZATION_ERROR | TREASURY_UNCAUGHT

type_synonym treasury_issue = "treasury_code issue"

section \<open>Requests\<close>

record allocation_request =
  alq_obligationType :: string
  alq_obligationId :: string
  alq_payableObligationId :: string
  alq_receivableObligationId :: string
  alq_cashAppliedAmount :: "string option"
  alq_discountAmount :: string
  alq_totalSettlementAmount :: "string option"
  alq_amount :: "string option"
  alq_discountReason :: string

record settlement_request =
  stq_settlementNumber :: string
  stq_direction :: string
  stq_counterpartyType :: string
  stq_counterpartyId :: string
  stq_cashbookAccountId :: string
  stq_currency :: string
  stq_amount :: string
  stq_settlementDate :: string
  stq_externalReference :: string
  stq_memo :: string
  stq_allocations :: "allocation_request list"

record alloc_input =
  ali_obligationType :: string
  ali_obligationId :: string
  ali_cashAppliedAmount :: string
  ali_discountAmount :: string
  ali_amount :: string
  ali_discountReason :: string

record settlement_input =
  sin_settlementNumber :: string
  sin_direction :: string
  sin_counterpartyType :: string
  sin_counterpartyId :: string
  sin_cashbookAccountId :: string
  sin_currency :: string
  sin_amount :: string
  sin_settlementDate :: string
  sin_externalReference :: string
  sin_memo :: string
  sin_allocations :: "alloc_input list"

definition or_text :: "string \<Rightarrow> string \<Rightarrow> string" where
  "or_text a b = (if a = [] then b else a)"

definition or_else :: "'a option \<Rightarrow> 'a option \<Rightarrow> 'a option" where
  "or_else a b = (case a of None \<Rightarrow> b | Some _ \<Rightarrow> a)"

text \<open>The key of an obligation: \<open>`${type}:${id}`\<close>.\<close>

definition obligation_key :: "string \<Rightarrow> string \<Rightarrow> string" where
  "obligation_key ty k = ty @ '':'' @ k"

definition ali_key :: "alloc_input \<Rightarrow> string" where
  "ali_key a = obligation_key (ali_obligationType a) (ali_obligationId a)"

definition normalize_allocation :: "allocation_request \<Rightarrow> alloc_input" where
  "normalize_allocation q =
     \<lparr>ali_obligationType = js_lower (js_trim (alq_obligationType q)),
      ali_obligationId = js_trim (or_text (alq_obligationId q) (or_text (alq_payableObligationId q) (alq_receivableObligationId q))),
      ali_cashAppliedAmount = js_text (or_else (alq_cashAppliedAmount q) (alq_amount q)),
      ali_discountAmount = js_trim (or_text (alq_discountAmount q) ''0''),
      ali_amount = js_text (or_else (alq_totalSettlementAmount q) (alq_amount q)),
      ali_discountReason = js_trim (alq_discountReason q)\<rparr>"

definition normalizeSettlement :: "(string \<Rightarrow> string \<Rightarrow> bool) \<Rightarrow> settlement_request \<Rightarrow> settlement_input" where
  "normalizeSettlement le q =
     \<lparr>sin_settlementNumber = js_trim (stq_settlementNumber q), sin_direction = js_lower (js_trim (stq_direction q)),
      sin_counterpartyType = js_lower (js_trim (stq_counterpartyType q)), sin_counterpartyId = js_trim (stq_counterpartyId q),
      sin_cashbookAccountId = js_trim (stq_cashbookAccountId q), sin_currency = js_upper (js_trim (stq_currency q)),
      sin_amount = js_trim (stq_amount q), sin_settlementDate = js_trim (stq_settlementDate q),
      sin_externalReference = js_trim (stq_externalReference q), sin_memo = js_trim (stq_memo q),
      sin_allocations = js_sort (\<lambda>a b. le (ali_key a) (ali_key b)) (map normalize_allocation (stq_allocations q))\<rparr>"

section \<open>The plan of a settlement\<close>

definition amountUnits :: "bool \<Rightarrow> string \<Rightarrow> treasury_issue + int" where
  "amountUnits allowZero v = (case outboundDecimalUnits (Some v) of
       Inl _ \<Rightarrow> Inl (Issue SETTLEMENT_AMOUNT_INVALID 422)
     | Inr u \<Rightarrow> if (if allowZero then u < 0 else u \<le> 0) then Inl (Issue SETTLEMENT_AMOUNT_INVALID 422) else Inr u)"

definition expected_type :: "string \<Rightarrow> string option" where
  "expected_type direction = (if direction = ''disbursement'' then Some ''payable''
     else if direction = ''receipt'' then Some ''receivable'' else None)"

definition expected_counterparty :: "string \<Rightarrow> string option" where
  "expected_counterparty direction = (if direction = ''disbursement'' then Some ''supplier''
     else if direction = ''receipt'' then Some ''customer'' else None)"

text \<open>The amounts of one allocation: cash, discount and total, parsed in this order.\<close>

definition allocation_amounts :: "alloc_input \<Rightarrow> treasury_issue + int \<times> int \<times> int" where
  "allocation_amounts a =
     and_then (amountUnits True (ali_cashAppliedAmount a)) (\<lambda>cash.
     and_then (amountUnits True (ali_discountAmount a)) (\<lambda>discount.
     and_then (amountUnits False (ali_amount a)) (\<lambda>whole. Inr (cash, discount, whole))))"

text \<open>The first loop over the allocations: \<open>seen\<close> is the \<open>keys\<close> set.\<close>

definition allocation_row_issues :: "string option \<Rightarrow> string list \<Rightarrow> alloc_input \<Rightarrow> treasury_issue list" where
  "allocation_row_issues expected seen a =
     push_if (ali_obligationId a = [] \<or> ali_key a \<in> set seen) SETTLEMENT_ALLOCATION_DUPLICATE 422
     @ push_if (expected \<noteq> None \<and> Some (ali_obligationType a) \<noteq> expected) SETTLEMENT_OBLIGATION_TYPE_INVALID 422
     @ (case allocation_amounts a of Inl i \<Rightarrow> [i] | Inr (cash, discount, whole) \<Rightarrow>
          push_if (cash + discount \<noteq> whole) SETTLEMENT_ALLOCATION_TOTAL_MISMATCH 422
          @ push_if (discount > 0 \<and> ali_discountReason a = []) SETTLEMENT_DISCOUNT_REASON_REQUIRED 422)"

fun allocation_loop_issues :: "string option \<Rightarrow> string list \<Rightarrow> alloc_input list \<Rightarrow> treasury_issue list" where
  "allocation_loop_issues expected seen [] = []"
| "allocation_loop_issues expected seen (a # as) =
     allocation_row_issues expected seen a @ allocation_loop_issues expected (ali_key a # seen) as"

definition parsed_amounts :: "alloc_input list \<Rightarrow> (int \<times> int \<times> int) list" where
  "parsed_amounts as = concat (map (\<lambda>a. case allocation_amounts a of Inl _ \<Rightarrow> [] | Inr v \<Rightarrow> [v]) as)"

text \<open>The rows of the map \<open>obligations\<close>; identifiers are unique, so it is the list of its entries.\<close>

definition settlement_obligations ::
  "'s treasury_tx \<Rightarrow> 's \<Rightarrow> string \<Rightarrow> alloc_input list \<Rightarrow> obligation list \<times> obligation list" where
  "settlement_obligations tx s tenantId as =
     (let ids = (\<lambda>ty. map ali_obligationId (filter (\<lambda>a. ali_obligationType a = ty) as));
          rows = (\<lambda>m ks. findMany m s (\<lambda>o1. ob_tenantId o1 = tenantId \<and> ob_id o1 \<in> set ks))
      in (rows (ttx_payables tx) (ids ''payable''), rows (ttx_receivables tx) (ids ''receivable'')))"

definition obligation_entries :: "obligation list \<times> obligation list \<Rightarrow> (string \<times> string \<times> obligation) list" where
  "obligation_entries rows =
     map (\<lambda>o1. (obligation_key ''payable'' (ob_id o1), ''payable'', o1)) (fst rows)
     @ map (\<lambda>o1. (obligation_key ''receivable'' (ob_id o1), ''receivable'', o1)) (snd rows)"

definition partner_text :: "obligation \<Rightarrow> string" where
  "partner_text o1 = (case ob_partnerId o1 of None \<Rightarrow> [] | Some p \<Rightarrow> p)"

text \<open>The second loop; amounts were parsed before, an amount that did not parse counts as zero here.\<close>

definition obligation_issues ::
  "settlement_input \<Rightarrow> (string \<times> string \<times> obligation) list \<Rightarrow> alloc_input \<Rightarrow> treasury_issue list" where
  "obligation_issues input obligations a = (case map_of obligations (ali_key a) of None \<Rightarrow> [] | Some (ty, o1) \<Rightarrow>
     push_if (ob_currency o1 \<noteq> sin_currency input) SETTLEMENT_CURRENCY_MISMATCH 409
     @ push_if (ty = ''payable'' \<and> ob_status o1 \<notin> {''approved'', ''export_ready'', ''partially_settled''}) PAYABLE_NOT_SETTLEABLE 409
     @ push_if (ty = ''receivable'' \<and> (ob_disputeStatus o1 \<noteq> ''none'' \<or> ob_status o1 \<notin> {''open'', ''overdue'', ''partially_settled''}))
         RECEIVABLE_NOT_SETTLEABLE 409
     @ push_if ((case outboundDecimalUnits (Some (ali_amount a)) of Inl _ \<Rightarrow> 0 | Inr u \<Rightarrow> u) > ob_outstandingAmount o1)
         SETTLEMENT_OVER_ALLOCATION 409
     @ push_if (sin_counterpartyId input \<noteq> [] \<and> partner_text o1 \<noteq> [] \<and> sin_counterpartyId input \<noteq> partner_text o1)
         SETTLEMENT_COUNTERPARTY_MISMATCH 409)"

definition settlement_partners :: "(string \<times> string \<times> obligation) list \<Rightarrow> alloc_input list \<Rightarrow> string list" where
  "settlement_partners obligations as =
     js_unique (filter (\<lambda>p. p \<noteq> []) (concat (map (\<lambda>a. case map_of obligations (ali_key a) of
        None \<Rightarrow> [] | Some (_, o1) \<Rightarrow> [partner_text o1]) as)))"

record settlement_plan =
  sep_issues :: "treasury_issue list"
  sep_account :: "cash_account option"
  sep_obligations :: "(string \<times> string \<times> obligation) list"
  sep_amount :: int
  sep_discountAmount :: int
  sep_totalSettlementAmount :: int
  sep_advanceCreatedAmount :: int
  sep_counterpartyId :: string
  sep_counterpartyName :: string

definition settlementPlan :: "'s treasury_tx \<Rightarrow> 's \<Rightarrow> string \<Rightarrow> settlement_input \<Rightarrow> settlement_plan" where
  "settlementPlan tx s tenantId input =
     (let as = sin_allocations input;
          expected = expected_type (sin_direction input);
          counterparty = expected_counterparty (sin_direction input);
          amounts = parsed_amounts as;
          cashTotal = sum_list (map (\<lambda>(c, d, t). c) amounts);
          requested = (case amountUnits False (sin_amount input) of Inl _ \<Rightarrow> 0 | Inr u \<Rightarrow> u);
          account = (if sin_cashbookAccountId input = [] then None else findFirst (ttx_accounts tx) s
             (\<lambda>a. ca_id a = sin_cashbookAccountId input \<and> ca_tenantId a = tenantId));
          rows = settlement_obligations tx s tenantId as;
          obligations = obligation_entries rows;
          ids = (\<lambda>ty. map ali_obligationId (filter (\<lambda>a. ali_obligationType a = ty) as));
          first = (case obligations of [] \<Rightarrow> None | (_, _, o1) # _ \<Rightarrow> Some o1)
      in \<lparr>sep_issues =
            push_if (sin_settlementNumber input = []) SETTLEMENT_NUMBER_REQUIRED 422
            @ push_if (sin_cashbookAccountId input = []) CASHBOOK_ACCOUNT_REQUIRED 422
            @ push_if (\<not> currency_code (sin_currency input)) SETTLEMENT_CURRENCY_INVALID 422
            @ push_if (as = []) SETTLEMENT_ALLOCATIONS_REQUIRED 422
            @ push_if (expected = None) SETTLEMENT_DIRECTION_INVALID 422
            @ push_if (counterparty \<noteq> None \<and> Some (sin_counterpartyType input) \<noteq> counterparty) SETTLEMENT_COUNTERPARTY_INVALID 422
            @ (case amountUnits False (sin_amount input) of Inl i \<Rightarrow> [i] | Inr _ \<Rightarrow> [])
            @ allocation_loop_issues expected [] as
            @ push_if (requested \<noteq> 0 \<and> cashTotal > requested) SETTLEMENT_ALLOCATION_TOTAL_MISMATCH 422
            @ push_if (case account of None \<Rightarrow> True | Some a \<Rightarrow> ca_status a \<noteq> ''active'') CASHBOOK_ACCOUNT_NOT_AVAILABLE 409
            @ push_if (case account of None \<Rightarrow> False | Some a \<Rightarrow> ca_currency a \<noteq> sin_currency input) SETTLEMENT_CURRENCY_MISMATCH 409
            @ push_if (length (fst rows) \<noteq> card (set (ids ''payable'')) \<or> length (snd rows) \<noteq> card (set (ids ''receivable'')))
                SETTLEMENT_OBLIGATION_NOT_FOUND 404
            @ concat (map (obligation_issues input obligations) as)
            @ push_if (length (settlement_partners obligations as) > 1) SETTLEMENT_COUNTERPARTY_MISMATCH 409,
          sep_account = account, sep_obligations = obligations, sep_amount = requested,
          sep_discountAmount = sum_list (map (\<lambda>(c, d, t). d) amounts),
          sep_totalSettlementAmount = sum_list (map (\<lambda>(c, d, t). t) amounts),
          sep_advanceCreatedAmount = (if requested > cashTotal then requested - cashTotal else 0),
          sep_counterpartyId = or_text (sin_counterpartyId input) (case first of None \<Rightarrow> [] | Some o1 \<Rightarrow> partner_text o1),
          sep_counterpartyName = (case first of None \<Rightarrow> [] | Some o1 \<Rightarrow> (case ob_partnerName o1 of None \<Rightarrow> [] | Some n \<Rightarrow> n))\<rparr>)"

section \<open>What a settlement or an advance leaves open\<close>

definition derivePayableSettlementStatus :: "obligation \<Rightarrow> int \<Rightarrow> string" where
  "derivePayableSettlementStatus o1 outstanding =
     (if outstanding \<le> 0 then ''settled''
      else if outstanding = ob_originalAmount o1 - ob_approvedCreditAmount o1 then ''approved'' else ''partially_settled'')"

definition deriveReceivableSettlementStatus :: "obligation \<Rightarrow> int \<Rightarrow> string" where
  "deriveReceivableSettlementStatus o1 outstanding =
     (if outstanding \<le> 0 then ''settled''
      else if outstanding = ob_originalAmount o1 - ob_approvedCreditAmount o1 then ''open'' else ''partially_settled'')"

definition assertAdvanceApplicationEligibility :: "obligation \<Rightarrow> bool \<Rightarrow> treasury_issue + unit" where
  "assertAdvanceApplicationEligibility o1 payable =
     and_then (fail_if (ob_outstandingAmount o1 \<le> 0) (Issue ADVANCE_APPLICATION_OBLIGATION_SETTLED 409)) (\<lambda>_.
     let status = js_lower (js_trim (ob_status o1));
         disputeStatus = js_lower (js_trim (or_text (ob_disputeStatus o1) ''none''));
         allowedStatuses = (if payable then {''approved'', ''partially_settled''} else {''open'', ''partially_settled''})
     in fail_if (status \<notin> allowedStatuses \<or> \<not> (payable \<or> disputeStatus \<in> {''none'', ''resolved''}))
          (Issue ADVANCE_APPLICATION_OBLIGATION_NOT_ELIGIBLE 409))"

end
