(* ===== verification/Settlement_Service.thy ===== *)
theory Settlement_Service
  imports Settlement_Policy
begin

text \<open>
  The commands of \<open>internal-settlement-command-service.mjs\<close>: the work functions that its \<open>execute\<close> runs in
  a serializable transaction.

  A command returns the new state and the identifier of the entity it reports, or the error that rolls
  the transaction back. \<open>gen n\<close> is the \<open>n\<close>-th identifier of \<open>idFactory\<close> (number 0 is the execution row).
  \<open>date t\<close> is the ISO text of \<open>new Date(t)\<close>, \<open>None\<close> for an invalid date. A refused write is
  \<open>SETTLEMENT_UNIQUE_CONFLICT\<close>, into which \<open>execute\<close> turns the error of a unique index. Row locks have no
  effect of their own in a serial history. The audit row, the change feed, the before and after amounts
  in the metadata of an allocation and the returned document are not modelled.
\<close>

type_synonym 's treasury_result = "treasury_issue + 's \<times> string"

abbreviation settled_write :: "'s option \<Rightarrow> treasury_issue + 's" where
  "settled_write \<equiv> or_error (Issue SETTLEMENT_UNIQUE_CONFLICT 409)"

definition found_or :: "treasury_issue \<Rightarrow> 'r option \<Rightarrow> treasury_issue + 'r" where
  "found_or e r = (case r of None \<Rightarrow> Inl e | Some v \<Rightarrow> Inr v)"

lemma found_or_Inr [simp]: "found_or e r = Inr v \<longleftrightarrow> r = Some v"
  by (cases r) (auto simp: found_or_def)

definition tre_enforce :: "treasury_issue list \<Rightarrow> treasury_issue + unit" where
  "tre_enforce issues = (case issues of [] \<Rightarrow> Inr () | first # _ \<Rightarrow> Inl first)"

lemma tre_enforce_Inr [simp]: "tre_enforce issues = Inr u \<longleftrightarrow> issues = []"
  by (cases issues) (auto simp: tre_enforce_def)

definition tre_version :: "treasury_code \<Rightarrow> int option \<Rightarrow> treasury_issue + int" where
  "tre_version c v = (case v of None \<Rightarrow> Inl (Issue c 422) | Some n \<Rightarrow> if n < 0 then Inl (Issue c 422) else Inr n)"

lemma tre_version_Inr [simp]: "tre_version c v = Inr n \<longleftrightarrow> v = Some n \<and> 0 \<le> n"
  by (auto simp: tre_version_def split: option.splits)

text \<open>The input of a command on one document.\<close>

record treasury_request =
  trq_id :: string
  trq_expectedVersion :: "int option"
  trq_reason :: string

section \<open>The policy of the workspace\<close>

definition settlementPolicy :: "'s treasury_tx \<Rightarrow> string \<Rightarrow> 's \<Rightarrow> treasury_tenant" where
  "settlementPolicy tx tenantId s = (case findFirst (ttx_tenants tx) s (\<lambda>t. tn_id t = tenantId) of
       Some t \<Rightarrow> t
     | None \<Rightarrow> \<lparr>tn_id = tenantId, tn_settlementApprovalRequired = None, tn_settlementSelfApprovalAllowed = None,
         tn_settlementSelfPostingAllowed = None, tn_settlementApprovalThreshold = None, tn_settlementDiscountThreshold = None\<rparr>)"

definition thresholdUnits :: "string option \<Rightarrow> int" where
  "thresholdUnits v = (case v of None \<Rightarrow> 0 | Some t \<Rightarrow> (case outboundDecimalUnits (Some t) of Inl _ \<Rightarrow> 0 | Inr u \<Rightarrow> u))"

text \<open>\<open>authorize(actor, permission)\<close> for a permission under \<open>finance.settlement\<close>.\<close>

definition authorize_treasury :: "auth_context \<Rightarrow> string \<Rightarrow> treasury_issue + unit" where
  "authorize_treasury actor permission =
     and_then (case assertAuthorized (Some actor) permission (ac_tenantId actor) [] None [] of
         Inl _ \<Rightarrow> Inl (Issue AUTHORIZATION_ERROR 403) | Inr _ \<Rightarrow> Inr ()) (\<lambda>_.
     case assertAuthorized (Some actor) ''finance.amounts.read'' (ac_tenantId actor) [] None [] of
         Inl _ \<Rightarrow> Inl (Issue AUTHORIZATION_ERROR 403) | Inr _ \<Rightarrow> Inr ())"

definition assertDiscountPolicy :: "auth_context \<Rightarrow> treasury_tenant \<Rightarrow> int \<Rightarrow> treasury_issue + unit" where
  "assertDiscountPolicy actor policy discount =
     (if discount > thresholdUnits (tn_settlementDiscountThreshold policy)
      then authorize_treasury actor ''finance.settlement_discount.apply'' else Inr ())"

definition approval_required :: "treasury_tenant \<Rightarrow> settlement \<Rightarrow> bool" where
  "approval_required policy d \<longleftrightarrow> tn_settlementApprovalRequired policy \<noteq> Some False
     \<or> st_totalSettlementAmount d > thresholdUnits (tn_settlementApprovalThreshold policy)"

section \<open>Cashbook accounts\<close>

record account_request =
  acq_accountCode :: string
  acq_name :: string
  acq_accountType :: string
  acq_currency :: string
  acq_openingBalance :: string

definition createCashbookAccount ::
  "'s treasury_tx \<Rightarrow> (nat \<Rightarrow> string) \<Rightarrow> auth_context \<Rightarrow> account_request \<Rightarrow> 's \<Rightarrow> 's treasury_result" where
  "createCashbookAccount tx gen actor q s =
     (let code = js_upper (js_trim (acq_accountCode q)); name = js_trim (acq_name q);
          accountType = js_lower (js_trim (acq_accountType q)); currency = js_upper (js_trim (acq_currency q))
      in and_then (fail_if (code = [] \<or> name = []) (Issue CASHBOOK_ACCOUNT_INVALID 422)) (\<lambda>_.
         and_then (fail_if (accountType \<notin> {''cash'', ''bank'', ''clearing''} \<or> \<not> currency_code currency)
             (Issue CASHBOOK_ACCOUNT_INVALID 422)) (\<lambda>_.
         and_then (amountUnits True (js_trim (or_text (acq_openingBalance q) ''0''))) (\<lambda>opening.
         and_then (settled_write (createRow (ttx_accounts tx) s
            \<lparr>ca_id = gen 1, ca_tenantId = ac_tenantId actor, ca_accountCode = code, ca_name = name,
             ca_accountType = accountType, ca_currency = currency, ca_openingBalance = opening, ca_currentBalance = opening,
             ca_status = ''active'', ca_version = 0\<rparr>)) (\<lambda>s1.
         Inr (s1, gen 1))))))"

section \<open>Writing a settlement\<close>

definition parsed_or_zero :: "string \<Rightarrow> int" where
  "parsed_or_zero t = (case outboundDecimalUnits (Some t) of Inl _ \<Rightarrow> 0 | Inr u \<Rightarrow> u)"

text \<open>The row of an allocation; its amounts have parsed, since the plan was allowed.\<close>

definition new_settle_alloc :: "string \<Rightarrow> string \<Rightarrow> string \<Rightarrow> string \<Rightarrow> alloc_input \<Rightarrow> settle_alloc" where
  "new_settle_alloc allocId tenantId settlementId currency a =
     \<lparr>sa_id = allocId, sa_tenantId = tenantId, sa_settlementId = settlementId, sa_obligationType = ali_obligationType a,
      sa_payableObligationId = (if ali_obligationType a = ''payable'' then Some (ali_obligationId a) else None),
      sa_receivableObligationId = (if ali_obligationType a = ''receivable'' then Some (ali_obligationId a) else None),
      sa_amount = parsed_or_zero (ali_amount a), sa_cashAppliedAmount = parsed_or_zero (ali_cashAppliedAmount a),
      sa_discountAmount = parsed_or_zero (ali_discountAmount a), sa_totalSettlementAmount = parsed_or_zero (ali_amount a),
      sa_discountReason = null_if_empty (ali_discountReason a), sa_currency = currency\<rparr>"

definition create_allocations ::
  "'s treasury_tx \<Rightarrow> (nat \<Rightarrow> string) \<Rightarrow> nat \<Rightarrow> string \<Rightarrow> string \<Rightarrow> settlement_input \<Rightarrow> 's \<Rightarrow> treasury_issue + 's" where
  "create_allocations tx gen n tenantId settlementId input s =
     each (\<lambda>(k, a) s. settled_write (createRow (ttx_allocations tx) s
         (new_settle_alloc (gen k) tenantId settlementId (sin_currency input) a)))
       (enumerate n (sin_allocations input)) s"

definition settlement_allocations :: "'s treasury_tx \<Rightarrow> 's \<Rightarrow> string \<Rightarrow> settle_alloc list" where
  "settlement_allocations tx s settlementId = findMany (ttx_allocations tx) s (\<lambda>a. sa_settlementId a = settlementId)"

definition allocation_link :: "string \<Rightarrow> string \<Rightarrow> string \<Rightarrow> settle_alloc \<Rightarrow> document_link" where
  "allocation_link linkId tenantId settlementId a =
     \<lparr>dl_id = linkId, dl_tenantId = tenantId, dl_sourceType = ''SettlementDocument'', dl_sourceId = settlementId,
      dl_targetType = (if sa_obligationType a = ''payable'' then ''PayableObligation'' else ''ReceivableObligation''),
      dl_targetId = sa_obligationId a, dl_relationship = ''allocates'', dl_status = Some ''draft''\<rparr>"

definition link_allocations ::
  "'s treasury_tx \<Rightarrow> (nat \<Rightarrow> string) \<Rightarrow> nat \<Rightarrow> string \<Rightarrow> string \<Rightarrow> settle_alloc list \<Rightarrow> 's \<Rightarrow> treasury_issue + 's" where
  "link_allocations tx gen n tenantId settlementId as s =
     each (\<lambda>(k, a) s. settled_write (createRow (ttx_links tx) s (allocation_link (gen k) tenantId settlementId a)))
       (enumerate n as) s"

definition of_settlement :: "string \<Rightarrow> string \<Rightarrow> document_link \<Rightarrow> bool" where
  "of_settlement tenantId settlementId l \<longleftrightarrow> dl_tenantId l = tenantId \<and> dl_sourceType l = ''SettlementDocument''
     \<and> dl_sourceId l = settlementId"

text \<open>\<open>documentLink.updateMany(...)\<close> of the links of a settlement; the count is not looked at.\<close>

definition mark_links :: "'s treasury_tx \<Rightarrow> string \<Rightarrow> string \<Rightarrow> string \<Rightarrow> 's \<Rightarrow> treasury_issue + 's" where
  "mark_links tx tenantId settlementId status s =
     settled_write (map_option fst (updateMany (ttx_links tx) s (of_settlement tenantId settlementId)
       (\<lambda>l. l\<lparr>dl_status := Some status\<rparr>)))"

definition set_settlement :: "settlement_input \<Rightarrow> settlement_plan \<Rightarrow> string \<Rightarrow> settlement \<Rightarrow> settlement" where
  "set_settlement input plan day d = d\<lparr>st_settlementNumber := sin_settlementNumber input,
     st_direction := sin_direction input, st_counterpartyType := sin_counterpartyType input,
     st_counterpartyId := null_if_empty (sep_counterpartyId plan),
     st_counterpartyName := null_if_empty (sep_counterpartyName plan),
     st_cashbookAccountId := sin_cashbookAccountId input, st_currency := sin_currency input,
     st_amount := sep_amount plan, st_cashAmount := sep_amount plan, st_discountAmount := sep_discountAmount plan,
     st_totalSettlementAmount := sep_totalSettlementAmount plan,
     st_advanceCreatedAmount := sep_advanceCreatedAmount plan, st_settlementDate := day,
     st_externalReference := null_if_empty (sin_externalReference input), st_memo := null_if_empty (sin_memo input)\<rparr>"

text \<open>A new row before \<open>set_settlement\<close> fills it: the columns with a default.\<close>

definition blank_settlement :: "string \<Rightarrow> string \<Rightarrow> string \<Rightarrow> settlement" where
  "blank_settlement docId tenantId userId =
     \<lparr>st_id = docId, st_tenantId = tenantId, st_settlementNumber = [], st_direction = [], st_counterpartyType = [],
      st_counterpartyId = None, st_counterpartyName = None, st_cashbookAccountId = [], st_currency = [], st_amount = 0,
      st_cashAmount = 0, st_discountAmount = 0, st_totalSettlementAmount = 0, st_advanceCreatedAmount = 0,
      st_settlementDate = [], st_status = ''draft'', st_workflowStatus = ''draft'', st_postingStatus = ''unposted'',
      st_externalReference = None, st_memo = None, st_createdById = Some userId, st_version = 0\<rparr>"

definition settlement_day :: "(string \<Rightarrow> string option) \<Rightarrow> settlement_input \<Rightarrow> treasury_issue + string" where
  "settlement_day date input = (if sin_settlementDate input = [] then Inl (Issue SETTLEMENT_DATE_INVALID 422)
     else found_or (Issue SETTLEMENT_DATE_INVALID 422) (date (sin_settlementDate input)))"

definition createSettlement ::
  "(string \<Rightarrow> string \<Rightarrow> bool) \<Rightarrow> (string \<Rightarrow> string option) \<Rightarrow> 's treasury_tx \<Rightarrow> (nat \<Rightarrow> string) \<Rightarrow> auth_context
   \<Rightarrow> settlement_request \<Rightarrow> 's \<Rightarrow> 's treasury_result" where
  "createSettlement le date tx gen actor q s =
     (let t = ac_tenantId actor; input = normalizeSettlement le q; plan = settlementPlan tx s t input in
      and_then (tre_enforce (sep_issues plan)) (\<lambda>_.
      and_then (settlement_day date input) (\<lambda>day.
      and_then (settled_write (createRow (ttx_settlements tx) s
          (set_settlement input plan day (blank_settlement (gen 1) t (ac_userId actor))))) (\<lambda>s1.
      and_then (create_allocations tx gen 2 t (gen 1) input s1) (\<lambda>s2.
      and_then (assertDiscountPolicy actor (settlementPolicy tx t s2) (sep_discountAmount plan)) (\<lambda>_.
      and_then (link_allocations tx gen (2 + length (sin_allocations input)) t (gen 1)
          (settlement_allocations tx s2 (gen 1)) s2) (\<lambda>s3.
      Inr (s3, gen 1))))))))"

definition find_settlement ::
  "'s treasury_tx \<Rightarrow> string \<Rightarrow> string \<Rightarrow> 's \<Rightarrow> treasury_issue + settlement" where
  "find_settlement tx tenantId k s = found_or (Issue SETTLEMENT_NOT_FOUND 404)
     (findFirst (ttx_settlements tx) s (\<lambda>d. st_id d = k \<and> st_tenantId d = tenantId))"

definition reviseSettlement ::
  "(string \<Rightarrow> string \<Rightarrow> bool) \<Rightarrow> (string \<Rightarrow> string option) \<Rightarrow> 's treasury_tx \<Rightarrow> (nat \<Rightarrow> string) \<Rightarrow> auth_context
   \<Rightarrow> treasury_request \<Rightarrow> settlement_request \<Rightarrow> 's \<Rightarrow> 's treasury_result" where
  "reviseSettlement le date tx gen actor r q s =
     (let t = ac_tenantId actor; input = normalizeSettlement le q in
      and_then (tre_version SETTLEMENT_VERSION_INVALID (trq_expectedVersion r)) (\<lambda>version.
      and_then (find_settlement tx t (js_trim (trq_id r)) s) (\<lambda>current.
      and_then (fail_if (st_version current \<noteq> version) (Issue SYNC_VERSION_CONFLICT 409)) (\<lambda>_.
      and_then (fail_if (st_workflowStatus current \<notin> {''draft'', ''rejected''}) (Issue SETTLEMENT_NOT_REVISABLE 409)) (\<lambda>_.
      let plan = settlementPlan tx s t input in
      and_then (tre_enforce (sep_issues plan)) (\<lambda>_.
      and_then (assertDiscountPolicy actor (settlementPolicy tx t s) (sep_discountAmount plan)) (\<lambda>_.
      let s1 = deleteMany (ttx_allocations tx) s (\<lambda>a. sa_tenantId a = t \<and> sa_settlementId a = st_id current);
          s2 = deleteMany (ttx_links tx) s1 (\<lambda>l. of_settlement t (st_id current) l \<and> dl_status l = Some ''draft'')
      in and_then (create_allocations tx gen 1 t (st_id current) input s2) (\<lambda>s3.
      and_then (settlement_day date input) (\<lambda>day.
      and_then (settled_write (updateRow (ttx_settlements tx) s3 (st_id current)
          (\<lambda>d. (set_settlement input plan day d)\<lparr>st_workflowStatus := ''draft'', st_status := ''draft'',
             st_version := st_version d + 1\<rparr>))) (\<lambda>s4.
      and_then (link_allocations tx gen (1 + length (sin_allocations input)) t (st_id current)
          (findMany (ttx_allocations tx) s4 (\<lambda>a. sa_tenantId a = t \<and> sa_settlementId a = st_id current)) s4) (\<lambda>s5.
      Inr (s5, st_id current))))))))))))"

section \<open>Its workflow\<close>

datatype workflow_action = Do_submit | Do_approve | Do_reject | Do_cancel

fun action_from :: "workflow_action \<Rightarrow> string list" where
  "action_from Do_submit = [''draft'']"
| "action_from Do_approve = [''submitted'']"
| "action_from Do_reject = [''submitted'']"
| "action_from Do_cancel = [''draft'', ''submitted'']"

fun action_to :: "workflow_action \<Rightarrow> string" where
  "action_to Do_submit = ''submitted''"
| "action_to Do_approve = ''approved''"
| "action_to Do_reject = ''rejected''"
| "action_to Do_cancel = ''cancelled''"

definition workflowAction ::
  "'s treasury_tx \<Rightarrow> auth_context \<Rightarrow> workflow_action \<Rightarrow> treasury_request \<Rightarrow> 's \<Rightarrow> 's treasury_result" where
  "workflowAction tx actor act q s =
     (let t = ac_tenantId actor; reason = js_trim (trq_reason q) in
      and_then (tre_version SETTLEMENT_VERSION_INVALID (trq_expectedVersion q)) (\<lambda>version.
      and_then (find_settlement tx t (js_trim (trq_id q)) s) (\<lambda>current.
      and_then (fail_if (st_version current \<noteq> version) (Issue SYNC_VERSION_CONFLICT 409)) (\<lambda>_.
      and_then (fail_if (st_workflowStatus current \<notin> set (action_from act)) (Issue SETTLEMENT_WORKFLOW_CONFLICT 409)) (\<lambda>_.
      and_then (fail_if (act \<in> {Do_reject, Do_cancel} \<and> reason = []) (Issue SETTLEMENT_REASON_REQUIRED 422)) (\<lambda>_.
      and_then (fail_if (act = Do_approve \<and> st_createdById current = Some (ac_userId actor)
          \<and> tn_settlementSelfApprovalAllowed (settlementPolicy tx t s) \<noteq> Some True)
          (Issue SETTLEMENT_SELF_APPROVAL_BLOCKED 409)) (\<lambda>_.
      and_then (settled_write (updateRow (ttx_settlements tx) s (st_id current)
          (\<lambda>d. d\<lparr>st_workflowStatus := action_to act, st_status := (if act = Do_cancel then ''cancelled'' else st_status d),
             st_version := st_version d + 1\<rparr>))) (\<lambda>s1.
      and_then (mark_links tx t (st_id current) (action_to act) s1) (\<lambda>s2.
      Inr (s2, st_id current))))))))))"

section \<open>Posting\<close>

text \<open>The stored document as the input of the plan.\<close>

definition stored_allocation :: "settle_alloc \<Rightarrow> allocation_request" where
  "stored_allocation a =
     \<lparr>alq_obligationType = sa_obligationType a, alq_obligationId = sa_obligationId a, alq_payableObligationId = [],
      alq_receivableObligationId = [], alq_cashAppliedAmount = Some (outboundDecimalString (sa_cashAppliedAmount a)),
      alq_discountAmount = outboundDecimalString (sa_discountAmount a),
      alq_totalSettlementAmount = Some (outboundDecimalString (sa_totalSettlementAmount a)), alq_amount = None,
      alq_discountReason = (case sa_discountReason a of None \<Rightarrow> [] | Some r \<Rightarrow> r)\<rparr>"

definition stored_settlement :: "settlement \<Rightarrow> settle_alloc list \<Rightarrow> settlement_request" where
  "stored_settlement d as =
     \<lparr>stq_settlementNumber = st_settlementNumber d, stq_direction = st_direction d,
      stq_counterpartyType = st_counterpartyType d,
      stq_counterpartyId = (case st_counterpartyId d of None \<Rightarrow> [] | Some p \<Rightarrow> p),
      stq_cashbookAccountId = st_cashbookAccountId d, stq_currency = st_currency d,
      stq_amount = outboundDecimalString (st_amount d), stq_settlementDate = st_settlementDate d,
      stq_externalReference = (case st_externalReference d of None \<Rightarrow> [] | Some r \<Rightarrow> r),
      stq_memo = (case st_memo d of None \<Rightarrow> [] | Some r \<Rightarrow> r), stq_allocations = map stored_allocation as\<rparr>"

definition settlement_postable :: "bool \<Rightarrow> treasury_tenant \<Rightarrow> settlement \<Rightarrow> bool" where
  "settlement_postable workflowEnabled policy d =
     (if workflowEnabled
      then (if approval_required policy d then st_workflowStatus d = ''approved''
            else st_workflowStatus d \<in> {''draft'', ''approved''})
      else st_status d = ''draft'' \<and> st_workflowStatus d \<in> {''draft'', ''approved''})"

definition previewSettlement :: "(string \<Rightarrow> string \<Rightarrow> bool) \<Rightarrow> 's treasury_tx \<Rightarrow> auth_context \<Rightarrow> settlement_request \<Rightarrow> 's \<Rightarrow> settlement_plan" where
  "previewSettlement le tx actor q s = settlementPlan tx s (ac_tenantId actor) (normalizeSettlement le q)"

definition previewSettlementPosting ::
  "(string \<Rightarrow> string \<Rightarrow> bool) \<Rightarrow> bool \<Rightarrow> 's treasury_tx \<Rightarrow> auth_context \<Rightarrow> string \<Rightarrow> 's \<Rightarrow> treasury_issue + settlement_plan \<times> bool" where
  "previewSettlementPosting le workflowEnabled tx actor settlementId s =
     (let t = ac_tenantId actor in
      and_then (find_settlement tx t (js_trim settlementId) s) (\<lambda>d.
      let policy = settlementPolicy tx t s;
          allowed = (if workflowEnabled \<and> approval_required policy d then st_workflowStatus d = ''approved''
                     else st_workflowStatus d \<in> {''draft'', ''approved''})
      in Inr (settlementPlan tx s t (normalizeSettlement le (stored_settlement d (settlement_allocations tx s (st_id d)))), allowed)))"

definition obligation_model :: "'s treasury_tx \<Rightarrow> string \<Rightarrow> ('s, obligation) prisma_model" where
  "obligation_model tx ty = (if ty = ''payable'' then ttx_payables tx else ttx_receivables tx)"

definition set_outstanding :: "int \<Rightarrow> string \<Rightarrow> obligation \<Rightarrow> obligation" where
  "set_outstanding v status o1 = o1\<lparr>ob_outstandingAmount := v, ob_status := status, ob_version := ob_version o1 + 1\<rparr>"

definition post_allocation ::
  "'s treasury_tx \<Rightarrow> (string \<times> string \<times> obligation) list \<Rightarrow> settle_alloc \<Rightarrow> 's \<Rightarrow> treasury_issue + 's" where
  "post_allocation tx obligations a s =
     and_then (found_or (Issue TREASURY_UNCAUGHT 500)
         (map_of obligations (obligation_key (sa_obligationType a) (sa_obligationId a)))) (\<lambda>(_, o1).
     let next = ob_outstandingAmount o1 - sa_amount a
     in settled_write (updateRow (obligation_model tx (sa_obligationType a)) s (ob_id o1)
          (set_outstanding next (if next = 0 then ''settled'' else ''partially_settled''))))"

definition new_advance :: "string \<Rightarrow> string \<Rightarrow> settlement \<Rightarrow> partner_advance" where
  "new_advance advanceId tenantId d =
     (let supplier = (st_direction d = ''disbursement'')
      in \<lparr>pa_id = advanceId, pa_tenantId = tenantId, pa_advanceNumber = ''ADV-'' @ st_settlementNumber d,
          pa_advanceType = (if supplier then ''supplier_advance'' else ''customer_advance''),
          pa_supplierId = (if supplier then st_counterpartyId d else None),
          pa_customerId = (if st_direction d = ''receipt'' then st_counterpartyId d else None),
          pa_currency = st_currency d, pa_originalAmount = st_advanceCreatedAmount d, pa_appliedAmount = 0,
          pa_remainingAmount = st_advanceCreatedAmount d, pa_sourceSettlementId = st_id d, pa_status = ''open'',
          pa_version = 0\<rparr>)"

definition set_balance :: "int \<Rightarrow> cash_account \<Rightarrow> cash_account" where
  "set_balance v a = a\<lparr>ca_currentBalance := v, ca_version := ca_version a + 1\<rparr>"

definition settlement_entry ::
  "string \<Rightarrow> string \<Rightarrow> string \<Rightarrow> settlement \<Rightarrow> string \<Rightarrow> int \<Rightarrow> int \<Rightarrow> cash_entry" where
  "settlement_entry entryId batchId tenantId d accountId before after =
     \<lparr>ce_id = entryId, ce_tenantId = tenantId, ce_cashbookAccountId = accountId, ce_settlementId = Some (st_id d),
      ce_internalTransferId = None, ce_entryNumber = ''CB-'' @ st_settlementNumber d, ce_entryType = ''settlement'',
      ce_direction = (if st_direction d = ''receipt'' then ''inflow'' else ''outflow''), ce_amount = st_amount d,
      ce_currency = st_currency d, ce_balanceBefore = before, ce_balanceAfter = after, ce_postingBatchId = batchId,
      ce_reversalOfEntryId = None, ce_reversedByEntryId = None\<rparr>"

definition posted_settlement :: "settlement \<Rightarrow> settlement" where
  "posted_settlement d = d\<lparr>st_status := ''posted'', st_workflowStatus := ''posted'', st_postingStatus := ''posted'',
     st_version := st_version d + 1\<rparr>"

definition postSettlement ::
  "(string \<Rightarrow> string \<Rightarrow> bool) \<Rightarrow> bool \<Rightarrow> 's treasury_tx \<Rightarrow> (nat \<Rightarrow> string) \<Rightarrow> auth_context \<Rightarrow> treasury_request
   \<Rightarrow> 's \<Rightarrow> 's treasury_result" where
  "postSettlement le workflowEnabled tx gen actor q s =
     (let t = ac_tenantId actor in
      and_then (tre_version SETTLEMENT_VERSION_INVALID (trq_expectedVersion q)) (\<lambda>version.
      and_then (find_settlement tx t (js_trim (trq_id q)) s) (\<lambda>d.
      and_then (fail_if (st_version d \<noteq> version) (Issue SETTLEMENT_VERSION_CONFLICT 409)) (\<lambda>_.
      let policy = settlementPolicy tx t s; as = settlement_allocations tx s (st_id d) in
      and_then (fail_if (\<not> settlement_postable workflowEnabled policy d) (Issue SETTLEMENT_NOT_POSTABLE 409)) (\<lambda>_.
      and_then (fail_if (st_createdById d = Some (ac_userId actor) \<and> tn_settlementSelfPostingAllowed policy = Some False)
          (Issue SETTLEMENT_SELF_POSTING_BLOCKED 409)) (\<lambda>_.
      let plan = settlementPlan tx s t (normalizeSettlement le (stored_settlement d as)) in
      and_then (tre_enforce (sep_issues plan)) (\<lambda>_.
      and_then (found_or (Issue TREASURY_UNCAUGHT 500) (sep_account plan)) (\<lambda>account.
      let before = ca_currentBalance account;
          after = (if st_direction d = ''receipt'' then before + st_amount d else before - st_amount d)
      in and_then (fail_if (after < 0) (Issue CASHBOOK_INSUFFICIENT_BALANCE 409)) (\<lambda>_.
      and_then (each (post_allocation tx (sep_obligations plan)) as s) (\<lambda>s1.
      let advance = (st_advanceCreatedAmount d > 0); n = (if advance then 2 else 1) in
      and_then (if advance then settled_write (createRow (ttx_advances tx) s1 (new_advance (gen 1) t d)) else Inr s1) (\<lambda>s2.
      and_then (settled_write (updateRow (ttx_accounts tx) s2 (ca_id account) (set_balance after))) (\<lambda>s3.
      and_then (settled_write (createRow (ttx_entries tx) s3
          (settlement_entry (gen n) (gen (n + 1)) t d (ca_id account) before after))) (\<lambda>s4.
      and_then (settled_write (updateRow (ttx_settlements tx) s4 (st_id d) posted_settlement)) (\<lambda>s5.
      and_then (mark_links tx t (st_id d) ''posted'' s5) (\<lambda>s6.
      Inr (s6, st_id d))))))))))))))))"

section \<open>Reversing\<close>

text \<open>\<open>obligation.approvedCreditAmount || 0\<close> is the column, whose default is zero.\<close>

definition restore_obligation ::
  "'s treasury_tx \<Rightarrow> string \<Rightarrow> settle_alloc \<Rightarrow> 's \<Rightarrow> treasury_issue + 's" where
  "restore_obligation tx tenantId a s =
     (let m = obligation_model tx (sa_obligationType a); k = sa_obligationId a in
      and_then (found_or (Issue TREASURY_UNCAUGHT 500) (findFirst m s (\<lambda>o1. ob_id o1 = k \<and> ob_tenantId o1 = tenantId))) (\<lambda>o1.
      let maximum = ob_originalAmount o1 - ob_approvedCreditAmount o1;
          restored = ob_outstandingAmount o1 + sa_amount a
      in and_then (fail_if (restored > maximum) (Issue SETTLEMENT_REVERSAL_NOT_SAFE 409)) (\<lambda>_.
         settled_write (updateRow m s k (set_outstanding restored
           (if restored = maximum then (if sa_obligationType a = ''payable'' then ''approved'' else ''open'')
            else if restored = 0 then ''settled'' else ''partially_settled''))))))"

definition reversal_entry :: "string \<Rightarrow> string \<Rightarrow> string \<Rightarrow> settlement \<Rightarrow> cash_entry \<Rightarrow> string \<Rightarrow> int \<Rightarrow> int \<Rightarrow> cash_entry" where
  "reversal_entry entryId batchId tenantId d original accountId before after =
     \<lparr>ce_id = entryId, ce_tenantId = tenantId, ce_cashbookAccountId = accountId, ce_settlementId = Some (st_id d),
      ce_internalTransferId = None, ce_entryNumber = ce_entryNumber original @ ''-R'', ce_entryType = ''reversal'',
      ce_direction = (if ce_direction original = ''inflow'' then ''outflow'' else ''inflow''), ce_amount = st_amount d,
      ce_currency = ce_currency original, ce_balanceBefore = before, ce_balanceAfter = after, ce_postingBatchId = batchId,
      ce_reversalOfEntryId = Some (ce_id original), ce_reversedByEntryId = None\<rparr>"

definition reversed_settlement :: "settlement \<Rightarrow> settlement" where
  "reversed_settlement d = d\<lparr>st_status := ''reversed'', st_workflowStatus := ''reversed'', st_postingStatus := ''reversed'',
     st_version := st_version d + 1\<rparr>"

definition reverseSettlement ::
  "(string \<Rightarrow> string \<Rightarrow> bool) \<Rightarrow> 's treasury_tx \<Rightarrow> (nat \<Rightarrow> string) \<Rightarrow> auth_context \<Rightarrow> treasury_request
   \<Rightarrow> 's \<Rightarrow> 's treasury_result" where
  "reverseSettlement le tx gen actor q s =
     (let t = ac_tenantId actor in
      and_then (tre_version SETTLEMENT_VERSION_INVALID (trq_expectedVersion q)) (\<lambda>version.
      and_then (fail_if (js_trim (trq_reason q) = []) (Issue SETTLEMENT_REVERSAL_REASON_REQUIRED 422)) (\<lambda>_.
      and_then (find_settlement tx t (js_trim (trq_id q)) s) (\<lambda>d.
      and_then (fail_if (st_version d \<noteq> version) (Issue SETTLEMENT_VERSION_CONFLICT 409)) (\<lambda>_.
      and_then (fail_if (st_status d \<noteq> ''posted'') (Issue SETTLEMENT_NOT_REVERSIBLE 409)) (\<lambda>_.
      let advance = findFirst (ttx_advances tx) s (\<lambda>v. pa_tenantId v = t \<and> pa_sourceSettlementId v = st_id d) in
      and_then (fail_if (case advance of None \<Rightarrow> False | Some v \<Rightarrow> pa_appliedAmount v \<noteq> 0)
          (Issue SETTLEMENT_REVERSAL_NOT_SAFE 409)) (\<lambda>_.
      and_then (found_or (Issue SETTLEMENT_EVIDENCE_MISMATCH 409)
          (find (\<lambda>e. ce_entryType e = ''settlement'') (findMany (ttx_entries tx) s (\<lambda>e. ce_settlementId e = Some (st_id d))))) (\<lambda>original.
      and_then (fail_if (ce_reversedByEntryId original \<notin> {None, Some []}) (Issue SETTLEMENT_EVIDENCE_MISMATCH 409)) (\<lambda>_.
      and_then (found_or (Issue TREASURY_UNCAUGHT 500) (findFirst (ttx_accounts tx) s
          (\<lambda>a. ca_id a = st_cashbookAccountId d \<and> ca_tenantId a = t))) (\<lambda>account.
      let before = ca_currentBalance account;
          after = (if st_direction d = ''receipt'' then before - st_amount d else before + st_amount d)
      in and_then (fail_if (after < 0) (Issue SETTLEMENT_REVERSAL_NOT_SAFE 409)) (\<lambda>_.
      and_then (each (restore_obligation tx t)
          (js_sort (\<lambda>a b. le (sa_obligationId a) (sa_obligationId b)) (settlement_allocations tx s (st_id d))) s) (\<lambda>s1.
      and_then (settled_write (updateRow (ttx_accounts tx) s1 (ca_id account) (set_balance after))) (\<lambda>s2.
      and_then (settled_write (createRow (ttx_entries tx) s2
          (reversal_entry (gen 1) (gen 2) t d original (ca_id account) before after))) (\<lambda>s3.
      and_then (settled_write (updateRow (ttx_entries tx) s3 (ce_id original) (\<lambda>e. e\<lparr>ce_reversedByEntryId := Some (gen 1)\<rparr>))) (\<lambda>s4.
      and_then (case advance of None \<Rightarrow> Inr s4
          | Some v \<Rightarrow> settled_write (updateRow (ttx_advances tx) s4 (pa_id v)
              (\<lambda>v. v\<lparr>pa_status := ''reversed'', pa_version := pa_version v + 1\<rparr>))) (\<lambda>s5.
      and_then (settled_write (updateRow (ttx_settlements tx) s5 (st_id d) reversed_settlement)) (\<lambda>s6.
      and_then (mark_links tx t (st_id d) ''reversed'' s6) (\<lambda>s7.
      Inr (s7, st_id d)))))))))))))))))))"

end
