(* ===== verification/Advance_Service.thy ===== *)
theory Advance_Service
  imports Settlement_Service
begin

text \<open>
  The commands of \<open>advance-application-command-service.mjs\<close>: an advance that a settlement left with a
  partner is applied to a payable or a receivable of the same partner. Conventions as in
  \<open>Settlement_Service\<close>; here a refused write is uncaught.
\<close>

abbreviation treasury_write :: "'s option \<Rightarrow> treasury_issue + 's" where
  "treasury_write \<equiv> or_error (Issue TREASURY_UNCAUGHT 500)"

record application_request =
  apq_applicationNumber :: string
  apq_advanceId :: string
  apq_payableObligationId :: string
  apq_receivableObligationId :: string
  apq_appliedAmount :: string
  apq_currency :: string

text \<open>The facts of an application: the advance, the obligation, whether it is a payable, the amount.\<close>

definition resolveFacts ::
  "'s treasury_tx \<Rightarrow> string \<Rightarrow> string \<Rightarrow> string \<Rightarrow> string \<Rightarrow> string \<Rightarrow> 's
   \<Rightarrow> treasury_issue + partner_advance \<times> obligation \<times> bool \<times> int" where
  "resolveFacts tx tenantId advanceId payableObligationId receivableObligationId appliedAmount s =
     (let payableId = js_trim payableObligationId; receivableId = js_trim receivableObligationId; payable = (payableId \<noteq> []) in
      and_then (found_or (Issue ADVANCE_NOT_AVAILABLE 404) (findFirst (ttx_advances tx) s
          (\<lambda>v. pa_id v = js_trim advanceId \<and> pa_tenantId v = tenantId))) (\<lambda>advance.
      and_then (fail_if (pa_status advance = ''reversed'') (Issue ADVANCE_NOT_AVAILABLE 404)) (\<lambda>_.
      and_then (fail_if ((payableId \<noteq> []) = (receivableId \<noteq> [])) (Issue ADVANCE_APPLICATION_OBLIGATION_INVALID 422)) (\<lambda>_.
      and_then (found_or (Issue ADVANCE_APPLICATION_OBLIGATION_NOT_FOUND 404)
          (if payable then findFirst (ttx_payables tx) s (\<lambda>o1. ob_id o1 = payableId \<and> ob_tenantId o1 = tenantId)
           else findFirst (ttx_receivables tx) s (\<lambda>o1. ob_id o1 = receivableId \<and> ob_tenantId o1 = tenantId))) (\<lambda>o1.
      and_then (assertAdvanceApplicationEligibility o1 payable) (\<lambda>_.
      and_then (fail_if (ob_currency o1 \<noteq> pa_currency advance) (Issue ADVANCE_APPLICATION_CURRENCY_MISMATCH 409)) (\<lambda>_.
      and_then (fail_if (if payable then pa_advanceType advance \<noteq> ''supplier_advance'' \<or> pa_supplierId advance \<noteq> ob_partnerId o1
             else pa_advanceType advance \<noteq> ''customer_advance'' \<or> pa_customerId advance \<noteq> ob_partnerId o1)
          (Issue ADVANCE_APPLICATION_PARTNER_MISMATCH 409)) (\<lambda>_.
      and_then (case outboundDecimalUnits (Some appliedAmount) of
            Inl _ \<Rightarrow> Inl (Issue ADVANCE_APPLICATION_AMOUNT_INVALID 422) | Inr u \<Rightarrow> Inr u) (\<lambda>amount.
      and_then (fail_if (amount \<le> 0 \<or> amount > pa_remainingAmount advance \<or> amount > ob_outstandingAmount o1)
          (Issue ADVANCE_APPLICATION_AMOUNT_INVALID 409)) (\<lambda>_.
      Inr (advance, o1, payable, amount)))))))))))"

text \<open>\<open>resolveFacts(tx, tenantId, row)\<close> of a stored application.\<close>

definition stored_facts ::
  "'s treasury_tx \<Rightarrow> string \<Rightarrow> advance_application \<Rightarrow> 's \<Rightarrow> treasury_issue + partner_advance \<times> obligation \<times> bool \<times> int" where
  "stored_facts tx tenantId a s =
     resolveFacts tx tenantId (aa_advanceId a) (case aa_payableObligationId a of None \<Rightarrow> [] | Some k \<Rightarrow> k)
       (case aa_receivableObligationId a of None \<Rightarrow> [] | Some k \<Rightarrow> k) (column_text (Some (aa_appliedAmount a))) s"

definition createAdvanceApplication ::
  "'s treasury_tx \<Rightarrow> (nat \<Rightarrow> string) \<Rightarrow> auth_context \<Rightarrow> application_request \<Rightarrow> 's \<Rightarrow> 's treasury_result" where
  "createAdvanceApplication tx gen actor q s =
     (let t = ac_tenantId actor; number = js_trim (apq_applicationNumber q); currency = js_upper (js_trim (apq_currency q)) in
      and_then (fail_if (number = []) (Issue ADVANCE_APPLICATION_NUMBER_REQUIRED 422)) (\<lambda>_.
      and_then (resolveFacts tx t (js_trim (apq_advanceId q)) (js_trim (apq_payableObligationId q))
          (js_trim (apq_receivableObligationId q)) (js_trim (apq_appliedAmount q)) s) (\<lambda>(advance, o1, payable, amount).
      and_then (fail_if (currency \<noteq> [] \<and> currency \<noteq> pa_currency advance) (Issue ADVANCE_APPLICATION_CURRENCY_MISMATCH 409)) (\<lambda>_.
      and_then (treasury_write (createRow (ttx_applications tx) s
          \<lparr>aa_id = gen 1, aa_tenantId = t, aa_applicationNumber = number, aa_advanceId = pa_id advance,
           aa_payableObligationId = null_if_empty (js_trim (apq_payableObligationId q)),
           aa_receivableObligationId = null_if_empty (js_trim (apq_receivableObligationId q)),
           aa_appliedAmount = amount, aa_currency = pa_currency advance, aa_workflowStatus = ''draft'',
           aa_postingStatus = ''unposted'', aa_createdById = Some (ac_userId actor), aa_version = 0\<rparr>)) (\<lambda>s1.
      Inr (s1, gen 1))))))"

definition find_application ::
  "'s treasury_tx \<Rightarrow> string \<Rightarrow> string \<Rightarrow> int \<Rightarrow> 's \<Rightarrow> treasury_issue + advance_application" where
  "find_application tx tenantId k version s =
     and_then (found_or (Issue ADVANCE_APPLICATION_NOT_FOUND 404)
       (findFirst (ttx_applications tx) s (\<lambda>a. aa_id a = k \<and> aa_tenantId a = tenantId))) (\<lambda>a.
     and_then (fail_if (aa_version a \<noteq> version) (Issue SYNC_VERSION_CONFLICT 409)) (\<lambda>_. Inr a))"

text \<open>\<open>approve\<close> tells \<open>approve\<close> from \<open>submit\<close>.\<close>

definition advanceWorkflow ::
  "'s treasury_tx \<Rightarrow> auth_context \<Rightarrow> bool \<Rightarrow> treasury_request \<Rightarrow> 's \<Rightarrow> 's treasury_result" where
  "advanceWorkflow tx actor approve q s =
     (let t = ac_tenantId actor in
      and_then (tre_version ADVANCE_VERSION_INVALID (trq_expectedVersion q)) (\<lambda>version.
      and_then (find_application tx t (js_trim (trq_id q)) version s) (\<lambda>a.
      and_then (fail_if (aa_workflowStatus a \<noteq> (if approve then ''submitted'' else ''draft''))
          (Issue ADVANCE_APPLICATION_WORKFLOW_CONFLICT 409)) (\<lambda>_.
      and_then (stored_facts tx t a s) (\<lambda>_.
      and_then (fail_if (approve \<and> aa_createdById a = Some (ac_userId actor)) (Issue ADVANCE_APPLICATION_SELF_APPROVAL_BLOCKED 409)) (\<lambda>_.
      and_then (treasury_write (updateRow (ttx_applications tx) s (aa_id a)
          (\<lambda>r. r\<lparr>aa_workflowStatus := (if approve then ''approved'' else ''submitted''), aa_version := aa_version r + 1\<rparr>))) (\<lambda>s1.
      Inr (s1, aa_id a))))))))"

definition derive_status :: "bool \<Rightarrow> obligation \<Rightarrow> int \<Rightarrow> string" where
  "derive_status payable = (if payable then derivePayableSettlementStatus else deriveReceivableSettlementStatus)"

definition set_advance :: "int \<Rightarrow> int \<Rightarrow> string \<Rightarrow> partner_advance \<Rightarrow> partner_advance" where
  "set_advance remaining applied status v = v\<lparr>pa_remainingAmount := remaining, pa_appliedAmount := applied,
     pa_status := status, pa_version := pa_version v + 1\<rparr>"

definition set_application :: "string \<Rightarrow> advance_application \<Rightarrow> advance_application" where
  "set_application status a = a\<lparr>aa_workflowStatus := status, aa_postingStatus := status, aa_version := aa_version a + 1\<rparr>"

definition is_payable :: "advance_application \<Rightarrow> bool" where
  "is_payable a \<longleftrightarrow> aa_payableObligationId a \<notin> {None, Some []}"

definition application_model :: "'s treasury_tx \<Rightarrow> advance_application \<Rightarrow> ('s, obligation) prisma_model" where
  "application_model tx a = (if is_payable a then ttx_payables tx else ttx_receivables tx)"

definition postAdvanceApplication ::
  "'s treasury_tx \<Rightarrow> auth_context \<Rightarrow> treasury_request \<Rightarrow> 's \<Rightarrow> 's treasury_result" where
  "postAdvanceApplication tx actor q s =
     (let t = ac_tenantId actor in
      and_then (tre_version ADVANCE_VERSION_INVALID (trq_expectedVersion q)) (\<lambda>version.
      and_then (find_application tx t (js_trim (trq_id q)) version s) (\<lambda>a.
      and_then (fail_if (aa_workflowStatus a \<noteq> ''approved'' \<or> aa_postingStatus a \<noteq> ''unposted'')
          (Issue ADVANCE_APPLICATION_NOT_POSTABLE 409)) (\<lambda>_.
      and_then (stored_facts tx t a s) (\<lambda>(advance, o1, payable, amount).
      let remaining = pa_remainingAmount advance - amount; outstanding = ob_outstandingAmount o1 - amount in
      and_then (treasury_write (updateRow (ttx_advances tx) s (pa_id advance)
          (set_advance remaining (pa_appliedAmount advance + amount)
             (if remaining = 0 then ''fully_applied'' else ''partially_applied'')))) (\<lambda>s1.
      and_then (treasury_write (updateRow (application_model tx a) s1 (aa_obligationId a)
          (set_outstanding outstanding (derive_status (is_payable a) o1 outstanding)))) (\<lambda>s2.
      and_then (treasury_write (updateRow (ttx_applications tx) s2 (aa_id a) (set_application ''posted''))) (\<lambda>s3.
      Inr (s3, aa_id a)))))))))"

definition reverseAdvanceApplication ::
  "'s treasury_tx \<Rightarrow> auth_context \<Rightarrow> treasury_request \<Rightarrow> 's \<Rightarrow> 's treasury_result" where
  "reverseAdvanceApplication tx actor q s =
     (let t = ac_tenantId actor in
      and_then (tre_version ADVANCE_VERSION_INVALID (trq_expectedVersion q)) (\<lambda>version.
      and_then (fail_if (js_trim (trq_reason q) = []) (Issue ADVANCE_APPLICATION_REVERSAL_REASON_REQUIRED 422)) (\<lambda>_.
      and_then (find_application tx t (js_trim (trq_id q)) version s) (\<lambda>a.
      and_then (fail_if (aa_postingStatus a \<noteq> ''posted'') (Issue ADVANCE_APPLICATION_NOT_REVERSIBLE 409)) (\<lambda>_.
      and_then (found_or (Issue TREASURY_UNCAUGHT 500) (findFirst (ttx_advances tx) s
          (\<lambda>v. pa_id v = aa_advanceId a \<and> pa_tenantId v = t))) (\<lambda>advance.
      and_then (found_or (Issue TREASURY_UNCAUGHT 500) (findFirst (application_model tx a) s
          (\<lambda>o1. ob_id o1 = aa_obligationId a \<and> ob_tenantId o1 = t))) (\<lambda>o1.
      let amount = aa_appliedAmount a;
          restoredAdvance = pa_remainingAmount advance + amount; restoredOutstanding = ob_outstandingAmount o1 + amount
      in and_then (fail_if (restoredAdvance > pa_originalAmount advance
             \<or> restoredOutstanding > ob_originalAmount o1 - ob_approvedCreditAmount o1)
          (Issue ADVANCE_APPLICATION_REVERSAL_NOT_SAFE 409)) (\<lambda>_.
      and_then (treasury_write (updateRow (ttx_advances tx) s (pa_id advance)
          (set_advance restoredAdvance (pa_appliedAmount advance - amount)
             (if restoredAdvance = pa_originalAmount advance then ''open'' else ''partially_applied'')))) (\<lambda>s1.
      and_then (treasury_write (updateRow (application_model tx a) s1 (ob_id o1)
          (set_outstanding restoredOutstanding (derive_status (is_payable a) o1 restoredOutstanding)))) (\<lambda>s2.
      and_then (treasury_write (updateRow (ttx_applications tx) s2 (aa_id a) (set_application ''reversed''))) (\<lambda>s3.
      Inr (s3, aa_id a))))))))))))"

end
