(* ===== verification/Transfer_Service.thy ===== *)
theory Transfer_Service
  imports Advance_Service
begin

text \<open>
  The commands of \<open>internal-transfer-command-service.mjs\<close>: cash moved between two accounts of the
  cashbook. Conventions as in \<open>Settlement_Service\<close>; a refused write is uncaught.
\<close>

record transfer_request =
  tfq_transferNumber :: string
  tfq_fromCashbookAccountId :: string
  tfq_toCashbookAccountId :: string
  tfq_currency :: string
  tfq_amount :: string
  tfq_transferDate :: string
  tfq_externalReference :: string
  tfq_memo :: string

definition normalize_transfer :: "transfer_request \<Rightarrow> transfer_request" where
  "normalize_transfer q =
     \<lparr>tfq_transferNumber = js_trim (tfq_transferNumber q), tfq_fromCashbookAccountId = js_trim (tfq_fromCashbookAccountId q),
      tfq_toCashbookAccountId = js_trim (tfq_toCashbookAccountId q), tfq_currency = js_upper (js_trim (tfq_currency q)),
      tfq_amount = js_trim (tfq_amount q), tfq_transferDate = js_trim (tfq_transferDate q),
      tfq_externalReference = js_trim (tfq_externalReference q), tfq_memo = js_trim (tfq_memo q)\<rparr>"

text \<open>The amount, and the two accounts as the map by identifier.\<close>

definition validate_transfer ::
  "'s treasury_tx \<Rightarrow> string \<Rightarrow> transfer_request \<Rightarrow> 's \<Rightarrow> treasury_issue + int \<times> (string \<times> cash_account) list" where
  "validate_transfer tx tenantId v s =
     and_then (fail_if (tfq_transferNumber v = [] \<or> tfq_fromCashbookAccountId v = [] \<or> tfq_toCashbookAccountId v = [])
         (Issue TRANSFER_REQUIRED_FIELDS 422)) (\<lambda>_.
     and_then (fail_if (tfq_fromCashbookAccountId v = tfq_toCashbookAccountId v) (Issue TRANSFER_SAME_ACCOUNT 422)) (\<lambda>_.
     and_then (case outboundDecimalUnits (Some (tfq_amount v)) of
         Inl _ \<Rightarrow> Inl (Issue TRANSFER_AMOUNT_INVALID 422) | Inr u \<Rightarrow> Inr u) (\<lambda>amount.
     and_then (fail_if (amount \<le> 0) (Issue TRANSFER_AMOUNT_INVALID 422)) (\<lambda>_.
     let accounts = findMany (ttx_accounts tx) s (\<lambda>a. ca_tenantId a = tenantId
           \<and> ca_id a \<in> {tfq_fromCashbookAccountId v, tfq_toCashbookAccountId v} \<and> ca_status a = ''active'')
     in and_then (fail_if (length accounts \<noteq> 2) (Issue TRANSFER_ACCOUNT_NOT_AVAILABLE 404)) (\<lambda>_.
        and_then (fail_if (list_ex (\<lambda>a. ca_currency a \<noteq> tfq_currency v) accounts) (Issue TRANSFER_CURRENCY_MISMATCH 409)) (\<lambda>_.
        Inr (amount, map (\<lambda>a. (ca_id a, a)) accounts)))))))"

definition previewInternalTransferPosting ::
  "'s treasury_tx \<Rightarrow> auth_context \<Rightarrow> transfer_request \<Rightarrow> 's \<Rightarrow> treasury_issue + int" where
  "previewInternalTransferPosting tx actor q s =
     and_then (validate_transfer tx (ac_tenantId actor) (normalize_transfer q) s) (\<lambda>(amount, _). Inr amount)"

definition transfer_day :: "(string \<Rightarrow> string option) \<Rightarrow> transfer_request \<Rightarrow> treasury_issue + string" where
  "transfer_day date v = (if tfq_transferDate v = [] then Inl (Issue TRANSFER_DATE_INVALID 422)
     else found_or (Issue TRANSFER_DATE_INVALID 422) (date (tfq_transferDate v)))"

definition set_transfer :: "transfer_request \<Rightarrow> int \<Rightarrow> string \<Rightarrow> internal_transfer \<Rightarrow> internal_transfer" where
  "set_transfer v amount day r = r\<lparr>tr_transferNumber := tfq_transferNumber v,
     tr_fromCashbookAccountId := tfq_fromCashbookAccountId v, tr_toCashbookAccountId := tfq_toCashbookAccountId v,
     tr_currency := tfq_currency v, tr_amount := amount, tr_transferDate := day,
     tr_externalReference := null_if_empty (tfq_externalReference v), tr_memo := null_if_empty (tfq_memo v)\<rparr>"

text \<open>A new row before \<open>set_transfer\<close> fills it: the columns with a default.\<close>

definition blank_transfer :: "string \<Rightarrow> string \<Rightarrow> string \<Rightarrow> internal_transfer" where
  "blank_transfer docId tenantId userId =
     \<lparr>tr_id = docId, tr_tenantId = tenantId, tr_transferNumber = [], tr_fromCashbookAccountId = [],
      tr_toCashbookAccountId = [], tr_currency = [], tr_amount = 0, tr_transferDate = [], tr_externalReference = None,
      tr_memo = None, tr_workflowStatus = ''draft'', tr_postingStatus = ''unposted'', tr_createdById = Some userId,
      tr_version = 0\<rparr>"

definition createInternalTransfer ::
  "(string \<Rightarrow> string option) \<Rightarrow> 's treasury_tx \<Rightarrow> (nat \<Rightarrow> string) \<Rightarrow> auth_context \<Rightarrow> transfer_request \<Rightarrow> 's \<Rightarrow> 's treasury_result" where
  "createInternalTransfer date tx gen actor q s =
     (let t = ac_tenantId actor; v = normalize_transfer q in
      and_then (validate_transfer tx t v s) (\<lambda>(amount, _).
      and_then (transfer_day date v) (\<lambda>day.
      and_then (treasury_write (createRow (ttx_transfers tx) s
          (set_transfer v amount day (blank_transfer (gen 1) t (ac_userId actor))))) (\<lambda>s1.
      Inr (s1, gen 1)))))"

definition find_transfer :: "'s treasury_tx \<Rightarrow> string \<Rightarrow> string \<Rightarrow> int \<Rightarrow> 's \<Rightarrow> treasury_issue + internal_transfer" where
  "find_transfer tx tenantId k version s =
     and_then (found_or (Issue treasury_code.TRANSFER_NOT_FOUND 404)
       (findFirst (ttx_transfers tx) s (\<lambda>r. tr_id r = k \<and> tr_tenantId r = tenantId))) (\<lambda>r.
     and_then (fail_if (tr_version r \<noteq> version) (Issue SYNC_VERSION_CONFLICT 409)) (\<lambda>_. Inr r))"

definition reviseInternalTransfer ::
  "(string \<Rightarrow> string option) \<Rightarrow> 's treasury_tx \<Rightarrow> auth_context \<Rightarrow> treasury_request \<Rightarrow> transfer_request \<Rightarrow> 's \<Rightarrow> 's treasury_result" where
  "reviseInternalTransfer date tx actor r q s =
     (let t = ac_tenantId actor; v = normalize_transfer q in
      and_then (tre_version TRANSFER_VERSION_INVALID (trq_expectedVersion r)) (\<lambda>version.
      and_then (find_transfer tx t (js_trim (trq_id r)) version s) (\<lambda>current.
      and_then (fail_if (tr_workflowStatus current \<notin> {''draft'', ''rejected''}) (Issue TRANSFER_NOT_REVISABLE 409)) (\<lambda>_.
      and_then (validate_transfer tx t v s) (\<lambda>(amount, _).
      and_then (transfer_day date v) (\<lambda>day.
      and_then (treasury_write (updateRow (ttx_transfers tx) s (tr_id current)
          (\<lambda>r. (set_transfer v amount day r)\<lparr>tr_workflowStatus := ''draft'', tr_version := tr_version r + 1\<rparr>))) (\<lambda>s1.
      Inr (s1, tr_id current))))))))"

definition transferAction ::
  "'s treasury_tx \<Rightarrow> auth_context \<Rightarrow> workflow_action \<Rightarrow> treasury_request \<Rightarrow> 's \<Rightarrow> 's treasury_result" where
  "transferAction tx actor act q s =
     (let t = ac_tenantId actor in
      and_then (tre_version TRANSFER_VERSION_INVALID (trq_expectedVersion q)) (\<lambda>version.
      and_then (find_transfer tx t (js_trim (trq_id q)) version s) (\<lambda>current.
      and_then (fail_if (tr_workflowStatus current \<notin> set (action_from act)) (Issue TRANSFER_WORKFLOW_CONFLICT 409)) (\<lambda>_.
      and_then (fail_if (act \<in> {Do_reject, Do_cancel} \<and> js_trim (trq_reason q) = []) (Issue TRANSFER_REASON_REQUIRED 422)) (\<lambda>_.
      and_then (fail_if (act = Do_approve \<and> tr_createdById current = Some (ac_userId actor))
          (Issue TRANSFER_SELF_APPROVAL_BLOCKED 409)) (\<lambda>_.
      and_then (treasury_write (updateRow (ttx_transfers tx) s (tr_id current)
          (\<lambda>r. r\<lparr>tr_workflowStatus := action_to act, tr_version := tr_version r + 1\<rparr>))) (\<lambda>s1.
      Inr (s1, tr_id current))))))))"

definition stored_transfer :: "internal_transfer \<Rightarrow> transfer_request" where
  "stored_transfer r =
     \<lparr>tfq_transferNumber = tr_transferNumber r, tfq_fromCashbookAccountId = tr_fromCashbookAccountId r,
      tfq_toCashbookAccountId = tr_toCashbookAccountId r, tfq_currency = tr_currency r,
      tfq_amount = outboundDecimalString (tr_amount r), tfq_transferDate = tr_transferDate r,
      tfq_externalReference = (case tr_externalReference r of None \<Rightarrow> [] | Some t \<Rightarrow> t),
      tfq_memo = (case tr_memo r of None \<Rightarrow> [] | Some t \<Rightarrow> t)\<rparr>"

definition transfer_entry ::
  "string \<Rightarrow> string \<Rightarrow> string \<Rightarrow> internal_transfer \<Rightarrow> string \<Rightarrow> string \<Rightarrow> string \<Rightarrow> string \<Rightarrow> int \<Rightarrow> int \<Rightarrow> string option \<Rightarrow> cash_entry" where
  "transfer_entry entryId batchId tenantId r accountId number entryType direction before after original =
     \<lparr>ce_id = entryId, ce_tenantId = tenantId, ce_cashbookAccountId = accountId, ce_settlementId = None,
      ce_internalTransferId = Some (tr_id r), ce_entryNumber = number, ce_entryType = entryType, ce_direction = direction,
      ce_amount = tr_amount r, ce_currency = tr_currency r, ce_balanceBefore = before, ce_balanceAfter = after,
      ce_postingBatchId = batchId, ce_reversalOfEntryId = original, ce_reversedByEntryId = None\<rparr>"

definition set_transfer_status :: "string \<Rightarrow> internal_transfer \<Rightarrow> internal_transfer" where
  "set_transfer_status status r = r\<lparr>tr_workflowStatus := status, tr_postingStatus := status, tr_version := tr_version r + 1\<rparr>"

definition postInternalTransfer ::
  "'s treasury_tx \<Rightarrow> (nat \<Rightarrow> string) \<Rightarrow> auth_context \<Rightarrow> treasury_request \<Rightarrow> 's \<Rightarrow> 's treasury_result" where
  "postInternalTransfer tx gen actor q s =
     (let t = ac_tenantId actor in
      and_then (tre_version TRANSFER_VERSION_INVALID (trq_expectedVersion q)) (\<lambda>version.
      and_then (find_transfer tx t (js_trim (trq_id q)) version s) (\<lambda>r.
      and_then (fail_if (tr_workflowStatus r \<noteq> ''approved'' \<or> tr_postingStatus r \<noteq> ''unposted'') (Issue TRANSFER_NOT_POSTABLE 409)) (\<lambda>_.
      and_then (validate_transfer tx t (stored_transfer r) s) (\<lambda>(amount, accounts).
      and_then (found_or (Issue TREASURY_UNCAUGHT 500) (map_of accounts (tr_fromCashbookAccountId r))) (\<lambda>from1.
      and_then (found_or (Issue TREASURY_UNCAUGHT 500) (map_of accounts (tr_toCashbookAccountId r))) (\<lambda>to1.
      let fromBefore = ca_currentBalance from1; toBefore = ca_currentBalance to1 in
      and_then (fail_if (fromBefore < amount) (Issue CASHBOOK_INSUFFICIENT_BALANCE 409)) (\<lambda>_.
      and_then (treasury_write (createRow (ttx_entries tx) s
          (transfer_entry (gen 2) (gen 1) t r (ca_id from1) (''CB-'' @ tr_transferNumber r @ ''-OUT'') ''transfer_out'' ''outflow''
             fromBefore (fromBefore - amount) None))) (\<lambda>s1.
      and_then (treasury_write (createRow (ttx_entries tx) s1
          (transfer_entry (gen 3) (gen 1) t r (ca_id to1) (''CB-'' @ tr_transferNumber r @ ''-IN'') ''transfer_in'' ''inflow''
             toBefore (toBefore + amount) None))) (\<lambda>s2.
      and_then (treasury_write (updateRow (ttx_accounts tx) s2 (ca_id from1) (set_balance (fromBefore - amount)))) (\<lambda>s3.
      and_then (treasury_write (updateRow (ttx_accounts tx) s3 (ca_id to1) (set_balance (toBefore + amount)))) (\<lambda>s4.
      and_then (treasury_write (updateRow (ttx_transfers tx) s4 (tr_id r) (set_transfer_status ''posted''))) (\<lambda>s5.
      Inr (s5, tr_id r))))))))))))))"

definition reverseInternalTransfer ::
  "'s treasury_tx \<Rightarrow> (nat \<Rightarrow> string) \<Rightarrow> auth_context \<Rightarrow> treasury_request \<Rightarrow> 's \<Rightarrow> 's treasury_result" where
  "reverseInternalTransfer tx gen actor q s =
     (let t = ac_tenantId actor in
      and_then (tre_version TRANSFER_VERSION_INVALID (trq_expectedVersion q)) (\<lambda>version.
      and_then (fail_if (js_trim (trq_reason q) = []) (Issue TRANSFER_REVERSAL_REASON_REQUIRED 422)) (\<lambda>_.
      and_then (find_transfer tx t (js_trim (trq_id q)) version s) (\<lambda>r.
      and_then (fail_if (tr_postingStatus r \<noteq> ''posted'') (Issue TRANSFER_NOT_REVERSIBLE 409)) (\<lambda>_.
      let accounts = map (\<lambda>a. (ca_id a, a)) (findMany (ttx_accounts tx) s (\<lambda>a. ca_tenantId a = t
            \<and> ca_id a \<in> {tr_fromCashbookAccountId r, tr_toCashbookAccountId r}));
          entries = findMany (ttx_entries tx) s (\<lambda>e. ce_internalTransferId e = Some (tr_id r))
      in and_then (found_or (Issue TRANSFER_EVIDENCE_MISMATCH 409) (find (\<lambda>e. ce_entryType e = ''transfer_out'') entries)) (\<lambda>originalOut.
      and_then (found_or (Issue TRANSFER_EVIDENCE_MISMATCH 409) (find (\<lambda>e. ce_entryType e = ''transfer_in'') entries)) (\<lambda>originalIn.
      and_then (fail_if (ce_reversedByEntryId originalOut \<notin> {None, Some []} \<or> ce_reversedByEntryId originalIn \<notin> {None, Some []})
          (Issue TRANSFER_EVIDENCE_MISMATCH 409)) (\<lambda>_.
      and_then (found_or (Issue TREASURY_UNCAUGHT 500) (map_of accounts (tr_fromCashbookAccountId r))) (\<lambda>from1.
      and_then (found_or (Issue TREASURY_UNCAUGHT 500) (map_of accounts (tr_toCashbookAccountId r))) (\<lambda>to1.
      let amount = tr_amount r; fromBefore = ca_currentBalance from1; toBefore = ca_currentBalance to1 in
      and_then (fail_if (toBefore < amount) (Issue TRANSFER_REVERSAL_NOT_SAFE 409)) (\<lambda>_.
      and_then (treasury_write (createRow (ttx_entries tx) s
          (transfer_entry (gen 2) (gen 1) t r (ca_id from1) (ce_entryNumber originalOut @ ''-R'') ''transfer_reversal_out'' ''inflow''
             fromBefore (fromBefore + amount) (Some (ce_id originalOut))))) (\<lambda>s1.
      and_then (treasury_write (createRow (ttx_entries tx) s1
          (transfer_entry (gen 3) (gen 1) t r (ca_id to1) (ce_entryNumber originalIn @ ''-R'') ''transfer_reversal_in'' ''outflow''
             toBefore (toBefore - amount) (Some (ce_id originalIn))))) (\<lambda>s2.
      and_then (treasury_write (updateRow (ttx_entries tx) s2 (ce_id originalOut) (\<lambda>e. e\<lparr>ce_reversedByEntryId := Some (gen 2)\<rparr>))) (\<lambda>s3.
      and_then (treasury_write (updateRow (ttx_entries tx) s3 (ce_id originalIn) (\<lambda>e. e\<lparr>ce_reversedByEntryId := Some (gen 3)\<rparr>))) (\<lambda>s4.
      and_then (treasury_write (updateRow (ttx_accounts tx) s4 (ca_id from1) (set_balance (fromBefore + amount)))) (\<lambda>s5.
      and_then (treasury_write (updateRow (ttx_accounts tx) s5 (ca_id to1) (set_balance (toBefore - amount)))) (\<lambda>s6.
      and_then (treasury_write (updateRow (ttx_transfers tx) s6 (tr_id r) (set_transfer_status ''reversed''))) (\<lambda>s7.
      Inr (s7, tr_id r)))))))))))))))))))"

section \<open>The commands of the treasury\<close>

datatype treasury_command =
    Create_account account_request
  | Create_settlement settlement_request
  | Revise_settlement treasury_request settlement_request
  | Act_on_settlement workflow_action treasury_request
  | Post_settlement treasury_request
  | Reverse_settlement treasury_request
  | Create_application application_request
  | Advance_application bool treasury_request
  | Post_application treasury_request
  | Reverse_application treasury_request
  | Create_transfer transfer_request
  | Revise_transfer treasury_request transfer_request
  | Act_on_transfer workflow_action treasury_request
  | Post_transfer treasury_request
  | Reverse_transfer treasury_request

text \<open>What the services are created with: the order of texts, the dates, the workflow flag of \<open>env\<close>.\<close>

record treasury_env =
  tve_le :: "string \<Rightarrow> string \<Rightarrow> bool"
  tve_date :: "string \<Rightarrow> string option"
  tve_workflowEnabled :: bool

fun run_treasury ::
  "treasury_env \<Rightarrow> 's treasury_tx \<Rightarrow> (nat \<Rightarrow> string) \<Rightarrow> auth_context \<Rightarrow> treasury_command \<Rightarrow> 's \<Rightarrow> 's treasury_result" where
  "run_treasury env tx gen actor (Create_account q) s = createCashbookAccount tx gen actor q s"
| "run_treasury env tx gen actor (Create_settlement q) s = createSettlement (tve_le env) (tve_date env) tx gen actor q s"
| "run_treasury env tx gen actor (Revise_settlement r q) s = reviseSettlement (tve_le env) (tve_date env) tx gen actor r q s"
| "run_treasury env tx gen actor (Act_on_settlement act q) s = workflowAction tx actor act q s"
| "run_treasury env tx gen actor (Post_settlement q) s = postSettlement (tve_le env) (tve_workflowEnabled env) tx gen actor q s"
| "run_treasury env tx gen actor (Reverse_settlement q) s = reverseSettlement (tve_le env) tx gen actor q s"
| "run_treasury env tx gen actor (Create_application q) s = createAdvanceApplication tx gen actor q s"
| "run_treasury env tx gen actor (Advance_application approve q) s = advanceWorkflow tx actor approve q s"
| "run_treasury env tx gen actor (Post_application q) s = postAdvanceApplication tx actor q s"
| "run_treasury env tx gen actor (Reverse_application q) s = reverseAdvanceApplication tx actor q s"
| "run_treasury env tx gen actor (Create_transfer q) s = createInternalTransfer (tve_date env) tx gen actor q s"
| "run_treasury env tx gen actor (Revise_transfer r q) s = reviseInternalTransfer (tve_date env) tx actor r q s"
| "run_treasury env tx gen actor (Act_on_transfer act q) s = transferAction tx actor act q s"
| "run_treasury env tx gen actor (Post_transfer q) s = postInternalTransfer tx gen actor q s"
| "run_treasury env tx gen actor (Reverse_transfer q) s = reverseInternalTransfer tx gen actor q s"

end
