(* ===== verification/Treasury_Store.thy ===== *)
theory Treasury_Store
  imports Transfer_Service
begin

text \<open>
  What the treasury commands rely on of their database: each model of \<open>treasury_tx\<close> is a table of one
  state, with the unique indexes of \<open>prisma/schema.prisma\<close>. The database made of lists satisfies it.
  The index of \<open>SettlementAllocation\<close> never applies, since one of its columns is always null.
\<close>

record try_tables =
  tt_accounts :: "cash_account list"
  tt_entries :: "cash_entry list"
  tt_settlements :: "settlement list"
  tt_allocations :: "settle_alloc list"
  tt_payables :: "obligation list"
  tt_receivables :: "obligation list"
  tt_links :: "document_link list"
  tt_advances :: "partner_advance list"
  tt_applications :: "advance_application list"
  tt_transfers :: "internal_transfer list"
  tt_tenants :: "treasury_tenant list"

section \<open>Unique indexes\<close>

definition account_clash :: "cash_account \<Rightarrow> cash_account \<Rightarrow> bool" where
  "account_clash a b \<longleftrightarrow> ca_id a = ca_id b \<or> ca_tenantId a = ca_tenantId b \<and> ca_accountCode a = ca_accountCode b"

definition entry_clash :: "cash_entry \<Rightarrow> cash_entry \<Rightarrow> bool" where
  "entry_clash a b \<longleftrightarrow> ce_id a = ce_id b
     \<or> ce_tenantId a = ce_tenantId b \<and> ce_entryNumber a = ce_entryNumber b
     \<or> same_some (ce_settlementId a) (ce_settlementId b) \<and> ce_entryType a = ce_entryType b
     \<or> same_some (ce_internalTransferId a) (ce_internalTransferId b) \<and> ce_entryType a = ce_entryType b
     \<or> same_some (ce_reversalOfEntryId a) (ce_reversalOfEntryId b)
     \<or> same_some (ce_reversedByEntryId a) (ce_reversedByEntryId b)"

definition settlement_clash :: "settlement \<Rightarrow> settlement \<Rightarrow> bool" where
  "settlement_clash a b \<longleftrightarrow> st_id a = st_id b
     \<or> st_tenantId a = st_tenantId b \<and> st_settlementNumber a = st_settlementNumber b"

definition advance_clash :: "partner_advance \<Rightarrow> partner_advance \<Rightarrow> bool" where
  "advance_clash a b \<longleftrightarrow> pa_id a = pa_id b \<or> pa_tenantId a = pa_tenantId b \<and> pa_advanceNumber a = pa_advanceNumber b"

definition application_clash :: "advance_application \<Rightarrow> advance_application \<Rightarrow> bool" where
  "application_clash a b \<longleftrightarrow> aa_id a = aa_id b
     \<or> aa_tenantId a = aa_tenantId b \<and> aa_applicationNumber a = aa_applicationNumber b"

definition transfer_clash :: "internal_transfer \<Rightarrow> internal_transfer \<Rightarrow> bool" where
  "transfer_clash a b \<longleftrightarrow> tr_id a = tr_id b \<or> tr_tenantId a = tr_tenantId b \<and> tr_transferNumber a = tr_transferNumber b"

lemmas treasury_clash_defs = account_clash_def entry_clash_def settlement_clash_def advance_clash_def
  application_clash_def transfer_clash_def

section \<open>The interface\<close>

locale treasury_store =
  accounts: prisma_table "ttx_accounts tx" tables tt_accounts tt_accounts_update ca_id account_clash "\<lambda>_. True"
  + entries: prisma_table "ttx_entries tx" tables tt_entries tt_entries_update ce_id entry_clash "\<lambda>_. True"
  + settlements: prisma_table "ttx_settlements tx" tables tt_settlements tt_settlements_update st_id settlement_clash "\<lambda>_. True"
  + allocations: prisma_table "ttx_allocations tx" tables tt_allocations tt_allocations_update sa_id "\<lambda>a b. sa_id a = sa_id b" "\<lambda>_. True"
  + payables: prisma_table "ttx_payables tx" tables tt_payables tt_payables_update ob_id "\<lambda>a b. ob_id a = ob_id b" "\<lambda>_. True"
  + receivables: prisma_table "ttx_receivables tx" tables tt_receivables tt_receivables_update ob_id "\<lambda>a b. ob_id a = ob_id b" "\<lambda>_. True"
  + links: prisma_table "ttx_links tx" tables tt_links tt_links_update dl_id "\<lambda>a b. dl_id a = dl_id b" "\<lambda>_. True"
  + advances: prisma_table "ttx_advances tx" tables tt_advances tt_advances_update pa_id advance_clash "\<lambda>_. True"
  + applications: prisma_table "ttx_applications tx" tables tt_applications tt_applications_update aa_id application_clash "\<lambda>_. True"
  + transfers: prisma_table "ttx_transfers tx" tables tt_transfers tt_transfers_update tr_id transfer_clash "\<lambda>_. True"
  + tenants: prisma_table "ttx_tenants tx" tables tt_tenants tt_tenants_update tn_id "\<lambda>a b. tn_id a = tn_id b" "\<lambda>_. True"
  for tx :: "'s treasury_tx" and tables :: "'s \<Rightarrow> try_tables"

section \<open>The database of lists\<close>

definition list_treasury :: "try_tables treasury_tx" where
  "list_treasury =
     \<lparr>ttx_accounts = list_model tt_accounts tt_accounts_update ca_id account_clash (\<lambda>_. True),
      ttx_entries = list_model tt_entries tt_entries_update ce_id entry_clash (\<lambda>_. True),
      ttx_settlements = list_model tt_settlements tt_settlements_update st_id settlement_clash (\<lambda>_. True),
      ttx_allocations = list_model tt_allocations tt_allocations_update sa_id (\<lambda>a b. sa_id a = sa_id b) (\<lambda>_. True),
      ttx_payables = list_model tt_payables tt_payables_update ob_id (\<lambda>a b. ob_id a = ob_id b) (\<lambda>_. True),
      ttx_receivables = list_model tt_receivables tt_receivables_update ob_id (\<lambda>a b. ob_id a = ob_id b) (\<lambda>_. True),
      ttx_links = list_model tt_links tt_links_update dl_id (\<lambda>a b. dl_id a = dl_id b) (\<lambda>_. True),
      ttx_advances = list_model tt_advances tt_advances_update pa_id advance_clash (\<lambda>_. True),
      ttx_applications = list_model tt_applications tt_applications_update aa_id application_clash (\<lambda>_. True),
      ttx_transfers = list_model tt_transfers tt_transfers_update tr_id transfer_clash (\<lambda>_. True),
      ttx_tenants = list_model tt_tenants tt_tenants_update tn_id (\<lambda>a b. tn_id a = tn_id b) (\<lambda>_. True)\<rparr>"

interpretation treasury_lists: treasury_store list_treasury "\<lambda>s. s"
  unfolding treasury_store_def list_treasury_def
  by (simp add: list_model_table treasury_clash_defs)

end
