(* ===== verification/Treasury_Books.thy ===== *)
theory Treasury_Books
  imports Treasury_Store
begin

text \<open>
  The books of the treasury, as an invariant on its tables: the balance of a cashbook account is its
  opening balance and its entries; what is open of an obligation is its amount less the approved
  credit, the posted allocations and the posted applications; what remains of an advance is its amount
  less the posted applications.
\<close>

section \<open>Sums over the rows that satisfy a condition\<close>

definition sum_if :: "('a \<Rightarrow> bool) \<Rightarrow> ('a \<Rightarrow> int) \<Rightarrow> 'a list \<Rightarrow> int" where
  "sum_if P f xs = sum_list (map (\<lambda>x. if P x then f x else 0) xs)"

lemma sum_if_Nil [simp]: "sum_if P f [] = 0"
  by (simp add: sum_if_def)

lemma sum_if_Cons [simp]: "sum_if P f (x # xs) = (if P x then f x else 0) + sum_if P f xs"
  by (simp add: sum_if_def)

lemma sum_if_append [simp]: "sum_if P f (xs @ ys) = sum_if P f xs + sum_if P f ys"
  by (simp add: sum_if_def)

lemma sum_if_cong: "(\<And>x. x \<in> set xs \<Longrightarrow> (if P x then f x else 0) = (if Q x then g x else 0)) \<Longrightarrow> sum_if P f xs = sum_if Q g xs"
  unfolding sum_if_def by (rule arg_cong [where f = sum_list], rule map_cong) auto

lemma sum_if_mset: "mset xs = mset ys \<Longrightarrow> sum_if P f xs = sum_if P f ys"
  unfolding sum_if_def by (rule sum_mset_rows)

lemma sum_if_filter: "sum_if P f (filter Q xs) = sum_if (\<lambda>x. P x \<and> Q x) f xs"
  by (induction xs) auto

lemma sum_if_none: "(\<And>x. x \<in> set xs \<Longrightarrow> \<not> P x) \<Longrightarrow> sum_if P f xs = 0"
  by (induction xs) auto

lemma sum_if_nonneg: "(\<And>x. x \<in> set xs \<Longrightarrow> P x \<Longrightarrow> 0 \<le> f x) \<Longrightarrow> 0 \<le> sum_if P f xs"
  by (induction xs) auto

lemma sum_if_split: "(\<And>x. x \<in> set xs \<Longrightarrow> \<not> (P x \<and> Q x)) \<Longrightarrow> sum_if (\<lambda>x. P x \<or> Q x) f xs = sum_if P f xs + sum_if Q f xs"
  by (induction xs) auto

lemma sum_if_update:
  assumes "distinct (map key xs)" "row_of key xs k = Some x"
  shows "sum_if P f (update_where (\<lambda>x. key x = k) u xs)
    = sum_if P f xs - (if P x then f x else 0) + (if P (u x) then f (u x) else 0)"
  unfolding sum_if_def using sum_update_where [OF assms, of "\<lambda>x. if P x then f x else 0" u] .

lemma sum_if_update_same:
  assumes "\<And>x. P (u x) = P x" "\<And>x. f (u x) = f x"
  shows "sum_if P f (update_where Q u xs) = sum_if P f xs"
  using assms by (induction xs) auto

lemma update_where_image:
  assumes "\<And>r. key (f r) = key r"
  shows "key ` set (update_where P f rs) = key ` set rs"
  using update_where_keys [of P key f rs] assms by (metis list.set_map)

lemma unclashed_keys_distinct:
  assumes "\<And>a b. key a = key b \<Longrightarrow> clash a b" "unclashed clash rs"
  shows "distinct (map key rs)"
  using assms(2) by (induction rs) (auto simp: unclashed_Cons dest: assms(1))

lemma unclashed_row:
  assumes "\<And>a b. key a = key b \<Longrightarrow> clash a b" "unclashed clash rs" "r \<in> set rs" "q \<in> set rs" "key r = key q"
  shows "r = q"
  using unclashed_at [OF assms(2,3,4) assms(1) [OF assms(5)]] .

text \<open>The rows after an update of the one row with a given key.\<close>

lemma set_update_unique:
  assumes "\<And>a b. key a = key b \<Longrightarrow> clash a b" "unclashed clash rs" "r \<in> set rs" "key r = k"
  shows "set (update_where (\<lambda>q. key q = k) f rs) = insert (f r) {q \<in> set rs. key q \<noteq> k}"
proof -
  have same: "q = r" if "q \<in> set rs" "key q = k" for q
    by (rule unclashed_row [where key = key and clash = clash, OF assms(1,2) that(1) assms(3)]) (use that(2) assms(4) in simp_all)
  show ?thesis
  proof (rule set_eqI)
    fix x
    have "x \<in> set (update_where (\<lambda>q. key q = k) f rs) \<longleftrightarrow> (\<exists>q\<in>set rs. key q = k \<and> x = f q) \<or> (\<exists>q\<in>set rs. key q \<noteq> k \<and> x = q)"
      by (auto simp: set_update_where)
    also have "(\<exists>q\<in>set rs. key q = k \<and> x = f q) \<longleftrightarrow> x = f r" using same assms(3,4) by blast
    finally show "x \<in> set (update_where (\<lambda>q. key q = k) f rs) \<longleftrightarrow> x \<in> insert (f r) {q \<in> set rs. key q \<noteq> k}" by blast
  qed
qed

section \<open>Cash\<close>

definition signed :: "cash_entry \<Rightarrow> int" where
  "signed e = (if ce_direction e = ''inflow'' then ce_amount e else - ce_amount e)"

definition entered :: "cash_entry list \<Rightarrow> string \<Rightarrow> int" where
  "entered es k = sum_if (\<lambda>e. ce_cashbookAccountId e = k) signed es"

definition cash_books :: "cash_account list \<Rightarrow> cash_entry list \<Rightarrow> bool" where
  "cash_books accounts es \<longleftrightarrow>
     (\<forall>a\<in>set accounts. ca_currentBalance a = ca_openingBalance a + entered es (ca_id a) \<and> 0 \<le> ca_currentBalance a)
     \<and> (\<forall>e\<in>set es. ce_cashbookAccountId e \<in> ca_id ` set accounts)"

lemma entered_snoc: "entered (es @ [e]) k = entered es k + (if ce_cashbookAccountId e = k then signed e else 0)"
  by (simp add: entered_def)

lemma entered_mark:
  assumes "\<And>e. ce_cashbookAccountId (f e) = ce_cashbookAccountId e" "\<And>e. signed (f e) = signed e"
  shows "entered (update_where P f es) k = entered es k"
  unfolding entered_def using assms by (simp add: sum_if_update_same)

lemma cash_books_new:
  assumes "cash_books accounts es" "ca_id a \<notin> ca_id ` set accounts" "ca_currentBalance a = ca_openingBalance a" "0 \<le> ca_openingBalance a"
  shows "cash_books (accounts @ [a]) es"
proof -
  have "entered es (ca_id a) = 0"
    unfolding entered_def using assms(1,2) by (intro sum_if_none) (metis cash_books_def)
  then show ?thesis using assms by (auto simp: cash_books_def)
qed

lemma cash_books_move:
  assumes "cash_books accounts es" "unclashed account_clash accounts" "a \<in> set accounts" "ca_id a = k"
    and "ce_cashbookAccountId e = k" "v = ca_currentBalance a + signed e" "0 \<le> v"
  shows "cash_books (update_where (\<lambda>a. ca_id a = k) (set_balance v) accounts) (es @ [e])"
proof -
  have same: "b = a" if "b \<in> set accounts" "ca_id b = k" for b
    using unclashed_row [of ca_id account_clash, OF _ assms(2) that(1) assms(3)] that(2) assms(4) by (simp add: account_clash_def)
  have ids: "ca_id ` set (update_where (\<lambda>a. ca_id a = k) (set_balance v) accounts) = ca_id ` set accounts"
    by (rule update_where_image) (simp add: set_balance_def)
  show ?thesis
    unfolding cash_books_def ids
  proof (intro conjI ballI)
    fix b assume "b \<in> set (update_where (\<lambda>a. ca_id a = k) (set_balance v) accounts)"
    then obtain c where c: "c \<in> set accounts" "b = (if ca_id c = k then set_balance v c else c)"
      by (auto simp: set_update_where)
    have book: "ca_currentBalance c = ca_openingBalance c + entered es (ca_id c) \<and> 0 \<le> ca_currentBalance c"
      using assms(1) c(1) unfolding cash_books_def by blast
    show "ca_currentBalance b = ca_openingBalance b + entered (es @ [e]) (ca_id b)" "0 \<le> ca_currentBalance b"
      using book c same [of c] assms(5-7) by (auto simp: set_balance_def entered_snoc)
  next
    fix f assume "f \<in> set (es @ [e])"
    then show "ce_cashbookAccountId f \<in> ca_id ` set accounts"
      using assms(1,3,4,5) by (auto simp: cash_books_def)
  qed
qed

lemma cash_books_mark:
  assumes "cash_books accounts es"
    and "\<And>e. ce_cashbookAccountId (f e) = ce_cashbookAccountId e" "\<And>e. signed (f e) = signed e"
  shows "cash_books accounts (update_where P f es)"
  using assms(1) entered_mark [OF assms(2,3)] by (auto simp: cash_books_def set_update_where assms(2))

section \<open>Obligations\<close>

text \<open>The rows of an obligation table after each was changed by \<open>delta\<close> of its identifier.\<close>

definition obligation_moved :: "(string \<Rightarrow> int) \<Rightarrow> obligation \<Rightarrow> obligation \<Rightarrow> bool" where
  "obligation_moved delta a b \<longleftrightarrow> ob_id b = ob_id a \<and> ob_tenantId b = ob_tenantId a
     \<and> ob_originalAmount b = ob_originalAmount a \<and> ob_approvedCreditAmount b = ob_approvedCreditAmount a
     \<and> ob_currency b = ob_currency a \<and> ob_outstandingAmount b = ob_outstandingAmount a + delta (ob_id a)"

definition owed_moved :: "(string \<Rightarrow> int) \<Rightarrow> obligation list \<Rightarrow> obligation list \<Rightarrow> bool" where
  "owed_moved delta os os' \<longleftrightarrow> list_all2 (obligation_moved delta) os os'"

lemma owed_moved_same [simp]: "owed_moved (\<lambda>_. 0) os os"
  unfolding owed_moved_def by (rule list.rel_refl) (simp add: obligation_moved_def)

lemma owed_moved_trans:
  assumes "owed_moved d os os1" "owed_moved e os1 os2"
  shows "owed_moved (\<lambda>k. d k + e k) os os2"
  unfolding owed_moved_def
  by (rule list_all2_trans [OF _ assms [unfolded owed_moved_def]]) (auto simp: obligation_moved_def)

lemma owed_moved_update:
  assumes "unclashed (\<lambda>a b. ob_id a = ob_id b) os" "o1 \<in> set os" "ob_id o1 = k"
  shows "owed_moved (\<lambda>i. if i = k then v - ob_outstandingAmount o1 else 0) os
    (update_where (\<lambda>o1. ob_id o1 = k) (set_outstanding v status) os)"
proof -
  have "q = o1" if "q \<in> set os" "ob_id q = k" for q
    using unclashed_at [OF assms(1) that(1) assms(2)] that(2) assms(3) by simp
  then show ?thesis
    unfolding owed_moved_def update_where_def list.rel_map
    by (intro list.rel_refl_strong) (auto simp: obligation_moved_def set_outstanding_def)
qed

lemma owed_moved_ids: "owed_moved d os os' \<Longrightarrow> map ob_id os' = map ob_id os"
  unfolding owed_moved_def by (induction rule: list_all2_induct) (auto simp: obligation_moved_def)

definition obligations_of :: "try_tables \<Rightarrow> string \<Rightarrow> obligation list" where
  "obligations_of T ty = (if ty = ''payable'' then tt_payables T else tt_receivables T)"

text \<open>What is open of an obligation, given what was settled and applied of each identifier.\<close>

definition owed_books :: "obligation list \<Rightarrow> (string \<Rightarrow> int) \<Rightarrow> bool" where
  "owed_books os paid \<longleftrightarrow> (\<forall>o1\<in>set os.
     ob_outstandingAmount o1 = ob_originalAmount o1 - ob_approvedCreditAmount o1 - paid (ob_id o1) \<and> 0 \<le> ob_outstandingAmount o1)"

lemma owed_books_moved:
  assumes "owed_books os paid" "owed_moved d os os'" "\<And>o1. o1 \<in> set os' \<Longrightarrow> 0 \<le> ob_outstandingAmount o1"
    and "\<And>k. paid' k = paid k - d k"
  shows "owed_books os' paid'"
  unfolding owed_books_def
proof
  fix b assume b: "b \<in> set os'"
  then obtain a where "a \<in> set os" "obligation_moved d a b"
    using assms(2) unfolding owed_moved_def by (blast dest: list_all2_elem(2))
  then show "ob_outstandingAmount b = ob_originalAmount b - ob_approvedCreditAmount b - paid' (ob_id b) \<and> 0 \<le> ob_outstandingAmount b"
    using assms(1) assms(3) [OF b] by (simp add: owed_books_def obligation_moved_def assms(4))
qed

section \<open>The invariant\<close>

definition posted_in :: "settlement list \<Rightarrow> string \<Rightarrow> bool" where
  "posted_in ds k \<longleftrightarrow> (\<exists>d\<in>set ds. st_id d = k \<and> st_status d = ''posted'')"

text \<open>What posted settlements allocated to an obligation.\<close>

definition settled :: "try_tables \<Rightarrow> string \<Rightarrow> string \<Rightarrow> int" where
  "settled T ty k = sum_if (\<lambda>a. sa_obligationType a = ty \<and> sa_obligationId a = k \<and> posted_in (tt_settlements T) (sa_settlementId a))
     sa_amount (tt_allocations T)"

definition application_type :: "advance_application \<Rightarrow> string" where
  "application_type a = (if is_payable a then ''payable'' else ''receivable'')"

definition applied :: "try_tables \<Rightarrow> string \<Rightarrow> string \<Rightarrow> int" where
  "applied T ty k = sum_if (\<lambda>a. application_type a = ty \<and> aa_obligationId a = k \<and> aa_postingStatus a = ''posted'')
     aa_appliedAmount (tt_applications T)"

text \<open>What posted applications took from an advance.\<close>

definition drawn :: "try_tables \<Rightarrow> string \<Rightarrow> int" where
  "drawn T k = sum_if (\<lambda>a. aa_advanceId a = k \<and> aa_postingStatus a = ''posted'') aa_appliedAmount (tt_applications T)"

definition settlement_ok :: "settlement \<Rightarrow> bool" where
  "settlement_ok d \<longleftrightarrow> js_trim (st_cashbookAccountId d) = st_cashbookAccountId d \<and> 0 < st_amount d \<and> 0 \<le> st_advanceCreatedAmount d
     \<and> (st_status d = ''posted'' \<longleftrightarrow> st_workflowStatus d = ''posted'')
     \<and> (st_status d = ''reversed'' \<longleftrightarrow> st_workflowStatus d = ''reversed'')"

definition allocation_ok :: "settle_alloc \<Rightarrow> bool" where
  "allocation_ok a \<longleftrightarrow> 0 < sa_amount a \<and> sa_totalSettlementAmount a = sa_amount a
     \<and> sa_cashAppliedAmount a + sa_discountAmount a = sa_amount a
     \<and> sa_obligationType a \<in> {''payable'', ''receivable''} \<and> js_trim (sa_obligationId a) = sa_obligationId a"

definition application_ok :: "advance_application \<Rightarrow> bool" where
  "application_ok a \<longleftrightarrow> 0 < aa_appliedAmount a \<and> js_trim (aa_advanceId a) = aa_advanceId a
     \<and> js_trim (aa_obligationId a) = aa_obligationId a \<and> aa_obligationId a \<noteq> []
     \<and> (aa_payableObligationId a = None \<or> aa_receivableObligationId a = None)
     \<and> aa_payableObligationId a \<noteq> Some [] \<and> aa_receivableObligationId a \<noteq> Some []
     \<and> (aa_postingStatus a = ''posted'' \<longrightarrow> aa_workflowStatus a = ''posted'')"

definition transfer_ok :: "internal_transfer \<Rightarrow> bool" where
  "transfer_ok r \<longleftrightarrow> 0 < tr_amount r \<and> tr_fromCashbookAccountId r \<noteq> tr_toCashbookAccountId r"

text \<open>The entry of a settlement records what it moved.\<close>

definition entry_of :: "settlement \<Rightarrow> cash_entry \<Rightarrow> bool" where
  "entry_of d e \<longleftrightarrow> ce_settlementId e = Some (st_id d) \<and> ce_cashbookAccountId e = st_cashbookAccountId d
     \<and> ce_direction e = (if st_direction d = ''receipt'' then ''inflow'' else ''outflow'')
     \<and> ce_amount e = st_amount d \<and> st_status d \<in> {''posted'', ''reversed''}"

definition advance_books :: "partner_advance list \<Rightarrow> (string \<Rightarrow> int) \<Rightarrow> bool" where
  "advance_books advances taken \<longleftrightarrow> (\<forall>v\<in>set advances. pa_appliedAmount v = taken (pa_id v)
     \<and> pa_remainingAmount v = pa_originalAmount v - pa_appliedAmount v \<and> 0 \<le> pa_remainingAmount v
     \<and> (pa_status v = ''reversed'' \<longrightarrow> pa_appliedAmount v = 0))"

definition unique_rows :: "try_tables \<Rightarrow> bool" where
  "unique_rows T \<longleftrightarrow> unclashed account_clash (tt_accounts T) \<and> unclashed settlement_clash (tt_settlements T)
     \<and> unclashed (\<lambda>a b. ob_id a = ob_id b) (tt_payables T) \<and> unclashed (\<lambda>a b. ob_id a = ob_id b) (tt_receivables T)
     \<and> unclashed advance_clash (tt_advances T) \<and> unclashed application_clash (tt_applications T)
     \<and> unclashed transfer_clash (tt_transfers T)"

definition documents_ok :: "try_tables \<Rightarrow> bool" where
  "documents_ok T \<longleftrightarrow> (\<forall>d\<in>set (tt_settlements T). settlement_ok d)
     \<and> (\<forall>a\<in>set (tt_allocations T). allocation_ok a \<and> sa_settlementId a \<in> st_id ` set (tt_settlements T))
     \<and> (\<forall>e\<in>set (tt_entries T). ce_entryType e = ''settlement'' \<longrightarrow> (\<exists>d\<in>set (tt_settlements T). entry_of d e))
     \<and> (\<forall>a\<in>set (tt_applications T). application_ok a \<and> aa_advanceId a \<in> pa_id ` set (tt_advances T))
     \<and> (\<forall>r\<in>set (tt_transfers T). transfer_ok r)"

definition treasury_inv :: "try_tables \<Rightarrow> bool" where
  "treasury_inv T \<longleftrightarrow> unique_rows T \<and> documents_ok T \<and> cash_books (tt_accounts T) (tt_entries T)
     \<and> owed_books (tt_payables T) (\<lambda>k. settled T ''payable'' k + applied T ''payable'' k)
     \<and> owed_books (tt_receivables T) (\<lambda>k. settled T ''receivable'' k + applied T ''receivable'' k)
     \<and> advance_books (tt_advances T) (drawn T)"

end
