(* ===== verification/Treasury_Loops.thy ===== *)
theory Treasury_Loops
  imports Treasury_Books
begin

text \<open>
  The loops of a settlement over its allocations: posting takes the amount of each allocation off its
  obligation, reversing gives it back, and nothing else changes.
\<close>

section \<open>Changes of obligations only\<close>

definition unique_obligations :: "try_tables \<Rightarrow> bool" where
  "unique_obligations T \<longleftrightarrow> distinct (map ob_id (tt_payables T)) \<and> distinct (map ob_id (tt_receivables T))"

definition owed_nonneg :: "try_tables \<Rightarrow> bool" where
  "owed_nonneg T \<longleftrightarrow> (\<forall>o1\<in>set (tt_payables T) \<union> set (tt_receivables T). 0 \<le> ob_outstandingAmount o1)"

definition owed_change :: "(string \<Rightarrow> string \<Rightarrow> int) \<Rightarrow> try_tables \<Rightarrow> try_tables \<Rightarrow> bool" where
  "owed_change d T T' \<longleftrightarrow> (\<exists>ps rs. owed_moved (d ''payable'') (tt_payables T) ps
     \<and> owed_moved (d ''receivable'') (tt_receivables T) rs \<and> T' = T\<lparr>tt_payables := ps, tt_receivables := rs\<rparr>)"

lemma put_payables: "tt_payables_update F T = T\<lparr>tt_payables := F (tt_payables T)\<rparr>"
  by (cases T) simp

lemma put_receivables: "tt_receivables_update F T = T\<lparr>tt_receivables := F (tt_receivables T)\<rparr>"
  by (cases T) simp

lemma owed_changeI:
  assumes "owed_moved (d ''payable'') (tt_payables T) ps" "owed_moved (d ''receivable'') (tt_receivables T) rs"
    and "T' = T\<lparr>tt_payables := ps, tt_receivables := rs\<rparr>"
  shows "owed_change d T T'"
  using assms unfolding owed_change_def by blast

lemma owed_change_same [simp]: "owed_change (\<lambda>_ _. 0) T T"
  by (rule owed_changeI [OF owed_moved_same owed_moved_same]) simp

lemma owed_change_trans:
  assumes "owed_change d T T1" "owed_change e T1 T2"
  shows "owed_change (\<lambda>ty k. d ty k + e ty k) T T2"
proof -
  obtain ps rs where 1: "owed_moved (d ''payable'') (tt_payables T) ps" "owed_moved (d ''receivable'') (tt_receivables T) rs"
    "T1 = T\<lparr>tt_payables := ps, tt_receivables := rs\<rparr>" using assms(1) by (auto simp: owed_change_def)
  then obtain ps' rs' where 2: "owed_moved (e ''payable'') ps ps'" "owed_moved (e ''receivable'') rs rs'"
    "T2 = T\<lparr>tt_payables := ps', tt_receivables := rs'\<rparr>" using assms(2) by (auto simp: owed_change_def)
  show ?thesis unfolding owed_change_def
    using owed_moved_trans [OF 1(1) 2(1)] owed_moved_trans [OF 1(2) 2(2)] 2(3) by blast
qed

lemma owed_change_unique: "owed_change d T T' \<Longrightarrow> unique_obligations T' = unique_obligations T"
  by (auto simp: unique_obligations_def owed_change_def dest: owed_moved_ids)

lemma owed_change_cong: "owed_change d T T' \<Longrightarrow> (\<And>ty k. ty \<in> {''payable'', ''receivable''} \<Longrightarrow> d ty k = e ty k) \<Longrightarrow> owed_change e T T'"
proof -
  assume c: "owed_change d T T'" and e: "\<And>ty k. ty \<in> {''payable'', ''receivable''} \<Longrightarrow> d ty k = e ty k"
  have "d ''payable'' = e ''payable''" "d ''receivable'' = e ''receivable''" using e by auto
  with c show ?thesis by (simp add: owed_change_def)
qed

lemma same_id_distinct: "unclashed (\<lambda>a b. ob_id a = ob_id b) os = distinct (map ob_id os)"
proof (induction os)
  case (Cons a os)
  have "(\<forall>q\<in>set os. ob_id a \<noteq> ob_id q \<and> ob_id q \<noteq> ob_id a) = (ob_id a \<notin> ob_id ` set os)" by (auto simp: image_iff)
  with Cons show ?case by (simp add: unclashed_Cons)
qed simp

text \<open>An obligation map: each key leads to a row of its type in the tables.\<close>

lemma obligation_key_inj:
  assumes "ty \<in> {''payable'', ''receivable''}" "ty' \<in> {''payable'', ''receivable''}" "obligation_key ty k = obligation_key ty' k'"
  shows "ty = ty' \<and> k = k'"
  using assms by (auto simp: obligation_key_def)

definition obligation_map :: "(string \<times> string \<times> obligation) list \<Rightarrow> try_tables \<Rightarrow> bool" where
  "obligation_map m T \<longleftrightarrow> (\<forall>(key, ty, o1)\<in>set m. ty \<in> {''payable'', ''receivable''} \<and> key = obligation_key ty (ob_id o1)
     \<and> o1 \<in> set (obligations_of T ty))"

lemma obligation_map_at:
  assumes "obligation_map m T" "map_of m (obligation_key ty k) = Some (ty', o1)" "ty \<in> {''payable'', ''receivable''}"
  shows "ty' = ty \<and> ob_id o1 = k \<and> o1 \<in> set (obligations_of T ty)"
proof -
  have "(obligation_key ty k, ty', o1) \<in> set m" using assms(2) by (rule map_of_SomeD)
  then have "ty' \<in> {''payable'', ''receivable''}" "obligation_key ty k = obligation_key ty' (ob_id o1)" "o1 \<in> set (obligations_of T ty')"
    using assms(1) by (auto simp: obligation_map_def)
  with obligation_key_inj [OF assms(3) this(1,2)] show ?thesis by simp
qed

definition allocated :: "settle_alloc list \<Rightarrow> string \<Rightarrow> string \<Rightarrow> int" where
  "allocated as ty k = sum_if (\<lambda>a. sa_obligationType a = ty \<and> sa_obligationId a = k) sa_amount as"

lemma allocated_Nil [simp]: "allocated [] ty k = 0"
  by (simp add: allocated_def)

lemma allocated_Cons:
  "allocated (a # as) ty k = (if ty = sa_obligationType a \<and> k = sa_obligationId a then sa_amount a else 0) + allocated as ty k"
  by (auto simp: allocated_def)

lemma allocated_mset: "mset as = mset bs \<Longrightarrow> allocated as = allocated bs"
  unfolding allocated_def by (intro ext sum_if_mset)

context treasury_store
begin

lemma obligation_updated:
  assumes "updateRow (obligation_model tx ty) s k (set_outstanding v status) = Some s'" "ty \<in> {''payable'', ''receivable''}"
    and "o1 \<in> set (obligations_of (tables s) ty)" "ob_id o1 = k" "unique_obligations (tables s)"
  shows "owed_change (\<lambda>ty' i. if ty' = ty \<and> i = k then v - ob_outstandingAmount o1 else 0) (tables s) (tables s')
    \<and> (owed_nonneg (tables s) \<longrightarrow> 0 \<le> v \<longrightarrow> owed_nonneg (tables s'))
    \<and> (\<forall>ty' o2. ty' \<in> {''payable'', ''receivable''} \<longrightarrow> o2 \<in> set (obligations_of (tables s) ty') \<longrightarrow> \<not> (ty' = ty \<and> ob_id o2 = k)
        \<longrightarrow> o2 \<in> set (obligations_of (tables s') ty'))"
proof (cases "ty = ''payable''")
  case True
  have u: "tables s' = tt_payables_update (update_where (\<lambda>r. ob_id r = k) (set_outstanding v status)) (tables s)"
    using payables.updated [of s k "set_outstanding v status" s'] assms(1) True by (simp add: obligation_model_def)
  have "owed_moved (\<lambda>i. if i = k then v - ob_outstandingAmount o1 else 0) (tt_payables (tables s))
      (update_where (\<lambda>r. ob_id r = k) (set_outstanding v status) (tt_payables (tables s)))"
    using owed_moved_update [of "tt_payables (tables s)" o1 k] assms(3-5) True
    by (simp add: obligations_of_def unique_obligations_def same_id_distinct)
  then have "owed_change (\<lambda>ty' i. if ty' = ty \<and> i = k then v - ob_outstandingAmount o1 else 0) (tables s) (tables s')"
    using True by (intro owed_changeI [where rs = "tt_receivables (tables s)"])
      (simp_all add: u put_payables [of "update_where _ _"])
  then show ?thesis using True
    by (auto simp: u owed_nonneg_def obligations_of_def set_update_where set_outstanding_def)
next
  case False
  then have ty: "ty = ''receivable''" using assms(2) by simp
  have u: "tables s' = tt_receivables_update (update_where (\<lambda>r. ob_id r = k) (set_outstanding v status)) (tables s)"
    using receivables.updated [of s k "set_outstanding v status" s'] assms(1) ty by (simp add: obligation_model_def)
  have "owed_moved (\<lambda>i. if i = k then v - ob_outstandingAmount o1 else 0) (tt_receivables (tables s))
      (update_where (\<lambda>r. ob_id r = k) (set_outstanding v status) (tt_receivables (tables s)))"
    using owed_moved_update [of "tt_receivables (tables s)" o1 k] assms(3-5) ty
    by (simp add: obligations_of_def unique_obligations_def same_id_distinct)
  then have "owed_change (\<lambda>ty' i. if ty' = ty \<and> i = k then v - ob_outstandingAmount o1 else 0) (tables s) (tables s')"
    using ty by (intro owed_changeI [where ps = "tt_payables (tables s)"])
      (simp_all add: u put_receivables [of "update_where _ _"])
  then show ?thesis using ty
    by (auto simp: u owed_nonneg_def obligations_of_def set_update_where set_outstanding_def)
qed

lemma obligation_found:
  assumes "findFirst (obligation_model tx ty) s P = Some o1"
  shows "o1 \<in> set (obligations_of (tables s) ty) \<and> P o1"
  using assms payables.first_some [of s P o1] receivables.first_some [of s P o1]
  by (simp add: obligation_model_def obligations_of_def split: if_splits)

section \<open>Posting\<close>

lemma post_allocations:
  assumes "each (post_allocation tx m) as s = Inr s'" "obligation_map m (tables s)" "unique_obligations (tables s)"
    and "distinct (map (\<lambda>a. obligation_key (sa_obligationType a) (sa_obligationId a)) as)"
    and "\<And>a. a \<in> set as \<Longrightarrow> sa_obligationType a \<in> {''payable'', ''receivable''}"
    and "\<And>a ty o1. a \<in> set as \<Longrightarrow> map_of m (obligation_key (sa_obligationType a) (sa_obligationId a)) = Some (ty, o1)
        \<Longrightarrow> sa_amount a \<le> ob_outstandingAmount o1"
  shows "owed_change (\<lambda>ty k. - allocated as ty k) (tables s) (tables s') \<and> (owed_nonneg (tables s) \<longrightarrow> owed_nonneg (tables s'))"
proof -
  have "owed_change (\<lambda>ty k. - allocated as ty k) (tables s) (tables s') \<and> (owed_nonneg (tables s) \<longrightarrow> owed_nonneg (tables s'))"
    if "\<And>a ty o1. a \<in> set as \<Longrightarrow> map_of m (obligation_key (sa_obligationType a) (sa_obligationId a)) = Some (ty, o1)
        \<Longrightarrow> ty = sa_obligationType a \<and> ob_id o1 = sa_obligationId a \<and> o1 \<in> set (obligations_of (tables s) ty)"
    using assms(1,3-6) that
  proof (induction as arbitrary: s)
    case Nil
    then show ?case by simp
  next
    case (Cons a as)
    obtain s1 where a: "post_allocation tx m a s = Inr s1" and rest: "each (post_allocation tx m) as s1 = Inr s'"
      using Cons.prems(1) by auto
    obtain ty o1 where at: "map_of m (obligation_key (sa_obligationType a) (sa_obligationId a)) = Some (ty, o1)"
      and upd: "updateRow (obligation_model tx (sa_obligationType a)) s (ob_id o1) (set_outstanding (ob_outstandingAmount o1 - sa_amount a)
          (if ob_outstandingAmount o1 - sa_amount a = 0 then ''settled'' else ''partially_settled'')) = Some s1"
      using a by (auto simp: post_allocation_def Let_def)
    have o1: "ty = sa_obligationType a" "ob_id o1 = sa_obligationId a" "o1 \<in> set (obligations_of (tables s) (sa_obligationType a))"
      using Cons.prems(6) [OF _ at] by auto
    have ty: "sa_obligationType a \<in> {''payable'', ''receivable''}" using Cons.prems(4) by simp
    note u = obligation_updated [OF upd ty o1(3) refl Cons.prems(2)]
    have keep: "ty' = sa_obligationType b \<and> ob_id o2 = sa_obligationId b \<and> o2 \<in> set (obligations_of (tables s1) ty')"
      if b: "b \<in> set as" and m: "map_of m (obligation_key (sa_obligationType b) (sa_obligationId b)) = Some (ty', o2)" for b ty' o2
    proof -
      have o2: "ty' = sa_obligationType b" "ob_id o2 = sa_obligationId b" "o2 \<in> set (obligations_of (tables s) ty')"
        using Cons.prems(6) [OF _ m] b by auto
      have "obligation_key (sa_obligationType b) (sa_obligationId b) \<noteq> obligation_key (sa_obligationType a) (sa_obligationId a)"
        using Cons.prems(3) b by (auto intro: rev_image_eqI)
      then have "\<not> (ty' = sa_obligationType a \<and> ob_id o2 = ob_id o1)" using o1(2) o2(1,2) by auto
      moreover have "ty' \<in> {''payable'', ''receivable''}" using Cons.prems(4) b o2(1) by simp
      ultimately show ?thesis using u o2 by blast
    qed
    have u1: "unique_obligations (tables s1)" using owed_change_unique [OF conjunct1 [OF u]] Cons.prems(2) by simp
    have IH: "owed_change (\<lambda>ty k. - allocated as ty k) (tables s1) (tables s') \<and> (owed_nonneg (tables s1) \<longrightarrow> owed_nonneg (tables s'))"
      by (rule Cons.IH [OF rest u1 _ _ _ keep]) (use Cons.prems(3-5) in auto)
    have "0 \<le> ob_outstandingAmount o1 - sa_amount a" using Cons.prems(5) [OF _ at] by simp
    moreover have "owed_change (\<lambda>ty k. - allocated (a # as) ty k) (tables s) (tables s')"
      by (rule owed_change_cong [OF owed_change_trans [OF conjunct1 [OF u] conjunct1 [OF IH]]])
        (auto simp: allocated_Cons o1(2))
    ultimately show ?case using u IH by blast
  qed
  then show ?thesis using obligation_map_at [OF assms(2)] assms(5) by blast
qed

section \<open>Reversing\<close>

lemma restore_obligations:
  assumes "each (restore_obligation tx t) as s = Inr s'" "unique_obligations (tables s)"
    and "\<And>a. a \<in> set as \<Longrightarrow> sa_obligationType a \<in> {''payable'', ''receivable''} \<and> 0 \<le> sa_amount a"
  shows "owed_change (allocated as) (tables s) (tables s') \<and> (owed_nonneg (tables s) \<longrightarrow> owed_nonneg (tables s'))"
  using assms
proof (induction as arbitrary: s)
  case Nil
  then show ?case using owed_change_same by (simp add: allocated_def)
next
  case (Cons a as)
  obtain s1 where a: "restore_obligation tx t a s = Inr s1" and rest: "each (restore_obligation tx t) as s1 = Inr s'"
    using Cons.prems(1) by auto
  obtain o1 status where find: "findFirst (obligation_model tx (sa_obligationType a)) s
        (\<lambda>o1. ob_id o1 = sa_obligationId a \<and> ob_tenantId o1 = t) = Some o1"
    and upd: "updateRow (obligation_model tx (sa_obligationType a)) s (sa_obligationId a)
        (set_outstanding (ob_outstandingAmount o1 + sa_amount a) status) = Some s1"
    using a by (auto simp: restore_obligation_def Let_def)
  have o1: "o1 \<in> set (obligations_of (tables s) (sa_obligationType a))" "ob_id o1 = sa_obligationId a"
    using obligation_found [OF find] by auto
  have ty: "sa_obligationType a \<in> {''payable'', ''receivable''}" "0 \<le> sa_amount a" using Cons.prems(3) by simp_all
  note u = obligation_updated [OF upd ty(1) o1 Cons.prems(2)]
  have u1: "unique_obligations (tables s1)" using owed_change_unique [OF conjunct1 [OF u]] Cons.prems(2) by simp
  have IH: "owed_change (allocated as) (tables s1) (tables s') \<and> (owed_nonneg (tables s1) \<longrightarrow> owed_nonneg (tables s'))"
    by (rule Cons.IH [OF rest u1]) (use Cons.prems(3) in auto)
  have "owed_change (allocated (a # as)) (tables s) (tables s')"
    by (rule owed_change_cong [OF owed_change_trans [OF conjunct1 [OF u] conjunct1 [OF IH]]]) (auto simp: allocated_Cons)
  moreover have "0 \<le> ob_outstandingAmount o1 + sa_amount a" if "owed_nonneg (tables s)"
  proof -
    have "0 \<le> ob_outstandingAmount o1" using that o1(1) by (auto simp: owed_nonneg_def obligations_of_def split: if_splits)
    then show ?thesis using ty(2) by simp
  qed
  ultimately show ?case using u IH by blast
qed

end

end
