(* ===== verification/Treasury_Plans.thy ===== *)
theory Treasury_Plans
  imports Treasury_Loops
begin

text \<open>
  What an allowed plan of a settlement guarantees: amounts that parse, one allocation for each
  obligation, and no allocation above what is open.
\<close>

lemma units_trim [simp]: "outboundDecimalUnits (Some (js_trim v)) = outboundDecimalUnits (Some v)"
  by (simp add: outboundDecimalUnits_def)

lemma amountUnits_Inr: "amountUnits z v = Inr u \<longleftrightarrow> outboundDecimalUnits (Some v) = Inr u \<and> (if z then 0 \<le> u else 0 < u)"
  by (auto simp: amountUnits_def split: sum.splits if_splits)

definition input_ok :: "alloc_input \<Rightarrow> bool" where
  "input_ok a \<longleftrightarrow> (\<exists>cash discount whole. outboundDecimalUnits (Some (ali_cashAppliedAmount a)) = Inr cash
     \<and> outboundDecimalUnits (Some (ali_discountAmount a)) = Inr discount \<and> outboundDecimalUnits (Some (ali_amount a)) = Inr whole
     \<and> cash + discount = whole \<and> 0 < whole)"

lemma allocation_row_allowed:
  assumes "allocation_row_issues expected seen a = []"
  shows "ali_key a \<notin> set seen \<and> (expected \<noteq> None \<longrightarrow> Some (ali_obligationType a) = expected) \<and> input_ok a"
proof -
  obtain cash discount whole where amounts: "allocation_amounts a = Inr (cash, discount, whole)"
    using assms by (auto simp: allocation_row_issues_def split: sum.splits)
  moreover have "cash + discount = whole" using assms by (simp add: allocation_row_issues_def amounts)
  ultimately have "input_ok a"
    by (auto simp: allocation_amounts_def amountUnits_Inr input_ok_def)
  then show ?thesis using assms by (auto simp: allocation_row_issues_def)
qed

lemma allocation_loop_allowed:
  assumes "allocation_loop_issues expected seen as = []"
  shows "distinct (map ali_key as) \<and> (\<forall>a\<in>set as. ali_key a \<notin> set seen
    \<and> (expected \<noteq> None \<longrightarrow> Some (ali_obligationType a) = expected) \<and> input_ok a)"
  using assms
proof (induction as arbitrary: seen)
  case (Cons a as)
  have row: "allocation_row_issues expected seen a = []" and rest: "allocation_loop_issues expected (ali_key a # seen) as = []"
    using Cons.prems by simp_all
  show ?case using allocation_row_allowed [OF row] Cons.IH [OF rest] by auto
qed simp

text \<open>The parts of \<open>settlementPlan\<close>.\<close>

lemma plan_parts:
  assumes "sep_issues (settlementPlan tx s t input) = []"
  shows "expected_type (sin_direction input) \<noteq> None"
    and "amountUnits False (sin_amount input) = Inr (sep_amount (settlementPlan tx s t input))"
    and "allocation_loop_issues (expected_type (sin_direction input)) [] (sin_allocations input) = []"
    and "\<And>a. a \<in> set (sin_allocations input)
      \<Longrightarrow> obligation_issues input (sep_obligations (settlementPlan tx s t input)) a = []"
  using assms unfolding settlementPlan_def Let_def
  by (auto simp: concat_map_Nil split: sum.splits)

lemma plan_advance: "0 \<le> sep_advanceCreatedAmount (settlementPlan tx s t input)"
  by (simp add: settlementPlan_def Let_def)

lemma plan_obligations: "sep_obligations (settlementPlan tx s t input) = obligation_entries (settlement_obligations tx s t (sin_allocations input))"
  by (simp add: settlementPlan_def Let_def)

lemma plan_account:
  "sep_account (settlementPlan tx s t input) = Some a
    \<Longrightarrow> findFirst (ttx_accounts tx) s (\<lambda>a. ca_id a = sin_cashbookAccountId input \<and> ca_tenantId a = t) = Some a"
  by (auto simp: settlementPlan_def Let_def split: if_splits)

lemma plan_allowed:
  assumes "sep_issues (settlementPlan tx s t input) = []"
  shows "distinct (map ali_key (sin_allocations input))" "0 < sep_amount (settlementPlan tx s t input)"
    and "\<And>a. a \<in> set (sin_allocations input) \<Longrightarrow> ali_obligationType a \<in> {''payable'', ''receivable''} \<and> input_ok a"
    and "\<And>a ty o1. a \<in> set (sin_allocations input) \<Longrightarrow> map_of (sep_obligations (settlementPlan tx s t input)) (ali_key a) = Some (ty, o1)
      \<Longrightarrow> parsed_or_zero (ali_amount a) \<le> ob_outstandingAmount o1"
proof -
  note parts = plan_parts [OF assms]
  obtain ty where ty: "expected_type (sin_direction input) = Some ty" "ty \<in> {''payable'', ''receivable''}"
    using parts(1) by (auto simp: expected_type_def split: if_splits)
  have loop: "distinct (map ali_key (sin_allocations input)) \<and> (\<forall>a\<in>set (sin_allocations input). Some (ali_obligationType a) = Some ty \<and> input_ok a)"
    using allocation_loop_allowed [OF parts(3)] ty(1) by simp
  show "distinct (map ali_key (sin_allocations input))" using loop by simp
  show "0 < sep_amount (settlementPlan tx s t input)" using parts(2) by (simp add: amountUnits_Inr)
  show "ali_obligationType a \<in> {''payable'', ''receivable''} \<and> input_ok a" if "a \<in> set (sin_allocations input)" for a
    using loop that ty(2) by auto
  show "parsed_or_zero (ali_amount a) \<le> ob_outstandingAmount o1"
    if "a \<in> set (sin_allocations input)" "map_of (sep_obligations (settlementPlan tx s t input)) (ali_key a) = Some (k, o1)" for a k o1
  proof -
    have "obligation_issues input (sep_obligations (settlementPlan tx s t input)) a = []" using parts(4) that(1) .
    then show ?thesis using that(2) by (simp add: obligation_issues_def parsed_or_zero_def)
  qed
qed

lemma new_settle_alloc_ok:
  assumes "input_ok a" "ali_obligationType a \<in> {''payable'', ''receivable''}" "js_trim (ali_obligationId a) = ali_obligationId a"
  shows "allocation_ok (new_settle_alloc k t d c a)"
proof -
  have "sa_obligationId (new_settle_alloc k t d c a) = ali_obligationId a"
    using assms(2) by (cases "ali_obligationId a") (auto simp: new_settle_alloc_def sa_obligationId_def column_or_def)
  then show ?thesis
    using assms by (auto simp: input_ok_def allocation_ok_def new_settle_alloc_def parsed_or_zero_def)
qed

lemma normalized_ids:
  "a \<in> set (sin_allocations (normalizeSettlement le q)) \<Longrightarrow> js_trim (ali_obligationId a) = ali_obligationId a"
  by (auto simp: normalizeSettlement_def normalize_allocation_def)

section \<open>The plan of a stored settlement\<close>

lemma lower_type: "ty \<in> {''payable'', ''receivable''} \<Longrightarrow> js_lower (js_trim ty) = ty"
  by (elim insertE emptyE) (simp, code_simp)+

lemma stored_allocation_key:
  assumes "allocation_ok a"
  shows "ali_key (normalize_allocation (stored_allocation a)) = obligation_key (sa_obligationType a) (sa_obligationId a)"
    "ali_obligationType (normalize_allocation (stored_allocation a)) = sa_obligationType a"
proof -
  have "sa_obligationType a \<in> {''payable'', ''receivable''}" using assms by (simp add: allocation_ok_def)
  from lower_type [OF this] show
    "ali_key (normalize_allocation (stored_allocation a)) = obligation_key (sa_obligationType a) (sa_obligationId a)"
    "ali_obligationType (normalize_allocation (stored_allocation a)) = sa_obligationType a"
    using assms by (cases "sa_obligationId a", auto simp: allocation_ok_def ali_key_def normalize_allocation_def stored_allocation_def or_text_def)
qed

lemma stored_allocation_amount:
  assumes "allocation_ok a"
  shows "parsed_or_zero (ali_amount (normalize_allocation (stored_allocation a))) = sa_amount a"
  using assms by (simp add: allocation_ok_def normalize_allocation_def stored_allocation_def or_else_def parsed_or_zero_def js_text_def)

lemma set_stored: "set (sin_allocations (normalizeSettlement le (stored_settlement d as))) = (\<lambda>a. normalize_allocation (stored_allocation a)) ` set as"
  by (simp add: normalizeSettlement_def stored_settlement_def image_image)

lemma stored_keys:
  assumes "\<And>a. a \<in> set as \<Longrightarrow> allocation_ok a"
  shows "distinct (map ali_key (sin_allocations (normalizeSettlement le (stored_settlement d as))))
    = distinct (map (\<lambda>a. obligation_key (sa_obligationType a) (sa_obligationId a)) as)"
proof -
  have "mset (map ali_key (sin_allocations (normalizeSettlement le (stored_settlement d as))))
      = mset (map ali_key (map normalize_allocation (map stored_allocation as)))"
    by (simp add: normalizeSettlement_def stored_settlement_def multiset.map_comp o_assoc)
  also have "map ali_key (map normalize_allocation (map stored_allocation as))
      = map (\<lambda>a. obligation_key (sa_obligationType a) (sa_obligationId a)) as"
    unfolding map_map o_def by (rule map_cong [OF refl]) (rule stored_allocation_key(1) [OF assms])
  finally have "mset (map ali_key (sin_allocations (normalizeSettlement le (stored_settlement d as))))
      = mset (map (\<lambda>a. obligation_key (sa_obligationType a) (sa_obligationId a)) as)" .
  then show ?thesis by (rule mset_eq_imp_distinct_iff)
qed

context treasury_store
begin

lemma plan_map: "obligation_map (sep_obligations (settlementPlan tx s t input)) (tables s)"
proof -
  have "obligation_map (obligation_entries (findMany (ttx_payables tx) s P, findMany (ttx_receivables tx) s Q)) (tables s)" for P Q
    by (auto simp: obligation_map_def obligation_entries_def obligations_of_def payables.found_iff receivables.found_iff)
  then show ?thesis by (simp add: plan_obligations settlement_obligations_def Let_def)
qed

lemma stored_plan:
  assumes "sep_issues (settlementPlan tx s t (normalizeSettlement le (stored_settlement d as))) = []"
    and "\<And>a. a \<in> set as \<Longrightarrow> allocation_ok a" "each (post_allocation tx (sep_obligations
          (settlementPlan tx s t (normalizeSettlement le (stored_settlement d as))))) as s = Inr s'" "unique_obligations (tables s)"
  shows "owed_change (\<lambda>ty k. - allocated as ty k) (tables s) (tables s') \<and> (owed_nonneg (tables s) \<longrightarrow> owed_nonneg (tables s'))"
proof (rule post_allocations [OF assms(3) plan_map assms(4)])
  show "distinct (map (\<lambda>a. obligation_key (sa_obligationType a) (sa_obligationId a)) as)"
    using plan_allowed(1) [OF assms(1)] stored_keys [OF assms(2)] by simp
  show "sa_obligationType a \<in> {''payable'', ''receivable''}" if "a \<in> set as" for a
    using assms(2) [OF that] by (simp add: allocation_ok_def)
  show "sa_amount a \<le> ob_outstandingAmount o1"
    if a: "a \<in> set as" and m: "map_of (sep_obligations (settlementPlan tx s t (normalizeSettlement le (stored_settlement d as))))
      (obligation_key (sa_obligationType a) (sa_obligationId a)) = Some (ty, o1)" for a ty o1
  proof -
    have "normalize_allocation (stored_allocation a) \<in> set (sin_allocations (normalizeSettlement le (stored_settlement d as)))"
      using a by (simp add: set_stored)
    from plan_allowed(4) [OF assms(1) this] m
    show ?thesis using assms(2) [OF a] by (simp add: stored_allocation_key stored_allocation_amount)
  qed
qed

end

end
