(* ===== verification/Treasury_Machine.thy ===== *)
theory Treasury_Machine
  imports Treasury_Plans
begin

text \<open>
  The abstract machine of the treasury: nine kinds of step on the tables, each of which keeps the books.
  \<open>Treasury_Refinement\<close> shows that every command that succeeds is one of them.
\<close>

section \<open>Steps\<close>

text \<open>Entries whose \<open>reversedByEntryId\<close> may have been set.\<close>

definition marked :: "cash_entry list \<Rightarrow> cash_entry list \<Rightarrow> bool" where
  "marked es es' \<longleftrightarrow> list_all2 (\<lambda>e e'. \<exists>r. e' = e\<lparr>ce_reversedByEntryId := r\<rparr>) es es'"

definition cash_moved :: "settlement \<Rightarrow> int" where
  "cash_moved d = (if st_direction d = ''receipt'' then st_amount d else - st_amount d)"

definition allocations_in :: "try_tables \<Rightarrow> string \<Rightarrow> settle_alloc list" where
  "allocations_in T k = filter (\<lambda>a. sa_settlementId a = k) (tt_allocations T)"

definition application_moved :: "advance_application \<Rightarrow> string \<Rightarrow> string \<Rightarrow> int" where
  "application_moved a ty k = (if ty = application_type a \<and> k = aa_obligationId a then aa_appliedAmount a else 0)"

definition not_final :: "string \<Rightarrow> bool" where
  "not_final status \<longleftrightarrow> status \<noteq> ''posted'' \<and> status \<noteq> ''reversed''"

inductive treasury_step :: "try_tables \<Rightarrow> try_tables \<Rightarrow> bool" where
  opened: "unclashed account_clash (tt_accounts T @ [a]) \<Longrightarrow> ca_currentBalance a = ca_openingBalance a \<Longrightarrow> 0 \<le> ca_openingBalance a
    \<Longrightarrow> treasury_step T (T\<lparr>tt_accounts := tt_accounts T @ [a]\<rparr>)"
| drafted: "unclashed settlement_clash ds \<Longrightarrow> \<forall>d\<in>set ds. settlement_ok d
    \<Longrightarrow> \<forall>d\<in>set (tt_settlements T). st_id d \<in> st_id ` set ds \<and> (\<not> not_final (st_status d) \<longrightarrow> d \<in> set ds)
    \<Longrightarrow> \<forall>d\<in>set ds. \<not> not_final (st_status d) \<longrightarrow> d \<in> set (tt_settlements T)
    \<Longrightarrow> \<forall>a\<in>set as. allocation_ok a \<and> sa_settlementId a \<in> st_id ` set ds
    \<Longrightarrow> \<forall>d\<in>set (tt_settlements T). \<not> not_final (st_status d) \<longrightarrow>
          filter (\<lambda>a. sa_settlementId a = st_id d) as = allocations_in T (st_id d)
    \<Longrightarrow> filter (\<lambda>a. posted_in (tt_settlements T) (sa_settlementId a)) as
          = filter (\<lambda>a. posted_in (tt_settlements T) (sa_settlementId a)) (tt_allocations T)
    \<Longrightarrow> treasury_step T (T\<lparr>tt_settlements := ds, tt_allocations := as, tt_links := ls\<rparr>)"
| posts: "d \<in> set (tt_settlements T) \<Longrightarrow> not_final (st_status d) \<Longrightarrow> acc \<in> set (tt_accounts T)
    \<Longrightarrow> ca_id acc = st_cashbookAccountId d \<Longrightarrow> v = ca_currentBalance acc + cash_moved d \<Longrightarrow> 0 \<le> v
    \<Longrightarrow> owed_change (\<lambda>ty k. - allocated (allocations_in T (st_id d)) ty k) T T1 \<Longrightarrow> owed_nonneg T1
    \<Longrightarrow> ce_entryType e = ''settlement'' \<Longrightarrow> entry_of (posted_settlement d) e
    \<Longrightarrow> unclashed advance_clash vs \<Longrightarrow> vs = tt_advances T
          \<or> vs = tt_advances T @ [adv] \<and> pa_appliedAmount adv = 0 \<and> pa_remainingAmount adv = pa_originalAmount adv \<and> 0 \<le> pa_originalAmount adv
    \<Longrightarrow> treasury_step T (T1\<lparr>tt_accounts := update_where (\<lambda>a. ca_id a = ca_id acc) (set_balance v) (tt_accounts T),
          tt_entries := tt_entries T @ [e], tt_advances := vs,
          tt_settlements := update_where (\<lambda>r. st_id r = st_id d) posted_settlement (tt_settlements T), tt_links := ls\<rparr>)"
| unposts: "d \<in> set (tt_settlements T) \<Longrightarrow> st_status d = ''posted'' \<Longrightarrow> acc \<in> set (tt_accounts T)
    \<Longrightarrow> ca_id acc = st_cashbookAccountId d \<Longrightarrow> v = ca_currentBalance acc - cash_moved d \<Longrightarrow> 0 \<le> v
    \<Longrightarrow> owed_change (allocated (allocations_in T (st_id d))) T T1 \<Longrightarrow> owed_nonneg T1
    \<Longrightarrow> ce_entryType e \<noteq> ''settlement'' \<Longrightarrow> ce_cashbookAccountId e = ca_id acc \<Longrightarrow> signed e = - cash_moved d
    \<Longrightarrow> marked (tt_entries T @ [e]) es
    \<Longrightarrow> vs = tt_advances T \<or> (\<exists>adv\<in>set (tt_advances T). pa_appliedAmount adv = 0
          \<and> vs = update_where (\<lambda>r. pa_id r = pa_id adv) (\<lambda>r. r\<lparr>pa_status := ''reversed'', pa_version := pa_version r + 1\<rparr>) (tt_advances T))
    \<Longrightarrow> treasury_step T (T1\<lparr>tt_accounts := update_where (\<lambda>a. ca_id a = ca_id acc) (set_balance v) (tt_accounts T),
          tt_entries := es, tt_advances := vs,
          tt_settlements := update_where (\<lambda>r. st_id r = st_id d) reversed_settlement (tt_settlements T), tt_links := ls\<rparr>)"
| claimed: "unclashed application_clash as \<Longrightarrow> \<forall>a\<in>set as. application_ok a \<and> aa_advanceId a \<in> pa_id ` set (tt_advances T)
    \<Longrightarrow> filter (\<lambda>a. aa_postingStatus a = ''posted'') as = filter (\<lambda>a. aa_postingStatus a = ''posted'') (tt_applications T)
    \<Longrightarrow> treasury_step T (T\<lparr>tt_applications := as\<rparr>)"
| applies: "a \<in> set (tt_applications T) \<Longrightarrow> aa_postingStatus a \<noteq> ''posted'' \<Longrightarrow> adv \<in> set (tt_advances T) \<Longrightarrow> pa_id adv = aa_advanceId a
    \<Longrightarrow> pa_status adv \<noteq> ''reversed'' \<Longrightarrow> aa_appliedAmount a \<le> pa_remainingAmount adv
    \<Longrightarrow> owed_change (\<lambda>ty k. - application_moved a ty k) T T1 \<Longrightarrow> owed_nonneg T1 \<Longrightarrow> status \<noteq> ''reversed''
    \<Longrightarrow> treasury_step T (T1\<lparr>tt_advances := update_where (\<lambda>r. pa_id r = pa_id adv)
            (set_advance (pa_remainingAmount adv - aa_appliedAmount a) (pa_appliedAmount adv + aa_appliedAmount a) status) (tt_advances T),
          tt_applications := update_where (\<lambda>r. aa_id r = aa_id a) (set_application ''posted'') (tt_applications T)\<rparr>)"
| unapplies: "a \<in> set (tt_applications T) \<Longrightarrow> aa_postingStatus a = ''posted'' \<Longrightarrow> adv \<in> set (tt_advances T) \<Longrightarrow> pa_id adv = aa_advanceId a
    \<Longrightarrow> owed_change (application_moved a) T T1 \<Longrightarrow> owed_nonneg T1 \<Longrightarrow> status \<noteq> ''reversed''
    \<Longrightarrow> treasury_step T (T1\<lparr>tt_advances := update_where (\<lambda>r. pa_id r = pa_id adv)
            (set_advance (pa_remainingAmount adv + aa_appliedAmount a) (pa_appliedAmount adv - aa_appliedAmount a) status) (tt_advances T),
          tt_applications := update_where (\<lambda>r. aa_id r = aa_id a) (set_application ''reversed'') (tt_applications T)\<rparr>)"
| written_transfer: "unclashed transfer_clash rs \<Longrightarrow> \<forall>r\<in>set rs. transfer_ok r
    \<Longrightarrow> treasury_step T (T\<lparr>tt_transfers := rs\<rparr>)"
| transferred: "a \<in> set (tt_accounts T) \<Longrightarrow> b \<in> set (tt_accounts T) \<Longrightarrow> ca_id a \<noteq> ca_id b \<Longrightarrow> 0 \<le> ca_currentBalance a + x
    \<Longrightarrow> 0 \<le> ca_currentBalance b - x \<Longrightarrow> ce_cashbookAccountId e = ca_id a \<Longrightarrow> signed e = x \<Longrightarrow> ce_cashbookAccountId f = ca_id b
    \<Longrightarrow> signed f = - x \<Longrightarrow> ce_entryType e \<noteq> ''settlement'' \<Longrightarrow> ce_entryType f \<noteq> ''settlement'' \<Longrightarrow> marked (tt_entries T @ [e, f]) es
    \<Longrightarrow> unclashed transfer_clash rs \<Longrightarrow> \<forall>r\<in>set rs. transfer_ok r
    \<Longrightarrow> treasury_step T (T\<lparr>tt_accounts := update_where (\<lambda>r. ca_id r = ca_id b) (set_balance (ca_currentBalance b - x))
            (update_where (\<lambda>r. ca_id r = ca_id a) (set_balance (ca_currentBalance a + x)) (tt_accounts T)),
          tt_entries := es, tt_transfers := rs\<rparr>)"

section \<open>Every step keeps the books\<close>

lemma marked_entered: "marked es es' \<Longrightarrow> entered es' k = entered es k"
proof -
  assume "marked es es'"
  then have "list_all2 (\<lambda>e e'. ce_cashbookAccountId e' = ce_cashbookAccountId e \<and> signed e' = signed e) es es'"
    unfolding marked_def by (rule list_all2_mono) (auto simp: signed_def)
  then show ?thesis unfolding entered_def by (induction rule: list_all2_induct) simp_all
qed

lemma marked_member: "marked es es' \<Longrightarrow> e' \<in> set es' \<Longrightarrow> \<exists>e\<in>set es. \<exists>r. e' = e\<lparr>ce_reversedByEntryId := r\<rparr>"
  unfolding marked_def by (blast dest: list_all2_elem(2))

lemma marked_books:
  assumes "cash_books accounts es" "marked es es'"
  shows "cash_books accounts es'"
proof -
  have "ce_cashbookAccountId e' \<in> ca_id ` set accounts" if "e' \<in> set es'" for e'
    using marked_member [OF assms(2) that] assms(1) by (auto simp: cash_books_def)
  then show ?thesis using assms(1) unfolding cash_books_def marked_entered [OF assms(2)] by blast
qed

lemma posted_in_same:
  assumes "\<forall>d\<in>set ds. \<not> not_final (st_status d) \<longrightarrow> d \<in> set ds'" "\<forall>d\<in>set ds'. \<not> not_final (st_status d) \<longrightarrow> d \<in> set ds"
  shows "posted_in ds' = posted_in ds"
  using assms unfolding posted_in_def not_final_def by (intro ext) blast

lemma settled_filter:
  "settled T ty k = sum_if (\<lambda>a. sa_obligationType a = ty \<and> sa_obligationId a = k) sa_amount
     (filter (\<lambda>a. posted_in (tt_settlements T) (sa_settlementId a)) (tt_allocations T))"
  unfolding settled_def sum_if_filter by (rule sum_if_cong) auto

lemma applied_filter:
  "applied T ty k = sum_if (\<lambda>a. application_type a = ty \<and> aa_obligationId a = k) aa_appliedAmount
     (filter (\<lambda>a. aa_postingStatus a = ''posted'') (tt_applications T))"
  unfolding applied_def sum_if_filter by (rule sum_if_cong) auto

lemma drawn_filter:
  "drawn T k = sum_if (\<lambda>a. aa_advanceId a = k) aa_appliedAmount (filter (\<lambda>a. aa_postingStatus a = ''posted'') (tt_applications T))"
  unfolding drawn_def sum_if_filter by (rule sum_if_cong) auto

lemma owed_nonneg_books:
  "owed_nonneg T \<longleftrightarrow> (\<forall>o1\<in>set (tt_payables T). 0 \<le> ob_outstandingAmount o1) \<and> (\<forall>o1\<in>set (tt_receivables T). 0 \<le> ob_outstandingAmount o1)"
  by (auto simp: owed_nonneg_def)

lemma inv_nonneg: "treasury_inv T \<Longrightarrow> owed_nonneg T"
  by (auto simp: treasury_inv_def owed_books_def owed_nonneg_def)

lemma inv_unique: "treasury_inv T \<Longrightarrow> unique_obligations T"
  by (simp add: treasury_inv_def unique_rows_def unique_obligations_def same_id_distinct)

text \<open>Posting one settlement adds its allocations to what is settled, reversing takes them off.\<close>

lemma settlement_update:
  assumes "unclashed settlement_clash ds" "d \<in> set ds"
  shows "set (update_where (\<lambda>r. st_id r = st_id d) f ds) = insert (f d) {q \<in> set ds. st_id q \<noteq> st_id d}"
  by (rule set_update_unique [OF _ assms refl]) (simp add: settlement_clash_def)

lemma posted_in_update:
  assumes "unclashed settlement_clash ds" "d \<in> set ds" "st_id (f d) = st_id d"
  shows "posted_in (update_where (\<lambda>r. st_id r = st_id d) f ds) k = (if k = st_id d then st_status (f d) = ''posted'' else posted_in ds k)"
  unfolding posted_in_def settlement_update [OF assms(1,2)] using assms(3) by auto

lemma posted_in_at:
  assumes "unclashed settlement_clash ds" "d \<in> set ds"
  shows "posted_in ds (st_id d) = (st_status d = ''posted'')"
proof -
  have "q = d" if "q \<in> set ds" "st_id q = st_id d" for q
    using unclashed_row [of st_id settlement_clash, OF _ assms(1) that(1) assms(2) that(2)] by (simp add: settlement_clash_def)
  then show ?thesis unfolding posted_in_def using assms(2) by blast
qed

lemma settled_change:
  assumes "\<And>a. a \<in> set (tt_allocations T) \<Longrightarrow> posted_in (tt_settlements T') (sa_settlementId a)
      = (if sa_settlementId a = k then p else posted_in (tt_settlements T) (sa_settlementId a))"
    and "posted_in (tt_settlements T) k \<noteq> p" "tt_allocations T' = tt_allocations T"
  shows "settled T' ty i = settled T ty i + (if p then 1 else - 1) * allocated (allocations_in T k) ty i"
proof -
  have "sum_if (\<lambda>a. sa_obligationType a = ty \<and> sa_obligationId a = i \<and> posted_in (tt_settlements T') (sa_settlementId a)) sa_amount as
      = sum_if (\<lambda>a. sa_obligationType a = ty \<and> sa_obligationId a = i \<and> posted_in (tt_settlements T) (sa_settlementId a)) sa_amount as
        + (if p then 1 else - 1) * sum_if (\<lambda>a. sa_obligationType a = ty \<and> sa_obligationId a = i) sa_amount (filter (\<lambda>a. sa_settlementId a = k) as)"
    if "\<forall>a\<in>set as. posted_in (tt_settlements T') (sa_settlementId a)
      = (if sa_settlementId a = k then p else posted_in (tt_settlements T) (sa_settlementId a))" for as
    using that assms(2) by (induction as) (auto split: if_splits)
  from this [of "tt_allocations T"] have "settled T' ty i = settled T ty i + (if p then 1 else - 1)
      * sum_if (\<lambda>a. sa_obligationType a = ty \<and> sa_obligationId a = i) sa_amount (filter (\<lambda>a. sa_settlementId a = k) (tt_allocations T))"
    using assms(1,3) by (simp add: settled_def)
  then show ?thesis by (simp add: allocated_def allocations_in_def)
qed

end
