(* ===== verification/Treasury_Steps.thy ===== *)
theory Treasury_Steps
  imports Treasury_Machine
begin

text \<open>Every step of the machine keeps the books.\<close>

lemma treasury_invD:
  assumes "treasury_inv T"
  shows "unique_rows T" "documents_ok T" "cash_books (tt_accounts T) (tt_entries T)" "advance_books (tt_advances T) (drawn T)"
    "owed_books (tt_payables T) (\<lambda>k. settled T ''payable'' k + applied T ''payable'' k)"
    "owed_books (tt_receivables T) (\<lambda>k. settled T ''receivable'' k + applied T ''receivable'' k)"
  using assms by (simp_all add: treasury_inv_def)

lemma documents_okD:
  assumes "documents_ok T"
  shows "d \<in> set (tt_settlements T) \<Longrightarrow> settlement_ok d"
    "a \<in> set (tt_allocations T) \<Longrightarrow> allocation_ok a \<and> sa_settlementId a \<in> st_id ` set (tt_settlements T)"
    "e \<in> set (tt_entries T) \<Longrightarrow> ce_entryType e = ''settlement'' \<Longrightarrow> \<exists>d\<in>set (tt_settlements T). entry_of d e"
    "p \<in> set (tt_applications T) \<Longrightarrow> application_ok p \<and> aa_advanceId p \<in> pa_id ` set (tt_advances T)"
    "r \<in> set (tt_transfers T) \<Longrightarrow> transfer_ok r"
  using assms unfolding documents_ok_def by blast+

lemma owed_step:
  assumes "treasury_inv T" "owed_change d T T1" "owed_nonneg T1" "tt_payables T' = tt_payables T1" "tt_receivables T' = tt_receivables T1"
    and "\<And>ty k. ty \<in> {''payable'', ''receivable''} \<Longrightarrow> settled T' ty k + applied T' ty k = settled T ty k + applied T ty k - d ty k"
  shows "owed_books (tt_payables T') (\<lambda>k. settled T' ''payable'' k + applied T' ''payable'' k)
    \<and> owed_books (tt_receivables T') (\<lambda>k. settled T' ''receivable'' k + applied T' ''receivable'' k)"
proof -
  obtain ps rs where m: "owed_moved (d ''payable'') (tt_payables T) ps" "owed_moved (d ''receivable'') (tt_receivables T) rs"
    "T1 = T\<lparr>tt_payables := ps, tt_receivables := rs\<rparr>" using assms(2) by (auto simp: owed_change_def)
  have n: "\<And>o1. o1 \<in> set ps \<Longrightarrow> 0 \<le> ob_outstandingAmount o1" "\<And>o1. o1 \<in> set rs \<Longrightarrow> 0 \<le> ob_outstandingAmount o1"
    using assms(3) m(3) by (auto simp: owed_nonneg_def)
  have "owed_books ps (\<lambda>k. settled T' ''payable'' k + applied T' ''payable'' k)"
    by (rule owed_books_moved [OF treasury_invD(5) [OF assms(1)] m(1) n(1)]) (simp_all add: assms(6))
  moreover have "owed_books rs (\<lambda>k. settled T' ''receivable'' k + applied T' ''receivable'' k)"
    by (rule owed_books_moved [OF treasury_invD(6) [OF assms(1)] m(2) n(2)]) (simp_all add: assms(6))
  ultimately show ?thesis using m(3) assms(4,5) by simp
qed

lemma owed_change_rest:
  assumes "owed_change d T T1"
  shows "tt_accounts T1 = tt_accounts T" "tt_entries T1 = tt_entries T" "tt_settlements T1 = tt_settlements T"
    "tt_allocations T1 = tt_allocations T" "tt_links T1 = tt_links T" "tt_advances T1 = tt_advances T"
    "tt_applications T1 = tt_applications T" "tt_transfers T1 = tt_transfers T" "tt_tenants T1 = tt_tenants T"
  using assms by (auto simp: owed_change_def)

lemma owed_change_rows:
  assumes "owed_change d T T1" "unique_rows T"
  shows "unclashed (\<lambda>a b. ob_id a = ob_id b) (tt_payables T1) \<and> unclashed (\<lambda>a b. ob_id a = ob_id b) (tt_receivables T1)"
  using owed_change_unique [OF assms(1)] assms(2) by (simp add: unique_rows_def unique_obligations_def same_id_distinct)

lemma same_books:
  assumes "tt_settlements T' = tt_settlements T" "tt_allocations T' = tt_allocations T"
  shows "settled T' = settled T"
  by (intro ext) (simp add: settled_def assms)

lemma same_claims:
  assumes "tt_applications T' = tt_applications T"
  shows "applied T' = applied T" "drawn T' = drawn T"
  by (intro ext, simp add: applied_def drawn_def assms)+

text \<open>An updated table stays without clashes when its keys stay the same.\<close>

lemma unclashed_after_update:
  assumes "unclashed clash rs" "\<And>a b. clash (f a) b = clash a b" "\<And>a b. clash a (f b) = clash a b"
  shows "unclashed clash (update_where P f rs)"
  using assms(1) by (induction rs) (auto simp: unclashed_Cons set_update_where assms(2,3) split: if_splits)

section \<open>Accounts and transfers\<close>

lemma opened_inv:
  assumes inv: "treasury_inv T" and "unclashed account_clash (tt_accounts T @ [a])"
    and "ca_currentBalance a = ca_openingBalance a" "0 \<le> ca_openingBalance a"
  shows "treasury_inv (T\<lparr>tt_accounts := tt_accounts T @ [a]\<rparr>)"
proof -
  have "ca_id a \<notin> ca_id ` set (tt_accounts T)" using assms(2) by (auto simp: unclashed_snoc account_clash_def)
  then have "cash_books (tt_accounts T @ [a]) (tt_entries T)"
    using cash_books_new [OF treasury_invD(3) [OF inv]] assms(3,4) by blast
  then show ?thesis
    using inv assms(2) same_books [of "T\<lparr>tt_accounts := tt_accounts T @ [a]\<rparr>" T]
      same_claims [of "T\<lparr>tt_accounts := tt_accounts T @ [a]\<rparr>" T]
    by (simp add: treasury_inv_def unique_rows_def documents_ok_def)
qed

lemma written_transfer_inv:
  assumes "treasury_inv T" "unclashed transfer_clash rs" "\<forall>r\<in>set rs. transfer_ok r"
  shows "treasury_inv (T\<lparr>tt_transfers := rs\<rparr>)"
  using assms same_books [of "T\<lparr>tt_transfers := rs\<rparr>" T] same_claims [of "T\<lparr>tt_transfers := rs\<rparr>" T]
  by (simp add: treasury_inv_def unique_rows_def documents_ok_def)

lemma set_balance_clash [simp]:
  "account_clash (set_balance v a) b = account_clash a b" "account_clash a (set_balance v b) = account_clash a b"
  by (simp_all add: account_clash_def set_balance_def)

lemma marked_settlement_entries:
  assumes "marked es es'" "\<And>e. e \<in> set es \<Longrightarrow> ce_entryType e = ''settlement'' \<Longrightarrow> \<exists>d\<in>ds. entry_of d e"
    and "e' \<in> set es'" "ce_entryType e' = ''settlement''"
  shows "\<exists>d\<in>ds. entry_of d e'"
proof -
  obtain e r where e: "e \<in> set es" "e' = e\<lparr>ce_reversedByEntryId := r\<rparr>" using marked_member [OF assms(1,3)] by blast
  then obtain d where "d \<in> ds" "entry_of d e" using assms(2) [OF e(1)] assms(4) by auto
  then show ?thesis using e(2) by (auto simp: entry_of_def)
qed

lemma transferred_inv:
  assumes inv: "treasury_inv T" and a: "a \<in> set (tt_accounts T)" and b: "b \<in> set (tt_accounts T)" "ca_id a \<noteq> ca_id b"
    and n: "0 \<le> ca_currentBalance a + x" "0 \<le> ca_currentBalance b - x"
    and e: "ce_cashbookAccountId e = ca_id a" "signed e = x" and f: "ce_cashbookAccountId f = ca_id b" "signed f = - x"
    and types: "ce_entryType e \<noteq> ''settlement''" "ce_entryType f \<noteq> ''settlement''" and es: "marked (tt_entries T @ [e, f]) es"
    and rs: "unclashed transfer_clash rs" "\<forall>r\<in>set rs. transfer_ok r"
  shows "treasury_inv (T\<lparr>tt_accounts := update_where (\<lambda>r. ca_id r = ca_id b) (set_balance (ca_currentBalance b - x))
            (update_where (\<lambda>r. ca_id r = ca_id a) (set_balance (ca_currentBalance a + x)) (tt_accounts T)),
          tt_entries := es, tt_transfers := rs\<rparr>)" (is "treasury_inv ?T")
proof -
  let ?as = "update_where (\<lambda>r. ca_id r = ca_id a) (set_balance (ca_currentBalance a + x)) (tt_accounts T)"
  have u: "unclashed account_clash (tt_accounts T)" using treasury_invD(1) [OF inv] by (simp add: unique_rows_def)
  have u1: "unclashed account_clash ?as" by (rule unclashed_after_update [OF u]) simp_all
  have 1: "cash_books ?as (tt_entries T @ [e])"
    by (rule cash_books_move [OF treasury_invD(3) [OF inv] u a refl e(1)]) (use n e(2) in auto)
  have b1: "b \<in> set ?as" using b by (auto simp: set_update_where intro!: bexI [of _ b])
  have 2: "cash_books (update_where (\<lambda>r. ca_id r = ca_id b) (set_balance (ca_currentBalance b - x)) ?as) ((tt_entries T @ [e]) @ [f])"
    by (rule cash_books_move [OF 1 u1 b1 refl f(1)]) (use n f(2) in auto)
  have cash: "cash_books (tt_accounts ?T) (tt_entries ?T)" using marked_books [OF 2] es by simp
  have rows: "unique_rows ?T"
    using treasury_invD(1) [OF inv] unclashed_after_update [OF u1, of "set_balance (ca_currentBalance b - x)"] rs
    by (simp add: unique_rows_def)
  have docs: "documents_ok ?T"
  proof -
    have "\<exists>d\<in>set (tt_settlements T). entry_of d e'" if "e' \<in> set es" "ce_entryType e' = ''settlement''" for e'
    proof (rule marked_settlement_entries [OF es _ that])
      fix g assume "g \<in> set (tt_entries T @ [e, f])" "ce_entryType g = ''settlement''"
      then show "\<exists>d\<in>set (tt_settlements T). entry_of d g" using treasury_invD(2) [OF inv] types by (auto simp: documents_ok_def)
    qed
    then show ?thesis using treasury_invD(2) [OF inv] rs by (simp add: documents_ok_def)
  qed
  show ?thesis
    using inv cash rows docs same_books [of ?T T] same_claims [of ?T T] by (simp add: treasury_inv_def)
qed

section \<open>Settlements\<close>

lemma written_settlement_inv:
  assumes inv: "treasury_inv T" and ds: "unclashed settlement_clash ds" "\<forall>d\<in>set ds. settlement_ok d"
    and kept: "\<forall>d\<in>set (tt_settlements T). st_id d \<in> st_id ` set ds \<and> (\<not> not_final (st_status d) \<longrightarrow> d \<in> set ds)"
    and final: "\<forall>d\<in>set ds. \<not> not_final (st_status d) \<longrightarrow> d \<in> set (tt_settlements T)"
    and as: "\<forall>a\<in>set as. allocation_ok a \<and> sa_settlementId a \<in> st_id ` set ds"
    and posted: "filter (\<lambda>a. posted_in (tt_settlements T) (sa_settlementId a)) as
          = filter (\<lambda>a. posted_in (tt_settlements T) (sa_settlementId a)) (tt_allocations T)"
  shows "treasury_inv (T\<lparr>tt_settlements := ds, tt_allocations := as, tt_links := ls\<rparr>)" (is "treasury_inv ?T")
proof -
  have p: "posted_in ds = posted_in (tt_settlements T)" by (rule posted_in_same) (use kept final in auto)
  have s: "settled ?T = settled T" by (intro ext) (simp add: settled_filter p posted)
  have "\<exists>d\<in>set ds. entry_of d e" if e: "e \<in> set (tt_entries T)" "ce_entryType e = ''settlement''" for e
  proof -
    obtain d where d: "d \<in> set (tt_settlements T)" "entry_of d e" using treasury_invD(2) [OF inv] e by (auto simp: documents_ok_def)
    then have "\<not> not_final (st_status d)" by (auto simp: entry_of_def not_final_def)
    then show ?thesis using kept d by blast
  qed
  then have docs: "documents_ok ?T" using treasury_invD(2) [OF inv] ds(2) as by (simp add: documents_ok_def)
  show ?thesis using inv ds(1) s docs same_claims [of ?T T] by (simp add: treasury_inv_def unique_rows_def)
qed

lemma entry_of_other:
  assumes "entry_of q e" "not_final (st_status d)" "q = d"
  shows False
  using assms by (auto simp: entry_of_def not_final_def)

lemma settlement_marks:
  "st_id (posted_settlement d) = st_id d" "st_status (posted_settlement d) = ''posted''"
  "st_id (reversed_settlement d) = st_id d" "st_status (reversed_settlement d) = ''reversed''"
  "settlement_ok d \<Longrightarrow> settlement_ok (posted_settlement d)" "settlement_ok d \<Longrightarrow> settlement_ok (reversed_settlement d)"
  "settlement_clash (posted_settlement d) = settlement_clash d" "settlement_clash (reversed_settlement d) = settlement_clash d"
  "settlement_clash q (posted_settlement d) = settlement_clash q d" "settlement_clash q (reversed_settlement d) = settlement_clash q d"
  by (auto simp: posted_settlement_def reversed_settlement_def settlement_ok_def settlement_clash_def fun_eq_iff)

text \<open>The documents after a settlement was posted or reversed.\<close>

lemma settlement_rows:
  assumes inv: "treasury_inv T" and d: "d \<in> set (tt_settlements T)" and f: "f = posted_settlement \<or> f = reversed_settlement"
  shows "unclashed settlement_clash (update_where (\<lambda>r. st_id r = st_id d) f (tt_settlements T))"
    and "q \<in> set (update_where (\<lambda>r. st_id r = st_id d) f (tt_settlements T)) \<Longrightarrow> settlement_ok q"
    and "st_id ` set (update_where (\<lambda>r. st_id r = st_id d) f (tt_settlements T)) = st_id ` set (tt_settlements T)"
proof -
  have u: "unclashed settlement_clash (tt_settlements T)" using treasury_invD(1) [OF inv] by (simp add: unique_rows_def)
  show "unclashed settlement_clash (update_where (\<lambda>r. st_id r = st_id d) f (tt_settlements T))"
    by (rule unclashed_after_update [OF u]) (use f in \<open>auto simp: settlement_marks\<close>)
  have ok: "settlement_ok r" if "r \<in> set (tt_settlements T)" for r using documents_okD(1) [OF treasury_invD(2) [OF inv] that] .
  show "settlement_ok q" if "q \<in> set (update_where (\<lambda>r. st_id r = st_id d) f (tt_settlements T))"
    using that ok f by (auto simp: set_update_where settlement_marks)
  show "st_id ` set (update_where (\<lambda>r. st_id r = st_id d) f (tt_settlements T)) = st_id ` set (tt_settlements T)"
    by (rule update_where_image) (use f in \<open>auto simp: settlement_marks\<close>)
qed

lemma posts_inv:
  assumes inv: "treasury_inv T" and d: "d \<in> set (tt_settlements T)" "not_final (st_status d)"
    and acc: "acc \<in> set (tt_accounts T)" "ca_id acc = st_cashbookAccountId d" "v = ca_currentBalance acc + cash_moved d" "0 \<le> v"
    and owed: "owed_change (\<lambda>ty k. - allocated (allocations_in T (st_id d)) ty k) T T1" "owed_nonneg T1"
    and e: "ce_entryType e = ''settlement''" "entry_of (posted_settlement d) e"
    and vs: "unclashed advance_clash vs" "vs = tt_advances T
          \<or> vs = tt_advances T @ [adv] \<and> pa_appliedAmount adv = 0 \<and> pa_remainingAmount adv = pa_originalAmount adv \<and> 0 \<le> pa_originalAmount adv"
  shows "treasury_inv (T1\<lparr>tt_accounts := update_where (\<lambda>a. ca_id a = ca_id acc) (set_balance v) (tt_accounts T),
          tt_entries := tt_entries T @ [e], tt_advances := vs,
          tt_settlements := update_where (\<lambda>r. st_id r = st_id d) posted_settlement (tt_settlements T), tt_links := ls\<rparr>)"
    (is "treasury_inv ?T")
proof -
  note rest = owed_change_rest [OF owed(1)]
  have ua: "unclashed account_clash (tt_accounts T)" and us: "unclashed settlement_clash (tt_settlements T)"
    using treasury_invD(1) [OF inv] by (simp_all add: unique_rows_def)
  note rows = settlement_rows [OF inv d(1), of posted_settlement, simplified]
  have sum: "settled ?T ty k = settled T ty k + allocated (allocations_in T (st_id d)) ty k" for ty k
    using settled_change [of T ?T "st_id d" True ty k] d(2) rest posted_in_at [OF us d(1)]
    by (simp add: posted_in_update [OF us d(1)] settlement_marks not_final_def)
  have owe: "owed_books (tt_payables ?T) (\<lambda>k. settled ?T ''payable'' k + applied ?T ''payable'' k)
    \<and> owed_books (tt_receivables ?T) (\<lambda>k. settled ?T ''receivable'' k + applied ?T ''receivable'' k)"
    by (rule owed_step [OF inv owed]) (use same_claims [of ?T T] rest in \<open>simp_all add: sum\<close>)
  have cash: "cash_books (tt_accounts ?T) (tt_entries ?T)"
    using cash_books_move [OF treasury_invD(3) [OF inv] ua acc(1) refl, of e v] e(2) acc
    by (simp add: entry_of_def posted_settlement_def signed_def cash_moved_def split: if_splits)
  have new: "drawn T (pa_id adv) = 0" if "vs = tt_advances T @ [adv]"
  proof -
    have "pa_id adv \<notin> pa_id ` set (tt_advances T)" using vs(1) that by (auto simp: unclashed_snoc advance_clash_def)
    then have "aa_advanceId a \<noteq> pa_id adv" if "a \<in> set (tt_applications T)" for a
      using documents_okD(4) [OF treasury_invD(2) [OF inv] that] by metis
    then show ?thesis unfolding drawn_def by (intro sum_if_none) auto
  qed
  have adv: "advance_books vs (drawn ?T)"
    using vs(2) new treasury_invD(4) [OF inv] same_claims [of ?T T] rest by (auto simp: advance_books_def)
  have "\<exists>q\<in>set (tt_settlements ?T). entry_of q g" if g: "g \<in> set (tt_entries ?T)" "ce_entryType g = ''settlement''" for g
  proof -
    consider "g = e" | "g \<in> set (tt_entries T)" using g(1) by auto
    then show ?thesis
    proof cases
      case 1
      then show ?thesis using e(2) by (auto simp: settlement_update [OF us d(1)])
    next
      case 2
      then obtain q where q: "q \<in> set (tt_settlements T)" "entry_of q g"
        using treasury_invD(2) [OF inv] g(2) by (auto simp: documents_ok_def)
      have "st_id q \<noteq> st_id d"
      proof
        assume "st_id q = st_id d"
        then have "q = d"
          using unclashed_row [of st_id settlement_clash, OF _ us q(1) d(1)] by (simp add: settlement_clash_def)
        then show False using entry_of_other [OF q(2) d(2)] by simp
      qed
      then show ?thesis using q by (auto simp: settlement_update [OF us d(1)])
    qed
  qed
  moreover have "aa_advanceId a \<in> pa_id ` set vs" if "a \<in> set (tt_applications T)" for a
    using documents_okD(4) [OF treasury_invD(2) [OF inv] that] vs(2) by auto
  ultimately have docs: "documents_ok ?T"
    using treasury_invD(2) [OF inv] rest rows by (simp add: documents_ok_def)
  have "unique_rows ?T"
    using treasury_invD(1) [OF inv] owed_change_rows [OF owed(1) treasury_invD(1) [OF inv]] rows(1) vs(1) rest
      unclashed_after_update [OF ua, of "set_balance v"]
    by (simp add: unique_rows_def)
  then show ?thesis using cash owe adv docs by (simp add: treasury_inv_def)
qed

lemma unposts_inv:
  assumes inv: "treasury_inv T" and d: "d \<in> set (tt_settlements T)" "st_status d = ''posted''"
    and acc: "acc \<in> set (tt_accounts T)" "ca_id acc = st_cashbookAccountId d" "v = ca_currentBalance acc - cash_moved d" "0 \<le> v"
    and owed: "owed_change (allocated (allocations_in T (st_id d))) T T1" "owed_nonneg T1"
    and e: "ce_entryType e \<noteq> ''settlement''" "ce_cashbookAccountId e = ca_id acc" "signed e = - cash_moved d"
    and es: "marked (tt_entries T @ [e]) es"
    and vs: "vs = tt_advances T \<or> (\<exists>adv\<in>set (tt_advances T). pa_appliedAmount adv = 0
          \<and> vs = update_where (\<lambda>r. pa_id r = pa_id adv) (\<lambda>r. r\<lparr>pa_status := ''reversed'', pa_version := pa_version r + 1\<rparr>) (tt_advances T))"
  shows "treasury_inv (T1\<lparr>tt_accounts := update_where (\<lambda>a. ca_id a = ca_id acc) (set_balance v) (tt_accounts T),
          tt_entries := es, tt_advances := vs,
          tt_settlements := update_where (\<lambda>r. st_id r = st_id d) reversed_settlement (tt_settlements T), tt_links := ls\<rparr>)"
    (is "treasury_inv ?T")
proof -
  note rest = owed_change_rest [OF owed(1)]
  have ua: "unclashed account_clash (tt_accounts T)" and us: "unclashed settlement_clash (tt_settlements T)"
    and uv: "unclashed advance_clash (tt_advances T)"
    using treasury_invD(1) [OF inv] by (simp_all add: unique_rows_def)
  note rows = settlement_rows [OF inv d(1), of reversed_settlement, simplified]
  have sum: "settled ?T ty k = settled T ty k - allocated (allocations_in T (st_id d)) ty k" for ty k
    using settled_change [of T ?T "st_id d" False ty k] d(2) rest posted_in_at [OF us d(1)]
    by (simp add: posted_in_update [OF us d(1)] settlement_marks)
  have owe: "owed_books (tt_payables ?T) (\<lambda>k. settled ?T ''payable'' k + applied ?T ''payable'' k)
    \<and> owed_books (tt_receivables ?T) (\<lambda>k. settled ?T ''receivable'' k + applied ?T ''receivable'' k)"
    by (rule owed_step [OF inv owed]) (use same_claims [of ?T T] rest in \<open>simp_all add: sum\<close>)
  have "cash_books (tt_accounts ?T) (tt_entries T @ [e])"
    using cash_books_move [OF treasury_invD(3) [OF inv] ua acc(1) refl, of e v] e(2,3) acc by simp
  then have cash: "cash_books (tt_accounts ?T) (tt_entries ?T)" using marked_books es by simp
  have adv: "advance_books vs (drawn ?T) \<and> pa_id ` set vs = pa_id ` set (tt_advances T) \<and> unclashed advance_clash vs"
  proof -
    have books: "advance_books (tt_advances T) (drawn ?T)"
      using treasury_invD(4) [OF inv] same_claims [of ?T T] rest by simp
    from vs show ?thesis
    proof
      assume "vs = tt_advances T"
      then show ?thesis using books uv by simp
    next
      assume "\<exists>adv\<in>set (tt_advances T). pa_appliedAmount adv = 0
          \<and> vs = update_where (\<lambda>r. pa_id r = pa_id adv) (\<lambda>r. r\<lparr>pa_status := ''reversed'', pa_version := pa_version r + 1\<rparr>) (tt_advances T)"
      then obtain adv where adv: "adv \<in> set (tt_advances T)" "pa_appliedAmount adv = 0"
        and vs: "vs = update_where (\<lambda>r. pa_id r = pa_id adv) (\<lambda>r. r\<lparr>pa_status := ''reversed'', pa_version := pa_version r + 1\<rparr>) (tt_advances T)"
        by blast
      have "set vs = insert (adv\<lparr>pa_status := ''reversed'', pa_version := pa_version adv + 1\<rparr>) {q \<in> set (tt_advances T). pa_id q \<noteq> pa_id adv}"
        unfolding vs by (rule set_update_unique [OF _ uv adv(1) refl]) (simp add: advance_clash_def)
      then have "advance_books vs (drawn ?T)" using books adv by (auto simp: advance_books_def)
      moreover have "unclashed advance_clash vs" unfolding vs by (rule unclashed_after_update [OF uv]) (simp_all add: advance_clash_def)
      moreover have "pa_id ` set vs = pa_id ` set (tt_advances T)" unfolding vs by (rule update_where_image) simp
      ultimately show ?thesis by blast
    qed
  qed
  have "\<exists>q\<in>set (tt_settlements ?T). entry_of q g" if g: "g \<in> set es" "ce_entryType g = ''settlement''" for g
  proof (rule marked_settlement_entries [OF es _ g])
    fix h assume h: "h \<in> set (tt_entries T @ [e])" "ce_entryType h = ''settlement''"
    then obtain q where q: "q \<in> set (tt_settlements T)" "entry_of q h"
      using documents_okD(3) [OF treasury_invD(2) [OF inv]] e(1) by auto
    show "\<exists>q\<in>set (tt_settlements ?T). entry_of q h"
    proof (cases "st_id q = st_id d")
      case True
      then have "q = d" using unclashed_row [of st_id settlement_clash, OF _ us q(1) d(1)] by (simp add: settlement_clash_def)
      then have "entry_of (reversed_settlement d) h" using q(2) by (simp add: entry_of_def reversed_settlement_def)
      then show ?thesis by (simp add: settlement_update [OF us d(1)])
    next
      case False
      then show ?thesis using q by (auto simp: settlement_update [OF us d(1)])
    qed
  qed
  then have docs: "documents_ok ?T"
    using treasury_invD(2) [OF inv] rest rows adv by (simp add: documents_ok_def)
  have "unique_rows ?T"
    using treasury_invD(1) [OF inv] owed_change_rows [OF owed(1) treasury_invD(1) [OF inv]] rows(1) adv rest
      unclashed_after_update [OF ua, of "set_balance v"]
    by (simp add: unique_rows_def)
  then show ?thesis using cash owe adv docs by (simp add: treasury_inv_def)
qed

section \<open>Advances\<close>

lemma claimed_inv:
  assumes inv: "treasury_inv T" and as: "unclashed application_clash as"
    "\<forall>a\<in>set as. application_ok a \<and> aa_advanceId a \<in> pa_id ` set (tt_advances T)"
    and posted: "filter (\<lambda>a. aa_postingStatus a = ''posted'') as = filter (\<lambda>a. aa_postingStatus a = ''posted'') (tt_applications T)"
  shows "treasury_inv (T\<lparr>tt_applications := as\<rparr>)"
proof -
  have "applied (T\<lparr>tt_applications := as\<rparr>) = applied T" "drawn (T\<lparr>tt_applications := as\<rparr>) = drawn T"
    by (intro ext, simp add: applied_filter drawn_filter posted)+
  then show ?thesis
    using inv as same_books [of "T\<lparr>tt_applications := as\<rparr>" T] by (simp add: treasury_inv_def unique_rows_def documents_ok_def)
qed

lemma sum_if_application:
  assumes "unclashed application_clash as" "a \<in> set as"
  shows "sum_if P f (update_where (\<lambda>r. aa_id r = aa_id a) u as)
    = sum_if P f as - (if P a then f a else 0) + (if P (u a) then f (u a) else 0)"
proof -
  have k: "aa_id x = aa_id y \<Longrightarrow> application_clash x y" for x y by (simp add: application_clash_def)
  have "distinct (map aa_id as)" by (rule unclashed_keys_distinct [OF k assms(1)])
  then show ?thesis using sum_if_update row_of_in assms(2) by metis
qed

lemma set_application_simps [simp]:
  "aa_id (set_application status a) = aa_id a" "application_type (set_application status a) = application_type a"
  "aa_obligationId (set_application status a) = aa_obligationId a" "aa_postingStatus (set_application status a) = status"
  "aa_appliedAmount (set_application status a) = aa_appliedAmount a" "aa_advanceId (set_application status a) = aa_advanceId a"
  "application_ok a \<Longrightarrow> application_ok (set_application status a)"
  "application_clash (set_application status a) b = application_clash a b" "application_clash b (set_application status a) = application_clash b a"
  by (simp_all add: set_application_def application_type_def aa_obligationId_def application_ok_def application_clash_def is_payable_def)

text \<open>Posting or reversing one application: \<open>x\<close> is its amount, taken or given back.\<close>

lemma application_inv:
  assumes inv: "treasury_inv T" and a: "a \<in> set (tt_applications T)" and adv: "adv \<in> set (tt_advances T)" "pa_id adv = aa_advanceId a"
    and flip: "(aa_postingStatus a = ''posted'') \<noteq> (new = ''posted'')"
    and x: "x = (if new = ''posted'' then aa_appliedAmount a else - aa_appliedAmount a)"
    and owed: "owed_change (\<lambda>ty k. if ty = application_type a \<and> k = aa_obligationId a then - x else 0) T T1" "owed_nonneg T1"
    and ok: "0 \<le> pa_remainingAmount adv - x" "status \<noteq> ''reversed''"
  shows "treasury_inv (T1\<lparr>tt_advances := update_where (\<lambda>r. pa_id r = pa_id adv)
            (set_advance (pa_remainingAmount adv - x) (pa_appliedAmount adv + x) status) (tt_advances T),
          tt_applications := update_where (\<lambda>r. aa_id r = aa_id a) (set_application new) (tt_applications T)\<rparr>)"
    (is "treasury_inv ?T")
proof -
  note rest = owed_change_rest [OF owed(1)]
  have uv: "unclashed advance_clash (tt_advances T)" and up: "unclashed application_clash (tt_applications T)"
    using treasury_invD(1) [OF inv] by (simp_all add: unique_rows_def)
  have applied: "applied ?T ty k = applied T ty k + (if ty = application_type a \<and> k = aa_obligationId a then x else 0)" for ty k
    unfolding applied_def using flip by (auto simp: sum_if_application [OF up a] x)
  have drawn: "drawn ?T k = drawn T k + (if k = aa_advanceId a then x else 0)" for k
    unfolding drawn_def using flip by (auto simp: sum_if_application [OF up a] x)
  have owe: "owed_books (tt_payables ?T) (\<lambda>k. settled ?T ''payable'' k + applied ?T ''payable'' k)
    \<and> owed_books (tt_receivables ?T) (\<lambda>k. settled ?T ''receivable'' k + applied ?T ''receivable'' k)"
    by (rule owed_step [OF inv owed]) (use same_books [of ?T T] rest in \<open>simp_all add: applied\<close>)
  let ?f = "set_advance (pa_remainingAmount adv - x) (pa_appliedAmount adv + x) status"
  let ?vs = "update_where (\<lambda>r. pa_id r = pa_id adv) ?f (tt_advances T)"
  have "set ?vs = insert (?f adv) {q \<in> set (tt_advances T). pa_id q \<noteq> pa_id adv}"
    by (rule set_update_unique [OF _ uv adv(1) refl]) (simp add: advance_clash_def)
  moreover have "drawn ?T = (\<lambda>k. drawn T k + (if k = aa_advanceId a then x else 0))" by (rule ext) (rule drawn)
  ultimately have books: "advance_books ?vs (drawn ?T)"
    using treasury_invD(4) [OF inv] adv ok by (simp only:) (auto simp: advance_books_def set_advance_def)
  have ids: "pa_id ` set ?vs = pa_id ` set (tt_advances T)" by (rule update_where_image) (simp add: set_advance_def)
  have docs: "documents_ok ?T"
    using treasury_invD(2) [OF inv] rest ids by (auto simp: documents_ok_def set_update_where)
  have "unclashed advance_clash ?vs" by (rule unclashed_after_update [OF uv]) (simp_all add: advance_clash_def set_advance_def)
  moreover have "unclashed application_clash (tt_applications ?T)"
    using unclashed_after_update [OF up, of "set_application new"] by simp
  ultimately have "unique_rows ?T"
    using treasury_invD(1) [OF inv] owed_change_rows [OF owed(1) treasury_invD(1) [OF inv]] rest by (simp add: unique_rows_def)
  then show ?thesis using owe books docs treasury_invD(3) [OF inv] rest by (simp add: treasury_inv_def)
qed

section \<open>All steps\<close>

theorem treasury_step_inv:
  assumes "treasury_step T T'" "treasury_inv T"
  shows "treasury_inv T'"
  using assms
proof induction
  case (opened T a)
  then show ?case by (intro opened_inv) simp_all
next
  case (drafted ds T as ls)
  then show ?case by (intro written_settlement_inv)
next
  case (posts d T acc v T1 e vs adv ls)
  then show ?case by (intro posts_inv)
next
  case (unposts d T acc v T1 e es vs ls)
  then show ?case by (intro unposts_inv)
next
  case (claimed as T)
  then show ?case by (intro claimed_inv)
next
  case (applies a T adv T1 status)
  have "owed_change (\<lambda>ty k. if ty = application_type a \<and> k = aa_obligationId a then - aa_appliedAmount a else 0) T T1"
    by (rule owed_change_cong [OF applies.hyps(7)]) (simp add: application_moved_def)
  then show ?case
    using application_inv [of T a adv "''posted''" "aa_appliedAmount a" T1 status] applies by simp
next
  case (unapplies a T adv T1 status)
  have "owed_change (\<lambda>ty k. if ty = application_type a \<and> k = aa_obligationId a then - (- aa_appliedAmount a) else 0) T T1"
    by (rule owed_change_cong [OF unapplies.hyps(5)]) (simp add: application_moved_def)
  moreover have "0 < aa_appliedAmount a"
    using documents_okD(4) [OF treasury_invD(2) [OF unapplies.prems] unapplies.hyps(1)] by (simp add: application_ok_def)
  moreover have "0 \<le> pa_remainingAmount adv" using treasury_invD(4) [OF unapplies.prems] unapplies.hyps(3) unfolding advance_books_def by blast
  ultimately show ?case
    using application_inv [of T a adv "''reversed''" "- aa_appliedAmount a" T1 status] unapplies by simp
next
  case (written_transfer rs T)
  then show ?case by (intro written_transfer_inv)
next
  case (transferred a T b x e f es rs)
  then show ?case by (intro transferred_inv)
qed

end
