(* ===== verification/Treasury_Refinement.thy ===== *)
theory Treasury_Refinement
  imports Treasury_Steps
begin

text \<open>Every command of the treasury that succeeds is a step of the machine on the tables.\<close>

context prisma_table
begin

lemma each_rows:
  assumes "each (\<lambda>x s. or_error e (createRow m s (row x))) xs s = Inr s'"
  shows "tables s' = put (\<lambda>rs. rs @ map row xs) (tables s)"
  using assms
proof (induction xs arbitrary: s)
  case (Cons x xs)
  then obtain s1 where s1: "createRow m s (row x) = Some s1"
    and rest: "each (\<lambda>x s. or_error e (createRow m s (row x))) xs s1 = Inr s'" by auto
  show ?case using Cons.IH [OF rest] created [OF s1] by simp
qed simp

end

lemma step_eq: "treasury_step T T' \<Longrightarrow> T'' = T' \<Longrightarrow> treasury_step T T''"
  by simp

lemma treasury_rows:
  assumes "treasury_inv T"
  shows "unclashed account_clash (tt_accounts T)" "unclashed settlement_clash (tt_settlements T)"
    "unclashed (\<lambda>a b. ob_id a = ob_id b) (tt_payables T)" "unclashed (\<lambda>a b. ob_id a = ob_id b) (tt_receivables T)"
    "unclashed advance_clash (tt_advances T)" "unclashed application_clash (tt_applications T)"
    "unclashed transfer_clash (tt_transfers T)"
  using treasury_invD(1) [OF assms] by (simp_all add: unique_rows_def)

context treasury_store
begin

lemma account_opened:
  assumes "createCashbookAccount tx gen actor q s = Inr (s', k)" "treasury_inv (tables s)"
  shows "treasury_step (tables s) (tables s')"
proof -
  obtain a where a: "createRow (ttx_accounts tx) s a = Some s'" "ca_currentBalance a = ca_openingBalance a" "0 \<le> ca_openingBalance a"
    using assms(1) by (auto simp: createCashbookAccount_def Let_def amountUnits_Inr)
  note c = accounts.created [OF a(1)]
  have "treasury_step (tables s) ((tables s)\<lparr>tt_accounts := tt_accounts (tables s) @ [a]\<rparr>)"
    using c treasury_rows(1) [OF assms(2)] a(2,3) by (intro opened) auto
  then show ?thesis by (rule step_eq) (use c in \<open>simp add: try_tables.equality\<close>)
qed

section \<open>Drafts of settlements\<close>

lemma allocations_created:
  assumes "create_allocations tx gen n t k input s = Inr s'"
  shows "tables s' = tt_allocations_update (\<lambda>rs. rs @ map (\<lambda>x. new_settle_alloc (gen (fst x)) t k (sin_currency input) (snd x))
    (enumerate n (sin_allocations input))) (tables s)"
  using allocations.each_rows [where row = "\<lambda>x. new_settle_alloc (gen (fst x)) t k (sin_currency input) (snd x)"] assms
  by (simp add: create_allocations_def case_prod_unfold)

lemma allocations_linked:
  assumes "link_allocations tx gen n t k as s = Inr s'"
  shows "\<exists>F. tables s' = tt_links_update F (tables s)"
  using links.each_rows [where row = "\<lambda>x. allocation_link (gen (fst x)) t k (snd x)"] assms
  by (fastforce simp: link_allocations_def case_prod_unfold)

lemma links_marked:
  assumes "mark_links tx t k status s = Inr s'"
  shows "\<exists>F. tables s' = tt_links_update F (tables s)"
  using assms links.updated_many by (fastforce simp: mark_links_def)

lemma found_settlement:
  assumes "find_settlement tx t k s = Inr d"
  shows "d \<in> set (tt_settlements (tables s)) \<and> st_id d = k \<and> st_tenantId d = t"
  using assms settlements.first_some by (fastforce simp: find_settlement_def)

lemma new_allocations_ok:
  assumes "sep_issues (settlementPlan tx s t (normalizeSettlement le q)) = []"
    and "a \<in> set (map (\<lambda>x. new_settle_alloc (gen (fst x)) t k c (snd x)) (enumerate n (sin_allocations (normalizeSettlement le q))))"
  shows "allocation_ok a \<and> sa_settlementId a = k"
proof -
  obtain x where x: "x \<in> set (enumerate n (sin_allocations (normalizeSettlement le q)))" "a = new_settle_alloc (gen (fst x)) t k c (snd x)"
    using assms(2) by auto
  then have i: "snd x \<in> set (sin_allocations (normalizeSettlement le q))" using x(1) by (metis imageI list.set_map map_snd_enumerate)
  show ?thesis
    using new_settle_alloc_ok [of "snd x"] plan_allowed(3) [OF assms(1) i] normalized_ids [OF i] x(2)
    by (simp add: new_settle_alloc_def)
qed

lemma set_settlement_ok:
  assumes "sep_issues (settlementPlan tx s t input) = []" "input = normalizeSettlement le q" "not_final (st_status d)" "not_final (st_workflowStatus d)"
  shows "settlement_ok (set_settlement input (settlementPlan tx s t input) day d)"
  using plan_allowed(2) [OF assms(1)] plan_advance assms(2-4)
  by (simp add: settlement_ok_def set_settlement_def not_final_def normalizeSettlement_def)

lemma settlement_created:
  assumes run: "createSettlement le date tx gen actor q s = Inr (s', k)" and inv: "treasury_inv (tables s)"
  shows "treasury_step (tables s) (tables s')"
proof -
  let ?t = "ac_tenantId actor" and ?i = "normalizeSettlement le q"
  let ?p = "settlementPlan tx s ?t ?i"
  obtain day s1 s2 where ok: "sep_issues ?p = []"
    and s1: "createRow (ttx_settlements tx) s (set_settlement ?i ?p day (blank_settlement (gen 1) ?t (ac_userId actor))) = Some s1"
    and s2: "create_allocations tx gen 2 ?t (gen 1) ?i s1 = Inr s2"
    and s3: "link_allocations tx gen (2 + length (sin_allocations ?i)) ?t (gen 1) (settlement_allocations tx s2 (gen 1)) s2 = Inr s'"
    using run by (auto simp: createSettlement_def Let_def)
  define d where "d = set_settlement ?i ?p day (blank_settlement (gen 1) ?t (ac_userId actor))"
  define new where "new = map (\<lambda>x. new_settle_alloc (gen (fst x)) ?t (gen 1) (sin_currency ?i) (snd x)) (enumerate 2 (sin_allocations ?i))"
  have d: "st_id d = gen 1" "not_final (st_status d)" "settlement_ok d"
    using set_settlement_ok [OF ok refl, of "blank_settlement (gen 1) ?t (ac_userId actor)" day]
    by (simp_all add: d_def set_settlement_def blank_settlement_def not_final_def)
  note c1 = settlements.created [OF s1, folded d_def] and c2 = allocations_created [OF s2, folded new_def]
  obtain F where c3: "tables s' = tt_links_update F (tables s2)" using allocations_linked [OF s3] by blast
  have u: "unclashed settlement_clash (tt_settlements (tables s) @ [d])" using c1 treasury_rows(2) [OF inv] by simp
  then have fresh: "gen 1 \<notin> st_id ` set (tt_settlements (tables s))"
    using d(1) by (auto simp: unclashed_snoc settlement_clash_def)
  have new: "allocation_ok a \<and> sa_settlementId a = gen 1" if "a \<in> set new" for a
    using new_allocations_ok [OF ok] that unfolding new_def by blast
  have "\<not> posted_in (tt_settlements (tables s)) (gen 1)" unfolding posted_in_def using fresh by (metis image_eqI)
  then have none: "filter (\<lambda>a. posted_in (tt_settlements (tables s)) (sa_settlementId a)) new = []"
    using new by (auto simp: filter_empty_conv)
  have other: "filter (\<lambda>a. sa_settlementId a = st_id r) new = []" if "r \<in> set (tt_settlements (tables s))" for r
    using new fresh that by (auto simp: filter_empty_conv)
  have "treasury_step (tables s) ((tables s)\<lparr>tt_settlements := tt_settlements (tables s) @ [d],
      tt_allocations := tt_allocations (tables s) @ new, tt_links := F (tt_links (tables s))\<rparr>)"
    using documents_okD(1,2) [OF treasury_invD(2) [OF inv]] u d new none other
    by (intro drafted) (auto simp: allocations_in_def)
  then show ?thesis by (rule step_eq) (rule try_tables.equality; simp add: c1 c2 c3)
qed

lemma draft_rewritten:
  assumes inv: "treasury_inv (tables s)" and d: "d \<in> set (tt_settlements (tables s))" "not_final (st_status d)"
    and f: "st_id (f d) = st_id d" "settlement_ok (f d)" "not_final (st_status (f d))"
    and u: "unclashed settlement_clash (update_where (\<lambda>r. st_id r = st_id d) f (tt_settlements (tables s)))"
    and as: "\<forall>a\<in>set as. allocation_ok a \<and> sa_settlementId a = st_id d"
    and keep: "keep = (\<lambda>a. True) \<and> as = [] \<or> keep = (\<lambda>a. \<not> (sa_tenantId a = t \<and> sa_settlementId a = st_id d))"
  shows "treasury_step (tables s) ((tables s)\<lparr>tt_settlements := update_where (\<lambda>r. st_id r = st_id d) f (tt_settlements (tables s)),
      tt_allocations := filter keep (tt_allocations (tables s)) @ as, tt_links := ls\<rparr>)"
proof -
  note docs = documents_okD [OF treasury_invD(2) [OF inv]]
  have us: "unclashed settlement_clash (tt_settlements (tables s))" by (rule treasury_rows(2) [OF inv])
  have set: "set (update_where (\<lambda>r. st_id r = st_id d) f (tt_settlements (tables s)))
      = insert (f d) {q \<in> set (tt_settlements (tables s)). st_id q \<noteq> st_id d}" by (rule settlement_update [OF us d(1)])
  have same: "q = d" if "q \<in> set (tt_settlements (tables s))" "st_id q = st_id d" for q
    using unclashed_row [of st_id settlement_clash, OF _ us that(1) d(1) that(2)] by (simp add: settlement_clash_def)
  have ids: "st_id ` set (update_where (\<lambda>r. st_id r = st_id d) f (tt_settlements (tables s))) = st_id ` set (tt_settlements (tables s))"
    unfolding set using f(1) d(1) same by (auto simp: image_iff)
  have posted: "\<not> posted_in (tt_settlements (tables s)) (st_id d)"
    using posted_in_at [OF us d(1)] d(2) by (simp add: not_final_def)
  have kept: "keep a" if "sa_settlementId a \<noteq> st_id d" for a using keep that by auto
  have kept_posted: "keep a" if "posted_in (tt_settlements (tables s)) (sa_settlementId a)" for a
    using kept posted that by metis
  have final: "st_id q \<noteq> st_id d" if "q \<in> set (tt_settlements (tables s))" "\<not> not_final (st_status q)" for q
    using same [OF that(1)] that(2) d(2) by auto
  show ?thesis
  proof (rule drafted [OF u])
    show "\<forall>q\<in>set (update_where (\<lambda>r. st_id r = st_id d) f (tt_settlements (tables s))). settlement_ok q"
      unfolding set using f(2) docs(1) by auto
    show "\<forall>q\<in>set (tt_settlements (tables s)). st_id q \<in> st_id ` set (update_where (\<lambda>r. st_id r = st_id d) f (tt_settlements (tables s)))
        \<and> (\<not> not_final (st_status q) \<longrightarrow> q \<in> set (update_where (\<lambda>r. st_id r = st_id d) f (tt_settlements (tables s))))"
      unfolding ids unfolding set using final by auto
    show "\<forall>q\<in>set (update_where (\<lambda>r. st_id r = st_id d) f (tt_settlements (tables s))). \<not> not_final (st_status q)
        \<longrightarrow> q \<in> set (tt_settlements (tables s))"
      unfolding set using f(3) by auto
    show "\<forall>a\<in>set (filter keep (tt_allocations (tables s)) @ as). allocation_ok a
        \<and> sa_settlementId a \<in> st_id ` set (update_where (\<lambda>r. st_id r = st_id d) f (tt_settlements (tables s)))"
      unfolding ids using docs(2) as d(1) by auto
    show "\<forall>q\<in>set (tt_settlements (tables s)). \<not> not_final (st_status q) \<longrightarrow>
        filter (\<lambda>a. sa_settlementId a = st_id q) (filter keep (tt_allocations (tables s)) @ as) = allocations_in (tables s) (st_id q)"
    proof (intro ballI impI)
      fix q assume "q \<in> set (tt_settlements (tables s))" "\<not> not_final (st_status q)"
      then have q: "st_id q \<noteq> st_id d" by (rule final)
      have "filter (\<lambda>a. sa_settlementId a = st_id q) as = []" using as q by (auto simp: filter_empty_conv)
      then show "filter (\<lambda>a. sa_settlementId a = st_id q) (filter keep (tt_allocations (tables s)) @ as) = allocations_in (tables s) (st_id q)"
        unfolding allocations_in_def using q kept by (auto intro!: filter_cong)
    qed
    have "filter (\<lambda>a. posted_in (tt_settlements (tables s)) (sa_settlementId a)) as = []"
      using as posted by (auto simp: filter_empty_conv)
    then show "filter (\<lambda>a. posted_in (tt_settlements (tables s)) (sa_settlementId a)) (filter keep (tt_allocations (tables s)) @ as)
        = filter (\<lambda>a. posted_in (tt_settlements (tables s)) (sa_settlementId a)) (tt_allocations (tables s))"
      using kept_posted by (auto intro!: filter_cong)
  qed
qed

lemma draft_not_final:
  assumes "treasury_inv (tables s)" "d \<in> set (tt_settlements (tables s))" "not_final (st_workflowStatus d)"
  shows "not_final (st_status d)"
  using documents_okD(1) [OF treasury_invD(2) [OF assms(1)] assms(2)] assms(3) by (simp add: settlement_ok_def not_final_def)

lemma settlement_revised:
  assumes run: "reviseSettlement le date tx gen actor r q s = Inr (s', k)" and inv: "treasury_inv (tables s)"
  shows "treasury_step (tables s) (tables s')"
proof -
  let ?t = "ac_tenantId actor" and ?i = "normalizeSettlement le q"
  let ?p = "settlementPlan tx s ?t ?i"
  obtain d day s3 s4 where d: "find_settlement tx ?t (js_trim (trq_id r)) s = Inr d" "st_workflowStatus d \<in> {''draft'', ''rejected''}"
    and ok: "sep_issues ?p = []"
    and s3: "create_allocations tx gen 1 ?t (st_id d) ?i (deleteMany (ttx_links tx)
        (deleteMany (ttx_allocations tx) s (\<lambda>a. sa_tenantId a = ?t \<and> sa_settlementId a = st_id d))
        (\<lambda>l. of_settlement ?t (st_id d) l \<and> dl_status l = Some ''draft'')) = Inr s3"
    and s4: "updateRow (ttx_settlements tx) s3 (st_id d) (\<lambda>d. (set_settlement ?i ?p day d)\<lparr>st_workflowStatus := ''draft'', st_status := ''draft'',
             st_version := st_version d + 1\<rparr>) = Some s4"
    and s5: "link_allocations tx gen (1 + length (sin_allocations ?i)) ?t (st_id d)
          (findMany (ttx_allocations tx) s4 (\<lambda>a. sa_tenantId a = ?t \<and> sa_settlementId a = st_id d)) s4 = Inr s'"
    using run by (auto simp: reviseSettlement_def Let_def)
  define f where "f = (\<lambda>d :: settlement. (set_settlement ?i ?p day d)\<lparr>st_workflowStatus := ''draft'', st_status := ''draft'', st_version := st_version d + 1\<rparr>)"
  define new where "new = map (\<lambda>x. new_settle_alloc (gen (fst x)) ?t (st_id d) (sin_currency ?i) (snd x)) (enumerate 1 (sin_allocations ?i))"
  note c3 = allocations_created [OF s3, folded new_def] and c4 = settlements.updated [OF s4, folded f_def]
  obtain F where c5: "tables s' = tt_links_update F (tables s4)" using allocations_linked [OF s5] by blast
  have d1: "d \<in> set (tt_settlements (tables s))" using found_settlement [OF d(1)] by blast
  have nf: "not_final (st_status d)" by (rule draft_not_final [OF inv d1]) (use d(2) in \<open>auto simp: not_final_def\<close>)
  have f: "st_id (f d) = st_id d" "settlement_ok (f d)" "not_final (st_status (f d))"
    using set_settlement_ok [OF ok refl, of "d\<lparr>st_workflowStatus := ''draft'', st_status := ''draft''\<rparr>" day]
    by (simp_all add: f_def set_settlement_def not_final_def settlement_ok_def)
  note del = allocations.deleted links.deleted
  have u: "unclashed settlement_clash (update_where (\<lambda>r. st_id r = st_id d) f (tt_settlements (tables s)))"
    using c4 c3 treasury_rows(2) [OF inv] by (simp add: del)
  have new: "\<forall>a\<in>set new. allocation_ok a \<and> sa_settlementId a = st_id d"
    using new_allocations_ok [OF ok] unfolding new_def by blast
  show ?thesis
    by (rule step_eq, rule draft_rewritten [OF inv d1 nf f u new, where t = ?t and
          keep = "\<lambda>a. \<not> (sa_tenantId a = ?t \<and> sa_settlementId a = st_id d)"], simp)
      (rule try_tables.equality; simp add: c3 c4 c5 del)
qed

lemma settlement_acted:
  assumes run: "workflowAction tx actor act q s = Inr (s', k)" and inv: "treasury_inv (tables s)"
  shows "treasury_step (tables s) (tables s')"
proof -
  let ?t = "ac_tenantId actor"
  obtain d s1 where d: "find_settlement tx ?t (js_trim (trq_id q)) s = Inr d" "st_workflowStatus d \<in> set (action_from act)"
    and s1: "updateRow (ttx_settlements tx) s (st_id d) (\<lambda>d. d\<lparr>st_workflowStatus := action_to act,
        st_status := (if act = Do_cancel then ''cancelled'' else st_status d), st_version := st_version d + 1\<rparr>) = Some s1"
    and s2: "mark_links tx ?t (st_id d) (action_to act) s1 = Inr s'"
    using run by (auto simp: workflowAction_def Let_def)
  define f where "f = (\<lambda>d :: settlement. d\<lparr>st_workflowStatus := action_to act,
        st_status := (if act = Do_cancel then ''cancelled'' else st_status d), st_version := st_version d + 1\<rparr>)"
  note c1 = settlements.updated [OF s1, folded f_def]
  obtain F where c2: "tables s' = tt_links_update F (tables s1)" using links_marked [OF s2] by blast
  have d1: "d \<in> set (tt_settlements (tables s))" using found_settlement [OF d(1)] by blast
  have from1: "not_final (st_workflowStatus d)" using d(2) by (cases act) (auto simp: not_final_def)
  have nf: "not_final (st_status d)" by (rule draft_not_final [OF inv d1 from1])
  have "not_final (action_to act)" by (cases act) (simp_all add: not_final_def)
  then have f: "st_id (f d) = st_id d" "settlement_ok (f d)" "not_final (st_status (f d))"
    using documents_okD(1) [OF treasury_invD(2) [OF inv] d1] nf by (auto simp: f_def settlement_ok_def not_final_def)
  have u: "unclashed settlement_clash (update_where (\<lambda>r. st_id r = st_id d) f (tt_settlements (tables s)))"
    using c1 treasury_rows(2) [OF inv] by simp
  show ?thesis
    by (rule step_eq, rule draft_rewritten [OF inv d1 nf f u, where as = "[]" and keep = "\<lambda>a. True"], simp, simp)
      (rule try_tables.equality; simp add: c1 c2)
qed

end

end
