(* ===== verification/Treasury_Commands.thy ===== *)
theory Treasury_Commands
  imports Treasury_Refinement
begin

text \<open>The commands that move cash, obligations and advances, and the refinement theorem.\<close>

lemma advance_new: "pa_appliedAmount (new_advance k t d) = 0" "pa_remainingAmount (new_advance k t d) = st_advanceCreatedAmount d"
  "pa_originalAmount (new_advance k t d) = st_advanceCreatedAmount d"
  by (simp_all add: new_advance_def Let_def)

text \<open>The obligations of \<open>T'\<close> are those of \<open>T\<close> moved by \<open>delta\<close>.\<close>

definition obligations_moved :: "(string \<Rightarrow> string \<Rightarrow> int) \<Rightarrow> try_tables \<Rightarrow> try_tables \<Rightarrow> bool" where
  "obligations_moved delta T T' \<longleftrightarrow> owed_moved (delta ''payable'') (tt_payables T) (tt_payables T')
     \<and> owed_moved (delta ''receivable'') (tt_receivables T) (tt_receivables T')"

lemma owed_change_moved:
  assumes "owed_change d T T1" "tt_payables T' = tt_payables T1" "tt_receivables T' = tt_receivables T1"
  shows "obligations_moved d T T'"
  using assms by (auto simp: owed_change_def obligations_moved_def)

context treasury_store
begin

section \<open>Settlements\<close>

lemma allocations_found:
  assumes "treasury_inv (tables s)"
  shows "allocated (settlement_allocations tx s k) = allocated (allocations_in (tables s) k)"
    "a \<in> set (settlement_allocations tx s k) \<Longrightarrow> allocation_ok a"
proof -
  show "allocated (settlement_allocations tx s k) = allocated (allocations_in (tables s) k)"
    by (rule allocated_mset) (simp add: settlement_allocations_def allocations_in_def allocations.found)
  show "allocation_ok a" if "a \<in> set (settlement_allocations tx s k)"
    using documents_okD(2) [OF treasury_invD(2) [OF assms]] that by (auto simp: settlement_allocations_def allocations.found_iff)
qed

lemma advance_kept:
  assumes "(if b then settled_write (createRow (ttx_advances tx) s v) else Inr s) = Inr s'" "unclashed advance_clash (tt_advances (tables s))"
  shows "tables s' = tt_advances_update (\<lambda>_. if b then tt_advances (tables s) @ [v] else tt_advances (tables s)) (tables s)
    \<and> unclashed advance_clash (if b then tt_advances (tables s) @ [v] else tt_advances (tables s))"
proof (cases b)
  case True
  then have c: "createRow (ttx_advances tx) s v = Some s'" using assms(1) by simp
  show ?thesis using advances.created [OF c] assms(2) True by (cases "tables s") simp
next
  case False
  then show ?thesis using assms by simp
qed

lemma settlement_posts:
  assumes run: "postSettlement le workflow tx gen actor q s = Inr (s', k)" and inv: "treasury_inv (tables s)"
  shows "\<exists>d. k = st_id d \<and> treasury_step (tables s) (tables s') \<and> d \<in> set (tt_settlements (tables s)) \<and> not_final (st_status d)
    \<and> obligations_moved (\<lambda>ty k. - allocated (allocations_in (tables s) (st_id d)) ty k) (tables s) (tables s')
    \<and> (\<exists>acc\<in>set (tt_accounts (tables s)). ca_id acc = st_cashbookAccountId d \<and> tt_accounts (tables s')
        = update_where (\<lambda>a. ca_id a = ca_id acc) (set_balance (ca_currentBalance acc + cash_moved d)) (tt_accounts (tables s)))
    \<and> tt_settlements (tables s') = update_where (\<lambda>r. st_id r = st_id d) posted_settlement (tt_settlements (tables s))
    \<and> tt_allocations (tables s') = tt_allocations (tables s)"
proof -
  let ?t = "ac_tenantId actor"
  obtain d acc s1 s2 s3 s4 s5 where d: "find_settlement tx ?t (js_trim (trq_id q)) s = Inr d"
    and postable: "settlement_postable workflow (settlementPolicy tx ?t s) d"
    and ok: "sep_issues (settlementPlan tx s ?t (normalizeSettlement le (stored_settlement d (settlement_allocations tx s (st_id d))))) = []"
    and acc: "sep_account (settlementPlan tx s ?t (normalizeSettlement le (stored_settlement d (settlement_allocations tx s (st_id d))))) = Some acc"
    and pos: "0 \<le> (if st_direction d = ''receipt'' then ca_currentBalance acc + st_amount d else ca_currentBalance acc - st_amount d)"
    and s1: "each (post_allocation tx (sep_obligations (settlementPlan tx s ?t
        (normalizeSettlement le (stored_settlement d (settlement_allocations tx s (st_id d))))))) (settlement_allocations tx s (st_id d)) s = Inr s1"
    and s2: "(if st_advanceCreatedAmount d > 0 then settled_write (createRow (ttx_advances tx) s1 (new_advance (gen 1) ?t d)) else Inr s1) = Inr s2"
    and s3: "updateRow (ttx_accounts tx) s2 (ca_id acc) (set_balance
        (if st_direction d = ''receipt'' then ca_currentBalance acc + st_amount d else ca_currentBalance acc - st_amount d)) = Some s3"
    and s4: "createRow (ttx_entries tx) s3 (settlement_entry (gen (if st_advanceCreatedAmount d > 0 then 2 else 1))
        (gen ((if st_advanceCreatedAmount d > 0 then 2 else 1) + 1)) ?t d (ca_id acc) (ca_currentBalance acc)
        (if st_direction d = ''receipt'' then ca_currentBalance acc + st_amount d else ca_currentBalance acc - st_amount d)) = Some s4"
    and s5: "updateRow (ttx_settlements tx) s4 (st_id d) posted_settlement = Some s5"
    and s6: "mark_links tx ?t (st_id d) ''posted'' s5 = Inr s'" and k: "k = st_id d"
    using run by (auto simp: postSettlement_def Let_def split del: if_split)
  let ?v = "if st_direction d = ''receipt'' then ca_currentBalance acc + st_amount d else ca_currentBalance acc - st_amount d"
  let ?e = "settlement_entry (gen (if st_advanceCreatedAmount d > 0 then 2 else 1))
        (gen ((if st_advanceCreatedAmount d > 0 then 2 else 1) + 1)) ?t d (ca_id acc) (ca_currentBalance acc) ?v"
  let ?vs = "if st_advanceCreatedAmount d > 0 then tt_advances (tables s) @ [new_advance (gen 1) ?t d] else tt_advances (tables s)"
  have d1: "d \<in> set (tt_settlements (tables s))" "st_id d = js_trim (trq_id q)" using found_settlement [OF d] by auto
  have dok: "settlement_ok d" by (rule documents_okD(1) [OF treasury_invD(2) [OF inv] d1(1)])
  have nf: "not_final (st_status d)"
    by (rule draft_not_final [OF inv d1(1)]) (use postable in \<open>auto simp: settlement_postable_def not_final_def split: if_splits\<close>)
  have acc1: "acc \<in> set (tt_accounts (tables s))" "ca_id acc = st_cashbookAccountId d"
    using accounts.first_some [OF plan_account [OF acc]] dok by (simp_all add: normalizeSettlement_def stored_settlement_def settlement_ok_def)
  have v: "?v = ca_currentBalance acc + cash_moved d" by (simp add: cash_moved_def)
  have change: "owed_change (\<lambda>ty k. - allocated (allocations_in (tables s) (st_id d)) ty k) (tables s) (tables s1)"
    and nonneg: "owed_nonneg (tables s1)"
    using stored_plan [OF ok allocations_found(2) [OF inv] s1 inv_unique [OF inv]] inv_nonneg [OF inv] allocations_found(1) [OF inv] by simp_all
  note rest = owed_change_rest [OF change]
  have c2: "tables s2 = tt_advances_update (\<lambda>_. ?vs) (tables s1)" and uv: "unclashed advance_clash ?vs"
    using advance_kept [OF s2] treasury_rows(5) [OF inv] unfolding rest by blast+
  note c3 = accounts.updated [OF s3] and c4 = entries.created [OF s4] and c5 = settlements.updated [OF s5]
  obtain F where c6: "tables s' = tt_links_update F (tables s5)" using links_marked [OF s6] by blast
  have "treasury_step (tables s) ((tables s1)\<lparr>tt_accounts := update_where (\<lambda>a. ca_id a = ca_id acc) (set_balance ?v) (tt_accounts (tables s)),
          tt_entries := tt_entries (tables s) @ [?e], tt_advances := ?vs,
          tt_settlements := update_where (\<lambda>r. st_id r = st_id d) posted_settlement (tt_settlements (tables s)), tt_links := F (tt_links (tables s))\<rparr>)"
  proof (rule posts [OF d1(1) nf acc1 v pos change nonneg _ _ uv, where adv = "new_advance (gen 1) ?t d"])
    show "entry_of (posted_settlement d) ?e"
      using acc1(2) by (simp add: entry_of_def settlement_entry_def posted_settlement_def)
  qed (use dok in \<open>auto simp: settlement_entry_def advance_new settlement_ok_def\<close>)
  then have step: "treasury_step (tables s) (tables s')"
    by (rule step_eq) (rule try_tables.equality; simp add: c2 c3 c4 c5 c6 rest)
  have "obligations_moved (\<lambda>ty k. - allocated (allocations_in (tables s) (st_id d)) ty k) (tables s) (tables s')"
    by (rule owed_change_moved [OF change]) (simp_all add: c2 c3 c4 c5 c6)
  then show ?thesis
    using step k d1 nf acc1 v c2 c3 c4 c5 c6 rest by (intro exI [of _ d]) auto
qed

lemma entry_found:
  assumes "find (\<lambda>e. ce_entryType e = ty) (findMany (ttx_entries tx) s P) = Some e"
  shows "e \<in> set (tt_entries (tables s)) \<and> P e \<and> ce_entryType e = ty"
proof -
  have "e \<in> set (findMany (ttx_entries tx) s P) \<and> ce_entryType e = ty" using assms by (auto simp: find_Some_iff)
  then show ?thesis by (simp add: entries.found_iff)
qed

lemma marked_update: "marked es (update_where (\<lambda>e. ce_id e = k) (\<lambda>e. e\<lparr>ce_reversedByEntryId := r\<rparr>) es)"
  unfolding marked_def update_where_def list.rel_map
  by (rule list.rel_refl_strong) (metis (no_types, lifting) cash_entry.surjective cash_entry.update_convs(15))

lemma settlement_unposts:
  assumes run: "reverseSettlement le tx gen actor q s = Inr (s', k)" and inv: "treasury_inv (tables s)"
  shows "\<exists>d. k = st_id d \<and> treasury_step (tables s) (tables s') \<and> d \<in> set (tt_settlements (tables s)) \<and> st_status d = ''posted''
    \<and> obligations_moved (allocated (allocations_in (tables s) (st_id d))) (tables s) (tables s')
    \<and> (\<exists>acc\<in>set (tt_accounts (tables s)). ca_id acc = st_cashbookAccountId d \<and> tt_accounts (tables s')
        = update_where (\<lambda>a. ca_id a = ca_id acc) (set_balance (ca_currentBalance acc - cash_moved d)) (tt_accounts (tables s)))"
proof -
  let ?t = "ac_tenantId actor"
  obtain d e acc s1 s2 s3 s4 s5 s6 where d: "find_settlement tx ?t (js_trim (trq_id q)) s = Inr d" "st_status d = ''posted''"
    and adv: "\<not> (case findFirst (ttx_advances tx) s (\<lambda>v. pa_tenantId v = ?t \<and> pa_sourceSettlementId v = st_id d) of
        None \<Rightarrow> False | Some v \<Rightarrow> pa_appliedAmount v \<noteq> 0)"
    and e: "find (\<lambda>e. ce_entryType e = ''settlement'') (findMany (ttx_entries tx) s (\<lambda>e. ce_settlementId e = Some (st_id d))) = Some e"
    and acc: "findFirst (ttx_accounts tx) s (\<lambda>a. ca_id a = st_cashbookAccountId d \<and> ca_tenantId a = ?t) = Some acc"
    and pos: "0 \<le> (if st_direction d = ''receipt'' then ca_currentBalance acc - st_amount d else ca_currentBalance acc + st_amount d)"
    and s1: "each (restore_obligation tx ?t) (js_sort (\<lambda>a b. le (sa_obligationId a) (sa_obligationId b))
        (settlement_allocations tx s (st_id d))) s = Inr s1"
    and s2: "updateRow (ttx_accounts tx) s1 (ca_id acc) (set_balance
        (if st_direction d = ''receipt'' then ca_currentBalance acc - st_amount d else ca_currentBalance acc + st_amount d)) = Some s2"
    and s3: "createRow (ttx_entries tx) s2 (reversal_entry (gen 1) (gen 2) ?t d e (ca_id acc) (ca_currentBalance acc)
        (if st_direction d = ''receipt'' then ca_currentBalance acc - st_amount d else ca_currentBalance acc + st_amount d)) = Some s3"
    and s4: "updateRow (ttx_entries tx) s3 (ce_id e) (\<lambda>e. e\<lparr>ce_reversedByEntryId := Some (gen 1)\<rparr>) = Some s4"
    and s5: "(case findFirst (ttx_advances tx) s (\<lambda>v. pa_tenantId v = ?t \<and> pa_sourceSettlementId v = st_id d) of
        None \<Rightarrow> Inr s4 | Some v \<Rightarrow> settled_write (updateRow (ttx_advances tx) s4 (pa_id v)
              (\<lambda>v. v\<lparr>pa_status := ''reversed'', pa_version := pa_version v + 1\<rparr>))) = Inr s5"
    and s6: "updateRow (ttx_settlements tx) s5 (st_id d) reversed_settlement = Some s6"
    and s7: "mark_links tx ?t (st_id d) ''reversed'' s6 = Inr s'" and k: "k = st_id d"
    using run by (auto simp: reverseSettlement_def Let_def split del: if_split)
  let ?v = "if st_direction d = ''receipt'' then ca_currentBalance acc - st_amount d else ca_currentBalance acc + st_amount d"
  let ?e = "reversal_entry (gen 1) (gen 2) ?t d e (ca_id acc) (ca_currentBalance acc) ?v"
  have d1: "d \<in> set (tt_settlements (tables s))" "st_id d = js_trim (trq_id q)" using found_settlement [OF d(1)] by auto
  have acc1: "acc \<in> set (tt_accounts (tables s))" "ca_id acc = st_cashbookAccountId d" using accounts.first_some [OF acc] by auto
  have v: "?v = ca_currentBalance acc - cash_moved d" by (simp add: cash_moved_def)
  have e1: "e \<in> set (tt_entries (tables s))" "ce_settlementId e = Some (st_id d)" "ce_entryType e = ''settlement''"
    using entry_found [OF e] by auto
  obtain d' where d': "d' \<in> set (tt_settlements (tables s))" "entry_of d' e"
    using documents_okD(3) [OF treasury_invD(2) [OF inv] e1(1,3)] by blast
  have "st_id d' = st_id d" using d'(2) e1(2) by (simp add: entry_of_def)
  then have "d' = d"
    using unclashed_row [of st_id settlement_clash, OF _ treasury_rows(2) [OF inv] d'(1) d1(1)] by (simp add: settlement_clash_def)
  then have signed: "signed ?e = - cash_moved d"
    using d'(2) by (simp add: entry_of_def signed_def reversal_entry_def cash_moved_def split: if_splits)
  let ?as = "js_sort (\<lambda>a b. le (sa_obligationId a) (sa_obligationId b)) (settlement_allocations tx s (st_id d))"
  have as: "allocated ?as = allocated (allocations_in (tables s) (st_id d))"
    using allocated_mset [of ?as "settlement_allocations tx s (st_id d)"] allocations_found(1) [OF inv] by simp
  have "owed_change (allocated ?as) (tables s) (tables s1) \<and> (owed_nonneg (tables s) \<longrightarrow> owed_nonneg (tables s1))"
    by (rule restore_obligations [OF s1 inv_unique [OF inv]])
      (use allocations_found(2) [OF inv] in \<open>fastforce simp: allocation_ok_def\<close>)
  then have change: "owed_change (allocated (allocations_in (tables s) (st_id d))) (tables s) (tables s1)"
    and nonneg: "owed_nonneg (tables s1)" using inv_nonneg [OF inv] as by simp_all
  note rest = owed_change_rest [OF change]
  note c2 = accounts.updated [OF s2] and c3 = entries.created [OF s3] and c4 = entries.updated [OF s4] and c6 = settlements.updated [OF s6]
  define vs where "vs = tt_advances (tables s5)"
  have c5: "tables s5 = tt_advances_update (\<lambda>_. vs) (tables s4) \<and> (vs = tt_advances (tables s) \<or> (\<exists>adv\<in>set (tt_advances (tables s)). pa_appliedAmount adv = 0
      \<and> vs = update_where (\<lambda>r. pa_id r = pa_id adv) (\<lambda>r. r\<lparr>pa_status := ''reversed'', pa_version := pa_version r + 1\<rparr>) (tt_advances (tables s))))"
  proof (cases "findFirst (ttx_advances tx) s (\<lambda>v. pa_tenantId v = ?t \<and> pa_sourceSettlementId v = st_id d)")
    case None
    then have "s5 = s4" using s5 by simp
    then show ?thesis unfolding vs_def by (simp add: c2 c3 c4 rest)
  next
    case (Some v)
    then have u: "updateRow (ttx_advances tx) s4 (pa_id v) (\<lambda>v. v\<lparr>pa_status := ''reversed'', pa_version := pa_version v + 1\<rparr>) = Some s5"
      using s5 by simp
    note c = advances.updated [OF u]
    have "v \<in> set (tt_advances (tables s))" "pa_appliedAmount v = 0" using advances.first_some [OF Some] adv Some by auto
    moreover have "tables s5 = tt_advances_update (\<lambda>_. vs) (tables s4)" unfolding vs_def using c by (cases "tables s4") simp
    moreover have "vs = update_where (\<lambda>r. pa_id r = pa_id v) (\<lambda>r. r\<lparr>pa_status := ''reversed'', pa_version := pa_version r + 1\<rparr>) (tt_advances (tables s))"
      unfolding vs_def using c by (simp add: c2 c3 c4 rest)
    ultimately show ?thesis by blast
  qed
  obtain F where c7: "tables s' = tt_links_update F (tables s6)" using links_marked [OF s7] by blast
  let ?es = "update_where (\<lambda>r. ce_id r = ce_id e) (\<lambda>e. e\<lparr>ce_reversedByEntryId := Some (gen 1)\<rparr>) (tt_entries (tables s) @ [?e])"
  have "treasury_step (tables s) ((tables s1)\<lparr>tt_accounts := update_where (\<lambda>a. ca_id a = ca_id acc) (set_balance ?v) (tt_accounts (tables s)),
          tt_entries := ?es, tt_advances := vs,
          tt_settlements := update_where (\<lambda>r. st_id r = st_id d) reversed_settlement (tt_settlements (tables s)), tt_links := F (tt_links (tables s))\<rparr>)"
    by (rule unposts [OF d1(1) d(2) acc1 v pos change nonneg _ _ signed marked_update conjunct2 [OF c5]])
      (simp_all add: reversal_entry_def)
  then have step: "treasury_step (tables s) (tables s')"
    by (rule step_eq) (rule try_tables.equality; simp add: c2 c3 c4 conjunct1 [OF c5] c6 c7 rest)
  have "obligations_moved (allocated (allocations_in (tables s) (st_id d))) (tables s) (tables s')"
    by (rule owed_change_moved [OF change]) (simp_all add: c2 c3 c4 conjunct1 [OF c5] c6 c7)
  moreover have "tt_accounts (tables s') = update_where (\<lambda>a. ca_id a = ca_id acc) (set_balance ?v) (tt_accounts (tables s))"
    by (simp add: c2 c3 c4 conjunct1 [OF c5] c6 c7 rest)
  ultimately show ?thesis using step k d1 d(2) acc1 v by (intro exI [of _ d]) auto
qed

end

end
