(* ===== verification/Treasury_Transfers.thy ===== *)
theory Treasury_Transfers
  imports Treasury_Commands
begin

text \<open>Applications of advances and internal transfers as steps of the machine, and the refinement theorem.\<close>

lemma filter_update_where:
  "(\<And>r. r \<in> set rs \<Longrightarrow> K r \<Longrightarrow> \<not> P r \<and> \<not> P (f r)) \<Longrightarrow> filter P (update_where K f rs) = filter P rs"
  by (induction rs) auto

lemma marked_refl: "marked es es"
  unfolding marked_def by (rule list.rel_refl) (metis (no_types, lifting) cash_entry.surjective cash_entry.update_convs(15))

lemma marked_trans: "marked es es1 \<Longrightarrow> marked es1 es2 \<Longrightarrow> marked es es2"
  unfolding marked_def by (rule list_all2_trans) auto

context treasury_store
begin

section \<open>Advances\<close>

lemma facts_found:
  assumes "resolveFacts tx t advanceId p r amountText s = Inr (adv, o1, payable, amount)"
  shows "adv \<in> set (tt_advances (tables s)) \<and> pa_id adv = js_trim advanceId \<and> pa_status adv \<noteq> ''reversed''
    \<and> payable = (js_trim p \<noteq> []) \<and> (js_trim p \<noteq> []) \<noteq> (js_trim r \<noteq> [])
    \<and> o1 \<in> set (obligations_of (tables s) (if payable then ''payable'' else ''receivable''))
    \<and> ob_id o1 = (if payable then js_trim p else js_trim r) \<and> outboundDecimalUnits (Some amountText) = Inr amount
    \<and> 0 < amount \<and> amount \<le> pa_remainingAmount adv \<and> amount \<le> ob_outstandingAmount o1"
proof -
  have 1: "findFirst (ttx_advances tx) s (\<lambda>v. pa_id v = js_trim advanceId \<and> pa_tenantId v = t) = Some adv"
    and 2: "(if js_trim p \<noteq> [] then findFirst (ttx_payables tx) s (\<lambda>o1. ob_id o1 = js_trim p \<and> ob_tenantId o1 = t)
           else findFirst (ttx_receivables tx) s (\<lambda>o1. ob_id o1 = js_trim r \<and> ob_tenantId o1 = t)) = Some o1"
    and 3: "pa_status adv \<noteq> ''reversed''" "payable = (js_trim p \<noteq> [])" "(js_trim p \<noteq> []) \<noteq> (js_trim r \<noteq> [])"
    and 4: "outboundDecimalUnits (Some amountText) = Inr amount" "0 < amount" "amount \<le> pa_remainingAmount adv"
      "amount \<le> ob_outstandingAmount o1"
    using assms by (auto simp: resolveFacts_def Let_def split: sum.splits split del: if_split)
  have "o1 \<in> set (obligations_of (tables s) (if payable then ''payable'' else ''receivable'')) \<and> ob_id o1 = (if payable then js_trim p else js_trim r)"
    using 2 3(2) payables.first_some [of s "\<lambda>o1. ob_id o1 = js_trim p \<and> ob_tenantId o1 = t" o1]
      receivables.first_some [of s "\<lambda>o1. ob_id o1 = js_trim r \<and> ob_tenantId o1 = t" o1]
    by (auto simp: obligations_of_def split: if_splits)
  then show ?thesis using advances.first_some [OF 1] 3 4 by simp
qed

lemma found_application:
  assumes "find_application tx t k v s = Inr a"
  shows "a \<in> set (tt_applications (tables s)) \<and> aa_id a = k"
  using assms applications.first_some by (fastforce simp: find_application_def)

lemma application_claimed:
  assumes run: "createAdvanceApplication tx gen actor q s = Inr (s', k)" and inv: "treasury_inv (tables s)"
  shows "treasury_step (tables s) (tables s')"
proof -
  obtain adv o1 payable amount a where facts: "resolveFacts tx (ac_tenantId actor) (js_trim (apq_advanceId q)) (js_trim (apq_payableObligationId q))
        (js_trim (apq_receivableObligationId q)) (js_trim (apq_appliedAmount q)) s = Inr (adv, o1, payable, amount)"
    and c: "createRow (ttx_applications tx) s a = Some s'"
    and a: "aa_advanceId a = pa_id adv" "aa_payableObligationId a = null_if_empty (js_trim (apq_payableObligationId q))"
      "aa_receivableObligationId a = null_if_empty (js_trim (apq_receivableObligationId q))" "aa_appliedAmount a = amount"
      "aa_postingStatus a = ''unposted''"
    using run by (fastforce simp: createAdvanceApplication_def Let_def)
  note f = facts_found [OF facts] and c = applications.created [OF c]
  define pid rid where "pid = js_trim (apq_payableObligationId q)" and "rid = js_trim (apq_receivableObligationId q)"
  have trimmed: "js_trim pid = pid" "js_trim rid = rid" by (simp_all add: pid_def rid_def)
  have ids: "aa_payableObligationId a = null_if_empty pid" "aa_receivableObligationId a = null_if_empty rid" "(pid \<noteq> []) \<noteq> (rid \<noteq> [])"
    using f a(2,3) by (simp_all add: pid_def rid_def)
  have "js_trim (aa_advanceId a) = aa_advanceId a" "0 < aa_appliedAmount a" using f a(1,4) by simp_all
  then have "application_ok a"
    using ids trimmed a(5) by (cases pid; cases rid; simp add: application_ok_def aa_obligationId_def column_or_def null_if_empty_def)
  moreover have "aa_advanceId a \<in> pa_id ` set (tt_advances (tables s))" unfolding a(1) using f by blast
  ultimately have "treasury_step (tables s) ((tables s)\<lparr>tt_applications := tt_applications (tables s) @ [a]\<rparr>)"
    using c treasury_rows(6) [OF inv] documents_okD(4) [OF treasury_invD(2) [OF inv]] a(5) by (intro claimed) auto
  then show ?thesis by (rule step_eq) (rule try_tables.equality; simp add: c)
qed

lemma application_same:
  assumes "treasury_inv (tables s)" "a \<in> set (tt_applications (tables s))" "r \<in> set (tt_applications (tables s))" "aa_id r = aa_id a"
  shows "r = a"
  using unclashed_row [of aa_id application_clash, OF _ treasury_rows(6) [OF assms(1)] assms(3,2,4)] by (simp add: application_clash_def)

lemma application_advanced:
  assumes run: "advanceWorkflow tx actor approve q s = Inr (s', k)" and inv: "treasury_inv (tables s)"
  shows "treasury_step (tables s) (tables s')"
proof -
  obtain v a where a: "find_application tx (ac_tenantId actor) (js_trim (trq_id q)) v s = Inr a" "aa_workflowStatus a \<noteq> ''posted''"
    and u: "updateRow (ttx_applications tx) s (aa_id a)
          (\<lambda>r. r\<lparr>aa_workflowStatus := (if approve then ''approved'' else ''submitted''), aa_version := aa_version r + 1\<rparr>) = Some s'"
    using run by (auto simp: advanceWorkflow_def Let_def split: if_splits)
  define f where "f = (\<lambda>r :: advance_application. r\<lparr>aa_workflowStatus := (if approve then ''approved'' else ''submitted''), aa_version := aa_version r + 1\<rparr>)"
  note c = applications.updated [OF u, folded f_def]
  have a1: "a \<in> set (tt_applications (tables s))" using found_application [OF a(1)] by blast
  note ok = documents_okD(4) [OF treasury_invD(2) [OF inv]]
  have unposted: "aa_postingStatus a \<noteq> ''posted''" using ok [OF a1] a(2) by (auto simp: application_ok_def)
  have "set (update_where (\<lambda>r. aa_id r = aa_id a) f (tt_applications (tables s))) = insert (f a) {r \<in> set (tt_applications (tables s)). aa_id r \<noteq> aa_id a}"
    by (rule set_update_unique [OF _ treasury_rows(6) [OF inv] a1 refl]) (simp add: application_clash_def)
  moreover have "application_ok (f a) \<and> aa_advanceId (f a) = aa_advanceId a"
    using ok [OF a1] unposted by (simp add: f_def application_ok_def aa_obligationId_def)
  moreover have "filter (\<lambda>r. aa_postingStatus r = ''posted'') (update_where (\<lambda>r. aa_id r = aa_id a) f (tt_applications (tables s)))
      = filter (\<lambda>r. aa_postingStatus r = ''posted'') (tt_applications (tables s))"
    by (rule filter_update_where) (use application_same [OF inv a1] unposted in \<open>auto simp: f_def\<close>)
  ultimately have "treasury_step (tables s) ((tables s)\<lparr>tt_applications := update_where (\<lambda>r. aa_id r = aa_id a) f (tt_applications (tables s))\<rparr>)"
    using c treasury_rows(6) [OF inv] ok a1 by (intro claimed) auto
  then show ?thesis by (rule step_eq) (rule try_tables.equality; simp add: c)
qed

lemma application_target:
  assumes "application_ok a"
  shows "is_payable a \<longleftrightarrow> aa_payableObligationId a \<noteq> None"
    "js_trim (case aa_payableObligationId a of None \<Rightarrow> [] | Some k \<Rightarrow> k) = (if is_payable a then aa_obligationId a else [])"
    "js_trim (case aa_receivableObligationId a of None \<Rightarrow> [] | Some k \<Rightarrow> k) = (if is_payable a then [] else aa_obligationId a)"
    "aa_obligationId a \<noteq> []"
  using assms by (auto simp: application_ok_def is_payable_def aa_obligationId_def column_or_def split: option.splits list.splits)

lemma obligation_moved_one:
  assumes "updateRow (application_model tx a) s (aa_obligationId a) (set_outstanding v status) = Some s'"
    and "o1 \<in> set (obligations_of (tables s) (application_type a))" "ob_id o1 = aa_obligationId a" "treasury_inv T" "unique_obligations (tables s)"
    and "v = ob_outstandingAmount o1 + x"
  shows "owed_change (\<lambda>ty k. if ty = application_type a \<and> k = aa_obligationId a then x else 0) (tables s) (tables s')
    \<and> (owed_nonneg (tables s) \<longrightarrow> 0 \<le> v \<longrightarrow> owed_nonneg (tables s'))"
proof -
  have m: "application_model tx a = obligation_model tx (application_type a)"
    by (simp add: application_model_def obligation_model_def application_type_def)
  have ty: "application_type a \<in> {''payable'', ''receivable''}" by (simp add: application_type_def)
  note u = obligation_updated [OF assms(1) [unfolded m] ty assms(2,3,5)]
  have x: "v - ob_outstandingAmount o1 = x" using assms(6) by simp
  show ?thesis using u unfolding x by blast
qed

lemma application_posts:
  assumes run: "postAdvanceApplication tx actor q s = Inr (s', k)" and inv: "treasury_inv (tables s)"
  shows "treasury_step (tables s) (tables s')"
proof -
  obtain v a adv o1 payable amount s1 s2 where a: "find_application tx (ac_tenantId actor) (js_trim (trq_id q)) v s = Inr a" "aa_postingStatus a = ''unposted''"
    and facts: "stored_facts tx (ac_tenantId actor) a s = Inr (adv, o1, payable, amount)"
    and s1: "updateRow (ttx_advances tx) s (pa_id adv) (set_advance (pa_remainingAmount adv - amount) (pa_appliedAmount adv + amount)
             (if pa_remainingAmount adv - amount = 0 then ''fully_applied'' else ''partially_applied'')) = Some s1"
    and s2: "updateRow (application_model tx a) s1 (aa_obligationId a) (set_outstanding (ob_outstandingAmount o1 - amount)
             (derive_status (is_payable a) o1 (ob_outstandingAmount o1 - amount))) = Some s2"
    and s3: "updateRow (ttx_applications tx) s2 (aa_id a) (set_application ''posted'') = Some s'"
    using run by (auto simp: postAdvanceApplication_def Let_def split del: if_split)
  have a1: "a \<in> set (tt_applications (tables s))" using found_application [OF a(1)] by blast
  have ok: "application_ok a" using documents_okD(4) [OF treasury_invD(2) [OF inv] a1] by blast
  note t = application_target [OF ok]
  note f = facts_found [OF facts [unfolded stored_facts_def], unfolded t(2,3)]
  have amount: "amount = aa_appliedAmount a" using f by (simp del: column_text_units add: column_text_units [of "aa_appliedAmount a"])
  have payable: "payable = is_payable a" "ob_id o1 = aa_obligationId a" using f t(4) by (auto split: if_splits)
  have o1: "o1 \<in> set (obligations_of (tables s) (application_type a))" using f payable(1) by (simp add: application_type_def)
  note c1 = advances.updated [OF s1] and c3 = applications.updated [OF s3]
  have o1': "o1 \<in> set (obligations_of (tables s1) (application_type a))" "unique_obligations (tables s1)" "owed_nonneg (tables s1)"
    using o1 inv_unique [OF inv] inv_nonneg [OF inv]
    by (simp_all add: c1 obligations_of_def unique_obligations_def owed_nonneg_def split: if_splits)
  have m: "owed_change (\<lambda>ty k. if ty = application_type a \<and> k = aa_obligationId a then - amount else 0) (tables s1) (tables s2)
      \<and> (owed_nonneg (tables s1) \<longrightarrow> 0 \<le> ob_outstandingAmount o1 - amount \<longrightarrow> owed_nonneg (tables s2))"
    by (rule obligation_moved_one [OF s2 o1'(1) payable(2) inv o1'(2)]) simp
  define T1 where "T1 = (tables s)\<lparr>tt_payables := tt_payables (tables s2), tt_receivables := tt_receivables (tables s2)\<rparr>"
  have "owed_change (\<lambda>ty k. if ty = application_type a \<and> k = aa_obligationId a then - amount else 0) (tables s) T1"
    using owed_change_moved [OF conjunct1 [OF m] refl refl] unfolding T1_def obligations_moved_def
    by (intro owed_changeI) (simp_all add: c1)
  then have change: "owed_change (\<lambda>ty k. - application_moved a ty k) (tables s) T1"
    by (rule owed_change_cong) (simp add: application_moved_def amount)
  have nonneg: "owed_nonneg T1" using m o1'(3) f by (simp add: T1_def owed_nonneg_def)
  have "treasury_step (tables s) (T1\<lparr>tt_advances := update_where (\<lambda>r. pa_id r = pa_id adv)
            (set_advance (pa_remainingAmount adv - aa_appliedAmount a) (pa_appliedAmount adv + aa_appliedAmount a)
               (if pa_remainingAmount adv - amount = 0 then ''fully_applied'' else ''partially_applied'')) (tt_advances (tables s)),
          tt_applications := update_where (\<lambda>r. aa_id r = aa_id a) (set_application ''posted'') (tt_applications (tables s))\<rparr>)"
    by (rule applies [OF a1 _ _ _ _ _ change nonneg]) (use f a(2) ok amount in \<open>simp_all add: application_ok_def\<close>)
  then show ?thesis
    by (rule step_eq) (rule try_tables.equality; simp add: T1_def c1 c3 amount owed_change_rest [OF conjunct1 [OF m]])
qed

lemma application_unposts:
  assumes run: "reverseAdvanceApplication tx actor q s = Inr (s', k)" and inv: "treasury_inv (tables s)"
  shows "treasury_step (tables s) (tables s')"
proof -
  obtain v a adv o1 s1 s2 where a: "find_application tx (ac_tenantId actor) (js_trim (trq_id q)) v s = Inr a" "aa_postingStatus a = ''posted''"
    and adv: "findFirst (ttx_advances tx) s (\<lambda>v. pa_id v = aa_advanceId a \<and> pa_tenantId v = ac_tenantId actor) = Some adv"
    and o1: "findFirst (application_model tx a) s (\<lambda>o1. ob_id o1 = aa_obligationId a \<and> ob_tenantId o1 = ac_tenantId actor) = Some o1"
    and s1: "updateRow (ttx_advances tx) s (pa_id adv) (set_advance (pa_remainingAmount adv + aa_appliedAmount a) (pa_appliedAmount adv - aa_appliedAmount a)
             (if pa_remainingAmount adv + aa_appliedAmount a = pa_originalAmount adv then ''open'' else ''partially_applied'')) = Some s1"
    and s2: "updateRow (application_model tx a) s1 (ob_id o1) (set_outstanding (ob_outstandingAmount o1 + aa_appliedAmount a)
             (derive_status (is_payable a) o1 (ob_outstandingAmount o1 + aa_appliedAmount a))) = Some s2"
    and s3: "updateRow (ttx_applications tx) s2 (aa_id a) (set_application ''reversed'') = Some s'"
    using run by (auto simp: reverseAdvanceApplication_def Let_def split del: if_split)
  have a1: "a \<in> set (tt_applications (tables s))" using found_application [OF a(1)] by blast
  have ok: "application_ok a" using documents_okD(4) [OF treasury_invD(2) [OF inv] a1] by blast
  have adv1: "adv \<in> set (tt_advances (tables s))" "pa_id adv = aa_advanceId a" using advances.first_some [OF adv] by auto
  have model: "application_model tx a = obligation_model tx (application_type a)"
    by (simp add: application_model_def obligation_model_def application_type_def)
  have o2: "o1 \<in> set (obligations_of (tables s) (application_type a))" "ob_id o1 = aa_obligationId a"
    using obligation_found [OF o1 [unfolded model]] by auto
  note c1 = advances.updated [OF s1] and c3 = applications.updated [OF s3]
  have o1': "o1 \<in> set (obligations_of (tables s1) (application_type a))" "unique_obligations (tables s1)" "owed_nonneg (tables s1)"
    using o2 inv_unique [OF inv] inv_nonneg [OF inv]
    by (simp_all add: c1 obligations_of_def unique_obligations_def owed_nonneg_def split: if_splits)
  have m: "owed_change (\<lambda>ty k. if ty = application_type a \<and> k = aa_obligationId a then aa_appliedAmount a else 0) (tables s1) (tables s2)
      \<and> (owed_nonneg (tables s1) \<longrightarrow> 0 \<le> ob_outstandingAmount o1 + aa_appliedAmount a \<longrightarrow> owed_nonneg (tables s2))"
    by (rule obligation_moved_one [OF s2 [unfolded o2(2)] o1'(1) o2(2) inv o1'(2)]) simp
  define T1 where "T1 = (tables s)\<lparr>tt_payables := tt_payables (tables s2), tt_receivables := tt_receivables (tables s2)\<rparr>"
  have "owed_change (\<lambda>ty k. if ty = application_type a \<and> k = aa_obligationId a then aa_appliedAmount a else 0) (tables s) T1"
    using owed_change_moved [OF conjunct1 [OF m] refl refl] unfolding T1_def obligations_moved_def
    by (intro owed_changeI) (simp_all add: c1)
  then have change: "owed_change (application_moved a) (tables s) T1"
    by (rule owed_change_cong) (simp add: application_moved_def)
  have "0 \<le> ob_outstandingAmount o1" using o1'(1,3) by (auto simp: owed_nonneg_def obligations_of_def split: if_splits)
  then have "0 \<le> ob_outstandingAmount o1 + aa_appliedAmount a" using ok by (simp add: application_ok_def)
  then have "owed_nonneg (tables s2)" using conjunct2 [OF m] o1'(3) by blast
  then have nonneg: "owed_nonneg T1" by (simp add: T1_def owed_nonneg_def)
  have "treasury_step (tables s) (T1\<lparr>tt_advances := update_where (\<lambda>r. pa_id r = pa_id adv)
            (set_advance (pa_remainingAmount adv + aa_appliedAmount a) (pa_appliedAmount adv - aa_appliedAmount a)
               (if pa_remainingAmount adv + aa_appliedAmount a = pa_originalAmount adv then ''open'' else ''partially_applied'')) (tt_advances (tables s)),
          tt_applications := update_where (\<lambda>r. aa_id r = aa_id a) (set_application ''reversed'') (tt_applications (tables s))\<rparr>)"
    by (rule unapplies [OF a1 a(2) adv1 change nonneg]) simp
  then show ?thesis
    by (rule step_eq) (rule try_tables.equality; simp add: T1_def c1 c3 owed_change_rest [OF conjunct1 [OF m]])
qed

section \<open>Transfers\<close>

lemma found_transfer:
  assumes "find_transfer tx t k v s = Inr r"
  shows "r \<in> set (tt_transfers (tables s)) \<and> tr_id r = k"
  using assms transfers.first_some [of s "\<lambda>r. tr_id r = k \<and> tr_tenantId r = t" r] by (auto simp: find_transfer_def)

lemma transfer_valid:
  assumes "validate_transfer tx t v s = Inr (amount, m)"
  shows "outboundDecimalUnits (Some (tfq_amount v)) = Inr amount \<and> 0 < amount \<and> tfq_fromCashbookAccountId v \<noteq> tfq_toCashbookAccountId v
    \<and> (\<forall>k a. map_of m k = Some a \<longrightarrow> a \<in> set (tt_accounts (tables s)) \<and> ca_id a = k)"
proof -
  let ?P = "\<lambda>a. ca_tenantId a = t \<and> ca_id a \<in> {tfq_fromCashbookAccountId v, tfq_toCashbookAccountId v} \<and> ca_status a = ''active''"
  have 1: "outboundDecimalUnits (Some (tfq_amount v)) = Inr amount \<and> 0 < amount \<and> tfq_fromCashbookAccountId v \<noteq> tfq_toCashbookAccountId v
      \<and> m = map (\<lambda>a. (ca_id a, a)) (findMany (ttx_accounts tx) s ?P)"
    using assms unfolding validate_transfer_def Let_def
    by (simp add: fail_if_def and_then_def split: if_splits sum.splits)
  then have m: "m = map (\<lambda>a. (ca_id a, a)) (findMany (ttx_accounts tx) s ?P)" by blast
  have "a \<in> set (tt_accounts (tables s)) \<and> ca_id a = k" if "map_of m k = Some a" for k a
    using map_of_SomeD [OF that] by (auto simp: m accounts.found_iff)
  then show ?thesis using 1 by blast
qed

lemma transfers_written:
  assumes "treasury_inv (tables s)" "tables s' = tt_transfers_update F (tables s)" "unclashed transfer_clash (F (tt_transfers (tables s)))"
    "\<And>r. r \<in> set (F (tt_transfers (tables s))) \<Longrightarrow> transfer_ok r"
  shows "treasury_step (tables s) (tables s')"
proof (rule step_eq)
  show "treasury_step (tables s) ((tables s)\<lparr>tt_transfers := F (tt_transfers (tables s))\<rparr>)"
    by (rule written_transfer [OF assms(3)]) (use assms(4) in blast)
qed (cases "tables s", simp add: assms(2))

lemma transfer_created:
  assumes run: "createInternalTransfer date tx gen actor q s = Inr (s', k)" and inv: "treasury_inv (tables s)"
  shows "treasury_step (tables s) (tables s')"
proof -
  obtain amount m day where v: "validate_transfer tx (ac_tenantId actor) (normalize_transfer q) s = Inr (amount, m)"
    and c: "createRow (ttx_transfers tx) s (set_transfer (normalize_transfer q) amount day (blank_transfer (gen 1) (ac_tenantId actor) (ac_userId actor))) = Some s'"
    using run by (auto simp: createInternalTransfer_def Let_def)
  note c = transfers.created [OF c]
  show ?thesis
    by (rule transfers_written [OF inv conjunct1 [OF c]])
      (use c treasury_rows(7) [OF inv] transfer_valid [OF v] documents_okD(5) [OF treasury_invD(2) [OF inv]] in \<open>auto simp: set_transfer_def transfer_ok_def\<close>)
qed

lemma transfer_changed:
  assumes inv: "treasury_inv (tables s)" and u: "updateRow (ttx_transfers tx) s k f = Some s'"
    and f: "\<And>r. r \<in> set (tt_transfers (tables s)) \<Longrightarrow> transfer_ok (f r)"
  shows "treasury_step (tables s) (tables s')"
  by (rule transfers_written [OF inv conjunct1 [OF transfers.updated [OF u]]])
    (use transfers.updated [OF u] treasury_rows(7) [OF inv] documents_okD(5) [OF treasury_invD(2) [OF inv]] f in \<open>auto simp: set_update_where\<close>)

lemma transfer_revised:
  assumes run: "reviseInternalTransfer date tx actor r q s = Inr (s', k)" and inv: "treasury_inv (tables s)"
  shows "treasury_step (tables s) (tables s')"
proof -
  obtain amount m day and d :: internal_transfer where v: "validate_transfer tx (ac_tenantId actor) (normalize_transfer q) s = Inr (amount, m)"
    and u: "updateRow (ttx_transfers tx) s (tr_id d)
          (\<lambda>r. (set_transfer (normalize_transfer q) amount day r)\<lparr>tr_workflowStatus := ''draft'', tr_version := tr_version r + 1\<rparr>) = Some s'"
    using run by (auto simp: reviseInternalTransfer_def Let_def)
  show ?thesis by (rule transfer_changed [OF inv u]) (use transfer_valid [OF v] in \<open>simp add: set_transfer_def transfer_ok_def\<close>)
qed

lemma transfer_acted:
  assumes run: "transferAction tx actor act q s = Inr (s', k)" and inv: "treasury_inv (tables s)"
  shows "treasury_step (tables s) (tables s')"
proof -
  obtain d :: internal_transfer where u: "updateRow (ttx_transfers tx) s (tr_id d)
          (\<lambda>r. r\<lparr>tr_workflowStatus := action_to act, tr_version := tr_version r + 1\<rparr>) = Some s'"
    using run by (auto simp: transferAction_def Let_def)
  show ?thesis by (rule transfer_changed [OF inv u]) (use documents_okD(5) [OF treasury_invD(2) [OF inv]] in \<open>simp add: transfer_ok_def\<close>)
qed

text \<open>The transfer documents after one was posted or reversed.\<close>

lemma transfer_marked:
  assumes "treasury_inv (tables s)"
  shows "unclashed transfer_clash (update_where P (set_transfer_status status) (tt_transfers (tables s)))"
    "\<forall>r\<in>set (update_where P (set_transfer_status status) (tt_transfers (tables s))). transfer_ok r"
proof -
  show "unclashed transfer_clash (update_where P (set_transfer_status status) (tt_transfers (tables s)))"
    by (rule unclashed_after_update [OF treasury_rows(7) [OF assms]]) (simp_all add: transfer_clash_def set_transfer_status_def)
  show "\<forall>r\<in>set (update_where P (set_transfer_status status) (tt_transfers (tables s))). transfer_ok r"
    using documents_okD(5) [OF treasury_invD(2) [OF assms]] by (auto simp: set_update_where set_transfer_status_def transfer_ok_def split: if_splits)
qed

lemma transfer_posts:
  assumes run: "postInternalTransfer tx gen actor q s = Inr (s', k)" and inv: "treasury_inv (tables s)"
  shows "treasury_step (tables s) (tables s')"
proof -
  let ?t = "ac_tenantId actor"
  obtain v r amount m a b s1 s2 s3 s4 where r: "find_transfer tx ?t (js_trim (trq_id q)) v s = Inr r"
    and valid: "validate_transfer tx ?t (stored_transfer r) s = Inr (amount, m)"
    and ab: "map_of m (tr_fromCashbookAccountId r) = Some a" "map_of m (tr_toCashbookAccountId r) = Some b" "\<not> ca_currentBalance a < amount"
    and s1: "createRow (ttx_entries tx) s (transfer_entry (gen 2) (gen 1) ?t r (ca_id a) (''CB-'' @ tr_transferNumber r @ ''-OUT'') ''transfer_out'' ''outflow''
             (ca_currentBalance a) (ca_currentBalance a - amount) None) = Some s1"
    and s2: "createRow (ttx_entries tx) s1 (transfer_entry (gen 3) (gen 1) ?t r (ca_id b) (''CB-'' @ tr_transferNumber r @ ''-IN'') ''transfer_in'' ''inflow''
             (ca_currentBalance b) (ca_currentBalance b + amount) None) = Some s2"
    and s3: "updateRow (ttx_accounts tx) s2 (ca_id a) (set_balance (ca_currentBalance a - amount)) = Some s3"
    and s4: "updateRow (ttx_accounts tx) s3 (ca_id b) (set_balance (ca_currentBalance b + amount)) = Some s4"
    and s5: "updateRow (ttx_transfers tx) s4 (tr_id r) (set_transfer_status ''posted'') = Some s'"
    using run by (auto simp: postInternalTransfer_def Let_def)
  let ?e = "transfer_entry (gen 2) (gen 1) ?t r (ca_id a) (''CB-'' @ tr_transferNumber r @ ''-OUT'') ''transfer_out'' ''outflow''
             (ca_currentBalance a) (ca_currentBalance a - amount) None"
  let ?f = "transfer_entry (gen 3) (gen 1) ?t r (ca_id b) (''CB-'' @ tr_transferNumber r @ ''-IN'') ''transfer_in'' ''inflow''
             (ca_currentBalance b) (ca_currentBalance b + amount) None"
  note valid = transfer_valid [OF valid]
  have amount: "amount = tr_amount r" "0 < amount" using valid by (simp_all add: stored_transfer_def)
  have acc: "a \<in> set (tt_accounts (tables s))" "b \<in> set (tt_accounts (tables s))" "ca_id a \<noteq> ca_id b"
    using valid ab by (auto simp: stored_transfer_def)
  have b: "0 \<le> ca_currentBalance b" using treasury_invD(3) [OF inv] acc(2) unfolding cash_books_def by blast
  note c1 = entries.created [OF s1] and c2 = entries.created [OF s2] and c3 = accounts.updated [OF s3] and c4 = accounts.updated [OF s4]
    and c5 = transfers.updated [OF s5]
  show ?thesis
  proof (rule step_eq)
    show "treasury_step (tables s) ((tables s)\<lparr>tt_accounts := update_where (\<lambda>r. ca_id r = ca_id b) (set_balance (ca_currentBalance b - - amount))
            (update_where (\<lambda>r. ca_id r = ca_id a) (set_balance (ca_currentBalance a + - amount)) (tt_accounts (tables s))),
          tt_entries := tt_entries (tables s) @ [?e, ?f],
          tt_transfers := update_where (\<lambda>d. tr_id d = tr_id r) (set_transfer_status ''posted'') (tt_transfers (tables s))\<rparr>)"
      by (rule transferred [OF acc _ _ _ _ _ _ _ _ marked_refl transfer_marked [OF inv]])
        (use ab(3) b amount in \<open>simp_all add: transfer_entry_def signed_def\<close>)
  qed (rule try_tables.equality; simp add: c1 c2 c3 c4 c5)
qed

lemma transfer_unposts:
  assumes run: "reverseInternalTransfer tx gen actor q s = Inr (s', k)" and inv: "treasury_inv (tables s)"
  shows "treasury_step (tables s) (tables s')"
proof -
  let ?t = "ac_tenantId actor"
  obtain v r a b s1 s2 s3 s4 s5 s6 and e0 f0 :: cash_entry where r: "find_transfer tx ?t (js_trim (trq_id q)) v s = Inr r"
    and ab: "map_of (map (\<lambda>a. (ca_id a, a)) (findMany (ttx_accounts tx) s (\<lambda>a. ca_tenantId a = ?t
            \<and> ca_id a \<in> {tr_fromCashbookAccountId r, tr_toCashbookAccountId r}))) (tr_fromCashbookAccountId r) = Some a"
      "map_of (map (\<lambda>a. (ca_id a, a)) (findMany (ttx_accounts tx) s (\<lambda>a. ca_tenantId a = ?t
            \<and> ca_id a \<in> {tr_fromCashbookAccountId r, tr_toCashbookAccountId r}))) (tr_toCashbookAccountId r) = Some b"
      "\<not> ca_currentBalance b < tr_amount r"
    and s1: "createRow (ttx_entries tx) s (transfer_entry (gen 2) (gen 1) ?t r (ca_id a) (ce_entryNumber e0 @ ''-R'') ''transfer_reversal_out'' ''inflow''
             (ca_currentBalance a) (ca_currentBalance a + tr_amount r) (Some (ce_id e0))) = Some s1"
    and s2: "createRow (ttx_entries tx) s1 (transfer_entry (gen 3) (gen 1) ?t r (ca_id b) (ce_entryNumber f0 @ ''-R'') ''transfer_reversal_in'' ''outflow''
             (ca_currentBalance b) (ca_currentBalance b - tr_amount r) (Some (ce_id f0))) = Some s2"
    and s3: "updateRow (ttx_entries tx) s2 (ce_id e0) (\<lambda>e. e\<lparr>ce_reversedByEntryId := Some (gen 2)\<rparr>) = Some s3"
    and s4: "updateRow (ttx_entries tx) s3 (ce_id f0) (\<lambda>e. e\<lparr>ce_reversedByEntryId := Some (gen 3)\<rparr>) = Some s4"
    and s5: "updateRow (ttx_accounts tx) s4 (ca_id a) (set_balance (ca_currentBalance a + tr_amount r)) = Some s5"
    and s6: "updateRow (ttx_accounts tx) s5 (ca_id b) (set_balance (ca_currentBalance b - tr_amount r)) = Some s6"
    and s7: "updateRow (ttx_transfers tx) s6 (tr_id r) (set_transfer_status ''reversed'') = Some s'"
    using run by (auto simp: reverseInternalTransfer_def Let_def)
  let ?e = "transfer_entry (gen 2) (gen 1) ?t r (ca_id a) (ce_entryNumber e0 @ ''-R'') ''transfer_reversal_out'' ''inflow''
             (ca_currentBalance a) (ca_currentBalance a + tr_amount r) (Some (ce_id e0))"
  let ?f = "transfer_entry (gen 3) (gen 1) ?t r (ca_id b) (ce_entryNumber f0 @ ''-R'') ''transfer_reversal_in'' ''outflow''
             (ca_currentBalance b) (ca_currentBalance b - tr_amount r) (Some (ce_id f0))"
  have acc: "a \<in> set (tt_accounts (tables s))" "ca_id a = tr_fromCashbookAccountId r" "b \<in> set (tt_accounts (tables s))" "ca_id b = tr_toCashbookAccountId r"
    using map_of_SomeD [OF ab(1)] map_of_SomeD [OF ab(2)] by (auto simp: accounts.found_iff)
  have ok: "transfer_ok r"
    using documents_okD(5) [OF treasury_invD(2) [OF inv]] found_transfer [OF r] by blast
  then have other: "ca_id a \<noteq> ca_id b" and pos: "0 < tr_amount r" using acc by (simp_all add: transfer_ok_def)
  have a: "0 \<le> ca_currentBalance a" using treasury_invD(3) [OF inv] acc(1) unfolding cash_books_def by blast
  note c1 = entries.created [OF s1] and c2 = entries.created [OF s2] and c3 = entries.updated [OF s3] and c4 = entries.updated [OF s4]
    and c5 = accounts.updated [OF s5] and c6 = accounts.updated [OF s6] and c7 = transfers.updated [OF s7]
  show ?thesis
  proof (rule step_eq)
    show "treasury_step (tables s) ((tables s)\<lparr>tt_accounts := update_where (\<lambda>q. ca_id q = ca_id b) (set_balance (ca_currentBalance b - tr_amount r))
            (update_where (\<lambda>q. ca_id q = ca_id a) (set_balance (ca_currentBalance a + tr_amount r)) (tt_accounts (tables s))),
          tt_entries := update_where (\<lambda>e. ce_id e = ce_id f0) (\<lambda>e. e\<lparr>ce_reversedByEntryId := Some (gen 3)\<rparr>)
            (update_where (\<lambda>e. ce_id e = ce_id e0) (\<lambda>e. e\<lparr>ce_reversedByEntryId := Some (gen 2)\<rparr>) (tt_entries (tables s) @ [?e, ?f])),
          tt_transfers := update_where (\<lambda>d. tr_id d = tr_id r) (set_transfer_status ''reversed'') (tt_transfers (tables s))\<rparr>)"
      by (rule transferred [OF acc(1,3) other _ _ _ _ _ _ _ _ marked_trans [OF marked_update marked_update] transfer_marked [OF inv]])
        (use ab(3) a pos in \<open>simp_all add: transfer_entry_def signed_def\<close>)
  qed (rule try_tables.equality; simp add: c1 c2 c3 c4 c5 c6 c7)
qed

end

end
