(* ===== verification/Treasury_Runs.thy ===== *)
theory Treasury_Runs
  imports Treasury_Transfers
begin

text \<open>Runs of the treasury: what every reachable state satisfies, and what a posted settlement keeps.\<close>

context treasury_store
begin

theorem treasury_refines:
  assumes "run_treasury env tx gen actor cmd s = Inr (s', k)" "treasury_inv (tables s)"
  shows "treasury_step (tables s) (tables s')"
proof -
  have "treasury_step (tables s) (tables s')" if "postSettlement le w tx gen actor q s = Inr (s', k)" for le w q
    using settlement_posts [OF that assms(2)] by blast
  moreover have "treasury_step (tables s) (tables s')" if "reverseSettlement le tx gen actor q s = Inr (s', k)" for le q
    using settlement_unposts [OF that assms(2)] by blast
  ultimately show ?thesis using assms
    by (cases cmd) (auto intro: account_opened settlement_created settlement_revised settlement_acted application_claimed application_advanced
      application_posts application_unposts transfer_created transfer_revised transfer_acted transfer_posts transfer_unposts)
qed

end

text \<open>A command that fails rolls its transaction back, so only those that succeed are steps.\<close>

inductive treasury_reachable :: "treasury_env \<Rightarrow> 's treasury_tx \<Rightarrow> 's \<Rightarrow> 's \<Rightarrow> bool"
  for env :: treasury_env and tx :: "'s treasury_tx" and s0 :: 's where
  initially: "treasury_reachable env tx s0 s0"
| succeeds: "treasury_reachable env tx s0 s \<Longrightarrow> run_treasury env tx gen actor cmd s = Inr (s', k) \<Longrightarrow> treasury_reachable env tx s0 s'"

section \<open>What a final settlement keeps\<close>

text \<open>A settlement that was posted keeps its amount, its account and its allocations; obligations are neither made nor removed.\<close>

definition treasury_kept :: "try_tables \<Rightarrow> try_tables \<Rightarrow> bool" where
  "treasury_kept T T' \<longleftrightarrow> map ob_id (tt_payables T') = map ob_id (tt_payables T) \<and> map ob_id (tt_receivables T') = map ob_id (tt_receivables T)
     \<and> (\<forall>d\<in>set (tt_settlements T). \<not> not_final (st_status d) \<longrightarrow> (\<exists>d'\<in>set (tt_settlements T'). st_id d' = st_id d
          \<and> \<not> not_final (st_status d') \<and> cash_moved d' = cash_moved d \<and> st_cashbookAccountId d' = st_cashbookAccountId d
          \<and> allocations_in T' (st_id d) = allocations_in T (st_id d)))"

lemma treasury_kept_refl: "treasury_kept T T"
  by (auto simp: treasury_kept_def)

lemma treasury_kept_trans:
  assumes "treasury_kept T T1" "treasury_kept T1 T2"
  shows "treasury_kept T T2"
proof -
  have "\<exists>d2\<in>set (tt_settlements T2). st_id d2 = st_id d \<and> \<not> not_final (st_status d2) \<and> cash_moved d2 = cash_moved d
      \<and> st_cashbookAccountId d2 = st_cashbookAccountId d \<and> allocations_in T2 (st_id d) = allocations_in T (st_id d)"
    if d: "d \<in> set (tt_settlements T)" "\<not> not_final (st_status d)" for d
  proof -
    obtain d1 where 1: "d1 \<in> set (tt_settlements T1)" "st_id d1 = st_id d" "\<not> not_final (st_status d1)" "cash_moved d1 = cash_moved d"
      "st_cashbookAccountId d1 = st_cashbookAccountId d" "allocations_in T1 (st_id d) = allocations_in T (st_id d)"
      using assms(1) d unfolding treasury_kept_def by blast
    then obtain d2 where "d2 \<in> set (tt_settlements T2)" "st_id d2 = st_id d1" "\<not> not_final (st_status d2)" "cash_moved d2 = cash_moved d1"
      "st_cashbookAccountId d2 = st_cashbookAccountId d1" "allocations_in T2 (st_id d1) = allocations_in T1 (st_id d1)"
      using assms(2) unfolding treasury_kept_def by blast
    with 1 show ?thesis by (intro bexI [of _ d2]) simp_all
  qed
  then show ?thesis using assms by (simp add: treasury_kept_def)
qed

lemma owed_change_ids:
  assumes "owed_change d T T1"
  shows "map ob_id (tt_payables T1) = map ob_id (tt_payables T) \<and> map ob_id (tt_receivables T1) = map ob_id (tt_receivables T)"
  using assms by (auto simp: owed_change_def dest: owed_moved_ids)

lemma kept_unchanged:
  assumes "map ob_id (tt_payables T') = map ob_id (tt_payables T) \<and> map ob_id (tt_receivables T') = map ob_id (tt_receivables T)"
    and "tt_settlements T' = tt_settlements T" "tt_allocations T' = tt_allocations T"
  shows "treasury_kept T T'"
  using assms by (auto simp: treasury_kept_def allocations_in_def)

lemma kept_marked:
  assumes "map ob_id (tt_payables T') = map ob_id (tt_payables T) \<and> map ob_id (tt_receivables T') = map ob_id (tt_receivables T)"
    and "tt_settlements T' = update_where (\<lambda>r. st_id r = st_id d) f (tt_settlements T)" "tt_allocations T' = tt_allocations T"
    and "f = posted_settlement \<or> f = reversed_settlement"
  shows "treasury_kept T T'"
proof -
  have "\<exists>d'\<in>set (tt_settlements T'). st_id d' = st_id q \<and> \<not> not_final (st_status d') \<and> cash_moved d' = cash_moved q
      \<and> st_cashbookAccountId d' = st_cashbookAccountId q \<and> allocations_in T' (st_id q) = allocations_in T (st_id q)"
    if q: "q \<in> set (tt_settlements T)" "\<not> not_final (st_status q)" for q
  proof (rule bexI [of _ "if st_id q = st_id d then f q else q"])
    show "(if st_id q = st_id d then f q else q) \<in> set (tt_settlements T')" using q(1) by (auto simp: assms(2) set_update_where)
  qed (use q(2) assms(3,4) in \<open>auto simp: allocations_in_def posted_settlement_def reversed_settlement_def cash_moved_def not_final_def\<close>)
  then show ?thesis using assms(1) by (simp add: treasury_kept_def)
qed

lemma treasury_step_kept:
  assumes "treasury_step T T'"
  shows "treasury_kept T T'"
  using assms
proof induction
  case (drafted ds T as ls)
  show ?case unfolding treasury_kept_def using drafted(3,6) by (auto simp: allocations_in_def)
next
  case (posts d T acc v T1 e vs adv ls)
  show ?case by (rule kept_marked [where d = d and f = posted_settlement])
      (use owed_change_ids [OF posts(7)] owed_change_rest [OF posts(7)] in simp_all)
next
  case (unposts d T acc v T1 e es vs ls)
  show ?case by (rule kept_marked [where d = d and f = reversed_settlement])
      (use owed_change_ids [OF unposts(7)] owed_change_rest [OF unposts(7)] in simp_all)
next
  case (applies a T adv T1 status)
  show ?case by (rule kept_unchanged) (use owed_change_ids [OF applies(7)] owed_change_rest [OF applies(7)] in simp_all)
next
  case (unapplies a T adv T1 status)
  show ?case by (rule kept_unchanged) (use owed_change_ids [OF unapplies(5)] owed_change_rest [OF unapplies(5)] in simp_all)
qed (simp_all add: kept_unchanged)

context treasury_store
begin

lemma treasury_reachable_inv:
  assumes "treasury_reachable env tx s0 s" "treasury_inv (tables s0)"
  shows "treasury_inv (tables s)"
  using assms by induction (auto intro: treasury_step_inv treasury_refines)

lemma treasury_reachable_kept:
  assumes "treasury_reachable env tx s0 s" "treasury_inv (tables s0)"
  shows "treasury_kept (tables s0) (tables s)"
  using assms
proof induction
  case initially
  show ?case by (rule treasury_kept_refl)
next
  case (succeeds s gen actor cmd s' k)
  have "treasury_inv (tables s)" using treasury_reachable_inv [OF succeeds.hyps(1) succeeds.prems] .
  then show ?case using succeeds treasury_kept_trans treasury_step_kept treasury_refines by metis
qed

end

section \<open>Balances\<close>

definition cash_at :: "try_tables \<Rightarrow> string \<Rightarrow> int" where
  "cash_at T k = (case row_of ca_id (tt_accounts T) k of None \<Rightarrow> 0 | Some a \<Rightarrow> ca_currentBalance a)"

definition owed_at :: "try_tables \<Rightarrow> string \<Rightarrow> string \<Rightarrow> int" where
  "owed_at T ty k = (case row_of ob_id (obligations_of T ty) k of None \<Rightarrow> 0 | Some o1 \<Rightarrow> ob_outstandingAmount o1)"

lemma cash_at_moved:
  assumes "unclashed account_clash (tt_accounts T)" "acc \<in> set (tt_accounts T)" "ca_id acc = a"
    and "tt_accounts T' = update_where (\<lambda>r. ca_id r = ca_id acc) (set_balance (ca_currentBalance acc + x)) (tt_accounts T)"
  shows "cash_at T' k - cash_at T k = (if k = a then x else 0)"
proof -
  have c: "ca_id x = ca_id y \<Longrightarrow> account_clash x y" for x y by (simp add: account_clash_def)
  have "row_of ca_id (tt_accounts T) (ca_id acc) = Some acc" by (rule row_of_in [OF unclashed_keys_distinct [OF c assms(1)] assms(2)])
  then show ?thesis
    using assms(3) by (auto simp: cash_at_def assms(4) row_of_update set_balance_def)
qed

lemma row_of_moved:
  assumes "owed_moved delta os os'"
  shows "(case row_of ob_id os' k of None \<Rightarrow> 0 | Some o1 \<Rightarrow> ob_outstandingAmount o1) - (case row_of ob_id os k of None \<Rightarrow> 0 | Some o1 \<Rightarrow> ob_outstandingAmount o1)
    = (if k \<in> ob_id ` set os then delta k else 0)"
  using assms unfolding owed_moved_def
  by (induction rule: list_all2_induct) (auto simp: row_of_def obligation_moved_def)

lemma owed_at_moved:
  assumes "obligations_moved delta T T'" "ty \<in> {''payable'', ''receivable''}"
  shows "owed_at T' ty k - owed_at T ty k = (if k \<in> ob_id ` set (obligations_of T ty) then delta ty k else 0)"
  using assms row_of_moved [of "delta ''payable''" "tt_payables T" "tt_payables T'" k]
    row_of_moved [of "delta ''receivable''" "tt_receivables T" "tt_receivables T'" k]
  by (auto simp: owed_at_def obligations_moved_def obligations_of_def)

context treasury_store
begin

lemma settlement_reversal_opposite:
  assumes post: "postSettlement le workflow tx gen actor q s1 = Inr (s2, k)" and inv: "treasury_inv (tables s1)"
    and between: "treasury_reachable env tx s2 s3" and reverse: "reverseSettlement le' tx gen' actor' q' s3 = Inr (s4, k)"
    and ty: "ty \<in> {''payable'', ''receivable''}"
  shows "cash_at (tables s4) a - cash_at (tables s3) a = - (cash_at (tables s2) a - cash_at (tables s1) a)
    \<and> owed_at (tables s4) ty i - owed_at (tables s3) ty i = - (owed_at (tables s2) ty i - owed_at (tables s1) ty i)"
proof -
  obtain d acc where d: "k = st_id d" "treasury_step (tables s1) (tables s2)" "d \<in> set (tt_settlements (tables s1))"
    and moved: "obligations_moved (\<lambda>ty k. - allocated (allocations_in (tables s1) (st_id d)) ty k) (tables s1) (tables s2)"
    and acc: "acc \<in> set (tt_accounts (tables s1))" "ca_id acc = st_cashbookAccountId d" "tt_accounts (tables s2)
        = update_where (\<lambda>a. ca_id a = ca_id acc) (set_balance (ca_currentBalance acc + cash_moved d)) (tt_accounts (tables s1))"
    and ds: "tt_settlements (tables s2) = update_where (\<lambda>r. st_id r = st_id d) posted_settlement (tt_settlements (tables s1))"
      "tt_allocations (tables s2) = tt_allocations (tables s1)"
    using settlement_posts [OF post inv] by blast
  have inv2: "treasury_inv (tables s2)" by (rule treasury_step_inv [OF d(2) inv])
  have inv3: "treasury_inv (tables s3)" by (rule treasury_reachable_inv [OF between inv2])
  have posted: "posted_settlement d \<in> set (tt_settlements (tables s2))"
    using settlement_update [OF treasury_rows(2) [OF inv] d(3)] ds(1) by simp
  have kept: "treasury_kept (tables s2) (tables s3)" by (rule treasury_reachable_kept [OF between inv2])
  have "\<not> not_final (st_status (posted_settlement d))" by (simp add: not_final_def settlement_marks)
  then obtain d3 where d3: "d3 \<in> set (tt_settlements (tables s3))" "st_id d3 = k" "cash_moved d3 = cash_moved d"
      "st_cashbookAccountId d3 = st_cashbookAccountId d" "allocations_in (tables s3) k = allocations_in (tables s1) k"
    using kept posted d(1) ds(2) unfolding treasury_kept_def
    by (fastforce simp: settlement_marks cash_moved_def posted_settlement_def allocations_in_def)
  obtain e acc' where e: "k = st_id e" "e \<in> set (tt_settlements (tables s3))"
    and moved': "obligations_moved (allocated (allocations_in (tables s3) (st_id e))) (tables s3) (tables s4)"
    and acc': "acc' \<in> set (tt_accounts (tables s3))" "ca_id acc' = st_cashbookAccountId e" "tt_accounts (tables s4)
        = update_where (\<lambda>a. ca_id a = ca_id acc') (set_balance (ca_currentBalance acc' - cash_moved e)) (tt_accounts (tables s3))"
    using settlement_unposts [OF reverse inv3] by blast
  have "e = d3"
    using unclashed_row [of st_id settlement_clash, OF _ treasury_rows(2) [OF inv3] e(2) d3(1)] e(1) d3(2)
    by (simp add: settlement_clash_def)
  then have same: "cash_moved e = cash_moved d" "st_cashbookAccountId e = st_cashbookAccountId d" using d3 by simp_all
  have ids: "ob_id ` set (obligations_of (tables s3) ty) = ob_id ` set (obligations_of (tables s1) ty)"
  proof -
    have "map ob_id (obligations_of (tables s3) ty) = map ob_id (obligations_of (tables s1) ty)"
      using treasury_kept_trans [OF treasury_step_kept [OF d(2)] kept] by (simp add: treasury_kept_def obligations_of_def)
    then show ?thesis by (metis list.set_map)
  qed
  have "cash_at (tables s2) a - cash_at (tables s1) a = (if a = st_cashbookAccountId d then cash_moved d else 0)"
    by (rule cash_at_moved [OF treasury_rows(1) [OF inv] acc])
  moreover have "cash_at (tables s4) a - cash_at (tables s3) a = (if a = st_cashbookAccountId d then - cash_moved d else 0)"
    by (rule cash_at_moved [OF treasury_rows(1) [OF inv3] acc'(1)]) (use acc'(2,3) same in simp_all)
  ultimately show ?thesis
    using owed_at_moved [OF moved ty, of i] owed_at_moved [OF moved' ty, of i] d3(5) d(1) e(1) ids by simp
qed

end

section \<open>Disputed receivables\<close>

context treasury_store
begin

lemma disputed_receivable_blocked:
  assumes inv: "treasury_inv (tables s)" and o1: "o1 \<in> set (tt_receivables (tables s))" "ob_tenantId o1 = t" "ob_disputeStatus o1 \<noteq> ''none''"
    and a: "a \<in> set (sin_allocations input)" "ali_obligationType a = ''receivable''" "ali_obligationId a = ob_id o1"
  shows "Issue RECEIVABLE_NOT_SETTLEABLE 409 \<in> set (sep_issues (settlementPlan tx s t input))"
proof -
  define m where "m = obligation_entries (settlement_obligations tx s t (sin_allocations input))"
  have mem: "ob_id o1 \<in> ali_obligationId ` {x \<in> set (sin_allocations input). ali_obligationType x = ''receivable''}"
    by (rule image_eqI [of _ _ a]) (use a in simp_all)
  have "o1 \<in> set (snd (settlement_obligations tx s t (sin_allocations input)))"
    using o1(1,2) mem by (simp add: settlement_obligations_def Let_def receivables.found_iff)
  then have "ali_key a \<in> fst ` set m"
    unfolding m_def obligation_entries_def ali_key_def a(2,3) by force
  then obtain ty o2 where at: "map_of m (ali_key a) = Some (ty, o2)"
    by (metis map_of_eq_None_iff option.exhaust prod.collapse)
  have "ty = ''receivable'' \<and> ob_id o2 = ob_id o1 \<and> o2 \<in> set (obligations_of (tables s) ''receivable'')"
    using obligation_map_at [of m "tables s" "''receivable''" "ob_id o1" ty o2] plan_map [of s t input] at
    by (simp add: plan_obligations m_def ali_key_def a(2,3))
  moreover have "unclashed (\<lambda>a b. ob_id a = ob_id b) (tt_receivables (tables s))" using inv by (simp add: treasury_inv_def unique_rows_def)
  ultimately have "ty = ''receivable''" "o2 = o1" using unclashed_at [of "\<lambda>a b. ob_id a = ob_id b" _ o2 o1] o1(1)
    by (simp_all add: obligations_of_def)
  then have "Issue RECEIVABLE_NOT_SETTLEABLE 409 \<in> set (obligation_issues input m a)"
    using at o1(3) by (simp add: obligation_issues_def push_if_def)
  then show ?thesis using a(1) by (auto simp: settlementPlan_def Let_def m_def)
qed

end

end
