(* ===== verification/Treasury_Example.thy ===== *)
theory Treasury_Example
  imports Treasury_Runs
begin

text \<open>
  A run of the treasury on the database of lists: a supplier is paid fifty, of which forty settle a
  payable of sixty and ten are left as an advance; then the settlement is reversed.
\<close>

definition tx_ids :: "char \<Rightarrow> nat \<Rightarrow> string" where
  "tx_ids c n = c # replicate n CHR ''x''"

definition tx_actor :: auth_context where
  "tx_actor = \<lparr>ac_complete = True, ac_authenticated = True, ac_tenantId = ''t'', ac_userId = ''u'', ac_roleIds = [],
     ac_inactiveRoleIds = [], ac_permissionSources = [], ac_readWarehouseIds = [], ac_operateWarehouseIds = []\<rparr>"

definition tx_env :: treasury_env where
  "tx_env = \<lparr>tve_le = (\<lambda>_ _. True), tve_date = (\<lambda>t. Some t), tve_workflowEnabled = False\<rparr>"

definition tx_start :: try_tables where
  "tx_start = \<lparr>tt_accounts = [\<lparr>ca_id = ''a'', ca_tenantId = ''t'', ca_accountCode = ''A'', ca_name = ''n'', ca_accountType = ''bank'',
      ca_currency = ''EUR'', ca_openingBalance = 1000000, ca_currentBalance = 1000000, ca_status = ''active'', ca_version = 0\<rparr>],
    tt_entries = [], tt_settlements = [], tt_allocations = [],
    tt_payables = [\<lparr>ob_id = ''p'', ob_tenantId = ''t'', ob_originalAmount = 600000, ob_outstandingAmount = 600000,
      ob_approvedCreditAmount = 0, ob_currency = ''EUR'', ob_status = ''approved'', ob_disputeStatus = ''none'',
      ob_partnerId = Some ''s'', ob_partnerName = None, ob_version = 0\<rparr>],
    tt_receivables = [], tt_links = [], tt_advances = [], tt_applications = [], tt_transfers = [], tt_tenants = []\<rparr>"

definition tx_create :: settlement_request where
  "tx_create = \<lparr>stq_settlementNumber = ''S'', stq_direction = ''disbursement'', stq_counterpartyType = ''supplier'',
     stq_counterpartyId = ''s'', stq_cashbookAccountId = ''a'', stq_currency = ''EUR'', stq_amount = ''50'', stq_settlementDate = ''d'',
     stq_externalReference = [], stq_memo = [],
     stq_allocations = [\<lparr>alq_obligationType = ''payable'', alq_obligationId = ''p'', alq_payableObligationId = [],
       alq_receivableObligationId = [], alq_cashAppliedAmount = None, alq_discountAmount = [], alq_totalSettlementAmount = None,
       alq_amount = Some ''40'', alq_discountReason = []\<rparr>]\<rparr>"

definition tx_post :: treasury_request where
  "tx_post = \<lparr>trq_id = ''cx'', trq_expectedVersion = Some 0, trq_reason = []\<rparr>"

definition tx_reverse :: treasury_request where
  "tx_reverse = \<lparr>trq_id = ''cx'', trq_expectedVersion = Some 1, trq_reason = ''r''\<rparr>"

definition tx_document :: settlement where
  "tx_document = \<lparr>st_id = ''cx'', st_tenantId = ''t'', st_settlementNumber = ''S'', st_direction = ''disbursement'',
     st_counterpartyType = ''supplier'', st_counterpartyId = Some ''s'', st_counterpartyName = None, st_cashbookAccountId = ''a'',
     st_currency = ''EUR'', st_amount = 500000, st_cashAmount = 500000, st_discountAmount = 0, st_totalSettlementAmount = 400000,
     st_advanceCreatedAmount = 100000, st_settlementDate = ''d'', st_status = ''draft'', st_workflowStatus = ''draft'',
     st_postingStatus = ''unposted'', st_externalReference = None, st_memo = None, st_createdById = Some ''u'', st_version = 0\<rparr>"

definition tx_allocation :: settle_alloc where
  "tx_allocation = \<lparr>sa_id = ''cxx'', sa_tenantId = ''t'', sa_settlementId = ''cx'', sa_obligationType = ''payable'',
     sa_payableObligationId = Some ''p'', sa_receivableObligationId = None, sa_amount = 400000, sa_cashAppliedAmount = 400000,
     sa_discountAmount = 0, sa_totalSettlementAmount = 400000, sa_discountReason = None, sa_currency = ''EUR''\<rparr>"

definition tx_link :: document_link where
  "tx_link = \<lparr>dl_id = ''cxxx'', dl_tenantId = ''t'', dl_sourceType = ''SettlementDocument'', dl_sourceId = ''cx'',
     dl_targetType = ''PayableObligation'', dl_targetId = ''p'', dl_relationship = ''allocates'', dl_status = Some ''draft''\<rparr>"

definition tx_entry :: cash_entry where
  "tx_entry = \<lparr>ce_id = ''exx'', ce_tenantId = ''t'', ce_cashbookAccountId = ''a'', ce_settlementId = Some ''cx'',
     ce_internalTransferId = None, ce_entryNumber = ''CB-S'', ce_entryType = ''settlement'', ce_direction = ''outflow'', ce_amount = 500000,
     ce_currency = ''EUR'', ce_balanceBefore = 1000000, ce_balanceAfter = 500000, ce_postingBatchId = ''exxx'',
     ce_reversalOfEntryId = None, ce_reversedByEntryId = None\<rparr>"

definition tx_advance :: partner_advance where
  "tx_advance = \<lparr>pa_id = ''ex'', pa_tenantId = ''t'', pa_advanceNumber = ''ADV-S'', pa_advanceType = ''supplier_advance'',
     pa_supplierId = Some ''s'', pa_customerId = None, pa_currency = ''EUR'', pa_originalAmount = 100000, pa_appliedAmount = 0,
     pa_remainingAmount = 100000, pa_sourceSettlementId = ''cx'', pa_status = ''open'', pa_version = 0\<rparr>"

definition tx_created :: try_tables where
  "tx_created = tx_start\<lparr>tt_settlements := [tx_document], tt_allocations := [tx_allocation], tt_links := [tx_link]\<rparr>"

definition tx_posted :: try_tables where
  "tx_posted = tx_created\<lparr>tt_accounts := map (\<lambda>a. a\<lparr>ca_currentBalance := 500000, ca_version := 1\<rparr>) (tt_accounts tx_created),
     tt_entries := [tx_entry],
     tt_settlements := [tx_document\<lparr>st_status := ''posted'', st_workflowStatus := ''posted'', st_postingStatus := ''posted'', st_version := 1\<rparr>],
     tt_payables := map (\<lambda>o1. o1\<lparr>ob_outstandingAmount := 200000, ob_status := ''partially_settled'', ob_version := 1\<rparr>) (tt_payables tx_created),
     tt_links := [tx_link\<lparr>dl_status := Some ''posted''\<rparr>], tt_advances := [tx_advance]\<rparr>"

definition tx_reversed :: try_tables where
  "tx_reversed = tx_posted\<lparr>tt_accounts := map (\<lambda>a. a\<lparr>ca_currentBalance := 1000000, ca_version := 2\<rparr>) (tt_accounts tx_posted),
     tt_entries := [tx_entry\<lparr>ce_reversedByEntryId := Some ''fx''\<rparr>,
       tx_entry\<lparr>ce_id := ''fx'', ce_entryNumber := ''CB-S-R'', ce_entryType := ''reversal'', ce_direction := ''inflow'',
         ce_balanceBefore := 500000, ce_balanceAfter := 1000000, ce_postingBatchId := ''fxx'', ce_reversalOfEntryId := Some ''exx''\<rparr>],
     tt_settlements := [tx_document\<lparr>st_status := ''reversed'', st_workflowStatus := ''reversed'', st_postingStatus := ''reversed'', st_version := 2\<rparr>],
     tt_payables := map (\<lambda>o1. o1\<lparr>ob_outstandingAmount := 600000, ob_status := ''approved'', ob_version := 2\<rparr>) (tt_payables tx_posted),
     tt_links := [tx_link\<lparr>dl_status := Some ''reversed''\<rparr>], tt_advances := [tx_advance\<lparr>pa_status := ''reversed'', pa_version := 1\<rparr>]\<rparr>"

lemma tx_created_run: "run_treasury tx_env list_treasury (tx_ids CHR ''c'') tx_actor (Create_settlement tx_create) tx_start = Inr (tx_created, ''cx'')"
  by code_simp

lemma tx_posted_run: "run_treasury tx_env list_treasury (tx_ids CHR ''e'') tx_actor (Post_settlement tx_post) tx_created = Inr (tx_posted, ''cx'')"
  by code_simp

lemma tx_reversed_run: "run_treasury tx_env list_treasury (tx_ids CHR ''f'') tx_actor (Reverse_settlement tx_reverse) tx_posted = Inr (tx_reversed, ''cx'')"
  by code_simp

lemma tx_store: "treasury_store list_treasury (\<lambda>s. s)"
  unfolding treasury_store_def list_treasury_def
  by (simp add: list_model_table treasury_clash_defs)

lemma tx_start_inv: "treasury_inv tx_start"
  by code_simp

lemma tx_created_inv: "treasury_inv tx_created"
  by (rule treasury_step_inv [OF treasury_lists.treasury_refines [OF tx_created_run tx_start_inv] tx_start_inv])

lemma tx_posted_inv: "treasury_inv tx_posted"
  by (rule treasury_step_inv [OF treasury_lists.treasury_refines [OF tx_posted_run tx_created_inv] tx_created_inv])

lemma tx_posted_reachable: "treasury_reachable tx_env list_treasury tx_start tx_posted"
  by (rule treasury_reachable.succeeds [OF treasury_reachable.succeeds [OF treasury_reachable.initially tx_created_run] tx_posted_run])

section \<open>A disputed receivable\<close>

definition tx_receivable :: obligation where
  "tx_receivable = \<lparr>ob_id = ''r'', ob_tenantId = ''t'', ob_originalAmount = 600000, ob_outstandingAmount = 600000,
     ob_approvedCreditAmount = 0, ob_currency = ''EUR'', ob_status = ''open'', ob_disputeStatus = ''resolved'',
     ob_partnerId = Some ''c'', ob_partnerName = None, ob_version = 0\<rparr>"

definition tx_disputed :: try_tables where
  "tx_disputed = tx_start\<lparr>tt_receivables := [tx_receivable]\<rparr>"

definition tx_payment :: alloc_input where
  "tx_payment = \<lparr>ali_obligationType = ''receivable'', ali_obligationId = ''r'', ali_cashAppliedAmount = ''60'', ali_discountAmount = ''0'',
     ali_amount = ''60'', ali_discountReason = []\<rparr>"

definition tx_receipt :: settlement_input where
  "tx_receipt = \<lparr>sin_settlementNumber = ''R'', sin_direction = ''receipt'', sin_counterpartyType = ''customer'', sin_counterpartyId = ''c'',
     sin_cashbookAccountId = ''a'', sin_currency = ''EUR'', sin_amount = ''60'', sin_settlementDate = ''d'', sin_externalReference = [],
     sin_memo = [], sin_allocations = [tx_payment]\<rparr>"

lemma tx_disputed_inv: "treasury_inv tx_disputed"
  by code_simp

end
