(* ===== verification/Treasury_Properties.thy ===== *)
theory Treasury_Properties
  imports Treasury_Example
begin

text \<open>
  The properties of the treasury. Each holds of every database that keeps the laws of
  \<open>treasury_store\<close>, and is applied to the run of \<open>Treasury_Example\<close> on the database of lists.
\<close>

text \<open>C12: after any commands of the settlement, advance and transfer services, the balance of every cashbook account is its opening
  balance with all entries of the account added (inflows) and subtracted (outflows), and it is never negative.\<close>

theorem cashbook_is_its_entries:
  assumes "treasury_store tx tables" "treasury_inv (tables s0)" "treasury_reachable env tx s0 s" "a \<in> set (tt_accounts (tables s))"
  shows "ca_currentBalance a = ca_openingBalance a + entered (tt_entries (tables s)) (ca_id a) \<and> 0 \<le> ca_currentBalance a"
  using treasury_store.treasury_reachable_inv [OF assms(1,3,2)] assms(4) unfolding treasury_inv_def cash_books_def by blast

lemma cashbook_is_its_entries_witness:
  "list_all (\<lambda>a. ca_currentBalance a = ca_openingBalance a + entered (tt_entries tx_posted) (ca_id a) \<and> 0 \<le> ca_currentBalance a)
     (tt_accounts tx_posted) \<and> tt_accounts tx_posted \<noteq> []"
  using cashbook_is_its_entries [OF tx_store tx_start_inv tx_posted_reachable]
  by (simp add: list_all_iff tx_posted_def tx_created_def tx_start_def)

text \<open>C13: after any commands, what is open of a payable or receivable is its amount less the approved credit, less what posted
  settlements allocated to it, less what posted advance applications paid of it, and it is never negative; what remains of an advance
  is its amount less its posted applications, and it is never negative.\<close>

theorem obligations_are_what_is_unpaid:
  assumes "treasury_store tx tables" "treasury_inv (tables s0)" "treasury_reachable env tx s0 s"
    and "ty \<in> {''payable'', ''receivable''}" "o1 \<in> set (obligations_of (tables s) ty)"
  shows "ob_outstandingAmount o1 = ob_originalAmount o1 - ob_approvedCreditAmount o1
      - settled (tables s) ty (ob_id o1) - applied (tables s) ty (ob_id o1) \<and> 0 \<le> ob_outstandingAmount o1
    \<and> list_all (\<lambda>v. pa_remainingAmount v = pa_originalAmount v - drawn (tables s) (pa_id v) \<and> 0 \<le> pa_remainingAmount v) (tt_advances (tables s))"
proof -
  note inv = treasury_store.treasury_reachable_inv [OF assms(1,3,2)]
  have "owed_books (obligations_of (tables s) ty) (\<lambda>k. settled (tables s) ty k + applied (tables s) ty k)"
    using treasury_invD(5,6) [OF inv] assms(4) by (auto simp: obligations_of_def)
  then have "ob_outstandingAmount o1 = ob_originalAmount o1 - ob_approvedCreditAmount o1
      - (settled (tables s) ty (ob_id o1) + applied (tables s) ty (ob_id o1)) \<and> 0 \<le> ob_outstandingAmount o1"
    using assms(5) unfolding owed_books_def by blast
  moreover have "list_all (\<lambda>v. pa_remainingAmount v = pa_originalAmount v - drawn (tables s) (pa_id v) \<and> 0 \<le> pa_remainingAmount v)
      (tt_advances (tables s))"
    unfolding list_all_iff
  proof
    fix v assume "v \<in> set (tt_advances (tables s))"
    then have "pa_appliedAmount v = drawn (tables s) (pa_id v) \<and> pa_remainingAmount v = pa_originalAmount v - pa_appliedAmount v
        \<and> 0 \<le> pa_remainingAmount v"
      using treasury_invD(4) [OF inv] unfolding advance_books_def by blast
    then show "pa_remainingAmount v = pa_originalAmount v - drawn (tables s) (pa_id v) \<and> 0 \<le> pa_remainingAmount v" by linarith
  qed
  ultimately show ?thesis by linarith
qed

lemma obligations_are_what_is_unpaid_witness:
  "list_all (\<lambda>o1. ob_outstandingAmount o1 = ob_originalAmount o1 - ob_approvedCreditAmount o1
     - settled tx_posted ''payable'' (ob_id o1) - applied tx_posted ''payable'' (ob_id o1) \<and> ob_outstandingAmount o1 = 200000)
     (obligations_of tx_posted ''payable'')"
  using obligations_are_what_is_unpaid [OF tx_store tx_start_inv tx_posted_reachable, of "''payable''"]
  by (simp add: list_all_iff) (simp add: obligations_of_def tx_posted_def tx_created_def tx_start_def)

text \<open>C14: reversing a posted settlement, whatever commands succeeded in between, changes the balance of every cashbook account and
  what is open of every payable and receivable by the opposite of what posting it changed.\<close>

theorem settlement_reversal_restores:
  assumes "treasury_store tx tables" "treasury_inv (tables s1)" "treasury_reachable env tx s2 s3"
    and "run_treasury env tx gen actor (Post_settlement q) s1 = Inr (s2, k)"
    and "run_treasury env tx gen' actor' (Reverse_settlement q') s3 = Inr (s4, k)" "ty \<in> {''payable'', ''receivable''}"
  shows "cash_at (tables s4) a - cash_at (tables s3) a = cash_at (tables s1) a - cash_at (tables s2) a
    \<and> owed_at (tables s4) ty i - owed_at (tables s3) ty i = owed_at (tables s1) ty i - owed_at (tables s2) ty i"
  using treasury_store.settlement_reversal_opposite [OF assms(1) _ assms(2,3) _ assms(6), of _ _ gen actor q k] assms(4,5) by simp

lemma settlement_reversal_restores_witness:
  "cash_at tx_reversed ''a'' - cash_at tx_posted ''a'' = 500000 \<and> owed_at tx_reversed ''payable'' ''p'' - owed_at tx_posted ''payable'' ''p'' = 400000"
proof -
  have "cash_at tx_created ''a'' - cash_at tx_posted ''a'' = 500000" "owed_at tx_created ''payable'' ''p'' - owed_at tx_posted ''payable'' ''p'' = 400000"
    by code_simp+
  then show ?thesis
    using settlement_reversal_restores [OF tx_store tx_created_inv treasury_reachable.initially tx_posted_run tx_reversed_run,
        of "''payable''" "''a''" "''p''"] by simp
qed

text \<open>C15: every command of the services that succeeds is a step of the abstract machine of the treasury (or leaves the tables as
  they are where the machine allows that), in which a settlement is posted at most once, moves cash and obligations by its amounts, and
  no balance is overdrawn; the step keeps the books.\<close>

theorem treasury_refines_the_machine:
  assumes "treasury_store tx tables" "treasury_inv (tables s)" "run_treasury env tx gen actor cmd s = Inr (s', k)"
  shows "treasury_step (tables s) (tables s') \<and> treasury_inv (tables s')"
  using treasury_store.treasury_refines [OF assms(1,3,2)] treasury_step_inv assms(2) by blast

lemma treasury_refines_the_machine_witness: "treasury_step tx_created tx_posted \<and> treasury_inv tx_posted"
  by (rule treasury_refines_the_machine [OF tx_store tx_created_inv tx_posted_run])

text \<open>C40: a receivable whose dispute was resolved can never be paid with cash, but from an advance: whatever
  its status and amounts, the plan of every settlement that allocates to it has a blocking issue, while the
  advance rule accepts it exactly when something is outstanding and its status is open or partially settled.\<close>

theorem resolved_dispute_blocks_settlement:
  assumes store: "treasury_store tx tables" and inv: "treasury_inv (tables s)"
    and o1: "o1 \<in> set (tt_receivables (tables s))" "ob_tenantId o1 = tenantId" "ob_disputeStatus o1 = ''resolved''"
    and a: "a \<in> set (sin_allocations input)" "ali_obligationType a = ''receivable''" "ali_obligationId a = ob_id o1"
  shows "Issue RECEIVABLE_NOT_SETTLEABLE 409 \<in> set (sep_issues (settlementPlan tx s tenantId input))
    \<and> (assertAdvanceApplicationEligibility o1 False = Inr () \<longleftrightarrow>
        0 < ob_outstandingAmount o1 \<and> js_lower (js_trim (ob_status o1)) \<in> {''open'', ''partially_settled''})"
proof
  show "Issue RECEIVABLE_NOT_SETTLEABLE 409 \<in> set (sep_issues (settlementPlan tx s tenantId input))"
    using treasury_store.disputed_receivable_blocked [OF store inv o1(1,2) _ a] o1(3) by simp
  have "js_lower (js_trim (or_text ''resolved'' ''none'')) = ''resolved''" by code_simp
  then show "assertAdvanceApplicationEligibility o1 False = Inr () \<longleftrightarrow>
        0 < ob_outstandingAmount o1 \<and> js_lower (js_trim (ob_status o1)) \<in> {''open'', ''partially_settled''}"
    by (auto simp: assertAdvanceApplicationEligibility_def fail_if_def and_then_def Let_def o1(3))
qed

lemma resolved_dispute_blocks_settlement_witness:
  "Issue RECEIVABLE_NOT_SETTLEABLE 409 \<in> set (sep_issues (settlementPlan list_treasury tx_disputed ''t'' tx_receipt))
    \<and> assertAdvanceApplicationEligibility tx_receivable False = Inr ()"
proof -
  have "js_lower (js_trim (ob_status tx_receivable)) \<in> {''open'', ''partially_settled''}" by code_simp
  moreover have "0 < ob_outstandingAmount tx_receivable" by code_simp
  moreover have "tx_receivable \<in> set (tt_receivables tx_disputed)" "ob_tenantId tx_receivable = ''t''"
    "ob_disputeStatus tx_receivable = ''resolved''" "tx_payment \<in> set (sin_allocations tx_receipt)"
    "ali_obligationType tx_payment = ''receivable''" "ali_obligationId tx_payment = ob_id tx_receivable"
    by (simp_all add: tx_disputed_def tx_receivable_def tx_receipt_def tx_payment_def)
  ultimately show ?thesis
    using resolved_dispute_blocks_settlement [OF tx_store tx_disputed_inv, of tx_receivable "''t''" tx_payment tx_receipt] by blast
qed

end
